(* ===== verification/Anole_Prelude.thy ===== *)
theory Anole_Prelude
  imports Main "HOL-Library.Sublist"
begin

text \<open>
  Shared vocabulary of the development: fallible results as sums and their sequencing,
  saturating 64-bit arithmetic, tables as row lists with lookup, update and delete, and a
  generic locale for state machines. Every component theory imports this one.
\<close>

section \<open>Results\<close>

text \<open>
  A Rust \<open>Result<T, E>\<close> is the sum \<open>'e + 'a\<close>: \<open>Inl\<close> is \<open>Err\<close>, \<open>Inr\<close> is \<open>Ok\<close>.
  The \<open>?\<close> operator is \<open>res_bind\<close>: the first error leaves the function.
\<close>

definition res_bind :: "'e + 'a \<Rightarrow> ('a \<Rightarrow> 'e + 'b) \<Rightarrow> 'e + 'b" where
  "res_bind r f = (case r of Inl e \<Rightarrow> Inl e | Inr x \<Rightarrow> f x)"

lemma res_bind_simps [simp]:
  "res_bind (Inl e) f = Inl e"
  "res_bind (Inr x) f = f x"
  by (simp_all add: res_bind_def)

lemma res_bind_Inr_iff [simp]:
  "res_bind r f = Inr y \<longleftrightarrow> (\<exists>x. r = Inr x \<and> f x = Inr y)"
  by (cases r) auto

lemma res_bind_Inl_iff:
  "res_bind r f = Inl e \<longleftrightarrow> r = Inl e \<or> (\<exists>x. r = Inr x \<and> f x = Inl e)"
  by (cases r) auto

definition ensure :: "bool \<Rightarrow> 'e \<Rightarrow> 'e + unit" where
  "ensure b e = (if b then Inr () else Inl e)"

lemma ensure_iff [simp]:
  "ensure b e = Inr u \<longleftrightarrow> b"
  "ensure b e = Inl e' \<longleftrightarrow> \<not> b \<and> e' = e"
  by (auto simp: ensure_def)

definition ok_or :: "'e \<Rightarrow> 'a option \<Rightarrow> 'e + 'a" where
  "ok_or e x = (case x of None \<Rightarrow> Inl e | Some y \<Rightarrow> Inr y)"

lemma ok_or_iff [simp]:
  "ok_or e x = Inr y \<longleftrightarrow> x = Some y"
  "ok_or e x = Inl e' \<longleftrightarrow> x = None \<and> e' = e"
  by (auto simp: ok_or_def split: option.splits)

text \<open>
  \<open>iter().map(f).collect::<Result<Vec<_>, _>>()\<close>: all results in order, or the first error.
\<close>

fun res_mapM :: "('a \<Rightarrow> 'e + 'b) \<Rightarrow> 'a list \<Rightarrow> 'e + 'b list" where
  "res_mapM f [] = Inr []"
| "res_mapM f (x # xs) =
     res_bind (f x) (\<lambda>y. res_bind (res_mapM f xs) (\<lambda>ys. Inr (y # ys)))"

lemma res_mapM_Inr_iff:
  "res_mapM f xs = Inr ys \<longleftrightarrow> list_all2 (\<lambda>x y. f x = Inr y) xs ys"
  by (induction xs arbitrary: ys) (auto simp: list_all2_Cons1)

lemma res_mapM_all_Inr:
  "(\<And>x. x \<in> set xs \<Longrightarrow> f x = Inr (g x)) \<Longrightarrow> res_mapM f xs = Inr (map g xs)"
  by (induction xs) auto

text \<open>A loop whose body may leave the function: \<open>for x in xs { st = f(st, x)?; }\<close>.\<close>

fun res_fold :: "('s \<Rightarrow> 'a \<Rightarrow> 'e + 's) \<Rightarrow> 's \<Rightarrow> 'a list \<Rightarrow> 'e + 's" where
  "res_fold f s [] = Inr s"
| "res_fold f s (x # xs) = res_bind (f s x) (\<lambda>s'. res_fold f s' xs)"

lemma res_fold_invariant:
  assumes "res_fold f s xs = Inr t" and "P s"
    and "\<And>s x s'. P s \<Longrightarrow> x \<in> set xs \<Longrightarrow> f s x = Inr s' \<Longrightarrow> P s'"
  shows "P t"
  using assms
proof (induction xs arbitrary: s)
  case Nil
  then show ?case by simp
next
  case (Cons x xs)
  from Cons.prems(1) obtain s' where s': "f s x = Inr s'" "res_fold f s' xs = Inr t"
    by auto
  have "P s'" using Cons.prems(3) [OF Cons.prems(2) _ s'(1)] by simp
  then show ?case using Cons.IH [OF s'(2)] Cons.prems(3) by (meson list.set_intros(2))
qed

text \<open>
  A loop that refuses a key it has seen: \<open>g\<close> reads the keys kept in the loop state, \<open>k\<close> the key
  of an element, \<open>P\<close> is what the body checks of an element.
\<close>

lemma res_fold_fresh:
  assumes "res_fold f st xs = Inr st'"
    and step: "\<And>st x st'. f st x = Inr st' \<Longrightarrow> g st' = g st @ [k x] \<and> k x \<notin> set (g st) \<and> P x"
  shows "g st' = g st @ map k xs \<and> (distinct (g st) \<longrightarrow> distinct (g st')) \<and> (\<forall>x \<in> set xs. P x)"
  using assms(1)
proof (induction xs arbitrary: st)
  case (Cons x xs)
  then obtain t where t: "f st x = Inr t" and rest: "res_fold f t xs = Inr st'" by auto
  have fresh: "distinct (g st) \<longrightarrow> distinct (g t)" using step [OF t] by auto
  have keys: "g st' = g st @ map k (x # xs)" using step [OF t] Cons.IH [OF rest] by simp
  have "distinct (g st) \<longrightarrow> distinct (g st')" using fresh Cons.IH [OF rest] by blast
  with keys step [OF t] Cons.IH [OF rest] show ?case by (metis set_ConsD)
qed simp

lemma res_fold_append:
  "res_fold f s (xs @ ys) = res_bind (res_fold f s xs) (\<lambda>t. res_fold f t ys)"
proof (induction xs arbitrary: s)
  case (Cons x xs)
  then show ?case by (cases "f s x") auto
qed simp

section \<open>Machine integers\<close>

text \<open>
  Unsigned 64-bit quantities are naturals; the operations the code uses on them saturate.
  \<open>i64\<close> columns of the database are integers.
\<close>

definition u64_max :: nat where
  "u64_max = 18446744073709551615"

definition i64_max :: nat where
  "i64_max = 9223372036854775807"

definition sat_add :: "nat \<Rightarrow> nat \<Rightarrow> nat" where
  "sat_add a b = min (a + b) u64_max"

definition sat_sub :: "nat \<Rightarrow> nat \<Rightarrow> nat" where
  "sat_sub a b = a - b"

definition sat_mul :: "nat \<Rightarrow> nat \<Rightarrow> nat" where
  "sat_mul a b = min (a * b) u64_max"

definition clamp :: "nat \<Rightarrow> nat \<Rightarrow> nat \<Rightarrow> nat" where
  "clamp lo hi x = (if x < lo then lo else if hi < x then hi else x)"

lemma clamp_bounds: "lo \<le> hi \<Longrightarrow> lo \<le> clamp lo hi x \<and> clamp lo hi x \<le> hi"
  by (auto simp: clamp_def)

lemma sat_add_exact: "a + b \<le> u64_max \<Longrightarrow> sat_add a b = a + b"
  by (simp add: sat_add_def)

lemma sat_add_le_limit: "sat_add a b \<le> m \<Longrightarrow> m < u64_max \<Longrightarrow> a + b \<le> m"
  by (auto simp: sat_add_def)

section \<open>Tables\<close>

text \<open>
  A table is the list of its rows in insertion order. The lemmas below are the ones the
  components use for lookup, update and delete by key.
\<close>

definition lookup_row :: "('r \<Rightarrow> 'k) \<Rightarrow> 'k \<Rightarrow> 'r list \<Rightarrow> 'r option" where
  "lookup_row key k t = find (\<lambda>r. key r = k) t"

definition update_rows :: "('r \<Rightarrow> bool) \<Rightarrow> ('r \<Rightarrow> 'r) \<Rightarrow> 'r list \<Rightarrow> 'r list" where
  "update_rows p f t = map (\<lambda>r. if p r then f r else r) t"

definition delete_rows :: "('r \<Rightarrow> bool) \<Rightarrow> 'r list \<Rightarrow> 'r list" where
  "delete_rows p t = filter (\<lambda>r. \<not> p r) t"

lemma lookup_row_Nil [simp]: "lookup_row key k [] = None"
  by (simp add: lookup_row_def)

lemma lookup_row_Cons:
  "lookup_row key k (r # t) = (if key r = k then Some r else lookup_row key k t)"
  by (simp add: lookup_row_def)

lemma lookup_row_SomeD: "lookup_row key k t = Some r \<Longrightarrow> r \<in> set t \<and> key r = k"
  by (induction t) (auto simp: lookup_row_Cons split: if_splits)

lemma lookup_row_None_iff: "lookup_row key k t = None \<longleftrightarrow> k \<notin> key ` set t"
  by (induction t) (auto simp: lookup_row_Cons)

lemma lookup_row_append:
  "lookup_row key k (t @ u) =
     (case lookup_row key k t of None \<Rightarrow> lookup_row key k u | Some r \<Rightarrow> Some r)"
  by (induction t) (auto simp: lookup_row_Cons)

lemma lookup_row_distinct:
  "distinct (map key t) \<Longrightarrow> r \<in> set t \<Longrightarrow> lookup_row key (key r) t = Some r"
  by (induction t) (auto simp: lookup_row_Cons image_iff)

lemma update_rows_Nil [simp]: "update_rows p f [] = []"
  by (simp add: update_rows_def)

lemma map_update_rows:
  "(\<And>r. key (f r) = key r) \<Longrightarrow> map key (update_rows p f t) = map key t"
  by (simp add: update_rows_def)

lemma set_update_rows:
  "set (update_rows p f t) = (\<lambda>r. if p r then f r else r) ` set t"
  by (simp add: update_rows_def)

lemma lookup_update_rows:
  assumes "\<And>r. key (f r) = key r"
  shows "lookup_row key k (update_rows p f t) =
           map_option (\<lambda>r. if p r then f r else r) (lookup_row key k t)"
  using assms by (induction t) (auto simp: update_rows_def lookup_row_Cons)

lemma update_rows_id: "(\<And>r. r \<in> set t \<Longrightarrow> \<not> p r) \<Longrightarrow> update_rows p f t = t"
  by (induction t) (auto simp: update_rows_def)

lemma set_delete_rows [simp]: "set (delete_rows p t) = {r \<in> set t. \<not> p r}"
  by (auto simp: delete_rows_def)

lemma distinct_map_delete_rows:
  "distinct (map key t) \<Longrightarrow> distinct (map key (delete_rows p t))"
  by (simp add: delete_rows_def distinct_map_filter)

lemma lookup_delete_rows_same:
  "lookup_row key k (delete_rows (\<lambda>r. key r = k) t) = None"
  by (auto simp: lookup_row_None_iff)

lemma lookup_delete_rows_other:
  "(\<And>r. p r \<Longrightarrow> key r \<noteq> k) \<Longrightarrow> lookup_row key k (delete_rows p t) = lookup_row key k t"
  by (induction t) (auto simp: delete_rows_def lookup_row_Cons)

lemma distinct_map_inj_on:
  "distinct (map key t) \<Longrightarrow> r \<in> set t \<Longrightarrow> s \<in> set t \<Longrightarrow> key r = key s \<Longrightarrow> r = s"
  by (auto simp: distinct_map inj_on_def)

section \<open>State machines\<close>

text \<open>
  A component's operations as a step function on its state, the commands being values of a
  datatype: an invariant that the initial state satisfies and that every step keeps holds
  after every run.
\<close>

locale machine =
  fixes init :: "'s"
    and step :: "'s \<Rightarrow> 'c \<Rightarrow> 's"
    and inv :: "'s \<Rightarrow> bool"
  assumes inv_init: "inv init"
    and inv_step: "inv s \<Longrightarrow> inv (step s c)"
begin

lemma inv_from: "inv s \<Longrightarrow> inv (fold (\<lambda>c s. step s c) cs s)"
  by (induction cs arbitrary: s) (auto intro: inv_step)

lemma inv_run: "inv (fold (\<lambda>c s. step s c) cs init)"
  by (rule inv_from) (rule inv_init)

end

end
