(* ===== verification/Rust_Strings.thy ===== *)
theory Rust_Strings
  imports Anole_Prelude
begin

text \<open>
  The operations of Rust's \<open>str\<close> that the sources use. A Rust string is its UTF-8 byte
  sequence: a HOL \<open>char\<close> is a byte, so \<open>length\<close> is \<open>str::len\<close>, and the operations that
  work on characters (\<open>chars().count()\<close>, \<open>trim\<close>, \<open>is_control\<close>) are written on the
  byte sequences of the characters concerned.
\<close>

section \<open>Bytes\<close>

definition byte_of :: "char \<Rightarrow> nat" where
  "byte_of c = of_char c"

definition is_ascii_upper :: "char \<Rightarrow> bool" where
  "is_ascii_upper c = (65 \<le> byte_of c \<and> byte_of c \<le> 90)"

definition is_ascii_lower :: "char \<Rightarrow> bool" where
  "is_ascii_lower c = (97 \<le> byte_of c \<and> byte_of c \<le> 122)"

definition is_ascii_digit :: "char \<Rightarrow> bool" where
  "is_ascii_digit c = (48 \<le> byte_of c \<and> byte_of c \<le> 57)"

definition is_ascii_alphanumeric :: "char \<Rightarrow> bool" where
  "is_ascii_alphanumeric c = (is_ascii_upper c \<or> is_ascii_lower c \<or> is_ascii_digit c)"

definition to_lower_byte :: "char \<Rightarrow> char" where
  "to_lower_byte c = (if is_ascii_upper c then char_of (byte_of c + 32) else c)"

definition to_ascii_lowercase :: "string \<Rightarrow> string" where
  "to_ascii_lowercase s = map to_lower_byte s"

lemma byte_of_char_of: "n < 256 \<Longrightarrow> byte_of (char_of n) = n"
  by (simp add: byte_of_def)

lemma to_lower_byte_not_upper: "\<not> is_ascii_upper (to_lower_byte c)"
  by (auto simp: to_lower_byte_def is_ascii_upper_def byte_of_char_of)

lemma to_lower_byte_id: "\<not> is_ascii_upper c \<Longrightarrow> to_lower_byte c = c"
  by (simp add: to_lower_byte_def)

lemma to_lower_byte_idem [simp]: "to_lower_byte (to_lower_byte c) = to_lower_byte c"
  by (rule to_lower_byte_id) (rule to_lower_byte_not_upper)

lemma to_ascii_lowercase_idem [simp]:
  "to_ascii_lowercase (to_ascii_lowercase s) = to_ascii_lowercase s"
  by (simp add: to_ascii_lowercase_def)

lemma length_to_ascii_lowercase [simp]: "length (to_ascii_lowercase s) = length s"
  by (simp add: to_ascii_lowercase_def)

section \<open>Characters of a UTF-8 sequence\<close>

text \<open>A continuation byte (\<open>10xxxxxx\<close>) starts no character.\<close>

definition is_continuation :: "char \<Rightarrow> bool" where
  "is_continuation c = (128 \<le> byte_of c \<and> byte_of c < 192)"

definition chars_count :: "string \<Rightarrow> nat" where
  "chars_count s = length (filter (\<lambda>c. \<not> is_continuation c) s)"

lemma chars_count_le_length: "chars_count s \<le> length s"
  by (simp add: chars_count_def)

text \<open>
  \<open>char::is_control\<close>: the ASCII controls, and U+0080 to U+009F, which are the byte \<open>C2\<close>
  followed by \<open>80\<close> to \<open>9F\<close>.
\<close>

fun has_control :: "string \<Rightarrow> bool" where
  "has_control [] = False"
| "has_control [c] = (byte_of c < 32 \<or> byte_of c = 127)"
| "has_control (c # d # s) =
     (byte_of c < 32 \<or> byte_of c = 127
      \<or> (byte_of c = 194 \<and> 128 \<le> byte_of d \<and> byte_of d \<le> 159)
      \<or> has_control (d # s))"

text \<open>The characters with the Unicode property White\_Space, as byte sequences.\<close>

definition white_space :: "string list" where
  "white_space =
     [[CHR 0x09], [CHR 0x0A], [CHR 0x0B], [CHR 0x0C], [CHR 0x0D], [CHR 0x20],
      [CHR 0xC2, CHR 0x85], [CHR 0xC2, CHR 0xA0], [CHR 0xE1, CHR 0x9A, CHR 0x80],
      [CHR 0xE2, CHR 0x80, CHR 0x80], [CHR 0xE2, CHR 0x80, CHR 0x81],
      [CHR 0xE2, CHR 0x80, CHR 0x82], [CHR 0xE2, CHR 0x80, CHR 0x83],
      [CHR 0xE2, CHR 0x80, CHR 0x84], [CHR 0xE2, CHR 0x80, CHR 0x85],
      [CHR 0xE2, CHR 0x80, CHR 0x86], [CHR 0xE2, CHR 0x80, CHR 0x87],
      [CHR 0xE2, CHR 0x80, CHR 0x88], [CHR 0xE2, CHR 0x80, CHR 0x89],
      [CHR 0xE2, CHR 0x80, CHR 0x8A], [CHR 0xE2, CHR 0x80, CHR 0xA8],
      [CHR 0xE2, CHR 0x80, CHR 0xA9], [CHR 0xE2, CHR 0x80, CHR 0xAF],
      [CHR 0xE2, CHR 0x81, CHR 0x9F], [CHR 0xE3, CHR 0x80, CHR 0x80]]"

text \<open>The length of the white-space character a string starts with, zero for none.\<close>

fun strip_len :: "string list \<Rightarrow> string \<Rightarrow> nat" where
  "strip_len [] s = 0"
| "strip_len (w # ws) s = (if prefix w s then length w else strip_len ws s)"

function trim_left :: "string list \<Rightarrow> string \<Rightarrow> string" where
  "trim_left ws s =
     (if s \<noteq> [] \<and> strip_len ws s \<noteq> 0 then trim_left ws (drop (strip_len ws s) s) else s)"
  by pat_completeness auto
termination
  by (relation "measure (\<lambda>(ws, s). length s)") auto

declare trim_left.simps [simp del]

lemma trim_left_stop: "trim_left ws s = [] \<or> strip_len ws (trim_left ws s) = 0"
proof (induction ws s rule: trim_left.induct)
  case (1 ws s)
  then show ?case
    by (cases "s \<noteq> [] \<and> strip_len ws s \<noteq> 0") (auto simp: trim_left.simps [of ws s])
qed

lemma trim_left_idem: "trim_left ws (trim_left ws s) = trim_left ws s"
  using trim_left_stop [of ws s] by (auto simp: trim_left.simps [of ws "trim_left ws s"])

lemma trim_left_suffix: "suffix (trim_left ws s) s"
proof (induction ws s rule: trim_left.induct)
  case (1 ws s)
  show ?case
  proof (cases "s \<noteq> [] \<and> strip_len ws s \<noteq> 0")
    case True
    with "1.IH" have "suffix (trim_left ws s) (drop (strip_len ws s) s)"
      by (simp add: trim_left.simps [of ws s])
    then show ?thesis by (rule suffix_order.trans) (rule suffix_drop)
  next
    case False
    then show ?thesis by (auto simp: trim_left.simps [of ws s])
  qed
qed

definition trim_start :: "string \<Rightarrow> string" where
  "trim_start s = trim_left white_space s"

definition trim_end :: "string \<Rightarrow> string" where
  "trim_end s = rev (trim_left (map rev white_space) (rev s))"

definition trim :: "string \<Rightarrow> string" where
  "trim s = trim_end (trim_start s)"

definition trim_dots :: "string \<Rightarrow> string" where
  "trim_dots s = dropWhile (\<lambda>c. c = CHR ''.'') s"

section \<open>Searching and splitting\<close>

definition starts_with :: "string \<Rightarrow> string \<Rightarrow> bool" where
  "starts_with s p = prefix p s"

definition ends_with :: "string \<Rightarrow> string \<Rightarrow> bool" where
  "ends_with s p = suffix p s"

fun contains_str :: "string \<Rightarrow> string \<Rightarrow> bool" where
  "contains_str [] p = (p = [])"
| "contains_str (c # s) p = (prefix p (c # s) \<or> contains_str s p)"

lemma contains_str_sublist: "contains_str s p \<longleftrightarrow> sublist p s"
  by (induction s p rule: contains_str.induct) (auto simp: sublist_Cons_right)

text \<open>\<open>str::split\<close> on a set of separator bytes: always at least one part.\<close>

fun split_on :: "(char \<Rightarrow> bool) \<Rightarrow> string \<Rightarrow> string list" where
  "split_on sep [] = [[]]"
| "split_on sep (c # s) =
     (if sep c then [] # split_on sep s
      else (case split_on sep s of [] \<Rightarrow> [[c]] | p # ps \<Rightarrow> (c # p) # ps))"

lemma split_on_not_Nil: "split_on sep s \<noteq> []"
  by (induction s) (auto split: list.splits)

text \<open>\<open>str::parse::<u64>\<close>: an optional plus sign, at least one digit, no overflow.\<close>

fun digits_value :: "nat \<Rightarrow> string \<Rightarrow> nat option" where
  "digits_value acc [] = Some acc"
| "digits_value acc (c # s) =
     (if is_ascii_digit c then digits_value (acc * 10 + (byte_of c - 48)) s else None)"

definition parse_u64 :: "string \<Rightarrow> nat option" where
  "parse_u64 s =
     (let d = (case s of [] \<Rightarrow> [] | c # r \<Rightarrow> if c = CHR ''+'' then r else s)
      in if d = [] then None
         else case digits_value 0 d of
                None \<Rightarrow> None
              | Some n \<Rightarrow> if n \<le> u64_max then Some n else None)"

end
