(* ===== verification/Domain.thy ===== *)
theory Domain
  imports Complex_Main Rust_Strings
begin

text \<open>
  The data of \<open>crates/core/src/domain.rs\<close> and \<open>crates/core/src/error.rs\<close> that the other
  components compute with: identifiers, error codes and errors, job states with their
  transition table, and validation statuses with their ranking.
\<close>

section \<open>Identifiers and errors\<close>

text \<open>
  A \<open>Uuid\<close> is a 128-bit number; its hyphenated text is ordered like the number, so
  \<open>ORDER BY id\<close> is the order of naturals.
\<close>

type_synonym uuid = nat

datatype error_code =
    InputInvalid | InputChanged | Unsupported | EngineMissing | EngineIncompatible
  | PolicyBlocked | ResourceExhausted | ExecutionFailed | Cancelled_code | ValidationFailed
  | OutputConflict | StorageFailed | Internal

fun exit_code :: "error_code \<Rightarrow> nat" where
  "exit_code InputInvalid = 2"
| "exit_code InputChanged = 3"
| "exit_code Unsupported = 3"
| "exit_code EngineMissing = 4"
| "exit_code EngineIncompatible = 4"
| "exit_code ExecutionFailed = 5"
| "exit_code ValidationFailed = 6"
| "exit_code PolicyBlocked = 8"
| "exit_code ResourceExhausted = 8"
| "exit_code OutputConflict = 8"
| "exit_code Cancelled_code = 130"
| "exit_code StorageFailed = 1"
| "exit_code Internal = 1"

datatype stage = Inspect | Plan_stage | Execute | Validate | Commit | Store | Doctor

text \<open>
  \<open>AnoleError\<close>. The \<open>user_action\<close> and \<open>diagnostic\<close> texts are left out: no code branches on
  them. \<open>message\<close> is the literal text, with \<open>{}\<close> where the code interpolates a value.
\<close>

record anole_error =
  code :: error_code
  stage_of :: stage
  retryable :: bool
  message :: string

definition anole_error_new :: "error_code \<Rightarrow> stage \<Rightarrow> string \<Rightarrow> anole_error" where
  "anole_error_new c s m = \<lparr>code = c, stage_of = s, retryable = False, message = m\<rparr>"

definition set_retryable :: "bool \<Rightarrow> anole_error \<Rightarrow> anole_error" where
  "set_retryable b e = e\<lparr>retryable := b\<rparr>"

lemma anole_error_new_fields [simp]:
  "code (anole_error_new c s m) = c"
  "stage_of (anole_error_new c s m) = s"
  "retryable (anole_error_new c s m) = False"
  "message (anole_error_new c s m) = m"
  by (simp_all add: anole_error_new_def)

lemma set_retryable_fields [simp]:
  "code (set_retryable b e) = code e"
  "retryable (set_retryable b e) = b"
  by (simp_all add: set_retryable_def)

section \<open>Job states\<close>

datatype job_state =
    Queued | Inspecting | Planned | Blocked | Running | Validating
  | Completed | Warning | Failed | Cancelled | Interrupted

fun can_transition_to :: "job_state \<Rightarrow> job_state \<Rightarrow> bool" where
  "can_transition_to Inspecting next = (next \<in> {Planned, Blocked, Failed, Cancelled})"
| "can_transition_to Planned next = (next \<in> {Queued, Running, Blocked, Cancelled})"
| "can_transition_to Queued next = (next \<in> {Inspecting, Blocked, Cancelled})"
| "can_transition_to Blocked next = (next \<in> {Queued, Cancelled})"
| "can_transition_to Interrupted next = (next \<in> {Queued, Cancelled})"
| "can_transition_to Running next = (next \<in> {Validating, Failed, Cancelled, Interrupted})"
| "can_transition_to Validating next =
     (next \<in> {Completed, Warning, Failed, Cancelled, Interrupted})"
| "can_transition_to Failed next = (next = Queued)"
| "can_transition_to Cancelled next = (next = Queued)"
| "can_transition_to Completed next = False"
| "can_transition_to Warning next = False"

section \<open>Validation status\<close>

datatype validation_status = Pass | Warn | Fail | Unknown

fun status_rank :: "validation_status \<Rightarrow> nat" where
  "status_rank Pass = 0"
| "status_rank Warn = 1"
| "status_rank Unknown = 2"
| "status_rank Fail = 3"

definition worst :: "validation_status \<Rightarrow> validation_status \<Rightarrow> validation_status" where
  "worst a b = (if status_rank a \<ge> status_rank b then a else b)"

section \<open>Engines\<close>

text \<open>\<open>crates/engine-sdk/src/lib.rs\<close>: the identity of an engine and what a step does with it.\<close>

datatype certification = Certified | Experimental | Unverified

datatype loss_class = NoLoss | ContainerOnly | Lossless | Lossy | UnknownLoss

datatype operation =
  OpInspect | Remux | Transcode | Transform | Render | Serialize | MetadataClean

record engine_identity =
  engine_id :: string
  engine_version :: string
  binary_path :: string
  binary_sha256 :: string
  manifest_sha256 :: "string option"
  build_configuration :: "string option"
  engine_certification :: certification

section \<open>Values, probes, requests and plans\<close>

text \<open>
  \<open>serde_json::Value\<close>. A number is an integer or the exact value of a finite \<open>f64\<close>; an
  object is a \<open>BTreeMap\<close> with its keys, here an association list.
\<close>

datatype json =
    JNull | JBool bool | JInt int | JFloat rat | JStr string
  | JArr "json list" | JObj "(string \<times> json) list"

fun as_bool :: "json \<Rightarrow> bool option" where
  "as_bool (JBool b) = Some b"
| "as_bool _ = None"

fun as_str :: "json \<Rightarrow> string option" where
  "as_str (JStr s) = Some s"
| "as_str _ = None"

fun as_u64 :: "json \<Rightarrow> nat option" where
  "as_u64 (JInt i) = (if 0 \<le> i \<and> i \<le> int u64_max then Some (nat i) else None)"
| "as_u64 _ = None"

fun as_array :: "json \<Rightarrow> json list option" where
  "as_array (JArr xs) = Some xs"
| "as_array _ = None"

datatype format_kind = Image | Video | Audio | Document | Pdf | Data | Archive | UnknownFormat

datatype stream_kind =
  VideoS | AudioS | SubtitleS | AttachmentS | DataS | PageS | RecordSetS | UnknownS

datatype metadata_classification = Public | Private | Secret | UnknownMeta

record artifact_identity =
  display_path :: string
  canonical_path :: string
  size_bytes :: nat
  modified_unix_ms :: int
  fast_fingerprint :: string
  full_blake3 :: "string option"

record format_descriptor =
  format_id :: string
  kind_of :: format_kind
  mime_type :: "string option"
  container :: "string option"
  extension_matches :: "bool option"
  confidence :: rat

record stream_probe =
  stream_index :: nat
  stream_kind :: stream_kind
  codec :: "string option"
  language :: "string option"
  stream_duration_seconds :: "rat option"
  stream_width :: "nat option"
  stream_height :: "nat option"
  frame_rate :: "string option"
  sample_rate :: "nat option"
  channels :: "nat option"
  properties :: "string \<rightharpoonup> json"

record metadata_entry =
  meta_value :: json
  classification :: metadata_classification

record diagnostic_message =
  diag_code :: string
  severity :: string
  diag_message :: string

record probe_evidence =
  evidence_engine_id :: string
  evidence_engine_version :: string
  evidence_binary_sha256 :: "string option"

text \<open>\<open>metadata\<close> is a \<open>BTreeMap\<close>: the association list of its entries in key order.\<close>

record probe =
  probe_schema_version :: nat
  artifact :: artifact_identity
  format :: format_descriptor
  streams :: "stream_probe list"
  metadata :: "(string \<times> metadata_entry) list"
  probe_warnings :: "diagnostic_message list"
  evidence :: probe_evidence
  probe_duration_seconds :: "rat option"
  bit_rate :: "nat option"

record plan_request =
  req_target_format :: string
  req_output_path :: "string option"
  preserve_all_streams :: bool
  audio_stream_index :: "nat option"
  start_millis :: "nat option"
  duration_millis :: "nat option"
  req_width :: "nat option"
  req_quality :: "nat option"
  req_dpi :: "nat option"
  req_color_mode :: "string option"
  frames_per_second :: "nat option"
  loop_count :: "nat option"
  video_crf :: "nat option"
  video_preset :: "string option"
  audio_bitrate_kbps :: "nat option"
  req_operation :: "string option"
  req_inputs :: "string list"
  page_range :: "string option"
  allow_lossy_data :: bool
  rotate_angle :: "nat option"
  password :: "string option"
  ocr_language :: "string option"
  watermark_text :: "string option"
  watermark_angle :: "int option"
  target_size_bytes :: "nat option"
  metadata_title :: "string option"
  metadata_author :: "string option"

datatype network_policy = Deny | ExplicitAllow

record change_set =
  preserved :: "string list"
  changed :: "string list"
  dropped :: "string list"
  unknown :: "string list"

text \<open>\<open>arguments\<close> is a \<open>BTreeMap<String, String>\<close>: an association list with distinct keys.\<close>

record plan_step =
  step_id :: string
  capability_id :: string
  engine :: engine_identity
  operation_of :: operation
  loss :: loss_class
  arguments :: "(string \<times> string) list"
  estimated_temporary_bytes :: "nat option"

record plan =
  plan_schema_version :: nat
  plan_id :: uuid
  plan_hash :: string
  input_fingerprint :: string
  target_format :: string
  constraints :: "(string \<times> json) list"
  steps :: "plan_step list"
  changes :: change_set
  validators :: "string list"
  network_policy :: network_policy
  output_path :: "string option"
  estimated_output_bytes :: "nat option"

section \<open>Validation reports\<close>

record validation_check =
  check_code :: string
  check_status :: validation_status
  required :: bool
  expected :: json
  observed :: json
  check_evidence :: string
  check_message :: string

record artifact_summary =
  sum_display_path :: "string option"
  sum_format_id :: string
  sum_size_bytes :: nat
  sum_fast_fingerprint :: string
  sum_full_blake3 :: "string option"

record report_redaction =
  paths_redacted :: bool
  metadata_values_redacted :: bool

record validation_report =
  report_schema_version :: nat
  report_id :: uuid
  report_job_id :: uuid
  report_plan_hash :: string
  report_status :: validation_status
  report_input :: artifact_summary
  report_output :: artifact_summary
  report_engines :: "engine_identity list"
  checks :: "validation_check list"
  intentional_changes :: "string list"
  redaction :: report_redaction

definition schema_version :: nat where
  "schema_version = 1"

section \<open>The status ranking is a chain with worst-of as its join\<close>

locale worst_of =
  fixes rank :: "'s \<Rightarrow> nat"
    and join :: "'s \<Rightarrow> 's \<Rightarrow> 's"
  assumes rank_inj: "rank a = rank b \<Longrightarrow> a = b"
    and rank_join: "rank (join a b) = max (rank a) (rank b)"
    and join_select: "join a b = a \<or> join a b = b"
begin

lemma join_assoc: "join (join a b) c = join a (join b c)"
  by (rule rank_inj) (simp add: rank_join)

lemma join_commute: "join a b = join b a"
  by (rule rank_inj) (simp add: rank_join max.commute)

lemma join_idem: "join a a = a"
  using join_select [of a a] by simp

lemma rank_fold: "rank (foldl join a xs) = Max (rank ` insert a (set xs))"
proof (induction xs arbitrary: a)
  case (Cons x xs)
  have "rank (foldl join (join a x) xs) = Max (insert (max (rank a) (rank x)) (rank ` set xs))"
    using Cons.IH by (simp add: rank_join)
  also have "\<dots> = Max (insert (rank a) (insert (rank x) (rank ` set xs)))"
    by (cases "set xs = {}") (simp_all add: max.assoc)
  finally show ?case by (simp add: insert_commute)
qed simp

lemma fold_upper: "x \<in> insert a (set xs) \<Longrightarrow> rank x \<le> rank (foldl join a xs)"
  unfolding rank_fold by (rule Max_ge) auto

lemma fold_member: "foldl join a xs \<in> insert a (set xs)"
proof -
  have "rank (foldl join a xs) \<in> rank ` insert a (set xs)"
    unfolding rank_fold by (rule Max_in) auto
  then obtain y where "y \<in> insert a (set xs)" "rank (foldl join a xs) = rank y" by auto
  then show ?thesis using rank_inj by metis
qed

end

interpretation ws: worst_of status_rank worst
proof unfold_locales
  show "a = b" if "status_rank a = status_rank b" for a b
    using that by (cases a; cases b) auto
  show "status_rank (worst a b) = max (status_rank a) (status_rank b)" for a b
    by (simp add: worst_def max_def)
  show "worst a b = a \<or> worst a b = b" for a b
    by (simp add: worst_def)
qed

end
