(* ===== verification/Scheduler.thy ===== *)
theory Scheduler
  imports Domain
begin

text \<open>
  \<open>crates/core/src/scheduler.rs\<close>: admission of work under a policy of bounded processes,
  bounded memory, exclusive engines and per-class limits, and the classification of a plan
  into a resource request. The invariant says that the accounting fields are what the active
  requests add up to and that no limit of the policy is exceeded.
\<close>

section \<open>Work classes\<close>

datatype work_class = Lightweight | IoHeavy | CpuHeavy | MemoryHeavy | Gpu | SerialEngine

fun class_rank :: "work_class \<Rightarrow> nat" where
  "class_rank Lightweight = 0"
| "class_rank IoHeavy = 1"
| "class_rank CpuHeavy = 2"
| "class_rank MemoryHeavy = 3"
| "class_rank Gpu = 4"
| "class_rank SerialEngine = 5"

lemma class_rank_inj [simp]: "class_rank a = class_rank b \<longleftrightarrow> a = b"
  by (cases a; cases b) auto

text \<open>\<open>impl Ord for WorkClass\<close>: the order of the ranks.\<close>

instantiation work_class :: linorder
begin

definition less_eq_work_class :: "work_class \<Rightarrow> work_class \<Rightarrow> bool" where
  "a \<le> b \<longleftrightarrow> class_rank a \<le> class_rank b"

definition less_work_class :: "work_class \<Rightarrow> work_class \<Rightarrow> bool" where
  "a < b \<longleftrightarrow> class_rank a < class_rank b"

instance
  by standard (auto simp: less_eq_work_class_def less_work_class_def)

end

section \<open>Requests, policies and blockers\<close>

definition mib :: nat where
  "mib = 1024 * 1024"

datatype blocker =
  AlreadyActive | ProcessLimit | MemoryBudget | ExclusiveEngine | ClassLimit

record resource_request =
  rr_job_id :: uuid
  rr_class :: work_class
  memory_bytes :: nat
  exclusivity_key :: "string option"

record scheduler_policy =
  max_processes :: nat
  max_cpu_heavy :: nat
  max_io_heavy :: nat
  max_gpu :: nat
  memory_budget_bytes :: nat

text \<open>\<open>logical_cpus\<close> is \<open>std::thread::available_parallelism\<close>, one when unknown.\<close>

definition bounded :: "nat \<Rightarrow> nat \<Rightarrow> scheduler_policy" where
  "bounded logical_cpus requested_processes =
     (let mp = clamp 1 16 requested_processes
      in \<lparr>max_processes = mp,
          max_cpu_heavy = clamp 1 mp ((logical_cpus + 1) div 2),
          max_io_heavy = min 2 mp,
          max_gpu = 1,
          memory_budget_bytes = 2 * 1024 * mib\<rparr>)"

section \<open>The scheduler\<close>

text \<open>
  \<open>active\<close> is a \<open>BTreeMap\<close> from job identifiers to requests: the list of its values, each
  under its own \<open>rr_job_id\<close>.
\<close>

record resource_scheduler =
  policy :: scheduler_policy
  active :: "resource_request list"
  exclusivity_keys :: "string set"
  reserved_memory_bytes :: nat

definition new_scheduler :: "scheduler_policy \<Rightarrow> resource_scheduler" where
  "new_scheduler p =
     \<lparr>policy = p, active = [], exclusivity_keys = {}, reserved_memory_bytes = 0\<rparr>"

definition active_count :: "resource_scheduler \<Rightarrow> nat" where
  "active_count s = length (active s)"

definition class_limit :: "scheduler_policy \<Rightarrow> work_class \<Rightarrow> nat" where
  "class_limit p c =
     (case c of
        CpuHeavy \<Rightarrow> max_cpu_heavy p
      | IoHeavy \<Rightarrow> max_io_heavy p
      | Gpu \<Rightarrow> max_gpu p
      | Lightweight \<Rightarrow> max_processes p
      | MemoryHeavy \<Rightarrow> max_processes p
      | SerialEngine \<Rightarrow> max_processes p)"

definition key_busy :: "resource_scheduler \<Rightarrow> resource_request \<Rightarrow> bool" where
  "key_busy s r =
     (case exclusivity_key r of None \<Rightarrow> False | Some k \<Rightarrow> k \<in> exclusivity_keys s)"

definition same_class :: "resource_request list \<Rightarrow> work_class \<Rightarrow> nat" where
  "same_class rs c = length (filter (\<lambda>a. rr_class a = c) rs)"

definition admission_blocker ::
    "resource_scheduler \<Rightarrow> resource_request \<Rightarrow> blocker option" where
  "admission_blocker s r =
     (if rr_job_id r \<in> rr_job_id ` set (active s) then Some AlreadyActive
      else if length (active s) \<ge> max_processes (policy s) then Some ProcessLimit
      else if sat_add (reserved_memory_bytes s) (memory_bytes r)
                > memory_budget_bytes (policy s) then Some MemoryBudget
      else if key_busy s r then Some ExclusiveEngine
      else if same_class (active s) (rr_class r) \<ge> class_limit (policy s) (rr_class r)
           then Some ClassLimit
      else None)"

definition try_admit ::
    "resource_request \<Rightarrow> resource_scheduler \<Rightarrow> bool \<times> resource_scheduler" where
  "try_admit r s =
     (if admission_blocker s r \<noteq> None then (False, s)
      else (True,
        s\<lparr>reserved_memory_bytes := sat_add (reserved_memory_bytes s) (memory_bytes r),
          exclusivity_keys :=
            (case exclusivity_key r of None \<Rightarrow> exclusivity_keys s
             | Some k \<Rightarrow> insert k (exclusivity_keys s)),
          active := delete_rows (\<lambda>a. rr_job_id a = rr_job_id r) (active s) @ [r]\<rparr>))"

definition release :: "uuid \<Rightarrow> resource_scheduler \<Rightarrow> bool \<times> resource_scheduler" where
  "release j s =
     (case lookup_row rr_job_id j (active s) of
        None \<Rightarrow> (False, s)
      | Some r \<Rightarrow> (True,
          s\<lparr>active := delete_rows (\<lambda>a. rr_job_id a = j) (active s),
            reserved_memory_bytes := sat_sub (reserved_memory_bytes s) (memory_bytes r),
            exclusivity_keys :=
              (case exclusivity_key r of None \<Rightarrow> exclusivity_keys s
               | Some k \<Rightarrow> exclusivity_keys s - {k})\<rparr>))"

section \<open>Classifying a plan\<close>

definition gpu_markers :: "string list" where
  "gpu_markers = [''nvenc'', ''qsv'', ''vaapi'', ''videotoolbox'']"

definition is_gpu_step :: "plan_step \<Rightarrow> bool" where
  "is_gpu_step st =
     (\<exists>v \<in> snd ` set (arguments st).
        \<exists>m \<in> set gpu_markers. contains_str (to_ascii_lowercase v) m)"

fun operation_class :: "operation \<Rightarrow> work_class" where
  "operation_class OpInspect = Lightweight"
| "operation_class Serialize = Lightweight"
| "operation_class Remux = IoHeavy"
| "operation_class MetadataClean = IoHeavy"
| "operation_class Transcode = CpuHeavy"
| "operation_class Transform = MemoryHeavy"
| "operation_class Render = MemoryHeavy"

text \<open>The \<open>for\<close> loop over the steps: \<open>break\<close> ends it, \<open>continue\<close> goes to the next step.\<close>

fun classify_steps ::
    "plan_step list \<Rightarrow> work_class \<times> string option \<Rightarrow> work_class \<times> string option" where
  "classify_steps [] acc = acc"
| "classify_steps (st # sts) (c, key) =
     (if engine_id (engine st) = ''soffice'' then (SerialEngine, Some ''soffice'')
      else if engine_id (engine st) = ''msedge'' then (SerialEngine, Some ''msedge'')
      else if is_gpu_step st then classify_steps sts (Gpu, Some ''gpu-encoder'')
      else classify_steps sts (max c (operation_class (operation_of st)), key))"

fun class_memory :: "work_class \<Rightarrow> nat" where
  "class_memory Lightweight = 64 * mib"
| "class_memory IoHeavy = 192 * mib"
| "class_memory CpuHeavy = 1024 * mib"
| "class_memory SerialEngine = 1024 * mib"
| "class_memory Gpu = 512 * mib"
| "class_memory MemoryHeavy = 768 * mib"

definition request_for_plan :: "uuid \<Rightarrow> plan \<Rightarrow> resource_request" where
  "request_for_plan j p =
     (let (c, key) = classify_steps (steps p) (Lightweight, None)
      in \<lparr>rr_job_id = j, rr_class = c, memory_bytes = class_memory c, exclusivity_key = key\<rparr>)"

section \<open>The accounting invariant\<close>

definition active_keys :: "resource_request list \<Rightarrow> string list" where
  "active_keys rs = List.map_filter exclusivity_key rs"

definition reserved_sum :: "resource_request list \<Rightarrow> nat" where
  "reserved_sum rs = sum_list (map memory_bytes rs)"

definition sched_inv :: "resource_scheduler \<Rightarrow> bool" where
  "sched_inv s \<longleftrightarrow>
     distinct (map rr_job_id (active s)) \<and>
     length (active s) \<le> max_processes (policy s) \<and>
     reserved_memory_bytes s = reserved_sum (active s) \<and>
     reserved_memory_bytes s \<le> memory_budget_bytes (policy s) \<and>
     distinct (active_keys (active s)) \<and>
     exclusivity_keys s = set (active_keys (active s)) \<and>
     (\<forall>c. same_class (active s) c \<le> class_limit (policy s) c)"

lemma active_keys_simps [simp]:
  "active_keys [] = []"
  "active_keys (rs @ qs) = active_keys rs @ active_keys qs"
  "active_keys (r # rs) =
     (case exclusivity_key r of None \<Rightarrow> active_keys rs | Some k \<Rightarrow> k # active_keys rs)"
  by (simp_all add: active_keys_def List.map_filter_def split: option.splits)

lemma set_active_keys: "set (active_keys rs) = {k. \<exists>r \<in> set rs. exclusivity_key r = Some k}"
  by (induction rs) (auto split: option.splits)

lemma reserved_sum_simps [simp]:
  "reserved_sum [] = 0"
  "reserved_sum (rs @ qs) = reserved_sum rs + reserved_sum qs"
  "reserved_sum (r # rs) = memory_bytes r + reserved_sum rs"
  by (simp_all add: reserved_sum_def)

lemma same_class_simps [simp]:
  "same_class [] c = 0"
  "same_class (rs @ qs) c = same_class rs c + same_class qs c"
  "same_class (r # rs) c = (if rr_class r = c then 1 else 0) + same_class rs c"
  by (simp_all add: same_class_def)

text \<open>An active request splits the list at its only occurrence.\<close>

lemma active_split:
  assumes "distinct (map rr_job_id rs)" and "lookup_row rr_job_id j rs = Some r"
  obtains as bs where "rs = as @ r # bs" "rr_job_id r = j"
    "delete_rows (\<lambda>a. rr_job_id a = j) rs = as @ bs"
proof -
  from lookup_row_SomeD [OF assms(2)] obtain as bs where rs: "rs = as @ r # bs"
    and j: "rr_job_id r = j" by (meson split_list)
  have "delete_rows (\<lambda>a. rr_job_id a = j) as = as" "delete_rows (\<lambda>a. rr_job_id a = j) bs = bs"
    using assms(1) rs j by (auto simp: delete_rows_def filter_id_conv) (metis image_eqI)+
  then have "delete_rows (\<lambda>a. rr_job_id a = j) rs = as @ bs"
    using rs j by (simp add: delete_rows_def)
  with rs j show thesis by (rule that)
qed

lemma sched_inv_new: "sched_inv (new_scheduler p)"
  by (simp add: sched_inv_def new_scheduler_def)

lemma try_admit_fresh:
  assumes "admission_blocker s r = None"
  shows "delete_rows (\<lambda>a. rr_job_id a = rr_job_id r) (active s) = active s"
    and "rr_job_id r \<notin> rr_job_id ` set (active s)"
  using assms
  by (auto simp: admission_blocker_def delete_rows_def filter_id_conv image_iff split: if_splits)

lemma sched_inv_try_admit:
  assumes inv: "sched_inv s" and room: "memory_budget_bytes (policy s) < u64_max"
  shows "sched_inv (snd (try_admit r s))"
proof (cases "admission_blocker s r")
  case (Some b)
  with inv show ?thesis by (simp add: try_admit_def)
next
  case None
  note fresh = try_admit_fresh [OF None]
  from None have procs: "length (active s) < max_processes (policy s)"
    and mem: "sat_add (reserved_memory_bytes s) (memory_bytes r)
                \<le> memory_budget_bytes (policy s)"
    and key: "\<not> key_busy s r"
    and cls: "same_class (active s) (rr_class r) < class_limit (policy s) (rr_class r)"
    by (auto simp: admission_blocker_def not_le split: if_splits)
  have sum: "reserved_memory_bytes s + memory_bytes r \<le> memory_budget_bytes (policy s)"
    using mem room by (rule sat_add_le_limit)
  have res: "reserved_memory_bytes s = reserved_sum (active s)"
    using inv by (simp add: sched_inv_def)
  have exact: "sat_add (reserved_sum (active s)) (memory_bytes r)
      = reserved_sum (active s) + memory_bytes r"
    using sum room by (intro sat_add_exact) (simp add: res)
  have cls': "same_class (active s @ [r]) c \<le> class_limit (policy s) c" for c
    using inv cls by (auto simp: sched_inv_def)
  show ?thesis
    using inv fresh procs sum key cls'
    by (auto simp: sched_inv_def try_admit_def None res exact key_busy_def split: option.splits)
qed

lemma sched_inv_release:
  assumes inv: "sched_inv s"
  shows "sched_inv (snd (release j s))"
proof (cases "lookup_row rr_job_id j (active s)")
  case None
  with inv show ?thesis by (simp add: release_def)
next
  case (Some r)
  from inv have "distinct (map rr_job_id (active s))" by (simp add: sched_inv_def)
  then obtain as bs where split: "active s = as @ r # bs"
    "delete_rows (\<lambda>a. rr_job_id a = j) (active s) = as @ bs"
    using Some by (rule active_split)
  have cls: "same_class (as @ bs) c \<le> class_limit (policy s) c" for c
  proof -
    have "same_class (as @ bs) c \<le> same_class (active s) c" by (simp add: split(1))
    also have "\<dots> \<le> class_limit (policy s) c" using inv by (simp add: sched_inv_def)
    finally show ?thesis .
  qed
  have keys: "exclusivity_keys s = set (active_keys (as @ r # bs))"
    "distinct (active_keys (as @ r # bs))"
    using inv by (simp_all add: sched_inv_def split(1))
  have keys': "(case exclusivity_key r of None \<Rightarrow> exclusivity_keys s
      | Some k \<Rightarrow> exclusivity_keys s - {k}) = set (active_keys (as @ bs))"
    using keys by (auto split: option.splits)
  show ?thesis
    unfolding sched_inv_def release_def Some
    using inv cls keys' keys(2)
    by (auto simp: sched_inv_def split(1) split(2) [unfolded split(1)] sat_sub_def
        split: option.splits)
qed

lemma policy_try_admit [simp]: "policy (snd (try_admit r s)) = policy s"
  by (simp add: try_admit_def)

lemma policy_release [simp]: "policy (snd (release j s)) = policy s"
  by (simp add: release_def split: option.splits)

section \<open>The admission interface\<close>

text \<open>
  What the queue window relies on: admission and release keep an invariant that bounds the
  number of active requests, an admitted request is active, a released one is not, and no
  other request changes.
\<close>

locale admission =
  fixes admit :: "'r \<Rightarrow> 's \<Rightarrow> bool \<times> 's"
    and free :: "uuid \<Rightarrow> 's \<Rightarrow> bool \<times> 's"
    and job_of :: "'r \<Rightarrow> uuid"
    and held :: "'s \<Rightarrow> uuid set"
    and ok :: "'s \<Rightarrow> bool"
    and limit :: "'s \<Rightarrow> nat"
  assumes ok_admit: "ok s \<Longrightarrow> ok (snd (admit r s))"
    and ok_free: "ok s \<Longrightarrow> ok (snd (free j s))"
    and admit_held: "ok s \<Longrightarrow> held (snd (admit r s)) =
          (if fst (admit r s) then insert (job_of r) (held s) else held s)"
    and admit_new: "ok s \<Longrightarrow> fst (admit r s) \<Longrightarrow> job_of r \<notin> held s"
    and free_held: "ok s \<Longrightarrow> held (snd (free j s)) = held s - {j}"
    and held_bound: "ok s \<Longrightarrow> finite (held s) \<and> card (held s) \<le> limit s"
    and limit_admit: "limit (snd (admit r s)) = limit s"
    and limit_free: "limit (snd (free j s)) = limit s"
begin

lemma ok_frees: "ok s \<Longrightarrow> ok (fold (\<lambda>j s. snd (free j s)) js s)"
  by (induction js arbitrary: s) (auto intro: ok_free)

lemma held_frees: "ok s \<Longrightarrow> held (fold (\<lambda>j s. snd (free j s)) js s) = held s - set js"
  by (induction js arbitrary: s) (auto simp: free_held ok_free)

lemma ok_admits: "ok s \<Longrightarrow> ok (fold (\<lambda>r s. snd (admit r s)) rs s)"
  by (induction rs arbitrary: s) (auto intro: ok_admit)

lemma limit_admits: "limit (fold (\<lambda>r s. snd (admit r s)) rs s) = limit s"
  by (induction rs arbitrary: s) (auto simp: limit_admit)

lemma never_over_limit:
  "ok s \<Longrightarrow> card (held (fold (\<lambda>r s. snd (admit r s)) rs s)) \<le> limit s"
  using held_bound [OF ok_admits, of s rs] limit_admits [of rs s] by simp

end

definition held_jobs :: "resource_scheduler \<Rightarrow> uuid set" where
  "held_jobs s = rr_job_id ` set (active s)"

definition sched_ok :: "resource_scheduler \<Rightarrow> bool" where
  "sched_ok s \<longleftrightarrow> sched_inv s \<and> memory_budget_bytes (policy s) < u64_max"

interpretation adm: admission try_admit release rr_job_id held_jobs sched_ok
  "\<lambda>s. max_processes (policy s)"
proof unfold_locales
  fix s r j
  assume ok: "sched_ok s"
  show "sched_ok (snd (try_admit r s))" "sched_ok (snd (release j s))"
    using ok by (auto simp: sched_ok_def intro: sched_inv_try_admit sched_inv_release)
  show "held_jobs (snd (try_admit r s)) =
      (if fst (try_admit r s) then insert (rr_job_id r) (held_jobs s) else held_jobs s)"
    using try_admit_fresh [of s r] by (auto simp: try_admit_def held_jobs_def)
  show "fst (try_admit r s) \<Longrightarrow> rr_job_id r \<notin> held_jobs s"
    using try_admit_fresh(2) [of s r] by (auto simp: try_admit_def held_jobs_def split: if_splits)
  show "held_jobs (snd (release j s)) = held_jobs s - {j}"
    by (auto simp: release_def held_jobs_def lookup_row_None_iff image_iff split: option.splits)
  show "finite (held_jobs s) \<and> card (held_jobs s) \<le> max_processes (policy s)"
    using ok card_image_le [of "set (active s)" rr_job_id] card_length [of "active s"]
    by (auto simp: sched_ok_def sched_inv_def held_jobs_def)
qed simp_all

section \<open>The scheduler as a machine\<close>

datatype sched_command = Admit resource_request | Release uuid

fun run_sched :: "resource_scheduler \<Rightarrow> sched_command \<Rightarrow> resource_scheduler" where
  "run_sched s (Admit r) = snd (try_admit r s)"
| "run_sched s (Release j) = snd (release j s)"

definition sched_run :: "nat \<Rightarrow> nat \<Rightarrow> sched_command list \<Rightarrow> resource_scheduler" where
  "sched_run cpus n cs = fold (\<lambda>c s. run_sched s c) cs (new_scheduler (bounded cpus n))"

definition bounded_ok :: "nat \<Rightarrow> nat \<Rightarrow> resource_scheduler \<Rightarrow> bool" where
  "bounded_ok cpus n s \<longleftrightarrow> sched_ok s \<and> policy s = bounded cpus n"

interpretation sched: machine "new_scheduler (bounded cpus n)" run_sched "bounded_ok cpus n"
  for cpus n
proof unfold_locales
  show "bounded_ok cpus n (new_scheduler (bounded cpus n))"
    using sched_inv_new by (simp add: bounded_ok_def sched_ok_def new_scheduler_def bounded_def
        Let_def mib_def u64_max_def)
  show "bounded_ok cpus n (run_sched s c)" if "bounded_ok cpus n s" for s c
    using that adm.ok_admit adm.ok_free by (cases c) (auto simp: bounded_ok_def)
qed

text \<open>
  C8: whatever is asked of it, the scheduler stays inside its policy. After any sequence of
  admissions and releases, for any requested parallelism and any number of CPUs: at most 16
  jobs and no more than were asked for (one at least) are active, no job twice; the reserved
  memory is the sum of the active requests and at most 2 GiB; no exclusive engine is held
  twice; and at most half of the CPUs' worth of CPU-heavy jobs, two I/O-heavy ones and one GPU
  job are active.
\<close>

theorem scheduler_within_policy:
  fixes cpus n :: nat and cs :: "sched_command list"
  defines "s \<equiv> sched_run cpus n cs"
  shows "length (active s) \<le> min 16 (max 1 n) \<and> distinct (map rr_job_id (active s))
    \<and> reserved_memory_bytes s = reserved_sum (active s)
    \<and> reserved_memory_bytes s \<le> 2 * 1024 * 1024 * 1024
    \<and> distinct (active_keys (active s))
    \<and> same_class (active s) CpuHeavy \<le> max 1 ((cpus + 1) div 2)
    \<and> same_class (active s) IoHeavy \<le> 2 \<and> same_class (active s) Gpu \<le> 1"
proof -
  have "bounded_ok cpus n s" unfolding s_def sched_run_def by (rule sched.inv_run)
  then have inv: "sched_inv s" and pol: "policy s = bounded cpus n"
    by (simp_all add: bounded_ok_def sched_ok_def)
  have cls: "same_class (active s) c \<le> class_limit (bounded cpus n) c" for c
    using inv pol by (simp add: sched_inv_def)
  show ?thesis
    using inv pol cls [of CpuHeavy] cls [of IoHeavy] cls [of Gpu]
    by (auto simp: sched_inv_def bounded_def Let_def class_limit_def clamp_def mib_def
        split: if_splits)
qed

lemma admitted_iff_fits:
  assumes ok: "sched_ok s"
  shows "fst (try_admit r s) \<longleftrightarrow>
    rr_job_id r \<notin> held_jobs s \<and> length (active s) + 1 \<le> max_processes (policy s)
    \<and> reserved_sum (active s @ [r]) \<le> memory_budget_bytes (policy s)
    \<and> distinct (active_keys (active s @ [r]))
    \<and> same_class (active s @ [r]) (rr_class r) \<le> class_limit (policy s) (rr_class r)"
proof -
  have inv: "reserved_memory_bytes s = reserved_sum (active s)" "distinct (active_keys (active s))"
    "exclusivity_keys s = set (active_keys (active s))" and room: "memory_budget_bytes (policy s) < u64_max"
    using ok by (simp_all add: sched_ok_def sched_inv_def)
  have mem: "memory_budget_bytes (policy s) < sat_add (reserved_sum (active s)) (memory_bytes r)
      \<longleftrightarrow> memory_budget_bytes (policy s) < reserved_sum (active s) + memory_bytes r"
    using room by (auto simp: sat_add_def)
  have "fst (try_admit r s) \<longleftrightarrow> admission_blocker s r = None" by (simp add: try_admit_def)
  also have "\<dots> \<longleftrightarrow> rr_job_id r \<notin> held_jobs s \<and> length (active s) + 1 \<le> max_processes (policy s)
    \<and> reserved_sum (active s @ [r]) \<le> memory_budget_bytes (policy s)
    \<and> distinct (active_keys (active s @ [r]))
    \<and> same_class (active s @ [r]) (rr_class r) \<le> class_limit (policy s) (rr_class r)"
    using inv mem
    by (auto simp: admission_blocker_def held_jobs_def key_busy_def split: option.splits)
  finally show ?thesis .
qed

text \<open>
  The scheduler refuses only what it must. In a consistent scheduler whose budget is a
  proper 64-bit size, a request is admitted exactly if adding it to the active requests keeps
  every limit of the policy.
\<close>

theorem admits_exactly_what_fits:
  assumes ok: "sched_ok s"
  shows "fst (try_admit r s) \<longleftrightarrow>
    rr_job_id r \<notin> held_jobs s \<and> length (active s) + 1 \<le> max_processes (policy s)
    \<and> reserved_sum (active s @ [r]) \<le> memory_budget_bytes (policy s)
    \<and> distinct (active_keys (active s @ [r]))
    \<and> same_class (active s @ [r]) (rr_class r) \<le> class_limit (policy s) (rr_class r)"
  using assms by (rule admitted_iff_fits)

definition demo_resource :: "nat \<Rightarrow> string option \<Rightarrow> resource_request" where
  "demo_resource j k = \<lparr>rr_job_id = j, rr_class = SerialEngine, memory_bytes = 1024 * mib, exclusivity_key = k\<rparr>"

definition demo_scheduler :: resource_scheduler where
  "demo_scheduler = sched_run 8 4 [Admit (demo_resource 1 (Some ''soffice''))]"

lemma demo_scheduler_ok: "sched_ok demo_scheduler"
  unfolding demo_scheduler_def sched_run_def
  by (rule sched.inv_run [of 8 4, unfolded bounded_ok_def, THEN conjunct1])

lemma demo_scheduler_active:
  "active demo_scheduler = [demo_resource 1 (Some ''soffice'')]"
  "policy demo_scheduler = bounded 8 4"
  by (simp_all add: demo_scheduler_def sched_run_def new_scheduler_def bounded_def Let_def clamp_def
      mib_def demo_resource_def try_admit_def admission_blocker_def sat_add_def u64_max_def
      key_busy_def class_limit_def delete_rows_def)

lemma admits_exactly_what_fits_witness:
  "fst (try_admit (demo_resource 2 None) demo_scheduler)
    \<and> \<not> fst (try_admit (demo_resource 2 (Some ''soffice'')) demo_scheduler)"
  unfolding admits_exactly_what_fits [OF demo_scheduler_ok]
  by (simp add: demo_scheduler_active held_jobs_def demo_resource_def bounded_def Let_def clamp_def
      mib_def class_limit_def)

text \<open>
  A release gives back exactly what the admission took: releasing a job right after it was
  admitted restores the scheduler, so its next request is decided as before.
\<close>

theorem release_undoes_admission:
  assumes ok: "sched_ok s" and admitted: "fst (try_admit r s)"
  shows "release (rr_job_id r) (snd (try_admit r s)) = (True, s)"
proof -
  have none: "admission_blocker s r = None" using admitted by (simp add: try_admit_def split: if_splits)
  note fresh = try_admit_fresh [OF none]
  have keys: "exclusivity_keys s = set (active_keys (active s))"
    using ok by (simp add: sched_ok_def sched_inv_def)
  have fit: "reserved_memory_bytes s + memory_bytes r \<le> memory_budget_bytes (policy s)"
    "memory_budget_bytes (policy s) < u64_max"
    using ok none sat_add_le_limit by (auto simp: sched_ok_def admission_blocker_def not_less split: if_splits)
  then have mem: "sat_sub (sat_add (reserved_memory_bytes s) (memory_bytes r)) (memory_bytes r)
      = reserved_memory_bytes s"
    by (simp add: sat_add_exact sat_sub_def)
  have free: "\<not> key_busy s r" using none by (auto simp: admission_blocker_def split: if_splits)
  have "lookup_row rr_job_id (rr_job_id r) (active s) = None"
    using fresh(2) by (simp add: lookup_row_None_iff)
  moreover have "delete_rows (\<lambda>a. rr_job_id a = rr_job_id r) (active s @ [r]) = active s"
    using fresh(1) by (simp add: delete_rows_def)
  ultimately show ?thesis using none fresh(1) mem free
    by (auto simp: try_admit_def release_def lookup_row_append lookup_row_Cons key_busy_def
        split: option.splits)
qed

lemma release_undoes_admission_witness:
  "release 2 (snd (try_admit (demo_resource 2 None) demo_scheduler)) = (True, demo_scheduler)"
  using release_undoes_admission [OF demo_scheduler_ok, of "demo_resource 2 None"]
    admitted_iff_fits [OF demo_scheduler_ok, of "demo_resource 2 None"]
  by (simp add: demo_scheduler_active held_jobs_def demo_resource_def bounded_def Let_def clamp_def
      mib_def class_limit_def)

section \<open>Plans of exclusive engines\<close>

definition uses_engine :: "string \<Rightarrow> plan \<Rightarrow> bool" where
  "uses_engine e p \<longleftrightarrow> e \<in> (\<lambda>st. engine_id (engine st)) ` set (steps p)"

lemma classify_soffice:
  assumes "''soffice'' \<in> (\<lambda>st. engine_id (engine st)) ` set sts"
    and "''msedge'' \<notin> (\<lambda>st. engine_id (engine st)) ` set sts"
  shows "classify_steps sts acc = (SerialEngine, Some ''soffice'')"
  using assms by (induction sts acc rule: classify_steps.induct) auto

text \<open>
  LibreOffice never runs twice at once. While the request of a plan with a LibreOffice
  step and no browser step is active, the request of another such plan is not admitted,
  whatever else its steps are.
\<close>

theorem office_plans_exclude_each_other:
  assumes ok: "sched_ok s" and act: "request_for_plan i p \<in> set (active s)"
    and p: "uses_engine ''soffice'' p" "\<not> uses_engine ''msedge'' p"
    and q: "uses_engine ''soffice'' q" "\<not> uses_engine ''msedge'' q"
  shows "\<not> fst (try_admit (request_for_plan j q) s)"
proof -
  have "exclusivity_key (request_for_plan i p) = Some ''soffice''"
    "exclusivity_key (request_for_plan j q) = Some ''soffice''"
    using p q classify_soffice by (simp_all add: request_for_plan_def uses_engine_def)
  moreover from this(1) act have "''soffice'' \<in> set (active_keys (active s))"
    by (auto simp: set_active_keys)
  ultimately show ?thesis unfolding admitted_iff_fits [OF ok] by simp
qed

definition office_plan :: plan where
  "office_plan =
     \<lparr>plan_schema_version = 1, plan_id = 7, plan_hash = ''h'', input_fingerprint = ''f'',
      target_format = ''pdf'', constraints = [],
      steps = [\<lparr>step_id = ''s'', capability_id = ''office.pdf'',
        engine = \<lparr>engine_id = ''soffice'', engine_version = ''1'', binary_path = ''x'',
          binary_sha256 = ''y'', manifest_sha256 = None, build_configuration = None,
          engine_certification = Certified\<rparr>,
        operation_of = Render, loss = Lossy, arguments = [], estimated_temporary_bytes = None\<rparr>],
      changes = \<lparr>preserved = [], changed = [], dropped = [], unknown = []\<rparr>,
      validators = [], network_policy = Deny, output_path = None,
      estimated_output_bytes = None\<rparr>"

lemma office_plan_request: "request_for_plan 1 office_plan = demo_resource 1 (Some ''soffice'')"
  by (simp add: request_for_plan_def office_plan_def demo_resource_def)

lemma office_plans_exclude_each_other_witness:
  "\<not> fst (try_admit (request_for_plan 2 office_plan) demo_scheduler)"
  by (rule office_plans_exclude_each_other [OF demo_scheduler_ok, of 1 office_plan])
    (simp_all add: office_plan_request [unfolded One_nat_def] demo_scheduler_active,
      simp_all add: uses_engine_def office_plan_def)

end
