(* ===== verification/Job_Store_Tables.thy ===== *)
theory Job_Store_Tables
  imports Domain
begin

text \<open>
  The tables of \<open>crates/core/src/job_store.rs\<close> (created by \<open>migrate\<close> and its versioned
  successors), the text encodings of their columns, and the statements that insert, update
  and delete rows under the constraints the schema declares. A transaction is a function
  that returns either an error or the new database; \<open>run_tx\<close> keeps the old database on an
  error, which is SQLite's rollback.
\<close>

section \<open>Column encodings\<close>

fun state_name :: "job_state \<Rightarrow> string" where
  "state_name Queued = ''queued''"
| "state_name Inspecting = ''inspecting''"
| "state_name Planned = ''planned''"
| "state_name Blocked = ''blocked''"
| "state_name Running = ''running''"
| "state_name Validating = ''validating''"
| "state_name Completed = ''completed''"
| "state_name Warning = ''warning''"
| "state_name Failed = ''failed''"
| "state_name Cancelled = ''cancelled''"
| "state_name Interrupted = ''interrupted''"

definition err_unknown_state :: anole_error where
  "err_unknown_state = anole_error_new StorageFailed Store ''Unknown stored job state: {}''"

definition parse_state :: "string \<Rightarrow> anole_error + job_state" where
  "parse_state v =
     (if v = ''queued'' then Inr Queued
      else if v = ''inspecting'' then Inr Inspecting
      else if v = ''planned'' then Inr Planned
      else if v = ''blocked'' then Inr Blocked
      else if v = ''running'' then Inr Running
      else if v = ''validating'' then Inr Validating
      else if v = ''completed'' then Inr Completed
      else if v = ''warning'' then Inr Warning
      else if v = ''failed'' then Inr Failed
      else if v = ''cancelled'' then Inr Cancelled
      else if v = ''interrupted'' then Inr Interrupted
      else Inl err_unknown_state)"

lemma parse_state_name [simp]: "parse_state (state_name s) = Inr s"
  by (cases s) (simp_all add: parse_state_def)

lemma parse_state_Inr_iff: "parse_state v = Inr s \<longleftrightarrow> v = state_name s"
proof
  show "v = state_name s" if "parse_state v = Inr s"
    using that unfolding parse_state_def by (simp split: if_split_asm)
qed simp

lemma state_name_inj [simp]: "state_name s = state_name t \<longleftrightarrow> s = t"
  using parse_state_name [of s] parse_state_name [of t] by (metis sum.inject(2))

fun validation_status_name :: "validation_status \<Rightarrow> string" where
  "validation_status_name Pass = ''pass''"
| "validation_status_name Warn = ''warning''"
| "validation_status_name Fail = ''fail''"
| "validation_status_name Unknown = ''unknown''"

definition parse_validation_status :: "string \<Rightarrow> anole_error + validation_status" where
  "parse_validation_status v =
     (if v = ''pass'' then Inr Pass
      else if v = ''warning'' then Inr Warn
      else if v = ''fail'' then Inr Fail
      else if v = ''unknown'' then Inr Unknown
      else Inl (anole_error_new StorageFailed Validate
                  ''Unknown stored validation status: {}''))"

lemma parse_validation_status_name [simp]:
  "parse_validation_status (validation_status_name s) = Inr s"
  by (cases s) (simp_all add: parse_validation_status_def)

fun is_terminal :: "job_state \<Rightarrow> bool" where
  "is_terminal Completed = True"
| "is_terminal Warning = True"
| "is_terminal Failed = True"
| "is_terminal Cancelled = True"
| "is_terminal _ = False"

section \<open>Rows and the database\<close>

record job_row =
  jr_id :: uuid
  jr_state :: string
  jr_input_path :: string
  jr_output_path :: string
  jr_plan_hash :: string
  jr_plan_json :: string
  jr_sequence :: nat
  jr_created :: int
  jr_updated :: int

record event_row =
  ev_job_id :: uuid
  ev_sequence :: nat
  ev_previous :: "string option"
  ev_next :: string
  ev_code :: string
  ev_timestamp :: int

record reservation_row =
  rs_key :: string
  rs_job_id :: uuid
  rs_created :: int

record batch_row =
  ba_id :: uuid
  ba_name :: string
  ba_created :: int
  ba_updated :: int

record member_row =
  mb_batch_id :: uuid
  mb_job_id :: uuid
  mb_ordinal :: nat

record idempotency_row =
  ik_key :: string
  ik_job_id :: uuid
  ik_created :: int

record job_selection_query =
  q_batch_id :: "uuid option"
  q_states :: "job_state list"
  q_search :: "string option"

record selection_row =
  se_id :: uuid
  se_query :: job_selection_query
  se_member_count :: nat
  se_created :: int

record selection_member_row =
  sm_selection_id :: uuid
  sm_job_id :: uuid
  sm_ordinal :: nat

record bulk_row =
  bk_id :: uuid
  bk_selection_id :: uuid
  bk_action :: string
  bk_matched :: nat
  bk_transitioned :: nat
  bk_skipped_state :: nat
  bk_skipped_conflict :: nat
  bk_created :: int

record bulk_member_row =
  bm_action_id :: uuid
  bm_job_id :: uuid
  bm_outcome :: string
  bm_previous :: string
  bm_next :: "string option"

record revalidation_row =
  rv_id :: uuid
  rv_job_id :: uuid
  rv_status :: string
  rv_report_json :: string
  rv_created :: int

record sample_row =
  sp_id :: nat
  sp_engine_id :: string
  sp_capability_id :: string
  sp_wall_millis :: int
  sp_input_bytes :: "int option"
  sp_output_bytes :: "int option"
  sp_completed :: int

record db =
  jobs :: "job_row list"
  job_events :: "event_row list"
  output_reservations :: "reservation_row list"
  batches :: "batch_row list"
  batch_members :: "member_row list"
  idempotency_keys :: "idempotency_row list"
  selection_snapshots :: "selection_row list"
  selection_members :: "selection_member_row list"
  bulk_actions :: "bulk_row list"
  bulk_action_members :: "bulk_member_row list"
  revalidations :: "revalidation_row list"
  throughput_samples :: "sample_row list"
  next_sample_id :: nat

definition empty_db :: db where
  "empty_db =
     \<lparr>jobs = [], job_events = [], output_reservations = [], batches = [], batch_members = [],
      idempotency_keys = [], selection_snapshots = [], selection_members = [],
      bulk_actions = [], bulk_action_members = [], revalidations = [],
      throughput_samples = [], next_sample_id = 1\<rparr>"

section \<open>Transactions\<close>

type_synonym 'a tx = "db \<Rightarrow> anole_error + 'a \<times> db"

definition run_tx :: "'a tx \<Rightarrow> db \<Rightarrow> (anole_error + 'a) \<times> db" where
  "run_tx f d = (case f d of Inl e \<Rightarrow> (Inl e, d) | Inr (x, d') \<Rightarrow> (Inr x, d'))"

lemma run_tx_Inr: "run_tx f d = (Inr x, d') \<longleftrightarrow> f d = Inr (x, d')"
  by (auto simp: run_tx_def split: sum.splits)

lemma run_tx_Inl: "run_tx f d = (Inl e, d') \<longleftrightarrow> f d = Inl e \<and> d' = d"
  by (auto simp: run_tx_def split: sum.splits)

lemma run_tx_preserves:
  assumes "P d" and "\<And>x d'. f d = Inr (x, d') \<Longrightarrow> P d'"
  shows "P (snd (run_tx f d))"
  using assms by (auto simp: run_tx_def split: sum.splits)

text \<open>
  What an operation takes from outside the database: the clock, the random identifiers it
  draws (the \<open>k\<close>-th of the call), the identity of an output path in the file system
  (\<open>reservation_key\<close>), and the JSON text of plans and reports.
\<close>

record store_env =
  env_now :: int
  env_uuid :: "nat \<Rightarrow> uuid"
  env_key :: "string \<Rightarrow> anole_error + string"
  env_plan_json :: "plan \<Rightarrow> string option"
  env_report_json :: "validation_report \<Rightarrow> string option"

definition err_storage :: anole_error where
  "err_storage = anole_error_new StorageFailed Store ''SQLite operation failed''"

definition err_output_conflict :: anole_error where
  "err_output_conflict =
     anole_error_new OutputConflict Store ''Another active job already reserves this output path''"

definition err_job_missing :: anole_error where
  "err_job_missing = anole_error_new StorageFailed Store ''Job does not exist: {}''"

definition err_bad_transition :: anole_error where
  "err_bad_transition =
     anole_error_new StorageFailed Store ''Invalid job transition: {} -> {}''"

definition err_concurrent :: anole_error where
  "err_concurrent =
     set_retryable True (anole_error_new StorageFailed Store ''Job state changed concurrently'')"

text \<open>
  Binding a \<open>u64\<close> parameter fails when it does not fit SQLite's signed 64-bit integer.
\<close>

definition sql_u64 :: "nat \<Rightarrow> anole_error + unit" where
  "sql_u64 n = ensure (n \<le> i64_max) err_storage"

section \<open>Statements on jobs and events\<close>

definition job_ids :: "db \<Rightarrow> uuid set" where
  "job_ids d = jr_id ` set (jobs d)"

definition find_job :: "uuid \<Rightarrow> db \<Rightarrow> job_row option" where
  "find_job j d = lookup_row jr_id j (jobs d)"

definition insert_job_row :: "job_row \<Rightarrow> db \<Rightarrow> anole_error + db" where
  "insert_job_row r d =
     (if jr_id r \<in> job_ids d then Inl err_storage else Inr (d\<lparr>jobs := jobs d @ [r]\<rparr>))"

text \<open>
  \<open>UPDATE jobs SET state, sequence, updated WHERE id AND state AND sequence\<close>, with the
  number of rows it changed.
\<close>

definition matches_row :: "uuid \<Rightarrow> string \<Rightarrow> nat \<Rightarrow> job_row \<Rightarrow> bool" where
  "matches_row j st sq r = (jr_id r = j \<and> jr_state r = st \<and> jr_sequence r = sq)"

definition set_state_row :: "string \<Rightarrow> nat \<Rightarrow> int \<Rightarrow> job_row \<Rightarrow> job_row" where
  "set_state_row st sq now r = r\<lparr>jr_state := st, jr_sequence := sq, jr_updated := now\<rparr>"

definition update_job_state ::
    "uuid \<Rightarrow> string \<Rightarrow> nat \<Rightarrow> string \<Rightarrow> nat \<Rightarrow> int \<Rightarrow> db \<Rightarrow> anole_error + nat \<times> db" where
  "update_job_state j cur sq nxt sq' now d =
     res_bind (sql_u64 sq') (\<lambda>_.
       Inr (length (filter (matches_row j cur sq) (jobs d)),
            d\<lparr>jobs := update_rows (matches_row j cur sq) (set_state_row nxt sq' now) (jobs d)\<rparr>))"

definition insert_event :: "event_row \<Rightarrow> db \<Rightarrow> anole_error + db" where
  "insert_event e d =
     (if ev_job_id e \<notin> job_ids d
         \<or> (\<exists>f \<in> set (job_events d). ev_job_id f = ev_job_id e \<and> ev_sequence f = ev_sequence e)
      then Inl err_storage
      else Inr (d\<lparr>job_events := job_events d @ [e]\<rparr>))"

definition events_of :: "uuid \<Rightarrow> db \<Rightarrow> event_row list" where
  "events_of j d = filter (\<lambda>e. ev_job_id e = j) (job_events d)"

section \<open>Output reservations\<close>

definition owned_key :: "uuid \<Rightarrow> reservation_row list \<Rightarrow> string option" where
  "owned_key j t = map_option rs_key (lookup_row rs_job_id j t)"

definition owner_of :: "string \<Rightarrow> reservation_row list \<Rightarrow> uuid option" where
  "owner_of k t = map_option rs_job_id (lookup_row rs_key k t)"

definition release_rows :: "uuid \<Rightarrow> reservation_row list \<Rightarrow> reservation_row list" where
  "release_rows j t = delete_rows (\<lambda>r. rs_job_id r = j) t"

text \<open>A reservation of another key is deleted before the new one is inserted.\<close>

definition cleared :: "uuid \<Rightarrow> reservation_row list \<Rightarrow> reservation_row list" where
  "cleared j t = (if owned_key j t \<noteq> None then release_rows j t else t)"

text \<open>\<open>reserve_output\<close> after the path has been resolved to its key, on the table alone.\<close>

definition reserve_key ::
    "uuid \<Rightarrow> string \<Rightarrow> int \<Rightarrow> reservation_row list \<Rightarrow> anole_error + reservation_row list" where
  "reserve_key j k now t =
     (if owned_key j t = Some k then Inr t
      else let t' = cleared j t
           in if k \<in> rs_key ` set t' \<or> j \<in> rs_job_id ` set t'
              then Inl err_output_conflict
              else Inr (t' @ [\<lparr>rs_key = k, rs_job_id = j, rs_created = now\<rparr>]))"

definition res_table_ok :: "reservation_row list \<Rightarrow> bool" where
  "res_table_ok t \<longleftrightarrow> distinct (map rs_key t) \<and> distinct (map rs_job_id t)"

definition reserve_output ::
    "store_env \<Rightarrow> uuid \<Rightarrow> string \<Rightarrow> db \<Rightarrow> anole_error + db" where
  "reserve_output E j path d =
     res_bind (env_key E path) (\<lambda>k.
       if owned_key j (output_reservations d) = Some k then Inr d
       else if j \<notin> job_ids d then Inl err_output_conflict
       else res_bind (reserve_key j k (env_now E) (output_reservations d)) (\<lambda>t.
              Inr (d\<lparr>output_reservations := t\<rparr>)))"

definition release_output :: "uuid \<Rightarrow> db \<Rightarrow> db" where
  "release_output j d = d\<lparr>output_reservations := release_rows j (output_reservations d)\<rparr>"

text \<open>
  The interface: a table of exclusive ownership of keys by jobs. What a successful
  reservation gives, what a release frees, and that nobody else's key is touched.
\<close>

locale ownership =
  fixes reserve :: "uuid \<Rightarrow> 'k \<Rightarrow> 't \<Rightarrow> 'e + 't"
    and free :: "uuid \<Rightarrow> 't \<Rightarrow> 't"
    and key_of :: "uuid \<Rightarrow> 't \<Rightarrow> 'k option"
    and ok :: "'t \<Rightarrow> bool"
  assumes ok_reserve: "ok t \<Longrightarrow> reserve j k t = Inr t' \<Longrightarrow> ok t'"
    and ok_free: "ok t \<Longrightarrow> ok (free j t)"
    and reserve_own: "ok t \<Longrightarrow> reserve j k t = Inr t' \<Longrightarrow> key_of j t' = Some k"
    and reserve_other: "ok t \<Longrightarrow> reserve j k t = Inr t' \<Longrightarrow> i \<noteq> j \<Longrightarrow> key_of i t' = key_of i t"
    and free_own: "ok t \<Longrightarrow> key_of j (free j t) = None"
    and free_other: "ok t \<Longrightarrow> i \<noteq> j \<Longrightarrow> key_of i (free j t) = key_of i t"
    and exclusive: "ok t \<Longrightarrow> key_of i t = Some k \<Longrightarrow> key_of j t = Some k \<Longrightarrow> i = j"
    and reserve_free_key: "ok t \<Longrightarrow> (\<And>i. i \<noteq> j \<Longrightarrow> key_of i t \<noteq> Some k) \<Longrightarrow> \<exists>t'. reserve j k t = Inr t'"
begin

lemma reserve_blocked:
  "ok t \<Longrightarrow> key_of i t = Some k \<Longrightarrow> i \<noteq> j \<Longrightarrow> \<nexists>t'. reserve j k t = Inr t'"
  by (metis exclusive ok_reserve reserve_other reserve_own)

lemma reserve_idem:
  "ok t \<Longrightarrow> reserve j k t = Inr t' \<Longrightarrow> \<exists>t''. reserve j k t' = Inr t''"
  by (metis exclusive ok_reserve reserve_free_key reserve_own)

lemma freed_key_reservable:
  assumes "ok t" and "key_of i t = Some k"
  shows "\<exists>t'. reserve j k (free i t) = Inr t'"
proof (rule reserve_free_key)
  show "ok (free i t)" using assms(1) by (rule ok_free)
  show "key_of h (free i t) \<noteq> Some k" if "h \<noteq> j" for h
    using assms exclusive free_other free_own by (metis option.distinct(1))
qed

end

lemma owned_key_append:
  "owned_key j (t @ [r]) =
     (case owned_key j t of None \<Rightarrow> if rs_job_id r = j then Some (rs_key r) else None
      | Some k \<Rightarrow> Some k)"
  by (simp add: owned_key_def lookup_row_append lookup_row_Cons split: option.splits)

lemma owned_key_None_iff: "owned_key j t = None \<longleftrightarrow> j \<notin> rs_job_id ` set t"
  by (simp add: owned_key_def lookup_row_None_iff)

lemma owned_key_release: "owned_key j (release_rows j t) = None"
  by (simp add: owned_key_def release_rows_def lookup_delete_rows_same)

lemma owned_key_release_other: "i \<noteq> j \<Longrightarrow> owned_key i (release_rows j t) = owned_key i t"
  using lookup_delete_rows_other [of "\<lambda>r. rs_job_id r = j" rs_job_id i t]
  by (auto simp: owned_key_def release_rows_def)

lemma owned_key_SomeD:
  "owned_key j t = Some k \<Longrightarrow> \<exists>r \<in> set t. rs_job_id r = j \<and> rs_key r = k"
  by (auto simp: owned_key_def dest: lookup_row_SomeD)

lemma res_table_ok_release: "res_table_ok t \<Longrightarrow> res_table_ok (release_rows j t)"
  by (simp add: res_table_ok_def release_rows_def distinct_map_delete_rows)

lemma owned_key_iff:
  assumes "res_table_ok t"
  shows "owned_key j t = Some k \<longleftrightarrow> (\<exists>r \<in> set t. rs_job_id r = j \<and> rs_key r = k)"
proof
  assume "\<exists>r \<in> set t. rs_job_id r = j \<and> rs_key r = k"
  then obtain r where "r \<in> set t" "rs_job_id r = j" "rs_key r = k" by blast
  with assms show "owned_key j t = Some k"
    using lookup_row_distinct [of rs_job_id t r] by (simp add: res_table_ok_def owned_key_def)
qed (rule owned_key_SomeD)

lemma cleared_props:
  "res_table_ok t \<Longrightarrow> res_table_ok (cleared j t)"
  "owned_key j (cleared j t) = None"
  "i \<noteq> j \<Longrightarrow> owned_key i (cleared j t) = owned_key i t"
  by (auto simp: cleared_def res_table_ok_release owned_key_release owned_key_release_other)

lemma reserve_key_cleared:
  "reserve_key j k now t =
     (if owned_key j t = Some k then Inr t
      else if k \<in> rs_key ` set (cleared j t) then Inl err_output_conflict
      else Inr (cleared j t @ [\<lparr>rs_key = k, rs_job_id = j, rs_created = now\<rparr>]))"
proof -
  have "j \<notin> rs_job_id ` set (cleared j t)"
    using cleared_props(2) [of j t] unfolding owned_key_None_iff .
  then show ?thesis by (simp add: reserve_key_def Let_def)
qed

lemma reserve_key_ok:
  assumes "res_table_ok t" and "reserve_key j k now t = Inr t'"
  shows "res_table_ok t'" and "owned_key j t' = Some k"
    and "i \<noteq> j \<Longrightarrow> owned_key i t' = owned_key i t"
proof -
  note props = cleared_props [where t = t and j = j]
  have new: "j \<notin> rs_job_id ` set (cleared j t)"
    using props(2) unfolding owned_key_None_iff .
  show "res_table_ok t'"
    using assms props(1) new
    by (auto simp: reserve_key_cleared res_table_ok_def split: if_splits)
  show "owned_key j t' = Some k"
    using assms props(2) by (auto simp: reserve_key_cleared owned_key_append split: if_splits)
  show "i \<noteq> j \<Longrightarrow> owned_key i t' = owned_key i t"
    using assms props(3) [of i]
    by (auto simp: reserve_key_cleared owned_key_append split: if_splits option.splits)
qed

interpretation own: ownership "\<lambda>j k t. reserve_key j k now t" release_rows owned_key res_table_ok
proof unfold_locales
  fix t j k t' i
  assume ok: "res_table_ok t"
  show "reserve_key j k now t = Inr t' \<Longrightarrow> res_table_ok t'"
    "reserve_key j k now t = Inr t' \<Longrightarrow> owned_key j t' = Some k"
    "reserve_key j k now t = Inr t' \<Longrightarrow> i \<noteq> j \<Longrightarrow> owned_key i t' = owned_key i t"
    using reserve_key_ok [OF ok] by blast+
  show "res_table_ok (release_rows j t)" by (rule res_table_ok_release) (rule ok)
  show "owned_key j (release_rows j t) = None" by (rule owned_key_release)
  show "i \<noteq> j \<Longrightarrow> owned_key i (release_rows j t) = owned_key i t"
    by (rule owned_key_release_other)
  show "owned_key i t = Some k \<Longrightarrow> owned_key j t = Some k \<Longrightarrow> i = j"
    using ok unfolding owned_key_iff [OF ok]
    by (metis distinct_map_inj_on res_table_ok_def)
  assume others: "\<And>i. i \<noteq> j \<Longrightarrow> owned_key i t \<noteq> Some k"
  have "k \<notin> rs_key ` set (cleared j t)"
    using others cleared_props [where t = t and j = j] owned_key_iff [OF cleared_props(1) [OF ok]]
    by (metis imageE option.distinct(1))
  then show "\<exists>t'. reserve_key j k now t = Inr t'"
    by (simp add: reserve_key_cleared)
qed

end
