(* ===== verification/Job_Store_Ops.thy ===== *)
theory Job_Store_Ops
  imports Job_Store_Tables
begin

text \<open>
  The operations of \<open>SqliteJobStore\<close> on single jobs and on batches
  (\<open>crates/core/src/job_store.rs\<close>): creation, idempotent creation, queueing, transitions,
  claims, staging cleanup, validation of the output reservation, revalidation evidence,
  throughput samples and restart recovery. Each is a transaction body; the public function
  is \<open>run_tx\<close> of it.
\<close>

section \<open>Records handed out\<close>

record job_record =
  rec_id :: uuid
  rec_state :: job_state
  rec_input_path :: string
  rec_output_path :: string
  rec_plan_hash :: string
  rec_sequence :: nat
  rec_created :: int
  rec_updated :: int

record job_create_request =
  cr_input_path :: string
  cr_output_path :: string
  cr_plan :: plan

definition job_record_from_row :: "job_row \<Rightarrow> anole_error + job_record" where
  "job_record_from_row r =
     res_bind (parse_state (jr_state r)) (\<lambda>s.
       Inr \<lparr>rec_id = jr_id r, rec_state = s, rec_input_path = jr_input_path r,
            rec_output_path = jr_output_path r, rec_plan_hash = jr_plan_hash r,
            rec_sequence = jr_sequence r, rec_created = jr_created r,
            rec_updated = jr_updated r\<rparr>)"

definition moved_record :: "job_row \<Rightarrow> job_state \<Rightarrow> nat \<Rightarrow> int \<Rightarrow> job_record" where
  "moved_record r s sq now =
     \<lparr>rec_id = jr_id r, rec_state = s, rec_input_path = jr_input_path r,
      rec_output_path = jr_output_path r, rec_plan_hash = jr_plan_hash r,
      rec_sequence = sq, rec_created = jr_created r, rec_updated = now\<rparr>"

definition get_job :: "uuid \<Rightarrow> db \<Rightarrow> anole_error + job_record option" where
  "get_job j d =
     (case find_job j d of
        None \<Rightarrow> Inr None
      | Some r \<Rightarrow> res_bind (job_record_from_row r) (\<lambda>x. Inr (Some x)))"

section \<open>Creating jobs\<close>

definition err_serialize_plan :: anole_error where
  "err_serialize_plan = anole_error_new Internal Store ''Unable to serialize job Plan''"

definition serialize_plan :: "store_env \<Rightarrow> plan \<Rightarrow> anole_error + string" where
  "serialize_plan E p = ok_or err_serialize_plan (env_plan_json E p)"

text \<open>One round of the loop of \<open>insert_jobs\<close>: the row, the reservation, the first event.\<close>

definition insert_one ::
    "store_env \<Rightarrow> uuid \<Rightarrow> job_create_request \<Rightarrow> db \<Rightarrow> anole_error + job_record \<times> db" where
  "insert_one E j q d =
     res_bind (serialize_plan E (cr_plan q)) (\<lambda>pj.
     res_bind (insert_job_row
         \<lparr>jr_id = j, jr_state = state_name Planned, jr_input_path = cr_input_path q,
          jr_output_path = cr_output_path q, jr_plan_hash = plan_hash (cr_plan q),
          jr_plan_json = pj, jr_sequence = 0, jr_created = env_now E,
          jr_updated = env_now E\<rparr> d) (\<lambda>d1.
     res_bind (reserve_output E j (cr_output_path q) d1) (\<lambda>d2.
     res_bind (insert_event
         \<lparr>ev_job_id = j, ev_sequence = 0, ev_previous = None,
          ev_next = state_name Planned, ev_code = ''JOB_CREATED'',
          ev_timestamp = env_now E\<rparr> d2) (\<lambda>d3.
     Inr (\<lparr>rec_id = j, rec_state = Planned, rec_input_path = cr_input_path q,
           rec_output_path = cr_output_path q, rec_plan_hash = plan_hash (cr_plan q),
           rec_sequence = 0, rec_created = env_now E, rec_updated = env_now E\<rparr>, d3)))))"

text \<open>The loop; \<open>k\<close> counts the identifiers drawn so far in this call.\<close>

fun insert_jobs ::
    "store_env \<Rightarrow> nat \<Rightarrow> job_create_request list \<Rightarrow> db \<Rightarrow> anole_error + job_record list \<times> db" where
  "insert_jobs E k [] d = Inr ([], d)"
| "insert_jobs E k (q # qs) d =
     res_bind (insert_one E (env_uuid E k) q d) (\<lambda>(r, d1).
     res_bind (insert_jobs E (Suc k) qs d1) (\<lambda>(rs, d2).
     Inr (r # rs, d2)))"

definition create_jobs ::
    "store_env \<Rightarrow> job_create_request list \<Rightarrow> db \<Rightarrow> (anole_error + job_record list) \<times> db" where
  "create_jobs E qs d = (if qs = [] then (Inr [], d) else run_tx (insert_jobs E 0 qs) d)"

definition create_job ::
    "store_env \<Rightarrow> job_create_request \<Rightarrow> db \<Rightarrow> (anole_error + job_record) \<times> db" where
  "create_job E q d =
     (case create_jobs E [q] d of
        (Inl e, d') \<Rightarrow> (Inl e, d')
      | (Inr rs, d') \<Rightarrow>
          (if rs = []
           then (Inl (anole_error_new Internal Store ''Bulk job creation returned no job''), d')
           else (Inr (last rs), d')))"

section \<open>Batches\<close>

definition visible_text :: "nat \<Rightarrow> string \<Rightarrow> bool" where
  "visible_text n s = (s \<noteq> [] \<and> chars_count s \<le> n \<and> \<not> has_control s)"

definition validate_batch_name :: "string \<Rightarrow> anole_error + string" where
  "validate_batch_name name =
     (let n = trim name
      in if visible_text 120 n then Inr n
         else Inl (anole_error_new InputInvalid Store
                     ''Batch name must contain 1-120 visible characters''))"

definition validate_idempotency_key :: "string \<Rightarrow> anole_error + string" where
  "validate_idempotency_key key =
     (let k = trim key
      in if visible_text 200 k then Inr k
         else Inl (anole_error_new InputInvalid Store
                     ''Idempotency key must contain 1-200 visible characters''))"

definition insert_batch_row :: "batch_row \<Rightarrow> db \<Rightarrow> anole_error + db" where
  "insert_batch_row b d =
     (if ba_id b \<in> ba_id ` set (batches d) then Inl err_storage
      else Inr (d\<lparr>batches := batches d @ [b]\<rparr>))"

definition insert_batch_member :: "member_row \<Rightarrow> db \<Rightarrow> anole_error + db" where
  "insert_batch_member m d =
     (if mb_job_id m \<in> mb_job_id ` set (batch_members d)
         \<or> (\<exists>x \<in> set (batch_members d).
              mb_batch_id x = mb_batch_id m \<and> mb_ordinal x = mb_ordinal m)
         \<or> mb_job_id m \<notin> job_ids d \<or> mb_batch_id m \<notin> ba_id ` set (batches d)
      then Inl err_storage
      else Inr (d\<lparr>batch_members := batch_members d @ [m]\<rparr>))"

definition add_members ::
    "uuid \<Rightarrow> job_record list \<Rightarrow> db \<Rightarrow> anole_error + db" where
  "add_members b rs d =
     res_fold (\<lambda>d (i, r). insert_batch_member
         \<lparr>mb_batch_id = b, mb_job_id = rec_id r, mb_ordinal = i\<rparr> d)
       d (enumerate 0 rs)"

text \<open>
  A fresh planned job put into the queue: the \<open>UPDATE\<close> and the event of \<open>create_batch_inner\<close>
  and of \<open>create_job_idempotent_with_state\<close>.
\<close>

definition enqueue_new :: "store_env \<Rightarrow> string \<Rightarrow> uuid \<Rightarrow> db \<Rightarrow> anole_error + db" where
  "enqueue_new E c j d =
     res_bind (update_job_state j (state_name Planned) 0 (state_name Queued) 1 (env_now E) d)
       (\<lambda>(_, d1). insert_event
         \<lparr>ev_job_id = j, ev_sequence = 1, ev_previous = Some (state_name Planned),
          ev_next = state_name Queued, ev_code = c, ev_timestamp = env_now E\<rparr> d1)"

record batch_record =
  br_id :: uuid
  br_name :: string
  br_job_count :: nat
  br_created :: int
  br_updated :: int

definition create_batch_inner ::
    "store_env \<Rightarrow> string \<Rightarrow> job_create_request list \<Rightarrow> bool \<Rightarrow> db
     \<Rightarrow> (anole_error + batch_record) \<times> db" where
  "create_batch_inner E name qs enqueue d =
     (case validate_batch_name name of
        Inl e \<Rightarrow> (Inl e, d)
      | Inr n \<Rightarrow>
        if qs = [] \<or> length qs > 100000
        then (Inl (anole_error_new InputInvalid Store
                ''A batch must contain between 1 and 100,000 jobs''), d)
        else run_tx (\<lambda>d.
          let b = env_uuid E 0 in
          res_bind (insert_batch_row
              \<lparr>ba_id = b, ba_name = n, ba_created = env_now E, ba_updated = env_now E\<rparr> d) (\<lambda>d1.
          res_bind (insert_jobs E 1 qs d1) (\<lambda>(rs, d2).
          res_bind (add_members b rs d2) (\<lambda>d3.
          res_bind (if enqueue
                    then res_fold (\<lambda>d r. enqueue_new E ''BATCH_QUEUED'' (rec_id r) d) d3 rs
                    else Inr d3) (\<lambda>d4.
          Inr (\<lparr>br_id = b, br_name = n, br_job_count = length rs,
                br_created = env_now E, br_updated = env_now E\<rparr>, d4)))))) d)"

definition create_batch ::
    "store_env \<Rightarrow> string \<Rightarrow> job_create_request list \<Rightarrow> db
     \<Rightarrow> (anole_error + batch_record) \<times> db" where
  "create_batch E name qs d = create_batch_inner E name qs False d"

definition create_queued_batch ::
    "store_env \<Rightarrow> string \<Rightarrow> job_create_request list \<Rightarrow> db
     \<Rightarrow> (anole_error + batch_record) \<times> db" where
  "create_queued_batch E name qs d = create_batch_inner E name qs True d"

section \<open>Idempotent creation\<close>

record idempotent_result =
  ir_job :: job_record
  ir_created :: bool

text \<open>The join of the key table with the jobs.\<close>

definition bound_job :: "string \<Rightarrow> db \<Rightarrow> job_row option" where
  "bound_job k d =
     (case lookup_row ik_key k (idempotency_keys d) of
        None \<Rightarrow> None
      | Some i \<Rightarrow> find_job (ik_job_id i) d)"

definition insert_idempotency_key :: "idempotency_row \<Rightarrow> db \<Rightarrow> anole_error + db" where
  "insert_idempotency_key i d =
     (if ik_key i \<in> ik_key ` set (idempotency_keys d)
         \<or> ik_job_id i \<in> ik_job_id ` set (idempotency_keys d) \<or> ik_job_id i \<notin> job_ids d
      then Inl err_storage
      else Inr (d\<lparr>idempotency_keys := idempotency_keys d @ [i]\<rparr>))"

definition err_key_bound :: anole_error where
  "err_key_bound = anole_error_new PolicyBlocked Store
     ''The idempotency key is already bound to a different job intent''"

text \<open>
  \<open>row.2 == input && row.4 == hash && reservation_key(a)? == reservation_key(b)?\<close>: the paths
  are resolved only when the first two comparisons hold.
\<close>

definition same_intent ::
    "store_env \<Rightarrow> job_row \<Rightarrow> job_create_request \<Rightarrow> anole_error + bool" where
  "same_intent E r q =
     (if jr_input_path r = cr_input_path q \<and> jr_plan_hash r = plan_hash (cr_plan q)
      then res_bind (env_key E (jr_output_path r)) (\<lambda>a.
           res_bind (env_key E (cr_output_path q)) (\<lambda>b. Inr (a = b)))
      else Inr False)"

definition idempotent_tx ::
    "store_env \<Rightarrow> string \<Rightarrow> job_create_request \<Rightarrow> bool \<Rightarrow> idempotent_result tx" where
  "idempotent_tx E k q enqueue d =
     (case bound_job k d of
        Some row \<Rightarrow>
          res_bind (same_intent E row q) (\<lambda>same.
          if \<not> same then Inl err_key_bound
          else res_bind (job_record_from_row row) (\<lambda>r.
               Inr (\<lparr>ir_job = r, ir_created = False\<rparr>, d)))
      | None \<Rightarrow>
          res_bind (insert_jobs E 0 [q] d) (\<lambda>(rs, d1).
          if rs = []
          then Inl (anole_error_new Internal Store ''Idempotent job creation produced no job'')
          else let r = last rs in
          res_bind (insert_idempotency_key
              \<lparr>ik_key = k, ik_job_id = rec_id r, ik_created = env_now E\<rparr> d1) (\<lambda>d2.
          if enqueue
          then res_bind (enqueue_new E ''JOB_ENQUEUED'' (rec_id r) d2) (\<lambda>d3.
               Inr (\<lparr>ir_job = r\<lparr>rec_state := Queued, rec_sequence := 1\<rparr>, ir_created = True\<rparr>, d3))
          else Inr (\<lparr>ir_job = r, ir_created = True\<rparr>, d2))))"

definition create_job_idempotent_with_state ::
    "store_env \<Rightarrow> string \<Rightarrow> job_create_request \<Rightarrow> bool \<Rightarrow> db
     \<Rightarrow> (anole_error + idempotent_result) \<times> db" where
  "create_job_idempotent_with_state E key q enqueue d =
     (case validate_idempotency_key key of
        Inl e \<Rightarrow> (Inl e, d)
      | Inr k \<Rightarrow> run_tx (idempotent_tx E k q enqueue) d)"

section \<open>Moving jobs between states\<close>

text \<open>
  The \<open>UPDATE\<close> of a state with its guard on the state and sequence that were read, and the
  event that records it.
\<close>

definition move_job ::
    "store_env \<Rightarrow> job_row \<Rightarrow> job_state \<Rightarrow> job_state \<Rightarrow> string \<Rightarrow> db \<Rightarrow> anole_error + db" where
  "move_job E row current nxt c d =
     (let sq = sat_add (jr_sequence row) 1 in
      res_bind (update_job_state (jr_id row) (state_name current) (jr_sequence row)
                  (state_name nxt) sq (env_now E) d) (\<lambda>(n, d1).
      if n \<noteq> 1 then Inl err_concurrent
      else insert_event
             \<lparr>ev_job_id = jr_id row, ev_sequence = sq,
              ev_previous = Some (state_name current), ev_next = state_name nxt,
              ev_code = c, ev_timestamp = env_now E\<rparr> d1))"

definition queue_one ::
    "store_env \<Rightarrow> string \<Rightarrow> uuid \<Rightarrow> db \<Rightarrow> anole_error + job_record \<times> db" where
  "queue_one E c j d =
     res_bind (ok_or err_job_missing (find_job j d)) (\<lambda>row.
     res_bind (parse_state (jr_state row)) (\<lambda>current.
     res_bind (ensure (can_transition_to current Queued) err_bad_transition) (\<lambda>_.
     res_bind (reserve_output E j (jr_output_path row) d) (\<lambda>d1.
     res_bind (move_job E row current Queued c d1) (\<lambda>d2.
     Inr (moved_record row Queued (sat_add (jr_sequence row) 1) (env_now E), d2))))))"

fun queue_all ::
    "store_env \<Rightarrow> string \<Rightarrow> uuid list \<Rightarrow> db \<Rightarrow> anole_error + job_record list \<times> db" where
  "queue_all E c [] d = Inr ([], d)"
| "queue_all E c (j # js) d =
     res_bind (queue_one E c j d) (\<lambda>(r, d1).
     res_bind (queue_all E c js d1) (\<lambda>(rs, d2). Inr (r # rs, d2)))"

definition queue_jobs ::
    "store_env \<Rightarrow> uuid list \<Rightarrow> string \<Rightarrow> db \<Rightarrow> (anole_error + job_record list) \<times> db" where
  "queue_jobs E js c d = (if js = [] then (Inr [], d) else run_tx (queue_all E c js) d)"

definition transition_tx ::
    "store_env \<Rightarrow> uuid \<Rightarrow> job_state \<Rightarrow> string \<Rightarrow> job_record tx" where
  "transition_tx E j nxt c d =
     res_bind (ok_or err_job_missing (find_job j d)) (\<lambda>row.
     res_bind (parse_state (jr_state row)) (\<lambda>current.
     res_bind (ensure (can_transition_to current nxt) err_bad_transition) (\<lambda>_.
     res_bind (if nxt = Queued then reserve_output E j (jr_output_path row) d else Inr d) (\<lambda>d1.
     res_bind (move_job E row current nxt c d1) (\<lambda>d2.
     Inr (moved_record row nxt (sat_add (jr_sequence row) 1) (env_now E),
          if is_terminal nxt then release_output j d2 else d2))))))"

definition transition ::
    "store_env \<Rightarrow> uuid \<Rightarrow> job_state \<Rightarrow> string \<Rightarrow> db \<Rightarrow> (anole_error + job_record) \<times> db" where
  "transition E j nxt c d = run_tx (transition_tx E j nxt c) d"

text \<open>
  The claim: a job that is no longer queued is not an error, another process owns it. A row
  that changed between the read and the \<open>UPDATE\<close> is the same.
\<close>

definition claim_tx :: "store_env \<Rightarrow> uuid \<Rightarrow> string \<Rightarrow> job_record option tx" where
  "claim_tx E j c d =
     res_bind (ok_or err_job_missing (find_job j d)) (\<lambda>row.
     res_bind (parse_state (jr_state row)) (\<lambda>current.
     if current \<noteq> Queued then Inr (None, d)
     else let sq = sat_add (jr_sequence row) 1 in
     res_bind (update_job_state j (state_name Queued) (jr_sequence row)
                 (state_name Inspecting) sq (env_now E) d) (\<lambda>(n, d1).
     if n \<noteq> 1 then Inr (None, d1)
     else res_bind (insert_event
            \<lparr>ev_job_id = j, ev_sequence = sq, ev_previous = Some (state_name Queued),
             ev_next = state_name Inspecting, ev_code = c, ev_timestamp = env_now E\<rparr> d1) (\<lambda>d2.
          Inr (Some (moved_record row Inspecting sq (env_now E)), d2)))))"

definition claim_queued_job ::
    "store_env \<Rightarrow> uuid \<Rightarrow> string \<Rightarrow> db \<Rightarrow> (anole_error + job_record option) \<times> db" where
  "claim_queued_job E j c d = run_tx (claim_tx E j c) d"

text \<open>
  Staging cleanup: an audit event without a change of state. \<open>cleanup\<close> is the file removal,
  which tells whether something was there.
\<close>

definition err_cleanup_state :: anole_error where
  "err_cleanup_state = anole_error_new PolicyBlocked Commit
     ''Staging cleanup is not allowed while the job is {}''"

definition cleanup_tx ::
    "store_env \<Rightarrow> uuid \<Rightarrow> (job_record \<Rightarrow> anole_error + bool) \<Rightarrow> (job_record \<times> bool) tx" where
  "cleanup_tx E j cleanup d =
     res_bind (ok_or err_job_missing (find_job j d)) (\<lambda>row.
     res_bind (job_record_from_row row) (\<lambda>job.
     res_bind (ensure (rec_state job \<in> {Blocked, Failed, Cancelled, Interrupted})
                 err_cleanup_state) (\<lambda>_.
     res_bind (cleanup job) (\<lambda>removed.
     res_bind (move_job E row (rec_state job) (rec_state job)
         (if removed then ''STAGED_OUTPUT_CLEANED'' else ''STAGED_OUTPUT_NOT_FOUND'') d) (\<lambda>d1.
     Inr ((job\<lparr>rec_sequence := sat_add (rec_sequence job) 1, rec_updated := env_now E\<rparr>,
           removed), d1))))))"

definition cleanup_staging_persisted ::
    "store_env \<Rightarrow> uuid \<Rightarrow> (job_record \<Rightarrow> anole_error + bool) \<Rightarrow> db
     \<Rightarrow> (anole_error + job_record \<times> bool) \<times> db" where
  "cleanup_staging_persisted E j cleanup d = run_tx (cleanup_tx E j cleanup) d"

section \<open>Reading the reservation back\<close>

definition err_no_reservation :: anole_error where
  "err_no_reservation = anole_error_new StorageFailed Store
     ''Active job has no durable output reservation''"

definition err_identity_changed :: anole_error where
  "err_identity_changed = anole_error_new OutputConflict Store
     ''Output path identity changed after the job was queued''"

definition validate_output_reservation :: "store_env \<Rightarrow> uuid \<Rightarrow> db \<Rightarrow> anole_error + unit" where
  "validate_output_reservation E j d =
     res_bind (get_job j d) (\<lambda>found.
     res_bind (ok_or err_job_missing found) (\<lambda>job.
     res_bind (ok_or err_no_reservation (owned_key j (output_reservations d))) (\<lambda>stored.
     res_bind (env_key E (rec_output_path job)) (\<lambda>current.
     ensure (current = stored) err_identity_changed))))"

section \<open>Revalidation evidence\<close>

record revalidation_record =
  rr_id :: uuid
  rr_job :: uuid
  rr_status :: validation_status
  rr_report :: validation_report
  rr_created :: int

definition revalidation_tx ::
    "store_env \<Rightarrow> uuid \<Rightarrow> validation_report \<Rightarrow> string \<Rightarrow> revalidation_record tx" where
  "revalidation_tx E j report body d =
     res_bind (ok_or err_job_missing (find_job j d)) (\<lambda>row.
     res_bind (parse_state (jr_state row)) (\<lambda>s.
     res_bind (ensure (s \<in> {Completed, Warning, Failed})
         (anole_error_new PolicyBlocked Validate
            ''Only terminal jobs with an output can record revalidation evidence'')) (\<lambda>_.
     res_bind (ensure (report_plan_hash report = jr_plan_hash row)
         (anole_error_new InputChanged Validate
            ''Revalidation report does not match the stored immutable Plan'')) (\<lambda>_.
     res_bind (ensure (env_uuid E 0 \<notin> rv_id ` set (revalidations d)) err_storage) (\<lambda>_.
     Inr (\<lparr>rr_id = env_uuid E 0, rr_job = j, rr_status = report_status report,
           rr_report = report, rr_created = env_now E\<rparr>,
          d\<lparr>revalidations := revalidations d @
             [\<lparr>rv_id = env_uuid E 0, rv_job_id = j,
               rv_status = validation_status_name (report_status report),
               rv_report_json = body, rv_created = env_now E\<rparr>]\<rparr>))))))"

definition record_revalidation ::
    "store_env \<Rightarrow> uuid \<Rightarrow> validation_report \<Rightarrow> db
     \<Rightarrow> (anole_error + revalidation_record) \<times> db" where
  "record_revalidation E j report d =
     (if report_job_id report \<noteq> j
      then (Inl (anole_error_new InputInvalid Validate
              ''Revalidation report belongs to another job''), d)
      else case env_report_json E report of
        None \<Rightarrow> (Inl (anole_error_new StorageFailed Validate
              ''Revalidation report could not be serialized''), d)
      | Some body \<Rightarrow>
        if length body > 16 * 1024 * 1024
        then (Inl (anole_error_new ResourceExhausted Validate
              ''Revalidation report exceeds the 16 MiB limit''), d)
        else run_tx (revalidation_tx E j report body) d)"

section \<open>Engine throughput samples\<close>

definition engine_throughput_sample_window :: nat where
  "engine_throughput_sample_window = 64"

definition engine_throughput_rate_window :: nat where
  "engine_throughput_rate_window = 16"

record throughput_sample =
  ts_engine_id :: string
  ts_capability_id :: string
  ts_wall_millis :: nat
  ts_input_bytes :: "nat option"
  ts_output_bytes :: "nat option"
  ts_completed :: int

text \<open>\<open>i64::try_from(x).unwrap_or(i64::MAX)\<close>.\<close>

definition to_i64 :: "nat \<Rightarrow> int" where
  "to_i64 n = int (min n i64_max)"

definition same_pair :: "string \<Rightarrow> string \<Rightarrow> sample_row \<Rightarrow> bool" where
  "same_pair e c s = (sp_engine_id s = e \<and> sp_capability_id s = c)"

text \<open>
  \<open>ORDER BY id DESC LIMIT n\<close>: rows are appended under increasing automatic identifiers, so
  the rows in reverse table order are in descending order of identifier.
\<close>

definition newest_samples :: "nat \<Rightarrow> string \<Rightarrow> string \<Rightarrow> sample_row list \<Rightarrow> sample_row list" where
  "newest_samples n e c t = take n (rev (filter (same_pair e c) t))"

definition record_engine_throughput_sample ::
    "throughput_sample \<Rightarrow> db \<Rightarrow> (anole_error + unit) \<times> db" where
  "record_engine_throughput_sample x d = run_tx (\<lambda>d.
     let t = throughput_samples d @
           [\<lparr>sp_id = next_sample_id d, sp_engine_id = ts_engine_id x,
             sp_capability_id = ts_capability_id x, sp_wall_millis = to_i64 (ts_wall_millis x),
             sp_input_bytes = map_option to_i64 (ts_input_bytes x),
             sp_output_bytes = map_option to_i64 (ts_output_bytes x),
             sp_completed = ts_completed x\<rparr>];
         keep = sp_id ` set (newest_samples engine_throughput_sample_window
                  (ts_engine_id x) (ts_capability_id x) t)
     in Inr ((), d\<lparr>throughput_samples := delete_rows
                  (\<lambda>s. same_pair (ts_engine_id x) (ts_capability_id x) s \<and> sp_id s \<notin> keep) t,
                next_sample_id := Suc (next_sample_id d)\<rparr>)) d"

text \<open>
  The totals over the newest usable samples; the rate is their quotient in bytes per second,
  exact before its rounding to \<open>f64\<close>. A sum beyond \<open>i64\<close> is SQLite's integer overflow error.
\<close>

definition usable_sample :: "sample_row \<Rightarrow> bool" where
  "usable_sample s = (sp_output_bytes s \<noteq> None \<and> sp_wall_millis s > 0)"

definition measured_throughput_bytes_per_sec ::
    "string \<Rightarrow> string \<Rightarrow> db \<Rightarrow> anole_error + rat option" where
  "measured_throughput_bytes_per_sec e c d =
     (let rows = take engine_throughput_rate_window
                   (filter usable_sample (rev (filter (same_pair e c) (throughput_samples d))));
          bytes = sum_list (List.map_filter sp_output_bytes rows);
          wall = sum_list (map sp_wall_millis rows)
      in if bytes > int i64_max \<or> wall > int i64_max then Inl err_storage
         else if rows = [] \<or> wall \<le> 0 \<or> bytes \<le> 0 then Inr None
         else Inr (Some (rat_of_int bytes / (rat_of_int wall / 1000))))"

section \<open>Restart recovery\<close>

text \<open>
  \<open>interrupt_active_jobs\<close>: one transaction per job; the first failing one stops the loop and
  leaves the transitions before it committed.
\<close>

fun interrupt_each ::
    "store_env \<Rightarrow> uuid list \<Rightarrow> db \<Rightarrow> (anole_error + job_record list) \<times> db" where
  "interrupt_each E [] d = (Inr [], d)"
| "interrupt_each E (j # js) d =
     (case transition E j Interrupted ''RECOVERED_AFTER_RESTART'' d of
        (Inl e, d1) \<Rightarrow> (Inl e, d1)
      | (Inr r, d1) \<Rightarrow>
          (case interrupt_each E js d1 of
             (Inl e, d2) \<Rightarrow> (Inl e, d2)
           | (Inr rs, d2) \<Rightarrow> (Inr (r # rs), d2)))"

definition active_job_ids :: "db \<Rightarrow> uuid list" where
  "active_job_ids d =
     map jr_id (filter (\<lambda>r. jr_state r = ''running'' \<or> jr_state r = ''validating'') (jobs d))"

definition interrupt_active_jobs ::
    "store_env \<Rightarrow> db \<Rightarrow> (anole_error + job_record list) \<times> db" where
  "interrupt_active_jobs E d = interrupt_each E (active_job_ids d) d"

definition mark_active_jobs_interrupted ::
    "store_env \<Rightarrow> db \<Rightarrow> (anole_error + nat) \<times> db" where
  "mark_active_jobs_interrupted E d =
     (case interrupt_active_jobs E d of
        (Inl e, d') \<Rightarrow> (Inl e, d')
      | (Inr rs, d') \<Rightarrow> (Inr (length rs), d'))"

end
