(* ===== verification/Job_Store_Inv.thy ===== *)
theory Job_Store_Inv
  imports Job_Store_Ops
begin

text \<open>
  The invariant of the job store: identifiers are unique, the event log of every job replays
  to its current state and sequence under the transition table, exactly the jobs in a
  non-terminal state own an output reservation, and no two jobs own the same key. Every
  operation of \<open>Job_Store_Ops\<close> keeps it.
\<close>

section \<open>The event log of a job\<close>

definition legal_step :: "job_state \<Rightarrow> job_state \<Rightarrow> bool" where
  "legal_step a b \<longleftrightarrow> can_transition_to a b \<or> a = b"

inductive log_ok :: "event_row list \<Rightarrow> job_state \<Rightarrow> nat \<Rightarrow> bool" where
  created: "ev_sequence e = 0 \<Longrightarrow> ev_previous e = None \<Longrightarrow> ev_next e = state_name Planned
     \<Longrightarrow> log_ok [e] Planned 0"
| moved: "log_ok es a n \<Longrightarrow> legal_step a b \<Longrightarrow> ev_sequence e = Suc n
     \<Longrightarrow> ev_previous e = Some (state_name a) \<Longrightarrow> ev_next e = state_name b
     \<Longrightarrow> log_ok (es @ [e]) b (Suc n)"

inductive_cases log_ok_NilE: "log_ok [] s n"
inductive_simps log_ok_single: "log_ok [e] s 0"

text \<open>
  Replaying a log: each event must continue the state and the sequence before it by a legal
  step.
\<close>

fun replay_step :: "(job_state \<times> nat) option \<Rightarrow> event_row \<Rightarrow> (job_state \<times> nat) option" where
  "replay_step None e =
     (if ev_previous e = None \<and> ev_next e = state_name Planned \<and> ev_sequence e = 0
      then Some (Planned, 0) else None)"
| "replay_step (Some (a, n)) e =
     (case parse_state (ev_next e) of
        Inl _ \<Rightarrow> None
      | Inr b \<Rightarrow>
          if ev_previous e = Some (state_name a) \<and> ev_sequence e = Suc n
             \<and> (can_transition_to a b \<or> a = b)
          then Some (b, Suc n) else None)"

definition replay :: "event_row list \<Rightarrow> (job_state \<times> nat) option" where
  "replay es = foldl replay_step None es"

lemma replay_log_ok: "log_ok es s n \<Longrightarrow> replay es = Some (s, n)"
  by (induction rule: log_ok.induct) (auto simp: replay_def legal_step_def)

lemma log_ok_sequences: "log_ok es s n \<Longrightarrow> map ev_sequence es = [0..<Suc n]"
  by (induction rule: log_ok.induct) auto

lemma log_ok_sequence_le: "log_ok es s n \<Longrightarrow> e \<in> set es \<Longrightarrow> ev_sequence e \<le> n"
  by (induction rule: log_ok.induct) auto

section \<open>The invariant\<close>

definition job_ok :: "uuid \<Rightarrow> db \<Rightarrow> bool" where
  "job_ok j d \<longleftrightarrow>
     (case find_job j d of
        None \<Rightarrow> events_of j d = [] \<and> owned_key j (output_reservations d) = None
      | Some r \<Rightarrow> \<exists>s. jr_state r = state_name s \<and> jr_sequence r \<le> i64_max
          \<and> log_ok (events_of j d) s (jr_sequence r)
          \<and> (owned_key j (output_reservations d) \<noteq> None \<longleftrightarrow> \<not> is_terminal s))"

definition store_inv :: "db \<Rightarrow> bool" where
  "store_inv d \<longleftrightarrow>
     distinct (map jr_id (jobs d)) \<and> res_table_ok (output_reservations d)
     \<and> (\<forall>j. job_ok j d)"

text \<open>A change that concerns one job: everything the invariant reads of another is equal.\<close>

definition same_job :: "uuid \<Rightarrow> db \<Rightarrow> db \<Rightarrow> bool" where
  "same_job i d d' \<longleftrightarrow>
     find_job i d' = find_job i d \<and> events_of i d' = events_of i d
     \<and> owned_key i (output_reservations d') = owned_key i (output_reservations d)"

lemma same_job_refl [simp]: "same_job i d d"
  by (simp add: same_job_def)

lemma same_job_trans: "same_job i d d1 \<Longrightarrow> same_job i d1 d2 \<Longrightarrow> same_job i d d2"
  by (simp add: same_job_def)

lemma job_ok_same: "same_job i d d' \<Longrightarrow> job_ok i d \<Longrightarrow> job_ok i d'"
  by (cases "find_job i d") (auto simp: same_job_def job_ok_def)

lemma store_inv_local:
  assumes "store_inv d" and "distinct (map jr_id (jobs d'))"
    and "res_table_ok (output_reservations d')" and "job_ok j d'"
    and "\<And>i. i \<noteq> j \<Longrightarrow> same_job i d d'"
  shows "store_inv d'"
proof -
  have "job_ok i d'" for i
  proof (cases "i = j")
    case False
    with assms(1,5) show ?thesis by (auto simp: store_inv_def intro: job_ok_same)
  qed (simp add: assms(4))
  with assms(2,3) show ?thesis by (simp add: store_inv_def)
qed

lemma store_inv_empty: "store_inv empty_db"
  by (simp add: store_inv_def empty_db_def res_table_ok_def job_ok_def find_job_def events_of_def
      owned_key_def)

lemma find_job_id: "find_job j d = Some r \<Longrightarrow> jr_id r = j"
  by (auto simp: find_job_def dest: lookup_row_SomeD)

lemma find_job_None_iff: "find_job j d = None \<longleftrightarrow> j \<notin> job_ids d"
  by (simp add: find_job_def job_ids_def lookup_row_None_iff)

lemma find_job_in: "find_job j d = Some r \<Longrightarrow> r \<in> set (jobs d)"
  by (auto simp: find_job_def dest: lookup_row_SomeD)

lemma find_job_member: "store_inv d \<Longrightarrow> r \<in> set (jobs d) \<Longrightarrow> find_job (jr_id r) d = Some r"
  by (simp add: store_inv_def find_job_def lookup_row_distinct)

lemma store_inv_rowE:
  assumes "store_inv d" and "find_job j d = Some r"
  obtains s where "jr_state r = state_name s" "jr_sequence r \<le> i64_max"
    "log_ok (events_of j d) s (jr_sequence r)"
    "owned_key j (output_reservations d) \<noteq> None \<longleftrightarrow> \<not> is_terminal s"
proof -
  have "job_ok j d" using assms(1) by (simp add: store_inv_def)
  then show thesis unfolding job_ok_def assms(2) option.case using that by blast
qed

text \<open>The three tables the invariant reads; updates of the others keep it.\<close>

lemma store_inv_cong:
  assumes "jobs d' = jobs d" and "job_events d' = job_events d"
    and "output_reservations d' = output_reservations d"
  shows "store_inv d' = store_inv d"
  unfolding store_inv_def job_ok_def find_job_def events_of_def assms ..

lemma store_inv_updates [simp]:
  "store_inv (d\<lparr>batches := x0\<rparr>) = store_inv d"
  "store_inv (d\<lparr>batch_members := x1\<rparr>) = store_inv d"
  "store_inv (d\<lparr>idempotency_keys := x2\<rparr>) = store_inv d"
  "store_inv (d\<lparr>selection_snapshots := x3\<rparr>) = store_inv d"
  "store_inv (d\<lparr>selection_members := x4\<rparr>) = store_inv d"
  "store_inv (d\<lparr>bulk_actions := x5\<rparr>) = store_inv d"
  "store_inv (d\<lparr>bulk_action_members := x6\<rparr>) = store_inv d"
  "store_inv (d\<lparr>revalidations := x7\<rparr>) = store_inv d"
  "store_inv (d\<lparr>throughput_samples := x8\<rparr>) = store_inv d"
  "store_inv (d\<lparr>next_sample_id := x9\<rparr>) = store_inv d"
  by (rule store_inv_cong; simp)+

section \<open>Statements\<close>

lemma sat_add_Suc:
  "n \<le> i64_max \<Longrightarrow> sat_add n 1 = Suc n"
  "n \<le> i64_max \<Longrightarrow> sat_add n (Suc 0) = Suc n"
  by (simp_all add: sat_add_def i64_max_def u64_max_def)

lemma events_of_append:
  "events_of i (d\<lparr>job_events := job_events d @ [e]\<rparr>) =
     (if ev_job_id e = i then events_of i d @ [e] else events_of i d)"
  by (simp add: events_of_def)

lemma insert_event_Inr:
  "insert_event e d = Inr d' \<Longrightarrow> d' = d\<lparr>job_events := job_events d @ [e]\<rparr>"
  by (auto simp: insert_event_def split: if_splits)

lemma update_job_state_Inr:
  assumes "update_job_state j cur sq nxt sq' now d = Inr (n, d')"
  shows "d' = d\<lparr>jobs := update_rows (matches_row j cur sq) (set_state_row nxt sq' now) (jobs d)\<rparr>"
    and "sq' \<le> i64_max"
    and "n = length (filter (matches_row j cur sq) (jobs d))"
  using assms by (auto simp: update_job_state_def sql_u64_def)

lemma set_state_row_id [simp]: "jr_id (set_state_row st sq now r) = jr_id r"
  by (simp add: set_state_row_def)

lemma find_job_update:
  "find_job i (d\<lparr>jobs := update_rows p (set_state_row st sq now) (jobs d)\<rparr>) =
     map_option (\<lambda>r. if p r then set_state_row st sq now r else r) (find_job i d)"
  by (simp add: find_job_def lookup_update_rows)

lemma distinct_update:
  "distinct (map jr_id (jobs d)) \<Longrightarrow>
   distinct (map jr_id (update_rows p (set_state_row st sq now) (jobs d)))"
  by (simp add: map_update_rows)

lemma reserve_output_Inr:
  assumes run: "reserve_output E j path d = Inr d'" and ok: "res_table_ok (output_reservations d)"
  shows "jobs d' = jobs d" and "job_events d' = job_events d"
    and "res_table_ok (output_reservations d')"
    and "map_option Inr (owned_key j (output_reservations d')) = Some (env_key E path)"
    and "i \<noteq> j \<Longrightarrow> owned_key i (output_reservations d') = owned_key i (output_reservations d)"
proof -
  obtain k where k: "env_key E path = Inr k" using run by (auto simp: reserve_output_def)
  have "(owned_key j (output_reservations d) = Some k \<and> d' = d)
    \<or> (\<exists>t. reserve_key j k (env_now E) (output_reservations d) = Inr t
          \<and> d' = d\<lparr>output_reservations := t\<rparr>)"
    using run unfolding reserve_output_def k by (simp split: if_splits) blast
  then consider "owned_key j (output_reservations d) = Some k" "d' = d"
    | t where "reserve_key j k (env_now E) (output_reservations d) = Inr t"
        "d' = d\<lparr>output_reservations := t\<rparr>" by blast
  then have "jobs d' = jobs d \<and> job_events d' = job_events d
    \<and> res_table_ok (output_reservations d') \<and> owned_key j (output_reservations d') = Some k
    \<and> (i \<noteq> j \<longrightarrow> owned_key i (output_reservations d') = owned_key i (output_reservations d))"
  proof cases
    case (2 t)
    with own.ok_reserve [OF ok 2(1)] own.reserve_own [OF ok 2(1)] own.reserve_other [OF ok 2(1)]
    show ?thesis by simp
  qed (simp add: ok)
  with k show "jobs d' = jobs d" and "job_events d' = job_events d"
    and "res_table_ok (output_reservations d')"
    and "map_option Inr (owned_key j (output_reservations d')) = Some (env_key E path)"
    and "i \<noteq> j \<Longrightarrow> owned_key i (output_reservations d') = owned_key i (output_reservations d)"
    by simp_all
qed

lemma reserve_output_frame:
  assumes "reserve_output E j path d = Inr d'"
  shows "jobs d' = jobs d" and "job_events d' = job_events d"
    and "idempotency_keys d' = idempotency_keys d" and "batches d' = batches d"
    and "batch_members d' = batch_members d"
  using assms by (auto simp: reserve_output_def split: if_splits)

section \<open>Moving a job\<close>

lemma move_job_Inr:
  assumes move: "move_job E row cur nxt c d = Inr d'"
    and row: "find_job (jr_id row) d = Some row" "jr_state row = state_name cur"
    and seq: "jr_sequence row \<le> i64_max"
  shows "find_job i d' = (if i = jr_id row
            then Some (set_state_row (state_name nxt) (Suc (jr_sequence row)) (env_now E) row)
            else find_job i d)"
    and "events_of i d' = (if i = jr_id row then events_of i d @
            [\<lparr>ev_job_id = jr_id row, ev_sequence = Suc (jr_sequence row),
              ev_previous = Some (state_name cur), ev_next = state_name nxt,
              ev_code = c, ev_timestamp = env_now E\<rparr>] else events_of i d)"
    and "output_reservations d' = output_reservations d"
    and "Suc (jr_sequence row) \<le> i64_max"
    and "distinct (map jr_id (jobs d)) \<Longrightarrow> distinct (map jr_id (jobs d'))"
    and "job_ids d' = job_ids d" and "idempotency_keys d' = idempotency_keys d"
proof -
  define e where "e = \<lparr>ev_job_id = jr_id row, ev_sequence = Suc (jr_sequence row),
      ev_previous = Some (state_name cur), ev_next = state_name nxt,
      ev_code = c, ev_timestamp = env_now E\<rparr>"
  define u where "u = update_rows (matches_row (jr_id row) (state_name cur) (jr_sequence row))
      (set_state_row (state_name nxt) (Suc (jr_sequence row)) (env_now E)) (jobs d)"
  from move seq obtain d1 where
    up: "update_job_state (jr_id row) (state_name cur) (jr_sequence row) (state_name nxt)
           (Suc (jr_sequence row)) (env_now E) d = Inr (1, d1)"
    and ins: "insert_event e d1 = Inr d'"
    by (auto simp: move_job_def Let_def sat_add_Suc e_def split: if_splits)
  have d1: "d1 = d\<lparr>jobs := u\<rparr>" using update_job_state_Inr(1) [OF up] by (simp add: u_def)
  have d': "d' = d\<lparr>jobs := u, job_events := job_events d @ [e]\<rparr>"
    using insert_event_Inr [OF ins] d1 by simp
  have find: "find_job i d' = map_option (\<lambda>r. if matches_row (jr_id row) (state_name cur)
      (jr_sequence row) r then set_state_row (state_name nxt) (Suc (jr_sequence row)) (env_now E) r
      else r) (find_job i d)" for i
    by (simp add: d' find_job_def u_def lookup_update_rows)
  show "find_job i d' = (if i = jr_id row
            then Some (set_state_row (state_name nxt) (Suc (jr_sequence row)) (env_now E) row)
            else find_job i d)"
    using row by (cases "find_job i d") (auto simp: find matches_row_def dest: find_job_id)
  show "events_of i d' = (if i = jr_id row then events_of i d @
            [\<lparr>ev_job_id = jr_id row, ev_sequence = Suc (jr_sequence row),
              ev_previous = Some (state_name cur), ev_next = state_name nxt,
              ev_code = c, ev_timestamp = env_now E\<rparr>] else events_of i d)"
    by (simp add: d' events_of_def e_def)
  show "output_reservations d' = output_reservations d"
    "idempotency_keys d' = idempotency_keys d" by (simp_all add: d')
  show "Suc (jr_sequence row) \<le> i64_max" by (rule update_job_state_Inr(2) [OF up])
  show "distinct (map jr_id (jobs d)) \<Longrightarrow> distinct (map jr_id (jobs d'))"
    by (simp add: d' u_def map_update_rows)
  have "map jr_id u = map jr_id (jobs d)" by (simp add: u_def map_update_rows)
  then show "job_ids d' = job_ids d" unfolding d' job_ids_def by (metis db.select_convs(1)
      db.surjective db.update_convs(1,2) list.set_map)
qed

text \<open>
  A legal move keeps the invariant, provided the reservation that it leaves behind is the one
  the new state needs.
\<close>

lemma store_inv_move:
  assumes inv: "store_inv d" and row: "find_job (jr_id row) d = Some row"
    and st: "jr_state row = state_name cur" and legal: "legal_step cur nxt"
    and jobs: "jobs d1 = jobs d" "job_events d1 = job_events d"
    and res: "res_table_ok (output_reservations d1)"
    and others: "\<And>i. i \<noteq> jr_id row \<Longrightarrow>
      owned_key i (output_reservations d1) = owned_key i (output_reservations d)"
    and move: "move_job E row cur nxt c d1 = Inr d2"
    and d3: "jobs d3 = jobs d2" "job_events d3 = job_events d2"
    and res3: "res_table_ok (output_reservations d3)"
    and others3: "\<And>i. i \<noteq> jr_id row \<Longrightarrow>
      owned_key i (output_reservations d3) = owned_key i (output_reservations d2)"
    and own3: "owned_key (jr_id row) (output_reservations d3) \<noteq> None \<longleftrightarrow> \<not> is_terminal nxt"
  shows "store_inv d3"
proof (rule store_inv_local [where j = "jr_id row", OF inv])
  have row1: "find_job (jr_id row) d1 = Some row" using row jobs by (simp add: find_job_def)
  obtain s where s: "jr_state row = state_name s" "jr_sequence row \<le> i64_max"
    "log_ok (events_of (jr_id row) d) s (jr_sequence row)"
    using inv row by (rule store_inv_rowE)
  then have log: "log_ok (events_of (jr_id row) d) cur (jr_sequence row)" using st by simp
  note mv = move_job_Inr [OF move row1 st s(2)]
  have ev: "events_of i d1 = events_of i d" "events_of i d3 = events_of i d2"
    "find_job i d1 = find_job i d" "find_job i d3 = find_job i d2" for i
    using jobs d3 by (simp_all add: events_of_def find_job_def)
  show "distinct (map jr_id (jobs d3))"
    using mv(5) inv d3 jobs by (simp add: store_inv_def)
  show "res_table_ok (output_reservations d3)" by (rule res3)
  have "log_ok (events_of (jr_id row) d3) nxt (Suc (jr_sequence row))"
    using mv(2) [of "jr_id row"] log legal by (auto simp: ev intro: log_ok.moved)
  then show "job_ok (jr_id row) d3"
    using mv(1) [of "jr_id row"] mv(4) own3
    by (auto simp: job_ok_def ev set_state_row_def)
  show "same_job i d d3" if "i \<noteq> jr_id row" for i
    using that mv(1,2) [of i] mv(3) others [OF that] others3 [OF that]
    by (simp add: same_job_def ev)
qed

end
