(* ===== verification/Job_Store_Safety.thy ===== *)
theory Job_Store_Safety
  imports Job_Store_Inv
begin

text \<open>
  Every operation of the job store keeps the invariant of \<open>Job_Store_Inv\<close>, and what each of
  them does to the job it concerns. The operations as commands are a state machine over the
  database, so every reachable database satisfies the invariant.
\<close>

declare state_name.simps [simp del]

lemma store_inv_run_tx:
  assumes "store_inv d" and "\<And>x d'. f d = Inr (x, d') \<Longrightarrow> store_inv d'"
  shows "store_inv (snd (run_tx f d))"
  using assms by (rule run_tx_preserves)

section \<open>Creating jobs\<close>

definition fresh_row :: "uuid \<Rightarrow> db \<Rightarrow> bool" where
  "fresh_row j d \<longleftrightarrow>
     (\<exists>r. find_job j d = Some r \<and> jr_state r = state_name Planned \<and> jr_sequence r = 0)"

lemma fresh_row_same: "same_job j d d' \<Longrightarrow> fresh_row j d \<Longrightarrow> fresh_row j d'"
  by (simp add: fresh_row_def same_job_def)

lemma insert_one_Inr:
  assumes inv: "store_inv d" and run: "insert_one E j q d = Inr (r, d')"
  shows "store_inv d'" and "rec_id r = j" and "rec_state r = Planned" and "rec_sequence r = 0"
    and "j \<notin> job_ids d" and "job_ids d' = insert j (job_ids d)" and "fresh_row j d'"
    and "i \<noteq> j \<Longrightarrow> same_job i d d'"
    and "map_option Inr (owned_key j (output_reservations d')) = Some (env_key E (cr_output_path q))"
proof -
  define row where "row pj = \<lparr>jr_id = j, jr_state = state_name Planned,
      jr_input_path = cr_input_path q, jr_output_path = cr_output_path q,
      jr_plan_hash = plan_hash (cr_plan q), jr_plan_json = pj, jr_sequence = 0,
      jr_created = env_now E, jr_updated = env_now E\<rparr>" for pj
  define e where "e = \<lparr>ev_job_id = j, ev_sequence = 0, ev_previous = None,
      ev_next = state_name Planned, ev_code = ''JOB_CREATED'', ev_timestamp = env_now E\<rparr>"
  from run obtain pj d1 d2 where
    ins: "insert_job_row (row pj) d = Inr d1"
    and res: "reserve_output E j (cr_output_path q) d1 = Inr d2"
    and ev: "insert_event e d2 = Inr d'" and r: "rec_id r = j" "rec_state r = Planned"
      "rec_sequence r = 0"
    by (auto simp: insert_one_def row_def e_def)
  from ins have fresh: "j \<notin> job_ids d" and d1: "d1 = d\<lparr>jobs := jobs d @ [row pj]\<rparr>"
    by (auto simp: insert_job_row_def row_def split: if_splits)
  have ok: "res_table_ok (output_reservations d)" and old: "job_ok j d"
    using inv by (auto simp: store_inv_def)
  have ok1: "res_table_ok (output_reservations d1)" using ok d1 by simp
  note r2 = reserve_output_Inr [OF res ok1]
  have d': "jobs d' = jobs d @ [row pj]" "job_events d' = job_events d @ [e]"
    "output_reservations d' = output_reservations d2"
    using insert_event_Inr [OF ev] r2(1,2) by (simp_all add: d1)
  have none: "find_job j d = None" using fresh by (simp add: find_job_None_iff)
  have noev: "events_of j d = []" using old none by (simp add: job_ok_def)
  have find: "find_job i d' = (if i = j then Some (row pj) else find_job i d)" for i
    using none
    by (auto simp: find_job_def d' lookup_row_append lookup_row_Cons row_def split: option.splits)
  have evs: "events_of i d' = (if i = j then [e] else events_of i d)" for i
    using noev by (auto simp: events_of_def d' e_def)
  show other: "same_job i d d'" if "i \<noteq> j" for i
    using that r2(5) [OF that] by (simp add: same_job_def find evs d'(3) d1)
  show own: "map_option Inr (owned_key j (output_reservations d'))
      = Some (env_key E (cr_output_path q))" using r2(4) by (simp add: d'(3))
  have "log_ok [e] Planned 0" by (rule log_ok.created) (simp_all add: e_def)
  then have "job_ok j d'" using own by (auto simp: job_ok_def find evs row_def)
  moreover have "distinct (map jr_id (jobs d'))"
    using inv fresh by (auto simp: store_inv_def d' job_ids_def row_def)
  ultimately show "store_inv d'"
    using store_inv_local [OF inv, of d' j] r2(3) other by (simp add: d'(3))
  show "rec_id r = j" "rec_state r = Planned" "rec_sequence r = 0" "j \<notin> job_ids d" by fact+
  show "job_ids d' = insert j (job_ids d)" by (simp add: job_ids_def d' row_def)
  show "fresh_row j d'" by (simp add: fresh_row_def find row_def)
qed

lemma insert_jobs_Inr:
  assumes "store_inv d" and "insert_jobs E k qs d = Inr (rs, d')"
  shows "store_inv d' \<and> distinct (map rec_id rs) \<and> rec_id ` set rs \<inter> job_ids d = {}
    \<and> job_ids d' = rec_id ` set rs \<union> job_ids d
    \<and> (\<forall>r \<in> set rs. fresh_row (rec_id r) d' \<and> rec_state r = Planned \<and> rec_sequence r = 0)
    \<and> (\<forall>i. i \<notin> rec_id ` set rs \<longrightarrow> same_job i d d') \<and> length rs = length qs"
  using assms
proof (induction qs arbitrary: k d rs)
  case (Cons q qs)
  from Cons.prems(2) obtain r d1 rs' where
    one: "insert_one E (env_uuid E k) q d = Inr (r, d1)"
    and rest: "insert_jobs E (Suc k) qs d1 = Inr (rs', d')" and rs: "rs = r # rs'"
    by auto
  note o = insert_one_Inr [OF Cons.prems(1) one]
  note ih = Cons.IH [OF o(1) rest]
  have "rec_id r \<notin> rec_id ` set rs'" using ih o(2,6) by auto
  moreover have "fresh_row (rec_id r) d'"
    using ih o(2,7) calculation fresh_row_same by metis
  moreover have "same_job i d d'" if "i \<notin> rec_id ` set rs" for i
    using that ih o(2,8) rs same_job_trans [of i d d1 d'] by auto
  ultimately show ?case using ih o(2-6) by (auto simp: rs)
qed auto

lemma store_inv_create_jobs: "store_inv d \<Longrightarrow> store_inv (snd (create_jobs E qs d))"
  using insert_jobs_Inr by (auto simp: create_jobs_def run_tx_def split: sum.splits)

lemma store_inv_create_job: "store_inv d \<Longrightarrow> store_inv (snd (create_job E q d))"
  using store_inv_create_jobs [of d E "[q]"]
  by (auto simp: create_job_def split: prod.splits sum.splits)

section \<open>Moves of a job whose row was just read\<close>

lemma count_matches:
  assumes "distinct (map jr_id (jobs d))" and "find_job j d = Some row"
  shows "length (filter (matches_row j st sq) (jobs d)) =
           (if jr_state row = st \<and> jr_sequence row = sq then 1 else 0)"
proof -
  have "length (filter (matches_row j st sq) t) =
      (case lookup_row jr_id j t of None \<Rightarrow> 0
       | Some r \<Rightarrow> if jr_state r = st \<and> jr_sequence r = sq then 1 else 0)"
    if "distinct (map jr_id t)" for t
    using that
  proof (induction t)
    case (Cons r t)
    have "\<forall>x \<in> set t. jr_id x \<noteq> jr_id r" using Cons.prems by (metis distinct.simps(2)
        image_eqI list.set_map list.simps(9))
    then have "filter (matches_row j st sq) t = []" if "jr_id r = j"
      using that by (simp add: filter_empty_conv matches_row_def)
    with Cons show ?case by (auto simp: lookup_row_Cons matches_row_def filter_empty_conv)
  qed simp
  from this [OF assms(1)] assms(2) show ?thesis by (simp add: find_job_def)
qed

lemma move_job_total:
  assumes inv: "store_inv d" and row: "find_job (jr_id row) d = Some row"
    and st: "jr_state row = state_name cur"
    and d1: "jobs d1 = jobs d" "job_events d1 = job_events d"
  shows "(\<exists>d2. move_job E row cur nxt c d1 = Inr d2) \<longleftrightarrow> jr_sequence row < i64_max"
proof -
  obtain s where s: "jr_sequence row \<le> i64_max"
    "log_ok (events_of (jr_id row) d) s (jr_sequence row)"
    using inv row by (rule store_inv_rowE)
  let ?u = "update_rows (matches_row (jr_id row) (state_name cur) (jr_sequence row))
      (set_state_row (state_name nxt) (Suc (jr_sequence row)) (env_now E)) (jobs d)"
  have "distinct (map jr_id (jobs d1))" and "find_job (jr_id row) d1 = Some row"
    using inv row d1 by (simp_all add: store_inv_def find_job_def)
  note n = count_matches [OF this]
  have ids: "jr_id ` set ?u = jr_id ` set (jobs d)"
    by (metis list.set_map map_update_rows set_state_row_id)
  have "jr_id row \<in> job_ids d" using find_job_in [OF row] by (simp add: job_ids_def)
  moreover have "ev_sequence f \<noteq> Suc (jr_sequence row)"
    if "f \<in> set (job_events d)" "ev_job_id f = jr_id row" for f
    using log_ok_sequence_le [OF s(2), of f] that by (auto simp: events_of_def)
  ultimately show ?thesis using n [of "state_name cur" "jr_sequence row"] st s(1) ids d1
    by (auto simp: move_job_def update_job_state_def sql_u64_def ensure_def insert_event_def
        sat_add_Suc Let_def job_ids_def)
qed

lemma enqueue_new_move:
  assumes inv: "store_inv d" and row: "find_job j d = Some row"
    and "jr_state row = state_name Planned" "jr_sequence row = 0"
  shows "enqueue_new E c j d = move_job E row Planned Queued c d"
proof -
  have "distinct (map jr_id (jobs d))" using inv by (simp add: store_inv_def)
  note n = count_matches [OF this row, of "state_name Planned" 0]
  show ?thesis using assms n find_job_id [OF row]
    by (cases "sql_u64 (Suc 0)")
      (auto simp: enqueue_new_def move_job_def update_job_state_def Let_def sat_add_def
        u64_max_def)
qed

lemma enqueue_new_Inr:
  assumes inv: "store_inv d" and fresh: "fresh_row j d" and run: "enqueue_new E c j d = Inr d'"
  shows "store_inv d'" and "i \<noteq> j \<Longrightarrow> same_job i d d'" and "job_ids d' = job_ids d"
    and "\<exists>r. find_job j d' = Some r \<and> jr_state r = state_name Queued \<and> jr_sequence r = 1"
    and "idempotency_keys d' = idempotency_keys d"
proof -
  obtain row where row: "find_job j d = Some row" "jr_state row = state_name Planned"
    "jr_sequence row = 0" using fresh by (auto simp: fresh_row_def)
  have j: "jr_id row = j" using find_job_id [OF row(1)] .
  have row': "find_job (jr_id row) d = Some row" using row(1) j by simp
  have move: "move_job E row Planned Queued c d = Inr d'"
    using run enqueue_new_move [OF inv row] by simp
  have seq: "jr_sequence row \<le> i64_max" using row(3) by simp
  note mv = move_job_Inr [OF move row' row(2) seq]
  obtain s where s: "jr_state row = state_name s"
    "owned_key j (output_reservations d) \<noteq> None \<longleftrightarrow> \<not> is_terminal s"
    using inv row(1) by (rule store_inv_rowE)
  have own: "owned_key j (output_reservations d) \<noteq> None" using s row(2) by auto
  show "store_inv d'"
    using store_inv_move [OF inv row' row(2) _ refl refl _ refl move refl refl _ refl] inv own mv(3) j
    by (simp add: legal_step_def store_inv_def)
  show "i \<noteq> j \<Longrightarrow> same_job i d d'" using mv(1,2) [of i] mv(3) j by (simp add: same_job_def)
  show "job_ids d' = job_ids d" "idempotency_keys d' = idempotency_keys d" by fact+
  show "\<exists>r. find_job j d' = Some r \<and> jr_state r = state_name Queued \<and> jr_sequence r = 1"
    using mv(1) [of j] j row(3) by (simp add: set_state_row_def)
qed

section \<open>Batches and idempotent creation\<close>

lemma enqueue_all_Inr:
  assumes "store_inv d" and "distinct (map rec_id rs)"
    and "\<forall>r \<in> set rs. fresh_row (rec_id r) d"
    and "res_fold (\<lambda>d r. enqueue_new E c (rec_id r) d) d rs = Inr d'"
  shows "store_inv d' \<and> job_ids d' = job_ids d \<and> idempotency_keys d' = idempotency_keys d
    \<and> (\<forall>r \<in> set rs. \<exists>x. find_job (rec_id r) d' = Some x \<and> jr_state x = state_name Queued)
    \<and> (\<forall>i. i \<notin> rec_id ` set rs \<longrightarrow> same_job i d d')"
  using assms
proof (induction rs arbitrary: d)
  case (Cons r rs)
  from Cons.prems(4) obtain d1 where one: "enqueue_new E c (rec_id r) d = Inr d1"
    and rest: "res_fold (\<lambda>d r. enqueue_new E c (rec_id r) d) d1 rs = Inr d'" by auto
  have fresh: "fresh_row (rec_id r) d" using Cons.prems(3) by simp
  note o = enqueue_new_Inr [OF Cons.prems(1) fresh one]
  have "fresh_row (rec_id x) d1" if "x \<in> set rs" for x
  proof -
    have "rec_id x \<noteq> rec_id r" using that Cons.prems(2) by (auto simp: image_iff)
    with that Cons.prems(3) show ?thesis by (auto intro: fresh_row_same [OF o(2)])
  qed
  then have ih: "store_inv d' \<and> job_ids d' = job_ids d1 \<and> idempotency_keys d' = idempotency_keys d1
    \<and> (\<forall>r \<in> set rs. \<exists>x. find_job (rec_id r) d' = Some x \<and> jr_state x = state_name Queued)
    \<and> (\<forall>i. i \<notin> rec_id ` set rs \<longrightarrow> same_job i d1 d')"
    using Cons.IH [OF o(1) _ _ rest] Cons.prems(2) by simp
  have r: "find_job (rec_id r) d' = find_job (rec_id r) d1"
    using ih Cons.prems(2) by (simp add: same_job_def)
  show ?case using ih o r by (auto intro: same_job_trans [of _ d d1])
qed simp

text \<open>The tables of the invariant are untouched by statements on batches and keys.\<close>

lemma insert_batch_row_frame:
  assumes "insert_batch_row b d = Inr d'"
  shows "d' = d\<lparr>batches := batches d @ [b]\<rparr>"
  using assms by (simp add: insert_batch_row_def split: if_splits)

lemma add_members_frame:
  assumes "add_members b rs d = Inr d'"
  shows "jobs d' = jobs d \<and> job_events d' = job_events d
    \<and> output_reservations d' = output_reservations d \<and> idempotency_keys d' = idempotency_keys d"
  using assms unfolding add_members_def
  by (rule res_fold_invariant) (auto simp: insert_batch_member_def split: if_splits)

lemma fresh_row_cong: "jobs d' = jobs d \<Longrightarrow> fresh_row j d' = fresh_row j d"
  by (simp add: fresh_row_def find_job_def)

lemma store_inv_create_batch_inner:
  assumes inv: "store_inv d"
  shows "store_inv (snd (create_batch_inner E name qs enq d))"
proof (cases "validate_batch_name name")
  case (Inr n)
  have "store_inv d4" if run: "insert_batch_row b d = Inr d1"
      "insert_jobs E 1 qs d1 = Inr (rs, d2)" "add_members b' rs d2 = Inr d3"
      "(if enq then res_fold (\<lambda>d r. enqueue_new E ''BATCH_QUEUED'' (rec_id r) d) d3 rs
        else Inr d3) = Inr d4" for b b' d1 rs d2 d3 d4
  proof -
    have "store_inv d1" using inv insert_batch_row_frame [OF run(1)] by simp
    note jobs2 = insert_jobs_Inr [OF this run(2)]
    note frame = add_members_frame [OF run(3)]
    have "store_inv d3" using jobs2 frame store_inv_cong [of d3 d2] by simp
    moreover have "\<forall>r \<in> set rs. fresh_row (rec_id r) d3"
      using jobs2 frame fresh_row_cong [of d3 d2] by simp
    ultimately show ?thesis using run(4) jobs2 enqueue_all_Inr [of d3 rs E "''BATCH_QUEUED''" d4]
      by (auto split: if_splits)
  qed
  then show ?thesis using inv Inr
    by (auto simp: create_batch_inner_def Let_def simp del: insert_jobs.simps if_split_eq2
        intro!: store_inv_run_tx)
qed (simp add: create_batch_inner_def inv)

lemma insert_one_keys:
  "insert_one E j q d = Inr (r, d') \<Longrightarrow> idempotency_keys d' = idempotency_keys d"
  by (auto simp: insert_one_def insert_job_row_def insert_event_def split: if_splits
      dest!: reserve_output_frame(3))

lemma insert_single:
  "insert_jobs E 0 [q] d = Inr (rs, d') \<longleftrightarrow>
     (\<exists>r. insert_one E (env_uuid E 0) q d = Inr (r, d') \<and> rs = [r])"
  by auto

lemma idempotent_tx_created:
  assumes inv: "store_inv d" and "bound_job k d = None"
    and run: "idempotent_tx E k q enq d = Inr (res, d')"
  shows "store_inv d'" and "ir_created res"
    and "rec_id (ir_job res) \<notin> job_ids d" and "bound_job k d' = find_job (rec_id (ir_job res)) d'"
    and "find_job (rec_id (ir_job res)) d' \<noteq> None"
proof -
  from assms(2) run obtain r d1 d2 where one: "insert_one E (env_uuid E 0) q d = Inr (r, d1)"
    and key: "insert_idempotency_key
        \<lparr>ik_key = k, ik_job_id = rec_id r, ik_created = env_now E\<rparr> d1 = Inr d2"
    and last: "(if enq then enqueue_new E ''JOB_ENQUEUED'' (rec_id r) d2 else Inr d2) = Inr d'"
    and res: "rec_id (ir_job res) = rec_id r" "ir_created res"
    unfolding idempotent_tx_def by (auto simp: insert_single Let_def split: if_splits)
  note o = insert_one_Inr [OF inv one]
  from key have d2: "d2 = d1\<lparr>idempotency_keys := idempotency_keys d1
      @ [\<lparr>ik_key = k, ik_job_id = rec_id r, ik_created = env_now E\<rparr>]\<rparr>"
    and fresh_key: "k \<notin> ik_key ` set (idempotency_keys d1)"
    by (auto simp: insert_idempotency_key_def split: if_splits)
  have inv2: "store_inv d2" using o(1) by (simp add: d2)
  have fresh2: "fresh_row (rec_id r) d2"
    using o(2,7) fresh_row_cong [of d2 d1] by (simp add: d2)
  have found2: "find_job (rec_id r) d2 \<noteq> None" using fresh2 by (auto simp: fresh_row_def)
  have "store_inv d' \<and> idempotency_keys d' = idempotency_keys d2
      \<and> find_job (rec_id r) d' \<noteq> None"
    using last inv2 found2 enqueue_new_Inr [OF inv2 fresh2, of E "''JOB_ENQUEUED''" d']
    by (auto split: if_splits)
  then show "store_inv d'" "bound_job k d' = find_job (rec_id (ir_job res)) d'"
    "find_job (rec_id (ir_job res)) d' \<noteq> None"
    using fresh_key
    by (simp_all add: bound_job_def d2 lookup_row_append lookup_row_Cons res
        flip: lookup_row_None_iff)
  show "ir_created res" "rec_id (ir_job res) \<notin> job_ids d" using o(2,5) res by simp_all
qed

text \<open>The immutable columns of a job hold the request it was created for.\<close>

definition row_of_request :: "job_create_request \<Rightarrow> job_row \<Rightarrow> bool" where
  "row_of_request q row \<longleftrightarrow> jr_input_path row = cr_input_path q
     \<and> jr_output_path row = cr_output_path q \<and> jr_plan_hash row = plan_hash (cr_plan q)"

lemma row_of_request_moved [simp]:
  "row_of_request q (set_state_row st sq now row) = row_of_request q row"
  by (simp add: row_of_request_def set_state_row_def)

lemma insert_one_row:
  assumes "insert_one E j q d = Inr (r, d')"
  shows "\<exists>row. find_job j d' = Some row \<and> row_of_request q row"
proof -
  define row where "row pj = \<lparr>jr_id = j, jr_state = state_name Planned,
      jr_input_path = cr_input_path q, jr_output_path = cr_output_path q,
      jr_plan_hash = plan_hash (cr_plan q), jr_plan_json = pj, jr_sequence = 0,
      jr_created = env_now E, jr_updated = env_now E\<rparr>" for pj
  from assms obtain pj d1 d2 e where ins: "insert_job_row (row pj) d = Inr d1"
    and res: "reserve_output E j (cr_output_path q) d1 = Inr d2"
    and ev: "insert_event e d2 = Inr d'"
    by (auto simp: insert_one_def row_def)
  have "j \<notin> job_ids d" "jobs d' = jobs d @ [row pj]"
    using ins insert_event_Inr [OF ev] reserve_output_frame(1) [OF res]
    by (auto simp: insert_job_row_def row_def split: if_splits)
  then have "find_job j d' = Some (row pj)"
    by (simp add: find_job_def lookup_row_append lookup_row_Cons row_def job_ids_def
        flip: lookup_row_None_iff)
  then show ?thesis by (simp add: row_of_request_def row_def)
qed

lemma enqueue_new_row:
  assumes inv: "store_inv d" and fresh: "fresh_row j d" and run: "enqueue_new E c j d = Inr d'"
    and found: "find_job j d = Some row"
  shows "\<exists>st sq now. find_job j d' = Some (set_state_row st sq now row)"
proof -
  have st: "jr_state row = state_name Planned" "jr_sequence row = 0"
    using fresh found by (auto simp: fresh_row_def)
  have j: "jr_id row = j" using find_job_id [OF found] .
  have "move_job E row Planned Queued c d = Inr d'"
    using run enqueue_new_move [OF inv found st] by simp
  from move_job_Inr(1) [OF this _ st(1), of j] show ?thesis using found j st(2) by auto
qed

lemma idempotent_tx_row:
  assumes inv: "store_inv d" and "bound_job k d = None"
    and run: "idempotent_tx E k q enq d = Inr (res, d')"
  shows "\<exists>row. bound_job k d' = Some row \<and> jr_id row = rec_id (ir_job res)
    \<and> row_of_request q row \<and> (\<exists>key. env_key E (cr_output_path q) = Inr key)"
proof -
  note b = idempotent_tx_created [OF assms]
  from assms(2) run obtain r d1 d2 where one: "insert_one E (env_uuid E 0) q d = Inr (r, d1)"
    and key: "insert_idempotency_key
        \<lparr>ik_key = k, ik_job_id = rec_id r, ik_created = env_now E\<rparr> d1 = Inr d2"
    and last: "(if enq then enqueue_new E ''JOB_ENQUEUED'' (rec_id r) d2 else Inr d2) = Inr d'"
    and res: "rec_id (ir_job res) = rec_id r"
    unfolding idempotent_tx_def by (auto simp: insert_single Let_def split: if_splits)
  note o = insert_one_Inr [OF inv one]
  obtain row where row: "find_job (rec_id r) d1 = Some row" "row_of_request q row"
    using insert_one_row [OF one] o(2) by auto
  have d2: "jobs d2 = jobs d1" "store_inv d2"
    using key o(1) by (auto simp: insert_idempotency_key_def split: if_splits)
  then have row2: "find_job (rec_id r) d2 = Some row" "fresh_row (rec_id r) d2"
    using row(1) o(2,7) fresh_row_cong [OF d2(1)] by (simp_all add: find_job_def)
  have "\<exists>row'. find_job (rec_id r) d' = Some row' \<and> row_of_request q row'"
    using last row2 row(2) enqueue_new_row [OF d2(2) row2(2) _ row2(1), of E "''JOB_ENQUEUED''" d']
    by (cases enq) auto
  moreover obtain p where "env_key E (cr_output_path q) = Inr p"
    using o(9) by (auto dest: sym)
  ultimately show ?thesis using b(4) res find_job_id by auto
qed

lemma idempotent_tx_replayed:
  assumes "bound_job k d = Some row"
  shows "idempotent_tx E k q enq d = Inr (res, d') \<longleftrightarrow>
    same_intent E row q = Inr True \<and> d' = d \<and> \<not> ir_created res
    \<and> job_record_from_row row = Inr (ir_job res)"
  using assms
  by (cases res) (auto simp: idempotent_tx_def split: if_splits)

lemma store_inv_create_job_idempotent:
  assumes inv: "store_inv d"
  shows "store_inv (snd (create_job_idempotent_with_state E key q enq d))"
proof (cases "validate_idempotency_key key")
  case (Inr k)
  have "store_inv d'" if "idempotent_tx E k q enq d = Inr (res, d')" for res d'
    using that inv idempotent_tx_created(1) [OF inv _ that] idempotent_tx_replayed
    by (cases "bound_job k d") auto
  with inv Inr show ?thesis
    by (auto simp: create_job_idempotent_with_state_def intro!: store_inv_run_tx)
qed (simp add: create_job_idempotent_with_state_def inv)

section \<open>Transitions\<close>

definition event_for ::
    "store_env \<Rightarrow> job_row \<Rightarrow> job_state \<Rightarrow> job_state \<Rightarrow> string \<Rightarrow> event_row" where
  "event_for E row cur nxt c =
     \<lparr>ev_job_id = jr_id row, ev_sequence = Suc (jr_sequence row),
      ev_previous = Some (state_name cur), ev_next = state_name nxt,
      ev_code = c, ev_timestamp = env_now E\<rparr>"

definition moved_row :: "store_env \<Rightarrow> job_row \<Rightarrow> job_state \<Rightarrow> job_row" where
  "moved_row E row nxt = set_state_row (state_name nxt) (Suc (jr_sequence row)) (env_now E) row"

text \<open>What a committed move of job \<open>j\<close> from \<open>cur\<close> to \<open>nxt\<close> did.\<close>

definition moved ::
    "store_env \<Rightarrow> uuid \<Rightarrow> job_row \<Rightarrow> job_state \<Rightarrow> job_state \<Rightarrow> string \<Rightarrow> db \<Rightarrow> db \<Rightarrow> bool" where
  "moved E j row cur nxt c d d' \<longleftrightarrow>
     find_job j d = Some row \<and> jr_state row = state_name cur
     \<and> find_job j d' = Some (moved_row E row nxt)
     \<and> events_of j d' = events_of j d @ [event_for E row cur nxt c]
     \<and> job_ids d' = job_ids d \<and> (\<forall>i. i \<noteq> j \<longrightarrow> same_job i d d')
     \<and> store_inv d'"

lemma moved_row_simps [simp]:
  "jr_id (moved_row E row nxt) = jr_id row"
  "jr_state (moved_row E row nxt) = state_name nxt"
  "jr_sequence (moved_row E row nxt) = Suc (jr_sequence row)"
  "jr_input_path (moved_row E row nxt) = jr_input_path row"
  "jr_output_path (moved_row E row nxt) = jr_output_path row"
  "jr_plan_hash (moved_row E row nxt) = jr_plan_hash row"
  by (simp_all add: moved_row_def set_state_row_def)

lemma terminal_left_by_queueing:
  "can_transition_to cur nxt \<Longrightarrow> \<not> is_terminal nxt \<Longrightarrow> nxt \<noteq> Queued \<Longrightarrow> \<not> is_terminal cur"
  by (cases cur; cases nxt) simp_all

lemma owned_iff_active:
  assumes "store_inv d" and "find_job j d = Some row" and "jr_state row = state_name s"
  shows "owned_key j (output_reservations d) \<noteq> None \<longleftrightarrow> \<not> is_terminal s"
proof -
  obtain s' where "jr_state row = state_name s'"
    "owned_key j (output_reservations d) \<noteq> None \<longleftrightarrow> \<not> is_terminal s'"
    using assms(1,2) by (rule store_inv_rowE)
  then show ?thesis using assms(3) by simp
qed

lemma move_moved:
  assumes inv: "store_inv d" and row: "find_job j d = Some row" and st: "jr_state row = state_name cur"
    and legal: "legal_step cur nxt"
    and d1: "jobs d1 = jobs d" "job_events d1 = job_events d"
    and res: "res_table_ok (output_reservations d1)"
    and others: "\<And>i. i \<noteq> j \<Longrightarrow>
      owned_key i (output_reservations d1) = owned_key i (output_reservations d)"
    and move: "move_job E row cur nxt c d1 = Inr d2"
    and d3: "jobs d3 = jobs d2" "job_events d3 = job_events d2"
    and res3: "res_table_ok (output_reservations d3)"
    and others3: "\<And>i. i \<noteq> j \<Longrightarrow>
      owned_key i (output_reservations d3) = owned_key i (output_reservations d2)"
    and own3: "owned_key j (output_reservations d3) \<noteq> None \<longleftrightarrow> \<not> is_terminal nxt"
  shows "moved E j row cur nxt c d d3"
proof -
  have j: "jr_id row = j" using find_job_id [OF row] .
  have row': "find_job (jr_id row) d = Some row" using row j by simp
  have row1: "find_job (jr_id row) d1 = Some row" using row' d1 by (simp add: find_job_def)
  obtain s where seq: "jr_sequence row \<le> i64_max" using inv row by (rule store_inv_rowE)
  note mv = move_job_Inr [OF move row1 st seq]
  have ev: "events_of i d1 = events_of i d" "events_of i d3 = events_of i d2"
    "find_job i d1 = find_job i d" "find_job i d3 = find_job i d2" for i
    using d1 d3 by (simp_all add: events_of_def find_job_def)
  have "store_inv d3"
    using store_inv_move [OF inv row' st legal d1 res _ move d3 res3] others others3 own3 j by simp
  moreover have "job_ids d3 = job_ids d" using mv(6) d1 d3 by (simp add: job_ids_def)
  moreover have "same_job i d d3" if "i \<noteq> j" for i
    using that mv(1,2) [of i] mv(3) others [OF that] others3 [OF that] j
    by (simp add: same_job_def ev)
  ultimately show ?thesis using mv(1,2) [of j] row st j
    by (simp add: moved_def ev moved_row_def event_for_def)
qed

lemma transition_tx_Inr:
  assumes inv: "store_inv d" and run: "transition_tx E j nxt c d = Inr (r, d')"
  obtains row cur where "moved E j row cur nxt c d d'" "can_transition_to cur nxt"
    "r = moved_record row nxt (Suc (jr_sequence row)) (env_now E)"
    "nxt = Queued \<longrightarrow> map_option Inr (owned_key j (output_reservations d'))
        = Some (env_key E (jr_output_path row))"
proof -
  from run obtain row cur d1 d2 where row: "find_job j d = Some row"
    and st: "jr_state row = state_name cur" and can: "can_transition_to cur nxt"
    and d1: "(if nxt = Queued then reserve_output E j (jr_output_path row) d else Inr d) = Inr d1"
    and d2: "move_job E row cur nxt c d1 = Inr d2"
    and d': "d' = (if is_terminal nxt then release_output j d2 else d2)"
    and r: "r = moved_record row nxt (sat_add (jr_sequence row) 1) (env_now E)"
    by (auto simp: transition_tx_def parse_state_Inr_iff simp del: if_split_eq2)
  have j: "jr_id row = j" using find_job_id [OF row] .
  obtain s where seq: "jr_sequence row \<le> i64_max" using inv row by (rule store_inv_rowE)
  have ok: "res_table_ok (output_reservations d)" using inv by (simp add: store_inv_def)
  have one: "jobs d1 = jobs d" "job_events d1 = job_events d"
    "res_table_ok (output_reservations d1)"
    "\<And>i. i \<noteq> j \<Longrightarrow> owned_key i (output_reservations d1) = owned_key i (output_reservations d)"
    using d1 ok reserve_output_Inr [of E j "jr_output_path row" d d1] by (auto split: if_splits)
  have queued: "nxt = Queued \<longrightarrow> map_option Inr (owned_key j (output_reservations d1))
        = Some (env_key E (jr_output_path row))"
    using d1 ok reserve_output_Inr(4) [of E j "jr_output_path row" d d1] by auto
  have kept: "nxt \<noteq> Queued \<Longrightarrow> d1 = d" using d1 by simp
  have row1: "find_job (jr_id row) d1 = Some row" using row one j by (simp add: find_job_def)
  have res2: "output_reservations d2 = output_reservations d1"
    using move_job_Inr(3) [OF d2 row1 st seq] .
  have tables: "jobs d' = jobs d2" "job_events d' = job_events d2"
    by (simp_all add: d' release_output_def)
  have res': "output_reservations d' = (if is_terminal nxt then release_rows j (output_reservations d1)
      else output_reservations d1)" by (simp add: d' release_output_def res2)
  have active: "owned_key j (output_reservations d') \<noteq> None \<longleftrightarrow> \<not> is_terminal nxt"
  proof (cases "nxt = Queued")
    case True
    then show ?thesis using queued by (auto simp: res')
  next
    case False
    then show ?thesis using kept owned_iff_active [OF inv row st] can
        terminal_left_by_queueing [of cur nxt] by (auto simp: res' owned_key_release)
  qed
  have "moved E j row cur nxt c d d'"
  proof (rule move_moved [OF inv row st _ one d2 tables _ _ active])
    show "legal_step cur nxt" using can by (simp add: legal_step_def)
    show "res_table_ok (output_reservations d')"
      using one(3) res_table_ok_release by (simp add: res')
    show "i \<noteq> j \<Longrightarrow> owned_key i (output_reservations d') = owned_key i (output_reservations d2)" for i
      by (simp add: res' res2 owned_key_release_other)
  qed
  then show thesis using that can r seq queued by (simp add: sat_add_Suc res')
qed

lemma store_inv_transition: "store_inv d \<Longrightarrow> store_inv (snd (transition E j nxt c d))"
  unfolding transition_def
  by (rule store_inv_run_tx, assumption) (metis moved_def prod.exhaust transition_tx_Inr)

lemma queue_one_transition: "queue_one E c j d = transition_tx E j Queued c d"
  by (simp add: queue_one_def transition_tx_def)

lemma queue_all_not_queued:
  assumes "store_inv d" and "find_job j d = Some row" and "jr_state row = state_name Queued"
    and "queue_all E c js d = Inr (rs, d')"
  shows "j \<notin> set js"
  using assms
proof (induction js arbitrary: d rs)
  case (Cons a js)
  from Cons.prems(4) obtain r d1 rs' where one: "transition_tx E a Queued c d = Inr (r, d1)"
    and rest: "queue_all E c js d1 = Inr (rs', d')"
    by (auto simp: queue_one_transition)
  obtain row' cur where m: "moved E a row' cur Queued c d d1" and "can_transition_to cur Queued"
    using Cons.prems(1) one by (rule transition_tx_Inr)
  then have "a \<noteq> j" using Cons.prems(2,3) by (auto simp: moved_def)
  then have "find_job j d1 = Some row" "store_inv d1"
    using m Cons.prems(2) by (simp_all add: moved_def same_job_def)
  then show ?case using Cons.IH [OF _ _ Cons.prems(3) rest] \<open>a \<noteq> j\<close> by simp
qed simp

lemma queue_all_Inr:
  assumes "store_inv d" and "queue_all E c js d = Inr (rs, d')"
  shows "store_inv d' \<and> job_ids d' = job_ids d \<and> map rec_id rs = js
    \<and> (\<forall>j \<in> set js. \<exists>x. find_job j d' = Some x \<and> jr_state x = state_name Queued)
    \<and> (\<forall>i. i \<notin> set js \<longrightarrow> same_job i d d') \<and> distinct js"
  using assms
proof (induction js arbitrary: d rs)
  case (Cons j js)
  from Cons.prems(2) obtain r d1 rs' where one: "transition_tx E j Queued c d = Inr (r, d1)"
    and rest: "queue_all E c js d1 = Inr (rs', d')" and rs: "rs = r # rs'"
    by (auto simp: queue_one_transition)
  obtain row cur where m: "moved E j row cur Queued c d d1"
    and r: "r = moved_record row Queued (Suc (jr_sequence row)) (env_now E)"
    using Cons.prems(1) one by (rule transition_tx_Inr)
  have inv1: "store_inv d1" and found: "find_job j d1 = Some (moved_row E row Queued)"
    using m by (simp_all add: moved_def)
  note ih = Cons.IH [OF inv1 rest]
  have new: "j \<notin> set js" using queue_all_not_queued [OF inv1 found _ rest] by simp
  then have "find_job j d' = find_job j d1" using ih by (simp add: same_job_def)
  moreover have "jr_id row = j" using m find_job_id by (auto simp: moved_def)
  moreover have "same_job i d d'" if "i \<notin> set (j # js)" for i
    using that m ih same_job_trans [of i d d1 d'] by (simp add: moved_def)
  moreover have "job_ids d1 = job_ids d" using m by (simp add: moved_def)
  ultimately show ?case using ih found r new by (simp add: rs moved_record_def)
qed simp

lemma store_inv_queue_jobs: "store_inv d \<Longrightarrow> store_inv (snd (queue_jobs E js c d))"
  using queue_all_Inr by (auto simp: queue_jobs_def intro!: store_inv_run_tx)

section \<open>Claims, cleanup and recovery\<close>

lemma claim_tx_queued:
  assumes inv: "store_inv d" and row: "find_job j d = Some row"
    and st: "jr_state row = state_name Queued"
  shows "claim_tx E j c d =
    res_bind (transition_tx E j Inspecting c d) (\<lambda>(r, d'). Inr (Some r, d'))"
proof -
  have "distinct (map jr_id (jobs d))" using inv by (simp add: store_inv_def)
  note n = count_matches [OF this row, of "state_name Queued" "jr_sequence row"]
  show ?thesis using n row st find_job_id [OF row]
    by (cases "sql_u64 (sat_add (jr_sequence row) (Suc 0))")
      (auto simp: claim_tx_def transition_tx_def move_job_def update_job_state_def Let_def
        ok_or_def ensure_def res_bind_def split: sum.splits)
qed

lemma claim_tx_other:
  assumes "find_job j d = Some row" and "jr_state row = state_name s" and "s \<noteq> Queued"
  shows "claim_tx E j c d = Inr (None, d)"
  using assms by (simp add: claim_tx_def ok_or_def)

lemma claim_tx_Inr:
  assumes inv: "store_inv d" and run: "claim_tx E j c d = Inr (x, d')"
  shows "x = None \<and> d' = d
    \<or> (\<exists>row. moved E j row Queued Inspecting c d d'
         \<and> x = Some (moved_record row Inspecting (Suc (jr_sequence row)) (env_now E)))"
proof -
  from run obtain row s where row: "find_job j d = Some row" and st: "jr_state row = state_name s"
    by (auto simp: claim_tx_def parse_state_Inr_iff)
  show ?thesis
  proof (cases "s = Queued")
    case True
    then obtain r where x: "x = Some r" and tr: "transition_tx E j Inspecting c d = Inr (r, d')"
      using run claim_tx_queued [OF inv row] st by auto
    obtain row' cur where m: "moved E j row' cur Inspecting c d d'"
      and r: "r = moved_record row' Inspecting (Suc (jr_sequence row')) (env_now E)"
      using inv tr by (rule transition_tx_Inr)
    then have "row' = row" "cur = Queued" using row st True by (auto simp: moved_def)
    then show ?thesis using m r x by blast
  next
    case False
    then show ?thesis using run claim_tx_other [OF row st] by simp
  qed
qed

lemma store_inv_claim: "store_inv d \<Longrightarrow> store_inv (snd (claim_queued_job E j c d))"
  unfolding claim_queued_job_def
  by (rule store_inv_run_tx, assumption) (frule (1) claim_tx_Inr, auto simp: moved_def)

lemma cleanup_tx_Inr:
  assumes inv: "store_inv d" and run: "cleanup_tx E j f d = Inr ((r, b), d')"
  obtains row s where "s \<in> {Blocked, Failed, Cancelled, Interrupted}"
    "moved E j row s s (if b then ''STAGED_OUTPUT_CLEANED'' else ''STAGED_OUTPUT_NOT_FOUND'') d d'"
    "output_reservations d' = output_reservations d"
    "\<exists>job. job_record_from_row row = Inr job \<and> f job = Inr b"
proof -
  from run obtain row job s where row: "find_job j d = Some row"
    and job: "job_record_from_row row = Inr job" and s: "rec_state job = s"
    and ok: "s \<in> {Blocked, Failed, Cancelled, Interrupted}" and f: "f job = Inr b"
    and mv: "move_job E row s s
      (if b then ''STAGED_OUTPUT_CLEANED'' else ''STAGED_OUTPUT_NOT_FOUND'') d = Inr d'"
    unfolding cleanup_tx_def by auto
  have st: "jr_state row = state_name s"
    using job s by (auto simp: job_record_from_row_def parse_state_Inr_iff)
  have res: "res_table_ok (output_reservations d)" using inv by (simp add: store_inv_def)
  obtain s' where seq: "jr_sequence row \<le> i64_max" using inv row by (rule store_inv_rowE)
  have row1: "find_job (jr_id row) d = Some row" using row find_job_id [OF row] by simp
  note frame = move_job_Inr(3) [OF mv row1 st seq]
  have "moved E j row s s
      (if b then ''STAGED_OUTPUT_CLEANED'' else ''STAGED_OUTPUT_NOT_FOUND'') d d'"
    by (rule move_moved [OF inv row st _ refl refl res refl mv refl refl])
      (use frame res owned_iff_active [OF inv row st] in \<open>simp_all add: legal_step_def\<close>)
  then show thesis using that ok frame job f by blast
qed

lemma store_inv_cleanup:
  assumes inv: "store_inv d"
  shows "store_inv (snd (cleanup_staging_persisted E j f d))"
  unfolding cleanup_staging_persisted_def
proof (rule store_inv_run_tx [OF inv])
  fix x d' assume "cleanup_tx E j f d = Inr (x, d')"
  moreover obtain r b where "x = (r, b)" by (cases x)
  ultimately have "cleanup_tx E j f d = Inr ((r, b), d')" by simp
  with inv show "store_inv d'" by (rule cleanup_tx_Inr) (simp add: moved_def)
qed

lemma store_inv_interrupt_each: "store_inv d \<Longrightarrow> store_inv (snd (interrupt_each E js d))"
proof (induction js arbitrary: d)
  case (Cons j js)
  have "store_inv (snd (transition E j Interrupted ''RECOVERED_AFTER_RESTART'' d))"
    using Cons.prems by (rule store_inv_transition)
  then show ?case using Cons.IH by (force split: prod.splits sum.splits)
qed simp

lemma store_inv_mark_interrupted:
  "store_inv d \<Longrightarrow> store_inv (snd (mark_active_jobs_interrupted E d))"
  using store_inv_interrupt_each [of d E "active_job_ids d"]
  by (auto simp: mark_active_jobs_interrupted_def interrupt_active_jobs_def
      split: prod.splits sum.splits)

lemma store_inv_revalidation: "store_inv d \<Longrightarrow> store_inv (snd (record_revalidation E j rep d))"
  by (auto simp: record_revalidation_def revalidation_tx_def split: option.splits if_splits
      intro!: store_inv_run_tx)

lemma store_inv_sample: "store_inv d \<Longrightarrow> store_inv (snd (record_engine_throughput_sample x d))"
  by (auto simp: record_engine_throughput_sample_def Let_def intro!: store_inv_run_tx)

end
