(* ===== verification/Job_Store_Demo.thy ===== *)
theory Job_Store_Demo
  imports Job_Store_Safety
begin

text \<open>
  Concrete databases, built by the operations of the store itself, on which the properties
  of the job-store theories are instantiated.
\<close>

definition demo_plan :: plan where
  "demo_plan =
     \<lparr>plan_schema_version = 1, plan_id = 7, plan_hash = ''h'', input_fingerprint = ''f'',
      target_format = ''mp4'', constraints = [], steps = [],
      changes = \<lparr>preserved = [], changed = [], dropped = [], unknown = []\<rparr>,
      validators = [], network_policy = Deny, output_path = None,
      estimated_output_bytes = None\<rparr>"

definition demo_env :: "nat \<Rightarrow> store_env" where
  "demo_env n =
     \<lparr>env_now = 1000 + int n, env_uuid = (\<lambda>k. n + k), env_key = Inr,
      env_plan_json = (\<lambda>p. Some ''{}''), env_report_json = (\<lambda>r. Some ''{}'')\<rparr>"

definition demo_request :: "string \<Rightarrow> job_create_request" where
  "demo_request out = \<lparr>cr_input_path = ''in'', cr_output_path = out, cr_plan = demo_plan\<rparr>"

text \<open>Two queued jobs of one batch, and a planned and a queued job outside it.\<close>

definition demo_batch :: db where
  "demo_batch =
     snd (create_queued_batch (demo_env 10) ''b'' [demo_request ''a'', demo_request ''b''] empty_db)"

definition demo_planned :: db where
  "demo_planned = snd (create_jobs (demo_env 20) [demo_request ''c'', demo_request ''d''] demo_batch)"

definition demo_store :: db where
  "demo_store = snd (queue_jobs (demo_env 30) [20] ''QUEUED'' demo_planned)"

lemmas demo_ops = demo_plan_def demo_env_def demo_request_def empty_db_def
  create_queued_batch_def create_batch_inner_def validate_batch_name_def visible_text_def
  run_tx_def insert_batch_row_def insert_one_def serialize_plan_def ok_or_def ensure_def
  insert_job_row_def job_ids_def reserve_output_def owned_key_def lookup_row_def
  reserve_key_def cleared_def release_rows_def delete_rows_def insert_event_def
  add_members_def insert_batch_member_def enqueue_new_def update_job_state_def sql_u64_def
  update_rows_def matches_row_def set_state_row_def create_jobs_def queue_jobs_def
  queue_one_def move_job_def find_job_def sat_add_def

lemma demo_visible: "trim ''b'' = ''b''" "chars_count ''b'' = 1" "has_control ''b'' = False"
  by code_simp+

definition demo_row :: "uuid \<Rightarrow> string \<Rightarrow> string \<Rightarrow> nat \<Rightarrow> int \<Rightarrow> int \<Rightarrow> job_row" where
  "demo_row j st out sq created updated =
     \<lparr>jr_id = j, jr_state = st, jr_input_path = ''in'', jr_output_path = out,
      jr_plan_hash = ''h'', jr_plan_json = ''{}'', jr_sequence = sq, jr_created = created,
      jr_updated = updated\<rparr>"

definition demo_created :: "uuid \<Rightarrow> int \<Rightarrow> event_row" where
  "demo_created j now =
     \<lparr>ev_job_id = j, ev_sequence = 0, ev_previous = None, ev_next = ''planned'',
      ev_code = ''JOB_CREATED'', ev_timestamp = now\<rparr>"

definition demo_queued :: "uuid \<Rightarrow> string \<Rightarrow> int \<Rightarrow> event_row" where
  "demo_queued j c now =
     \<lparr>ev_job_id = j, ev_sequence = 1, ev_previous = Some ''planned'', ev_next = ''queued'',
      ev_code = c, ev_timestamp = now\<rparr>"

lemmas demo_rows = demo_row_def demo_created_def demo_queued_def

lemma demo_batch_eq: "demo_batch = empty_db
    \<lparr>jobs := [demo_row 11 ''queued'' ''a'' 1 1010 1010, demo_row 12 ''queued'' ''b'' 1 1010 1010],
     job_events := [demo_created 11 1010, demo_created 12 1010,
       demo_queued 11 ''BATCH_QUEUED'' 1010, demo_queued 12 ''BATCH_QUEUED'' 1010],
     output_reservations :=
       [\<lparr>rs_key = ''a'', rs_job_id = 11, rs_created = 1010\<rparr>,
        \<lparr>rs_key = ''b'', rs_job_id = 12, rs_created = 1010\<rparr>],
     batches := [\<lparr>ba_id = 10, ba_name = ''b'', ba_created = 1010, ba_updated = 1010\<rparr>],
     batch_members := [\<lparr>mb_batch_id = 10, mb_job_id = 11, mb_ordinal = 0\<rparr>,
       \<lparr>mb_batch_id = 10, mb_job_id = 12, mb_ordinal = 1\<rparr>]\<rparr>"
  unfolding demo_batch_def
  by (simp add: demo_ops demo_rows demo_visible Let_def state_name.simps i64_max_def u64_max_def
      byte_of_def)

lemma demo_planned_eq: "demo_planned = demo_batch
    \<lparr>jobs := jobs demo_batch @ [demo_row 20 ''planned'' ''c'' 0 1020 1020,
       demo_row 21 ''planned'' ''d'' 0 1020 1020],
     job_events := job_events demo_batch @ [demo_created 20 1020, demo_created 21 1020],
     output_reservations := output_reservations demo_batch @
       [\<lparr>rs_key = ''c'', rs_job_id = 20, rs_created = 1020\<rparr>,
        \<lparr>rs_key = ''d'', rs_job_id = 21, rs_created = 1020\<rparr>]\<rparr>"
  unfolding demo_planned_def demo_batch_eq
  by (simp add: demo_ops demo_rows Let_def state_name.simps i64_max_def u64_max_def)

lemma demo_store_eq: "demo_store = demo_planned
    \<lparr>jobs := jobs demo_batch @ [demo_row 20 ''queued'' ''c'' 1 1020 1030,
       demo_row 21 ''planned'' ''d'' 0 1020 1020],
     job_events := job_events demo_planned @ [demo_queued 20 ''QUEUED'' 1030]\<rparr>"
  unfolding demo_store_def demo_planned_eq demo_batch_eq
  by (simp add: demo_ops demo_rows Let_def state_name.simps i64_max_def u64_max_def
      parse_state_def)

lemmas demo_store_value = demo_store_eq demo_planned_eq demo_batch_eq demo_rows empty_db_def

lemma demo_jobs:
  "jobs demo_store =
     [demo_row 11 ''queued'' ''a'' 1 1010 1010, demo_row 12 ''queued'' ''b'' 1 1010 1010,
      demo_row 20 ''queued'' ''c'' 1 1020 1030, demo_row 21 ''planned'' ''d'' 0 1020 1020]"
  by (simp add: demo_store_eq demo_planned_eq demo_batch_eq)

lemma demo_batch_tables:
  "batches demo_store = [\<lparr>ba_id = 10, ba_name = ''b'', ba_created = 1010, ba_updated = 1010\<rparr>]"
  "batch_members demo_store = [\<lparr>mb_batch_id = 10, mb_job_id = 11, mb_ordinal = 0\<rparr>,
     \<lparr>mb_batch_id = 10, mb_job_id = 12, mb_ordinal = 1\<rparr>]"
  by (simp_all add: demo_store_eq demo_planned_eq demo_batch_eq)

lemma demo_store_inv: "store_inv demo_store"
proof -
  have "store_inv demo_batch"
    unfolding demo_batch_def create_queued_batch_def
    by (rule store_inv_create_batch_inner) (rule store_inv_empty)
  then have "store_inv demo_planned"
    unfolding demo_planned_def by (rule store_inv_create_jobs)
  then show ?thesis unfolding demo_store_def by (rule store_inv_queue_jobs)
qed

end
