(* ===== verification/Job_Store_Query.thy ===== *)
theory Job_Store_Query
  imports Job_Store_Demo "HOL-Library.Product_Lexorder" "HOL-Library.Char_ord"
    "HOL-Library.List_Lexorder"
begin

text \<open>
  The read side of \<open>SqliteJobStore\<close>: bounded pages in their \<open>ORDER BY\<close> orders, the selection
  predicate with its escaped \<open>LIKE\<close> pattern, counts by state, and the fair scheduling window
  over batches. A query is the list of the rows that its \<open>WHERE\<close> keeps, sorted by a key, cut
  to a page.
\<close>

section \<open>SQL text matching\<close>

text \<open>
  \<open>x LIKE pattern ESCAPE '\'\<close>: the percent sign stands for any text, the underscore for one
  character, the escape takes the next byte literally, and ASCII letters match in either case.
\<close>

abbreviation backslash :: char where
  "backslash \<equiv> CHR 0x5C"

function like :: "string \<Rightarrow> string \<Rightarrow> bool" where
  "like [] t = (t = [])"
| "like (p # ps) t =
     (if p = CHR ''%''
      then like ps t \<or> (case t of [] \<Rightarrow> False | c # t' \<Rightarrow> like (p # ps) t')
      else if p = backslash
      then (case ps of [] \<Rightarrow> False
            | q # qs \<Rightarrow> (case t of [] \<Rightarrow> False
               | c # t' \<Rightarrow> to_lower_byte c = to_lower_byte q \<and> like qs t'))
      else if p = CHR ''_''
      then (case t of [] \<Rightarrow> False | c # t' \<Rightarrow> like ps (dropWhile is_continuation t'))
      else (case t of [] \<Rightarrow> False
            | c # t' \<Rightarrow> to_lower_byte c = to_lower_byte p \<and> like ps t'))"
  by pat_completeness auto
termination
  by (relation "measure (\<lambda>(p, t). length p + length t)")
    (auto simp: less_Suc_eq_le intro: le_trans [OF length_dropWhile_le])

declare like.simps [simp del]

definition replace_byte :: "char \<Rightarrow> string \<Rightarrow> string \<Rightarrow> string" where
  "replace_byte c r s = concat (map (\<lambda>x. if x = c then r else [x]) s)"

text \<open>The three replacements of \<open>job_query_from_where\<close>, in their order.\<close>

definition escape_like :: "string \<Rightarrow> string" where
  "escape_like s =
     replace_byte (CHR ''_'') [backslash, CHR ''_'']
       (replace_byte (CHR ''%'') [backslash, CHR ''%'']
         (replace_byte backslash [backslash, backslash] s))"

definition search_pattern :: "string \<Rightarrow> string" where
  "search_pattern s = ''%'' @ escape_like s @ ''%''"

lemma replace_byte_Nil [simp]: "replace_byte c r [] = []"
  by (simp add: replace_byte_def)

lemma replace_byte_append [simp]: "replace_byte c r (s @ t) = replace_byte c r s @ replace_byte c r t"
  by (simp add: replace_byte_def)

lemma replace_byte_Cons:
  "replace_byte c r (x # s) = (if x = c then r else [x]) @ replace_byte c r s"
  by (simp add: replace_byte_def)

lemma escape_like_Nil [simp]: "escape_like [] = []"
  by (simp add: escape_like_def)

lemma escape_like_Cons:
  "escape_like (x # s) =
     (if x \<in> {backslash, CHR ''%'', CHR ''_''} then [backslash, x] else [x]) @ escape_like s"
  by (auto simp: escape_like_def replace_byte_Cons)

lemma like_percent_end: "like ''%'' t"
  by (induction t) (simp_all add: like.simps)

lemma like_escaped:
  "like (escape_like s @ ''%'') t \<longleftrightarrow> prefix (to_ascii_lowercase s) (to_ascii_lowercase t)"
proof (induction s arbitrary: t)
  case Nil
  show ?case by (simp add: like_percent_end to_ascii_lowercase_def)
next
  case (Cons x s)
  show ?case
  proof (cases t)
    case Nil
    then show ?thesis
      by (auto simp: escape_like_Cons like.simps to_ascii_lowercase_def split: list.splits)
  next
    case (Cons c t')
    then show ?thesis using Cons.IH [of t']
      by (auto simp: escape_like_Cons like.simps to_ascii_lowercase_def)
  qed
qed

lemma like_search:
  "like (search_pattern s) t \<longleftrightarrow> contains_str (to_ascii_lowercase t) (to_ascii_lowercase s)"
proof (induction t)
  case Nil
  show ?case using like_escaped [of s "[]"]
    by (simp add: search_pattern_def like.simps(2) to_ascii_lowercase_def)
next
  case (Cons c t)
  have "like (search_pattern s) (c # t) \<longleftrightarrow>
      like (escape_like s @ ''%'') (c # t) \<or> like (search_pattern s) t"
    by (simp add: search_pattern_def like.simps(2))
  then show ?case using Cons like_escaped [of s "c # t"]
    by (simp add: to_ascii_lowercase_def)
qed

section \<open>Pages\<close>

text \<open>\<open>LIMIT l OFFSET o\<close>, and the clamp of every public page size.\<close>

definition page :: "nat \<Rightarrow> nat \<Rightarrow> 'a list \<Rightarrow> 'a list" where
  "page limit offset xs = take limit (drop (min offset i64_max) xs)"

lemma pages_cover:
  assumes "0 < l" and "length xs \<le> i64_max"
  shows "concat (map (\<lambda>k. page l (k * l) xs) [0..<n]) = take (n * l) xs"
proof (induction n)
  case (Suc n)
  have "page l (n * l) xs = take l (drop (n * l) xs)"
    using assms(2) by (cases "n * l \<le> i64_max") (auto simp: page_def)
  then show ?case using Suc by (simp add: take_add [symmetric] add.commute)
qed simp

definition records_of :: "job_row list \<Rightarrow> anole_error + job_record list" where
  "records_of rs = res_mapM job_record_from_row rs"

lemma records_of_ids: "records_of rs = Inr xs \<Longrightarrow> map rec_id xs = map jr_id rs"
  unfolding records_of_def res_mapM_Inr_iff
  by (induction rs xs rule: list_all2_induct) (auto simp: job_record_from_row_def)

lemma records_of_total:
  assumes "store_inv d" and "set rs \<subseteq> set (jobs d)"
  shows "\<exists>xs. records_of rs = Inr xs"
proof -
  have "\<exists>x. job_record_from_row r = Inr x" if "r \<in> set rs" for r
  proof -
    have "find_job (jr_id r) d = Some r" using that assms find_job_member by blast
    with assms(1) obtain s where "jr_state r = state_name s" by (rule store_inv_rowE)
    then show ?thesis by (simp add: job_record_from_row_def)
  qed
  then show ?thesis unfolding records_of_def by (induction rs) fastforce+
qed

text \<open>\<open>ORDER BY updated_unix_ms DESC, id ASC\<close> and \<open>ORDER BY created_unix_ms ASC, id ASC\<close>.\<close>

definition recent_key :: "job_row \<Rightarrow> int \<times> uuid" where
  "recent_key r = (- jr_updated r, jr_id r)"

definition fifo_key :: "job_row \<Rightarrow> int \<times> uuid" where
  "fifo_key r = (jr_created r, jr_id r)"

definition list_jobs_page :: "nat \<Rightarrow> nat \<Rightarrow> db \<Rightarrow> anole_error + job_record list" where
  "list_jobs_page limit offset d =
     records_of (page (clamp 1 10000 limit) offset (sort_key recent_key (jobs d)))"

definition list_jobs :: "nat \<Rightarrow> db \<Rightarrow> anole_error + job_record list" where
  "list_jobs limit d = list_jobs_page limit 0 d"

definition list_jobs_by_state :: "job_state \<Rightarrow> nat \<Rightarrow> db \<Rightarrow> anole_error + job_record list" where
  "list_jobs_by_state s limit d =
     records_of (take (clamp 1 10000 limit)
       (sort_key fifo_key (filter (\<lambda>r. jr_state r = state_name s) (jobs d))))"

definition count_jobs :: "db \<Rightarrow> nat" where
  "count_jobs d = length (jobs d)"

text \<open>\<open>GROUP BY state ORDER BY state ASC\<close>.\<close>

definition count_jobs_by_state :: "db \<Rightarrow> anole_error + (job_state \<times> nat) list" where
  "count_jobs_by_state d =
     res_mapM (\<lambda>v. res_bind (parse_state v) (\<lambda>s.
         Inr (s, length (filter (\<lambda>r. jr_state r = v) (jobs d)))))
       (sort (remdups (map jr_state (jobs d))))"

section \<open>Selection queries\<close>

text \<open>The states in first-occurrence order without repetitions; the trimmed search text.\<close>

definition push_new :: "'a list \<Rightarrow> 'a \<Rightarrow> 'a list" where
  "push_new xs x = (if x \<in> set xs then xs else xs @ [x])"

definition normalize_search :: "string option \<Rightarrow> string option" where
  "normalize_search q =
     (case q of None \<Rightarrow> None
      | Some s \<Rightarrow> (let t = trim s in if t = [] then None else Some t))"

definition normalize_selection_query ::
    "job_selection_query \<Rightarrow> anole_error + job_selection_query" where
  "normalize_selection_query q =
     (let states = foldl push_new [] (q_states q);
          search = normalize_search (q_search q)
      in if (case search of None \<Rightarrow> False | Some s \<Rightarrow> chars_count s > 200 \<or> has_control s)
         then Inl (anole_error_new InputInvalid Store
                ''Selection search must contain at most 200 visible characters'')
         else Inr \<lparr>q_batch_id = q_batch_id q, q_states = states, q_search = search\<rparr>)"

text \<open>
  \<open>job_query_from_where\<close>: the \<open>FROM ... WHERE\<close> of a query as the list of the joined rows,
  each with its ordinal in the batch (zero without the join).
\<close>

definition row_matches :: "job_selection_query \<Rightarrow> job_row \<Rightarrow> bool" where
  "row_matches q r \<longleftrightarrow>
     (q_states q = [] \<or> jr_state r \<in> state_name ` set (q_states q))
     \<and> (case q_search q of None \<Rightarrow> True
        | Some s \<Rightarrow> like (search_pattern s) (jr_input_path r)
                   \<or> like (search_pattern s) (jr_output_path r))"

definition from_rows :: "job_selection_query \<Rightarrow> db \<Rightarrow> (nat \<times> job_row) list" where
  "from_rows q d =
     (case q_batch_id q of
        None \<Rightarrow> map (\<lambda>r. (0, r)) (jobs d)
      | Some b \<Rightarrow> [(mb_ordinal m, r). r \<leftarrow> jobs d, m \<leftarrow> batch_members d,
                     mb_job_id m = jr_id r \<and> mb_batch_id m = b])"

definition job_query_from_where :: "job_selection_query \<Rightarrow> db \<Rightarrow> (nat \<times> job_row) list" where
  "job_query_from_where q d = filter (\<lambda>(_, r). row_matches q r) (from_rows q d)"

definition selection_member_ids :: "job_selection_query \<Rightarrow> db \<Rightarrow> uuid list" where
  "selection_member_ids q d =
     take 100001 (map (\<lambda>(_, r). jr_id r)
       (if q_batch_id q \<noteq> None
        then sort_key (\<lambda>(i, r). (int i, jr_id r)) (job_query_from_where q d)
        else sort_key (\<lambda>(_, r). fifo_key r) (job_query_from_where q d)))"

record job_query_page =
  qp_jobs :: "job_record list"
  qp_total :: nat
  qp_limit :: nat
  qp_offset :: nat

definition query_jobs_page ::
    "job_selection_query \<Rightarrow> nat \<Rightarrow> nat \<Rightarrow> db \<Rightarrow> anole_error + job_query_page" where
  "query_jobs_page query limit offset d =
     res_bind (normalize_selection_query query) (\<lambda>q.
     let l = clamp 1 500 limit;
         rows = map snd (job_query_from_where q d)
     in res_bind (records_of (page l offset (sort_key recent_key rows))) (\<lambda>rs.
        Inr \<lparr>qp_jobs = rs, qp_total = length (remdups (map jr_id rows)), qp_limit = l,
             qp_offset = offset\<rparr>))"

section \<open>Batches and their jobs\<close>

definition list_batches_page :: "nat \<Rightarrow> nat \<Rightarrow> db \<Rightarrow> batch_record list" where
  "list_batches_page limit offset d =
     page (clamp 1 10000 limit) offset
       (map (\<lambda>b. \<lparr>br_id = ba_id b, br_name = ba_name b,
                  br_job_count = length (filter (\<lambda>m. mb_batch_id m = ba_id b) (batch_members d)),
                  br_created = ba_created b, br_updated = ba_updated b\<rparr>)
         (sort_key (\<lambda>b. (- ba_created b, ba_id b)) (batches d)))"

definition joined_jobs :: "uuid list \<Rightarrow> db \<Rightarrow> job_row list" where
  "joined_jobs js d = List.map_filter (\<lambda>j. find_job j d) js"

definition batch_job_ids :: "uuid \<Rightarrow> db \<Rightarrow> uuid list" where
  "batch_job_ids b d =
     map mb_job_id (sort_key mb_ordinal (filter (\<lambda>m. mb_batch_id m = b) (batch_members d)))"

definition list_batch_jobs_page ::
    "uuid \<Rightarrow> nat \<Rightarrow> nat \<Rightarrow> db \<Rightarrow> anole_error + job_record list" where
  "list_batch_jobs_page b limit offset d =
     records_of (page (clamp 1 10000 limit) offset (joined_jobs (batch_job_ids b d) d))"

section \<open>The fair scheduling window\<close>

text \<open>
  A queued job belongs to the lane of its batch, or to the interactive lane. Lane identifiers
  are compared as text: the textual form of a batch identifier is below \<open>__interactive__\<close>
  when its first digit is decimal and above it when the digit is a letter.
\<close>

record eligible_row =
  el_row :: job_row
  el_lane :: "uuid option"
  el_ordinal :: int
  el_lane_created :: int

definition queued_rows :: "db \<Rightarrow> job_row list" where
  "queued_rows d = filter (\<lambda>r. jr_state r = ''queued'') (jobs d)"

definition earliest_queued :: "db \<Rightarrow> int" where
  "earliest_queued d =
     (case map jr_created (queued_rows d) of [] \<Rightarrow> 0 | t # ts \<Rightarrow> foldl min t ts)"

definition eligible_of :: "db \<Rightarrow> job_row \<Rightarrow> eligible_row" where
  "eligible_of d r =
     (case lookup_row mb_job_id (jr_id r) (batch_members d) of
        None \<Rightarrow> \<lparr>el_row = r, el_lane = None, el_ordinal = jr_created r,
                 el_lane_created = earliest_queued d\<rparr>
      | Some m \<Rightarrow> \<lparr>el_row = r, el_lane = Some (mb_batch_id m), el_ordinal = int (mb_ordinal m),
                 el_lane_created =
                   (case lookup_row ba_id (mb_batch_id m) (batches d) of
                      None \<Rightarrow> earliest_queued d | Some b \<Rightarrow> ba_created b)\<rparr>)"

definition eligible_rows :: "db \<Rightarrow> eligible_row list" where
  "eligible_rows d = map (eligible_of d) (queued_rows d)"

definition lane_key :: "eligible_row \<Rightarrow> int \<times> int \<times> uuid" where
  "lane_key x = (el_ordinal x, jr_created (el_row x), jr_id (el_row x))"

text \<open>\<open>ROW_NUMBER()\<close> within the lane; job identifiers make the order strict.\<close>

definition lane_rank :: "eligible_row list \<Rightarrow> eligible_row \<Rightarrow> nat" where
  "lane_rank xs x =
     Suc (length (filter (\<lambda>y. el_lane y = el_lane x \<and> lane_key y < lane_key x) xs))"

definition lane_text_key :: "uuid option \<Rightarrow> nat \<times> nat" where
  "lane_text_key l =
     (case l of None \<Rightarrow> (1, 0)
      | Some b \<Rightarrow> (if b < 10 * 16 ^ 31 then (0, b) else (2, b)))"

definition fair_key ::
    "eligible_row list \<Rightarrow> eligible_row \<Rightarrow> nat \<times> int \<times> (nat \<times> nat) \<times> int \<times> uuid" where
  "fair_key xs x =
     (lane_rank xs x, el_lane_created x, lane_text_key (el_lane x), el_ordinal x,
      jr_id (el_row x))"

definition fair_window :: "nat \<Rightarrow> db \<Rightarrow> eligible_row list" where
  "fair_window limit d =
     (let xs = eligible_rows d
      in take (clamp 1 10000 limit) (sort_key (fair_key xs) xs))"

definition list_queued_jobs_fair :: "nat \<Rightarrow> db \<Rightarrow> anole_error + job_record list" where
  "list_queued_jobs_fair limit d = records_of (map el_row (fair_window limit d))"

section \<open>Details and evidence of one job\<close>

text \<open>
  \<open>latest_revalidation\<close> and \<open>get_job_details\<close>; \<open>parse_report\<close> and \<open>parse_plan\<close> stand for
  the JSON decoder. Events have no progress and no data in this version, and their identifier
  is a hash of job and sequence.
\<close>

definition latest_revalidation ::
    "(string \<Rightarrow> validation_report option) \<Rightarrow> uuid \<Rightarrow> db \<Rightarrow> anole_error + revalidation_record option" where
  "latest_revalidation parse_report j d =
     (case sort_key (\<lambda>r. - rv_created r) (rev (filter (\<lambda>r. rv_job_id r = j) (revalidations d))) of
        [] \<Rightarrow> Inr None
      | r # _ \<Rightarrow>
          res_bind (ok_or (anole_error_new StorageFailed Validate
              ''Stored revalidation report is invalid'') (parse_report (rv_report_json r))) (\<lambda>report.
          res_bind (parse_validation_status (rv_status r)) (\<lambda>s.
          Inr (Some \<lparr>rr_id = rv_id r, rr_job = j, rr_status = s, rr_report = report,
                     rr_created = rv_created r\<rparr>))))"

record job_event_record =
  je_sequence :: nat
  je_previous :: "job_state option"
  je_next :: job_state
  je_code :: string
  je_timestamp :: int

record job_details =
  jd_job :: job_record
  jd_plan :: plan
  jd_events :: "job_event_record list"

definition event_record :: "event_row \<Rightarrow> anole_error + job_event_record" where
  "event_record e =
     res_bind (case ev_previous e of None \<Rightarrow> Inr None
               | Some v \<Rightarrow> res_bind (parse_state v) (\<lambda>s. Inr (Some s))) (\<lambda>previous.
     res_bind (parse_state (ev_next e)) (\<lambda>nxt.
     Inr \<lparr>je_sequence = ev_sequence e, je_previous = previous, je_next = nxt,
          je_code = ev_code e, je_timestamp = ev_timestamp e\<rparr>))"

definition get_job_details ::
    "(string \<Rightarrow> plan option) \<Rightarrow> uuid \<Rightarrow> db \<Rightarrow> anole_error + job_details option" where
  "get_job_details parse_plan j d =
     res_bind (get_job j d) (\<lambda>found.
     case found of
       None \<Rightarrow> Inr None
     | Some job \<Rightarrow>
         res_bind (ok_or err_storage (map_option jr_plan_json (find_job j d))) (\<lambda>text.
         res_bind (ok_or (anole_error_new StorageFailed Store ''Stored job Plan is invalid'')
                    (parse_plan text)) (\<lambda>p.
         res_bind (res_mapM event_record (sort_key ev_sequence (events_of j d))) (\<lambda>es.
         Inr (Some \<lparr>jd_job = job, jd_plan = p, jd_events = es\<rparr>)))))"

lemma event_record_fields:
  "event_record e = Inr x \<Longrightarrow> je_sequence x = ev_sequence e \<and> ev_next e = state_name (je_next x)
     \<and> ev_previous e = map_option state_name (je_previous x) \<and> je_code x = ev_code e"
  by (auto simp: event_record_def parse_state_Inr_iff split: option.splits)

lemma log_ok_sorted: "log_ok es s n \<Longrightarrow> sort_key ev_sequence es = es"
  using log_ok_sequences [of es s n] sorted_sort_id [of "map ev_sequence es"]
  by (metis sort_key_id_if_sorted sorted_upt)

lemma log_ok_records:
  "log_ok es s n \<Longrightarrow> \<exists>xs. res_mapM event_record es = Inr xs \<and> map je_sequence xs = [0..<Suc n]
     \<and> je_next (last xs) = s \<and> xs \<noteq> []"
proof (induction rule: log_ok.induct)
  case (created e)
  then show ?case by (simp add: event_record_def)
next
  case (moved es a n b e)
  then obtain xs where xs: "res_mapM event_record es = Inr xs" "map je_sequence xs = [0..<Suc n]"
    by auto
  have "event_record e = Inr \<lparr>je_sequence = Suc n, je_previous = Some a, je_next = b,
      je_code = ev_code e, je_timestamp = ev_timestamp e\<rparr>" (is "_ = Inr ?x")
    using moved.hyps by (simp add: event_record_def)
  then have "res_mapM event_record (es @ [e]) = Inr (xs @ [?x])"
    using xs(1) unfolding res_mapM_Inr_iff by (simp add: list_all2_appendI)
  with xs(2) show ?case by simp
qed

section \<open>Lemmas on sorted windows\<close>

lemma take_sort_key_closed:
  assumes x: "x \<in> set (take n (sort_key f xs))" and y: "y \<in> set xs" and less: "f y < f x"
  shows "y \<in> set (take n (sort_key f xs))"
proof (rule ccontr)
  let ?s = "sort_key f xs"
  assume "y \<notin> set (take n ?s)"
  then have "y \<in> set (drop n ?s)" using y by (metis Un_iff append_take_drop_id set_append set_sort)
  moreover have "sorted (map f (take n ?s) @ map f (drop n ?s))" by (simp flip: map_append)
  ultimately have "f x \<le> f y" using x unfolding sorted_append by auto
  with less show False by simp
qed

lemma distinct_map_distinct: "distinct (map f xs) \<Longrightarrow> distinct xs"
  by (simp add: distinct_map)

lemma lane_rank_pos: "0 < lane_rank xs x"
  by (simp add: lane_rank_def)

lemma lane_rank_less:
  assumes "y \<in> set xs" and "el_lane y = el_lane x" and "lane_key y < lane_key x"
  shows "lane_rank xs y < lane_rank xs x"
proof -
  let ?below = "\<lambda>z. filter (\<lambda>w. el_lane w = el_lane z \<and> lane_key w < lane_key z) xs"
  have "length (filter (\<lambda>w. lane_key w < lane_key y) (?below x)) < length (?below x)"
    using assms by (intro length_filter_less [of y]) auto
  moreover have "filter (\<lambda>w. lane_key w < lane_key y) (?below x) = ?below y"
    using assms(2,3) by (auto simp: filter_filter intro!: filter_cong)
  ultimately show ?thesis by (simp add: lane_rank_def)
qed

text \<open>Ranks tell the rows of a lane apart, and every lane has a first row.\<close>

lemma lane_rank_inj:
  assumes "x \<in> set xs" "y \<in> set xs" "el_lane x = el_lane y" "lane_rank xs x = lane_rank xs y"
  shows "lane_key x = lane_key y"
  using lane_rank_less [of x xs y] lane_rank_less [of y xs x] assms by fastforce

lemma lane_head:
  assumes "x \<in> set xs"
  shows "\<exists>y \<in> set xs. el_lane y = el_lane x \<and> lane_rank xs y = 1"
proof -
  let ?lane = "filter (\<lambda>y. el_lane y = el_lane x) xs"
  have "lane_key ` set ?lane \<noteq> {}" using assms by auto
  then have "Min (lane_key ` set ?lane) \<in> lane_key ` set ?lane" by (intro Min_in) auto
  then obtain y where y: "y \<in> set ?lane" "lane_key y = Min (lane_key ` set ?lane)" by auto
  have "filter (\<lambda>w. el_lane w = el_lane y \<and> lane_key w < lane_key y) xs = []"
    using y Min_le [of "lane_key ` set ?lane"] by (auto simp: filter_empty_conv not_less)
  then show ?thesis using y(1) by (auto simp: lane_rank_def)
qed

lemma eligible_of_row [simp]: "el_row (eligible_of d r) = r"
  by (simp add: eligible_of_def split: option.splits)

lemma eligible_inj:
  assumes "store_inv d" and "x \<in> set (eligible_rows d)" "y \<in> set (eligible_rows d)"
    and "lane_key x = lane_key y"
  shows "x = y"
proof -
  obtain r s where "x = eligible_of d r" "y = eligible_of d s" "r \<in> set (jobs d)" "s \<in> set (jobs d)"
    using assms(2,3) by (auto simp: eligible_rows_def queued_rows_def)
  moreover from this have "r = s"
    using assms(1,4) distinct_map_inj_on [of jr_id "jobs d" r s] by (simp add: lane_key_def store_inv_def)
  ultimately show ?thesis by simp
qed

lemma distinct_eligible: "store_inv d \<Longrightarrow> distinct (eligible_rows d)"
  by (rule distinct_map_distinct [of "\<lambda>x. jr_id (el_row x)"])
    (simp add: eligible_rows_def queued_rows_def store_inv_def o_def distinct_map_filter)

lemma heads_of_distinct_lanes:
  assumes inv: "store_inv d" and xs: "xs = eligible_rows d" and hs: "distinct hs" "set hs \<subseteq> set xs"
    and one: "\<forall>h \<in> set hs. lane_rank xs h = 1"
  shows "length hs \<le> card (el_lane ` set xs)"
proof -
  have "inj_on el_lane (set hs)"
    using one hs(2) lane_rank_inj [of _ xs] eligible_inj [OF inv] unfolding xs inj_on_def
    by (metis subsetD)
  then have "length hs = card (el_lane ` set hs)" using hs(1) by (simp add: card_image distinct_card)
  also have "\<dots> \<le> card (el_lane ` set xs)" using hs(2) by (intro card_mono) auto
  finally show ?thesis .
qed

section \<open>Properties\<close>

text \<open>
  The search filter of a selection query, which escapes the text into a \<open>LIKE\<close> pattern,
  keeps exactly the jobs whose input or output path contains the text, ASCII letters in
  either case; percent signs, underscores and backslashes of the text have no special meaning.
\<close>

theorem search_filter_is_containment:
  "row_matches \<lparr>q_batch_id = b, q_states = [], q_search = Some s\<rparr> r \<longleftrightarrow>
     contains_str (to_ascii_lowercase (jr_input_path r)) (to_ascii_lowercase s)
     \<or> contains_str (to_ascii_lowercase (jr_output_path r)) (to_ascii_lowercase s)"
  by (simp add: row_matches_def like_search)

lemma set_sort_jobs: "set (sort_key f (jobs d)) = set (jobs d)"
  by simp

lemma records_of_page:
  assumes "store_inv d"
  shows "\<exists>xs. records_of (page l off (sort_key f (jobs d))) = Inr xs"
proof (rule records_of_total [OF assms])
  show "set (page l off (sort_key f (jobs d))) \<subseteq> set (jobs d)"
    unfolding page_def using set_take_subset set_drop_subset set_sort by fastforce
qed

lemma records_pages:
  "\<forall>k < n. records_of (f k) = Inr (g k) \<Longrightarrow>
   map rec_id (concat (map g [0..<n])) = map jr_id (concat (map f [0..<n]))"
  by (induction n) (auto dest: records_of_ids)

text \<open>
  Turning the pages of the job list of one reading of the database, at any page size the
  operation accepts, gives every job exactly once.
\<close>

theorem list_jobs_pages_complete:
  assumes "store_inv d" and "1 \<le> l" "l \<le> 10000" and "length (jobs d) \<le> n * l"
    and "length (jobs d) \<le> i64_max"
  shows "\<exists>ps. (\<forall>k < n. list_jobs_page l (k * l) d = Inr (ps k))
    \<and> distinct (map rec_id (concat (map ps [0..<n])))
    \<and> set (map rec_id (concat (map ps [0..<n]))) = job_ids d"
proof -
  let ?s = "sort_key recent_key (jobs d)"
  have l: "clamp 1 10000 l = l" using assms(2,3) by (simp add: clamp_def)
  have "\<forall>k. \<exists>xs. records_of (page l (k * l) ?s) = Inr xs"
    using records_of_page [OF assms(1)] by blast
  then obtain ps where ps: "records_of (page l (k * l) ?s) = Inr (ps k)" for k by metis
  have "concat (map (\<lambda>k. page l (k * l) ?s) [0..<n]) = ?s"
    using pages_cover [of l ?s n] assms(2,4,5) by simp
  then have ids: "map rec_id (concat (map ps [0..<n])) = map jr_id ?s"
    using records_pages [of n "\<lambda>k. page l (k * l) ?s" ps] ps by simp
  have "distinct (map jr_id ?s)" using assms(1)
    by (simp add: store_inv_def distinct_map)
  then show ?thesis using ps ids by (intro exI [of _ ps])
    (simp add: list_jobs_page_def l job_ids_def del: One_nat_def)
qed

lemma list_jobs_pages_complete_witness:
  "\<exists>ps. (\<forall>k < 2. list_jobs_page 3 (k * 3) demo_store = Inr (ps k))
    \<and> distinct (map rec_id (concat (map ps [0..<2])))
    \<and> set (map rec_id (concat (map ps [0..<2]))) = {11, 12, 20, 21}"
  using list_jobs_pages_complete [OF demo_store_inv, of 3 2]
  by (simp add: demo_jobs demo_row_def i64_max_def job_ids_def)

text \<open>
  A query for jobs reports the number of the rows its page is cut from; when they all fit
  in the page, the page is every job that matches, once.
\<close>

theorem query_page_total:
  assumes "store_inv d" and "q_batch_id query = None"
    and "query_jobs_page query limit 0 d = Inr p" and "qp_total p \<le> qp_limit p"
  shows "distinct (map rec_id (qp_jobs p)) \<and> length (qp_jobs p) = qp_total p
    \<and> (\<exists>q. normalize_selection_query query = Inr q
         \<and> rec_id ` set (qp_jobs p) = jr_id ` {r \<in> set (jobs d). row_matches q r})"
proof -
  from assms(3) obtain q xs where q: "normalize_selection_query query = Inr q"
    and xs: "records_of (page (clamp 1 500 limit) 0 (sort_key recent_key
        (map snd (job_query_from_where q d)))) = Inr xs"
    and p: "p = \<lparr>qp_jobs = xs,
        qp_total = length (remdups (map jr_id (map snd (job_query_from_where q d)))),
        qp_limit = clamp 1 500 limit, qp_offset = 0\<rparr>"
    by (auto simp: query_jobs_page_def Let_def)
  have "q_batch_id q = None" using q assms(2)
    by (auto simp: normalize_selection_query_def Let_def split: if_splits)
  then have rows: "map snd (job_query_from_where q d) = filter (row_matches q) (jobs d)"
    by (simp add: job_query_from_where_def from_rows_def filter_map o_def)
  have dist: "distinct (map jr_id (filter (row_matches q) (jobs d)))"
    using assms(1) by (simp add: store_inv_def distinct_map_filter)
  then have "length (filter (row_matches q) (jobs d)) \<le> clamp 1 500 limit"
    using assms(4) by (simp add: p rows distinct_remdups_id)
  then have "map rec_id xs = map jr_id (sort_key recent_key (filter (row_matches q) (jobs d)))"
    using records_of_ids [OF xs] by (simp add: rows page_def)
  moreover from this have "distinct (map rec_id xs)" using dist by (simp add: distinct_map)
  moreover have "rec_id ` set xs = jr_id ` {r \<in> set (jobs d). row_matches q r}"
    using calculation(1) by (metis list.set_map set_sort set_filter)
  moreover have "length xs = length (filter (row_matches q) (jobs d))"
    using calculation(1) by (metis length_map length_sort)
  ultimately show ?thesis using dist q by (simp add: p rows distinct_remdups_id)
qed

lemma query_page_total_witness:
  "\<exists>p. query_jobs_page \<lparr>q_batch_id = None, q_states = [Queued, Queued], q_search = None\<rparr> 5 0
      demo_store = Inr p \<and> length (qp_jobs p) = 3 \<and> distinct (map rec_id (qp_jobs p))"
proof -
  let ?q = "\<lparr>q_batch_id = None, q_states = [Queued, Queued], q_search = None\<rparr>"
  let ?rec = "\<lambda>j out now updated. \<lparr>rec_id = j, rec_state = Queued, rec_input_path = ''in'',
      rec_output_path = out, rec_plan_hash = ''h'', rec_sequence = 1, rec_created = now,
      rec_updated = updated\<rparr>"
  have norm: "normalize_selection_query ?q = Inr \<lparr>q_batch_id = None, q_states = [Queued], q_search = None\<rparr>"
    by (simp add: normalize_selection_query_def push_new_def normalize_search_def)
  have rows: "map snd (job_query_from_where \<lparr>q_batch_id = None, q_states = [Queued], q_search = None\<rparr>
      demo_store) = [demo_row 11 ''queued'' ''a'' 1 1010 1010,
        demo_row 12 ''queued'' ''b'' 1 1010 1010, demo_row 20 ''queued'' ''c'' 1 1020 1030]"
    by (simp add: job_query_from_where_def from_rows_def row_matches_def demo_jobs demo_row_def
        state_name.simps)
  have recs: "records_of [demo_row 20 ''queued'' ''c'' 1 1020 1030,
      demo_row 11 ''queued'' ''a'' 1 1010 1010, demo_row 12 ''queued'' ''b'' 1 1010 1010] =
      Inr [?rec 20 ''c'' 1020 1030, ?rec 11 ''a'' 1010 1010, ?rec 12 ''b'' 1010 1010]"
    by (simp add: records_of_def job_record_from_row_def demo_row_def parse_state_def)
  have run: "query_jobs_page ?q 5 0 demo_store = Inr
      \<lparr>qp_jobs = [?rec 20 ''c'' 1020 1030, ?rec 11 ''a'' 1010 1010, ?rec 12 ''b'' 1010 1010],
       qp_total = 3, qp_limit = 5, qp_offset = 0\<rparr>"
    using recs by (simp add: query_jobs_page_def norm rows page_def clamp_def recent_key_def
        demo_row_def Let_def del: map_map)
  show ?thesis using query_page_total [OF demo_store_inv _ run] run by simp
qed

lemma count_groups:
  assumes "distinct vs"
  shows "sum_list (map (\<lambda>v. length (filter (\<lambda>r. f r = v) rs)) vs) =
    length (filter (\<lambda>r. f r \<in> set vs) rs)"
proof (induction rs)
  case (Cons r rs)
  have "sum_list (map (\<lambda>v. if f r = v then Suc (g v) else g v) vs) =
      (if f r \<in> set vs then Suc (sum_list (map g vs)) else sum_list (map g vs))" for g
    using assms by (induction vs) auto
  from this [of "\<lambda>v. length (filter (\<lambda>r. f r = v) rs)"] Cons show ?case
    by (simp add: if_distrib [of length] cong: if_cong)
qed simp

text \<open>
  On every database that satisfies the invariant the counts by state can be read; they
  name no state twice, give the number of jobs in the state, never zero, and add up to the
  number of jobs.
\<close>

theorem count_jobs_by_state_total:
  assumes "store_inv d"
  shows "\<exists>cs. count_jobs_by_state d = Inr cs \<and> distinct (map fst cs)
    \<and> (\<forall>(s, n) \<in> set cs. n > 0 \<and> n = length (filter (\<lambda>r. jr_state r = state_name s) (jobs d)))
    \<and> sum_list (map snd cs) = count_jobs d"
proof -
  let ?vs = "sort (remdups (map jr_state (jobs d)))"
  let ?n = "\<lambda>v. length (filter (\<lambda>r. jr_state r = v) (jobs d))"
  let ?f = "\<lambda>v. res_bind (parse_state v) (\<lambda>s. Inr (s, ?n v))"
  have "\<exists>s. v = state_name s" if v: "v \<in> set ?vs" for v
  proof -
    obtain r where "r \<in> set (jobs d)" "v = jr_state r" using v by auto
    with find_job_member [OF assms] have "find_job (jr_id r) d = Some r" by blast
    with assms show ?thesis by (rule store_inv_rowE) (use \<open>v = jr_state r\<close> in blast)
  qed
  then obtain st where st: "v = state_name (st v)" if "v \<in> set ?vs" for v by metis
  define cs where "cs = map (\<lambda>v. (st v, ?n v)) ?vs"
  have "?f v = Inr (st v, ?n v)" if "v \<in> set ?vs" for v
    using parse_state_name [of "st v"] st [OF that] by simp
  then have cs: "count_jobs_by_state d = Inr cs"
    unfolding count_jobs_by_state_def cs_def by (rule res_mapM_all_Inr)
  have "map (\<lambda>v. state_name (st v)) ?vs = ?vs" by (rule map_idI) (rule st [symmetric])
  then have vs: "?vs = map (\<lambda>c. state_name (fst c)) cs" and ns: "map snd cs = map ?n ?vs"
    by (simp_all add: cs_def o_def)
  have dist: "distinct ?vs" by simp
  have "distinct (map state_name (map fst cs))" using dist vs by (simp add: o_def)
  then have "distinct (map fst cs)" by (rule distinct_map_distinct)
  show ?thesis
  proof (intro exI [of _ cs] conjI ballI)
    show "count_jobs_by_state d = Inr cs" "distinct (map fst cs)" by fact+
    show "case c of (s, n) \<Rightarrow> n > 0 \<and> n = length (filter (\<lambda>r. jr_state r = state_name s) (jobs d))"
      if c: "c \<in> set cs" for c
    proof -
      obtain v where v: "v \<in> set ?vs" "c = (st v, ?n v)" using c by (auto simp: cs_def)
      then have "?n v > 0" by (auto simp: filter_empty_conv)
      then show ?thesis using v st [OF v(1)] by simp
    qed
    show "sum_list (map snd cs) = count_jobs d"
      unfolding ns count_groups [OF dist] by (simp add: count_jobs_def)
  qed
qed

lemma count_jobs_by_state_total_witness:
  "\<exists>cs. count_jobs_by_state demo_store = Inr cs \<and> sum_list (map snd cs) = 4"
  using count_jobs_by_state_total [OF demo_store_inv] by (auto simp: count_jobs_def demo_jobs)

text \<open>The lane of a job, read off the batch table.\<close>

definition lane_of :: "db \<Rightarrow> uuid \<Rightarrow> uuid option" where
  "lane_of d j = map_option mb_batch_id (lookup_row mb_job_id j (batch_members d))"

lemma el_lane_eligible: "el_lane (eligible_of d r) = lane_of d (jr_id r)"
  by (simp add: eligible_of_def lane_of_def split: option.splits)

lemma fair_window_subset: "set (fair_window l d) \<subseteq> set (eligible_rows d)"
  unfolding fair_window_def Let_def using set_take_subset set_sort by fastforce

lemma fair_window_closed:
  assumes "x \<in> set (fair_window l d)" and "y \<in> set (eligible_rows d)"
    and "lane_rank (eligible_rows d) y < lane_rank (eligible_rows d) x"
  shows "y \<in> set (fair_window l d)"
  using assms take_sort_key_closed [of x _ "fair_key (eligible_rows d)" "eligible_rows d" y]
  by (simp add: fair_window_def Let_def fair_key_def)

text \<open>Every lane has its first job in the window when the lanes are no more than its size.\<close>

lemma fair_window_heads:
  assumes inv: "store_inv d" and y: "y \<in> set (eligible_rows d)"
    and one: "lane_rank (eligible_rows d) y = 1"
    and lanes: "card (el_lane ` set (eligible_rows d)) \<le> clamp 1 10000 l"
  shows "y \<in> set (fair_window l d)"
proof (rule ccontr)
  let ?xs = "eligible_rows d"
  assume out: "y \<notin> set (fair_window l d)"
  have rank: "lane_rank ?xs x = 1" if "x \<in> set (fair_window l d)" for x
    using fair_window_closed [OF that y] out one lane_rank_pos [of ?xs x]
    by (cases "1 < lane_rank ?xs x") auto
  have "distinct (sort_key (fair_key ?xs) ?xs)" using distinct_eligible [OF inv] by simp
  then have dist: "distinct (y # fair_window l d)"
    using out by (simp add: fair_window_def Let_def)
  have len: "length (fair_window l d) = clamp 1 10000 l"
  proof (rule ccontr)
    assume "length (fair_window l d) \<noteq> clamp 1 10000 l"
    then have "fair_window l d = sort_key (fair_key ?xs) ?xs"
      by (auto simp: fair_window_def Let_def min_def split: if_splits)
    then show False using out y by simp
  qed
  have "length (y # fair_window l d) \<le> card (el_lane ` set ?xs)"
    using fair_window_subset y rank one
    by (intro heads_of_distinct_lanes [OF inv refl dist]) auto
  with len lanes show False by simp
qed

text \<open>
  The window of queued jobs is a round robin over the batches: a job that has fewer
  queued jobs of its own lane before it than some job of the window has is in the window too,
  whatever the sizes of the batches.
\<close>

theorem fair_window_round_robin:
  assumes "x \<in> set (fair_window l d)" and "y \<in> set (eligible_rows d)"
    and "lane_rank (eligible_rows d) y < lane_rank (eligible_rows d) x"
  shows "y \<in> set (fair_window l d)"
  using assms by (rule fair_window_closed)

lemma demo_eligible:
  "eligible_rows demo_store =
     [\<lparr>el_row = demo_row 11 ''queued'' ''a'' 1 1010 1010, el_lane = Some 10, el_ordinal = 0,
       el_lane_created = 1010\<rparr>,
      \<lparr>el_row = demo_row 12 ''queued'' ''b'' 1 1010 1010, el_lane = Some 10, el_ordinal = 1,
       el_lane_created = 1010\<rparr>,
      \<lparr>el_row = demo_row 20 ''queued'' ''c'' 1 1020 1030, el_lane = None, el_ordinal = 1020,
       el_lane_created = 1010\<rparr>]"
  by (simp add: eligible_rows_def queued_rows_def eligible_of_def earliest_queued_def demo_jobs
      demo_batch_tables demo_row_def lookup_row_Cons)

lemma demo_window:
  "map (\<lambda>x. jr_id (el_row x)) (fair_window 10 demo_store) = [11, 20, 12]"
  by (simp add: fair_window_def demo_eligible clamp_def fair_key_def lane_rank_def lane_key_def
      lane_text_key_def demo_row_def)

lemma fair_window_round_robin_witness:
  "eligible_rows demo_store ! 2 \<in> set (fair_window 10 demo_store)"
proof (rule fair_window_round_robin [where x = "eligible_rows demo_store ! 1"])
  show "eligible_rows demo_store ! 1 \<in> set (fair_window 10 demo_store)"
    by (simp add: fair_window_def demo_eligible clamp_def fair_key_def lane_rank_def lane_key_def
      lane_text_key_def demo_row_def)
  show "eligible_rows demo_store ! 2 \<in> set (eligible_rows demo_store)"
    by (simp add: demo_eligible)
  show "lane_rank (eligible_rows demo_store) (eligible_rows demo_store ! 2)
      < lane_rank (eligible_rows demo_store) (eligible_rows demo_store ! 1)"
    by (simp add: demo_eligible lane_rank_def lane_key_def demo_row_def)
qed

text \<open>
  C7: no batch starves another: when the queued jobs lie in no more lanes than the window has
  places, the window can be read and holds a job of every lane that has a queued job.
\<close>

theorem every_lane_is_served:
  assumes inv: "store_inv d"
    and lanes: "card (lane_of d ` jr_id ` set (queued_rows d)) \<le> clamp 1 10000 l"
    and r: "r \<in> set (queued_rows d)"
  shows "\<exists>xs x. list_queued_jobs_fair l d = Inr xs \<and> x \<in> set xs
    \<and> lane_of d (rec_id x) = lane_of d (jr_id r)"
proof -
  have "el_lane ` set (eligible_rows d) = lane_of d ` jr_id ` set (queued_rows d)"
    by (simp add: eligible_rows_def image_image el_lane_eligible)
  with lanes have lanes': "card (el_lane ` set (eligible_rows d)) \<le> clamp 1 10000 l" by simp
  have "eligible_of d r \<in> set (eligible_rows d)" using r by (simp add: eligible_rows_def)
  from lane_head [OF this] obtain y where y: "y \<in> set (eligible_rows d)"
    "el_lane y = lane_of d (jr_id r)" "lane_rank (eligible_rows d) y = 1"
    by (auto simp: el_lane_eligible)
  have win: "y \<in> set (fair_window l d)" by (rule fair_window_heads [OF inv y(1,3) lanes'])
  have "set (map el_row (fair_window l d)) \<subseteq> set (jobs d)"
    using fair_window_subset [of l d] by (auto simp: eligible_rows_def queued_rows_def)
  then obtain xs where xs: "list_queued_jobs_fair l d = Inr xs"
    unfolding list_queued_jobs_fair_def using records_of_total [OF inv] by blast
  then have ids: "rec_id ` set xs = (\<lambda>x. jr_id (el_row x)) ` set (fair_window l d)"
    unfolding list_queued_jobs_fair_def
    by (metis image_image list.set_map records_of_ids)
  with win obtain x where "x \<in> set xs" "rec_id x = jr_id (el_row y)" by (metis imageE imageI)
  moreover have "lane_of d (jr_id (el_row y)) = lane_of d (jr_id r)"
    using y(1,2) by (auto simp: eligible_rows_def el_lane_eligible)
  ultimately show ?thesis using xs by auto
qed

lemma every_lane_is_served_witness:
  "\<exists>xs x. list_queued_jobs_fair 2 demo_store = Inr xs \<and> x \<in> set xs
    \<and> lane_of demo_store (rec_id x) = None"
  using every_lane_is_served [OF demo_store_inv, of 2 "demo_row 20 ''queued'' ''c'' 1 1020 1030"]
  by (simp add: queued_rows_def demo_jobs demo_row_def lane_of_def demo_batch_tables clamp_def
      lookup_row_Cons insert_commute)

text \<open>
  The history a job reports ends in the state it reports: when the stored plan parses,
  its events are numbered from zero without a gap, the last one leads to the job's state, and
  its number is the job's sequence.
\<close>

theorem job_details_history:
  assumes inv: "store_inv d" and "find_job j d = Some row"
    and "parse_plan (jr_plan_json row) = Some p"
  shows "\<exists>x. get_job_details parse_plan j d = Inr (Some x) \<and> jd_plan x = p
    \<and> map je_sequence (jd_events x) = [0..<Suc (rec_sequence (jd_job x))]
    \<and> je_next (last (jd_events x)) = rec_state (jd_job x)"
proof -
  obtain s where s: "jr_state row = state_name s" "log_ok (events_of j d) s (jr_sequence row)"
    using inv assms(2) by (rule store_inv_rowE)
  then obtain es where "res_mapM event_record (events_of j d) = Inr es"
    "map je_sequence es = [0..<Suc (jr_sequence row)]" "je_next (last es) = s"
    using log_ok_records by blast
  then show ?thesis using assms(2,3) s
    by (simp add: get_job_details_def get_job_def job_record_from_row_def log_ok_sorted ok_or_def)
qed

lemma job_details_history_witness:
  "\<exists>x. get_job_details (\<lambda>_. Some demo_plan) 12 demo_store = Inr (Some x)
    \<and> map je_sequence (jd_events x) = [0..<Suc (rec_sequence (jd_job x))]"
  using job_details_history [OF demo_store_inv, of 12 "demo_row 12 ''queued'' ''b'' 1 1010 1010"
      "\<lambda>_. Some demo_plan" demo_plan]
  by (auto simp: find_job_def demo_jobs lookup_row_Cons demo_row_def)

end
