(* ===== verification/Job_Store_Bulk.thy ===== *)
theory Job_Store_Bulk
  imports Job_Store_Query
begin

text \<open>
  Stable selections and the bulk actions on them (\<open>crates/core/src/job_store.rs\<close>:
  \<open>capture_selection\<close>, \<open>list_selection_jobs_page\<close>, \<open>apply_bulk_action_transaction\<close>), and
  the proof that a bulk action is, job by job, the transition of \<open>Job_Store_Ops\<close>.
\<close>

section \<open>Selections\<close>

record selection_snapshot =
  ss_id :: uuid
  ss_query :: job_selection_query
  ss_member_count :: nat
  ss_created :: int

definition insert_selection_row :: "selection_row \<Rightarrow> db \<Rightarrow> anole_error + db" where
  "insert_selection_row s d =
     (if se_id s \<in> se_id ` set (selection_snapshots d) then Inl err_storage
      else Inr (d\<lparr>selection_snapshots := selection_snapshots d @ [s]\<rparr>))"

definition insert_selection_member :: "selection_member_row \<Rightarrow> db \<Rightarrow> anole_error + db" where
  "insert_selection_member m d =
     (if (\<exists>x \<in> set (selection_members d). sm_selection_id x = sm_selection_id m
            \<and> (sm_ordinal x = sm_ordinal m \<or> sm_job_id x = sm_job_id m))
         \<or> sm_job_id m \<notin> job_ids d \<or> sm_selection_id m \<notin> se_id ` set (selection_snapshots d)
      then Inl err_storage
      else Inr (d\<lparr>selection_members := selection_members d @ [m]\<rparr>))"

definition capture_selection ::
    "store_env \<Rightarrow> job_selection_query \<Rightarrow> db \<Rightarrow> (anole_error + selection_snapshot) \<times> db" where
  "capture_selection E query d =
     (case normalize_selection_query query of
        Inl e \<Rightarrow> (Inl e, d)
      | Inr q \<Rightarrow> run_tx (\<lambda>d.
          let i = env_uuid E 0; ids = selection_member_ids q d in
          if length ids > 100000
          then Inl (anole_error_new ResourceExhausted Store
                 ''Selection exceeds the 100,000-job snapshot limit'')
          else res_bind (insert_selection_row
                 \<lparr>se_id = i, se_query = q, se_member_count = length ids, se_created = env_now E\<rparr> d)
               (\<lambda>d1. res_bind (res_fold (\<lambda>d (k, j). insert_selection_member
                        \<lparr>sm_selection_id = i, sm_job_id = j, sm_ordinal = k\<rparr> d)
                      d1 (enumerate 0 ids)) (\<lambda>d2.
               Inr (\<lparr>ss_id = i, ss_query = q, ss_member_count = length ids,
                     ss_created = env_now E\<rparr>, d2)))) d)"

text \<open>The join of a selection's members, in their order, with the jobs.\<close>

definition selection_job_ids :: "uuid \<Rightarrow> db \<Rightarrow> uuid list" where
  "selection_job_ids s d =
     map sm_job_id (sort_key sm_ordinal
       (filter (\<lambda>m. sm_selection_id m = s) (selection_members d)))"

definition selection_rows :: "uuid \<Rightarrow> db \<Rightarrow> job_row list" where
  "selection_rows s d = joined_jobs (selection_job_ids s d) d"

definition list_selection_jobs_page_bounded ::
    "uuid \<Rightarrow> nat \<Rightarrow> nat \<Rightarrow> db \<Rightarrow> anole_error + job_record list" where
  "list_selection_jobs_page_bounded s limit offset d =
     records_of (page (min limit i64_max) offset (selection_rows s d))"

definition list_selection_jobs_page ::
    "uuid \<Rightarrow> nat \<Rightarrow> nat \<Rightarrow> db \<Rightarrow> anole_error + job_record list" where
  "list_selection_jobs_page s limit offset d =
     list_selection_jobs_page_bounded s (clamp 1 10000 limit) offset d"

section \<open>Bulk actions\<close>

datatype bulk_job_action = BulkCancel | BulkResume | BulkRetry

fun target_for :: "bulk_job_action \<Rightarrow> job_state \<Rightarrow> job_state option" where
  "target_for BulkCancel s =
     (if s \<in> {Planned, Queued, Blocked, Interrupted} then Some Cancelled else None)"
| "target_for BulkResume s = (if s \<in> {Blocked, Interrupted} then Some Queued else None)"
| "target_for BulkRetry s = (if s \<in> {Failed, Cancelled, Interrupted} then Some Queued else None)"

fun bulk_action_name :: "bulk_job_action \<Rightarrow> string" where
  "bulk_action_name BulkCancel = ''cancel''"
| "bulk_action_name BulkResume = ''resume''"
| "bulk_action_name BulkRetry = ''retry''"

fun bulk_action_event_code :: "bulk_job_action \<Rightarrow> string" where
  "bulk_action_event_code BulkCancel = ''BULK_CANCELLED''"
| "bulk_action_event_code BulkResume = ''BULK_RESUMED''"
| "bulk_action_event_code BulkRetry = ''BULK_RETRIED''"

record bulk_action_report =
  ba_action_id :: uuid
  ba_selection_id :: uuid
  ba_action :: bulk_job_action
  ba_matched :: nat
  ba_transitioned :: nat
  ba_skipped_state :: nat
  ba_skipped_conflict :: nat
  ba_report_created :: int

definition insert_bulk_row :: "bulk_row \<Rightarrow> db \<Rightarrow> anole_error + db" where
  "insert_bulk_row b d =
     (if bk_id b \<in> bk_id ` set (bulk_actions d)
         \<or> bk_selection_id b \<notin> se_id ` set (selection_snapshots d)
      then Inl err_storage
      else Inr (d\<lparr>bulk_actions := bulk_actions d @ [b]\<rparr>))"

definition insert_bulk_member ::
    "uuid \<Rightarrow> uuid \<Rightarrow> string \<Rightarrow> job_state \<Rightarrow> job_state option \<Rightarrow> db \<Rightarrow> anole_error + db" where
  "insert_bulk_member a j outcome previous nxt d =
     (if (\<exists>m \<in> set (bulk_action_members d). bm_action_id m = a \<and> bm_job_id m = j)
         \<or> a \<notin> bk_id ` set (bulk_actions d) \<or> j \<notin> job_ids d
      then Inl err_storage
      else Inr (d\<lparr>bulk_action_members := bulk_action_members d @
             [\<lparr>bm_action_id = a, bm_job_id = j, bm_outcome = outcome,
               bm_previous = state_name previous, bm_next = map_option state_name nxt\<rparr>]\<rparr>))"

text \<open>
  The loop over the rows read at the start. \<open>before\<close> is the caller's \<open>before_transition\<close>,
  a function with effects of its own: it gets the job and the state \<open>w\<close> it left behind.
\<close>

record 'w bulk_loop =
  bl_transitioned :: nat
  bl_skipped_state :: nat
  bl_skipped_conflict :: nat
  bl_world :: 'w
  bl_db :: db

definition bulk_transition ::
    "store_env \<Rightarrow> bulk_job_action \<Rightarrow> uuid \<Rightarrow> job_record \<Rightarrow> job_state \<Rightarrow> db \<Rightarrow> anole_error + db" where
  "bulk_transition E act a job nxt d =
     res_bind (if nxt = Queued then reserve_output E (rec_id job) (rec_output_path job) d
               else Inr d) (\<lambda>d1.
     let sq = sat_add (rec_sequence job) 1 in
     res_bind (update_job_state (rec_id job) (state_name (rec_state job)) (rec_sequence job)
                 (state_name nxt) sq (env_now E) d1) (\<lambda>(_, d2).
     res_bind (insert_event
         \<lparr>ev_job_id = rec_id job, ev_sequence = sq,
          ev_previous = Some (state_name (rec_state job)), ev_next = state_name nxt,
          ev_code = bulk_action_event_code act, ev_timestamp = env_now E\<rparr> d2) (\<lambda>d3.
     insert_bulk_member a (rec_id job) ''transitioned'' (rec_state job) (Some nxt)
       (if is_terminal nxt then release_output (rec_id job) d3 else d3))))"

definition bulk_step ::
    "store_env \<Rightarrow> bulk_job_action \<Rightarrow> uuid \<Rightarrow> (job_record \<Rightarrow> 'w \<Rightarrow> anole_error + 'w)
     \<Rightarrow> 'w bulk_loop \<Rightarrow> job_row \<Rightarrow> anole_error + 'w bulk_loop" where
  "bulk_step E act a before st row =
     res_bind (job_record_from_row row) (\<lambda>job.
     case target_for act (rec_state job) of
       None \<Rightarrow>
         res_bind (insert_bulk_member a (rec_id job) ''skipped-state'' (rec_state job) None (bl_db st))
           (\<lambda>d'. Inr (st\<lparr>bl_skipped_state := sat_add (bl_skipped_state st) 1, bl_db := d'\<rparr>))
     | Some nxt \<Rightarrow>
         res_bind (if nxt = Queued
                   then res_bind (env_key E (rec_output_path job)) (\<lambda>k.
                        Inr (case owner_of k (output_reservations (bl_db st)) of
                               None \<Rightarrow> False | Some i \<Rightarrow> i \<noteq> rec_id job))
                   else Inr False) (\<lambda>conflict.
         if conflict
         then res_bind (insert_bulk_member a (rec_id job) ''skipped-output-conflict''
                          (rec_state job) None (bl_db st))
                (\<lambda>d'. Inr (st\<lparr>bl_skipped_conflict := sat_add (bl_skipped_conflict st) 1,
                              bl_db := d'\<rparr>))
         else res_bind (before job (bl_world st)) (\<lambda>w.
              res_bind (bulk_transition E act a job nxt (bl_db st)) (\<lambda>d'.
              Inr (st\<lparr>bl_transitioned := sat_add (bl_transitioned st) 1, bl_world := w,
                      bl_db := d'\<rparr>)))))"

definition set_bulk_counts :: "uuid \<Rightarrow> nat \<Rightarrow> nat \<Rightarrow> nat \<Rightarrow> db \<Rightarrow> anole_error + db" where
  "set_bulk_counts a t s c d =
     res_bind (sql_u64 t) (\<lambda>_. res_bind (sql_u64 s) (\<lambda>_. res_bind (sql_u64 c) (\<lambda>_.
       Inr (d\<lparr>bulk_actions := update_rows (\<lambda>b. bk_id b = a)
              (\<lambda>b. b\<lparr>bk_transitioned := t, bk_skipped_state := s, bk_skipped_conflict := c\<rparr>)
              (bulk_actions d)\<rparr>))))"

definition apply_bulk_action_transaction ::
    "store_env \<Rightarrow> uuid \<Rightarrow> bulk_job_action \<Rightarrow> (job_record \<Rightarrow> 'w \<Rightarrow> anole_error + 'w) \<Rightarrow> 'w
     \<Rightarrow> (bulk_action_report \<times> 'w) tx" where
  "apply_bulk_action_transaction E sel act before w d =
     res_bind (ensure (sel \<in> se_id ` set (selection_snapshots d))
         (anole_error_new InputInvalid Store ''Selection snapshot does not exist: {}'')) (\<lambda>_.
     let rows = selection_rows sel d; a = env_uuid E 0 in
     res_bind (insert_bulk_row
         \<lparr>bk_id = a, bk_selection_id = sel, bk_action = bulk_action_name act,
          bk_matched = min (length rows) i64_max, bk_transitioned = 0, bk_skipped_state = 0,
          bk_skipped_conflict = 0, bk_created = env_now E\<rparr> d) (\<lambda>d1.
     res_bind (res_fold (bulk_step E act a before)
         \<lparr>bl_transitioned = 0, bl_skipped_state = 0, bl_skipped_conflict = 0, bl_world = w,
          bl_db = d1\<rparr> rows) (\<lambda>st.
     res_bind (set_bulk_counts a (bl_transitioned st) (bl_skipped_state st)
                 (bl_skipped_conflict st) (bl_db st)) (\<lambda>d2.
     Inr ((\<lparr>ba_action_id = a, ba_selection_id = sel, ba_action = act,
            ba_matched = min (length rows) u64_max, ba_transitioned = bl_transitioned st,
            ba_skipped_state = bl_skipped_state st,
            ba_skipped_conflict = bl_skipped_conflict st, ba_report_created = env_now E\<rparr>,
           bl_world st), d2)))))"

definition apply_bulk_action_persisted ::
    "store_env \<Rightarrow> uuid \<Rightarrow> bulk_job_action \<Rightarrow> (job_record \<Rightarrow> 'w \<Rightarrow> anole_error + 'w) \<Rightarrow> 'w
     \<Rightarrow> db \<Rightarrow> (anole_error + bulk_action_report \<times> 'w) \<times> db" where
  "apply_bulk_action_persisted E sel act before w d =
     run_tx (apply_bulk_action_transaction E sel act before w) d"

section \<open>A bulk step is a transition\<close>

lemma target_for_legal: "target_for act s = Some nxt \<Longrightarrow> can_transition_to s nxt"
  by (cases act; cases s) (auto split: if_splits)

lemma target_for_codomain: "target_for act s = Some nxt \<Longrightarrow> nxt = Queued \<or> nxt = Cancelled"
  by (cases act; cases s) (auto split: if_splits)

lemma insert_bulk_member_frame:
  assumes "insert_bulk_member a j out p n d = Inr d'"
  shows "jobs d' = jobs d" "job_events d' = job_events d"
    "output_reservations d' = output_reservations d"
    "map (\<lambda>m. (bm_action_id m, bm_job_id m)) (bulk_action_members d') =
       map (\<lambda>m. (bm_action_id m, bm_job_id m)) (bulk_action_members d) @ [(a, j)]"
    "(a, j) \<notin> (\<lambda>m. (bm_action_id m, bm_job_id m)) ` set (bulk_action_members d)"
  using assms by (auto simp: insert_bulk_member_def split: if_splits)

lemma same_job_tables:
  assumes "jobs d' = jobs d" "job_events d' = job_events d"
    "output_reservations d' = output_reservations d"
  shows "same_job i d d'"
  using assms by (simp add: same_job_def find_job_def events_of_def)

lemma moved_tables:
  assumes "moved E j row cur nxt c d d1" and "jobs d' = jobs d1" "job_events d' = job_events d1"
    "output_reservations d' = output_reservations d1"
  shows "moved E j row cur nxt c d d'"
  using assms same_job_trans [OF _ same_job_tables [OF assms(2-4)]] store_inv_cong [OF assms(2-4)]
  by (auto simp: moved_def find_job_def events_of_def job_ids_def)

lemma job_record_fields:
  assumes "job_record_from_row row = Inr job"
  shows "rec_id job = jr_id row" "jr_state row = state_name (rec_state job)"
    "rec_output_path job = jr_output_path row" "rec_sequence job = jr_sequence row"
  using assms by (auto simp: job_record_from_row_def parse_state_Inr_iff)

lemma bulk_transition_eq:
  assumes inv: "store_inv d" and row: "find_job j d = Some row"
    and job: "job_record_from_row row = Inr job" and legal: "can_transition_to (rec_state job) nxt"
  shows "bulk_transition E act a job nxt d =
    res_bind (transition_tx E j nxt (bulk_action_event_code act) d) (\<lambda>(_, d').
      insert_bulk_member a j ''transitioned'' (rec_state job) (Some nxt) d')"
proof -
  note f = job_record_fields [OF job]
  have j: "jr_id row = j" using find_job_id [OF row] .
  let ?res = "if nxt = Queued then reserve_output E j (jr_output_path row) d else Inr d"
  have one: "length (filter (matches_row j (state_name (rec_state job)) (jr_sequence row)) (jobs d1)) = 1"
    if "?res = Inr d1" for d1
  proof -
    have "jobs d1 = jobs d" using that by (auto split: if_splits dest: reserve_output_frame(1))
    then show ?thesis using count_matches [OF _ row] inv f(2) by (simp add: store_inv_def)
  qed
  show ?thesis
  proof (cases ?res)
    case (Inl e)
    then have "nxt = Queued" "reserve_output E j (jr_output_path row) d = Inl e"
      by (simp_all split: if_splits)
    then show ?thesis using f row legal j
      by (simp add: bulk_transition_def transition_tx_def ok_or_def ensure_def)
  next
    case (Inr d1)
    then show ?thesis using f row legal j one [OF Inr]
      by (cases "sql_u64 (sat_add (jr_sequence row) 1)")
        (auto simp: bulk_transition_def transition_tx_def ok_or_def ensure_def move_job_def
          update_job_state_def Let_def res_bind_def split: sum.splits)
  qed
qed

text \<open>The three outcomes of a step, and what all of them have in common.\<close>

definition member_keys :: "db \<Rightarrow> (uuid \<times> uuid) list" where
  "member_keys d = map (\<lambda>m. (bm_action_id m, bm_job_id m)) (bulk_action_members d)"

definition step_outcome ::
    "store_env \<Rightarrow> bulk_job_action \<Rightarrow> job_row \<Rightarrow> job_state \<Rightarrow> 'w bulk_loop \<Rightarrow> 'w bulk_loop \<Rightarrow> bool" where
  "step_outcome E act row s st st' \<longleftrightarrow>
     (target_for act s = None \<and> find_job (jr_id row) (bl_db st') = Some row
        \<and> bl_transitioned st' = bl_transitioned st \<and> bl_skipped_conflict st' = bl_skipped_conflict st
        \<and> bl_skipped_state st' = sat_add (bl_skipped_state st) 1)
     \<or> (target_for act s = Some Queued \<and> find_job (jr_id row) (bl_db st') = Some row
        \<and> bl_transitioned st' = bl_transitioned st \<and> bl_skipped_state st' = bl_skipped_state st
        \<and> bl_skipped_conflict st' = sat_add (bl_skipped_conflict st) 1)
     \<or> (\<exists>nxt. target_for act s = Some nxt
        \<and> moved E (jr_id row) row s nxt (bulk_action_event_code act) (bl_db st) (bl_db st')
        \<and> bl_skipped_state st' = bl_skipped_state st
        \<and> bl_skipped_conflict st' = bl_skipped_conflict st
        \<and> bl_transitioned st' = sat_add (bl_transitioned st) 1)"

lemma bulk_step_cases:
  assumes job: "job_record_from_row row = Inr job" and s: "rec_state job = s"
    and run: "bulk_step E act a before st row = Inr st'"
  obtains (skip) d' where "target_for act s = None"
      "insert_bulk_member a (jr_id row) ''skipped-state'' s None (bl_db st) = Inr d'"
      "st' = st\<lparr>bl_skipped_state := sat_add (bl_skipped_state st) 1, bl_db := d'\<rparr>"
  | (conflict) d' where "target_for act s = Some Queued"
      "insert_bulk_member a (jr_id row) ''skipped-output-conflict'' s None (bl_db st) = Inr d'"
      "st' = st\<lparr>bl_skipped_conflict := sat_add (bl_skipped_conflict st) 1, bl_db := d'\<rparr>"
  | (move) nxt w d' where "target_for act s = Some nxt"
      "bulk_transition E act a job nxt (bl_db st) = Inr d'"
      "st' = st\<lparr>bl_transitioned := sat_add (bl_transitioned st) 1, bl_world := w, bl_db := d'\<rparr>"
proof (cases "target_for act s")
  case None
  then show thesis using run job s skip job_record_fields [OF job] by (auto simp: bulk_step_def)
next
  case (Some nxt)
  show thesis
  proof (cases "nxt = Queued")
    case True
    then show thesis using run job s Some conflict move job_record_fields [OF job]
      by (auto simp: bulk_step_def split: if_splits option.splits)
  next
    case False
    then show thesis using run job s Some move by (auto simp: bulk_step_def)
  qed
qed

lemma bulk_step_Inr:
  assumes inv: "store_inv (bl_db st)" and row: "find_job (jr_id row) (bl_db st) = Some row"
    and st: "jr_state row = state_name s" and run: "bulk_step E act a before st row = Inr st'"
  shows "store_inv (bl_db st') \<and> job_ids (bl_db st') = job_ids (bl_db st)
    \<and> (\<forall>i. i \<noteq> jr_id row \<longrightarrow> same_job i (bl_db st) (bl_db st'))
    \<and> step_outcome E act row s st st'"
proof -
  obtain job where job: "job_record_from_row row = Inr job" "rec_state job = s"
    using st by (simp add: job_record_from_row_def)
  from job run show ?thesis
  proof (cases rule: bulk_step_cases)
    case (skip d')
    note fr = insert_bulk_member_frame(1-3) [OF skip(2)]
    show ?thesis using skip fr row inv store_inv_cong [OF fr] same_job_tables [OF fr]
      by (simp add: step_outcome_def find_job_def job_ids_def)
  next
    case (conflict d')
    note fr = insert_bulk_member_frame(1-3) [OF conflict(2)]
    show ?thesis using conflict fr row inv store_inv_cong [OF fr] same_job_tables [OF fr]
      by (simp add: step_outcome_def find_job_def job_ids_def)
  next
    case (move nxt w d')
    have legal: "can_transition_to (rec_state job) nxt"
      using move(1) job(2) target_for_legal by simp
    from move(2) obtain r d1 where
      tr: "transition_tx E (jr_id row) nxt (bulk_action_event_code act) (bl_db st) = Inr (r, d1)"
      and mem: "insert_bulk_member a (jr_id row) ''transitioned'' s (Some nxt) d1 = Inr d'"
      unfolding bulk_transition_eq [OF inv row job(1) legal] using job(2) by auto
    obtain row' cur where m: "moved E (jr_id row) row' cur nxt (bulk_action_event_code act) (bl_db st) d1"
      using inv tr by (rule transition_tx_Inr)
    then have "row' = row" "cur = s" using row st by (auto simp: moved_def)
    then have "moved E (jr_id row) row s nxt (bulk_action_event_code act) (bl_db st) d'"
      using moved_tables [OF m insert_bulk_member_frame(1-3) [OF mem]] by simp
    then show ?thesis using move by (auto simp: step_outcome_def moved_def)
  qed
qed

text \<open>The primary key of \<open>bulk_action_members\<close>: a job that comes up twice is an error.\<close>

lemma bulk_step_keys:
  assumes "bulk_step E act a before st row = Inr st'"
  shows "member_keys (bl_db st') = member_keys (bl_db st) @ [(a, jr_id row)]
    \<and> (a, jr_id row) \<notin> set (member_keys (bl_db st))"
proof -
  obtain job where job: "job_record_from_row row = Inr job"
    using assms by (auto simp: bulk_step_def)
  from job refl assms show ?thesis
  proof (cases rule: bulk_step_cases)
    case (move nxt w d')
    then obtain d1 where d1: "insert_bulk_member a (rec_id job) ''transitioned'' (rec_state job)
        (Some nxt) d1 = Inr d'" "bulk_action_members d1 = bulk_action_members (bl_db st)"
      by (auto simp: bulk_transition_def Let_def update_job_state_def insert_event_def
          release_output_def reserve_output_def split: if_splits)
    then show ?thesis
      using move insert_bulk_member_frame(4,5) [OF d1(1)] job_record_fields [OF job]
      by (simp add: member_keys_def)
  qed (auto simp: member_keys_def dest: insert_bulk_member_frame(4,5))
qed

lemma bulk_loop_distinct:
  "res_fold (bulk_step E act a before) st rows = Inr st' \<Longrightarrow>
   distinct (map jr_id rows) \<and> (\<forall>r \<in> set rows. (a, jr_id r) \<notin> set (member_keys (bl_db st)))"
proof (induction rows arbitrary: st)
  case (Cons r rows)
  then obtain st1 where one: "bulk_step E act a before st r = Inr st1"
    and rest: "res_fold (bulk_step E act a before) st1 rows = Inr st'" by auto
  show ?case using Cons.IH [OF rest] bulk_step_keys [OF one] by auto
qed simp

section \<open>The whole action\<close>

definition targeted :: "bulk_job_action \<Rightarrow> job_row \<Rightarrow> job_state option" where
  "targeted act r = (case parse_state (jr_state r) of Inl _ \<Rightarrow> None | Inr s \<Rightarrow> target_for act s)"

text \<open>What the action leaves of one selected job, and the counts of the three outcomes.\<close>

definition bulk_effect :: "store_env \<Rightarrow> bulk_job_action \<Rightarrow> job_row \<Rightarrow> db \<Rightarrow> bool" where
  "bulk_effect E act r d' \<longleftrightarrow>
     (case targeted act r of
        None \<Rightarrow> find_job (jr_id r) d' = Some r
      | Some nxt \<Rightarrow> find_job (jr_id r) d' = Some (moved_row E r nxt)
          \<or> nxt = Queued \<and> find_job (jr_id r) d' = Some r)"

definition count_rows :: "(job_row \<Rightarrow> bool) \<Rightarrow> job_row list \<Rightarrow> nat" where
  "count_rows p rows = length (filter p rows)"

definition changed_in :: "db \<Rightarrow> job_row \<Rightarrow> bool" where
  "changed_in d' r \<longleftrightarrow> find_job (jr_id r) d' \<noteq> Some r"

definition loop_counts ::
    "bulk_job_action \<Rightarrow> job_row list \<Rightarrow> 'w bulk_loop \<Rightarrow> 'w bulk_loop \<Rightarrow> bool" where
  "loop_counts act rows st st' \<longleftrightarrow>
     bl_transitioned st' = bl_transitioned st + count_rows (changed_in (bl_db st')) rows
     \<and> bl_skipped_state st' = bl_skipped_state st + count_rows (\<lambda>r. targeted act r = None) rows
     \<and> bl_transitioned st' + bl_skipped_state st' + bl_skipped_conflict st' =
        bl_transitioned st + bl_skipped_state st + bl_skipped_conflict st + length rows"

lemma moved_row_neq: "moved_row E r nxt \<noteq> r"
  using moved_row_simps(3) [of E r nxt] by (metis n_not_Suc_n)

lemma step_outcome_effect:
  assumes "step_outcome E act row s st st'" and st: "jr_state row = state_name s"
  shows "bulk_effect E act row (bl_db st')"
    and "bl_transitioned st + bl_skipped_state st + bl_skipped_conflict st < u64_max \<Longrightarrow>
      loop_counts act [row] st st'"
proof -
  have t: "targeted act row = target_for act s" by (simp add: targeted_def st)
  have sat: "sat_add n (Suc 0) = Suc n" if "n < u64_max" for n
    using that by (simp add: sat_add_def)
  show "bulk_effect E act row (bl_db st')" using assms(1)
    unfolding step_outcome_def by (elim disjE) (auto simp: bulk_effect_def t moved_def)
  assume room: "bl_transitioned st + bl_skipped_state st + bl_skipped_conflict st < u64_max"
  show "loop_counts act [row] st st'"
    using assms(1) room moved_row_neq [of E row] moved_row_neq [of E row, symmetric]
    unfolding step_outcome_def
    by (elim disjE) (auto simp: loop_counts_def count_rows_def changed_in_def t sat moved_def)
qed

lemma bulk_effect_same: "same_job (jr_id r) d d' \<Longrightarrow> bulk_effect E act r d' = bulk_effect E act r d"
  by (simp add: bulk_effect_def same_job_def split: option.splits)

lemma bulk_loop_Inr:
  assumes "store_inv (bl_db st)" and "\<forall>r \<in> set rows. find_job (jr_id r) (bl_db st) = Some r"
    and "distinct (map jr_id rows)" and "res_fold (bulk_step E act a before) st rows = Inr st'"
  shows "store_inv (bl_db st') \<and> job_ids (bl_db st') = job_ids (bl_db st)
    \<and> (\<forall>i. i \<notin> jr_id ` set rows \<longrightarrow> same_job i (bl_db st) (bl_db st'))
    \<and> (\<forall>r \<in> set rows. bulk_effect E act r (bl_db st'))
    \<and> (bl_transitioned st + bl_skipped_state st + bl_skipped_conflict st + length rows \<le> u64_max
        \<longrightarrow> loop_counts act rows st st')"
  using assms
proof (induction rows arbitrary: st)
  case (Cons r rows)
  from Cons.prems(4) obtain st1 where one: "bulk_step E act a before st r = Inr st1"
    and rest: "res_fold (bulk_step E act a before) st1 rows = Inr st'" by auto
  have found: "find_job (jr_id r) (bl_db st) = Some r" using Cons.prems(2) by simp
  obtain s where s: "jr_state r = state_name s" using Cons.prems(1) found by (rule store_inv_rowE)
  note step = bulk_step_Inr [OF Cons.prems(1) found s one]
  let ?total = "\<lambda>st. bl_transitioned st + bl_skipped_state st + bl_skipped_conflict st"
  have eff: "bulk_effect E act r (bl_db st1)"
    and cnt: "?total st < u64_max \<Longrightarrow> loop_counts act [r] st st1"
    using step_outcome_effect [OF _ s, of E act st st1] step by simp_all
  have new: "r' \<in> set rows \<Longrightarrow> jr_id r' \<noteq> jr_id r" for r'
    using Cons.prems(3) by (auto simp: image_iff)
  have "\<forall>r' \<in> set rows. find_job (jr_id r') (bl_db st1) = Some r'"
    using Cons.prems(2) step new by (simp add: same_job_def)
  note ih = Cons.IH [OF _ this _ rest]
  have ih: "store_inv (bl_db st') \<and> job_ids (bl_db st') = job_ids (bl_db st1)
    \<and> (\<forall>i. i \<notin> jr_id ` set rows \<longrightarrow> same_job i (bl_db st1) (bl_db st'))
    \<and> (\<forall>r \<in> set rows. bulk_effect E act r (bl_db st'))
    \<and> (?total st1 + length rows \<le> u64_max \<longrightarrow> loop_counts act rows st1 st')"
    using ih step Cons.prems(3) by simp
  have fixed: "same_job (jr_id r) (bl_db st1) (bl_db st')" using ih Cons.prems(3) by simp
  then have "changed_in (bl_db st') r = changed_in (bl_db st1) r"
    by (simp add: changed_in_def same_job_def)
  then have "loop_counts act (r # rows) st st'" if room: "?total st + length (r # rows) \<le> u64_max"
  proof -
    have first: "loop_counts act [r] st st1" using cnt room by simp
    then have "loop_counts act rows st1 st'" using ih room by (simp add: loop_counts_def)
    with first \<open>changed_in (bl_db st') r = changed_in (bl_db st1) r\<close> show ?thesis
      by (simp add: loop_counts_def count_rows_def split: if_splits)
  qed
  moreover have "same_job i (bl_db st) (bl_db st')" if "i \<notin> jr_id ` set (r # rows)" for i
    using that step ih same_job_trans [of i "bl_db st" "bl_db st1"] by simp
  ultimately show ?case using ih step eff bulk_effect_same [OF fixed] by auto
qed (simp add: loop_counts_def count_rows_def)

lemma selection_rows_current:
  "r \<in> set (selection_rows sel d) \<Longrightarrow> find_job (jr_id r) d = Some r"
  by (auto simp: selection_rows_def joined_jobs_def map_filter_def) (metis find_job_id)

lemma apply_bulk_Inr:
  assumes inv: "store_inv d"
    and run: "apply_bulk_action_transaction E sel act before w d = Inr ((rep, w'), d')"
  defines "rows \<equiv> selection_rows sel d"
  shows "store_inv d' \<and> job_ids d' = job_ids d \<and> distinct (map jr_id rows)
    \<and> (\<forall>i. i \<notin> jr_id ` set rows \<longrightarrow> same_job i d d')
    \<and> (\<forall>r \<in> set rows. bulk_effect E act r d')
    \<and> (length rows \<le> u64_max \<longrightarrow> ba_matched rep = length rows
      \<and> ba_transitioned rep = count_rows (changed_in d') rows
      \<and> ba_skipped_state rep = count_rows (\<lambda>r. targeted act r = None) rows
      \<and> ba_matched rep = ba_transitioned rep + ba_skipped_state rep + ba_skipped_conflict rep)"
proof -
  define st0 where "st0 d1 = \<lparr>bl_transitioned = 0, bl_skipped_state = 0, bl_skipped_conflict = 0,
      bl_world = w, bl_db = d1\<rparr>" for d1
  from run obtain b d1 st where ins: "insert_bulk_row b d = Inr d1"
    and loop: "res_fold (bulk_step E act (env_uuid E 0) before) (st0 d1) rows = Inr st"
    and fin: "set_bulk_counts (env_uuid E 0) (bl_transitioned st) (bl_skipped_state st)
        (bl_skipped_conflict st) (bl_db st) = Inr d'"
    and rep: "ba_matched rep = min (length rows) u64_max" "ba_transitioned rep = bl_transitioned st"
      "ba_skipped_state rep = bl_skipped_state st" "ba_skipped_conflict rep = bl_skipped_conflict st"
    by (auto simp: apply_bulk_action_transaction_def Let_def st0_def rows_def)
  have d1: "jobs d1 = jobs d" "job_events d1 = job_events d"
    "output_reservations d1 = output_reservations d"
    using ins by (auto simp: insert_bulk_row_def split: if_splits)
  have d': "jobs d' = jobs (bl_db st)" "job_events d' = job_events (bl_db st)"
    "output_reservations d' = output_reservations (bl_db st)"
    using fin by (auto simp: set_bulk_counts_def)
  have cur: "\<forall>r \<in> set rows. find_job (jr_id r) (bl_db (st0 d1)) = Some r"
    using selection_rows_current d1 by (simp add: rows_def st0_def find_job_def)
  have dist: "distinct (map jr_id rows)" using bulk_loop_distinct [OF loop] by simp
  have "store_inv (bl_db (st0 d1))" using inv store_inv_cong [OF d1] by (simp add: st0_def)
  note res = bulk_loop_Inr [OF this cur dist loop]
  have find: "find_job i d' = find_job i (bl_db st)" for i using d' by (simp add: find_job_def)
  have eff: "bulk_effect E act r d' = bulk_effect E act r (bl_db st)" for r
    unfolding bulk_effect_def find ..
  have chg: "changed_in d' = changed_in (bl_db st)" by (simp add: fun_eq_iff changed_in_def find)
  have "same_job i d d'" if "i \<notin> jr_id ` set rows" for i
    using that res same_job_tables [OF d1, of i] same_job_tables [OF d', of i]
      same_job_trans [of i d d1 "bl_db st"] same_job_trans [of i d "bl_db st" d']
    by (simp add: rows_def st0_def)
  moreover have "job_ids d' = job_ids (bl_db st)" "job_ids d1 = job_ids d"
    using d1 d' by (simp_all add: job_ids_def)
  ultimately show ?thesis using res rep dist store_inv_cong [OF d']
    by (auto simp: rows_def st0_def loop_counts_def eff chg)
qed

lemma store_inv_capture:
  assumes inv: "store_inv d"
  shows "store_inv (snd (capture_selection E q d))"
proof -
  have "store_inv d2" if "res_fold (\<lambda>d (k, j). insert_selection_member
        \<lparr>sm_selection_id = i, sm_job_id = j, sm_ordinal = k\<rparr> d) d1 xs = Inr d2" "store_inv d1"
    for i d1 d2 and xs :: "(nat \<times> uuid) list"
    using that by (rule res_fold_invariant) (auto simp: insert_selection_member_def split: if_splits)
  moreover have "store_inv d1" if "insert_selection_row s d = Inr d1" for s d1
    using that inv by (auto simp: insert_selection_row_def split: if_splits)
  ultimately show ?thesis using inv
    by (auto simp: capture_selection_def Let_def split: sum.splits if_splits intro!: store_inv_run_tx)
qed

lemma store_inv_bulk:
  assumes inv: "store_inv d"
  shows "store_inv (snd (apply_bulk_action_persisted E sel act before w d))"
  unfolding apply_bulk_action_persisted_def
proof (rule store_inv_run_tx [OF inv])
  fix x d' assume "apply_bulk_action_transaction E sel act before w d = Inr (x, d')"
  then have "apply_bulk_action_transaction E sel act before w d = Inr ((fst x, snd x), d')" by simp
  then show "store_inv d'" by (rule apply_bulk_Inr [OF inv, THEN conjunct1])
qed

end
