(* ===== verification/Job_Store_Machine.thy ===== *)
theory Job_Store_Machine
  imports Job_Store_Bulk
begin

text \<open>
  The job store as a state machine: a command for every public operation of
  \<open>SqliteJobStore\<close> that writes, run one transaction after another on the empty database. The
  properties that make the store correct are stated on every database such a run reaches.
\<close>

section \<open>Commands\<close>

datatype 'w store_command =
    CreateJob store_env job_create_request
  | CreateJobs store_env "job_create_request list"
  | CreateBatch store_env string "job_create_request list" bool
  | CreateIdempotent store_env string job_create_request bool
  | QueueJobs store_env "uuid list" string
  | MoveJob store_env uuid job_state string
  | ClaimJob store_env uuid string
  | CleanStaging store_env uuid "job_record \<Rightarrow> anole_error + bool"
  | Revalidate store_env uuid validation_report
  | RecordSample throughput_sample
  | CaptureSelection store_env job_selection_query
  | BulkAction store_env uuid bulk_job_action "job_record \<Rightarrow> 'w \<Rightarrow> anole_error + 'w" 'w
  | RecoverActive store_env

fun run_command :: "db \<Rightarrow> 'w store_command \<Rightarrow> db" where
  "run_command d (CreateJob E q) = snd (create_job E q d)"
| "run_command d (CreateJobs E qs) = snd (create_jobs E qs d)"
| "run_command d (CreateBatch E n qs enqueue) = snd (create_batch_inner E n qs enqueue d)"
| "run_command d (CreateIdempotent E k q enqueue) =
     snd (create_job_idempotent_with_state E k q enqueue d)"
| "run_command d (QueueJobs E js c) = snd (queue_jobs E js c d)"
| "run_command d (MoveJob E j nxt c) = snd (transition E j nxt c d)"
| "run_command d (ClaimJob E j c) = snd (claim_queued_job E j c d)"
| "run_command d (CleanStaging E j f) = snd (cleanup_staging_persisted E j f d)"
| "run_command d (Revalidate E j rep) = snd (record_revalidation E j rep d)"
| "run_command d (RecordSample x) = snd (record_engine_throughput_sample x d)"
| "run_command d (CaptureSelection E q) = snd (capture_selection E q d)"
| "run_command d (BulkAction E s act before w) = snd (apply_bulk_action_persisted E s act before w d)"
| "run_command d (RecoverActive E) = snd (mark_active_jobs_interrupted E d)"

definition run_store :: "'w store_command list \<Rightarrow> db" where
  "run_store cs = fold (\<lambda>c d. run_command d c) cs empty_db"

interpretation store: machine empty_db "run_command :: db \<Rightarrow> 'w store_command \<Rightarrow> db" store_inv
proof unfold_locales
  show "store_inv empty_db" by (rule store_inv_empty)
  show "store_inv (run_command d c)" if "store_inv d" for d and c :: "'w store_command"
    using that
    by (cases c) (simp_all add: store_inv_create_job store_inv_create_jobs
        store_inv_create_batch_inner store_inv_create_job_idempotent store_inv_queue_jobs
        store_inv_transition store_inv_claim store_inv_cleanup store_inv_revalidation
        store_inv_sample store_inv_capture store_inv_bulk store_inv_mark_interrupted)
qed

lemma run_store_inv: "store_inv (run_store cs)"
  unfolding run_store_def by (rule store.inv_run)

text \<open>The demonstration database as a run.\<close>

definition demo_run :: "unit store_command list" where
  "demo_run = [CreateBatch (demo_env 10) ''b'' [demo_request ''a'', demo_request ''b''] True,
     CreateJobs (demo_env 20) [demo_request ''c'', demo_request ''d''],
     QueueJobs (demo_env 30) [20] ''QUEUED'']"

lemma demo_run_eq: "run_store demo_run = demo_store"
  by (simp add: run_store_def demo_run_def demo_store_def demo_planned_def demo_batch_def
      create_queued_batch_def)

section \<open>The event log and the reservations\<close>

text \<open>
  C1: the event log is the truth about a job. In every database the store can reach, replaying
  the events of a job from its creation, each one checked against the transition table, gives
  the state and the sequence number its row holds.
\<close>

theorem event_log_replays:
  fixes cs :: "'w store_command list"
  assumes "find_job j (run_store cs) = Some row"
  shows "\<exists>s. jr_state row = state_name s
    \<and> replay (events_of j (run_store cs)) = Some (s, jr_sequence row)"
  using run_store_inv assms by (rule store_inv_rowE) (blast dest: replay_log_ok)

lemma event_log_replays_witness:
  "\<exists>s. ''queued'' = state_name s \<and> replay (events_of 20 (run_store demo_run)) = Some (s, 1)"
  using event_log_replays [of 20 demo_run "demo_row 20 ''queued'' ''c'' 1 1020 1030"]
  by (simp add: demo_run_eq find_job_def demo_jobs lookup_row_Cons demo_row_def)

text \<open>
  C2: no two unfinished jobs write to the same place. In every reachable database each job in
  a non-terminal state holds the reservation of an output, and two different ones hold
  different outputs.
\<close>

theorem active_jobs_own_distinct_outputs:
  fixes cs :: "'w store_command list"
  assumes "find_job i (run_store cs) = Some r" "jr_state r = state_name s" "\<not> is_terminal s"
    and "find_job j (run_store cs) = Some r'" "jr_state r' = state_name s'" "\<not> is_terminal s'"
    and "i \<noteq> j"
  shows "\<exists>k k'. owned_key i (output_reservations (run_store cs)) = Some k
    \<and> owned_key j (output_reservations (run_store cs)) = Some k' \<and> k \<noteq> k'"
proof -
  have inv: "store_inv (run_store cs)" by (rule run_store_inv)
  obtain k k' where "owned_key i (output_reservations (run_store cs)) = Some k"
    "owned_key j (output_reservations (run_store cs)) = Some k'"
    using owned_iff_active [OF inv assms(1,2)] owned_iff_active [OF inv assms(4,5)] assms(3,6)
    by auto
  then show ?thesis using own.exclusive [of _ i k j] inv assms(7) by (auto simp: store_inv_def)
qed

lemma active_jobs_own_distinct_outputs_witness:
  "\<exists>k k'. owned_key 20 (output_reservations (run_store demo_run)) = Some k
    \<and> owned_key 21 (output_reservations (run_store demo_run)) = Some k' \<and> k \<noteq> k'"
  by (rule active_jobs_own_distinct_outputs [where s = Queued and s' = Planned
        and r = "demo_row 20 ''queued'' ''c'' 1 1020 1030"
        and r' = "demo_row 21 ''planned'' ''d'' 0 1020 1020"])
    (simp_all add: demo_run_eq find_job_def demo_jobs lookup_row_Cons demo_row_def
      state_name.simps)

section \<open>Single operations\<close>

lemma transition_tx_total:
  assumes inv: "store_inv d" and row: "find_job j d = Some row" and st: "jr_state row = state_name s"
    and can: "can_transition_to s nxt" and "nxt \<noteq> Queued" and room: "jr_sequence row < i64_max"
  shows "\<exists>r d'. transition_tx E j nxt c d = Inr (r, d')"
proof -
  have j: "find_job (jr_id row) d = Some row" using row find_job_id by metis
  obtain d2 where "move_job E row s nxt c d = Inr d2"
    using move_job_total [OF inv j st refl refl] room by blast
  then show ?thesis using assms by (simp add: transition_tx_def ok_or_def ensure_def)
qed

text \<open>
  When an output can be reserved: its path has an identity, and no other job holds that key.
\<close>

definition can_reserve :: "store_env \<Rightarrow> uuid \<Rightarrow> string \<Rightarrow> db \<Rightarrow> bool" where
  "can_reserve E j path d \<longleftrightarrow>
     (\<exists>k. env_key E path = Inr k \<and> (\<forall>i. i \<noteq> j \<longrightarrow> owned_key i (output_reservations d) \<noteq> Some k))"

lemma reserve_key_total:
  assumes "res_table_ok t"
  shows "(\<exists>t'. reserve_key j k now t = Inr t') \<longleftrightarrow> (\<forall>i. i \<noteq> j \<longrightarrow> owned_key i t \<noteq> Some k)"
proof -
  have "k \<in> rs_key ` set (cleared j t) \<longleftrightarrow> (\<exists>i. i \<noteq> j \<and> owned_key i t = Some k)"
  proof -
    have "k \<in> rs_key ` set (cleared j t) \<longleftrightarrow> (\<exists>i. owned_key i (cleared j t) = Some k)"
      using owned_key_iff [OF cleared_props(1) [OF assms]] by auto
    also have "\<dots> \<longleftrightarrow> (\<exists>i. i \<noteq> j \<and> owned_key i t = Some k)"
      using cleared_props(2) [of j t] cleared_props(3) [of _ j t] by (metis option.distinct(1))
    finally show ?thesis .
  qed
  moreover have "i = j" if "owned_key i t = Some k" "owned_key j t = Some k" for i
    using own.exclusive [OF assms that] .
  ultimately show ?thesis by (auto simp: reserve_key_cleared)
qed

lemma reserve_output_total:
  assumes "store_inv d" and "find_job j d = Some row"
  shows "(\<exists>d'. reserve_output E j path d = Inr d') \<longleftrightarrow> can_reserve E j path d"
proof (cases "env_key E path")
  case (Inr k)
  have ok: "res_table_ok (output_reservations d)" using assms(1) by (simp add: store_inv_def)
  have here: "j \<in> job_ids d" using find_job_in [OF assms(2)] find_job_id [OF assms(2)] by (auto simp: job_ids_def)
  note total = reserve_key_total [OF ok, of j k "env_now E"]
  show ?thesis
  proof (cases "owned_key j (output_reservations d) = Some k")
    case True
    then have "\<exists>t'. reserve_key j k (env_now E) (output_reservations d) = Inr t'" by (simp add: reserve_key_def)
    then show ?thesis using True total Inr by (auto simp: reserve_output_def can_reserve_def)
  next
    case False
    have "(\<exists>d'. reserve_output E j path d = Inr d')
        \<longleftrightarrow> (\<exists>t'. reserve_key j k (env_now E) (output_reservations d) = Inr t')"
      using False here Inr by (auto simp: reserve_output_def)
    then show ?thesis using total Inr by (simp add: can_reserve_def)
  qed
qed (simp add: reserve_output_def can_reserve_def)

text \<open>The tables that hold no jobs, events or reservations.\<close>

definition other_tables_kept :: "db \<Rightarrow> db \<Rightarrow> bool" where
  "other_tables_kept d d' \<longleftrightarrow>
     d' = d\<lparr>jobs := jobs d', job_events := job_events d', output_reservations := output_reservations d'\<rparr>"

lemma other_tables_trans: "other_tables_kept d d1 \<Longrightarrow> other_tables_kept d1 d2 \<Longrightarrow> other_tables_kept d d2"
  unfolding other_tables_kept_def by (cases d; cases d1; cases d2) simp

lemma reserve_output_tables: "reserve_output E j path d = Inr d' \<Longrightarrow> other_tables_kept d d'"
  by (auto simp: reserve_output_def other_tables_kept_def split: if_splits)

lemma move_job_tables: "move_job E row cur nxt c d = Inr d' \<Longrightarrow> other_tables_kept d d'"
  by (auto simp: move_job_def update_job_state_def insert_event_def other_tables_kept_def Let_def split: if_splits)

lemma release_output_tables: "other_tables_kept d (release_output j d)"
  by (simp add: release_output_def other_tables_kept_def)

lemma transition_tx_tables:
  assumes "transition_tx E j nxt c d = Inr (r, d')"
  shows "other_tables_kept d d'"
proof -
  from assms obtain row cur d1 d2 where
    d1: "(if nxt = Queued then reserve_output E j (jr_output_path row) d else Inr d) = Inr d1"
    and d2: "move_job E row cur nxt c d1 = Inr d2"
    and d': "d' = (if is_terminal nxt then release_output j d2 else d2)"
    by (auto simp: transition_tx_def simp del: if_split_eq2)
  have "other_tables_kept d d1"
    using d1 by (auto simp: other_tables_kept_def dest: reserve_output_tables split: if_splits)
  then show ?thesis
    using other_tables_trans [OF _ other_tables_trans [OF move_job_tables [OF d2] release_output_tables]]
      other_tables_trans [OF _ move_job_tables [OF d2]] by (simp add: d')
qed

lemma transition_tx_success:
  assumes inv: "store_inv d" and row: "find_job j d = Some row" and st: "jr_state row = state_name s"
  shows "(\<exists>r d'. transition_tx E j nxt c d = Inr (r, d')) \<longleftrightarrow>
    can_transition_to s nxt \<and> jr_sequence row < i64_max \<and> (nxt = Queued \<longrightarrow> can_reserve E j (jr_output_path row) d)"
proof -
  let ?d1 = "if nxt = Queued then reserve_output E j (jr_output_path row) d else Inr d"
  have j: "find_job (jr_id row) d = Some row" using row find_job_id by metis
  have "(\<exists>d2. move_job E row s nxt c d1 = Inr d2) \<longleftrightarrow> jr_sequence row < i64_max" if "?d1 = Inr d1" for d1
    using that by (intro move_job_total [OF inv j st]) (auto dest: reserve_output_frame split: if_splits)
  moreover have "(\<exists>d1. ?d1 = Inr d1) \<longleftrightarrow> (nxt = Queued \<longrightarrow> can_reserve E j (jr_output_path row) d)"
    using reserve_output_total [OF inv row] by simp
  moreover have "(\<exists>r d'. transition_tx E j nxt c d = Inr (r, d')) \<longleftrightarrow>
      can_transition_to s nxt \<and> (\<exists>d1. ?d1 = Inr d1 \<and> (\<exists>d2. move_job E row s nxt c d1 = Inr d2))"
    using row st by (auto simp: transition_tx_def ok_or_def ensure_def)
  ultimately show ?thesis by blast
qed

text \<open>
  C3: a transition does what the table says and nothing else. For every target state it succeeds
  exactly when the table has the move, the sequence number can still grow, and, for a move to
  queued, the output of the job can be reserved. Then the row gets the new state and the next
  sequence number, one event records it, the job holds a reservation exactly if the new state is
  not terminal (that of its output after a move to queued), no other job changes, and no other
  table does. Otherwise the database is as before, and the error names the invalid transition
  when it was the table that refused.
\<close>

theorem transition_follows_table:
  assumes inv: "store_inv d" and row: "find_job j d = Some row" and st: "jr_state row = state_name s"
  shows "((\<exists>r d'. transition E j nxt c d = (Inr r, d')) \<longleftrightarrow>
      can_transition_to s nxt \<and> jr_sequence row < i64_max \<and> (nxt = Queued \<longrightarrow> can_reserve E j (jr_output_path row) d))
    \<and> (case transition E j nxt c d of
        (Inr r, d') \<Rightarrow> r = moved_record row nxt (Suc (jr_sequence row)) (env_now E)
          \<and> find_job j d' = Some (moved_row E row nxt)
          \<and> events_of j d' = events_of j d @ [event_for E row s nxt c]
          \<and> (owned_key j (output_reservations d') \<noteq> None \<longleftrightarrow> \<not> is_terminal nxt)
          \<and> (nxt = Queued \<longrightarrow> map_option Inr (owned_key j (output_reservations d')) = Some (env_key E (jr_output_path row)))
          \<and> job_ids d' = job_ids d \<and> (\<forall>i. i \<noteq> j \<longrightarrow> same_job i d d') \<and> other_tables_kept d d'
      | (Inl e, d') \<Rightarrow> d' = d \<and> (\<not> can_transition_to s nxt \<longrightarrow> e = err_bad_transition))"
proof (cases "transition_tx E j nxt c d")
  case (Inl e)
  then show ?thesis using transition_tx_success [OF assms, of E nxt c] row st
    by (auto simp: transition_def run_tx_def transition_tx_def ok_or_def ensure_def)
next
  case (Inr rd)
  obtain r d' where run: "transition_tx E j nxt c d = Inr (r, d')" using Inr by (cases rd) simp
  obtain row' cur where m: "moved E j row' cur nxt c d d'"
    and r: "r = moved_record row' nxt (Suc (jr_sequence row')) (env_now E)"
    and q: "nxt = Queued \<longrightarrow> map_option Inr (owned_key j (output_reservations d')) = Some (env_key E (jr_output_path row'))"
    using inv run by (rule transition_tx_Inr)
  then have same: "row' = row" "cur = s" using row st by (auto simp: moved_def)
  have "owned_key j (output_reservations d') \<noteq> None \<longleftrightarrow> \<not> is_terminal nxt"
    using m owned_iff_active [of d' j "moved_row E row' nxt" nxt] by (simp add: moved_def)
  then show ?thesis
    using m r q same run transition_tx_tables [OF run] transition_tx_success [OF assms, of E nxt c]
    by (simp add: transition_def run_tx_def moved_def)
qed

lemma transition_follows_table_witness:
  "(\<exists>d'. transition (demo_env 40) 20 Inspecting ''X'' demo_store =
       (Inr (moved_record (demo_row 20 ''queued'' ''c'' 1 1020 1030) Inspecting 2 1040), d'))
   \<and> transition (demo_env 40) 20 Completed ''X'' demo_store = (Inl err_bad_transition, demo_store)"
proof -
  let ?row = "demo_row 20 ''queued'' ''c'' 1 1020 1030"
  have row: "find_job 20 demo_store = Some ?row"
    by (simp add: find_job_def demo_jobs lookup_row_Cons demo_row_def)
  have st: "jr_state ?row = state_name Queued" by (simp add: demo_row_def state_name.simps)
  have "\<exists>r d'. transition (demo_env 40) 20 Inspecting ''X'' demo_store = (Inr r, d')"
    using transition_follows_table [OF demo_store_inv row st, of "demo_env 40" Inspecting "''X''"]
    by (simp add: demo_row_def i64_max_def)
  moreover have "\<not> (\<exists>r d'. transition (demo_env 40) 20 Completed ''X'' demo_store = (Inr r, d'))"
    using transition_follows_table [OF demo_store_inv row st, of "demo_env 40" Completed "''X''"] by simp
  ultimately show ?thesis
    using transition_follows_table [OF demo_store_inv row st, of "demo_env 40" Inspecting "''X''"]
      transition_follows_table [OF demo_store_inv row st, of "demo_env 40" Completed "''X''"]
    by (auto simp: demo_env_def demo_row_def numeral_2_eq_2 split: prod.splits sum.splits)
qed

text \<open>
  C4: a queued job is claimed once. When a claim has returned the job, every later claim of
  the same job, whoever makes it, returns nothing and changes nothing.
\<close>

theorem claimed_once:
  assumes inv: "store_inv d" and claim: "claim_queued_job E j c d = (Inr (Some r), d')"
  shows "rec_id r = j \<and> rec_state r = Inspecting
    \<and> claim_queued_job E' j c' d' = (Inr None, d')"
proof -
  have "claim_tx E j c d = Inr (Some r, d')" using claim by (simp add: claim_queued_job_def run_tx_Inr)
  from claim_tx_Inr [OF inv this] obtain row where m: "moved E j row Queued Inspecting c d d'"
    and r: "r = moved_record row Inspecting (Suc (jr_sequence row)) (env_now E)" by auto
  have found: "find_job j d' = Some (moved_row E row Inspecting)" "find_job j d = Some row"
    using m by (simp_all add: moved_def)
  have "claim_tx E' j c' d' = Inr (None, d')"
    by (rule claim_tx_other [OF found(1), of Inspecting]) simp_all
  then show ?thesis using r find_job_id [OF found(2)]
    by (simp add: claim_queued_job_def run_tx_def moved_record_def)
qed

lemma claimed_once_witness:
  "\<exists>r d'. claim_queued_job (demo_env 40) 20 ''CLAIMED'' demo_store = (Inr (Some r), d')
     \<and> claim_queued_job (demo_env 50) 20 ''CLAIMED'' d' = (Inr None, d')"
proof -
  obtain r d' where run: "claim_queued_job (demo_env 40) 20 ''CLAIMED'' demo_store = (Inr (Some r), d')"
    by (simp add: claim_queued_job_def run_tx_def claim_tx_def find_job_def demo_jobs demo_row_def
        lookup_row_Cons ok_or_def parse_state_def update_job_state_def sql_u64_def ensure_def
        sat_add_def i64_max_def u64_max_def matches_row_def insert_event_def job_ids_def
        demo_store_eq demo_planned_eq demo_batch_eq demo_created_def demo_queued_def demo_env_def
        empty_db_def state_name.simps Let_def update_rows_def)
  then show ?thesis using claimed_once [OF demo_store_inv run, of "demo_env 50" "''CLAIMED''"] by blast
qed

text \<open>
  C5: creating a job twice under one idempotency key creates it once. When a first call has
  succeeded, every later call with the same key changes nothing, however the clock and the drawn
  identifiers differ. It returns the same job and reports that it did not create it exactly when
  the request is for the same input and plan and its output has the identity of the first one's
  output; an output without an identity is that error, and any other intent is refused.
\<close>

theorem idempotent_creation:
  assumes inv: "store_inv d"
    and first: "create_job_idempotent_with_state E key q enqueue d = (Inr a, d1)"
    and paths: "env_key E' = env_key E"
  shows "if cr_input_path q' \<noteq> cr_input_path q \<or> plan_hash (cr_plan q') \<noteq> plan_hash (cr_plan q)
    then create_job_idempotent_with_state E' key q' enqueue' d1 = (Inl err_key_bound, d1)
    else case env_key E (cr_output_path q') of
      Inl e \<Rightarrow> create_job_idempotent_with_state E' key q' enqueue' d1 = (Inl e, d1)
    | Inr k \<Rightarrow>
        if env_key E (cr_output_path q) = Inr k
        then \<exists>b. create_job_idempotent_with_state E' key q' enqueue' d1 = (Inr b, d1)
               \<and> rec_id (ir_job b) = rec_id (ir_job a) \<and> \<not> ir_created b
        else create_job_idempotent_with_state E' key q' enqueue' d1 = (Inl err_key_bound, d1)"
proof -
  obtain k where k: "validate_idempotency_key key = Inr k"
    using first by (auto simp: create_job_idempotent_with_state_def split: sum.splits)
  then have run: "idempotent_tx E k q enqueue d = Inr (a, d1)"
    using first by (simp add: create_job_idempotent_with_state_def run_tx_Inr)
  obtain row where row: "bound_job k d1 = Some row" "jr_id row = rec_id (ir_job a)"
      "jr_input_path row = cr_input_path q" "jr_plan_hash row = plan_hash (cr_plan q)"
    and same: "same_intent E row q = Inr True"
  proof (cases "bound_job k d")
    case None
    from idempotent_tx_row [OF inv None run] that show ?thesis
      by (auto simp: row_of_request_def same_intent_def)
  next
    case (Some row)
    then have "same_intent E row q = Inr True" "d1 = d" "job_record_from_row row = Inr (ir_job a)"
      using run idempotent_tx_replayed by blast+
    with Some that job_record_fields(1) [of row "ir_job a"] show ?thesis
      by (auto simp: same_intent_def split: if_splits)
  qed
  have "store_inv d1" using store_inv_create_job_idempotent [OF inv, of E key q enqueue] first by simp
  moreover obtain j where "find_job j d1 = Some row" using row(1) by (auto simp: bound_job_def split: option.splits)
  ultimately obtain s where "jr_state row = state_name s" by (rule store_inv_rowE)
  then obtain x where x: "job_record_from_row row = Inr x" "rec_id x = jr_id row"
    by (simp add: job_record_from_row_def)
  have first_key: "env_key E (jr_output_path row) = env_key E (cr_output_path q)" "\<exists>k. env_key E (cr_output_path q) = Inr k"
    using same row(3,4) by (auto simp: same_intent_def)
  have "idempotent_tx E' k q' enqueue' d1 =
      (if cr_input_path q' \<noteq> cr_input_path q \<or> plan_hash (cr_plan q') \<noteq> plan_hash (cr_plan q) then Inl err_key_bound
       else case env_key E (cr_output_path q') of
         Inl e \<Rightarrow> Inl e
       | Inr k \<Rightarrow> if env_key E (cr_output_path q) = Inr k then Inr (\<lparr>ir_job = x, ir_created = False\<rparr>, d1)
           else Inl err_key_bound)"
    using row x(1) first_key by (auto simp: idempotent_tx_def same_intent_def paths split: sum.splits)
  then show ?thesis using k x(2) row(2)
    by (auto simp: create_job_idempotent_with_state_def run_tx_def split: sum.splits)
qed

lemma idempotent_creation_witness:
  "\<exists>a b d1. create_job_idempotent_with_state (demo_env 10) ''b'' (demo_request ''a'') False empty_db
       = (Inr a, d1)
     \<and> create_job_idempotent_with_state (demo_env 50) ''b'' (demo_request ''a'') True d1 = (Inr b, d1)
     \<and> rec_id (ir_job b) = 10
     \<and> create_job_idempotent_with_state (demo_env 50) ''b'' (demo_request ''c'') True d1 = (Inl err_key_bound, d1)"
proof -
  obtain a d1 where run: "create_job_idempotent_with_state (demo_env 10) ''b'' (demo_request ''a'')
      False empty_db = (Inr a, d1)" and a: "rec_id (ir_job a) = 10"
    by (simp add: create_job_idempotent_with_state_def validate_idempotency_key_def demo_visible
        idempotent_tx_def bound_job_def insert_idempotency_key_def demo_ops state_name.simps Let_def
        i64_max_def u64_max_def byte_of_def)
  show ?thesis
    using idempotent_creation [OF store_inv_empty run, of "demo_env 50" "demo_request ''a''" True]
      idempotent_creation [OF store_inv_empty run, of "demo_env 50" "demo_request ''c''" True] run a
    by (auto simp: demo_env_def demo_request_def)
qed

section \<open>Creation, queueing and batches\<close>

lemma insert_jobs_keys:
  assumes "store_inv d" and "insert_jobs E k qs d = Inr (rs, d')"
  shows "list_all2 (\<lambda>q r. map_option Inr (owned_key (rec_id r) (output_reservations d'))
    = Some (env_key E (cr_output_path q))) qs rs"
  using assms
proof (induction qs arbitrary: k d rs)
  case (Cons q qs)
  from Cons.prems(2) obtain r d1 rs' where
    one: "insert_one E (env_uuid E k) q d = Inr (r, d1)"
    and rest: "insert_jobs E (Suc k) qs d1 = Inr (rs', d')" and rs: "rs = r # rs'"
    by auto
  note o = insert_one_Inr [OF Cons.prems(1) one]
  have "same_job (rec_id r) d1 d'"
    using insert_jobs_Inr [OF o(1) rest] o(2,6) by auto
  then show ?case using Cons.IH [OF o(1) rest] o(2,9) by (simp add: rs same_job_def)
qed simp

text \<open>
  Jobs are only created for outputs nobody else writes. When a group of jobs was created,
  every output path resolved to a key, the keys are pairwise different, and none of them was
  reserved by a job before; a group that fails leaves the database as it was.
\<close>

theorem created_outputs_exclusive:
  assumes inv: "store_inv d"
  shows "case create_jobs E qs d of
      (Inl e, d') \<Rightarrow> d' = d
    | (Inr rs, d') \<Rightarrow> length rs = length qs \<and> distinct (map (\<lambda>q. env_key E (cr_output_path q)) qs)
        \<and> (\<forall>q \<in> set qs. \<exists>k. env_key E (cr_output_path q) = Inr k
             \<and> (\<forall>i. owned_key i (output_reservations d) \<noteq> Some k))"
proof (cases "qs = [] \<or> (\<exists>e. insert_jobs E 0 qs d = Inl e)")
  case False
  then obtain rs d' where run: "insert_jobs E 0 qs d = Inr (rs, d')" and ne: "qs \<noteq> []"
    by (metis prod.exhaust sum.exhaust)
  note ins = insert_jobs_Inr [OF inv run]
  have keys: "env_key E (cr_output_path (qs ! i)) = Inr (the (owned_key (rec_id (rs ! i)) (output_reservations d')))
      \<and> owned_key (rec_id (rs ! i)) (output_reservations d') \<noteq> None" if "i < length qs" for i
    using list_all2_nthD [OF insert_jobs_keys [OF inv run] that] by (auto dest: sym)
  have ok: "res_table_ok (output_reservations d')" using ins by (simp add: store_inv_def)
  have "distinct (map (\<lambda>q. env_key E (cr_output_path q)) qs)"
  proof (unfold distinct_conv_nth, intro allI impI)
    fix i j assume "i < length (map (\<lambda>q. env_key E (cr_output_path q)) qs)"
      "j < length (map (\<lambda>q. env_key E (cr_output_path q)) qs)" "i \<noteq> j"
    then have ij: "i < length qs" "j < length qs" "rec_id (rs ! i) \<noteq> rec_id (rs ! j)"
      using ins by (auto simp: distinct_conv_nth)
    obtain a b where a: "owned_key (rec_id (rs ! i)) (output_reservations d') = Some a"
        "env_key E (cr_output_path (qs ! i)) = Inr a"
      and b: "owned_key (rec_id (rs ! j)) (output_reservations d') = Some b"
        "env_key E (cr_output_path (qs ! j)) = Inr b"
      using keys [OF ij(1)] keys [OF ij(2)] by auto
    have "a \<noteq> b" using own.exclusive [OF ok a(1)] b(1) ij(3) by blast
    then show "map (\<lambda>q. env_key E (cr_output_path q)) qs ! i \<noteq> map (\<lambda>q. env_key E (cr_output_path q)) qs ! j"
      using a(2) b(2) ij(1,2) by simp
  qed
  moreover have "\<exists>k. env_key E (cr_output_path q) = Inr k
      \<and> (\<forall>i. owned_key i (output_reservations d) \<noteq> Some k)" if "q \<in> set qs" for q
  proof -
    obtain n where n: "n < length qs" "q = qs ! n" using \<open>q \<in> set qs\<close> by (metis in_set_conv_nth)
    then obtain k where k: "env_key E (cr_output_path q) = Inr k"
      "owned_key (rec_id (rs ! n)) (output_reservations d') = Some k" using keys by auto
    have "owned_key i (output_reservations d) \<noteq> Some k" for i
    proof
      assume own: "owned_key i (output_reservations d) = Some k"
      have "job_ok i d" using inv by (simp add: store_inv_def)
      then have "i \<in> job_ids d"
        using own find_job_None_iff [of i d] by (auto simp: job_ok_def split: option.splits)
      then have "i \<notin> rec_id ` set rs" using ins by auto
      then have "owned_key i (output_reservations d') = Some k" "i \<noteq> rec_id (rs ! n)"
        using ins own n by (auto simp: same_job_def)
      then show False using own.exclusive [OF ok _ k(2)] by blast
    qed
    with k(1) show ?thesis by blast
  qed
  ultimately show ?thesis using ins run ne by (simp add: create_jobs_def run_tx_def)
qed (auto simp: create_jobs_def run_tx_def)

lemma created_outputs_exclusive_witness:
  "case create_jobs (demo_env 40) [demo_request ''x'', demo_request ''x''] demo_store of
      (Inl e, d') \<Rightarrow> d' = demo_store
    | (Inr rs, d') \<Rightarrow> distinct [Inr ''x'' :: anole_error + string, Inr ''x'']"
  using created_outputs_exclusive [OF demo_store_inv, where E = "demo_env 40"
      and qs = "[demo_request ''x'', demo_request ''x'']"]
  by (auto simp: demo_env_def demo_request_def split: sum.splits prod.splits)

text \<open>
  Queueing a group of jobs is all or nothing: on success every named job is queued, none
  was named twice, the records are in the order of the request, and no other job changed; on
  an error nothing changed.
\<close>

theorem queue_jobs_all_or_nothing:
  assumes inv: "store_inv d"
  shows "case queue_jobs E js c d of
      (Inl e, d') \<Rightarrow> d' = d
    | (Inr rs, d') \<Rightarrow> map rec_id rs = js \<and> distinct js
        \<and> (\<forall>j \<in> set js. \<exists>x. find_job j d' = Some x \<and> jr_state x = state_name Queued)
        \<and> (\<forall>i. i \<notin> set js \<longrightarrow> same_job i d d')"
  using queue_all_Inr [OF inv, of E c js]
  by (cases "queue_all E c js d") (auto simp: queue_jobs_def run_tx_def)

lemma queue_jobs_all_or_nothing_witness:
  "case queue_jobs (demo_env 40) [21, 21] ''Q'' demo_store of
      (Inl e, d') \<Rightarrow> d' = demo_store | (Inr rs, d') \<Rightarrow> False"
  using queue_jobs_all_or_nothing [OF demo_store_inv, where E = "demo_env 40" and js = "[21, 21]"
      and c = "''Q''"]
  by (auto split: sum.splits prod.splits)

text \<open>The members of a batch in their order.\<close>

lemma add_members_rows:
  assumes "add_members b rs d = Inr d'"
  shows "batch_members d' = batch_members d @
    map (\<lambda>(i, r). \<lparr>mb_batch_id = b, mb_job_id = rec_id r, mb_ordinal = i\<rparr>) (enumerate 0 rs)"
proof -
  have "res_fold (\<lambda>d (i, r). insert_batch_member
         \<lparr>mb_batch_id = b, mb_job_id = rec_id r, mb_ordinal = i\<rparr> d) d xs = Inr d' \<Longrightarrow>
      batch_members d' = batch_members d @
        map (\<lambda>(i, r). \<lparr>mb_batch_id = b, mb_job_id = rec_id r, mb_ordinal = i\<rparr>) xs"
    for xs :: "(nat \<times> job_record) list"
    by (induction xs arbitrary: d) (auto simp: insert_batch_member_def split: if_splits)
  from this [OF assms [unfolded add_members_def]] show ?thesis .
qed

lemma map_fst_enumerate_sorted: "sorted (map fst (enumerate n xs))"
  by (simp add: sorted_upt)

section \<open>Restart recovery\<close>

lemma interrupt_each_total:
  assumes "store_inv d" and "distinct js"
    and "\<forall>j \<in> set js. \<exists>row s. find_job j d = Some row \<and> jr_state row = state_name s
      \<and> s \<in> {Running, Validating} \<and> jr_sequence row < i64_max"
  shows "\<exists>rs d'. interrupt_each E js d = (Inr rs, d') \<and> map rec_id rs = js \<and> store_inv d'
    \<and> (\<forall>j \<in> set js. \<exists>x. find_job j d' = Some x \<and> jr_state x = state_name Interrupted)
    \<and> (\<forall>i. i \<notin> set js \<longrightarrow> same_job i d d') \<and> job_ids d' = job_ids d"
  using assms
proof (induction js arbitrary: d)
  case (Cons j js)
  obtain row s where row: "find_job j d = Some row" "jr_state row = state_name s"
    "s \<in> {Running, Validating}" "jr_sequence row < i64_max" using Cons.prems(3) by auto
  have can: "can_transition_to s Interrupted" using row(3) by auto
  obtain r d1 where run: "transition_tx E j Interrupted ''RECOVERED_AFTER_RESTART'' d = Inr (r, d1)"
    using transition_tx_total [OF Cons.prems(1) row(1,2) can _ row(4)] by blast
  obtain row' cur where m: "moved E j row' cur Interrupted ''RECOVERED_AFTER_RESTART'' d d1"
    and r: "r = moved_record row' Interrupted (Suc (jr_sequence row')) (env_now E)"
    using Cons.prems(1) run by (rule transition_tx_Inr)
  have found: "find_job i d1 = find_job i d" if "i \<in> set js" for i
    using m that Cons.prems(2) by (auto simp: moved_def same_job_def)
  have "\<exists>rs d'. interrupt_each E js d1 = (Inr rs, d') \<and> map rec_id rs = js \<and> store_inv d'
    \<and> (\<forall>j \<in> set js. \<exists>x. find_job j d' = Some x \<and> jr_state x = state_name Interrupted)
    \<and> (\<forall>i. i \<notin> set js \<longrightarrow> same_job i d1 d') \<and> job_ids d' = job_ids d1"
    by (rule Cons.IH) (use m Cons.prems(2,3) found in \<open>simp_all add: moved_def\<close>)
  then obtain rs d' where rest: "interrupt_each E js d1 = (Inr rs, d')" "map rec_id rs = js"
    "store_inv d'" "\<forall>j \<in> set js. \<exists>x. find_job j d' = Some x \<and> jr_state x = state_name Interrupted"
    "\<forall>i. i \<notin> set js \<longrightarrow> same_job i d1 d'" "job_ids d' = job_ids d1" by blast
  have "jr_id row' = j" using m find_job_id by (auto simp: moved_def)
  moreover have "find_job j d' = find_job j d1" using rest(5) Cons.prems(2) by (simp add: same_job_def)
  moreover have "same_job i d d'" if "i \<notin> set (j # js)" for i
    using that m rest(5) same_job_trans [of i d d1 d'] by (simp add: moved_def)
  ultimately show ?case using run rest m r
    by (auto simp: transition_def run_tx_def moved_def moved_record_def)
qed simp

lemma active_job_ids_iff:
  assumes "store_inv d"
  shows "j \<in> set (active_job_ids d) \<longleftrightarrow>
    (\<exists>row s. find_job j d = Some row \<and> jr_state row = state_name s \<and> s \<in> {Running, Validating})"
proof -
  have "v = ''running'' \<or> v = ''validating'' \<longleftrightarrow> (\<exists>s. v = state_name s \<and> s \<in> {Running, Validating})" for v
    by (simp add: ex_disj_distrib conj_disj_distribL) (metis state_name.simps(5,6))
  then have "set (active_job_ids d) =
      jr_id ` {r \<in> set (jobs d). \<exists>s. jr_state r = state_name s \<and> s \<in> {Running, Validating}}"
    by (simp add: active_job_ids_def)
  moreover have "j \<in> jr_id ` {r \<in> set (jobs d). p r} \<longleftrightarrow> (\<exists>r. find_job j d = Some r \<and> p r)" for p
    using find_job_member [OF assms] find_job_in [of j d] find_job_id [of j d]
    by (auto simp: image_iff)
  ultimately show ?thesis by simp
qed

lemma recovery_effect:
  assumes inv: "store_inv d" and room: "\<forall>row \<in> set (jobs d). jr_sequence row < i64_max"
  shows "\<exists>d'. mark_active_jobs_interrupted E d = (Inr (length (active_job_ids d)), d')
    \<and> active_job_ids d' = []
    \<and> (\<forall>j \<in> set (active_job_ids d). \<exists>x. find_job j d' = Some x \<and> jr_state x = state_name Interrupted)
    \<and> (\<forall>i. i \<notin> set (active_job_ids d) \<longrightarrow> same_job i d d')"
proof -
  have dist: "distinct (active_job_ids d)"
    using inv by (simp add: active_job_ids_def store_inv_def distinct_map_filter)
  have "\<forall>j \<in> set (active_job_ids d). \<exists>row s. find_job j d = Some row \<and> jr_state row = state_name s
      \<and> s \<in> {Running, Validating} \<and> jr_sequence row < i64_max"
    using active_job_ids_iff [OF inv] find_job_in room by blast
  from interrupt_each_total [OF inv dist this, of E] obtain rs d' where
    run: "interrupt_each E (active_job_ids d) d = (Inr rs, d')" "map rec_id rs = active_job_ids d"
    and inv': "store_inv d'"
    and ints: "\<forall>j \<in> set (active_job_ids d). \<exists>x. find_job j d' = Some x \<and> jr_state x = state_name Interrupted"
    and frame: "\<forall>i. i \<notin> set (active_job_ids d) \<longrightarrow> same_job i d d'" by blast
  have "j \<notin> set (active_job_ids d')" for j
    using ints frame active_job_ids_iff [OF inv, of j] active_job_ids_iff [OF inv', of j]
    by (cases "j \<in> set (active_job_ids d)") (auto simp: same_job_def)
  then have "active_job_ids d' = []" by (metis last_in_set)
  moreover have "length rs = length (active_job_ids d)" using run(2) by (metis length_map)
  ultimately show ?thesis using run ints frame
    by (simp add: mark_active_jobs_interrupted_def interrupt_active_jobs_def)
qed

text \<open>
  After a restart no job still counts as running. When no sequence number is exhausted,
  recovery succeeds, reports the number of jobs that were running or validating, turns exactly
  those into interrupted jobs, and leaves every other job alone.
\<close>

theorem recovery_interrupts_active:
  assumes inv: "store_inv d" and room: "\<forall>row \<in> set (jobs d). jr_sequence row < i64_max"
  shows "\<exists>d'. mark_active_jobs_interrupted E d = (Inr (length (active_job_ids d)), d')
    \<and> active_job_ids d' = []
    \<and> (\<forall>j \<in> set (active_job_ids d). \<exists>x. find_job j d' = Some x \<and> jr_state x = state_name Interrupted)
    \<and> (\<forall>i. i \<notin> set (active_job_ids d) \<longrightarrow> same_job i d d')"
  using assms by (rule recovery_effect)

definition demo_running :: db where
  "demo_running = snd (transition (demo_env 40) 21 Running ''STARTED'' demo_store)"

lemma demo_running_inv: "store_inv demo_running"
  unfolding demo_running_def by (rule store_inv_transition) (rule demo_store_inv)

lemma demo_running_eq:
  "demo_running = demo_store
     \<lparr>jobs := [demo_row 11 ''queued'' ''a'' 1 1010 1010, demo_row 12 ''queued'' ''b'' 1 1010 1010,
        demo_row 20 ''queued'' ''c'' 1 1020 1030, demo_row 21 ''running'' ''d'' 1 1020 1040],
      job_events := job_events demo_store @ [\<lparr>ev_job_id = 21, ev_sequence = 1,
        ev_previous = Some ''planned'', ev_next = ''running'', ev_code = ''STARTED'',
        ev_timestamp = 1040\<rparr>]\<rparr>"
  by (simp add: demo_running_def transition_def run_tx_def transition_tx_def find_job_def
      demo_store_eq demo_planned_eq demo_batch_eq demo_rows lookup_row_Cons ok_or_def
      parse_state_def ensure_def move_job_def Let_def update_job_state_def sql_u64_def sat_add_def
      i64_max_def u64_max_def matches_row_def state_name.simps update_rows_def set_state_row_def
      insert_event_def job_ids_def demo_env_def empty_db_def)

lemma demo_running_jobs:
  "jobs demo_running =
     [demo_row 11 ''queued'' ''a'' 1 1010 1010, demo_row 12 ''queued'' ''b'' 1 1010 1010,
      demo_row 20 ''queued'' ''c'' 1 1020 1030, demo_row 21 ''running'' ''d'' 1 1020 1040]"
  by (simp add: demo_running_eq)

lemma recovery_interrupts_active_witness:
  "\<exists>d'. mark_active_jobs_interrupted (demo_env 50) demo_running = (Inr 1, d')
     \<and> active_job_ids d' = []"
  using recovery_interrupts_active [OF demo_running_inv, of "demo_env 50"]
  by (auto simp: demo_running_jobs active_job_ids_def demo_row_def i64_max_def)

text \<open>
  A job whose process was lost between its claim and its first plan is not recovered: the
  restart recovery leaves an inspecting job as it is, output reservation included, it is not
  claimed again, and none of the bulk actions applies to it.
\<close>

theorem recovery_leaves_inspecting_jobs:
  assumes inv: "store_inv d" and row: "find_job j d = Some row"
    and st: "jr_state row = state_name Inspecting"
    and room: "\<forall>row \<in> set (jobs d). jr_sequence row < i64_max"
  shows "same_job j d (snd (mark_active_jobs_interrupted E d))
    \<and> owned_key j (output_reservations d) \<noteq> None
    \<and> claim_queued_job E j c d = (Inr None, d) \<and> (\<forall>act. target_for act Inspecting = None)"
proof -
  have "j \<notin> set (active_job_ids d)" using active_job_ids_iff [OF inv, of j] row st by auto
  moreover have "target_for act Inspecting = None" for act by (cases act) simp_all
  moreover have "claim_queued_job E j c d = (Inr None, d)"
    using claim_tx_other [OF row st] by (simp add: claim_queued_job_def run_tx_def)
  moreover have "owned_key j (output_reservations d) \<noteq> None"
    using owned_iff_active [OF inv row st] by simp
  ultimately show ?thesis using recovery_effect [OF inv room, of E] by auto
qed

definition demo_claimed :: db where
  "demo_claimed = snd (claim_queued_job (demo_env 40) 20 ''CLAIMED'' demo_store)"

lemma demo_claimed_inv: "store_inv demo_claimed"
  unfolding demo_claimed_def by (rule store_inv_claim) (rule demo_store_inv)

lemma demo_claimed_jobs:
  "jobs demo_claimed =
     [demo_row 11 ''queued'' ''a'' 1 1010 1010, demo_row 12 ''queued'' ''b'' 1 1010 1010,
      demo_row 20 ''inspecting'' ''c'' 2 1020 1040, demo_row 21 ''planned'' ''d'' 0 1020 1020]"
  by (simp add: demo_claimed_def claim_queued_job_def run_tx_def claim_tx_def find_job_def
      demo_store_eq demo_planned_eq demo_batch_eq demo_rows lookup_row_Cons ok_or_def
      parse_state_def ensure_def Let_def update_job_state_def sql_u64_def sat_add_def
      i64_max_def u64_max_def matches_row_def state_name.simps update_rows_def set_state_row_def
      insert_event_def job_ids_def demo_env_def empty_db_def)

lemma recovery_leaves_inspecting_jobs_witness:
  "same_job 20 demo_claimed (snd (mark_active_jobs_interrupted (demo_env 50) demo_claimed))"
  using recovery_leaves_inspecting_jobs [OF demo_claimed_inv, where j = 20 and E = "demo_env 50"
      and row = "demo_row 20 ''inspecting'' ''c'' 2 1020 1040"]
  by (simp add: find_job_def demo_claimed_jobs lookup_row_Cons demo_row_def state_name.simps
      i64_max_def)

section \<open>Staging cleanup\<close>

text \<open>
  Cleaning up the staged files of a job is refused while the job could still run or has
  ended with an output, whatever the file removal would say; and a successful cleanup adds one
  audit event that tells whether a file was removed, without changing the job's state, its
  reservation or any other job.
\<close>

theorem cleanup_keeps_state:
  assumes inv: "store_inv d" and row: "find_job j d = Some row" and st: "jr_state row = state_name s"
  shows "(s \<notin> {Blocked, Failed, Cancelled, Interrupted} \<longrightarrow>
       cleanup_staging_persisted E j f d = (Inl err_cleanup_state, d))
    \<and> (\<forall>r b d'. cleanup_staging_persisted E j f d = (Inr (r, b), d') \<longrightarrow>
       find_job j d' = Some (moved_row E row s)
       \<and> events_of j d' = events_of j d @ [event_for E row s s
            (if b then ''STAGED_OUTPUT_CLEANED'' else ''STAGED_OUTPUT_NOT_FOUND'')]
       \<and> output_reservations d' = output_reservations d
       \<and> (\<forall>i. i \<noteq> j \<longrightarrow> same_job i d d'))"
proof (intro conjI impI allI)
  show "cleanup_staging_persisted E j f d = (Inl err_cleanup_state, d)"
    if "s \<notin> {Blocked, Failed, Cancelled, Interrupted}"
    using that row st
    by (simp add: cleanup_staging_persisted_def run_tx_def cleanup_tx_def ok_or_def ensure_def
        job_record_from_row_def)
next
  fix r b d'
  assume "cleanup_staging_persisted E j f d = (Inr (r, b), d')"
  then have run: "cleanup_tx E j f d = Inr ((r, b), d')"
    by (simp add: cleanup_staging_persisted_def run_tx_Inr)
  obtain row' s' where m: "moved E j row' s' s'
      (if b then ''STAGED_OUTPUT_CLEANED'' else ''STAGED_OUTPUT_NOT_FOUND'') d d'"
    and res: "output_reservations d' = output_reservations d"
    using inv run by (rule cleanup_tx_Inr)
  then have "row' = row" "s' = s" using row st by (auto simp: moved_def)
  with m res show "find_job j d' = Some (moved_row E row s)"
    "events_of j d' = events_of j d @ [event_for E row s s
       (if b then ''STAGED_OUTPUT_CLEANED'' else ''STAGED_OUTPUT_NOT_FOUND'')]"
    "output_reservations d' = output_reservations d" "i \<noteq> j \<Longrightarrow> same_job i d d'" for i
    by (simp_all add: moved_def)
qed

lemma cleanup_keeps_state_witness:
  "cleanup_staging_persisted (demo_env 50) 21 (\<lambda>_. Inr True) demo_running
     = (Inl err_cleanup_state, demo_running)"
  using cleanup_keeps_state [OF demo_running_inv, where j = 21 and s = Running
      and row = "demo_row 21 ''running'' ''d'' 1 1020 1040" and E = "demo_env 50"
      and f = "\<lambda>_. Inr True"]
  by (simp add: find_job_def demo_running_jobs lookup_row_Cons demo_row_def state_name.simps)

section \<open>Bulk actions\<close>

text \<open>
  C6: a bulk action accounts for every selected job. When it succeeds, each job of the
  selection appears once, moved to the target state of the action, or unchanged when its state
  has no target or when it would be queued for an output another job holds; the report's
  numbers are the numbers of moved and of state-skipped jobs and add up to the selection; jobs
  outside it are untouched.
\<close>

theorem bulk_action_accounts:
  assumes inv: "store_inv d"
    and run: "apply_bulk_action_persisted E sel act before w d = (Inr (rep, w'), d')"
    and few: "length (selection_rows sel d) \<le> u64_max"
  shows "distinct (map jr_id (selection_rows sel d))
    \<and> (\<forall>r \<in> set (selection_rows sel d). bulk_effect E act r d')
    \<and> (\<forall>i. i \<notin> jr_id ` set (selection_rows sel d) \<longrightarrow> same_job i d d')
    \<and> ba_matched rep = length (selection_rows sel d)
    \<and> ba_transitioned rep = count_rows (changed_in d') (selection_rows sel d)
    \<and> ba_skipped_state rep = count_rows (\<lambda>r. targeted act r = None) (selection_rows sel d)
    \<and> ba_matched rep = ba_transitioned rep + ba_skipped_state rep + ba_skipped_conflict rep"
proof -
  have "apply_bulk_action_transaction E sel act before w d = Inr ((rep, w'), d')"
    using run by (simp add: apply_bulk_action_persisted_def run_tx_Inr)
  from apply_bulk_Inr [OF inv this] few show ?thesis by blast
qed

text \<open>A selection of all four demonstration jobs, one of them running.\<close>

definition demo_selected :: db where
  "demo_selected = snd (capture_selection (demo_env 60)
     \<lparr>q_batch_id = None, q_states = [], q_search = None\<rparr> demo_running)"

lemma demo_selected_inv: "store_inv demo_selected"
  unfolding demo_selected_def by (rule store_inv_capture) (rule demo_running_inv)

lemma demo_selected_eq:
  "demo_selected = demo_running
     \<lparr>selection_snapshots := [\<lparr>se_id = 60,
        se_query = \<lparr>q_batch_id = None, q_states = [], q_search = None\<rparr>,
        se_member_count = 4, se_created = 1060\<rparr>],
      selection_members :=
        [\<lparr>sm_selection_id = 60, sm_job_id = 11, sm_ordinal = 0\<rparr>,
         \<lparr>sm_selection_id = 60, sm_job_id = 12, sm_ordinal = 1\<rparr>,
         \<lparr>sm_selection_id = 60, sm_job_id = 20, sm_ordinal = 2\<rparr>,
         \<lparr>sm_selection_id = 60, sm_job_id = 21, sm_ordinal = 3\<rparr>]\<rparr>"
proof -
  have ids: "selection_member_ids \<lparr>q_batch_id = None, q_states = [], q_search = None\<rparr> demo_running
      = [11, 12, 20, 21]"
    by (simp add: selection_member_ids_def job_query_from_where_def from_rows_def row_matches_def
        demo_running_jobs demo_row_def fifo_key_def)
  have norm: "normalize_selection_query \<lparr>q_batch_id = None, q_states = [], q_search = None\<rparr>
      = Inr \<lparr>q_batch_id = None, q_states = [], q_search = None\<rparr>"
    by (simp add: normalize_selection_query_def normalize_search_def)
  show ?thesis unfolding demo_selected_def capture_selection_def norm sum.case run_tx_def Let_def ids
    by (simp add: insert_selection_row_def insert_selection_member_def demo_env_def job_ids_def
        demo_running_eq demo_store_eq demo_planned_eq demo_batch_eq demo_rows empty_db_def)
qed

lemma demo_selected_rows: "selection_rows 60 demo_selected = jobs demo_running"
  by (simp add: selection_rows_def joined_jobs_def selection_job_ids_def demo_selected_eq
      map_filter_def find_job_def demo_running_jobs lookup_row_Cons demo_row_def)

lemma bulk_action_accounts_witness:
  "\<exists>rep w' d'. apply_bulk_action_persisted (demo_env 70) 60 BulkCancel (\<lambda>_ w. Inr w) () demo_selected
      = (Inr (rep, w'), d')
    \<and> ba_matched rep = 4 \<and> ba_skipped_state rep = 1
    \<and> ba_transitioned rep + ba_skipped_conflict rep = 3"
proof -
  obtain rep w' d' where run: "apply_bulk_action_persisted (demo_env 70) 60 BulkCancel
      (\<lambda>_ w. Inr w) () demo_selected = (Inr (rep, w'), d')"
    unfolding apply_bulk_action_persisted_def run_tx_def apply_bulk_action_transaction_def
      demo_selected_rows demo_running_jobs Let_def
    by (simp add: ensure_def insert_bulk_row_def bulk_step_def
        job_record_from_row_def parse_state_def demo_row_def bulk_transition_def
        update_job_state_def sql_u64_def sat_add_def i64_max_def u64_max_def matches_row_def
        update_rows_def set_state_row_def insert_event_def job_ids_def insert_bulk_member_def
        release_output_def release_rows_def delete_rows_def set_bulk_counts_def demo_env_def
        state_name.simps demo_selected_eq demo_running_eq demo_store_eq demo_planned_eq
        demo_batch_eq demo_created_def demo_queued_def empty_db_def)
  show ?thesis
    using bulk_action_accounts [OF demo_selected_inv run] run
    by (auto simp: demo_selected_rows demo_running_jobs demo_row_def u64_max_def count_rows_def
        targeted_def parse_state_def)
qed

end
