(* ===== verification/Job_Store_Evidence.thy ===== *)
theory Job_Store_Evidence
  imports Job_Store_Machine
begin

text \<open>
  Properties of the evidence tables of the job store (revalidation reports, throughput
  samples) and of batch creation.
\<close>

section \<open>Throughput samples\<close>

definition samples_ok :: "db \<Rightarrow> bool" where
  "samples_ok d \<longleftrightarrow>
     distinct (map sp_id (throughput_samples d))
     \<and> (\<forall>s \<in> set (throughput_samples d). sp_id s < next_sample_id d)"

definition samples_of :: "string \<Rightarrow> string \<Rightarrow> db \<Rightarrow> sample_row list" where
  "samples_of e c d = filter (same_pair e c) (throughput_samples d)"

definition sample_of :: "throughput_sample \<Rightarrow> nat \<Rightarrow> sample_row" where
  "sample_of x i =
     \<lparr>sp_id = i, sp_engine_id = ts_engine_id x, sp_capability_id = ts_capability_id x,
      sp_wall_millis = to_i64 (ts_wall_millis x),
      sp_input_bytes = map_option to_i64 (ts_input_bytes x),
      sp_output_bytes = map_option to_i64 (ts_output_bytes x), sp_completed = ts_completed x\<rparr>"

lemma filter_mem_drop:
  assumes "distinct (map f xs)"
  shows "filter (\<lambda>x. f x \<in> f ` set (drop k xs)) xs = drop k xs"
proof -
  have "distinct (map f (take k xs) @ map f (drop k xs))"
    using assms by (simp flip: map_append)
  then have "filter (\<lambda>x. f x \<in> f ` set (drop k xs)) (take k xs) = []"
    by (auto simp: filter_empty_conv)
  moreover have "filter (\<lambda>x. f x \<in> f ` set (drop k xs)) (drop k xs) = drop k xs"
    by (simp add: filter_id_conv)
  ultimately show ?thesis
    by (metis append_Nil append_take_drop_id filter_append)
qed

lemma filter_newest:
  assumes "distinct (map f xs)"
  shows "filter (\<lambda>x. f x \<in> f ` set (take n (rev xs))) xs = drop (length xs - n) xs"
  unfolding take_rev set_rev using assms by (rule filter_mem_drop)

text \<open>
  The store keeps the newest samples of every engine capability. Recording a sample leaves
  for its engine and capability the last 64 of the samples recorded so far, the new one among
  them, does not touch the samples of any other pair, and never reuses an identifier.
\<close>

theorem sample_window:
  assumes ok: "samples_ok d" and run: "record_engine_throughput_sample x d = (Inr (), d')"
  shows "samples_ok d'
    \<and> samples_of (ts_engine_id x) (ts_capability_id x) d' =
        (let all = samples_of (ts_engine_id x) (ts_capability_id x) d @ [sample_of x (next_sample_id d)]
         in drop (length all - 64) all)
    \<and> (\<forall>e c. (e, c) \<noteq> (ts_engine_id x, ts_capability_id x) \<longrightarrow> samples_of e c d' = samples_of e c d)"
proof -
  let ?e = "ts_engine_id x" and ?c = "ts_capability_id x"
  let ?new = "sample_of x (next_sample_id d)"
  let ?t = "throughput_samples d @ [?new]"
  let ?all = "filter (same_pair ?e ?c) ?t"
  let ?keep = "sp_id ` set (newest_samples 64 ?e ?c ?t)"
  have pair: "same_pair ?e ?c ?new" by (simp add: same_pair_def sample_of_def)
  have d': "throughput_samples d' = filter (\<lambda>s. \<not> (same_pair ?e ?c s \<and> sp_id s \<notin> ?keep)) ?t"
      "next_sample_id d' = Suc (next_sample_id d)"
    using run by (auto simp: record_engine_throughput_sample_def run_tx_def Let_def sample_of_def
        delete_rows_def engine_throughput_sample_window_def)
  have dist: "distinct (map sp_id ?t)"
    using ok by (auto simp: samples_ok_def sample_of_def)
  then have "samples_ok d'" using ok
    by (auto simp: samples_ok_def d' sample_of_def less_Suc_eq distinct_map_filter)
  moreover have "filter (\<lambda>s. sp_id s \<in> ?keep) ?all = drop (length ?all - 64) ?all"
    unfolding newest_samples_def by (rule filter_newest) (rule distinct_map_filter [OF dist])
  moreover have "samples_of ?e ?c d' = filter (\<lambda>s. sp_id s \<in> ?keep) ?all"
    unfolding samples_of_def d' filter_filter by (rule filter_cong) auto
  moreover have "samples_of e c d' = samples_of e c d" if "(e, c) \<noteq> (?e, ?c)" for e c
  proof -
    have "samples_of e c d' = filter (same_pair e c) ?t"
      unfolding samples_of_def d' filter_filter
      by (rule filter_cong) (use that in \<open>auto simp: same_pair_def\<close>)
    then show ?thesis using that by (auto simp: samples_of_def same_pair_def sample_of_def)
  qed
  ultimately show ?thesis using pair by (simp add: samples_of_def Let_def)
qed

definition demo_sample :: throughput_sample where
  "demo_sample = \<lparr>ts_engine_id = ''e'', ts_capability_id = ''c'', ts_wall_millis = 5,
     ts_input_bytes = None, ts_output_bytes = Some 9, ts_completed = 1\<rparr>"

lemma sample_window_witness:
  "samples_of ''e'' ''c'' (snd (record_engine_throughput_sample demo_sample empty_db))
     = [sample_of demo_sample 1]"
proof -
  have ok: "samples_ok empty_db" by (simp add: samples_ok_def empty_db_def)
  have run: "record_engine_throughput_sample demo_sample empty_db =
      (Inr (), snd (record_engine_throughput_sample demo_sample empty_db))"
    by (simp add: record_engine_throughput_sample_def run_tx_def Let_def)
  have "samples_of ''e'' ''c'' empty_db = []" "next_sample_id empty_db = 1"
    by (simp_all add: samples_of_def empty_db_def)
  then show ?thesis using sample_window [OF ok run] by (simp add: demo_sample_def Let_def)
qed

section \<open>Revalidation evidence\<close>

text \<open>
  Revalidation evidence is only recorded for what it is about. A report is stored only
  if it names the job, the job exists and has ended with an output (completed, warning or
  failed), the plan hash is that of the job, and the new identifier is unused; then the table
  grows by that report, its status readable again, and nothing else changes; a refused report
  changes nothing.
\<close>

theorem revalidation_only_for_finished_jobs:
  "case record_revalidation E j rep d of
      (Inl e, d') \<Rightarrow> d' = d
    | (Inr r, d') \<Rightarrow>
        (\<exists>row s. find_job j d = Some row \<and> jr_state row = state_name s
           \<and> s \<in> {Completed, Warning, Failed} \<and> jr_plan_hash row = report_plan_hash rep)
        \<and> report_job_id rep = j \<and> rr_id r \<notin> rv_id ` set (revalidations d)
        \<and> rr_status r = report_status rep
        \<and> (\<exists>x. rv_id x = rr_id r \<and> rv_job_id x = j
             \<and> parse_validation_status (rv_status x) = Inr (report_status rep)
             \<and> d' = d\<lparr>revalidations := revalidations d @ [x]\<rparr>)"
proof (cases "record_revalidation E j rep d")
  case (Pair res d')
  show ?thesis
  proof (cases res)
    case (Inl e)
    have "d' = d" using Pair Inl
      by (auto simp: record_revalidation_def run_tx_Inl split: option.splits if_splits)
    then show ?thesis using Pair Inl by simp
  next
    case (Inr r)
    then obtain body where j: "report_job_id rep = j"
      and run: "revalidation_tx E j rep body d = Inr (r, d')"
      using Pair by (auto simp: record_revalidation_def run_tx_Inr split: option.splits if_splits)
    show ?thesis unfolding Pair Inr sum.case prod.case
      using run j by (force simp: revalidation_tx_def parse_state_Inr_iff)
  qed
qed

section \<open>Batches\<close>

text \<open>The foreign key of the batch members.\<close>

definition members_ok :: "db \<Rightarrow> bool" where
  "members_ok d \<longleftrightarrow> (\<forall>m \<in> set (batch_members d). mb_batch_id m \<in> ba_id ` set (batches d))"

lemma insert_one_batches:
  "insert_one E j q d = Inr (r, d') \<Longrightarrow> batch_members d' = batch_members d \<and> batches d' = batches d"
  by (auto simp: insert_one_def insert_job_row_def insert_event_def split: if_splits
      dest: reserve_output_frame(4,5))

lemma insert_jobs_batches:
  "insert_jobs E k qs d = Inr (rs, d') \<Longrightarrow> batch_members d' = batch_members d \<and> batches d' = batches d"
  by (induction qs arbitrary: k d rs) (auto dest!: insert_one_batches)

lemma insert_jobs_ids:
  "insert_jobs E k qs d = Inr (rs, d') \<Longrightarrow> map rec_id rs = map (env_uuid E) [k..<k + length qs]"
proof (induction qs arbitrary: k d rs)
  case (Cons q qs)
  then obtain r d1 rs' where "insert_one E (env_uuid E k) q d = Inr (r, d1)"
    and rest: "insert_jobs E (Suc k) qs d1 = Inr (rs', d')" and rs: "rs = r # rs'" by auto
  then have "rec_id r = env_uuid E k" by (auto simp: insert_one_def)
  moreover have "[k..<k + length (q # qs)] = k # [Suc k..<Suc k + length qs]"
    using upt_conv_Cons [of k "k + length (q # qs)"] by simp
  ultimately show ?case using Cons.IH [OF rest] by (simp only: rs list.map)
qed simp

lemma enqueue_new_batches:
  "enqueue_new E c j d = Inr d' \<Longrightarrow> batch_members d' = batch_members d"
  by (auto simp: enqueue_new_def update_job_state_def insert_event_def split: if_splits)

lemma enqueue_all_batches:
  "res_fold (\<lambda>d r. enqueue_new E c (rec_id r) d) d rs = Inr d' \<Longrightarrow> batch_members d' = batch_members d"
  by (rule res_fold_invariant [where P = "\<lambda>t. batch_members t = batch_members d"])
    (auto dest: enqueue_new_batches)

lemma sort_key_enumerate:
  "sort_key mb_ordinal (map (\<lambda>(i, r). \<lparr>mb_batch_id = b, mb_job_id = rec_id r, mb_ordinal = i\<rparr>)
      (enumerate n rs)) =
   map (\<lambda>(i, r). \<lparr>mb_batch_id = b, mb_job_id = rec_id r, mb_ordinal = i\<rparr>) (enumerate n rs)"
proof (rule sort_key_id_if_sorted)
  have "map mb_ordinal (map (\<lambda>(i, r). \<lparr>mb_batch_id = b, mb_job_id = rec_id r, mb_ordinal = i\<rparr>)
      (enumerate n rs)) = map fst (enumerate n rs)" by (simp add: o_def split_beta)
  then show "sorted (map mb_ordinal (map (\<lambda>(i, r).
      \<lparr>mb_batch_id = b, mb_job_id = rec_id r, mb_ordinal = i\<rparr>) (enumerate n rs)))"
    by (simp only: map_fst_enumerate_sorted)
qed

lemma member_jobs_enumerate:
  "map mb_job_id (map (\<lambda>(i, r). \<lparr>mb_batch_id = b, mb_job_id = rec_id r, mb_ordinal = i\<rparr>)
      (enumerate n rs)) = map rec_id rs"
proof -
  have "map mb_job_id (map (\<lambda>(i, r). \<lparr>mb_batch_id = b, mb_job_id = rec_id r, mb_ordinal = i\<rparr>)
      (enumerate n rs)) = map rec_id (map snd (enumerate n rs))"
    by (simp add: o_def split_beta del: map_snd_enumerate)
  then show ?thesis by (simp only: map_snd_enumerate)
qed

text \<open>
  A queued batch is complete from the start. When it was created its trimmed name has 1 to
  120 visible characters, it has between 1 and 100,000 jobs, listing its jobs in batch order
  gives the new jobs in the order of the requests, and every one of them is queued; when
  creation fails nothing is left behind.
\<close>

theorem queued_batch_complete:
  assumes inv: "store_inv d" and mem: "members_ok d"
  shows "case create_queued_batch E name qs d of
      (Inl e, d') \<Rightarrow> d' = d
    | (Inr b, d') \<Rightarrow> validate_batch_name name = Inr (br_name b)
        \<and> 1 \<le> length qs \<and> length qs \<le> 100000 \<and> br_job_count b = length qs
        \<and> batch_job_ids (br_id b) d' = map (env_uuid E) [1..<1 + length qs]
        \<and> (\<forall>j \<in> set (batch_job_ids (br_id b) d').
             \<exists>x. find_job j d' = Some x \<and> jr_state x = state_name Queued)"
proof (cases "create_queued_batch E name qs d")
  case (Pair res d')
  show ?thesis
  proof (cases res)
    case (Inl e)
    then show ?thesis using Pair
      by (auto simp: create_queued_batch_def create_batch_inner_def run_tx_Inl
          split: sum.splits if_splits)
  next
    case (Inr b)
    let ?b = "env_uuid E 0"
    from Pair Inr obtain n row d1 rs d2 d3 where n: "validate_batch_name name = Inr n"
      and len: "qs \<noteq> []" "length qs \<le> 100000"
      and ins: "insert_batch_row row d = Inr d1" "ba_id row = ?b"
      and jobs: "insert_jobs E 1 qs d1 = Inr (rs, d2)" and add: "add_members ?b rs d2 = Inr d3"
      and enq: "res_fold (\<lambda>d r. enqueue_new E ''BATCH_QUEUED'' (rec_id r) d) d3 rs = Inr d'"
      and b: "br_id b = ?b" "br_name b = n" "br_job_count b = length rs"
      by (auto simp: create_queued_batch_def create_batch_inner_def run_tx_Inr Let_def
          split: sum.splits if_splits simp del: insert_jobs.simps)
    have fresh: "?b \<notin> ba_id ` set (batches d)" and d1: "batch_members d1 = batch_members d" "store_inv d1"
      using ins inv by (auto simp: insert_batch_row_def split: if_splits)
    note i = insert_jobs_Inr [OF d1(2) jobs] and frame = add_members_frame [OF add]
    have d3: "store_inv d3" "\<forall>r \<in> set rs. fresh_row (rec_id r) d3"
      using i frame fresh_row_cong [of d3 d2] store_inv_cong [of d3 d2] by auto
    note e = enqueue_all_Inr [OF d3(1) _ d3(2) enq]
    have "filter (\<lambda>m. mb_batch_id m = ?b) (batch_members d) = []"
      using mem fresh unfolding members_ok_def filter_empty_conv by metis
    moreover have "filter (\<lambda>m. mb_batch_id m = ?b)
        (map (\<lambda>(i, r). \<lparr>mb_batch_id = ?b, mb_job_id = rec_id r, mb_ordinal = i\<rparr>) xs) =
        map (\<lambda>(i, r). \<lparr>mb_batch_id = ?b, mb_job_id = rec_id r, mb_ordinal = i\<rparr>) xs"
      for xs :: "(nat \<times> job_record) list" by (induction xs) auto
    ultimately have ids: "batch_job_ids ?b d' = map rec_id rs"
      using add_members_rows [OF add] enqueue_all_batches [OF enq] insert_jobs_batches [OF jobs] d1(1)
      by (simp add: batch_job_ids_def sort_key_enumerate member_jobs_enumerate del: map_map)
    have "1 \<le> length qs" using len(1) by (cases qs) auto
    moreover have "map rec_id rs = map (env_uuid E) [1..<1 + length qs]"
      by (rule insert_jobs_ids [OF jobs])
    moreover have "\<forall>j \<in> rec_id ` set rs. \<exists>x. find_job j d' = Some x \<and> jr_state x = state_name Queued"
      using e i by auto
    ultimately show ?thesis unfolding Pair Inr sum.case prod.case b ids
      using n len i by (metis list.set_map)
  qed
qed

lemma queued_batch_complete_witness:
  "case create_queued_batch (demo_env 10) ''b'' [demo_request ''a'', demo_request ''b''] empty_db of
      (Inl e, d') \<Rightarrow> d' = empty_db | (Inr b, d') \<Rightarrow> batch_job_ids (br_id b) d' = [11, 12]"
proof -
  have "members_ok empty_db" by (simp add: members_ok_def empty_db_def)
  from queued_batch_complete [OF store_inv_empty this, where E = "demo_env 10" and name = "''b''"
      and qs = "[demo_request ''a'', demo_request ''b'']"]
  show ?thesis by (auto simp: demo_env_def upt_rec split: prod.splits sum.splits)
qed

end
