(* ===== verification/Rust_Paths.thy ===== *)
theory Rust_Paths
  imports Rust_Strings
begin

text \<open>
  \<open>std::path::Path\<close> as the sources use it. A path is its text, read as POSIX reads it:
  components, absoluteness, the file name, its extension, and joining.
\<close>

section \<open>Components\<close>

text \<open>
  \<open>Path::components\<close> on POSIX: a leading slash is the root; empty parts and dots after the
  first component vanish; equality of paths is equality of components.
\<close>

datatype path_component = RootDir | CurDir | ParentDir | NormalC string

definition is_slash :: "char \<Rightarrow> bool" where
  "is_slash c = (c = CHR ''/'')"

fun component_of :: "string \<Rightarrow> path_component" where
  "component_of p = (if p = ''..'' then ParentDir else NormalC p)"

definition path_components :: "string \<Rightarrow> path_component list" where
  "path_components p =
     (let parts = split_on is_slash p;
          body = map component_of (filter (\<lambda>x. x \<noteq> [] \<and> x \<noteq> ''.'') parts)
      in if starts_with p ''/'' then RootDir # body
         else if hd parts = ''.'' then CurDir # body
         else body)"

definition is_absolute :: "string \<Rightarrow> bool" where
  "is_absolute p = starts_with p ''/''"

fun is_normal :: "path_component \<Rightarrow> bool" where
  "is_normal (NormalC _) = True"
| "is_normal _ = False"

section \<open>File names\<close>

definition file_name :: "string \<Rightarrow> string option" where
  "file_name p =
     (let cs = path_components p in
      if cs = [] then None
      else case last cs of NormalC x \<Rightarrow> Some x | _ \<Rightarrow> None)"

text \<open>
  The part of a file name after its last dot; a leading dot alone starts no extension.
\<close>

definition name_extension :: "string \<Rightarrow> string option" where
  "name_extension x =
     (let after = takeWhile (\<lambda>c. c \<noteq> CHR ''.'') (rev x);
          before = drop (Suc (length after)) (rev x)
      in if length after = length x \<or> before = [] \<or> x = ''..'' then None else Some (rev after))"

definition extension :: "string \<Rightarrow> string option" where
  "extension p = (case file_name p of None \<Rightarrow> None | Some x \<Rightarrow> name_extension x)"

text \<open>\<open>Path::join\<close> with a relative part.\<close>

definition path_join :: "string \<Rightarrow> string \<Rightarrow> string" where
  "path_join d x =
     (if is_absolute x \<or> d = [] then x
      else if ends_with d ''/'' then d @ x else d @ ''/'' @ x)"

section \<open>Parents and joining\<close>

text \<open>
  The parent of a path is the path without its last component; a root and an empty path have
  none. Paths that differ in repeated slashes or inner dots are the same path.
\<close>

fun component_text :: "path_component \<Rightarrow> string" where
  "component_text RootDir = []"
| "component_text CurDir = ''.''"
| "component_text ParentDir = ''..''"
| "component_text (NormalC x) = x"

fun join_with :: "string \<Rightarrow> string list \<Rightarrow> string" where
  "join_with sep [] = []"
| "join_with sep [x] = x"
| "join_with sep (x # y # zs) = x @ sep @ join_with sep (y # zs)"

definition path_text :: "path_component list \<Rightarrow> string" where
  "path_text cs = (if cs = [RootDir] then ''/'' else join_with ''/'' (map component_text cs))"

definition parent :: "string \<Rightarrow> string option" where
  "parent p =
     (let cs = path_components p in
      if cs = [] \<or> last cs = RootDir then None else Some (path_text (butlast cs)))"

section \<open>Numbers and identifiers in names\<close>

definition digit_char :: "nat \<Rightarrow> char" where
  "digit_char n = char_of (if n < 10 then 48 + n else 87 + n)"

fun decimal :: "nat \<Rightarrow> string" where
  "decimal n = (if n < 10 then [digit_char n] else decimal (n div 10) @ [digit_char (n mod 10)])"

declare decimal.simps [simp del]

text \<open>The 32 hexadecimal digits of a UUID, and its text with hyphens.\<close>

definition uuid_digits :: "nat \<Rightarrow> string" where
  "uuid_digits n = map (\<lambda>i. digit_char (n div 16 ^ i mod 16)) (rev [0..<32])"

definition uuid_text :: "nat \<Rightarrow> string" where
  "uuid_text n =
     (let h = uuid_digits n in
      take 8 h @ ''-'' @ take 4 (drop 8 h) @ ''-'' @ take 4 (drop 12 h) @ ''-''
      @ take 4 (drop 16 h) @ ''-'' @ drop 20 h)"

lemma digit_char_inj: "a < 16 \<Longrightarrow> b < 16 \<Longrightarrow> digit_char a = digit_char b \<Longrightarrow> a = b"
proof -
  assume a: "a < 16" and b: "b < 16" and e: "digit_char a = digit_char b"
  have byte: "byte_of (digit_char n) = (if n < 10 then 48 + n else 87 + n)" if "n < 16" for n
    using that unfolding digit_char_def by (intro byte_of_char_of) auto
  have "byte_of (digit_char a) = byte_of (digit_char b)" by (simp only: e)
  then show "a = b" using a b by (auto simp: byte split: if_splits)
qed

lemma digits_determine:
  fixes n m :: nat
  shows "(\<And>i. i < k \<Longrightarrow> n div 16 ^ i mod 16 = m div 16 ^ i mod 16) \<Longrightarrow> n mod 16 ^ k = m mod 16 ^ k"
proof (induction k)
  case (Suc k)
  have "n mod 16 ^ k = m mod 16 ^ k" using Suc by simp
  moreover have "n div 16 ^ k mod 16 = m div 16 ^ k mod 16" using Suc.prems by simp
  moreover have "x mod 16 ^ Suc k = 16 ^ k * (x div 16 ^ k mod 16) + x mod 16 ^ k" for x :: nat
    using mod_mult2_eq [of x "16 ^ k" 16] by (simp add: mult.commute)
  ultimately show ?case by simp
qed simp

lemma uuid_digits_inj:
  assumes "n < 2 ^ 128" "m < 2 ^ 128" and e: "uuid_digits n = uuid_digits m"
  shows "n = m"
proof -
  have "digit_char (n div 16 ^ i mod 16) = digit_char (m div 16 ^ i mod 16)" if "i < 32" for i
    using e that by (simp add: uuid_digits_def)
  then have "n div 16 ^ i mod 16 = m div 16 ^ i mod 16" if "i < 32" for i
    using that digit_char_inj by simp
  then have "n mod 16 ^ 32 = m mod 16 ^ 32" by (rule digits_determine)
  then show ?thesis using assms(1,2) by simp
qed

lemma cut: "h = take k h @ take n (drop k h) @ drop (n + k) h"
  by (metis append_take_drop_id drop_drop)

lemma uuid_text_inj:
  assumes n: "n < 2 ^ 128" "m < 2 ^ 128" and e: "uuid_text n = uuid_text m"
  shows "n = m"
proof (rule uuid_digits_inj [OF n])
  define g where "g = uuid_digits n"
  define h where "h = uuid_digits m"
  have len: "length g = 32" "length h = 32" by (simp_all add: g_def h_def uuid_digits_def)
  have eq: "take 8 g = take 8 h" "take 4 (drop 8 g) = take 4 (drop 8 h)"
    "take 4 (drop 12 g) = take 4 (drop 12 h)" "take 4 (drop 16 g) = take 4 (drop 16 h)"
    "drop 20 g = drop 20 h"
    using e by (simp_all add: uuid_text_def g_def [symmetric] h_def [symmetric] len)
  have "drop 16 g = drop 16 h"
    using eq(4,5) cut [of "drop 16 g" 0 4] cut [of "drop 16 h" 0 4] by simp
  then have "drop 12 g = drop 12 h"
    using eq(3) cut [of "drop 12 g" 0 4] cut [of "drop 12 h" 0 4] by simp
  then have "drop 8 g = drop 8 h"
    using eq(2) cut [of "drop 8 g" 0 4] cut [of "drop 8 h" 0 4] by simp
  then have "g = h" using eq(1) cut [of g 0 8] cut [of h 0 8] by simp
  then show "uuid_digits n = uuid_digits m" by (simp add: g_def h_def)
qed

section \<open>Walking a path\<close>

text \<open>Following a path from a directory: dots stay, a parent component goes up.\<close>

fun follow :: "string list \<Rightarrow> path_component list \<Rightarrow> string list" where
  "follow dir [] = dir"
| "follow dir (RootDir # cs) = follow [] cs"
| "follow dir (CurDir # cs) = follow dir cs"
| "follow dir (ParentDir # cs) = follow (butlast dir) cs"
| "follow dir (NormalC x # cs) = follow (dir @ [x]) cs"

lemma follow_normal:
  "\<forall>c \<in> set cs. is_normal c \<Longrightarrow> \<exists>xs. follow dir cs = dir @ xs \<and> cs = map NormalC xs"
proof (induction cs arbitrary: dir)
  case (Cons c cs)
  then obtain x where x: "c = NormalC x" by (cases c) auto
  have "\<forall>c \<in> set cs. is_normal c" using Cons.prems by simp
  from Cons.IH [OF this, of "dir @ [x]"] obtain xs
    where "follow (dir @ [x]) cs = (dir @ [x]) @ xs" "cs = map NormalC xs" by blast
  with x show ?case by (intro exI [of _ "x # xs"]) simp
qed simp

end
