(* ===== verification/Engine_Sdk.thy ===== *)
theory Engine_Sdk
  imports Domain Rust_Paths "HOL-Library.List_Lexorder"
begin

text \<open>
  \<open>crates/engine-sdk/src/lib.rs\<close>: engine manifests, release keyrings, the evaluation of a
  manifest signature (ADR-0011) and the certification rule. Error values keep which check
  failed. The signature scheme and the JSON bytes of a manifest are parameters.
\<close>

section \<open>Supply-chain review, platforms and version ranges\<close>

datatype supply_chain_review_status = ReviewMissing | ReviewIncomplete | ReviewComplete

definition parse_recorded :: "string option \<Rightarrow> supply_chain_review_status" where
  "parse_recorded v =
     (case map_option trim v of
        None \<Rightarrow> ReviewMissing
      | Some t \<Rightarrow>
          if t = ''complete'' then ReviewComplete
          else if t = ''incomplete'' \<or> t = ''pending'' then ReviewIncomplete
          else if t \<noteq> [] then ReviewIncomplete
          else ReviewMissing)"

datatype engine_platform = Windows | Macos | Linux

datatype engine_architecture = X86_64 | Aarch64

text \<open>\<open>split(['.', '-'])\<close>, then the longest numeric prefix of the parts.\<close>

fun map_while :: "('a \<Rightarrow> 'b option) \<Rightarrow> 'a list \<Rightarrow> 'b list" where
  "map_while f [] = []"
| "map_while f (x # xs) = (case f x of None \<Rightarrow> [] | Some y \<Rightarrow> y # map_while f xs)"

definition numeric_version_prefix :: "string \<Rightarrow> nat list" where
  "numeric_version_prefix v =
     map_while parse_u64 (split_on (\<lambda>c. c = CHR ''.'' \<or> c = CHR ''-'') v)"

definition version_in_half_open_range :: "string \<Rightarrow> string \<Rightarrow> string \<Rightarrow> bool" where
  "version_in_half_open_range v lo hi =
     (numeric_version_prefix lo \<le> numeric_version_prefix v
      \<and> numeric_version_prefix v < numeric_version_prefix hi)"

record anole_compatibility =
  minimum :: string
  maximum_exclusive :: string

definition compatible_with :: "anole_compatibility \<Rightarrow> string \<Rightarrow> bool" where
  "compatible_with c v = version_in_half_open_range v (minimum c) (maximum_exclusive c)"

section \<open>Manifests\<close>

record capability =
  cap_id :: string
  cap_inputs :: "string list"
  cap_outputs :: "string list"
  cap_operation :: operation
  cap_loss_class :: loss_class
  cap_constraints :: "(string \<times> json) list"

record manifest_executable =
  exe_name :: string
  exe_path :: string
  exe_sha256 :: string

record manifest_runtime_file =
  run_path :: string
  run_sha256 :: string

record manifest_source =
  project_url :: string
  source_url :: string
  source_revision :: string
  src_build_configuration :: string

record manifest_license =
  spdx :: string
  notice_path :: string
  source_offer_path :: "string option"

record manifest_supply_chain =
  sbom_path :: string
  sbom_sha256 :: string
  sources_path :: string
  sources_sha256 :: string

record manifest_signature =
  sig_algorithm :: string
  sig_key_id :: string
  sig_value :: string

record engine_manifest =
  man_schema_version :: nat
  man_engine_id :: string
  man_version :: string
  man_platform :: engine_platform
  man_architecture :: engine_architecture
  protocol_version :: nat
  anole_compat :: anole_compatibility
  executables :: "manifest_executable list"
  runtime_files :: "manifest_runtime_file list"
  man_source :: manifest_source
  licenses :: "manifest_license list"
  supply_chain :: "manifest_supply_chain option"
  capabilities :: "capability list"
  man_signature :: "manifest_signature option"

section \<open>Hexadecimal text and identifiers\<close>

definition is_lower_hex_byte :: "char \<Rightarrow> bool" where
  "is_lower_hex_byte c = (is_ascii_digit c \<or> (97 \<le> byte_of c \<and> byte_of c \<le> 102))"

definition is_lower_hex :: "string \<Rightarrow> nat \<Rightarrow> bool" where
  "is_lower_hex v n = (length v = n * 2 \<and> (\<forall>c \<in> set v. is_lower_hex_byte c))"

text \<open>\<open>u8::from_str_radix(pair, 16)\<close>, which is only reached with two hexadecimal digits.\<close>

definition hex_digit :: "char \<Rightarrow> nat option" where
  "hex_digit c =
     (let b = byte_of c in
      if 48 \<le> b \<and> b \<le> 57 then Some (b - 48)
      else if 97 \<le> b \<and> b \<le> 102 then Some (b - 87)
      else if 65 \<le> b \<and> b \<le> 70 then Some (b - 55)
      else None)"

definition from_hex_pair :: "char \<Rightarrow> char \<Rightarrow> nat option" where
  "from_hex_pair a b =
     (case (hex_digit a, hex_digit b) of (Some x, Some y) \<Rightarrow> Some (16 * x + y) | _ \<Rightarrow> None)"

fun decode_pairs :: "string \<Rightarrow> nat list option" where
  "decode_pairs (a # b # s) =
     (case from_hex_pair a b of None \<Rightarrow> None
      | Some x \<Rightarrow> (case decode_pairs s of None \<Rightarrow> None | Some xs \<Rightarrow> Some (x # xs)))"
| "decode_pairs _ = Some []"

definition decode_lower_hex :: "string \<Rightarrow> nat \<Rightarrow> nat list option" where
  "decode_lower_hex v n = (if is_lower_hex v n then decode_pairs v else None)"

definition hex_char :: "nat \<Rightarrow> char" where
  "hex_char n = char_of (if n < 10 then 48 + n else 87 + n)"

definition to_lower_hex :: "nat list \<Rightarrow> string" where
  "to_lower_hex bs = concat (map (\<lambda>b. [hex_char (b div 16), hex_char (b mod 16)]) bs)"

definition valid_engine_id_byte :: "char \<Rightarrow> bool" where
  "valid_engine_id_byte c =
     (is_ascii_lower c \<or> is_ascii_digit c \<or> c \<in> {CHR ''.'', CHR ''_'', CHR ''-''})"

definition valid_engine_id :: "string \<Rightarrow> bool" where
  "valid_engine_id v =
     (length v \<ge> 2
      \<and> (case v of [] \<Rightarrow> False | c # _ \<Rightarrow> is_ascii_lower c \<or> is_ascii_digit c)
      \<and> (\<forall>c \<in> set v. valid_engine_id_byte c))"

definition valid_store_segment :: "string \<Rightarrow> bool" where
  "valid_store_segment v =
     (v \<noteq> [] \<and> v \<noteq> ''.'' \<and> v \<noteq> ''..''
      \<and> (\<forall>c \<in> set v. is_ascii_alphanumeric c \<or> c \<in> {CHR ''.'', CHR ''_'', CHR ''+'', CHR ''-''}))"

definition is_ascii_hexdigit :: "char \<Rightarrow> bool" where
  "is_ascii_hexdigit c = (hex_digit c \<noteq> None)"

definition is_https_url :: "string \<Rightarrow> bool" where
  "is_https_url v = (starts_with v ''https://'' \<and> length v > length ''https://'')"

section \<open>Validation of a manifest\<close>

datatype manifest_error =
    UnsupportedSchema | UnsupportedProtocol | BadEngineId | BadVersion | EmptyCompatibility
  | NoExecutable | EmptyExecutableName | DuplicateExecutable | UnsafePath string
  | BadSha256 string | DuplicatePath | SameSupplyChainFiles | NotHttps | MissingProvenance
  | NoLicense | EmptySpdx | BadCapability | DuplicateCapability | EmptyFormatId
  | BadSignatureAlgorithm | BadSignatureKeyId | BadSignatureValue

definition validate_relative_path :: "string \<Rightarrow> string \<Rightarrow> manifest_error + unit" where
  "validate_relative_path p purpose =
     ensure (\<not> (p = [] \<or> is_absolute p \<or> (\<exists>c \<in> set (path_components p). \<not> is_normal c)))
       (UnsafePath purpose)"

definition validate_sha256 :: "string \<Rightarrow> string \<Rightarrow> manifest_error + unit" where
  "validate_sha256 v purpose =
     ensure (\<not> (length v \<noteq> 64 \<or> \<not> (\<forall>c \<in> set v. is_ascii_hexdigit c))) (BadSha256 purpose)"

text \<open>\<open>pack_paths.insert(path)\<close> with its failure: the set is kept as the list of its members.\<close>

definition add_path :: "string \<Rightarrow> path_component list list \<Rightarrow> manifest_error + path_component list list" where
  "add_path p seen =
     (if path_components p \<in> set seen then Inl DuplicatePath else Inr (seen @ [path_components p]))"

definition check_executable ::
    "string list \<times> path_component list list \<Rightarrow> manifest_executable
     \<Rightarrow> manifest_error + string list \<times> path_component list list" where
  "check_executable st e =
     res_bind (ensure (trim (exe_name e) \<noteq> []) EmptyExecutableName) (\<lambda>_.
     res_bind (ensure (exe_name e \<notin> set (fst st)) DuplicateExecutable) (\<lambda>_.
     res_bind (validate_relative_path (exe_path e) ''executable'') (\<lambda>_.
     res_bind (validate_sha256 (exe_sha256 e) ''executable'') (\<lambda>_.
     res_bind (add_path (exe_path e) (snd st)) (\<lambda>seen.
     Inr (fst st @ [exe_name e], seen))))))"

definition check_hashed ::
    "string \<Rightarrow> path_component list list \<Rightarrow> string \<times> string
     \<Rightarrow> manifest_error + path_component list list" where
  "check_hashed purpose seen x =
     res_bind (validate_relative_path (fst x) purpose) (\<lambda>_.
     res_bind (validate_sha256 (snd x) purpose) (\<lambda>_. add_path (fst x) seen))"

definition check_plain ::
    "string \<Rightarrow> path_component list list \<Rightarrow> string \<Rightarrow> manifest_error + path_component list list" where
  "check_plain purpose seen p =
     res_bind (validate_relative_path p purpose) (\<lambda>_. add_path p seen)"

definition check_license ::
    "path_component list list \<Rightarrow> manifest_license \<Rightarrow> manifest_error + path_component list list" where
  "check_license seen l =
     res_bind (check_plain ''license notice'' seen (notice_path l)) (\<lambda>seen1.
     case source_offer_path l of
       None \<Rightarrow> Inr seen1
     | Some p \<Rightarrow> check_plain ''source offer'' seen1 p)"

definition check_supply_chain ::
    "path_component list list \<Rightarrow> manifest_supply_chain option
     \<Rightarrow> manifest_error + path_component list list" where
  "check_supply_chain seen s =
     (case s of
        None \<Rightarrow> Inr seen
      | Some c \<Rightarrow>
          res_bind (check_hashed ''engine SBOM'' seen (sbom_path c, sbom_sha256 c)) (\<lambda>seen1.
          res_bind (check_hashed ''engine source inventory'' seen1
                      (sources_path c, sources_sha256 c)) (\<lambda>seen2.
          res_bind (ensure (path_components (sbom_path c) \<noteq> path_components (sources_path c))
                      SameSupplyChainFiles) (\<lambda>_. Inr seen2))))"

definition validate_pack_files :: "engine_manifest \<Rightarrow> manifest_error + path_component list list" where
  "validate_pack_files m =
     res_bind (res_fold check_executable ([], []) (executables m)) (\<lambda>st.
     res_bind (res_fold (check_hashed ''runtime file'') (snd st)
        (map (\<lambda>r. (run_path r, run_sha256 r)) (runtime_files m))) (\<lambda>seen1.
     res_bind (res_fold check_license seen1 (licenses m)) (\<lambda>seen2.
     check_supply_chain seen2 (supply_chain m))))"

definition validate_provenance_and_licenses :: "engine_manifest \<Rightarrow> manifest_error + unit" where
  "validate_provenance_and_licenses m =
     res_bind (ensure (is_https_url (project_url (man_source m))
                \<and> is_https_url (source_url (man_source m))) NotHttps) (\<lambda>_.
     res_bind (ensure (trim (source_revision (man_source m)) \<noteq> []
                \<and> trim (src_build_configuration (man_source m)) \<noteq> []) MissingProvenance) (\<lambda>_.
     res_bind (ensure (licenses m \<noteq> []) NoLicense) (\<lambda>_.
     ensure (\<forall>l \<in> set (licenses m). trim (spdx l) \<noteq> []) EmptySpdx)))"

definition check_capability :: "string list \<Rightarrow> capability \<Rightarrow> manifest_error + string list" where
  "check_capability ids c =
     res_bind (ensure (trim (cap_id c) \<noteq> [] \<and> cap_inputs c \<noteq> [] \<and> cap_outputs c \<noteq> [])
                 BadCapability) (\<lambda>_.
     res_bind (ensure (cap_id c \<notin> set ids) DuplicateCapability) (\<lambda>_.
     res_bind (ensure (\<forall>f \<in> set (cap_inputs c @ cap_outputs c). trim f \<noteq> []) EmptyFormatId) (\<lambda>_.
     Inr (ids @ [cap_id c]))))"

definition validate_capabilities :: "engine_manifest \<Rightarrow> manifest_error + unit" where
  "validate_capabilities m =
     res_bind (res_fold check_capability [] (capabilities m)) (\<lambda>_. Inr ())"

definition validate_signature_shape :: "manifest_signature option \<Rightarrow> manifest_error + unit" where
  "validate_signature_shape s =
     (case s of
        None \<Rightarrow> Inr ()
      | Some g \<Rightarrow>
          res_bind (ensure (sig_algorithm g = ''ed25519'') BadSignatureAlgorithm) (\<lambda>_.
          res_bind (ensure (trim (sig_key_id g) \<noteq> [] \<and> valid_engine_id (trim (sig_key_id g)))
                      BadSignatureKeyId) (\<lambda>_.
          ensure (is_lower_hex (sig_value g) 64) BadSignatureValue)))"

definition engine_manifest_schema_version :: nat where
  "engine_manifest_schema_version = 1"

definition validate_manifest :: "engine_manifest \<Rightarrow> nat \<Rightarrow> manifest_error + unit" where
  "validate_manifest m supported =
     res_bind (ensure (man_schema_version m = engine_manifest_schema_version) UnsupportedSchema) (\<lambda>_.
     res_bind (ensure (protocol_version m = supported) UnsupportedProtocol) (\<lambda>_.
     res_bind (ensure (valid_engine_id (man_engine_id m)) BadEngineId) (\<lambda>_.
     res_bind (ensure (valid_store_segment (man_version m)) BadVersion) (\<lambda>_.
     res_bind (ensure (trim (minimum (anole_compat m)) \<noteq> []
                \<and> trim (maximum_exclusive (anole_compat m)) \<noteq> []) EmptyCompatibility) (\<lambda>_.
     res_bind (ensure (executables m \<noteq> []) NoExecutable) (\<lambda>_.
     res_bind (validate_pack_files m) (\<lambda>_.
     res_bind (validate_provenance_and_licenses m) (\<lambda>_.
     res_bind (validate_capabilities m) (\<lambda>_.
     validate_signature_shape (man_signature m))))))))))"

section \<open>Release keyrings\<close>

record release_key =
  rk_key_id :: string
  rk_algorithm :: string
  rk_purpose :: string
  rk_public_key :: string
  rk_valid_from :: nat
  rk_valid_until :: nat

record key_revocation =
  kr_key_id :: string
  kr_revoked :: nat
  kr_reason :: string

record release_keyring =
  rg_schema_version :: nat
  rg_keys :: "release_key list"
  rg_revocations :: "key_revocation list"

datatype keyring_error =
    KeyringSchema | KeyIdShape string | DuplicateKeyId string | KeyAlgorithm string
  | KeyPurpose string | KeyNotHex string | KeyWindow string | RevocationIdShape string
  | DuplicateRevocation string | RevocationTime string

definition check_key :: "string list \<Rightarrow> release_key \<Rightarrow> keyring_error + string list" where
  "check_key ids k =
     (let i = rk_key_id k in
      res_bind (ensure (valid_engine_id i) (KeyIdShape i)) (\<lambda>_.
      res_bind (ensure (i \<notin> set ids) (DuplicateKeyId i)) (\<lambda>_.
      res_bind (ensure (rk_algorithm k = ''ed25519'') (KeyAlgorithm i)) (\<lambda>_.
      res_bind (ensure (rk_purpose k = ''engine-manifest'') (KeyPurpose i)) (\<lambda>_.
      res_bind (ensure (is_lower_hex (rk_public_key k) 32) (KeyNotHex i)) (\<lambda>_.
      res_bind (ensure (\<not> (rk_valid_from k = 0 \<or> rk_valid_until k \<le> rk_valid_from k))
                  (KeyWindow i)) (\<lambda>_.
      Inr (ids @ [i]))))))))"

definition check_revocation :: "string list \<Rightarrow> key_revocation \<Rightarrow> keyring_error + string list" where
  "check_revocation ids r =
     (let i = kr_key_id r in
      res_bind (ensure (valid_engine_id i) (RevocationIdShape i)) (\<lambda>_.
      res_bind (ensure (i \<notin> set ids) (DuplicateRevocation i)) (\<lambda>_.
      res_bind (ensure (kr_revoked r \<noteq> 0) (RevocationTime i)) (\<lambda>_.
      Inr (ids @ [i])))))"

definition release_keyring_schema_version :: nat where
  "release_keyring_schema_version = 1"

definition validate_keyring :: "release_keyring \<Rightarrow> keyring_error + unit" where
  "validate_keyring g =
     res_bind (ensure (rg_schema_version g = release_keyring_schema_version) KeyringSchema) (\<lambda>_.
     res_bind (res_fold check_key [] (rg_keys g)) (\<lambda>_.
     res_bind (res_fold check_revocation [] (rg_revocations g)) (\<lambda>_. Inr ())))"

section \<open>Signatures\<close>

datatype signature_trust =
    Trusted string | Unsigned | UnknownKey string | Revoked string | Expired string
  | InvalidSignature

fun status_name :: "signature_trust \<Rightarrow> string" where
  "status_name (Trusted _) = ''trusted''"
| "status_name Unsigned = ''unsigned''"
| "status_name (UnknownKey _) = ''unknown_key''"
| "status_name (Revoked _) = ''revoked''"
| "status_name (Expired _) = ''expired''"
| "status_name InvalidSignature = ''invalid_signature''"

text \<open>
  The Ed25519 implementation and the JSON serializer, as the sources call them. Bytes are
  numbers below 256.
\<close>

record crypto =
  json_bytes :: "engine_manifest \<Rightarrow> nat list"
  valid_public :: "nat list \<Rightarrow> bool"
  verify_strict :: "nat list \<Rightarrow> nat list \<Rightarrow> nat list \<Rightarrow> bool"
  sign_with :: "nat list \<Rightarrow> nat list \<Rightarrow> nat list"
  public_of :: "nat list \<Rightarrow> nat list"

definition canonical_manifest_bytes :: "crypto \<Rightarrow> engine_manifest \<Rightarrow> nat list" where
  "canonical_manifest_bytes C m = json_bytes C (m\<lparr>man_signature := None\<rparr>)"

definition sign_manifest :: "crypto \<Rightarrow> engine_manifest \<Rightarrow> string \<Rightarrow> nat list \<Rightarrow> manifest_signature" where
  "sign_manifest C m key_id seed =
     \<lparr>sig_algorithm = ''ed25519'', sig_key_id = key_id,
      sig_value = to_lower_hex (sign_with C seed (canonical_manifest_bytes C m))\<rparr>"

definition ed25519_public_key_hex :: "crypto \<Rightarrow> nat list \<Rightarrow> string" where
  "ed25519_public_key_hex C seed = to_lower_hex (public_of C seed)"

definition verify_manifest_signature ::
    "crypto \<Rightarrow> engine_manifest \<Rightarrow> release_keyring \<Rightarrow> nat \<Rightarrow> signature_trust" where
  "verify_manifest_signature C m g now =
     (case man_signature m of
        None \<Rightarrow> Unsigned
      | Some s \<Rightarrow>
        (case lookup_row rk_key_id (sig_key_id s) (rg_keys g) of
           None \<Rightarrow> UnknownKey (sig_key_id s)
         | Some k \<Rightarrow>
           if sig_key_id s \<in> kr_key_id ` set (rg_revocations g) then Revoked (sig_key_id s)
           else if now < rk_valid_from k \<or> now > rk_valid_until k then Expired (rk_key_id k)
           else case decode_lower_hex (rk_public_key k) 32 of
             None \<Rightarrow> InvalidSignature
           | Some pk \<Rightarrow>
             (case decode_lower_hex (sig_value s) 64 of
                None \<Rightarrow> InvalidSignature
              | Some sv \<Rightarrow>
                if \<not> valid_public C pk then InvalidSignature
                else if verify_strict C pk (canonical_manifest_bytes C m) sv
                     then Trusted (rk_key_id k) else InvalidSignature)))"

definition derive_engine_certification ::
    "signature_trust option \<Rightarrow> supply_chain_review_status \<Rightarrow> certification" where
  "derive_engine_certification trust review =
     (case trust of
        Some (Trusted _) \<Rightarrow> if review = ReviewComplete then Certified else Unverified
      | _ \<Rightarrow> Unverified)"

definition engine_provenance_message ::
    "signature_trust option \<Rightarrow> supply_chain_review_status \<Rightarrow> bool \<Rightarrow> string" where
  "engine_provenance_message trust review present =
     (case trust of
        Some (Trusted k) \<Rightarrow>
          if review = ReviewComplete
          then ''Certified: trusted signature from '' @ k @ '' and completed supply-chain review.''
          else ''Signature trusted by '' @ k @ ''; supply-chain review is incomplete. Not certified.''
      | Some (UnknownKey k) \<Rightarrow> ''Signature key '' @ k @ '' is not in the release keyring.''
      | Some (Revoked k) \<Rightarrow> ''Signature key '' @ k @ '' has been revoked.''
      | Some (Expired k) \<Rightarrow> ''Signature key '' @ k @ '' is outside its validity window.''
      | Some InvalidSignature \<Rightarrow> ''Manifest signature is invalid.''
      | _ \<Rightarrow>
          if present
          then ''Integrity verified; signature present but not yet trusted by a release keyring.''
          else ''Integrity verified; unsigned pack remains unverified.'')"

section \<open>Hexadecimal round trip\<close>

lemma hex_char_byte: "n < 16 \<Longrightarrow> byte_of (hex_char n) = (if n < 10 then 48 + n else 87 + n)"
  by (simp add: hex_char_def byte_of_char_of)

lemma hex_digit_hex_char: "n < 16 \<Longrightarrow> hex_digit (hex_char n) = Some n"
  by (auto simp: hex_digit_def hex_char_byte Let_def)

lemma is_lower_hex_char: "n < 16 \<Longrightarrow> is_lower_hex_byte (hex_char n)"
  by (auto simp: is_lower_hex_byte_def is_ascii_digit_def hex_char_byte)

lemma from_hex_pair_byte:
  "b < 256 \<Longrightarrow> from_hex_pair (hex_char (b div 16)) (hex_char (b mod 16)) = Some b"
  by (simp add: from_hex_pair_def hex_digit_hex_char)

lemma decode_to_lower_hex:
  assumes "\<forall>b \<in> set bs. b < 256"
  shows "decode_pairs (to_lower_hex bs) = Some bs"
  using assms by (induction bs) (auto simp: to_lower_hex_def from_hex_pair_byte)

lemma to_lower_hex_is_lower_hex:
  assumes "\<forall>b \<in> set bs. b < 256"
  shows "is_lower_hex (to_lower_hex bs) (length bs)"
  using assms
  by (induction bs) (auto simp: to_lower_hex_def is_lower_hex_def is_lower_hex_char)

lemma hex_roundtrip:
  assumes "\<forall>b \<in> set bs. b < 256" and "length bs = n"
  shows "decode_lower_hex (to_lower_hex bs) n = Some bs"
  using assms to_lower_hex_is_lower_hex [of bs] decode_to_lower_hex [of bs]
  by (simp add: decode_lower_hex_def)

text \<open>Conversely the text of a lower-case number of the right size decodes, to that text's bytes.\<close>

lemma lower_hex_digit:
  "is_lower_hex_byte c \<Longrightarrow> \<exists>n < 16. hex_digit c = Some n \<and> hex_char n = c"
proof -
  assume h: "is_lower_hex_byte c"
  define b where "b = byte_of c"
  have c: "c = char_of b" by (simp add: b_def byte_of_def)
  have "48 \<le> b \<and> b \<le> 57 \<or> 97 \<le> b \<and> b \<le> 102"
    using h by (simp add: is_lower_hex_byte_def is_ascii_digit_def b_def)
  then show ?thesis
  proof
    assume "48 \<le> b \<and> b \<le> 57"
    then show ?thesis by (intro exI [of _ "b - 48"]) (auto simp: hex_digit_def hex_char_def c byte_of_char_of)
  next
    assume "97 \<le> b \<and> b \<le> 102"
    then show ?thesis by (intro exI [of _ "b - 87"]) (auto simp: hex_digit_def hex_char_def c byte_of_char_of)
  qed
qed

lemma decode_pairs_total:
  "length v = n * 2 \<Longrightarrow> \<forall>c \<in> set v. is_lower_hex_byte c \<Longrightarrow>
   \<exists>bs. decode_pairs v = Some bs \<and> length bs = n \<and> to_lower_hex bs = v \<and> (\<forall>b \<in> set bs. b < 256)"
proof (induction v arbitrary: n rule: decode_pairs.induct)
  case (1 a b s)
  obtain x y where x: "x < 16" "hex_digit a = Some x" "hex_char x = a"
    and y: "y < 16" "hex_digit b = Some y" "hex_char y = b"
    using 1(3) lower_hex_digit by (metis list.set_intros)
  then have p: "from_hex_pair a b = Some (16 * x + y)" by (simp add: from_hex_pair_def)
  obtain k where k: "n = Suc k" "length s = k * 2" using 1(2) by (cases n) auto
  obtain bs where "decode_pairs s = Some bs" "length bs = k" "to_lower_hex bs = s"
    "\<forall>b \<in> set bs. b < 256" using 1(1) [OF p k(2)] 1(3) by auto
  then show ?case using p k x y by (simp add: to_lower_hex_def)
qed (auto simp: to_lower_hex_def)

section \<open>What validation guarantees\<close>

lemma check_key_Inr:
  "check_key ids k = Inr ids' \<longleftrightarrow> ids' = ids @ [rk_key_id k] \<and> valid_engine_id (rk_key_id k)
     \<and> rk_key_id k \<notin> set ids \<and> rk_algorithm k = ''ed25519'' \<and> rk_purpose k = ''engine-manifest''
     \<and> is_lower_hex (rk_public_key k) 32 \<and> 0 < rk_valid_from k \<and> rk_valid_from k < rk_valid_until k"
  by (auto simp: check_key_def Let_def)

lemma check_key_fold:
  "res_fold check_key ids ks = Inr ids' \<Longrightarrow> distinct ids \<Longrightarrow>
   ids' = ids @ map rk_key_id ks \<and> distinct ids'
   \<and> (\<forall>k \<in> set ks. is_lower_hex (rk_public_key k) 32 \<and> rk_valid_from k < rk_valid_until k)"
proof (induction ks arbitrary: ids)
  case (Cons k ks)
  from Cons.prems(1) obtain t where "check_key ids k = Inr t" "res_fold check_key t ks = Inr ids'"
    by auto
  then have step: "check_key ids k = Inr (ids @ [rk_key_id k])"
    and rest: "res_fold check_key (ids @ [rk_key_id k]) ks = Inr ids'"
    by (simp_all add: check_key_Inr)
  have d: "distinct (ids @ [rk_key_id k])" and k: "is_lower_hex (rk_public_key k) 32"
    "rk_valid_from k < rk_valid_until k"
    using step Cons.prems(2) by (auto simp: check_key_Inr)
  have e: "ids @ map rk_key_id (k # ks) = (ids @ [rk_key_id k]) @ map rk_key_id ks" by simp
  from Cons.IH [OF rest d] k show ?case unfolding e by (metis set_ConsD)
qed simp

lemma validate_keyring_keys:
  assumes "validate_keyring g = Inr ()"
  shows "distinct (map rk_key_id (rg_keys g))"
    and "k \<in> set (rg_keys g) \<Longrightarrow> is_lower_hex (rk_public_key k) 32"
  using assms check_key_fold [of "[]" "rg_keys g"] by (auto simp: validate_keyring_def)

text \<open>The packaged files of a manifest, in the order they are checked.\<close>

definition license_paths :: "manifest_license \<Rightarrow> string list" where
  "license_paths l = notice_path l # (case source_offer_path l of None \<Rightarrow> [] | Some p \<Rightarrow> [p])"

definition supply_chain_paths :: "manifest_supply_chain option \<Rightarrow> string list" where
  "supply_chain_paths s = (case s of None \<Rightarrow> [] | Some c \<Rightarrow> [sbom_path c, sources_path c])"

definition pack_paths :: "engine_manifest \<Rightarrow> string list" where
  "pack_paths m =
     map exe_path (executables m) @ map run_path (runtime_files m)
     @ concat (map license_paths (licenses m)) @ supply_chain_paths (supply_chain m)"

definition safe_path :: "string \<Rightarrow> bool" where
  "safe_path p \<longleftrightarrow> p \<noteq> [] \<and> \<not> is_absolute p \<and> (\<forall>c \<in> set (path_components p). is_normal c)"

text \<open>What every step of the checks adds: safe paths that were not there yet.\<close>

definition added :: "path_component list list \<Rightarrow> string list \<Rightarrow> path_component list list \<Rightarrow> bool" where
  "added seen ps seen' \<longleftrightarrow>
     seen' = seen @ map path_components ps \<and> (distinct seen \<longrightarrow> distinct seen')
     \<and> (\<forall>p \<in> set ps. safe_path p)"

lemma added_trans: "added a ps b \<Longrightarrow> added b qs c \<Longrightarrow> added a (ps @ qs) c"
  by (auto simp: added_def simp del: distinct_append)

lemma added_Nil [simp]: "added a [] a"
  by (simp add: added_def)

lemma check_plain_added: "check_plain w seen p = Inr seen' \<Longrightarrow> added seen [p] seen'"
  by (auto simp: check_plain_def validate_relative_path_def add_path_def added_def safe_path_def
      split: if_splits)

lemma check_hashed_added: "check_hashed w seen x = Inr seen' \<Longrightarrow> added seen [fst x] seen'"
  by (auto simp: check_hashed_def validate_relative_path_def add_path_def added_def safe_path_def
      split: if_splits)

lemma check_executable_added:
  "check_executable st e = Inr st' \<Longrightarrow> added (snd st) [exe_path e] (snd st')"
  by (auto simp: check_executable_def validate_relative_path_def add_path_def added_def
      safe_path_def split: if_splits)

lemma check_license_added: "check_license seen l = Inr seen' \<Longrightarrow> added seen (license_paths l) seen'"
proof -
  assume c: "check_license seen l = Inr seen'"
  show ?thesis
  proof (cases "source_offer_path l")
    case None
    with c have "check_plain ''license notice'' seen (notice_path l) = Inr seen'"
      by (auto simp: check_license_def)
    with None show ?thesis by (simp add: license_paths_def check_plain_added)
  next
    case (Some p)
    with c obtain t where "check_plain ''license notice'' seen (notice_path l) = Inr t"
      "check_plain ''source offer'' t p = Inr seen'"
      by (auto simp: check_license_def)
    from added_trans [OF this [THEN check_plain_added]] Some show ?thesis
      by (simp add: license_paths_def)
  qed
qed

lemma check_supply_chain_added:
  "check_supply_chain seen s = Inr seen' \<Longrightarrow> added seen (supply_chain_paths s) seen'"
proof -
  assume c: "check_supply_chain seen s = Inr seen'"
  show ?thesis
  proof (cases s)
    case None
    with c show ?thesis by (simp add: check_supply_chain_def supply_chain_paths_def)
  next
    case (Some x)
    with c obtain t where "check_hashed ''engine SBOM'' seen (sbom_path x, sbom_sha256 x) = Inr t"
      "check_hashed ''engine source inventory'' t (sources_path x, sources_sha256 x) = Inr seen'"
      by (auto simp: check_supply_chain_def)
    from added_trans [OF this [THEN check_hashed_added]] Some show ?thesis
      by (simp add: supply_chain_paths_def)
  qed
qed

lemma fold_added:
  assumes "res_fold f st xs = Inr st'" and "\<And>st x st'. f st x = Inr st' \<Longrightarrow> added (g st) (h x) (g st')"
  shows "added (g st) (concat (map h xs)) (g st')"
  using assms(1)
proof (induction xs arbitrary: st)
  case (Cons x xs)
  then obtain t where t: "f st x = Inr t" "res_fold f t xs = Inr st'" by auto
  then show ?case using added_trans [OF assms(2) [OF t(1)] Cons.IH [OF t(2)]] by simp
qed simp

lemma validate_pack_files_added:
  assumes "validate_pack_files m = Inr seen"
  shows "added [] (pack_paths m) seen"
proof -
  from assms obtain st seen1 seen2 where
    e: "res_fold check_executable ([], []) (executables m) = Inr st"
    and r: "res_fold (check_hashed ''runtime file'') (snd st)
        (map (\<lambda>r. (run_path r, run_sha256 r)) (runtime_files m)) = Inr seen1"
    and l: "res_fold check_license seen1 (licenses m) = Inr seen2"
    and s: "check_supply_chain seen2 (supply_chain m) = Inr seen"
    by (auto simp: validate_pack_files_def)
  have "added [] (map exe_path (executables m)) (snd st)"
    using fold_added [OF e, of snd "\<lambda>e. [exe_path e]"] check_executable_added by simp
  moreover have "added (snd st) (map run_path (runtime_files m)) seen1"
    using fold_added [OF r, of id "\<lambda>x. [fst x]"] check_hashed_added by (simp add: o_def)
  moreover have "added seen1 (concat (map license_paths (licenses m))) seen2"
    using fold_added [OF l, of id license_paths] check_license_added by simp
  moreover have "added seen2 (supply_chain_paths (supply_chain m)) seen"
    by (rule check_supply_chain_added) (rule s)
  ultimately show ?thesis unfolding pack_paths_def by (blast intro: added_trans)
qed

text \<open>
  C9: a manifest that validates cannot reach outside its pack. Following any path it lists
  from the pack's directory ends below that directory, no two entries name the same file (as
  path components), and it has an executable, a license and HTTPS sources.
\<close>

theorem validated_manifest_stays_in_pack:
  assumes "validate_manifest m supported = Inr ()"
  shows "(\<forall>p \<in> set (pack_paths m). \<exists>xs. follow base (path_components p) = base @ xs)
    \<and> distinct (map path_components (pack_paths m))
    \<and> executables m \<noteq> [] \<and> licenses m \<noteq> []
    \<and> is_https_url (project_url (man_source m)) \<and> is_https_url (source_url (man_source m))"
proof -
  obtain seen where "validate_pack_files m = Inr seen"
    and prov: "validate_provenance_and_licenses m = Inr ()" and exe: "executables m \<noteq> []"
    using assms by (auto simp: validate_manifest_def)
  then have "distinct (map path_components (pack_paths m))" "\<forall>p \<in> set (pack_paths m). safe_path p"
    using validate_pack_files_added by (auto simp: added_def)
  moreover have "\<exists>xs. follow base (path_components p) = base @ xs" if "safe_path p" for p
    using that follow_normal unfolding safe_path_def by blast
  ultimately show ?thesis using prov exe by (simp add: validate_provenance_and_licenses_def)
qed

text \<open>
  An engine is certified only by a good signature and a finished review. If the rule
  answers certified for the verdict on a manifest, the review is complete, the manifest is
  signed under a key of the ring that is not revoked and whose window holds the time, and the
  signature bytes verify, under that key's 32 bytes, for exactly the manifest without its
  signature field.
\<close>

theorem certified_only_when_verified:
  assumes "derive_engine_certification (Some (verify_manifest_signature C m g now)) review = Certified"
  shows "review = ReviewComplete \<and> (\<exists>s k pk sv. man_signature m = Some s
    \<and> k \<in> set (rg_keys g) \<and> rk_key_id k = sig_key_id s
    \<and> sig_key_id s \<notin> kr_key_id ` set (rg_revocations g)
    \<and> rk_valid_from k \<le> now \<and> now \<le> rk_valid_until k
    \<and> rk_public_key k = to_lower_hex pk \<and> length pk = 32
    \<and> sig_value s = to_lower_hex sv \<and> length sv = 64
    \<and> verify_strict C pk (json_bytes C (m\<lparr>man_signature := None\<rparr>)) sv)"
proof -
  have rev: "review = ReviewComplete" and "\<exists>i. verify_manifest_signature C m g now = Trusted i"
    using assms by (auto simp: derive_engine_certification_def split: option.splits
        signature_trust.splits if_splits)
  then obtain s k pk sv where v: "man_signature m = Some s"
      "lookup_row rk_key_id (sig_key_id s) (rg_keys g) = Some k"
      "sig_key_id s \<notin> kr_key_id ` set (rg_revocations g)"
      "rk_valid_from k \<le> now" "now \<le> rk_valid_until k"
      "decode_lower_hex (rk_public_key k) 32 = Some pk" "decode_lower_hex (sig_value s) 64 = Some sv"
      "verify_strict C pk (canonical_manifest_bytes C m) sv"
    by (auto simp: verify_manifest_signature_def split: option.splits if_splits)
  have dec: "w = to_lower_hex bs \<and> length bs = n" if "decode_lower_hex w n = Some bs" for w n bs
  proof -
    from that have "length w = n * 2" "\<forall>c \<in> set w. is_lower_hex_byte c" "decode_pairs w = Some bs"
      by (auto simp: decode_lower_hex_def is_lower_hex_def split: if_splits)
    then show ?thesis using decode_pairs_total [of w n] by auto
  qed
  have "k \<in> set (rg_keys g)" "rk_key_id k = sig_key_id s" using lookup_row_SomeD [OF v(2)] by auto
  with rev v dec [OF v(6)] dec [OF v(7)] show ?thesis
    by (auto simp: canonical_manifest_bytes_def)
qed

text \<open>
  C10: what the release tooling signs, the application trusts. For a signature scheme in which
  a seed's signatures verify under its public key, a manifest signed with the seed of a key of
  a valid keyring is trusted at any time inside the key's window unless the key is revoked,
  and a revocation makes the same manifest revoked.
\<close>

theorem signed_manifest_is_trusted:
  assumes ring: "validate_keyring g = Inr ()" and key: "k \<in> set (rg_keys g)"
    and pub: "rk_public_key k = ed25519_public_key_hex C seed"
    and pub_bytes: "length (public_of C seed) = 32" "\<forall>b \<in> set (public_of C seed). b < 256"
    and sig_bytes: "\<And>msg. length (sign_with C seed msg) = 64 \<and> (\<forall>b \<in> set (sign_with C seed msg). b < 256)"
    and scheme: "valid_public C (public_of C seed)"
      "\<And>msg. verify_strict C (public_of C seed) msg (sign_with C seed msg)"
    and window: "rk_valid_from k \<le> now" "now \<le> rk_valid_until k"
  shows "verify_manifest_signature C
      (m\<lparr>man_signature := Some (sign_manifest C m (rk_key_id k) seed)\<rparr>) g now =
    (if rk_key_id k \<in> kr_key_id ` set (rg_revocations g) then Revoked (rk_key_id k)
     else Trusted (rk_key_id k))"
proof -
  have find: "lookup_row rk_key_id (rk_key_id k) (rg_keys g) = Some k"
    using validate_keyring_keys(1) [OF ring] key by (rule lookup_row_distinct)
  have pk: "decode_lower_hex (rk_public_key k) 32 = Some (public_of C seed)"
    using hex_roundtrip [OF pub_bytes(2,1)] by (simp add: pub ed25519_public_key_hex_def)
  have sv: "decode_lower_hex (to_lower_hex (sign_with C seed msg)) 64 = Some (sign_with C seed msg)" for msg
    using sig_bytes by (intro hex_roundtrip) auto
  have canon: "canonical_manifest_bytes C (m\<lparr>man_signature := Some s\<rparr>) = canonical_manifest_bytes C m" for s
    by (simp add: canonical_manifest_bytes_def)
  show ?thesis using find pk sv window scheme
    by (simp add: verify_manifest_signature_def sign_manifest_def canon)
qed

section \<open>Instances\<close>

definition demo_crypto :: crypto where
  "demo_crypto =
     \<lparr>json_bytes = (\<lambda>m. map byte_of (man_engine_id m)), valid_public = (\<lambda>pk. pk = replicate 32 5),
      verify_strict = (\<lambda>pk msg s. s = replicate 64 (sum_list msg mod 256)),
      sign_with = (\<lambda>seed msg. replicate 64 (sum_list msg mod 256)),
      public_of = (\<lambda>seed. replicate 32 5)\<rparr>"

definition demo_key :: release_key where
  "demo_key =
     \<lparr>rk_key_id = ''k1'', rk_algorithm = ''ed25519'', rk_purpose = ''engine-manifest'',
      rk_public_key = ed25519_public_key_hex demo_crypto [], rk_valid_from = 1, rk_valid_until = 9\<rparr>"

definition demo_ring :: release_keyring where
  "demo_ring = \<lparr>rg_schema_version = 1, rg_keys = [demo_key], rg_revocations = []\<rparr>"

definition demo_manifest :: engine_manifest where
  "demo_manifest =
     \<lparr>man_schema_version = 1, man_engine_id = ''ff'', man_version = ''1.0'', man_platform = Linux,
      man_architecture = X86_64, protocol_version = 1,
      anole_compat = \<lparr>minimum = ''0'', maximum_exclusive = ''1''\<rparr>,
      executables = [\<lparr>exe_name = ''ff'', exe_path = ''bin/ff'', exe_sha256 = replicate 64 (CHR ''a'')\<rparr>],
      runtime_files = [],
      man_source = \<lparr>project_url = ''https://a'', source_url = ''https://b'', source_revision = ''r'',
        src_build_configuration = ''c''\<rparr>,
      licenses = [\<lparr>spdx = ''MIT'', notice_path = ''LICENSE'', source_offer_path = None\<rparr>],
      supply_chain = None, capabilities = [], man_signature = None\<rparr>"

lemma demo_ring_valid: "validate_keyring demo_ring = Inr ()"
proof -
  have "is_lower_hex (ed25519_public_key_hex demo_crypto []) 32" by code_simp
  moreover have "valid_engine_id ''k1''" by code_simp
  ultimately show ?thesis
    by (simp add: validate_keyring_def demo_ring_def demo_key_def check_key_def Let_def
        release_keyring_schema_version_def)
qed

lemma demo_crypto_facts:
  "length (public_of demo_crypto []) = 32" "\<forall>b \<in> set (public_of demo_crypto []). b < 256"
  "length (sign_with demo_crypto [] msg) = 64 \<and> (\<forall>b \<in> set (sign_with demo_crypto [] msg). b < 256)"
  "valid_public demo_crypto (public_of demo_crypto [])"
  "verify_strict demo_crypto (public_of demo_crypto []) msg (sign_with demo_crypto [] msg)"
  by (simp_all add: demo_crypto_def)

lemma demo_key_facts:
  "demo_key \<in> set (rg_keys demo_ring)"
  "rk_public_key demo_key = ed25519_public_key_hex demo_crypto []"
  "rk_valid_from demo_key \<le> 5" "5 \<le> rk_valid_until demo_key"
  "rk_key_id demo_key = ''k1''" "rg_revocations demo_ring = []"
  by (simp_all add: demo_ring_def demo_key_def)

lemma signed_manifest_is_trusted_witness:
  "verify_manifest_signature demo_crypto
     (demo_manifest\<lparr>man_signature := Some (sign_manifest demo_crypto demo_manifest ''k1'' [])\<rparr>)
     demo_ring 5 = Trusted ''k1''"
proof -
  have "verify_manifest_signature demo_crypto (demo_manifest\<lparr>man_signature :=
      Some (sign_manifest demo_crypto demo_manifest (rk_key_id demo_key) [])\<rparr>) demo_ring 5
    = (if rk_key_id demo_key \<in> kr_key_id ` set (rg_revocations demo_ring)
       then Revoked (rk_key_id demo_key) else Trusted (rk_key_id demo_key))"
    by (rule signed_manifest_is_trusted [OF demo_ring_valid demo_key_facts(1,2)
        demo_crypto_facts demo_key_facts(3,4)])
  then show ?thesis by (simp add: demo_key_facts(5,6))
qed

lemma demo_verdict:
  "verify_manifest_signature demo_crypto
     (demo_manifest\<lparr>man_signature := Some (sign_manifest demo_crypto demo_manifest ''k1'' [])\<rparr>)
     demo_ring 5 = Trusted ''k1''"
proof -
  have pk: "decode_lower_hex (rk_public_key demo_key) 32 = Some (public_of demo_crypto [])"
    using hex_roundtrip [OF demo_crypto_facts(2,1)]
    by (simp add: demo_key_facts(2) ed25519_public_key_hex_def)
  have sv: "decode_lower_hex (to_lower_hex (sign_with demo_crypto [] msg)) 64
      = Some (sign_with demo_crypto [] msg)" for msg
    using demo_crypto_facts(3) [of msg] by (intro hex_roundtrip) auto
  have ring: "rg_keys demo_ring = [demo_key]" by (simp add: demo_ring_def)
  show ?thesis using pk sv demo_key_facts demo_crypto_facts
    by (simp add: verify_manifest_signature_def sign_manifest_def canonical_manifest_bytes_def
        lookup_row_Cons ring)
qed

lemma certified_only_when_verified_witness:
  "sig_key_id (sign_manifest demo_crypto demo_manifest ''k1'' [])
     \<notin> kr_key_id ` set (rg_revocations demo_ring)"
proof -
  have "derive_engine_certification (Some (verify_manifest_signature demo_crypto (demo_manifest
      \<lparr>man_signature := Some (sign_manifest demo_crypto demo_manifest ''k1'' [])\<rparr>) demo_ring 5))
      ReviewComplete = Certified"
    by (simp add: demo_verdict derive_engine_certification_def)
  from certified_only_when_verified [OF this] show ?thesis by auto
qed

lemma validated_manifest_stays_in_pack_witness:
  "\<exists>xs. follow [''packs''] (path_components ''bin/ff'') = [''packs''] @ xs"
proof -
  have texts: "trim ''ff'' = ''ff''" "trim ''0'' = ''0''" "trim ''1'' = ''1''" "trim ''r'' = ''r''"
    "trim ''c'' = ''c''" "trim ''MIT'' = ''MIT''" "valid_engine_id ''ff''" "valid_store_segment ''1.0''"
    by code_simp+
  have "validate_manifest demo_manifest 1 = Inr ()"
    by (simp add: validate_manifest_def demo_manifest_def texts engine_manifest_schema_version_def
        ensure_def validate_pack_files_def check_executable_def validate_relative_path_def
        is_absolute_def starts_with_def path_components_def is_slash_def validate_sha256_def
        is_ascii_hexdigit_def hex_digit_def byte_of_def Let_def add_path_def check_license_def
        check_plain_def check_supply_chain_def validate_provenance_and_licenses_def
        is_https_url_def validate_capabilities_def validate_signature_shape_def)
  from validated_manifest_stays_in_pack [OF this, of "[''packs'']"]
  show ?thesis by (simp add: pack_paths_def demo_manifest_def)
qed

end
