(* ===== verification/Capabilities.thy ===== *)
theory Capabilities
  imports Rust_Paths Domain "HOL-Library.List_Lexorder" "HOL-Library.Char_ord"
begin

text \<open>
  \<open>crates/core/src/capabilities.rs\<close>, the route table: which targets an input format has,
  and which engines a route needs. The availability of routes is in \<open>Routes\<close>, which needs
  the chains of \<open>Chain\<close>. A \<open>BTreeSet<&str>\<close> is the sorted list of its members.
\<close>

section \<open>Names of formats\<close>

definition known_targets :: "string list" where
  "known_targets =
     [''jpg'', ''png'', ''webp'', ''avif'', ''tiff'', ''bmp'', ''mp4'', ''mp3'', ''m4a'', ''wav'',
      ''gif'', ''pdf'', ''docx'', ''epub'', ''json'', ''csv'', ''yaml'', ''xml'', ''zip'',
      ''tar.gz'', ''md'', ''txt'', ''odt'', ''7z'', ''html'']"

definition canonical_name :: "string \<Rightarrow> string" where
  "canonical_name v =
     (if v = ''jpeg'' then ''jpg''
      else if v = ''markdown'' then ''md''
      else if v = ''yml'' then ''yaml''
      else if v \<in> {''tgz'', ''taz''} then ''tar.gz''
      else v)"

definition normalize_target :: "string \<Rightarrow> string" where
  "normalize_target t = canonical_name (to_ascii_lowercase (trim_dots (trim t)))"

definition input_extension :: "string \<Rightarrow> string option" where
  "input_extension path =
     (case file_name path of
        None \<Rightarrow> None
      | Some f \<Rightarrow>
          let name = to_ascii_lowercase f in
          if ends_with name ''.tar.gz'' \<or> ends_with name ''.tgz'' \<or> ends_with name ''.taz''
          then Some ''tar.gz''
          else map_option to_ascii_lowercase (extension path))"

section \<open>The targets of an input format\<close>

definition raw_photo_formats :: "string list" where
  "raw_photo_formats =
     [''psd'', ''dng'', ''cr2'', ''cr3'', ''arw'', ''nef'', ''orf'', ''rw2'', ''pef'', ''raf'']"

definition target_values :: "string \<Rightarrow> string list" where
  "target_values i =
     (if i \<in> set [''csv'', ''json'', ''yaml'', ''yml'', ''xml'']
      then [''csv'', ''json'', ''yaml'', ''xml'']
      else if i = ''pdf'' then [''jpg'', ''png'', ''md'']
      else if i \<in> set [''heic'', ''heif''] then [''jpg'', ''png'']
      else if i = ''docx'' then [''pdf'', ''txt'', ''md'', ''html'', ''epub'', ''odt'']
      else if i = ''odt'' then [''pdf'', ''docx'']
      else if i = ''xlsx'' then [''pdf'', ''csv'']
      else if i \<in> set [''pptx'', ''ods'', ''odp'', ''rtf'', ''svg''] then [''pdf'']
      else if i \<in> set [''html'', ''htm''] then [''pdf'', ''docx'', ''epub'', ''md'']
      else if i \<in> set [''md'', ''markdown'', ''txt'', ''text''] then [''pdf'', ''docx'', ''epub'']
      else if i = ''zip'' then [''tar.gz'', ''7z'']
      else if i \<in> set [''eml'', ''msg''] then [''txt'', ''html'', ''md'']
      else if i = ''mbox'' then [''txt'', ''html'', ''pdf'', ''md'']
      else if i = ''tar.gz'' then [''zip'', ''7z'']
      else if i = ''7z'' then [''zip'', ''tar.gz'']
      else if i \<in> set [''png'', ''jpg'', ''jpeg'']
      then [''webp'', ''avif'', ''tiff'', ''bmp'', ''pdf'', ''txt'', ''md'']
      else if i \<in> set [''tiff'', ''tif'', ''bmp'']
      then [''webp'', ''avif'', ''png'', ''pdf'', ''txt'', ''md'']
      else if i \<in> set raw_photo_formats then [''png'', ''jpg'', ''tiff'']
      else if i \<in> set [''mov'', ''mkv'', ''avi'', ''webm'', ''mp4''] then [''mp4'', ''gif'', ''mp3'']
      else if i \<in> set [''wav'', ''flac'', ''aac'', ''m4a'', ''ogg'', ''opus'', ''mp3'']
      then [''m4a'', ''mp3'', ''wav'']
      else [])"

definition unwrap_or_default :: "string option \<Rightarrow> string" where
  "unwrap_or_default x = (case x of None \<Rightarrow> [] | Some v \<Rightarrow> v)"

definition supported_targets :: "string option \<Rightarrow> string list" where
  "supported_targets input = sort (remdups (target_values (unwrap_or_default input)))"

section \<open>The engines of a route\<close>

definition browser_print_lane :: "string list" where
  "browser_print_lane = [''msedge'', ''pdfinfo'', ''pdftoppm'', ''pdftotext'', ''pdffonts'']"

definition text_inputs :: "string list" where
  "text_inputs = [''md'', ''markdown'', ''txt'', ''text'']"

definition image_inputs :: "string list" where
  "image_inputs = [''png'', ''jpg'', ''jpeg'', ''tiff'', ''tif'', ''bmp'']"

definition required_engines :: "string option \<Rightarrow> string \<Rightarrow> string list" where
  "required_engines input target =
     (let t = normalize_target target; i = unwrap_or_default input in
      if i \<in> set [''csv'', ''json'', ''yaml'', ''yml'', ''xml'']
         \<and> t \<in> set [''csv'', ''json'', ''yaml'', ''xml''] then []
      else if i \<in> set [''zip'', ''tar.gz'', ''7z''] \<and> t \<in> set [''zip'', ''tar.gz'', ''7z''] then []
      else if i \<in> set [''eml'', ''msg''] \<and> t \<in> set [''txt'', ''html'', ''md''] then []
      else if i = ''mbox'' \<and> t \<in> set [''txt'', ''html'', ''md''] then []
      else if i = ''mbox'' \<and> t = ''pdf''
      then [''msedge'', ''pdfinfo'', ''pdftoppm'', ''pdftotext'', ''pdffonts'', ''qpdf'']
      else if i = ''pdf'' \<and> t \<in> set [''jpg'', ''png''] then [''pdfinfo'', ''pdftoppm'', ''ffprobe'']
      else if i = ''pdf'' \<and> t = ''md'' then [''pdftotext'']
      else if i = ''docx'' \<and> t \<in> set [''txt'', ''md'', ''html'', ''epub''] then [''pandoc'']
      else if i = ''xlsx'' \<and> t = ''csv'' then []
      else if i \<in> set [''html'', ''htm''] \<and> t = ''md'' then [''pandoc'']
      else if (i = ''docx'' \<and> t = ''odt'') \<or> (i = ''odt'' \<and> t = ''docx'') then [''soffice'']
      else if i \<in> set [''docx'', ''pptx'', ''xlsx'', ''odt'', ''ods'', ''odp'', ''rtf''] \<and> t = ''pdf''
      then [''soffice'', ''pdfinfo'', ''pdftoppm'']
      else if i \<in> set [''md'', ''markdown'', ''html'', ''htm'', ''txt'', ''text'']
              \<and> t \<in> set [''docx'', ''epub''] then [''pandoc'']
      else if i \<in> set [''html'', ''htm'', ''svg''] \<and> t = ''pdf'' then browser_print_lane
      else if i \<in> set text_inputs \<and> t = ''pdf''
      then [''pandoc'', ''soffice'', ''pdfinfo'', ''pdftoppm'']
      else if i \<in> set image_inputs \<and> t = ''pdf'' then [''soffice'', ''pdfinfo'', ''pdftoppm'']
      else if i \<in> set [''heic'', ''heif''] \<and> t \<in> set [''jpg'', ''png''] then [''ffprobe'', ''heif-dec'']
      else if i \<in> set raw_photo_formats \<and> t \<in> set [''jpg'', ''png'', ''tiff'']
      then [''magick'', ''ffprobe'']
      else if i \<in> set image_inputs \<and> t \<in> set [''txt'', ''md''] then [''ffprobe'', ''tesseract'']
      else [''ffprobe'', ''ffmpeg''])"

definition route_engine_lanes :: "string option \<Rightarrow> string \<Rightarrow> string list list" where
  "route_engine_lanes input target =
     (let t = normalize_target target; i = unwrap_or_default input in
      if i = ''svg'' \<and> t = ''pdf'' then [browser_print_lane]
      else if i \<in> set [''html'', ''htm''] \<and> t = ''pdf''
      then [browser_print_lane, [''pandoc'', ''soffice'', ''pdfinfo'', ''pdftoppm'']]
      else [required_engines (Some i) t])"

section \<open>Facts about the table\<close>

lemma set_supported_targets: "set (supported_targets i) = set (target_values (unwrap_or_default i))"
  by (simp add: supported_targets_def)

lemma supported_targets_sorted: "sorted (supported_targets i) \<and> distinct (supported_targets i)"
  by (simp add: supported_targets_def)

text \<open>Every advertised target is one of the known ones, in its canonical spelling.\<close>

lemma known_targets_canonical: "\<forall>t \<in> set known_targets. normalize_target t = t"
  by code_simp

lemma target_values_known: "set (target_values i) \<subseteq> set known_targets"
  unfolding target_values_def by (auto simp: known_targets_def)

lemma supported_target_known: "t \<in> set (supported_targets i) \<Longrightarrow> t \<in> set known_targets"
  using target_values_known by (auto simp: set_supported_targets)

lemma supported_target_canonical: "t \<in> set (supported_targets i) \<Longrightarrow> normalize_target t = t"
  using supported_target_known known_targets_canonical by blast

lemma known_target_not_empty: "[] \<notin> set known_targets"
  by (simp add: known_targets_def)

lemma normalize_target_idem_known:
  "t \<in> set known_targets \<Longrightarrow> normalize_target (normalize_target t) = normalize_target t"
  using known_targets_canonical by simp

end
