(* ===== verification/Chain.thy ===== *)
theory Chain
  imports Capabilities
begin

text \<open>
  \<open>crates/core/src/chain.rs\<close>: when no direct route exists, a breadth-first search finds a
  route through one intermediate format. The search is the loop on the queue of paths that the
  code has; its result is shown to be the first whitelisted neighbour that reaches the target.
\<close>

section \<open>The search\<close>

definition max_chain_depth :: nat where
  "max_chain_depth = 2"

definition intermediate_whitelist :: "string list" where
  "intermediate_whitelist =
     [''html'', ''png'', ''jpg'', ''tiff'', ''pdf'', ''docx'', ''txt'', ''json'', ''csv'', ''yaml'',
      ''xml'', ''wav'']"

record chain_hop =
  hop_from :: string
  hop_to :: string
  hop_engines :: "string list"

type_synonym conversion_chain = "chain_hop list"

definition neighbors :: "string \<Rightarrow> string list" where
  "neighbors fmt = map normalize_target (supported_targets (Some fmt))"

definition hop_between :: "string \<Rightarrow> string \<Rightarrow> chain_hop" where
  "hop_between a b = \<lparr>hop_from = a, hop_to = b, hop_engines = required_engines (Some a) b\<rparr>"

fun to_hops :: "string list \<Rightarrow> conversion_chain" where
  "to_hops (a # b # path) = hop_between a b # to_hops (b # path)"
| "to_hops _ = []"

text \<open>The last node of a path, the empty text for an empty path (\<open>unwrap_or_default\<close>).\<close>

definition node_of :: "string list \<Rightarrow> string" where
  "node_of path = (if path = [] then [] else last path)"

text \<open>
  The inner loop over the neighbours of a node: \<open>Inl\<close> is the early return with the complete
  path, \<open>Inr\<close> the paths pushed to the back of the queue.
\<close>

fun expand :: "string \<Rightarrow> string list \<Rightarrow> string list \<Rightarrow> string list + string list list" where
  "expand target path [] = Inr []"
| "expand target path (n # ns) =
     (if n = node_of path \<or> n = [] \<or> n \<in> set path then expand target path ns
      else let extended = path @ [n] in
        if n = target then Inl extended
        else res_bind (expand target path ns) (\<lambda>pushed.
               Inr (if n \<in> set intermediate_whitelist \<and> length extended \<le> max_chain_depth
                    then extended # pushed else pushed)))"

text \<open>What a queue may still cost: a path of one node is expanded, a longer one pushes nothing.\<close>

definition path_cost :: "string list \<Rightarrow> nat" where
  "path_cost path = (if length path \<le> 1 then Suc (length (neighbors (node_of path))) else 1)"

lemma expand_pushed:
  "expand target path ns = Inr pushed \<Longrightarrow>
   length pushed \<le> length ns \<and> (\<forall>p \<in> set pushed. length p = Suc (length path))
   \<and> (2 \<le> length path \<longrightarrow> pushed = [])"
  by (induction ns arbitrary: pushed)
     (auto simp: Let_def max_chain_depth_def split: if_splits)

lemma neighbors_Nil: "neighbors [] = []"
  by (simp add: neighbors_def supported_targets_def unwrap_or_default_def target_values_def
      raw_photo_formats_def)

lemma expand_cost:
  assumes "expand target path (neighbors (node_of path)) = Inr pushed"
  shows "sum_list (map path_cost pushed) < path_cost path"
proof (cases "path = []")
  case True
  with assms show ?thesis by (simp add: node_of_def neighbors_Nil path_cost_def)
next
  case False
  note p = expand_pushed [OF assms]
  show ?thesis
  proof (cases "2 \<le> length path")
    case True
    with p show ?thesis by (simp add: path_cost_def)
  next
    case short: False
    have "length path \<noteq> 0" using \<open>path \<noteq> []\<close> by simp
    with short have "length path = 1" by linarith
    then have "length p = 2" if "p \<in> set pushed" for p
      using p that by simp
    then have cost: "map path_cost pushed = map (\<lambda>_. 1) pushed" by (simp add: path_cost_def)
    have "sum_list (map path_cost pushed) = length pushed"
      unfolding cost by (simp add: sum_list_triv)
    with p short show ?thesis by (simp add: path_cost_def)
  qed
qed

function search_loop :: "string \<Rightarrow> string list list \<Rightarrow> string list option" where
  "search_loop target [] = None"
| "search_loop target (path # queue) =
     (case expand target path (neighbors (node_of path)) of
        Inl found \<Rightarrow> Some found
      | Inr pushed \<Rightarrow> search_loop target (queue @ pushed))"
  by pat_completeness auto
termination
  by (relation "measure (\<lambda>(t, q). sum_list (map path_cost q))") (auto dest: expand_cost)

definition find_conversion_chain :: "string \<Rightarrow> string \<Rightarrow> conversion_chain option" where
  "find_conversion_chain input target =
     (let t = normalize_target target in
      case input_extension input of
        None \<Rightarrow> None
      | Some ext \<Rightarrow>
          let start = normalize_target ext in
          if start = t then None
          else if t \<in> set (neighbors start) then None
          else map_option to_hops (search_loop t [[start]]))"

section \<open>The search finds the first relay\<close>

lemma neighbors_eq: "neighbors f = supported_targets (Some f)"
  unfolding neighbors_def
  by (rule map_idI) (rule supported_target_canonical)

lemma neighbor_not_empty: "n \<in> set (neighbors f) \<Longrightarrow> n \<noteq> []"
  using supported_target_known known_target_not_empty by (auto simp: neighbors_eq)

lemma expand_found:
  assumes "target \<in> set ns" "target \<notin> set path" "target \<noteq> []" "path \<noteq> []"
  shows "expand target path ns = Inl (path @ [target])"
  using assms
proof (induction ns)
  case (Cons n ns)
  have "node_of path \<in> set path" using Cons.prems by (simp add: node_of_def)
  with Cons show ?case by (cases "n = target") (auto simp: Let_def)
qed simp

lemma expand_not_found:
  assumes "target \<notin> set ns" and "[] \<notin> set ns" and "path \<noteq> []"
  shows "expand target path ns =
    Inr (if length path < max_chain_depth
         then map (\<lambda>n. path @ [n])
                (filter (\<lambda>n. n \<notin> set path \<and> n \<in> set intermediate_whitelist) ns)
         else [])"
  using assms
proof (induction ns)
  case (Cons n ns)
  have "node_of path \<in> set path" using Cons.prems by (simp add: node_of_def)
  with Cons show ?case by (auto simp: Let_def)
qed simp

text \<open>The second level: a queue of two-node paths yields the first whose node reaches the target.\<close>

lemma search_second_level:
  assumes "\<forall>n \<in> set ns. n \<noteq> start" "target \<noteq> start" "target \<notin> set ns" "target \<noteq> []"
  shows "search_loop target (map (\<lambda>n. [start, n]) ns) =
    map_option (\<lambda>m. [start, m, target]) (find (\<lambda>m. target \<in> set (neighbors m)) ns)"
  using assms
proof (induction ns)
  case (Cons n ns)
  have e: "[] \<notin> set (neighbors n)" using neighbor_not_empty by blast
  show ?case
  proof (cases "target \<in> set (neighbors n)")
    case True
    with Cons.prems expand_found [of target "neighbors n" "[start, n]"] show ?thesis
      by (auto simp: node_of_def)
  next
    case False
    with expand_not_found [OF False e, of "[start, n]"] Cons show ?thesis
      by (simp add: node_of_def max_chain_depth_def)
  qed
qed simp

definition first_relay :: "string \<Rightarrow> string \<Rightarrow> string option" where
  "first_relay start target =
     find (\<lambda>m. m \<noteq> start \<and> m \<in> set intermediate_whitelist \<and> target \<in> set (neighbors m))
       (neighbors start)"

lemma find_filter: "find P (filter Q xs) = find (\<lambda>x. Q x \<and> P x) xs"
  by (induction xs) auto

lemma search_loop_first_relay:
  assumes "target \<noteq> start" "target \<notin> set (neighbors start)" "target \<noteq> []"
  shows "search_loop target [[start]] =
    map_option (\<lambda>m. [start, m, target]) (first_relay start target)"
proof -
  define ns where
    "ns = filter (\<lambda>n. n \<notin> set [start] \<and> n \<in> set intermediate_whitelist) (neighbors start)"
  have e: "[] \<notin> set (neighbors start)" using neighbor_not_empty by blast
  have "search_loop target [[start]] = search_loop target (map (\<lambda>n. [start, n]) ns)"
    using expand_not_found [OF assms(2) e, of "[start]"]
    by (simp add: node_of_def max_chain_depth_def ns_def)
  also have "\<dots> = map_option (\<lambda>m. [start, m, target]) (find (\<lambda>m. target \<in> set (neighbors m)) ns)"
    using assms by (intro search_second_level) (auto simp: ns_def)
  finally show ?thesis by (simp add: ns_def first_relay_def find_filter conj_assoc)
qed

lemma search_loop_empty_target: "search_loop [] [[start]] = None"
proof -
  have none: "expand [] path ns \<noteq> Inl found" for path ns found
    by (induction ns) (auto simp: Let_def res_bind_Inl_iff)
  have "search_loop t q = None" if "t = []" for t q
    using that by (induction t q rule: search_loop.induct) (auto simp: none split: sum.splits)
  then show ?thesis by (simp del: search_loop.simps)
qed

lemma first_relay_props:
  assumes "first_relay start target = Some m" and "target \<notin> set (neighbors start)"
  shows "m \<noteq> start" "m \<noteq> target" "m \<in> set intermediate_whitelist"
    "m \<in> set (supported_targets (Some start))" "target \<in> set (supported_targets (Some m))"
  using assms by (auto simp: first_relay_def find_Some_iff neighbors_eq)

text \<open>
  C11: the search for a chain is exact. For every input and target, the loop on the queue
  returns what this rule says: no chain when the input has no extension, is already in the
  target format or has a direct route; otherwise the two hops through the first target of the
  input's format, in text order, that is a whitelisted intermediate other than the format
  itself and has the wanted target among its own targets, and no chain if there is none.
\<close>

theorem chain_search_is_first_relay:
  "find_conversion_chain input target =
    (case input_extension input of
       None \<Rightarrow> None
     | Some ext \<Rightarrow>
         let start = normalize_target ext; t = normalize_target target in
         if start = t \<or> t \<in> set (supported_targets (Some start)) then None
         else map_option (\<lambda>m. [hop_between start m, hop_between m t]) (first_relay start t))"
proof (cases "input_extension input")
  case None
  then show ?thesis by (simp add: find_conversion_chain_def)
next
  case (Some ext)
  define start where "start = normalize_target ext"
  define t where "t = normalize_target target"
  have empty: "first_relay start [] = None"
    using neighbor_not_empty by (auto simp: first_relay_def find_None_iff)
  have "search_loop t [[start]] = map_option (\<lambda>m. [start, m, t]) (first_relay start t)"
    if "start \<noteq> t" "t \<notin> set (neighbors start)"
    using that search_loop_first_relay [of t start] empty search_loop_empty_target [of start]
    by (cases "t = []") (auto simp del: search_loop.simps)
  then show ?thesis using Some
    by (auto simp: find_conversion_chain_def Let_def start_def t_def neighbors_eq
        option.map_comp comp_def)
qed

end
