(* ===== verification/Chain_Run.thy ===== *)
theory Chain_Run
  imports Chain "HOL-Library.Monad_Syntax"
begin

text \<open>
  \<open>crates/core/src/chain.rs\<close>, the rest: the chain a queued plan carries in its constraints,
  and the run of a chain segment by segment. The JSON of a \<open>PlanRequest\<close> is the one its
  derived \<open>Serialize\<close> and \<open>Deserialize\<close> have (an object; the array form of a struct, which
  no writer produces, is refused). The file system and the preparation and execution of one
  segment are parameters on an explicit world.
\<close>

section \<open>Ordered maps\<close>

text \<open>\<open>BTreeMap::insert\<close> on the list of the entries in key order.\<close>

fun btree_insert :: "'k::linorder \<Rightarrow> 'v \<Rightarrow> ('k \<times> 'v) list \<Rightarrow> ('k \<times> 'v) list" where
  "btree_insert k v [] = [(k, v)]"
| "btree_insert k v ((k', v') # m) =
     (if k < k' then (k, v) # (k', v') # m
      else if k = k' then (k, v) # m
      else (k', v') # btree_insert k v m)"

lemma map_of_btree_insert: "map_of (btree_insert k v m) = (map_of m)(k \<mapsto> v)"
  by (induction k v m rule: btree_insert.induct) (auto simp: fun_eq_iff)

section \<open>The JSON of a request\<close>

definition json_nat :: "nat \<Rightarrow> json" where
  "json_nat n = JInt (int n)"

definition json_opt :: "('a \<Rightarrow> json) \<Rightarrow> 'a option \<Rightarrow> json" where
  "json_opt f x = (case x of None \<Rightarrow> JNull | Some y \<Rightarrow> f y)"

definition as_unsigned :: "nat \<Rightarrow> json \<Rightarrow> nat option" where
  "as_unsigned w j =
     (case j of JInt i \<Rightarrow> if 0 \<le> i \<and> i < 2 ^ w then Some (nat i) else None | _ \<Rightarrow> None)"

definition as_signed :: "nat \<Rightarrow> json \<Rightarrow> int option" where
  "as_signed w j =
     (case j of JInt i \<Rightarrow> if - (2 ^ (w - 1)) \<le> i \<and> i < 2 ^ (w - 1) then Some i else None
      | _ \<Rightarrow> None)"

definition as_strings :: "json \<Rightarrow> string list option" where
  "as_strings j =
     Option.bind (as_array j)
       (\<lambda>xs. if \<forall>x \<in> set xs. as_str x \<noteq> None then Some (map (\<lambda>x. the (as_str x)) xs) else None)"

text \<open>A field with no default, a field with \<open>serde(default)\<close>, and an optional field.\<close>

definition required_field :: "(json \<Rightarrow> 'a option) \<Rightarrow> string \<Rightarrow> (string \<times> json) list \<Rightarrow> 'a option" where
  "required_field dec k m = Option.bind (map_of m k) dec"

definition default_field ::
    "(json \<Rightarrow> 'a option) \<Rightarrow> 'a \<Rightarrow> string \<Rightarrow> (string \<times> json) list \<Rightarrow> 'a option" where
  "default_field dec d k m = (case map_of m k of None \<Rightarrow> Some d | Some v \<Rightarrow> dec v)"

definition optional_field ::
    "(json \<Rightarrow> 'a option) \<Rightarrow> string \<Rightarrow> (string \<times> json) list \<Rightarrow> 'a option option" where
  "optional_field dec k m =
     (case map_of m k of
        None \<Rightarrow> Some None
      | Some v \<Rightarrow> if v = JNull then Some None else map_option Some (dec v))"

text \<open>\<open>serde_json::Map\<close> keeps its keys in order.\<close>

definition request_fields :: "plan_request \<Rightarrow> (string \<times> json) list" where
  "request_fields r =
     [(''allow_lossy_data'', JBool (allow_lossy_data r)),
      (''audio_bitrate_kbps'', json_opt json_nat (audio_bitrate_kbps r)),
      (''audio_stream_index'', json_opt json_nat (audio_stream_index r)),
      (''color_mode'', json_opt JStr (req_color_mode r)),
      (''dpi'', json_opt json_nat (req_dpi r)),
      (''duration_millis'', json_opt json_nat (duration_millis r)),
      (''frames_per_second'', json_opt json_nat (frames_per_second r)),
      (''inputs'', JArr (map JStr (req_inputs r))),
      (''loop_count'', json_opt json_nat (loop_count r)),
      (''metadata_author'', json_opt JStr (metadata_author r)),
      (''metadata_title'', json_opt JStr (metadata_title r)),
      (''ocr_language'', json_opt JStr (ocr_language r)),
      (''operation'', json_opt JStr (req_operation r)),
      (''output_path'', json_opt JStr (req_output_path r)),
      (''page_range'', json_opt JStr (page_range r)),
      (''password'', json_opt JStr (password r)),
      (''preserve_all_streams'', JBool (preserve_all_streams r)),
      (''quality'', json_opt json_nat (req_quality r)),
      (''rotate_angle'', json_opt json_nat (rotate_angle r)),
      (''start_millis'', json_opt json_nat (start_millis r)),
      (''target_format'', JStr (req_target_format r)),
      (''target_size_bytes'', json_opt json_nat (target_size_bytes r)),
      (''video_crf'', json_opt json_nat (video_crf r)),
      (''video_preset'', json_opt JStr (video_preset r)),
      (''watermark_angle'', json_opt JInt (watermark_angle r)),
      (''watermark_text'', json_opt JStr (watermark_text r)),
      (''width'', json_opt json_nat (req_width r))]"

definition request_to_json :: "plan_request \<Rightarrow> json" where
  "request_to_json r = JObj (request_fields r)"

definition request_of_fields :: "(string \<times> json) list \<Rightarrow> plan_request option" where
  "request_of_fields m = do {
     target \<leftarrow> required_field as_str ''target_format'' m;
     out \<leftarrow> optional_field as_str ''output_path'' m;
     pres \<leftarrow> required_field as_bool ''preserve_all_streams'' m;
     asi \<leftarrow> optional_field (as_unsigned 32) ''audio_stream_index'' m;
     sm \<leftarrow> optional_field (as_unsigned 64) ''start_millis'' m;
     dm \<leftarrow> optional_field (as_unsigned 64) ''duration_millis'' m;
     wd \<leftarrow> optional_field (as_unsigned 32) ''width'' m;
     q \<leftarrow> optional_field (as_unsigned 8) ''quality'' m;
     dpi \<leftarrow> optional_field (as_unsigned 16) ''dpi'' m;
     cm \<leftarrow> optional_field as_str ''color_mode'' m;
     fps \<leftarrow> optional_field (as_unsigned 32) ''frames_per_second'' m;
     lc \<leftarrow> optional_field (as_unsigned 16) ''loop_count'' m;
     crf \<leftarrow> optional_field (as_unsigned 8) ''video_crf'' m;
     vp \<leftarrow> optional_field as_str ''video_preset'' m;
     ab \<leftarrow> optional_field (as_unsigned 32) ''audio_bitrate_kbps'' m;
     opr \<leftarrow> optional_field as_str ''operation'' m;
     ins \<leftarrow> default_field as_strings [] ''inputs'' m;
     pr \<leftarrow> optional_field as_str ''page_range'' m;
     ald \<leftarrow> default_field as_bool False ''allow_lossy_data'' m;
     ra \<leftarrow> optional_field (as_unsigned 16) ''rotate_angle'' m;
     pw \<leftarrow> optional_field as_str ''password'' m;
     ol \<leftarrow> optional_field as_str ''ocr_language'' m;
     wt \<leftarrow> optional_field as_str ''watermark_text'' m;
     wa \<leftarrow> optional_field (as_signed 16) ''watermark_angle'' m;
     ts \<leftarrow> optional_field (as_unsigned 64) ''target_size_bytes'' m;
     mt \<leftarrow> optional_field as_str ''metadata_title'' m;
     ma \<leftarrow> optional_field as_str ''metadata_author'' m;
     Some \<lparr>req_target_format = target, req_output_path = out, preserve_all_streams = pres,
       audio_stream_index = asi, start_millis = sm, duration_millis = dm, req_width = wd,
       req_quality = q, req_dpi = dpi, req_color_mode = cm, frames_per_second = fps,
       loop_count = lc, video_crf = crf, video_preset = vp, audio_bitrate_kbps = ab,
       req_operation = opr, req_inputs = ins, page_range = pr, allow_lossy_data = ald,
       rotate_angle = ra, password = pw, ocr_language = ol, watermark_text = wt,
       watermark_angle = wa, target_size_bytes = ts, metadata_title = mt,
       metadata_author = ma\<rparr> }"

definition request_of_json :: "json \<Rightarrow> plan_request option" where
  "request_of_json j = (case j of JObj m \<Rightarrow> request_of_fields m | _ \<Rightarrow> None)"

text \<open>The widths of the integer fields.\<close>

definition fits :: "nat \<Rightarrow> nat option \<Rightarrow> bool" where
  "fits w x = (case x of None \<Rightarrow> True | Some n \<Rightarrow> n < 2 ^ w)"

definition request_in_range :: "plan_request \<Rightarrow> bool" where
  "request_in_range r \<longleftrightarrow>
     fits 32 (audio_stream_index r) \<and> fits 64 (start_millis r) \<and> fits 64 (duration_millis r)
     \<and> fits 32 (req_width r) \<and> fits 8 (req_quality r) \<and> fits 16 (req_dpi r)
     \<and> fits 32 (frames_per_second r) \<and> fits 16 (loop_count r) \<and> fits 8 (video_crf r)
     \<and> fits 32 (audio_bitrate_kbps r) \<and> fits 16 (rotate_angle r) \<and> fits 64 (target_size_bytes r)
     \<and> (case watermark_angle r of None \<Rightarrow> True | Some i \<Rightarrow> - (2 ^ 15) \<le> i \<and> i < 2 ^ 15)"

lemma decode_opt:
  "map_of m k = Some (json_opt JStr x) \<Longrightarrow> optional_field as_str k m = Some x"
  "map_of m k = Some (json_opt json_nat y) \<Longrightarrow> fits w y \<Longrightarrow>
     optional_field (as_unsigned w) k m = Some y"
  by (auto simp: optional_field_def json_opt_def json_nat_def as_unsigned_def fits_def
      split: option.splits)

lemma as_strings_JStr: "as_strings (JArr (map JStr xs)) = Some xs"
  by (simp add: as_strings_def comp_def)

lemma request_json_roundtrip:
  assumes "request_in_range r"
  shows "request_of_json (request_to_json r) = Some r"
proof -
  define m where "m = request_fields r"
  note look = m_def request_fields_def
  have strs: "optional_field as_str ''output_path'' m = Some (req_output_path r)"
    "optional_field as_str ''color_mode'' m = Some (req_color_mode r)"
    "optional_field as_str ''video_preset'' m = Some (video_preset r)"
    "optional_field as_str ''operation'' m = Some (req_operation r)"
    "optional_field as_str ''page_range'' m = Some (page_range r)"
    "optional_field as_str ''password'' m = Some (password r)"
    "optional_field as_str ''ocr_language'' m = Some (ocr_language r)"
    "optional_field as_str ''watermark_text'' m = Some (watermark_text r)"
    "optional_field as_str ''metadata_title'' m = Some (metadata_title r)"
    "optional_field as_str ''metadata_author'' m = Some (metadata_author r)"
    by (rule decode_opt(1), simp add: look)+
  have nums: "optional_field (as_unsigned 32) ''audio_stream_index'' m = Some (audio_stream_index r)"
    "optional_field (as_unsigned 64) ''start_millis'' m = Some (start_millis r)"
    "optional_field (as_unsigned 64) ''duration_millis'' m = Some (duration_millis r)"
    "optional_field (as_unsigned 32) ''width'' m = Some (req_width r)"
    "optional_field (as_unsigned 8) ''quality'' m = Some (req_quality r)"
    "optional_field (as_unsigned 16) ''dpi'' m = Some (req_dpi r)"
    "optional_field (as_unsigned 32) ''frames_per_second'' m = Some (frames_per_second r)"
    "optional_field (as_unsigned 16) ''loop_count'' m = Some (loop_count r)"
    "optional_field (as_unsigned 8) ''video_crf'' m = Some (video_crf r)"
    "optional_field (as_unsigned 32) ''audio_bitrate_kbps'' m = Some (audio_bitrate_kbps r)"
    "optional_field (as_unsigned 16) ''rotate_angle'' m = Some (rotate_angle r)"
    "optional_field (as_unsigned 64) ''target_size_bytes'' m = Some (target_size_bytes r)"
    using assms by (intro decode_opt(2); simp add: look request_in_range_def)+
  have angle: "optional_field (as_signed 16) ''watermark_angle'' m = Some (watermark_angle r)"
    using assms by (auto simp: look request_in_range_def optional_field_def json_opt_def
        as_signed_def split: option.splits)
  have rest: "required_field as_str ''target_format'' m = Some (req_target_format r)"
    "required_field as_bool ''preserve_all_streams'' m = Some (preserve_all_streams r)"
    "default_field as_bool False ''allow_lossy_data'' m = Some (allow_lossy_data r)"
    "default_field as_strings [] ''inputs'' m = Some (req_inputs r)"
    by (simp_all add: look required_field_def default_field_def as_strings_JStr)
  have "request_of_fields m = Some r"
    by (simp add: request_of_fields_def strs nums angle rest)
  then show ?thesis by (simp add: request_of_json_def request_to_json_def m_def)
qed

section \<open>The chain a queued plan carries\<close>

definition chain_hops_key :: string where
  "chain_hops_key = ''chain''"

definition chain_request_key :: string where
  "chain_request_key = ''chain_request''"

text \<open>Serializing the request does not fail: every field has a JSON form.\<close>

definition attach_chain_plan_metadata :: "plan \<Rightarrow> plan_request \<Rightarrow> string list \<Rightarrow> plan" where
  "attach_chain_plan_metadata p r hop_targets =
     p\<lparr>constraints :=
         btree_insert chain_request_key (request_to_json r)
           (btree_insert chain_hops_key (JArr (map JStr hop_targets)) (constraints p)),
       output_path := req_output_path r\<rparr>"

fun hops_from :: "string \<Rightarrow> string list \<Rightarrow> conversion_chain" where
  "hops_from a [] = []"
| "hops_from a (t # ts) = hop_between a t # hops_from t ts"

definition from_hop_targets :: "string \<Rightarrow> string list \<Rightarrow> conversion_chain option" where
  "from_hop_targets input_format targets =
     (if targets = [] then None else Some (hops_from input_format targets))"

fun filter_map_str :: "json list \<Rightarrow> string list" where
  "filter_map_str [] = []"
| "filter_map_str (j # js) =
     (case as_str j of None \<Rightarrow> filter_map_str js | Some s \<Rightarrow> s # filter_map_str js)"

definition default_request :: plan_request where
  "default_request =
     \<lparr>req_target_format = [], req_output_path = None, preserve_all_streams = False,
      audio_stream_index = None, start_millis = None, duration_millis = None, req_width = None,
      req_quality = None, req_dpi = None, req_color_mode = None, frames_per_second = None,
      loop_count = None, video_crf = None, video_preset = None, audio_bitrate_kbps = None,
      req_operation = None, req_inputs = [], page_range = None, allow_lossy_data = False,
      rotate_angle = None, password = None, ocr_language = None, watermark_text = None,
      watermark_angle = None, target_size_bytes = None, metadata_title = None,
      metadata_author = None\<rparr>"

definition err_chain :: "string \<Rightarrow> anole_error" where
  "err_chain m = anole_error_new Internal Plan_stage m"

definition last_or :: "string \<Rightarrow> string list \<Rightarrow> string" where
  "last_or d xs = (if xs = [] then d else last xs)"

definition chain_execution_from_plan ::
    "plan \<Rightarrow> string \<Rightarrow> (anole_error + conversion_chain \<times> plan_request) option" where
  "chain_execution_from_plan p input =
     (case map_of (constraints p) chain_hops_key of
        None \<Rightarrow> None
      | Some hops_value \<Rightarrow> Some
          (res_bind (ok_or (err_chain ''Chained plan carries a malformed hop list'')
              (map_option filter_map_str (as_array hops_value))) (\<lambda>hop_targets.
           res_bind (ok_or (err_chain ''Chained plan carries an empty hop list'')
              (from_hop_targets
                (to_ascii_lowercase (unwrap_or_default (extension input))) hop_targets)) (\<lambda>chain.
           res_bind
             (case map_of (constraints p) chain_request_key of
                Some snapshot \<Rightarrow>
                  ok_or (err_chain ''Chained plan carries an unreadable request snapshot'')
                    (request_of_json snapshot)
              | None \<Rightarrow> Inr (default_request
                  \<lparr>req_target_format := last_or (target_format p) hop_targets,
                   req_output_path := output_path p\<rparr>)) (\<lambda>request.
           Inr (chain, request
             \<lparr>req_target_format := last_or (req_target_format request) hop_targets,
              req_output_path := output_path p\<rparr>))))))"

section \<open>Running a chain\<close>

text \<open>
  What the run uses of the rest of the program and of the file system, on a world \<open>'w\<close>:
  whether a path exists, the creation of one directory, the recursive removal, and the
  preparation and execution of one segment for its input and request, which answers with the
  committed output path.
\<close>

record 'w chain_world =
  path_exists :: "string \<Rightarrow> 'w \<Rightarrow> bool"
  create_dir :: "string \<Rightarrow> 'w \<Rightarrow> bool \<times> 'w"
  remove_dir_all :: "string \<Rightarrow> 'w \<Rightarrow> bool \<times> 'w"
  run_segment :: "string \<Rightarrow> plan_request \<Rightarrow> 'w \<Rightarrow> (anole_error + string) \<times> 'w"

definition segment_output :: "nat \<Rightarrow> nat \<Rightarrow> string \<Rightarrow> string \<Rightarrow> string \<Rightarrow> string" where
  "segment_output index hop_count hop_target final_output staging =
     (if index + 1 = hop_count then final_output
      else path_join staging (''hop-'' @ decimal index @ ''.'' @ hop_target))"

definition segment_request :: "plan_request \<Rightarrow> string \<Rightarrow> string \<Rightarrow> plan_request" where
  "segment_request r hop_target out =
     r\<lparr>req_target_format := hop_target, req_output_path := Some out, req_operation := None\<rparr>"

text \<open>
  The loop over the hops. \<open>index\<close> counts them, \<open>result\<close> is the output of the last segment.
\<close>

fun run_segments ::
    "'w chain_world \<Rightarrow> plan_request \<Rightarrow> nat \<Rightarrow> string \<Rightarrow> string \<Rightarrow> nat \<Rightarrow> string \<Rightarrow> string option
     \<Rightarrow> conversion_chain \<Rightarrow> 'w \<Rightarrow> (anole_error + string option) \<times> 'w" where
  "run_segments W r hop_count final_output staging index segment_input result [] w =
     (Inr result, w)"
| "run_segments W r hop_count final_output staging index segment_input result (hop # hops) w =
     (case run_segment W segment_input
             (segment_request r (hop_to hop)
               (segment_output index hop_count (hop_to hop) final_output staging)) w of
        (Inl e, w1) \<Rightarrow> (Inl e, w1)
      | (Inr out, w1) \<Rightarrow>
          run_segments W r hop_count final_output staging (index + 1) out (Some out) hops w1)"

definition run_chain_segments ::
    "'w chain_world \<Rightarrow> string \<Rightarrow> plan_request \<Rightarrow> conversion_chain \<Rightarrow> string \<Rightarrow> string \<Rightarrow> 'w
     \<Rightarrow> (anole_error + string) \<times> 'w" where
  "run_chain_segments W input r chain final_output staging w =
     (case run_segments W r (length chain) final_output staging 0 input None chain w of
        (Inl e, w1) \<Rightarrow> (Inl e, w1)
      | (Inr result, w1) \<Rightarrow> (ok_or (err_chain ''Conversion chain has no segments'') result, w1))"

definition chain_staging_dir :: "string \<Rightarrow> uuid \<Rightarrow> anole_error + string" where
  "chain_staging_dir final_output j =
     res_bind (ok_or (anole_error_new InputInvalid Plan_stage
                        ''Resolved output path has no parent directory'') (parent final_output))
       (\<lambda>d. Inr (path_join d (''.fw-chain-'' @ uuid_text j)))"

definition execute_conversion_chain ::
    "'w chain_world \<Rightarrow> string \<Rightarrow> plan_request \<Rightarrow> conversion_chain \<Rightarrow> uuid \<Rightarrow> 'w
     \<Rightarrow> (anole_error + string) \<times> 'w" where
  "execute_conversion_chain W input r chain j w =
     (case req_output_path r of
        None \<Rightarrow> (Inl (anole_error_new InputInvalid Plan_stage
                        ''Chained conversion requires an output path''), w)
      | Some final_output \<Rightarrow>
          if path_exists W final_output w
          then (Inl (anole_error_new OutputConflict Commit ''Output already exists: {}''), w)
          else case chain_staging_dir final_output j of
            Inl e \<Rightarrow> (Inl e, w)
          | Inr staging \<Rightarrow>
              if path_exists W staging w
              then (Inl (anole_error_new OutputConflict Execute
                          ''Chain staging directory already exists: {}''), w)
              else case create_dir W staging w of
                (False, w1) \<Rightarrow> (Inl (anole_error_new StorageFailed Execute
                                 ''Unable to create chain staging directory: {}''), w1)
              | (True, w1) \<Rightarrow>
                  (case run_chain_segments W input r chain final_output staging w1 of
                     (outcome, w2) \<Rightarrow>
                       (case remove_dir_all W staging w2 of
                          (removed, w3) \<Rightarrow>
                            (if \<not> removed \<and> \<not> isl outcome
                             then Inl (anole_error_new StorageFailed Commit
                                    ''Unable to remove chain staging directory: {}'')
                             else outcome, w3))))"

section \<open>What is attached is what is run\<close>

lemma filter_map_str_map [simp]: "filter_map_str (map JStr xs) = xs"
  by (induction xs) auto

lemma hop_list_targets: "map hop_to (hops_from a ts) = ts"
  by (induction a ts rule: hops_from.induct) (auto simp: hop_between_def)

text \<open>
  C12: a chained conversion comes out of the queue as it went in. Attaching the hops and the
  request to a plan and reading them back gives the chain with the same hop targets, each hop
  starting where the one before ends and the first at the input's extension, and the request
  field by field, with the last hop as its target format; the width of every integer of the
  request is the only condition.
\<close>

theorem queued_chain_is_rebuilt:
  assumes "request_in_range r" and "hop_targets \<noteq> []"
  shows "\<exists>chain. chain_execution_from_plan (attach_chain_plan_metadata p r hop_targets) input =
      Some (Inr (chain, r\<lparr>req_target_format := last hop_targets\<rparr>))
    \<and> map hop_to chain = hop_targets
    \<and> map hop_from chain =
        to_ascii_lowercase (unwrap_or_default (extension input)) # butlast hop_targets"
proof -
  define e where "e = to_ascii_lowercase (unwrap_or_default (extension input))"
  have froms: "map hop_from (hops_from x ts) = (if ts = [] then [] else x # butlast ts)" for x ts
    by (induction x ts rule: hops_from.induct) (auto simp: hop_between_def)
  define q where "q = attach_chain_plan_metadata p r hop_targets"
  have q: "map_of (constraints q) chain_hops_key = Some (JArr (map JStr hop_targets))"
    "map_of (constraints q) chain_request_key = Some (request_to_json r)"
    "output_path q = req_output_path r"
    by (simp_all add: q_def attach_chain_plan_metadata_def map_of_btree_insert
        chain_hops_key_def chain_request_key_def)
  have "chain_execution_from_plan q input =
      Some (Inr (hops_from e hop_targets, r\<lparr>req_target_format := last hop_targets\<rparr>))"
    unfolding chain_execution_from_plan_def q
    using assms(2) request_json_roundtrip [OF assms(1)]
    by (simp add: ok_or_def from_hop_targets_def last_or_def e_def)
  then show ?thesis
    using assms(2) hop_list_targets [of e hop_targets] froms [of e hop_targets]
    unfolding q_def e_def by (intro exI) auto
qed

text \<open>
  The password of a chained conversion is written into its plan. A plan that carries a
  chain holds, in the request snapshot among its constraints, the password of the request in
  clear text.
\<close>

theorem chained_plan_carries_password:
  assumes "password r = Some pw"
  shows "\<exists>fields. map_of (constraints (attach_chain_plan_metadata p r hop_targets)) chain_request_key
      = Some (JObj fields) \<and> map_of fields ''password'' = Some (JStr pw)"
  using assms
  by (simp add: attach_chain_plan_metadata_def map_of_btree_insert chain_request_key_def
      request_to_json_def request_fields_def json_opt_def)

section \<open>What a run does\<close>

lemma staging_dirs_differ:
  assumes "chain_staging_dir f i = Inr d" "chain_staging_dir f j = Inr d"
    and "i < 2 ^ 128" "j < 2 ^ 128"
  shows "i = j"
proof -
  have rel: "\<not> is_absolute (''.fw-chain-'' @ k)" for k
    by (simp add: is_absolute_def starts_with_def)
  obtain p where "path_join p (''.fw-chain-'' @ uuid_text i) = d"
    "path_join p (''.fw-chain-'' @ uuid_text j) = d"
    using assms(1,2) by (auto simp: chain_staging_dir_def simp del: append.simps)
  then have "path_join p (''.fw-chain-'' @ uuid_text i) = path_join p (''.fw-chain-'' @ uuid_text j)"
    by simp
  then have "uuid_text i = uuid_text j"
    using rel [of "uuid_text i"] rel [of "uuid_text j"] unfolding path_join_def
    by (metis append_same_eq same_append_eq)
  then show ?thesis by (rule uuid_text_inj [OF assms(3,4)])
qed

text \<open>
  A run of a two-hop chain that succeeds did these steps and no other, in this order:
  found neither the output nor its staging directory, created the staging directory next to
  the output, converted the input into the staging directory under a name with the extension
  of the intermediate format, converted that file to the final output, and removed the staging
  directory. And whatever the number of hops and the outcome, once the staging directory was
  created the last step is its removal.
\<close>

theorem chain_run_steps:
  assumes "req_output_path r = Some final" and "chain_staging_dir final j = Inr staging"
  shows "(execute_conversion_chain W input r [h1, h2] j w = (Inr out, w') \<longrightarrow>
      \<not> path_exists W final w \<and> \<not> path_exists W staging w
      \<and> (\<exists>w1 mid w2 w3. create_dir W staging w = (True, w1)
        \<and> run_segment W input (segment_request r (hop_to h1)
            (path_join staging (''hop-0.'' @ hop_to h1))) w1 = (Inr mid, w2)
        \<and> run_segment W mid (segment_request r (hop_to h2) final) w2 = (Inr out, w3)
        \<and> remove_dir_all W staging w3 = (True, w')))
    \<and> (\<not> path_exists W final w \<longrightarrow> \<not> path_exists W staging w \<longrightarrow> fst (create_dir W staging w) \<longrightarrow>
      (\<exists>w2. snd (execute_conversion_chain W input r chain j w) = snd (remove_dir_all W staging w2)))"
    (is "?ran \<and> ?cleaned")
proof
  have zero: "decimal 0 = ''0''" by code_simp
  show ?ran
    unfolding execute_conversion_chain_def run_chain_segments_def
    by (auto simp: assms segment_output_def zero split: if_splits prod.splits bool.splits sum.splits)
  show ?cleaned
    unfolding execute_conversion_chain_def
    by (auto simp: assms split: prod.splits bool.splits) (metis snd_conv)+
qed

section \<open>Instances\<close>

definition demo_request :: plan_request where
  "demo_request = default_request
     \<lparr>req_target_format := ''jpg'', req_output_path := Some ''/d/o.jpg'', req_quality := Some 80,
      password := Some ''pw''\<rparr>"

definition demo_plan :: plan where
  "demo_plan =
     \<lparr>plan_schema_version = 1, plan_id = 1, plan_hash = ''h'', input_fingerprint = ''f'',
      target_format = ''pdf'', constraints = [], steps = [],
      changes = \<lparr>preserved = [], changed = [], dropped = [], unknown = []\<rparr>, validators = [],
      network_policy = Deny, output_path = None, estimated_output_bytes = None\<rparr>"

lemma queued_chain_is_rebuilt_witness:
  "\<exists>chain. chain_execution_from_plan
      (attach_chain_plan_metadata demo_plan demo_request [''pdf'', ''jpg'']) ''/d/i.xlsx''
    = Some (Inr (chain, demo_request)) \<and> map hop_to chain = [''pdf'', ''jpg'']"
proof -
  have "request_in_range demo_request"
    by (simp add: request_in_range_def demo_request_def default_request_def fits_def)
  moreover have "[''pdf'', ''jpg''] \<noteq> ([] :: string list)" by simp
  moreover have "demo_request\<lparr>req_target_format := last [''pdf'', ''jpg'']\<rparr> = demo_request"
    by (simp add: demo_request_def)
  ultimately show ?thesis
    using queued_chain_is_rebuilt [of demo_request "[''pdf'', ''jpg'']" demo_plan "''/d/i.xlsx''"]
    by auto
qed

lemma chained_plan_carries_password_witness:
  "\<exists>fields. map_of (constraints (attach_chain_plan_metadata demo_plan demo_request [''pdf'', ''jpg'']))
      chain_request_key = Some (JObj fields) \<and> map_of fields ''password'' = Some (JStr ''pw'')"
  by (rule chained_plan_carries_password) (simp add: demo_request_def)

text \<open>A world of existing paths, in which a segment creates its output.\<close>

definition demo_world :: "string list chain_world" where
  "demo_world =
     \<lparr>path_exists = (\<lambda>p w. p \<in> set w),
      create_dir = (\<lambda>p w. (p \<notin> set w, p # w)),
      remove_dir_all = (\<lambda>p w. (p \<in> set w, filter (\<lambda>x. \<not> starts_with x p) w)),
      run_segment = (\<lambda>i r w. case req_output_path r of
          None \<Rightarrow> (Inl (err_chain ''no output''), w) | Some out \<Rightarrow> (Inr out, out # w))\<rparr>"

definition demo_staging :: string where
  "demo_staging = ''/d/.fw-chain-'' @ uuid_text 7"

lemma demo_staging_dir: "chain_staging_dir ''/d/o.jpg'' 7 = Inr demo_staging"
proof -
  have "parent ''/d/o.jpg'' = Some ''/d''" by code_simp
  then show ?thesis
    by (simp add: chain_staging_dir_def demo_staging_def path_join_def is_absolute_def
        starts_with_def ends_with_def suffix_def)
qed

lemma chain_run_steps_witness:
  "\<exists>w2. snd (execute_conversion_chain demo_world ''/d/i.xlsx'' demo_request
        [hop_between ''xlsx'' ''pdf'', hop_between ''pdf'' ''jpg''] 7 [''/d/i.xlsx''])
    = snd (remove_dir_all demo_world demo_staging w2)"
proof -
  have out: "req_output_path demo_request = Some ''/d/o.jpg''" by (simp add: demo_request_def)
  have "\<not> path_exists demo_world ''/d/o.jpg'' [''/d/i.xlsx'']"
    "\<not> path_exists demo_world demo_staging [''/d/i.xlsx'']"
    "fst (create_dir demo_world demo_staging [''/d/i.xlsx''])"
    by (simp_all add: demo_world_def demo_staging_def)
  then show ?thesis by (intro chain_run_steps [OF out demo_staging_dir, THEN conjunct2, rule_format])
qed

end
