(* ===== verification/Queue_Window.thy ===== *)
theory Queue_Window
  imports Job_Store_Machine Scheduler Chain_Run
begin

text \<open>
  \<open>crates/core/src/application/job_execution.rs\<close>: the execution of one window of queued jobs.
  The window selects jobs in fair order, admits them through the scheduler, checks again what
  their plans rely on, runs each in a worker and settles its outcome in the job store.

  The window is a state machine. Its control flow is a phase; the choices the code leaves to
  its environment are events: which message \<open>select!\<close> takes, what a worker answers, when a
  pause arrives, what other processes do to the database between two steps. Engines, probes
  and the execution of a plan are parameters; one event carries the clock and the identifiers
  its steps draw.
\<close>

section \<open>Sequencing with a state and errors\<close>

definition st_bind ::
    "('s \<Rightarrow> ('e + 'a) \<times> 's) \<Rightarrow> ('a \<Rightarrow> 's \<Rightarrow> ('e + 'b) \<times> 's) \<Rightarrow> 's \<Rightarrow> ('e + 'b) \<times> 's" where
  "st_bind m f s = (case m s of (Inl e, s') \<Rightarrow> (Inl e, s') | (Inr x, s') \<Rightarrow> f x s')"

definition st_return :: "'a \<Rightarrow> 's \<Rightarrow> ('e + 'a) \<times> 's" where
  "st_return x s = (Inr x, s)"

text \<open>A relation that every step of a computation keeps between its first and last state.\<close>

definition keeps :: "('s \<Rightarrow> 's \<Rightarrow> bool) \<Rightarrow> ('s \<Rightarrow> ('e + 'a) \<times> 's) \<Rightarrow> bool" where
  "keeps R m \<longleftrightarrow> (\<forall>s. R s (snd (m s)))"

lemma keeps_return: "(\<And>s. R s s) \<Longrightarrow> keeps R (st_return x)"
  by (simp add: keeps_def st_return_def)

lemma keeps_bind:
  assumes "\<And>a b c. R a b \<Longrightarrow> R b c \<Longrightarrow> R a c" and "keeps R m" and "\<And>x. keeps R (f x)"
  shows "keeps R (st_bind m f)"
  unfolding keeps_def
proof
  fix s
  have "R s (snd (m s))" using assms(2) by (simp add: keeps_def)
  moreover have "R (snd (m s)) (snd (f x (snd (m s))))" for x using assms(3) by (simp add: keeps_def)
  ultimately show "R s (snd (st_bind m f s))"
    using assms(1) by (auto simp: st_bind_def split: prod.splits sum.splits)
qed

section \<open>Reports of progress\<close>

datatype wait_reason =
  AlreadyRunning | ProcessLimitWait | MemoryBudgetWait | ExclusiveEngineWait | WorkClassLimit
  | AdmissionPaused

fun queue_wait_reason :: "blocker \<Rightarrow> wait_reason" where
  "queue_wait_reason AlreadyActive = AlreadyRunning"
| "queue_wait_reason ProcessLimit = ProcessLimitWait"
| "queue_wait_reason MemoryBudget = MemoryBudgetWait"
| "queue_wait_reason ExclusiveEngine = ExclusiveEngineWait"
| "queue_wait_reason ClassLimit = WorkClassLimit"

record progress_update =
  up_job :: uuid
  up_sequence :: nat
  up_state :: job_state
  up_wait :: "wait_reason option"
  up_occurred :: int
  up_rate :: "nat option"

definition queue_progress :: "int \<Rightarrow> job_record \<Rightarrow> wait_reason option \<Rightarrow> progress_update" where
  "queue_progress now job w =
     \<lparr>up_job = rec_id job, up_sequence = rec_sequence job, up_state = rec_state job,
      up_wait = w, up_occurred = now, up_rate = None\<rparr>"

definition sanitize_measured_rate :: "rat \<Rightarrow> nat option" where
  "sanitize_measured_rate r =
     (if 0 \<le> r \<and> r \<le> 9007199254740992 then Some (nat \<lfloor>r\<rfloor>) else None)"

definition primary_plan_hop :: "plan \<Rightarrow> (string \<times> string) option" where
  "primary_plan_hop p =
     (case steps p of [] \<Rightarrow> None | st # _ \<Rightarrow> Some (engine_id (engine st), capability_id st))"

section \<open>The window\<close>

record pending_job =
  pj_details :: job_details
  pj_resources :: resource_request

record prepared_job =
  pq_job_id :: uuid
  pq_probe :: probe
  pq_plan :: plan
  pq_engine :: engine_identity

datatype queue_preparation = Ready prepared_job | PrepBlocked | PrepFailed | PrepContended

record job_telemetry =
  tl_engine_id :: string
  tl_capability_id :: string
  tl_started :: int
  tl_input_bytes :: "nat option"

datatype phase =
  LoopHead | Admitting | Admitted | Waiting | Finished | Aborting anole_error | Aborted anole_error

text \<open>
  The local variables of \<open>run_window_observed_with_progress\<close>, the two cancellation tokens of
  its control, the database of its store, and the channel of the workers' milestones.
\<close>

record window =
  win_db :: db
  win_scheduler :: resource_scheduler
  win_pending :: "pending_job list"
  win_workers :: "prepared_job list"
  win_milestones :: "uuid list"
  active_jobs :: "uuid set"
  active_telemetry :: "uuid \<rightharpoonup> job_telemetry"
  last_wait_reasons :: "uuid \<rightharpoonup> wait_reason"
  admission_stopped :: bool
  workers_stopped :: bool
  win_selected :: nat
  win_completed :: nat
  win_warning :: nat
  win_blocked :: nat
  win_failed :: nat
  win_cancelled :: nat
  win_contended :: nat
  peak_active :: nat
  win_updates :: "progress_update list"
  win_phase :: phase

definition emit_update :: "progress_update \<Rightarrow> window \<Rightarrow> window" where
  "emit_update u w = w\<lparr>win_updates := win_updates w @ [u]\<rparr>"

definition emit_wait_reason :: "int \<Rightarrow> job_record \<Rightarrow> wait_reason \<Rightarrow> window \<Rightarrow> window" where
  "emit_wait_reason now job r w =
     (if last_wait_reasons w (rec_id job) = Some r then w
      else emit_update (queue_progress now job (Some r))
             (w\<lparr>last_wait_reasons := (last_wait_reasons w)(rec_id job \<mapsto> r)\<rparr>))"

definition emit_waits :: "int \<Rightarrow> wait_reason \<Rightarrow> window \<Rightarrow> window" where
  "emit_waits now r w =
     fold (\<lambda>p. emit_wait_reason now (jd_job (pj_details p)) r) (win_pending w) w"

text \<open>A call of the job store, and a progress callback, on the window.\<close>

definition on_store :: "(db \<Rightarrow> (anole_error + 'a) \<times> db) \<Rightarrow> window \<Rightarrow> (anole_error + 'a) \<times> window" where
  "on_store op w = (case op (win_db w) of (r, d) \<Rightarrow> (r, w\<lparr>win_db := d\<rparr>))"

definition on_read :: "(db \<Rightarrow> anole_error + 'a) \<Rightarrow> window \<Rightarrow> (anole_error + 'a) \<times> window" where
  "on_read op w = (op (win_db w), w)"

definition on_state :: "int \<Rightarrow> nat option \<Rightarrow> job_record \<Rightarrow> window \<Rightarrow> (anole_error + unit) \<times> window" where
  "on_state now rate job w = (Inr (), emit_update ((queue_progress now job None)\<lparr>up_rate := rate\<rparr>) w)"

definition move_and_report ::
    "store_env \<Rightarrow> nat option \<Rightarrow> uuid \<Rightarrow> job_state \<Rightarrow> string \<Rightarrow> window \<Rightarrow> (anole_error + unit) \<times> window" where
  "move_and_report E rate j nxt c =
     st_bind (on_store (transition E j nxt c)) (on_state (env_now E) rate)"

section \<open>Preparing a job\<close>

text \<open>The engines and the probes, as the environment answers them while a job is prepared.\<close>

record inspectors =
  find_engine :: "string \<Rightarrow> anole_error + engine_identity"
  builtin_engine :: "string \<Rightarrow> anole_error + engine_identity"
  probe_structured :: "string \<Rightarrow> anole_error + probe"
  probe_document :: "string \<Rightarrow> anole_error + probe"
  probe_pdf :: "string \<Rightarrow> engine_identity \<Rightarrow> anole_error + probe"
  probe_office :: "string \<Rightarrow> anole_error + probe"
  probe_media :: "string \<Rightarrow> engine_identity \<Rightarrow> anole_error + probe"

definition inspect_queued_input ::
    "inspectors \<Rightarrow> job_details \<Rightarrow> engine_identity \<Rightarrow> anole_error + probe \<times> engine_identity" where
  "inspect_queued_input I details stored =
     (let input = rec_input_path (jd_job details) in
      if engine_id stored = ''anole.structured'' then
        res_bind (probe_structured I input) (\<lambda>p.
        res_bind (builtin_engine I ''anole.structured'') (\<lambda>e. Inr (p, e)))
      else if engine_id stored = ''pandoc'' then
        res_bind (if target_format (jd_plan details) = ''pdf'' then find_engine I ''pdfinfo''
                  else Inr stored) (\<lambda>v.
        res_bind (probe_document I input) (\<lambda>p. Inr (p, v)))
      else if engine_id stored = ''pdftoppm'' then
        res_bind (find_engine I ''pdfinfo'') (\<lambda>pdfinfo.
        res_bind (probe_pdf I input pdfinfo) (\<lambda>p.
        res_bind (find_engine I ''ffprobe'') (\<lambda>e. Inr (p, e))))
      else if engine_id stored = ''soffice'' then
        res_bind (probe_office I input) (\<lambda>p.
        res_bind (find_engine I ''pdfinfo'') (\<lambda>e. Inr (p, e)))
      else
        res_bind (find_engine I ''ffprobe'') (\<lambda>v.
        res_bind (probe_media I input v) (\<lambda>p. Inr (p, v))))"

definition engine_unchanged :: "inspectors \<Rightarrow> engine_identity \<Rightarrow> bool" where
  "engine_unchanged I stored =
     (case (if engine_id stored = ''anole.structured'' then builtin_engine I ''anole.structured''
            else find_engine I (engine_id stored)) of
        Inl _ \<Rightarrow> False
      | Inr e \<Rightarrow> binary_sha256 e = binary_sha256 stored \<and> engine_version e = engine_version stored)"

definition revalidate_plan ::
    "store_env \<Rightarrow> inspectors \<Rightarrow> nat option \<Rightarrow> job_details
     \<Rightarrow> window \<Rightarrow> (anole_error + queue_preparation) \<times> window" where
  "revalidate_plan E I rate details =
     (let j = rec_id (jd_job details); p = jd_plan details;
          give_up = (\<lambda>nxt c r. st_bind (move_and_report E rate j nxt c) (\<lambda>_. st_return r)) in
      case steps p of
        [] \<Rightarrow> give_up Failed ''PLAN_INVALID'' PrepFailed
      | st # _ \<Rightarrow>
          if \<not> (\<forall>x \<in> set (steps p). engine_unchanged I (engine x))
          then give_up Blocked ''ENGINE_IDENTITY_CHANGED'' PrepBlocked
          else case inspect_queued_input I details (engine st) of
            Inl _ \<Rightarrow> give_up Blocked ''REINSPECTION_FAILED'' PrepBlocked
          | Inr (pr, v) \<Rightarrow>
              if fast_fingerprint (artifact pr) \<noteq> input_fingerprint p
              then give_up Blocked ''INPUT_CHANGED'' PrepBlocked
              else st_bind (move_and_report E rate j Planned ''PLAN_REVALIDATED'') (\<lambda>_.
                   st_bind (move_and_report E rate j Running ''ENGINE_STARTED'') (\<lambda>_.
                   st_return (Ready \<lparr>pq_job_id = j, pq_probe = pr, pq_plan = p, pq_engine = v\<rparr>))))"

definition check_reservation ::
    "store_env \<Rightarrow> uuid \<Rightarrow> window \<Rightarrow> (anole_error + bool) \<times> window" where
  "check_reservation E j = on_read (\<lambda>d.
     case validate_output_reservation E j d of
       Inr _ \<Rightarrow> Inr True
     | Inl e \<Rightarrow> if code e \<in> {InputInvalid, OutputConflict} then Inr False else Inl e)"

definition prepare_queued_job ::
    "store_env \<Rightarrow> inspectors \<Rightarrow> nat option \<Rightarrow> job_details
     \<Rightarrow> window \<Rightarrow> (anole_error + queue_preparation) \<times> window" where
  "prepare_queued_job E I rate details =
     (let j = rec_id (jd_job details) in
      st_bind (on_store (claim_queued_job E j ''QUEUE_REINSPECTING'')) (\<lambda>claimed.
      case claimed of
        None \<Rightarrow> st_return PrepContended
      | Some inspecting \<Rightarrow>
          st_bind (on_state (env_now E) rate inspecting) (\<lambda>_.
          st_bind (check_reservation E j) (\<lambda>kept.
          if kept then revalidate_plan E I rate details
          else st_bind (move_and_report E rate j Blocked ''OUTPUT_IDENTITY_CHANGED'') (\<lambda>_.
               st_return PrepBlocked)))))"

definition mark_job_validating ::
    "store_env \<Rightarrow> uuid \<Rightarrow> window \<Rightarrow> (anole_error + job_record option) \<times> window" where
  "mark_job_validating E j =
     st_bind (on_read (get_job j)) (\<lambda>found.
     case found of
       None \<Rightarrow> (\<lambda>w. (Inl (anole_error_new StorageFailed Store ''Active job disappeared: {}''), w))
     | Some job \<Rightarrow>
         if rec_state job = Running
         then st_bind (on_store (transition E j Validating ''ENGINE_FINISHED'')) (\<lambda>r. st_return (Some r))
         else st_return None)"

section \<open>Admission\<close>

text \<open>The scan of the pending queue: each refused candidate goes to the back of it.\<close>

fun scan_pending :: "int \<Rightarrow> nat \<Rightarrow> window \<Rightarrow> pending_job option \<times> window" where
  "scan_pending now 0 w = (None, w)"
| "scan_pending now (Suc n) w =
     (case win_pending w of
        [] \<Rightarrow> (None, w)
      | c # rest \<Rightarrow>
          let job = jd_job (pj_details c) in
          (case try_admit (pj_resources c) (win_scheduler w) of
             (True, s) \<Rightarrow>
               (Some c, w\<lparr>win_pending := rest, win_scheduler := s,
                  last_wait_reasons := (last_wait_reasons w)(rec_id job := None)\<rparr>)
           | (False, _) \<Rightarrow>
               let w1 = (case admission_blocker (win_scheduler w) (pj_resources c) of
                           None \<Rightarrow> w | Some b \<Rightarrow> emit_wait_reason now job (queue_wait_reason b) w)
               in scan_pending now n (w1\<lparr>win_pending := rest @ [c]\<rparr>)))"

definition measured_rate :: "plan \<Rightarrow> db \<Rightarrow> nat option" where
  "measured_rate p d =
     Option.bind (primary_plan_hop p) (\<lambda>(e, c).
       case measured_throughput_bytes_per_sec e c d of
         Inr (Some r) \<Rightarrow> sanitize_measured_rate r
       | _ \<Rightarrow> None)"

definition spawn_worker :: "int \<Rightarrow> prepared_job \<Rightarrow> window \<Rightarrow> window" where
  "spawn_worker now p w =
     (let w1 = w\<lparr>active_telemetry :=
            (case primary_plan_hop (pq_plan p) of
               None \<Rightarrow> active_telemetry w
             | Some (e, c) \<Rightarrow> (active_telemetry w)(pq_job_id p \<mapsto>
                 \<lparr>tl_engine_id = e, tl_capability_id = c, tl_started = now,
                  tl_input_bytes = Some (size_bytes (artifact (pq_probe p)))\<rparr>)),
            win_workers := win_workers w @ [p]\<rparr>
      in w1\<lparr>peak_active := max (peak_active w1) (active_count (win_scheduler w1))\<rparr>)"

definition drop_job :: "uuid \<Rightarrow> window \<Rightarrow> window" where
  "drop_job j w =
     w\<lparr>win_scheduler := snd (release j (win_scheduler w)), active_jobs := active_jobs w - {j}\<rparr>"

definition admit_next :: "store_env \<Rightarrow> inspectors \<Rightarrow> window \<Rightarrow> window" where
  "admit_next E I w =
     (case scan_pending (env_now E) (length (win_pending w)) w of
        (None, w1) \<Rightarrow> w1\<lparr>win_phase := Admitted\<rparr>
      | (Some c, w1) \<Rightarrow>
          let j = rec_id (jd_job (pj_details c));
              w2 = w1\<lparr>active_jobs := insert j (active_jobs w1)\<rparr>;
              rate = measured_rate (jd_plan (pj_details c)) (win_db w2)
          in case prepare_queued_job E I rate (pj_details c) w2 of
               (Inl e, w3) \<Rightarrow> w3\<lparr>win_phase := Aborting e\<rparr>
             | (Inr (Ready p), w3) \<Rightarrow> spawn_worker (env_now E) p w3
             | (Inr PrepBlocked, w3) \<Rightarrow> drop_job j (w3\<lparr>win_blocked := sat_add (win_blocked w3) 1\<rparr>)
             | (Inr PrepFailed, w3) \<Rightarrow> drop_job j (w3\<lparr>win_failed := sat_add (win_failed w3) 1\<rparr>)
             | (Inr PrepContended, w3) \<Rightarrow>
                 drop_job j (w3\<lparr>win_contended := sat_add (win_contended w3) 1\<rparr>))"

section \<open>Settling an outcome\<close>

fun terminal_for :: "validation_status \<Rightarrow> job_state" where
  "terminal_for Pass = Completed"
| "terminal_for Warn = Warning"
| "terminal_for Unknown = Warning"
| "terminal_for Fail = Failed"

fun count_status :: "validation_status \<Rightarrow> window \<Rightarrow> window" where
  "count_status Pass w = w\<lparr>win_completed := sat_add (win_completed w) 1\<rparr>"
| "count_status Warn w = w\<lparr>win_warning := sat_add (win_warning w) 1\<rparr>"
| "count_status Unknown w = w\<lparr>win_warning := sat_add (win_warning w) 1\<rparr>"
| "count_status Fail w = w\<lparr>win_failed := sat_add (win_failed w) 1\<rparr>"

definition record_telemetry ::
    "store_env \<Rightarrow> uuid \<Rightarrow> validation_report \<Rightarrow> window \<Rightarrow> (anole_error + unit) \<times> window" where
  "record_telemetry E j rep w =
     (case active_telemetry w j of
        None \<Rightarrow> (Inr (), w)
      | Some t \<Rightarrow>
          if report_status rep \<in> {Pass, Warn}
          then on_store (record_engine_throughput_sample
                 \<lparr>ts_engine_id = tl_engine_id t, ts_capability_id = tl_capability_id t,
                  ts_wall_millis = min (nat (env_now E - tl_started t)) i64_max,
                  ts_input_bytes = tl_input_bytes t,
                  ts_output_bytes = Some (sum_size_bytes (report_output rep)),
                  ts_completed = env_now E\<rparr>) w
          else (Inr (), w))"

definition mark_and_report :: "store_env \<Rightarrow> uuid \<Rightarrow> window \<Rightarrow> (anole_error + unit) \<times> window" where
  "mark_and_report E j =
     st_bind (mark_job_validating E j) (\<lambda>found.
     case found of None \<Rightarrow> st_return () | Some job \<Rightarrow> on_state (env_now E) None job)"

text \<open>\<open>seen\<close> is what the report callback answers.\<close>

definition settle_report ::
    "store_env \<Rightarrow> uuid \<Rightarrow> validation_report \<Rightarrow> anole_error + unit
     \<Rightarrow> window \<Rightarrow> (anole_error + unit) \<times> window" where
  "settle_report E j rep seen =
     st_bind (\<lambda>w. (seen, w)) (\<lambda>_.
     st_bind (record_telemetry E j rep) (\<lambda>_.
     st_bind (mark_and_report E j) (\<lambda>_.
     st_bind (move_and_report E None j (terminal_for (report_status rep)) ''VALIDATION_FINISHED'') (\<lambda>_.
     \<lambda>w. (Inr (), count_status (report_status rep) w)))))"

definition settle_error ::
    "store_env \<Rightarrow> uuid \<Rightarrow> anole_error \<Rightarrow> window \<Rightarrow> (anole_error + unit) \<times> window" where
  "settle_error E j e w =
     (if code e = Cancelled_code
      then st_bind (if workers_stopped w
                    then move_and_report E None j Interrupted ''QUEUE_PAUSED_IMMEDIATE''
                    else move_and_report E None j Cancelled ''QUEUE_CANCELLED'')
             (\<lambda>_ w. (Inr (), w\<lparr>win_cancelled := sat_add (win_cancelled w) 1\<rparr>)) w
      else st_bind (move_and_report E None j Failed ''EXECUTION_STOPPED'')
             (\<lambda>_ w. (Inr (), w\<lparr>win_failed := sat_add (win_failed w) 1\<rparr>)) w)"

definition settle_outcome ::
    "store_env \<Rightarrow> uuid \<Rightarrow> anole_error + validation_report \<Rightarrow> anole_error + unit
     \<Rightarrow> window \<Rightarrow> (anole_error + unit) \<times> window" where
  "settle_outcome E j result seen w =
     (let w1 = w\<lparr>win_scheduler := snd (release j (win_scheduler w))\<rparr> in
      case (case result of
              Inr rep \<Rightarrow> settle_report E j rep seen w1
            | Inl e \<Rightarrow> settle_error E j e w1) of
        (Inl e, w2) \<Rightarrow> (Inl e, w2)
      | (Inr _, w2) \<Rightarrow>
          (Inr (), w2\<lparr>active_jobs := active_jobs w2 - {j},
                     active_telemetry := (active_telemetry w2)(j := None)\<rparr>))"

section \<open>Giving up a window\<close>

definition abort_one :: "store_env \<Rightarrow> uuid \<Rightarrow> window \<Rightarrow> window" where
  "abort_one E j w =
     (let w1 = w\<lparr>win_scheduler := snd (release j (win_scheduler w))\<rparr> in
      case get_job j (win_db w1) of
        Inr (Some job) \<Rightarrow>
          if rec_state job \<in> {Running, Validating}
          then snd (on_store (transition E j Interrupted ''CONTROL_PLANE_FAILED'') w1)
          else if rec_state job \<in> {Inspecting, Planned}
          then snd (on_store (transition E j Failed ''CONTROL_PLANE_FAILED'') w1)
          else w1
      | _ \<Rightarrow> w1)"

text \<open>
  \<open>joined\<close> are the workers that end without a panic, \<open>order\<close> is the order in which the hash set
  of active jobs is walked. The first error is kept only as a diagnostic of the window's error.
\<close>

definition abort_active_window :: "store_env \<Rightarrow> uuid list \<Rightarrow> uuid list \<Rightarrow> window \<Rightarrow> window" where
  "abort_active_window E joined order w =
     fold (abort_one E) order
       (w\<lparr>admission_stopped := True, workers_stopped := True, win_workers := [],
          win_scheduler := fold (\<lambda>j s. snd (release j s)) joined (win_scheduler w)\<rparr>)"

section \<open>The steps\<close>

datatype window_event =
    PauseFinishCurrent
  | PauseImmediate
  | Elsewhere "unit store_command"
  | EngineFinished uuid
  | Proceed store_env inspectors
  | TakeMilestone store_env
  | TakeOutcome store_env uuid "anole_error + validation_report" "anole_error + unit"
  | WorkerPanicked uuid
  | Abort store_env "uuid list" "uuid list"

definition err_exhausted :: anole_error where
  "err_exhausted = anole_error_new ResourceExhausted Execute
     ''No queued job fits within the configured scheduler resource budget''"

definition err_worker_stopped :: anole_error where
  "err_worker_stopped = anole_error_new Internal Execute ''Queue worker stopped unexpectedly: {}''"

fun proceed :: "store_env \<Rightarrow> inspectors \<Rightarrow> phase \<Rightarrow> window \<Rightarrow> window option" where
  "proceed E I LoopHead w =
     Some (if win_pending w = [] \<and> win_workers w = [] then w\<lparr>win_phase := Finished\<rparr>
           else (if admission_stopped w then emit_waits (env_now E) AdmissionPaused w else w)
                  \<lparr>win_phase := Admitting\<rparr>)"
| "proceed E I Admitting w =
     Some (if \<not> admission_stopped w
              \<and> active_count (win_scheduler w) < max_processes (policy (win_scheduler w))
              \<and> win_pending w \<noteq> []
           then admit_next E I w
           else w\<lparr>win_phase := Admitted\<rparr>)"
| "proceed E I Admitted w =
     Some (let w1 = (if active_count (win_scheduler w) \<ge> max_processes (policy (win_scheduler w))
                     then emit_waits (env_now E) ProcessLimitWait w else w) in
           if win_workers w1 = []
           then w1\<lparr>win_phase := (if admission_stopped w1 \<or> win_pending w1 = [] then Finished
                               else Aborting err_exhausted)\<rparr>
           else w1\<lparr>win_phase := Waiting\<rparr>)"
| "proceed E I _ w = None"

text \<open>
  What a worker can answer: a plan that carries a chain it cannot be rebuilt from is an error,
  and only the run of a single plan sends a milestone.
\<close>

definition chained :: "prepared_job \<Rightarrow> (anole_error + conversion_chain \<times> plan_request) option" where
  "chained p = chain_execution_from_plan (pq_plan p) (canonical_path (artifact (pq_probe p)))"

definition answers :: "prepared_job \<Rightarrow> anole_error + validation_report \<Rightarrow> bool" where
  "answers p result = (case chained p of Some (Inl e) \<Rightarrow> result = Inl e | _ \<Rightarrow> True)"

definition worker_of :: "uuid \<Rightarrow> window \<Rightarrow> prepared_job option" where
  "worker_of j w = lookup_row pq_job_id j (win_workers w)"

definition leave :: "uuid \<Rightarrow> window \<Rightarrow> window" where
  "leave j w = w\<lparr>win_workers := delete_rows (\<lambda>p. pq_job_id p = j) (win_workers w)\<rparr>"

definition next_phase :: "(anole_error + unit) \<times> window \<Rightarrow> window" where
  "next_phase x = (case x of (Inl e, w) \<Rightarrow> w\<lparr>win_phase := Aborting e\<rparr>
                   | (Inr _, w) \<Rightarrow> w\<lparr>win_phase := LoopHead\<rparr>)"

fun window_step :: "window \<Rightarrow> window_event \<Rightarrow> window option" where
  "window_step w PauseFinishCurrent = Some (w\<lparr>admission_stopped := True\<rparr>)"
| "window_step w PauseImmediate = Some (w\<lparr>admission_stopped := True, workers_stopped := True\<rparr>)"
| "window_step w (Elsewhere c) = Some (w\<lparr>win_db := run_command (win_db w) c\<rparr>)"
| "window_step w (EngineFinished j) =
     (case worker_of j w of
        Some p \<Rightarrow> if chained p = None then Some (w\<lparr>win_milestones := win_milestones w @ [j]\<rparr>) else None
      | None \<Rightarrow> None)"
| "window_step w (Proceed E I) = proceed E I (win_phase w) w"
| "window_step w (TakeMilestone E) =
     (case win_milestones w of
        j # ms \<Rightarrow>
          if win_phase w = Waiting
          then Some (next_phase (mark_and_report E j (w\<lparr>win_milestones := ms\<rparr>)))
          else None
      | [] \<Rightarrow> None)"
| "window_step w (TakeOutcome E j result seen) =
     (case worker_of j w of
        Some p \<Rightarrow>
          if win_phase w = Waiting \<and> answers p result
          then Some (next_phase (settle_outcome E j result seen (leave j w)))
          else None
      | None \<Rightarrow> None)"
| "window_step w (WorkerPanicked j) =
     (case worker_of j w of
        Some p \<Rightarrow>
          if win_phase w = Waiting
          then Some ((leave j w)\<lparr>win_phase := Aborting err_worker_stopped\<rparr>) else None
      | None \<Rightarrow> None)"
| "window_step w (Abort E joined order) =
     (case win_phase w of
        Aborting e \<Rightarrow>
          if distinct order \<and> set order = active_jobs w \<and> set joined \<subseteq> pq_job_id ` set (win_workers w)
          then Some ((abort_active_window E joined order w)\<lparr>win_phase := Aborted e\<rparr>)
          else None
      | _ \<Rightarrow> None)"

section \<open>Selecting the window\<close>

definition pending_of :: "(string \<Rightarrow> plan option) \<Rightarrow> db \<Rightarrow> job_record \<Rightarrow> anole_error + pending_job" where
  "pending_of parse_plan d job =
     res_bind (get_job_details parse_plan (rec_id job) d) (\<lambda>found.
     res_bind (ok_or (anole_error_new StorageFailed Store ''Queued job disappeared: {}'') found)
       (\<lambda>details. Inr \<lparr>pj_details = details,
                       pj_resources = request_for_plan (rec_id job) (jd_plan details)\<rparr>))"

definition start_window ::
    "(string \<Rightarrow> plan option) \<Rightarrow> nat \<Rightarrow> nat \<Rightarrow> nat \<Rightarrow> db \<Rightarrow> anole_error + window" where
  "start_window parse_plan cpus limit par_n d =
     res_bind (ensure (1 \<le> par_n \<and> par_n \<le> 16)
       (anole_error_new InputInvalid Store ''Parallelism must be between 1 and 16'')) (\<lambda>_.
     res_bind (ensure (\<not> limit > 256)
       (anole_error_new InputInvalid Store
          ''A scheduling window cannot hydrate more than 256 jobs'')) (\<lambda>_.
     res_bind (list_queued_jobs_fair limit d) (\<lambda>selected.
     res_bind (res_mapM (pending_of parse_plan d) selected) (\<lambda>ps.
     Inr \<lparr>win_db = d, win_scheduler = new_scheduler (bounded cpus par_n), win_pending = ps,
          win_workers = [], win_milestones = [], active_jobs = {}, active_telemetry = Map.empty,
          last_wait_reasons = Map.empty, admission_stopped = False, workers_stopped = False,
          win_selected = length selected, win_completed = 0, win_warning = 0, win_blocked = 0,
          win_failed = 0, win_cancelled = 0, win_contended = 0, peak_active = 0,
          win_updates = [], win_phase = LoopHead\<rparr>))))"

record queue_run_report =
  qr_schema_version :: nat
  qr_selected :: nat
  qr_completed :: nat
  qr_warning :: nat
  qr_blocked :: nat
  qr_failed :: nat
  qr_cancelled :: nat
  qr_contended :: nat
  qr_stopped :: bool
  qr_parallelism :: nat
  qr_peak_active :: nat

definition terminal_count :: "window \<Rightarrow> nat" where
  "terminal_count w =
     sat_add (sat_add (sat_add (sat_add (sat_add (win_completed w) (win_warning w)) (win_blocked w))
       (win_failed w)) (win_cancelled w)) (win_contended w)"

definition queue_run_report :: "window \<Rightarrow> queue_run_report" where
  "queue_run_report w =
     \<lparr>qr_schema_version = 1, qr_selected = win_selected w, qr_completed = win_completed w,
      qr_warning = win_warning w, qr_blocked = win_blocked w, qr_failed = win_failed w,
      qr_cancelled = win_cancelled w, qr_contended = win_contended w,
      qr_stopped = (admission_stopped w \<or> terminal_count w < win_selected w),
      qr_parallelism = max_processes (policy (win_scheduler w)), qr_peak_active = peak_active w\<rparr>"

section \<open>Runs\<close>

text \<open>The windows that a selection can reach, with the events that lead to them.\<close>

inductive runs :: "window \<Rightarrow> window_event list \<Rightarrow> window \<Rightarrow> bool" for w0 where
  start: "runs w0 [] w0"
| step: "runs w0 evs w \<Longrightarrow> window_step w ev = Some w' \<Longrightarrow> runs w0 (evs @ [ev]) w'"

fun run_events :: "window \<Rightarrow> window_event list \<Rightarrow> window option" where
  "run_events w [] = Some w"
| "run_events w (ev # evs) = Option.bind (window_step w ev) (\<lambda>w. run_events w evs)"

lemma run_events_append:
  "run_events w (xs @ ys) = Option.bind (run_events w xs) (\<lambda>w. run_events w ys)"
  by (induction xs arbitrary: w) (auto split: bind_split)

lemma runs_iff: "runs w0 evs w \<longleftrightarrow> run_events w0 evs = Some w"
proof
  assume "runs w0 evs w"
  then show "run_events w0 evs = Some w" by induction (simp_all add: run_events_append)
next
  have "run_events w0 evs = Some w \<Longrightarrow> runs w0 evs w" for w
    by (induction evs arbitrary: w rule: rev_induct)
       (auto intro: runs.intros simp: run_events_append split: bind_splits)
  then show "run_events w0 evs = Some w \<Longrightarrow> runs w0 evs w" .
qed

end
