(* ===== verification/Queue_Window_Safety.thy ===== *)
theory Queue_Window_Safety
  imports Queue_Window "HOL-Library.Multiset"
begin

text \<open>
  The queue window is correct: an invariant of every window that a selection can reach ties
  the scheduler, the workers, the set of active jobs and the counters together, and the error
  path releases everything. The scheduler enters through the facts of its admission interface.
\<close>

section \<open>Calls of the store touch the database and the reports only\<close>

definition inner :: "window \<Rightarrow> window \<Rightarrow> bool" where
  "inner w w' \<longleftrightarrow> w' = w\<lparr>win_db := win_db w', win_updates := win_updates w'\<rparr>
     \<and> (store_inv (win_db w) \<longrightarrow> store_inv (win_db w'))"

lemma inner_refl: "inner w w"
  by (simp add: inner_def)

lemma inner_trans: "inner a b \<Longrightarrow> inner b c \<Longrightarrow> inner a c"
  unfolding inner_def by (cases a, cases b, cases c) simp

lemmas inner_bind = keeps_bind [where R = inner, OF inner_trans]

lemma inner_return: "keeps inner (st_return x)"
  by (rule keeps_return) (rule inner_refl)

lemma inner_store:
  "(\<And>d. store_inv d \<Longrightarrow> store_inv (snd (op d))) \<Longrightarrow> keeps inner (on_store op)"
  by (auto simp: keeps_def inner_def on_store_def split: prod.splits) (metis snd_conv)

lemma inner_read: "keeps inner (on_read op)"
  by (simp add: keeps_def on_read_def inner_refl)

lemma inner_state: "keeps inner (on_state now rate job)"
  by (simp add: keeps_def on_state_def inner_def emit_update_def)

lemma inner_fail: "keeps inner (\<lambda>w. (r, w))"
  by (simp add: keeps_def inner_refl)

lemma inner_move: "keeps inner (move_and_report E rate j nxt c)"
  unfolding move_and_report_def
  by (intro inner_bind inner_store inner_state store_inv_transition)

lemma inner_mark: "keeps inner (mark_job_validating E j)"
  unfolding mark_job_validating_def
  by (intro inner_bind inner_read)
     (auto intro!: inner_bind inner_store inner_return inner_fail store_inv_transition
       split: option.split)

lemma inner_mark_and_report: "keeps inner (mark_and_report E j)"
  unfolding mark_and_report_def
  by (intro inner_bind inner_mark) (auto intro!: inner_return inner_state split: option.split)

lemma inner_revalidate: "keeps inner (revalidate_plan E I rate details)"
  unfolding revalidate_plan_def Let_def
  by (auto intro!: inner_bind inner_move inner_return split: list.split sum.split)

lemma inner_prepare: "keeps inner (prepare_queued_job E I rate details)"
  unfolding prepare_queued_job_def Let_def check_reservation_def
  by (intro inner_bind inner_store store_inv_claim)
     (auto intro!: inner_bind inner_state inner_read inner_revalidate inner_move inner_return
       split: option.split)

lemma keeps_apply: "keeps R m \<Longrightarrow> m w = (r, w') \<Longrightarrow> R w w'"
  by (metis keeps_def snd_conv)

lemma innerD:
  assumes "inner w w'"
  shows "win_scheduler w' = win_scheduler w" "win_pending w' = win_pending w"
    "win_workers w' = win_workers w" "win_milestones w' = win_milestones w"
    "active_jobs w' = active_jobs w" "active_telemetry w' = active_telemetry w"
    "last_wait_reasons w' = last_wait_reasons w" "admission_stopped w' = admission_stopped w"
    "workers_stopped w' = workers_stopped w" "win_selected w' = win_selected w"
    "win_completed w' = win_completed w" "win_warning w' = win_warning w"
    "win_blocked w' = win_blocked w" "win_failed w' = win_failed w"
    "win_cancelled w' = win_cancelled w" "win_contended w' = win_contended w"
    "peak_active w' = peak_active w" "win_phase w' = win_phase w"
    "store_inv (win_db w) \<Longrightarrow> store_inv (win_db w')"
proof -
  from assms have e: "w' = w\<lparr>win_db := win_db w', win_updates := win_updates w'\<rparr>"
    and s: "store_inv (win_db w) \<Longrightarrow> store_inv (win_db w')" by (simp_all add: inner_def)
  show "win_scheduler w' = win_scheduler w" by (subst e) simp
  show "win_pending w' = win_pending w" by (subst e) simp
  show "win_workers w' = win_workers w" by (subst e) simp
  show "win_milestones w' = win_milestones w" by (subst e) simp
  show "active_jobs w' = active_jobs w" by (subst e) simp
  show "active_telemetry w' = active_telemetry w" by (subst e) simp
  show "last_wait_reasons w' = last_wait_reasons w" by (subst e) simp
  show "admission_stopped w' = admission_stopped w" by (subst e) simp
  show "workers_stopped w' = workers_stopped w" by (subst e) simp
  show "win_selected w' = win_selected w" by (subst e) simp
  show "win_completed w' = win_completed w" by (subst e) simp
  show "win_warning w' = win_warning w" by (subst e) simp
  show "win_blocked w' = win_blocked w" by (subst e) simp
  show "win_failed w' = win_failed w" by (subst e) simp
  show "win_cancelled w' = win_cancelled w" by (subst e) simp
  show "win_contended w' = win_contended w" by (subst e) simp
  show "peak_active w' = peak_active w" by (subst e) simp
  show "win_phase w' = win_phase w" by (subst e) simp
  show "store_inv (win_db w')" if "store_inv (win_db w)" by (rule s) (rule that)
qed

lemma revalidate_Ready:
  "revalidate_plan E I rate details w = (Inr (Ready p), w') \<Longrightarrow>
   pq_job_id p = rec_id (jd_job details) \<and> pq_plan p = jd_plan details"
  by (auto simp: revalidate_plan_def Let_def st_bind_def st_return_def
      split: list.splits sum.splits prod.splits if_splits)

lemma prepare_Ready:
  "prepare_queued_job E I rate details w = (Inr (Ready p), w') \<Longrightarrow>
   pq_job_id p = rec_id (jd_job details) \<and> pq_plan p = jd_plan details"
  unfolding prepare_queued_job_def Let_def st_bind_def
  by (auto simp: st_return_def dest: revalidate_Ready
      split: option.splits sum.splits prod.splits if_splits)

section \<open>The scan\<close>

definition scanned :: "window \<Rightarrow> window \<Rightarrow> bool" where
  "scanned w w' \<longleftrightarrow> w' = w\<lparr>win_pending := win_pending w', win_scheduler := win_scheduler w',
     last_wait_reasons := last_wait_reasons w', win_updates := win_updates w'\<rparr>"

lemma scanned_trans: "scanned a b \<Longrightarrow> scanned b c \<Longrightarrow> scanned a c"
  unfolding scanned_def by (cases a, cases b, cases c) simp

lemma scanned_pending: "scanned w v \<Longrightarrow> scanned w (v\<lparr>win_pending := ps\<rparr>)"
  unfolding scanned_def by (cases w, cases v) simp

lemma scanned_refl: "scanned w w"
  by (simp add: scanned_def)

lemma emit_wait_reason_scanned:
  "scanned w (emit_wait_reason now job r w)" "win_pending (emit_wait_reason now job r w) = win_pending w"
  "win_scheduler (emit_wait_reason now job r w) = win_scheduler w"
  by (simp_all add: scanned_def emit_wait_reason_def emit_update_def)

lemma scan_pending_frame:
  "scan_pending now n w = (r, w') \<Longrightarrow> scanned w w'
    \<and> (case r of
         None \<Rightarrow> win_scheduler w' = win_scheduler w \<and> mset (win_pending w') = mset (win_pending w)
       | Some c \<Rightarrow> try_admit (pj_resources c) (win_scheduler w) = (True, win_scheduler w')
           \<and> mset (win_pending w) = add_mset c (mset (win_pending w')))"
proof (induction n arbitrary: w)
  case 0
  then show ?case by (auto simp: scanned_def)
next
  case (Suc n)
  show ?case
  proof (cases "win_pending w")
    case Nil
    with Suc.prems show ?thesis by (auto simp: scanned_def)
  next
    case (Cons c rest)
    obtain ok s where t: "try_admit (pj_resources c) (win_scheduler w) = (ok, s)"
      by (cases "try_admit (pj_resources c) (win_scheduler w)")
    show ?thesis
    proof (cases ok)
      case True
      with Suc.prems Cons t show ?thesis by (auto simp: scanned_def Let_def)
    next
      case False
      define w1 where "w1 = (case admission_blocker (win_scheduler w) (pj_resources c) of
          None \<Rightarrow> w
        | Some b \<Rightarrow> emit_wait_reason now (jd_job (pj_details c)) (queue_wait_reason b) w)
          \<lparr>win_pending := rest @ [c]\<rparr>"
      have rec: "scan_pending now n w1 = (r, w')"
        using Suc.prems Cons t False by (simp add: w1_def Let_def)
      have w1: "scanned w w1" "win_scheduler w1 = win_scheduler w"
        "mset (win_pending w1) = mset (win_pending w)"
        using Cons by (auto simp: w1_def emit_wait_reason_scanned scanned_pending scanned_refl
            split: option.split)
      from Suc.IH [OF rec] w1 show ?thesis by (auto intro: scanned_trans split: option.splits)
    qed
  qed
qed

text \<open>With no request held, the first pending one is admitted.\<close>

lemma request_fits_empty:
  assumes "sched_ok s" and "policy s = bounded cpus n" and "held_jobs s = {}"
  shows "fst (try_admit (request_for_plan j p) s)"
proof -
  have a: "active s = []" using assms(3) by (simp add: held_jobs_def)
  have i: "reserved_memory_bytes s = 0" "exclusivity_keys s = {}"
    using assms(1) a by (simp_all add: sched_ok_def sched_inv_def reserved_sum_def active_keys_def
        List.map_filter_def)
  define c where "c = rr_class (request_for_plan j p)"
  have mem: "memory_bytes (request_for_plan j p) = class_memory c"
    by (simp add: request_for_plan_def c_def split: prod.splits)
  have "class_memory c \<le> 1024 * mib" by (cases c) (simp_all add: mib_def)
  then have "\<not> memory_budget_bytes (bounded cpus n) < sat_add 0 (class_memory c)"
    by (simp add: bounded_def Let_def sat_add_def mib_def)
  moreover have "0 < max_processes (bounded cpus n)" "0 < class_limit (bounded cpus n) c"
    by (cases c; simp add: bounded_def Let_def class_limit_def clamp_def)+
  ultimately show ?thesis
    using a i assms(2) mem
    by (simp add: try_admit_def admission_blocker_def key_busy_def same_class_def c_def [symmetric]
        split: option.splits)
qed

lemma scan_pending_first:
  assumes "win_pending w = c # rest" and "fst (try_admit (pj_resources c) (win_scheduler w))"
    and "n > 0"
  shows "\<exists>w'. scan_pending now n w = (Some c, w')"
  using assms by (cases n; cases "try_admit (pj_resources c) (win_scheduler w)") (auto simp: Let_def)

section \<open>The invariant\<close>

definition counters :: "window \<Rightarrow> nat" where
  "counters w = win_completed w + win_warning w + win_blocked w + win_failed w
     + win_cancelled w + win_contended w"

abbreviation worker_ids :: "window \<Rightarrow> uuid set" where
  "worker_ids w \<equiv> pq_job_id ` set (win_workers w)"

definition window_base :: "nat \<Rightarrow> nat \<Rightarrow> window \<Rightarrow> bool" where
  "window_base cpus n w \<longleftrightarrow>
     store_inv (win_db w) \<and> bounded_ok cpus n (win_scheduler w)
     \<and> peak_active w \<le> max_processes (bounded cpus n) \<and> win_selected w \<le> 10000
     \<and> finite (active_jobs w)
     \<and> (\<forall>p \<in> set (win_pending w). pj_resources p =
          request_for_plan (rec_id (jd_job (pj_details p))) (jd_plan (pj_details p)))"

definition window_running :: "window \<Rightarrow> bool" where
  "window_running w \<longleftrightarrow>
     distinct (map pq_job_id (win_workers w)) \<and> worker_ids w = active_jobs w
     \<and> held_jobs (win_scheduler w) = active_jobs w
     \<and> counters w + length (win_pending w) + length (win_workers w) = win_selected w"

fun phase_ok :: "phase \<Rightarrow> window \<Rightarrow> bool" where
  "phase_ok LoopHead w = window_running w"
| "phase_ok Admitting w = window_running w"
| "phase_ok Admitted w =
     (window_running w \<and> (win_workers w = [] \<and> win_pending w \<noteq> [] \<longrightarrow> admission_stopped w))"
| "phase_ok Waiting w = (window_running w \<and> win_workers w \<noteq> [])"
| "phase_ok Finished w =
     (window_running w \<and> win_workers w = [] \<and> (win_pending w \<noteq> [] \<longrightarrow> admission_stopped w))"
| "phase_ok (Aborting e) w =
     (held_jobs (win_scheduler w) \<subseteq> active_jobs w \<and> worker_ids w \<subseteq> active_jobs w)"
| "phase_ok (Aborted e) w = (held_jobs (win_scheduler w) = {} \<and> win_workers w = [])"

definition window_ok :: "nat \<Rightarrow> nat \<Rightarrow> window \<Rightarrow> bool" where
  "window_ok cpus n w \<longleftrightarrow> window_base cpus n w \<and> phase_ok (win_phase w) w"

lemma inner_base: "inner w w' \<Longrightarrow> window_base cpus n w \<Longrightarrow> window_base cpus n w'"
  by (simp add: window_base_def innerD)

lemma inner_running: "inner w w' \<Longrightarrow> window_running w' \<longleftrightarrow> window_running w"
  by (simp add: window_running_def counters_def innerD)

lemma phase_ok_cong:
  assumes "win_scheduler w' = win_scheduler w" "win_pending w' = win_pending w"
    "win_workers w' = win_workers w" "active_jobs w' = active_jobs w" "counters w' = counters w"
    "win_selected w' = win_selected w" "admission_stopped w \<longrightarrow> admission_stopped w'"
  shows "phase_ok ph w \<Longrightarrow> phase_ok ph w'"
  using assms by (cases ph) (auto simp: window_running_def)

text \<open>What the scheduler's interface gives for the window.\<close>

lemma bounded_ok_admit: "bounded_ok cpus n s \<Longrightarrow> bounded_ok cpus n (snd (try_admit r s))"
  using adm.ok_admit by (auto simp: bounded_ok_def)

lemma bounded_ok_release: "bounded_ok cpus n s \<Longrightarrow> bounded_ok cpus n (snd (release j s))"
  using adm.ok_free by (auto simp: bounded_ok_def)

lemma held_release: "bounded_ok cpus n s \<Longrightarrow> held_jobs (snd (release j s)) = held_jobs s - {j}"
  by (rule adm.free_held) (simp add: bounded_ok_def)

lemma active_count_held:
  assumes "bounded_ok cpus n s"
  shows "active_count s = card (held_jobs s)" "active_count s \<le> max_processes (bounded cpus n)"
  using assms distinct_card [of "map rr_job_id (active s)"]
  by (auto simp: bounded_ok_def sched_ok_def sched_inv_def active_count_def held_jobs_def)

lemma bounded_positive: "0 < max_processes (bounded cpus n)"
  by (simp add: bounded_def Let_def clamp_def)

section \<open>Each step keeps the invariant\<close>

lemma sat_add_small: "a \<le> 10000 \<Longrightarrow> sat_add a (Suc 0) = Suc a"
  by (simp add: sat_add_exact u64_max_def)

lemma counters_small:
  assumes "counters w \<le> 10000"
  shows "sat_add (win_completed w) 1 = Suc (win_completed w)"
    "sat_add (win_warning w) 1 = Suc (win_warning w)" "sat_add (win_blocked w) 1 = Suc (win_blocked w)"
    "sat_add (win_failed w) 1 = Suc (win_failed w)" "sat_add (win_cancelled w) 1 = Suc (win_cancelled w)"
    "sat_add (win_contended w) 1 = Suc (win_contended w)"
  using assms by (simp_all add: sat_add_small counters_def)

lemma emit_waits_frame:
  "scanned w (emit_waits now r w) \<and> win_pending (emit_waits now r w) = win_pending w
   \<and> win_scheduler (emit_waits now r w) = win_scheduler w"
proof -
  have "scanned v (fold (\<lambda>p. emit_wait_reason now (jd_job (pj_details p)) r) ps v)
     \<and> win_pending (fold (\<lambda>p. emit_wait_reason now (jd_job (pj_details p)) r) ps v) = win_pending v
     \<and> win_scheduler (fold (\<lambda>p. emit_wait_reason now (jd_job (pj_details p)) r) ps v) = win_scheduler v"
    for ps v
    by (induction ps arbitrary: v)
       (simp_all add: scanned_refl emit_wait_reason_scanned,
        meson emit_wait_reason_scanned(1) scanned_trans)
  then show ?thesis by (simp add: emit_waits_def)
qed

lemma scannedD:
  assumes "scanned w w'"
  shows "win_db w' = win_db w" "win_workers w' = win_workers w" "active_jobs w' = active_jobs w"
    "admission_stopped w' = admission_stopped w" "win_selected w' = win_selected w"
    "counters w' = counters w" "peak_active w' = peak_active w" "win_phase w' = win_phase w"
    "win_milestones w' = win_milestones w"
  using assms unfolding scanned_def counters_def by (cases w; cases w'; simp)+

text \<open>A computation that ends, when it succeeds, with one change of the window.\<close>

definition ends_with :: "(window \<Rightarrow> window) \<Rightarrow> (window \<Rightarrow> ('e + unit) \<times> window) \<Rightarrow> bool" where
  "ends_with g m \<longleftrightarrow> (\<forall>w r w'. m w = (r, w') \<longrightarrow>
     (\<exists>v. inner w v \<and> w' = (case r of Inl _ \<Rightarrow> v | Inr _ \<Rightarrow> g v)))"

lemma ends_with_end: "ends_with g (\<lambda>w. (Inr (), g w))"
  by (auto simp: ends_with_def intro: inner_refl)

lemma ends_with_bind:
  assumes "keeps inner m" and "\<And>x. ends_with g (f x)"
  shows "ends_with g (st_bind m f)"
  unfolding ends_with_def
proof (intro allI impI)
  fix w r w' assume run: "st_bind m f w = (r, w')"
  obtain x u where m: "m w = (x, u)" by (cases "m w")
  then have u: "inner w u" by (rule keeps_apply [OF assms(1)])
  show "\<exists>v. inner w v \<and> w' = (case r of Inl _ \<Rightarrow> v | Inr _ \<Rightarrow> g v)"
  proof (cases x)
    case (Inl e)
    then show ?thesis using run m u by (auto simp: st_bind_def)
  next
    case (Inr y)
    then have "f y u = (r, w')" using run m by (simp add: st_bind_def)
    then show ?thesis using assms(2) u inner_trans unfolding ends_with_def by meson
  qed
qed

lemma inner_telemetry: "keeps inner (record_telemetry E j rep)"
  using inner_store [OF store_inv_sample] inner_refl
  by (auto simp: record_telemetry_def keeps_def split: option.split)

lemma settle_report_ends:
  "ends_with (count_status (report_status rep)) (settle_report E j rep seen)"
  unfolding settle_report_def
  by (intro ends_with_bind ends_with_end inner_telemetry inner_mark_and_report inner_move inner_fail)

definition counts_one :: "(window \<Rightarrow> window) \<Rightarrow> bool" where
  "counts_one g \<longleftrightarrow> (\<forall>w. (counters w \<le> 10000 \<longrightarrow> counters (g w) = Suc (counters w))
     \<and> win_db (g w) = win_db w \<and> win_scheduler (g w) = win_scheduler w
     \<and> win_pending (g w) = win_pending w \<and> win_workers (g w) = win_workers w
     \<and> active_jobs (g w) = active_jobs w \<and> win_selected (g w) = win_selected w
     \<and> win_milestones (g w) = win_milestones w
     \<and> peak_active (g w) = peak_active w \<and> admission_stopped (g w) = admission_stopped w)"

lemma counts_one_each:
  "counts_one (\<lambda>w. w\<lparr>win_blocked := sat_add (win_blocked w) 1\<rparr>)"
  "counts_one (\<lambda>w. w\<lparr>win_failed := sat_add (win_failed w) 1\<rparr>)"
  "counts_one (\<lambda>w. w\<lparr>win_cancelled := sat_add (win_cancelled w) 1\<rparr>)"
  "counts_one (\<lambda>w. w\<lparr>win_contended := sat_add (win_contended w) 1\<rparr>)"
  "counts_one (count_status s)"
  by (auto simp: counts_one_def counters_def sat_add_small) (cases s; simp add: sat_add_small)+

definition settle_result ::
    "store_env \<Rightarrow> uuid \<Rightarrow> anole_error + validation_report \<Rightarrow> anole_error + unit
     \<Rightarrow> window \<Rightarrow> (anole_error + unit) \<times> window" where
  "settle_result E j result seen w =
     (case result of Inr rep \<Rightarrow> settle_report E j rep seen w | Inl e \<Rightarrow> settle_error E j e w)"

lemma settle_result_ends:
  assumes "settle_result E j result seen w = (r, w')"
  shows "\<exists>g v. counts_one g \<and> inner w v \<and> w' = (case r of Inl _ \<Rightarrow> v | Inr _ \<Rightarrow> g v)"
proof (cases result)
  case (Inr rep)
  then have "settle_report E j rep seen w = (r, w')" using assms by (simp add: settle_result_def)
  then obtain v where "inner w v"
    "w' = (case r of Inl _ \<Rightarrow> v | Inr _ \<Rightarrow> count_status (report_status rep) v)"
    using settle_report_ends unfolding ends_with_def by blast
  then show ?thesis using counts_one_each(5) by blast
next
  case (Inl e)
  then have run: "settle_error E j e w = (r, w')" using assms by (simp add: settle_result_def)
  have ends: "\<exists>g v. counts_one g \<and> inner w v \<and> w' = (case r of Inl _ \<Rightarrow> v | Inr _ \<Rightarrow> g v)"
    if "counts_one g" "keeps inner m" "st_bind m (\<lambda>_ w. (Inr (), g w)) w = (r, w')"
    for g and m :: "window \<Rightarrow> (anole_error + unit) \<times> window"
    using ends_with_bind [OF that(2) ends_with_end] that(1,3) unfolding ends_with_def by blast
  show ?thesis
  proof (cases "code e = Cancelled_code")
    case True
    have "keeps inner (if workers_stopped w then move_and_report E None j Interrupted ''QUEUE_PAUSED_IMMEDIATE''
        else move_and_report E None j Cancelled ''QUEUE_CANCELLED'')"
      by (simp add: inner_move)
    with counts_one_each(3) show ?thesis
      by (rule ends) (use run True in \<open>simp only: settle_error_def if_True refl\<close>)
  next
    case False
    from counts_one_each(2) inner_move show ?thesis
      by (rule ends) (use run False in \<open>simp only: settle_error_def if_False\<close>)
  qed
qed

lemma length_delete_row:
  "distinct (map key t) \<Longrightarrow> k \<in> key ` set t \<Longrightarrow>
   length t = Suc (length (delete_rows (\<lambda>r. key r = k) t))"
proof (induction t)
  case (Cons x t)
  have "delete_rows (\<lambda>r. key r = key x) t = t"
    using Cons.prems(1) by (auto simp: delete_rows_def filter_id_conv) (metis image_eqI)
  with Cons show ?case by (auto simp: delete_rows_def)
qed simp

lemma leave_simps [simp]:
  "win_workers (leave j w) = delete_rows (\<lambda>p. pq_job_id p = j) (win_workers w)"
  "win_scheduler (leave j w) = win_scheduler w" "win_db (leave j w) = win_db w"
  "win_pending (leave j w) = win_pending w" "active_jobs (leave j w) = active_jobs w"
  "win_milestones (leave j w) = win_milestones w" "counters (leave j w) = counters w"
  "win_selected (leave j w) = win_selected w" "peak_active (leave j w) = peak_active w"
  "admission_stopped (leave j w) = admission_stopped w"
  by (simp_all add: leave_def counters_def)

lemma counters_frame [simp]:
  "counters (w\<lparr>win_scheduler := s\<rparr>) = counters w" "counters (w\<lparr>active_jobs := a\<rparr>) = counters w"
  "counters (w\<lparr>active_telemetry := t\<rparr>) = counters w" "counters (w\<lparr>win_pending := ps\<rparr>) = counters w"
  "counters (w\<lparr>win_workers := ws\<rparr>) = counters w" "counters (w\<lparr>win_phase := ph\<rparr>) = counters w"
  "counters (w\<lparr>win_milestones := ms\<rparr>) = counters w" "counters (w\<lparr>win_db := d\<rparr>) = counters w"
  "counters (w\<lparr>peak_active := m\<rparr>) = counters w"
  "counters (w\<lparr>admission_stopped := b\<rparr>) = counters w"
  "counters (w\<lparr>workers_stopped := b\<rparr>) = counters w"
  "counters (w\<lparr>last_wait_reasons := l\<rparr>) = counters w"
  by (simp_all add: counters_def)

text \<open>Taking an outcome: the worker has left, its job is released.\<close>

lemma settle_outcome_ok:
  assumes ok: "window_base cpus n w" "window_running w" and mem: "j \<in> worker_ids w"
    and run: "settle_outcome E j result seen (leave j w) = (r, w')"
  shows "window_base cpus n w' \<and> (case r of
      Inl _ \<Rightarrow> held_jobs (win_scheduler w') \<subseteq> active_jobs w' \<and> worker_ids w' \<subseteq> active_jobs w'
    | Inr _ \<Rightarrow> window_running w' \<and> length (win_workers w) = Suc (length (win_workers w')))
    \<and> win_pending w' = win_pending w \<and> win_milestones w' = win_milestones w
    \<and> length (win_workers w') < length (win_workers w)"
proof -
  define u where "u = (leave j w)\<lparr>win_scheduler := snd (release j (win_scheduler (leave j w)))\<rparr>"
  have out: "settle_outcome E j result seen (leave j w) = (case settle_result E j result seen u of
      (Inl e, w2) \<Rightarrow> (Inl e, w2)
    | (Inr _, w2) \<Rightarrow> (Inr (), w2\<lparr>active_jobs := active_jobs w2 - {j},
                              active_telemetry := (active_telemetry w2)(j := None)\<rparr>))"
    by (simp add: settle_outcome_def settle_result_def u_def Let_def)
  obtain r1 w1 where s: "settle_result E j result seen u = (r1, w1)"
    by (cases "settle_result E j result seen u")
  then obtain g v where gv: "counts_one g" "inner u v" "w1 = (case r1 of Inl _ \<Rightarrow> v | Inr _ \<Rightarrow> g v)"
    using settle_result_ends by blast
  have u: "window_base cpus n u" "held_jobs (win_scheduler u) = active_jobs w - {j}"
    "active_jobs u = active_jobs w" "worker_ids u = active_jobs w - {j}"
    "length (win_workers w) = Suc (length (win_workers u))"
    "distinct (map pq_job_id (win_workers u))" "win_pending u = win_pending w"
    "counters u = counters w" "win_selected u = win_selected w" "win_milestones u = win_milestones w"
    using ok mem held_release [of cpus n "win_scheduler w" j] length_delete_row [of pq_job_id "win_workers w" j]
    by (auto simp: u_def window_base_def window_running_def bounded_ok_release distinct_map_delete_rows)
  have v: "window_base cpus n v" "win_scheduler v = win_scheduler u" "active_jobs v = active_jobs u"
    "win_workers v = win_workers u" "win_pending v = win_pending u" "counters v = counters u"
    "win_selected v = win_selected u" "win_milestones v = win_milestones u"
    using inner_base [OF gv(2) u(1)] innerD [OF gv(2)] by (simp_all add: counters_def)
  show ?thesis
  proof (cases r1)
    case (Inl e)
    then have "r = Inl e" "w' = v"
      using run s gv(3) by (simp_all add: out)
    then show ?thesis using u v by auto
  next
    case (Inr x)
    then have r: "r = Inr ()" and w': "w' = (g v)\<lparr>active_jobs := active_jobs (g v) - {j},
        active_telemetry := (active_telemetry (g v))(j := None)\<rparr>"
      using run s gv(3) by (simp_all add: out)
    have "counters w \<le> 10000" using ok by (simp add: window_base_def window_running_def)
    then have g: "counters (g v) = Suc (counters w)" "win_db (g v) = win_db v"
      "win_scheduler (g v) = win_scheduler v" "win_pending (g v) = win_pending v"
      "win_workers (g v) = win_workers v" "active_jobs (g v) = active_jobs v"
      "win_selected (g v) = win_selected v" "peak_active (g v) = peak_active v"
      "win_milestones (g v) = win_milestones v"
      using gv(1) u v unfolding counts_one_def by simp_all
    then show ?thesis using u v ok r w'
      by (auto simp: window_base_def window_running_def)
  qed
qed

text \<open>Admitting the next job that fits.\<close>

lemma scan_admits:
  assumes ok: "window_base cpus n w" "window_running w"
    and scan: "scan_pending now (length (win_pending w)) w = (Some c, w1)"
  defines "j \<equiv> rec_id (jd_job (pj_details c))"
  defines "w2 \<equiv> w1\<lparr>active_jobs := insert j (active_jobs w1)\<rparr>"
  shows "window_base cpus n w2" "j \<notin> worker_ids w2" "active_jobs w2 = insert j (worker_ids w2)"
    "held_jobs (win_scheduler w2) = active_jobs w2" "win_workers w2 = win_workers w"
    "counters w2 = counters w" "win_selected w2 = win_selected w" "win_milestones w2 = win_milestones w"
    "length (win_pending w) = Suc (length (win_pending w2))" "win_phase w2 = win_phase w"
proof -
  have fr: "scanned w w1" and adm: "try_admit (pj_resources c) (win_scheduler w) = (True, win_scheduler w1)"
    and ps: "mset (win_pending w) = add_mset c (mset (win_pending w1))"
    using scan_pending_frame [OF scan] by auto
  note eq = scannedD [OF fr]
  have "c \<in> set (win_pending w)" using ps by (metis set_mset_mset union_single_eq_member)
  then have "rr_job_id (pj_resources c) = j"
    using ok(1) by (auto simp: window_base_def j_def request_for_plan_def split: prod.splits)
  then have h: "held_jobs (win_scheduler w1) = insert j (held_jobs (win_scheduler w))"
    "j \<notin> held_jobs (win_scheduler w)"
    using adm.admit_held [of "win_scheduler w" "pj_resources c"]
      adm.admit_new [of "win_scheduler w" "pj_resources c"] ok(1) adm
    by (auto simp: window_base_def bounded_ok_def)
  have sub: "set (win_pending w1) \<subseteq> set (win_pending w)"
    using ps by (metis mset_subset_eq_add_right add_mset_add_single set_mset_mset set_mset_mono
        union_commute)
  have "bounded_ok cpus n (win_scheduler w1)"
    using bounded_ok_admit [of cpus n "win_scheduler w" "pj_resources c"] ok(1) adm
    by (simp add: window_base_def)
  with ok(1) sub show "window_base cpus n w2"
    by (auto simp: window_base_def w2_def eq)
  show "j \<notin> worker_ids w2" "active_jobs w2 = insert j (worker_ids w2)"
    "held_jobs (win_scheduler w2) = active_jobs w2" "win_workers w2 = win_workers w"
    "counters w2 = counters w" "win_selected w2 = win_selected w" "win_phase w2 = win_phase w"
    "win_milestones w2 = win_milestones w"
    using h ok(2) by (auto simp: window_running_def w2_def eq)
  show "length (win_pending w) = Suc (length (win_pending w2))"
    using arg_cong [OF ps, of size] by (simp add: w2_def)
qed

lemma scan_refuses:
  assumes ok: "window_base cpus n w" "window_running w" and "win_pending w \<noteq> []"
    and scan: "scan_pending now (length (win_pending w)) w = (None, w1)"
  shows "win_workers w \<noteq> []"
proof
  assume none: "win_workers w = []"
  obtain c rest where c: "win_pending w = c # rest" using assms(3) by (cases "win_pending w") auto
  have "pj_resources c = request_for_plan (rec_id (jd_job (pj_details c))) (jd_plan (pj_details c))"
    using ok(1) c by (simp add: window_base_def)
  moreover have "held_jobs (win_scheduler w) = {}" using ok(2) none by (simp add: window_running_def)
  ultimately have "fst (try_admit (pj_resources c) (win_scheduler w))"
    using ok(1) request_fits_empty by (auto simp: window_base_def bounded_ok_def)
  from scan_pending_first [OF c this, of "length (win_pending w)" now] show False
    using scan c by simp
qed

lemma admit_next_ok:
  fixes E :: store_env and I :: inspectors
  assumes ok: "window_base cpus n w" "window_running w" and "win_pending w \<noteq> []"
    and phase: "win_phase w = Admitting"
  defines "w' \<equiv> admit_next E I w"
  shows "window_base cpus n w' \<and> win_milestones w' = win_milestones w \<and>
    (win_phase w' = Admitted \<and> window_running w' \<and> win_workers w' \<noteq> []
       \<and> length (win_pending w') = length (win_pending w) \<and> win_workers w' = win_workers w
     \<or> win_phase w' = Admitting \<and> window_running w'
       \<and> length (win_pending w) = Suc (length (win_pending w'))
       \<and> length (win_workers w') \<le> Suc (length (win_workers w))
     \<or> (\<exists>e. win_phase w' = Aborting e) \<and> held_jobs (win_scheduler w') \<subseteq> active_jobs w'
       \<and> worker_ids w' \<subseteq> active_jobs w' \<and> win_workers w' = win_workers w
       \<and> length (win_pending w) = Suc (length (win_pending w')))"
proof (cases "scan_pending (env_now E) (length (win_pending w)) w")
  case (Pair found w1)
  note scan = Pair
  show ?thesis
  proof (cases found)
    case None
    then have fr: "scanned w w1" "win_scheduler w1 = win_scheduler w"
      "mset (win_pending w1) = mset (win_pending w)"
      using scan_pending_frame [OF scan] by auto
    have w': "w' = w1\<lparr>win_phase := Admitted\<rparr>" using scan None by (simp add: w'_def admit_next_def)
    have "win_workers w \<noteq> []" using scan_refuses [OF ok assms(3)] scan None by blast
    moreover have "set (win_pending w1) = set (win_pending w)"
      "length (win_pending w1) = length (win_pending w)"
      using fr(3) by (auto dest: mset_eq_setD mset_eq_length)
    ultimately show ?thesis using ok fr(2) scannedD [OF fr(1)]
      by (simp add: w' window_base_def window_running_def)
  next
    case (Some c)
    define j where "j = rec_id (jd_job (pj_details c))"
    define w2 where "w2 = w1\<lparr>active_jobs := insert j (active_jobs w1)\<rparr>"
    define rate where "rate = measured_rate (jd_plan (pj_details c)) (win_db w1)"
    note s = scan_admits [OF ok, OF scan [unfolded Some], folded j_def, folded w2_def]
    obtain r w3 where prep: "prepare_queued_job E I rate (pj_details c) w2 = (r, w3)"
      by (cases "prepare_queued_job E I rate (pj_details c) w2")
    have inn: "inner w2 w3" by (rule keeps_apply [OF inner_prepare prep])
    note i = innerD [OF inn]
    have base3: "window_base cpus n w3" by (rule inner_base [OF inn s(1)])
    have w': "w' = (case (r, w3) of
         (Inl e, w3) \<Rightarrow> w3\<lparr>win_phase := Aborting e\<rparr>
       | (Inr (Ready p), w3) \<Rightarrow> spawn_worker (env_now E) p w3
       | (Inr PrepBlocked, w3) \<Rightarrow> drop_job j (w3\<lparr>win_blocked := sat_add (win_blocked w3) 1\<rparr>)
       | (Inr PrepFailed, w3) \<Rightarrow> drop_job j (w3\<lparr>win_failed := sat_add (win_failed w3) 1\<rparr>)
       | (Inr PrepContended, w3) \<Rightarrow> drop_job j (w3\<lparr>win_contended := sat_add (win_contended w3) 1\<rparr>))"
      using scan Some prep
      by (simp add: w'_def admit_next_def j_def [symmetric] w2_def [symmetric] rate_def [symmetric] Let_def)
    have small: "counters w3 \<le> 10000"
      using ok s(6) i by (simp add: window_base_def window_running_def counters_def)
    have dropped: ?thesis if g: "counts_one g" and "w' = drop_job j (g w3)"
        "win_phase (g w3) = win_phase w3" for g
    proof -
      have "counters (g w3) = Suc (counters w)" "win_db (g w3) = win_db w3"
        "win_scheduler (g w3) = win_scheduler w2" "win_pending (g w3) = win_pending w2"
        "win_workers (g w3) = win_workers w2" "active_jobs (g w3) = active_jobs w2"
        "win_selected (g w3) = win_selected w2" "peak_active (g w3) = peak_active w3"
        "win_milestones (g w3) = win_milestones w2"
        using g small s(6) i unfolding counts_one_def by (simp_all add: counters_def)
      then show ?thesis
        using that(2,3) ok base3 s i phase
          held_release [of cpus n "win_scheduler w2" j] bounded_ok_release [of cpus n "win_scheduler w2" j]
        by (simp add: drop_job_def window_base_def window_running_def)
    qed
    show ?thesis
    proof (cases r)
      case (Inl e)
      then show ?thesis using w' s base3 i by (auto simp: window_base_def)
    next
      case (Inr prepared)
      show ?thesis
      proof (cases prepared)
        case PrepBlocked
        then show ?thesis using w' Inr dropped [OF counts_one_each(1)] by simp
      next
        case PrepFailed
        then show ?thesis using w' Inr dropped [OF counts_one_each(2)] by simp
      next
        case PrepContended
        then show ?thesis using w' Inr dropped [OF counts_one_each(4)] by simp
      next
        case (Ready p)
        then have p: "pq_job_id p = j" using prep Inr prepare_Ready by (auto simp: j_def)
        have "active_count (win_scheduler w2) \<le> max_processes (bounded cpus n)"
          using s(1) active_count_held(2) by (auto simp: window_base_def)
        moreover have "distinct (map pq_job_id (win_workers w2))"
          using ok(2) s(5) by (simp add: window_running_def)
        moreover have "w' = spawn_worker (env_now E) p w3" using w' Inr Ready by simp
        ultimately show ?thesis
          using ok(2) base3 s i phase p
          by (auto simp: spawn_worker_def Let_def window_base_def window_running_def counters_def)
      qed
    qed
  qed
qed

text \<open>Giving up.\<close>

lemma abort_one_frame:
  "store_inv (win_db w) \<Longrightarrow> store_inv (win_db (abort_one E j w))"
  "win_scheduler (abort_one E j w) = snd (release j (win_scheduler w))"
  "win_pending (abort_one E j w) = win_pending w" "win_workers (abort_one E j w) = win_workers w"
  "active_jobs (abort_one E j w) = active_jobs w" "win_milestones (abort_one E j w) = win_milestones w"
  "win_selected (abort_one E j w) = win_selected w" "peak_active (abort_one E j w) = peak_active w"
  using store_inv_transition [of "win_db w" E j Interrupted "''CONTROL_PLANE_FAILED''"]
    store_inv_transition [of "win_db w" E j Failed "''CONTROL_PLANE_FAILED''"]
  by (simp_all add: abort_one_def on_store_def Let_def case_prod_beta split: sum.split option.split)

lemma abort_fold:
  assumes "store_inv (win_db w)" and "bounded_ok cpus n (win_scheduler w)"
  shows "store_inv (win_db (fold (abort_one E) js w))
    \<and> bounded_ok cpus n (win_scheduler (fold (abort_one E) js w))
    \<and> held_jobs (win_scheduler (fold (abort_one E) js w)) = held_jobs (win_scheduler w) - set js
    \<and> win_pending (fold (abort_one E) js w) = win_pending w
    \<and> win_workers (fold (abort_one E) js w) = win_workers w
    \<and> active_jobs (fold (abort_one E) js w) = active_jobs w
    \<and> win_milestones (fold (abort_one E) js w) = win_milestones w
    \<and> win_selected (fold (abort_one E) js w) = win_selected w
    \<and> peak_active (fold (abort_one E) js w) = peak_active w"
  using assms
proof (induction js arbitrary: w)
  case (Cons j js)
  have "store_inv (win_db (abort_one E j w))" "bounded_ok cpus n (win_scheduler (abort_one E j w))"
    using Cons.prems by (simp_all add: abort_one_frame bounded_ok_release)
  from Cons.IH [OF this] show ?case
    using held_release [OF Cons.prems(2)] by (auto simp: abort_one_frame)
qed simp

lemma release_fold:
  "bounded_ok cpus n s \<Longrightarrow> bounded_ok cpus n (fold (\<lambda>j s. snd (release j s)) js s)
     \<and> held_jobs (fold (\<lambda>j s. snd (release j s)) js s) = held_jobs s - set js"
  by (induction js arbitrary: s) (auto simp: bounded_ok_release held_release)

lemma abort_window_ok:
  fixes E :: store_env and joined :: "uuid list"
  assumes "window_base cpus n w" and "held_jobs (win_scheduler w) \<subseteq> set order"
  defines "w' \<equiv> abort_active_window E joined order w"
  shows "window_base cpus n w'" "held_jobs (win_scheduler w') = {}" "win_workers w' = []"
    "win_pending w' = win_pending w" "win_milestones w' = win_milestones w"
proof -
  define u where "u = w\<lparr>admission_stopped := True, workers_stopped := True, win_workers := [],
    win_scheduler := fold (\<lambda>j s. snd (release j s)) joined (win_scheduler w)\<rparr>"
  have w': "w' = fold (abort_one E) order u" by (simp add: w'_def abort_active_window_def u_def)
  have "store_inv (win_db u)" "bounded_ok cpus n (win_scheduler u)"
    "held_jobs (win_scheduler u) = held_jobs (win_scheduler w) - set joined"
    using assms(1) release_fold [of cpus n "win_scheduler w" joined]
    by (simp_all add: u_def window_base_def)
  with abort_fold [of u cpus n E order, folded w'] assms(1,2)
  show "window_base cpus n w'" "held_jobs (win_scheduler w') = {}" "win_workers w' = []"
    "win_pending w' = win_pending w" "win_milestones w' = win_milestones w"
    by (auto simp: window_base_def u_def)
qed

section \<open>The steps keep the invariant and use up a budget\<close>

fun phase_rank :: "phase \<Rightarrow> nat" where
  "phase_rank LoopHead = 4"
| "phase_rank Admitting = 3"
| "phase_rank Admitted = 2"
| "phase_rank Waiting = 1"
| "phase_rank Finished = 0"
| "phase_rank (Aborting e) = 1"
| "phase_rank (Aborted e) = 0"

definition budget :: "window \<Rightarrow> nat" where
  "budget w = 8 * length (win_pending w) + 4 * length (win_workers w)
     + 4 * length (win_milestones w) + phase_rank (win_phase w)"

lemma window_base_cong:
  assumes "win_db w' = win_db w" "win_scheduler w' = win_scheduler w" "peak_active w' = peak_active w"
    "win_selected w' = win_selected w" "active_jobs w' = active_jobs w"
    "win_pending w' = win_pending w"
  shows "window_base cpus n w' \<longleftrightarrow> window_base cpus n w"
  using assms by (simp add: window_base_def)

lemma window_running_cong:
  assumes "win_workers w' = win_workers w" "win_scheduler w' = win_scheduler w"
    "win_selected w' = win_selected w" "active_jobs w' = active_jobs w"
    "win_pending w' = win_pending w" "counters w' = counters w"
  shows "window_running w' \<longleftrightarrow> window_running w"
  using assms by (simp add: window_running_def)

lemma emit_waits_ok:
  "window_base cpus n (emit_waits now r w) \<longleftrightarrow> window_base cpus n w"
  "window_running (emit_waits now r w) \<longleftrightarrow> window_running w"
  "win_workers (emit_waits now r w) = win_workers w" "win_pending (emit_waits now r w) = win_pending w"
  "win_milestones (emit_waits now r w) = win_milestones w"
  "admission_stopped (emit_waits now r w) = admission_stopped w"
  using emit_waits_frame [of w now r] scannedD [of w "emit_waits now r w"]
  by (simp_all add: window_base_def window_running_def)

lemma window_phase [simp]:
  "window_base cpus n (w\<lparr>win_phase := ph\<rparr>) = window_base cpus n w"
  "window_running (w\<lparr>win_phase := ph\<rparr>) = window_running w"
  by (simp_all add: window_base_def window_running_def)

lemma proceed_ok:
  assumes ok: "window_ok cpus n w" and step: "proceed E I (win_phase w) w = Some w'"
  shows "window_ok cpus n w' \<and> budget w' < budget w"
proof (cases "win_phase w")
  case LoopHead
  then show ?thesis using ok step
    by (auto simp: window_ok_def budget_def emit_waits_ok)
next
  case Admitting
  have pol: "policy (win_scheduler w) = bounded cpus n"
    using ok by (simp add: window_ok_def window_base_def bounded_ok_def)
  show ?thesis
  proof (cases "\<not> admission_stopped w \<and> active_count (win_scheduler w) < max_processes (bounded cpus n)
      \<and> win_pending w \<noteq> []")
    case True
    then have "w' = admit_next E I w" using step Admitting pol by simp
    with admit_next_ok [of cpus n w E I] ok Admitting True show ?thesis
      by (auto simp: window_ok_def budget_def)
  next
    case False
    then have w': "w' = w\<lparr>win_phase := Admitted\<rparr>" using step Admitting pol by auto
    have "admission_stopped w \<or> win_pending w = []" if "win_workers w = []"
    proof -
      have "held_jobs (win_scheduler w) = {}" using that ok Admitting
        by (simp add: window_ok_def window_running_def)
      then have "active_count (win_scheduler w) = 0"
        using ok active_count_held(1) by (auto simp: window_ok_def window_base_def)
      then show ?thesis using False bounded_positive by metis
    qed
    then show ?thesis using ok Admitting by (auto simp: w' window_ok_def budget_def)
  qed
next
  case Admitted
  then show ?thesis using ok step
    by (auto simp: window_ok_def budget_def emit_waits_ok Let_def split: if_splits)
qed (use step in simp_all)

text \<open>The steps the window takes itself, and the milestones its workers send.\<close>

fun own_step :: "window_event \<Rightarrow> bool" where
  "own_step (Proceed E I) = True"
| "own_step (TakeMilestone E) = True"
| "own_step (TakeOutcome E j r seen) = True"
| "own_step (WorkerPanicked j) = True"
| "own_step (Abort E joined order) = True"
| "own_step _ = False"

fun sends_milestone :: "window_event \<Rightarrow> bool" where
  "sends_milestone (EngineFinished j) = True"
| "sends_milestone _ = False"

lemma worker_of_mem: "worker_of j w = Some p \<Longrightarrow> p \<in> set (win_workers w) \<and> pq_job_id p = j"
  unfolding worker_of_def by (rule lookup_row_SomeD)

lemma next_phase_simps:
  "next_phase (Inl e, w) = w\<lparr>win_phase := Aborting e\<rparr>"
  "next_phase (Inr x, w) = w\<lparr>win_phase := LoopHead\<rparr>"
  by (simp_all add: next_phase_def)

lemma milestone_ok:
  assumes ok: "window_ok cpus n w" and ph: "win_phase w = Waiting" and ms: "win_milestones w = j # ms"
    and w': "w' = next_phase (mark_and_report E j (w\<lparr>win_milestones := ms\<rparr>))"
  shows "window_ok cpus n w' \<and> budget w' < budget w"
proof -
  define u where "u = w\<lparr>win_milestones := ms\<rparr>"
  obtain r v where run: "mark_and_report E j u = (r, v)" by (cases "mark_and_report E j u")
  have inn: "inner u v" by (rule keeps_apply [OF inner_mark_and_report run])
  have u: "window_base cpus n u" "window_running u"
    using ok ph by (auto simp: window_ok_def window_base_def window_running_def u_def)
  have v: "window_base cpus n v" "window_running v" "win_milestones v = ms"
    "win_pending v = win_pending w" "win_workers v = win_workers w"
    using inner_base [OF inn u(1)] inner_running [OF inn] u(2) innerD [OF inn] by (simp_all add: u_def)
  show ?thesis
    using v run w' ph ms
    by (cases r) (auto simp: u_def [symmetric] next_phase_simps window_ok_def budget_def
        window_running_def)
qed

lemma outcome_ok:
  assumes ok: "window_ok cpus n w" and ph: "win_phase w = Waiting" and p: "worker_of j w = Some p"
    and w': "w' = next_phase (settle_outcome E j result seen (leave j w))"
  shows "window_ok cpus n w' \<and> budget w' < budget w"
proof -
  obtain r v where run: "settle_outcome E j result seen (leave j w) = (r, v)"
    by (cases "settle_outcome E j result seen (leave j w)")
  have "window_base cpus n w" "window_running w" "j \<in> worker_ids w"
    using ok ph worker_of_mem [OF p] by (auto simp: window_ok_def)
  from settle_outcome_ok [OF this run] show ?thesis
    using run w' ph by (cases r) (auto simp: next_phase_simps window_ok_def budget_def)
qed

lemma window_step_ok:
  assumes ok: "window_ok cpus n w" and step: "window_step w ev = Some w'"
  shows "window_ok cpus n w' \<and>
    budget w' + (if own_step ev then 1 else 0) \<le> budget w + (if sends_milestone ev then 4 else 0)"
proof (cases ev)
  case PauseFinishCurrent
  with step have w': "w' = w\<lparr>admission_stopped := True\<rparr>" by simp
  have "window_base cpus n w'" using ok by (simp add: w' window_ok_def window_base_def)
  moreover have "phase_ok (win_phase w) w'"
    by (rule phase_ok_cong [of w' w]) (use ok in \<open>simp_all add: w' window_ok_def\<close>)
  ultimately show ?thesis using PauseFinishCurrent by (simp add: w' window_ok_def budget_def)
next
  case PauseImmediate
  with step have w': "w' = w\<lparr>admission_stopped := True, workers_stopped := True\<rparr>" by simp
  have "window_base cpus n w'" using ok by (simp add: w' window_ok_def window_base_def)
  moreover have "phase_ok (win_phase w) w'"
    by (rule phase_ok_cong [of w' w]) (use ok in \<open>simp_all add: w' window_ok_def\<close>)
  ultimately show ?thesis using PauseImmediate by (simp add: w' window_ok_def budget_def)
next
  case (Elsewhere c)
  with step have w': "w' = w\<lparr>win_db := run_command (win_db w) c\<rparr>" by simp
  have "window_base cpus n w'" using ok store.inv_step by (auto simp: w' window_ok_def window_base_def)
  moreover have "phase_ok (win_phase w) w'"
    by (rule phase_ok_cong [of w' w]) (use ok in \<open>simp_all add: w' window_ok_def\<close>)
  ultimately show ?thesis using Elsewhere by (simp add: w' window_ok_def budget_def)
next
  case (EngineFinished j)
  with step have w': "w' = w\<lparr>win_milestones := win_milestones w @ [j]\<rparr>"
    by (auto split: option.splits if_splits)
  have "window_base cpus n w'" using ok by (simp add: w' window_ok_def window_base_def)
  moreover have "phase_ok (win_phase w) w'"
    by (rule phase_ok_cong [of w' w]) (use ok in \<open>simp_all add: w' window_ok_def\<close>)
  ultimately show ?thesis using EngineFinished by (simp add: w' window_ok_def budget_def)
next
  case (Proceed E I)
  with step proceed_ok [OF ok] show ?thesis by (simp add: Suc_le_eq)
next
  case (TakeMilestone E)
  with step obtain j ms where "win_milestones w = j # ms" "win_phase w = Waiting"
    "w' = next_phase (mark_and_report E j (w\<lparr>win_milestones := ms\<rparr>))"
    by (auto split: list.splits if_splits)
  with milestone_ok [OF ok] TakeMilestone show ?thesis by (simp add: Suc_le_eq)
next
  case (TakeOutcome E j result seen)
  with step obtain p where "worker_of j w = Some p" "win_phase w = Waiting"
    "w' = next_phase (settle_outcome E j result seen (leave j w))"
    by (auto split: option.splits if_splits)
  with outcome_ok [OF ok] TakeOutcome show ?thesis by (simp add: Suc_le_eq)
next
  case (WorkerPanicked j)
  with step obtain p where p: "worker_of j w = Some p" and ph: "win_phase w = Waiting"
    and w': "w' = (leave j w)\<lparr>win_phase := Aborting err_worker_stopped\<rparr>"
    by (auto split: option.splits if_splits)
  have run: "window_running w" using ok ph by (simp add: window_ok_def)
  have "j \<in> worker_ids w" using worker_of_mem [OF p] by auto
  then have "length (win_workers w) = Suc (length (win_workers w'))"
    using length_delete_row [of pq_job_id "win_workers w" j] run
    by (simp add: window_running_def w')
  moreover have "window_base cpus n w'"
    using ok by (simp add: window_ok_def window_base_def w')
  ultimately show ?thesis using run ph WorkerPanicked
    by (auto simp: window_ok_def budget_def window_running_def w')
next
  case (Abort E joined order)
  with step obtain e where ph: "win_phase w = Aborting e" and order: "set order = active_jobs w"
    and w': "w' = (abort_active_window E joined order w)\<lparr>win_phase := Aborted e\<rparr>"
    by (auto split: phase.splits if_splits)
  have "window_base cpus n w" "held_jobs (win_scheduler w) \<subseteq> set order"
    using ok ph order by (simp_all add: window_ok_def)
  from abort_window_ok [OF this, of E joined] show ?thesis
    using ph Abort by (simp add: window_ok_def budget_def w')
qed

end
