(* ===== verification/Queue_Window_Run.thy ===== *)
theory Queue_Window_Run
  imports Queue_Window_Safety Job_Store_Demo
begin

text \<open>
  What every run of a queue window satisfies: its accounting, its end, what it gives back when
  it is given up, and what has been checked before a worker starts.
\<close>

section \<open>The start\<close>

lemma get_job_details_id: "get_job_details f j d = Inr (Some x) \<Longrightarrow> rec_id (jd_job x) = j"
  by (auto simp: get_job_details_def get_job_def job_record_from_row_def ok_or_def find_job_id
      split: option.splits sum.splits)

lemma pending_of_request:
  "pending_of f d job = Inr p \<Longrightarrow>
   pj_resources p = request_for_plan (rec_id (jd_job (pj_details p))) (jd_plan (pj_details p))"
  by (auto simp: pending_of_def ok_or_def dest!: get_job_details_id split: option.splits sum.splits)

lemma start_window_ok:
  assumes inv: "store_inv d" and start: "start_window f cpus limit n d = Inr w"
  shows "window_ok cpus n w" "win_selected w \<le> 256" "budget w = 8 * win_selected w + 4"
    "1 \<le> n \<and> n \<le> 16" "win_phase w = LoopHead"
proof -
  from start obtain selected ps where n: "1 \<le> n \<and> n \<le> 16" and limit: "\<not> limit > 256"
    and sel: "list_queued_jobs_fair limit d = Inr selected"
    and ps: "res_mapM (pending_of f d) selected = Inr ps"
    and w: "w = \<lparr>win_db = d, win_scheduler = new_scheduler (bounded cpus n), win_pending = ps,
          win_workers = [], win_milestones = [], active_jobs = {}, active_telemetry = Map.empty,
          last_wait_reasons = Map.empty, admission_stopped = False, workers_stopped = False,
          win_selected = length selected, win_completed = 0, win_warning = 0, win_blocked = 0,
          win_failed = 0, win_cancelled = 0, win_contended = 0, peak_active = 0,
          win_updates = [], win_phase = LoopHead\<rparr>"
    by (auto simp: start_window_def ensure_def split: if_splits sum.splits)
  have "length selected = length (fair_window limit d)"
    using arg_cong [OF records_of_ids, of "map el_row (fair_window limit d)" selected length] sel
    by (simp add: list_queued_jobs_fair_def)
  then have small: "length selected \<le> 256" using limit
    by (auto simp: fair_window_def Let_def clamp_def)
  have la: "list_all2 (\<lambda>x y. pending_of f d x = Inr y) selected ps"
    using ps by (simp add: res_mapM_Inr_iff)
  then have len: "length ps = length selected" by (simp add: list_all2_lengthD)
  have req: "\<forall>p \<in> set ps. pj_resources p =
      request_for_plan (rec_id (jd_job (pj_details p))) (jd_plan (pj_details p))"
    using la by (auto simp: list_all2_conv_all_nth in_set_conv_nth dest!: pending_of_request)
  show "window_ok cpus n w" using inv req len small sched.inv_init
    by (simp add: w window_ok_def window_base_def window_running_def counters_def)
       (simp add: held_jobs_def new_scheduler_def)
  show "win_selected w \<le> 256" "budget w = 8 * win_selected w + 4"
    "1 \<le> n \<and> n \<le> 16" "win_phase w = LoopHead"
    using small len n by (simp_all add: w budget_def)
qed

lemma runs_ok:
  assumes "runs w0 evs w" and "window_ok cpus n w0"
  shows "window_ok cpus n w \<and>
    budget w + length (filter own_step evs)
      \<le> budget w0 + 4 * length (filter sends_milestone evs)"
  using assms
proof induction
  case start
  then show ?case by simp
next
  case (step evs w ev w')
  then show ?case using window_step_ok [of cpus n w ev w'] by (auto split: if_splits)
qed

section \<open>A window with one job\<close>

definition solo_store :: db where
  "solo_store = snd (create_queued_batch (demo_env 10) ''b'' [Job_Store_Demo.demo_request ''a''] empty_db)"

lemma solo_store_eq: "solo_store = empty_db
    \<lparr>jobs := [demo_row 11 ''queued'' ''a'' 1 1010 1010],
     job_events := [demo_created 11 1010, demo_queued 11 ''BATCH_QUEUED'' 1010],
     output_reservations := [\<lparr>rs_key = ''a'', rs_job_id = 11, rs_created = 1010\<rparr>],
     batches := [\<lparr>ba_id = 10, ba_name = ''b'', ba_created = 1010, ba_updated = 1010\<rparr>],
     batch_members := [\<lparr>mb_batch_id = 10, mb_job_id = 11, mb_ordinal = 0\<rparr>]\<rparr>"
  unfolding solo_store_def
  by (simp add: demo_ops demo_rows demo_visible Let_def state_name.simps i64_max_def u64_max_def
      byte_of_def)

lemma solo_store_inv: "store_inv solo_store"
  unfolding solo_store_def create_queued_batch_def
  by (rule store_inv_create_batch_inner) (rule store_inv_empty)

definition solo_job :: job_record where
  "solo_job = \<lparr>rec_id = 11, rec_state = Queued, rec_input_path = ''in'', rec_output_path = ''a'',
     rec_plan_hash = ''h'', rec_sequence = 1, rec_created = 1010, rec_updated = 1010\<rparr>"

lemma solo_selected: "list_queued_jobs_fair 8 solo_store = Inr [solo_job]"
  by (simp add: list_queued_jobs_fair_def fair_window_def eligible_rows_def queued_rows_def
      solo_store_eq demo_row_def records_of_def job_record_from_row_def solo_job_def clamp_def
      parse_state_def)

definition solo_details :: job_details where
  "solo_details = \<lparr>jd_job = solo_job, jd_plan = Job_Store_Demo.demo_plan, jd_events =
     [\<lparr>je_sequence = 0, je_previous = None, je_next = Planned, je_code = ''JOB_CREATED'',
       je_timestamp = 1010\<rparr>,
      \<lparr>je_sequence = 1, je_previous = Some Planned, je_next = Queued, je_code = ''BATCH_QUEUED'',
       je_timestamp = 1010\<rparr>]\<rparr>"

definition solo_window :: window where
  "solo_window =
     \<lparr>win_db = solo_store, win_scheduler = new_scheduler (bounded 4 2),
      win_pending = [\<lparr>pj_details = solo_details, pj_resources = request_for_plan 11 Job_Store_Demo.demo_plan\<rparr>],
      win_workers = [], win_milestones = [], active_jobs = {}, active_telemetry = Map.empty,
      last_wait_reasons = Map.empty, admission_stopped = False, workers_stopped = False,
      win_selected = 1, win_completed = 0, win_warning = 0, win_blocked = 0, win_failed = 0,
      win_cancelled = 0, win_contended = 0, peak_active = 0, win_updates = [],
      win_phase = LoopHead\<rparr>"

lemma solo_details_read:
  "get_job_details (\<lambda>_. Some Job_Store_Demo.demo_plan) 11 solo_store = Inr (Some solo_details)"
  by (simp add: get_job_details_def get_job_def find_job_def solo_store_eq demo_row_def
      lookup_row_Cons job_record_from_row_def ok_or_def events_of_def demo_created_def
      demo_queued_def event_record_def solo_details_def solo_job_def parse_state_def)

lemma solo_started:
  "start_window (\<lambda>_. Some Job_Store_Demo.demo_plan) 4 8 2 solo_store = Inr solo_window"
proof -
  have "rec_id solo_job = 11" by (simp add: solo_job_def)
  then show ?thesis
    by (simp add: start_window_def ensure_def solo_selected pending_of_def solo_details_read
        ok_or_def solo_window_def solo_details_def)
qed

text \<open>
  The plan has no step, so the job fails while it is prepared; with a key function that fails,
  preparing it is a failure of the control plane.
\<close>

definition no_engines :: inspectors where
  "no_engines =
     \<lparr>find_engine = \<lambda>_. Inl (anole_error_new EngineMissing Doctor ''none''),
      builtin_engine = \<lambda>_. Inl (anole_error_new EngineMissing Doctor ''none''),
      probe_structured = \<lambda>_. Inl (anole_error_new InputInvalid Inspect ''none''),
      probe_document = \<lambda>_. Inl (anole_error_new InputInvalid Inspect ''none''),
      probe_pdf = \<lambda>_ _. Inl (anole_error_new InputInvalid Inspect ''none''),
      probe_office = \<lambda>_. Inl (anole_error_new InputInvalid Inspect ''none''),
      probe_media = \<lambda>_ _. Inl (anole_error_new InputInvalid Inspect ''none'')\<rparr>"

definition broken_env :: store_env where
  "broken_env = (demo_env 40)\<lparr>env_key := \<lambda>_. Inl (anole_error_new StorageFailed Store ''key'')\<rparr>"

lemmas solo_ops = transition_def transition_tx_def run_tx_def find_job_def lookup_row_Cons ok_or_def
  parse_state_def ensure_def move_job_def Let_def update_job_state_def sql_u64_def sat_add_def
  i64_max_def u64_max_def matches_row_def state_name.simps update_rows_def set_state_row_def
  insert_event_def job_ids_def demo_env_def empty_db_def claim_queued_job_def claim_tx_def
  demo_row_def demo_created_def demo_queued_def moved_record_def

lemma solo_claim:
  "claim_queued_job E 11 c solo_store = (Inr (Some (solo_job
     \<lparr>rec_state := Inspecting, rec_sequence := 2, rec_updated := env_now E\<rparr>)),
   solo_store\<lparr>jobs := [demo_row 11 ''inspecting'' ''a'' 2 1010 (env_now E)],
     job_events := job_events solo_store @ [\<lparr>ev_job_id = 11, ev_sequence = 2,
       ev_previous = Some ''queued'', ev_next = ''inspecting'', ev_code = c,
       ev_timestamp = env_now E\<rparr>]\<rparr>)"
  by (simp add: solo_ops solo_store_eq solo_job_def)

definition solo_claimed :: "store_env \<Rightarrow> db" where
  "solo_claimed E = solo_store\<lparr>jobs := [demo_row 11 ''inspecting'' ''a'' 2 1010 (env_now E)],
     job_events := job_events solo_store @ [\<lparr>ev_job_id = 11, ev_sequence = 2,
       ev_previous = Some ''queued'', ev_next = ''inspecting'', ev_code = ''QUEUE_REINSPECTING'',
       ev_timestamp = env_now E\<rparr>]\<rparr>"

definition solo_admitting :: window where
  "solo_admitting = solo_window\<lparr>win_phase := Admitting\<rparr>"

definition solo_held :: window where
  "solo_held = solo_window\<lparr>win_phase := Admitting, win_pending := [],
     win_scheduler := snd (try_admit (request_for_plan 11 Job_Store_Demo.demo_plan)
       (new_scheduler (bounded 4 2))), active_jobs := {11}\<rparr>"

lemma solo_scan:
  "scan_pending now (Suc 0) solo_admitting =
     (Some \<lparr>pj_details = solo_details, pj_resources = request_for_plan 11 Job_Store_Demo.demo_plan\<rparr>,
      solo_held\<lparr>active_jobs := {}\<rparr>)"
proof -
  have "fst (try_admit (request_for_plan 11 Job_Store_Demo.demo_plan) (new_scheduler (bounded 4 2)))"
    using sched.inv_init [of 4 2]
    by (intro request_fits_empty [where cpus = 4 and n = 2])
       (simp_all add: bounded_ok_def held_jobs_def new_scheduler_def)
  then show ?thesis
    by (cases "try_admit (request_for_plan 11 Job_Store_Demo.demo_plan) (new_scheduler (bounded 4 2))")
       (simp add: solo_window_def solo_admitting_def solo_held_def Let_def)
qed

lemma solo_first_steps:
  "run_events solo_window (Proceed E I # Proceed E I # evs) = run_events (admit_next E I solo_admitting) evs"
  by (simp add: solo_window_def solo_admitting_def active_count_def new_scheduler_def bounded_def
      Let_def clamp_def)

lemma solo_admit:
  "admit_next E I solo_admitting =
     (case prepare_queued_job E I None solo_details solo_held of
        (Inl e, w) \<Rightarrow> w\<lparr>win_phase := Aborting e\<rparr>
      | (Inr (Ready p), w) \<Rightarrow> spawn_worker (env_now E) p w
      | (Inr PrepBlocked, w) \<Rightarrow> drop_job 11 (w\<lparr>win_blocked := sat_add (win_blocked w) 1\<rparr>)
      | (Inr PrepFailed, w) \<Rightarrow> drop_job 11 (w\<lparr>win_failed := sat_add (win_failed w) 1\<rparr>)
      | (Inr PrepContended, w) \<Rightarrow> drop_job 11 (w\<lparr>win_contended := sat_add (win_contended w) 1\<rparr>))"
proof -
  have len: "length (win_pending solo_admitting) = Suc 0"
    by (simp add: solo_admitting_def solo_window_def)
  have "rec_id (jd_job solo_details) = 11" by (simp add: solo_details_def solo_job_def)
  moreover have "measured_rate (jd_plan solo_details) d = None" for d
    by (simp add: solo_details_def measured_rate_def primary_plan_hop_def Job_Store_Demo.demo_plan_def)
  moreover have "solo_held\<lparr>active_jobs := {11}\<rparr> = solo_held" by (simp add: solo_held_def)
  ultimately show ?thesis unfolding admit_next_def len solo_scan by simp
qed

lemma solo_held_fields:
  "win_db solo_held = solo_store" "active_jobs solo_held = {11}" "win_workers solo_held = []"
  by (simp_all add: solo_held_def solo_window_def)

lemma solo_claimed_eq:
  "claim_queued_job E 11 ''QUEUE_REINSPECTING'' solo_store = (Inr (Some (solo_job
     \<lparr>rec_state := Inspecting, rec_sequence := 2, rec_updated := env_now E\<rparr>)), solo_claimed E)"
  by (simp add: solo_claim solo_claimed_def)

lemma solo_claimed_reservation:
  "validate_output_reservation E 11 (solo_claimed E) =
     res_bind (env_key E ''a'') (\<lambda>k. ensure (k = ''a'') err_identity_changed)"
  by (simp add: validate_output_reservation_def solo_claimed_def get_job_def find_job_def
      lookup_row_Cons demo_row_def ok_or_def owned_key_def solo_store_eq job_record_from_row_def
      parse_state_def)

lemma solo_gives_up:
  "\<exists>w. run_events solo_window [Proceed broken_env no_engines, Proceed broken_env no_engines] = Some w
     \<and> win_phase w = Aborting (anole_error_new StorageFailed Store ''key'')
     \<and> win_db w = solo_claimed broken_env \<and> active_jobs w = {11} \<and> win_workers w = []"
proof -
  have "rec_id (jd_job solo_details) = 11" by (simp add: solo_details_def solo_job_def)
  moreover have "env_key broken_env ''a'' = Inl (anole_error_new StorageFailed Store ''key'')"
    by (simp add: broken_env_def)
  ultimately show ?thesis
    unfolding solo_first_steps solo_admit
    by (simp add: prepare_queued_job_def Let_def st_bind_def on_store_def solo_held_fields
        solo_claimed_eq on_state_def emit_update_def check_reservation_def on_read_def
        solo_claimed_reservation anole_error_new_def)
qed

lemma solo_plan_invalid:
  "\<exists>r d. transition (demo_env 40) 11 Failed ''PLAN_INVALID'' (solo_claimed (demo_env 40)) = (Inr r, d)"
  by (simp add: solo_ops solo_claimed_def solo_store_eq release_output_def cleared_def release_rows_def
      delete_rows_def)

lemma solo_finishes:
  "\<exists>v w. run_events solo_window (replicate 3 (Proceed (demo_env 40) no_engines)) = Some v
     \<and> win_phase v = Admitted \<and> window_step v (Proceed (demo_env 40) no_engines) = Some w
     \<and> run_events solo_window (replicate 4 (Proceed (demo_env 40) no_engines)) = Some w
     \<and> win_phase w = Finished \<and> \<not> admission_stopped w \<and> win_failed w = 1"
proof -
  define E where "E = demo_env 40"
  have four: "replicate 4 x = [x, x, x, x]" "replicate 3 x = [x, x, x]" for x :: window_event
    by (simp_all add: numeral_eq_Suc)
  have j: "rec_id (jd_job solo_details) = 11" "steps (jd_plan solo_details) = []"
    by (simp_all add: solo_details_def solo_job_def Job_Store_Demo.demo_plan_def)
  have key: "env_key E ''a'' = Inr ''a''" by (simp add: E_def demo_env_def)
  obtain r d where tr: "transition E 11 Failed ''PLAN_INVALID'' (solo_claimed E) = (Inr r, d)"
    using solo_plan_invalid by (auto simp: E_def)
  define u where "u = admit_next E no_engines solo_admitting"
  have sched: "held_jobs (win_scheduler solo_held) \<subseteq> {11}" "bounded_ok 4 2 (win_scheduler solo_held)"
    using sched.inv_init [of 4 2] adm.admit_held [of "new_scheduler (bounded 4 2)"]
      bounded_ok_admit [of 4 2 "new_scheduler (bounded 4 2)"]
    by (auto simp: solo_held_def bounded_ok_def held_jobs_def new_scheduler_def request_for_plan_def
        split: prod.splits)
  have u: "win_phase u = Admitting" "win_pending u = []" "win_workers u = []" "win_failed u = 1"
    "\<not> admission_stopped u" "win_scheduler u = snd (release 11 (win_scheduler solo_held))"
    unfolding u_def solo_admit using tr
    by (simp_all add: prepare_queued_job_def Let_def st_bind_def on_store_def solo_held_fields
        solo_claimed_eq on_state_def emit_update_def check_reservation_def on_read_def
        solo_claimed_reservation j key ensure_def revalidate_plan_def move_and_report_def
        st_return_def drop_job_def sat_add_def u64_max_def)
       (simp_all add: solo_held_def solo_window_def)
  have ok: "bounded_ok 4 2 (win_scheduler u)" "held_jobs (win_scheduler u) = {}"
    using sched bounded_ok_release [OF sched(2)] held_release [OF sched(2)] by (auto simp: u)
  then have idle: "active_count (win_scheduler u) = 0"
    using active_count_held(1) by fastforce
  have "policy (win_scheduler u) = bounded 4 2" using ok by (simp add: bounded_ok_def)
  then have "0 < max_processes (policy (win_scheduler u))" by (simp add: bounded_positive)
  with idle u show ?thesis
    unfolding four solo_first_steps E_def [symmetric] u_def [symmetric] by simp
qed

section \<open>Properties\<close>

text \<open>The jobs a window still has to settle: those that are pending and those with a worker.\<close>

definition pending_id :: "pending_job \<Rightarrow> uuid" where
  "pending_id p = rec_id (jd_job (pj_details p))"

definition open_jobs :: "window \<Rightarrow> uuid multiset" where
  "open_jobs w = mset (map pending_id (win_pending w)) + mset (map pq_job_id (win_workers w))"

lemma open_jobs_simps [simp]:
  "open_jobs (w\<lparr>win_phase := ph\<rparr>) = open_jobs w" "open_jobs (w\<lparr>win_milestones := ms\<rparr>) = open_jobs w"
  "open_jobs (w\<lparr>admission_stopped := x\<rparr>) = open_jobs w" "open_jobs (w\<lparr>workers_stopped := x\<rparr>) = open_jobs w"
  "open_jobs (w\<lparr>win_db := d\<rparr>) = open_jobs w" "open_jobs (w\<lparr>active_jobs := js\<rparr>) = open_jobs w"
  by (simp_all add: open_jobs_def)

lemma open_jobs_inner: "inner w w' \<Longrightarrow> open_jobs w' = open_jobs w"
  by (simp add: open_jobs_def innerD)

lemma open_jobs_leave: "open_jobs (leave j w) \<subseteq># open_jobs w"
  by (simp add: open_jobs_def leave_def delete_rows_def image_mset_subseteq_mono)

lemma open_jobs_settle: "settle_outcome E j result seen w = (r, w') \<Longrightarrow> open_jobs w' = open_jobs w"
proof -
  assume run: "settle_outcome E j result seen w = (r, w')"
  let ?u = "w\<lparr>win_scheduler := snd (release j (win_scheduler w))\<rparr>"
  obtain r1 w1 where s: "settle_result E j result seen ?u = (r1, w1)" by (cases "settle_result E j result seen ?u")
  then obtain g v where gv: "counts_one g" "inner ?u v" "w1 = (case r1 of Inl _ \<Rightarrow> v | Inr _ \<Rightarrow> g v)"
    using settle_result_ends by blast
  have "open_jobs w1 = open_jobs v" using gv(1,3) by (cases r1) (simp_all add: open_jobs_def counts_one_def)
  moreover have "open_jobs v = open_jobs w" using open_jobs_inner [OF gv(2)] by (simp add: open_jobs_def)
  moreover have "open_jobs w' = open_jobs w1"
    using run s by (cases r1) (auto simp: settle_outcome_def settle_result_def Let_def open_jobs_def)
  ultimately show ?thesis by simp
qed

lemma open_jobs_next: "snd x = w \<Longrightarrow> open_jobs (next_phase x) = open_jobs w"
  by (cases x; cases "fst x") (auto simp: next_phase_def)

lemma open_jobs_admit: "open_jobs (admit_next E I w) \<subseteq># open_jobs w"
proof (cases "scan_pending (env_now E) (length (win_pending w)) w")
  case (Pair found w1)
  note fr = scan_pending_frame [OF Pair]
  have workers: "win_workers w1 = win_workers w" using fr scannedD(2) by blast
  show ?thesis
  proof (cases found)
    case None
    then have "open_jobs w1 = open_jobs w" using fr workers by (simp add: open_jobs_def)
    then show ?thesis using Pair None by (simp add: admit_next_def)
  next
    case (Some c)
    let ?j = "rec_id (jd_job (pj_details c))" and ?w2 = "w1\<lparr>active_jobs := insert (rec_id (jd_job (pj_details c))) (active_jobs w1)\<rparr>"
    have w1: "open_jobs w = add_mset (pending_id c) (open_jobs w1)"
      using fr Some workers by (simp add: open_jobs_def)
    obtain r w3 where prep: "prepare_queued_job E I (measured_rate (jd_plan (pj_details c)) (win_db w1)) (pj_details c) ?w2 = (r, w3)"
      by (cases "prepare_queued_job E I (measured_rate (jd_plan (pj_details c)) (win_db w1)) (pj_details c) ?w2")
    have w3: "open_jobs w3 = open_jobs w1" using open_jobs_inner [OF keeps_apply [OF inner_prepare prep]] by simp
    have ready: "pending_id c = pq_job_id p" if "r = Inr (Ready p)" for p
      using prepare_Ready [of E I _ "pj_details c" ?w2 p w3] prep that by (simp add: pending_id_def)
    show ?thesis
    proof (cases r)
      case (Inl e)
      then show ?thesis using Pair Some prep w3 w1 by (simp add: admit_next_def Let_def)
    next
      case (Inr q)
      then show ?thesis using Pair Some prep w3 w1 ready
        by (cases q) (auto simp: admit_next_def Let_def drop_job_def spawn_worker_def open_jobs_def)
    qed
  qed
qed

lemma open_jobs_proceed: "proceed E I ph w = Some w' \<Longrightarrow> open_jobs w' \<subseteq># open_jobs w"
proof (cases ph)
  case LoopHead
  have "open_jobs (emit_waits now r w) = open_jobs w" for now r
    using emit_waits_frame [of w now r] scannedD(2) [of w "emit_waits now r w"] by (simp add: open_jobs_def)
  then show "proceed E I ph w = Some w' \<Longrightarrow> ?thesis" using LoopHead by (auto split: if_splits)
next
  case Admitting
  then show "proceed E I ph w = Some w' \<Longrightarrow> ?thesis" using open_jobs_admit by (auto split: if_splits)
next
  case Admitted
  have "open_jobs (emit_waits now r w) = open_jobs w" for now r
    using emit_waits_frame [of w now r] scannedD(2) [of w "emit_waits now r w"] by (simp add: open_jobs_def)
  then show "proceed E I ph w = Some w' \<Longrightarrow> ?thesis" using Admitted by (auto simp: Let_def split: if_splits)
qed simp_all

lemma open_jobs_step: "window_step w ev = Some w' \<Longrightarrow> open_jobs w' \<subseteq># open_jobs w"
proof (cases ev)
  case (Proceed E I)
  then show "window_step w ev = Some w' \<Longrightarrow> ?thesis" using open_jobs_proceed by simp
next
  case (TakeMilestone E)
  assume "window_step w ev = Some w'"
  with TakeMilestone obtain j ms where w': "w' = next_phase (mark_and_report E j (w\<lparr>win_milestones := ms\<rparr>))"
    by (auto split: list.splits if_splits)
  have "inner (w\<lparr>win_milestones := ms\<rparr>) (snd (mark_and_report E j (w\<lparr>win_milestones := ms\<rparr>)))"
    using inner_mark_and_report by (simp add: keeps_def)
  from open_jobs_inner [OF this] show ?thesis by (simp add: w' open_jobs_next [OF refl])
next
  case (TakeOutcome E j result seen)
  assume "window_step w ev = Some w'"
  with TakeOutcome have w': "w' = next_phase (settle_outcome E j result seen (leave j w))"
    by (auto split: option.splits if_splits)
  have "open_jobs (snd (settle_outcome E j result seen (leave j w))) = open_jobs (leave j w)"
    by (metis open_jobs_settle prod.collapse)
  then show ?thesis using open_jobs_leave by (simp add: w' open_jobs_next [OF refl])
next
  case (Abort E joined order)
  assume "window_step w ev = Some w'"
  with Abort obtain e where w': "w' = (abort_active_window E joined order w)\<lparr>win_phase := Aborted e\<rparr>"
    by (auto split: phase.splits if_splits)
  have frame: "win_pending (fold (abort_one E) js u) = win_pending u \<and> win_workers (fold (abort_one E) js u) = win_workers u"
    for js u by (induction js arbitrary: u) (simp_all add: abort_one_frame)
  show ?thesis by (simp add: w' abort_active_window_def open_jobs_def frame)
qed (use open_jobs_leave in \<open>auto split: option.splits if_splits\<close>)

text \<open>The number of selected jobs stays.\<close>

lemma selected_settle: "settle_outcome E j result seen w = (r, w') \<Longrightarrow> win_selected w' = win_selected w"
proof -
  assume run: "settle_outcome E j result seen w = (r, w')"
  let ?u = "w\<lparr>win_scheduler := snd (release j (win_scheduler w))\<rparr>"
  obtain r1 w1 where s: "settle_result E j result seen ?u = (r1, w1)" by (cases "settle_result E j result seen ?u")
  then obtain g v where gv: "counts_one g" "inner ?u v" "w1 = (case r1 of Inl _ \<Rightarrow> v | Inr _ \<Rightarrow> g v)"
    using settle_result_ends by blast
  then have "win_selected w1 = win_selected w"
    using innerD(10) [OF gv(2)] by (cases r1) (simp_all add: counts_one_def)
  then show ?thesis using run s by (cases r1) (auto simp: settle_outcome_def settle_result_def Let_def)
qed

lemma selected_next: "win_selected (next_phase x) = win_selected (snd x)"
  by (cases x; cases "fst x") (auto simp: next_phase_def)

lemma selected_waits: "win_selected (emit_waits now r w) = win_selected w"
  using emit_waits_frame [of w now r] scannedD(5) [of w "emit_waits now r w"] by simp

lemma selected_admit: "win_selected (admit_next E I w) = win_selected w"
proof (cases "scan_pending (env_now E) (length (win_pending w)) w")
  case (Pair found w1)
  have w1: "win_selected w1 = win_selected w" using scan_pending_frame [OF Pair] scannedD(5) by blast
  show ?thesis
  proof (cases found)
    case None
    then show ?thesis using Pair w1 by (simp add: admit_next_def)
  next
    case (Some c)
    let ?w2 = "w1\<lparr>active_jobs := insert (rec_id (jd_job (pj_details c))) (active_jobs w1)\<rparr>"
    obtain r w3 where prep: "prepare_queued_job E I (measured_rate (jd_plan (pj_details c)) (win_db w1)) (pj_details c) ?w2 = (r, w3)"
      by (cases "prepare_queued_job E I (measured_rate (jd_plan (pj_details c)) (win_db w1)) (pj_details c) ?w2")
    have "win_selected w3 = win_selected w1" using innerD(10) [OF keeps_apply [OF inner_prepare prep]] by simp
    with w1 show ?thesis using Pair Some prep
      by (auto simp: admit_next_def Let_def drop_job_def spawn_worker_def split: sum.split queue_preparation.split)
  qed
qed

lemma selected_step: "window_step w ev = Some w' \<Longrightarrow> win_selected w' = win_selected w"
proof (cases ev)
  case (Proceed E I)
  assume "window_step w ev = Some w'"
  with Proceed show ?thesis
    by (cases "win_phase w") (auto simp: selected_waits selected_admit Let_def split: if_splits)
next
  case (TakeMilestone E)
  assume "window_step w ev = Some w'"
  with TakeMilestone obtain j ms where w': "w' = next_phase (mark_and_report E j (w\<lparr>win_milestones := ms\<rparr>))"
    by (auto split: list.splits if_splits)
  have "inner (w\<lparr>win_milestones := ms\<rparr>) (snd (mark_and_report E j (w\<lparr>win_milestones := ms\<rparr>)))"
    using inner_mark_and_report by (simp add: keeps_def)
  from innerD(10) [OF this] show ?thesis by (simp add: w' selected_next)
next
  case (TakeOutcome E j result seen)
  assume "window_step w ev = Some w'"
  with TakeOutcome have w': "w' = next_phase (settle_outcome E j result seen (leave j w))"
    by (auto split: option.splits if_splits)
  have "win_selected (snd (settle_outcome E j result seen (leave j w))) = win_selected (leave j w)"
    by (metis selected_settle prod.collapse)
  then show ?thesis by (simp add: w' selected_next leave_def)
next
  case (Abort E joined order)
  assume "window_step w ev = Some w'"
  with Abort obtain e where w': "w' = (abort_active_window E joined order w)\<lparr>win_phase := Aborted e\<rparr>"
    by (auto split: phase.splits if_splits)
  have "win_selected (fold (abort_one E) js u) = win_selected u" for js u
    by (induction js arbitrary: u) (simp_all add: abort_one_frame)
  then show ?thesis by (simp add: w' abort_active_window_def)
qed (auto simp: leave_def split: option.splits if_splits)

lemma selected_runs: "runs w0 evs w \<Longrightarrow> win_selected w = win_selected w0"
  by (induction rule: runs.induct) (auto dest: selected_step)

lemma open_jobs_runs: "runs w0 evs w \<Longrightarrow> open_jobs w \<subseteq># open_jobs w0"
  by (induction rule: runs.induct) (auto dest: open_jobs_step intro: subset_mset.order_trans)

lemma start_window_jobs:
  assumes "store_inv d" and "start_window f cpus limit n d = Inr w0"
  shows "distinct (map pending_id (win_pending w0))" "win_workers w0 = []"
    "map pending_id (win_pending w0) = map (\<lambda>x. jr_id (el_row x)) (fair_window limit d)"
    "win_selected w0 = length (win_pending w0)"
proof -
  from assms(2) obtain selected where sel: "list_queued_jobs_fair limit d = Inr selected"
    and ps: "res_mapM (pending_of f d) selected = Inr (win_pending w0)" and w: "win_workers w0 = []"
    and n: "win_selected w0 = length selected"
    by (auto simp: start_window_def ensure_def split: if_splits sum.splits)
  have la: "list_all2 (\<lambda>x y. pending_of f d x = Inr y) selected (win_pending w0)"
    using ps by (simp add: res_mapM_Inr_iff)
  have "pending_of f d x = Inr y \<Longrightarrow> pending_id y = rec_id x" for x y
    by (auto simp: pending_of_def ok_or_def pending_id_def dest!: get_job_details_id split: option.splits sum.splits)
  with la have "map pending_id (win_pending w0) = map rec_id selected"
    by (auto simp: list_all2_conv_all_nth intro: nth_equalityI)
  moreover have "map rec_id selected = map jr_id (map el_row (fair_window limit d))"
    using sel records_of_ids by (simp add: list_queued_jobs_fair_def)
  ultimately show ids: "map pending_id (win_pending w0) = map (\<lambda>x. jr_id (el_row x)) (fair_window limit d)"
    by (simp add: comp_def)
  have "map (\<lambda>x. jr_id (el_row x)) (eligible_rows d) = map jr_id (queued_rows d)"
    by (simp add: eligible_rows_def eligible_of_def comp_def split: option.splits)
  then have "distinct (map (\<lambda>x. jr_id (el_row x)) (eligible_rows d))"
    using assms(1) by (simp add: queued_rows_def store_inv_def distinct_map_filter)
  then have "distinct (map (\<lambda>x. jr_id (el_row x)) (sort_key (fair_key (eligible_rows d)) (eligible_rows d)))"
    by (simp add: distinct_map)
  then show "distinct (map pending_id (win_pending w0))"
    unfolding ids fair_window_def Let_def by (simp add: take_map [symmetric] distinct_take)
  show "win_workers w0 = []" "win_selected w0 = length (win_pending w0)"
    using w n la by (auto dest: list_all2_lengthD)
qed

text \<open>
  C14: a run of a window loses no job and stays within its parallelism. Whatever the workers, the
  engines and other processes do, at most as many jobs are active as were asked for, and every job is
  at most once pending or with a worker, and only if it was selected at the start. Until the window is
  given up, the jobs the scheduler holds, the active jobs and the workers are the same, and of the
  selected jobs exactly those that are neither pending nor with a worker have been counted, each once,
  as completed, with warnings, blocked, failed, cancelled or contended. A window that was given up has
  no worker and holds nothing of the scheduler.
\<close>

theorem queue_window_accounts_for_every_job:
  assumes "store_inv d" and "start_window f cpus limit n d = Inr w0" and "runs w0 evs w"
  shows "active_count (win_scheduler w) \<le> n \<and> peak_active w \<le> n
    \<and> distinct (map pending_id (win_pending w) @ map pq_job_id (win_workers w))
    \<and> set (map pending_id (win_pending w) @ map pq_job_id (win_workers w)) \<subseteq> set (map pending_id (win_pending w0))
    \<and> (case win_phase w of
        Aborted e \<Rightarrow> win_workers w = [] \<and> held_jobs (win_scheduler w) = {}
      | Aborting e \<Rightarrow> held_jobs (win_scheduler w) \<subseteq> active_jobs w
      | _ \<Rightarrow> held_jobs (win_scheduler w) = active_jobs w \<and> pq_job_id ` set (win_workers w) = active_jobs w
          \<and> card (set (map pending_id (win_pending w0)) - set (map pending_id (win_pending w) @ map pq_job_id (win_workers w)))
            = win_completed w + win_warning w + win_blocked w + win_failed w + win_cancelled w + win_contended w)"
proof -
  note s = start_window_ok [OF assms(1,2)]
  note j = start_window_jobs [OF assms(1,2)]
  have ok: "window_ok cpus n w" using runs_ok [OF assms(3) s(1)] by blast
  have m: "max_processes (bounded cpus n) = n" using s(4) by (simp add: bounded_def Let_def clamp_def)
  let ?open = "map pending_id (win_pending w) @ map pq_job_id (win_workers w)"
  have sub: "mset ?open \<subseteq># mset (map pending_id (win_pending w0))"
    using open_jobs_runs [OF assms(3)] j(2) by (simp add: open_jobs_def)
  obtain rest where "mset (map pending_id (win_pending w0)) = mset (?open @ rest)"
    using sub ex_mset by (metis mset_append subset_mset.le_iff_add)
  then have "distinct (?open @ rest)" using j(1) mset_eq_imp_distinct_iff by blast
  then have dist: "distinct ?open" by (simp only: distinct_append)
  have set: "set ?open \<subseteq> set (map pending_id (win_pending w0))"
    using set_mset_mono [OF sub] by simp
  have "win_selected w = length (win_pending w0)"
    using j(4) selected_runs [OF assms(3)] by simp
  moreover have "card (set (map pending_id (win_pending w0)) - set ?open)
      = length (win_pending w0) - (length (win_pending w) + length (win_workers w))"
    using card_Diff_subset [OF _ set] distinct_card [OF j(1)] distinct_card [OF dist] by simp
  ultimately have count: "card (set (map pending_id (win_pending w0)) - set ?open) = counters w" if "window_running w"
    using that by (auto simp: window_running_def)
  have "active_count (win_scheduler w) \<le> n \<and> peak_active w \<le> n"
    using ok m active_count_held(2) by (fastforce simp: window_ok_def window_base_def)
  then show ?thesis using ok dist set count
    by (cases "win_phase w") (auto simp: window_ok_def window_running_def counters_def)
qed

lemma queue_window_accounts_for_every_job_witness:
  "\<exists>w. run_events solo_window (replicate 4 (Proceed (demo_env 40) no_engines)) = Some w
     \<and> win_phase w = Finished \<and> active_count (win_scheduler w) \<le> 2
     \<and> card ({11} - set (map pending_id (win_pending w) @ map pq_job_id (win_workers w)))
       = win_completed w + win_warning w + win_blocked w + win_failed w + win_cancelled w + win_contended w"
proof -
  obtain w where w: "run_events solo_window (replicate 4 (Proceed (demo_env 40) no_engines)) = Some w"
    "win_phase w = Finished" using solo_finishes by blast
  have ids: "set (map pending_id (win_pending solo_window)) = {11}"
    by (simp add: solo_window_def pending_id_def solo_details_def solo_job_def)
  have "runs solo_window (replicate 4 (Proceed (demo_env 40) no_engines)) w" using w(1) by (simp only: runs_iff)
  from queue_window_accounts_for_every_job [OF solo_store_inv solo_started this, unfolded ids] w
  show ?thesis by (simp only: phase.case) blast
qed

text \<open>
  The report of a window adds up. When a window ends without being given up, its
  parallelism is what was asked for and was never exceeded, no worker is left, it is called
  stopped exactly if admission was stopped, and if it was not, the six counts of the report sum
  to the number of selected jobs.
\<close>

theorem queue_report_adds_up:
  assumes "store_inv d" and "start_window f cpus limit n d = Inr w0" and "runs w0 evs w"
    and "win_phase w = Finished"
  shows "qr_parallelism (queue_run_report w) = n \<and> qr_peak_active (queue_run_report w) \<le> n
    \<and> win_workers w = [] \<and> active_jobs w = {}
    \<and> (qr_stopped (queue_run_report w) \<longleftrightarrow> admission_stopped w)
    \<and> (\<not> qr_stopped (queue_run_report w) \<longrightarrow>
        qr_completed (queue_run_report w) + qr_warning (queue_run_report w)
        + qr_blocked (queue_run_report w) + qr_failed (queue_run_report w)
        + qr_cancelled (queue_run_report w) + qr_contended (queue_run_report w)
        = qr_selected (queue_run_report w))"
proof -
  note s = start_window_ok [OF assms(1,2)]
  have ok: "window_ok cpus n w" using runs_ok [OF assms(3) s(1)] by blast
  have m: "max_processes (bounded cpus n) = n" using s(4) by (simp add: bounded_def Let_def clamp_def)
  have base: "peak_active w \<le> n" "policy (win_scheduler w) = bounded cpus n" "win_selected w \<le> 10000"
    using ok m by (simp_all add: window_ok_def window_base_def bounded_ok_def)
  have run: "window_running w" "win_workers w = []" "win_pending w \<noteq> [] \<longrightarrow> admission_stopped w"
    using ok assms(4) by (simp_all add: window_ok_def)
  then have acc: "counters w + length (win_pending w) = win_selected w"
    by (simp add: window_running_def)
  then have "terminal_count w = counters w" using base(3)
    by (simp add: terminal_count_def counters_def sat_add_exact u64_max_def)
  then show ?thesis using base run acc m
    by (auto simp: queue_run_report_def window_running_def counters_def)
qed

lemma queue_report_adds_up_witness:
  "\<exists>w. run_events solo_window (replicate 4 (Proceed (demo_env 40) no_engines)) = Some w
     \<and> \<not> qr_stopped (queue_run_report w) \<and> qr_parallelism (queue_run_report w) = 2"
proof -
  obtain w where w: "run_events solo_window (replicate 4 (Proceed (demo_env 40) no_engines)) = Some w"
    "win_phase w = Finished" "\<not> admission_stopped w" using solo_finishes by blast
  with queue_report_adds_up [OF solo_store_inv solo_started, of _ w] show ?thesis
    by (auto simp: runs_iff)
qed

definition ended :: "window \<Rightarrow> bool" where
  "ended w \<longleftrightarrow> (case win_phase w of Finished \<Rightarrow> True | Aborted e \<Rightarrow> True | _ \<Rightarrow> False)"

definition panics :: "window_event \<Rightarrow> bool" where
  "panics ev \<longleftrightarrow> (\<exists>j. ev = WorkerPanicked j)"

lemma worker_of_self:
  "distinct (map pq_job_id (win_workers w)) \<Longrightarrow> p \<in> set (win_workers w) \<Longrightarrow>
   worker_of (pq_job_id p) w = Some p"
  unfolding worker_of_def by (rule lookup_row_distinct)

lemma window_progress:
  assumes ok: "window_ok cpus n w" and "\<not> ended w"
  shows "\<exists>ev. own_step ev \<and> \<not> panics ev \<and> window_step w ev \<noteq> None"
proof -
  have step: "\<exists>ev. own_step ev \<and> \<not> panics ev \<and> window_step w ev \<noteq> None"
    if "window_step w ev \<noteq> None" "own_step ev" "\<not> panics ev" for ev using that by blast
  show ?thesis
  proof (cases "win_phase w")
    case Waiting
    then obtain p where p: "p \<in> set (win_workers w)" and d: "distinct (map pq_job_id (win_workers w))"
      using ok by (cases "win_workers w") (auto simp: window_ok_def window_running_def)
    have r: "answers p (case chained p of Some (Inl e) \<Rightarrow> Inl e | _ \<Rightarrow> Inl err_worker_stopped)"
      (is "answers p ?r") by (simp add: answers_def split: option.split sum.split)
    show ?thesis
      by (rule step [of "TakeOutcome E (pq_job_id p) ?r (Inr ())" for E])
         (use Waiting r worker_of_self [OF d p] in \<open>simp_all add: panics_def\<close>)
  next
    case (Aborting e)
    then obtain order where "distinct order" "set order = active_jobs w"
      using ok finite_distinct_list [of "active_jobs w"] by (auto simp: window_ok_def window_base_def)
    then show ?thesis
      by (intro step [of "Abort E [] order" for E]) (use Aborting in \<open>simp_all add: panics_def\<close>)
  next
    case LoopHead
    show ?thesis by (rule step [of "Proceed E I" for E I]) (use LoopHead in \<open>simp_all add: panics_def\<close>)
  next
    case Admitting
    show ?thesis by (rule step [of "Proceed E I" for E I]) (use Admitting in \<open>simp_all add: panics_def\<close>)
  next
    case Admitted
    show ?thesis by (rule step [of "Proceed E I" for E I]) (use Admitted in \<open>simp_all add: panics_def\<close>)
  qed (use assms(2) in \<open>simp_all add: ended_def\<close>)
qed

text \<open>
  C15: a window always ends. A run takes at most 2052 steps of its own, and four more for each
  milestone a worker sends, and while it has not ended a step of its own is possible that is
  not the panic of a worker.
\<close>

theorem queue_window_ends:
  assumes "store_inv d" and "start_window f cpus limit n d = Inr w0" and "runs w0 evs w"
  shows "length (filter own_step evs) \<le> 2052 + 4 * length (filter sends_milestone evs)
    \<and> (\<not> ended w \<longrightarrow> (\<exists>ev. own_step ev \<and> \<not> panics ev \<and> window_step w ev \<noteq> None))"
proof -
  note s = start_window_ok [OF assms(1,2)]
  note r = runs_ok [OF assms(3) s(1)]
  have "length (filter own_step evs) \<le> budget w0 + 4 * length (filter sends_milestone evs)"
    using r by linarith
  moreover have "budget w0 \<le> 2052" using s(2,3) by simp
  ultimately show ?thesis using r window_progress [of cpus n w] by auto
qed

lemma queue_window_ends_witness:
  "\<exists>ev. own_step ev \<and> \<not> panics ev \<and> window_step solo_window ev \<noteq> None"
  using queue_window_ends [OF solo_store_inv solo_started runs.start]
  by (simp add: ended_def solo_window_def)

text \<open>
  C16: the scheduler never starves the queue. When no worker runs and admission goes on, the
  next pending job fits: the step that would end the window with \<open>RESOURCE_EXHAUSTED\<close> because
  no queued job fits the budget always leads on or ends the window normally.
\<close>

theorem queue_never_exhausts_the_scheduler:
  assumes "store_inv d" and "start_window f cpus limit n d = Inr w0" and "runs w0 evs w"
    and "win_phase w = Admitted" and "window_step w (Proceed E I) = Some w'"
  shows "win_phase w' = (if win_workers w = [] then Finished else Waiting)"
proof -
  have "window_ok cpus n w" using runs_ok [OF assms(3) start_window_ok(1) [OF assms(1,2)]] by blast
  then have adm: "win_workers w = [] \<Longrightarrow> admission_stopped w \<or> win_pending w = []"
    using assms(4) by (auto simp: window_ok_def)
  define u where "u = (if active_count (win_scheduler w) \<ge> max_processes (policy (win_scheduler w))
    then emit_waits (env_now E) ProcessLimitWait w else w)"
  have "win_workers u = win_workers w" "admission_stopped u = admission_stopped w"
    "win_pending u = win_pending w"
    by (simp_all add: u_def emit_waits_ok)
  moreover have "w' = (if win_workers u = []
       then u\<lparr>win_phase := (if admission_stopped u \<or> win_pending u = [] then Finished
                            else Aborting err_exhausted)\<rparr>
       else u\<lparr>win_phase := Waiting\<rparr>)"
    using assms(5) unfolding window_step.simps assms(4) proceed.simps Let_def u_def option.inject
    by (rule sym)
  ultimately show ?thesis using adm by (cases "win_workers w = []") simp_all
qed

lemma queue_never_exhausts_the_scheduler_witness:
  "\<exists>w w'. run_events solo_window (replicate 3 (Proceed (demo_env 40) no_engines)) = Some w
     \<and> window_step w (Proceed (demo_env 40) no_engines) = Some w' \<and> win_phase w' \<noteq> Aborting err_exhausted"
proof -
  obtain w w' where w: "run_events solo_window (replicate 3 (Proceed (demo_env 40) no_engines)) = Some w"
    "win_phase w = Admitted" "window_step w (Proceed (demo_env 40) no_engines) = Some w'"
    using solo_finishes by blast
  from queue_never_exhausts_the_scheduler
      [OF solo_store_inv solo_started runs_iff [THEN iffD2, OF w(1)] w(2,3)]
  have "win_phase w' \<noteq> Aborting err_exhausted" by (simp split: if_splits)
  with w show ?thesis by blast
qed

section \<open>Giving up\<close>

fun abandoned :: "job_state \<Rightarrow> job_state" where
  "abandoned Running = Interrupted"
| "abandoned Validating = Interrupted"
| "abandoned Inspecting = Failed"
| "abandoned s = s"

lemma transition_moves:
  assumes "store_inv d" and "find_job j d = Some row" and "jr_state row = state_name s"
    and "can_transition_to s nxt" and "nxt \<noteq> Queued" and "jr_sequence row < i64_max"
  shows "moved E j row s nxt c d (snd (transition E j nxt c d))"
proof -
  obtain r d' where run: "transition_tx E j nxt c d = Inr (r, d')"
    using transition_tx_total [OF assms] by blast
  obtain row' cur where m: "moved E j row' cur nxt c d d'"
    using assms(1) run by (rule transition_tx_Inr)
  then have "row' = row" "cur = s" using assms(2,3) by (auto simp: moved_def)
  with m run show ?thesis by (simp add: transition_def run_tx_def)
qed

lemma transition_refused:
  assumes "find_job j d = Some row" and "jr_state row = state_name s" and "\<not> can_transition_to s nxt"
  shows "snd (transition E j nxt c d) = d"
  using assms by (simp add: transition_def run_tx_def transition_tx_def ok_or_def ensure_def)

lemma get_job_state:
  "find_job j d = Some row \<Longrightarrow> jr_state row = state_name s \<Longrightarrow>
   \<exists>job. get_job j d = Inr (Some job) \<and> rec_state job = s"
  by (simp add: get_job_def job_record_from_row_def)

text \<open>A planned job is left as it is: the table has no move from planned to failed.\<close>

lemma abort_one_db:
  assumes inv: "store_inv (win_db w)" and row: "find_job j (win_db w) = Some row"
    and st: "jr_state row = state_name s" and room: "jr_sequence row < i64_max"
  shows "if abandoned s = s then win_db (abort_one E j w) = win_db w
    else moved E j row s (abandoned s) ''CONTROL_PLANE_FAILED'' (win_db w) (win_db (abort_one E j w))"
proof -
  obtain job where job: "get_job j (win_db w) = Inr (Some job)" "rec_state job = s"
    using get_job_state [OF row st] by blast
  have db: "win_db (abort_one E j w) =
     (if s \<in> {Running, Validating} then snd (transition E j Interrupted ''CONTROL_PLANE_FAILED'' (win_db w))
      else if s \<in> {Inspecting, Planned} then snd (transition E j Failed ''CONTROL_PLANE_FAILED'' (win_db w))
      else win_db w)"
    using job by (simp add: abort_one_def Let_def on_store_def case_prod_beta)
  note moves = transition_moves [OF inv row st _ _ room]
  show ?thesis
    using moves [of Interrupted] moves [of Failed] transition_refused [OF row st, of Failed]
    by (cases s) (simp_all add: db)
qed

lemma transition_others:
  assumes "store_inv d" and "i \<noteq> j"
  shows "same_job i d (snd (transition E j nxt c d))"
proof (cases "transition_tx E j nxt c d")
  case (Inl e)
  then show ?thesis by (simp add: transition_def run_tx_def)
next
  case (Inr x)
  obtain r d' where x: "x = (r, d')" by (cases x)
  obtain row cur where "moved E j row cur nxt c d d'"
    using assms(1) Inr [unfolded x] by (rule transition_tx_Inr)
  then show ?thesis using Inr x assms(2) by (simp add: transition_def run_tx_def moved_def)
qed

lemma abort_one_others:
  assumes "store_inv (win_db w)" and "i \<noteq> j"
  shows "same_job i (win_db w) (win_db (abort_one E j w))"
  using transition_others [OF assms, of E Interrupted] transition_others [OF assms, of E Failed]
  by (simp add: abort_one_def Let_def on_store_def case_prod_beta split: sum.split option.split)

lemma abort_fold_others:
  "store_inv (win_db w) \<Longrightarrow> i \<notin> set js \<Longrightarrow> same_job i (win_db w) (win_db (fold (abort_one E) js w))"
proof (induction js arbitrary: w)
  case (Cons j js)
  then have "same_job i (win_db w) (win_db (abort_one E j w))" by (intro abort_one_others) auto
  moreover have "same_job i (win_db (abort_one E j w)) (win_db (fold (abort_one E) js (abort_one E j w)))"
    using Cons.prems by (intro Cons.IH) (simp_all add: abort_one_frame)
  ultimately show ?case by (simp add: same_job_def)
qed simp

lemma abort_fold_job:
  assumes "store_inv (win_db w)" and "distinct js" and "j \<in> set js"
    and "find_job j (win_db w) = Some row" and "jr_state row = state_name s"
    and "jr_sequence row < i64_max"
  shows "\<exists>row'. find_job j (win_db (fold (abort_one E) js w)) = Some row'
    \<and> jr_state row' = state_name (abandoned s)"
  using assms
proof (induction js arbitrary: w)
  case (Cons i js)
  have inv: "store_inv (win_db (abort_one E i w))" using Cons.prems(1) by (rule abort_one_frame(1))
  show ?case
  proof (cases "i = j")
    case True
    have "\<exists>row'. find_job j (win_db (abort_one E j w)) = Some row'
        \<and> jr_state row' = state_name (abandoned s)"
      using abort_one_db [OF Cons.prems(1,4,5,6), of E] Cons.prems(4,5)
      by (auto simp: moved_def split: if_splits)
    then show ?thesis
      using True Cons.prems(2) abort_fold_others [OF inv, of j js E] by (auto simp: same_job_def)
  next
    case False
    then have "find_job j (win_db (abort_one E i w)) = Some row"
      using abort_one_others [OF Cons.prems(1), of j i E] Cons.prems(4) by (simp add: same_job_def)
    then show ?thesis using Cons False inv by simp
  qed
qed simp

text \<open>
  Giving up a window returns everything it held. The scheduler is empty and no worker is
  left; of the active jobs, those that ran or were validated are interrupted, those that were
  inspected have failed, and the others keep their state (a planned job too, for which the
  table of transitions has no move to failed); every other job is untouched.
\<close>

theorem given_up_window_holds_nothing:
  assumes "store_inv d" and "start_window f cpus limit n d = Inr w0" and "runs w0 evs w"
    and "window_step w (Abort E joined order) = Some w'"
  shows "active (win_scheduler w') = [] \<and> win_workers w' = []
    \<and> (\<forall>j row s. find_job j (win_db w) = Some row \<and> jr_state row = state_name s
          \<and> jr_sequence row < i64_max \<longrightarrow>
        (\<exists>row'. find_job j (win_db w') = Some row'
          \<and> jr_state row' = state_name (if j \<in> active_jobs w then abandoned s else s)))"
proof -
  have ok: "window_ok cpus n w" using runs_ok [OF assms(3) start_window_ok(1) [OF assms(1,2)]] by blast
  then have inv: "store_inv (win_db w)" by (simp add: window_ok_def window_base_def)
  from assms(4) obtain e where ph: "win_phase w = Aborting e" and order: "distinct order"
      "set order = active_jobs w"
    and w': "w' = (abort_active_window E joined order w)\<lparr>win_phase := Aborted e\<rparr>"
    by (auto split: phase.splits if_splits)
  have "window_ok cpus n w'" using window_step_ok [OF ok assms(4)] by blast
  then have empty: "active (win_scheduler w') = []" "win_workers w' = []"
    by (simp_all add: w' window_ok_def held_jobs_def)
  define u where "u = w\<lparr>admission_stopped := True, workers_stopped := True, win_workers := [],
    win_scheduler := fold (\<lambda>j s. snd (release j s)) joined (win_scheduler w)\<rparr>"
  have db: "win_db w' = win_db (fold (abort_one E) order u)" "win_db u = win_db w"
    by (simp_all add: w' u_def abort_active_window_def)
  have job: "\<exists>row'. find_job j (win_db w') = Some row'
      \<and> jr_state row' = state_name (if j \<in> active_jobs w then abandoned s else s)"
    if "find_job j (win_db w) = Some row" "jr_state row = state_name s" "jr_sequence row < i64_max"
    for j row s
  proof (cases "j \<in> active_jobs w")
    case True
    then show ?thesis using abort_fold_job [of u order j row s E] inv order that by (simp add: db)
  next
    case False
    then show ?thesis using abort_fold_others [of u j order E] inv order that
      by (simp add: db same_job_def)
  qed
  with empty show ?thesis by blast
qed

lemma given_up_window_holds_nothing_witness:
  "\<exists>w w' row. run_events solo_window [Proceed broken_env no_engines, Proceed broken_env no_engines] = Some w
     \<and> window_step w (Abort (demo_env 50) [] [11]) = Some w' \<and> active (win_scheduler w') = []
     \<and> find_job 11 (win_db w') = Some row \<and> jr_state row = ''failed''"
proof -
  obtain w where w: "run_events solo_window [Proceed broken_env no_engines, Proceed broken_env no_engines] = Some w"
    "win_phase w = Aborting (anole_error_new StorageFailed Store ''key'')"
    "win_db w = solo_claimed broken_env" "active_jobs w = {11}" "win_workers w = []"
    using solo_gives_up by blast
  define w' where "w' = (abort_active_window (demo_env 50) [] [11] w)
    \<lparr>win_phase := Aborted (anole_error_new StorageFailed Store ''key'')\<rparr>"
  have step: "window_step w (Abort (demo_env 50) [] [11]) = Some w'"
    using w by (simp add: w'_def)
  have row: "find_job 11 (win_db w) = Some (demo_row 11 ''inspecting'' ''a'' 2 1010 (env_now broken_env))"
    "jr_state (demo_row 11 ''inspecting'' ''a'' 2 1010 (env_now broken_env)) = state_name Inspecting"
    "jr_sequence (demo_row 11 ''inspecting'' ''a'' 2 1010 (env_now broken_env)) < i64_max"
    by (simp_all add: w(3) solo_claimed_def find_job_def lookup_row_Cons demo_row_def i64_max_def
        state_name.simps)
  note g = given_up_window_holds_nothing
    [OF solo_store_inv solo_started runs_iff [THEN iffD2, OF w(1)] step]
  have "active (win_scheduler w') = []" using g by blast
  moreover have "\<exists>row'. find_job 11 (win_db w') = Some row' \<and> jr_state row' = ''failed''"
  proof -
    from g row obtain row' where "find_job 11 (win_db w') = Some row'"
      "jr_state row' = state_name (if 11 \<in> active_jobs w then abandoned Inspecting else Inspecting)"
      by blast
    then show ?thesis by (simp add: w(4) state_name.simps)
  qed
  ultimately show ?thesis using w(1) step by blast
qed

section \<open>What is checked before a worker starts\<close>

lemma st_bind_Inr:
  "st_bind m f s = (Inr y, s') \<longleftrightarrow> (\<exists>x t. m s = (Inr x, t) \<and> f x t = (Inr y, s'))"
  by (auto simp: st_bind_def split: prod.splits sum.splits)

lemma st_return_Inr: "st_return x s = (Inr y, s') \<longleftrightarrow> y = x \<and> s' = s"
  by (auto simp: st_return_def)

lemma on_state_Inr:
  "on_state now rate job s = (Inr y, s') \<Longrightarrow> win_db s' = win_db s"
  by (auto simp: on_state_def emit_update_def)

lemma move_and_report_Inr:
  assumes inv: "store_inv (win_db w)" and run: "move_and_report E rate j nxt c w = (Inr x, w')"
    and "nxt \<noteq> Queued" and "\<not> is_terminal nxt"
  obtains row cur where "moved E j row cur nxt c (win_db w) (win_db w')"
    "output_reservations (win_db w') = output_reservations (win_db w)"
proof -
  from run obtain r d where tr: "transition E j nxt c (win_db w) = (Inr r, d)" and db: "win_db w' = d"
    by (auto simp: move_and_report_def st_bind_Inr on_store_def dest: on_state_Inr split: prod.splits)
  then have run: "transition_tx E j nxt c (win_db w) = Inr (r, d)"
    by (simp add: transition_def run_tx_Inr)
  obtain row cur where "moved E j row cur nxt c (win_db w) d"
    using inv run by (rule transition_tx_Inr)
  moreover have "output_reservations d = output_reservations (win_db w)"
    using run assms(3,4)
    by (auto simp: transition_tx_def move_job_def update_job_state_def insert_event_def Let_def
        split: if_splits)
  ultimately show thesis using that db by simp
qed

lemma engine_unchanged_found:
  "engine_unchanged I stored \<Longrightarrow> \<exists>e.
     (if engine_id stored = ''anole.structured'' then builtin_engine I ''anole.structured''
      else find_engine I (engine_id stored)) = Inr e
     \<and> binary_sha256 e = binary_sha256 stored \<and> engine_version e = engine_version stored"
  by (auto simp: engine_unchanged_def split: sum.splits)

lemma revalidate_checks:
  assumes inv: "store_inv (win_db w)"
    and run: "revalidate_plan E I rate details w = (Inr (Ready p), w')"
  defines "j \<equiv> rec_id (jd_job details)"
  shows "pq_job_id p = j \<and> pq_plan p = jd_plan details \<and> steps (pq_plan p) \<noteq> []
    \<and> (\<forall>st \<in> set (steps (pq_plan p)). engine_unchanged I (engine st))
    \<and> inspect_queued_input I details (engine (hd (steps (pq_plan p)))) = Inr (pq_probe p, pq_engine p)
    \<and> fast_fingerprint (artifact (pq_probe p)) = input_fingerprint (pq_plan p)
    \<and> output_reservations (win_db w') = output_reservations (win_db w)
    \<and> (\<exists>row cur d. moved E j row cur Planned ''PLAN_REVALIDATED'' (win_db w) d
        \<and> moved E j (moved_row E row Planned) Planned Running ''ENGINE_STARTED'' d (win_db w'))"
proof -
  from run obtain st rest where st: "steps (jd_plan details) = st # rest"
    by (cases "steps (jd_plan details)")
       (auto simp: revalidate_plan_def Let_def st_bind_Inr st_return_Inr)
  from run st have eng: "\<forall>x \<in> set (st # rest). engine_unchanged I (engine x)"
    by (simp add: revalidate_plan_def Let_def st_bind_Inr st_return_Inr split: if_splits)
  from run st eng obtain pr v where insp: "inspect_queued_input I details (engine st) = Inr (pr, v)"
    and fp: "fast_fingerprint (artifact pr) = input_fingerprint (jd_plan details)"
    by (auto simp: revalidate_plan_def Let_def st_bind_Inr st_return_Inr split: sum.splits if_splits)
  from run st eng insp fp obtain x u y where
      m1: "move_and_report E rate j Planned ''PLAN_REVALIDATED'' w = (Inr x, u)"
    and m2: "move_and_report E rate j Running ''ENGINE_STARTED'' u = (Inr y, w')"
    and p: "p = \<lparr>pq_job_id = j, pq_probe = pr, pq_plan = jd_plan details, pq_engine = v\<rparr>"
    by (auto simp: revalidate_plan_def Let_def st_bind_Inr st_return_Inr j_def)
  obtain row cur where a: "moved E j row cur Planned ''PLAN_REVALIDATED'' (win_db w) (win_db u)"
    "output_reservations (win_db u) = output_reservations (win_db w)"
    using move_and_report_Inr [OF inv m1] by auto
  then have inv': "store_inv (win_db u)" by (simp add: moved_def)
  obtain row' cur' where b: "moved E j row' cur' Running ''ENGINE_STARTED'' (win_db u) (win_db w')"
    "output_reservations (win_db w') = output_reservations (win_db u)"
    using move_and_report_Inr [OF inv' m2] by auto
  have "row' = moved_row E row Planned" "cur' = Planned"
    using a(1) b(1) by (auto simp: moved_def)
  then show ?thesis using st eng insp fp p a b by auto
qed

text \<open>
  A worker starts only on what has been checked again. When a job is handed to a worker,
  it was queued and is now running, with the claim, the new plan check and the start in its
  log; every engine its plan names was found with the recorded digest and version; the input
  was inspected again and has the fingerprint of the plan; and the output path still has the
  identity that the job reserved.
\<close>

theorem workers_start_on_checked_plans:
  assumes inv: "store_inv (win_db w)"
    and run: "prepare_queued_job E I rate details w = (Inr (Ready p), w')"
  defines "j \<equiv> rec_id (jd_job details)"
  shows "pq_job_id p = j \<and> pq_plan p = jd_plan details \<and> steps (pq_plan p) \<noteq> []
    \<and> (\<forall>st \<in> set (steps (pq_plan p)). \<exists>e.
         (if engine_id (engine st) = ''anole.structured'' then builtin_engine I ''anole.structured''
          else find_engine I (engine_id (engine st))) = Inr e
         \<and> binary_sha256 e = binary_sha256 (engine st) \<and> engine_version e = engine_version (engine st))
    \<and> inspect_queued_input I details (engine (hd (steps (pq_plan p)))) = Inr (pq_probe p, pq_engine p)
    \<and> fast_fingerprint (artifact (pq_probe p)) = input_fingerprint (pq_plan p)
    \<and> (\<exists>row row'. find_job j (win_db w) = Some row \<and> jr_state row = ''queued''
        \<and> find_job j (win_db w') = Some row' \<and> jr_state row' = ''running''
        \<and> map ev_code (events_of j (win_db w')) = map ev_code (events_of j (win_db w))
            @ [''QUEUE_REINSPECTING'', ''PLAN_REVALIDATED'', ''ENGINE_STARTED'']
        \<and> map_option Inr (owned_key j (output_reservations (win_db w')))
            = Some (env_key E (jr_output_path row')))"
proof -
  from run obtain found u where cl: "on_store (claim_queued_job E j ''QUEUE_REINSPECTING'') w = (Inr found, u)"
    and rest: "(case found of None \<Rightarrow> st_return PrepContended
      | Some inspecting \<Rightarrow>
          st_bind (on_state (env_now E) rate inspecting) (\<lambda>_.
          st_bind (check_reservation E j) (\<lambda>kept.
          if kept then revalidate_plan E I rate details
          else st_bind (move_and_report E rate j Blocked ''OUTPUT_IDENTITY_CHANGED'') (\<lambda>_.
               st_return PrepBlocked)))) u = (Inr (Ready p), w')"
    unfolding prepare_queued_job_def Let_def j_def [symmetric] by (subst (asm) st_bind_Inr) blast
  then obtain r where found: "found = Some r" by (cases found) (auto simp: st_return_Inr)
  from rest [unfolded found option.case] obtain y v where on: "on_state (env_now E) rate r u = (Inr y, v)"
    and rest2: "st_bind (check_reservation E j) (\<lambda>kept.
          if kept then revalidate_plan E I rate details
          else st_bind (move_and_report E rate j Blocked ''OUTPUT_IDENTITY_CHANGED'') (\<lambda>_.
               st_return PrepBlocked)) v = (Inr (Ready p), w')"
    by (auto simp: st_bind_Inr)
  from rest2 have chk: "check_reservation E j v = (Inr True, v)"
    and rev: "revalidate_plan E I rate details v = (Inr (Ready p), w')"
    by (auto simp: st_bind_Inr st_return_Inr check_reservation_def on_read_def split: if_splits)
  have v: "win_db v = win_db u" using on by (rule on_state_Inr)
  have "claim_queued_job E j ''QUEUE_REINSPECTING'' (win_db w) = (Inr (Some r), win_db u)"
    using cl found by (auto simp: on_store_def split: prod.splits)
  then have "claim_tx E j ''QUEUE_REINSPECTING'' (win_db w) = Inr (Some r, win_db u)"
    by (simp add: claim_queued_job_def run_tx_Inr)
  from claim_tx_Inr [OF inv this] obtain row where
    c: "moved E j row Queued Inspecting ''QUEUE_REINSPECTING'' (win_db w) (win_db v)" by (auto simp: v)
  then have inv2: "store_inv (win_db v)" and row2: "find_job j (win_db v) = Some (moved_row E row Inspecting)"
    by (simp_all add: moved_def)
  note checked = revalidate_checks [OF inv2 rev, folded j_def]
  then obtain row' cur d where
      m: "moved E j row' cur Planned ''PLAN_REVALIDATED'' (win_db v) d"
        "moved E j (moved_row E row' Planned) Planned Running ''ENGINE_STARTED'' d (win_db w')"
    and res: "output_reservations (win_db w') = output_reservations (win_db v)" by blast
  have "row' = moved_row E row Inspecting" using m(1) row2 by (simp add: moved_def)
  then have db: "find_job j (win_db w) = Some row" "jr_state row = ''queued''"
    "find_job j (win_db w') = Some (moved_row E (moved_row E (moved_row E row Inspecting) Planned) Running)"
    "map ev_code (events_of j (win_db w')) = map ev_code (events_of j (win_db w))
            @ [''QUEUE_REINSPECTING'', ''PLAN_REVALIDATED'', ''ENGINE_STARTED'']"
    using c m by (simp_all add: moved_def event_for_def state_name.simps)
  have own: "map_option Inr (owned_key j (output_reservations (win_db v))) = Some (env_key E (jr_output_path row))"
    using chk row2 by (auto simp: check_reservation_def on_read_def validate_output_reservation_def
        get_job_def job_record_from_row_def ok_or_def ensure_def res_bind_def
        split: sum.splits if_splits option.splits)
  define end_row where "end_row = moved_row E (moved_row E (moved_row E row Inspecting) Planned) Running"
  have end_row: "jr_state end_row = ''running''" "jr_output_path end_row = jr_output_path row"
    by (simp_all add: end_row_def state_name.simps)
  have eng: "\<forall>st \<in> set (steps (pq_plan p)). \<exists>e.
         (if engine_id (engine st) = ''anole.structured'' then builtin_engine I ''anole.structured''
          else find_engine I (engine_id (engine st))) = Inr e
         \<and> binary_sha256 e = binary_sha256 (engine st) \<and> engine_version e = engine_version (engine st)"
    using checked engine_unchanged_found by blast
  have rows: "\<exists>row row'. find_job j (win_db w) = Some row \<and> jr_state row = ''queued''
        \<and> find_job j (win_db w') = Some row' \<and> jr_state row' = ''running''
        \<and> map ev_code (events_of j (win_db w')) = map ev_code (events_of j (win_db w))
            @ [''QUEUE_REINSPECTING'', ''PLAN_REVALIDATED'', ''ENGINE_STARTED'']
        \<and> map_option Inr (owned_key j (output_reservations (win_db w')))
            = Some (env_key E (jr_output_path row'))"
    using db [folded end_row_def] end_row own res by metis
  show ?thesis
    using checked by (intro conjI eng rows) blast+
qed

definition office_engine :: engine_identity where
  "office_engine = engine (hd (steps office_plan))"

definition office_probe :: probe where
  "office_probe =
     \<lparr>probe_schema_version = 1,
      artifact = \<lparr>display_path = ''in'', canonical_path = ''in'', size_bytes = 1,
        modified_unix_ms = 0, fast_fingerprint = ''f'', full_blake3 = None\<rparr>,
      format = \<lparr>format_id = ''docx'', kind_of = Document, mime_type = None, container = None,
        extension_matches = None, confidence = 1\<rparr>,
      streams = [], metadata = [], probe_warnings = [],
      evidence = \<lparr>evidence_engine_id = ''anole.office'', evidence_engine_version = ''1'',
        evidence_binary_sha256 = None\<rparr>,
      probe_duration_seconds = None, bit_rate = None\<rparr>"

definition office_inspectors :: inspectors where
  "office_inspectors = no_engines\<lparr>find_engine := \<lambda>_. Inr office_engine,
     probe_office := \<lambda>_. Inr office_probe\<rparr>"

lemma office_moves:
  "\<exists>r d r' d'. transition (demo_env 40) 11 Planned ''PLAN_REVALIDATED'' (solo_claimed (demo_env 40)) = (Inr r, d)
     \<and> transition (demo_env 40) 11 Running ''ENGINE_STARTED'' d = (Inr r', d')"
  by (simp add: solo_ops solo_claimed_def solo_store_eq)

lemma workers_start_on_checked_plans_witness:
  "\<exists>p w' row. prepare_queued_job (demo_env 40) office_inspectors None
        (solo_details\<lparr>jd_plan := office_plan\<rparr>) solo_held = (Inr (Ready p), w')
     \<and> pq_plan p = office_plan \<and> find_job 11 (win_db w') = Some row \<and> jr_state row = ''running''"
proof -
  define E where "E = demo_env 40"
  define details where "details = solo_details\<lparr>jd_plan := office_plan\<rparr>"
  have j: "rec_id (jd_job details) = 11" "jd_plan details = office_plan"
    by (simp_all add: details_def solo_details_def solo_job_def)
  have key: "env_key E ''a'' = Inr ''a''" by (simp add: E_def demo_env_def)
  obtain r d r' d' where tr: "transition E 11 Planned ''PLAN_REVALIDATED'' (solo_claimed E) = (Inr r, d)"
    "transition E 11 Running ''ENGINE_STARTED'' d = (Inr r', d')"
    using office_moves by (auto simp: E_def)
  obtain p w' where run: "prepare_queued_job E office_inspectors None details solo_held = (Inr (Ready p), w')"
    using tr
    by (simp add: prepare_queued_job_def Let_def st_bind_def on_store_def solo_held_fields
        solo_claimed_eq on_state_def emit_update_def check_reservation_def on_read_def
        solo_claimed_reservation j key ensure_def revalidate_plan_def move_and_report_def
        st_return_def office_plan_def engine_unchanged_def office_inspectors_def office_engine_def
        inspect_queued_input_def office_probe_def)
  have "store_inv (win_db solo_held)" by (simp add: solo_held_fields solo_store_inv)
  from workers_start_on_checked_plans [OF this run] show ?thesis
    using run unfolding j E_def [symmetric] details_def [symmetric] by blast
qed

end
