(* ===== verification/Routes.thy ===== *)
theory Routes
  imports Chain
begin

text \<open>
  \<open>crates/core/src/capabilities.rs\<close>, the availability of routes: the snapshot of every known
  target for an input, and the check that refuses a route before it is planned. Which engines
  answer is a parameter \<open>up\<close>: the code asks each engine of any lane once per snapshot.
\<close>

section \<open>The snapshot\<close>

record route_availability =
  route_target :: string
  available :: bool
  route_engines :: "string list"
  missing_engines :: "string list"
  route_message :: string

record capability_snapshot =
  snapshot_extension :: "string option"
  routes :: "(string \<times> route_availability) list"

definition lane_missing :: "(string \<Rightarrow> bool) \<Rightarrow> string list \<Rightarrow> string list" where
  "lane_missing up lane = filter (\<lambda>e. \<not> up e) lane"

definition chained_unavailable_route :: "string \<Rightarrow> string option \<Rightarrow> route_availability" where
  "chained_unavailable_route target ext =
     \<lparr>route_target = target, available = False, route_engines = [], missing_engines = [],
      route_message =
        (case find_conversion_chain (''fixture.'' @ unwrap_or_default ext) target of
           Some chain \<Rightarrow> ''No direct route; reachable via chain ''
              @ join_with '' > '' (map hop_to chain) @ ''.''
         | None \<Rightarrow> ''This input/target route is not supported.'')\<rparr>"

definition selected_lane :: "(string \<Rightarrow> bool) \<Rightarrow> string list list \<Rightarrow> string list option" where
  "selected_lane up lanes = find (\<lambda>lane. lane_missing up lane = []) lanes"

definition install_message :: "string list \<Rightarrow> string" where
  "install_message missing =
     ''Install or import an engine pack that provides: '' @ join_with '', '' missing @ ''.''"

definition available_message :: "string list \<Rightarrow> string" where
  "available_message req =
     (if req = [] then ''Available through the built-in structured engine.''
      else ''Available through '' @ join_with '', '' req @ ''.'')"

definition lane_route :: "(string \<Rightarrow> bool) \<Rightarrow> string \<Rightarrow> string list list \<Rightarrow> route_availability" where
  "lane_route up target lanes =
     (let preferred = (case lanes of [] \<Rightarrow> [] | lane # _ \<Rightarrow> lane);
          (req, missing, ok) =
            (case selected_lane up lanes of
               Some lane \<Rightarrow> (lane, [], True)
             | None \<Rightarrow> (preferred, lane_missing up preferred, False))
      in \<lparr>route_target = target, available = ok, route_engines = req, missing_engines = missing,
          route_message =
            (if ok then available_message req else install_message missing)\<rparr>)"

definition route_entry :: "(string \<Rightarrow> bool) \<Rightarrow> string option \<Rightarrow> string \<Rightarrow> route_availability" where
  "route_entry up ext target =
     (if target \<in> set (supported_targets ext)
      then lane_route up target (route_engine_lanes ext target)
      else chained_unavailable_route target ext)"

definition capability_snapshot_for_input :: "(string \<Rightarrow> bool) \<Rightarrow> string \<Rightarrow> capability_snapshot" where
  "capability_snapshot_for_input up input =
     (let ext = input_extension input in
      \<lparr>snapshot_extension = ext,
       routes = map (\<lambda>t. (t, route_entry up ext t)) (sort known_targets)\<rparr>)"

definition route :: "capability_snapshot \<Rightarrow> string \<Rightarrow> route_availability option" where
  "route s target = map_of (routes s) (normalize_target target)"

definition available_targets :: "capability_snapshot \<Rightarrow> string list" where
  "available_targets s = map (route_target \<circ> snd) (filter (available \<circ> snd) (routes s))"

section \<open>The check of one route\<close>

definition ensure_route_available ::
    "(string \<Rightarrow> bool) \<Rightarrow> string \<Rightarrow> string \<Rightarrow> anole_error + route_availability" where
  "ensure_route_available up input target =
     (let s = capability_snapshot_for_input up input; normalized = normalize_target target in
      res_bind (ok_or (anole_error_new Unsupported Plan_stage
                        (''Unknown target format: '' @ normalized)) (route s normalized)) (\<lambda>r.
      if available r then Inr r
      else Inl (anole_error_new
             (if missing_engines r = [] then Unsupported else EngineMissing)
             Plan_stage (route_message r))))"

section \<open>What the check decides\<close>

lemma distinct_known_targets: "distinct known_targets"
  by (simp add: known_targets_def)

lemma route_snapshot:
  "route (capability_snapshot_for_input up input) target =
    (if normalize_target target \<in> set known_targets
     then Some (route_entry up (input_extension input) (normalize_target target)) else None)"
  by (auto simp: route_def capability_snapshot_for_input_def Let_def map_of_map_restrict
      restrict_map_def)

lemma find_SomeD: "find P xs = Some x \<Longrightarrow> x \<in> set xs \<and> P x"
  by (induction xs) (auto split: if_splits)

lemma lane_missing_Nil: "lane_missing up lane = [] \<longleftrightarrow> (\<forall>e \<in> set lane. up e)"
  by (simp add: lane_missing_def filter_empty_conv)

lemma lane_route_found:
  "selected_lane up lanes = Some lane \<Longrightarrow> available (lane_route up t lanes)
     \<and> route_engines (lane_route up t lanes) = lane \<and> route_target (lane_route up t lanes) = t"
  by (simp add: lane_route_def)

lemma lane_route_not_found:
  assumes "selected_lane up lanes = None" and "lanes \<noteq> []"
  shows "\<not> available (lane_route up t lanes)"
    and "missing_engines (lane_route up t lanes) = lane_missing up (hd lanes)"
    and "route_message (lane_route up t lanes) = install_message (lane_missing up (hd lanes))"
    and "lane_missing up (hd lanes) \<noteq> []"
proof -
  obtain l ls where l: "lanes = l # ls" using assms(2) by (cases lanes) auto
  then show "\<not> available (lane_route up t lanes)"
    "missing_engines (lane_route up t lanes) = lane_missing up (hd lanes)"
    "route_message (lane_route up t lanes) = install_message (lane_missing up (hd lanes))"
    using assms(1) by (simp_all add: lane_route_def)
  show "lane_missing up (hd lanes) \<noteq> []"
    using assms(1) l by (auto simp: selected_lane_def split: if_splits)
qed

lemma selected_lane_iff:
  "(\<exists>lane. selected_lane up lanes = Some lane) \<longleftrightarrow> (\<exists>lane \<in> set lanes. \<forall>e \<in> set lane. up e)"
  by (induction lanes) (auto simp: selected_lane_def lane_missing_Nil)

lemma selected_laneD:
  "selected_lane up lanes = Some lane \<Longrightarrow> lane \<in> set lanes \<and> (\<forall>e \<in> set lane. up e)"
  unfolding selected_lane_def by (drule find_SomeD) (simp add: lane_missing_Nil)

lemma lanes_not_empty: "route_engine_lanes ext t \<noteq> []"
  by (simp add: route_engine_lanes_def Let_def)

lemma chained_unavailable [simp]:
  "\<not> available (chained_unavailable_route t ext)"
  "missing_engines (chained_unavailable_route t ext) = []"
  by (simp_all add: chained_unavailable_route_def)

text \<open>
  The check of a route answers by the table and the engines that are there. A target that
  is in canonical form passes exactly when it is one of the input's targets and some lane of
  the route has all its engines; it is refused as unsupported when the table does not have it,
  and as an engine that is missing when the table has it but no lane is complete, the message
  then naming the missing engines of the first lane.
\<close>

theorem route_check_decides:
  assumes t: "t \<in> set known_targets" and ext: "input_extension input = ext"
  shows "(if t \<notin> set (supported_targets ext)
     then \<exists>m. ensure_route_available up input t = Inl (anole_error_new Unsupported Plan_stage m)
     else if \<exists>lane \<in> set (route_engine_lanes ext t). \<forall>e \<in> set lane. up e
     then \<exists>r. ensure_route_available up input t = Inr r \<and> route_target r = t
            \<and> route_engines r \<in> set (route_engine_lanes ext t) \<and> (\<forall>e \<in> set (route_engines r). up e)
     else ensure_route_available up input t = Inl (anole_error_new EngineMissing Plan_stage
            (install_message (filter (\<lambda>e. \<not> up e) (hd (route_engine_lanes ext t))))))"
proof -
  have n: "normalize_target t = t" using t known_targets_canonical by blast
  define r where "r = route_entry up ext t"
  have e: "ensure_route_available up input t =
      (if available r then Inr r
       else Inl (anole_error_new (if missing_engines r = [] then Unsupported else EngineMissing)
              Plan_stage (route_message r)))"
    using t n ext by (simp add: ensure_route_available_def Let_def route_snapshot r_def ok_or_def)
  show ?thesis
  proof (cases "t \<in> set (supported_targets ext)")
    case False
    then show ?thesis by (auto simp: e r_def route_entry_def)
  next
    case True
    define lanes where "lanes = route_engine_lanes ext t"
    have r: "r = lane_route up t lanes" using True by (simp add: r_def route_entry_def lanes_def)
    show ?thesis
    proof (cases "selected_lane up lanes")
      case None
      then have "\<not> (\<exists>lane \<in> set lanes. \<forall>e \<in> set lane. up e)"
        using selected_lane_iff [of up lanes] by simp
      moreover have ne: "lanes \<noteq> []" by (simp add: lanes_def lanes_not_empty)
      ultimately show ?thesis using True lane_route_not_found [OF None ne]
        by (simp add: e r lanes_def lane_missing_def)
    next
      case (Some lane)
      with selected_laneD [OF Some] lane_route_found [OF Some, of t] True show ?thesis
        by (auto simp: e r lanes_def)
    qed
  qed
qed

lemma route_check_decides_witness:
  "ensure_route_available (\<lambda>e. e = ''pandoc'') ''a.docx'' ''pdf'' = Inl (anole_error_new EngineMissing
     Plan_stage ''Install or import an engine pack that provides: soffice, pdfinfo, pdftoppm.'')"
proof -
  have "''pdf'' \<in> set known_targets" by (simp add: known_targets_def)
  moreover have "input_extension ''a.docx'' = Some ''docx''" by code_simp
  moreover have "''pdf'' \<in> set (supported_targets (Some ''docx''))"
    by (simp add: set_supported_targets target_values_def unwrap_or_default_def)
  moreover have "route_engine_lanes (Some ''docx'') ''pdf'' = [[''soffice'', ''pdfinfo'', ''pdftoppm'']]"
    by code_simp
  ultimately show ?thesis
    using route_check_decides [of "''pdf''" "''a.docx''" "Some ''docx''" "\<lambda>e. e = ''pandoc''"]
    by (simp add: install_message_def)
qed

text \<open>
  The comment on the engines of a mailbox rendered to PDF announces a fallback lane; the table
  has one lane only.
\<close>

lemma mailbox_pdf_has_one_lane:
  "route_engine_lanes (Some ''mbox'') ''pdf'' =
     [[''msedge'', ''pdfinfo'', ''pdftoppm'', ''pdftotext'', ''pdffonts'', ''qpdf'']]"
  by code_simp

end
