(* ===== verification/Presets.thy ===== *)
theory Presets
  imports Domain "HOL-Library.Product_Lexorder" "HOL-Library.List_Lexorder" "HOL-Library.Char_ord"
begin

text \<open>
  \<open>crates/core/src/preset.rs\<close>: conversion presets, the preset library with its Explorer verb
  bindings, and its operations. \<open>str::to_lowercase\<close>, the full Unicode mapping, is the
  parameter \<open>lower\<close>; nothing is assumed of it.
\<close>

section \<open>Presets\<close>

definition preset_schema_version :: nat where
  "preset_schema_version = 2"

record shell_verb_binding =
  verb_id :: string
  verb_enabled :: bool
  bound_preset :: "uuid option"

record conversion_preset =
  pre_schema_version :: nat
  preset_id :: uuid
  preset_name :: string
  pre_target_format :: string
  pre_quality :: "nat option"
  pre_width :: "nat option"
  pre_dpi :: "nat option"
  pre_color_mode :: "string option"
  pre_video_crf :: "nat option"
  pre_video_preset :: "string option"
  pre_audio_bitrate_kbps :: "nat option"
  pre_preserve_all_streams :: bool

definition invalid_preset :: "string \<Rightarrow> anole_error" where
  "invalid_preset m = anole_error_new InputInvalid Store m"

definition opt_all :: "('a \<Rightarrow> bool) \<Rightarrow> 'a option \<Rightarrow> bool" where
  "opt_all p x = (case x of None \<Rightarrow> True | Some y \<Rightarrow> p y)"

definition video_presets :: "string list" where
  "video_presets =
     [''ultrafast'', ''superfast'', ''veryfast'', ''faster'', ''fast'', ''medium'', ''slow'',
      ''slower'', ''veryslow'']"

definition validate_preset :: "conversion_preset \<Rightarrow> anole_error + unit" where
  "validate_preset p =
     res_bind (ensure (pre_schema_version p = preset_schema_version)
       (invalid_preset ''Unsupported preset schema version'')) (\<lambda>_.
     let name = trim (preset_name p) in
     res_bind (ensure (\<not> (name = [] \<or> chars_count name > 80 \<or> has_control name))
       (invalid_preset ''Preset name must contain 1 to 80 printable characters'')) (\<lambda>_.
     res_bind (ensure (\<not> (pre_target_format p = [] \<or> length (pre_target_format p) > 16
           \<or> \<not> (\<forall>c \<in> set (pre_target_format p). is_ascii_lower c \<or> is_ascii_digit c)))
       (invalid_preset ''Preset target format must be a lowercase format identifier'')) (\<lambda>_.
     res_bind (ensure (opt_all (\<lambda>q. 1 \<le> q \<and> q \<le> 100) (pre_quality p))
       (invalid_preset ''Preset quality must be between 1 and 100'')) (\<lambda>_.
     res_bind (ensure (opt_all (\<lambda>w. 1 \<le> w \<and> w \<le> 16384) (pre_width p))
       (invalid_preset ''Preset width must be between 1 and 16384 pixels'')) (\<lambda>_.
     res_bind (ensure (opt_all (\<lambda>d. 36 \<le> d \<and> d \<le> 600) (pre_dpi p))
       (invalid_preset ''Preset DPI must be between 36 and 600'')) (\<lambda>_.
     res_bind (ensure (opt_all (\<lambda>m. m \<in> {''rgb'', ''gray''}) (pre_color_mode p))
       (invalid_preset ''Preset color mode must be rgb or gray'')) (\<lambda>_.
     res_bind (ensure (opt_all (\<lambda>c. \<not> c > 51) (pre_video_crf p))
       (invalid_preset ''Preset video CRF must be between 0 and 51'')) (\<lambda>_.
     res_bind (ensure (opt_all (\<lambda>v. v \<in> set video_presets) (pre_video_preset p))
       (invalid_preset ''Preset video preset must be an x264 speed preset'')) (\<lambda>_.
     ensure (opt_all (\<lambda>k. 8 \<le> k \<and> k \<le> 320) (pre_audio_bitrate_kbps p))
       (invalid_preset ''Preset audio bitrate must be between 8 and 320 kbps''))))))))))"

section \<open>The library\<close>

record preset_library =
  lib_schema_version :: nat
  presets :: "conversion_preset list"
  shell_verbs :: "shell_verb_binding list"

definition empty_library :: preset_library where
  "empty_library = \<lparr>lib_schema_version = preset_schema_version, presets = [], shell_verbs = []\<rparr>"

text \<open>The two loops of the validation, each with the sets it fills.\<close>

definition check_preset ::
    "(string \<Rightarrow> string) \<Rightarrow> uuid list \<times> string list \<Rightarrow> conversion_preset
     \<Rightarrow> anole_error + uuid list \<times> string list" where
  "check_preset lower st p =
     res_bind (validate_preset p) (\<lambda>_.
     res_bind (ensure (preset_id p \<notin> set (fst st))
       (invalid_preset ''Preset library contains a duplicate preset ID'')) (\<lambda>_.
     res_bind (ensure (lower (trim (preset_name p)) \<notin> set (snd st))
       (invalid_preset ''Preset names must be unique'')) (\<lambda>_.
     Inr (fst st @ [preset_id p], snd st @ [lower (trim (preset_name p))]))))"

text \<open>
  \<open>chars().any(|c| !c.is_ascii_alphanumeric() && ...)\<close>: a byte above 127 belongs to a
  character that is not ASCII, so the test on bytes decides the same.
\<close>

definition check_binding ::
    "conversion_preset list \<Rightarrow> string list \<Rightarrow> shell_verb_binding \<Rightarrow> anole_error + string list" where
  "check_binding ps ids b =
     res_bind (ensure (\<not> (verb_id b = [] \<or> length (verb_id b) > 64
           \<or> (\<exists>c \<in> set (verb_id b). \<not> is_ascii_alphanumeric c \<and> c \<noteq> CHR ''.'' \<and> c \<noteq> CHR ''_'')))
       (invalid_preset ''Shell-verb binding has an invalid verb ID'')) (\<lambda>_.
     res_bind (ensure (verb_id b \<notin> set ids)
       (invalid_preset ''Shell-verb binding IDs must be unique'')) (\<lambda>_.
     res_bind (ensure (opt_all (\<lambda>i. \<exists>p \<in> set ps. preset_id p = i) (bound_preset b))
       (invalid_preset ''Shell-verb binding points at a preset that is not in this library'')) (\<lambda>_.
     Inr (ids @ [verb_id b]))))"

definition validate_library :: "(string \<Rightarrow> string) \<Rightarrow> preset_library \<Rightarrow> anole_error + unit" where
  "validate_library lower l =
     res_bind (ensure (lib_schema_version l = preset_schema_version)
       (invalid_preset ''Unsupported preset-library schema version'')) (\<lambda>_.
     res_bind (ensure (\<not> length (presets l) > 4096)
       (invalid_preset ''Preset library cannot contain more than 4096 entries'')) (\<lambda>_.
     res_bind (res_fold (check_preset lower) ([], []) (presets l)) (\<lambda>_.
     res_bind (ensure (\<not> length (shell_verbs l) > 64)
       (invalid_preset ''Preset library cannot carry more than 64 shell-verb bindings'')) (\<lambda>_.
     res_bind (res_fold (check_binding (presets l)) [] (shell_verbs l)) (\<lambda>_. Inr ())))))"

definition migrate_legacy :: "preset_library \<Rightarrow> preset_library" where
  "migrate_legacy l =
     (if lib_schema_version l = 1
      then l\<lparr>lib_schema_version := preset_schema_version, shell_verbs := []\<rparr> else l)"

section \<open>The operations\<close>

text \<open>Replacing the first preset with the identifier, or appending.\<close>

fun put_preset :: "conversion_preset \<Rightarrow> conversion_preset list \<Rightarrow> conversion_preset list" where
  "put_preset p [] = [p]"
| "put_preset p (q # qs) = (if preset_id q = preset_id p then p # qs else q # put_preset p qs)"

definition preset_sort_key :: "(string \<Rightarrow> string) \<Rightarrow> conversion_preset \<Rightarrow> string \<times> uuid" where
  "preset_sort_key lower p = (lower (preset_name p), preset_id p)"

definition cleaned :: "conversion_preset \<Rightarrow> conversion_preset" where
  "cleaned p =
     p\<lparr>preset_name := trim (preset_name p),
       pre_target_format := to_ascii_lowercase (pre_target_format p)\<rparr>"

text \<open>\<open>&mut self\<close> returning a result: an error leaves the library as it was.\<close>

definition upsert ::
    "(string \<Rightarrow> string) \<Rightarrow> conversion_preset \<Rightarrow> preset_library \<Rightarrow> anole_error + preset_library" where
  "upsert lower p0 l =
     (let p = cleaned p0 in
      res_bind (validate_preset p) (\<lambda>_.
      res_bind (ensure (\<not> (\<exists>q \<in> set (presets l). preset_id q \<noteq> preset_id p
            \<and> lower (preset_name q) = lower (preset_name p)))
        (invalid_preset ''A preset with this name already exists'')) (\<lambda>_.
      let updated = l\<lparr>presets := sort_key (preset_sort_key lower) (put_preset p (presets l))\<rparr> in
      res_bind (validate_library lower updated) (\<lambda>_. Inr updated))))"

definition remove_preset :: "uuid \<Rightarrow> preset_library \<Rightarrow> bool \<times> preset_library" where
  "remove_preset i l =
     (let kept = filter (\<lambda>p. preset_id p \<noteq> i) (presets l) in
      (length (presets l) \<noteq> length kept, l\<lparr>presets := kept\<rparr>))"

definition merge ::
    "(string \<Rightarrow> string) \<Rightarrow> preset_library \<Rightarrow> preset_library \<Rightarrow> anole_error + nat \<times> preset_library" where
  "merge lower imported l =
     res_bind (validate_library lower imported) (\<lambda>_.
     res_bind (res_fold (\<lambda>m p. upsert lower p m) l (presets imported)) (\<lambda>merged.
     Inr (length (presets imported), merged)))"

section \<open>What a valid library is\<close>

definition valid_binding :: "conversion_preset list \<Rightarrow> shell_verb_binding \<Rightarrow> bool" where
  "valid_binding ps b \<longleftrightarrow> opt_all (\<lambda>i. \<exists>p \<in> set ps. preset_id p = i) (bound_preset b)"

lemma check_presets_Inr:
  assumes "res_fold (check_preset lower) ([], []) ps = Inr st"
  shows "distinct (map preset_id ps) \<and> distinct (map (lower \<circ> trim \<circ> preset_name) ps)
    \<and> (\<forall>p \<in> set ps. validate_preset p = Inr ())"
proof -
  have step: "fst st' = fst st @ [preset_id p] \<and> preset_id p \<notin> set (fst st) \<and> validate_preset p = Inr ()"
    "snd st' = snd st @ [(lower \<circ> trim \<circ> preset_name) p] \<and> (lower \<circ> trim \<circ> preset_name) p \<notin> set (snd st) \<and> True"
    if "check_preset lower st p = Inr st'" for st p st'
    using that by (auto simp: check_preset_def)
  from res_fold_fresh [where g = fst and k = preset_id, OF assms step(1)]
  have ids: "fst st = map preset_id ps \<and> distinct (fst st) \<and> (\<forall>p \<in> set ps. validate_preset p = Inr ())"
    by (metis append_Nil distinct.simps(1) fst_conv)
  from res_fold_fresh [where g = snd and k = "lower \<circ> trim \<circ> preset_name", OF assms step(2)]
  have "snd st = map (lower \<circ> trim \<circ> preset_name) ps \<and> distinct (snd st)"
    by (metis append_Nil distinct.simps(1) snd_conv)
  with ids show ?thesis by metis
qed

lemma check_bindings_Inr:
  assumes "res_fold (check_binding ps) [] bs = Inr ids"
  shows "distinct (map verb_id bs) \<and> (\<forall>b \<in> set bs. valid_binding ps b)"
proof -
  have step: "ids' = ids @ [verb_id b] \<and> verb_id b \<notin> set ids \<and> valid_binding ps b"
    if "check_binding ps ids b = Inr ids'" for ids b ids'
    using that by (auto simp: check_binding_def valid_binding_def)
  from res_fold_fresh [where g = "\<lambda>x. x" and k = verb_id, OF assms step]
  show ?thesis by (metis append_Nil distinct.simps(1))
qed

lemma validate_libraryD:
  assumes "validate_library lower l = Inr ()"
  shows "distinct (map preset_id (presets l))"
    and "distinct (map (lower \<circ> trim \<circ> preset_name) (presets l))"
    and "\<forall>p \<in> set (presets l). validate_preset p = Inr ()"
    and "distinct (map verb_id (shell_verbs l))"
    and "\<forall>b \<in> set (shell_verbs l). valid_binding (presets l) b"
    and "length (presets l) \<le> 4096" and "length (shell_verbs l) \<le> 64"
    and "lib_schema_version l = preset_schema_version"
  using assms by (auto simp: validate_library_def dest!: check_presets_Inr check_bindings_Inr)

section \<open>Upserting\<close>

lemma set_put_preset:
  "distinct (map preset_id qs) \<Longrightarrow>
   set (put_preset p qs) = insert p {q \<in> set qs. preset_id q \<noteq> preset_id p}"
  by (induction qs) (auto simp: image_iff)

lemma length_put_preset:
  "length (put_preset p qs) = length qs + (if preset_id p \<in> preset_id ` set qs then 0 else 1)"
  by (induction qs) auto

lemma upsert_effect:
  assumes valid: "validate_library lower l = Inr ()" and up: "upsert lower p l = Inr l'"
  shows "validate_library lower l' = Inr ()
    \<and> set (presets l') = insert (cleaned p) {q \<in> set (presets l). preset_id q \<noteq> preset_id p}
    \<and> length (presets l') = length (presets l) + (if preset_id p \<in> preset_id ` set (presets l) then 0 else 1)
    \<and> sorted (map (preset_sort_key lower) (presets l')) \<and> shell_verbs l' = shell_verbs l"
proof -
  have c: "preset_id (cleaned p) = preset_id p" by (simp add: cleaned_def)
  have l': "l' = l\<lparr>presets := sort_key (preset_sort_key lower) (put_preset (cleaned p) (presets l))\<rparr>"
    and v: "validate_library lower l' = Inr ()"
    using up by (auto simp: upsert_def Let_def)
  have "distinct (map preset_id (presets l))" using valid by (rule validate_libraryD)
  from set_put_preset [OF this, of "cleaned p"] length_put_preset [of "cleaned p" "presets l"]
  show ?thesis using v by (simp add: l' c)
qed

section \<open>Removing\<close>

lemma validate_removed:
  assumes "validate_library lower l = Inr ()"
    and "validate_library lower (snd (remove_preset i l)) = Inr ()"
  shows "\<forall>b \<in> set (shell_verbs l). bound_preset b \<noteq> Some i"
proof
  fix b assume "b \<in> set (shell_verbs l)"
  with validate_libraryD(5) [OF assms(2)] have "valid_binding (filter (\<lambda>p. preset_id p \<noteq> i) (presets l)) b"
    by (simp add: remove_preset_def Let_def)
  then show "bound_preset b \<noteq> Some i" by (auto simp: valid_binding_def opt_all_def)
qed

lemma upsert_needs_bindings:
  assumes "upsert lower p l = Inr l'" and "b \<in> set (shell_verbs l)" and "bound_preset b = Some i"
  shows "i \<in> insert (preset_id p) (preset_id ` set (presets l))"
proof -
  have l': "l' = l\<lparr>presets := sort_key (preset_sort_key lower) (put_preset (cleaned p) (presets l))\<rparr>"
    and v: "validate_library lower l' = Inr ()"
    using assms(1) by (auto simp: upsert_def Let_def)
  have "valid_binding (presets l') b"
    using validate_libraryD(5) [OF v] assms(2) by (simp add: l')
  then obtain q where "q \<in> set (put_preset (cleaned p) (presets l))" "preset_id q = i"
    using assms(3) by (auto simp: valid_binding_def opt_all_def l')
  moreover have put: "set (put_preset r qs) \<subseteq> insert r (set qs)" for r qs
    by (induction qs) auto
  ultimately have "q = cleaned p \<or> q \<in> set (presets l)" using put [of "cleaned p" "presets l"] by blast
  then show ?thesis using \<open>preset_id q = i\<close> by (auto simp: cleaned_def)
qed

text \<open>
  Removing a preset that an Explorer verb is bound to leaves a library that is refused from
  then on. It fails its own validation, and saving any other preset into it fails; only putting
  the removed preset back, or dropping the binding, makes it valid again.
\<close>

lemma removal_leaves_dangling_binding:
  assumes "validate_library lower l = Inr ()"
    and "b \<in> set (shell_verbs l)" and "bound_preset b = Some i"
  shows "fst (remove_preset i l) \<and> validate_library lower (snd (remove_preset i l)) \<noteq> Inr ()
    \<and> (\<forall>(p :: conversion_preset) l'. preset_id p \<noteq> i \<longrightarrow> upsert lower p (snd (remove_preset i l)) \<noteq> Inr l')"
proof (intro conjI allI impI)
  have "valid_binding (presets l) b" using validate_libraryD(5) [OF assms(1)] assms(2) by blast
  then obtain q where "q \<in> set (presets l)" "preset_id q = i"
    using assms(3) by (auto simp: valid_binding_def opt_all_def)
  then have "length (filter (\<lambda>p. preset_id p \<noteq> i) (presets l)) < length (presets l)"
    by (intro length_filter_less) auto
  then show "fst (remove_preset i l)" by (simp add: remove_preset_def Let_def)
  show "validate_library lower (snd (remove_preset i l)) \<noteq> Inr ()"
    using validate_removed [OF assms(1)] assms(2,3) by blast
  fix p :: conversion_preset and l' assume "preset_id p \<noteq> i"
  then show "upsert lower p (snd (remove_preset i l)) \<noteq> Inr l'"
    using upsert_needs_bindings [of lower p "snd (remove_preset i l)" l' b i] assms(2,3)
    by (auto simp: remove_preset_def Let_def)
qed

section \<open>Merging\<close>

lemma upsert_valid: "upsert lower p l = Inr l' \<Longrightarrow> validate_library lower l' = Inr ()"
  by (auto simp: upsert_def Let_def)

lemma merge_presets:
  assumes "res_fold (\<lambda>m p. upsert lower p m) l ps = Inr l'"
    and "validate_library lower l = Inr ()" and "distinct (map preset_id ps)"
  shows "validate_library lower l' = Inr () \<and> shell_verbs l' = shell_verbs l
    \<and> set (presets l') = cleaned ` set ps \<union> {q \<in> set (presets l). preset_id q \<notin> preset_id ` set ps}"
  using assms
proof (induction ps arbitrary: l)
  case (Cons p ps)
  then obtain m where m: "upsert lower p l = Inr m" and rest: "res_fold (\<lambda>m p. upsert lower p m) m ps = Inr l'"
    by auto
  note one = upsert_effect [OF Cons.prems(2) m]
  have "distinct (map preset_id ps)" using Cons.prems(3) by simp
  from Cons.IH [OF rest _ this] one
  have l': "validate_library lower l' = Inr () \<and> shell_verbs l' = shell_verbs l
    \<and> set (presets l') = cleaned ` set ps \<union> {q \<in> set (presets m). preset_id q \<notin> preset_id ` set ps}"
    by simp
  have ids: "preset_id (cleaned p) = preset_id p" "preset_id p \<notin> preset_id ` set ps"
    using Cons.prems(3) by (simp_all add: cleaned_def)
  have "{q \<in> set (presets m). preset_id q \<notin> preset_id ` set ps}
    = insert (cleaned p) {q \<in> set (presets l). preset_id q \<notin> preset_id ` set (p # ps)}"
  proof -
    have "preset_id q \<noteq> preset_id p" if "q \<in> set ps" for q using ids(2) that by (metis image_eqI)
    then show ?thesis using one ids by auto
  qed
  with l' show ?case by simp
qed simp

text \<open>
  Importing a preset library. If the library is valid and the merge succeeds, the result is
  valid, it holds every imported preset with its name trimmed and its target in lower case and
  every preset of its own whose identifier was not imported, and nothing else, its Explorer
  bindings are unchanged, and the reported count is the number of imported presets.
\<close>

theorem merge_imports_all:
  assumes valid: "validate_library lower l = Inr ()" and m: "merge lower imported l = Inr (n, l')"
  shows "validate_library lower l' = Inr () \<and> shell_verbs l' = shell_verbs l
    \<and> set (presets l') = cleaned ` set (presets imported)
        \<union> {q \<in> set (presets l). preset_id q \<notin> preset_id ` set (presets imported)}
    \<and> n = length (presets imported)"
proof -
  have imp: "validate_library lower imported = Inr ()"
    and f: "res_fold (\<lambda>m p. upsert lower p m) l (presets imported) = Inr l'"
    and n: "n = length (presets imported)"
    using m by (auto simp: merge_def)
  from merge_presets [OF f valid validate_libraryD(1) [OF imp]] n show ?thesis by simp
qed

section \<open>Instances\<close>

definition demo_preset :: conversion_preset where
  "demo_preset =
     \<lparr>pre_schema_version = 2, preset_id = 7, preset_name = ''web'', pre_target_format = ''webp'',
      pre_quality = Some 78, pre_width = None, pre_dpi = None, pre_color_mode = None,
      pre_video_crf = None, pre_video_preset = None, pre_audio_bitrate_kbps = None,
      pre_preserve_all_streams = True\<rparr>"

definition demo_library :: preset_library where
  "demo_library =
     \<lparr>lib_schema_version = 2, presets = [demo_preset],
      shell_verbs = [\<lparr>verb_id = ''V'', verb_enabled = True, bound_preset = Some 7\<rparr>]\<rparr>"

lemma demo_library_valid: "validate_library (\<lambda>s. s) demo_library = Inr ()"
  by code_simp

lemma merge_imports_all_witness:
  "set (presets (snd (projr (merge (\<lambda>s. s) demo_library empty_library)))) = {demo_preset}"
proof -
  have empty: "validate_library (\<lambda>s. s) empty_library = Inr ()" by code_simp
  obtain n l' where m: "merge (\<lambda>s. s) demo_library empty_library = Inr (n, l')"
  proof -
    have "\<not> isl (merge (\<lambda>s. s) demo_library empty_library)" by code_simp
    then show ?thesis using that by (cases "merge (\<lambda>s. s) demo_library empty_library") auto
  qed
  have "cleaned demo_preset = demo_preset" by code_simp
  with merge_imports_all [OF empty m] m show ?thesis
    by (simp add: demo_library_def empty_library_def)
qed

end
