(* ===== verification/Preset_Desktop.thy ===== *)
theory Preset_Desktop
  imports Presets
begin

text \<open>
  The desktop commands on the preset library (\<open>apps/desktop/src-tauri/src/lib.rs\<close>) and the
  resolution of the Explorer verbs against it (\<open>explorer_integration.rs\<close>). The state is the
  library behind its mutex; writing the file and the registry are the outcomes \<open>io\<close> of a
  command; the bundled verb table is a parameter.
\<close>

section \<open>Explorer verbs\<close>

record verb_definition =
  assoc :: string
  verb :: string
  verb_target :: string
  verb_label :: string

record verb_registration =
  definition_of :: verb_definition
  reg_enabled :: bool
  reg_preset :: "conversion_preset option"

definition resolve_registrations ::
    "verb_definition list \<Rightarrow> preset_library \<Rightarrow> verb_registration list" where
  "resolve_registrations table l =
     map (\<lambda>d.
       let binding = find (\<lambda>b. verb_id b = verb d) (shell_verbs l);
           candidate = Option.bind (Option.bind binding bound_preset)
             (\<lambda>i. find (\<lambda>p. preset_id p = i) (presets l))
       in \<lparr>definition_of = d,
           reg_enabled = (case binding of None \<Rightarrow> True | Some b \<Rightarrow> verb_enabled b),
           reg_preset = Option.bind candidate
             (\<lambda>p. if pre_target_format p = verb_target d then Some p else None)\<rparr>) table"

section \<open>Commands\<close>

datatype desktop_error = Core anole_error | Message string

fun core :: "anole_error + 'a \<Rightarrow> desktop_error + 'a" where
  "core (Inl e) = Inl (Core e)"
| "core (Inr x) = Inr x"

lemma core_Inr [simp]: "core r = Inr x \<longleftrightarrow> r = Inr x"
  by (cases r) auto

record preset_request =
  prq_preset_id :: "uuid option"
  prq_name :: string
  prq_target_format :: string
  prq_quality :: "nat option"
  prq_width :: "nat option"
  prq_dpi :: "nat option"
  prq_color_mode :: "string option"
  prq_video_crf :: "nat option"
  prq_video_preset :: "string option"
  prq_audio_bitrate_kbps :: "nat option"
  prq_preserve_all_streams :: "bool option"

text \<open>\<open>fresh\<close> is the identifier \<open>Uuid::new_v4\<close> draws when the request names none.\<close>

definition into_preset :: "uuid \<Rightarrow> preset_request \<Rightarrow> conversion_preset" where
  "into_preset fresh r =
     \<lparr>pre_schema_version = preset_schema_version,
      preset_id = (case prq_preset_id r of None \<Rightarrow> fresh | Some i \<Rightarrow> i),
      preset_name = prq_name r, pre_target_format = prq_target_format r,
      pre_quality = prq_quality r, pre_width = prq_width r, pre_dpi = prq_dpi r,
      pre_color_mode = prq_color_mode r, pre_video_crf = prq_video_crf r,
      pre_video_preset = prq_video_preset r, pre_audio_bitrate_kbps = prq_audio_bitrate_kbps r,
      pre_preserve_all_streams =
        (case prq_preserve_all_streams r of None \<Rightarrow> True | Some b \<Rightarrow> b)\<rparr>"

definition persist_preset_library ::
    "(string \<Rightarrow> string) \<Rightarrow> desktop_error + unit \<Rightarrow> preset_library \<Rightarrow> desktop_error + unit" where
  "persist_preset_library lower io l = res_bind (core (validate_library lower l)) (\<lambda>_. io)"

text \<open>The size of the file and what its bytes decode to.\<close>

definition read_preset_library ::
    "(string \<Rightarrow> string) \<Rightarrow> nat \<Rightarrow> preset_library option \<Rightarrow> desktop_error + preset_library" where
  "read_preset_library lower bytes decoded =
     res_bind (ensure (\<not> bytes > 1024 * 1024)
       (Message ''preset library exceeds the 1 MiB import limit'')) (\<lambda>_.
     res_bind (ok_or (Message ''invalid preset library: {}'') decoded) (\<lambda>raw.
     let l = migrate_legacy raw in
     res_bind (core (validate_library lower l)) (\<lambda>_. Inr l)))"

definition save_desktop_preset ::
    "(string \<Rightarrow> string) \<Rightarrow> desktop_error + unit \<Rightarrow> uuid \<Rightarrow> preset_request \<Rightarrow> preset_library
     \<Rightarrow> (desktop_error + conversion_preset) \<times> preset_library" where
  "save_desktop_preset lower io fresh r current =
     (let p = into_preset fresh r in
      case res_bind (core (upsert lower p current)) (\<lambda>updated.
           res_bind (ok_or (Message ''saved preset was not found in the updated library'')
             (find (\<lambda>q. preset_id q = preset_id p) (presets updated))) (\<lambda>saved.
           res_bind (persist_preset_library lower io updated) (\<lambda>_. Inr (saved, updated)))) of
        Inl e \<Rightarrow> (Inl e, current)
      | Inr (saved, updated) \<Rightarrow> (Inr saved, updated))"

definition delete_desktop_preset ::
    "(string \<Rightarrow> string) \<Rightarrow> desktop_error + unit \<Rightarrow> uuid \<Rightarrow> preset_library
     \<Rightarrow> (desktop_error + bool) \<times> preset_library" where
  "delete_desktop_preset lower io i current =
     (case remove_preset i current of
        (False, _) \<Rightarrow> (Inr False, current)
      | (True, updated) \<Rightarrow>
          (case persist_preset_library lower io updated of
             Inl e \<Rightarrow> (Inl e, current)
           | Inr _ \<Rightarrow> (Inr True, updated)))"

definition override_binding ::
    "shell_verb_binding list \<Rightarrow> shell_verb_binding \<Rightarrow> shell_verb_binding list" where
  "override_binding vs b = filter (\<lambda>c. verb_id c \<noteq> verb_id b) vs @ [b]"

definition import_desktop_presets ::
    "(string \<Rightarrow> string) \<Rightarrow> desktop_error + unit \<Rightarrow> nat \<Rightarrow> preset_library option \<Rightarrow> preset_library
     \<Rightarrow> (desktop_error + nat \<times> nat) \<times> preset_library" where
  "import_desktop_presets lower io bytes decoded current =
     (case res_bind (read_preset_library lower bytes decoded) (\<lambda>imported.
           res_bind (core (merge lower imported current)) (\<lambda>(_, merged).
           let updated = merged\<lparr>shell_verbs :=
                 sort_key verb_id (foldl override_binding (shell_verbs merged) (shell_verbs imported))\<rparr> in
           res_bind (core (validate_library lower updated)) (\<lambda>_.
           res_bind (persist_preset_library lower io updated) (\<lambda>_.
           Inr (length (presets imported), updated))))) of
        Inl e \<Rightarrow> (Inl e, current)
      | Inr (n, updated) \<Rightarrow> (Inr (n, length (presets updated)), updated))"

text \<open>
  Committing the bindings: once the file is written the library is replaced, even when the
  registry then reports failures.
\<close>

definition commit_shell_verb_library ::
    "(string \<Rightarrow> string) \<Rightarrow> desktop_error + unit \<Rightarrow> desktop_error + unit \<Rightarrow> verb_definition list
     \<Rightarrow> preset_library \<Rightarrow> preset_library
     \<Rightarrow> (desktop_error + verb_registration list) \<times> preset_library" where
  "commit_shell_verb_library lower io registry table l current =
     (case res_bind (core (validate_library lower l)) (\<lambda>_. persist_preset_library lower io l) of
        Inl e \<Rightarrow> (Inl e, current)
      | Inr _ \<Rightarrow> (res_bind registry (\<lambda>_. Inr (resolve_registrations table l)), l))"

text \<open>\<open>preset\<close> is the parsed identifier: a text that is not a UUID counts as none.\<close>

definition set_desktop_shell_verb ::
    "(string \<Rightarrow> string) \<Rightarrow> desktop_error + unit \<Rightarrow> desktop_error + unit \<Rightarrow> verb_definition list
     \<Rightarrow> string \<Rightarrow> bool \<Rightarrow> uuid option \<Rightarrow> preset_library
     \<Rightarrow> (desktop_error + verb_registration list) \<times> preset_library" where
  "set_desktop_shell_verb lower io registry table v enabled preset current =
     (if \<not> (\<exists>d \<in> set table. verb d = v) then (Inl (Message ''unknown Explorer verb''), current)
      else if \<not> opt_all (\<lambda>i. \<exists>p \<in> set (presets current). preset_id p = i
                  \<and> (\<exists>d \<in> set table. verb d = v \<and> verb_target d = pre_target_format p)) preset
      then (Inl (Message ''the selected preset does not target this verb's format''), current)
      else
        let kept = filter (\<lambda>b. verb_id b \<noteq> v) (shell_verbs current);
            b = \<lparr>verb_id = v, verb_enabled = enabled, bound_preset = preset\<rparr>;
            bindings = (if enabled \<and> preset = None then kept else kept @ [b])
        in commit_shell_verb_library lower io registry table
             (current\<lparr>shell_verbs := sort_key verb_id bindings\<rparr>) current)"

definition reset_desktop_shell_verbs ::
    "(string \<Rightarrow> string) \<Rightarrow> desktop_error + unit \<Rightarrow> desktop_error + unit \<Rightarrow> verb_definition list
     \<Rightarrow> preset_library \<Rightarrow> (desktop_error + verb_registration list) \<times> preset_library" where
  "reset_desktop_shell_verbs lower io registry table current =
     commit_shell_verb_library lower io registry table (current\<lparr>shell_verbs := []\<rparr>) current"

section \<open>The library stays valid\<close>

datatype preset_command =
    SavePreset "desktop_error + unit" uuid preset_request
  | DeletePreset "desktop_error + unit" uuid
  | ImportPresets "desktop_error + unit" nat "preset_library option"
  | SetShellVerb "desktop_error + unit" "desktop_error + unit" string bool "uuid option"
  | ResetShellVerbs "desktop_error + unit" "desktop_error + unit"

fun run_preset ::
    "(string \<Rightarrow> string) \<Rightarrow> verb_definition list \<Rightarrow> preset_library \<Rightarrow> preset_command \<Rightarrow> preset_library" where
  "run_preset lower table l (SavePreset io fresh r) = snd (save_desktop_preset lower io fresh r l)"
| "run_preset lower table l (DeletePreset io i) = snd (delete_desktop_preset lower io i l)"
| "run_preset lower table l (ImportPresets io n d) = snd (import_desktop_presets lower io n d l)"
| "run_preset lower table l (SetShellVerb io reg v e p) =
     snd (set_desktop_shell_verb lower io reg table v e p l)"
| "run_preset lower table l (ResetShellVerbs io reg) =
     snd (reset_desktop_shell_verbs lower io reg table l)"

definition library_ok :: "(string \<Rightarrow> string) \<Rightarrow> preset_library \<Rightarrow> bool" where
  "library_ok lower l \<longleftrightarrow> validate_library lower l = Inr ()"

lemma persist_ok: "persist_preset_library lower io l = Inr u \<Longrightarrow> library_ok lower l"
  by (auto simp: persist_preset_library_def library_ok_def)

lemma commit_ok:
  "library_ok lower current \<Longrightarrow>
   library_ok lower (snd (commit_shell_verb_library lower io registry table l current))"
  by (auto simp: commit_shell_verb_library_def library_ok_def split: sum.splits)

lemma run_preset_ok:
  assumes "library_ok lower l"
  shows "library_ok lower (run_preset lower table l c)"
proof (cases c)
  case (SavePreset io fresh r)
  then show ?thesis using assms
    by (auto simp: save_desktop_preset_def Let_def dest: persist_ok split: sum.splits)
next
  case (DeletePreset io i)
  then show ?thesis using assms
    by (auto simp: delete_desktop_preset_def dest: persist_ok split: sum.splits prod.splits bool.splits)
next
  case (ImportPresets io n d)
  then show ?thesis using assms
    by (auto simp: import_desktop_presets_def Let_def dest: persist_ok split: sum.splits prod.splits)
next
  case (SetShellVerb io reg v e p)
  then show ?thesis using assms by (simp add: set_desktop_shell_verb_def Let_def commit_ok)
next
  case (ResetShellVerbs io reg)
  then show ?thesis using assms by (simp add: reset_desktop_shell_verbs_def commit_ok)
qed

lemma empty_library_ok: "library_ok lower empty_library"
  by (simp add: library_ok_def validate_library_def empty_library_def)

interpretation presets: machine empty_library "run_preset lower table" "library_ok lower" for lower table
  by unfold_locales (auto intro: empty_library_ok run_preset_ok)

text \<open>
  C13: the preset library of the desktop application is well-formed at all times. Starting from
  the empty library, after any sequence of saves, deletions, imports and verb settings, with
  any outcome of the file and registry writes, the library has the current schema, at most
  4096 presets with distinct identifiers and distinct names up to case and each valid in
  itself, and at most 64 bindings with distinct verbs, each bound to a preset of the library.
\<close>

theorem desktop_library_well_formed:
  "let l = fold (\<lambda>c s. run_preset lower table s c) cmds empty_library in
    lib_schema_version l = preset_schema_version
    \<and> length (presets l) \<le> 4096 \<and> length (shell_verbs l) \<le> 64
    \<and> distinct (map preset_id (presets l)) \<and> distinct (map (lower \<circ> trim \<circ> preset_name) (presets l))
    \<and> list_all (\<lambda>p. validate_preset p = Inr ()) (presets l)
    \<and> distinct (map verb_id (shell_verbs l)) \<and> list_all (valid_binding (presets l)) (shell_verbs l)"
proof -
  define l where "l = fold (\<lambda>c s. run_preset lower table s c) cmds empty_library"
  have "validate_library lower l = Inr ()"
    using presets.inv_run [of lower table cmds] by (simp add: l_def library_ok_def)
  from validate_libraryD [OF this] show ?thesis by (simp add: list_all_iff l_def [symmetric])
qed

text \<open>
  A preset that an Explorer verb is bound to cannot be deleted. The command answers with
  the error of the validation, whatever the file system does, and the library stays as it was.
\<close>

theorem bound_preset_cannot_be_deleted:
  assumes "library_ok lower l" and "b \<in> set (shell_verbs l)" and "bound_preset b = Some i"
  shows "\<exists>e. delete_desktop_preset lower io i l = (Inl (Core e), l)"
proof -
  have "valid_binding (presets l) b"
    using validate_libraryD(5) [of lower l] assms(1,2) by (simp add: library_ok_def)
  then have "fst (remove_preset i l)"
    using assms(3) by (auto simp: valid_binding_def opt_all_def remove_preset_def Let_def
        dest!: length_filter_less [where P = "\<lambda>p. preset_id p \<noteq> i"])
  moreover have "validate_library lower (snd (remove_preset i l)) \<noteq> Inr ()"
    using validate_removed [of lower l i] assms by (auto simp: library_ok_def)
  then obtain e where "validate_library lower (snd (remove_preset i l)) = Inl e"
    by (cases "validate_library lower (snd (remove_preset i l))") auto
  ultimately show ?thesis
    by (auto simp: delete_desktop_preset_def persist_preset_library_def split: prod.splits bool.splits)
qed

lemma bound_preset_cannot_be_deleted_witness:
  "snd (delete_desktop_preset (\<lambda>s. s) (Inr ()) 7 demo_library) = demo_library"
proof -
  have "\<exists>e. delete_desktop_preset (\<lambda>s. s) (Inr ()) 7 demo_library = (Inl (Core e), demo_library)"
    by (rule bound_preset_cannot_be_deleted [where b = "hd (shell_verbs demo_library)"])
       (simp_all add: library_ok_def demo_library_valid, simp_all add: demo_library_def)
  then show ?thesis by auto
qed

section \<open>Registrations\<close>

text \<open>A registration carries a preset only if the preset is in the library and targets the verb's format.\<close>

lemma registration_preset_fits:
  assumes "r \<in> set (resolve_registrations table l)" and "reg_preset r = Some p"
  shows "p \<in> set (presets l) \<and> pre_target_format p = verb_target (definition_of r)"
  using assms
  by (auto simp: resolve_registrations_def Let_def bind_eq_Some_conv find_Some_iff
      split: if_splits)

text \<open>
  A library of the first schema is refused until it is migrated: a reader that validates
  without migrating, as the check of a state bundle does, cannot use it.
\<close>

lemma legacy_library_needs_migration:
  assumes "lib_schema_version l = 1"
  shows "validate_library lower l \<noteq> Inr ()"
    and "validate_library lower (l\<lparr>lib_schema_version := preset_schema_version, shell_verbs := []\<rparr>) = Inr ()
      \<Longrightarrow> validate_library lower (migrate_legacy l) = Inr ()"
  using assms by (auto simp: validate_library_def migrate_legacy_def preset_schema_version_def)

end
