(* ===== verification/Rust_Fs.thy ===== *)
theory Rust_Fs
  imports Chain_Run
begin

text \<open>
  \<open>std::fs\<close> as the runner uses it. The file system is the map from paths to what is there;
  a link is kept with what it resolves to, since \<open>exists\<close>, \<open>is_file\<close> and \<open>is_dir\<close> follow it and
  removal and renaming do not.
\<close>

section \<open>Nodes\<close>

datatype target = File nat | Dir

datatype node = Plain target | Link "target option"

type_synonym fs = "string \<rightharpoonup> node"

definition resolved :: "fs \<Rightarrow> string \<Rightarrow> target option" where
  "resolved f p = (case f p of None \<Rightarrow> None | Some (Plain t) \<Rightarrow> Some t | Some (Link t) \<Rightarrow> t)"

definition fs_exists :: "fs \<Rightarrow> string \<Rightarrow> bool" where
  "fs_exists f p = (resolved f p \<noteq> None)"

definition is_file :: "fs \<Rightarrow> string \<Rightarrow> bool" where
  "is_file f p = (case resolved f p of Some (File _) \<Rightarrow> True | _ \<Rightarrow> False)"

definition is_dir :: "fs \<Rightarrow> string \<Rightarrow> bool" where
  "is_dir f p = (resolved f p = Some Dir)"

definition file_len :: "fs \<Rightarrow> string \<Rightarrow> nat option" where
  "file_len f p = (case resolved f p of None \<Rightarrow> None | Some (File n) \<Rightarrow> Some n | Some Dir \<Rightarrow> Some 0)"

text \<open>A path and what is under it.\<close>

definition below :: "string \<Rightarrow> string \<Rightarrow> bool" where
  "below d p = (p = d \<or> starts_with p (d @ ''/''))"

definition nothing_at :: "fs \<Rightarrow> string \<Rightarrow> bool" where
  "nothing_at f d = (\<forall>p. below d p \<longrightarrow> f p = None)"

section \<open>Changes\<close>

definition remove_tree :: "string \<Rightarrow> fs \<Rightarrow> fs" where
  "remove_tree d f = (\<lambda>p. if below d p then None else f p)"

definition move_tree :: "string \<Rightarrow> string \<Rightarrow> fs \<Rightarrow> fs" where
  "move_tree src dst f =
     (\<lambda>p. if below dst p then f (src @ drop (length dst) p) else if below src p then None else f p)"

text \<open>
  The operating system may refuse any change. \<open>os_remove\<close> is what a removal of something that
  is there does, \<open>os_create\<close> and \<open>os_rename\<close> whether a new directory or a rename of an existing
  path to a free one is let through.
\<close>

datatype io_end = Done | NotFound | AlreadyExists | OtherError

record os_world =
  os_remove :: "string \<Rightarrow> fs \<Rightarrow> io_end \<times> fs"
  os_create :: "string \<Rightarrow> fs \<Rightarrow> bool"
  os_rename :: "string \<Rightarrow> string \<Rightarrow> fs \<Rightarrow> bool"

text \<open>\<open>remove_file\<close> and \<open>remove_dir_all\<close>: what is not there is not found.\<close>

definition remove_path :: "'a os_world_scheme \<Rightarrow> string \<Rightarrow> fs \<Rightarrow> io_end \<times> fs" where
  "remove_path W p f = (if f p = None then (NotFound, f) else os_remove W p f)"

text \<open>\<open>create_dir\<close>\<close>

definition make_dir :: "'a os_world_scheme \<Rightarrow> string \<Rightarrow> fs \<Rightarrow> bool \<times> fs" where
  "make_dir W p f =
     (if f p = None \<and> os_create W p f then (True, f(p \<mapsto> Plain Dir)) else (False, f))"

text \<open>\<open>remove_dir\<close>, whose failure is only logged: an empty directory goes.\<close>

definition remove_empty_dir :: "'a os_world_scheme \<Rightarrow> string \<Rightarrow> fs \<Rightarrow> fs" where
  "remove_empty_dir W p f =
     (if f p = Some (Plain Dir) \<and> (\<forall>q. below p q \<longrightarrow> q = p \<or> f q = None)
      then snd (os_remove W p f) else f)"

text \<open>\<open>TempPath::persist_noclobber\<close>: an atomic rename that fails on anything at the target.\<close>

definition rename_path_no_replace ::
    "'a os_world_scheme \<Rightarrow> string \<Rightarrow> string \<Rightarrow> fs \<Rightarrow> io_end \<times> fs" where
  "rename_path_no_replace W src dst f =
     (if f src = None then (NotFound, f)
      else if f dst \<noteq> None then (AlreadyExists, f)
      else if os_rename W src dst f then (Done, move_tree src dst f)
      else (OtherError, f))"

section \<open>Removal that works\<close>

definition removal_works :: "'a os_world_scheme \<Rightarrow> bool" where
  "removal_works W \<longleftrightarrow> (\<forall>p f. os_remove W p f = (Done, remove_tree p f))"

lemma below_refl [simp]: "below p p"
  by (simp add: below_def)

lemma below_trans: "below a b \<Longrightarrow> below b c \<Longrightarrow> below a c"
  by (auto simp: below_def starts_with_def prefix_def)

lemma nothing_removed [simp]: "nothing_at (remove_tree p f) p"
  by (simp add: nothing_at_def remove_tree_def)

lemma remove_tree_other: "\<not> below d p \<Longrightarrow> remove_tree d f p = f p"
  by (simp add: remove_tree_def)

lemma move_tree_source:
  "\<not> below dst p \<Longrightarrow> below src p \<Longrightarrow> move_tree src dst f p = None"
  by (simp add: move_tree_def)

lemma move_tree_target: "move_tree src dst f dst = f src"
  by (simp add: move_tree_def)

lemma move_tree_other: "\<not> below dst p \<Longrightarrow> \<not> below src p \<Longrightarrow> move_tree src dst f p = f p"
  by (simp add: move_tree_def)

lemma rename_path_no_replace_cases:
  "rename_path_no_replace W src dst f = (e, f') \<Longrightarrow>
     (if e = Done then f src \<noteq> None \<and> f dst = None \<and> f' = move_tree src dst f else f' = f)"
  by (auto simp: rename_path_no_replace_def split: if_splits)

end
