(* ===== verification/Planner.thy ===== *)
theory Planner
  imports Chain_Run
begin

text \<open>
  \<open>crates/core/src/planner.rs\<close>: the plans of the media lanes. A planner turns what was probed
  and what was asked into one step for one engine, with the arguments the runner will read, the
  changes the user is told of and the checks the output has to pass; the hash of a plan covers
  everything that decides what a run does.
\<close>

section \<open>The hash of a plan\<close>

record hash_engine =
  he_engine_id :: string
  he_version :: string
  he_binary_sha256 :: string
  he_manifest_sha256 :: "string option"
  he_certification :: certification

record hash_step =
  hs_step_id :: string
  hs_capability_id :: string
  hs_engine :: hash_engine
  hs_operation :: operation
  hs_loss :: loss_class
  hs_arguments :: "(string \<times> string) list"
  hs_temporary_bytes :: "nat option"

record hash_material =
  hm_schema_version :: nat
  hm_input_fingerprint :: string
  hm_target_format :: string
  hm_constraints :: "(string \<times> json) list"
  hm_steps :: "hash_step list"
  hm_changes :: change_set
  hm_validators :: "string list"
  hm_network_policy :: network_policy

text \<open>
  What a planner takes from outside: the identifier it draws, the BLAKE3 digest in hexadecimal
  of the serialized material (\<open>None\<close> when serializing fails), the canonical form of a path of
  the file system, and the \<open>Debug\<close> text of a string, which escapes by the Unicode tables.
\<close>

record plan_env =
  pe_uuid :: uuid
  pe_digest :: "hash_material \<Rightarrow> string option"
  pe_canonical :: "string \<Rightarrow> string option"
  pe_debug :: "string \<Rightarrow> string"

definition hash_step_of :: "plan_step \<Rightarrow> hash_step" where
  "hash_step_of st =
     \<lparr>hs_step_id = step_id st, hs_capability_id = capability_id st,
      hs_engine = \<lparr>he_engine_id = engine_id (engine st), he_version = engine_version (engine st),
        he_binary_sha256 = binary_sha256 (engine st),
        he_manifest_sha256 = manifest_sha256 (engine st),
        he_certification = engine_certification (engine st)\<rparr>,
      hs_operation = operation_of st, hs_loss = loss st, hs_arguments = arguments st,
      hs_temporary_bytes = estimated_temporary_bytes st\<rparr>"

definition hash_material_of :: "plan \<Rightarrow> hash_material" where
  "hash_material_of p =
     \<lparr>hm_schema_version = plan_schema_version p, hm_input_fingerprint = input_fingerprint p,
      hm_target_format = target_format p, hm_constraints = constraints p,
      hm_steps = map hash_step_of (steps p), hm_changes = changes p,
      hm_validators = validators p, hm_network_policy = network_policy p\<rparr>"

definition deterministic_plan_hash ::
    "(hash_material \<Rightarrow> string option) \<Rightarrow> plan \<Rightarrow> anole_error + string" where
  "deterministic_plan_hash digest p =
     res_bind (ok_or (anole_error_new Internal Plan_stage
         ''Unable to serialize deterministic Plan material'') (digest (hash_material_of p)))
       (\<lambda>h. Inr (''blake3:'' @ h))"

definition seal_plan :: "plan_env \<Rightarrow> plan \<Rightarrow> anole_error + plan" where
  "seal_plan E p =
     res_bind (deterministic_plan_hash (pe_digest E) p) (\<lambda>h. Inr (p\<lparr>plan_hash := h\<rparr>))"

section \<open>The common parts of the planners\<close>

text \<open>\<open>BTreeMap::from\<close> and the text of an optional number.\<close>

definition btree_from :: "(string \<times> 'a) list \<Rightarrow> (string \<times> 'a) list" where
  "btree_from kvs = fold (\<lambda>(k, v). btree_insert k v) kvs []"

definition decimal_or :: "string \<Rightarrow> nat option \<Rightarrow> string" where
  "decimal_or s x = (case x of None \<Rightarrow> s | Some n \<Rightarrow> decimal n)"

definition requested_target :: "plan_request \<Rightarrow> string" where
  "requested_target r = to_ascii_lowercase (trim_dots (trim (req_target_format r)))"

definition in_range :: "nat \<Rightarrow> nat \<Rightarrow> nat \<Rightarrow> bool" where
  "in_range lo hi n = (lo \<le> n \<and> n \<le> hi)"

definition plan_error :: "error_code \<Rightarrow> string \<Rightarrow> anole_error" where
  "plan_error c m = anole_error_new c Plan_stage m"

text \<open>The plan of one step; the fields every planner fills in the same way.\<close>

definition one_step_plan ::
    "plan_env \<Rightarrow> probe \<Rightarrow> string \<Rightarrow> (string \<times> json) list \<Rightarrow> plan_step \<Rightarrow> change_set
     \<Rightarrow> string list \<Rightarrow> string option \<Rightarrow> nat option \<Rightarrow> plan" where
  "one_step_plan E p target cs st ch vs out est =
     \<lparr>plan_schema_version = schema_version, plan_id = pe_uuid E, plan_hash = [],
      input_fingerprint = fast_fingerprint (artifact p), target_format = target,
      constraints = cs, steps = [st], changes = ch, validators = vs, network_policy = Deny,
      output_path = out, estimated_output_bytes = est\<rparr>"

definition still_image_validators :: "string list" where
  "still_image_validators =
     [''media.output-opens'', ''media.target-format'', ''image.single-frame'',
      ''image.dimensions'', ''image.codec'']"

text \<open>The quality of a lossy image, from 1 to 100; a lossless one takes none.\<close>

definition image_quality ::
    "bool \<Rightarrow> nat \<Rightarrow> string \<Rightarrow> string \<Rightarrow> plan_request \<Rightarrow> anole_error + nat option" where
  "image_quality lossy fallback range_error lossless_error r =
     (if lossy
      then let q = (case req_quality r of None \<Rightarrow> fallback | Some q \<Rightarrow> q) in
           res_bind (ensure (in_range 1 100 q) (plan_error InputInvalid range_error))
             (\<lambda>_. Inr (Some q))
      else res_bind (ensure (req_quality r = None) (plan_error InputInvalid lossless_error))
             (\<lambda>_. Inr None))"

section \<open>HEIC and ImageMagick images\<close>

definition heic_target :: "string \<Rightarrow> anole_error + string" where
  "heic_target t =
     (if t \<in> {''jpg'', ''jpeg''} then Inr ''jpeg''
      else if t = ''png'' then Inr ''png''
      else Inl (plan_error Unsupported ''HEIC/HEIF fallback output must be JPEG or PNG''))"

definition heic_plan ::
    "plan_env \<Rightarrow> probe \<Rightarrow> plan_request \<Rightarrow> engine_identity \<Rightarrow> string \<Rightarrow> nat option \<Rightarrow> plan" where
  "heic_plan E p r heif_convert target quality =
     one_step_plan E p target
       (btree_from
         [(''quality'', json_opt json_nat quality), (''metadata_policy'', JStr ''drop''),
          (''single_primary_image'', JBool True), (''resize'', JBool False)])
       \<lparr>step_id = ''step-1'',
        capability_id = ''libheif.heic-to-'' @ target @ ''.development-fallback'',
        engine = heif_convert, operation_of = Transcode,
        loss = (if target = ''jpeg'' then Lossy else Lossless),
        arguments = btree_from
          [(''source_format'', ''heic''), (''target_format'', target),
           (''quality'', decimal_or ''lossless'' quality),
           (''orientation'', ''apply-heif-transformations''), (''metadata'', ''drop''),
           (''image_selection'', ''single-primary'')],
        estimated_temporary_bytes = Some (sat_mul (size_bytes (artifact p)) 8)\<rparr>
       \<lparr>preserved = [''primary still-image dimensions'',
          ''HEIF orientation transformations applied to pixels''],
        changed = [''HEVC-compressed pixels are decoded and encoded as '' @ target],
        dropped =
          [''EXIF, XMP, auxiliary images, thumbnails, depth data, and additional image items''],
        unknown = [''embedded color-profile equivalence is not yet certified'']\<rparr>
       still_image_validators (req_output_path r) None"

definition plan_heic_conversion ::
    "plan_env \<Rightarrow> probe \<Rightarrow> plan_request \<Rightarrow> engine_identity \<Rightarrow> anole_error + plan" where
  "plan_heic_conversion E p r heif_convert =
     res_bind (ensure (format_id (format p) = ''heic'' \<and> kind_of (format p) = Image)
       (plan_error Unsupported ''The libheif fallback requires HEIC or HEIF image input'')) (\<lambda>_.
     res_bind (ensure (engine_id heif_convert = ''heif-dec'')
       (plan_error EngineIncompatible ''The HEIC Plan was given the wrong engine'')) (\<lambda>_.
     res_bind (ensure (req_width r = None)
       (plan_error Unsupported
          ''The libheif fallback does not yet combine HEIC decode with resize'')) (\<lambda>_.
     res_bind (heic_target (requested_target r)) (\<lambda>target.
     res_bind (image_quality (target = ''jpeg'') 85 ''JPEG quality must be between 1 and 100''
         ''PNG output is lossless and does not accept --quality'' r) (\<lambda>quality.
     seal_plan E (heic_plan E p r heif_convert target quality))))))"

text \<open>\<open>inspect::magick_format_id\<close>.\<close>

definition magick_formats :: "string list" where
  "magick_formats =
     [''psd'', ''dng'', ''cr2'', ''cr3'', ''arw'', ''nef'', ''orf'', ''rw2'', ''pef'', ''raf'']"

definition magick_format_id :: "string \<Rightarrow> string option" where
  "magick_format_id e =
     (let l = to_ascii_lowercase e in if l \<in> set magick_formats then Some l else None)"

definition magick_target :: "string \<Rightarrow> anole_error + string" where
  "magick_target t =
     (if t \<in> {''jpg'', ''jpeg''} then Inr ''jpeg''
      else if t = ''png'' then Inr ''png''
      else if t \<in> {''tiff'', ''tif''} then Inr ''tiff''
      else Inl (plan_error Unsupported ''PSD/RAW conversion output must be PNG, JPEG, or TIFF''))"

definition magick_plan ::
    "plan_env \<Rightarrow> probe \<Rightarrow> plan_request \<Rightarrow> engine_identity \<Rightarrow> string \<Rightarrow> nat option \<Rightarrow> plan" where
  "magick_plan E p r magick target quality =
     one_step_plan E p target
       (btree_from
         [(''quality'', json_opt json_nat quality), (''metadata_policy'', JStr ''drop''),
          (''layer_policy'', JStr ''flattened-composite'')])
       \<lparr>step_id = ''step-1'',
        capability_id =
          ''imagemagick.'' @ format_id (format p) @ ''-to-'' @ target @ ''.discovered'',
        engine = magick, operation_of = Transcode,
        loss = (if target = ''jpeg'' then Lossy else Lossless),
        arguments = btree_from
          [(''source_format'', format_id (format p)), (''target_format'', target),
           (''quality'', decimal_or ''lossless'' quality),
           (''layer_policy'', ''flattened-composite''), (''metadata'', ''drop''),
           (''raw_decode'', ''host-imagemagick'')],
        estimated_temporary_bytes = Some (sat_mul (size_bytes (artifact p)) 3)\<rparr>
       \<lparr>preserved = [''flattened composite still-image dimensions'',
          ''full decoded raster resolution''],
        changed = [format_id (format p) @ '' pixels are decoded and encoded as '' @ target],
        dropped = [''layer structure, adjustment data, and embedded metadata''],
        unknown = [''RAW demosaic and color rendering follow the host ImageMagick build'']\<rparr>
       still_image_validators (req_output_path r) None"

definition plan_magick_conversion ::
    "plan_env \<Rightarrow> probe \<Rightarrow> plan_request \<Rightarrow> engine_identity \<Rightarrow> anole_error + plan" where
  "plan_magick_conversion E p r magick =
     res_bind (ensure (kind_of (format p) = Image \<and> magick_format_id (format_id (format p)) \<noteq> None)
       (plan_error Unsupported ''The ImageMagick lane requires a PSD or camera-RAW input'')) (\<lambda>_.
     res_bind (ensure (engine_id magick = ''magick'')
       (plan_error EngineIncompatible ''The ImageMagick Plan was given the wrong engine'')) (\<lambda>_.
     res_bind (ensure (req_width r = None)
       (plan_error Unsupported ''The ImageMagick lane does not combine decode with resize'')) (\<lambda>_.
     res_bind (magick_target (requested_target r)) (\<lambda>target.
     res_bind (image_quality (target = ''jpeg'') 92 ''JPEG quality must be between 1 and 100''
         ''{} output is lossless and does not accept --quality'' r) (\<lambda>quality.
     seal_plan E (magick_plan E p r magick target quality))))))"

section \<open>Metadata cleaning\<close>

definition metadata_clean_muxer :: "string \<Rightarrow> string option" where
  "metadata_clean_muxer f =
     map_of
       [(''mp4'', ''mp4''), (''mov'', ''mov''), (''mkv'', ''matroska''), (''webm'', ''webm''),
        (''mp3'', ''mp3''), (''m4a'', ''ipod''), (''wav'', ''wav''), (''flac'', ''flac''),
        (''ogg'', ''ogg''), (''opus'', ''opus''), (''aac'', ''adts''), (''jpeg'', ''image2''),
        (''png'', ''image2''), (''webp'', ''webp''), (''avif'', ''avif'')] f"

definition valid_metadata_key :: "string \<Rightarrow> bool" where
  "valid_metadata_key k =
     (k \<noteq> [] \<and> length k \<le> 128
      \<and> list_all (\<lambda>c. is_ascii_alphanumeric c \<or> c \<in> {CHR ''_'', CHR ''-'', CHR ''.''}) k)"

definition keys_of_class :: "metadata_classification set \<Rightarrow> probe \<Rightarrow> string list" where
  "keys_of_class cs p = map fst (filter (\<lambda>(k, e). classification e \<in> cs) (metadata p))"

text \<open>The \<open>Debug\<close> text of a vector of strings.\<close>

fun comma_separated :: "string list \<Rightarrow> string" where
  "comma_separated [] = []"
| "comma_separated [s] = s"
| "comma_separated (s # ss) = s @ '', '' @ comma_separated ss"

definition debug_strings :: "(string \<Rightarrow> string) \<Rightarrow> string list \<Rightarrow> string" where
  "debug_strings dbg ss = ''['' @ comma_separated (map dbg ss) @ '']''"

definition clean_plan :: "plan_env \<Rightarrow> probe \<Rightarrow> string \<Rightarrow> engine_identity \<Rightarrow> string \<Rightarrow> plan" where
  "clean_plan E p out ffmpeg muxer =
     (let removed = keys_of_class {Private, Secret} p;
          retained = keys_of_class {Public, UnknownMeta} p in
      one_step_plan E p (format_id (format p))
       (btree_from
         [(''removed_metadata_keys'', JArr (map JStr removed)),
          (''retained_metadata_keys'', JArr (map JStr retained)),
          (''in_place'', JBool False), (''unknown_metadata_policy'', JStr ''retain'')])
       \<lparr>step_id = ''step-1'',
        capability_id = ''ffmpeg.'' @ format_id (format p) @ ''.metadata-clean.experimental'',
        engine = ffmpeg, operation_of = MetadataClean, loss = ContainerOnly,
        arguments = btree_from
          [(''workflow'', ''metadata-clean''), (''muxer'', muxer),
           (''metadata_policy'', ''remove-private-secret-retain-structural-unknown''),
           (''payload_mode'', ''copy''), (''chapter_policy'', ''remove'')],
        estimated_temporary_bytes = Some (size_bytes (artifact p))\<rparr>
       \<lparr>preserved = [''encoded audio/video/image payloads'', ''stream inventory and dimensions'',
          ''structural/unknown metadata keys: '' @ debug_strings (pe_debug E) retained],
        changed = [''container metadata table is rebuilt''],
        dropped = map (\<lambda>k. ''metadata key: '' @ k) removed, unknown = []\<rparr>
       [''media.output-opens'', ''metadata.removed-keys'', ''metadata.payload-codecs'',
        ''metadata.stream-inventory'']
       (Some out) (Some (size_bytes (artifact p))))"

definition plan_metadata_clean ::
    "plan_env \<Rightarrow> probe \<Rightarrow> string \<Rightarrow> engine_identity \<Rightarrow> anole_error + plan" where
  "plan_metadata_clean E p out ffmpeg =
     res_bind (ok_or (plan_error Unsupported ''Metadata cleaning is not available for {}'')
       (metadata_clean_muxer (format_id (format p)))) (\<lambda>muxer.
     res_bind (ensure (pe_canonical E out \<noteq> Some (canonical_path (artifact p)))
       (plan_error PolicyBlocked ''In-place metadata cleaning is disabled'')) (\<lambda>_.
     res_bind (ensure (list_all valid_metadata_key (keys_of_class {Private, Secret} p))
       (plan_error PolicyBlocked ''Metadata key cannot be represented safely: {}'')) (\<lambda>_.
     seal_plan E (clean_plan E p out ffmpeg muxer))))"

section \<open>Still images\<close>

definition streams_of :: "stream_kind \<Rightarrow> probe \<Rightarrow> stream_probe list" where
  "streams_of k p = filter (\<lambda>s. stream_kind s = k) (streams p)"

text \<open>\<open>iter().find(...)\<close>: the first stream of a kind.\<close>

definition first_stream :: "stream_kind \<Rightarrow> probe \<Rightarrow> stream_probe option" where
  "first_stream k p = find (\<lambda>s. stream_kind s = k) (streams p)"

definition pixel_format_has_alpha :: "string \<Rightarrow> bool" where
  "pixel_format_has_alpha f =
     (list_ex (starts_with f) [''rgba'', ''bgra'', ''argb'', ''abgr'', ''yuva'', ''gbrap'']
      \<or> f \<in> {''pal8'', ''ya8'', ''ya16le'', ''ya16be''})"

definition stream_has_alpha :: "stream_probe \<Rightarrow> bool" where
  "stream_has_alpha s =
     (case Option.bind (properties s ''pix_fmt'') as_str of
        None \<Rightarrow> False | Some f \<Rightarrow> pixel_format_has_alpha f)"

definition image_encoder :: "string \<Rightarrow> string \<times> string" where
  "image_encoder target =
     (if target = ''jpeg'' then (''mjpeg'', ''image2'')
      else if target = ''png'' then (''png'', ''image2'')
      else if target = ''webp'' then (''libwebp'', ''webp'')
      else if target = ''avif'' then (''libaom-av1'', ''avif'')
      else if target = ''tiff'' then (''tiff'', ''image2'')
      else (''bmp'', ''image2''))"

definition encoder_quality :: "string \<Rightarrow> nat \<Rightarrow> nat" where
  "encoder_quality target q =
     (if target = ''jpeg'' then clamp 2 31 ((101 - q) * 29 div 100 + 2)
      else if target = ''avif'' then clamp 0 63 ((100 - q) * 63 div 100)
      else q)"

definition image_width_ok :: "plan_request \<Rightarrow> bool" where
  "image_width_ok r = (case req_width r of None \<Rightarrow> True | Some w \<Rightarrow> in_range 1 16384 w)"

definition width_change :: "nat \<Rightarrow> string" where
  "width_change w = ''output width becomes '' @ decimal w @ '' pixels with aspect ratio preserved''"

definition image_step_arguments ::
    "string \<Rightarrow> stream_probe \<Rightarrow> plan_request \<Rightarrow> nat option \<Rightarrow> (string \<times> string) list" where
  "image_step_arguments target im r quality =
     (let (codec, muxer) = image_encoder target in
      [(''workflow'', ''still-image-convert''),
       (''video_stream_index'', decimal (stream_index im)), (''codec'', codec),
       (''muxer'', muxer), (''orientation'', ''autorotate-pixels''), (''metadata'', ''drop''),
       (''width'', decimal_or ''source'' (req_width r)),
       (''quality'', decimal_or ''lossless'' quality)]
      @ (case quality of None \<Rightarrow> []
         | Some q \<Rightarrow> [(''encoder_quality'', decimal (encoder_quality target q))]))"

definition lossy_image :: "string \<Rightarrow> bool" where
  "lossy_image target = (target \<in> {''jpeg'', ''webp'', ''avif''})"

definition image_plan ::
    "plan_env \<Rightarrow> probe \<Rightarrow> plan_request \<Rightarrow> engine_identity \<Rightarrow> string \<Rightarrow> stream_probe \<Rightarrow> nat option \<Rightarrow> plan" where
  "image_plan E p r ffmpeg target im quality =
     one_step_plan E p target
       (btree_from
         [(''width'', json_opt json_nat (req_width r)), (''quality'', json_opt json_nat quality),
          (''preserve_alpha'', JBool (stream_has_alpha im)), (''metadata_policy'', JStr ''drop'')])
       \<lparr>step_id = ''step-1'', capability_id = ''ffmpeg.image-to-'' @ target @ ''.experimental'',
        engine = ffmpeg, operation_of = Transcode, loss = (if lossy_image target then Lossy else Lossless),
        arguments = btree_from (image_step_arguments target im r quality),
        estimated_temporary_bytes = Some (sat_mul (size_bytes (artifact p)) 2)\<rparr>
       \<lparr>preserved = [''single still-image payload'']
          @ (if req_width r = None then [''source dimensions''] else [])
          @ (if stream_has_alpha im then [''alpha channel''] else []),
        changed = [''pixels are encoded as '' @ target, ''orientation is applied to pixels'',
           ''source metadata is dropped by the alpha image adapter'']
          @ (case req_width r of None \<Rightarrow> [] | Some w \<Rightarrow> [width_change w]),
        dropped = [], unknown = [''embedded ICC profile equivalence is not yet certified'']\<rparr>
       (still_image_validators @ [''image.alpha'']) (req_output_path r) None"

definition plan_image_conversion ::
    "plan_env \<Rightarrow> probe \<Rightarrow> plan_request \<Rightarrow> engine_identity \<Rightarrow> string \<Rightarrow> anole_error + plan" where
  "plan_image_conversion E p r ffmpeg requested =
     res_bind (ensure (kind_of (format p) = Image)
       (plan_error Unsupported ''Image conversion requires a still-image input'')) (\<lambda>_.
     res_bind (ok_or (plan_error InputInvalid ''No image payload was detected'')
       (first_stream VideoS p)) (\<lambda>im.
     let target = (if requested \<in> {''jpg'', ''jpeg''} then ''jpeg'' else requested) in
     res_bind (ensure (image_width_ok r)
       (plan_error InputInvalid ''Image width must be between 1 and 16384 pixels'')) (\<lambda>_.
     res_bind (image_quality (lossy_image target) 85 ''Image quality must be between 1 and 100''
       ''{} output is lossless and does not accept --quality'' r) (\<lambda>quality.
     res_bind (ensure (\<not> (stream_has_alpha im \<and> target \<in> {''jpeg'', ''bmp''}))
       (plan_error PolicyBlocked ''JPEG and BMP cannot preserve the input alpha channel'')) (\<lambda>_.
     seal_plan E (image_plan E p r ffmpeg target im quality))))))"

section \<open>GIF\<close>

text \<open>\<open>Duration::from_millis(n).as_secs_f64()\<close>, without the rounding to a double.\<close>

definition seconds_of :: "nat \<Rightarrow> rat" where
  "seconds_of n = of_nat n / 1000"

definition gif_range_ok :: "probe \<Rightarrow> nat \<Rightarrow> nat option \<Rightarrow> bool" where
  "gif_range_ok p start dur =
     (case probe_duration_seconds p of
        None \<Rightarrow> True
      | Some len \<Rightarrow> \<not> (seconds_of start \<ge> len
          \<or> (case dur of None \<Rightarrow> False | Some d \<Rightarrow> seconds_of start + seconds_of d > len + 1 / 4)))"

definition gif_step_arguments ::
    "stream_probe \<Rightarrow> nat \<Rightarrow> nat option \<Rightarrow> nat \<Rightarrow> nat \<Rightarrow> nat option \<Rightarrow> (string \<times> string) list" where
  "gif_step_arguments video start dur fps loops width =
     [(''workflow'', ''video-to-gif''), (''video_stream_index'', decimal (stream_index video)),
      (''start_millis'', decimal start), (''duration_millis'', decimal_or ''full'' dur),
      (''frames_per_second'', decimal fps), (''loop_count'', decimal loops),
      (''palette_max_colors'', ''256''), (''palette_dither'', ''sierra2_4a''),
      (''width'', decimal_or ''source'' width)]"

definition gif_start :: "plan_request \<Rightarrow> nat" where
  "gif_start r = (case start_millis r of None \<Rightarrow> 0 | Some n \<Rightarrow> n)"

definition gif_fps :: "plan_request \<Rightarrow> nat" where
  "gif_fps r = (case frames_per_second r of None \<Rightarrow> 15 | Some n \<Rightarrow> n)"

definition gif_plan ::
    "plan_env \<Rightarrow> probe \<Rightarrow> plan_request \<Rightarrow> engine_identity \<Rightarrow> stream_probe \<Rightarrow> plan" where
  "gif_plan E p r ffmpeg video =
     (let start = gif_start r; dur = duration_millis r; fps = gif_fps r;
          loops = (case loop_count r of None \<Rightarrow> 0 | Some n \<Rightarrow> n) in
      one_step_plan E p ''gif''
       (btree_from
         [(''start_millis'', json_nat start), (''duration_millis'', json_opt json_nat dur),
          (''width'', json_opt json_nat (req_width r)), (''frames_per_second'', json_nat fps),
          (''loop_count'', json_nat loops), (''palette_max_colors'', JInt 256),
          (''palette_dither'', JStr ''sierra2_4a'')])
       \<lparr>step_id = ''step-1'', capability_id = ''ffmpeg.video-to-gif.palette'', engine = ffmpeg,
        operation_of = Transcode, loss = Lossy,
        arguments = btree_from (gif_step_arguments video start dur fps loops (req_width r)),
        estimated_temporary_bytes = Some (size_bytes (artifact p) div 2)\<rparr>
       \<lparr>preserved = [''selected video content'']
          @ (if req_width r = None then [''source dimensions''] else []),
        changed = [''frame rate becomes '' @ decimal fps @ '' fps'',
           ''video is quantized to a generated 256-color GIF palette'',
           ''GIF loop count is '' @ decimal loops @ '' (zero means infinite)'']
          @ (if start > 0 \<or> dur \<noteq> None
             then [''time range starts at '' @ decimal start @ '' ms and lasts ''
                   @ (case dur of None \<Rightarrow> ''to input end'' | Some d \<Rightarrow> decimal d @ '' ms'')] else [])
          @ (case req_width r of None \<Rightarrow> [] | Some w \<Rightarrow> [width_change w]),
        dropped = map (\<lambda>s. ''non-selected stream '' @ decimal (stream_index s))
          (filter (\<lambda>s. stream_kind s \<noteq> VideoS \<or> stream_index s \<noteq> stream_index video) (streams p)),
        unknown = []\<rparr>
       [''media.output-opens'', ''media.target-format'', ''media.duration'', ''media.video-stream'',
        ''media.dimensions'']
       (req_output_path r) None)"

definition plan_gif_conversion ::
    "plan_env \<Rightarrow> probe \<Rightarrow> plan_request \<Rightarrow> engine_identity \<Rightarrow> anole_error + plan" where
  "plan_gif_conversion E p r ffmpeg =
     res_bind (ok_or (plan_error InputInvalid ''GIF conversion requires a video stream'')
       (first_stream VideoS p)) (\<lambda>video.
     res_bind (ensure (duration_millis r \<noteq> Some 0)
       (plan_error InputInvalid ''GIF duration must be greater than zero'')) (\<lambda>_.
     res_bind (ensure (in_range 1 60 (gif_fps r))
       (plan_error InputInvalid ''GIF frame rate must be between 1 and 60'')) (\<lambda>_.
     res_bind (ensure (image_width_ok r)
       (plan_error InputInvalid ''GIF width must be between 1 and 16384 pixels'')) (\<lambda>_.
     res_bind (ensure (gif_range_ok p (gif_start r) (duration_millis r))
       (plan_error InputInvalid ''GIF time range is outside the input duration'')) (\<lambda>_.
     seal_plan E (gif_plan E p r ffmpeg video))))))"

section \<open>MP4\<close>

definition opt_argument :: "string \<Rightarrow> string option \<Rightarrow> (string \<times> string) list" where
  "opt_argument k v = (case v of None \<Rightarrow> [] | Some s \<Rightarrow> [(k, s)])"

definition mp4_step_arguments ::
    "bool \<Rightarrow> bool \<Rightarrow> string \<Rightarrow> plan_request \<Rightarrow> (string \<times> string) list" where
  "mp4_step_arguments video_copy audio_copy subtitle_mode r =
     [(''video_mode'', if video_copy then ''copy'' else ''libx264''),
      (''audio_mode'', if audio_copy then ''copy'' else ''aac''),
      (''subtitle_mode'', subtitle_mode), (''movflags'', ''+faststart'')]
     @ opt_argument ''video_crf'' (map_option decimal (video_crf r))
     @ opt_argument ''video_preset'' (video_preset r)
     @ opt_argument ''audio_bitrate_kbps'' (map_option decimal (audio_bitrate_kbps r))
     @ opt_argument ''target_size_bytes'' (map_option decimal (target_size_bytes r))"

definition other_streams :: "probe \<Rightarrow> stream_probe list" where
  "other_streams p = filter (\<lambda>s. stream_kind s \<in> {AttachmentS, DataS, UnknownS}) (streams p)"

definition unsupported_subtitles :: "probe \<Rightarrow> stream_probe list" where
  "unsupported_subtitles p = filter (\<lambda>s. codec s \<noteq> Some ''mov_text'') (streams_of SubtitleS p)"

definition video_copy :: "probe \<Rightarrow> plan_request \<Rightarrow> bool" where
  "video_copy p r =
     (list_all (\<lambda>s. codec s \<in> {Some ''h264'', Some ''hevc''}) (streams_of VideoS p)
      \<and> target_size_bytes r = None)"

definition audio_copy :: "probe \<Rightarrow> bool" where
  "audio_copy p = list_all (\<lambda>s. codec s = Some ''aac'') (streams_of AudioS p)"

definition subtitle_mode :: "probe \<Rightarrow> string" where
  "subtitle_mode p =
     (if streams_of SubtitleS p = [] then ''none''
      else if unsupported_subtitles p = [] then ''copy'' else ''drop'')"

definition is_remux :: "probe \<Rightarrow> plan_request \<Rightarrow> bool" where
  "is_remux p r =
     (video_copy p r \<and> audio_copy p \<and> unsupported_subtitles p = [] \<and> other_streams p = [])"

definition mp4_plan :: "plan_env \<Rightarrow> probe \<Rightarrow> plan_request \<Rightarrow> engine_identity \<Rightarrow> plan" where
  "mp4_plan E p r ffmpeg =
     (let remux = is_remux p r in
      one_step_plan E p ''mp4''
       (btree_from [(''preserve_all_streams'', JBool (preserve_all_streams r))])
       \<lparr>step_id = ''step-1'',
        capability_id = (if remux then ''ffmpeg.media-to-mp4.remux''
                         else ''ffmpeg.media-to-mp4.transcode''),
        engine = ffmpeg, operation_of = (if remux then Remux else Transcode),
        loss = (if remux then ContainerOnly else Lossy),
        arguments = btree_from (mp4_step_arguments (video_copy p r) (audio_copy p) (subtitle_mode p) r),
        estimated_temporary_bytes =
          Some (sat_add (size_bytes (artifact p)) (size_bytes (artifact p) div 10))\<rparr>
       \<lparr>preserved = [''duration'', ''video dimensions'', ''selected stream count'', ''metadata'',
          ''chapters''],
        changed = (if remux then [''container changes to MP4 without media re-encode'']
          else (if \<not> video_copy p r then [''video is re-encoded as H.264''] else [])
            @ (if \<not> audio_copy p \<and> streams_of AudioS p \<noteq> [] then [''audio is re-encoded as AAC''] else [])),
        dropped = (if \<not> remux \<and> \<not> preserve_all_streams r
          then map (\<lambda>s. ''subtitle stream '' @ decimal (stream_index s)) (unsupported_subtitles p)
            @ map (\<lambda>s. ''non-media stream '' @ decimal (stream_index s)) (other_streams p) else []),
        unknown = []\<rparr>
       ([''media.output-opens'', ''media.target-format'', ''media.duration'', ''media.streams'']
        @ (if target_size_bytes r \<noteq> None then [''media.target-size''] else []))
       (req_output_path r) None)"

definition plan_mp4_conversion ::
    "plan_env \<Rightarrow> probe \<Rightarrow> plan_request \<Rightarrow> engine_identity \<Rightarrow> anole_error + plan" where
  "plan_mp4_conversion E p r ffmpeg =
     res_bind (ensure (kind_of (format p) = Video)
       (plan_error Unsupported ''MP4 planning requires an input containing video'')) (\<lambda>_.
     res_bind (ensure (streams_of VideoS p \<noteq> [])
       (plan_error InputInvalid ''No video stream was detected'')) (\<lambda>_.
     res_bind (ensure (\<not> (preserve_all_streams r
           \<and> (unsupported_subtitles p \<noteq> [] \<or> other_streams p \<noteq> [])))
       (plan_error PolicyBlocked
          ''MP4 cannot preserve every detected stream with the current adapter'')) (\<lambda>_.
     seal_plan E (mp4_plan E p r ffmpeg))))"

section \<open>Audio\<close>

text \<open>The codec, the encoder, the muxer of an audio target, and whether it is lossy.\<close>

definition audio_targets :: "(string \<times> string \<times> string \<times> string \<times> bool) list" where
  "audio_targets =
     [(''mp3'', ''mp3'', ''libmp3lame'', ''mp3'', True), (''m4a'', ''aac'', ''aac'', ''ipod'', True),
      (''wav'', ''pcm_s16le'', ''pcm_s16le'', ''wav'', False),
      (''flac'', ''flac'', ''flac'', ''flac'', False),
      (''ogg'', ''vorbis'', ''libvorbis'', ''ogg'', True),
      (''opus'', ''opus'', ''libopus'', ''opus'', True), (''aac'', ''aac'', ''aac'', ''adts'', True)]"

definition select_audio ::
    "plan_request \<Rightarrow> stream_probe list \<Rightarrow> anole_error + stream_probe" where
  "select_audio r audios =
     (case audio_stream_index r of
        Some i \<Rightarrow> ok_or (plan_error InputInvalid ''Audio stream index {} does not exist'')
                    (find (\<lambda>s. stream_index s = i) audios)
      | None \<Rightarrow> Inr (hd audios))"

definition audio_step_arguments ::
    "stream_probe \<Rightarrow> string \<Rightarrow> string \<Rightarrow> string \<Rightarrow> plan_request \<Rightarrow> (string \<times> string) list" where
  "audio_step_arguments chosen mode muxer target_codec r =
     [(''workflow'', ''audio-convert''), (''audio_stream_index'', decimal (stream_index chosen)),
      (''audio_mode'', mode), (''muxer'', muxer), (''target_codec'', target_codec)]
     @ opt_argument ''audio_bitrate_kbps'' (map_option decimal (audio_bitrate_kbps r))"

definition audio_plan ::
    "plan_env \<Rightarrow> probe \<Rightarrow> plan_request \<Rightarrow> engine_identity \<Rightarrow> string
     \<Rightarrow> string \<times> string \<times> string \<times> bool \<Rightarrow> stream_probe \<Rightarrow> plan" where
  "audio_plan E p r ffmpeg target row chosen =
     (let (target_codec, encoder, muxer, lossy) = row;
          can_copy = (codec chosen = Some target_codec);
          label = ''audio stream '' @ decimal (stream_index chosen) in
      one_step_plan E p target
       (btree_from
         [(''preserve_all_streams'', JBool (preserve_all_streams r)),
          (''selected_audio_stream'', json_nat (stream_index chosen))])
       \<lparr>step_id = ''step-1'',
        capability_id = ''ffmpeg.media-to-'' @ target @ ''.''
          @ (if can_copy then ''remux'' else ''transcode''),
        engine = ffmpeg, operation_of = (if can_copy then Remux else Transcode),
        loss = (if can_copy then ContainerOnly else if lossy then Lossy else Lossless),
        arguments = btree_from (audio_step_arguments chosen
          (if can_copy then ''copy'' else encoder) muxer target_codec r),
        estimated_temporary_bytes = Some (size_bytes (artifact p))\<rparr>
       \<lparr>preserved = [''duration'', label, ''source metadata supported by the target''],
        changed = [label @ (if can_copy then '' is remuxed without re-encoding''
                            else '' is encoded as '' @ target_codec)],
        dropped = map (\<lambda>s. ''video stream '' @ decimal (stream_index s)) (streams_of VideoS p)
          @ map (\<lambda>s. ''audio stream '' @ decimal (stream_index s))
              (filter (\<lambda>s. stream_index s \<noteq> stream_index chosen) (streams_of AudioS p))
          @ map (\<lambda>s. ''non-audio stream '' @ decimal (stream_index s))
              (filter (\<lambda>s. stream_kind s \<notin> {VideoS, AudioS}) (streams p)),
        unknown = (if \<not> can_copy \<and> \<not> lossy
             \<and> codec chosen \<in> {Some ''mp3'', Some ''aac'', Some ''vorbis'', Some ''opus''}
           then [''lossless output does not restore quality already lost in the source''] else [])\<rparr>
       [''media.output-opens'', ''media.target-format'', ''media.duration'', ''media.audio-stream'',
        ''media.audio-codec'']
       (req_output_path r) None)"

definition plan_audio_conversion ::
    "plan_env \<Rightarrow> probe \<Rightarrow> plan_request \<Rightarrow> engine_identity \<Rightarrow> string
     \<Rightarrow> string \<times> string \<times> string \<times> bool \<Rightarrow> anole_error + plan" where
  "plan_audio_conversion E p r ffmpeg target row =
     res_bind (ensure (kind_of (format p) \<in> {Video, Audio})
       (plan_error Unsupported ''Audio conversion requires an input containing audio'')) (\<lambda>_.
     let audios = streams_of AudioS p in
     res_bind (ensure (audios \<noteq> [])
       (plan_error InputInvalid ''No audio stream was detected'')) (\<lambda>_.
     res_bind (ensure (\<not> (preserve_all_streams r \<and> length audios > 1))
       (plan_error PolicyBlocked
          ''A single-file audio target cannot preserve every detected audio stream'')) (\<lambda>_.
     res_bind (select_audio r audios) (\<lambda>chosen.
     seal_plan E (audio_plan E p r ffmpeg target row chosen)))))"

section \<open>Dispatch\<close>

definition image_targets :: "string list" where
  "image_targets = [''jpg'', ''jpeg'', ''png'', ''webp'', ''avif'', ''tiff'', ''bmp'']"

definition plan_conversion ::
    "plan_env \<Rightarrow> probe \<Rightarrow> plan_request \<Rightarrow> engine_identity \<Rightarrow> anole_error + plan" where
  "plan_conversion E p r ffmpeg =
     (let target = requested_target r in
      if target = ''mp4'' then plan_mp4_conversion E p r ffmpeg
      else case map_of audio_targets target of
        Some row \<Rightarrow> plan_audio_conversion E p r ffmpeg target row
      | None \<Rightarrow>
          if target = ''gif'' then plan_gif_conversion E p r ffmpeg
          else if target \<in> set image_targets then plan_image_conversion E p r ffmpeg target
          else Inl (plan_error Unsupported ''No certified media planner is available for {}''))"

end
