(* ===== verification/Ffmpeg_Args.thy ===== *)
theory Ffmpeg_Args
  imports Planner
begin

text \<open>
  \<open>crates/core/src/runner.rs\<close>, the command line of FFmpeg: the arguments of a stored plan are
  read again with their ranges before any of them reaches the engine, and the CRF ladder of a
  target size. The result of a configuration is the list of the arguments it appends.
\<close>

section \<open>Reading the arguments of a step\<close>

definition u8_max :: nat where "u8_max = 255"
definition u16_max :: nat where "u16_max = 65535"
definition u32_max :: nat where "u32_max = 4294967295"

text \<open>\<open>str::parse\<close> at an unsigned type with the given greatest value.\<close>

definition parse_uint :: "nat \<Rightarrow> string \<Rightarrow> nat option" where
  "parse_uint m s = Option.bind (parse_u64 s) (\<lambda>n. if n \<le> m then Some n else None)"

definition invalid_plan_argument :: anole_error where
  "invalid_plan_argument =
     anole_error_new PolicyBlocked Execute ''Plan contains an invalid or missing {} argument''"

definition argument :: "plan_step \<Rightarrow> string \<Rightarrow> string option" where
  "argument st k = map_of (arguments st) k"

definition checked_u32_argument :: "plan_step \<Rightarrow> string \<Rightarrow> nat \<Rightarrow> nat \<Rightarrow> anole_error + nat" where
  "checked_u32_argument st k lo hi =
     ok_or invalid_plan_argument
       (Option.bind (Option.bind (argument st k) (parse_uint u32_max))
          (\<lambda>n. if in_range lo hi n then Some n else None))"

definition checked_u64_argument :: "plan_step \<Rightarrow> string \<Rightarrow> anole_error + nat" where
  "checked_u64_argument st k =
     ok_or invalid_plan_argument (Option.bind (argument st k) parse_u64)"

definition checked_argument :: "plan_step \<Rightarrow> string \<Rightarrow> string list \<Rightarrow> anole_error + string" where
  "checked_argument st k allowed =
     res_bind (ok_or invalid_plan_argument (argument st k)) (\<lambda>v.
     res_bind (ensure (v \<in> set allowed) invalid_plan_argument) (\<lambda>_. Inr v))"

definition x264_presets :: "string list" where
  "x264_presets =
     [''ultrafast'', ''superfast'', ''veryfast'', ''faster'', ''fast'', ''medium'', ''slow'',
      ''slower'', ''veryslow'']"

definition video_preset_argument :: "plan_step \<Rightarrow> anole_error + string" where
  "video_preset_argument st =
     (let v = (case argument st ''video_preset'' of None \<Rightarrow> ''medium'' | Some s \<Rightarrow> s) in
      res_bind (ensure (v \<in> set x264_presets) invalid_plan_argument) (\<lambda>_. Inr v))"

definition video_crf_argument :: "plan_step \<Rightarrow> anole_error + nat" where
  "video_crf_argument st =
     res_bind (ok_or invalid_plan_argument
       (parse_uint u8_max (case argument st ''video_crf'' of None \<Rightarrow> ''20'' | Some s \<Rightarrow> s))) (\<lambda>crf.
     res_bind (ensure (crf \<le> 51) invalid_plan_argument) (\<lambda>_. Inr crf))"

definition audio_bitrate_argument :: "plan_step \<Rightarrow> anole_error + nat" where
  "audio_bitrate_argument st =
     res_bind (ok_or invalid_plan_argument
       (parse_uint u32_max
          (case argument st ''audio_bitrate_kbps'' of None \<Rightarrow> ''192'' | Some s \<Rightarrow> s))) (\<lambda>b.
     res_bind (ensure (in_range 8 320 b) invalid_plan_argument) (\<lambda>_. Inr b))"

definition pad3 :: "nat \<Rightarrow> string" where
  "pad3 n = [digit_char (n div 100), digit_char (n div 10 mod 10), digit_char (n mod 10)]"

definition format_seconds_from_millis :: "nat \<Rightarrow> string" where
  "format_seconds_from_millis n = decimal (n div 1000) @ ''.'' @ pad3 (n mod 1000)"

section \<open>The CRF ladder\<close>

text \<open>
  \<open>target_size_crf_ladder\<close>: four rounds of six more, capped at 51, a repeated value left out.
\<close>

definition ladder_step :: "nat \<Rightarrow> nat list \<Rightarrow> nat \<Rightarrow> nat list" where
  "ladder_step start ladder k =
     (let crf = min (start + 6 * k) 51 in
      if ladder \<noteq> [] \<and> last ladder = crf then ladder else ladder @ [crf])"

definition target_size_crf_ladder :: "nat \<Rightarrow> nat list" where
  "target_size_crf_ladder start = foldl (ladder_step start) [] [0, 1, 2, 3]"

definition mp4_target_size_bytes :: "plan \<Rightarrow> nat option" where
  "mp4_target_size_bytes p =
     (if target_format p \<noteq> ''mp4'' then None
      else case steps p of
        [] \<Rightarrow> None
      | st # _ \<Rightarrow>
          if argument st ''video_mode'' = Some ''copy'' then None
          else Option.bind (argument st ''target_size_bytes'') parse_u64)"

section \<open>The lanes\<close>

definition mp4_arguments :: "plan_step \<Rightarrow> nat option \<Rightarrow> anole_error + string list" where
  "mp4_arguments st crf_override =
     (let subtitles = (argument st ''subtitle_mode'' = Some ''copy'') in
      res_bind (checked_argument st ''video_mode'' [''copy'', ''libx264'']) (\<lambda>video_mode.
      res_bind (checked_argument st ''audio_mode'' [''copy'', ''aac'']) (\<lambda>audio_mode.
      res_bind (if video_mode = ''copy'' then Inr []
                else res_bind (video_preset_argument st) (\<lambda>preset.
                     res_bind (case crf_override of Some v \<Rightarrow> Inr v | None \<Rightarrow> video_crf_argument st)
                       (\<lambda>crf. Inr [''-preset'', preset, ''-crf'', decimal crf]))) (\<lambda>video.
      res_bind (if audio_mode = ''copy'' then Inr []
                else res_bind (audio_bitrate_argument st)
                       (\<lambda>b. Inr [''-b:a'', decimal b @ ''k''])) (\<lambda>audio.
      Inr ([''-map'', ''0:v?'', ''-map'', ''0:a?'']
        @ (if subtitles then [''-map'', ''0:s?''] else [])
        @ [''-c:v'', video_mode] @ video @ [''-c:a'', audio_mode] @ audio
        @ (if subtitles then [''-c:s'', ''copy''] else [])
        @ [''-map_metadata'', ''0'', ''-map_chapters'', ''0'', ''-movflags'', ''+faststart'',
           ''-f'', ''mp4'']))))))"

text \<open>The encoder an audio target allows beside a copy, and its muxer.\<close>

definition audio_lanes :: "(string \<times> string \<times> string) list" where
  "audio_lanes =
     [(''mp3'', ''libmp3lame'', ''mp3''), (''m4a'', ''aac'', ''ipod''), (''wav'', ''pcm_s16le'', ''wav''),
      (''flac'', ''flac'', ''flac''), (''ogg'', ''libvorbis'', ''ogg''), (''opus'', ''libopus'', ''opus''),
      (''aac'', ''aac'', ''adts'')]"

definition audio_arguments ::
    "string \<Rightarrow> plan_step \<Rightarrow> string \<times> string \<Rightarrow> anole_error + string list" where
  "audio_arguments target st lane =
     (let (encoder, expected_muxer) = lane in
      res_bind (ok_or invalid_plan_argument
        (Option.bind (argument st ''audio_stream_index'') (parse_uint u32_max))) (\<lambda>index.
      res_bind (checked_argument st ''audio_mode'' [''copy'', encoder]) (\<lambda>mode.
      res_bind (checked_argument st ''muxer'' [expected_muxer]) (\<lambda>muxer.
      res_bind (if mode = ''libvorbis'' then Inr [''-q:a'', ''5'']
                else if mode = ''libopus'' then res_bind (audio_bitrate_argument st)
                  (\<lambda>b. Inr [''-b:a'', decimal (max b 8) @ ''k''])
                else if mode \<in> {''libmp3lame'', ''aac''} then res_bind (audio_bitrate_argument st)
                  (\<lambda>b. Inr [''-b:a'', decimal b @ ''k''])
                else Inr []) (\<lambda>quality.
      Inr ([''-map'', ''0:'' @ decimal index, ''-vn'', ''-c:a'', mode] @ quality
        @ [''-map_metadata'', ''0'']
        @ (if target = ''m4a'' then [''-movflags'', ''+faststart''] else [])
        @ [''-f'', muxer]))))))"

definition checked_width :: "string \<Rightarrow> anole_error + nat" where
  "checked_width s =
     ok_or invalid_plan_argument
       (Option.bind (parse_uint u32_max s) (\<lambda>n. if in_range 1 16384 n then Some n else None))"

definition scale_filter :: "nat \<Rightarrow> string" where
  "scale_filter w = ''scale='' @ decimal w @ '':-2:flags=lanczos''"

definition gif_arguments :: "plan_step \<Rightarrow> anole_error + string list" where
  "gif_arguments st =
     res_bind (checked_u32_argument st ''video_stream_index'' 0 u32_max) (\<lambda>index.
     res_bind (checked_u64_argument st ''start_millis'') (\<lambda>start.
     res_bind (ok_or invalid_plan_argument (argument st ''duration_millis'')) (\<lambda>dur.
     res_bind (checked_u32_argument st ''frames_per_second'' 1 60) (\<lambda>fps.
     res_bind (checked_u32_argument st ''loop_count'' 0 u16_max) (\<lambda>loops.
     res_bind (ok_or invalid_plan_argument (argument st ''width'')) (\<lambda>width.
     res_bind (if width = ''source'' then Inr []
               else res_bind (checked_width width) (\<lambda>w. Inr (scale_filter w @ '',''))) (\<lambda>scale.
     res_bind (if dur = ''full'' then Inr []
               else res_bind (ok_or invalid_plan_argument
                      (Option.bind (parse_u64 dur) (\<lambda>n. if n > 0 then Some n else None)))
                    (\<lambda>n. Inr [''-t'', format_seconds_from_millis n])) (\<lambda>stop.
     Inr ((if start > 0 then [''-ss'', format_seconds_from_millis start] else [])
       @ stop
       @ [''-filter_complex'',
          ''[0:'' @ decimal index @ '']fps='' @ decimal fps @ '','' @ scale
            @ ''split[s0][s1];[s0]palettegen=max_colors=256[p];[s1][p]paletteuse=dither=sierra2_4a[v]'',
          ''-map'', ''[v]'', ''-an'', ''-loop'', decimal loops, ''-f'', ''gif'']))))))))) "

definition image_quality_arguments :: "string \<Rightarrow> plan_step \<Rightarrow> anole_error + string list" where
  "image_quality_arguments target st =
     (if target = ''jpeg''
      then res_bind (checked_u32_argument st ''encoder_quality'' 2 31)
        (\<lambda>q. Inr [''-q:v'', decimal q, ''-pix_fmt'', ''yuvj444p''])
      else if target = ''png'' then Inr [''-compression_level'', ''6'']
      else if target = ''webp''
      then res_bind (checked_u32_argument st ''encoder_quality'' 1 100)
        (\<lambda>q. Inr [''-quality'', decimal q])
      else if target = ''avif''
      then res_bind (checked_u32_argument st ''encoder_quality'' 0 63)
        (\<lambda>q. Inr [''-crf'', decimal q, ''-cpu-used'', ''4'', ''-still-picture'', ''1''])
      else Inr [])"

definition image_arguments :: "string \<Rightarrow> plan_step \<Rightarrow> anole_error + string list" where
  "image_arguments target st =
     (let (allowed_codec, expected_muxer) = image_encoder target in
      res_bind (checked_u32_argument st ''video_stream_index'' 0 u32_max) (\<lambda>index.
      res_bind (checked_argument st ''codec'' [allowed_codec]) (\<lambda>codec.
      res_bind (checked_argument st ''muxer'' [expected_muxer]) (\<lambda>muxer.
      res_bind (case argument st ''width'' of
                  None \<Rightarrow> Inr []
                | Some w \<Rightarrow> if w = ''source'' then Inr []
                    else res_bind (checked_width w) (\<lambda>n. Inr [''-vf'', scale_filter n])) (\<lambda>scale.
      res_bind (image_quality_arguments target st) (\<lambda>quality.
      Inr ([''-map'', ''0:'' @ decimal index, ''-frames:v'', ''1'', ''-an'', ''-sn'', ''-dn'',
          ''-map_metadata'', ''-1'']
        @ scale @ [''-c:v'', codec] @ quality @ [''-f'', muxer])))))))"

text \<open>The runner has its own table of muxers and its own test of a metadata key.\<close>

definition clean_muxer :: "string \<Rightarrow> string option" where
  "clean_muxer f =
     map_of
       [(''mp4'', ''mp4''), (''mov'', ''mov''), (''mkv'', ''matroska''), (''webm'', ''webm''),
        (''mp3'', ''mp3''), (''m4a'', ''ipod''), (''wav'', ''wav''), (''flac'', ''flac''),
        (''ogg'', ''ogg''), (''opus'', ''opus''), (''aac'', ''adts''), (''jpeg'', ''image2''),
        (''png'', ''image2''), (''webp'', ''webp''), (''avif'', ''avif'')] f"

definition clean_key_ok :: "string \<Rightarrow> bool" where
  "clean_key_ok k =
     (k \<noteq> [] \<and> length k \<le> 128
      \<and> list_all (\<lambda>c. is_ascii_alphanumeric c \<or> c \<in> {CHR ''_'', CHR ''-'', CHR ''.''}) k)"

definition removal_arguments :: "json \<Rightarrow> anole_error + string list" where
  "removal_arguments j =
     (case as_str j of
        Some k \<Rightarrow> if clean_key_ok k then Inr [''-metadata'', k @ ''='']
                  else Inl invalid_plan_argument
      | None \<Rightarrow> Inl invalid_plan_argument)"

definition configure_metadata_clean :: "plan \<Rightarrow> plan_step \<Rightarrow> anole_error + string list" where
  "configure_metadata_clean p st =
     res_bind (ok_or invalid_plan_argument (clean_muxer (target_format p))) (\<lambda>expected_muxer.
     res_bind (checked_argument st ''muxer'' [expected_muxer]) (\<lambda>muxer.
     res_bind (ok_or invalid_plan_argument
       (Option.bind (map_of (constraints p) ''removed_metadata_keys'') as_array)) (\<lambda>keys.
     res_bind (res_mapM removal_arguments keys) (\<lambda>removals.
     Inr ([''-map'', ''0'', ''-c'', ''copy'', ''-map_metadata'', ''0'', ''-map_chapters'', ''-1'']
       @ concat removals @ [''-f'', muxer])))))"

section \<open>The command\<close>

definition lane_arguments :: "plan \<Rightarrow> plan_step \<Rightarrow> nat option \<Rightarrow> anole_error + string list" where
  "lane_arguments p st crf_override =
     (let target = target_format p in
      if operation_of st = MetadataClean then configure_metadata_clean p st
      else if target = ''mp4'' then mp4_arguments st crf_override
      else case map_of audio_lanes target of
        Some lane \<Rightarrow> audio_arguments target st lane
      | None \<Rightarrow>
          if target = ''gif'' then gif_arguments st
          else if target \<in> {''jpeg'', ''png'', ''webp'', ''avif'', ''tiff'', ''bmp''}
          then image_arguments target st
          else Inl (anole_error_new Unsupported Execute ''No FFmpeg runner is available for {}''))"

definition configure_ffmpeg_output ::
    "plan \<Rightarrow> string \<Rightarrow> nat option \<Rightarrow> anole_error + string list" where
  "configure_ffmpeg_output p partial_path crf_override =
     (case steps p of
        [] \<Rightarrow> Inl (anole_error_new Internal Execute ''Plan has no FFmpeg step'')
      | st # _ \<Rightarrow>
          res_bind (lane_arguments p st crf_override) (\<lambda>args. Inr (args @ [''-n'', partial_path])))"

text \<open>The whole command line of \<open>run_ffmpeg_attempt\<close> after the program.\<close>

definition ffmpeg_command ::
    "probe \<Rightarrow> plan \<Rightarrow> string \<Rightarrow> nat option \<Rightarrow> anole_error + string list" where
  "ffmpeg_command input p partial_path crf_override =
     res_bind (configure_ffmpeg_output p partial_path crf_override) (\<lambda>args.
     Inr ([''-nostdin'', ''-hide_banner'', ''-v'', ''error'', ''-progress'', ''pipe:1'', ''-nostats'',
        ''-protocol_whitelist'', ''file,pipe'', ''-i'', canonical_path (artifact input)] @ args))"

end
