(* ===== verification/Validation.thy ===== *)
theory Validation
  imports Planner
begin

text \<open>
  \<open>crates/core/src/validation.rs\<close>: the acceptance of a media output. The probe of the output
  is compared with the probe of the input and with the plan, check by check, and the report
  takes the worst status of the required checks. Seconds are exact rationals.
\<close>

section \<open>Checks\<close>

definition check ::
    "string \<Rightarrow> validation_status \<Rightarrow> bool \<Rightarrow> json \<Rightarrow> json \<Rightarrow> string \<Rightarrow> string \<Rightarrow> validation_check" where
  "check c s req e o' ev m =
     \<lparr>check_code = c, check_status = s, required = req, expected = e, observed = o',
      check_evidence = ev, check_message = m\<rparr>"

definition pass_or_fail :: "bool \<Rightarrow> validation_status" where
  "pass_or_fail b = (if b then Pass else Fail)"

text \<open>The required checks that pass or fail, with a message for each.\<close>

definition verdict ::
    "string \<Rightarrow> bool \<Rightarrow> json \<Rightarrow> json \<Rightarrow> string \<Rightarrow> string \<Rightarrow> string \<Rightarrow> validation_check" where
  "verdict c ok e o' ev good bad = check c (pass_or_fail ok) True e o' ev (if ok then good else bad)"

definition aggregate_status :: "validation_check list \<Rightarrow> validation_status" where
  "aggregate_status cs =
     foldl (\<lambda>s c. if required c then worst s (check_status c) else s) Pass cs"

section \<open>What a target expects\<close>

definition is_image_target :: "string \<Rightarrow> bool" where
  "is_image_target t = (t \<in> {''jpeg'', ''png'', ''webp'', ''avif'', ''tiff'', ''bmp''})"

definition expected_image_codec :: "string \<Rightarrow> string option" where
  "expected_image_codec t =
     map_of
       [(''jpeg'', ''mjpeg''), (''png'', ''png''), (''webp'', ''webp''), (''avif'', ''av1''),
        (''tiff'', ''tiff''), (''bmp'', ''bmp'')] t"

definition expected_audio_codec :: "string \<Rightarrow> string option" where
  "expected_audio_codec t =
     map_of
       [(''mp3'', ''mp3''), (''m4a'', ''aac''), (''aac'', ''aac''), (''wav'', ''pcm_s16le''),
        (''flac'', ''flac''), (''ogg'', ''vorbis''), (''opus'', ''opus'')] t"

definition output_has_alpha :: "string \<Rightarrow> bool" where
  "output_has_alpha f =
     (list_ex (starts_with f) [''rgba'', ''bgra'', ''argb'', ''abgr'', ''yuva'', ''gbrap'']
      \<or> f \<in> {''pal8'', ''ya8'', ''ya16le'', ''ya16be''})"

definition count_streams :: "stream_kind \<Rightarrow> probe \<Rightarrow> nat" where
  "count_streams k p = length (streams_of k p)"

definition single_stream :: "stream_kind \<Rightarrow> stream_kind \<Rightarrow> nat \<Rightarrow> nat" where
  "single_stream kept k n =
     (if k = kept then 1 else if k \<in> {VideoS, AudioS, SubtitleS} then 0 else n)"

definition stream_count :: "probe \<Rightarrow> stream_kind \<Rightarrow> plan \<Rightarrow> nat" where
  "stream_count input k p =
     (let n = count_streams k input in
      if expected_audio_codec (target_format p) \<noteq> None then single_stream AudioS k n
      else if is_image_target (target_format p) then single_stream VideoS k n
      else if target_format p = ''gif'' then single_stream VideoS k n
      else if k \<noteq> SubtitleS then n
      else case steps p of
        [] \<Rightarrow> 0
      | st # _ \<Rightarrow> if map_of (arguments st) ''subtitle_mode'' = Some ''copy'' then n else 0)"

definition constraint_u64 :: "plan \<Rightarrow> string \<Rightarrow> nat option" where
  "constraint_u64 p k = Option.bind (map_of (constraints p) k) as_u64"

definition expected_duration :: "rat option \<Rightarrow> plan \<Rightarrow> rat option" where
  "expected_duration input_seconds p =
     (if target_format p \<noteq> ''gif'' then input_seconds
      else case constraint_u64 p ''duration_millis'' of
        Some n \<Rightarrow> Some (seconds_of n)
      | None \<Rightarrow>
          let start = (case constraint_u64 p ''start_millis'' of None \<Rightarrow> 0 | Some n \<Rightarrow> n)
          in map_option (\<lambda>s. max (s - seconds_of start) 0) input_seconds)"

definition u32_limit :: nat where
  "u32_limit = 4294967295"

definition to_u32 :: "nat \<Rightarrow> nat option" where
  "to_u32 n = (if n \<le> u32_limit then Some n else None)"

text \<open>The height FFmpeg's \<open>scale=w:-2\<close> gives: rounded, made even, at least two.\<close>

definition scaled_height :: "nat \<Rightarrow> nat \<Rightarrow> nat \<Rightarrow> nat option" where
  "scaled_height width w h =
     (if w = 0 then None
      else let rounded = (h * width + w div 2) div w;
               even = (if rounded mod 2 = 0 then rounded else rounded + 1)
           in to_u32 (max even 2))"

definition expected_scaled_width_dimensions ::
    "stream_probe option \<Rightarrow> plan \<Rightarrow> (nat option \<times> nat option) option" where
  "expected_scaled_width_dimensions input_video p =
     Option.bind input_video (\<lambda>v.
       case Option.bind (constraint_u64 p ''width'') to_u32 of
         None \<Rightarrow> Some (stream_width v, stream_height v)
       | Some width \<Rightarrow> Some (Some width,
           case (stream_width v, stream_height v) of
             (Some w, Some h) \<Rightarrow> scaled_height width w h | _ \<Rightarrow> None))"

definition constraint_strings :: "plan \<Rightarrow> string \<Rightarrow> string list" where
  "constraint_strings p k =
     (case Option.bind (map_of (constraints p) k) as_array of
        None \<Rightarrow> [] | Some vs \<Rightarrow> List.map_filter as_str vs)"

fun stream_kind_name :: "stream_kind \<Rightarrow> string" where
  "stream_kind_name VideoS = ''video''"
| "stream_kind_name AudioS = ''audio''"
| "stream_kind_name SubtitleS = ''subtitle''"
| "stream_kind_name AttachmentS = ''attachment''"
| "stream_kind_name DataS = ''data''"
| "stream_kind_name PageS = ''page''"
| "stream_kind_name RecordSetS = ''record-set''"
| "stream_kind_name UnknownS = ''unknown''"

definition payload_entry :: "stream_probe \<Rightarrow> json" where
  "payload_entry s =
     JArr [JStr (stream_kind_name (stream_kind s)), json_opt JStr (codec s),
           json_opt json_nat (stream_width s), json_opt json_nat (stream_height s),
           json_opt json_nat (sample_rate s), json_opt json_nat (channels s)]"

definition payload_signature :: "probe \<Rightarrow> json" where
  "payload_signature p = JArr (map payload_entry (streams p))"

section \<open>The checks of a media output\<close>

definition opens_check :: validation_check where
  "opens_check =
     check ''MEDIA_OUTPUT_OPENS'' Pass True (JBool True) (JBool True)
       ''ffprobe parsed the complete output metadata'' ''Output opens with ffprobe.''"

definition format_check :: "probe \<Rightarrow> plan \<Rightarrow> validation_check" where
  "format_check output p =
     verdict ''MEDIA_TARGET_FORMAT'' (format_id (format output) = target_format p)
       (JStr (target_format p)) (JStr (format_id (format output))) ''ffprobe format detection''
       ''Detected output format matches the Plan.''
       ''Detected output format does not match the Plan.''"

definition duration_tolerance :: "operation \<Rightarrow> rat" where
  "duration_tolerance op = (if op = Remux then 1 / 20 else 1 / 4)"

definition duration_check :: "rat option \<Rightarrow> rat option \<Rightarrow> operation \<Rightarrow> validation_check" where
  "duration_check expected_s observed_s op =
     (case (expected_s, observed_s) of
        (Some e, Some o') \<Rightarrow>
          let difference = \<bar>e - o'\<bar>; tolerance = duration_tolerance op in
          verdict ''MEDIA_DURATION'' (difference \<le> tolerance)
            (JObj [(''seconds'', JFloat e), (''tolerance_seconds'', JFloat tolerance)])
            (JObj [(''difference_seconds'', JFloat difference), (''seconds'', JFloat o')])
            ''ffprobe container duration'' ''Duration is within the Plan tolerance.''
            ''Duration differs beyond the Plan tolerance.''
      | _ \<Rightarrow>
          check ''MEDIA_DURATION'' Unknown True (json_opt JFloat expected_s)
            (json_opt JFloat observed_s) ''ffprobe container duration''
            ''Duration was unavailable and cannot be marked Pass.'')"

definition count_code :: "stream_kind \<Rightarrow> string" where
  "count_code k =
     (if k = VideoS then ''MEDIA_VIDEO_STREAM_COUNT''
      else if k = AudioS then ''MEDIA_AUDIO_STREAM_COUNT'' else ''MEDIA_SUBTITLE_STREAM_COUNT'')"

definition count_check :: "probe \<Rightarrow> probe \<Rightarrow> plan \<Rightarrow> stream_kind \<Rightarrow> validation_check" where
  "count_check input output p k =
     verdict (count_code k) (stream_count input k p = count_streams k output)
       (json_nat (stream_count input k p)) (json_nat (count_streams k output))
       ''ffprobe stream inventory'' ''Stream count matches the Plan.''
       ''Stream count differs from the Plan.''"

definition json_dimensions :: "(nat option \<times> nat option) option \<Rightarrow> json" where
  "json_dimensions d =
     json_opt (\<lambda>(w, h). JArr [json_opt json_nat w, json_opt json_nat h]) d"

definition expected_dimensions :: "probe \<Rightarrow> plan \<Rightarrow> (nat option \<times> nat option) option" where
  "expected_dimensions input p =
     (if target_format p = ''gif'' \<or> is_image_target (target_format p)
      then expected_scaled_width_dimensions (first_stream VideoS input) p
      else map_option (\<lambda>s. (stream_width s, stream_height s)) (first_stream VideoS input))"

definition observed_dimensions :: "probe \<Rightarrow> (nat option \<times> nat option) option" where
  "observed_dimensions output =
     map_option (\<lambda>s. (stream_width s, stream_height s)) (first_stream VideoS output)"

definition dimension_targets :: "string list" where
  "dimension_targets = [''mp4'', ''gif'', ''jpeg'', ''png'', ''webp'', ''avif'']"

definition dimension_check :: "probe \<Rightarrow> probe \<Rightarrow> plan \<Rightarrow> validation_check" where
  "dimension_check input output p =
     verdict ''MEDIA_DIMENSIONS'' (expected_dimensions input p = observed_dimensions output)
       (json_dimensions (expected_dimensions input p)) (json_dimensions (observed_dimensions output))
       ''ffprobe video stream dimensions'' ''Video dimensions are preserved.''
       ''Video dimensions changed without a scaling constraint.''"

definition first_codec :: "stream_kind \<Rightarrow> probe \<Rightarrow> string option" where
  "first_codec k p = Option.bind (first_stream k p) codec"

definition image_codec_check :: "probe \<Rightarrow> string \<Rightarrow> validation_check" where
  "image_codec_check output c =
     verdict ''IMAGE_CODEC'' (first_codec VideoS output = Some c) (JStr c)
       (json_opt JStr (first_codec VideoS output)) ''ffprobe image codec''
       ''Image codec matches the Plan.'' ''Image codec does not match the Plan.''"

definition alpha_required :: "plan \<Rightarrow> bool" where
  "alpha_required p =
     (case Option.bind (map_of (constraints p) ''preserve_alpha'') as_bool of
        None \<Rightarrow> False | Some b \<Rightarrow> b)"

definition alpha_observed :: "probe \<Rightarrow> bool" where
  "alpha_observed output =
     (case Option.bind (Option.bind (first_stream VideoS output) (\<lambda>s. properties s ''pix_fmt'')) as_str of
        None \<Rightarrow> False | Some f \<Rightarrow> output_has_alpha f)"

definition alpha_check :: "probe \<Rightarrow> plan \<Rightarrow> validation_check" where
  "alpha_check output p =
     verdict ''IMAGE_ALPHA'' (\<not> alpha_required p \<or> alpha_observed output)
       (JBool (alpha_required p)) (JBool (alpha_observed output)) ''ffprobe pixel format''
       ''Alpha-channel policy is satisfied.'' ''The output lost a required alpha channel.''"

definition audio_codec_check :: "probe \<Rightarrow> string \<Rightarrow> validation_check" where
  "audio_codec_check output c =
     verdict ''MEDIA_AUDIO_CODEC'' (first_codec AudioS output = Some c) (JStr c)
       (json_opt JStr (first_codec AudioS output)) ''ffprobe audio codec''
       ''Audio codec matches the Plan.'' ''Audio codec does not match the Plan.''"

definition has_metadata :: "probe \<Rightarrow> string \<Rightarrow> bool" where
  "has_metadata p k = (k \<in> fst ` set (metadata p))"

definition json_strings :: "string list \<Rightarrow> json" where
  "json_strings ss = JArr (map JStr ss)"

definition metadata_checks :: "probe \<Rightarrow> probe \<Rightarrow> plan \<Rightarrow> validation_check list" where
  "metadata_checks input output p =
     (let removed = constraint_strings p ''removed_metadata_keys'';
          retained = constraint_strings p ''retained_metadata_keys'';
          still_present = filter (has_metadata output) removed;
          missing = filter (\<lambda>k. \<not> has_metadata output k) retained in
      [verdict ''METADATA_REMOVED_KEYS'' (still_present = []) (json_strings removed)
         (json_strings still_present) ''ffprobe format metadata inventory''
         ''Every metadata key named by the Plan was removed.''
         ''One or more metadata keys named by the Plan remain.'',
       verdict ''METADATA_RETAINED_KEYS'' (missing = []) (json_strings retained)
         (json_strings missing) ''ffprobe format metadata inventory''
         ''Structural and unknown metadata keys selected for retention remain.''
         ''One or more metadata keys selected for retention are missing.'',
       verdict ''METADATA_PAYLOAD_SIGNATURE'' (payload_signature input = payload_signature output)
         (payload_signature input) (payload_signature output)
         ''ffprobe stream codecs and dimensions''
         ''Encoded payload stream identities are unchanged.''
         ''Metadata cleaning changed an encoded payload stream.''])"

section \<open>The report\<close>

definition artifact_summary_of :: "probe \<Rightarrow> artifact_summary" where
  "artifact_summary_of p =
     \<lparr>sum_display_path = Some (display_path (artifact p)), sum_format_id = format_id (format p),
      sum_size_bytes = size_bytes (artifact p),
      sum_fast_fingerprint = fast_fingerprint (artifact p),
      sum_full_blake3 = full_blake3 (artifact p)\<rparr>"

definition plan_operation :: "plan \<Rightarrow> operation" where
  "plan_operation p = (case steps p of [] \<Rightarrow> Transcode | st # _ \<Rightarrow> operation_of st)"

definition media_checks :: "probe \<Rightarrow> probe \<Rightarrow> plan \<Rightarrow> validation_check list" where
  "media_checks input output p =
     (let target = target_format p; op = plan_operation p in
      [opens_check, format_check output p]
      @ (if is_image_target target then []
         else [duration_check (expected_duration (probe_duration_seconds input) p)
                 (probe_duration_seconds output) op])
      @ map (count_check input output p) [VideoS, AudioS, SubtitleS]
      @ (if target \<in> set dimension_targets then [dimension_check input output p] else [])
      @ (case expected_image_codec target of
           None \<Rightarrow> [] | Some c \<Rightarrow> [image_codec_check output c, alpha_check output p])
      @ (case expected_audio_codec target of None \<Rightarrow> [] | Some c \<Rightarrow> [audio_codec_check output c])
      @ (if op = MetadataClean then metadata_checks input output p else []))"

definition validate_media_output ::
    "uuid \<Rightarrow> probe \<Rightarrow> probe \<Rightarrow> plan \<Rightarrow> uuid \<Rightarrow> validation_report" where
  "validate_media_output fresh input output p job =
     (let cs = media_checks input output p in
      \<lparr>report_schema_version = schema_version, report_id = fresh, report_job_id = job,
       report_plan_hash = plan_hash p, report_status = aggregate_status cs,
       report_input = artifact_summary_of input, report_output = artifact_summary_of output,
       report_engines = map engine (steps p), checks = cs,
       intentional_changes = changed (changes p),
       redaction = \<lparr>paths_redacted = False, metadata_values_redacted = True\<rparr>\<rparr>)"

end
