(* ===== verification/Lanes.thy ===== *)
theory Lanes
  imports Rust_Fs Ffmpeg_Args Validation
begin

text \<open>
  \<open>crates/core/src/runner.rs\<close>, what the lanes share: the resolved output path, the staged paths
  of a job, their cleaning, the commit that never replaces, and the end of a run (milestone,
  input check, inspection, acceptance, commit) that every lane repeats.
\<close>

section \<open>The world of a run\<close>

text \<open>
  Beside the operating system: the canonical form of a directory, the working directory, what
  is listed in a directory, what an engine process or a worker does to the file system until it
  ends, what other processes do at the moments a lane leaves to them, whether the token is
  cancelled when it is asked after the engine, what the milestone observer answers, and the
  identification and inspection of files.
\<close>

datatype child_end = NotStarted | WaitFailed | Stopped | Exited bool

datatype worker_end = Panicked | Abandoned | Returned "anole_error option"

datatype moment = AtStart | AtFinish | AtCommit

record lane_world = os_world +
  canonical_dir :: "string \<Rightarrow> string option"
  current_dir :: "string option"
  list_dir :: "string \<Rightarrow> fs \<Rightarrow> string list option"
  engine_run :: "string list \<Rightarrow> fs \<Rightarrow> child_end \<times> fs"
  worker_run :: "string list \<Rightarrow> fs \<Rightarrow> worker_end \<times> fs"
  others :: "moment \<Rightarrow> fs \<Rightarrow> fs"
  is_cancelled :: bool
  observer_error :: "anole_error option"
  identify :: "moment \<Rightarrow> string \<Rightarrow> anole_error + artifact_identity"
  inspect_output :: "string \<Rightarrow> fs \<Rightarrow> anole_error + probe"
  fresh_report :: uuid

record execution_result =
  res_output_path :: string
  res_report :: validation_report

type_synonym lane_run = "(anole_error + execution_result) \<times> fs"

section \<open>Guards\<close>

definition enforce_network_policy :: "plan \<Rightarrow> anole_error + unit" where
  "enforce_network_policy p =
     ensure (network_policy p = Deny) (anole_error_new PolicyBlocked Execute
       ''This build executes only network-denied Plans'')"

text \<open>\<open>fingerprint::ensure_local_filesystem_path\<close>, on POSIX.\<close>

definition ensure_local_filesystem_path :: "string \<Rightarrow> stage \<Rightarrow> anole_error + unit" where
  "ensure_local_filesystem_path p s =
     ensure (\<not> starts_with p ''//'')
       (anole_error_new PolicyBlocked s ''Network filesystem paths are disabled: {}'')"

text \<open>\<open>job_store::resolve_output_identity\<close>, on POSIX; its errors take the stage of the caller.\<close>

definition resolve_output_identity ::
    "'a lane_world_scheme \<Rightarrow> string \<Rightarrow> stage \<Rightarrow> anole_error + string" where
  "resolve_output_identity W p s =
     res_bind (if is_absolute p then Inr p
               else ok_or (anole_error_new StorageFailed s
                      ''Unable to resolve the current directory for output reservation'')
                    (map_option (\<lambda>d. path_join d p) (current_dir W))) (\<lambda>absolute.
     res_bind (ok_or (anole_error_new InputInvalid s ''Output reservation path has no filename'')
       (file_name absolute)) (\<lambda>name.
     let up = (case parent absolute of None \<Rightarrow> ''.'' | Some d \<Rightarrow> d);
         dir = (case canonical_dir W up of None \<Rightarrow> up | Some d \<Rightarrow> d)
     in Inr (path_join dir name)))"

definition resolve_output_path ::
    "'a lane_world_scheme \<Rightarrow> plan \<Rightarrow> fs \<Rightarrow> anole_error + string" where
  "resolve_output_path W p f =
     res_bind (ok_or (anole_error_new InputInvalid Plan_stage ''Plan has no output path'')
       (output_path p)) (\<lambda>requested.
     res_bind (ensure_local_filesystem_path requested Plan_stage) (\<lambda>_.
     res_bind (resolve_output_identity W requested Plan_stage) (\<lambda>out.
     res_bind (ok_or (anole_error_new InputInvalid Plan_stage
         ''Resolved output path has no parent directory'') (parent out)) (\<lambda>dir.
     res_bind (ok_or (anole_error_new InputInvalid Plan_stage ''Output directory is unavailable: {}'')
       (resolved f dir)) (\<lambda>t.
     res_bind (ensure (t = Dir) (anole_error_new InputInvalid Plan_stage
         ''Output parent is not a directory: {}'')) (\<lambda>_. Inr out))))))"

definition ensure_input_unchanged ::
    "'a lane_world_scheme \<Rightarrow> moment \<Rightarrow> probe \<Rightarrow> stage \<Rightarrow> anole_error + unit" where
  "ensure_input_unchanged W m input s =
     res_bind (identify W m (canonical_path (artifact input))) (\<lambda>seen.
     ensure (size_bytes seen = size_bytes (artifact input)
         \<and> modified_unix_ms seen = modified_unix_ms (artifact input)
         \<and> fast_fingerprint seen = fast_fingerprint (artifact input))
       (anole_error_new InputChanged s ''Input changed after inspection''))"

section \<open>Staged paths\<close>

definition with_file_name :: "string \<Rightarrow> string \<Rightarrow> string" where
  "with_file_name p n = (case parent p of None \<Rightarrow> n | Some d \<Rightarrow> path_join d n)"

definition staged_output_path :: "string \<Rightarrow> uuid \<Rightarrow> anole_error + string" where
  "staged_output_path out job =
     res_bind (ok_or (anole_error_new InputInvalid Plan_stage ''Output filename is not valid Unicode'')
       (file_name out)) (\<lambda>name.
     Inr (with_file_name out (''.anole-partial-'' @ uuid_text job @ ''-'' @ name)))"

definition office_staged_work_path :: "string \<Rightarrow> uuid \<Rightarrow> anole_error + string" where
  "office_staged_work_path out job =
     res_bind (ok_or (anole_error_new InputInvalid Plan_stage
         ''Office output path has no parent directory'') (parent out)) (\<lambda>dir.
     Inr (path_join dir (''.fw-'' @ take 12 (uuid_digits job))))"

definition staged_output_candidates :: "string \<Rightarrow> uuid \<Rightarrow> anole_error + string list" where
  "staged_output_candidates out job =
     res_bind (staged_output_path out job) (\<lambda>a.
     res_bind (office_staged_work_path out job) (\<lambda>b.
     Inr ([a, b] @ (case parent out of None \<Rightarrow> []
       | Some dir \<Rightarrow> [path_join dir (''.fw-chain-'' @ uuid_text job)]))))"

text \<open>The recovery of staged paths: a link is never removed.\<close>

definition staged_cleanup_error :: anole_error where
  "staged_cleanup_error =
     anole_error_new StorageFailed Commit ''Unable to remove staged output: {}''"

definition remove_staged_path ::
    "'a os_world_scheme \<Rightarrow> string \<Rightarrow> fs \<Rightarrow> (anole_error + bool) \<times> fs" where
  "remove_staged_path W p f =
     (case f p of
        None \<Rightarrow> (Inr False, f)
      | Some (Link t) \<Rightarrow> (Inl (anole_error_new PolicyBlocked Commit
          ''Refusing to remove a linked or reparse staging path: {}''), f)
      | Some (Plain t) \<Rightarrow>
          (case remove_path W p f of
             (Done, f') \<Rightarrow> (Inr True, f')
           | (NotFound, f') \<Rightarrow> (Inr False, f')
           | (_, f') \<Rightarrow> (Inl staged_cleanup_error, f')))"

fun remove_staged_paths ::
    "'a os_world_scheme \<Rightarrow> bool \<Rightarrow> string list \<Rightarrow> fs \<Rightarrow> (anole_error + bool) \<times> fs" where
  "remove_staged_paths W removed [] f = (Inr removed, f)"
| "remove_staged_paths W removed (p # ps) f =
     (case remove_staged_path W p f of
        (Inl e, f') \<Rightarrow> (Inl e, f')
      | (Inr r, f') \<Rightarrow> remove_staged_paths W (removed \<or> r) ps f')"

definition cleanup_staged_output ::
    "'a lane_world_scheme \<Rightarrow> string \<Rightarrow> uuid \<Rightarrow> fs \<Rightarrow> (anole_error + bool) \<times> fs" where
  "cleanup_staged_output W out job f =
     (case res_bind (ensure_local_filesystem_path out Commit) (\<lambda>_.
           res_bind (resolve_output_identity W out Commit) (\<lambda>resolved_out.
           staged_output_candidates resolved_out job)) of
        Inl e \<Rightarrow> (Inl e, f)
      | Inr candidates \<Rightarrow> remove_staged_paths W False candidates f)"

section \<open>Giving up and committing\<close>

text \<open>A failed removal is logged only.\<close>

definition cleanup_partial :: "'a os_world_scheme \<Rightarrow> string \<Rightarrow> fs \<Rightarrow> fs" where
  "cleanup_partial W p f = snd (remove_path W p f)"

definition give_up :: "'a os_world_scheme \<Rightarrow> string \<Rightarrow> anole_error \<Rightarrow> fs \<Rightarrow> lane_run" where
  "give_up W work e f = (Inl e, cleanup_partial W work f)"

definition commit_path_no_replace ::
    "'a os_world_scheme \<Rightarrow> string \<Rightarrow> string \<Rightarrow> fs \<Rightarrow> (anole_error + unit) \<times> fs" where
  "commit_path_no_replace W src dst f =
     (case rename_path_no_replace W src dst f of
        (Done, f') \<Rightarrow> (Inr (), f')
      | (e, f') \<Rightarrow>
          (Inl (if e = AlreadyExists \<or> fs_exists f' dst
             then anole_error_new OutputConflict Commit
               ''The destination appeared before the validated output could be committed''
             else anole_error_new StorageFailed Commit
               ''Validated output could not be committed without overwriting''), f'))"

definition report_for :: "string \<Rightarrow> validation_report \<Rightarrow> validation_report" where
  "report_for out r = r\<lparr>report_output := (report_output r)\<lparr>sum_display_path := Some out\<rparr>\<rparr>"

text \<open>
  The end of a lane. \<open>work\<close> is the partial path, \<open>staged\<close> the file or directory in it that is
  committed, \<open>accept\<close> the inspection and validation of the staged output, and \<open>tidy\<close> what a lane
  with a work directory does after the commit. The two errors have the texts of the lane.
\<close>

definition finish_run ::
    "'a lane_world_scheme \<Rightarrow> probe \<Rightarrow> string \<Rightarrow> string \<Rightarrow> string
     \<Rightarrow> (fs \<Rightarrow> anole_error + validation_report) \<Rightarrow> (fs \<Rightarrow> fs) \<Rightarrow> string \<Rightarrow> string \<Rightarrow> fs \<Rightarrow> lane_run" where
  "finish_run W input out work staged accept tidy rejected appeared f =
     (case observer_error W of
        Some e \<Rightarrow> give_up W work e f
      | None \<Rightarrow>
          let f1 = others W AtFinish f in
          case ensure_input_unchanged W AtFinish input Commit of
            Inl e \<Rightarrow> give_up W work e f1
          | Inr _ \<Rightarrow>
              case accept f1 of
                Inl e \<Rightarrow> give_up W work e f1
              | Inr report \<Rightarrow>
                  if report_status report = Fail
                  then give_up W work (anole_error_new ValidationFailed Validate rejected) f1
                  else if fs_exists f1 out
                  then give_up W work (anole_error_new OutputConflict Commit appeared) f1
                  else
                    case commit_path_no_replace W staged out (others W AtCommit f1) of
                      (Inl e, f2) \<Rightarrow> give_up W work e f2
                    | (Inr _, f2) \<Rightarrow>
                        (Inr \<lparr>res_output_path = out, res_report = report_for out report\<rparr>, tidy f2))"

end
