(* ===== verification/Media_Plans.thy ===== *)
theory Media_Plans
  imports Ffmpeg_Args Validation
begin

text \<open>
  The planner, the runner and the validator of the media lanes agree: what one writes into a
  plan the others read back, and an output that keeps what the plan promises is accepted.
\<close>

section \<open>Numbers in plans\<close>

lemma is_ascii_digit_char: "n < 10 \<Longrightarrow> is_ascii_digit (digit_char n)"
  by (simp add: is_ascii_digit_def digit_char_def byte_of_char_of)

lemma digits_value_append:
  "digits_value acc (xs @ ys) = Option.bind (digits_value acc xs) (\<lambda>a. digits_value a ys)"
  by (induction acc xs rule: digits_value.induct) auto

lemma digits_value_decimal: "digits_value 0 (decimal n) = Some n"
proof (induction n rule: decimal.induct)
  case (1 n)
  have digit: "byte_of (digit_char k) - 48 = k" if "k < 10" for k
    using that by (simp add: digit_char_def byte_of_char_of)
  show ?case
  proof (cases "n < 10")
    case True
    then show ?thesis by (simp add: decimal.simps [of n] is_ascii_digit_char digit)
  next
    case False
    then show ?thesis using 1
      by (simp add: decimal.simps [of n] digits_value_append is_ascii_digit_char digit)
  qed
qed

lemma decimal_starts: "\<exists>k s. k < 10 \<and> decimal n = digit_char k # s"
proof (induction n rule: decimal.induct)
  case (1 n)
  then show ?case by (cases "n < 10") (auto simp: decimal.simps [of n])
qed

lemma parse_u64_decimal: "n \<le> u64_max \<Longrightarrow> parse_u64 (decimal n) = Some n"
proof -
  assume n: "n \<le> u64_max"
  obtain k s where d: "k < 10" "decimal n = digit_char k # s" using decimal_starts by blast
  have "digit_char k \<noteq> CHR ''+''" using is_ascii_digit_char [OF d(1)]
    by (auto simp: is_ascii_digit_def byte_of_def)
  then show ?thesis using d n digits_value_decimal [of n] by (simp add: parse_u64_def Let_def)
qed

lemma parse_uint_decimal: "n \<le> m \<Longrightarrow> m \<le> u64_max \<Longrightarrow> parse_uint m (decimal n) = Some n"
  by (simp add: parse_uint_def parse_u64_decimal)

lemma decimal_not_word: "\<not> is_ascii_digit c \<Longrightarrow> decimal n \<noteq> c # s"
  using decimal_starts [of n] is_ascii_digit_char by (metis list.inject)

lemma limits: "u8_max \<le> u64_max" "u16_max \<le> u64_max" "u32_max \<le> u64_max"
  by (simp_all add: u8_max_def u16_max_def u32_max_def u64_max_def)

section \<open>The maps of a plan\<close>

lemma map_of_btree_from: "map_of (btree_from kvs) = map_of (rev kvs)"
proof -
  have "map_of (fold (\<lambda>(k, v). btree_insert k v) kvs m) = map_of m ++ map_of (rev kvs)" for m
  proof (induction kvs arbitrary: m)
    case (Cons x kvs)
    then show ?case
      by (cases x) (simp add: map_of_btree_insert fun_eq_iff map_add_def split: option.split)
  qed simp
  from this [of "[]"] show ?thesis by (simp add: btree_from_def)
qed

definition sorted_keys :: "(string \<times> 'a) list \<Rightarrow> bool" where
  "sorted_keys m \<longleftrightarrow> sorted_wrt (<) (map fst m)"

lemma sorted_keys_insert: "sorted_keys m \<Longrightarrow> sorted_keys (btree_insert k v m)"
proof -
  have "fst ` set (btree_insert k v m) = insert k (fst ` set m)"
    by (induction k v m rule: btree_insert.induct) auto
  note keys = this
  show "sorted_keys m \<Longrightarrow> sorted_keys (btree_insert k v m)"
  proof (induction k v m rule: btree_insert.induct)
    case (2 k v k' v' m)
    have "fst ` set (btree_insert k v m) = insert k (fst ` set m)"
      by (induction k v m rule: btree_insert.induct) auto
    with 2 show ?case by (auto simp: sorted_keys_def)
  qed (simp add: sorted_keys_def)
qed

lemma sorted_keys_from: "sorted_keys (btree_from kvs)"
proof -
  have "sorted_keys m \<Longrightarrow> sorted_keys (fold (\<lambda>(k, v). btree_insert k v) kvs m)" for m
    by (induction kvs arbitrary: m) (auto intro: sorted_keys_insert)
  then show ?thesis by (simp add: btree_from_def sorted_keys_def)
qed

section \<open>Every plan of a media planner\<close>

text \<open>What the planners have in common: one step of the given engine, sealed with its hash.\<close>

definition well_planned :: "plan_env \<Rightarrow> probe \<Rightarrow> engine_identity \<Rightarrow> plan \<Rightarrow> bool" where
  "well_planned E p eng pl \<longleftrightarrow>
     (\<exists>st. steps pl = [st] \<and> engine st = eng \<and> sorted_keys (arguments st))
     \<and> sorted_keys (constraints pl) \<and> plan_schema_version pl = schema_version
     \<and> input_fingerprint pl = fast_fingerprint (artifact p) \<and> network_policy pl = Deny
     \<and> validators pl \<noteq> [] \<and> deterministic_plan_hash (pe_digest E) pl = Inr (plan_hash pl)"

lemma hash_material_unhashed [simp]: "hash_material_of (pl\<lparr>plan_hash := h\<rparr>) = hash_material_of pl"
  by (simp add: hash_material_of_def)

lemma sealed:
  "seal_plan E pl = Inr pl' \<longleftrightarrow> (\<exists>h. deterministic_plan_hash (pe_digest E) pl = Inr h \<and> pl' = pl\<lparr>plan_hash := h\<rparr>)"
  by (auto simp: seal_plan_def)

lemma well_planned_sealed:
  assumes "seal_plan E (one_step_plan E p target (btree_from cs) st ch vs out est) = Inr pl"
    and "arguments st = btree_from as" and "vs \<noteq> []" and "engine st = eng"
  shows "well_planned E p eng pl"
proof -
  have hash: "deterministic_plan_hash (pe_digest E) pl = Inr (plan_hash pl)"
    using assms(1) by (auto simp: sealed deterministic_plan_hash_def)
  obtain h where "pl = (one_step_plan E p target (btree_from cs) st ch vs out est)\<lparr>plan_hash := h\<rparr>"
    using assms(1) by (auto simp: sealed)
  then have "steps pl = [st]" "constraints pl = btree_from cs" "plan_schema_version pl = schema_version"
    "input_fingerprint pl = fast_fingerprint (artifact p)" "network_policy pl = Deny" "validators pl = vs"
    by (simp_all add: one_step_plan_def)
  with hash assms(2-4) show ?thesis by (simp add: well_planned_def sorted_keys_from)
qed

lemma well_planned_heic: "plan_heic_conversion E p r eng = Inr pl \<Longrightarrow> well_planned E p eng pl"
  by (auto simp: plan_heic_conversion_def heic_plan_def still_image_validators_def
      intro!: well_planned_sealed)

lemma well_planned_magick: "plan_magick_conversion E p r eng = Inr pl \<Longrightarrow> well_planned E p eng pl"
  by (auto simp: plan_magick_conversion_def magick_plan_def still_image_validators_def
      intro!: well_planned_sealed)

lemma well_planned_clean: "plan_metadata_clean E p out eng = Inr pl \<Longrightarrow> well_planned E p eng pl"
  by (auto simp: plan_metadata_clean_def clean_plan_def Let_def intro!: well_planned_sealed)

lemma well_planned_image: "plan_image_conversion E p r eng t = Inr pl \<Longrightarrow> well_planned E p eng pl"
  by (auto simp: plan_image_conversion_def image_plan_def Let_def still_image_validators_def
      intro!: well_planned_sealed)

lemma well_planned_gif: "plan_gif_conversion E p r eng = Inr pl \<Longrightarrow> well_planned E p eng pl"
  by (auto simp: plan_gif_conversion_def gif_plan_def Let_def intro!: well_planned_sealed)

lemma well_planned_mp4: "plan_mp4_conversion E p r eng = Inr pl \<Longrightarrow> well_planned E p eng pl"
  by (auto simp: plan_mp4_conversion_def mp4_plan_def Let_def intro!: well_planned_sealed)

lemma well_planned_audio: "plan_audio_conversion E p r eng t row = Inr pl \<Longrightarrow> well_planned E p eng pl"
  by (auto simp: plan_audio_conversion_def audio_plan_def Let_def case_prod_beta
      intro!: well_planned_sealed)

section \<open>What is planned can be run\<close>

text \<open>
  The encoder settings of a request that the runner accepts, and where a plan reads them. The
  CRF and the preset matter when the video of an MP4 is encoded (the CRF only when the ladder
  of a target size does not put its own in), the bit rate when the audio is encoded by one of
  the encoders that take it.
\<close>

definition crf_ok :: "plan_request \<Rightarrow> bool" where
  "crf_ok r \<longleftrightarrow> (case video_crf r of None \<Rightarrow> True | Some n \<Rightarrow> n \<le> 51)"

definition preset_ok :: "plan_request \<Rightarrow> bool" where
  "preset_ok r \<longleftrightarrow> (case video_preset r of None \<Rightarrow> True | Some s \<Rightarrow> s \<in> set x264_presets)"

definition bitrate_ok :: "plan_request \<Rightarrow> bool" where
  "bitrate_ok r \<longleftrightarrow> (case audio_bitrate_kbps r of None \<Rightarrow> True | Some b \<Rightarrow> in_range 8 320 b)"

definition mp4_settings_ok :: "probe \<Rightarrow> plan_request \<Rightarrow> nat option \<Rightarrow> bool" where
  "mp4_settings_ok p r crf \<longleftrightarrow>
     (video_copy p r \<or> (preset_ok r \<and> (crf \<noteq> None \<or> crf_ok r))) \<and> (audio_copy p \<or> bitrate_ok r)"

definition audio_settings_ok :: "probe \<Rightarrow> plan_request \<Rightarrow> string \<times> string \<times> string \<times> bool \<Rightarrow> bool" where
  "audio_settings_ok p r row \<longleftrightarrow>
     (case row of (target_codec, encoder, _) \<Rightarrow>
        encoder \<notin> {''libmp3lame'', ''aac'', ''libopus''} \<or> bitrate_ok r
        \<or> (case select_audio r (streams_of AudioS p) of
             Inr s \<Rightarrow> codec s = Some target_codec | Inl _ \<Rightarrow> False))"

definition settings_ok :: "probe \<Rightarrow> plan_request \<Rightarrow> nat option \<Rightarrow> bool" where
  "settings_ok p r crf \<longleftrightarrow>
     (if requested_target r = ''mp4'' then mp4_settings_ok p r crf
      else case map_of audio_targets (requested_target r) of
        Some row \<Rightarrow> audio_settings_ok p r row | None \<Rightarrow> True)"

definition indices_ok :: "probe \<Rightarrow> bool" where
  "indices_ok p \<longleftrightarrow> (\<forall>s \<in> set (streams p). stream_index s \<le> u32_max)"

lemma sealed_parts:
  assumes "seal_plan E (one_step_plan E p target cs st ch vs out est) = Inr pl"
  shows "steps pl = [st]" "target_format pl = target" "constraints pl = cs" "validators pl = vs"
    "changes pl = ch" "output_path pl = out"
  using assms by (auto simp: sealed one_step_plan_def)

lemma first_stream_member: "first_stream k p = Some s \<Longrightarrow> s \<in> set (streams p) \<and> stream_kind s = k"
  by (auto simp: first_stream_def find_Some_iff)

lemma in_range_iff: "in_range lo hi n \<longleftrightarrow> lo \<le> n \<and> n \<le> hi"
  by (simp add: in_range_def)

lemma parse_u32_decimal: "n \<le> u32_max \<Longrightarrow> parse_uint u32_max (decimal n) = Some n"
  by (simp add: parse_uint_decimal limits)

lemma decimal_words: "decimal n \<noteq> ''source''" "decimal n \<noteq> ''full''"
  by (rule decimal_not_word, simp add: is_ascii_digit_def byte_of_def)+

lemma encoder_quality_bounds:
  "in_range 1 100 q \<Longrightarrow> encoder_quality ''jpeg'' q \<in> {2..31} \<and> encoder_quality ''webp'' q \<in> {1..100}
     \<and> encoder_quality ''avif'' q \<in> {0..63}"
  by (auto simp: encoder_quality_def in_range_def clamp_def)

lemmas arg_simps = argument_def map_of_btree_from checked_u32_argument_def checked_u64_argument_def
  checked_argument_def ok_or_def ensure_def

lemma image_quality_range:
  "image_quality lossy d e1 e2 r = Inr q \<Longrightarrow> d \<in> {1..100} \<Longrightarrow>
     (if lossy then \<exists>n. q = Some n \<and> in_range 1 100 n else q = None)"
  by (auto simp: image_quality_def in_range_def dest!: sym [of "Some _"] split: if_splits option.splits)

lemma width_argument_accepted:
  assumes "image_width_ok r" and "req_width r = Some w"
  shows "checked_width (decimal w) = Inr w"
proof -
  have "in_range 1 16384 w" using assms by (simp add: image_width_ok_def)
  then have "w \<le> u32_max" by (simp add: in_range_def u32_max_def)
  then show ?thesis using \<open>in_range 1 16384 w\<close> by (simp add: checked_width_def parse_u32_decimal)
qed

lemma ok_or_Some: "ok_or e (Some x) = Inr x"
  by simp

lemma image_quality_accepted:
  assumes "if target \<in> {''jpeg'', ''webp'', ''avif''} then \<exists>n. quality = Some n \<and> in_range 1 100 n
           else quality = None"
    and "argument st ''encoder_quality'' = map_option (\<lambda>q. decimal (encoder_quality target q)) quality"
  shows "\<exists>args. image_quality_arguments target st = Inr args"
proof (cases "target \<in> {''jpeg'', ''webp'', ''avif''}")
  case True
  then obtain n where n: "quality = Some n" "in_range 1 100 n" using assms(1) by auto
  then have b: "encoder_quality ''jpeg'' n \<in> {2..31}" "encoder_quality ''webp'' n \<in> {1..100}"
    "encoder_quality ''avif'' n \<in> {0..63}" using encoder_quality_bounds by auto
  have "checked_u32_argument st ''encoder_quality'' lo hi = Inr (encoder_quality target n)"
    if "encoder_quality target n \<in> {lo..hi}" "hi \<le> 100" for lo hi
  proof -
    have "encoder_quality target n \<le> u32_max" using that by (simp add: u32_max_def)
    then show ?thesis using that assms(2) n(1)
      by (simp add: checked_u32_argument_def parse_u32_decimal in_range_def)
  qed
  then show ?thesis using True b by (auto simp: image_quality_arguments_def)
next
  case False
  then show ?thesis by (auto simp: image_quality_arguments_def)
qed

lemma image_step_accepted:
  assumes q: "if target \<in> {''jpeg'', ''webp'', ''avif''} then \<exists>n. quality = Some n \<and> in_range 1 100 n
            else quality = None"
    and w: "image_width_ok r" and i: "stream_index im \<le> u32_max"
    and st: "arguments st = btree_from (image_step_arguments target im r quality)"
  shows "\<exists>args. image_arguments target st = Inr args"
proof -
  obtain enc mux where em: "image_encoder target = (enc, mux)" by (cases "image_encoder target")
  have look: "argument st ''video_stream_index'' = Some (decimal (stream_index im))"
    "argument st ''codec'' = Some enc" "argument st ''muxer'' = Some mux"
    "argument st ''width'' = Some (decimal_or ''source'' (req_width r))"
    "argument st ''encoder_quality'' = map_option (\<lambda>q. decimal (encoder_quality target q)) quality"
    by (cases quality; simp add: argument_def st map_of_btree_from image_step_arguments_def em)+
  obtain quals where quals: "image_quality_arguments target st = Inr quals"
    using image_quality_accepted [OF q look(5)] by blast
  have "\<exists>sc. (if decimal_or ''source'' (req_width r) = ''source'' then Inr []
      else res_bind (checked_width (decimal_or ''source'' (req_width r)))
        (\<lambda>n. Inr [''-vf'', scale_filter n])) = Inr sc"
    using width_argument_accepted [OF w] by (cases "req_width r") (auto simp: decimal_or_def decimal_words)
  then obtain sc where sc: "(if decimal_or ''source'' (req_width r) = ''source'' then Inr []
      else res_bind (checked_width (decimal_or ''source'' (req_width r)))
        (\<lambda>n. Inr [''-vf'', scale_filter n])) = Inr sc" by blast
  have "checked_u32_argument st ''video_stream_index'' 0 u32_max = Inr (stream_index im)"
    "checked_argument st ''codec'' [enc] = Inr enc" "checked_argument st ''muxer'' [mux] = Inr mux"
    using i by (simp_all add: checked_u32_argument_def checked_argument_def look parse_u32_decimal
        in_range_iff)
  then show ?thesis
    unfolding image_arguments_def em Let_def prod.case look option.case
    by (simp only: res_bind_simps sc quals) blast
qed

lemma gif_step_accepted:
  assumes i: "stream_index video \<le> u32_max" and start: "start \<le> u64_max"
    and dur: "\<forall>d. dur = Some d \<longrightarrow> 0 < d \<and> d \<le> u64_max" and fps: "in_range 1 60 fps"
    and loops: "loops \<le> u16_max" and w: "image_width_ok r"
    and st: "arguments st = btree_from (gif_step_arguments video start dur fps loops (req_width r))"
  shows "\<exists>args. gif_arguments st = Inr args"
proof -
  have width: "\<exists>sc. (if decimal_or ''source'' (req_width r) = ''source'' then Inr []
      else res_bind (checked_width (decimal_or ''source'' (req_width r)))
        (\<lambda>w. Inr (scale_filter w @ '',''))) = Inr sc"
    using width_argument_accepted [OF w] by (cases "req_width r") (auto simp: decimal_or_def decimal_words)
  have stop: "\<exists>sp. (if decimal_or ''full'' dur = ''full'' then Inr []
      else res_bind (ok_or invalid_plan_argument (Option.bind (parse_u64 (decimal_or ''full'' dur))
          (\<lambda>n. if n > 0 then Some n else None)))
        (\<lambda>n. Inr [''-t'', format_seconds_from_millis n])) = Inr sp"
    using dur by (cases dur) (auto simp: decimal_or_def decimal_words parse_u64_decimal ok_or_def)
  have le: "fps \<le> u32_max" "loops \<le> u32_max"
    using fps loops by (simp_all add: in_range_def u32_max_def u16_max_def)
  obtain sc where sc: "(if decimal_or ''source'' (req_width r) = ''source'' then Inr []
      else res_bind (checked_width (decimal_or ''source'' (req_width r)))
        (\<lambda>w. Inr (scale_filter w @ '',''))) = Inr sc" using width by blast
  obtain sp where sp: "(if decimal_or ''full'' dur = ''full'' then Inr []
      else res_bind (ok_or invalid_plan_argument (Option.bind (parse_u64 (decimal_or ''full'' dur))
          (\<lambda>n. if n > 0 then Some n else None)))
        (\<lambda>n. Inr [''-t'', format_seconds_from_millis n])) = Inr sp" using stop by blast
  have look: "argument st ''video_stream_index'' = Some (decimal (stream_index video))"
    "argument st ''start_millis'' = Some (decimal start)"
    "argument st ''duration_millis'' = Some (decimal_or ''full'' dur)"
    "argument st ''frames_per_second'' = Some (decimal fps)"
    "argument st ''loop_count'' = Some (decimal loops)"
    "argument st ''width'' = Some (decimal_or ''source'' (req_width r))"
    by (simp_all add: argument_def st map_of_btree_from gif_step_arguments_def)
  have "checked_u32_argument st ''video_stream_index'' 0 u32_max = Inr (stream_index video)"
    "checked_u64_argument st ''start_millis'' = Inr start"
    "checked_u32_argument st ''frames_per_second'' 1 60 = Inr fps"
    "checked_u32_argument st ''loop_count'' 0 u16_max = Inr loops"
    using le i start fps loops
    by (simp_all add: checked_u32_argument_def checked_u64_argument_def look parse_u32_decimal
        parse_u64_decimal in_range_iff)
  then show ?thesis unfolding gif_arguments_def look by (simp only: ok_or_Some res_bind_simps sc sp) blast
qed

text \<open>Each reader of a setting succeeds exactly on the values of its range.\<close>

lemma parse_uint_decimal_iff:
  "n \<le> u64_max \<Longrightarrow> parse_uint m (decimal n) = (if n \<le> m then Some n else None)"
  by (simp add: parse_uint_def parse_u64_decimal)

lemma default_settings:
  "parse_uint u8_max ''20'' = Some 20" "parse_uint u32_max ''192'' = Some 192"
proof -
  have "decimal 20 = ''20''" "decimal 192 = ''192''" by code_simp+
  then show "parse_uint u8_max ''20'' = Some 20" "parse_uint u32_max ''192'' = Some 192"
    using parse_uint_decimal [OF _ limits(1), of 20] parse_u32_decimal [of 192]
    by (simp_all add: u8_max_def u32_max_def)
qed

lemma crf_argument_iff:
  assumes "map_of (arguments st) ''video_crf'' = map_option decimal (video_crf r)" and "fits 8 (video_crf r)"
  shows "(\<exists>c. video_crf_argument st = Inr c) \<longleftrightarrow> crf_ok r"
  using assms by (cases "video_crf r")
    (auto simp: video_crf_argument_def argument_def crf_ok_def default_settings [unfolded u8_max_def] parse_uint_decimal_iff
      ok_or_def ensure_def fits_def u64_max_def u8_max_def)

lemma bitrate_argument_iff:
  assumes "map_of (arguments st) ''audio_bitrate_kbps'' = map_option decimal (audio_bitrate_kbps r)"
    and "fits 32 (audio_bitrate_kbps r)"
  shows "(\<exists>b. audio_bitrate_argument st = Inr b) \<longleftrightarrow> bitrate_ok r"
  using assms by (cases "audio_bitrate_kbps r")
    (auto simp: audio_bitrate_argument_def argument_def bitrate_ok_def
      default_settings [unfolded u32_max_def]
      parse_uint_decimal_iff ok_or_def ensure_def fits_def u64_max_def u32_max_def in_range_def)

lemma preset_argument_iff:
  "map_of (arguments st) ''video_preset'' = video_preset r \<Longrightarrow>
   (\<exists>v. video_preset_argument st = Inr v) \<longleftrightarrow> preset_ok r"
  by (cases "video_preset r")
     (auto simp: video_preset_argument_def argument_def ensure_def preset_ok_def x264_presets_def)

lemma map_of_opt_argument:
  "map_of (opt_argument k v) x = (if x = k then v else None)"
  by (auto simp: opt_argument_def split: option.split)

lemma rev_opt_argument [simp]: "rev (opt_argument k v) = opt_argument k v"
  by (simp add: opt_argument_def split: option.split)

lemma mp4_step_lookup:
  assumes "arguments st = btree_from (mp4_step_arguments vc ac sm r)"
  shows "map_of (arguments st) ''video_mode'' = Some (if vc then ''copy'' else ''libx264'')"
    "map_of (arguments st) ''audio_mode'' = Some (if ac then ''copy'' else ''aac'')"
    "map_of (arguments st) ''subtitle_mode'' = Some sm"
    "map_of (arguments st) ''video_crf'' = map_option decimal (video_crf r)"
    "map_of (arguments st) ''video_preset'' = video_preset r"
    "map_of (arguments st) ''audio_bitrate_kbps'' = map_option decimal (audio_bitrate_kbps r)"
    "map_of (arguments st) ''target_size_bytes'' = map_option decimal (target_size_bytes r)"
  by (simp_all add: assms map_of_btree_from mp4_step_arguments_def map_add_def map_of_opt_argument
      split: option.split)

lemma res_bind_succeeds:
  "(\<exists>y. res_bind x (\<lambda>v. Inr (f v)) = Inr y) \<longleftrightarrow> (\<exists>v. x = Inr v)"
  by (cases x) simp_all

lemma mp4_step_accepted:
  assumes st: "arguments st = btree_from (mp4_step_arguments vc ac sm r)" and range: "request_in_range r"
  shows "(\<exists>args. mp4_arguments st crf = Inr args) \<longleftrightarrow>
    (vc \<or> (preset_ok r \<and> (crf \<noteq> None \<or> crf_ok r))) \<and> (ac \<or> bitrate_ok r)"
proof -
  note look = mp4_step_lookup [OF st]
  have knobs: "(\<exists>c. video_crf_argument st = Inr c) \<longleftrightarrow> crf_ok r"
    "(\<exists>b. audio_bitrate_argument st = Inr b) \<longleftrightarrow> bitrate_ok r"
    "(\<exists>v. video_preset_argument st = Inr v) \<longleftrightarrow> preset_ok r"
    using range crf_argument_iff [OF look(4)] bitrate_argument_iff [OF look(6)]
      preset_argument_iff [OF look(5)] by (simp_all add: request_in_range_def)
  show ?thesis unfolding knobs [symmetric]
    by (cases vc; cases ac; cases crf; cases "video_crf_argument st"; cases "audio_bitrate_argument st";
        cases "video_preset_argument st")
       (simp_all add: mp4_arguments_def Let_def checked_argument_def argument_def look ok_or_def ensure_def)
qed

lemma audio_step_accepted:
  assumes st: "arguments st = btree_from (audio_step_arguments chosen mode muxer tc r)"
    and range: "request_in_range r" and i: "stream_index chosen \<le> u32_max"
    and m: "mode \<in> {''copy'', enc}"
  shows "(\<exists>args. audio_arguments target st (enc, muxer) = Inr args)
    \<longleftrightarrow> mode \<notin> {''libmp3lame'', ''aac'', ''libopus''} \<or> bitrate_ok r"
proof -
  have look: "map_of (arguments st) ''audio_stream_index'' = Some (decimal (stream_index chosen))"
    "map_of (arguments st) ''audio_mode'' = Some mode" "map_of (arguments st) ''muxer'' = Some muxer"
    "map_of (arguments st) ''audio_bitrate_kbps'' = map_option decimal (audio_bitrate_kbps r)"
    by (simp_all add: st map_of_btree_from audio_step_arguments_def map_add_def map_of_opt_argument
        split: option.split)
  have "(\<exists>b. audio_bitrate_argument st = Inr b) \<longleftrightarrow> bitrate_ok r"
    using range bitrate_argument_iff [OF look(4)] by (simp add: request_in_range_def)
  then show ?thesis using i m
    by (cases "audio_bitrate_argument st")
       (auto simp: audio_arguments_def checked_argument_def argument_def look ok_or_def ensure_def
        parse_u32_decimal)
qed

lemma clean_tables_agree:
  "clean_muxer = metadata_clean_muxer" "clean_key_ok = valid_metadata_key"
  by (simp_all add: fun_eq_iff clean_muxer_def metadata_clean_muxer_def clean_key_ok_def
      valid_metadata_key_def)

lemma unsealed:
  "seal_plan E pl' = Inr pl \<Longrightarrow> steps pl = steps pl' \<and> target_format pl = target_format pl'
     \<and> constraints pl = constraints pl' \<and> validators pl = validators pl'
     \<and> changes pl = changes pl' \<and> output_path pl = output_path pl'"
  by (auto simp: sealed)

lemma configured_iff:
  assumes "steps pl = [st]"
  shows "(\<exists>args. configure_ffmpeg_output pl out crf = Inr args) \<longleftrightarrow> (\<exists>args. lane_arguments pl st crf = Inr args)"
  using assms by (cases "lane_arguments pl st crf") (simp_all add: configure_ffmpeg_output_def)

lemma configured:
  assumes "steps pl = [st]" and "lane_arguments pl st crf = Inr args"
  shows "\<exists>args. configure_ffmpeg_output pl out crf = Inr args"
  using assms configured_iff by blast

lemma clean_accepted:
  assumes "plan_metadata_clean E p dest eng = Inr pl"
  shows "\<exists>args. configure_ffmpeg_output pl out crf = Inr args"
proof -
  let ?removed = "keys_of_class {Private, Secret} p"
  from assms obtain muxer where m: "metadata_clean_muxer (format_id (format p)) = Some muxer"
    and keys: "list_all valid_metadata_key ?removed"
    and seal: "seal_plan E (clean_plan E p dest eng muxer) = Inr pl"
    by (auto simp: plan_metadata_clean_def)
  have "res_mapM removal_arguments (map JStr ks) = Inr (map (\<lambda>k. [''-metadata'', k @ ''='']) ks)"
    if "list_all valid_metadata_key ks" for ks
    using that by (induction ks) (simp_all add: removal_arguments_def clean_tables_agree)
  then show ?thesis using m keys unsealed [OF seal]
    by (simp add: configure_ffmpeg_output_def lane_arguments_def configure_metadata_clean_def
        clean_plan_def one_step_plan_def Let_def checked_argument_def argument_def map_of_btree_from
        clean_tables_agree)
qed

lemma mp4_accepted:
  assumes "plan_mp4_conversion E p r eng = Inr pl" and "request_in_range r"
  shows "(\<exists>args. configure_ffmpeg_output pl out crf = Inr args) \<longleftrightarrow> mp4_settings_ok p r crf"
proof -
  have seal: "seal_plan E (mp4_plan E p r eng) = Inr pl"
    using assms(1) by (simp add: plan_mp4_conversion_def split: if_splits)
  define st where "st = hd (steps (mp4_plan E p r eng))"
  have st: "arguments st = btree_from (mp4_step_arguments (video_copy p r) (audio_copy p) (subtitle_mode p) r)"
    "operation_of st \<noteq> MetadataClean" "steps pl = [st]" "target_format pl = ''mp4''"
    using unsealed [OF seal] by (simp_all add: st_def mp4_plan_def one_step_plan_def Let_def)
  have "lane_arguments pl st crf = mp4_arguments st crf" using st(2,4) by (simp add: lane_arguments_def)
  then show ?thesis using mp4_step_accepted [OF st(1) assms(2)]
    by (simp add: configured_iff [OF st(3)] mp4_settings_ok_def)
qed

lemma request_numbers:
  assumes "request_in_range r"
  shows "gif_start r \<le> u64_max" "\<forall>d. duration_millis r = Some d \<longrightarrow> d \<le> u64_max"
    "(case loop_count r of None \<Rightarrow> 0 | Some n \<Rightarrow> n) \<le> u16_max"
  using assms by (auto simp: request_in_range_def fits_def gif_start_def u64_max_def u16_max_def
      split: option.splits)

lemma gif_accepted:
  assumes "plan_gif_conversion E p r eng = Inr pl" and "indices_ok p" and "request_in_range r"
  shows "\<exists>args. configure_ffmpeg_output pl out crf = Inr args"
proof -
  from assms(1) obtain video where video: "first_stream VideoS p = Some video"
    and dur: "duration_millis r \<noteq> Some 0" and fps: "in_range 1 60 (gif_fps r)"
    and w: "image_width_ok r" and seal: "seal_plan E (gif_plan E p r eng video) = Inr pl"
    by (auto simp: plan_gif_conversion_def)
  define st where "st = hd (steps (gif_plan E p r eng video))"
  have st: "arguments st = btree_from (gif_step_arguments video (gif_start r) (duration_millis r)
      (gif_fps r) (case loop_count r of None \<Rightarrow> 0 | Some n \<Rightarrow> n) (req_width r))"
    "operation_of st = Transcode" "steps pl = [st]" "target_format pl = ''gif''"
    using unsealed [OF seal] by (simp_all add: st_def gif_plan_def one_step_plan_def Let_def)
  have "stream_index video \<le> u32_max" using assms(2) first_stream_member [OF video] by (simp add: indices_ok_def)
  moreover have "\<forall>d. duration_millis r = Some d \<longrightarrow> 0 < d \<and> d \<le> u64_max"
    using dur request_numbers(2) [OF assms(3)] by auto
  ultimately obtain args where "gif_arguments st = Inr args"
    using gif_step_accepted [OF _ request_numbers(1) [OF assms(3)] _ fps request_numbers(3) [OF assms(3)] w st(1)]
    by blast
  then show ?thesis using st(2-4)
    by (intro configured [of pl st]) (simp_all add: lane_arguments_def audio_lanes_def)
qed

lemma audio_accepted:
  assumes "plan_audio_conversion E p r eng target row = Inr pl" and "map_of audio_targets target = Some row"
    and "indices_ok p" and "request_in_range r"
  shows "(\<exists>args. configure_ffmpeg_output pl out crf = Inr args) \<longleftrightarrow> audio_settings_ok p r row"
proof -
  obtain tc enc mux lossy where row: "row = (tc, enc, mux, lossy)" by (cases row)
  from assms(1) obtain chosen where
      sel: "select_audio r (streams_of AudioS p) = Inr chosen" "streams_of AudioS p \<noteq> []"
    and seal: "seal_plan E (audio_plan E p r eng target row chosen) = Inr pl"
    by (auto simp: plan_audio_conversion_def Let_def)
  define mode where "mode = (if codec chosen = Some tc then ''copy'' else enc)"
  define st where "st = hd (steps (audio_plan E p r eng target row chosen))"
  have st: "arguments st = btree_from (audio_step_arguments chosen mode mux tc r)"
    "operation_of st \<noteq> MetadataClean" "steps pl = [st]" "target_format pl = target"
    using unsealed [OF seal] by (simp_all add: st_def mode_def audio_plan_def one_step_plan_def row Let_def)
  have "chosen \<in> set (streams_of AudioS p)"
    using sel by (auto simp: select_audio_def find_Some_iff split: option.splits)
  then have "stream_index chosen \<le> u32_max" using assms(3) by (simp add: indices_ok_def streams_of_def)
  moreover have "mode \<in> {''copy'', enc}" by (simp add: mode_def)
  ultimately have args: "(\<exists>args. audio_arguments target st (enc, mux) = Inr args)
      \<longleftrightarrow> mode \<notin> {''libmp3lame'', ''aac'', ''libopus''} \<or> bitrate_ok r"
    using audio_step_accepted [OF st(1) assms(4)] by blast
  have "map_of audio_lanes target = Some (enc, mux)" "target \<noteq> ''mp4''"
    using assms(2) row by (auto simp: audio_targets_def audio_lanes_def split: if_splits)
  then have "lane_arguments pl st crf = audio_arguments target st (enc, mux)"
    using st(2,4) by (simp add: lane_arguments_def)
  then show ?thesis using args sel(1)
    by (auto simp: configured_iff [OF st(3)] audio_settings_ok_def row mode_def)
qed

lemma image_accepted:
  assumes "plan_image_conversion E p r eng t = Inr pl" and "t \<in> set image_targets" and "indices_ok p"
  shows "\<exists>args. configure_ffmpeg_output pl out crf = Inr args"
proof -
  define target where "target = (if t \<in> {''jpg'', ''jpeg''} then ''jpeg'' else t)"
  from assms(1) obtain im quality where im: "first_stream VideoS p = Some im" and w: "image_width_ok r"
    and quality: "image_quality (lossy_image target) 85 ''Image quality must be between 1 and 100''
       ''{} output is lossless and does not accept --quality'' r = Inr quality"
    and seal: "seal_plan E (image_plan E p r eng target im quality) = Inr pl"
    by (auto simp: plan_image_conversion_def Let_def target_def)
  define st where "st = hd (steps (image_plan E p r eng target im quality))"
  have st: "arguments st = btree_from (image_step_arguments target im r quality)"
    "operation_of st = Transcode" "steps pl = [st]" "target_format pl = target"
    using unsealed [OF seal] by (simp_all add: st_def image_plan_def one_step_plan_def)
  have "stream_index im \<le> u32_max" using assms(3) first_stream_member [OF im] by (simp add: indices_ok_def)
  moreover have "if target \<in> {''jpeg'', ''webp'', ''avif''} then \<exists>n. quality = Some n \<and> in_range 1 100 n
      else quality = None"
    using image_quality_range [OF quality] by (simp add: lossy_image_def)
  ultimately obtain args where args: "image_arguments target st = Inr args"
    using image_step_accepted [OF _ w _ st(1)] by blast
  have "target \<in> {''jpeg'', ''png'', ''webp'', ''avif'', ''tiff'', ''bmp''}"
    using assms(2) by (auto simp: image_targets_def target_def)
  then show ?thesis using args st(2-4)
    by (intro configured [of pl st]) (auto simp: lane_arguments_def audio_lanes_def)
qed

text \<open>
  C17: which planned media can be run. The planner copies the encoder settings of a request
  into the plan without looking at them, and the runner reads them again with their ranges. So
  a plan of the media planner, for a probe whose stream indexes fit 32 bits and a request whose
  numbers fit their types, is turned into an FFmpeg command line exactly when the settings the
  plan uses are in range: for an MP4, a known preset and a CRF up to 51 when the video is
  encoded (no CRF asked of the request when the size ladder gives one), 8 to 320 kbit/s when
  the audio is; for an audio target whose encoder takes a bit rate, that range unless the
  selected stream is copied; nothing for the other targets. No other argument of a plan is
  ever refused. A plan of the metadata cleaner is always turned into a command line.
\<close>

theorem planned_media_can_be_run:
  assumes "indices_ok p" and "request_in_range r"
  shows "(plan_conversion E p r eng = Inr pl \<longrightarrow>
        ((\<exists>args. ffmpeg_command p pl partial_path crf = Inr args) \<longleftrightarrow> settings_ok p r crf))
    \<and> (plan_metadata_clean E p dest eng = Inr pl \<longrightarrow>
        (\<exists>args. ffmpeg_command p pl partial_path crf = Inr args))"
proof -
  let ?t = "requested_target r" and ?run = "\<exists>args. configure_ffmpeg_output pl partial_path crf = Inr args"
  have "?run \<longleftrightarrow> settings_ok p r crf" if plan: "plan_conversion E p r eng = Inr pl"
  proof -
    consider "?t = ''mp4''" "plan_mp4_conversion E p r eng = Inr pl"
      | row where "?t \<noteq> ''mp4''" "map_of audio_targets ?t = Some row"
          "plan_audio_conversion E p r eng ?t row = Inr pl"
      | "?t \<noteq> ''mp4''" "map_of audio_targets ?t = None" "plan_gif_conversion E p r eng = Inr pl"
      | "?t \<noteq> ''mp4''" "map_of audio_targets ?t = None" "?t \<in> set image_targets"
          "plan_image_conversion E p r eng ?t = Inr pl"
      using plan by (auto simp: plan_conversion_def Let_def split: if_splits option.splits)
    then show ?thesis
    proof cases
      case 1 then show ?thesis using mp4_accepted [OF 1(2) assms(2)] by (simp add: settings_ok_def)
    next
      case 2 then show ?thesis using audio_accepted [OF 2(3,2) assms] by (simp add: settings_ok_def)
    next
      case 3 then show ?thesis using gif_accepted [OF 3(3) assms] by (simp add: settings_ok_def)
    next
      case 4 then show ?thesis using image_accepted [OF 4(4,3) assms(1)] by (simp add: settings_ok_def)
    qed
  qed
  moreover have "(\<exists>args. ffmpeg_command p pl partial_path crf = Inr args) \<longleftrightarrow> ?run"
    by (cases "configure_ffmpeg_output pl partial_path crf") (simp_all add: ffmpeg_command_def)
  ultimately show ?thesis using clean_accepted by blast
qed

text \<open>A clip with a video, an audio and a subtitle stream, and the request of an MP4 of it.\<close>

definition bare_stream :: "nat \<Rightarrow> stream_kind \<Rightarrow> string \<Rightarrow> stream_probe" where
  "bare_stream i k c =
     \<lparr>stream_index = i, stream_kind = k, codec = Some c, language = None,
      stream_duration_seconds = None, stream_width = None, stream_height = None, frame_rate = None,
      sample_rate = None, channels = None, properties = (\<lambda>_. None)\<rparr>"

definition demo_clip :: probe where
  "demo_clip =
     \<lparr>probe_schema_version = 1,
      artifact = \<lparr>display_path = ''c.mkv'', canonical_path = ''/d/c.mkv'', size_bytes = 1000,
        modified_unix_ms = 0, fast_fingerprint = ''f'', full_blake3 = None\<rparr>,
      format = \<lparr>format_id = ''mkv'', kind_of = Video, mime_type = None, container = None,
        extension_matches = None, confidence = 1\<rparr>,
      streams = [bare_stream 0 VideoS ''h264'', bare_stream 1 AudioS ''opus'',
        bare_stream 2 SubtitleS ''subrip''],
      metadata = [], probe_warnings = [],
      evidence = \<lparr>evidence_engine_id = ''ffprobe'', evidence_engine_version = ''8'',
        evidence_binary_sha256 = None\<rparr>,
      probe_duration_seconds = Some 10, bit_rate = None\<rparr>"

definition demo_ffmpeg :: engine_identity where
  "demo_ffmpeg =
     \<lparr>engine_id = ''ffmpeg'', engine_version = ''8'', binary_path = ''/b/ffmpeg'',
      binary_sha256 = ''s'', manifest_sha256 = None, build_configuration = None,
      engine_certification = Experimental\<rparr>"

definition demo_plan_env :: plan_env where
  "demo_plan_env = \<lparr>pe_uuid = 7, pe_digest = (\<lambda>_. Some ''d''), pe_canonical = (\<lambda>_. None),
     pe_debug = (\<lambda>s. s)\<rparr>"

definition demo_mp4_request :: plan_request where
  "demo_mp4_request = default_request
     \<lparr>req_target_format := ''mp4'', video_crf := Some 23, audio_bitrate_kbps := Some 128\<rparr>"

lemma demo_mp4_target: "requested_target demo_mp4_request = ''mp4''"
proof -
  have "to_ascii_lowercase (trim_dots (trim ''mp4'')) = ''mp4''" by code_simp
  then show ?thesis by (simp add: requested_target_def demo_mp4_request_def)
qed

lemma demo_mp4_planned:
  "plan_conversion demo_plan_env demo_clip demo_mp4_request demo_ffmpeg
   = Inr ((mp4_plan demo_plan_env demo_clip demo_mp4_request demo_ffmpeg)\<lparr>plan_hash := ''blake3:d''\<rparr>)"
proof -
  have "plan_mp4_conversion demo_plan_env demo_clip demo_mp4_request demo_ffmpeg
      = seal_plan demo_plan_env (mp4_plan demo_plan_env demo_clip demo_mp4_request demo_ffmpeg)"
    by (simp add: plan_mp4_conversion_def demo_clip_def bare_stream_def streams_of_def
        demo_mp4_request_def default_request_def ensure_def)
  then show ?thesis
    by (simp add: plan_conversion_def demo_mp4_target seal_plan_def deterministic_plan_hash_def
        demo_plan_env_def ok_or_def)
qed

text \<open>The same clip with an old video codec, and a request of it with a CRF that x264 has not.\<close>

definition demo_old_clip :: probe where
  "demo_old_clip = demo_clip\<lparr>streams := [bare_stream 0 VideoS ''mpeg4'', bare_stream 1 AudioS ''opus'']\<rparr>"

definition demo_crf_request :: plan_request where
  "demo_crf_request = demo_mp4_request\<lparr>video_crf := Some 60\<rparr>"

lemma demo_crf_planned:
  "plan_conversion demo_plan_env demo_old_clip demo_crf_request demo_ffmpeg
   = Inr ((mp4_plan demo_plan_env demo_old_clip demo_crf_request demo_ffmpeg)\<lparr>plan_hash := ''blake3:d''\<rparr>)"
proof -
  have "plan_mp4_conversion demo_plan_env demo_old_clip demo_crf_request demo_ffmpeg
      = seal_plan demo_plan_env (mp4_plan demo_plan_env demo_old_clip demo_crf_request demo_ffmpeg)"
    by (simp add: plan_mp4_conversion_def demo_old_clip_def demo_clip_def bare_stream_def streams_of_def
        demo_crf_request_def demo_mp4_request_def default_request_def ensure_def)
  moreover have "requested_target demo_crf_request = ''mp4''"
    using demo_mp4_target by (simp add: requested_target_def demo_crf_request_def)
  ultimately show ?thesis
    by (simp add: plan_conversion_def seal_plan_def deterministic_plan_hash_def demo_plan_env_def ok_or_def)
qed

lemma demo_media_in_range:
  "indices_ok demo_clip" "indices_ok demo_old_clip"
  "request_in_range demo_mp4_request" "request_in_range demo_crf_request"
  by (simp_all add: indices_ok_def demo_old_clip_def demo_clip_def bare_stream_def u32_max_def
      request_in_range_def demo_crf_request_def demo_mp4_request_def default_request_def fits_def)

lemma demo_settings:
  "settings_ok demo_clip demo_mp4_request None" "\<not> settings_ok demo_old_clip demo_crf_request None"
proof -
  have "requested_target demo_crf_request = ''mp4''"
    using demo_mp4_target by (simp add: requested_target_def demo_crf_request_def)
  then show "settings_ok demo_clip demo_mp4_request None" "\<not> settings_ok demo_old_clip demo_crf_request None"
    unfolding settings_ok_def demo_mp4_target
    by (simp_all add: mp4_settings_ok_def video_copy_def streams_of_def
        demo_clip_def demo_old_clip_def bare_stream_def demo_crf_request_def demo_mp4_request_def
        default_request_def crf_ok_def preset_ok_def bitrate_ok_def in_range_def)
qed

lemma planned_media_can_be_run_witness:
  "(\<exists>pl args. plan_conversion demo_plan_env demo_clip demo_mp4_request demo_ffmpeg = Inr pl
     \<and> ffmpeg_command demo_clip pl ''/d/c.mp4.part'' None = Inr args)
   \<and> (\<exists>pl. plan_conversion demo_plan_env demo_old_clip demo_crf_request demo_ffmpeg = Inr pl
     \<and> \<not> (\<exists>args. ffmpeg_command demo_old_clip pl ''/d/c.mp4.part'' None = Inr args))"
  using planned_media_can_be_run [OF demo_media_in_range(1,3)] demo_mp4_planned demo_settings(1)
    planned_media_can_be_run [OF demo_media_in_range(2,4)] demo_crf_planned demo_settings(2)
  by blast

text \<open>
  The shape of every media plan. Whatever media planner made it (FFmpeg, the libheif
  fallback, ImageMagick or the metadata cleaner), a plan has exactly one step of the engine that
  was given, its arguments and constraints are maps in key order, it carries the fingerprint of
  the probed input, forbids the network, lists at least one validator, and its hash is the
  deterministic hash of itself, so a change of what it covers after planning is seen.
\<close>

theorem media_plans_are_sealed:
  assumes "plan_conversion E p r eng = Inr pl \<or> plan_heic_conversion E p r eng = Inr pl
     \<or> plan_magick_conversion E p r eng = Inr pl \<or> plan_metadata_clean E p dest eng = Inr pl"
  shows "(\<exists>st. steps pl = [st] \<and> engine st = eng \<and> sorted_keys (arguments st))
     \<and> sorted_keys (constraints pl) \<and> plan_schema_version pl = schema_version
     \<and> input_fingerprint pl = fast_fingerprint (artifact p) \<and> network_policy pl = Deny
     \<and> validators pl \<noteq> [] \<and> deterministic_plan_hash (pe_digest E) pl = Inr (plan_hash pl)"
proof -
  have "well_planned E p eng pl" if "plan_conversion E p r eng = Inr pl"
    using that well_planned_mp4 well_planned_audio well_planned_gif well_planned_image
    by (auto simp: plan_conversion_def Let_def split: if_splits option.splits)
  then have "well_planned E p eng pl"
    using assms well_planned_heic well_planned_magick well_planned_clean by blast
  then show ?thesis by (simp add: well_planned_def)
qed

lemma media_plans_are_sealed_witness:
  "\<exists>pl. plan_conversion demo_plan_env demo_clip demo_mp4_request demo_ffmpeg = Inr pl
     \<and> network_policy pl = Deny \<and> deterministic_plan_hash (\<lambda>_. Some ''d'') pl = Inr (plan_hash pl)"
  using media_plans_are_sealed [OF disjI1 [OF demo_mp4_planned]] demo_mp4_planned
  by (simp add: demo_plan_env_def)

section \<open>What the hash of a plan does not see\<close>

lemma map_sum_bind: "map_sum id f (res_bind r g) = res_bind r (\<lambda>x. map_sum id f (g x))"
  by (cases r) simp_all

lemma map_sum_if: "map_sum id f (if b then x else y) = (if b then map_sum id f x else map_sum id f y)"
  by simp

lemma res_bind_cong_right: "(\<And>x. r = Inr x \<Longrightarrow> f x = g x) \<Longrightarrow> res_bind r f = res_bind r g"
  by (cases r) simp_all

lemma sealed_hash:
  "hash_material_of a = hash_material_of b \<Longrightarrow> pe_digest E = pe_digest E' \<Longrightarrow>
   map_sum id plan_hash (seal_plan E a) = map_sum id plan_hash (seal_plan E' b)"
  by (simp add: seal_plan_def deterministic_plan_hash_def map_sum_bind)

definition moved_request :: "string option \<Rightarrow> plan_request \<Rightarrow> plan_request" where
  "moved_request dest r = r\<lparr>req_output_path := dest\<rparr>"

definition moved_engine :: "string \<Rightarrow> engine_identity \<Rightarrow> engine_identity" where
  "moved_engine path e = e\<lparr>binary_path := path\<rparr>"

lemma moved_request_fields [simp]:
  "req_target_format (moved_request d r) = req_target_format r"
  "req_width (moved_request d r) = req_width r" "req_quality (moved_request d r) = req_quality r"
  "duration_millis (moved_request d r) = duration_millis r"
  "start_millis (moved_request d r) = start_millis r"
  "frames_per_second (moved_request d r) = frames_per_second r"
  "loop_count (moved_request d r) = loop_count r"
  "preserve_all_streams (moved_request d r) = preserve_all_streams r"
  "audio_stream_index (moved_request d r) = audio_stream_index r"
  "video_crf (moved_request d r) = video_crf r" "video_preset (moved_request d r) = video_preset r"
  "audio_bitrate_kbps (moved_request d r) = audio_bitrate_kbps r"
  "target_size_bytes (moved_request d r) = target_size_bytes r"
  by (simp_all add: moved_request_def)

lemma moved_parts [simp]:
  "requested_target (moved_request d r) = requested_target r"
  "image_width_ok (moved_request d r) = image_width_ok r"
  "image_quality l q e e' (moved_request d r) = image_quality l q e e' r"
  "gif_start (moved_request d r) = gif_start r" "gif_fps (moved_request d r) = gif_fps r"
  "video_copy p (moved_request d r) = video_copy p r" "is_remux p (moved_request d r) = is_remux p r"
  "select_audio (moved_request d r) as = select_audio r as"
  by (simp_all add: requested_target_def image_width_ok_def image_quality_def gif_start_def
      gif_fps_def video_copy_def is_remux_def select_audio_def)

lemma moved_engine_fields [simp]:
  "engine_id (moved_engine b e) = engine_id e" "engine_version (moved_engine b e) = engine_version e"
  "binary_sha256 (moved_engine b e) = binary_sha256 e"
  "manifest_sha256 (moved_engine b e) = manifest_sha256 e"
  "engine_certification (moved_engine b e) = engine_certification e"
  by (simp_all add: moved_engine_def)

lemmas material = hash_material_of_def hash_step_of_def one_step_plan_def

lemma moved_material:
  "hash_material_of (mp4_plan (E\<lparr>pe_uuid := u\<rparr>) p (moved_request d r) (moved_engine b eng))
     = hash_material_of (mp4_plan E p r eng)"
  "hash_material_of (gif_plan (E\<lparr>pe_uuid := u\<rparr>) p (moved_request d r) (moved_engine b eng) v)
     = hash_material_of (gif_plan E p r eng v)"
  "hash_material_of (audio_plan (E\<lparr>pe_uuid := u\<rparr>) p (moved_request d r) (moved_engine b eng) t row a)
     = hash_material_of (audio_plan E p r eng t row a)"
  "hash_material_of (image_plan (E\<lparr>pe_uuid := u\<rparr>) p (moved_request d r) (moved_engine b eng) t im q)
     = hash_material_of (image_plan E p r eng t im q)"
  by (simp_all add: material mp4_plan_def gif_plan_def audio_plan_def image_plan_def Let_def
      mp4_step_arguments_def audio_step_arguments_def image_step_arguments_def case_prod_beta)

lemma moved_seal:
  "hash_material_of a = hash_material_of a' \<Longrightarrow>
   map_sum id plan_hash (seal_plan (E\<lparr>pe_uuid := u\<rparr>) a) = map_sum id plan_hash (seal_plan E a')"
  by (rule sealed_hash) simp_all

lemmas moved = moved_seal [OF moved_material(1)] moved_seal [OF moved_material(2)]
  moved_seal [OF moved_material(3)] moved_seal [OF moved_material(4)]

text \<open>
  The hash of a conversion plan is the same wherever it is made and wherever its output
  goes. Planning the same probe and request again with another plan identifier, another output
  path and the engine installed at another path either fails with the same error or gives a plan
  of the same hash: the queue can compare a plan with the plan it was accepted as.
\<close>

theorem plan_hash_ignores_places:
  "map_sum id plan_hash
     (plan_conversion (E\<lparr>pe_uuid := u\<rparr>) p (r\<lparr>req_output_path := dest\<rparr>) (eng\<lparr>binary_path := path\<rparr>))
   = map_sum id plan_hash (plan_conversion E p r eng)"
proof -
  have "map_sum id plan_hash (plan_conversion (E\<lparr>pe_uuid := u\<rparr>) p (moved_request dest r) (moved_engine path eng))
      = map_sum id plan_hash (plan_conversion E p r eng)"
    by (simp add: plan_conversion_def Let_def plan_mp4_conversion_def plan_audio_conversion_def
        plan_gif_conversion_def plan_image_conversion_def map_sum_bind moved split: option.split)
  then show ?thesis by (simp add: moved_request_def moved_engine_def)
qed

section \<open>The CRF ladder\<close>

lemma crf_argument_bound: "video_crf_argument st = Inr c \<Longrightarrow> c \<le> 51"
  by (auto simp: video_crf_argument_def)

lemma ladder_rungs:
  "c \<le> 51 \<Longrightarrow> target_size_crf_ladder c \<noteq> [] \<and> length (target_size_crf_ladder c) \<le> 4
     \<and> hd (target_size_crf_ladder c) = c \<and> sorted_wrt (<) (target_size_crf_ladder c)
     \<and> set (target_size_crf_ladder c) \<subseteq> {c..51} \<and> last (target_size_crf_ladder c) = min (c + 18) 51"
  by (auto simp: target_size_crf_ladder_def ladder_step_def Let_def min_def)

end
