(* ===== verification/Media_Acceptance.thy ===== *)
theory Media_Acceptance
  imports Media_Plans
begin

text \<open>
  The acceptance of media outputs (\<open>crates/core/src/validation.rs\<close>) against what a plan asks:
  the report as one condition on the two probes, the remux that keeps everything, and the
  metadata cleaning the acceptance can never let through.
\<close>

section \<open>The status of a report\<close>

lemma verdict_fields [simp]:
  "check_status (verdict c ok e o' ev g b) = pass_or_fail ok" "required (verdict c ok e o' ev g b)"
  by (simp_all add: verdict_def check_def)

lemma aggregate_required:
  "list_all required cs \<Longrightarrow> aggregate_status cs = foldl worst Pass (map check_status cs)"
proof -
  have "list_all required cs \<Longrightarrow>
      foldl (\<lambda>s c. if required c then worst s (check_status c) else s) a cs
        = foldl worst a (map check_status cs)" for a
    by (induction cs arbitrary: a) simp_all
  then show "list_all required cs \<Longrightarrow> aggregate_status cs = foldl worst Pass (map check_status cs)"
    by (simp add: aggregate_status_def)
qed

text \<open>With no optional check and no warning, the report is the worst of what is left.\<close>

lemma aggregate_of_required:
  assumes "list_all required cs" and "Warn \<notin> check_status ` set cs"
  shows "aggregate_status cs =
    (if Fail \<in> check_status ` set cs then Fail else if Unknown \<in> check_status ` set cs then Unknown else Pass)"
proof -
  let ?xs = "map check_status cs"
  have up: "x \<in> insert Pass (set ?xs) \<Longrightarrow> status_rank x \<le> status_rank (foldl worst Pass ?xs)" for x
    by (rule ws.fold_upper)
  have mem: "foldl worst Pass ?xs \<in> insert Pass (set ?xs)" by (rule ws.fold_member)
  show ?thesis
    using assms up [of Fail] up [of Unknown] mem
    by (cases "foldl worst Pass ?xs") (auto simp: aggregate_required)
qed

text \<open>
  What the acceptance means to ask of an output: the format of the plan, a duration within the
  tolerance where both are known, the streams the plan keeps, the dimensions, codecs and alpha
  channel of the target, and for a cleaning the metadata that was to go gone, the rest still
  there and every stream as it was.
\<close>

definition duration_fits :: "probe \<Rightarrow> probe \<Rightarrow> plan \<Rightarrow> bool" where
  "duration_fits input output p =
     (case (expected_duration (probe_duration_seconds input) p, probe_duration_seconds output) of
        (Some e, Some d) \<Rightarrow> \<bar>e - d\<bar> \<le> duration_tolerance (plan_operation p) | _ \<Rightarrow> True)"

definition duration_known :: "probe \<Rightarrow> probe \<Rightarrow> plan \<Rightarrow> bool" where
  "duration_known input output p =
     (expected_duration (probe_duration_seconds input) p \<noteq> None \<and> probe_duration_seconds output \<noteq> None)"

definition cleaned_as_planned :: "probe \<Rightarrow> probe \<Rightarrow> plan \<Rightarrow> bool" where
  "cleaned_as_planned input output p =
     ((\<forall>k \<in> set (constraint_strings p ''removed_metadata_keys''). \<not> has_metadata output k)
      \<and> (\<forall>k \<in> set (constraint_strings p ''retained_metadata_keys''). has_metadata output k)
      \<and> payload_signature input = payload_signature output)"

definition output_as_planned :: "probe \<Rightarrow> probe \<Rightarrow> plan \<Rightarrow> bool" where
  "output_as_planned input output p =
     (format_id (format output) = target_format p
      \<and> (is_image_target (target_format p) \<or> duration_fits input output p)
      \<and> (\<forall>k \<in> {VideoS, AudioS, SubtitleS}. count_streams k output = stream_count input k p)
      \<and> (target_format p \<in> set dimension_targets \<longrightarrow>
           observed_dimensions output = expected_dimensions input p)
      \<and> (\<forall>c \<in> set_option (expected_image_codec (target_format p)).
           first_codec VideoS output = Some c \<and> (alpha_required p \<longrightarrow> alpha_observed output))
      \<and> (\<forall>c \<in> set_option (expected_audio_codec (target_format p)). first_codec AudioS output = Some c)
      \<and> (plan_operation p = MetadataClean \<longrightarrow> cleaned_as_planned input output p))"

lemma pass_or_fail_simps [simp]:
  "pass_or_fail b = Fail \<longleftrightarrow> \<not> b" "pass_or_fail b = Pass \<longleftrightarrow> b" "pass_or_fail b \<noteq> Warn"
  "pass_or_fail b \<noteq> Unknown" "Fail = pass_or_fail b \<longleftrightarrow> \<not> b" "Warn \<noteq> pass_or_fail b"
  "Unknown \<noteq> pass_or_fail b"
  by (auto simp: pass_or_fail_def)

lemma check_statuses [simp]:
  "check_status opens_check = Pass"
  "check_status (format_check o' p) = pass_or_fail (format_id (format o') = target_format p)"
  "check_status (count_check i o' p k) = pass_or_fail (stream_count i k p = count_streams k o')"
  "check_status (dimension_check i o' p) =
     pass_or_fail (expected_dimensions i p = observed_dimensions o')"
  "check_status (image_codec_check o' c) = pass_or_fail (first_codec VideoS o' = Some c)"
  "check_status (alpha_check o' p) = pass_or_fail (\<not> alpha_required p \<or> alpha_observed o')"
  "check_status (audio_codec_check o' c) = pass_or_fail (first_codec AudioS o' = Some c)"
  by (simp_all add: opens_check_def check_def format_check_def count_check_def dimension_check_def
      image_codec_check_def alpha_check_def audio_codec_check_def)

lemma checks_required [simp]:
  "required opens_check" "required (format_check o' p)" "required (count_check i o' p k)"
  "required (dimension_check i o' p)" "required (image_codec_check o' c)" "required (alpha_check o' p)"
  "required (audio_codec_check o' c)" "required (duration_check e d op)"
  by (simp_all add: opens_check_def check_def format_check_def count_check_def dimension_check_def
      image_codec_check_def alpha_check_def audio_codec_check_def duration_check_def Let_def
      split: option.split)

lemma duration_check_status:
  "check_status (duration_check (expected_duration (probe_duration_seconds i) p) (probe_duration_seconds o')
     (plan_operation p)) =
   (if duration_known i o' p then pass_or_fail (duration_fits i o' p) else Unknown)"
  by (simp add: duration_check_def check_def duration_known_def duration_fits_def Let_def
      split: option.split)

lemma duration_unknown_fits: "\<not> duration_known i o' p \<Longrightarrow> duration_fits i o' p"
  by (auto simp: duration_known_def duration_fits_def split: option.split)

definition some_check :: "validation_status \<Rightarrow> validation_check list \<Rightarrow> bool" where
  "some_check s cs \<longleftrightarrow> s \<in> check_status ` set cs"

lemma some_check_simps [simp]:
  "\<not> some_check s []" "some_check s (c # cs) \<longleftrightarrow> check_status c = s \<or> some_check s cs"
  "some_check s (cs @ ds) \<longleftrightarrow> some_check s cs \<or> some_check s ds"
  "some_check s (if b then cs else ds) \<longleftrightarrow> (if b then some_check s cs else some_check s ds)"
  by (auto simp: some_check_def)

lemma metadata_checks_statuses:
  "some_check Fail (metadata_checks i o' p) \<longleftrightarrow> \<not> cleaned_as_planned i o' p"
  "\<not> some_check Warn (metadata_checks i o' p)" "\<not> some_check Unknown (metadata_checks i o' p)"
  "list_all required (metadata_checks i o' p)"
  by (auto simp: metadata_checks_def cleaned_as_planned_def Let_def filter_empty_conv)

lemma media_checks_required: "list_all required (media_checks i o' p)"
  by (simp add: media_checks_def Let_def metadata_checks_statuses split: option.split)

lemma media_checks_warn: "\<not> some_check Warn (media_checks i o' p)"
  by (simp add: media_checks_def Let_def metadata_checks_statuses duration_check_status split: option.split)

lemma media_checks_unknown:
  "some_check Unknown (media_checks i o' p) \<longleftrightarrow>
     \<not> is_image_target (target_format p) \<and> \<not> duration_known i o' p"
  by (simp add: media_checks_def Let_def metadata_checks_statuses duration_check_status split: option.split)

lemma media_checks_fail: "some_check Fail (media_checks i o' p) \<longleftrightarrow> \<not> output_as_planned i o' p"
proof -
  have "some_check Fail (case expected_image_codec t of None \<Rightarrow> []
        | Some c \<Rightarrow> [image_codec_check o' c, alpha_check o' p]) \<longleftrightarrow>
      \<not> (\<forall>c \<in> set_option (expected_image_codec t).
           first_codec VideoS o' = Some c \<and> (alpha_required p \<longrightarrow> alpha_observed o'))"
    "some_check Fail (case expected_audio_codec t of None \<Rightarrow> [] | Some c \<Rightarrow> [audio_codec_check o' c]) \<longleftrightarrow>
      \<not> (\<forall>c \<in> set_option (expected_audio_codec t). first_codec AudioS o' = Some c)" for t
    by (simp_all split: option.split)
  note codecs = this
  show ?thesis
    unfolding media_checks_def output_as_planned_def Let_def some_check_simps codecs list.map
    by (simp only: check_statuses duration_check_status pass_or_fail_simps metadata_checks_statuses
        some_check_simps validation_status.distinct simp_thms split: if_split)
       (use duration_unknown_fits [of i o' p] in auto)
qed

lemma planned_counts:
  "output_as_planned i o' p \<Longrightarrow> k \<in> {VideoS, AudioS, SubtitleS} \<Longrightarrow>
     count_streams k o' = stream_count i k p"
  unfolding output_as_planned_def by blast

lemma report_status_of:
  "report_status (validate_media_output f i o' p j) =
     (if \<not> output_as_planned i o' p then Fail
      else if is_image_target (target_format p) \<or> duration_known i o' p then Pass else Unknown)"
  using aggregate_of_required [OF media_checks_required] media_checks_warn media_checks_fail
    media_checks_unknown
  by (simp add: validate_media_output_def Let_def some_check_def)

text \<open>
  The checks of a media output are exactly the acceptance the plan means. The report fails
  if and only if the output is not as planned, it passes if the output is as planned and the
  durations could be read (a still image needs none), and it is unknown, never passed, when a
  duration is missing.
\<close>

theorem media_report_is_acceptance:
  "report_status (validate_media_output fresh input output p job) =
     (if \<not> output_as_planned input output p then Fail
      else if is_image_target (target_format p) \<or> duration_known input output p then Pass
      else Unknown)"
  by (rule report_status_of)

section \<open>Metadata cleaning\<close>

lemma stream_kind_name_inj: "stream_kind_name k = stream_kind_name k' \<longleftrightarrow> k = k'"
  by (cases k; cases k') simp_all

lemma same_payload_same_counts:
  assumes "payload_signature a = payload_signature b"
  shows "count_streams k a = count_streams k b"
proof -
  have "map payload_entry ss = map payload_entry ts \<Longrightarrow>
      length (filter (\<lambda>s. stream_kind s = k) ss) = length (filter (\<lambda>s. stream_kind s = k) ts)" for ss ts
  proof (induction ss arbitrary: ts)
    case (Cons s ss)
    then show ?case by (cases ts) (auto simp: payload_entry_def stream_kind_name_inj)
  qed simp
  from this [of "streams a" "streams b"] show ?thesis using assms
    by (simp add: payload_signature_def count_streams_def streams_of_def)
qed

lemma clean_parts:
  assumes "plan_metadata_clean E p dest eng = Inr pl"
  shows "plan_operation pl = MetadataClean" "target_format pl = format_id (format p)"
    "\<exists>st. steps pl = [st] \<and> map_of (arguments st) ''subtitle_mode'' = None"
proof -
  from assms obtain muxer where seal: "seal_plan E (clean_plan E p dest eng muxer) = Inr pl"
    by (auto simp: plan_metadata_clean_def)
  show "plan_operation pl = MetadataClean" "target_format pl = format_id (format p)"
    "\<exists>st. steps pl = [st] \<and> map_of (arguments st) ''subtitle_mode'' = None"
    using unsealed [OF seal]
    by (simp_all add: clean_plan_def one_step_plan_def Let_def plan_operation_def map_of_btree_from)
qed

text \<open>
  C18: metadata cleaning and its acceptance contradict each other on inputs with more streams
  than one of a kind. A cleaning copies every stream (and its report asks that every stream is
  as it was), but the report also counts streams as a conversion would: a file with a subtitle
  stream, an audio file with a cover picture (a video stream) or without exactly one audio
  stream, an image file without exactly one image stream is rejected whatever the output is.
\<close>

theorem cleaning_is_never_accepted:
  assumes "plan_metadata_clean E input dest eng = Inr pl"
    and "count_streams SubtitleS input > 0
      \<or> expected_audio_codec (format_id (format input)) \<noteq> None
        \<and> (count_streams VideoS input > 0 \<or> count_streams AudioS input \<noteq> 1)
      \<or> is_image_target (format_id (format input)) \<and> count_streams VideoS input \<noteq> 1"
  shows "report_status (validate_media_output fresh input output pl job) = Fail"
proof -
  note pl = clean_parts [OF assms(1)]
  have "\<not> output_as_planned input output pl"
  proof
    assume ok: "output_as_planned input output pl"
    then have "payload_signature input = payload_signature output"
      using pl(1) unfolding output_as_planned_def cleaned_as_planned_def by blast
    from same_payload_same_counts [OF this]
    have kept: "stream_count input k pl = count_streams k input" if "k \<in> {VideoS, AudioS, SubtitleS}" for k
      using planned_counts [OF ok that] by metis
    obtain st where st: "steps pl = [st]" "map_of (arguments st) ''subtitle_mode'' = None"
      using pl(3) by blast
    have none: "count_streams SubtitleS input = 0"
      using kept [of SubtitleS] st by (simp add: stream_count_def Let_def single_stream_def split: if_splits)
    have "count_streams VideoS input = 0 \<and> count_streams AudioS input = 1"
      if "expected_audio_codec (format_id (format input)) \<noteq> None"
      using kept [of VideoS] kept [of AudioS] that pl(2) by (simp add: stream_count_def Let_def single_stream_def)
    moreover have "count_streams VideoS input = 1" if "is_image_target (format_id (format input))"
      "expected_audio_codec (format_id (format input)) = None"
      using kept [of VideoS] that pl(2) by (simp add: stream_count_def Let_def single_stream_def)
    moreover have "expected_audio_codec (format_id (format input)) = None"
      if "is_image_target (format_id (format input))"
      using that by (auto simp: is_image_target_def expected_audio_codec_def)
    ultimately show False using none assms(2) by auto
  qed
  then show ?thesis by (simp add: report_status_of)
qed

lemma demo_clip_cleaned:
  "plan_metadata_clean demo_plan_env demo_clip ''/d/o.mkv'' demo_ffmpeg
   = Inr ((clean_plan demo_plan_env demo_clip ''/d/o.mkv'' demo_ffmpeg ''matroska'')
       \<lparr>plan_hash := ''blake3:d''\<rparr>)"
  by (simp add: plan_metadata_clean_def demo_clip_def metadata_clean_muxer_def keys_of_class_def
      demo_plan_env_def seal_plan_def deterministic_plan_hash_def ok_or_def ensure_def)

lemma cleaning_is_never_accepted_witness:
  "report_status (validate_media_output 1 demo_clip demo_clip
     ((clean_plan demo_plan_env demo_clip ''/d/o.mkv'' demo_ffmpeg ''matroska'')
       \<lparr>plan_hash := ''blake3:d''\<rparr>) 2) = Fail"
  by (rule cleaning_is_never_accepted [OF demo_clip_cleaned])
     (simp add: demo_clip_def bare_stream_def count_streams_def streams_of_def)

section \<open>Dimensions nobody checks\<close>

definition resized :: "nat option \<Rightarrow> nat option \<Rightarrow> probe \<Rightarrow> probe" where
  "resized w h p = p\<lparr>streams := map (\<lambda>s. s\<lparr>stream_width := w, stream_height := h\<rparr>) (streams p)\<rparr>"

lemma resized_parts [simp]:
  "count_streams k (resized w h p) = count_streams k p"
  "first_stream k (resized w h p)
     = map_option (\<lambda>s. s\<lparr>stream_width := w, stream_height := h\<rparr>) (first_stream k p)"
  "format (resized w h p) = format p" "probe_duration_seconds (resized w h p) = probe_duration_seconds p"
proof -
  have "length (filter (\<lambda>s. stream_kind s = k) (map (\<lambda>s. s\<lparr>stream_width := w, stream_height := h\<rparr>) ss))
      = length (filter (\<lambda>s. stream_kind s = k) ss)" for ss
    by (induction ss) simp_all
  then show "count_streams k (resized w h p) = count_streams k p"
    by (simp add: count_streams_def streams_of_def resized_def)
  have "find (\<lambda>s. stream_kind s = k) (map (\<lambda>s. s\<lparr>stream_width := w, stream_height := h\<rparr>) ss)
      = map_option (\<lambda>s. s\<lparr>stream_width := w, stream_height := h\<rparr>) (find (\<lambda>s. stream_kind s = k) ss)" for ss
    by (induction ss) simp_all
  from this [of "streams p"] show "first_stream k (resized w h p)
     = map_option (\<lambda>s. s\<lparr>stream_width := w, stream_height := h\<rparr>) (first_stream k p)"
    by (simp add: first_stream_def resized_def)
qed (simp_all add: resized_def)

lemma resized_reads [simp]:
  "first_codec k (resized w h p) = first_codec k p" "alpha_observed (resized w h p) = alpha_observed p"
  by (cases "first_stream k p"; simp add: first_codec_def)
     (cases "first_stream VideoS p"; simp add: alpha_observed_def)

text \<open>
  A TIFF or BMP plan lists the validator \<open>image.dimensions\<close>, but its acceptance is the same
  whatever the dimensions of the output are.
\<close>

lemma tiff_dimensions_unchecked:
  assumes "target_format p \<in> {''tiff'', ''bmp''}" and "plan_operation p \<noteq> MetadataClean"
  shows "output_as_planned input (resized w h output) p = output_as_planned input output p"
proof -
  have none: "target_format p \<notin> set dimension_targets" using assms(1) by (auto simp: dimension_targets_def)
  show ?thesis
    unfolding output_as_planned_def duration_fits_def resized_parts resized_reads
    using none assms(2) by blast
qed

end
