(* ===== verification/Media_Run.thy ===== *)
theory Media_Run
  imports Lanes Media_Acceptance
begin

text \<open>
  \<open>crates/core/src/runner.rs\<close>, the media lanes: FFmpeg with the CRF ladder of a target size, the
  libheif fallback and ImageMagick; each turns a plan into one command, waits for it, and ends
  in the shared end of a run.
\<close>

section \<open>FFmpeg\<close>

text \<open>\<open>run_ffmpeg_attempt\<close>\<close>

definition execution_failed :: "string \<Rightarrow> anole_error" where
  "execution_failed m = anole_error_new ExecutionFailed Execute m"

definition run_ffmpeg_attempt ::
    "'a lane_world_scheme \<Rightarrow> probe \<Rightarrow> plan \<Rightarrow> string \<Rightarrow> nat option \<Rightarrow> fs \<Rightarrow> (anole_error + unit) \<times> fs" where
  "run_ffmpeg_attempt W input p work crf f =
     (case steps p of
        [] \<Rightarrow> (Inl (anole_error_new Internal Execute ''Plan has no FFmpeg step''), f)
      | st # _ \<Rightarrow>
          case ffmpeg_command input p work crf of
            Inl e \<Rightarrow> (Inl e, f)
          | Inr args \<Rightarrow>
              case engine_run W (binary_path (engine st) # args) f of
                (NotStarted, f1) \<Rightarrow>
                  (Inl (anole_error_new EngineIncompatible Execute ''Unable to start FFmpeg''), f1)
              | (WaitFailed, f1) \<Rightarrow> (Inl (execution_failed ''Unable to wait for FFmpeg''), f1)
              | (Stopped, f1) \<Rightarrow>
                  (Inl (anole_error_new Cancelled_code Execute ''Conversion was cancelled''),
                   cleanup_partial W work f1)
              | (Exited ok, f1) \<Rightarrow>
                  if \<not> ok
                  then (Inl (execution_failed ''FFmpeg exited with status {}''), cleanup_partial W work f1)
                  else if \<not> is_file f1 work
                  then (Inl (execution_failed
                          ''FFmpeg reported success but produced no output''), f1)
                  else (Inr (), f1))"

text \<open>The loop over the attempts; the result is the CRF of the attempt that was kept.\<close>

definition target_met :: "nat option \<Rightarrow> fs \<Rightarrow> string \<Rightarrow> bool" where
  "target_met target f p =
     (case (target, file_len f p) of (Some t, Some n) \<Rightarrow> n \<le> t | _ \<Rightarrow> False)"

fun run_attempts ::
    "'a lane_world_scheme \<Rightarrow> probe \<Rightarrow> plan \<Rightarrow> string \<Rightarrow> nat option \<Rightarrow> bool \<Rightarrow> nat option
     \<Rightarrow> nat option list \<Rightarrow> fs \<Rightarrow> (anole_error + nat option) \<times> fs" where
  "run_attempts W input p work target again final [] f = (Inr final, f)"
| "run_attempts W input p work target again final (crf # crfs) f =
     (case run_ffmpeg_attempt W input p work crf (if again then cleanup_partial W work f else f) of
        (Inl e, f1) \<Rightarrow> (Inl e, f1)
      | (Inr _, f1) \<Rightarrow>
          if target_met target f1 work then (Inr crf, f1)
          else run_attempts W input p work target True crf crfs f1)"

definition attempts_of :: "plan \<Rightarrow> plan_step \<Rightarrow> anole_error + nat option list" where
  "attempts_of p st =
     (if mp4_target_size_bytes p = None then Inr [None]
      else res_bind (video_crf_argument st) (\<lambda>start.
        Inr (map Some (target_size_crf_ladder start))))"

definition crf_text :: "nat option \<Rightarrow> string" where
  "crf_text final = decimal (case final of None \<Rightarrow> 0 | Some c \<Rightarrow> c)"

definition target_size_check :: "nat \<Rightarrow> nat \<Rightarrow> nat option \<Rightarrow> validation_check" where
  "target_size_check wanted measured final =
     (let met = measured \<le> wanted in
      check ''VIDEO_TARGET_SIZE'' (if met then Pass else Warn) False (json_nat wanted)
        (json_nat measured) (''final CRF attempt: crf='' @ crf_text final)
        (if met then ''Measured output bytes are within the requested target size.''
         else ''Output exceeds the target size even at the final CRF ladder step (crf='' @ crf_text final
           @ ''); the highest-compression attempt was kept.''))"

definition add_check :: "validation_report \<Rightarrow> validation_check \<Rightarrow> validation_report" where
  "add_check r c = r\<lparr>report_status := worst (report_status r) (check_status c), checks := checks r @ [c]\<rparr>"

definition accept_media ::
    "'a lane_world_scheme \<Rightarrow> probe \<Rightarrow> plan \<Rightarrow> uuid \<Rightarrow> string \<Rightarrow> fs \<Rightarrow> anole_error + validation_report" where
  "accept_media W input p job staged f =
     res_bind (inspect_output W staged f) (\<lambda>output.
     Inr (validate_media_output (fresh_report W) input output p job))"

definition accept_ffmpeg ::
    "'a lane_world_scheme \<Rightarrow> probe \<Rightarrow> plan \<Rightarrow> uuid \<Rightarrow> string \<Rightarrow> nat option \<Rightarrow> fs
     \<Rightarrow> anole_error + validation_report" where
  "accept_ffmpeg W input p job work final f =
     res_bind (inspect_output W work f) (\<lambda>output.
     let report = validate_media_output (fresh_report W) input output p job in
     Inr (case mp4_target_size_bytes p of
            None \<Rightarrow> report
          | Some wanted \<Rightarrow>
              add_check report (target_size_check wanted (size_bytes (artifact output)) final)))"

definition execute_ffmpeg_plan ::
    "'a lane_world_scheme \<Rightarrow> probe \<Rightarrow> plan \<Rightarrow> plan_step \<Rightarrow> uuid \<Rightarrow> string \<Rightarrow> string \<Rightarrow> fs \<Rightarrow> lane_run" where
  "execute_ffmpeg_plan W input p st job out work f =
     (case attempts_of p st of
        Inl e \<Rightarrow> (Inl e, f)
      | Inr crfs \<Rightarrow>
          case run_attempts W input p work (mp4_target_size_bytes p) False None crfs f of
            (Inl e, f1) \<Rightarrow> (Inl e, f1)
          | (Inr final, f1) \<Rightarrow>
              if is_cancelled W
              then give_up W work (anole_error_new Cancelled_code Execute
                ''Conversion was cancelled before validation'') f1
              else finish_run W input out work work (accept_ffmpeg W input p job work final) id
                ''Output failed required validation checks''
                ''The destination appeared while the job was running'' f1)"

section \<open>libheif and ImageMagick\<close>

text \<open>
  The two lanes write one image into a directory at the partial path. What they share after
  the directory: the process, its end, and the clean-up on the way out.
\<close>

definition run_in_workspace ::
    "'a lane_world_scheme \<Rightarrow> string \<Rightarrow> string \<Rightarrow> string \<Rightarrow> string \<Rightarrow> string \<Rightarrow> string list \<Rightarrow> fs
     \<Rightarrow> (anole_error + unit) \<times> fs" where
  "run_in_workspace W work start_error wait_error cancel_error exit_error command f =
     (case engine_run W command f of
        (NotStarted, f1) \<Rightarrow>
          (Inl (anole_error_new EngineIncompatible Execute start_error), cleanup_partial W work f1)
      | (WaitFailed, f1) \<Rightarrow> (Inl (execution_failed wait_error), f1)
      | (Stopped, f1) \<Rightarrow>
          (Inl (anole_error_new Cancelled_code Execute cancel_error), cleanup_partial W work f1)
      | (Exited ok, f1) \<Rightarrow>
          if ok then (Inr (), f1)
          else (Inl (execution_failed exit_error), cleanup_partial W work f1))"

text \<open>The quality arguments, given to the engine under its own name for them.\<close>

definition workspace_quality :: "plan_step \<Rightarrow> string \<Rightarrow> string \<Rightarrow> anole_error + string list" where
  "workspace_quality st target option =
     (if target = ''jpeg''
      then res_bind (checked_u32_argument st ''quality'' 1 100) (\<lambda>q. Inr [option, decimal q])
      else res_bind (checked_argument st ''quality'' [''lossless'']) (\<lambda>_. Inr []))"

definition heif_checks :: "plan \<Rightarrow> engine_identity \<Rightarrow> anole_error + plan_step \<times> string" where
  "heif_checks p ffprobe =
     res_bind (ensure (engine_id ffprobe = ''ffprobe'') invalid_plan_argument) (\<lambda>_.
     res_bind (ok_or invalid_plan_argument
       (case steps p of [] \<Rightarrow> None | st # _ \<Rightarrow> if engine_id (engine st) = ''heif-dec'' then Some st else None)) (\<lambda>st.
     res_bind (checked_argument st ''source_format'' [''heic'']) (\<lambda>_.
     res_bind (checked_argument st ''target_format'' [''jpeg'', ''png'']) (\<lambda>target.
     res_bind (checked_argument st ''orientation'' [''apply-heif-transformations'']) (\<lambda>_.
     res_bind (checked_argument st ''metadata'' [''drop'']) (\<lambda>_.
     res_bind (checked_argument st ''image_selection'' [''single-primary'']) (\<lambda>_.
     Inr (st, target))))))))"

definition execute_heif_plan ::
    "'a lane_world_scheme \<Rightarrow> probe \<Rightarrow> plan \<Rightarrow> engine_identity \<Rightarrow> uuid \<Rightarrow> string \<Rightarrow> string \<Rightarrow> fs \<Rightarrow> lane_run" where
  "execute_heif_plan W input p ffprobe job out work f =
     (case heif_checks p ffprobe of
        Inl e \<Rightarrow> (Inl e, f)
      | Inr (st, target) \<Rightarrow>
          case make_dir W work f of
            (False, f1) \<Rightarrow> (Inl (anole_error_new StorageFailed Execute
              ''Unable to create the staged HEIC workspace''), f1)
          | (True, f1) \<Rightarrow>
              let staged = path_join work (if target = ''jpeg'' then ''output.jpg'' else ''output.png'') in
              case workspace_quality st target ''--quality'' of
                Inl e \<Rightarrow> (Inl e, f1)
              | Inr quality \<Rightarrow>
                  case run_in_workspace W work ''Unable to start heif-dec''
                      ''Unable to wait for heif-dec'' ''HEIC conversion was cancelled''
                      ''heif-dec exited with status {}''
                      ([binary_path (engine st), ''--quiet''] @ quality
                        @ [canonical_path (artifact input), staged]) f1 of
                    (Inl e, f2) \<Rightarrow> (Inl e, f2)
                  | (Inr _, f2) \<Rightarrow>
                      case list_dir W work f2 of
                        None \<Rightarrow> (Inl (anole_error_new StorageFailed Execute
                          ''Unable to normalize rendered pages in {}''), f2)
                      | Some entries \<Rightarrow>
                          if length (filter (is_file f2) entries) \<noteq> 1 \<or> \<not> is_file f2 staged
                          then give_up W work (anole_error_new PolicyBlocked Execute
                            ''HEIC input did not produce exactly one primary image'') f2
                          else finish_run W input out work staged
                            (accept_media W input p job staged) (remove_empty_dir W work)
                            ''HEIC output failed required validation''
                            ''The HEIC destination appeared while conversion was running'' f2)"

definition magick_checks :: "probe \<Rightarrow> plan \<Rightarrow> engine_identity \<Rightarrow> anole_error + plan_step \<times> string" where
  "magick_checks input p ffprobe =
     res_bind (ensure (engine_id ffprobe = ''ffprobe'') invalid_plan_argument) (\<lambda>_.
     res_bind (ok_or invalid_plan_argument
       (case steps p of [] \<Rightarrow> None | st # _ \<Rightarrow> if engine_id (engine st) = ''magick'' then Some st else None)) (\<lambda>st.
     res_bind (checked_argument st ''source_format''
       [''psd'', ''dng'', ''cr2'', ''cr3'', ''arw'', ''nef'', ''orf'', ''rw2'', ''pef'', ''raf'']) (\<lambda>source.
     res_bind (checked_argument st ''target_format'' [''jpeg'', ''png'', ''tiff'']) (\<lambda>target.
     res_bind (checked_argument st ''layer_policy'' [''flattened-composite'']) (\<lambda>_.
     res_bind (checked_argument st ''metadata'' [''drop'']) (\<lambda>_.
     res_bind (checked_argument st ''raw_decode'' [''host-imagemagick'']) (\<lambda>_.
     res_bind (ensure (format_id (format input) = source) invalid_plan_argument) (\<lambda>_.
     Inr (st, target)))))))))"

definition execute_magick_plan ::
    "'a lane_world_scheme \<Rightarrow> probe \<Rightarrow> plan \<Rightarrow> engine_identity \<Rightarrow> uuid \<Rightarrow> string \<Rightarrow> string \<Rightarrow> fs \<Rightarrow> lane_run" where
  "execute_magick_plan W input p ffprobe job out work f =
     (case magick_checks input p ffprobe of
        Inl e \<Rightarrow> (Inl e, f)
      | Inr (st, target) \<Rightarrow>
          case make_dir W work f of
            (False, f1) \<Rightarrow> (Inl (anole_error_new StorageFailed Execute
              ''Unable to create the staged ImageMagick workspace''), f1)
          | (True, f1) \<Rightarrow>
              let staged = path_join work (if target = ''jpeg'' then ''output.jpg''
                    else if target = ''png'' then ''output.png'' else ''output.tiff'') in
              case workspace_quality st target ''-quality'' of
                Inl e \<Rightarrow> (Inl e, f1)
              | Inr quality \<Rightarrow>
                  case run_in_workspace W work ''Unable to start ImageMagick''
                      ''Unable to wait for ImageMagick'' ''ImageMagick conversion was cancelled''
                      ''ImageMagick exited with status {}''
                      ([binary_path (engine st)] @ quality
                        @ [canonical_path (artifact input) @ ''[0]'', staged]) f1 of
                    (Inl e, f2) \<Rightarrow> (Inl e, f2)
                  | (Inr _, f2) \<Rightarrow>
                      if \<not> is_file f2 staged
                      then give_up W work (execution_failed
                        ''ImageMagick did not produce the staged output'') f2
                      else finish_run W input out work staged
                        (accept_media W input p job staged) (remove_empty_dir W work)
                        ''ImageMagick output failed required validation''
                        ''The destination appeared while conversion was running'' f2)"

end
