(* ===== verification/Adapter_Run.thy ===== *)
theory Adapter_Run
  imports Media_Run
begin

text \<open>
  \<open>crates/core/src/runner.rs\<close>: the entry of every run, \<open>execute_plan_observed\<close>, with its choice of
  a lane, and the lanes of the built-in adapters, of Pandoc and of the PDF text export. The
  adapters, inspectors and validators of the other modules are parameters; a lane that is not
  modelled is the parameter of its name.
\<close>

section \<open>The adapters of other modules\<close>

record adapters =
  ad_write :: "string \<Rightarrow> fs \<Rightarrow> bool \<times> fs"
  ad_inspect_archive :: "string \<Rightarrow> fs \<Rightarrow> anole_error + probe"
  ad_inspect_document :: "string \<Rightarrow> fs \<Rightarrow> anole_error + probe"
  ad_inspect_structured :: "string \<Rightarrow> fs \<Rightarrow> anole_error + probe"
  ad_validate_archive :: "probe \<Rightarrow> probe \<Rightarrow> plan \<Rightarrow> uuid \<Rightarrow> validation_report"
  ad_validate_structured :: "probe \<Rightarrow> probe \<Rightarrow> plan \<Rightarrow> uuid \<Rightarrow> validation_report"
  ad_validate_epub :: "probe \<Rightarrow> probe \<Rightarrow> plan \<Rightarrow> uuid \<Rightarrow> validation_report"
  ad_validate_docx :: "probe \<Rightarrow> probe \<Rightarrow> plan \<Rightarrow> uuid \<Rightarrow> validation_report"
  ad_validate_text :: "probe \<Rightarrow> probe \<Rightarrow> plan \<Rightarrow> uuid \<Rightarrow> validation_report"
  ad_validate_csv :: "probe \<Rightarrow> string \<Rightarrow> plan \<Rightarrow> uuid \<Rightarrow> fs \<Rightarrow> validation_report"

definition accept_with ::
    "(string \<Rightarrow> fs \<Rightarrow> anole_error + probe) \<Rightarrow> (probe \<Rightarrow> probe \<Rightarrow> plan \<Rightarrow> uuid \<Rightarrow> validation_report)
     \<Rightarrow> probe \<Rightarrow> plan \<Rightarrow> uuid \<Rightarrow> string \<Rightarrow> fs \<Rightarrow> anole_error + validation_report" where
  "accept_with inspect validate input p job staged f =
     res_bind (inspect staged f) (\<lambda>output. Inr (validate input output p job))"

section \<open>Archives, structured data and worksheets\<close>

definition first_step :: "plan \<Rightarrow> anole_error + plan_step" where
  "first_step p = ok_or invalid_plan_argument (case steps p of [] \<Rightarrow> None | st # _ \<Rightarrow> Some st)"

definition archive_formats :: "string list" where
  "archive_formats = [''zip'', ''tar.gz'', ''7z'']"

definition repack_name :: "string \<Rightarrow> string \<Rightarrow> string" where
  "repack_name source target =
     (if (source, target) = (''zip'', ''tar.gz'') then ''repack_zip_to_targz''
      else if (source, target) = (''zip'', ''7z'') then ''repack_zip_to_7z''
      else if (source, target) = (''7z'', ''zip'') then ''repack_7z_to_zip''
      else if (source, target) = (''tar.gz'', ''7z'') then ''repack_targz_to_7z''
      else if (source, target) = (''7z'', ''tar.gz'') then ''repack_7z_to_targz''
      else ''repack_targz_to_zip'')"

definition execute_archive_plan ::
    "'a lane_world_scheme \<Rightarrow> adapters \<Rightarrow> probe \<Rightarrow> plan \<Rightarrow> uuid \<Rightarrow> string \<Rightarrow> string \<Rightarrow> fs \<Rightarrow> lane_run" where
  "execute_archive_plan W A input p job out work f =
     (case res_bind (first_step p) (\<lambda>st.
           res_bind (checked_argument st ''source_format'' archive_formats) (\<lambda>source.
           res_bind (checked_argument st ''target_format'' archive_formats) (\<lambda>target.
           res_bind (ensure (source \<noteq> target) invalid_plan_argument) (\<lambda>_.
           Inr (repack_name source target))))) of
        Inl e \<Rightarrow> (Inl e, f)
      | Inr name \<Rightarrow>
          case worker_run W [name, canonical_path (artifact input), work] f of
            (Returned None, f1) \<Rightarrow>
              if \<not> is_file f1 work
              then give_up W work (execution_failed ''Archive repack produced no output'') f1
              else if is_cancelled W
              then give_up W work (anole_error_new Cancelled_code Execute
                ''Archive conversion was cancelled'') f1
              else finish_run W input out work work
                (accept_with (ad_inspect_archive A) (ad_validate_archive A) input p job work) id
                ''Archive output failed validation''
                ''The archive destination appeared while running'' f1
          | (Returned (Some e), f1) \<Rightarrow> (Inl e, f1)
          | (_, f1) \<Rightarrow> (Inl (anole_error_new Internal Execute ''Archive repack worker failed''), f1))"

definition execute_structured_plan ::
    "'a lane_world_scheme \<Rightarrow> adapters \<Rightarrow> probe \<Rightarrow> plan \<Rightarrow> uuid \<Rightarrow> string \<Rightarrow> string \<Rightarrow> fs \<Rightarrow> lane_run" where
  "execute_structured_plan W A input p job out work f =
     (case worker_run W [''convert_structured_file'', canonical_path (artifact input), work] f of
        (Panicked, f1) \<Rightarrow>
          (Inl (anole_error_new Internal Execute ''Structured conversion worker failed''), f1)
      | (Abandoned, f1) \<Rightarrow>
          give_up W work (anole_error_new Cancelled_code Execute ''Conversion was cancelled'') f1
      | (Returned (Some e), f1) \<Rightarrow> give_up W work e f1
      | (Returned None, f1) \<Rightarrow>
          if \<not> is_file f1 work
          then (Inl (execution_failed
            ''Structured adapter reported success but produced no output''), f1)
          else if is_cancelled W
          then give_up W work (anole_error_new Cancelled_code Execute
            ''Conversion was cancelled before validation'') f1
          else finish_run W input out work work
            (accept_with (ad_inspect_structured A) (ad_validate_structured A) input p job work) id
            ''Structured output failed required validation checks''
            ''The destination appeared while the job was running'' f1)"

definition execute_office_csv_plan ::
    "'a lane_world_scheme \<Rightarrow> adapters \<Rightarrow> probe \<Rightarrow> plan \<Rightarrow> uuid \<Rightarrow> string \<Rightarrow> string \<Rightarrow> fs \<Rightarrow> lane_run" where
  "execute_office_csv_plan W A input p job out work f =
     (case res_bind (first_step p) (\<lambda>st.
           res_bind (checked_argument st ''source_format'' [''xlsx'']) (\<lambda>_.
           res_bind (checked_argument st ''target_format'' [''csv'']) (\<lambda>_.
           res_bind (checked_argument st ''worksheets'' [''all'']) (\<lambda>_.
           checked_argument st ''formulas'' [''cached-values''])))) of
        Inl e \<Rightarrow> (Inl e, f)
      | Inr _ \<Rightarrow>
          case make_dir W work f of
            (False, f1) \<Rightarrow> (Inl (anole_error_new StorageFailed Execute
              ''Unable to create the staged CSV workspace''), f1)
          | (True, f1) \<Rightarrow>
              let sheets = path_join work ''sheets'' in
              case worker_run W [''convert_xlsx_to_csv_sheets'', canonical_path (artifact input), sheets] f1 of
                (Returned None, f2) \<Rightarrow>
                  if is_cancelled W
                  then give_up W work (anole_error_new Cancelled_code Execute
                    ''Office CSV export was cancelled'') f2
                  else finish_run W input out work sheets
                    (\<lambda>g. Inr (ad_validate_csv A input sheets p job g)) (cleanup_partial W work)
                    ''Office CSV export failed validation''
                    ''The CSV export destination already exists'' f2
              | (Returned (Some e), f2) \<Rightarrow> give_up W work e f2
              | (_, f2) \<Rightarrow> give_up W work (execution_failed ''The CSV export worker failed'') f2)"

section \<open>Pandoc and the PDF text export\<close>

definition pandoc_reader :: "string \<Rightarrow> string" where
  "pandoc_reader source = (if source \<in> {''html'', ''docx''} then source else ''gfm'')"

definition pandoc_writer :: "string \<Rightarrow> string" where
  "pandoc_writer target =
     (if target = ''txt'' then ''plain'' else if target = ''md'' then ''gfm'' else target)"

definition pandoc_checks :: "plan \<Rightarrow> anole_error + plan_step \<times> string \<times> string" where
  "pandoc_checks p =
     res_bind (first_step p) (\<lambda>st.
     res_bind (checked_argument st ''source_format''
       [''markdown'', ''html'', ''plain'', ''docx'']) (\<lambda>source.
     res_bind (checked_argument st ''target_format''
       [''docx'', ''epub'', ''txt'', ''md'', ''html'']) (\<lambda>target.
     res_bind (checked_argument st ''sandbox'' [''true'']) (\<lambda>_.
     res_bind (checked_argument st ''resource_policy'' [''deny-all'']) (\<lambda>_.
     Inr (st, source, target))))))"

definition pandoc_command :: "plan_step \<Rightarrow> string \<Rightarrow> string \<Rightarrow> string \<Rightarrow> string \<Rightarrow> string list" where
  "pandoc_command st source target work input_path =
     [binary_path (engine st), ''--sandbox=true'', ''--from='' @ pandoc_reader source,
      ''--to='' @ pandoc_writer target, ''--standalone'', ''--output'', work, ''--'', input_path]"

definition execute_pandoc_plan ::
    "'a lane_world_scheme \<Rightarrow> adapters \<Rightarrow> probe \<Rightarrow> plan \<Rightarrow> uuid \<Rightarrow> string \<Rightarrow> string \<Rightarrow> fs \<Rightarrow> lane_run" where
  "execute_pandoc_plan W A input p job out work f =
     (case pandoc_checks p of
        Inl e \<Rightarrow> (Inl e, f)
      | Inr (st, source, target) \<Rightarrow>
          if parent out = None then (Inl invalid_plan_argument, f)
          else case engine_run W (pandoc_command st source target work (canonical_path (artifact input))) f of
            (NotStarted, f1) \<Rightarrow>
              (Inl (anole_error_new EngineIncompatible Execute ''Unable to start Pandoc''), f1)
          | (WaitFailed, f1) \<Rightarrow> (Inl (execution_failed ''Unable to wait for Pandoc''), f1)
          | (Stopped, f1) \<Rightarrow>
              give_up W work (anole_error_new Cancelled_code Execute
                ''Document conversion was cancelled'') f1
          | (Exited ok, f1) \<Rightarrow>
              if \<not> ok then give_up W work (execution_failed ''Pandoc exited with status {}'') f1
              else if \<not> is_file f1 work
              then (Inl (execution_failed ''Pandoc produced no {} output''), f1)
              else if is_cancelled W
              then give_up W work (anole_error_new Cancelled_code Execute
                ''Document conversion was cancelled before validation'') f1
              else finish_run W input out work work
                (accept_with (ad_inspect_document A)
                  (if target = ''epub'' then ad_validate_epub A
                   else if target = ''docx'' then ad_validate_docx A else ad_validate_text A)
                  input p job work) id
                ''{} output failed validation'' ''The {} destination appeared while running'' f1)"

text \<open>
  The text comes through a pipe, within 120 seconds; only the write touches the partial path.
  A run that is over the time is \<open>WaitFailed\<close>, one that could not start or be read \<open>NotStarted\<close>.
\<close>

definition execute_pdftotext_text_plan ::
    "'a lane_world_scheme \<Rightarrow> adapters \<Rightarrow> probe \<Rightarrow> plan \<Rightarrow> uuid \<Rightarrow> string \<Rightarrow> string \<Rightarrow> fs \<Rightarrow> lane_run" where
  "execute_pdftotext_text_plan W A input p job out work f =
     (case res_bind (first_step p) (\<lambda>st.
           res_bind (checked_argument st ''source_format'' [''pdf'']) (\<lambda>_.
           res_bind (checked_argument st ''target_format'' [''md'']) (\<lambda>_. Inr st))) of
        Inl e \<Rightarrow> (Inl e, f)
      | Inr st \<Rightarrow>
          case engine_run W [binary_path (engine st), canonical_path (artifact input), ''-''] f of
            (NotStarted, f1) \<Rightarrow>
              (Inl (anole_error_new EngineIncompatible Execute ''Unable to start pdftotext''), f1)
          | (Exited ok, f1) \<Rightarrow>
              if \<not> ok
              then give_up W work (execution_failed
                ''pdftotext could not extract the PDF text layer'') f1
              else if is_cancelled W
              then give_up W work (anole_error_new Cancelled_code Execute
                ''PDF text export was cancelled'') f1
              else (case ad_write A work f1 of
                  (False, f2) \<Rightarrow> give_up W work (anole_error_new StorageFailed Execute
                    ''Unable to write the Markdown text output'') f2
                | (True, f2) \<Rightarrow> finish_run W input out work work
                    (accept_with (ad_inspect_document A) (ad_validate_text A) input p job work) id
                    ''MD output failed validation'' ''The MD destination appeared while running'' f2)
          | (_, f1) \<Rightarrow>
              (Inl (set_retryable True (execution_failed ''PDF text extraction timed out'')), f1))"

section \<open>The entry\<close>

datatype lane =
    PdfOps | ImageOcr | EmlExport | MsgExport | MboxExport | ArchiveRepack | OfficeCsv
  | StructuredData | HeifDecode | MagickConvert | PdfText | MarkupPdf | PandocConvert | OfficePdf
  | OfficeExchange | EdgePrint | PdfRender | Ffmpeg

definition plan_lane :: "plan \<Rightarrow> plan_step \<Rightarrow> lane" where
  "plan_lane p st =
     (let e = engine_id (engine st); target = target_format p in
      if argument st ''operation'' \<noteq> None then PdfOps
      else if e = ''tesseract'' \<and> argument st ''ocr_mode'' = Some ''image'' then ImageOcr
      else if e = ''anole.eml'' then EmlExport
      else if e = ''anole.msg'' then MsgExport
      else if e = ''anole.mbox'' then MboxExport
      else if e = ''anole.archive'' then ArchiveRepack
      else if e = ''anole.office-csv'' then OfficeCsv
      else if e = ''anole.structured'' then StructuredData
      else if e = ''heif-dec'' then HeifDecode
      else if e = ''magick'' then MagickConvert
      else if e = ''pdftotext'' \<and> target = ''md'' then PdfText
      else if e = ''pandoc'' then (if target = ''pdf'' then MarkupPdf else PandocConvert)
      else if e = ''soffice'' then (if target = ''pdf'' then OfficePdf else OfficeExchange)
      else if e = ''msedge'' then EdgePrint
      else if e = ''pdftoppm'' then PdfRender
      else Ffmpeg)"

definition short_work_path :: "plan \<Rightarrow> plan_step \<Rightarrow> bool" where
  "short_work_path p st =
     (engine_id (engine st) \<in> {''soffice'', ''msedge''}
      \<or> engine_id (engine st) = ''pandoc'' \<and> target_format p = ''pdf'')"

definition run_lane ::
    "'a lane_world_scheme \<Rightarrow> adapters \<Rightarrow> (lane \<Rightarrow> string \<Rightarrow> string \<Rightarrow> fs \<Rightarrow> lane_run) \<Rightarrow> probe \<Rightarrow> plan
     \<Rightarrow> engine_identity \<Rightarrow> uuid \<Rightarrow> plan_step \<Rightarrow> string \<Rightarrow> string \<Rightarrow> fs \<Rightarrow> lane_run" where
  "run_lane W A other input p ffprobe job st out work f =
     (case plan_lane p st of
        ArchiveRepack \<Rightarrow> execute_archive_plan W A input p job out work f
      | OfficeCsv \<Rightarrow> execute_office_csv_plan W A input p job out work f
      | StructuredData \<Rightarrow> execute_structured_plan W A input p job out work f
      | HeifDecode \<Rightarrow> execute_heif_plan W input p ffprobe job out work f
      | MagickConvert \<Rightarrow> execute_magick_plan W input p ffprobe job out work f
      | PdfText \<Rightarrow> execute_pdftotext_text_plan W A input p job out work f
      | PandocConvert \<Rightarrow> execute_pandoc_plan W A input p job out work f
      | Ffmpeg \<Rightarrow> execute_ffmpeg_plan W input p st job out work f
      | unmodelled \<Rightarrow> other unmodelled out work f)"

definition prepare_run ::
    "'a lane_world_scheme \<Rightarrow> probe \<Rightarrow> plan \<Rightarrow> uuid \<Rightarrow> fs \<Rightarrow> anole_error + plan_step \<times> string \<times> string" where
  "prepare_run W input p job f =
     res_bind (enforce_network_policy p) (\<lambda>_.
     res_bind (ok_or (anole_error_new Internal Execute ''Plan has no executable step'')
       (case steps p of [] \<Rightarrow> None | st # _ \<Rightarrow> Some st)) (\<lambda>st.
     res_bind (resolve_output_path W p f) (\<lambda>out.
     res_bind (ensure (\<not> fs_exists f out)
       (anole_error_new OutputConflict Commit ''Output already exists: {}'')) (\<lambda>_.
     res_bind (ensure_input_unchanged W AtStart input Execute) (\<lambda>_.
     res_bind (if short_work_path p st then office_staged_work_path out job
               else staged_output_path out job) (\<lambda>work.
     res_bind (ensure (\<not> fs_exists f work)
       (anole_error_new OutputConflict Execute ''Unexpected partial path already exists: {}'')) (\<lambda>_.
     Inr (st, out, work))))))))"

definition execute_plan_observed ::
    "'a lane_world_scheme \<Rightarrow> adapters \<Rightarrow> (lane \<Rightarrow> string \<Rightarrow> string \<Rightarrow> fs \<Rightarrow> lane_run) \<Rightarrow> probe \<Rightarrow> plan
     \<Rightarrow> engine_identity \<Rightarrow> uuid \<Rightarrow> fs \<Rightarrow> lane_run" where
  "execute_plan_observed W A other input p ffprobe job f =
     (case prepare_run W input p job f of
        Inl e \<Rightarrow> (Inl e, f)
      | Inr (st, out, work) \<Rightarrow> run_lane W A other input p ffprobe job st out work f)"

end
