(* ===== verification/Lane_Safety.thy ===== *)
theory Lane_Safety
  imports Adapter_Run
begin

text \<open>
  What the lanes of the runner promise: a successful run committed an accepted output onto a
  free path, a failed one leaves no partial, at most four attempts are made, and recovery
  touches staged paths only.
\<close>

section \<open>The end of a run\<close>

lemma commit_cases:
  "commit_path_no_replace W src dst f = (r, f') \<Longrightarrow>
     (case r of Inr _ \<Rightarrow> f src \<noteq> None \<and> f dst = None \<and> f' = move_tree src dst f | Inl e \<Rightarrow> f' = f)"
  by (auto simp: commit_path_no_replace_def rename_path_no_replace_def split: if_splits io_end.splits)

lemma finish_run_success:
  assumes "finish_run W input out work staged accept tidy m1 m2 f = (Inr res, f')"
  obtains report g where "accept (others W AtFinish f) = Inr report" and "report_status report \<noteq> Fail"
    and "ensure_input_unchanged W AtFinish input Commit = Inr ()" and "observer_error W = None"
    and "g = others W AtCommit (others W AtFinish f)" and "g out = None" and "g staged \<noteq> None"
    and "f' = tidy (move_tree staged out g)"
    and "res = \<lparr>res_output_path = out, res_report = report_for out report\<rparr>"
  using assms
  by (auto simp: finish_run_def Let_def give_up_def split: option.splits sum.splits if_splits prod.splits
      dest!: commit_cases)

lemma finish_run_failure:
  assumes "finish_run W input out work staged accept tidy m1 m2 f = (Inl e, f')"
  shows "f' \<in> cleanup_partial W work ` {f, others W AtFinish f, others W AtCommit (others W AtFinish f)}"
  using assms
  by (auto simp: finish_run_def Let_def give_up_def split: option.splits sum.splits if_splits prod.splits
      dest!: commit_cases)

lemma cleanup_partial_gone: "removal_works W \<Longrightarrow> cleanup_partial W p f p = None"
  by (simp add: cleanup_partial_def remove_path_def removal_works_def remove_tree_def)

lemma finish_run_clean:
  "removal_works W \<Longrightarrow> finish_run W input out work staged accept tidy m1 m2 f = (Inl e, f') \<Longrightarrow> f' work = None"
  using finish_run_failure cleanup_partial_gone by (metis imageE)

section \<open>The attempts\<close>

lemma run_ffmpeg_attempt_file:
  "run_ffmpeg_attempt W input p work crf f = (Inr u, f1) \<Longrightarrow> is_file f1 work"
  by (auto simp: run_ffmpeg_attempt_def split: list.splits sum.splits prod.splits child_end.splits if_splits)

lemma run_attempts_result:
  "run_attempts W input p work target again final crfs f = (Inr final', f1) \<Longrightarrow> crfs \<noteq> [] \<Longrightarrow>
     final' \<in> set crfs \<and> is_file f1 work \<and> (target_met target f1 work \<or> final' = last crfs)"
proof (induction crfs arbitrary: again final f)
  case (Cons c cs)
  obtain r g where run: "run_ffmpeg_attempt W input p work c
      (if again then cleanup_partial W work f else f) = (r, g)" by fastforce
  show ?case
  proof (cases r)
    case (Inl e)
    then show ?thesis using Cons.prems run by simp
  next
    case (Inr u)
    have made: "is_file g work" using run run_ffmpeg_attempt_file Inr by metis
    show ?thesis
    proof (cases "target_met target g work")
      case True
      then show ?thesis using Cons.prems run Inr made by simp
    next
      case False
      then have rest: "run_attempts W input p work target True c cs g = (Inr final', f1)"
        using Cons.prems run Inr by simp
      show ?thesis
      proof (cases "cs = []")
        case True
        then show ?thesis using rest made by simp
      next
        case False
        then show ?thesis using Cons.IH [OF rest] by simp
      qed
    qed
  qed
qed simp

lemma attempts_of_cases:
  assumes "attempts_of p st = Inr crfs"
  shows "mp4_target_size_bytes p = None \<and> crfs = [None]
    \<or> (\<exists>c. video_crf_argument st = Inr c \<and> c \<le> 51 \<and> crfs = map Some (target_size_crf_ladder c))"
  using assms crf_argument_bound by (auto simp: attempts_of_def split: if_splits)

text \<open>
  C19: the search for a target size is bounded and ends where it says. FFmpeg is run at most four
  times, with CRF values that grow strictly from the planned one and never pass 51; the attempt
  that is kept left a file and either met the target size or is the last of the ladder, three
  steps of six above the planned value or 51.
\<close>

theorem target_size_search_is_bounded:
  assumes "attempts_of p st = Inr crfs" and "mp4_target_size_bytes p = Some wanted"
    and "video_crf_argument st = Inr start"
  shows "crfs = map Some (target_size_crf_ladder start) \<and> length crfs \<in> {1..4}
    \<and> sorted_wrt (<) (target_size_crf_ladder start) \<and> set (target_size_crf_ladder start) \<subseteq> {start..51}
    \<and> (run_attempts W input p work (Some wanted) False None crfs f = (Inr final, f1) \<longrightarrow>
        is_file f1 work \<and> final \<in> set crfs
        \<and> (target_met (Some wanted) f1 work \<or> final = Some (min (start + 18) 51)))"
proof -
  have start: "start \<le> 51" by (rule crf_argument_bound [OF assms(3)])
  have crfs: "crfs = map Some (target_size_crf_ladder start)"
    using assms by (simp add: attempts_of_def)
  note rungs = ladder_rungs [OF start]
  have "length crfs \<in> {1..4}" using rungs by (simp add: crfs Suc_le_eq)
  moreover have "is_file f1 work \<and> final \<in> set crfs
      \<and> (target_met (Some wanted) f1 work \<or> final = Some (min (start + 18) 51))"
    if "run_attempts W input p work (Some wanted) False None crfs f = (Inr final, f1)"
    using run_attempts_result [OF that] rungs by (auto simp: crfs last_map)
  ultimately show ?thesis using crfs rungs by blast
qed

section \<open>Planned images can be run\<close>

lemma workspace_quality_planned:
  assumes "argument st ''quality'' = Some (decimal_or ''lossless'' quality)"
    and "image_quality (target = ''jpeg'') d e1 e2 r = Inr quality" and "d \<in> {1..100}"
  shows "\<exists>args. workspace_quality st target opt = Inr args"
proof (cases "target = ''jpeg''")
  case True
  then obtain q where q: "quality = Some q" "in_range 1 100 q"
    using image_quality_range [OF assms(2,3)] by auto
  then have "q \<le> u32_max" by (simp add: in_range_def u32_max_def)
  then show ?thesis using True q assms(1)
    by (simp add: workspace_quality_def checked_u32_argument_def parse_u32_decimal decimal_or_def)
next
  case False
  then have "quality = None" using image_quality_range [OF assms(2,3)] by simp
  then show ?thesis using False assms(1)
    by (simp add: workspace_quality_def checked_argument_def decimal_or_def)
qed

lemma heic_checked:
  assumes "plan_heic_conversion E input r eng = Inr p" and "engine_id ffprobe = ''ffprobe''"
  shows "\<exists>st target args. heif_checks p ffprobe = Inr (st, target)
    \<and> workspace_quality st target opt = Inr args"
proof -
  from assms(1) obtain target quality where target: "heic_target (requested_target r) = Inr target"
    and quality: "image_quality (target = ''jpeg'') 85 ''JPEG quality must be between 1 and 100''
         ''PNG output is lossless and does not accept --quality'' r = Inr quality"
    and eng: "engine_id eng = ''heif-dec''"
    and seal: "seal_plan E (heic_plan E input r eng target quality) = Inr p"
    by (auto simp: plan_heic_conversion_def)
  define st where "st = hd (steps (heic_plan E input r eng target quality))"
  have st: "steps p = [st]" "engine st = eng" "argument st ''source_format'' = Some ''heic''"
    "argument st ''target_format'' = Some target" "argument st ''metadata'' = Some ''drop''"
    "argument st ''orientation'' = Some ''apply-heif-transformations''"
    "argument st ''image_selection'' = Some ''single-primary''"
    "argument st ''quality'' = Some (decimal_or ''lossless'' quality)"
    using unsealed [OF seal]
    by (simp_all add: st_def heic_plan_def one_step_plan_def argument_def map_of_btree_from)
  have "target \<in> {''jpeg'', ''png''}" using target by (auto simp: heic_target_def split: if_splits)
  then have "heif_checks p ffprobe = Inr (st, target)"
    by (simp add: heif_checks_def st eng assms(2) checked_argument_def)
  then show ?thesis using workspace_quality_planned [OF st(8) quality] by auto
qed

lemma magick_checked:
  assumes "plan_magick_conversion E input r eng = Inr p" and "engine_id ffprobe = ''ffprobe''"
    and lower: "to_ascii_lowercase (format_id (format input)) = format_id (format input)"
  shows "\<exists>st target args. magick_checks input p ffprobe = Inr (st, target)
    \<and> workspace_quality st target opt = Inr args"
proof -
  from assms(1) obtain target quality where target: "magick_target (requested_target r) = Inr target"
    and quality: "image_quality (target = ''jpeg'') 92 ''JPEG quality must be between 1 and 100''
         ''{} output is lossless and does not accept --quality'' r = Inr quality"
    and eng: "engine_id eng = ''magick''" and raw: "magick_format_id (format_id (format input)) \<noteq> None"
    and seal: "seal_plan E (magick_plan E input r eng target quality) = Inr p"
    by (auto simp: plan_magick_conversion_def)
  define st where "st = hd (steps (magick_plan E input r eng target quality))"
  have st: "steps p = [st]" "engine st = eng"
    "argument st ''source_format'' = Some (format_id (format input))"
    "argument st ''target_format'' = Some target" "argument st ''metadata'' = Some ''drop''"
    "argument st ''layer_policy'' = Some ''flattened-composite''"
    "argument st ''raw_decode'' = Some ''host-imagemagick''"
    "argument st ''quality'' = Some (decimal_or ''lossless'' quality)"
    using unsealed [OF seal]
    by (simp_all add: st_def magick_plan_def one_step_plan_def argument_def map_of_btree_from)
  have "target \<in> {''jpeg'', ''png'', ''tiff''}" using target by (auto simp: magick_target_def split: if_splits)
  moreover have "format_id (format input) \<in> set magick_formats"
    using raw lower by (simp add: magick_format_id_def Let_def split: if_splits)
  ultimately have "magick_checks input p ffprobe = Inr (st, target)"
    by (simp add: magick_checks_def st eng assms(2) checked_argument_def magick_formats_def)
  then show ?thesis using workspace_quality_planned [OF st(8) quality] by auto
qed

text \<open>
  What the image fallbacks plan they can run. A plan of the libheif fallback, or of the
  ImageMagick lane for a lower-case format id, passes every check the runner makes of it before
  it creates its workspace, and the quality it reads there is accepted.
\<close>

theorem planned_fallbacks_can_be_run:
  assumes "engine_id ffprobe = ''ffprobe''"
    and "to_ascii_lowercase (format_id (format input)) = format_id (format input)"
  shows "(plan_heic_conversion E input r eng = Inr p \<longrightarrow>
      (\<exists>st target args. heif_checks p ffprobe = Inr (st, target)
        \<and> workspace_quality st target opt = Inr args))
    \<and> (plan_magick_conversion E input r eng = Inr p \<longrightarrow>
      (\<exists>st target args. magick_checks input p ffprobe = Inr (st, target)
        \<and> workspace_quality st target opt = Inr args))"
  using heic_checked [OF _ assms(1)] magick_checked [OF _ assms] by blast

section \<open>A failed run leaves nothing\<close>

text \<open>
  An engine and a worker that behave: what cannot be started does nothing, a wait does not fail,
  a worker does not panic, and a success leaves a file where it was asked for one or nothing;
  removals work and a directory that was created can be listed.
\<close>

definition child_ok :: "string \<Rightarrow> fs \<Rightarrow> child_end \<times> fs \<Rightarrow> bool" where
  "child_ok work f run =
     (case run of
        (NotStarted, g) \<Rightarrow> g work = f work
      | (WaitFailed, g) \<Rightarrow> False
      | (Stopped, g) \<Rightarrow> True
      | (Exited ok, g) \<Rightarrow> f work = None \<longrightarrow> g work = None \<or> is_file g work)"

definition worker_ok :: "string \<Rightarrow> fs \<Rightarrow> worker_end \<times> fs \<Rightarrow> bool" where
  "worker_ok work f run =
     (case run of
        (Panicked, g) \<Rightarrow> False
      | (Abandoned, g) \<Rightarrow> True
      | (Returned e, g) \<Rightarrow> f work = None \<longrightarrow> g work = None \<or> is_file g work)"

definition orderly :: "'a lane_world_scheme \<Rightarrow> string \<Rightarrow> bool" where
  "orderly W work \<longleftrightarrow>
     removal_works W \<and> (\<forall>cmd f. child_ok work f (engine_run W cmd f))
     \<and> (\<forall>cmd f. worker_ok work f (worker_run W cmd f)) \<and> (\<forall>f. list_dir W work f \<noteq> None)"

lemma orderly_engine:
  assumes "orderly W work" and "engine_run W cmd f = (e, g)"
  shows "(e = NotStarted \<longrightarrow> g work = f work) \<and> e \<noteq> WaitFailed
     \<and> (\<forall>ok. e = Exited ok \<longrightarrow> f work = None \<longrightarrow> g work = None \<or> is_file g work)"
proof -
  have "child_ok work f (e, g)" using assms unfolding orderly_def by metis
  then show ?thesis by (cases e) (simp_all add: child_ok_def)
qed

lemma orderly_worker:
  assumes "orderly W work" and "worker_run W cmd f = (e, g)"
  shows "e \<noteq> Panicked \<and> (\<forall>r. e = Returned r \<longrightarrow> f work = None \<longrightarrow> g work = None \<or> is_file g work)"
proof -
  have "worker_ok work f (e, g)" using assms unfolding orderly_def by metis
  then show ?thesis by (cases e) (simp_all add: worker_ok_def)
qed

lemma orderly_parts: "orderly W work \<Longrightarrow> removal_works W" "orderly W work \<Longrightarrow> list_dir W work f \<noteq> None"
  by (simp_all add: orderly_def)

lemma orderly_gone [simp]: "orderly W work \<Longrightarrow> cleanup_partial W work f work = None"
  by (simp add: orderly_parts cleanup_partial_gone)

lemma give_up_clean:
  "orderly W work \<Longrightarrow> give_up W work e f = (r, f') \<Longrightarrow> f' work = None"
  by (auto simp: give_up_def)

lemma finish_clean:
  "orderly W work \<Longrightarrow> finish_run W input out work staged accept tidy m1 m2 f = (Inl e, f') \<Longrightarrow> f' work = None"
  using finish_run_clean orderly_parts(1) by metis

lemma attempt_clean:
  assumes "orderly W work" and "f work = None"
    and "run_ffmpeg_attempt W input p work crf f = (Inl e, f')"
  shows "f' work = None"
proof (cases "steps p")
  case Nil
  then show ?thesis using assms by (simp add: run_ffmpeg_attempt_def)
next
  case (Cons st sts)
  show ?thesis
  proof (cases "ffmpeg_command input p work crf")
    case (Inl e)
    then show ?thesis using assms Cons by (simp add: run_ffmpeg_attempt_def)
  next
    case (Inr args)
    obtain c g where run: "engine_run W (binary_path (engine st) # args) f = (c, g)" by fastforce
    note ends = orderly_engine [OF assms(1) run]
    show ?thesis
      using assms Cons Inr run ends
      by (cases c) (auto simp: run_ffmpeg_attempt_def split: if_splits)
  qed
qed

lemma attempts_clean:
  "orderly W work \<Longrightarrow> (\<not> again \<longrightarrow> f work = None) \<Longrightarrow>
   run_attempts W input p work target again final crfs f = (Inl e, f') \<Longrightarrow> f' work = None"
proof (induction crfs arbitrary: again final f)
  case (Cons c cs)
  obtain r g where run: "run_ffmpeg_attempt W input p work c
      (if again then cleanup_partial W work f else f) = (r, g)" by fastforce
  have start: "(if again then cleanup_partial W work f else f) work = None"
    using Cons.prems by simp
  show ?case
  proof (cases r)
    case (Inl e')
    then show ?thesis using Cons.prems(3) run attempt_clean [OF Cons.prems(1), of "if again then cleanup_partial W work f else f"] start
      by simp
  next
    case (Inr u)
    then have "run_attempts W input p work target True c cs g = (Inl e, f')"
      using Cons.prems(3) run by (simp split: if_splits)
    then show ?thesis using Cons.IH [OF Cons.prems(1), of True g c] by simp
  qed
qed simp

lemma ffmpeg_clean:
  assumes "orderly W work" and "f work = None"
    and "execute_ffmpeg_plan W input p st job out work f = (Inl e, f')"
  shows "f' work = None"
  using assms attempts_clean [OF assms(1), of False f] give_up_clean [OF assms(1)] finish_clean [OF assms(1)]
  by (auto simp: execute_ffmpeg_plan_def split: sum.splits prod.splits if_splits)

lemma structured_clean:
  assumes "orderly W work" and "f work = None"
    and "execute_structured_plan W A input p job out work f = (Inl e, f')"
  shows "f' work = None"
proof -
  obtain c g where run: "worker_run W [''convert_structured_file'', canonical_path (artifact input), work] f = (c, g)"
    by fastforce
  show ?thesis
    using assms run orderly_worker [OF assms(1) run] give_up_clean [OF assms(1)] finish_clean [OF assms(1)]
    by (cases c) (auto simp: execute_structured_plan_def split: option.splits if_splits)
qed

lemma pandoc_clean:
  assumes "orderly W work" and "f work = None"
    and "execute_pandoc_plan W A input p job out work f = (Inl e, f')"
  shows "f' work = None"
proof (cases "pandoc_checks p")
  case (Inl e)
  then show ?thesis using assms by (simp add: execute_pandoc_plan_def)
next
  case (Inr row)
  obtain st source target where row: "row = (st, source, target)" by (cases row)
  obtain c g where run: "engine_run W (pandoc_command st source target work
      (canonical_path (artifact input))) f = (c, g)" by fastforce
  show ?thesis
    using assms Inr row run orderly_engine [OF assms(1) run] give_up_clean [OF assms(1)]
      finish_clean [OF assms(1)]
    by (cases c) (auto simp: execute_pandoc_plan_def split: if_splits)
qed

lemma csv_clean:
  assumes "orderly W work" and "f work = None"
    and "execute_office_csv_plan W A input p job out work f = (Inl e, f')"
  shows "f' work = None"
  using assms give_up_clean [OF assms(1)] finish_clean [OF assms(1)]
  by (auto simp: execute_office_csv_plan_def make_dir_def Let_def
      split: sum.splits prod.splits if_splits worker_end.splits option.splits)

lemma workspace_clean:
  assumes "orderly W work" and "run_in_workspace W work a b c d cmd f = (Inl e, f')"
  shows "f' work = None"
proof -
  obtain r g where run: "engine_run W cmd f = (r, g)" by fastforce
  show ?thesis using assms run orderly_engine [OF assms(1) run]
    by (cases r) (auto simp: run_in_workspace_def split: if_splits)
qed

lemma heif_clean:
  assumes "orderly W work" and "f work = None"
    and run: "execute_heif_plan W input p ffprobe job out work f = (Inl e, f')"
    and quality: "\<And>st target. heif_checks p ffprobe = Inr (st, target) \<Longrightarrow>
      \<exists>args. workspace_quality st target ''--quality'' = Inr args"
  shows "f' work = None"
proof (cases "heif_checks p ffprobe")
  case (Inl a)
  then show ?thesis using run assms(2) by (simp add: execute_heif_plan_def)
next
  case (Inr row)
  obtain st target where checked: "heif_checks p ffprobe = Inr (st, target)" using Inr by (cases row) simp
  obtain args where args: "workspace_quality st target ''--quality'' = Inr args"
    using quality [OF checked] by blast
  let ?staged = "path_join work (if target = ''jpeg'' then ''output.jpg'' else ''output.png'')"
  obtain ok f1 where dir: "make_dir W work f = (ok, f1)" by fastforce
  obtain r f2 where child: "run_in_workspace W work ''Unable to start heif-dec''
      ''Unable to wait for heif-dec'' ''HEIC conversion was cancelled'' ''heif-dec exited with status {}''
      ([binary_path (engine st), ''--quiet''] @ args @ [canonical_path (artifact input), ?staged]) f1 = (r, f2)"
    by fastforce
  obtain entries where entries: "list_dir W work f2 = Some entries"
    using orderly_parts(2) [OF assms(1), of f2] by blast
  show ?thesis
  proof (cases ok)
    case False
    then have "f1 work = None" using dir assms(2) by (auto simp: make_dir_def split: if_splits)
    then show ?thesis using run checked dir False by (auto simp: execute_heif_plan_def)
  next
    case True
    show ?thesis
      using run workspace_clean [OF assms(1), of _ _ _ _ _ f1 _ f2] child give_up_clean [OF assms(1)]
        finish_clean [OF assms(1)]
      by (cases r) (auto simp: execute_heif_plan_def checked dir True Let_def args entries split: if_splits)
  qed
qed

lemma magick_clean:
  assumes "orderly W work" and "f work = None"
    and run: "execute_magick_plan W input p ffprobe job out work f = (Inl e, f')"
    and quality: "\<And>st target. magick_checks input p ffprobe = Inr (st, target) \<Longrightarrow>
      \<exists>args. workspace_quality st target ''-quality'' = Inr args"
  shows "f' work = None"
proof (cases "magick_checks input p ffprobe")
  case (Inl a)
  then show ?thesis using run assms(2) by (simp add: execute_magick_plan_def)
next
  case (Inr row)
  obtain st target where checked: "magick_checks input p ffprobe = Inr (st, target)" using Inr by (cases row) simp
  obtain args where args: "workspace_quality st target ''-quality'' = Inr args"
    using quality [OF checked] by blast
  let ?staged = "path_join work (if target = ''jpeg'' then ''output.jpg''
    else if target = ''png'' then ''output.png'' else ''output.tiff'')"
  obtain ok f1 where dir: "make_dir W work f = (ok, f1)" by fastforce
  obtain r f2 where child: "run_in_workspace W work ''Unable to start ImageMagick''
      ''Unable to wait for ImageMagick'' ''ImageMagick conversion was cancelled''
      ''ImageMagick exited with status {}''
      ([binary_path (engine st)] @ args @ [canonical_path (artifact input) @ ''[0]'', ?staged]) f1 = (r, f2)"
    by fastforce
  show ?thesis
  proof (cases ok)
    case False
    then have "f1 work = None" using dir assms(2) by (auto simp: make_dir_def split: if_splits)
    then show ?thesis using run checked dir False by (auto simp: execute_magick_plan_def)
  next
    case True
    show ?thesis
      using run workspace_clean [OF assms(1), of _ _ _ _ _ f1 _ f2] child give_up_clean [OF assms(1)]
        finish_clean [OF assms(1)]
      by (cases r) (auto simp: execute_magick_plan_def checked dir True Let_def args split: if_splits)
  qed
qed

text \<open>The entry: what is known when a lane starts.\<close>

lemma prepared:
  assumes "prepare_run W input p job f = Inr (st, out, work)"
  shows "steps p \<noteq> []" "st = hd (steps p)" "network_policy p = Deny" "\<not> fs_exists f out"
    "\<not> fs_exists f work" "ensure_input_unchanged W AtStart input Execute = Inr ()"
    "resolve_output_path W p f = Inr out"
  using assms by (auto simp: prepare_run_def enforce_network_policy_def split: list.splits)

text \<open>
  C20: a failed run leaves no partial. For the FFmpeg, structured, Pandoc, worksheet, libheif and
  ImageMagick lanes (the last two on plans of their own planners), when the engine behaves,
  whatever fails (the start, the engine, a cancellation, the milestone, a changed input, the
  inspection, the acceptance, a destination that appeared, the commit), nothing is left at the
  partial path.
\<close>

theorem failed_runs_leave_no_partial:
  assumes "prepare_run W input p job f = Inr (st, out, work)" and "f work = None" and "orderly W work"
    and "plan_lane p st \<in> {Ffmpeg, StructuredData, PandocConvert, OfficeCsv, HeifDecode, MagickConvert}"
    and "plan_lane p st = HeifDecode \<longrightarrow> plan_heic_conversion E input r eng = Inr p"
    and "plan_lane p st = MagickConvert \<longrightarrow> plan_magick_conversion E input r eng = Inr p
      \<and> to_ascii_lowercase (format_id (format input)) = format_id (format input)"
    and "execute_plan_observed W A other input p ffprobe job f = (Inl e, f')"
  shows "f' work = None"
proof -
  have run: "run_lane W A other input p ffprobe job st out work f = (Inl e, f')"
    using assms(1,7) by (simp add: execute_plan_observed_def)
  have heif: "\<exists>args. workspace_quality s t ''--quality'' = Inr args"
    if "plan_lane p st = HeifDecode" "heif_checks p ffprobe = Inr (s, t)" for s t
  proof -
    have "engine_id ffprobe = ''ffprobe''" using that(2) by (auto simp: heif_checks_def)
    then show ?thesis using heic_checked [of E input r eng p ffprobe "''--quality''"] assms(5) that by auto
  qed
  have magick: "\<exists>args. workspace_quality s t ''-quality'' = Inr args"
    if "plan_lane p st = MagickConvert" "magick_checks input p ffprobe = Inr (s, t)" for s t
  proof -
    have "engine_id ffprobe = ''ffprobe''" using that(2) by (auto simp: magick_checks_def)
    then show ?thesis using magick_checked [of E input r eng p ffprobe "''-quality''"] assms(6) that by auto
  qed
  consider "plan_lane p st = Ffmpeg" | "plan_lane p st = StructuredData" | "plan_lane p st = PandocConvert"
    | "plan_lane p st = OfficeCsv" | "plan_lane p st = HeifDecode" | "plan_lane p st = MagickConvert"
    using assms(4) by blast
  then show ?thesis
  proof cases
    case 1 then show ?thesis using run assms(2) ffmpeg_clean [OF assms(3), where f = f] by (simp add: run_lane_def)
  next
    case 2 then show ?thesis using run assms(2) structured_clean [OF assms(3), where f = f] by (simp add: run_lane_def)
  next
    case 3 then show ?thesis using run assms(2) pandoc_clean [OF assms(3), where f = f] by (simp add: run_lane_def)
  next
    case 4 then show ?thesis using run assms(2) csv_clean [OF assms(3), where f = f] by (simp add: run_lane_def)
  next
    case 5 then show ?thesis using run assms(2) heif_clean [OF assms(3), where f = f] heif by (simp add: run_lane_def)
  next
    case 6 then show ?thesis using run assms(2) magick_clean [OF assms(3), where f = f] magick by (simp add: run_lane_def)
  qed
qed

text \<open>
  The archive lane is the exception. An error of the repacking worker leaves the run at
  once, so whatever the worker had written at the partial path stays there; the structured
  lane, given the same end of its worker, removes it.
\<close>

theorem failed_repack_leaves_partial:
  assumes "steps p = [st]" and "argument st ''source_format'' = Some source"
    and "argument st ''target_format'' = Some tgt" and "source \<in> set archive_formats"
    and "tgt \<in> set archive_formats" and "source \<noteq> tgt"
    and "\<forall>cmd. worker_run W cmd f = (Returned (Some e), g)"
  shows "execute_archive_plan W A input p job out work f = (Inl e, g)
    \<and> execute_structured_plan W A input p job out work f = (Inl e, cleanup_partial W work g)"
  using assms
  by (simp add: execute_archive_plan_def execute_structured_plan_def first_step_def
      checked_argument_def give_up_def ok_or_def ensure_def)

end
