(* ===== verification/Path_Text.thy ===== *)
theory Path_Text
  imports Rust_Fs
begin

text \<open>
  The text of a path and its components determine each other: joining a name to the parent of a
  path, and what being under a path means for the components.
\<close>

section \<open>Splitting\<close>

lemma split_on_plain: "list_all (\<lambda>c. \<not> sep c) s \<Longrightarrow> split_on sep s = [s]"
  by (induction s) simp_all

lemma split_on_append:
  "sep c \<Longrightarrow> split_on sep (a @ c # b) = split_on sep a @ split_on sep b"
proof (induction a)
  case (Cons x a)
  have "split_on sep a \<noteq> []" by (rule split_on_not_Nil)
  then show ?case using Cons by (cases "split_on sep a") auto
qed simp

lemma split_on_parts: "p \<in> set (split_on sep s) \<Longrightarrow> list_all (\<lambda>c. \<not> sep c) p"
proof (induction s arbitrary: p)
  case (Cons c s)
  then show ?case by (cases "split_on sep s") (auto split: if_splits)
qed simp

definition slashless :: "string \<Rightarrow> bool" where
  "slashless s \<longleftrightarrow> list_all (\<lambda>c. \<not> is_slash c) s"

lemma slashless_simps [simp]:
  "slashless []" "slashless (c # s) \<longleftrightarrow> c \<noteq> CHR ''/'' \<and> slashless s"
  "slashless (a @ b) \<longleftrightarrow> slashless a \<and> slashless b"
  by (simp_all add: slashless_def is_slash_def)

lemma split_slashless: "slashless s \<Longrightarrow> split_on is_slash s = [s]"
  by (simp add: slashless_def split_on_plain)

lemma split_slash: "split_on is_slash (a @ CHR ''/'' # b) = split_on is_slash a @ split_on is_slash b"
  by (rule split_on_append) (simp add: is_slash_def)

lemma split_joined: "xs \<noteq> [] \<Longrightarrow> list_all slashless xs \<Longrightarrow> split_on is_slash (join_with ''/'' xs) = xs"
  by (induction "''/''" xs rule: join_with.induct) (simp_all add: split_slashless split_slash)

section \<open>Components\<close>

fun plain_component :: "path_component \<Rightarrow> bool" where
  "plain_component ParentDir = True"
| "plain_component (NormalC x) = (x \<noteq> [] \<and> x \<noteq> ''.'' \<and> x \<noteq> ''..'' \<and> slashless x)"
| "plain_component _ = False"

definition components_ok :: "path_component list \<Rightarrow> bool" where
  "components_ok cs \<longleftrightarrow> list_all plain_component (tl cs)
     \<and> (cs \<noteq> [] \<longrightarrow> hd cs \<in> {RootDir, CurDir} \<or> plain_component (hd cs))"

definition kept_parts :: "string \<Rightarrow> path_component list" where
  "kept_parts p = map component_of (filter (\<lambda>x. x \<noteq> [] \<and> x \<noteq> ''.'') (split_on is_slash p))"

lemma path_components_eq:
  "path_components p =
     (if starts_with p ''/'' then RootDir # kept_parts p
      else if hd (split_on is_slash p) = ''.'' then CurDir # kept_parts p else kept_parts p)"
  by (simp add: path_components_def kept_parts_def Let_def)

lemma kept_parts_plain: "list_all plain_component (kept_parts p)"
  using split_on_parts [of _ is_slash p]
  by (auto simp: kept_parts_def list_all_iff slashless_def)

lemma components_ok_components: "components_ok (path_components p)"
  using kept_parts_plain [of p]
  by (cases "kept_parts p") (auto simp: path_components_eq components_ok_def)

lemma plain_text:
  "plain_component c \<Longrightarrow> slashless (component_text c) \<and> component_text c \<noteq> [] \<and> component_text c \<noteq> ''.''
     \<and> component_of (component_text c) = c"
  by (cases c) auto

lemma plain_texts:
  "list_all plain_component cs \<Longrightarrow>
     list_all slashless (map component_text cs)
     \<and> filter (\<lambda>x. x \<noteq> [] \<and> x \<noteq> ''.'') (map component_text cs) = map component_text cs
     \<and> map component_of (map component_text cs) = cs"
  by (induction cs) (auto dest: plain_text)

lemma starts_with_slash: "starts_with p ''/'' \<longleftrightarrow> (\<exists>s. p = CHR ''/'' # s)"
  by (auto simp: starts_with_def prefix_def)

lemma joined_start: "join_with ''/'' (x # xs) = x @ (if xs = [] then [] else CHR ''/'' # join_with ''/'' xs)"
  by (cases xs) simp_all

lemma components_of_text:
  assumes "components_ok cs"
  shows "path_components (path_text cs) = cs"
proof (cases cs)
  case Nil
  then show ?thesis by (simp add: path_text_def path_components_eq kept_parts_def starts_with_slash)
next
  case (Cons c ds)
  have ds: "list_all plain_component ds" using assms Cons by (simp add: components_ok_def)
  note named = plain_texts [OF ds]
  have slash: "slashless (component_text c)" using assms Cons plain_text [of c]
    by (auto simp: components_ok_def)
  show ?thesis
  proof (cases "cs = [RootDir]")
    case True
    then show ?thesis
      by (simp add: path_text_def path_components_eq kept_parts_def is_slash_def starts_with_slash)
  next
    case False
    then have joined_text: "path_text cs = join_with ''/'' (component_text c # map component_text ds)"
      using Cons by (simp add: path_text_def)
    have parts: "split_on is_slash (path_text cs) = component_text c # map component_text ds"
      unfolding joined_text using slash named by (intro split_joined) simp_all
    have c: "c = RootDir \<or> c = CurDir \<or> plain_component c" using assms Cons by (auto simp: components_ok_def)
    show ?thesis
    proof (cases "c = RootDir")
      case True
      then have "ds \<noteq> []" using False Cons by simp
      then have "starts_with (path_text cs) ''/''"
        using True by (simp add: joined_text joined_start starts_with_slash)
      then show ?thesis using True named Cons parts by (simp add: path_components_eq kept_parts_def)
    next
      case other: False
      then obtain x s where x: "component_text c = x # s" "x \<noteq> CHR ''/''"
        using c slash plain_text [of c] by (cases "component_text c") auto
      have "\<not> starts_with (path_text cs) ''/''" using x by (simp add: joined_text joined_start starts_with_slash)
      then show ?thesis using other c named Cons parts plain_text [of c]
        by (auto simp: path_components_eq kept_parts_def)
    qed
  qed
qed

section \<open>Names next to a path\<close>

lemma join_name:
  assumes ok: "components_ok cs" and n: "n \<noteq> []" "slashless n"
  shows "path_join (path_text cs) n = path_text (cs @ [NormalC n])"
proof -
  have rel: "\<not> is_absolute n" using n by (cases n) (auto simp: is_absolute_def starts_with_slash)
  have joined: "join_with ''/'' (xs @ [n]) = join_with ''/'' xs @ ''/'' @ n" if "xs \<noteq> []" for xs
    using that by (induction "''/''" xs rule: join_with.induct) simp_all
  show ?thesis
  proof (cases "cs = [] \<or> cs = [RootDir]")
    case True
    then show ?thesis using rel by (auto simp: path_join_def path_text_def ends_with_def)
  next
    case False
    obtain ds c where cs: "cs = ds @ [c]" using False by (cases cs rule: rev_cases) auto
    have c: "c \<noteq> RootDir" "c = CurDir \<or> plain_component c"
      using ok False cs by (cases ds; auto simp: components_ok_def)+
    obtain x s where x: "component_text c = s @ [x]" "x \<noteq> CHR ''/''"
      using c plain_text [of c] by (cases "component_text c" rule: rev_cases) auto
    have end': "\<exists>t. join_with ''/'' (map component_text cs) = t @ [x]"
      unfolding cs using x by (induction ds) (auto simp: joined_start)
    then have "\<not> ends_with (path_text cs) ''/''" "path_text cs \<noteq> []"
      using False x(2) by (auto simp: path_text_def ends_with_def suffix_def)
    then show ?thesis using rel False joined [of "map component_text cs"]
      by (simp add: path_join_def path_text_def)
  qed
qed

lemma with_name_components:
  assumes "parent p = Some d" and "n \<noteq> []" "slashless n" and "n \<noteq> ''.''" "n \<noteq> ''..''"
  shows "path_components (path_join d n) = butlast (path_components p) @ [NormalC n]"
proof -
  have d: "d = path_text (butlast (path_components p))" and cs: "path_components p \<noteq> []"
    using assms(1) by (auto simp: parent_def Let_def split: if_splits)
  let ?ds = "butlast (path_components p)"
  have all: "components_ok (path_components p)" by (rule components_ok_components)
  have ok: "components_ok ?ds"
    using all by (cases "path_components p" rule: rev_cases; cases "butlast (path_components p)")
      (auto simp: components_ok_def)
  have "components_ok (?ds @ [NormalC n])"
    using ok assms(2-5) by (cases ?ds) (auto simp: components_ok_def)
  then show ?thesis unfolding d join_name [OF ok assms(2,3)] by (rule components_of_text)
qed

lemma below_components:
  assumes "below a b" and "a \<noteq> []"
  shows "\<exists>rest. path_components b = path_components a @ rest"
proof (cases "b = a")
  case False
  then obtain s where b: "b = a @ CHR ''/'' # s" using assms(1) by (auto simp: below_def starts_with_def prefix_def)
  have "kept_parts b = kept_parts a @ kept_parts s" by (simp add: b kept_parts_def split_slash)
  moreover have "starts_with b ''/'' = starts_with a ''/''"
    using assms(2) by (cases a) (auto simp: b starts_with_slash)
  moreover have "hd (split_on is_slash b) = hd (split_on is_slash a)"
    using split_on_not_Nil [of is_slash a] by (simp add: b split_slash)
  ultimately show ?thesis by (simp add: path_components_eq)
qed simp

end
