(* ===== verification/Lane_Commit.thy ===== *)
theory Lane_Commit
  imports Lane_Safety Path_Text
begin

text \<open>
  Where the runner writes: the staged path of a job is a sibling of its output that no other
  job has, recovery removes staged paths only, and a successful media run moved the very file
  that was inspected and accepted onto a free path.
\<close>

section \<open>Staged paths\<close>

lemma file_name_component:
  "file_name p = Some x \<Longrightarrow>
     path_components p \<noteq> [] \<and> last (path_components p) = NormalC x \<and> slashless x \<and> p \<noteq> []"
proof -
  assume name: "file_name p = Some x"
  then have cs: "path_components p \<noteq> []" "last (path_components p) = NormalC x"
    by (auto simp: file_name_def Let_def split: if_splits path_component.splits)
  have "plain_component (last (path_components p))"
    using components_ok_components [of p] cs
    by (cases "path_components p" rule: rev_cases; cases "butlast (path_components p)")
      (auto simp: components_ok_def)
  moreover have "p \<noteq> []" using cs by (auto simp: path_components_eq kept_parts_def starts_with_slash)
  ultimately show ?thesis using cs by simp
qed

lemma slashless_digits: "slashless (uuid_digits n)"
proof -
  have "digit_char (k mod 16) \<noteq> CHR ''/''" for k
  proof -
    have "byte_of (digit_char (k mod 16)) = (if k mod 16 < 10 then 48 + k mod 16 else 87 + k mod 16)"
      unfolding digit_char_def by (intro byte_of_char_of) auto
    then have "byte_of (digit_char (k mod 16)) \<noteq> 47" by (auto split: if_splits)
    then show ?thesis by (auto simp: byte_of_def)
  qed
  then show ?thesis by (auto simp: uuid_digits_def slashless_def is_slash_def list_all_iff)
qed

lemma slashless_parts: "slashless s \<Longrightarrow> slashless (take k s)" "slashless s \<Longrightarrow> slashless (drop k s)"
  by (auto simp: slashless_def list_all_iff dest: in_set_takeD in_set_dropD)

lemma slashless_uuid: "slashless (uuid_text n)"
  using slashless_digits [of n] by (simp add: uuid_text_def Let_def slashless_parts)

lemma uuid_text_length: "length (uuid_text n) = 36"
  by (simp add: uuid_text_def Let_def uuid_digits_def)

definition partial_name :: "uuid \<Rightarrow> string \<Rightarrow> string" where
  "partial_name job name = ''.anole-partial-'' @ uuid_text job @ ''-'' @ name"

lemma partial_name_simps:
  "partial_name job name \<noteq> []" "partial_name job name \<noteq> ''.''" "partial_name job name \<noteq> ''..''"
  "slashless name \<Longrightarrow> slashless (partial_name job name)" "partial_name job name \<noteq> name"
proof -
  show "partial_name job name \<noteq> name"
  proof
    assume "partial_name job name = name"
    then have "length (partial_name job name) = length name" by (rule arg_cong)
    then show False by (simp add: partial_name_def)
  qed
qed (simp_all add: partial_name_def slashless_uuid)

lemma partial_name_inj:
  "partial_name job name = partial_name job' name' \<Longrightarrow> uuid_text job = uuid_text job' \<and> name = name'"
  by (simp add: partial_name_def append_eq_append_conv uuid_text_length)

lemma staged_components:
  assumes "staged_output_path out job = Inr work"
  obtains name dir where "file_name out = Some name" and "path_components out = dir @ [NormalC name]"
    and "path_components work = dir @ [NormalC (partial_name job name)]"
proof -
  obtain name where name: "file_name out = Some name"
    and work: "work = with_file_name out (partial_name job name)"
    using assms by (auto simp: staged_output_path_def partial_name_def)
  have parts: "path_components out \<noteq> []" "last (path_components out) = NormalC name" "slashless name"
    using file_name_component [OF name] by auto
  define dir where "dir = butlast (path_components out)"
  have out: "path_components out = dir @ [NormalC name]"
    using append_butlast_last_id [OF parts(1)] parts(2) by (simp add: dir_def)
  have d: "parent out = Some (path_text dir)" unfolding parent_def Let_def dir_def using parts by simp
  have "path_components (path_join (path_text dir) (partial_name job name))
      = butlast (path_components out) @ [NormalC (partial_name job name)]"
    by (rule with_name_components [OF d]) (simp_all add: partial_name_simps parts(3))
  then have "path_components work = dir @ [NormalC (partial_name job name)]"
    by (simp add: work with_file_name_def d out)
  then show ?thesis using that name out by blast
qed

lemma staged_not_output:
  assumes "staged_output_path out job = Inr work"
  shows "\<not> below work out" "\<not> below out work"
proof -
  obtain name dir where name: "file_name out = Some name"
    and out: "path_components out = dir @ [NormalC name]"
    and work: "path_components work = dir @ [NormalC (partial_name job name)]"
    using staged_components [OF assms] .
  have nonempty: "out \<noteq> []" "work \<noteq> []"
    using file_name_component [OF name] work by (auto simp: path_components_eq kept_parts_def starts_with_slash)
  show "\<not> below work out" using below_components [of work out] nonempty out work partial_name_simps(5) [of job name] partial_name_simps(5) [of job name, symmetric] by auto
  show "\<not> below out work" using below_components [of out work] nonempty out work partial_name_simps(5) [of job name] partial_name_simps(5) [of job name, symmetric] by auto
qed

text \<open>
  Staged paths are private siblings. The staged path of a job lies in the directory of the
  output, is neither the output nor above or below it, and determines both the job and the name
  of the output: two jobs, or two outputs of one directory, never share a staged path.
\<close>

theorem staged_paths_are_private:
  assumes "staged_output_path out job = Inr work" and "job < 2 ^ 128" and "job' < 2 ^ 128"
  shows "parent work = parent out \<and> \<not> below work out \<and> \<not> below out work
    \<and> (staged_output_path out' job' = Inr work \<longrightarrow>
         job' = job \<and> path_components out' = path_components out)"
proof -
  obtain name dir where out: "path_components out = dir @ [NormalC name]"
    and work: "path_components work = dir @ [NormalC (partial_name job name)]"
    using staged_components [OF assms(1)] .
  have "parent work = parent out"
    unfolding parent_def Let_def out work by simp
  moreover have "job' = job \<and> path_components out' = path_components out"
    if other: "staged_output_path out' job' = Inr work"
  proof -
    obtain name' dir' where out': "path_components out' = dir' @ [NormalC name']"
      and work': "path_components work = dir' @ [NormalC (partial_name job' name')]"
      using staged_components [OF other] .
    have "dir = dir'" "partial_name job name = partial_name job' name'" using work work' by simp_all
    then show ?thesis
      using partial_name_inj uuid_text_inj [OF assms(3,2)] out out' by metis
  qed
  ultimately show ?thesis using staged_not_output [OF assms(1)] by blast
qed

section \<open>Recovery\<close>

lemma remove_staged_path_effect:
  assumes "removal_works W" and "remove_staged_path W p f = (r, f')"
  shows "(\<forall>q. \<not> below p q \<longrightarrow> f' q = f q) \<and> (\<forall>t. f p = Some (Link t) \<longrightarrow> f' = f \<and> (\<exists>e. r = Inl e))
    \<and> (\<forall>b. r = Inr b \<longrightarrow> f' p = None \<and> (b \<longleftrightarrow> f p \<noteq> None))"
  using assms
  by (auto simp: remove_staged_path_def remove_path_def removal_works_def remove_tree_def
      split: option.splits node.splits)

lemma remove_staged_paths_effect:
  assumes "removal_works W" and "remove_staged_paths W b ps f = (r, f')"
  shows "f' \<subseteq>\<^sub>m f \<and> (\<forall>q. (\<forall>p \<in> set ps. \<not> below p q) \<longrightarrow> f' q = f q)
    \<and> (\<forall>b'. r = Inr b' \<longrightarrow> (\<forall>p \<in> set ps. f' p = None) \<and> (b' \<longleftrightarrow> b \<or> f' \<noteq> f))
    \<and> (\<forall>p \<in> set ps. \<forall>t. f p = Some (Link t) \<longrightarrow> (\<forall>q \<in> set ps. below q p \<longrightarrow> q = p) \<longrightarrow>
        f' p = f p \<and> (\<exists>e. r = Inl e))"
  using assms(2)
proof (induction ps arbitrary: b f)
  case (Cons p ps)
  obtain x g where one: "remove_staged_path W p f = (x, g)" by fastforce
  note here = remove_staged_path_effect [OF assms(1) one]
  have sub: "g \<subseteq>\<^sub>m f"
    using one assms(1)
    by (auto simp: remove_staged_path_def remove_path_def removal_works_def remove_tree_def map_le_def
        split: option.splits node.splits if_splits)
  show ?case
  proof (cases x)
    case (Inl e)
    then have "f' = g" "r = Inl e" using Cons.prems one by simp_all
    moreover have "f' p' = f p'" if "f p' = Some (Link t)" "\<forall>q \<in> set (p # ps). below q p' \<longrightarrow> q = p'" for p' t
    proof (cases "p' = p")
      case True
      then show ?thesis using that here \<open>f' = g\<close> by simp
    next
      case False
      then show ?thesis using that here \<open>f' = g\<close> by auto
    qed
    ultimately show ?thesis using here sub by auto
  next
    case (Inr removed)
    then have rest: "remove_staged_paths W (b \<or> removed) ps g = (r, f')" using Cons.prems one by simp
    note tail = Cons.IH [OF rest]
    have gone: "g p = None" "removed \<longleftrightarrow> f p \<noteq> None" using here Inr by auto
    have still: "f' p = None" using tail gone(1) by (metis domIff map_le_def)
    have sub': "f' \<subseteq>\<^sub>m f" using map_le_trans [OF conjunct1 [OF tail] sub] .
    have changed: "f' \<noteq> f \<longleftrightarrow> removed \<or> f' \<noteq> g"
    proof
      assume "f' \<noteq> f"
      moreover have "g = f" if "\<not> removed"
      proof -
        have "f p = None" using that gone by simp
        then show ?thesis using one by (simp add: remove_staged_path_def)
      qed
      ultimately show "removed \<or> f' \<noteq> g" by blast
    next
      assume change: "removed \<or> f' \<noteq> g"
      show "f' \<noteq> f"
      proof (cases removed)
        case True
        then show ?thesis using gone still by auto
      next
        case False
        then have "f p = None" using gone by simp
        then have "g = f" using one by (simp add: remove_staged_path_def)
        then show ?thesis using change False by simp
      qed
    qed
    have link: "f' p' = f p' \<and> (\<exists>e. r = Inl e)"
      if "p' \<in> set (p # ps)" "f p' = Some (Link t)" "\<forall>q \<in> set (p # ps). below q p' \<longrightarrow> q = p'" for p' t
    proof -
      have "p' \<noteq> p" using here Inr that(2) by auto
      then have "g p' = f p'" "p' \<in> set ps" using here that by auto
      then show ?thesis using tail that by auto
    qed
    have outside: "f' q = f q" if "\<forall>p' \<in> set (p # ps). \<not> below p' q" for q
      using tail here that by simp
    have result: "(\<forall>p' \<in> set (p # ps). f' p' = None) \<and> (b' \<longleftrightarrow> b \<or> f' \<noteq> f)" if "r = Inr b'" for b'
      using tail still changed that by auto
    show ?thesis using sub' outside result link by blast
  qed
qed auto

lemma sibling_below:
  assumes "parent out = Some d" and "below (path_join d n) (path_join d m)"
    and "n \<noteq> []" "slashless n" "n \<noteq> ''.''" "n \<noteq> ''..''" and "m \<noteq> []" "slashless m" "m \<noteq> ''.''" "m \<noteq> ''..''"
  shows "n = m"
proof -
  have comps: "path_components (path_join d n) = butlast (path_components out) @ [NormalC n]"
    "path_components (path_join d m) = butlast (path_components out) @ [NormalC m]"
    using with_name_components [OF assms(1)] assms(3-) by simp_all
  moreover have "path_join d n \<noteq> []" using comps(1) by (auto simp: path_components_eq kept_parts_def starts_with_slash)
  ultimately show ?thesis using below_components [OF assms(2)] by auto
qed

lemma candidate_names:
  assumes "staged_output_candidates out job = Inr cs"
  obtains d name where "parent out = Some d"
    and "cs = map (path_join d) [partial_name job name, ''.fw-'' @ take 12 (uuid_digits job),
      ''.fw-chain-'' @ uuid_text job]" and "slashless name"
  using assms file_name_component
  by (auto simp: staged_output_candidates_def staged_output_path_def office_staged_work_path_def
      with_file_name_def partial_name_def split: option.splits)

lemma candidates_apart:
  assumes "staged_output_candidates out job = Inr cs" and "p \<in> set cs" and "q \<in> set cs" and "below q p"
  shows "q = p"
proof -
  obtain d name where d: "parent out = Some d" and name: "slashless name"
    and cs: "cs = map (path_join d) [partial_name job name, ''.fw-'' @ take 12 (uuid_digits job),
      ''.fw-chain-'' @ uuid_text job]" using candidate_names [OF assms(1)] .
  let ?ok = "\<lambda>n. n \<noteq> [] \<and> slashless n \<and> n \<noteq> ''.'' \<and> n \<noteq> ''..''"
  have ok: "?ok (partial_name job name)" "?ok (''.fw-'' @ take 12 (uuid_digits job))" "?ok (''.fw-chain-'' @ uuid_text job)"
    using name partial_name_simps slashless_uuid slashless_parts slashless_digits by simp_all
  have "\<exists>n. x = path_join d n \<and> ?ok n" if "x \<in> set cs" for x
    using that ok unfolding cs list.map list.set by blast
  from this [OF assms(2)] this [OF assms(3)]
  obtain n m where "q = path_join d n" "?ok n" "p = path_join d m" "?ok m" by blast
  then show ?thesis using sibling_below [OF d, of n m] assms(4) by simp
qed

text \<open>
  Recovery removes staged paths and nothing else. Whatever the outcome, the file system after
  the clean-up of a job differs from the one before only at or under the staged candidates next
  to the resolved output, and only by removal. A success means every candidate is gone, and
  reports a removal exactly when something was removed; a link found at a candidate is never
  removed, and makes the clean-up fail.
\<close>

theorem recovery_removes_staged_paths_only:
  assumes "removal_works W" and "resolve_output_identity W out Commit = Inr target"
    and "staged_output_candidates target job = Inr cs" and "\<not> starts_with out ''//''"
    and "cleanup_staged_output W out job f = (r, f')"
  shows "f' \<subseteq>\<^sub>m f \<and> (\<forall>q. f' q \<noteq> f q \<longrightarrow> (\<exists>c \<in> set cs. below c q))
    \<and> (\<forall>b. r = Inr b \<longrightarrow> (\<forall>c \<in> set cs. f' c = None) \<and> (b \<longleftrightarrow> f' \<noteq> f))
    \<and> (\<forall>c \<in> set cs. \<forall>t. f c = Some (Link t) \<longrightarrow> f' c = f c \<and> (\<exists>e. r = Inl e))"
proof -
  have run: "remove_staged_paths W False cs f = (r, f')"
    using assms(2-5) by (simp add: cleanup_staged_output_def ensure_local_filesystem_path_def ensure_def)
  note effect = remove_staged_paths_effect [OF assms(1) run]
  have apart: "\<forall>q \<in> set cs. below q c \<longrightarrow> q = c" if "c \<in> set cs" for c
    using candidates_apart [OF assms(3) that] by blast
  have "\<forall>q. f' q \<noteq> f q \<longrightarrow> (\<exists>c \<in> set cs. below c q)" using effect by metis
  moreover have "\<forall>c \<in> set cs. \<forall>t. f c = Some (Link t) \<longrightarrow> f' c = f c \<and> (\<exists>e. r = Inl e)"
    using effect apart by metis
  moreover have "\<forall>b. r = Inr b \<longrightarrow> (\<forall>c \<in> set cs. f' c = None) \<and> (b \<longleftrightarrow> f' \<noteq> f)" using effect by simp
  ultimately show ?thesis using effect by (intro conjI) simp_all
qed

section \<open>What a success means\<close>

lemma remove_empty_dir_other:
  "removal_works W \<Longrightarrow> \<not> below work q \<Longrightarrow> remove_empty_dir W work f q = f q"
  by (simp add: remove_empty_dir_def removal_works_def remove_tree_other)

text \<open>
  A run that ended in the shared end: what was committed is what was accepted, on a free path.
\<close>

definition committed ::
    "'a lane_world_scheme \<Rightarrow> probe \<Rightarrow> plan \<Rightarrow> string \<Rightarrow> string \<Rightarrow> fs \<Rightarrow> fs \<Rightarrow> bool" where
  "committed W input p out staged f f' \<longleftrightarrow>
     (\<exists>output. inspect_output W staged (others W AtFinish f) = Inr output \<and> output_as_planned input output p)
     \<and> ensure_input_unchanged W AtFinish input Commit = Inr ()
     \<and> (let g = others W AtCommit (others W AtFinish f) in
          g out = None \<and> g staged \<noteq> None \<and> f' out = g staged)"

lemma media_report_ok:
  "report_status (validate_media_output fresh i o' p j) \<noteq> Fail \<Longrightarrow> output_as_planned i o' p"
  by (simp add: report_status_of split: if_splits)

lemma accept_media_ok:
  "accept_media W input p job staged f = Inr report \<Longrightarrow> report_status report \<noteq> Fail \<Longrightarrow>
     \<exists>output. inspect_output W staged f = Inr output \<and> output_as_planned input output p"
  by (auto simp: accept_media_def dest: media_report_ok)

lemma add_check_ok: "report_status (add_check r c) \<noteq> Fail \<Longrightarrow> report_status r \<noteq> Fail"
  by (cases "check_status c") (auto simp: add_check_def worst_def)

lemma accept_ffmpeg_ok:
  assumes "accept_ffmpeg W input p job work final f = Inr report" and "report_status report \<noteq> Fail"
  shows "\<exists>output. inspect_output W work f = Inr output \<and> output_as_planned input output p"
proof -
  obtain out_probe where inspected: "inspect_output W work f = Inr out_probe" using assms(1)
    by (auto simp: accept_ffmpeg_def)
  have "report_status (validate_media_output (fresh_report W) input out_probe p job) \<noteq> Fail"
    using assms inspected add_check_ok
    by (cases "mp4_target_size_bytes p") (auto simp: accept_ffmpeg_def Let_def)
  then show ?thesis using inspected media_report_ok by blast
qed

lemma finish_committed:
  assumes "finish_run W input out work staged accept tidy m1 m2 f = (Inr res, f')"
    and ok: "\<And>g h. accept g = Inr h \<Longrightarrow> report_status h \<noteq> Fail \<Longrightarrow>
      \<exists>output. inspect_output W staged g = Inr output \<and> output_as_planned input output p"
    and tidy: "\<And>g. tidy g out = g out"
  shows "res_output_path res = out \<and> committed W input p out staged f f'"
proof -
  from finish_run_success [OF assms(1)] obtain report g where
    accept: "accept (others W AtFinish f) = Inr report" "report_status report \<noteq> Fail"
    and same: "ensure_input_unchanged W AtFinish input Commit = Inr ()"
    and g: "g = others W AtCommit (others W AtFinish f)" "g out = None" "g staged \<noteq> None"
    and f': "f' = tidy (move_tree staged out g)"
    and res: "res = \<lparr>res_output_path = out, res_report = report_for out report\<rparr>" .
  have "f' out = g staged" by (simp add: f' tidy move_tree_target)
  then show ?thesis using ok [OF accept] same g res by (simp add: committed_def Let_def)
qed

lemma heif_success:
  assumes "execute_heif_plan W input p ffprobe job out work f = (Inr res, f')"
  shows "\<exists>g. \<exists>staged \<in> {path_join work ''output.jpg'', path_join work ''output.png''}.
    finish_run W input out work staged (accept_media W input p job staged) (remove_empty_dir W work)
      ''HEIC output failed required validation''
      ''The HEIC destination appeared while conversion was running'' g = (Inr res, f')"
  using assms
  by (auto simp: execute_heif_plan_def Let_def give_up_def
      split: sum.splits prod.splits if_splits option.splits bool.splits)

lemma magick_success:
  assumes "execute_magick_plan W input p ffprobe job out work f = (Inr res, f')"
  shows "\<exists>g. \<exists>staged \<in> {path_join work ''output.jpg'', path_join work ''output.png'', path_join work ''output.tiff''}.
    finish_run W input out work staged (accept_media W input p job staged) (remove_empty_dir W work)
      ''ImageMagick output failed required validation''
      ''The destination appeared while conversion was running'' g = (Inr res, f')"
  using assms
  by (auto simp: execute_magick_plan_def Let_def give_up_def
      split: sum.splits prod.splits if_splits option.splits bool.splits)

text \<open>
  C21: a successful media run committed what was accepted. When the FFmpeg, libheif or ImageMagick
  lane succeeds, its result names the resolved output; the staged file was inspected after the
  milestone and is as the plan says, the input was still the probed one, and the node at the
  output path is the staged node, moved there while nothing was at that path.
\<close>

theorem successful_media_run_was_accepted:
  assumes "prepare_run W input p job f = Inr (st, out, work)" and "removal_works W"
    and "plan_lane p st \<in> {Ffmpeg, HeifDecode, MagickConvert}"
    and "execute_plan_observed W A other input p ffprobe job f = (Inr res, f')"
  shows "res_output_path res = out \<and> network_policy p = Deny
    \<and> (\<exists>g. \<exists>staged \<in> {work, path_join work ''output.jpg'', path_join work ''output.png'',
          path_join work ''output.tiff''}. committed W input p out staged g f')"
proof -
  have run: "run_lane W A other input p ffprobe job st out work f = (Inr res, f')"
    using assms(1,4) by (simp add: execute_plan_observed_def)
  have plain: "\<not> short_work_path p st" using assms(3)
    by (auto simp: plan_lane_def short_work_path_def Let_def split: if_splits)
  have "staged_output_path out job = Inr work" using assms(1) plain
    by (auto simp: prepare_run_def)
  note apart = staged_not_output [OF this]
  have tidy: "remove_empty_dir W work g out = g out" for g
    using remove_empty_dir_other [OF assms(2) apart(1)] .
  have deny: "network_policy p = Deny" by (rule prepared(3) [OF assms(1)])
  have committed: "res_output_path res = out \<and> committed W input p out staged g f'"
    if "finish_run W input out work staged accept tidy m1 m2 g = (Inr res, f')"
      and "(\<exists>final. accept = accept_ffmpeg W input p job staged final) \<or> accept = accept_media W input p job staged"
      and "tidy = id \<or> tidy = remove_empty_dir W work" for staged accept tidy m1 m2 g
  proof (rule finish_committed [OF that(1)])
    show "\<exists>output. inspect_output W staged h = Inr output \<and> output_as_planned input output p"
      if "accept h = Inr r" "report_status r \<noteq> Fail" for h r
      using that accept_ffmpeg_ok accept_media_ok \<open>_ \<or> accept = _\<close> by blast
    show "tidy h out = h out" for h using tidy \<open>tidy = id \<or> _\<close> by auto
  qed
  consider "plan_lane p st = Ffmpeg" | "plan_lane p st = HeifDecode" | "plan_lane p st = MagickConvert"
    using assms(3) by blast
  then show ?thesis
  proof cases
    case 1
    then obtain final g where "finish_run W input out work work (accept_ffmpeg W input p job work final) id
        ''Output failed required validation checks'' ''The destination appeared while the job was running'' g
        = (Inr res, f')"
      using run by (auto simp: run_lane_def execute_ffmpeg_plan_def give_up_def
          split: sum.splits prod.splits if_splits)
    from committed [OF this] show ?thesis using deny by blast
  next
    case 2
    then have "execute_heif_plan W input p ffprobe job out work f = (Inr res, f')"
      using run by (simp add: run_lane_def)
    from heif_success [OF this] show ?thesis using committed deny by blast
  next
    case 3
    then have "execute_magick_plan W input p ffprobe job out work f = (Inr res, f')"
      using run by (simp add: run_lane_def)
    from magick_success [OF this] show ?thesis using committed deny by blast
  qed
qed

end
