(* ===== verification/Lane_Demo.thy ===== *)
theory Lane_Demo
  imports Lane_Commit
begin

text \<open>
  Concrete runs: a clip planned to MP4 in a directory, an engine that writes its last argument,
  and an operating system that does as it is told. They show that the hypotheses of the theorems
  on the lanes can hold together.
\<close>

section \<open>A world\<close>

definition demo_lane_world :: lane_world where
  "demo_lane_world =
     \<lparr>os_remove = (\<lambda>p f. (Done, remove_tree p f)), os_create = (\<lambda>p f. True),
      os_rename = (\<lambda>a b f. True), canonical_dir = Some, current_dir = None,
      list_dir = (\<lambda>p f. Some []), engine_run = (\<lambda>cmd f. (Exited True, f(last cmd \<mapsto> Plain (File 10)))),
      worker_run = (\<lambda>cmd f. (Returned None, f(last cmd \<mapsto> Plain (File 10)))), others = (\<lambda>m f. f),
      is_cancelled = False, observer_error = None,
      identify = (\<lambda>m p. Inr (artifact demo_clip)),
      inspect_output = (\<lambda>p f. Inr (demo_clip
        \<lparr>format := (format demo_clip)\<lparr>format_id := ''mp4''\<rparr>,
         streams := [bare_stream 0 VideoS ''h264'', bare_stream 1 AudioS ''aac'']\<rparr>)),
      fresh_report = 9\<rparr>"

definition demo_lane_plan :: plan where
  "demo_lane_plan =
     (mp4_plan demo_plan_env demo_clip (demo_mp4_request\<lparr>req_output_path := Some ''/d/c.mp4''\<rparr>) demo_ffmpeg)
       \<lparr>plan_hash := ''blake3:d''\<rparr>"

definition demo_lane_step :: plan_step where
  "demo_lane_step = hd (steps demo_lane_plan)"

definition demo_lane_fs :: fs where
  "demo_lane_fs = [''/d'' \<mapsto> Plain Dir]"

definition demo_partial :: string where
  "demo_partial = ''/d/'' @ partial_name 7 ''c.mp4''"

lemma demo_lane_fields [simp]:
  "is_cancelled demo_lane_world = False" "others demo_lane_world m = id"
  "engine_run demo_lane_world cmd f = (Exited True, f(last cmd \<mapsto> Plain (File 10)))"
  "identify demo_lane_world m p = Inr (artifact demo_clip)" "canonical_dir demo_lane_world d = Some d"
  "observer_error demo_lane_world = None"
  by (simp_all add: demo_lane_world_def fun_eq_iff)

lemma demo_lane_orderly: "orderly demo_lane_world work"
  by (auto simp: orderly_def child_ok_def worker_ok_def removal_works_def demo_lane_world_def
      is_file_def resolved_def)

lemma demo_lane_steps:
  "steps demo_lane_plan = [demo_lane_step]" "engine demo_lane_step = demo_ffmpeg"
  "network_policy demo_lane_plan = Deny" "output_path demo_lane_plan = Some ''/d/c.mp4''"
  "argument demo_lane_step ''operation'' = None" "target_format demo_lane_plan = ''mp4''"
  "mp4_target_size_bytes demo_lane_plan = None" "operation_of demo_lane_step = Transcode"
  "constraints demo_lane_plan = [(''preserve_all_streams'', JBool False)]"
  "argument demo_lane_step ''subtitle_mode'' = Some ''drop''"
proof -
  have vc: "video_copy demo_clip (demo_mp4_request\<lparr>req_output_path := x\<rparr>)" for x
    by (simp add: video_copy_def demo_clip_def bare_stream_def streams_of_def demo_mp4_request_def
        default_request_def)
  have ac: "\<not> audio_copy demo_clip"
    by (simp add: audio_copy_def demo_clip_def bare_stream_def streams_of_def)
  have sm: "subtitle_mode demo_clip = ''drop''"
    by (simp add: subtitle_mode_def demo_clip_def bare_stream_def streams_of_def unsupported_subtitles_def)
  show "steps demo_lane_plan = [demo_lane_step]" "engine demo_lane_step = demo_ffmpeg"
    "network_policy demo_lane_plan = Deny" "output_path demo_lane_plan = Some ''/d/c.mp4''"
    "argument demo_lane_step ''operation'' = None" "target_format demo_lane_plan = ''mp4''"
    "mp4_target_size_bytes demo_lane_plan = None" "operation_of demo_lane_step = Transcode"
    "constraints demo_lane_plan = [(''preserve_all_streams'', JBool False)]"
    "argument demo_lane_step ''subtitle_mode'' = Some ''drop''"
    by (simp_all add: demo_lane_plan_def demo_lane_step_def mp4_plan_def one_step_plan_def Let_def
        mp4_target_size_bytes_def argument_def map_of_btree_from mp4_step_arguments_def opt_argument_def
        vc ac sm is_remux_def btree_from_def demo_mp4_request_def default_request_def)
qed

lemma demo_lane_prepared:
  assumes "identify W AtStart ''/d/c.mkv'' = Inr (artifact demo_clip)" and "canonical_dir W ''/d'' = Some ''/d''"
  shows "prepare_run W demo_clip demo_lane_plan 7 demo_lane_fs
    = Inr (demo_lane_step, ''/d/c.mp4'', demo_partial)"
proof -
  have path: "parent ''/d/c.mp4'' = Some ''/d''" "file_name ''/d/c.mp4'' = Some ''c.mp4''" by code_simp+
  have "canonical_path (artifact demo_clip) = ''/d/c.mkv''" by (simp add: demo_clip_def)
  then have same: "ensure_input_unchanged W AtStart demo_clip Execute = Inr ()"
    by (simp add: ensure_input_unchanged_def assms(1) ensure_def)
  have join: "path_join ''/d'' ''c.mp4'' = ''/d/c.mp4''" by code_simp
  have out: "resolve_output_path W demo_lane_plan demo_lane_fs = Inr ''/d/c.mp4''"
    by (simp add: resolve_output_path_def demo_lane_steps ensure_local_filesystem_path_def
        resolve_output_identity_def starts_with_def is_absolute_def path assms(2) join demo_lane_fs_def
        resolved_def ok_or_def ensure_def)
  have partial: "staged_output_path ''/d/c.mp4'' 7 = Inr demo_partial"
    by (simp add: staged_output_path_def path with_file_name_def path_join_def is_absolute_def
        starts_with_def ends_with_def suffix_def demo_partial_def partial_name_def ok_or_def)
  have "\<not> short_work_path demo_lane_plan demo_lane_step"
    by (simp add: short_work_path_def demo_lane_steps demo_ffmpeg_def)
  then show ?thesis
    by (simp add: prepare_run_def enforce_network_policy_def demo_lane_steps out [unfolded demo_lane_fs_def] same partial
        fs_exists_def resolved_def demo_lane_fs_def demo_partial_def ok_or_def ensure_def)
qed

lemma demo_lane_is_ffmpeg: "plan_lane demo_lane_plan demo_lane_step = Ffmpeg"
  by (simp add: plan_lane_def demo_lane_steps demo_ffmpeg_def)

lemma demo_command:
  "\<exists>args. ffmpeg_command demo_clip demo_lane_plan demo_partial None = Inr args \<and> last args = demo_partial"
proof -
  let ?r = "demo_mp4_request\<lparr>req_output_path := Some ''/d/c.mp4''\<rparr>"
  have "plan_mp4_conversion demo_plan_env demo_clip ?r demo_ffmpeg = Inr demo_lane_plan"
    by (simp add: plan_mp4_conversion_def demo_clip_def bare_stream_def streams_of_def
        demo_mp4_request_def default_request_def ensure_def seal_plan_def deterministic_plan_hash_def
        demo_plan_env_def demo_lane_plan_def ok_or_def)
  moreover have "request_in_range ?r" "mp4_settings_ok demo_clip ?r None"
    by (simp_all add: request_in_range_def fits_def mp4_settings_ok_def crf_ok_def preset_ok_def
        bitrate_ok_def video_copy_def streams_of_def demo_clip_def bare_stream_def
        demo_mp4_request_def default_request_def in_range_def)
  ultimately obtain args where "configure_ffmpeg_output demo_lane_plan demo_partial None = Inr args"
    using mp4_accepted by blast
  then show ?thesis
    by (auto simp: ffmpeg_command_def configure_ffmpeg_output_def demo_lane_steps)
qed

lemma demo_run_ends:
  assumes "engine_run W = engine_run demo_lane_world" and "\<not> is_cancelled W"
  shows "execute_ffmpeg_plan W demo_clip demo_lane_plan demo_lane_step 7 ''/d/c.mp4'' demo_partial demo_lane_fs
    = finish_run W demo_clip ''/d/c.mp4'' demo_partial demo_partial
        (accept_ffmpeg W demo_clip demo_lane_plan 7 demo_partial None) id
        ''Output failed required validation checks'' ''The destination appeared while the job was running''
        (demo_lane_fs(demo_partial \<mapsto> Plain (File 10)))"
proof -
  obtain args where args: "ffmpeg_command demo_clip demo_lane_plan demo_partial None = Inr args"
    "last args = demo_partial" using demo_command by blast
  then have "args \<noteq> []" by (auto simp: ffmpeg_command_def)
  then show ?thesis
    by (simp add: execute_ffmpeg_plan_def attempts_of_def demo_lane_steps run_ffmpeg_attempt_def args
        assms is_file_def resolved_def)
qed

section \<open>Instances\<close>

definition refusing_world :: lane_world where
  "refusing_world = demo_lane_world\<lparr>observer_error := Some (execution_failed ''store'')\<rparr>"

lemma refusing_prepared:
  "prepare_run refusing_world demo_clip demo_lane_plan 7 demo_lane_fs
    = Inr (demo_lane_step, ''/d/c.mp4'', demo_partial)"
  by (rule demo_lane_prepared) (simp_all add: refusing_world_def)

lemma refusing_run:
  "execute_plan_observed refusing_world A other demo_clip demo_lane_plan ffprobe 7 demo_lane_fs
    = (Inl (execution_failed ''store''), cleanup_partial refusing_world demo_partial
        (demo_lane_fs(demo_partial \<mapsto> Plain (File 10))))"
proof -
  have "execute_ffmpeg_plan refusing_world demo_clip demo_lane_plan demo_lane_step 7 ''/d/c.mp4''
      demo_partial demo_lane_fs = (Inl (execution_failed ''store''), cleanup_partial refusing_world
        demo_partial (demo_lane_fs(demo_partial \<mapsto> Plain (File 10))))"
    by (subst demo_run_ends) (simp_all add: refusing_world_def demo_lane_world_def finish_run_def give_up_def)
  then show ?thesis
    by (simp add: execute_plan_observed_def refusing_prepared run_lane_def demo_lane_is_ffmpeg)
qed

lemma failed_runs_leave_no_partial_witness:
  "\<forall>A other. \<exists>f'. execute_plan_observed refusing_world A other demo_clip demo_lane_plan demo_ffmpeg 7 demo_lane_fs
      = (Inl (execution_failed ''store''), f') \<and> f' demo_partial = None"
proof (intro allI)
  fix A other
  have orderly: "orderly refusing_world demo_partial"
    using demo_lane_orderly [of demo_partial]
    by (simp add: orderly_def removal_works_def refusing_world_def)
  have free: "demo_lane_fs demo_partial = None"
    by (simp add: demo_lane_fs_def demo_partial_def)
  have "f' demo_partial = None"
    if "execute_plan_observed refusing_world A other demo_clip demo_lane_plan demo_ffmpeg 7 demo_lane_fs
      = (Inl (execution_failed ''store''), f')" for f'
    by (rule failed_runs_leave_no_partial [OF refusing_prepared free orderly _ _ _ that])
       (simp_all add: demo_lane_is_ffmpeg)
  then show "\<exists>f'. execute_plan_observed refusing_world A other demo_clip demo_lane_plan demo_ffmpeg 7 demo_lane_fs
      = (Inl (execution_failed ''store''), f') \<and> f' demo_partial = None"
    using refusing_run by blast
qed

lemma demo_output_accepted:
  "output_as_planned demo_clip (demo_clip
        \<lparr>format := (format demo_clip)\<lparr>format_id := ''mp4''\<rparr>,
         streams := [bare_stream 0 VideoS ''h264'', bare_stream 1 AudioS ''aac'']\<rparr>) demo_lane_plan"
proof -
  have sub: "map_of (arguments demo_lane_step) ''subtitle_mode'' = Some ''drop''"
    using demo_lane_steps(10) by (simp add: argument_def)
  show ?thesis
    unfolding output_as_planned_def
    by (simp add: demo_lane_steps sub plan_operation_def is_image_target_def expected_image_codec_def
        expected_audio_codec_def duration_fits_def expected_duration_def duration_tolerance_def
        count_streams_def stream_count_def Let_def streams_of_def observed_dimensions_def
        expected_dimensions_def first_stream_def demo_clip_def bare_stream_def)
qed

lemma demo_report:
  "\<exists>report. accept_ffmpeg demo_lane_world demo_clip demo_lane_plan 7 demo_partial None f = Inr report
     \<and> report_status report \<noteq> Fail"
  using demo_output_accepted
  by (simp add: accept_ffmpeg_def demo_lane_world_def demo_lane_steps report_status_of)

lemma successful_media_run_was_accepted_witness:
  "\<forall>A other. \<exists>res f'. execute_plan_observed demo_lane_world A other demo_clip demo_lane_plan demo_ffmpeg 7 demo_lane_fs
      = (Inr res, f') \<and> res_output_path res = ''/d/c.mp4''"
proof (intro allI)
  fix A other
  let ?f = "demo_lane_fs(demo_partial \<mapsto> Plain (File 10))"
  have prepared: "prepare_run demo_lane_world demo_clip demo_lane_plan 7 demo_lane_fs
      = Inr (demo_lane_step, ''/d/c.mp4'', demo_partial)"
    by (rule demo_lane_prepared) simp_all
  obtain report where report: "accept_ffmpeg demo_lane_world demo_clip demo_lane_plan 7 demo_partial None ?f
      = Inr report" "report_status report \<noteq> Fail" using demo_report by blast
  have free: "?f ''/d/c.mp4'' = None" by (simp add: demo_lane_fs_def demo_partial_def partial_name_def)
  have "commit_path_no_replace demo_lane_world demo_partial ''/d/c.mp4'' ?f
      = (Inr (), move_tree demo_partial ''/d/c.mp4'' ?f)"
    using free by (simp add: commit_path_no_replace_def rename_path_no_replace_def demo_lane_world_def)
  then have "\<exists>res f'. finish_run demo_lane_world demo_clip ''/d/c.mp4'' demo_partial demo_partial
        (accept_ffmpeg demo_lane_world demo_clip demo_lane_plan 7 demo_partial None) id
        ''Output failed required validation checks'' ''The destination appeared while the job was running'' ?f
      = (Inr res, f')"
    using report free
    by (simp add: finish_run_def ensure_input_unchanged_def ensure_def fs_exists_def resolved_def)
  then obtain res f' where run: "execute_plan_observed demo_lane_world A other demo_clip demo_lane_plan
      demo_ffmpeg 7 demo_lane_fs = (Inr res, f')"
    by (auto simp: execute_plan_observed_def prepared run_lane_def demo_lane_is_ffmpeg demo_run_ends)
  have "removal_works demo_lane_world" using demo_lane_orderly orderly_parts(1) by blast
  from successful_media_run_was_accepted [OF prepared this _ run] run
  show "\<exists>res f'. execute_plan_observed demo_lane_world A other demo_clip demo_lane_plan demo_ffmpeg 7 demo_lane_fs
      = (Inr res, f') \<and> res_output_path res = ''/d/c.mp4''"
    by (auto simp: demo_lane_is_ffmpeg)
qed

definition sized_step :: plan_step where
  "sized_step = demo_lane_step\<lparr>arguments := [(''target_size_bytes'', ''5''), (''video_crf'', ''40'')]\<rparr>"

definition sized_plan :: plan where
  "sized_plan = demo_lane_plan\<lparr>steps := [sized_step]\<rparr>"

lemma target_size_search_is_bounded_witness:
  "\<exists>crfs. attempts_of sized_plan sized_step = Inr crfs \<and> length crfs \<in> {1..4}
     \<and> crfs = map Some (target_size_crf_ladder 40)"
proof -
  have "decimal 5 = ''5''" "decimal 40 = ''40''" by code_simp+
  then have "parse_u64 ''5'' = Some 5" "parse_uint u8_max ''40'' = Some 40"
    using parse_u64_decimal [of 5] parse_uint_decimal [of 40 u8_max]
    by (simp_all add: u64_max_def u8_max_def)
  then have wanted: "mp4_target_size_bytes sized_plan = Some 5" and start: "video_crf_argument sized_step = Inr 40"
    by (simp_all add: mp4_target_size_bytes_def sized_plan_def sized_step_def argument_def
        demo_lane_steps video_crf_argument_def ok_or_def ensure_def)
  then have "attempts_of sized_plan sized_step = Inr (map Some (target_size_crf_ladder 40))"
    by (simp add: attempts_of_def)
  from target_size_search_is_bounded [OF this wanted start, of demo_lane_world demo_clip "''/d/p''" "\<lambda>_. None"] this
  show ?thesis by blast
qed

definition demo_heic :: probe where
  "demo_heic = demo_clip\<lparr>format := (format demo_clip)\<lparr>format_id := ''heic'', kind_of := Image\<rparr>\<rparr>"

definition demo_heif_dec :: engine_identity where
  "demo_heif_dec = demo_ffmpeg\<lparr>engine_id := ''heif-dec''\<rparr>"

lemma planned_fallbacks_can_be_run_witness:
  "\<exists>p st target args. plan_heic_conversion demo_plan_env demo_heic
       (default_request\<lparr>req_target_format := ''png''\<rparr>) demo_heif_dec = Inr p
     \<and> heif_checks p (demo_ffmpeg\<lparr>engine_id := ''ffprobe''\<rparr>) = Inr (st, target)
     \<and> workspace_quality st target ''--quality'' = Inr args"
proof -
  have "to_ascii_lowercase (trim_dots (trim ''png'')) = ''png''" by code_simp
  then have "\<exists>p. plan_heic_conversion demo_plan_env demo_heic
      (default_request\<lparr>req_target_format := ''png''\<rparr>) demo_heif_dec = Inr p"
    by (simp add: plan_heic_conversion_def demo_heic_def demo_heif_dec_def default_request_def
        requested_target_def heic_target_def image_quality_def seal_plan_def
        deterministic_plan_hash_def demo_plan_env_def ok_or_def ensure_def)
  then obtain p where p: "plan_heic_conversion demo_plan_env demo_heic
      (default_request\<lparr>req_target_format := ''png''\<rparr>) demo_heif_dec = Inr p" by blast
  have lower: "to_ascii_lowercase (format_id (format demo_heic)) = format_id (format demo_heic)"
  proof -
    have "to_ascii_lowercase ''heic'' = ''heic''" by code_simp
    then show ?thesis by (simp add: demo_heic_def)
  qed
  have "engine_id (demo_ffmpeg\<lparr>engine_id := ''ffprobe''\<rparr>) = ''ffprobe''" by simp
  from planned_fallbacks_can_be_run [OF this lower, THEN conjunct1] p show ?thesis by blast
qed

definition breaking_world :: lane_world where
  "breaking_world = demo_lane_world\<lparr>worker_run := (\<lambda>cmd f.
     (Returned (Some (execution_failed ''link'')), f(''/d/p'' \<mapsto> Plain (File 3))))\<rparr>"

lemma failed_repack_leaves_partial_witness:
  "\<forall>A. \<exists>f'. execute_archive_plan breaking_world A demo_clip (demo_lane_plan\<lparr>steps := [demo_lane_step
       \<lparr>arguments := [(''source_format'', ''tar.gz''), (''target_format'', ''zip'')]\<rparr>]\<rparr>)
       7 ''/d/o'' ''/d/p'' demo_lane_fs = (Inl (execution_failed ''link''), f')
     \<and> f' ''/d/p'' = Some (Plain (File 3))"
proof
  fix A
  let ?st = "demo_lane_step\<lparr>arguments := [(''source_format'', ''tar.gz''), (''target_format'', ''zip'')]\<rparr>"
  have "execute_archive_plan breaking_world A demo_clip (demo_lane_plan\<lparr>steps := [?st]\<rparr>) 7 ''/d/o'' ''/d/p''
      demo_lane_fs = (Inl (execution_failed ''link''), demo_lane_fs(''/d/p'' \<mapsto> Plain (File 3)))"
    by (rule failed_repack_leaves_partial [of _ ?st "''tar.gz''" "''zip''", THEN conjunct1])
       (simp_all add: argument_def archive_formats_def breaking_world_def)
  then show "\<exists>f'. execute_archive_plan breaking_world A demo_clip (demo_lane_plan\<lparr>steps := [?st]\<rparr>)
      7 ''/d/o'' ''/d/p'' demo_lane_fs = (Inl (execution_failed ''link''), f')
      \<and> f' ''/d/p'' = Some (Plain (File 3))" by simp
qed

lemma demo_staged: "staged_output_path ''/d/c.mp4'' 7 = Inr demo_partial"
proof -
  have "parent ''/d/c.mp4'' = Some ''/d''" "file_name ''/d/c.mp4'' = Some ''c.mp4''" by code_simp+
  then show ?thesis
    by (simp add: staged_output_path_def with_file_name_def path_join_def is_absolute_def
        starts_with_def ends_with_def suffix_def demo_partial_def partial_name_def ok_or_def)
qed

lemma staged_paths_are_private_witness:
  "parent demo_partial = parent ''/d/c.mp4'' \<and> \<not> below demo_partial ''/d/c.mp4''
     \<and> staged_output_path ''/d/c.mp4'' 8 \<noteq> Inr demo_partial"
proof -
  have small: "(7::nat) < 2 ^ 128" "(8::nat) < 2 ^ 128" by simp_all
  show ?thesis using staged_paths_are_private [OF demo_staged small, of "''/d/c.mp4''"] by auto
qed

lemma recovery_removes_staged_paths_only_witness:
  "\<exists>r f'. cleanup_staged_output demo_lane_world ''/d/c.mp4'' 7
        (demo_lane_fs(demo_partial \<mapsto> Plain (File 10))) = (r, f')
     \<and> f' \<subseteq>\<^sub>m demo_lane_fs(demo_partial \<mapsto> Plain (File 10))"
proof -
  have path: "parent ''/d/c.mp4'' = Some ''/d''" "file_name ''/d/c.mp4'' = Some ''c.mp4''"
    "path_join ''/d'' ''c.mp4'' = ''/d/c.mp4''" by code_simp+
  have works: "removal_works demo_lane_world" using demo_lane_orderly orderly_parts(1) by blast
  have target: "resolve_output_identity demo_lane_world ''/d/c.mp4'' Commit = Inr ''/d/c.mp4''"
    by (simp add: resolve_output_identity_def is_absolute_def starts_with_def path ok_or_def)
  have "\<exists>cs. staged_output_candidates ''/d/c.mp4'' 7 = Inr cs"
    by (simp add: staged_output_candidates_def demo_staged office_staged_work_path_def path ok_or_def)
  then obtain cs where cs: "staged_output_candidates ''/d/c.mp4'' 7 = Inr cs" by blast
  have local: "\<not> starts_with ''/d/c.mp4'' ''//''" by (simp add: starts_with_def)
  obtain r f' where run: "cleanup_staged_output demo_lane_world ''/d/c.mp4'' 7
      (demo_lane_fs(demo_partial \<mapsto> Plain (File 10))) = (r, f')" by fastforce
  have "f' \<subseteq>\<^sub>m demo_lane_fs(demo_partial \<mapsto> Plain (File 10))"
    by (rule recovery_removes_staged_paths_only [OF works target cs local run, THEN conjunct1])
  with run show ?thesis by (intro exI conjI)
qed

end
