(* ===== verification/Rust_Text.thy ===== *)
theory Rust_Text
  imports Rust_Paths
begin

text \<open>
  More of Rust's \<open>str\<close>: lines, slices, decoding bytes as UTF-8, the characters of a text, splitting
  once, joining and searching. A slice that panics is \<open>None\<close>.
\<close>

section \<open>Text and its lines\<close>

abbreviation newline :: char where "newline \<equiv> CHR 0x0A"
abbreviation carriage_return :: char where "carriage_return \<equiv> CHR 0x0D"

text \<open>\<open>str::split_inclusive('\n')\<close>.\<close>

fun split_inclusive :: "string \<Rightarrow> string list" where
  "split_inclusive [] = []"
| "split_inclusive (c # s) =
     (if c = newline then [c] # split_inclusive s
      else (case split_inclusive s of [] \<Rightarrow> [[c]] | p # ps \<Rightarrow> (c # p) # ps))"

text \<open>The text of a line: without \<open>\n\<close>, then without one \<open>\r\<close>; \<open>str::lines\<close> cuts the same.\<close>

definition line_text :: "string \<Rightarrow> string" where
  "line_text p =
     (if p \<noteq> [] \<and> last p = newline
      then (let l = butlast p
            in if l \<noteq> [] \<and> last l = carriage_return then butlast l else l)
      else p)"

definition lines_of :: "string \<Rightarrow> string list" where
  "lines_of s = map line_text (split_inclusive s)"

definition ends_line :: "string \<Rightarrow> bool" where
  "ends_line a = (a = [] \<or> last a = newline)"

lemma concat_split_inclusive [simp]: "concat (split_inclusive s) = s"
  by (induction s) (auto split: list.splits)

lemma split_inclusive_Nil_iff [simp]: "split_inclusive s = [] \<longleftrightarrow> s = []"
  by (cases s) (auto split: list.splits)

lemma split_inclusive_pieces: "p \<in> set (split_inclusive s) \<Longrightarrow> p \<noteq> []"
  by (induction s arbitrary: p) (auto split: list.splits if_splits)

lemma split_inclusive_append:
  "ends_line a \<Longrightarrow> split_inclusive (a @ b) = split_inclusive a @ split_inclusive b"
  by (induction a) (auto simp: ends_line_def split: list.splits if_splits)

lemma split_inclusive_line:
  "newline \<notin> set a \<Longrightarrow> split_inclusive (a @ newline # b) = (a @ [newline]) # split_inclusive b"
  by (induction a) auto

section \<open>UTF-8 and slices\<close>

definition char_boundary :: "string \<Rightarrow> nat \<Rightarrow> bool" where
  "char_boundary s i = (i = 0 \<or> i = length s \<or> (i < length s \<and> \<not> is_continuation (s ! i)))"

text \<open>\<open>&text[a..b]\<close>: \<open>None\<close> is the panic.\<close>

definition str_slice :: "string \<Rightarrow> nat \<Rightarrow> nat \<Rightarrow> string option" where
  "str_slice s a b =
     (if a \<le> b \<and> b \<le> length s \<and> char_boundary s a \<and> char_boundary s b
      then Some (take (b - a) (drop a s)) else None)"

text \<open>\<open>std::str::from_utf8\<close>: the length of the character a byte sequence starts with, zero for none.\<close>

definition byte_in :: "nat \<Rightarrow> nat \<Rightarrow> char \<Rightarrow> bool" where
  "byte_in lo hi c = (lo \<le> byte_of c \<and> byte_of c \<le> hi)"

fun utf8_char_len :: "string \<Rightarrow> nat" where
  "utf8_char_len (a # b # c # d # s) =
     (if byte_of a < 128 then 1
      else if byte_in 194 223 a \<and> is_continuation b then 2
      else if (byte_of a = 224 \<and> byte_in 160 191 b \<or> byte_in 225 236 a \<and> is_continuation b
               \<or> byte_of a = 237 \<and> byte_in 128 159 b \<or> byte_in 238 239 a \<and> is_continuation b)
              \<and> is_continuation c then 3
      else if (byte_of a = 240 \<and> byte_in 144 191 b \<or> byte_in 241 243 a \<and> is_continuation b
               \<or> byte_of a = 244 \<and> byte_in 128 143 b)
              \<and> is_continuation c \<and> is_continuation d then 4
      else 0)"
| "utf8_char_len [a, b, c] =
     (if byte_of a < 128 then 1
      else if byte_in 194 223 a \<and> is_continuation b then 2
      else if (byte_of a = 224 \<and> byte_in 160 191 b \<or> byte_in 225 236 a \<and> is_continuation b
               \<or> byte_of a = 237 \<and> byte_in 128 159 b \<or> byte_in 238 239 a \<and> is_continuation b)
              \<and> is_continuation c then 3
      else 0)"
| "utf8_char_len [a, b] =
     (if byte_of a < 128 then 1 else if byte_in 194 223 a \<and> is_continuation b then 2 else 0)"
| "utf8_char_len [a] = (if byte_of a < 128 then 1 else 0)"
| "utf8_char_len [] = 0"

function from_utf8 :: "string \<Rightarrow> bool" where
  "from_utf8 s =
     (if s = [] then True
      else if utf8_char_len s = 0 then False else from_utf8 (drop (utf8_char_len s) s))"
  by pat_completeness auto
termination
  by (relation "measure length") (auto simp: neq_Nil_conv)

declare from_utf8.simps [simp del]

section \<open>Splitting, joining, searching\<close>

fun split_once :: "char \<Rightarrow> string \<Rightarrow> (string \<times> string) option" where
  "split_once c [] = None"
| "split_once c (d # s) =
     (if d = c then Some ([], s) else map_option (\<lambda>(a, b). (d # a, b)) (split_once c s))"

fun find_map :: "('a \<Rightarrow> 'b option) \<Rightarrow> 'a list \<Rightarrow> 'b option" where
  "find_map f [] = None"
| "find_map f (x # xs) = (case f x of None \<Rightarrow> find_map f xs | Some y \<Rightarrow> Some y)"

text \<open>\<open>str::find\<close> and \<open>str::rfind\<close>: the byte where the first and the last occurrence start.\<close>

fun find_str :: "string \<Rightarrow> string \<Rightarrow> nat option" where
  "find_str [] p = (if p = [] then Some 0 else None)"
| "find_str (c # s) p = (if prefix p (c # s) then Some 0 else map_option Suc (find_str s p))"

fun rfind_str :: "string \<Rightarrow> string \<Rightarrow> nat option" where
  "rfind_str [] p = (if p = [] then Some 0 else None)"
| "rfind_str (c # s) p =
     (case rfind_str s p of Some n \<Rightarrow> Some (Suc n) | None \<Rightarrow> if prefix p (c # s) then Some 0 else None)"

lemma find_str_Some:
  "find_str s p = Some n \<Longrightarrow> prefix p (drop n s) \<and> n + length p \<le> length s"
  by (induction s p arbitrary: n rule: find_str.induct)
    (auto split: if_splits dest: prefix_length_le)

lemma find_str_None: "find_str s p = None \<longleftrightarrow> \<not> contains_str s p"
  by (induction s p rule: find_str.induct) auto

text \<open>\<open>str::replace\<close> of a single character.\<close>

definition replace_char :: "char \<Rightarrow> string \<Rightarrow> string \<Rightarrow> string" where
  "replace_char c t s = concat (map (\<lambda>d. if d = c then t else [d]) s)"

section \<open>Characters\<close>

text \<open>The characters of a text, each the bytes that encode it.\<close>

function chars_of :: "string \<Rightarrow> string list" where
  "chars_of s =
     (if s = [] then []
      else take (max 1 (utf8_char_len s)) s # chars_of (drop (max 1 (utf8_char_len s)) s))"
  by pat_completeness auto
termination
  by (relation "measure length") (auto simp: neq_Nil_conv)

declare chars_of.simps [simp del]

lemma concat_chars_of [simp]: "concat (chars_of s) = s"
  by (induction s rule: chars_of.induct) (subst chars_of.simps, auto)

lemma chars_of_nonempty: "c \<in> set (chars_of s) \<Longrightarrow> c \<noteq> []"
proof (induction s rule: chars_of.induct)
  case (1 s)
  then show ?case using chars_of.simps [of s] by (cases "s = []") auto
qed

text \<open>
  \<open>String::from_utf8_lossy\<close>: every maximal part of a sequence that starts no character becomes
  U+FFFD.
\<close>

fun broken_len :: "string \<Rightarrow> nat" where
  "broken_len (a # b # c # s) =
     (if byte_of a = 240 \<and> byte_in 144 191 b \<or> byte_in 241 243 a \<and> is_continuation b
         \<or> byte_of a = 244 \<and> byte_in 128 143 b
      then (if is_continuation c then 3 else 2)
      else if byte_of a = 224 \<and> byte_in 160 191 b \<or> byte_in 225 236 a \<and> is_continuation b
         \<or> byte_of a = 237 \<and> byte_in 128 159 b \<or> byte_in 238 239 a \<and> is_continuation b
      then 2 else 1)"
| "broken_len [a, b] =
     (if byte_of a = 240 \<and> byte_in 144 191 b \<or> byte_in 241 243 a \<and> is_continuation b
         \<or> byte_of a = 244 \<and> byte_in 128 143 b
         \<or> byte_of a = 224 \<and> byte_in 160 191 b \<or> byte_in 225 236 a \<and> is_continuation b
         \<or> byte_of a = 237 \<and> byte_in 128 159 b \<or> byte_in 238 239 a \<and> is_continuation b
      then 2 else 1)"
| "broken_len s = 1"

lemma broken_len_pos: "broken_len s \<noteq> 0"
  by (induction s rule: broken_len.induct) auto

function from_utf8_lossy :: "string \<Rightarrow> string" where
  "from_utf8_lossy s =
     (if s = [] then []
      else if utf8_char_len s = 0
           then [CHR 0xEF, CHR 0xBF, CHR 0xBD] @ from_utf8_lossy (drop (broken_len s) s)
           else take (utf8_char_len s) s @ from_utf8_lossy (drop (utf8_char_len s) s))"
  by pat_completeness auto
termination
  by (relation "measure length") (auto simp: broken_len_pos intro!: diff_less gr0I)

declare from_utf8_lossy.simps [simp del]

lemma from_utf8_lossy_valid: "from_utf8 s \<Longrightarrow> from_utf8_lossy s = s"
proof (induction s rule: from_utf8.induct)
  case (1 s)
  then show ?case
    using from_utf8.simps [of s] from_utf8_lossy.simps [of s]
    by (cases "s = []"; cases "utf8_char_len s = 0") auto
qed

end
