(* ===== verification/Mbox.thy ===== *)
theory Mbox
  imports Planner Rust_Text
begin

text \<open>
  The reading half of \<open>crates/core/src/mbox.rs\<close>: a mailbox file is cut into its mails. A mail
  that declares a \<open>Content-Length\<close> is measured, any other one ends before the next line that
  starts with \<open>From \<close> after a blank line. String slices of Rust panic outside the text and inside
  a character: the result of the splitter is \<open>None\<close> there.
\<close>

section \<open>Lines and where they start\<close>

record line_span =
  ls_start :: nat
  ls_text :: string

fun spans_from :: "nat \<Rightarrow> string list \<Rightarrow> line_span list" where
  "spans_from n [] = []"
| "spans_from n (p # ps) = \<lparr>ls_start = n, ls_text = line_text p\<rparr> # spans_from (n + length p) ps"

definition split_line_spans :: "string \<Rightarrow> line_span list" where
  "split_line_spans s = spans_from 0 (split_inclusive s)"

section \<open>Headers and envelopes\<close>

definition header_length :: "string \<Rightarrow> nat option" where
  "header_length line =
     (case split_once (CHR '':'') line of
        None \<Rightarrow> None
      | Some (name, v) \<Rightarrow>
          if to_ascii_lowercase (trim name) = ''content-length'' then parse_u64 (trim v) else None)"

definition content_length_of :: "string list \<Rightarrow> nat option" where
  "content_length_of header = find_map header_length header"

definition is_blank :: "string \<Rightarrow> bool" where
  "is_blank s = (trim s = [])"

definition is_envelope :: "string \<Rightarrow> bool" where
  "is_envelope s = starts_with s ''From ''"

text \<open>The heuristic cuts: a \<open>From \<close> line at the start of the file or after a blank line.\<close>

definition mail_starts :: "line_span list \<Rightarrow> nat list" where
  "mail_starts ls =
     filter (\<lambda>i. is_envelope (ls_text (ls ! i)) \<and> (i = 0 \<or> is_blank (ls_text (ls ! (i - 1)))))
       [0..<length ls]"

section \<open>Cutting one mail\<close>

datatype message_span = Scanned "string list" | Measured "string list" string

definition envelope_error :: anole_error where
  "envelope_error = anole_error_new InputInvalid Inspect
     ''The file does not start with an mbox \"From \" envelope line''"

definition length_mismatch :: anole_error where
  "length_mismatch = anole_error_new InputInvalid Inspect
     ''A mail declares Content-Length {} bytes but the stored body does not match''"

definition trim_line_end :: "string \<Rightarrow> string" where
  "trim_line_end s = rev (dropWhile (\<lambda>c. c = newline \<or> c = carriage_return) (rev s))"

text \<open>
  After a measured body: only blank text, or the envelope of the next mail at the start of a line
  (\<open>partition_point\<close> on the ascending starts is the number of smaller ones).
\<close>

fun scan_after :: "line_span list \<Rightarrow> nat \<Rightarrow> nat \<Rightarrow> string list \<Rightarrow> anole_error + nat option" where
  "scan_after ls body_end offset [] = Inr None"
| "scan_after ls body_end offset (seg # segs) =
     (if is_blank seg then scan_after ls body_end (offset + length seg) segs
      else if \<not> is_envelope (trim_line_end seg) then Inl length_mismatch
      else (let target = body_end + offset;
                aligned = length (takeWhile (\<lambda>l. ls_start l < target) ls)
            in if aligned \<ge> length ls \<or> ls_start (ls ! aligned) \<noteq> target
                  \<or> \<not> is_envelope (ls_text (ls ! aligned))
               then Inl length_mismatch else Inr (Some aligned)))"

text \<open>
  One turn of the loop at the line \<open>cursor\<close>, \<open>hints\<close> being the heuristic cuts after it: whether
  the mail was measured, the mail if there is one, and the line of the next envelope. A release
  build wraps \<open>body_start + declared\<close> at 64 bits.
\<close>

definition header_end_of :: "line_span list \<Rightarrow> nat \<Rightarrow> nat \<Rightarrow> nat option" where
  "header_end_of ls cursor limit =
     find (\<lambda>i. is_blank (ls_text (ls ! i))) [cursor + 1..<limit]"

definition header_lines :: "line_span list \<Rightarrow> nat \<Rightarrow> nat \<Rightarrow> string list" where
  "header_lines ls cursor e = map (\<lambda>j. ls_text (ls ! j)) [cursor + 1..<e]"

definition body_start_of :: "string \<Rightarrow> line_span list \<Rightarrow> nat \<Rightarrow> nat" where
  "body_start_of s ls e = (if e + 1 < length ls then ls_start (ls ! (e + 1)) else length s)"

definition measured_mail ::
    "string \<Rightarrow> line_span list \<Rightarrow> nat \<Rightarrow> nat \<Rightarrow> nat
     \<Rightarrow> (anole_error + bool \<times> message_span list \<times> nat option) option" where
  "measured_mail s ls cursor e declared =
     (let body_start = body_start_of s ls e;
          body_end = (body_start + declared) mod 2 ^ 64
      in if body_end > length s then Some (Inl length_mismatch)
         else case str_slice s body_end (length s) of
                None \<Rightarrow> None
              | Some rest \<Rightarrow>
                  (case scan_after ls body_end 0 (split_inclusive rest) of
                     Inl er \<Rightarrow> Some (Inl er)
                   | Inr next \<Rightarrow>
                       map_option
                         (\<lambda>body. Inr (True, [Measured (header_lines ls cursor e) body], next))
                         (str_slice s body_start body_end)))"

definition scanned_mail ::
    "line_span list \<Rightarrow> nat \<Rightarrow> nat \<Rightarrow> nat option \<Rightarrow> bool \<times> message_span list \<times> nat option" where
  "scanned_mail ls cursor limit next =
     (let collected = map ls_text (drop (cursor + 1) (take limit ls))
      in if collected = [] then (False, [], None) else (False, [Scanned collected], next))"

definition mail_at ::
    "string \<Rightarrow> nat list \<Rightarrow> nat
     \<Rightarrow> (anole_error + bool \<times> message_span list \<times> nat option) option" where
  "mail_at s hints cursor =
     (let ls = split_line_spans s;
          next = (case hints of [] \<Rightarrow> None | h # _ \<Rightarrow> Some h);
          limit = (case next of None \<Rightarrow> length ls | Some h \<Rightarrow> h);
          header_end = header_end_of ls cursor limit
      in case (header_end,
               Option.bind header_end (\<lambda>e. content_length_of (header_lines ls cursor e))) of
           (Some e, Some declared) \<Rightarrow> measured_mail s ls cursor e declared
         | _ \<Rightarrow> Some (Inr (scanned_mail ls cursor limit next)))"

section \<open>Pieces and line starts\<close>

lemma length_spans_from [simp]: "length (spans_from n ps) = length ps"
  by (induction ps arbitrary: n) auto

lemma spans_from_append:
  "spans_from n (ps @ qs) = spans_from n ps @ spans_from (n + length (concat ps)) qs"
  by (induction ps arbitrary: n) (auto simp: add.assoc)

lemma spans_from_nth:
  "i < length ps \<Longrightarrow>
     spans_from n ps ! i = \<lparr>ls_start = n + length (concat (take i ps)), ls_text = line_text (ps ! i)\<rparr>"
proof (induction ps arbitrary: n i)
  case (Cons p ps)
  then show ?case by (cases i) auto
qed simp

lemma length_concat_take:
  "i < j \<Longrightarrow> j \<le> length ps \<Longrightarrow> [] \<notin> set ps
     \<Longrightarrow> length (concat (take i ps)) < length (concat (take j ps))"
proof (induction ps arbitrary: i j)
  case (Cons p ps)
  then show ?case by (cases i; cases j) auto
qed simp

lemma length_split_line_spans [simp]: "length (split_line_spans s) = length (split_inclusive s)"
  by (simp add: split_line_spans_def)

lemma split_line_spans_nth:
  "i < length (split_inclusive s) \<Longrightarrow>
     split_line_spans s ! i =
       \<lparr>ls_start = length (concat (take i (split_inclusive s))),
        ls_text = line_text (split_inclusive s ! i)\<rparr>"
  by (simp add: split_line_spans_def spans_from_nth)

lemma line_starts_ascend:
  assumes "j < length (split_line_spans s)" and "i < length (split_line_spans s)"
  shows "ls_start (split_line_spans s ! i) < ls_start (split_line_spans s ! j) \<longleftrightarrow> i < j"
proof -
  have "[] \<notin> set (split_inclusive s)" using split_inclusive_pieces by blast
  then have "a < b \<Longrightarrow> b < length (split_inclusive s) \<Longrightarrow>
      ls_start (split_line_spans s ! a) < ls_start (split_line_spans s ! b)" for a b
    using length_concat_take [of a b "split_inclusive s"] by (simp add: split_line_spans_nth)
  then show ?thesis using assms by (metis length_split_line_spans linorder_neqE_nat order_less_asym)
qed

lemma line_start_less:
  assumes "i < length (split_line_spans s)"
  shows "ls_start (split_line_spans s ! i) < length s"
proof -
  have "[] \<notin> set (split_inclusive s)" using split_inclusive_pieces by blast
  then have "length (concat (take i (split_inclusive s)))
      < length (concat (take (length (split_inclusive s)) (split_inclusive s)))"
    using assms by (intro length_concat_take) auto
  then show ?thesis using assms by (simp add: split_line_spans_nth)
qed

section \<open>The loop over the mails\<close>

lemma scan_after_next:
  "scan_after ls b n segs = Inr (Some c) \<Longrightarrow> c < length ls \<and> b \<le> ls_start (ls ! c)"
  by (induction segs arbitrary: n) (auto simp: Let_def split: if_splits)

lemma next_mail_later:
  assumes "mail_at s hints cursor = Some (Inr (m, new, Some c))" and "hints = [] \<or> cursor < hd hints"
  shows "cursor < c \<and> cursor < length (split_line_spans s)"
proof -
  let ?ls = "split_line_spans s"
  have scanned: "cursor < c \<and> cursor < length ?ls"
    if "scanned_mail ?ls cursor l (case hints of [] \<Rightarrow> None | h # _ \<Rightarrow> Some h) = (m, new, Some c)" for l
    using that assms(2) by (auto simp: scanned_mail_def Let_def split: if_splits list.splits)
  have measured: "cursor < c \<and> cursor < length ?ls"
    if e: "header_end_of ?ls cursor l = Some e" and "measured_mail s ?ls cursor e d = Some (Inr (m, new, Some c))"
    for l e d
  proof -
    let ?b = "body_start_of s ?ls e" and ?t = "(body_start_of s ?ls e + d) mod 2 ^ 64"
    from that(2) obtain rest body where scan: "scan_after ?ls ?t 0 (split_inclusive rest) = Inr (Some c)"
      and slice: "str_slice s ?b ?t = Some body"
      by (auto simp: measured_mail_def Let_def split: if_splits option.splits sum.splits)
    from slice have "?b \<le> ?t" by (simp add: str_slice_def split: if_splits)
    with scan_after_next [OF scan] have c: "c < length ?ls" "?b \<le> ls_start (?ls ! c)" by auto
    have "cursor < e" using e by (auto simp: header_end_of_def find_Some_iff)
    have "e + 1 < length ?ls"
    proof (rule ccontr)
      assume "\<not> ?thesis"
      then have "?b = length s" by (simp add: body_start_of_def)
      with c line_start_less [OF c(1)] show False by simp
    qed
    then have "\<not> c < e + 1" using c line_starts_ascend [of "e + 1" s c] by (simp add: body_start_of_def)
    with \<open>cursor < e\<close> c(1) show ?thesis by simp
  qed
  show ?thesis
    using assms(1) scanned measured
    by (fastforce simp: mail_at_def Let_def split: option.splits)
qed

function split_from ::
    "string \<Rightarrow> nat list \<Rightarrow> nat \<Rightarrow> (anole_error + message_span list \<times> bool) option" where
  "split_from s starts cursor =
     (let hints = dropWhile (\<lambda>h. h \<le> cursor) starts
      in case mail_at s hints cursor of
           None \<Rightarrow> None
         | Some (Inl e) \<Rightarrow> Some (Inl e)
         | Some (Inr (measured, new, next)) \<Rightarrow>
             (case next of
                None \<Rightarrow> Some (Inr (new, measured))
              | Some c \<Rightarrow>
                  (case split_from s hints c of
                     None \<Rightarrow> None
                   | Some (Inl e) \<Rightarrow> Some (Inl e)
                   | Some (Inr (later, saw)) \<Rightarrow> Some (Inr (new @ later, measured \<or> saw)))))"
  by pat_completeness auto
termination
proof (relation "measure (\<lambda>(s, starts, cursor). length (split_line_spans s) - cursor)", goal_cases)
  case (2 s starts cursor hints r r2 m p new nx c)
  have "hints = [] \<or> cursor < hd hints"
    using 2(1) by (metis hd_dropWhile linorder_not_le)
  from next_mail_later [OF _ this, of s m new c] 2 show ?case by auto
qed simp

declare split_from.simps [simp del]

definition split_into_spans ::
    "string \<Rightarrow> (anole_error + message_span list \<times> bool) option" where
  "split_into_spans s =
     (let ls = split_line_spans s
      in case find (\<lambda>i. \<not> is_blank (ls_text (ls ! i))) [0..<length ls] of
           None \<Rightarrow> Some (Inl envelope_error)
         | Some first \<Rightarrow>
             if \<not> is_envelope (ls_text (ls ! first)) then Some (Inl envelope_error)
             else split_from s (mail_starts ls) first)"

section \<open>Variants and rendering\<close>

datatype mbox_variant = Cl | O_variant | Rd

fun variant_as_str :: "mbox_variant \<Rightarrow> string" where
  "variant_as_str Cl = ''mboxcl''"
| "variant_as_str O_variant = ''mboxo''"
| "variant_as_str Rd = ''mboxrd''"

definition unescapes :: "mbox_variant \<Rightarrow> bool" where
  "unescapes v = (v = Cl \<or> v = Rd)"

definition unescape_from_line :: "string \<Rightarrow> bool \<Rightarrow> string" where
  "unescape_from_line line enabled =
     (case line of
        c # rest \<Rightarrow> if enabled \<and> c = CHR ''>'' \<and> starts_with rest ''From '' then rest else line
      | [] \<Rightarrow> line)"

fun render_span :: "message_span \<Rightarrow> mbox_variant \<Rightarrow> string" where
  "render_span (Scanned ls) v =
     join_with [carriage_return, newline] (map (\<lambda>l. unescape_from_line l (unescapes v)) ls)"
| "render_span (Measured header body) v =
     join_with [carriage_return, newline]
       (map (\<lambda>l. unescape_from_line l (unescapes v)) header @ [[]]
        @ map (\<lambda>l. unescape_from_line l (unescapes v)) (lines_of body))"

definition max_mbox_mails :: nat where
  "max_mbox_mails = 1000"

definition max_mbox_bytes :: nat where
  "max_mbox_bytes = 256 * 1024 * 1024"

definition split_mbox_bytes_variant ::
    "string \<Rightarrow> mbox_variant option \<Rightarrow> (anole_error + mbox_variant \<times> string list) option" where
  "split_mbox_bytes_variant bytes requested =
     (if \<not> from_utf8 bytes
      then Some (Inl (anole_error_new InputInvalid Inspect ''MBOX input is not valid UTF-8''))
      else map_option
        (\<lambda>r. res_bind r (\<lambda>(spans, saw_content_length).
           let variant = (case requested of Some v \<Rightarrow> v
                          | None \<Rightarrow> if saw_content_length then Cl else O_variant);
               messages = map (\<lambda>sp. render_span sp variant) spans
           in res_bind (ensure (messages \<noteq> []) (anole_error_new InputInvalid Inspect
                ''The MBOX file contains no messages'')) (\<lambda>_.
              res_bind (ensure (length messages \<le> max_mbox_mails)
                (anole_error_new InputInvalid Inspect
                  ''The MBOX holds {} mails; the adapter limit is 1000'')) (\<lambda>_.
              Inr (variant, messages)))))
        (split_into_spans bytes))"

definition split_mbox_bytes :: "string \<Rightarrow> (anole_error + string list) option" where
  "split_mbox_bytes bytes =
     map_option (\<lambda>r. res_bind r (\<lambda>(_, messages). Inr messages))
       (split_mbox_bytes_variant bytes None)"

end
