(* ===== verification/Mbox_Split.thy ===== *)
theory Mbox_Split
  imports Mbox
begin

text \<open>
  What cutting a mailbox guarantees: mails that declare their length come back as they were
  stored whatever their bodies hold, the heuristic cut loses no line, and where the splitter
  leaves the text.
\<close>

section \<open>Blank text and envelopes\<close>

lemma trim_left_keeps:
  "x \<in> set s \<Longrightarrow> \<forall>w \<in> set ws. x \<notin> set w \<Longrightarrow> x \<in> set (trim_left ws s)"
proof (induction ws s rule: trim_left.induct)
  case (1 ws s)
  have "prefix w s \<Longrightarrow> x \<notin> set w \<Longrightarrow> x \<in> set (drop (length w) s)" for w
    using "1.prems"(1) by (auto simp: prefix_def)
  then have "x \<in> set (drop (strip_len vs s) s)" if "set vs \<subseteq> set ws" for vs
    using that "1.prems" by (induction vs) auto
  with 1 show ?case by (auto simp: trim_left.simps [of ws s])
qed

lemma envelope_not_blank: "is_envelope s \<Longrightarrow> \<not> is_blank s"
proof -
  assume "is_envelope s"
  then have "CHR ''F'' \<in> set s" by (auto simp: is_envelope_def starts_with_def prefix_def)
  moreover have F: "\<forall>w \<in> set white_space. CHR ''F'' \<notin> set w" by (simp add: white_space_def)
  ultimately have "CHR ''F'' \<in> set (trim_start s)" by (simp add: trim_start_def trim_left_keeps)
  then have "CHR ''F'' \<in> set (trim s)"
    using F by (simp add: trim_def trim_end_def trim_left_keeps)
  then show ?thesis by (auto simp: is_blank_def)
qed

lemma blank_newline: "is_blank [newline]" by code_simp

lemma blank_Nil: "is_blank []" by code_simp

lemma line_text_newline:
  "a = [] \<or> last a \<noteq> carriage_return \<Longrightarrow> line_text (a @ [newline]) = a"
  by (auto simp: line_text_def)

lemma trim_line_end_envelope: "trim_line_end (''From '' @ b) = ''From '' @ trim_line_end b"
proof -
  let ?P = "\<lambda>c. c = newline \<or> c = carriage_return"
  have "dropWhile ?P (rev b @ rev ''From '') = dropWhile ?P (rev b) @ rev ''From ''"
  proof (cases "\<exists>x \<in> set b. \<not> ?P x")
    case True
    then obtain x where "x \<in> set (rev b)" "\<not> ?P x" by auto
    then show ?thesis by (rule dropWhile_append1)
  next
    case False
    then have all: "?P x" if "x \<in> set (rev b)" for x using that by (metis set_rev)
    have "dropWhile ?P (rev b @ rev ''From '') = dropWhile ?P (rev ''From '')"
      using all by (rule dropWhile_append2)
    moreover have "dropWhile ?P (rev b) = []" using all by (simp only: dropWhile_eq_Nil_conv) blast
    ultimately show ?thesis by simp
  qed
  then show ?thesis by (simp add: trim_line_end_def)
qed

lemma envelope_line:
  "is_envelope (trim_line_end (''From '' @ b))" "is_envelope (line_text (''From '' @ a @ [newline]))"
  "is_envelope (''From '' @ b)"
  by (simp_all only: trim_line_end_envelope)
    (auto simp: is_envelope_def starts_with_def line_text_def Let_def butlast_append)

section \<open>A mail stored with its length\<close>

text \<open>
  What a writer of the mboxcl variant stores: an envelope, the header lines, one of which declares
  the length of the body, a blank line, the body as it is and a line end.
\<close>

record cl_mail =
  cm_envelope :: string
  cm_header :: "string list"
  cm_body :: string

definition cl_head :: "cl_mail \<Rightarrow> string" where
  "cl_head m =
     ''From '' @ cm_envelope m @ [newline] @ concat (map (\<lambda>h. h @ [newline]) (cm_header m)) @ [newline]"

definition cl_text :: "cl_mail \<Rightarrow> string" where
  "cl_text m = cl_head m @ cm_body m @ [newline]"

definition starts_char :: "string \<Rightarrow> bool" where
  "starts_char s = (s = [] \<or> \<not> is_continuation (hd s))"

definition cl_storable :: "cl_mail \<Rightarrow> bool" where
  "cl_storable m =
     (newline \<notin> set (cm_envelope m)
      \<and> (\<forall>h \<in> set (cm_header m). newline \<notin> set h \<and> \<not> is_blank h \<and> last h \<noteq> carriage_return)
      \<and> content_length_of (cm_header m) = Some (length (cm_body m))
      \<and> starts_char (cm_body m))"

lemma cl_head_pieces:
  assumes "cl_storable m"
  shows "split_inclusive (cl_head m @ b) =
    (''From '' @ cm_envelope m @ [newline]) # map (\<lambda>h. h @ [newline]) (cm_header m)
      @ [newline] # split_inclusive b"
proof -
  have "newline \<notin> set (''From '' @ cm_envelope m)" using assms by (simp add: cl_storable_def)
  moreover have "\<forall>h \<in> set hs. newline \<notin> set h \<Longrightarrow>
    split_inclusive (concat (map (\<lambda>h. h @ [newline]) hs) @ newline # b)
      = map (\<lambda>h. h @ [newline]) hs @ [newline] # split_inclusive b" for hs
    by (induction hs) (auto simp: split_inclusive_line)
  ultimately show ?thesis
    using assms split_inclusive_line [of "''From '' @ cm_envelope m"]
    by (simp add: cl_head_def cl_storable_def)
qed

lemma ends_line_append: "ends_line b \<Longrightarrow> ends_line a \<Longrightarrow> ends_line (a @ b)"
  by (cases "b = []") (auto simp: ends_line_def)

lemma ends_line_cl: "ends_line (cl_head m)" "ends_line (cl_text m)"
  by (simp_all add: ends_line_def cl_head_def cl_text_def)

lemma cl_pieces:
  assumes "ends_line pre" and "cl_storable m"
  shows "split_inclusive (pre @ cl_head m @ b) = split_inclusive pre
     @ (''From '' @ cm_envelope m @ [newline]) # map (\<lambda>h. h @ [newline]) (cm_header m)
     @ [newline] # split_inclusive b"
  using assms by (simp only: split_inclusive_append cl_head_pieces)

lemma cl_lines:
  fixes pre b :: string and m :: cl_mail
  assumes "ends_line pre" and "cl_storable m"
  defines "ls \<equiv> split_line_spans (pre @ cl_head m @ b)" and "k \<equiv> length (split_inclusive pre)"
  shows "is_envelope (ls_text (ls ! k))" and "k < length ls"
    and "i < length (cm_header m) \<Longrightarrow> ls_text (ls ! (k + 1 + i)) = cm_header m ! i"
    and "ls_text (ls ! (k + 1 + length (cm_header m))) = []"
    and "k + 1 + length (cm_header m) < length ls"
    and "body_start_of (pre @ cl_head m @ b) ls (k + 1 + length (cm_header m)) = length (pre @ cl_head m)"
proof -
  note pieces = cl_pieces [OF assms(1,2), of b]
  have text_at: "ls_text (ls ! j) = line_text (split_inclusive (pre @ cl_head m @ b) ! j)"
    and start: "ls_start (ls ! j) = length (concat (take j (split_inclusive (pre @ cl_head m @ b))))"
    if "j < length (split_inclusive (pre @ cl_head m @ b))" for j
    using that by (simp_all add: ls_def split_line_spans_nth)
  show "is_envelope (ls_text (ls ! k))"
    using text_at [of k] by (simp only: pieces) (simp add: k_def nth_append envelope_line [simplified])
  show "k < length ls" "k + 1 + length (cm_header m) < length ls"
    by (simp_all add: ls_def pieces k_def)
  show "ls_text (ls ! (k + 1 + i)) = cm_header m ! i" if "i < length (cm_header m)"
  proof -
    have "last (cm_header m ! i) \<noteq> carriage_return" using assms(2) that by (simp add: cl_storable_def)
    then show ?thesis
      using text_at [of "k + 1 + i"] that
      by (simp only: pieces) (simp add: k_def nth_append line_text_newline)
  qed
  show "ls_text (ls ! (k + 1 + length (cm_header m))) = []"
    using text_at [of "k + 1 + length (cm_header m)"]
    by (simp only: pieces) (simp add: k_def nth_append line_text_def)
  have total: "concat (take (k + 2 + length (cm_header m)) (split_inclusive (pre @ cl_head m @ b)))
      = pre @ cl_head m"
    by (simp only: pieces) (simp add: k_def cl_head_def)
  show "body_start_of (pre @ cl_head m @ b) ls (k + 1 + length (cm_header m)) = length (pre @ cl_head m)"
  proof (cases "b = []")
    case True
    then show ?thesis
      using cl_pieces [OF assms(1,2), of "[]"] by (simp add: body_start_of_def ls_def k_def)
  next
    case False
    then have j: "k + 2 + length (cm_header m) < length (split_inclusive (pre @ cl_head m @ b))"
      by (simp add: pieces k_def)
    then show ?thesis
      using start [OF j] total by (simp add: body_start_of_def ls_def)
  qed
qed

lemma cl_mail_at:
  fixes b :: string
  assumes pre: "ends_line pre" and m: "cl_storable m"
    and hints: "hints = [] \<or> (length (split_inclusive pre) < hd hints
        \<and> hd hints \<in> set (mail_starts (split_line_spans (pre @ cl_head m @ b))))"
  defines "ls \<equiv> split_line_spans (pre @ cl_head m @ b)" and "k \<equiv> length (split_inclusive pre)"
  defines "e \<equiv> k + 1 + length (cm_header m)"
  shows "mail_at (pre @ cl_head m @ b) hints k
      = measured_mail (pre @ cl_head m @ b) ls k e (length (cm_body m))"
    and "header_lines ls k e = cm_header m"
proof -
  note lines = cl_lines [OF pre m, where b = b, folded ls_def k_def]
  show header: "header_lines ls k e = cm_header m"
    by (rule nth_equalityI) (simp_all add: header_lines_def e_def lines(3) [simplified] del: upt_Suc)
  define limit where "limit = (case hints of [] \<Rightarrow> length ls | h # _ \<Rightarrow> h)"
  have head: "\<not> is_blank (ls_text (ls ! j))" if "k < j" "j < e" for j
  proof -
    have "cm_header m ! (j - (k + 1)) \<in> set (cm_header m)"
      using that by (intro nth_mem) (simp add: e_def)
    then show ?thesis
      using lines(3) [where i = "j - (k + 1)"] that m by (simp add: cl_storable_def e_def)
  qed
  have "e < limit"
  proof (cases hints)
    case Nil
    then show ?thesis using lines(5) by (simp add: limit_def e_def)
  next
    case (Cons h hs)
    with hints have h: "k < h" "h < length ls" "is_envelope (ls_text (ls ! h))"
      "h = 0 \<or> is_blank (ls_text (ls ! (h - 1)))"
      by (auto simp: mail_starts_def ls_def k_def)
    have prev: "is_blank (ls_text (ls ! (h - 1)))" using h by auto
    have "\<not> (k < h - 1 \<and> h - 1 < e)" using head [of "h - 1"] prev by auto
    moreover have "h - 1 \<noteq> k" using prev lines(1) envelope_not_blank by metis
    moreover have "h - 1 \<noteq> e \<longrightarrow> h \<noteq> e"
      using h(3) lines(4) by (auto simp: e_def is_envelope_def starts_with_def)
    ultimately have "e < h" using h(1) by (cases "h - 1 = e") auto
    then show ?thesis using Cons by (simp add: limit_def)
  qed
  have "header_end_of ls k limit = Some e"
    unfolding header_end_of_def find_Some_iff
  proof (intro exI [of _ "length (cm_header m)"] conjI allI impI)
    show "length (cm_header m) < length [k + 1..<limit]" using \<open>e < limit\<close> by (simp add: e_def)
    then show "e = [k + 1..<limit] ! length (cm_header m)" by (simp add: e_def del: upt_Suc)
    show "is_blank (ls_text (ls ! ([k + 1..<limit] ! length (cm_header m))))"
      using \<open>e < limit\<close> lines(4) by (simp add: e_def blank_Nil)
    fix j assume "j < length (cm_header m)"
    then show "\<not> is_blank (ls_text (ls ! ([k + 1..<limit] ! j)))"
      using \<open>e < limit\<close> head [of "k + 1 + j"] by (simp add: e_def)
  qed
  moreover have "content_length_of (cm_header m) = Some (length (cm_body m))"
    using m by (simp add: cl_storable_def)
  moreover have "(case (case hints of [] \<Rightarrow> None | h # _ \<Rightarrow> Some h) of
       None \<Rightarrow> length ls | Some h \<Rightarrow> h) = limit"
    by (simp add: limit_def split: list.splits)
  ultimately show "mail_at (pre @ cl_head m @ b) hints k
      = measured_mail (pre @ cl_head m @ b) ls k e (length (cm_body m))"
    by (simp add: mail_at_def Let_def header flip: ls_def)
qed

lemma boundary_between: "char_boundary (a @ b) (length a) \<longleftrightarrow> a = [] \<or> starts_char b"
  by (cases b) (auto simp: char_boundary_def starts_char_def nth_append)

lemma slice_between:
  "str_slice (a @ b @ c) (length a) (length a + length b)
     = (if (a = [] \<or> starts_char (b @ c)) \<and> (a @ b = [] \<or> starts_char c) then Some b else None)"
  using boundary_between [of a "b @ c"] boundary_between [of "a @ b" c]
  by (auto simp: str_slice_def)

lemma next_line_start:
  assumes "ends_line a" and "b \<noteq> []"
  shows "length (takeWhile (\<lambda>l. ls_start l < length a) (split_line_spans (a @ b)))
      = length (split_inclusive a)"
    and "ls_start (split_line_spans (a @ b) ! length (split_inclusive a)) = length a"
    and "ls_text (split_line_spans (a @ b) ! length (split_inclusive a))
      = line_text (hd (split_inclusive b))"
    and "length (split_inclusive a) < length (split_line_spans (a @ b))"
proof -
  obtain p ps where b: "split_inclusive b = p # ps"
    using assms(2) by (cases "split_inclusive b") auto
  have spans: "split_line_spans (a @ b)
      = split_line_spans a @ \<lparr>ls_start = length a, ls_text = line_text p\<rparr> # spans_from (length a + length p) ps"
    using assms(1) b by (simp add: split_line_spans_def split_inclusive_append spans_from_append)
  have "ls_start l < length a" if "l \<in> set (split_line_spans a)" for l
    using that line_start_less by (metis in_set_conv_nth)
  then show "length (takeWhile (\<lambda>l. ls_start l < length a) (split_line_spans (a @ b)))
      = length (split_inclusive a)"
    by (simp add: spans)
  show "ls_start (split_line_spans (a @ b) ! length (split_inclusive a)) = length a"
    "ls_text (split_line_spans (a @ b) ! length (split_inclusive a)) = line_text (hd (split_inclusive b))"
    "length (split_inclusive a) < length (split_line_spans (a @ b))"
    using b by (simp_all add: spans nth_append)
qed

lemma scan_after_envelope:
  assumes a: "ends_line a" "a \<noteq> []" and b: "split_inclusive b = (''From '' @ x @ [newline]) # ps"
  shows "scan_after (split_line_spans (a @ b)) (length a - 1) 0 ([newline] # split_inclusive b)
    = Inr (Some (length (split_inclusive a)))"
proof -
  have "b \<noteq> []" using b by auto
  note start = next_line_start [OF a(1) this]
  have len: "length a - 1 + (0 + length [newline]) = length a" using a(2) by (cases a) auto
  have env: "\<not> is_blank (''From '' @ x @ [newline])"
    "is_envelope (trim_line_end (''From '' @ x @ [newline]))"
    "is_envelope (line_text (''From '' @ x @ [newline]))"
    by (rule envelope_not_blank) (rule envelope_line)+
  have le: "\<not> length (split_line_spans (a @ b)) \<le> length (split_inclusive a)"
    using start(4) by (simp only: linorder_not_le)
  show ?thesis
    using env
    unfolding b scan_after.simps append.simps len Let_def start
    by (simp only: b list.sel blank_newline if_True if_False simp_thms le)
qed

lemma cl_measured:
  fixes pre r :: string and m :: cl_mail
  assumes pre: "ends_line pre" and m: "cl_storable m"
  defines "s \<equiv> pre @ cl_head m @ cm_body m @ r"
  defines "ls \<equiv> split_line_spans s" and "k \<equiv> length (split_inclusive pre)"
  assumes small: "length s < 2 ^ 64"
  shows "measured_mail s ls k (k + 1 + length (cm_header m)) (length (cm_body m)) =
    (if starts_char r
     then (case scan_after ls (length (pre @ cl_head m @ cm_body m)) 0 (split_inclusive r) of
             Inl er \<Rightarrow> Some (Inl er)
           | Inr nx \<Rightarrow> Some (Inr (True, [Measured (cm_header m) (cm_body m)], nx)))
     else None)"
proof -
  let ?b = "length (pre @ cl_head m)"
  have start: "body_start_of s ls (k + 1 + length (cm_header m)) = ?b"
    using cl_lines(6) [OF pre m, of "cm_body m @ r"] by (simp add: s_def ls_def k_def)
  have header: "header_lines ls k (k + 1 + length (cm_header m)) = cm_header m"
    using cl_mail_at(2) [OF pre m, of "[]" "cm_body m @ r"] by (simp add: s_def ls_def k_def)
  have wrap: "(?b + length (cm_body m)) mod 2 ^ 64 = ?b + length (cm_body m)"
    using small by (simp add: s_def)
  have head: "cl_head m \<noteq> []" by (simp add: cl_head_def)
  have rest: "str_slice s (?b + length (cm_body m)) (length s) = (if starts_char r then Some r else None)"
    using slice_between [of "pre @ cl_head m @ cm_body m" r "[]"] head
    by (simp add: s_def add.assoc starts_char_def)
  have body: "starts_char r \<Longrightarrow> str_slice s ?b (?b + length (cm_body m)) = Some (cm_body m)"
    using slice_between [of "pre @ cl_head m" "cm_body m" r] head m
    by (auto simp: s_def add.assoc cl_storable_def starts_char_def hd_append)
  have total: "length (pre @ cl_head m @ cm_body m) = ?b + length (cm_body m)" by simp
  have fits: "\<not> length s < ?b + length (cm_body m)" by (simp add: s_def)
  show ?thesis
  proof (cases "starts_char r")
    case True
    then show ?thesis
      unfolding measured_mail_def Let_def start wrap rest total header body [OF True]
      by (simp only: fits if_True if_False option.simps)
  next
    case False
    then show ?thesis
      unfolding measured_mail_def Let_def start wrap rest total
      by (simp only: fits if_False option.simps)
  qed
qed

text \<open>
  The whole loop, from a mail whose envelope is the line \<open>k\<close>: whatever the heuristic cuts are, the
  stored mails come back one by one.
\<close>

lemma mail_starts_bound: "h \<in> set (mail_starts ls) \<Longrightarrow> h < length ls"
  by (simp add: mail_starts_def)

lemma split_stored_from:
  assumes "ends_line pre" and "\<forall>m \<in> set (m # ms). cl_storable m"
    and "length (pre @ concat (map cl_text (m # ms))) < 2 ^ 64"
    and "set starts \<subseteq> set (mail_starts (split_line_spans (pre @ concat (map cl_text (m # ms)))))"
  shows "split_from (pre @ concat (map cl_text (m # ms))) starts (length (split_inclusive pre))
    = Some (Inr (map (\<lambda>m. Measured (cm_header m) (cm_body m)) (m # ms), True))"
  using assms
proof (induction ms arbitrary: pre m starts)
  case Nil
  let ?s = "pre @ cl_head m @ cm_body m @ [newline]" and ?k = "length (split_inclusive pre)"
  let ?hints = "dropWhile (\<lambda>h. h \<le> ?k) starts"
  have s: "pre @ concat (map cl_text [m]) = ?s" by (simp add: cl_text_def)
  have m: "cl_storable m" using Nil by simp
  have hints: "?hints = [] \<or> (?k < hd ?hints \<and> hd ?hints \<in> set (mail_starts (split_line_spans ?s)))"
    using Nil.prems(4) hd_dropWhile [of "\<lambda>h. h \<le> ?k" starts] set_dropWhileD hd_in_set
    unfolding s by (metis linorder_not_le subsetD)
  have "mail_at ?s ?hints ?k = Some (Inr (True, [Measured (cm_header m) (cm_body m)], None))"
    using cl_mail_at(1) [OF Nil.prems(1) m hints] cl_measured [OF Nil.prems(1) m, of "[newline]"]
      Nil.prems(3) s
    by (simp add: starts_char_def is_continuation_def byte_of_def blank_newline)
  then show ?case
    unfolding s by (subst split_from.simps) (simp add: Let_def)
next
  case (Cons m' ms)
  let ?rest = "[newline] @ concat (map cl_text (m' # ms))"
  let ?s = "pre @ cl_head m @ cm_body m @ ?rest" and ?k = "length (split_inclusive pre)"
  let ?pre' = "pre @ cl_text m"
  let ?hints = "dropWhile (\<lambda>h. h \<le> ?k) starts"
  have s: "pre @ concat (map cl_text (m # m' # ms)) = ?s"
    "?s = ?pre' @ concat (map cl_text (m' # ms))" by (simp_all add: cl_text_def)
  have m: "cl_storable m" using Cons by simp
  have pre': "ends_line ?pre'" using Cons.prems(1) ends_line_cl(2) ends_line_append by blast
  have hints: "?hints = [] \<or> (?k < hd ?hints \<and> hd ?hints \<in> set (mail_starts (split_line_spans ?s)))"
    using Cons.prems(4) hd_dropWhile [of "\<lambda>h. h \<le> ?k" starts] set_dropWhileD hd_in_set
    unfolding s(1) by (metis linorder_not_le subsetD)
  obtain ps where ps: "split_inclusive (concat (map cl_text (m' # ms)))
      = (''From '' @ cm_envelope m' @ [newline]) # ps"
    using cl_head_pieces [of m'] Cons.prems(2) by (auto simp: cl_text_def)
  have len: "length (pre @ cl_head m @ cm_body m) = length ?pre' - 1" by (simp add: cl_text_def)
  have "?pre' \<noteq> []" by (simp add: cl_text_def)
  from scan_after_envelope [OF pre' this ps, folded s(2)]
  have "scan_after (split_line_spans ?s) (length (pre @ cl_head m @ cm_body m)) 0 (split_inclusive ?rest)
      = Inr (Some (length (split_inclusive ?pre')))"
    unfolding len by simp
  then have mail: "mail_at ?s ?hints ?k
      = Some (Inr (True, [Measured (cm_header m) (cm_body m)], Some (length (split_inclusive ?pre'))))"
    using cl_mail_at(1) [OF Cons.prems(1) m hints] cl_measured [OF Cons.prems(1) m, of ?rest]
      Cons.prems(3) s(1)
    by (simp add: starts_char_def is_continuation_def byte_of_def)
  have "split_from ?s ?hints (length (split_inclusive ?pre'))
      = Some (Inr (map (\<lambda>m. Measured (cm_header m) (cm_body m)) (m' # ms), True))"
    unfolding s(2)
  proof (rule Cons.IH [OF pre'])
    show "\<forall>m \<in> set (m' # ms). cl_storable m" using Cons.prems(2) by simp
    show "length (?pre' @ concat (map cl_text (m' # ms))) < 2 ^ 64" using Cons.prems(3) s by simp
    show "set ?hints \<subseteq> set (mail_starts (split_line_spans (?pre' @ concat (map cl_text (m' # ms)))))"
      using Cons.prems(4) set_dropWhileD unfolding s(1) s(2) by (metis subset_code(1))
  qed
  with mail show ?case
    unfolding s(1) by (subst split_from.simps) (simp add: Let_def)
qed

section \<open>Mails with a length come back\<close>

text \<open>
  C22: A mailbox of mails stored with their length is cut into exactly these mails: header lines and
  body of every one of them, byte for byte, although a body may hold lines that look like the
  envelope of a mail.
\<close>

theorem measured_mails_come_back:
  assumes "ms \<noteq> []" and "\<forall>m \<in> set ms. cl_storable m"
    and "length (concat (map cl_text ms)) < 2 ^ 64"
  shows "split_into_spans (concat (map cl_text ms))
    = Some (Inr (map (\<lambda>m. Measured (cm_header m) (cm_body m)) ms, True))"
proof -
  obtain m ms' where ms: "ms = m # ms'" using assms(1) by (cases ms) auto
  let ?s = "concat (map cl_text ms)"
  have m: "cl_storable m" and s: "?s = [] @ cl_head m @ (cm_body m @ [newline] @ concat (map cl_text ms'))"
    using assms(2) by (simp_all add: ms cl_text_def)
  have nil: "ends_line []" by (simp add: ends_line_def)
  have first: "is_envelope (ls_text (split_line_spans ?s ! 0))" "0 < length (split_line_spans ?s)"
    using cl_lines(1,2) [OF nil m, where b = "cm_body m @ [newline] @ concat (map cl_text ms')"]
    by (simp_all add: s del: length_split_line_spans)
  have "find (\<lambda>i. \<not> is_blank (ls_text (split_line_spans ?s ! i))) [0..<length (split_line_spans ?s)] = Some 0"
    using first envelope_not_blank by (simp add: upt_conv_Cons del: length_split_line_spans)
  moreover have "split_from ([] @ ?s) (mail_starts (split_line_spans ?s)) (length (split_inclusive []))
      = Some (Inr (map (\<lambda>m. Measured (cm_header m) (cm_body m)) ms, True))"
    unfolding ms by (rule split_stored_from) (use assms nil ms in auto)
  ultimately show ?thesis
    using first(1) by (simp add: split_into_spans_def Let_def)
qed

definition demo_mail :: cl_mail where
  "demo_mail = \<lparr>cm_envelope = ''ann'', cm_header = [''Content-Length: 9''],
     cm_body = ''x'' @ [newline, newline] @ ''From y''\<rparr>"

lemma demo_header: "content_length_of [''Content-Length: 9''] = Some 9"
proof -
  have "trim ''Content-Length'' = ''Content-Length''" "trim '' 9'' = ''9''"
    "to_ascii_lowercase ''Content-Length'' = ''content-length''" by code_simp+
  then show ?thesis
    by (simp add: content_length_of_def header_length_def byte_of_def parse_u64_def
        is_ascii_digit_def u64_max_def)
qed

lemma demo_mail_storable: "cl_storable demo_mail"
proof -
  have "\<not> is_blank ''Content-Length: 9''" by code_simp
  then show ?thesis
    using demo_header
    by (simp add: cl_storable_def demo_mail_def starts_char_def is_continuation_def byte_of_def)
qed

theorem measured_mails_come_back_witness:
  "split_into_spans (concat (map cl_text [demo_mail, demo_mail]))
    = Some (Inr ([Measured [''Content-Length: 9''] (''x'' @ [newline, newline] @ ''From y''),
                  Measured [''Content-Length: 9''] (''x'' @ [newline, newline] @ ''From y'')], True))"
proof -
  have "\<forall>m \<in> set [demo_mail, demo_mail]. cl_storable m" using demo_mail_storable by simp
  moreover have "length (concat (map cl_text [demo_mail, demo_mail])) < 2 ^ 64"
    by (simp add: cl_text_def cl_head_def demo_mail_def)
  ultimately show ?thesis
    using measured_mails_come_back [of "[demo_mail, demo_mail]"] by (simp add: demo_mail_def)
qed

text \<open>
  A declared length that ends inside a character is not reported as a mismatch: slicing the
  text there panics, so one malformed mail takes the whole process down.
\<close>

theorem length_inside_character_panics:
  assumes "cl_storable m" and "\<not> starts_char r" and "length (cl_head m @ cm_body m @ r) < 2 ^ 64"
  shows "split_into_spans (cl_head m @ cm_body m @ r) = None"
proof -
  let ?s = "cl_head m @ (cm_body m @ r)"
  have nil: "ends_line []" by (simp add: ends_line_def)
  let ?hints = "dropWhile (\<lambda>h. h \<le> 0) (mail_starts (split_line_spans ?s))"
  have hints: "?hints = [] \<or> (length (split_inclusive []) < hd ?hints
      \<and> hd ?hints \<in> set (mail_starts (split_line_spans ([] @ ?s))))"
    using hd_dropWhile [of "\<lambda>h. h \<le> 0" "mail_starts (split_line_spans ?s)"] set_dropWhileD hd_in_set
    by (metis append_Nil linorder_not_le list.size(3) split_inclusive.simps(1))
  have first: "is_envelope (ls_text (split_line_spans ?s ! 0))" "0 < length (split_line_spans ?s)"
    using cl_lines(1,2) [OF nil assms(1), where b = "cm_body m @ r"]
    by (simp_all del: length_split_line_spans)
  have "find (\<lambda>i. \<not> is_blank (ls_text (split_line_spans ?s ! i))) [0..<length (split_line_spans ?s)] = Some 0"
    using first envelope_not_blank by (simp add: upt_conv_Cons del: length_split_line_spans)
  moreover have "mail_at ?s ?hints 0 = None"
    using cl_mail_at(1) [OF nil assms(1) hints] cl_measured [OF nil assms(1), of r] assms(2,3) by simp
  ultimately show ?thesis
    using first(1) by (simp add: split_into_spans_def Let_def split_from.simps [of ?s])
qed

theorem length_inside_character_panics_witness:
  "split_into_spans (cl_head demo_mail @ cm_body demo_mail @ [CHR 0xA9]) = None"
  by (rule length_inside_character_panics [OF demo_mail_storable])
    (simp_all add: starts_char_def is_continuation_def byte_of_def cl_head_def demo_mail_def)

section \<open>The heuristic cut\<close>

fun span_lines :: "message_span \<Rightarrow> string list" where
  "span_lines (Scanned ls) = ls"
| "span_lines (Measured header body) = header @ [] # lines_of body"

definition no_cut_inside :: "string list \<Rightarrow> bool" where
  "no_cut_inside ls =
     (\<forall>i. Suc i < length ls \<longrightarrow> is_blank (ls ! i) \<longrightarrow> \<not> is_envelope (ls ! Suc i))"

lemma dropWhile_sorted:
  "sorted (xs :: nat list) \<Longrightarrow> dropWhile (\<lambda>h. h \<le> c) xs = filter (\<lambda>h. Suc c \<le> h) xs"
  by (induction xs) (auto simp: Suc_le_eq intro!: filter_True [symmetric])

lemma mail_at_scanned:
  "mail_at s hints cursor = Some (Inr (False, new, nx)) \<Longrightarrow>
     scanned_mail (split_line_spans s) cursor
       (case hints of [] \<Rightarrow> length (split_line_spans s) | h # _ \<Rightarrow> h)
       (case hints of [] \<Rightarrow> None | h # _ \<Rightarrow> Some h) = (False, new, nx)"
  by (auto simp: mail_at_def measured_mail_def Let_def
      split: option.splits list.splits sum.splits if_splits)

lemma heuristic_tail:
  assumes "split_from s starts cursor = Some (Inr (spans, False))"
    and "cursor < length (split_line_spans s)" and "is_envelope (ls_text (split_line_spans s ! cursor))"
    and "starts = filter (\<lambda>h. c0 \<le> h) (mail_starts (split_line_spans s))" and "c0 \<le> Suc cursor"
  shows "\<exists>es lasts. map ls_text (drop cursor (split_line_spans s))
        = concat (map2 (\<lambda>e sp. e # span_lines sp) es spans) @ lasts
      \<and> length es = length spans \<and> (\<forall>e \<in> set (es @ lasts). is_envelope e) \<and> length lasts \<le> 1
      \<and> (\<forall>sp \<in> set spans. no_cut_inside (span_lines sp))"
  using assms
proof (induction s starts cursor arbitrary: spans c0 rule: split_from.induct)
  case (1 s starts cursor)
  let ?ls = "split_line_spans s"
  define hints where "hints = dropWhile (\<lambda>h. h \<le> cursor) starts"
  have sorted: "sorted (mail_starts ?ls)" by (simp add: mail_starts_def sorted_wrt_filter)
  have hints: "hints = filter (\<lambda>h. Suc cursor \<le> h) (mail_starts ?ls)"
    using 1(5,6) dropWhile_sorted [of starts cursor] sorted
    by (auto simp: hints_def sorted_wrt_filter intro: filter_cong)
  have "\<exists>new nx. mail_at s hints cursor = Some (Inr (False, new, nx)) \<and>
      ((nx = None \<and> spans = new)
       \<or> (\<exists>c later. nx = Some c \<and> split_from s hints c = Some (Inr (later, False)) \<and> spans = new @ later))"
    using 1(2) unfolding split_from.simps [of s starts] hints_def [symmetric] Let_def
    by (fastforce split: option.splits sum.splits)
  then obtain new nx where mail: "mail_at s hints cursor = Some (Inr (False, new, nx))"
    and rest: "(nx = None \<and> spans = new)
      \<or> (\<exists>c later. nx = Some c \<and> split_from s hints c = Some (Inr (later, False)) \<and> spans = new @ later)"
    by blast
  define limit where "limit = (case hints of [] \<Rightarrow> length ?ls | h # _ \<Rightarrow> h)"
  define collected where "collected = map ls_text (drop (cursor + 1) (take limit ?ls))"
  have "scanned_mail ?ls cursor limit (case hints of [] \<Rightarrow> None | h # _ \<Rightarrow> Some h) = (False, new, nx)"
    using mail_at_scanned [OF mail] by (simp add: limit_def)
  then have new: "collected = [] \<and> new = [] \<and> nx = None
      \<or> collected \<noteq> [] \<and> new = [Scanned collected] \<and> nx = (case hints of [] \<Rightarrow> None | h # _ \<Rightarrow> Some h)"
    by (auto simp: scanned_mail_def Let_def collected_def split: if_splits)
  have hint: "h \<in> set hints \<longleftrightarrow> cursor < h \<and> h < length ?ls \<and> is_envelope (ls_text (?ls ! h))
      \<and> is_blank (ls_text (?ls ! (h - 1)))" for h
    by (auto simp: hints mail_starts_def simp del: length_split_line_spans)
  have sorted_hints: "sorted hints" unfolding hints using sorted by (rule sorted_wrt_filter)
  have first: "h \<in> set hints \<Longrightarrow> limit \<le> h" for h
    using sorted_hints by (cases hints) (auto simp: limit_def)
  have limit: "cursor < limit" "limit \<le> length ?ls"
  proof -
    have "limit = length ?ls \<or> limit \<in> set hints" by (cases hints) (simp_all add: limit_def)
    then show "cursor < limit" "limit \<le> length ?ls" using hint [of limit] 1(3) by linarith+
  qed
  have env: "drop cursor ?ls = ?ls ! cursor # drop (Suc cursor) ?ls"
    using 1(3) by (simp add: Cons_nth_drop_Suc del: length_split_line_spans)
  have after: "map ls_text (drop (Suc cursor) ?ls) = collected @ map ls_text (drop limit ?ls)"
  proof -
    have rest: "drop limit ?ls = drop (limit - Suc cursor) (drop (Suc cursor) ?ls)"
      using limit(1) by simp
    have "collected = map ls_text (take (limit - Suc cursor) (drop (Suc cursor) ?ls))"
      by (simp add: collected_def drop_take)
    then show ?thesis unfolding rest by (metis append_take_drop_id map_append)
  qed
  have at: "collected ! j = ls_text (?ls ! (cursor + 1 + j)) \<and> cursor + 1 + j < limit"
    if "j < length collected" for j
    using that limit by (simp add: collected_def)
  have whole: "no_cut_inside collected"
    unfolding no_cut_inside_def
  proof (intro allI impI)
    fix i assume i: "Suc i < length collected" "is_blank (collected ! i)"
    let ?h = "cursor + 1 + Suc i"
    have h: "collected ! Suc i = ls_text (?ls ! ?h)" "?h < limit" using at [of "Suc i"] i(1) by auto
    have prev: "?h - 1 = cursor + 1 + i" by simp
    have "is_blank (ls_text (?ls ! (?h - 1)))"
      unfolding prev using at [of i] i by simp
    moreover have "?h \<notin> set hints" "cursor < ?h" "?h < length ?ls"
      using first [of ?h] h(2) limit by linarith+
    ultimately show "\<not> is_envelope (collected ! Suc i)"
      unfolding h(1) using hint [of ?h] by blast
  qed
  let ?env = "ls_text (?ls ! cursor)"
  have lines: "map ls_text (drop cursor ?ls) = ?env # collected @ map ls_text (drop limit ?ls)"
    using env after by simp
  show ?case
  proof (cases hints)
    case Nil
    then have "drop limit ?ls = []" by (simp add: limit_def)
    moreover have "spans = new \<and> (new = [] \<and> collected = [] \<or> new = [Scanned collected])"
      using new rest Nil by auto
    ultimately show ?thesis
      using lines whole 1(4) by (intro exI [of _ "if new = [] then [] else [?env]"]
          exI [of _ "if new = [] then [?env] else []"]) auto
  next
    case (Cons h hs)
    then have h: "h \<in> set hints" "limit = h" by (simp_all add: limit_def)
    have "h \<noteq> Suc cursor" using hint [of h] h(1) 1(4) envelope_not_blank by auto
    then have "collected \<noteq> []"
      using limit h(2) by (simp add: collected_def del: length_split_line_spans)
    then obtain later where later: "nx = Some h" "new = [Scanned collected]"
      "split_from s hints h = Some (Inr (later, False))" "spans = Scanned collected # later"
      using new rest Cons by auto
    have "h < length ?ls" "is_envelope (ls_text (?ls ! h))" using hint h(1) by blast+
    from 1(1) [OF hints_def mail refl refl refl later(1) later(3) this hints]
    obtain es lasts where "map ls_text (drop h ?ls)
        = concat (map2 (\<lambda>e sp. e # span_lines sp) es later) @ lasts"
      "length es = length later" "\<forall>e \<in> set (es @ lasts). is_envelope e" "length lasts \<le> 1"
      "\<forall>sp \<in> set later. no_cut_inside (span_lines sp)"
      using h(1) hint [of h] by auto
    then show ?thesis
      using lines later(4) h(2) whole 1(4)
      by (intro exI [of _ "?env # es"] exI [of _ lasts]) auto
  qed
qed

text \<open>
  Where no mail declares a length the cut loses nothing: after the leading blank lines the file
  is the envelopes and the lines of the mails in order, and at most one envelope without a mail at
  its end; and no mail holds a place where the next one could start.
\<close>

theorem heuristic_cut_keeps_every_line:
  assumes "split_into_spans s = Some (Inr (spans, False))"
  shows "\<exists>blanks es lasts. lines_of s
        = blanks @ concat (map2 (\<lambda>e sp. e # span_lines sp) es spans) @ lasts
      \<and> length es = length spans \<and> (\<forall>l \<in> set blanks. is_blank l)
      \<and> (\<forall>e \<in> set (es @ lasts). is_envelope e) \<and> length lasts \<le> 1
      \<and> (\<forall>sp \<in> set spans. no_cut_inside (span_lines sp))"
proof -
  let ?ls = "split_line_spans s"
  have texts: "lines_of s = map ls_text ?ls"
    by (rule nth_equalityI) (simp_all add: lines_of_def split_line_spans_nth)
  obtain k where k: "find (\<lambda>i. \<not> is_blank (ls_text (?ls ! i))) [0..<length ?ls] = Some k"
    and env: "is_envelope (ls_text (?ls ! k))"
    and run: "split_from s (mail_starts ?ls) k = Some (Inr (spans, False))"
    using assms by (auto simp: split_into_spans_def Let_def split: option.splits if_splits)
  from k obtain i where i: "i < length [0..<length ?ls]" "k = [0..<length ?ls] ! i"
    "\<forall>j < i. is_blank (ls_text (?ls ! ([0..<length ?ls] ! j)))"
    by (auto simp: find_Some_iff)
  then have k: "k < length ?ls" "\<forall>j < k. is_blank (ls_text (?ls ! j))"
    by (auto simp del: length_split_line_spans)
  have blanks: "\<forall>l \<in> set (map ls_text (take k ?ls)). is_blank l"
    using k by (auto simp: in_set_conv_nth simp del: length_split_line_spans)
  have all: "mail_starts ?ls = filter (\<lambda>h. 0 \<le> h) (mail_starts ?ls)" by simp
  have cut: "lines_of s = map ls_text (take k ?ls) @ map ls_text (drop k ?ls)"
    unfolding texts by (simp flip: map_append)
  from heuristic_tail [OF run k(1) env all] obtain es lasts where
    "map ls_text (drop k ?ls) = concat (map2 (\<lambda>e sp. e # span_lines sp) es spans) @ lasts"
    "length es = length spans" "\<forall>e \<in> set (es @ lasts). is_envelope e" "length lasts \<le> 1"
    "\<forall>sp \<in> set spans. no_cut_inside (span_lines sp)" by auto
  with cut blanks show ?thesis by (metis append_assoc)
qed

theorem heuristic_cut_keeps_every_line_witness:
  "\<exists>blanks es lasts. lines_of ''From a'' = blanks
        @ concat (map2 (\<lambda>e sp. e # span_lines sp) es []) @ lasts
      \<and> length es = length ([] :: message_span list) \<and> (\<forall>l \<in> set blanks. is_blank l)
      \<and> (\<forall>e \<in> set (es @ lasts). is_envelope e) \<and> length lasts \<le> 1
      \<and> (\<forall>sp \<in> set ([] :: message_span list). no_cut_inside (span_lines sp))"
proof (rule heuristic_cut_keeps_every_line)
  show "split_into_spans ''From a'' = Some (Inr ([], False))" by code_simp
qed

text \<open>
  The reader of the mboxrd variant takes one quoting level off a line \<open>>From \<close>, but a line that was
  quoted twice stays as it is, so a writer that quotes \<open>>From \<close> is not undone.
\<close>

lemma second_quoting_level_stays:
  "unescape_from_line ''>From x'' (unescapes Rd) = ''From x''"
  "unescape_from_line ''>>From x'' (unescapes Rd) = ''>>From x''"
  by code_simp+

end
