(* ===== verification/Document_Text.thy ===== *)
theory Document_Text
  imports Domain Rust_Text
begin

text \<open>
  The text of a document (\<open>crates/core/src/document.rs\<close>): what the inspector reads out of markup
  and of a DOCX part, and the normal form of a text whose digest is compared before and after a
  conversion. The events of a reader of the \<open>quick_xml\<close> crate and the character tables of Unicode are
  parameters.
\<close>

section \<open>Events\<close>

text \<open>
  What \<open>Reader::read_event\<close> yields before \<open>Eof\<close>; since version 0.38 of the crate an entity reference
  is an event of its own. An attribute is its name and its value as written between the quotes.
\<close>

datatype xml_event =
    StartEv string "(string \<times> string) list" | EmptyEv string "(string \<times> string) list"
  | EndEv string | TextEv string | CDataEv string | CommentEv string | DeclEv string
  | PiEv string | DocTypeEv string | GeneralRefEv string

text \<open>\<open>None\<close>: the reader returns an error somewhere, which every user takes for the whole text.\<close>

type_synonym xml_reader = "string \<Rightarrow> xml_event list option"

definition input_error :: "string \<Rightarrow> anole_error" where
  "input_error m = anole_error_new InputInvalid Inspect m"

definition html_text :: "xml_reader \<Rightarrow> string \<Rightarrow> anole_error + string" where
  "html_text lenient source =
     res_bind (ok_or (input_error ''Malformed HTML'') (lenient source)) (\<lambda>evs.
     Inr (concat (map (\<lambda>e. case e of TextEv t \<Rightarrow> t @ '' '' | _ \<Rightarrow> []) evs)))"

definition docx_text :: "xml_reader \<Rightarrow> string \<Rightarrow> anole_error + string" where
  "docx_text strict source =
     res_bind (ok_or (input_error ''Malformed DOCX XML'') (strict source)) (\<lambda>evs.
     Inr (concat (map (\<lambda>e. case e of
            TextEv t \<Rightarrow> t
          | EndEv n \<Rightarrow> if ends_with n '':p'' \<or> n = ''p'' then '' '' else []
          | _ \<Rightarrow> []) evs)))"

section \<open>Normal form\<close>

record unicode =
  uc_alphanumeric :: "string \<Rightarrow> bool"
  uc_lowercase :: "string \<Rightarrow> string"

text \<open>Every character lower-cases to at least one character.\<close>

definition unicode_ok :: "unicode \<Rightarrow> bool" where
  "unicode_ok U = (\<forall>c. c \<noteq> [] \<longrightarrow> uc_lowercase U c \<noteq> [])"

fun push_token_char :: "unicode \<Rightarrow> string \<times> bool \<Rightarrow> string \<Rightarrow> string \<times> bool" where
  "push_token_char U (normalized, pending_space) c =
     (if uc_alphanumeric U c
      then ((if pending_space \<and> normalized \<noteq> [] then normalized @ '' '' else normalized)
              @ uc_lowercase U c, False)
      else (normalized, True))"

definition normalized_tokens :: "unicode \<Rightarrow> string \<Rightarrow> string" where
  "normalized_tokens U s = fst (foldl (push_token_char U) ([], False) (chars_of s))"

text \<open>The words of a text: the maximal runs of alphanumeric characters.\<close>

fun words :: "(string \<Rightarrow> bool) \<Rightarrow> string list \<Rightarrow> string list list" where
  "words P [] = []"
| "words P (c # cs) =
     (if \<not> P c then words P cs
      else case cs of
             [] \<Rightarrow> [[c]]
           | d # _ \<Rightarrow> if P d then (case words P cs of [] \<Rightarrow> [[c]] | w # ws \<Rightarrow> (c # w) # ws)
                      else [c] # words P cs)"

definition lower_word :: "unicode \<Rightarrow> string list \<Rightarrow> string" where
  "lower_word U w = concat (map (uc_lowercase U) w)"

lemma words_run:
  "P c \<Longrightarrow> words P (c # cs) = (c # takeWhile P cs) # words P (dropWhile P cs)"
proof (induction cs arbitrary: c)
  case (Cons d cs)
  then show ?case by (cases "P d") auto
qed simp

text \<open>
  The loop from a state: with a pending space, or nothing written yet, the words of the rest are
  appended after a space each; otherwise the first word continues the one being written.
\<close>

lemma join_with_Cons: "xs \<noteq> [] \<Longrightarrow> join_with sep (x # xs) = x @ sep @ join_with sep xs"
  by (cases xs) auto

definition after_words :: "string \<Rightarrow> string list \<Rightarrow> string" where
  "after_words acc ws = (if acc = [] then join_with '' '' ws else join_with '' '' (acc # ws))"

lemma after_words_step:
  "w \<noteq> [] \<Longrightarrow> after_words acc (w # ws) = after_words (if acc = [] then w else acc @ '' '' @ w) ws"
  by (cases ws) (auto simp: after_words_def)

lemma lower_word_simps:
  "lower_word U [] = []" "lower_word U (c # w) = uc_lowercase U c @ lower_word U w"
  by (simp_all add: lower_word_def)

lemma push_tokens:
  assumes "unicode_ok U" and "\<forall>c \<in> set cs. c \<noteq> []"
  defines "P \<equiv> uc_alphanumeric U"
  shows "fst (foldl (push_token_char U) (acc, True) cs)
        = after_words acc (map (lower_word U) (words P cs))
      \<and> (acc \<noteq> [] \<longrightarrow> fst (foldl (push_token_char U) (acc, False) cs)
        = after_words (acc @ lower_word U (takeWhile P cs))
            (map (lower_word U) (words P (dropWhile P cs))))"
  using assms(2)
proof (induction cs arbitrary: acc)
  case Nil
  then show ?case by (simp add: after_words_def lower_word_def)
next
  case (Cons c cs)
  have IH: "fst (foldl (push_token_char U) (a, True) cs) = after_words a (map (lower_word U) (words P cs))"
    "a \<noteq> [] \<Longrightarrow> fst (foldl (push_token_char U) (a, False) cs)
      = after_words (a @ lower_word U (takeWhile P cs)) (map (lower_word U) (words P (dropWhile P cs)))"
    for a
    using Cons by simp_all
  show ?case
  proof (cases "P c")
    case True
    have lower: "uc_lowercase U c \<noteq> []" using assms(1) Cons.prems by (simp add: unicode_ok_def)
    have word: "lower_word U (c # takeWhile P cs) \<noteq> []" using lower by (simp add: lower_word_def)
    show ?thesis
      using True lower IH(2) after_words_step [OF word, of acc]
      by (simp add: words_run lower_word_simps P_def del: words.simps)
  next
    case False
    then show ?thesis using IH(1) by (simp add: lower_word_simps P_def)
  qed
qed

text \<open>
  The normal form is the lower-cased words of the text, one space between them: neither
  punctuation nor spacing nor line ends show in the digest that decides whether a converted document
  kept the text.
\<close>

theorem normal_form_is_the_words:
  assumes "unicode_ok U"
  shows "normalized_tokens U s
    = join_with '' '' (map (lower_word U) (words (uc_alphanumeric U) (chars_of s)))"
proof (cases "chars_of s")
  case Nil
  then show ?thesis by (simp add: normalized_tokens_def)
next
  case (Cons c cs)
  have "push_token_char U ([], False) c = push_token_char U ([], True) c" by simp
  then have "foldl (push_token_char U) ([], False) (chars_of s)
      = foldl (push_token_char U) ([], True) (chars_of s)"
    using Cons by simp
  moreover have "fst (foldl (push_token_char U) ([], True) (chars_of s))
      = after_words [] (map (lower_word U) (words (uc_alphanumeric U) (chars_of s)))"
    using push_tokens [OF assms, of "chars_of s" "[]"] chars_of_nonempty by blast
  ultimately show ?thesis by (simp add: normalized_tokens_def after_words_def)
qed

definition ascii_unicode :: unicode where
  "ascii_unicode = \<lparr>uc_alphanumeric = (\<lambda>c. case c of [d] \<Rightarrow> is_ascii_alphanumeric d | _ \<Rightarrow> False),
     uc_lowercase = to_ascii_lowercase\<rparr>"

theorem normal_form_is_the_words_witness:
  "normalized_tokens ascii_unicode ''Hello,  world 7''
    = join_with '' '' (map (lower_word ascii_unicode)
        (words (uc_alphanumeric ascii_unicode) (chars_of ''Hello,  world 7'')))
   \<and> normalized_tokens ascii_unicode ''Hello,  world 7'' = ''hello world 7''"
proof (rule conjI)
  show "normalized_tokens ascii_unicode ''Hello,  world 7'' = ''hello world 7''" by code_simp
qed (rule normal_form_is_the_words, simp add: unicode_ok_def ascii_unicode_def to_ascii_lowercase_def)

text \<open>
  An entity reference is an event that no reader of text looks at: \<open>R&amp;D\<close> in the XML of a
  document is read as \<open>RD\<close>, so its normal form differs from that of the source \<open>R&D\<close>.
\<close>

lemma entity_references_are_lost:
  assumes "lenient ''R&amp;D'' = Some [TextEv ''R'', GeneralRefEv ''amp'', TextEv ''D'']"
    and "strict ''R&amp;D'' = Some [TextEv ''R'', GeneralRefEv ''amp'', TextEv ''D'']"
  shows "docx_text strict ''R&amp;D'' = Inr ''RD''"
    and "html_text lenient ''R&amp;D'' = Inr ''R D ''"
    and "normalized_tokens ascii_unicode ''RD'' = ''rd''"
    and "normalized_tokens ascii_unicode ''R&D'' = ''r d''"
proof -
  show "docx_text strict ''R&amp;D'' = Inr ''RD''" "html_text lenient ''R&amp;D'' = Inr ''R D ''"
    using assms by (simp_all add: docx_text_def html_text_def ok_or_def)
  show "normalized_tokens ascii_unicode ''RD'' = ''rd''"
    "normalized_tokens ascii_unicode ''R&D'' = ''r d''" by code_simp+
qed

end
