(* ===== verification/Eml.thy ===== *)
theory Eml
  imports Validation Document_Text Rust_Fs
begin

text \<open>
  \<open>crates/core/src/eml.rs\<close>: mails as input. What is kept of a parsed mail, the detection of
  references to remote resources, the sanitizer of untrusted HTML, the three renderings, the plan
  of an export, its acceptance and its run. The MIME tree comes from the \<open>mailparse\<close> crate.
\<close>

section \<open>What is kept of a mail\<close>

text \<open>
  A part: its MIME type, whether its disposition is \<open>attachment\<close>, its headers with decoded values,
  its decoded body (\<open>None\<close> when decoding fails) and its sub-parts.
\<close>

datatype mail_part =
  Part string bool "(string \<times> string) list" "string option" "mail_part list"

record parsed_email =
  pe_from :: "string option"
  pe_to :: "string option"
  pe_subject :: "string option"
  pe_date :: "string option"
  plain_body :: "string option"
  html_body :: "string option"

fun first_header :: "mail_part \<Rightarrow> string \<Rightarrow> string option" where
  "first_header (Part mt att headers body subs) key =
     (case find (\<lambda>(k, v). to_ascii_lowercase k = to_ascii_lowercase key) headers of
        None \<Rightarrow> None
      | Some (k, v) \<Rightarrow> if trim v = [] then None else Some (trim v))"

fun first_body :: "string \<Rightarrow> mail_part \<Rightarrow> string option"
  and first_body_in :: "string \<Rightarrow> mail_part list \<Rightarrow> string option" where
  "first_body mt (Part t att headers body subs) =
     (if att then None
      else if to_ascii_lowercase t = to_ascii_lowercase mt then body
      else first_body_in mt subs)"
| "first_body_in mt [] = None"
| "first_body_in mt (p # ps) =
     (case first_body mt p of None \<Rightarrow> first_body_in mt ps | Some b \<Rightarrow> Some b)"

definition max_eml_bytes :: nat where
  "max_eml_bytes = 16 * 1024 * 1024"

definition parse_eml_bytes ::
    "(string \<Rightarrow> mail_part option) \<Rightarrow> string \<Rightarrow> anole_error + parsed_email" where
  "parse_eml_bytes parse_mail bytes =
     res_bind (ensure (length bytes \<le> max_eml_bytes) (anole_error_new ResourceExhausted Inspect
       ''EML input exceeds the 16 MiB alpha limit'')) (\<lambda>_.
     res_bind (ok_or (anole_error_new InputInvalid Inspect
         ''The file is not a parseable RFC 822/MIME message'') (parse_mail bytes)) (\<lambda>m.
     Inr \<lparr>pe_from = first_header m ''From'', pe_to = first_header m ''To'',
          pe_subject = first_header m ''Subject'', pe_date = first_header m ''Date'',
          plain_body = first_body ''text/plain'' m, html_body = first_body ''text/html'' m\<rparr>))"

definition visible_text :: "xml_reader \<Rightarrow> parsed_email \<Rightarrow> string" where
  "visible_text lenient m =
     (case plain_body m of
        Some p \<Rightarrow> p
      | None \<Rightarrow>
          (case html_body m of
             None \<Rightarrow> []
           | Some h \<Rightarrow> (case html_text lenient h of Inl _ \<Rightarrow> [] | Inr t \<Rightarrow> t)))"

section \<open>Remote references\<close>

definition remote_start :: "string \<Rightarrow> bool" where
  "remote_start s =
     (starts_with s ''http://'' \<or> starts_with s ''https://'' \<or> starts_with s ''//'')"

definition skip_blanks :: "string \<Rightarrow> string" where
  "skip_blanks s = dropWhile (\<lambda>c. c = CHR '' '' \<or> c = CHR 0x09) s"

definition reference_markers :: "string list" where
  "reference_markers =
     [''src=\"'', ''src='' @ [CHR 0x27], ''href=\"'', ''href='' @ [CHR 0x27], ''src='', ''href='']"

text \<open>The search for one marker; the markers are not empty.\<close>

function remote_after :: "string \<Rightarrow> string \<Rightarrow> bool" where
  "remote_after m s =
     (if m = [] then False
      else case find_str s m of
             None \<Rightarrow> False
           | Some n \<Rightarrow>
               remote_start (skip_blanks (drop (n + length m) s)) \<or> remote_after m (drop (n + length m) s))"
  by pat_completeness auto
termination
  by (relation "measure (\<lambda>(m, s). length s)") (auto dest!: find_str_Some simp: neq_Nil_conv)

declare remote_after.simps [simp del]

definition contains_remote_reference :: "string \<Rightarrow> bool" where
  "contains_remote_reference html =
     list_ex (\<lambda>m. remote_after m (to_ascii_lowercase html)) reference_markers"

definition is_remote_url :: "string \<Rightarrow> bool" where
  "is_remote_url v =
     remote_start (to_ascii_lowercase
       (dropWhile (\<lambda>c. c = CHR '' '' \<or> c = CHR 0x09 \<or> c = CHR 0x0A \<or> c = CHR 0x0D) v))"

section \<open>The sanitizer\<close>

definition escape_html :: "string \<Rightarrow> string" where
  "escape_html v =
     replace_char (CHR ''>'') ''&gt;''
       (replace_char (CHR ''<'') ''&lt;'' (replace_char (CHR ''&'') ''&amp;'' v))"

fun sanitized_attribute :: "string \<times> string \<Rightarrow> string" where
  "sanitized_attribute (k, v) =
     (if to_ascii_lowercase k \<in> {''src'', ''href'', ''xlink:href''} \<and> is_remote_url v
      then '' data-fw-remote-removed=\"1\"''
      else if starts_with (to_ascii_lowercase k) ''on'' then []
      else '' '' @ k @ ''='' @ v)"

definition push_sanitized_attributes :: "(string \<times> string) list \<Rightarrow> string" where
  "push_sanitized_attributes as = concat (map sanitized_attribute as)"

definition is_script :: "string \<Rightarrow> bool" where
  "is_script n = (to_ascii_lowercase n = ''script'')"

definition script_removed :: string where
  "script_removed = ''<!-- script removed -->''"

fun sanitize_events :: "nat \<Rightarrow> xml_event list \<Rightarrow> string" where
  "sanitize_events depth [] = []"
| "sanitize_events depth (StartEv n as # es) =
     (if is_script n
      then (if depth = 0 then script_removed else []) @ sanitize_events (depth + 1) es
      else (if depth > 0 then [] else ''<'' @ n @ push_sanitized_attributes as @ ''>'')
             @ sanitize_events depth es)"
| "sanitize_events depth (EmptyEv n as # es) =
     (if depth > 0 then []
      else if is_script n then script_removed
      else ''<'' @ n @ push_sanitized_attributes as @ ''/>'') @ sanitize_events depth es"
| "sanitize_events depth (EndEv n # es) =
     (if is_script n then sanitize_events (depth - 1) es
      else (if depth > 0 then [] else ''</'' @ n @ ''>'') @ sanitize_events depth es)"
| "sanitize_events depth (TextEv t # es) =
     (if depth = 0 then t else []) @ sanitize_events depth es"
| "sanitize_events depth (CDataEv t # es) =
     (if depth = 0 then ''<![CDATA['' @ t @ '']]>'' else []) @ sanitize_events depth es"
| "sanitize_events depth (CommentEv t # es) =
     (if depth = 0 then ''<!--'' @ t @ ''-->'' else []) @ sanitize_events depth es"
| "sanitize_events depth (DeclEv t # es) =
     (if depth = 0 then ''<?'' @ t @ ''?>'' else []) @ sanitize_events depth es"
| "sanitize_events depth (PiEv t # es) = sanitize_events depth es"
| "sanitize_events depth (DocTypeEv t # es) = sanitize_events depth es"
| "sanitize_events depth (GeneralRefEv t # es) = sanitize_events depth es"

definition sanitize_html :: "xml_reader \<Rightarrow> string \<Rightarrow> string" where
  "sanitize_html lenient source =
     (case lenient source of
        Some es \<Rightarrow> sanitize_events 0 es
      | None \<Rightarrow> ''<pre>'' @ escape_html source @ ''</pre>'')"

section \<open>Renderings\<close>

definition header_line ::
    "(string \<Rightarrow> string \<Rightarrow> string) \<Rightarrow> string \<times> string option \<Rightarrow> string" where
  "header_line render h =
     (case h of (label, None) \<Rightarrow> [] | (label, Some v) \<Rightarrow> render label v)"

definition email_headers :: "parsed_email \<Rightarrow> (string \<times> string option) list" where
  "email_headers m =
     [(''From'', pe_from m), (''To'', pe_to m), (''Subject'', pe_subject m), (''Date'', pe_date m)]"

definition render_txt :: "xml_reader \<Rightarrow> parsed_email \<Rightarrow> string" where
  "render_txt lenient m =
     concat (map (header_line (\<lambda>label v. label @ '': '' @ v @ [newline])) (email_headers m))
     @ [newline] @ visible_text lenient m"

definition render_html :: "xml_reader \<Rightarrow> parsed_email \<Rightarrow> string" where
  "render_html lenient m =
     (let title = (case pe_subject m of None \<Rightarrow> ''Email'' | Some s \<Rightarrow> s);
          table = concat (map (header_line (\<lambda>label v.
            ''<tr><th>'' @ label @ ''</th><td>'' @ escape_html v @ ''</td></tr>'' @ [newline]))
            (email_headers m));
          body = (case html_body m of
              Some html \<Rightarrow> ''<div>'' @ [newline] @ sanitize_html lenient html @ ''</div>''
            | None \<Rightarrow> ''<pre>'' @ [newline] @ escape_html (visible_text lenient m) @ ''</pre>'')
      in ''<!DOCTYPE html>'' @ [newline] @ ''<html>'' @ [newline] @ ''<head>'' @ [newline]
         @ ''<meta charset=\"utf-8\">'' @ [newline] @ ''<title>'' @ escape_html title @ ''</title>''
         @ [newline] @ ''</head>'' @ [newline] @ ''<body>'' @ [newline] @ ''<table border=\"0\">''
         @ [newline] @ table @ ''</table>'' @ [newline] @ ''<hr>'' @ [newline] @ body @ [newline]
         @ ''</body>'' @ [newline] @ ''</html>'' @ [newline])"

definition render_md :: "xml_reader \<Rightarrow> parsed_email \<Rightarrow> string" where
  "render_md lenient m =
     ''# '' @ (case pe_subject m of None \<Rightarrow> ''Email'' | Some s \<Rightarrow> s) @ [newline, newline]
     @ concat (map (header_line (\<lambda>label v. ''**'' @ label @ '':** '' @ v @ [newline]))
         [(''From'', pe_from m), (''To'', pe_to m), (''Date'', pe_date m)])
     @ [newline] @ visible_text lenient m"

section \<open>Plan and acceptance\<close>

definition stream_property :: "probe \<Rightarrow> string \<Rightarrow> json" where
  "stream_property p name =
     (case streams p of
        [] \<Rightarrow> JNull
      | st # _ \<Rightarrow> (case properties st name of None \<Rightarrow> JNull | Some v \<Rightarrow> v))"

definition export_target :: "string \<Rightarrow> string" where
  "export_target t = to_ascii_lowercase (trim_dots (trim t))"

definition plan_eml_export ::
    "plan_env \<Rightarrow> probe \<Rightarrow> string \<Rightarrow> engine_identity \<Rightarrow> string \<Rightarrow> anole_error + plan" where
  "plan_eml_export E p out eng requested =
     (let target = export_target requested in
      res_bind (ensure (format_id (format p) = ''eml'')
        (plan_error Unsupported ''EML export input must be an .eml message'')) (\<lambda>_.
      res_bind (ensure (target \<in> {''txt'', ''html'', ''md''})
        (plan_error Unsupported ''EML export target must be txt, html, or md'')) (\<lambda>_.
      res_bind (ensure (engine_id eng = ''anole.eml'')
        (plan_error EngineIncompatible ''The EML export Plan was given the wrong engine'')) (\<lambda>_.
      res_bind (ensure (stream_property p ''has_external_resource'' \<noteq> JBool True)
        (plan_error PolicyBlocked
          ''The email HTML body references an external resource under deny-all policy'')) (\<lambda>_.
      seal_plan E (one_step_plan E p target
        (btree_from [(''network'', JStr ''deny''), (''external_resources'', JStr ''deny''),
                     (''scripts'', JStr ''stripped'')])
        \<lparr>step_id = ''step-1'', capability_id = ''anole.eml.eml-to-'' @ target @ ''.builtin'',
         engine = eng, operation_of = Transform, loss = UnknownLoss,
         arguments = btree_from [(''source_format'', ''eml''), (''target_format'', target),
           (''network'', ''deny''), (''sanitize_html'', ''true'')],
         estimated_temporary_bytes = Some (sat_mul (size_bytes (artifact p)) 2)\<rparr>
        \<lparr>preserved = [''decoded From/To/Subject/Date headers'', ''normalized textual content''],
         changed = [''the email is re-serialized as a standalone document''],
         dropped = [''attachments and non-text MIME parts'',
           ''scripts, event handlers, and remote resources''],
         unknown = [''visual fidelity of the original HTML'']\<rparr>
        [''document.text-extractable'', ''eml.headers-present''] (Some out) None))))))"

definition summary_of :: "probe \<Rightarrow> artifact_summary" where
  "summary_of p =
     \<lparr>sum_display_path = Some (display_path (artifact p)), sum_format_id = format_id (format p),
      sum_size_bytes = size_bytes (artifact p),
      sum_fast_fingerprint = fast_fingerprint (artifact p),
      sum_full_blake3 = full_blake3 (artifact p)\<rparr>"

text \<open>The worst status of all checks, as the document adapters take it.\<close>

definition worst_status :: "validation_check list \<Rightarrow> validation_status" where
  "worst_status cs = foldl (\<lambda>s c. worst s (check_status c)) Pass cs"

definition adapter_report ::
    "uuid \<Rightarrow> artifact_summary \<Rightarrow> artifact_summary \<Rightarrow> plan \<Rightarrow> uuid \<Rightarrow> validation_check list
     \<Rightarrow> validation_report" where
  "adapter_report fresh i out p job cs =
     \<lparr>report_schema_version = schema_version, report_id = fresh, report_job_id = job,
      report_plan_hash = plan_hash p, report_status = worst_status cs, report_input = i,
      report_output = out, report_engines = map engine (steps p), checks = cs,
      intentional_changes = changed (changes p),
      redaction = \<lparr>paths_redacted = False, metadata_values_redacted = True\<rparr>\<rparr>"

definition is_json_string :: "json \<Rightarrow> bool" where
  "is_json_string v = (as_str v \<noteq> None)"

definition json_u64_or_zero :: "json \<Rightarrow> nat" where
  "json_u64_or_zero v = (case as_u64 v of None \<Rightarrow> 0 | Some n \<Rightarrow> n)"

definition eml_check :: "string \<Rightarrow> bool \<Rightarrow> json \<Rightarrow> json \<Rightarrow> string \<Rightarrow> validation_check" where
  "eml_check c ok e obs m = check c (pass_or_fail ok) True e obs ''Anole native EML adapter'' m"

definition text_output_format :: "string \<Rightarrow> string" where
  "text_output_format target =
     (if target = ''html'' then ''html'' else if target = ''md'' then ''markdown'' else ''plain'')"

definition validate_eml_export_output ::
    "uuid \<Rightarrow> probe \<Rightarrow> probe \<Rightarrow> plan \<Rightarrow> uuid \<Rightarrow> string \<Rightarrow> validation_report" where
  "validate_eml_export_output fresh input output p job rendered =
     (let target = target_format p;
          wanted = text_output_format target;
          chars = json_u64_or_zero (stream_property output ''text_characters'');
          from_value = stream_property input ''eml_from'';
          to_value = stream_property input ''eml_to'';
          cs = [eml_check ''EML_TARGET_FORMAT'' (format_id (format output) = wanted) (JStr wanted)
                  (JStr (format_id (format output))) ''Detected output format.'',
                eml_check ''EXPORT_TEXT_NONEMPTY'' (0 < chars) (JStr ''>0'') (JInt (int chars))
                  ''Output carries at least one normalized text character.'',
                eml_check ''EMLO_FROMTO'' (is_json_string from_value \<and> is_json_string to_value)
                  (JStr ''from+to'') (JObj [(''from'', from_value), (''to'', to_value)])
                  ''From/To headers were decoded from the message.'']
               @ (if target = ''html''
                  then [eml_check ''EML_HTML_SCRIPT_FREE''
                          (\<not> contains_str (to_ascii_lowercase rendered) ''<script'')
                          (JStr ''no <script'') (JStr ''checked'')
                          ''The exported HTML contains no <script> element.'']
                  else [])
      in adapter_report fresh (summary_of input) (summary_of output) p job cs)"

end
