(* ===== verification/Document.thy ===== *)
theory Document
  imports Eml
begin

text \<open>
  \<open>crates/core/src/document.rs\<close>: markup and packaged documents. The format a file is taken for,
  what the inspector finds out about markup, the four planners of the Pandoc lanes and the
  acceptance of their outputs.
\<close>

section \<open>Recognizing a document\<close>

definition document_unsupported :: "string \<Rightarrow> anole_error" where
  "document_unsupported m = plan_error Unsupported m"

function trim_bom :: "string \<Rightarrow> string" where
  "trim_bom s =
     (if starts_with s [CHR 0xEF, CHR 0xBB, CHR 0xBF] then trim_bom (drop 3 s) else s)"
  by pat_completeness auto
termination
  by (relation "measure length") (auto simp: starts_with_def prefix_def)

declare trim_bom.simps [simp del]

text \<open>The first 4096 bytes decide, then the extension, which is lower-cased.\<close>

definition format_of_extension :: "string option \<Rightarrow> anole_error + string" where
  "format_of_extension ext =
     ok_or (document_unsupported ''Document format is not recognized'')
       (Option.bind ext (map_of
          [(''md'', ''markdown''), (''markdown'', ''markdown''), (''txt'', ''plain''), (''text'', ''plain''),
           (''html'', ''html''), (''htm'', ''html''), (''svg'', ''svg''), (''docx'', ''docx''),
           (''eml'', ''eml''), (''epub'', ''epub'')]))"

definition document_format_hint :: "string \<Rightarrow> string option \<Rightarrow> anole_error + string" where
  "document_format_hint prefix_bytes ext =
     (if starts_with prefix_bytes (''PK'' @ [CHR 0x03, CHR 0x04])
      then Inr (if contains_str prefix_bytes ''application/epub+zip'' then ''epub'' else ''docx'')
      else
        let trimmed = to_ascii_lowercase (trim_start (trim_bom (from_utf8_lossy prefix_bytes))) in
        if starts_with trimmed ''<!doctype html'' \<or> starts_with trimmed ''<html'' then Inr ''html''
        else if starts_with trimmed ''<svg''
             \<or> (starts_with trimmed ''<?xml'' \<and> contains_str trimmed ''<svg'') then Inr ''svg''
        else format_of_extension (map_option to_ascii_lowercase ext))"

definition detects_external_resource :: "string \<Rightarrow> string \<Rightarrow> bool" where
  "detects_external_resource source fmt =
     (let lowered = to_ascii_lowercase source in
      if fmt = ''markdown'' then contains_str lowered ''!['' \<and> contains_str lowered ''](''
      else if fmt = ''svg'' then contains_str lowered ''<image''
      else contains_str lowered ''<img'' \<and> contains_str lowered ''src='')"

definition properties_for_text ::
    "unicode \<Rightarrow> (string \<Rightarrow> string) \<Rightarrow> string \<Rightarrow> bool \<Rightarrow> (string \<times> json) list" where
  "properties_for_text U blake3 s docx =
     (let normalized = normalized_tokens U s in
      btree_from [(''semantic_token_digest'', JStr (''blake3:'' @ blake3 normalized)),
        (''text_characters'', JInt (int (chars_count normalized))),
        (''required_parts_present'', JBool docx)])"

definition max_markup_bytes :: nat where
  "max_markup_bytes = 16 * 1024 * 1024"

text \<open>
  The properties of Markdown, HTML, SVG and plain text: the size of the file, then its bytes; the
  mail and package formats have inspectors of their own.
\<close>

definition inspect_markup_properties ::
    "unicode \<Rightarrow> (string \<Rightarrow> string) \<Rightarrow> xml_reader \<Rightarrow> nat \<Rightarrow> string option \<Rightarrow> string
     \<Rightarrow> anole_error + (string \<times> json) list" where
  "inspect_markup_properties U blake3 lenient len bytes fmt =
     res_bind (ensure (len \<le> max_markup_bytes) (anole_error_new ResourceExhausted Inspect
       ''Markup input exceeds the 16 MiB alpha limit'')) (\<lambda>_.
     res_bind (case bytes of
         Some s \<Rightarrow> if from_utf8 s then Inr s else Inl (input_error ''Markup must be valid UTF-8'')
       | None \<Rightarrow> Inl (input_error ''Markup must be valid UTF-8'')) (\<lambda>s.
     res_bind (if fmt \<in> {''html'', ''svg''} then html_text lenient s else Inr s) (\<lambda>visible.
     Inr (btree_insert ''has_external_resource'' (JBool (detects_external_resource s fmt))
       (properties_for_text U blake3 visible False)))))"

section \<open>The planners\<close>

definition offline_arguments :: "string \<Rightarrow> string \<Rightarrow> (string \<times> string) list" where
  "offline_arguments source target =
     [(''source_format'', source), (''target_format'', target), (''sandbox'', ''true''),
      (''standalone'', ''true''), (''resource_policy'', ''deny-all'')]"

definition offline_constraints :: "(string \<times> json) list" where
  "offline_constraints =
     [(''network'', JStr ''deny''), (''external_resources'', JStr ''deny''), (''macros'', JStr ''disabled'')]"

definition pandoc_step :: "probe \<Rightarrow> engine_identity \<Rightarrow> string \<Rightarrow> string \<Rightarrow> plan_step" where
  "pandoc_step p pandoc capability target =
     \<lparr>step_id = ''step-1'', capability_id = capability, engine = pandoc, operation_of = Transform,
      loss = UnknownLoss, arguments = btree_from (offline_arguments (format_id (format p)) target),
      estimated_temporary_bytes = Some (sat_mul (size_bytes (artifact p)) 4)\<rparr>"

definition markup_guards ::
    "probe \<Rightarrow> engine_identity \<Rightarrow> string \<Rightarrow> string \<Rightarrow> anole_error + unit" where
  "markup_guards p pandoc wrong_input wrong_engine =
     res_bind (ensure (format_id (format p) \<in> {''markdown'', ''html'', ''plain''})
       (document_unsupported wrong_input)) (\<lambda>_.
     res_bind (ensure (engine_id pandoc = ''pandoc'') (plan_error EngineIncompatible wrong_engine)) (\<lambda>_.
     ensure (stream_property p ''has_external_resource'' \<noteq> JBool True)
       (plan_error PolicyBlocked
         ''Markup contains an external image/resource under deny-all policy'')))"

definition plan_markup_to_docx ::
    "plan_env \<Rightarrow> probe \<Rightarrow> string \<Rightarrow> engine_identity \<Rightarrow> anole_error + plan" where
  "plan_markup_to_docx E p out pandoc =
     res_bind (markup_guards p pandoc ''Pandoc DOCX input must be Markdown, HTML, or plain text''
       ''The document Plan was given the wrong engine'') (\<lambda>_.
     seal_plan E (one_step_plan E p ''docx'' (btree_from offline_constraints)
       (pandoc_step p pandoc (''pandoc.'' @ format_id (format p) @ ''-to-docx.offline'') ''docx'')
       \<lparr>preserved = [''normalized textual content'', ''document structure supported by Pandoc''],
        changed = [''layout is rendered using Pandoc's default DOCX reference document''],
        dropped = [''external resources under the default deny policy''],
        unknown = [''visual fidelity is not certified by the alpha DOCX validator'']\<rparr>
       [''docx.package-opens'', ''docx.required-parts'', ''docx.semantic-token-digest'']
       (Some out) None))"

definition epub_validators :: "string list" where
  "epub_validators = [''epub.container-valid'', ''epub.content-documents'', ''epub.text-coverage'']"

definition plan_markup_to_epub ::
    "plan_env \<Rightarrow> probe \<Rightarrow> string \<Rightarrow> engine_identity \<Rightarrow> anole_error + plan" where
  "plan_markup_to_epub E p out pandoc =
     res_bind (markup_guards p pandoc ''Pandoc EPUB input must be Markdown, HTML, or plain text''
       ''The EPUB Plan was given the wrong engine'') (\<lambda>_.
     seal_plan E (one_step_plan E p ''epub'' (btree_from offline_constraints)
       (pandoc_step p pandoc (''pandoc.'' @ format_id (format p) @ ''-to-epub.offline'') ''epub'')
       \<lparr>preserved = [''normalized textual content'', ''document structure supported by Pandoc''],
        changed = [''layout is rendered using Pandoc's default EPUB styling''],
        dropped = [''external resources under the default deny policy''],
        unknown = [''visual fidelity is not certified by the alpha EPUB validator'']\<rparr>
       epub_validators (Some out) None))"

definition plan_markup_export ::
    "plan_env \<Rightarrow> probe \<Rightarrow> string \<Rightarrow> engine_identity \<Rightarrow> string \<Rightarrow> anole_error + plan" where
  "plan_markup_export E p out pandoc requested =
     (let target = export_target requested; source = format_id (format p) in
      res_bind (ensure (source \<in> {''docx'', ''html''}) (document_unsupported
        ''Pandoc export input must be a DOCX package or an HTML document'')) (\<lambda>_.
      res_bind (ensure (target \<in> {''txt'', ''md'', ''html'', ''epub''}) (document_unsupported
        ''Markup export target must be txt, md, html, or epub'')) (\<lambda>_.
      res_bind (ensure (engine_id pandoc = ''pandoc'') (plan_error EngineIncompatible
        ''The markup export Plan was given the wrong engine'')) (\<lambda>_.
      res_bind (ensure (\<not> (source = ''html''
            \<and> stream_property p ''has_external_resource'' = JBool True)) (plan_error PolicyBlocked
        ''The HTML document references an external resource under deny-all policy'')) (\<lambda>_.
      seal_plan E (one_step_plan E p target (btree_from offline_constraints)
        (pandoc_step p pandoc (''pandoc.'' @ source @ ''-to-'' @ target @ ''.offline'') target)
        \<lparr>preserved = [''normalized textual content'', ''document structure supported by Pandoc''],
         changed = [source @ '' structure is re-serialized through Pandoc's default '' @ target @ '' writer''],
         dropped = [(if source = ''docx'' then ''Word'' else ''HTML'')
            @ ''-specific layout and active content''],
         unknown = [''semantic token order may be re-arranged by the Pandoc reader'']\<rparr>
        (if target = ''epub'' then epub_validators else [''document.text-extractable''])
        (Some out) None))))))"

definition markup_pdf_steps ::
    "probe \<Rightarrow> engine_identity \<Rightarrow> engine_identity \<Rightarrow> engine_identity \<Rightarrow> engine_identity \<Rightarrow> plan_step list" where
  "markup_pdf_steps p pandoc soffice pdfinfo pdftoppm =
     [\<lparr>step_id = ''step-1'',
       capability_id = ''pandoc.'' @ format_id (format p) @ ''-to-docx.intermediate.offline'',
       engine = pandoc, operation_of = Transform, loss = UnknownLoss,
       arguments = btree_from (offline_arguments (format_id (format p)) ''docx''
         @ [(''purpose'', ''intermediate'')]),
       estimated_temporary_bytes = Some (sat_mul (size_bytes (artifact p)) 4)\<rparr>,
      \<lparr>step_id = ''step-2'', capability_id = ''libreoffice.docx-to-pdf.headless'', engine = soffice,
       operation_of = Render, loss = UnknownLoss,
       arguments = btree_from [(''source_format'', ''docx''), (''target_format'', ''pdf''),
         (''headless'', ''true''), (''isolated_profile'', ''true''), (''macros'', ''disabled''),
         (''external_resources'', ''deny'')],
       estimated_temporary_bytes = Some (sat_mul (size_bytes (artifact p)) 8)\<rparr>,
      \<lparr>step_id = ''step-3'', capability_id = ''poppler.pdf-structural-validation.all-pages'',
       engine = pdfinfo, operation_of = OpInspect, loss = NoLoss,
       arguments = btree_from [(''page_sizes'', ''required''), (''target_format'', ''pdf''),
         (''purpose'', ''validation-only'')],
       estimated_temporary_bytes = None\<rparr>,
      \<lparr>step_id = ''step-4'', capability_id = ''poppler.pdf-render-validation.all-pages'',
       engine = pdftoppm, operation_of = OpInspect, loss = NoLoss,
       arguments = btree_from [(''dpi'', ''72''), (''target_format'', ''png''),
         (''purpose'', ''validation-only'')],
       estimated_temporary_bytes = None\<rparr>]"

definition plan_markup_to_pdf ::
    "plan_env \<Rightarrow> probe \<Rightarrow> string \<Rightarrow> engine_identity \<Rightarrow> engine_identity \<Rightarrow> engine_identity
     \<Rightarrow> engine_identity \<Rightarrow> anole_error + plan" where
  "plan_markup_to_pdf E p out pandoc soffice pdfinfo pdftoppm =
     res_bind (ensure (format_id (format p) \<in> {''markdown'', ''html'', ''plain''})
       (document_unsupported ''Pandoc PDF input must be Markdown, HTML, or plain text'')) (\<lambda>_.
     res_bind (ensure (stream_property p ''has_external_resource'' \<noteq> JBool True)
       (plan_error PolicyBlocked
         ''Markup contains an external image/resource under deny-all policy'')) (\<lambda>_.
     res_bind (ensure (engine_id pandoc = ''pandoc'' \<and> engine_id soffice = ''soffice''
         \<and> engine_id pdfinfo = ''pdfinfo'' \<and> engine_id pdftoppm = ''pdftoppm'')
       (plan_error EngineIncompatible ''The markup-to-PDF Plan was given an incorrect engine'')) (\<lambda>_.
     seal_plan E
       \<lparr>plan_schema_version = schema_version, plan_id = pe_uuid E, plan_hash = [],
        input_fingerprint = fast_fingerprint (artifact p), target_format = ''pdf'',
        constraints = btree_from (offline_constraints
          @ [(''isolated_user_profile'', JBool True), (''all_pdf_pages_must_render'', JBool True)]),
        steps = markup_pdf_steps p pandoc soffice pdfinfo pdftoppm,
        changes =
          \<lparr>preserved = [''normalized textual content through the intermediate DOCX'',
             ''document structure supported by Pandoc and LibreOffice''],
           changed = [''markup is normalized through Pandoc's default DOCX reference document'',
             ''editable structure is rendered into fixed PDF pages''],
           dropped = [''external resources, active content, and interactive behavior''],
           unknown = [''font substitution and pixel-level layout fidelity require fixture comparison'']\<rparr>,
        validators = [''docx.semantic-token-digest'', ''office.pdf-opens'', ''office.pdf-page-count'',
          ''office.pdf-page-sizes'', ''office.pdf-all-pages-render'', ''office.font-diagnostics'',
          ''office.visual-drift''],
        network_policy = Deny, output_path = Some out, estimated_output_bytes = None\<rparr>)))"

section \<open>Acceptance\<close>

definition document_check ::
    "string \<Rightarrow> validation_status \<Rightarrow> json \<Rightarrow> json \<Rightarrow> string \<Rightarrow> validation_check" where
  "document_check c st e obs m = check c st True e obs ''Anole native document inspector'' m"

definition document_report ::
    "uuid \<Rightarrow> probe \<Rightarrow> probe \<Rightarrow> plan \<Rightarrow> uuid \<Rightarrow> validation_check list \<Rightarrow> validation_report" where
  "document_report fresh input output p job cs =
     adapter_report fresh (summary_of input) (summary_of output) p job cs"

definition digest_of :: "probe \<Rightarrow> json" where
  "digest_of p = stream_property p ''semantic_token_digest''"

definition characters_of :: "probe \<Rightarrow> nat" where
  "characters_of p = json_u64_or_zero (stream_property p ''text_characters'')"

definition validate_docx_output ::
    "uuid \<Rightarrow> probe \<Rightarrow> probe \<Rightarrow> plan \<Rightarrow> uuid \<Rightarrow> validation_report" where
  "validate_docx_output fresh input output p job =
     document_report fresh input output p job
       [document_check ''DOCX_PACKAGE_OPENS'' Pass (JBool True) (JBool True)
          ''Native ZIP reader opened the package.'',
        document_check ''DOCX_TARGET_FORMAT'' (pass_or_fail (format_id (format output) = ''docx''))
          (JStr ''docx'') (JStr (format_id (format output))) ''Detected output format.'',
        document_check ''DOCX_REQUIRED_PARTS''
          (pass_or_fail (stream_property output ''required_parts_present'' = JBool True))
          (JBool True) (stream_property output ''required_parts_present'') ''Required OPC parts exist.'',
        document_check ''DOCX_SEMANTIC_TOKEN_DIGEST'' (pass_or_fail (digest_of input = digest_of output))
          (digest_of input) (digest_of output) ''Normalized Unicode token digest.'']"

definition validate_epub_output ::
    "uuid \<Rightarrow> probe \<Rightarrow> probe \<Rightarrow> plan \<Rightarrow> uuid \<Rightarrow> validation_report" where
  "validate_epub_output fresh input output p job =
     (let contents = stream_property output ''content_documents'' in
      document_report fresh input output p job
       [document_check ''EPUB_PACKAGE_OPENS'' Pass (JBool True) (JBool True)
          ''Native ZIP reader opened the package.'',
        document_check ''EPUB_TARGET_FORMAT'' (pass_or_fail (format_id (format output) = ''epub''))
          (JStr ''epub'') (JStr (format_id (format output))) ''Detected output format.'',
        document_check ''EPUB_CONTENT_DOCUMENTS'' (pass_or_fail (1 \<le> json_u64_or_zero contents))
          (JInt 1) contents ''Publication contains at least one XHTML content document.'',
        document_check ''EPUB_TEXT_COVERAGE''
          (pass_or_fail (characters_of input * 8 \<le> characters_of output * 10))
          (json_nat (characters_of input)) (json_nat (characters_of output))
          ''Output text volume covers at least 80% of the input.'',
        document_check ''EPUB_TEXT_FIDELITY'' (if digest_of input = digest_of output then Pass else Warn)
          (digest_of input) (digest_of output)
          ''Digest matches, or differs only by EPUB navigation text.''])"

definition validate_text_export_output ::
    "uuid \<Rightarrow> probe \<Rightarrow> probe \<Rightarrow> plan \<Rightarrow> uuid \<Rightarrow> validation_report" where
  "validate_text_export_output fresh input output p job =
     document_report fresh input output p job
       [document_check ''EXPORT_TEXT_NONEMPTY'' (pass_or_fail (0 < characters_of output))
          (JStr ''>0'') (json_nat (characters_of output))
          ''Output carries at least one normalized text character.'',
        document_check ''EXPORT_TEXT_FIDELITY'' (if digest_of input = digest_of output then Pass else Warn)
          (digest_of input) (digest_of output)
          ''Digest matches, or differs only by Pandoc re-serialization.'']"

end
