(* ===== verification/Eml_Export.thy ===== *)
theory Eml_Export
  imports Eml Media_Plans
begin

text \<open>
  The run of a mail export (\<open>execute_eml_export\<close> of \<open>crates/core/src/eml.rs\<close>) and what the
  sanitizer, the policy check and the acceptance of an export guarantee.
\<close>

section \<open>The run\<close>

text \<open>
  The operating system with file contents: reading a whole file, \<open>fs::write\<close> (which truncates what
  is there), what other processes do between the test for the destination and the write, the
  document inspector, the MIME parser, the reader of HTML and the fresh report identifier.
\<close>

record export_world = os_world +
  ew_read :: "string \<Rightarrow> fs \<Rightarrow> string option"
  ew_write :: "string \<Rightarrow> string \<Rightarrow> fs \<Rightarrow> bool \<times> fs"
  ew_others :: "fs \<Rightarrow> fs"
  ew_inspect :: "string \<Rightarrow> fs \<Rightarrow> anole_error + probe"
  ew_parse_mail :: "string \<Rightarrow> mail_part option"
  ew_html :: xml_reader
  ew_report :: uuid

definition render_email :: "xml_reader \<Rightarrow> string \<Rightarrow> parsed_email \<Rightarrow> string" where
  "render_email lenient target m =
     (if target = ''html'' then render_html lenient m
      else if target = ''md'' then render_md lenient m else render_txt lenient m)"

definition parse_eml_file ::
    "'a export_world_scheme \<Rightarrow> string \<Rightarrow> fs \<Rightarrow> anole_error + parsed_email" where
  "parse_eml_file W path f =
     res_bind (ok_or (anole_error_new InputInvalid Inspect ''Unable to read the EML file'')
       (ew_read W path f)) (parse_eml_bytes (ew_parse_mail W))"

definition execute_eml_export ::
    "'a export_world_scheme \<Rightarrow> probe \<Rightarrow> plan \<Rightarrow> fs
     \<Rightarrow> (anole_error + string \<times> validation_report) \<times> fs" where
  "execute_eml_export W input p f =
     (case output_path p of
        None \<Rightarrow> (Inl (anole_error_new InputInvalid Execute ''EML export Plan has no output path''), f)
      | Some out \<Rightarrow>
          if fs_exists f out
          then (Inl (anole_error_new OutputConflict Execute
                 ''The EML export destination already exists''), f)
          else case parse_eml_file W (canonical_path (artifact input)) f of
            Inl e \<Rightarrow> (Inl e, f)
          | Inr m \<Rightarrow>
              let rendered = render_email (ew_html W) (target_format p) m in
              case ew_write W out rendered (ew_others W f) of
                (False, f1) \<Rightarrow> (Inl (anole_error_new ExecutionFailed Execute
                    ''Unable to write the EML export output''), f1)
              | (True, f1) \<Rightarrow>
                  (case ew_inspect W out f1 of
                     Inl e \<Rightarrow> (Inl e, snd (remove_path W out f1))
                   | Inr output \<Rightarrow>
                       let r = validate_eml_export_output (ew_report W) input output p (ew_report W)
                                 rendered
                       in if report_status r = Fail
                          then (Inl (anole_error_new ValidationFailed Validate
                                 ''EML export output failed required validation checks''),
                                snd (remove_path W out f1))
                          else (Inr (out, r), f1)))"

section \<open>Remote references\<close>

text \<open>An occurrence of a marker whose rest, after blanks, is an absolute or protocol-relative URL.\<close>

definition refers_outside :: "string \<Rightarrow> string \<Rightarrow> bool" where
  "refers_outside m s = (\<exists>a b. s = a @ m @ b \<and> remote_start (skip_blanks b))"

text \<open>No marker overlaps itself, so the search, which goes on after an occurrence, misses none.\<close>

definition borderless :: "string \<Rightarrow> bool" where
  "borderless m = (\<forall>k < length m. k \<noteq> 0 \<longrightarrow> drop k m \<noteq> take (length m - k) m)"

lemma find_str_first:
  "s = a @ m @ b \<Longrightarrow> m \<noteq> [] \<Longrightarrow> \<exists>n. find_str s m = Some n \<and> n \<le> length a"
proof (induction a arbitrary: s)
  case Nil
  then show ?case by (cases m) auto
next
  case (Cons c a)
  then obtain n where "find_str (a @ m @ b) m = Some n" "n \<le> length a" by blast
  with Cons.prems show ?case by auto
qed

lemma occurrence_after:
  assumes s: "s = a @ m @ b" and n: "find_str s m = Some n" and m: "m \<noteq> []" "borderless m"
    and "n \<noteq> length a"
  shows "\<exists>a'. drop (n + length m) s = a' @ m @ b"
proof -
  have "n < length a" using find_str_first [OF s m(1)] n assms(5) by auto
  have "length a \<ge> n + length m"
  proof (rule ccontr)
    assume early: "\<not> ?thesis"
    define k where "k = length a - n"
    have k: "k \<noteq> 0" "k < length m" using \<open>n < length a\<close> early by (auto simp: k_def)
    have here: "take (length m) (drop n s) = m"
      using find_str_Some [OF n] by (auto simp: prefix_def)
    have there: "take (length m) (drop (n + k) s) = m"
      using s \<open>n < length a\<close> by (simp add: k_def)
    have "drop k m = take (length m - k) (drop (n + k) s)"
      using here by (metis add.commute drop_drop drop_take)
    also have "\<dots> = take (length m - k) m"
      using there by (metis diff_le_self min.absorb1 take_take)
    finally show False using m(2) k by (auto simp: borderless_def)
  qed
  then have "drop (n + length m) s = drop (n + length m) a @ m @ b" using s by simp
  then show ?thesis by blast
qed

lemma remote_after_iff:
  "m \<noteq> [] \<Longrightarrow> borderless m \<Longrightarrow> remote_after m s \<longleftrightarrow> refers_outside m s"
proof (induction m s rule: remote_after.induct)
  case (1 m s)
  show ?case
  proof (cases "find_str s m")
    case None
    then have "\<not> refers_outside m s"
      using find_str_None [of s m] by (auto simp: refers_outside_def contains_str_sublist sublist_def)
    with None 1(2) show ?thesis by (simp add: remote_after.simps [of m s])
  next
    case (Some n)
    let ?rest = "drop (n + length m) s"
    from find_str_Some [OF Some] have split: "s = take n s @ m @ ?rest"
      by (metis add.commute append_take_drop_id drop_drop prefix_def append_eq_conv_conj)
    have "refers_outside m s \<longleftrightarrow> remote_start (skip_blanks ?rest) \<or> refers_outside m ?rest"
    proof
      assume "refers_outside m s"
      then obtain a b where s: "s = a @ m @ b" and b: "remote_start (skip_blanks b)"
        by (auto simp: refers_outside_def)
      show "remote_start (skip_blanks ?rest) \<or> refers_outside m ?rest"
      proof (cases "n = length a")
        case True
        then have "?rest = b" using s by simp
        with b show ?thesis by simp
      next
        case False
        from occurrence_after [OF s Some 1(2,3) False] b show ?thesis
          by (auto simp: refers_outside_def)
      qed
    next
      assume "remote_start (skip_blanks ?rest) \<or> refers_outside m ?rest"
      then show "refers_outside m s"
      proof
        assume "refers_outside m ?rest"
        then obtain a b where "?rest = a @ m @ b" "remote_start (skip_blanks b)"
          by (auto simp: refers_outside_def)
        then show ?thesis
          using split unfolding refers_outside_def by (metis append.assoc)
      qed (use split in \<open>auto simp: refers_outside_def\<close>)
    qed
    with Some 1 show ?thesis by (simp add: remote_after.simps [of m s])
  qed
qed

lemma markers_borderless: "m \<in> set reference_markers \<Longrightarrow> m \<noteq> [] \<and> borderless m"
proof -
  have "list_all (\<lambda>m. m \<noteq> [] \<and> list_all (\<lambda>k. k \<noteq> 0 \<longrightarrow> drop k m \<noteq> take (length m - k) m)
      [0..<length m]) reference_markers"
    by code_simp
  then show "m \<in> set reference_markers \<Longrightarrow> ?thesis"
    by (auto simp: list_all_iff borderless_def)
qed

text \<open>
  C23: The policy check of a mail finds a remote reference exactly when one of the markers occurs,
  in any letter case, with an absolute or protocol-relative URL after it and blanks at most between.
\<close>

theorem remote_references_are_found:
  "contains_remote_reference html \<longleftrightarrow>
     (\<exists>m \<in> set reference_markers. \<exists>a b. to_ascii_lowercase html = a @ m @ b
        \<and> remote_start (skip_blanks b))"
  using markers_borderless remote_after_iff
  by (auto simp: contains_remote_reference_def list_ex_iff refers_outside_def)

section \<open>Scripts\<close>

text \<open>How deep in script elements a list of events ends, from a depth.\<close>

fun script_depth :: "nat \<Rightarrow> xml_event list \<Rightarrow> nat" where
  "script_depth d [] = d"
| "script_depth d (StartEv n as # es) = script_depth (if is_script n then d + 1 else d) es"
| "script_depth d (EndEv n # es) = script_depth (if is_script n then d - 1 else d) es"
| "script_depth d (e # es) = script_depth d es"

text \<open>The events stay inside the element they start in.\<close>

fun stays_inside :: "nat \<Rightarrow> xml_event list \<Rightarrow> bool" where
  "stays_inside d [] = (d = 1)"
| "stays_inside d (StartEv n as # es) = stays_inside (if is_script n then d + 1 else d) es"
| "stays_inside d (EndEv n # es) =
     (if is_script n then 1 < d \<and> stays_inside (d - 1) es else stays_inside d es)"
| "stays_inside d (e # es) = stays_inside d es"

lemma sanitize_append:
  "sanitize_events d (es @ fs) = sanitize_events d es @ sanitize_events (script_depth d es) fs"
  by (induction d es rule: sanitize_events.induct) auto

lemma sanitize_inside:
  "stays_inside d es \<Longrightarrow> 0 < d \<Longrightarrow> sanitize_events d es = [] \<and> script_depth d es = 1"
  by (induction d es rule: stays_inside.induct) (auto split: if_splits)

text \<open>
  C24: Whatever a script element holds, nested script elements included, the sanitized text is the
  one with a comment in its place.
\<close>

theorem script_elements_vanish:
  assumes "is_script s" and "is_script e" and "script_depth 0 before = 0" and "stays_inside 1 inside"
  shows "sanitize_events 0 (before @ StartEv s as # inside @ EndEv e # after)
    = sanitize_events 0 before @ script_removed @ sanitize_events 0 after"
  using assms sanitize_inside [OF assms(4)] by (simp add: sanitize_append)

theorem script_elements_vanish_witness:
  "sanitize_events 0 ([TextEv ''a''] @ StartEv ''SCRIPT'' [] # [TextEv ''run()''] @ EndEv ''script''
      # [TextEv ''b''])
    = ''a'' @ script_removed @ ''b''"
proof -
  have "is_script ''SCRIPT''" "is_script ''script''" by code_simp+
  from script_elements_vanish [OF this, of "[TextEv ''a'']" "[TextEv ''run()'']" "[]" "[TextEv ''b'']"]
  show ?thesis by simp
qed

text \<open>
  The attributes that are kept are written without quotes: after the value of a harmless
  attribute has its first blank, what follows are attributes of their own, event handlers and remote
  references included, although these are removed when they are written as attributes.
\<close>

theorem sanitizer_unquotes_attributes:
  assumes "lenient html = Some [StartEv n [(k, a @ '' onclick='' @ h)]]" and "\<not> is_script n"
    and "to_ascii_lowercase k \<notin> {''src'', ''href'', ''xlink:href''}"
    and "\<not> starts_with (to_ascii_lowercase k) ''on''"
  shows "sanitize_html lenient html = ''<'' @ n @ '' '' @ k @ ''='' @ a @ '' onclick='' @ h @ ''>''"
    and "lenient html' = Some [StartEv n [(''onclick'', h)]] \<Longrightarrow>
      sanitize_html lenient html' = ''<'' @ n @ ''>''"
proof -
  have "to_ascii_lowercase ''onclick'' = ''onclick''" by code_simp
  then show "lenient html' = Some [StartEv n [(''onclick'', h)]] \<Longrightarrow>
      sanitize_html lenient html' = ''<'' @ n @ ''>''"
    using assms(2) by (simp add: sanitize_html_def push_sanitized_attributes_def starts_with_def)
qed (use assms in \<open>simp add: sanitize_html_def push_sanitized_attributes_def\<close>)

definition titled :: xml_reader where
  "titled html = (if html = ''<a title=x onclick=go()>''
     then Some [StartEv ''a'' [(''title'', ''x onclick=go()'')]] else None)"

theorem sanitizer_unquotes_attributes_witness:
  "sanitize_html titled ''<a title=x onclick=go()>'' = ''<a title=x onclick=go()>''"
proof -
  have "titled ''<a title=x onclick=go()>''
      = Some [StartEv ''a'' [(''title'', ''x'' @ '' onclick='' @ ''go()'')]]"
    by (simp add: titled_def)
  moreover have "\<not> is_script ''a''" "to_ascii_lowercase ''title'' = ''title''" by code_simp+
  ultimately show ?thesis
    using sanitizer_unquotes_attributes(1) [of titled "''<a title=x onclick=go()>''" "''a''" "''title''" "''x''" "''go()''"]
    by (simp add: starts_with_def)
qed

section \<open>Acceptance and clean-up\<close>

lemma worst_pass: "worst Pass x = x"
  by (cases x) (simp_all add: worst_def)

lemma worst_status_verdicts:
  "worst_status (map (\<lambda>(c, ok, e, obs, m). eml_check c ok e obs m) cs)
     = pass_or_fail (list_all (\<lambda>(c, ok, e, obs, m). ok) cs)"
proof -
  have "foldl (\<lambda>s c. worst s (check_status c)) (pass_or_fail b)
      (map (\<lambda>(c, ok, e, obs, m). eml_check c ok e obs m) cs)
      = pass_or_fail (b \<and> list_all (\<lambda>(c, ok, e, obs, m). ok) cs)" for b
  proof (induction cs arbitrary: b)
    case (Cons x cs)
    obtain c ok e obs m where x: "x = (c, ok, e, obs, m)" by (cases x)
    have "worst (pass_or_fail b) (pass_or_fail ok) = pass_or_fail (b \<and> ok)"
      by (auto simp: pass_or_fail_def worst_def)
    then show ?case using Cons [of "b \<and> ok"] by (simp add: x eml_check_def check_def)
  qed simp
  from this [of True] show ?thesis by (simp add: worst_status_def pass_or_fail_def)
qed

text \<open>What the acceptance of a mail export asks of the output.\<close>

definition eml_accepts :: "probe \<Rightarrow> probe \<Rightarrow> plan \<Rightarrow> string \<Rightarrow> bool" where
  "eml_accepts input output p rendered =
     (format_id (format output) = text_output_format (target_format p)
      \<and> 0 < json_u64_or_zero (stream_property output ''text_characters'')
      \<and> is_json_string (stream_property input ''eml_from'')
      \<and> is_json_string (stream_property input ''eml_to'')
      \<and> (target_format p = ''html'' \<longrightarrow> \<not> contains_str (to_ascii_lowercase rendered) ''<script''))"

lemma eml_report_status:
  "report_status (validate_eml_export_output fresh input output p job rendered)
     = pass_or_fail (eml_accepts input output p rendered)"
  using worst_status_verdicts [of "[(c1, b1, e1, o1, m1), (c2, b2, e2, o2, m2), (c3, b3, e3, o3, m3)]"
      for c1 b1 e1 o1 m1 c2 b2 e2 o2 m2 c3 b3 e3 o3 m3]
    worst_status_verdicts [of "[(c1, b1, e1, o1, m1), (c2, b2, e2, o2, m2), (c3, b3, e3, o3, m3),
      (c4, b4, e4, o4, m4)]" for c1 b1 e1 o1 m1 c2 b2 e2 o2 m2 c3 b3 e3 o3 m3 c4 b4 e4 o4 m4]
  by (simp add: validate_eml_export_output_def Let_def adapter_report_def eml_accepts_def)

text \<open>
  A mail export that succeeds wrote the rendering of the mail to a destination that was free at
  the start and was accepted: target format, text, sender and recipient, and no script element in
  HTML. An export that was written and then refused leaves nothing at its destination.
\<close>

theorem mail_export_is_accepted_or_removed:
  assumes "execute_eml_export W input p f = (res, f')" and "output_path p = Some out"
    and "removal_works W"
  shows "case res of
      Inr (path, r) \<Rightarrow> path = out \<and> \<not> fs_exists f out
        \<and> (\<exists>m output. parse_eml_file W (canonical_path (artifact input)) f = Inr m
             \<and> ew_write W out (render_email (ew_html W) (target_format p) m) (ew_others W f) = (True, f')
             \<and> ew_inspect W out f' = Inr output
             \<and> eml_accepts input output p (render_email (ew_html W) (target_format p) m))
    | Inl e \<Rightarrow> f' = f
        \<or> (\<exists>m. ew_write W out (render_email (ew_html W) (target_format p) m) (ew_others W f) = (False, f'))
        \<or> f' out = None"
proof -
  have gone: "snd (remove_path W out g) out = None" for g
    using assms(3) by (simp add: remove_path_def removal_works_def remove_tree_def)
  have pf: "pass_or_fail b = Fail \<longleftrightarrow> \<not> b" for b by (simp add: pass_or_fail_def)
  show ?thesis
    using assms(1,2) gone
    by (auto simp: execute_eml_export_def Let_def eml_report_status pf
        split: if_splits sum.splits prod.splits bool.splits)
qed

definition demo_export_world :: export_world where
  "demo_export_world =
     \<lparr>os_remove = (\<lambda>p f. (Done, remove_tree p f)), os_create = (\<lambda>p f. True),
      os_rename = (\<lambda>a b f. True), ew_read = (\<lambda>p f. Some ''raw''),
      ew_write = (\<lambda>p s f. (True, f(p \<mapsto> Plain (File (length s))))), ew_others = (\<lambda>f. f),
      ew_inspect = (\<lambda>p f. Inr (demo_clip
        \<lparr>format := (format demo_clip)\<lparr>format_id := ''plain''\<rparr>,
         streams := [(bare_stream 0 PageS ''text'')\<lparr>properties := [''text_characters'' \<mapsto> JInt 2]\<rparr>]\<rparr>)),
      ew_parse_mail = (\<lambda>s. Some (Part ''text/plain'' False [(''From'', ''a''), (''To'', ''b'')] (Some ''hi'') [])),
      ew_html = (\<lambda>s. None), ew_report = 5\<rparr>"

definition demo_mail_probe :: probe where
  "demo_mail_probe = demo_clip
     \<lparr>streams := [(bare_stream 0 PageS ''text'')
        \<lparr>properties := [''eml_from'' \<mapsto> JStr ''a'', ''eml_to'' \<mapsto> JStr ''b'']\<rparr>]\<rparr>"

definition demo_mail_plan :: plan where
  "demo_mail_plan = (mp4_plan demo_plan_env demo_clip demo_mp4_request demo_ffmpeg)
     \<lparr>output_path := Some ''/d/o.txt'', target_format := ''txt''\<rparr>"

theorem mail_export_is_accepted_or_removed_witness:
  "\<exists>r f'. execute_eml_export demo_export_world demo_mail_probe demo_mail_plan [''/d'' \<mapsto> Plain Dir]
        = (Inr (''/d/o.txt'', r), f')
     \<and> (\<exists>m output. parse_eml_file demo_export_world (canonical_path (artifact demo_mail_probe))
            [''/d'' \<mapsto> Plain Dir] = Inr m
          \<and> eml_accepts demo_mail_probe output demo_mail_plan
              (render_email (ew_html demo_export_world) ''txt'' m))"
proof -
  let ?f = "[''/d'' \<mapsto> Plain Dir] :: fs"
  have out: "output_path demo_mail_plan = Some ''/d/o.txt''" "target_format demo_mail_plan = ''txt''"
    by (simp_all add: demo_mail_plan_def)
  have works: "removal_works demo_export_world"
    by (simp add: removal_works_def demo_export_world_def)
  let ?m = "\<lparr>pe_from = Some ''a'', pe_to = Some ''b'', pe_subject = None, pe_date = None,
      plain_body = Some ''hi'', html_body = None\<rparr>"
  have trimmed: "trim ''a'' = ''a''" "trim ''b'' = ''b''"
    "to_ascii_lowercase ''From'' = ''from''" "to_ascii_lowercase ''To'' = ''to''"
    "to_ascii_lowercase ''Subject'' = ''subject''" "to_ascii_lowercase ''Date'' = ''date''"
    "to_ascii_lowercase ''text/plain'' = ''text/plain''" "to_ascii_lowercase ''text/html'' = ''text/html''"
    by code_simp+
  have read: "parse_eml_file demo_export_world (canonical_path (artifact demo_mail_probe)) ?f = Inr ?m"
    by (simp add: parse_eml_file_def parse_eml_bytes_def demo_export_world_def trimmed ok_or_def
        max_eml_bytes_def ensure_def)
  define s where "s = render_email (ew_html demo_export_world) ''txt'' ?m"
  let ?g = "?f(''/d/o.txt'' \<mapsto> Plain (File (length s)))"
  have written: "ew_write demo_export_world ''/d/o.txt'' s (ew_others demo_export_world ?f) = (True, ?g)"
    by (simp add: demo_export_world_def)
  obtain op where inspected: "ew_inspect demo_export_world ''/d/o.txt'' ?g = Inr op"
    and seen: "format_id (format op) = ''plain''" "stream_property op ''text_characters'' = JInt 2"
    by (simp add: demo_export_world_def stream_property_def)
  have "json_u64_or_zero (stream_property op ''text_characters'') = 2"
    unfolding seen by (simp add: json_u64_or_zero_def u64_max_def)
  moreover have "stream_property demo_mail_probe ''eml_from'' = JStr ''a''"
    "stream_property demo_mail_probe ''eml_to'' = JStr ''b''"
    by (simp_all add: stream_property_def demo_mail_probe_def)
  ultimately have accepted: "eml_accepts demo_mail_probe op demo_mail_plan s"
    by (simp add: eml_accepts_def out seen text_output_format_def is_json_string_def)
  have free: "\<not> fs_exists ?f ''/d/o.txt''" by (simp add: fs_exists_def resolved_def)
  obtain r f' where run: "execute_eml_export demo_export_world demo_mail_probe demo_mail_plan ?f
      = (Inr (''/d/o.txt'', r), f')"
    using written inspected accepted
    by (simp add: execute_eml_export_def out free read Let_def eml_report_status pass_or_fail_def
        flip: s_def)
  from mail_export_is_accepted_or_removed [OF run out(1) works] run show ?thesis
    by (auto simp: out)
qed

end
