(* ===== verification/Mbox_Export.thy ===== *)
theory Mbox_Export
  imports Mbox Eml_Export Lanes
begin

text \<open>
  The writing half of \<open>crates/core/src/mbox.rs\<close>: the plan of a mailbox export, the renderings of
  the whole mailbox, the report with its separator and page checks, and the run. A PDF is made mail
  by mail in a staging directory through conversions of their own, merged and committed.
\<close>

section \<open>Reading a mailbox\<close>

record mbox_mail =
  mm_eml_bytes :: string
  mm_email :: parsed_email

definition parse_mbox_file_variant ::
    "'a export_world_scheme \<Rightarrow> string \<Rightarrow> mbox_variant option \<Rightarrow> fs
     \<Rightarrow> (anole_error + mbox_variant \<times> mbox_mail list) option" where
  "parse_mbox_file_variant W path requested f =
     (if (case file_len f path of Some n \<Rightarrow> max_mbox_bytes < n | None \<Rightarrow> False)
      then Some (Inl (anole_error_new InputInvalid Inspect
             ''MBOX input exceeds the 256 MiB built-in adapter limit''))
      else case ew_read W path f of
        None \<Rightarrow> Some (Inl (anole_error_new InputInvalid Inspect ''Unable to read the MBOX file''))
      | Some bytes \<Rightarrow>
          map_option (\<lambda>r. res_bind r (\<lambda>(variant, messages).
            res_bind (res_mapM (\<lambda>eml. res_bind (parse_eml_bytes (ew_parse_mail W) eml)
                (\<lambda>m. Inr \<lparr>mm_eml_bytes = eml, mm_email = m\<rparr>)) messages) (\<lambda>mails.
            Inr (variant, mails))))
            (split_mbox_bytes_variant bytes requested))"

definition parse_mbox_file ::
    "'a export_world_scheme \<Rightarrow> string \<Rightarrow> fs \<Rightarrow> (anole_error + mbox_mail list) option" where
  "parse_mbox_file W path f =
     map_option (\<lambda>r. res_bind r (\<lambda>(_, mails). Inr mails)) (parse_mbox_file_variant W path None f)"

text \<open>The properties of the first stream; the digest and the Unicode tables are parameters.\<close>

definition mbox_properties ::
    "unicode \<Rightarrow> (string \<Rightarrow> string) \<Rightarrow> xml_reader \<Rightarrow> mbox_mail list \<Rightarrow> mbox_variant
     \<Rightarrow> (string \<times> json) list" where
  "mbox_properties U blake3 lenient mails variant =
     (let normalized = normalized_tokens U
            (join_with [newline] (map (\<lambda>m. visible_text lenient (mm_email m)) mails));
          external = list_ex (\<lambda>m. case html_body (mm_email m) of
            None \<Rightarrow> False | Some h \<Rightarrow> contains_remote_reference h) mails
      in btree_from
           ([(''mail_count'', JInt (int (length mails))), (''mbox_variant'', JStr (variant_as_str variant)),
             (''variant_basis'',
                JStr (if variant = Cl then ''content-length-header'' else ''assumed''))]
            @ (case mails of
                 [] \<Rightarrow> []
               | m # _ \<Rightarrow> (case pe_subject (mm_email m) of None \<Rightarrow> []
                          | Some s \<Rightarrow> [(''eml_subject'', JStr s)]))
            @ [(''semantic_token_digest'', JStr (''blake3:'' @ blake3 normalized)),
               (''text_characters'', JInt (int (chars_count normalized))),
               (''has_external_resource'', JBool external)]))"

section \<open>The plan\<close>

definition mbox_render_step :: "probe \<Rightarrow> engine_identity \<Rightarrow> string \<Rightarrow> nat \<Rightarrow> plan_step" where
  "mbox_render_step p eng target n =
     \<lparr>step_id = ''step-1'', capability_id = ''anole.mbox.mbox-render-'' @ target @ ''.builtin'',
      engine = eng, operation_of = Transform, loss = UnknownLoss,
      arguments = btree_from [(''source_format'', ''mbox''), (''target_format'', target),
        (''mail_count'', decimal n), (''network'', ''deny''), (''sanitize_html'', ''true'')],
      estimated_temporary_bytes = Some (sat_mul (size_bytes (artifact p)) 4)\<rparr>"

definition mbox_merge_step :: "probe \<Rightarrow> engine_identity \<Rightarrow> nat \<Rightarrow> plan_step" where
  "mbox_merge_step p qpdf n =
     \<lparr>step_id = ''step-2'', capability_id = ''qpdf.mbox-merge.all-mails'', engine = qpdf,
      operation_of = Transform, loss = NoLoss,
      arguments = btree_from [(''merge_mode'', ''concatenate-1-z''), (''mail_count'', decimal n)],
      estimated_temporary_bytes = Some (sat_mul (size_bytes (artifact p)) 6)\<rparr>"

definition mbox_plan ::
    "plan_env \<Rightarrow> probe \<Rightarrow> string \<Rightarrow> engine_identity \<Rightarrow> engine_identity \<Rightarrow> string \<Rightarrow> nat \<Rightarrow> plan" where
  "mbox_plan E p out eng qpdf target n =
     \<lparr>plan_schema_version = schema_version, plan_id = pe_uuid E, plan_hash = [],
      input_fingerprint = fast_fingerprint (artifact p), target_format = target,
      constraints = btree_from [(''network'', JStr ''deny''), (''external_resources'', JStr ''deny''),
        (''scripts'', JStr ''stripped''), (''mail_count'', json_nat n)],
      steps = mbox_render_step p eng target n # (if target = ''pdf'' then [mbox_merge_step p qpdf n] else []),
      changes =
        \<lparr>preserved = [''every mail, in original order'', ''normalized textual content''],
         changed = [''the mailbox renders as one '' @ (if target = ''pdf'' then ''PDF'' else target)
                      @ '' document''],
         dropped = [''attachments and non-text MIME parts'',
           ''scripts, event handlers, and remote resources''],
         unknown = [''visual fidelity of the original HTML'']\<rparr>,
      validators = [''document.text-extractable'', ''mbox.mail-separators'']
        @ (if target = ''pdf'' then [''mbox.page-conservation''] else []),
      network_policy = Deny, output_path = Some out, estimated_output_bytes = None\<rparr>"

definition plan_mbox_export ::
    "plan_env \<Rightarrow> probe \<Rightarrow> string \<Rightarrow> engine_identity \<Rightarrow> engine_identity \<Rightarrow> string \<Rightarrow> anole_error + plan" where
  "plan_mbox_export E p out eng qpdf requested =
     (let target = export_target requested in
      res_bind (ensure (format_id (format p) = ''mbox'')
        (plan_error Unsupported ''MBOX export input must be an mbox mailbox'')) (\<lambda>_.
      res_bind (ensure (target \<in> {''txt'', ''html'', ''pdf'', ''md''})
        (plan_error Unsupported ''MBOX export target must be txt, html, md, or pdf'')) (\<lambda>_.
      res_bind (ensure (engine_id eng = ''anole.mbox'')
        (plan_error EngineIncompatible ''The MBOX export Plan was given the wrong engine'')) (\<lambda>_.
      res_bind (ensure (stream_property p ''has_external_resource'' \<noteq> JBool True)
        (plan_error PolicyBlocked
          ''A mail in the MBOX references an external resource under deny-all policy'')) (\<lambda>_.
      res_bind (ensure (target = ''pdf'' \<longrightarrow> engine_id qpdf = ''qpdf'')
        (plan_error EngineIncompatible ''The MBOX merge step was given the wrong engine'')) (\<lambda>_.
      seal_plan E (mbox_plan E p out eng qpdf target
        (json_u64_or_zero (stream_property p ''mail_count'')))))))))"

section \<open>Rendering\<close>

definition mail_separator :: "nat \<Rightarrow> nat \<Rightarrow> string" where
  "mail_separator i n =
     ''==== Anole Mail '' @ decimal (i + 1) @ ''/'' @ decimal n @ '' ====''"

definition or_empty :: "string option \<Rightarrow> string" where
  "or_empty s = (case s of None \<Rightarrow> [] | Some t \<Rightarrow> t)"

definition render_mbox_html :: "xml_reader \<Rightarrow> string \<Rightarrow> parsed_email \<Rightarrow> string" where
  "render_mbox_html lenient separator m =
     (let body = render_html lenient m in
      case find_str body ''<body'' of
        None \<Rightarrow> ''<html><body><h3>'' @ separator @ ''</h3>'' @ body @ ''</body></html>''
      | Some start \<Rightarrow>
          (case find_str (drop start body) ''>'' of
             None \<Rightarrow> ''<html><body><h3>'' @ separator @ ''</h3>'' @ body @ ''</body></html>''
           | Some open_end \<Rightarrow>
               take (start + open_end + 1) body @ ''<h3>'' @ separator @ '' '' @ or_empty (pe_subject m)
                 @ ''</h3>'' @ drop (start + open_end + 1) body))"

definition render_mbox :: "xml_reader \<Rightarrow> mbox_mail list \<Rightarrow> string \<Rightarrow> string" where
  "render_mbox lenient mails target =
     join_with [newline, newline]
       (map (\<lambda>(i, m). let separator = mail_separator i (length mails) in
          if target = ''html'' then render_mbox_html lenient separator (mm_email m)
          else if target = ''md'' then separator @ [newline, newline] @ render_md lenient (mm_email m)
          else separator @ [newline] @ render_txt lenient (mm_email m)) (enumerate 0 mails))"

definition extract_html_body_fragment :: "string \<Rightarrow> string" where
  "extract_html_body_fragment rendered =
     (let lowered = to_ascii_lowercase rendered in
      case find_str lowered ''<body'' of
        None \<Rightarrow> rendered
      | Some start \<Rightarrow>
          (case find_str (drop start rendered) ''>'' of
             None \<Rightarrow> rendered
           | Some open_end \<Rightarrow>
               let body_start = start + open_end + 1 in
               case rfind_str lowered ''</body>'' of
                 None \<Rightarrow> rendered
               | Some e \<Rightarrow> if e < body_start then rendered
                           else take (e - body_start) (drop body_start rendered)))"

definition render_single_html_packet :: "xml_reader \<Rightarrow> mbox_mail \<Rightarrow> nat \<Rightarrow> nat \<Rightarrow> string" where
  "render_single_html_packet lenient mail i n =
     ''<!DOCTYPE html><html><head><meta charset=\"utf-8\"></head><body><h3>'' @ mail_separator i n
     @ '' '' @ or_empty (pe_subject (mm_email mail)) @ ''</h3>''
     @ extract_html_body_fragment (render_html lenient (mm_email mail)) @ ''</body></html>''"

section \<open>The report\<close>

definition mbox_check :: "string \<Rightarrow> bool \<Rightarrow> json \<Rightarrow> json \<Rightarrow> string \<Rightarrow> validation_check" where
  "mbox_check c ok e obs m = check c (pass_or_fail ok) True e obs ''Anole native MBOX adapter'' m"

definition separators_in :: "nat \<Rightarrow> string \<Rightarrow> nat" where
  "separators_in n s = length (filter (\<lambda>i. contains_str s (mail_separator i n)) [0..<n])"

definition build_mbox_report ::
    "uuid \<Rightarrow> nat \<Rightarrow> plan \<Rightarrow> uuid \<Rightarrow> string \<Rightarrow> string \<Rightarrow> string \<Rightarrow> nat \<Rightarrow> nat option \<Rightarrow> nat option \<Rightarrow> string
     \<Rightarrow> validation_report" where
  "build_mbox_report fresh n p job wanted observed_format out len expected_pages observed_pages extracted =
     (let present = separators_in n extracted;
          e = (case expected_pages of None \<Rightarrow> 0 | Some n \<Rightarrow> n);
          obs = (case observed_pages of None \<Rightarrow> 0 | Some n \<Rightarrow> n);
          cs = [mbox_check ''MBOX_TARGET_FORMAT'' (observed_format = wanted) (JStr wanted)
                  (JStr observed_format) ''Detected output format.'',
                mbox_check ''MBOX_MAIL_SEPARATORS'' (present = n) (json_nat n) (json_nat present)
                  ''Every mail separator survives into the output text layer.'']
               @ (if target_format p = ''pdf''
                  then [mbox_check ''MBOX_PAGE_CONSERVATION'' (e = obs \<and> 0 < obs) (json_nat e) (json_nat obs)
                          ''Merged page count equals the sum of per-mail pages.'']
                  else [])
      in adapter_report fresh
           \<lparr>sum_display_path = None, sum_format_id = ''mbox'', sum_size_bytes = 0,
            sum_fast_fingerprint = [], sum_full_blake3 = None\<rparr>
           \<lparr>sum_display_path = Some out, sum_format_id = ''pdf'', sum_size_bytes = len,
            sum_fast_fingerprint = [], sum_full_blake3 = None\<rparr> p job cs)"

section \<open>The run\<close>

text \<open>
  Beside the world of an export: whether the token is cancelled before a mail, the conversion of one
  HTML file to PDF by a plan of its own, the look-up of an engine, the pages and the format of a
  PDF, the merge by qpdf, the text layer, and what other processes do before the commit.
\<close>

record mbox_world = export_world +
  mw_cancelled :: "nat \<Rightarrow> bool"
  mw_convert :: "nat \<Rightarrow> string \<Rightarrow> string \<Rightarrow> fs \<Rightarrow> (anole_error + string) \<times> fs"
  mw_engine :: "string \<Rightarrow> anole_error option"
  mw_pdf :: "string \<Rightarrow> fs \<Rightarrow> anole_error + nat \<times> string"
  mw_merge :: "string list \<Rightarrow> string \<Rightarrow> fs \<Rightarrow> (anole_error + unit) \<times> fs"
  mw_text :: "string \<Rightarrow> fs \<Rightarrow> anole_error + string"
  mw_late :: "fs \<Rightarrow> fs"

definition mbox_write_error :: anole_error where
  "mbox_write_error =
     anole_error_new ExecutionFailed Execute ''Unable to write the MBOX export output''"

fun stage_mails ::
    "'a mbox_world_scheme \<Rightarrow> string \<Rightarrow> nat \<Rightarrow> nat \<Rightarrow> mbox_mail list \<Rightarrow> fs
     \<Rightarrow> (anole_error + string list) \<times> fs" where
  "stage_mails W staging n i [] f = (Inr [], f)"
| "stage_mails W staging n i (m # ms) f =
     (if mw_cancelled W i
      then (Inl (anole_error_new Cancelled_code Execute ''MBOX export was cancelled''), f)
      else
        let html = path_join staging (''mail-'' @ decimal i @ ''.html'');
            pdf = path_join staging (''mail-'' @ decimal i @ ''.pdf'')
        in case ew_write W html (render_single_html_packet (ew_html W) m i n) f of
             (False, f1) \<Rightarrow> (Inl mbox_write_error, f1)
           | (True, f1) \<Rightarrow>
               (case mw_convert W i html pdf f1 of
                  (Inl e, f2) \<Rightarrow> (Inl e, f2)
                | (Inr path, f2) \<Rightarrow>
                    (case stage_mails W staging n (i + 1) ms f2 of
                       (Inl e, f3) \<Rightarrow> (Inl e, f3)
                     | (Inr paths, f3) \<Rightarrow> (Inr (path # paths), f3))))"

definition need_engine :: "'a mbox_world_scheme \<Rightarrow> string \<Rightarrow> anole_error + unit" where
  "need_engine W name = (case mw_engine W name of None \<Rightarrow> Inr () | Some e \<Rightarrow> Inl e)"

fun count_pages :: "'a mbox_world_scheme \<Rightarrow> fs \<Rightarrow> string list \<Rightarrow> anole_error + nat" where
  "count_pages W f [] = Inr 0"
| "count_pages W f (p # ps) =
     res_bind (mw_pdf W p f) (\<lambda>(n, fmt). res_bind (count_pages W f ps) (\<lambda>k. Inr (n + k)))"

definition summary_len :: "fs \<Rightarrow> string \<Rightarrow> nat" where
  "summary_len f p = (case file_len f p of None \<Rightarrow> 0 | Some n \<Rightarrow> n)"

text \<open>The acceptance of a merged PDF: its pages, its text and the report.\<close>

definition accept_merged ::
    "'a mbox_world_scheme \<Rightarrow> nat \<Rightarrow> plan \<Rightarrow> uuid \<Rightarrow> nat \<Rightarrow> string \<Rightarrow> fs
     \<Rightarrow> anole_error + validation_report" where
  "accept_merged W n p job pages merged f =
     res_bind (mw_pdf W merged f) (\<lambda>(observed, fmt).
     res_bind (need_engine W ''pdftotext'') (\<lambda>_.
     res_bind (mw_text W merged f) (\<lambda>extracted.
     let r = build_mbox_report (ew_report W) n p job ''pdf'' fmt merged (summary_len f merged)
               (Some pages) (Some observed) extracted
     in res_bind (ensure (report_status r \<noteq> Fail) (anole_error_new ValidationFailed Validate
          ''MBOX PDF failed required validation'')) (\<lambda>_. Inr r))))"

definition execute_mbox_pdf ::
    "'a mbox_world_scheme \<Rightarrow> mbox_mail list \<Rightarrow> plan \<Rightarrow> uuid \<Rightarrow> string \<Rightarrow> string \<Rightarrow> fs
     \<Rightarrow> (anole_error + string \<times> validation_report) \<times> fs" where
  "execute_mbox_pdf W mails p job out staging f =
     (let merged = path_join staging ''merged.pdf'' in
      case stage_mails W staging (length mails) 0 mails f of
        (Inl e, f1) \<Rightarrow> (Inl e, f1)
      | (Inr pdfs, f1) \<Rightarrow>
          (case res_bind (need_engine W ''pdfinfo'') (\<lambda>_. res_bind (count_pages W f1 pdfs) (\<lambda>n.
                  res_bind (need_engine W ''qpdf'') (\<lambda>_. Inr n))) of
             Inl e \<Rightarrow> (Inl e, f1)
           | Inr pages \<Rightarrow>
               (case mw_merge W pdfs merged f1 of
                  (Inl e, f2) \<Rightarrow> (Inl e, f2)
                | (Inr _, f2) \<Rightarrow>
                    (case accept_merged W (length mails) p job pages merged f2 of
                       Inl e \<Rightarrow> (Inl e, f2)
                     | Inr r \<Rightarrow>
                         if fs_exists f2 out
                         then (Inl (anole_error_new OutputConflict Commit
                                ''The MBOX destination appeared while conversion was running''), f2)
                         else (case commit_path_no_replace W merged out (mw_late W f2) of
                                 (Inl e, f3) \<Rightarrow> (Inl e, f3)
                               | (Inr _, f3) \<Rightarrow> (Inr (out, r), f3))))))"

definition execute_mbox_text ::
    "'a mbox_world_scheme \<Rightarrow> mbox_mail list \<Rightarrow> plan \<Rightarrow> uuid \<Rightarrow> string \<Rightarrow> fs
     \<Rightarrow> (anole_error + string \<times> validation_report) \<times> fs" where
  "execute_mbox_text W mails p job out f =
     (let target = target_format p; rendered = render_mbox (ew_html W) mails target in
      case ew_write W out rendered f of
        (False, f1) \<Rightarrow> (Inl mbox_write_error, f1)
      | (True, f1) \<Rightarrow>
          (case ew_inspect W out f1 of
             Inl e \<Rightarrow> (Inl e, snd (remove_path W out f1))
           | Inr output \<Rightarrow>
               let shown = (if target = ''html''
                            then (case html_text (ew_html W) rendered of Inl _ \<Rightarrow> rendered | Inr t \<Rightarrow> t)
                            else rendered);
                   r = build_mbox_report (ew_report W) (length mails) p job (text_output_format target)
                         (format_id (format output)) out (summary_len f1 out) None None shown
               in (Inr (out, r),
                   if report_status r = Fail then snd (remove_path W out f1) else f1)))"

definition execute_mbox_export ::
    "'a mbox_world_scheme \<Rightarrow> probe \<Rightarrow> plan \<Rightarrow> uuid \<Rightarrow> fs
     \<Rightarrow> ((anole_error + string \<times> validation_report) \<times> fs) option" where
  "execute_mbox_export W input p job f =
     (case output_path p of
        None \<Rightarrow> Some (Inl (anole_error_new InputInvalid Execute ''MBOX export Plan has no output path''), f)
      | Some out \<Rightarrow>
          if fs_exists f out
          then Some (Inl (anole_error_new OutputConflict Execute
                 ''The MBOX export destination already exists''), f)
          else case parse_mbox_file W (canonical_path (artifact input)) f of
            None \<Rightarrow> None
          | Some (Inl e) \<Rightarrow> Some (Inl e, f)
          | Some (Inr mails) \<Rightarrow>
              Some (case parent out of
                None \<Rightarrow> (Inl (anole_error_new InputInvalid Plan_stage
                  ''Resolved output path has no parent directory''), f)
              | Some dir \<Rightarrow>
                  let staging = path_join dir (''.fw-mbox-'' @ uuid_text job) in
                  case make_dir W staging f of
                    (False, f1) \<Rightarrow> (Inl (anole_error_new StorageFailed Execute
                      ''Unable to create the MBOX staging directory''), f1)
                  | (True, f1) \<Rightarrow>
                      (case (if target_format p = ''pdf''
                             then execute_mbox_pdf W mails p job out staging f1
                             else execute_mbox_text W mails p job out f1) of
                         (outcome, f2) \<Rightarrow>
                           (case remove_path W staging f2 of
                              (Done, f3) \<Rightarrow> (map_sum id (\<lambda>(path, r). (path, r\<lparr>report_job_id := job\<rparr>)) outcome, f3)
                            | (_, f3) \<Rightarrow>
                                (case outcome of
                                   Inl e \<Rightarrow> (Inl e, f3)
                                 | Inr _ \<Rightarrow> (Inl (anole_error_new StorageFailed Commit
                                     ''Unable to remove the MBOX staging directory''), f3))))))"

text \<open>The lane of the runner: a report that failed removes the output.\<close>

definition mbox_lane ::
    "'a mbox_world_scheme \<Rightarrow> probe \<Rightarrow> plan \<Rightarrow> uuid \<Rightarrow> fs
     \<Rightarrow> ((anole_error + string \<times> validation_report) \<times> fs) option" where
  "mbox_lane W input p job f =
     map_option (\<lambda>r. case r of
         (Inl e, f1) \<Rightarrow> (Inl e, f1)
       | (Inr (path, report), f1) \<Rightarrow>
           if report_status report = Fail
           then (Inl (anole_error_new ValidationFailed Validate ''MBOX export failed validation''),
                 snd (remove_path W path f1))
           else (Inr (path, report), f1)) (execute_mbox_export W input p job f)"

section \<open>Separators\<close>

lemma join_with_sublist: "x \<in> set xs \<Longrightarrow> sublist x (join_with sep xs)"
proof (induction sep xs rule: join_with.induct)
  case (3 sep y z xs)
  then show ?case
    by (auto simp: sublist_append)
qed auto

lemma text_rendering_separators:
  assumes "target \<noteq> ''html''"
  shows "separators_in (length mails) (render_mbox lenient mails target) = length mails"
proof -
  have "contains_str (render_mbox lenient mails target) (mail_separator i (length mails))"
    if "i < length mails" for i
  proof -
    let ?f = "\<lambda>(i, m). let separator = mail_separator i (length mails) in
          if target = ''html'' then render_mbox_html lenient separator (mm_email m)
          else if target = ''md'' then separator @ [newline, newline] @ render_md lenient (mm_email m)
          else separator @ [newline] @ render_txt lenient (mm_email m)"
    have "(i, mails ! i) \<in> set (enumerate 0 mails)"
      using that by (simp add: in_set_enumerate_eq)
    then have "?f (i, mails ! i) \<in> set (map ?f (enumerate 0 mails))" unfolding set_map by (rule imageI)
    then have "sublist (?f (i, mails ! i)) (render_mbox lenient mails target)"
      unfolding render_mbox_def by (rule join_with_sublist)
    moreover have "sublist (mail_separator i (length mails)) (?f (i, mails ! i))"
      using assms by (simp add: Let_def)
    ultimately show ?thesis
      unfolding contains_str_sublist by (rule sublist_order.order_trans [rotated])
  qed
  then have "filter (\<lambda>i. contains_str (render_mbox lenient mails target) (mail_separator i (length mails)))
      [0..<length mails] = [0..<length mails]"
    by (intro filter_True) simp
  then show ?thesis by (simp add: separators_in_def)
qed

lemma mbox_report_status:
  "report_status (build_mbox_report fresh n p job wanted fmt out len ep op s)
     = pass_or_fail (fmt = wanted \<and> separators_in n s = n
         \<and> (target_format p = ''pdf'' \<longrightarrow>
              (case ep of None \<Rightarrow> 0 | Some k \<Rightarrow> k) = (case op of None \<Rightarrow> 0 | Some k \<Rightarrow> k)
              \<and> (0 :: nat) < (case op of None \<Rightarrow> 0 | Some k \<Rightarrow> k)))"
  by (simp add: build_mbox_report_def Let_def adapter_report_def worst_status_def mbox_check_def
      check_def pass_or_fail_def worst_def)

text \<open>
  A text or Markdown export of a mailbox holds the separator of every mail, so its separator
  check cannot fail: it is accepted exactly when the output is recognized as the target format.
\<close>

theorem text_mailbox_accepted_iff_recognized:
  assumes "target_format p \<notin> {''html'', ''pdf''}"
  shows "report_status (build_mbox_report fresh (length mails) p job wanted fmt out len ep op
      (render_mbox lenient mails (target_format p))) = (if fmt = wanted then Pass else Fail)"
  using assms by (simp add: mbox_report_status text_rendering_separators pass_or_fail_def)

theorem text_mailbox_accepted_iff_recognized_witness:
  "\<forall>fresh mails job fmt out len lenient.
     report_status (build_mbox_report fresh (length mails) demo_mail_plan job ''plain'' fmt out len None None
       (render_mbox lenient mails (target_format demo_mail_plan)))
     = (if fmt = ''plain'' then Pass else Fail)"
proof -
  have "target_format demo_mail_plan \<notin> {''html'', ''pdf''}" by (simp add: demo_mail_plan_def)
  then show ?thesis using text_mailbox_accepted_iff_recognized by blast
qed

section \<open>A mailbox as one PDF\<close>

lemma stage_mails_length:
  "stage_mails W staging n i ms f = (Inr ps, f') \<Longrightarrow> length ps = length ms"
proof (induction ms arbitrary: i f ps f')
  case (Cons m ms)
  then obtain path qs g where "ps = path # qs" "stage_mails W staging n (i + 1) ms g = (Inr qs, f')"
    by (auto simp: Let_def split: if_splits prod.splits sum.splits bool.splits)
  with Cons.IH show ?case by simp
qed simp

text \<open>
  An export to PDF that succeeds moved the merged file to a destination that was free, and the
  merged file has as many pages as the PDFs of the single mails together, at least one, and the
  separator of every mail in its text layer.
\<close>

theorem mailbox_pdf_is_complete:
  assumes "execute_mbox_pdf W mails p job out staging f = (Inr (path, r), f')"
    and "target_format p = ''pdf''"
  shows "path = out \<and> f' out \<noteq> None \<and> (\<exists>pdfs f1 f2 pages fmt extracted.
      stage_mails W staging (length mails) 0 mails f = (Inr pdfs, f1)
      \<and> length pdfs = length mails
      \<and> count_pages W f1 pdfs = Inr pages \<and> 0 < pages
      \<and> mw_merge W pdfs (path_join staging ''merged.pdf'') f1 = (Inr (), f2)
      \<and> mw_pdf W (path_join staging ''merged.pdf'') f2 = Inr (pages, fmt) \<and> fmt = ''pdf''
      \<and> mw_text W (path_join staging ''merged.pdf'') f2 = Inr extracted
      \<and> separators_in (length mails) extracted = length mails
      \<and> mw_late W f2 out = None)"
proof -
  let ?m = "path_join staging ''merged.pdf''"
  note run = assms(1) [unfolded execute_mbox_pdf_def Let_def]
  obtain pdfs f1 where staged: "stage_mails W staging (length mails) 0 mails f = (Inr pdfs, f1)"
    using run by (simp split: prod.splits sum.splits)
  note run = run [unfolded staged, simplified]
  obtain pages where pages: "count_pages W f1 pdfs = Inr pages"
    and rest: "res_bind (need_engine W ''pdfinfo'') (\<lambda>_. res_bind (count_pages W f1 pdfs) (\<lambda>n.
                  res_bind (need_engine W ''qpdf'') (\<lambda>_. Inr n))) = Inr pages"
    using run by (auto split: sum.splits)
  note run = run [unfolded rest, simplified]
  obtain f2 where merged: "mw_merge W pdfs ?m f1 = (Inr (), f2)"
    using run by (auto split: prod.splits sum.splits)
  note run = run [unfolded merged, simplified]
  obtain r' where accepted: "accept_merged W (length mails) p job pages ?m f2 = Inr r'"
    using run by (auto split: sum.splits)
  note run = run [unfolded accepted, simplified]
  have commit: "commit_path_no_replace W ?m out (mw_late W f2) = (Inr (), f')" "path = out"
    using run by (auto split: if_splits prod.splits sum.splits)
  obtain observed fmt extracted where pdf: "mw_pdf W ?m f2 = Inr (observed, fmt)"
    "mw_text W ?m f2 = Inr extracted"
    "report_status (build_mbox_report (ew_report W) (length mails) p job ''pdf'' fmt ?m (summary_len f2 ?m)
       (Some pages) (Some observed) extracted) \<noteq> Fail"
    using accepted by (auto simp: accept_merged_def Let_def)
  then have checks: "fmt = ''pdf''" "separators_in (length mails) extracted = length mails"
    "pages = observed" "0 < observed"
    using assms(2) by (auto simp: mbox_report_status pass_or_fail_def split: if_splits)
  have "rename_path_no_replace W ?m out (mw_late W f2) = (Done, f')"
    using commit(1) by (auto simp: commit_path_no_replace_def split: prod.splits io_end.splits)
  from rename_path_no_replace_cases [OF this]
  have "mw_late W f2 out = None" "f' out \<noteq> None" by (auto simp: move_tree_target)
  then show ?thesis using staged stage_mails_length [OF staged] pages merged pdf checks commit(2) by auto
qed

definition demo_mbox_world :: mbox_world where
  "demo_mbox_world =
     \<lparr>os_remove = (\<lambda>p f. (Done, remove_tree p f)), os_create = (\<lambda>p f. True),
      os_rename = (\<lambda>a b f. True), ew_read = (\<lambda>p f. None),
      ew_write = (\<lambda>p s f. (True, f(p \<mapsto> Plain (File (length s))))), ew_others = (\<lambda>f. f),
      ew_inspect = (\<lambda>p f. Inr demo_clip), ew_parse_mail = (\<lambda>s. None), ew_html = (\<lambda>s. None),
      ew_report = 5, mw_cancelled = (\<lambda>i. False),
      mw_convert = (\<lambda>i h p f. (Inr p, f(p \<mapsto> Plain (File 1)))), mw_engine = (\<lambda>n. None),
      mw_pdf = (\<lambda>p f. Inr (1, ''pdf'')),
      mw_merge = (\<lambda>ps p f. (Inr (), f(p \<mapsto> Plain (File 1)))),
      mw_text = (\<lambda>p f. Inr (mail_separator 0 1)), mw_late = (\<lambda>f. f)\<rparr>"

lemma demo_mbox_fields [simp]:
  "mw_engine demo_mbox_world n = None" "mw_pdf demo_mbox_world p f = Inr (1, ''pdf'')"
  "mw_merge demo_mbox_world ps p f = (Inr (), f(p \<mapsto> Plain (File 1)))"
  "mw_text demo_mbox_world p f = Inr (mail_separator 0 1)" "mw_late demo_mbox_world f = f"
  "os_rename demo_mbox_world a b f = True"
  by (simp_all add: demo_mbox_world_def)

definition demo_mbox_mail :: mbox_mail where
  "demo_mbox_mail = \<lparr>mm_eml_bytes = [], mm_email = \<lparr>pe_from = None, pe_to = None, pe_subject = None,
     pe_date = None, plain_body = None, html_body = None\<rparr>\<rparr>"

definition demo_pdf_plan :: plan where
  "demo_pdf_plan = demo_mail_plan\<lparr>target_format := ''pdf''\<rparr>"

theorem mailbox_pdf_is_complete_witness:
  "\<exists>r f'. execute_mbox_pdf demo_mbox_world [demo_mbox_mail] demo_pdf_plan 1 ''/d/o.pdf'' ''/d/s'' Map.empty
      = (Inr (''/d/o.pdf'', r), f') \<and> f' ''/d/o.pdf'' \<noteq> None"
proof -
  have pdf: "target_format demo_pdf_plan = ''pdf''" by (simp add: demo_pdf_plan_def)
  define html where "html = path_join ''/d/s'' (''mail-'' @ decimal 0 @ ''.html'')"
  define one where "one = path_join ''/d/s'' (''mail-'' @ decimal 0 @ ''.pdf'')"
  have names: "html = ''/d/s/mail-0.html''" "one = ''/d/s/mail-0.pdf''"
    "path_join ''/d/s'' ''merged.pdf'' = ''/d/s/merged.pdf''"
    unfolding html_def one_def by code_simp+
  define packet where "packet = render_single_html_packet (ew_html demo_mbox_world) demo_mbox_mail 0 1"
  define f1 :: fs where
    "f1 = (Map.empty(html \<mapsto> Plain (File (length packet))))(one \<mapsto> Plain (File 1))"
  define f2 where "f2 = f1(''/d/s/merged.pdf'' \<mapsto> Plain (File 1))"
  have staged: "stage_mails demo_mbox_world ''/d/s'' 1 0 [demo_mbox_mail] Map.empty = (Inr [one], f1)"
    by (simp add: Let_def demo_mbox_world_def f1_def packet_def html_def one_def)
  have seps: "separators_in 1 (mail_separator 0 1) = 1"
    by (simp add: separators_in_def contains_str_sublist)
  obtain r where accepted: "accept_merged demo_mbox_world (Suc 0) demo_pdf_plan 1 (Suc 0) ''/d/s/merged.pdf'' f2 = Inr r"
    using seps by (simp add: accept_merged_def need_engine_def mbox_report_status pdf pass_or_fail_def Let_def ensure_def)
  have free: "f2 ''/d/o.pdf'' = None" "f2 ''/d/s/merged.pdf'' \<noteq> None"
    by (simp_all add: f2_def f1_def names)
  have folded: "f1(''/d/s/merged.pdf'' \<mapsto> Plain (File (Suc 0))) = f2" by (simp add: f2_def)
  have "execute_mbox_pdf demo_mbox_world [demo_mbox_mail] demo_pdf_plan 1 ''/d/o.pdf'' ''/d/s'' Map.empty
      = (Inr (''/d/o.pdf'', r), move_tree ''/d/s/merged.pdf'' ''/d/o.pdf'' f2)"
    using staged accepted free
    by (simp add: execute_mbox_pdf_def names(3) Let_def need_engine_def commit_path_no_replace_def
        rename_path_no_replace_def fs_exists_def resolved_def folded del: stage_mails.simps)
  from this mailbox_pdf_is_complete [OF this pdf] show ?thesis by blast
qed

text \<open>
  The report of a mailbox names no input, calls every output a PDF, and, for a PDF, gives the merged
  file of the staging directory as the output's path.
\<close>

lemma mailbox_report_fields:
  "report_input (build_mbox_report fresh n p job wanted fmt out len ep op s)
     = \<lparr>sum_display_path = None, sum_format_id = ''mbox'', sum_size_bytes = 0,
        sum_fast_fingerprint = [], sum_full_blake3 = None\<rparr>"
  "sum_format_id (report_output (build_mbox_report fresh n p job wanted fmt out len ep op s)) = ''pdf''"
  "accept_merged W n p job pages merged f = Inr r \<Longrightarrow> sum_display_path (report_output r) = Some merged"
  by (auto simp: build_mbox_report_def Let_def adapter_report_def accept_merged_def)

end
