(* ===== verification/Document_Safety.thy ===== *)
theory Document_Safety
  imports Document Mbox_Export Adapter_Run
begin

text \<open>
  What the planners of documents, mails and mailboxes promise, and that the lane of the runner takes
  what they plan: no plan for markup that refers to a resource, Pandoc in its sandbox, and outputs
  accepted only with the text of the input.
\<close>

section \<open>What a planner yields\<close>

definition document_planned ::
    "plan_env \<Rightarrow> probe \<Rightarrow> engine_identity \<Rightarrow> engine_identity list \<Rightarrow> string \<Rightarrow> string \<Rightarrow> plan \<Rightarrow> bool" where
  "document_planned E p eng helpers out t q =
     (plan_markup_to_docx E p out eng = Inr q \<or> plan_markup_to_epub E p out eng = Inr q
      \<or> plan_markup_export E p out eng t = Inr q
      \<or> (\<exists>soffice pdfinfo pdftoppm. helpers = [soffice, pdfinfo, pdftoppm]
           \<and> plan_markup_to_pdf E p out eng soffice pdfinfo pdftoppm = Inr q)
      \<or> plan_eml_export E p out eng t = Inr q
      \<or> (\<exists>qpdf. helpers = [qpdf] \<and> plan_mbox_export E p out eng qpdf t = Inr q))"

lemma seal_plan_Inr:
  "seal_plan E q = Inr r \<longleftrightarrow> (\<exists>h. pe_digest E (hash_material_of q) = Some h \<and> r = q\<lparr>plan_hash := ''blake3:'' @ h\<rparr>)"
  by (auto simp: seal_plan_def deterministic_plan_hash_def)

definition offline_plan :: "probe \<Rightarrow> string \<Rightarrow> plan \<Rightarrow> bool" where
  "offline_plan p out q \<longleftrightarrow>
     network_policy q = Deny \<and> input_fingerprint q = fast_fingerprint (artifact p)
     \<and> output_path q = Some out \<and> map_of (constraints q) ''external_resources'' = Some (JStr ''deny'')"

definition no_external_resource :: "probe \<Rightarrow> bool" where
  "no_external_resource p = (stream_property p ''has_external_resource'' \<noteq> JBool True)"

lemma offline_sealed: "seal_plan E q = Inr r \<Longrightarrow> offline_plan p out q \<Longrightarrow> offline_plan p out r"
  by (auto simp: seal_plan_Inr offline_plan_def)

lemma offline_parts:
  "map_of (btree_from (offline_constraints @ cs)) ''external_resources''
     = (case map_of (rev cs) ''external_resources'' of None \<Rightarrow> Some (JStr ''deny'') | Some v \<Rightarrow> Some v)"
  by (simp add: map_of_btree_from offline_constraints_def map_add_def split: option.splits)

lemma offline_constraints_deny:
  "map_of (btree_from offline_constraints) ''external_resources'' = Some (JStr ''deny'')"
  using offline_parts [of "[]"] by simp

lemma docx_planned:
  "plan_markup_to_docx E p out eng = Inr q \<Longrightarrow> offline_plan p out q \<and> no_external_resource p"
  unfolding plan_markup_to_docx_def markup_guards_def res_bind_Inr_iff
  by (elim exE conjE, drule offline_sealed [where p = p and out = out])
    (simp_all add: offline_plan_def one_step_plan_def offline_constraints_deny no_external_resource_def)

lemma epub_planned:
  "plan_markup_to_epub E p out eng = Inr q \<Longrightarrow> offline_plan p out q \<and> no_external_resource p"
  unfolding plan_markup_to_epub_def markup_guards_def res_bind_Inr_iff
  by (elim exE conjE, drule offline_sealed [where p = p and out = out])
    (simp_all add: offline_plan_def one_step_plan_def offline_constraints_deny no_external_resource_def)

lemma export_planned:
  "plan_markup_export E p out eng t = Inr q \<Longrightarrow>
     offline_plan p out q \<and> (no_external_resource p \<or> format_id (format p) = ''docx'')"
  unfolding plan_markup_export_def Let_def res_bind_Inr_iff
  by (elim exE conjE, drule offline_sealed [where p = p and out = out])
    (auto simp: offline_plan_def one_step_plan_def offline_constraints_deny no_external_resource_def)

lemma pdf_planned:
  "plan_markup_to_pdf E p out eng a b c = Inr q \<Longrightarrow> offline_plan p out q \<and> no_external_resource p"
  unfolding plan_markup_to_pdf_def res_bind_Inr_iff
  by (elim exE conjE, drule offline_sealed [where p = p and out = out])
    (simp_all add: offline_plan_def offline_parts no_external_resource_def)

lemma eml_planned:
  "plan_eml_export E p out eng t = Inr q \<Longrightarrow> offline_plan p out q \<and> no_external_resource p"
  unfolding plan_eml_export_def Let_def res_bind_Inr_iff
  by (elim exE conjE, drule offline_sealed [where p = p and out = out])
    (simp_all add: offline_plan_def one_step_plan_def map_of_btree_from no_external_resource_def)

lemma mbox_planned:
  "plan_mbox_export E p out eng a t = Inr q \<Longrightarrow> offline_plan p out q \<and> no_external_resource p"
  unfolding plan_mbox_export_def Let_def res_bind_Inr_iff
  by (elim exE conjE, drule offline_sealed [where p = p and out = out])
    (simp_all add: offline_plan_def mbox_plan_def map_of_btree_from no_external_resource_def)

text \<open>
  No document, mail or mailbox in which the inspector saw an external resource is planned, DOCX
  packages apart, and every plan forbids the network, is bound to the fingerprint of the input and to
  the output that was asked for.
\<close>

theorem documents_are_planned_offline:
  assumes "document_planned E p eng helpers out t q"
  shows "(stream_property p ''has_external_resource'' = JBool True \<longrightarrow> format_id (format p) = ''docx'')
    \<and> network_policy q = Deny \<and> input_fingerprint q = fast_fingerprint (artifact p)
    \<and> output_path q = Some out \<and> map_of (constraints q) ''external_resources'' = Some (JStr ''deny'')"
proof -
  have "offline_plan p out q \<and> (no_external_resource p \<or> format_id (format p) = ''docx'')"
    using assms unfolding document_planned_def
    by (elim disjE exE conjE)
      (drule docx_planned epub_planned export_planned pdf_planned eml_planned mbox_planned, blast)+
  then show ?thesis by (auto simp: offline_plan_def no_external_resource_def)
qed

definition demo_pandoc :: engine_identity where
  "demo_pandoc = demo_ffmpeg\<lparr>engine_id := ''pandoc''\<rparr>"

definition demo_markdown :: probe where
  "demo_markdown = demo_mail_probe\<lparr>format := (format demo_clip)\<lparr>format_id := ''markdown''\<rparr>\<rparr>"

lemma demo_markdown_planned:
  "\<exists>q. plan_markup_to_docx demo_plan_env demo_markdown ''/d/o.docx'' demo_pandoc = Inr q"
  by (auto simp: plan_markup_to_docx_def markup_guards_def seal_plan_Inr demo_markdown_def
      demo_pandoc_def stream_property_def demo_mail_probe_def demo_plan_env_def)

theorem documents_are_planned_offline_witness:
  "\<exists>q. plan_markup_to_docx demo_plan_env demo_markdown ''/d/o.docx'' demo_pandoc = Inr q
     \<and> network_policy q = Deny \<and> output_path q = Some ''/d/o.docx''"
proof -
  obtain q where "plan_markup_to_docx demo_plan_env demo_markdown ''/d/o.docx'' demo_pandoc = Inr q"
    using demo_markdown_planned by blast
  moreover from this
  have "document_planned demo_plan_env demo_markdown demo_pandoc [] ''/d/o.docx'' [] q"
    by (simp add: document_planned_def)
  note documents_are_planned_offline [OF this]
  ultimately show ?thesis by blast
qed

section \<open>The lane takes what is planned\<close>

lemma pandoc_arguments:
  assumes "source \<in> {''markdown'', ''html'', ''plain'', ''docx''}"
    and "target \<in> {''docx'', ''epub'', ''txt'', ''md'', ''html''}"
    and "steps q = [st]" and "arguments st = btree_from (offline_arguments source target)"
  shows "pandoc_checks q = Inr (st, source, target)"
  using assms
  by (auto simp: pandoc_checks_def first_step_def checked_argument_def argument_def ok_or_def
      map_of_btree_from offline_arguments_def ensure_def)

definition planned_step :: "probe \<Rightarrow> engine_identity \<Rightarrow> plan \<Rightarrow> bool" where
  "planned_step p pandoc q \<longleftrightarrow>
     (\<exists>cap. steps q = [pandoc_step p pandoc cap (target_format q)])
     \<and> engine_id pandoc = ''pandoc''
     \<and> format_id (format p) \<in> {''markdown'', ''html'', ''plain'', ''docx''}
     \<and> target_format q \<in> {''docx'', ''epub'', ''txt'', ''md'', ''html''}"

lemma sealed_step: "seal_plan E q = Inr r \<Longrightarrow> planned_step p pandoc q \<Longrightarrow> planned_step p pandoc r"
  by (auto simp: seal_plan_Inr planned_step_def)

lemma docx_step: "plan_markup_to_docx E p out pandoc = Inr q \<Longrightarrow> planned_step p pandoc q"
  unfolding plan_markup_to_docx_def markup_guards_def res_bind_Inr_iff
  by (elim exE conjE, drule sealed_step [where p = p and pandoc = pandoc])
    (auto simp: one_step_plan_def planned_step_def)

lemma epub_step: "plan_markup_to_epub E p out pandoc = Inr q \<Longrightarrow> planned_step p pandoc q"
  unfolding plan_markup_to_epub_def markup_guards_def res_bind_Inr_iff
  by (elim exE conjE, drule sealed_step [where p = p and pandoc = pandoc])
    (auto simp: one_step_plan_def planned_step_def)

lemma export_step: "plan_markup_export E p out pandoc t = Inr q \<Longrightarrow> planned_step p pandoc q"
  unfolding plan_markup_export_def Let_def res_bind_Inr_iff
  by (elim exE conjE, drule sealed_step [where p = p and pandoc = pandoc])
    (auto simp: one_step_plan_def planned_step_def)

text \<open>
  What the Pandoc planners plan passes the checks of the Pandoc lane, and the command that is run
  has Pandoc in its sandbox, with the reader of the source and the writer of the target format.
\<close>

theorem planned_documents_can_be_run:
  assumes "plan_markup_to_docx E p out pandoc = Inr q \<or> plan_markup_to_epub E p out pandoc = Inr q
      \<or> plan_markup_export E p out pandoc t = Inr q"
  shows "\<exists>st. pandoc_checks q = Inr (st, format_id (format p), target_format q)
    \<and> plan_lane q st = PandocConvert
    \<and> (\<forall>work inp. pandoc_command st (format_id (format p)) (target_format q) work inp =
         [binary_path pandoc, ''--sandbox=true'', ''--from='' @ pandoc_reader (format_id (format p)),
          ''--to='' @ pandoc_writer (target_format q), ''--standalone'', ''--output'', work, ''--'', inp])"
proof -
  have "planned_step p pandoc q"
    using assms docx_step epub_step export_step by blast
  then obtain cap where st: "steps q = [pandoc_step p pandoc cap (target_format q)]"
    and formats: "engine_id pandoc = ''pandoc''"
      "format_id (format p) \<in> {''markdown'', ''html'', ''plain'', ''docx''}"
      "target_format q \<in> {''docx'', ''epub'', ''txt'', ''md'', ''html''}"
    unfolding planned_step_def by blast
  have "pandoc_checks q
      = Inr (pandoc_step p pandoc cap (target_format q), format_id (format p), target_format q)"
    by (rule pandoc_arguments [OF formats(2,3) st]) (simp add: pandoc_step_def)
  moreover have "plan_lane q (pandoc_step p pandoc cap (target_format q)) = PandocConvert"
    using formats
    by (auto simp: plan_lane_def pandoc_step_def argument_def map_of_btree_from
        offline_arguments_def Let_def)
  ultimately show ?thesis by (auto simp: pandoc_command_def pandoc_step_def)
qed

theorem planned_documents_can_be_run_witness:
  "\<exists>q st. plan_markup_to_docx demo_plan_env demo_markdown ''/d/o.docx'' demo_pandoc = Inr q
     \<and> pandoc_checks q = Inr (st, ''markdown'', target_format q)"
proof -
  obtain q where q: "plan_markup_to_docx demo_plan_env demo_markdown ''/d/o.docx'' demo_pandoc = Inr q"
    using demo_markdown_planned by blast
  moreover have "format_id (format demo_markdown) = ''markdown''" by (simp add: demo_markdown_def)
  ultimately show ?thesis
    using planned_documents_can_be_run [OF disjI1 [OF q]] by auto
qed

section \<open>Accepted documents keep the text\<close>

lemma worst_pass_or_fail:
  "worst_status (document_check c Pass e obs m # cs) = worst_status cs"
  by (simp add: worst_status_def document_check_def check_def worst_def)

text \<open>
  A DOCX is accepted exactly when it is one, has the required parts and its words are the words
  of the input; an EPUB when it has a content document and at least four fifths of the characters,
  another order of words being a warning only; a text export when it has any text at all.
\<close>

theorem documents_keep_the_text:
  "report_status (validate_docx_output fresh input output p job) =
     pass_or_fail (format_id (format output) = ''docx''
       \<and> stream_property output ''required_parts_present'' = JBool True
       \<and> digest_of input = digest_of output)"
  "report_status (validate_epub_output fresh input output p job) =
     (if format_id (format output) = ''epub''
         \<and> 1 \<le> json_u64_or_zero (stream_property output ''content_documents'')
         \<and> 8 * characters_of input \<le> 10 * characters_of output
      then (if digest_of input = digest_of output then Pass else Warn) else Fail)"
  "report_status (validate_text_export_output fresh input output p job) =
     (if 0 < characters_of output
      then (if digest_of input = digest_of output then Pass else Warn) else Fail)"
  by (simp_all add: validate_docx_output_def validate_epub_output_def validate_text_export_output_def
      document_report_def adapter_report_def worst_status_def document_check_def check_def
      pass_or_fail_def worst_def Let_def mult.commute)

text \<open>
  Only an HTML page with an \<open><img\<close> tag and an SVG with an \<open><image\<close> element count as referring
  to something: a remote style sheet, frame or script does not, nor a remote link of an SVG.
\<close>

lemma remote_links_pass:
  "\<not> detects_external_resource ''<iframe src=\"https://x/\">'' ''html''"
  "\<not> detects_external_resource ''<svg><use href=\"https://x/#a\"/></svg>'' ''svg''"
  "\<not> detects_external_resource ''<img src=\"https://x/a.png\">'' ''markdown''"
  by code_simp+

end
