(* ===== verification/Archive.thy ===== *)
theory Archive
  imports Eml "HOL-Library.List_Lexorder"
begin

text \<open>
  \<open>crates/core/src/archive.rs\<close>: ZIP, tar.gz and 7z containers. A container is the list of its
  entries as the crate that reads it yields them, \<open>None\<close> for one it cannot read; a 7z is a list of
  runs of entries. What a crate reads in a container that a crate has written is the crates', and a
  parameter of the writer. Nothing is extracted to disk.
\<close>

section \<open>Recognizing a container\<close>

definition archive_input_error :: anole_error where
  "archive_input_error = anole_error_new InputInvalid Inspect ''Unable to read archive {}''"

definition archive_unsupported :: "string \<Rightarrow> anole_error" where
  "archive_unsupported m = plan_error Unsupported m"

text \<open>\<open>head\<close> is what the first \<open>read\<close> of six bytes returned; \<open>None\<close> when the file cannot be opened.\<close>

definition archive_format_hint :: "string \<Rightarrow> string option \<Rightarrow> anole_error + string option" where
  "archive_format_hint path head =
     (let ext = map_option to_ascii_lowercase (extension path);
          name = (case file_name path of None \<Rightarrow> [] | Some n \<Rightarrow> to_ascii_lowercase n);
          is_targz = (ext = Some ''tgz'' \<or> ends_with name ''.tar.gz'' \<or> ends_with name ''.taz'');
          is_zip = (ext = Some ''zip'');
          is_7z = (ext = Some ''7z'')
      in if \<not> is_targz \<and> \<not> is_zip \<and> \<not> is_7z then Inr None
         else res_bind (ok_or archive_input_error head) (\<lambda>h.
           res_bind (ensure (6 \<le> length h) archive_input_error) (\<lambda>_.
           if is_zip
           then (if take 4 h = ''PK'' @ [CHR 0x03, CHR 0x04] then Inr (Some ''zip'') else Inl archive_input_error)
           else if is_7z
           then (if h = ''7z'' @ [CHR 0xBC, CHR 0xAF, CHR 0x27, CHR 0x1C] then Inr (Some ''7z'')
                 else Inl archive_input_error)
           else if take 2 h = [CHR 0x1F, CHR 0x8B] then Inr (Some ''tar.gz'')
           else Inl archive_input_error)))"

section \<open>Entries\<close>

text \<open>The size is the one the container declares; data that breaks off is \<open>None\<close>.\<close>

datatype entry_kind = DirEntry | FileEntry | LinkOrDevice

record raw_entry =
  en_name :: string
  en_kind :: entry_kind
  en_size :: nat
  en_data :: "string option"

type_synonym container = "raw_entry option list"

text \<open>The runs of a 7z: the entries of each block, and at the end those without a stream.\<close>

type_synonym sevenz = "container list"

record archive_entry =
  ae_name :: string
  ae_size :: nat

definition safe_name :: "string \<Rightarrow> anole_error + unit" where
  "safe_name name =
     ensure (\<not> (starts_with name ''/'' \<or> starts_with name [CHR 0x5C] \<or> contains_str name ''..''
         \<or> is_absolute name \<or> CHR '':'' \<in> set name))
       (anole_error_new InputInvalid Inspect ''Archive entry has an unsafe path: {}'')"

definition max_archive_entries :: nat where
  "max_archive_entries = 10000"

definition max_archive_total_bytes :: nat where
  "max_archive_total_bytes = 2 * 1024 * 1024 * 1024"

definition u128_max :: nat where
  "u128_max = 2 ^ 128 - 1"

definition enforce_archive_limits :: "nat \<Rightarrow> nat \<Rightarrow> anole_error + unit" where
  "enforce_archive_limits count bytes =
     res_bind (ensure (count \<le> max_archive_entries) (anole_error_new ResourceExhausted Inspect
       ''Archive exceeds the 10,000-entry alpha limit'')) (\<lambda>_.
     ensure (bytes \<le> max_archive_total_bytes) (anole_error_new ResourceExhausted Inspect
       ''Archive expanded size exceeds the 2 GiB alpha limit''))"

definition recorded :: "string \<Rightarrow> nat \<Rightarrow> anole_error + archive_entry" where
  "recorded name n = res_bind (safe_name name) (\<lambda>_. Inr \<lparr>ae_name = name, ae_size = n\<rparr>)"

text \<open>\<open>to_string_lossy().replace('\\', "/")\<close> on a name that is valid Unicode.\<close>

definition slashed :: "string \<Rightarrow> string" where
  "slashed name = map (\<lambda>c. if c = CHR 0x5C then CHR ''/'' else c) name"

definition with_slash :: "string \<Rightarrow> string" where
  "with_slash name = (if ends_with name ''/'' then name else name @ ''/'')"

text \<open>\<open>decompressed\<close> is \<open>ZipArchive::decompressed_size\<close>, \<open>None\<close> when an entry has a data descriptor.\<close>

definition zip_limits :: "nat option \<Rightarrow> container \<Rightarrow> anole_error + unit" where
  "zip_limits decompressed c =
     enforce_archive_limits (length c) (case decompressed of None \<Rightarrow> u128_max | Some n \<Rightarrow> n)"

definition read_zip_entries :: "nat option \<Rightarrow> container \<Rightarrow> anole_error + archive_entry list" where
  "read_zip_entries decompressed c =
     res_bind (zip_limits decompressed c) (\<lambda>_.
     res_mapM (\<lambda>e. res_bind (ok_or archive_input_error e) (\<lambda>e. recorded (en_name e) (en_size e))) c)"

definition total_size :: "archive_entry list \<Rightarrow> nat" where
  "total_size es = foldl (\<lambda>n e. sat_add n (ae_size e)) 0 es"

definition read_targz_entries :: "container \<Rightarrow> anole_error + archive_entry list" where
  "read_targz_entries c =
     res_bind (res_mapM (\<lambda>e. res_bind (ok_or archive_input_error e) (\<lambda>e.
       recorded (slashed (en_name e)) (en_size e))) c) (\<lambda>es.
     res_bind (enforce_archive_limits (length es) (total_size es)) (\<lambda>_. Inr es))"

text \<open>
  \<open>SevenZReader::for_each_entries\<close>: on the entries of a run the closure is called in order while it
  answers \<open>go_on\<close>, and the next run follows whatever it answered; which answer means that is the crate's,
  and a parameter here. An entry that cannot be read is the closure's error in the inventory.
\<close>

fun each_entry ::
    "bool \<Rightarrow> ('s \<Rightarrow> raw_entry option \<Rightarrow> anole_error + 's \<times> bool) \<Rightarrow> 's \<Rightarrow> container \<Rightarrow> anole_error + 's" where
  "each_entry go_on f s [] = Inr s"
| "each_entry go_on f s (e # es) =
     res_bind (f s e) (\<lambda>(s', answer). if answer = go_on then each_entry go_on f s' es else Inr s')"

fun each_run ::
    "bool \<Rightarrow> ('s \<Rightarrow> raw_entry option \<Rightarrow> anole_error + 's \<times> bool) \<Rightarrow> 's \<Rightarrow> sevenz \<Rightarrow> anole_error + 's" where
  "each_run go_on f s [] = Inr s"
| "each_run go_on f s (c # cs) = res_bind (each_entry go_on f s c) (\<lambda>s'. each_run go_on f s' cs)"

definition sevenz_name :: "raw_entry \<Rightarrow> string" where
  "sevenz_name e =
     (if en_kind e = DirEntry then with_slash (slashed (en_name e)) else slashed (en_name e))"

record sevenz_listing =
  sl_entries :: "archive_entry list"
  sl_rejected :: "anole_error option"

definition list_7z_entry ::
    "sevenz_listing \<Rightarrow> raw_entry option \<Rightarrow> anole_error + sevenz_listing \<times> bool" where
  "list_7z_entry s e =
     (case e of
        None \<Rightarrow> Inl archive_input_error
      | Some e \<Rightarrow>
          res_bind (ok_or archive_input_error (en_data e)) (\<lambda>data.
          let name = sevenz_name e;
              rejected = (case sl_rejected s of
                  Some r \<Rightarrow> Some r
                | None \<Rightarrow> (case safe_name name of Inl r \<Rightarrow> Some r | Inr _ \<Rightarrow> None))
          in Inr (\<lparr>sl_entries = sl_entries s @ [\<lparr>ae_name = name, ae_size = length data\<rparr>],
                   sl_rejected = rejected\<rparr>, rejected = None)))"

definition read_7z_entries :: "bool \<Rightarrow> sevenz \<Rightarrow> anole_error + archive_entry list" where
  "read_7z_entries go_on c =
     res_bind (each_run go_on list_7z_entry \<lparr>sl_entries = [], sl_rejected = None\<rparr> c) (\<lambda>s.
     res_bind (case sl_rejected s of Some e \<Rightarrow> Inl e | None \<Rightarrow> Inr ()) (\<lambda>_.
     res_bind (enforce_archive_limits (length (sl_entries s)) (total_size (sl_entries s))) (\<lambda>_.
     Inr (sl_entries s))))"

text \<open>The manifest: one line for each entry, sorted as byte strings.\<close>

definition manifest_line :: "archive_entry \<Rightarrow> string" where
  "manifest_line e = ae_name e @ CHR '':'' # decimal (ae_size e)"

definition sorted_lines :: "string list \<Rightarrow> string list" where
  "sorted_lines ls = sort_key (map byte_of) ls"

definition manifest_text :: "archive_entry list \<Rightarrow> string" where
  "manifest_text es = join_with [newline] (sorted_lines (map manifest_line es))"

definition entry_manifest_digest :: "(string \<Rightarrow> string) \<Rightarrow> archive_entry list \<Rightarrow> string" where
  "entry_manifest_digest blake3 es = ''blake3:'' @ blake3 (manifest_text es)"

definition archive_properties :: "(string \<Rightarrow> string) \<Rightarrow> archive_entry list \<Rightarrow> (string \<times> json) list" where
  "archive_properties blake3 es =
     btree_from [(''entry_count'', json_nat (length es)),
       (''total_entry_bytes'', json_nat (sum_list (map ae_size es))),
       (''entry_manifest_digest'', JStr (entry_manifest_digest blake3 es))]"

section \<open>Repacking\<close>

text \<open>
  Writers take entries until one is refused. \<open>refuses\<close> is the writer's answer to an entry after what
  was written before, \<open>finishes\<close> its answer to the closing of the container, and \<open>reads\<close> what the
  crate of the format reads in the container that was written.
\<close>

record 'c archive_writer =
  wr_refuses :: "raw_entry list \<Rightarrow> raw_entry \<Rightarrow> bool"
  wr_finishes :: "raw_entry list \<Rightarrow> bool"
  wr_reads :: "raw_entry list \<Rightarrow> 'c"

definition archive_output_error :: anole_error where
  "archive_output_error = anole_error_new StorageFailed Execute ''Unable to write archive {}''"

definition put_entry ::
    "'c archive_writer \<Rightarrow> anole_error \<Rightarrow> raw_entry list \<Rightarrow> raw_entry \<Rightarrow> anole_error + raw_entry list" where
  "put_entry w err out e =
     res_bind (ensure (en_data e \<noteq> None \<and> \<not> wr_refuses w out e) err) (\<lambda>_. Inr (out @ [e]))"

definition finish_archive :: "'c archive_writer \<Rightarrow> raw_entry list \<Rightarrow> anole_error + 'c" where
  "finish_archive w es =
     res_bind (ensure (wr_finishes w es) archive_output_error) (\<lambda>_. Inr (wr_reads w es))"

definition append_tar_error :: anole_error where
  "append_tar_error =
     anole_error_new ExecutionFailed Execute ''Unable to append an entry to the tar.gz output''"

definition copy_zip_error :: anole_error where
  "copy_zip_error =
     anole_error_new ExecutionFailed Execute ''Unable to copy an entry into the ZIP output''"

definition link_error :: anole_error where
  "link_error = anole_error_new InputInvalid Execute
     ''Archive entry {name} is a link or device, not a regular file''"

text \<open>A directory of a ZIP or tar, and of a 7z, where it is an entry without a stream.\<close>

definition dir_entry :: "string \<Rightarrow> raw_entry" where
  "dir_entry name = \<lparr>en_name = name, en_kind = DirEntry, en_size = 0, en_data = Some []\<rparr>"

definition empty_entry :: "string \<Rightarrow> raw_entry" where
  "empty_entry name = \<lparr>en_name = name, en_kind = FileEntry, en_size = 0, en_data = Some []\<rparr>"

definition repack_zip_to_targz ::
    "container archive_writer \<Rightarrow> nat option \<Rightarrow> container \<Rightarrow> anole_error + container" where
  "repack_zip_to_targz w decompressed c =
     res_bind (zip_limits decompressed c) (\<lambda>_.
     res_bind (res_fold (\<lambda>out e. res_bind (ok_or archive_input_error e) (\<lambda>e.
         put_entry w append_tar_error out
           (if en_kind e = DirEntry then dir_entry (with_slash (en_name e))
            else e\<lparr>en_kind := FileEntry\<rparr>))) [] c) (\<lambda>out.
     finish_archive w out))"

definition repack_zip_to_7z ::
    "sevenz archive_writer \<Rightarrow> nat option \<Rightarrow> container \<Rightarrow> anole_error + sevenz" where
  "repack_zip_to_7z w decompressed c =
     res_bind (zip_limits decompressed c) (\<lambda>_.
     res_bind (res_fold (\<lambda>out e. res_bind (ok_or archive_input_error e) (\<lambda>e.
         put_entry w archive_output_error out
           (if en_kind e = DirEntry then empty_entry (en_name e) else e\<lparr>en_kind := FileEntry\<rparr>))) [] c)
       (\<lambda>out. finish_archive w out))"

text \<open>
  The loop over a tar: the entries written, their number so far and the bytes of the files. \<open>broken\<close>
  is the error of data that breaks off or is refused, \<open>mkdir\<close> the entry of a directory.
\<close>

definition tar_step ::
    "'c archive_writer \<Rightarrow> anole_error \<Rightarrow> (string \<Rightarrow> raw_entry) \<Rightarrow> raw_entry list \<times> nat \<times> nat
     \<Rightarrow> raw_entry option \<Rightarrow> anole_error + raw_entry list \<times> nat \<times> nat" where
  "tar_step w broken mkdir st e =
     (case st of (out, count, bytes) \<Rightarrow>
        res_bind (ok_or archive_input_error e) (\<lambda>e.
        let name = slashed (en_name e) in
        case en_kind e of
          DirEntry \<Rightarrow>
            res_bind (put_entry w archive_output_error out (mkdir (with_slash name))) (\<lambda>out'.
            Inr (out', count + 1, bytes))
        | FileEntry \<Rightarrow>
            let bytes' = sat_add bytes (en_size e) in
            res_bind (enforce_archive_limits (count + 1) bytes') (\<lambda>_.
            res_bind (ensure (en_data e \<noteq> None) broken) (\<lambda>_.
            res_bind (put_entry w archive_output_error out (e\<lparr>en_name := name\<rparr>)) (\<lambda>out'.
            Inr (out', count + 1, bytes'))))
        | LinkOrDevice \<Rightarrow> Inl link_error))"

definition repack_targz_to_zip :: "container archive_writer \<Rightarrow> container \<Rightarrow> anole_error + container" where
  "repack_targz_to_zip w c =
     res_bind (res_fold (tar_step w copy_zip_error dir_entry) ([], 0, 0) c)
       (\<lambda>(out, _, _). finish_archive w out)"

definition repack_targz_to_7z :: "sevenz archive_writer \<Rightarrow> container \<Rightarrow> anole_error + sevenz" where
  "repack_targz_to_7z w c =
     res_bind (res_fold (tar_step w archive_input_error empty_entry) ([], 0, 0) c)
       (\<lambda>(out, _, _). finish_archive w out)"

text \<open>The closures of the two routes from a 7z, with the first failure they keep.\<close>

record sevenz_zip_state =
  sz_out :: "raw_entry list"
  sz_total :: nat
  sz_count :: nat
  sz_failure :: "anole_error option"

definition fail_zip ::
    "sevenz_zip_state \<Rightarrow> anole_error \<Rightarrow> anole_error + sevenz_zip_state \<times> bool" where
  "fail_zip s e = Inr (s\<lparr>sz_failure := Some e\<rparr>, True)"

definition zip_7z_entry ::
    "'c archive_writer \<Rightarrow> sevenz_zip_state \<Rightarrow> raw_entry option \<Rightarrow> anole_error + sevenz_zip_state \<times> bool" where
  "zip_7z_entry w s e =
     (case e of
        None \<Rightarrow> Inl archive_input_error
      | Some e \<Rightarrow>
          if sz_failure s \<noteq> None then Inr (s, True)
          else
            let name = slashed (en_name e);
                written = (if en_kind e = DirEntry then dir_entry (with_slash name)
                           else e\<lparr>en_name := name, en_kind := FileEntry\<rparr>)
            in case put_entry w archive_output_error (sz_out s) written of
                 Inl err \<Rightarrow> fail_zip s err
               | Inr out \<Rightarrow>
                   let s1 = s\<lparr>sz_out := out\<rparr> in
                   if en_kind e = DirEntry then Inr (s1, False)
                   else case safe_name name of
                     Inl err \<Rightarrow> fail_zip s1 err
                   | Inr _ \<Rightarrow>
                       let s2 = s1\<lparr>sz_total := sat_add (sz_total s1) (en_size e),
                                  sz_count := sz_count s1 + 1\<rparr> in
                       (case enforce_archive_limits (sz_count s2) (sz_total s2) of
                          Inl err \<Rightarrow> fail_zip s2 err
                        | Inr _ \<Rightarrow> Inr (s2, False)))"

definition repack_7z_to_zip :: "container archive_writer \<Rightarrow> bool \<Rightarrow> sevenz \<Rightarrow> anole_error + container" where
  "repack_7z_to_zip w go_on c =
     res_bind (each_run go_on (zip_7z_entry w)
       \<lparr>sz_out = [], sz_total = 0, sz_count = 0, sz_failure = None\<rparr> c) (\<lambda>s.
     case sz_failure s of Some e \<Rightarrow> Inl e | None \<Rightarrow> finish_archive w (sz_out s))"

definition tar_7z_entry ::
    "'c archive_writer \<Rightarrow> raw_entry list \<times> anole_error option \<Rightarrow> raw_entry option
     \<Rightarrow> anole_error + (raw_entry list \<times> anole_error option) \<times> bool" where
  "tar_7z_entry w st e =
     (case e of
        None \<Rightarrow> Inl archive_input_error
      | Some e \<Rightarrow>
          (case st of (out, failure) \<Rightarrow>
             if failure \<noteq> None then Inr (st, True)
             else if en_data e = None then Inr ((out, Some archive_output_error), False)
             else
               let name = slashed (en_name e);
                   written = (if en_kind e = DirEntry then dir_entry (with_slash name)
                              else e\<lparr>en_name := name, en_kind := FileEntry\<rparr>)
               in case put_entry w append_tar_error out written of
                    Inl err \<Rightarrow> Inr ((out, Some err), True)
                  | Inr out' \<Rightarrow> Inr ((out', None), True)))"

definition repack_7z_to_targz :: "container archive_writer \<Rightarrow> bool \<Rightarrow> sevenz \<Rightarrow> anole_error + container" where
  "repack_7z_to_targz w go_on c =
     res_bind (read_7z_entries go_on c) (\<lambda>_.
     res_bind (each_run go_on (tar_7z_entry w) ([], None) c) (\<lambda>(out, failure).
     case failure of Some e \<Rightarrow> Inl e | None \<Rightarrow> finish_archive w out))"

section \<open>Plan and acceptance\<close>

definition archive_target :: "string \<Rightarrow> anole_error + string" where
  "archive_target t =
     (if t \<in> {''tar.gz'', ''tgz'', ''taz''} then Inr ''tar.gz''
      else if t \<in> {''zip'', ''7z''} then Inr t
      else Inl (archive_unsupported
        ''Archive conversion must be zip -> tar.gz, tar.gz -> zip, zip -> 7z, or 7z -> zip''))"

definition plan_archive_conversion ::
    "plan_env \<Rightarrow> probe \<Rightarrow> plan_request \<Rightarrow> engine_identity \<Rightarrow> anole_error + plan" where
  "plan_archive_conversion E p r eng =
     res_bind (archive_target (requested_target r)) (\<lambda>target.
     res_bind (ensure ((format_id (format p), target) \<in>
           {(''zip'', ''tar.gz''), (''zip'', ''7z''), (''tar.gz'', ''zip''), (''7z'', ''zip''),
            (''tar.gz'', ''7z''), (''7z'', ''tar.gz'')})
       (archive_unsupported ''Archive conversion must be between zip, tar.gz, and 7z'')) (\<lambda>_.
     res_bind (ensure (engine_id eng = ''anole.archive'')
       (plan_error EngineIncompatible ''The archive Plan was given the wrong engine'')) (\<lambda>_.
     seal_plan E (one_step_plan E p target
       (btree_from [(''network'', JStr ''deny''), (''extraction_to_disk'', JStr ''deny'')])
       \<lparr>step_id = ''step-1'',
        capability_id = ''anole.archive.'' @ format_id (format p) @ ''-to-'' @ target @ ''.native'',
        engine = eng, operation_of = Transform, loss = ContainerOnly,
        arguments = btree_from [(''source_format'', format_id (format p)), (''target_format'', target),
          (''resource_policy'', ''deny-all'')],
        estimated_temporary_bytes = Some ((case as_u64 (stream_property p ''total_entry_bytes'') of
            Some n \<Rightarrow> n | None \<Rightarrow> size_bytes (artifact p)) * 2 mod 2 ^ 64)\<rparr>
       \<lparr>preserved = [''every archive entry's name, order-independent set, and size'',
          ''entry payload bytes''],
        changed = [''container changes from '' @ format_id (format p) @ '' to '' @ target],
        dropped = [],
        unknown = [''stored file metadata (timestamps, permissions) is not certified'']\<rparr>
       [''archive.entry-count'', ''archive.entry-manifest''] (req_output_path r) None))))"

definition archive_check :: "string \<Rightarrow> bool \<Rightarrow> json \<Rightarrow> json \<Rightarrow> string \<Rightarrow> validation_check" where
  "archive_check c ok e obs m =
     check c (pass_or_fail ok) True e obs ''Anole native archive inspector'' m"

definition validate_archive_output ::
    "uuid \<Rightarrow> probe \<Rightarrow> probe \<Rightarrow> plan \<Rightarrow> uuid \<Rightarrow> validation_report" where
  "validate_archive_output fresh input output p job =
     (let ec = as_u64 (stream_property input ''entry_count'');
          oc = as_u64 (stream_property output ''entry_count'');
          em = stream_property input ''entry_manifest_digest'';
          om = stream_property output ''entry_manifest_digest''
      in adapter_report fresh (summary_of input) (summary_of output) p job
        [archive_check ''ARCHIVE_OPENS'' True (JBool True) (JBool True)
           ''Native reader enumerated the repacked container.'',
         archive_check ''ARCHIVE_TARGET_FORMAT'' (format_id (format output) \<noteq> format_id (format input))
           (JStr (target_format p)) (JStr (format_id (format output)))
           ''Output container differs from the input container.'',
         archive_check ''ARCHIVE_ENTRY_COUNT'' (ec \<noteq> None \<and> ec = oc) (json_opt json_nat ec)
           (json_opt json_nat oc) ''Entry count is preserved.'',
         archive_check ''ARCHIVE_ENTRY_MANIFEST'' (is_json_string em \<and> is_json_string om \<and> em = om) em om
           ''Name-and-size manifest digest is preserved.''])"

end
