(* ===== verification/Archive_Safety.thy ===== *)
theory Archive_Safety
  imports Archive Eml_Export Adapter_Run "HOL-Library.Multiset"
begin

text \<open>
  What the archive adapter promises: limits and safe names of every inventory, a manifest that tells
  inventories apart, and repacking that keeps the inventory; and where the two routes from a 7z do
  not agree.
\<close>

section \<open>Inventories\<close>

lemma sat_total:
  "k \<le> u64_max \<Longrightarrow>
     foldl (\<lambda>n e. sat_add n (ae_size e)) k es = min (k + sum_list (map ae_size es)) u64_max"
proof (induction es arbitrary: k)
  case (Cons e es)
  then show ?case using Cons.IH [of "sat_add k (ae_size e)"] by (auto simp: sat_add_def min_def)
qed simp

lemma total_size_eq: "total_size es = min (sum_list (map ae_size es)) u64_max"
  using sat_total [of 0 es] by (simp add: total_size_def)

lemma all_listed: "list_all2 P xs ys \<Longrightarrow> (\<And>x y. P x y \<Longrightarrow> Q y) \<Longrightarrow> \<forall>y \<in> set ys. Q y"
  by (induction rule: list_all2_induct) auto

lemma recorded_Inr: "recorded n k = Inr e \<longleftrightarrow> safe_name n = Inr () \<and> e = \<lparr>ae_name = n, ae_size = k\<rparr>"
  by (auto simp: recorded_def)

lemma limits_Inr:
  "enforce_archive_limits n b = Inr u \<longleftrightarrow> n \<le> max_archive_entries \<and> b \<le> max_archive_total_bytes"
  by (auto simp: enforce_archive_limits_def)

lemma rejected_stays:
  "each_entry go_on list_7z_entry u d = Inr t \<Longrightarrow> sl_rejected u \<noteq> None \<Longrightarrow> sl_rejected t \<noteq> None"
  by (induction d arbitrary: u) (fastforce simp: list_7z_entry_def Let_def split: option.splits if_splits)+

lemma listed_7z:
  assumes "each_entry go_on list_7z_entry s c = Inr t" and "sl_rejected t = None"
    and "\<forall>e \<in> set (sl_entries s). safe_name (ae_name e) = Inr ()"
  shows "\<forall>e \<in> set (sl_entries t). safe_name (ae_name e) = Inr ()"
  using assms
proof (induction c arbitrary: s)
  case (Cons e c)
  from Cons.prems(1) obtain s' a where step: "list_7z_entry s e = Inr (s', a)"
    and rest: "if a = go_on then each_entry go_on list_7z_entry s' c = Inr t else t = s'"
    by (auto split: if_splits)
  have stop: "sl_rejected t = None \<Longrightarrow> sl_rejected s' = None"
      using rest rejected_stays by (metis (full_types))
  have "\<forall>e \<in> set (sl_entries s'). safe_name (ae_name e) = Inr ()"
    using step stop [OF Cons.prems(2)] Cons.prems(3)
    by (auto simp: list_7z_entry_def Let_def split: option.splits sum.splits)
  then show ?case using rest Cons.IH [OF _ Cons.prems(2)] by (auto split: if_splits)
qed simp

lemma rejected_stays_run:
  "each_run go_on list_7z_entry u d = Inr t \<Longrightarrow> sl_rejected u \<noteq> None \<Longrightarrow> sl_rejected t \<noteq> None"
  by (induction d arbitrary: u) (auto dest: rejected_stays)

lemma listed_7z_run:
  assumes "each_run go_on list_7z_entry s c = Inr t" and "sl_rejected t = None"
    and "\<forall>e \<in> set (sl_entries s). safe_name (ae_name e) = Inr ()"
  shows "\<forall>e \<in> set (sl_entries t). safe_name (ae_name e) = Inr ()"
  using assms
proof (induction c arbitrary: s)
  case (Cons c cs)
  then obtain s' where s': "each_entry go_on list_7z_entry s c = Inr s'" "each_run go_on list_7z_entry s' cs = Inr t"
    by auto
  then have "sl_rejected s' = None" using rejected_stays_run Cons.prems(2) by blast
  with Cons.IH [OF s'(2) Cons.prems(2)] listed_7z [OF s'(1)] Cons.prems(3) show ?case by blast
qed simp

text \<open>
  Every inventory that inspection returns has at most ten thousand entries, all with relative
  names without a parent step, a drive or a leading separator, and, where the reader knows the sizes,
  at most two gibibytes.
\<close>

theorem inventories_are_bounded:
  assumes "read_zip_entries (Some (sum_list (map ae_size es))) c = Inr es \<or> read_targz_entries c = Inr es
      \<or> read_7z_entries go_on runs = Inr es"
  shows "length es \<le> 10000 \<and> sum_list (map ae_size es) \<le> 2147483648
    \<and> (\<forall>e \<in> set es. \<not> starts_with (ae_name e) ''/'' \<and> \<not> contains_str (ae_name e) ''..''
         \<and> \<not> is_absolute (ae_name e) \<and> CHR '':'' \<notin> set (ae_name e))"
proof -
  have big: "max_archive_total_bytes < u64_max" by (simp add: max_archive_total_bytes_def u64_max_def)
  have "length es \<le> max_archive_entries \<and> sum_list (map ae_size es) \<le> max_archive_total_bytes
      \<and> (\<forall>e \<in> set es. safe_name (ae_name e) = Inr ())"
    using assms
  proof (elim disjE)
    assume "read_zip_entries (Some (sum_list (map ae_size es))) c = Inr es"
    then have "length c \<le> max_archive_entries" "sum_list (map ae_size es) \<le> max_archive_total_bytes"
      and "list_all2 (\<lambda>e a. res_bind (ok_or archive_input_error e)
             (\<lambda>e. recorded (en_name e) (en_size e)) = Inr a) c es"
      by (auto simp: read_zip_entries_def zip_limits_def limits_Inr res_mapM_Inr_iff)
    moreover from this(3) have "\<forall>e \<in> set es. safe_name (ae_name e) = Inr ()"
      by (rule all_listed) (auto simp: recorded_Inr)
    ultimately show ?thesis by (auto dest: list_all2_lengthD)
  next
    assume "read_targz_entries c = Inr es"
    then have "length es \<le> max_archive_entries" "total_size es \<le> max_archive_total_bytes"
      and "list_all2 (\<lambda>e a. res_bind (ok_or archive_input_error e)
             (\<lambda>e. recorded (slashed (en_name e)) (en_size e)) = Inr a) c es"
      by (auto simp: read_targz_entries_def limits_Inr res_mapM_Inr_iff)
    moreover from this(3) have "\<forall>e \<in> set es. safe_name (ae_name e) = Inr ()"
      by (rule all_listed) (auto simp: recorded_Inr)
    ultimately show ?thesis using big by (auto simp: total_size_eq)
  next
    assume "read_7z_entries go_on runs = Inr es"
    then obtain s where s: "each_run go_on list_7z_entry \<lparr>sl_entries = [], sl_rejected = None\<rparr> runs = Inr s"
      "sl_rejected s = None" "es = sl_entries s" "length es \<le> max_archive_entries"
      "total_size es \<le> max_archive_total_bytes"
      by (auto simp: read_7z_entries_def limits_Inr split: option.splits)
    then show ?thesis using listed_7z_run [OF s(1,2)] big by (auto simp: total_size_eq)
  qed
  then show ?thesis
    by (auto simp: max_archive_entries_def max_archive_total_bytes_def safe_name_def)
qed

section \<open>The manifest\<close>

lemma split_at_first:
  "x \<notin> set a \<Longrightarrow> x \<notin> set b \<Longrightarrow> a @ x # c = b @ x # d \<Longrightarrow> a = b \<and> c = d"
proof (induction a arbitrary: b)
  case Nil
  then show ?case by (cases b) auto
next
  case (Cons y a)
  then show ?case by (cases b) auto
qed

definition ends_number :: "string \<Rightarrow> bool" where
  "ends_number r = (r = [] \<or> \<not> is_ascii_digit (hd r))"

lemma decimal_digits: "\<forall>c \<in> set (decimal n). is_ascii_digit c"
proof (induction n rule: decimal.induct)
  case (1 n)
  then show ?case by (cases "n < 10") (auto simp: decimal.simps [of n] is_ascii_digit_char)
qed

lemma takeWhile_number:
  "ends_number r \<Longrightarrow> takeWhile is_ascii_digit (decimal n @ r) = decimal n"
  using decimal_digits [of n] by (cases r) (auto simp: ends_number_def takeWhile_append2)

lemma decimal_inj: "decimal m = decimal n \<Longrightarrow> m = n"
  by (metis digits_value_decimal option.inject)

lemma number_cut:
  "decimal m @ r = decimal n @ t \<Longrightarrow> ends_number r \<Longrightarrow> ends_number t \<Longrightarrow> m = n \<and> r = t"
  by (metis append_same_eq decimal_inj same_append_eq takeWhile_number)

definition no_colon :: "archive_entry \<Rightarrow> bool" where
  "no_colon e = (CHR '':'' \<notin> set (ae_name e))"

lemma line_cut:
  assumes "no_colon e" and "no_colon f" and "ends_number r" and "ends_number t"
    and "manifest_line e @ r = manifest_line f @ t"
  shows "e = f \<and> r = t"
proof -
  have "ae_name e = ae_name f \<and> decimal (ae_size e) @ r = decimal (ae_size f) @ t"
    using assms(1,2,5) by (intro split_at_first [of "CHR '':''"]) (auto simp: manifest_line_def no_colon_def)
  then show ?thesis using number_cut [OF _ assms(3,4)] by (metis archive_entry.equality old.unit.exhaust)
qed

lemma joined_lines_inj:
  assumes "\<forall>e \<in> set es. no_colon e" and "\<forall>f \<in> set fs. no_colon f"
    and "join_with [newline] (map manifest_line es) = join_with [newline] (map manifest_line fs)"
  shows "es = fs"
  using assms
proof (induction es arbitrary: fs)
  case Nil
  then show ?case by (cases fs rule: remdups_adj.cases) (auto simp: manifest_line_def)
next
  case (Cons e es)
  obtain f gs where fs: "fs = f # gs"
    using Cons.prems(3) by (cases fs; cases es) (auto simp: manifest_line_def)
  let ?r = "\<lambda>xs. case xs of [] \<Rightarrow> [] | _ \<Rightarrow> newline # join_with [newline] (map manifest_line xs)"
  have join: "join_with [newline] (map manifest_line (x # xs)) = manifest_line x @ ?r xs" for x xs
    by (cases xs) auto
  have number: "ends_number (?r xs)" for xs
    by (cases xs) (auto simp: ends_number_def is_ascii_digit_def byte_of_def)
  have "e = f \<and> ?r es = ?r gs"
    using Cons.prems number unfolding fs join by (intro line_cut) auto
  moreover from this have "join_with [newline] (map manifest_line es) = join_with [newline] (map manifest_line gs)"
    by (cases es; cases gs) auto
  ultimately show ?case using Cons.IH [of gs] Cons.prems by (auto simp: fs)
qed

lemma sort_key_map: "sort_key g (map f xs) = map f (sort_key (\<lambda>x. g (f x)) xs)"
proof -
  have "insort_key g (f x) (map f ys) = map f (insort_key (\<lambda>x. g (f x)) x ys)" for x ys
    by (induction ys) auto
  then show ?thesis by (induction xs) auto
qed

lemma sorted_lines_map:
  "\<exists>fs. sorted_lines (map manifest_line es) = map manifest_line fs \<and> mset fs = mset es"
  by (rule exI [of _ "sort_key (\<lambda>x. map byte_of (manifest_line x)) es"])
    (simp add: sorted_lines_def sort_key_map)

lemma byte_of_inj: "inj byte_of"
  by (simp add: inj_def byte_of_def)

text \<open>
  C25: The manifest whose digest is compared after a repack tells inventories apart: with the names
  that inspection lets through, which have no colon, two inventories have the same manifest only if
  they hold the same names with the same sizes, as often, in whatever order.
\<close>

theorem manifest_identifies_inventory:
  assumes "\<forall>e \<in> set es. CHR '':'' \<notin> set (ae_name e)" and "\<forall>f \<in> set fs. CHR '':'' \<notin> set (ae_name f)"
  shows "manifest_text es = manifest_text fs \<longleftrightarrow> mset es = mset fs"
proof
  obtain es' fs' where sorted: "sorted_lines (map manifest_line es) = map manifest_line es'" "mset es' = mset es"
    "sorted_lines (map manifest_line fs) = map manifest_line fs'" "mset fs' = mset fs"
    using sorted_lines_map by blast
  have colon: "\<forall>e \<in> set es'. no_colon e" "\<forall>f \<in> set fs'. no_colon f"
    using assms sorted(2,4) by (auto simp: no_colon_def dest: mset_eq_setD)
  show "manifest_text es = manifest_text fs \<Longrightarrow> mset es = mset fs"
    using joined_lines_inj [OF colon] sorted by (simp add: manifest_text_def)
  assume "mset es = mset fs"
  then have "mset (map manifest_line es) = mset (sorted_lines (map manifest_line fs))"
    by (simp add: sorted_lines_def)
  moreover have "inj_on (map byte_of) (set (map manifest_line es))"
    using byte_of_inj by (meson inj_mapI inj_on_subset top_greatest)
  ultimately have "sorted_lines (map manifest_line es) = sorted_lines (map manifest_line fs)"
    unfolding sorted_lines_def by (rule sort_key_inj_key_eq) simp
  then show "manifest_text es = manifest_text fs" by (simp add: manifest_text_def)
qed

section \<open>Repacking\<close>

text \<open>
  An entry whose name has no backslash, which is a file of its declared size or a directory with a
  slash at its end.
\<close>

definition faithful_entry :: "raw_entry \<Rightarrow> bool" where
  "faithful_entry e \<longleftrightarrow>
     CHR 0x5C \<notin> set (en_name e)
     \<and> (\<exists>d. en_data e = Some d \<and> length d = en_size e)
     \<and> (en_kind e = FileEntry \<or> (en_kind e = DirEntry \<and> ends_with (en_name e) ''/'' \<and> en_size e = 0))"

definition listed :: "raw_entry \<Rightarrow> archive_entry" where
  "listed e = \<lparr>ae_name = en_name e, ae_size = en_size e\<rparr>"

lemma slashed_id: "CHR 0x5C \<notin> set n \<Longrightarrow> slashed n = n"
  by (induction n) (auto simp: slashed_def)

lemma with_slash_id: "ends_with n ''/'' \<Longrightarrow> with_slash n = n"
  by (simp add: with_slash_def)

lemma put_all:
  "res_fold (\<lambda>out e. res_bind (ok_or er e) (\<lambda>e. put_entry w ew out (g e))) acc (map Some es) = Inr out
     \<Longrightarrow> out = acc @ map g es"
proof (induction es arbitrary: acc)
  case (Cons e es)
  from Cons.prems obtain acc' where "put_entry w ew acc (g e) = Inr acc'"
    and rest: "res_fold (\<lambda>out e. res_bind (ok_or er e) (\<lambda>e. put_entry w ew out (g e))) acc' (map Some es)
      = Inr out" by (auto simp: ok_or_def)
  then have "acc' = acc @ [g e]" by (auto simp: put_entry_def)
  with Cons.IH [OF rest] show ?case by simp
qed simp

definition tar_written :: "(string \<Rightarrow> raw_entry) \<Rightarrow> raw_entry \<Rightarrow> raw_entry" where
  "tar_written mkdir e =
     (if en_kind e = DirEntry then mkdir (with_slash (slashed (en_name e)))
      else e\<lparr>en_name := slashed (en_name e)\<rparr>)"

lemma tar_all:
  "res_fold (tar_step w br mk) (acc, n, b) (map Some es) = Inr (out, n', b')
     \<Longrightarrow> out = acc @ map (tar_written mk) es"
proof (induction es arbitrary: acc n b)
  case (Cons e es)
  then obtain acc' k b1 where "tar_step w br mk (acc, n, b) (Some e) = Inr (acc', k, b1)"
    and rest: "res_fold (tar_step w br mk) (acc', k, b1) (map Some es) = Inr (out, n', b')" by auto
  then have "acc' = acc @ [tar_written mk e]"
    by (auto simp: tar_step_def tar_written_def put_entry_def Let_def split: entry_kind.splits)
  with Cons.IH [OF rest] show ?case by simp
qed simp

text \<open>What the three readers list of entries that can all be read.\<close>

lemma zip_lists:
  "read_zip_entries d (map Some es) = Inr i \<longleftrightarrow>
     zip_limits d (map Some es) = Inr () \<and> (\<forall>e \<in> set es. safe_name (en_name e) = Inr ()) \<and> i = map listed es"
proof -
  have "res_mapM (\<lambda>e. res_bind (ok_or er e) (\<lambda>e. recorded (en_name e) (en_size e))) (map Some es) = Inr i
      \<longleftrightarrow> (\<forall>e \<in> set es. safe_name (en_name e) = Inr ()) \<and> i = map listed es" for er
    by (induction es arbitrary: i) (auto simp: recorded_Inr listed_def)
  then show ?thesis by (simp add: read_zip_entries_def)
qed

lemma targz_lists:
  assumes "\<forall>e \<in> set es. CHR 0x5C \<notin> set (en_name e)"
  shows "read_targz_entries (map Some es) = Inr i \<longleftrightarrow>
     (\<forall>e \<in> set es. safe_name (en_name e) = Inr ()) \<and> i = map listed es
     \<and> enforce_archive_limits (length i) (total_size i) = Inr ()"
proof -
  have "res_mapM (\<lambda>e. res_bind (ok_or er e) (\<lambda>e. recorded (slashed (en_name e)) (en_size e)))
        (map Some es) = Inr i
      \<longleftrightarrow> (\<forall>e \<in> set es. safe_name (en_name e) = Inr ()) \<and> i = map listed es" for er
    using assms by (induction es arbitrary: i) (auto simp: recorded_Inr listed_def slashed_id)
  then show ?thesis by (auto simp: read_targz_entries_def)
qed

definition listed_7z_entry :: "raw_entry \<Rightarrow> archive_entry" where
  "listed_7z_entry e = \<lparr>ae_name = sevenz_name e, ae_size = length (the (en_data e))\<rparr>"

lemma sevenz_lists_run:
  assumes "\<forall>e \<in> set es. safe_name (sevenz_name e) = Inr () \<and> (\<exists>d. en_data e = Some d)"
  shows "each_entry True list_7z_entry \<lparr>sl_entries = acc, sl_rejected = None\<rparr> (map Some es)
    = Inr \<lparr>sl_entries = acc @ map listed_7z_entry es, sl_rejected = None\<rparr>"
  using assms
proof (induction es arbitrary: acc)
  case (Cons e es)
  then obtain d where d: "en_data e = Some d" "safe_name (sevenz_name e) = Inr ()" by auto
  have "list_7z_entry \<lparr>sl_entries = acc, sl_rejected = None\<rparr> (Some e)
      = Inr (\<lparr>sl_entries = acc @ [listed_7z_entry e], sl_rejected = None\<rparr>, True)"
    using d by (simp add: list_7z_entry_def listed_7z_entry_def)
  then show ?case using Cons by simp
qed simp

lemma sevenz_lists:
  assumes "\<forall>run \<in> set runs. \<forall>e \<in> set run. safe_name (sevenz_name e) = Inr () \<and> (\<exists>d. en_data e = Some d)"
  shows "each_run True list_7z_entry \<lparr>sl_entries = acc, sl_rejected = None\<rparr> (map (map Some) runs)
    = Inr \<lparr>sl_entries = acc @ map listed_7z_entry (concat runs), sl_rejected = None\<rparr>"
  using assms by (induction runs arbitrary: acc) (auto simp: sevenz_lists_run)

lemma sevenz_listed_run:
  assumes "each_entry True list_7z_entry s (map Some es) = Inr t" and "sl_rejected t = None"
  shows "sl_rejected s = None \<and> sl_entries t = sl_entries s @ map listed_7z_entry es
    \<and> (\<forall>e \<in> set es. safe_name (sevenz_name e) = Inr ())"
  using assms
proof (induction es arbitrary: s)
  case (Cons e es)
  from Cons.prems(1) obtain s' a where step: "list_7z_entry s (Some e) = Inr (s', a)"
    and rest: "if a then each_entry True list_7z_entry s' (map Some es) = Inr t else t = s'"
    by (auto split: if_splits)
  from step have a: "a = (sl_rejected s' = None)" by (auto simp: list_7z_entry_def Let_def)
  with rest Cons.prems(2) have "each_entry True list_7z_entry s' (map Some es) = Inr t" by (auto split: if_splits)
  from Cons.IH [OF this Cons.prems(2)] step show ?case
    by (auto simp: list_7z_entry_def listed_7z_entry_def Let_def split: option.splits sum.splits)
qed simp

lemma sevenz_listed:
  assumes "each_run True list_7z_entry s (map (map Some) runs) = Inr t" and "sl_rejected t = None"
  shows "sl_rejected s = None \<and> sl_entries t = sl_entries s @ map listed_7z_entry (concat runs)
    \<and> (\<forall>e \<in> set (concat runs). safe_name (sevenz_name e) = Inr ())"
  using assms
proof (induction runs arbitrary: s)
  case (Cons run runs)
  then obtain s' where s': "each_entry True list_7z_entry s (map Some run) = Inr s'"
    "each_run True list_7z_entry s' (map (map Some) runs) = Inr t" by auto
  from Cons.IH [OF s'(2) Cons.prems(2)] sevenz_listed_run [OF s'(1)] show ?case by auto
qed simp

lemma sevenz_reads:
  assumes "\<forall>e \<in> set (concat runs). \<exists>d. en_data e = Some d"
  shows "read_7z_entries True (map (map Some) runs) = Inr i \<longleftrightarrow>
     (\<forall>e \<in> set (concat runs). safe_name (sevenz_name e) = Inr ()) \<and> i = map listed_7z_entry (concat runs)
     \<and> enforce_archive_limits (length i) (total_size i) = Inr ()"
proof
  assume "read_7z_entries True (map (map Some) runs) = Inr i"
  then obtain t where t: "each_run True list_7z_entry \<lparr>sl_entries = [], sl_rejected = None\<rparr> (map (map Some) runs) = Inr t"
    "sl_rejected t = None" "i = sl_entries t" "enforce_archive_limits (length i) (total_size i) = Inr ()"
    by (auto simp: read_7z_entries_def split: option.splits)
  with sevenz_listed [OF t(1,2)] show "(\<forall>e \<in> set (concat runs). safe_name (sevenz_name e) = Inr ())
     \<and> i = map listed_7z_entry (concat runs) \<and> enforce_archive_limits (length i) (total_size i) = Inr ()" by simp
next
  assume "(\<forall>e \<in> set (concat runs). safe_name (sevenz_name e) = Inr ()) \<and> i = map listed_7z_entry (concat runs)
     \<and> enforce_archive_limits (length i) (total_size i) = Inr ()"
  then show "read_7z_entries True (map (map Some) runs) = Inr i"
    using sevenz_lists [of runs "[]"] assms by (auto simp: read_7z_entries_def)
qed

text \<open>What the closures of the two routes from a 7z have written when they report no failure.\<close>

definition written_7z :: "raw_entry \<Rightarrow> raw_entry" where
  "written_7z e =
     (if en_kind e = DirEntry then dir_entry (with_slash (slashed (en_name e)))
      else e\<lparr>en_name := slashed (en_name e), en_kind := FileEntry\<rparr>)"

lemma tar_7z_run:
  assumes "each_entry True (tar_7z_entry w) (acc, failure) (map Some es) = Inr (out, None)"
    and "\<forall>e \<in> set es. \<exists>d. en_data e = Some d"
  shows "failure = None \<and> out = acc @ map written_7z es"
  using assms
proof (induction es arbitrary: acc failure)
  case (Cons e es)
  then obtain d where d: "en_data e = Some d" by auto
  show ?case
  proof (cases failure)
    case (Some x)
    have "tar_7z_entry w (acc, Some x) (Some e) = Inr ((acc, Some x), True)" by (simp add: tar_7z_entry_def)
    then have "each_entry True (tar_7z_entry w) (acc, Some x) (map Some es) = Inr (out, None)"
      using Cons.prems(1) Some by simp
    with Cons.IH Cons.prems(2) show ?thesis by fastforce
  next
    case None
    show ?thesis
    proof (cases "put_entry w append_tar_error acc (written_7z e)")
      case (Inl err)
      then have "tar_7z_entry w (acc, None) (Some e) = Inr ((acc, Some err), True)"
        using d by (simp add: tar_7z_entry_def written_7z_def Let_def split: if_splits)
      then have "each_entry True (tar_7z_entry w) (acc, Some err) (map Some es) = Inr (out, None)"
        using Cons.prems(1) None by simp
      with Cons.IH Cons.prems(2) show ?thesis by fastforce
    next
      case (Inr acc')
      then have "tar_7z_entry w (acc, None) (Some e) = Inr ((acc', None), True)"
        using d by (simp add: tar_7z_entry_def written_7z_def Let_def split: if_splits)
      then have "each_entry True (tar_7z_entry w) (acc', None) (map Some es) = Inr (out, None)"
        using Cons.prems(1) None by simp
      moreover have "acc' = acc @ [written_7z e]" using Inr by (auto simp: put_entry_def)
      ultimately show ?thesis using Cons.IH [of acc' None] Cons.prems(2) None by auto
    qed
  qed
qed simp

lemma tar_7z_runs:
  assumes "each_run True (tar_7z_entry w) (acc, failure) (map (map Some) runs) = Inr (out, None)"
    and "\<forall>e \<in> set (concat runs). \<exists>d. en_data e = Some d"
  shows "failure = None \<and> out = acc @ map written_7z (concat runs)"
  using assms
proof (induction runs arbitrary: acc failure)
  case (Cons run runs)
  then obtain acc' f' where r: "each_entry True (tar_7z_entry w) (acc, failure) (map Some run) = Inr (acc', f')"
    "each_run True (tar_7z_entry w) (acc', f') (map (map Some) runs) = Inr (out, None)" by auto
  from Cons.IH [OF r(2)] Cons.prems(2) have "f' = None \<and> out = acc' @ map written_7z (concat runs)" by auto
  with tar_7z_run [of w acc failure run acc'] r(1) Cons.prems(2) show ?case by auto
qed simp

lemma zip_7z_failed:
  "each_entry True (zip_7z_entry w) s (map Some es) = Inr t \<Longrightarrow> sz_failure s \<noteq> None \<Longrightarrow> sz_failure t \<noteq> None"
  by (induction es) (auto simp: zip_7z_entry_def)

text \<open>The closure of the route to ZIP stops the run at the first entry it has written.\<close>

lemma zip_7z_step:
  assumes "zip_7z_entry w s (Some e) = Inr (s', a)" and "sz_failure s = None"
  shows "(if a then sz_failure s' \<noteq> None else sz_failure s' = None \<and> sz_out s' = sz_out s @ [written_7z e])"
  using assms
  by (auto simp: zip_7z_entry_def Let_def fail_zip_def put_entry_def written_7z_def ensure_def
      split: sum.splits if_splits)

lemma zip_7z_run:
  assumes "each_entry True (zip_7z_entry w) s (map Some es) = Inr t" and "sz_failure t = None"
  shows "sz_failure s = None \<and> sz_out t = sz_out s @ map written_7z (take 1 es)"
proof (cases es)
  case (Cons e rest)
  have s: "sz_failure s = None" using zip_7z_failed [OF assms(1)] assms(2) by blast
  from assms(1) Cons obtain s' a where step: "zip_7z_entry w s (Some e) = Inr (s', a)"
    and tail: "if a then each_entry True (zip_7z_entry w) s' (map Some rest) = Inr t else t = s'"
    by (auto split: if_splits)
  have "\<not> a" using zip_7z_step [OF step s] tail zip_7z_failed [of w s' rest t] assms(2) by (auto split: if_splits)
  with zip_7z_step [OF step s] tail s Cons show ?thesis by simp
qed (use assms in simp)

lemma zip_7z_runs:
  assumes "each_run True (zip_7z_entry w) s (map (map Some) runs) = Inr t" and "sz_failure t = None"
  shows "sz_failure s = None \<and> sz_out t = sz_out s @ map written_7z (concat (map (take 1) runs))"
  using assms
proof (induction runs arbitrary: s)
  case (Cons run runs)
  then obtain s' where r: "each_entry True (zip_7z_entry w) s (map Some run) = Inr s'"
    "each_run True (zip_7z_entry w) s' (map (map Some) runs) = Inr t" by auto
  from Cons.IH [OF r(2) Cons.prems(2)] zip_7z_run [OF r(1)] show ?case by auto
qed simp

text \<open>
  What is relied on of the crates: their reader finds in a finished container what was written, in
  whatever order and, of a 7z, in whatever runs; and the expanded size of a ZIP is that of its entries.
\<close>

definition faithful_writer :: "('c \<Rightarrow> container) \<Rightarrow> 'c archive_writer \<Rightarrow> bool" where
  "faithful_writer entries w \<longleftrightarrow>
     (\<forall>es. wr_finishes w es \<longrightarrow> mset (entries (wr_reads w es)) = mset (map Some es))"

definition declared_bytes :: "container \<Rightarrow> nat" where
  "declared_bytes c = sum_list (map (\<lambda>e. case e of None \<Rightarrow> 0 | Some e \<Rightarrow> en_size e) c)"

definition zip_inventory :: "container \<Rightarrow> anole_error + archive_entry list" where
  "zip_inventory c = read_zip_entries (Some (declared_bytes c)) c"

definition same_inventory :: "archive_entry list \<Rightarrow> anole_error + archive_entry list \<Rightarrow> bool" where
  "same_inventory i r \<longleftrightarrow> (\<exists>i'. r = Inr i' \<and> mset i' = mset i)"

lemma written_back:
  assumes "faithful_writer f w" and "finish_archive w es = Inr out"
  shows "\<exists>es'. f out = map Some es' \<and> mset es' = mset es"
proof -
  have m: "mset (f out) = mset (map Some es)"
    using assms by (auto simp: faithful_writer_def finish_archive_def)
  then have "set (f out) = Some ` set es" by (metis list.set_map mset_eq_setD)
  then have all: "f out = map Some (map the (f out))" unfolding map_map by (intro map_idI [symmetric]) auto
  then have "image_mset Some (mset (map the (f out))) = image_mset Some (mset es)" using m by (metis mset_map)
  then have "mset (map the (f out)) = mset es"
    using multiset.inj_map [of Some] by (metis inj_Some injD)
  with all show ?thesis by blast
qed

lemma concat_some:
  assumes "concat runs = map Some es"
  shows "\<exists>cs. runs = map (map Some) cs \<and> concat cs = es"
proof -
  have "\<forall>run \<in> set runs. map Some (map the run) = run"
  proof
    fix run assume "run \<in> set runs"
    then have "set run \<subseteq> Some ` set es" using assms by (metis UN_upper list.set_map set_concat)
    then show "map Some (map the run) = run" unfolding map_map by (intro map_idI) auto
  qed
  then have "runs = map (map Some) (map (map the) runs)" by (simp add: map_idI)
  moreover from this assms have "map Some (concat (map (map the) runs)) = map Some es"
    by (metis map_concat)
  then have "concat (map (map the) runs) = es" by (simp add: inj_map_eq_map)
  ultimately show ?thesis by blast
qed

lemma total_size_mset: "mset i' = mset i \<Longrightarrow> total_size i' = total_size i \<and> length i' = length i"
  by (metis total_size_eq mset_map sum_mset_sum_list size_mset)

lemma declared_some: "declared_bytes (map Some es) = sum_list (map en_size es)"
  by (simp add: declared_bytes_def comp_def)

lemma zip_inventory_Inr:
  "zip_inventory (map Some es) = Inr i \<longleftrightarrow>
     length es \<le> max_archive_entries \<and> sum_list (map en_size es) \<le> max_archive_total_bytes
     \<and> (\<forall>e \<in> set es. safe_name (en_name e) = Inr ()) \<and> i = map listed es"
  by (auto simp: zip_inventory_def zip_lists zip_limits_def limits_Inr declared_some)

lemma limits_listed:
  "enforce_archive_limits (length i) (total_size i) = Inr () \<longleftrightarrow>
     length i \<le> max_archive_entries \<and> sum_list (map ae_size i) \<le> max_archive_total_bytes"
  by (auto simp: limits_Inr total_size_eq max_archive_total_bytes_def u64_max_def)

lemma listed_sizes: "sum_list (map ae_size (map listed es)) = sum_list (map en_size es)"
  by (simp add: listed_def comp_def)

text \<open>A container whose entries are those written, in any order, is read back as that inventory.\<close>

lemma read_back_zip:
  assumes "mset es' = mset es" and "\<forall>e \<in> set es. safe_name (en_name e) = Inr ()"
    and "length es \<le> max_archive_entries" "sum_list (map en_size es) \<le> max_archive_total_bytes"
  shows "same_inventory (map listed es) (zip_inventory (map Some es'))"
proof -
  have "zip_inventory (map Some es') = Inr (map listed es')"
    using assms mset_eq_setD [OF assms(1)] mset_eq_length [OF assms(1)]
    by (simp add: zip_inventory_Inr) (metis mset_map sum_mset_sum_list)
  then show ?thesis using assms(1) by (simp add: same_inventory_def)
qed

lemma read_back_targz:
  assumes "mset es' = mset es" and "\<forall>e \<in> set es. safe_name (en_name e) = Inr () \<and> CHR 0x5C \<notin> set (en_name e)"
    and "length es \<le> max_archive_entries" "sum_list (map en_size es) \<le> max_archive_total_bytes"
  shows "same_inventory (map listed es) (read_targz_entries (map Some es'))"
proof -
  have "enforce_archive_limits (length (map listed es')) (total_size (map listed es')) = Inr ()"
    using assms(1,3,4) mset_eq_length [OF assms(1)] unfolding limits_listed listed_sizes
    by simp (metis mset_map sum_mset_sum_list)
  then have "read_targz_entries (map Some es') = Inr (map listed es')"
    using assms(2) mset_eq_setD [OF assms(1)] by (subst targz_lists) auto
  then show ?thesis using assms(1) by (simp add: same_inventory_def)
qed

lemma read_back_7z:
  assumes "concat runs = map Some es'" "mset es' = mset es"
    and "\<forall>e \<in> set es. safe_name (sevenz_name e) = Inr () \<and> (\<exists>d. en_data e = Some d)"
    and "length es \<le> max_archive_entries" "sum_list (map (\<lambda>e. length (the (en_data e))) es) \<le> max_archive_total_bytes"
  shows "same_inventory (map listed_7z_entry es) (read_7z_entries True runs)"
proof -
  obtain cs where cs: "runs = map (map Some) cs" "concat cs = es'" using concat_some [OF assms(1)] by blast
  have "enforce_archive_limits (length (map listed_7z_entry es')) (total_size (map listed_7z_entry es')) = Inr ()"
    using assms(2,4,5) mset_eq_length [OF assms(2)] unfolding limits_listed
    by (simp add: listed_7z_entry_def comp_def) (metis mset_map sum_mset_sum_list)
  then have "read_7z_entries True runs = Inr (map listed_7z_entry es')"
    using assms(3) mset_eq_setD [OF assms(2)] cs by (simp add: sevenz_reads)
  then show ?thesis using assms(2) by (simp add: same_inventory_def)
qed

section \<open>The six routes\<close>

lemma faithful_simps:
  assumes "faithful_entry e"
  shows "slashed (en_name e) = en_name e" "CHR 0x5C \<notin> set (en_name e)" "\<exists>d. en_data e = Some d"
    "length (the (en_data e)) = en_size e"
    "en_kind e = DirEntry \<Longrightarrow> with_slash (en_name e) = en_name e \<and> en_size e = 0"
    "en_kind e \<noteq> DirEntry \<Longrightarrow> en_kind e = FileEntry"
  using assms by (auto simp: faithful_entry_def slashed_id with_slash_id)

definition zip_written :: "(string \<Rightarrow> raw_entry) \<Rightarrow> raw_entry \<Rightarrow> raw_entry" where
  "zip_written mkdir e = (if en_kind e = DirEntry then mkdir (en_name e) else e\<lparr>en_kind := FileEntry\<rparr>)"

lemma zip_to_targz_keeps:
  assumes es: "\<forall>e \<in> set es. faithful_entry e" and i: "zip_inventory (map Some es) = Inr i"
    and w: "faithful_writer id w" and out: "repack_zip_to_targz w d (map Some es) = Inr out"
  shows "same_inventory i (read_targz_entries out)"
proof -
  let ?g = "zip_written (\<lambda>n. dir_entry (with_slash n))"
  have fin: "finish_archive w (map ?g es) = Inr out"
    using out by (auto simp: repack_zip_to_targz_def zip_written_def [abs_def] dest!: put_all)
  obtain es' where es': "out = map Some es'" "mset es' = mset (map ?g es)" using written_back [OF w fin] by auto
  have same: "listed (?g e) = listed e" "en_name (?g e) = en_name e" if "e \<in> set es" for e
    using faithful_simps [of e] es that by (auto simp: listed_def dir_entry_def zip_written_def)
  note z = i [unfolded zip_inventory_Inr]
  have "same_inventory (map listed (map ?g es)) (read_targz_entries (map Some es'))"
  proof (rule read_back_targz [OF es'(2)])
    show "\<forall>e \<in> set (map ?g es). safe_name (en_name e) = Inr () \<and> CHR 0x5C \<notin> set (en_name e)"
      using z same(2) es faithful_simps(2) by fastforce
    have "sum_list (map ae_size (map listed (map ?g es))) = sum_list (map ae_size (map listed es))"
      using same(1) by (simp add: comp_def cong: map_cong)
    then show "sum_list (map en_size (map ?g es)) \<le> max_archive_total_bytes" using z unfolding listed_sizes by simp
  qed (use z in simp)
  then show ?thesis using z same(1) es'(1) by (simp add: comp_def cong: map_cong)
qed

lemma zip_to_7z_keeps:
  assumes es: "\<forall>e \<in> set es. faithful_entry e" and i: "zip_inventory (map Some es) = Inr i"
    and w: "faithful_writer concat w" and out: "repack_zip_to_7z w d (map Some es) = Inr out"
  shows "same_inventory i (read_7z_entries True out)"
proof -
  let ?g = "zip_written empty_entry"
  have fin: "finish_archive w (map ?g es) = Inr out"
    using out by (auto simp: repack_zip_to_7z_def zip_written_def [abs_def] dest!: put_all)
  obtain es' where es': "concat out = map Some es'" "mset es' = mset (map ?g es)" using written_back [OF w fin] by auto
  have same: "listed_7z_entry (?g e) = listed e" "sevenz_name (?g e) = en_name e" "\<exists>d. en_data (?g e) = Some d"
    "length (the (en_data (?g e))) = en_size e" if "e \<in> set es" for e
    using faithful_simps [of e] es that by (auto simp: listed_def listed_7z_entry_def sevenz_name_def empty_entry_def zip_written_def)
  note z = i [unfolded zip_inventory_Inr]
  have "same_inventory (map listed_7z_entry (map ?g es)) (read_7z_entries True out)"
    by (rule read_back_7z [OF es']) (use z same in \<open>auto simp: comp_def cong: map_cong\<close>)
  then show ?thesis using z same(1) by (simp add: comp_def cong: map_cong)
qed

lemma targz_to_zip_keeps:
  assumes es: "\<forall>e \<in> set es. faithful_entry e" and i: "read_targz_entries (map Some es) = Inr i"
    and w: "faithful_writer id w" and out: "repack_targz_to_zip w (map Some es) = Inr out"
  shows "same_inventory i (zip_inventory out)"
proof -
  have fin: "finish_archive w (map (tar_written dir_entry) es) = Inr out"
    using out by (auto simp: repack_targz_to_zip_def dest!: tar_all)
  obtain es' where es': "out = map Some es'" "mset es' = mset (map (tar_written dir_entry) es)"
    using written_back [OF w fin] by auto
  have same: "listed (tar_written dir_entry e) = listed e" "en_name (tar_written dir_entry e) = en_name e"
    "en_size (tar_written dir_entry e) = en_size e" if "e \<in> set es" for e
    using faithful_simps [of e] es that by (auto simp: listed_def tar_written_def dir_entry_def)
  have "\<forall>e \<in> set es. CHR 0x5C \<notin> set (en_name e)" using es faithful_simps(2) by blast
  note z = i [unfolded targz_lists [OF this]]
  then have lim: "length es \<le> max_archive_entries" "sum_list (map en_size es) \<le> max_archive_total_bytes"
    unfolding limits_listed using listed_sizes [of es] by auto
  have "same_inventory (map listed (map (tar_written dir_entry) es)) (zip_inventory (map Some es'))"
    by (rule read_back_zip [OF es'(2)]) (use z lim same in \<open>auto simp: comp_def cong: map_cong\<close>)
  then show ?thesis using z same(1) es'(1) by (simp add: comp_def cong: map_cong)
qed

lemma targz_to_7z_keeps:
  assumes es: "\<forall>e \<in> set es. faithful_entry e" and i: "read_targz_entries (map Some es) = Inr i"
    and w: "faithful_writer concat w" and out: "repack_targz_to_7z w (map Some es) = Inr out"
  shows "same_inventory i (read_7z_entries True out)"
proof -
  have fin: "finish_archive w (map (tar_written empty_entry) es) = Inr out"
    using out by (auto simp: repack_targz_to_7z_def dest!: tar_all)
  obtain es' where es': "concat out = map Some es'" "mset es' = mset (map (tar_written empty_entry) es)"
    using written_back [OF w fin] by auto
  have same: "listed_7z_entry (tar_written empty_entry e) = listed e" "sevenz_name (tar_written empty_entry e) = en_name e"
    "\<exists>d. en_data (tar_written empty_entry e) = Some d" "length (the (en_data (tar_written empty_entry e))) = en_size e"
    if "e \<in> set es" for e
    using faithful_simps [of e] es that
    by (auto simp: listed_def listed_7z_entry_def sevenz_name_def tar_written_def empty_entry_def)
  have "\<forall>e \<in> set es. CHR 0x5C \<notin> set (en_name e)" using es faithful_simps(2) by blast
  note z = i [unfolded targz_lists [OF this]]
  then have lim: "length es \<le> max_archive_entries" "sum_list (map en_size es) \<le> max_archive_total_bytes"
    unfolding limits_listed using listed_sizes [of es] by auto
  have "same_inventory (map listed_7z_entry (map (tar_written empty_entry) es)) (read_7z_entries True out)"
    by (rule read_back_7z [OF es']) (use z lim same in \<open>auto simp: comp_def cong: map_cong\<close>)
  then show ?thesis using z same(1) by (simp add: comp_def cong: map_cong)
qed

text \<open>The entries of a 7z: a file of its declared size, or a directory without contents.\<close>

definition streamed_entry :: "raw_entry \<Rightarrow> bool" where
  "streamed_entry e \<longleftrightarrow> (\<exists>d. en_data e = Some d \<and> length d = en_size e) \<and> (en_kind e = DirEntry \<longrightarrow> en_size e = 0)"

lemma written_7z_listed:
  assumes "streamed_entry e"
  shows "listed (written_7z e) = listed_7z_entry e" "en_name (written_7z e) = sevenz_name e"
    "en_size (written_7z e) = ae_size (listed_7z_entry e)"
  using assms by (auto simp: streamed_entry_def listed_def listed_7z_entry_def written_7z_def sevenz_name_def dir_entry_def)

lemma slashed_plain: "CHR 0x5C \<notin> set (sevenz_name e)"
  by (auto simp: sevenz_name_def slashed_def with_slash_def split: if_splits)

lemma sevenz_to_targz_keeps:
  assumes es: "\<forall>e \<in> set (concat runs). streamed_entry e" and i: "read_7z_entries True (map (map Some) runs) = Inr i"
    and w: "faithful_writer id w" and out: "repack_7z_to_targz w True (map (map Some) runs) = Inr out"
  shows "same_inventory i (read_targz_entries out)"
proof -
  let ?es = "concat runs"
  have data: "\<forall>e \<in> set ?es. \<exists>d. en_data e = Some d" using es by (auto simp: streamed_entry_def)
  note z = i [unfolded sevenz_reads [OF data]]
  from out have fin: "finish_archive w (map written_7z ?es) = Inr out"
    using tar_7z_runs [of w "[]" None runs] data
    by (auto simp: repack_7z_to_targz_def split: option.splits)
  obtain es' where es': "out = map Some es'" "mset es' = mset (map written_7z ?es)" using written_back [OF w fin] by auto
  have same: "listed (written_7z e) = listed_7z_entry e" "en_name (written_7z e) = sevenz_name e"
    "en_size (written_7z e) = ae_size (listed_7z_entry e)" if "e \<in> set ?es" for e
    using written_7z_listed es that by blast+
  have lim: "length ?es \<le> max_archive_entries" "sum_list (map ae_size (map listed_7z_entry ?es)) \<le> max_archive_total_bytes"
    using z unfolding limits_listed by auto
  have "same_inventory (map listed (map written_7z ?es)) (read_targz_entries (map Some es'))"
  proof (rule read_back_targz [OF es'(2)])
    show "\<forall>e \<in> set (map written_7z ?es). safe_name (en_name e) = Inr () \<and> CHR 0x5C \<notin> set (en_name e)"
      using z same(2) slashed_plain by auto
    have "map en_size (map written_7z ?es) = map ae_size (map listed_7z_entry ?es)" using same(3) by simp
    then show "sum_list (map en_size (map written_7z ?es)) \<le> max_archive_total_bytes" using lim(2) by metis
  qed (use lim in simp)
  moreover have "map listed (map written_7z ?es) = i" using z same(1) by simp
  ultimately show ?thesis using es'(1) by simp
qed

lemma firsts_length: "length (concat (map (take 1) runs)) = length (concat runs) \<longleftrightarrow> (\<forall>run \<in> set runs. length run \<le> 1)"
proof -
  have le: "length (concat (map (take 1) rs)) \<le> length (concat rs)" for rs :: "'b list list"
    by (induction rs) (auto simp: min_def)
  show ?thesis
  proof (induction runs)
    case (Cons run runs)
    then show ?case using le [of runs] by (auto simp: min_def)
  qed simp
qed

lemma firsts_all: "\<forall>run \<in> set runs. length run \<le> 1 \<Longrightarrow> concat (map (take 1) runs) = concat runs"
  by (induction runs) auto

lemma firsts_subset: "set (concat (map (take 1) runs)) \<subseteq> set (concat runs)"
  using set_take_subset by fastforce

lemma firsts_sum: "sum_list (map f (concat (map (take 1) runs))) \<le> sum_list (map f (concat runs))" for f :: "'a \<Rightarrow> nat"
proof (induction runs)
  case (Cons run runs)
  have "sum_list (map f (take 1 run)) \<le> sum_list (map f run)" by (cases run) auto
  with Cons show ?case by simp
qed simp

lemma sevenz_to_zip_firsts:
  assumes es: "\<forall>e \<in> set (concat runs). streamed_entry e" and i: "read_7z_entries True (map (map Some) runs) = Inr i"
    and w: "faithful_writer id w" and out: "repack_7z_to_zip w True (map (map Some) runs) = Inr out"
  shows "same_inventory (map listed_7z_entry (concat (map (take 1) runs))) (zip_inventory out)"
    and "same_inventory i (zip_inventory out) \<longleftrightarrow> (\<forall>run \<in> set runs. length run \<le> 1)"
proof -
  let ?es = "concat runs" and ?fs = "concat (map (take 1) runs)"
  have data: "\<forall>e \<in> set ?es. \<exists>d. en_data e = Some d" using es by (auto simp: streamed_entry_def)
  note z = i [unfolded sevenz_reads [OF data]]
  from out have fin: "finish_archive w (map written_7z ?fs) = Inr out"
    using zip_7z_runs [of w "\<lparr>sz_out = [], sz_total = 0, sz_count = 0, sz_failure = None\<rparr>" runs]
    by (auto simp: repack_7z_to_zip_def split: option.splits)
  obtain es' where es': "out = map Some es'" "mset es' = mset (map written_7z ?fs)" using written_back [OF w fin] by auto
  have same: "listed (written_7z e) = listed_7z_entry e" "en_name (written_7z e) = sevenz_name e"
    "en_size (written_7z e) = ae_size (listed_7z_entry e)" "safe_name (sevenz_name e) = Inr ()" if "e \<in> set ?fs" for e
    using written_7z_listed es z firsts_subset [of runs] that by blast+
  have lim: "length ?fs \<le> max_archive_entries" "sum_list (map ae_size (map listed_7z_entry ?fs)) \<le> max_archive_total_bytes"
    using z firsts_sum [of "\<lambda>_. 1" runs] firsts_sum [of "\<lambda>e. ae_size (listed_7z_entry e)" runs]
    unfolding limits_listed by (auto simp: sum_list_triv comp_def)
  have "same_inventory (map listed (map written_7z ?fs)) (zip_inventory (map Some es'))"
  proof (rule read_back_zip [OF es'(2)])
    show "\<forall>e \<in> set (map written_7z ?fs). safe_name (en_name e) = Inr ()" using same by auto
    have "map en_size (map written_7z ?fs) = map ae_size (map listed_7z_entry ?fs)" using same(3) by simp
    then show "sum_list (map en_size (map written_7z ?fs)) \<le> max_archive_total_bytes" using lim(2) by metis
  qed (use lim in simp)
  moreover have "map listed (map written_7z ?fs) = map listed_7z_entry ?fs" using same(1) by simp
  ultimately show one: "same_inventory (map listed_7z_entry ?fs) (zip_inventory out)" unfolding es'(1) by (simp only:)
  show "same_inventory i (zip_inventory out) \<longleftrightarrow> (\<forall>run \<in> set runs. length run \<le> 1)"
  proof
    assume "same_inventory i (zip_inventory out)"
    then have "mset i = mset (map listed_7z_entry ?fs)" using one by (auto simp: same_inventory_def)
    then have "length i = length (map listed_7z_entry ?fs)" by (rule mset_eq_length)
    then show "\<forall>run \<in> set runs. length run \<le> 1" using z firsts_length [of runs] by auto
  next
    assume "\<forall>run \<in> set runs. length run \<le> 1"
    then show "same_inventory i (zip_inventory out)" using one z firsts_all [of runs] by simp
  qed
qed


text \<open>Writers whose containers are read in reverse, of a 7z with a block for each file.\<close>

definition plain_writer :: "container archive_writer" where
  "plain_writer = \<lparr>wr_refuses = \<lambda>_ _. False, wr_finishes = \<lambda>_. True, wr_reads = \<lambda>es. map Some (rev es)\<rparr>"

definition plain_7z_writer :: "sevenz archive_writer" where
  "plain_7z_writer = \<lparr>wr_refuses = \<lambda>_ _. False, wr_finishes = \<lambda>_. True,
     wr_reads = \<lambda>es. map (\<lambda>e. [Some e]) (filter (\<lambda>e. en_size e \<noteq> 0) es) @ [map Some (filter (\<lambda>e. en_size e = 0) es)]\<rparr>"

lemma plain_writers: "faithful_writer id plain_writer" "faithful_writer concat plain_7z_writer"
proof -
  have "mset (concat (wr_reads plain_7z_writer es)) = mset (map Some es)" for es
    by (induction es) (auto simp: plain_7z_writer_def)
  then show "faithful_writer concat plain_7z_writer" by (simp add: faithful_writer_def)
  show "faithful_writer id plain_writer" by (simp add: faithful_writer_def plain_writer_def)
qed

definition file_entry :: "string \<Rightarrow> string \<Rightarrow> raw_entry" where
  "file_entry n d = \<lparr>en_name = n, en_kind = FileEntry, en_size = length d, en_data = Some d\<rparr>"

definition demo_entries :: "raw_entry list" where
  "demo_entries = [dir_entry ''d/'', file_entry ''d/a'' ''x'', file_entry ''b'' ''yz'']"

lemma demo_names:
  "safe_name ''d/'' = Inr ()" "safe_name ''d/a'' = Inr ()" "safe_name ''a'' = Inr ()" "safe_name ''b'' = Inr ()"
  "ends_with ''d/'' ''/''"
  by code_simp+

theorem inventories_are_bounded_witness:
  "read_targz_entries (map Some demo_entries) = Inr (map listed demo_entries) \<and>
   length (map listed demo_entries) \<le> 10000"
proof -
  have r: "read_targz_entries (map Some demo_entries) = Inr (map listed demo_entries)"
    by (subst targz_lists) (auto simp: demo_entries_def dir_entry_def file_entry_def listed_def demo_names
      enforce_archive_limits_def max_archive_entries_def max_archive_total_bytes_def total_size_eq)
  then show ?thesis
    using inventories_are_bounded [of "map listed demo_entries" "map Some demo_entries" True] by simp
qed

theorem manifest_identifies_inventory_witness:
  "manifest_text [\<lparr>ae_name = ''a'', ae_size = 1\<rparr>, \<lparr>ae_name = ''b'', ae_size = 2\<rparr>]
     = manifest_text [\<lparr>ae_name = ''b'', ae_size = 2\<rparr>, \<lparr>ae_name = ''a'', ae_size = 1\<rparr>]"
  by (subst manifest_identifies_inventory) simp_all

text \<open>A solid 7z of two files: what comes out as a ZIP has one; and a ZIP that becomes a tar.\<close>

definition demo_solid :: "raw_entry list list" where
  "demo_solid = [[file_entry ''a'' ''x'', file_entry ''b'' ''yz'']]"


section \<open>What the readers and the checks leave open\<close>

text \<open>
  The closures of the inventory and of the route from 7z to ZIP answer the reader in opposite ways:
  whichever answer lets it go on, one of them sees only the first of two entries of a block.
\<close>

lemma sevenz_closures_disagree:
  assumes "c = [[Some (file_entry ''a'' ''x''), Some (file_entry ''b'' ''yz'')]]"
  shows "map_sum id length (read_7z_entries True c) = Inr 2"
    and "map_sum id length (repack_7z_to_zip plain_writer True c) = Inr 1"
    and "map_sum id length (read_7z_entries False c) = Inr 1"
    and "map_sum id length (repack_7z_to_zip plain_writer False c) = Inr 2"
  unfolding assms
  by (simp_all add: read_7z_entries_def repack_7z_to_zip_def list_7z_entry_def zip_7z_entry_def Let_def
      file_entry_def sevenz_name_def slashed_def demo_names ok_or_def put_entry_def plain_writer_def
      finish_archive_def fail_zip_def ensure_def enforce_archive_limits_def total_size_eq sat_add_def u64_max_def
      max_archive_entries_def max_archive_total_bytes_def)

text \<open>A ZIP whose expanded size the crate does not know is refused, whatever it holds.\<close>

lemma unknown_size_is_refused:
  "\<exists>e. read_zip_entries None c = Inl e \<and> repack_zip_to_targz w None c = Inl e \<and> repack_zip_to_7z w7 None c = Inl e"
proof -
  have "max_archive_total_bytes < u128_max" by (simp add: max_archive_total_bytes_def u128_max_def)
  then have "\<exists>e. zip_limits None c = Inl e"
    by (cases "length c \<le> max_archive_entries") (auto simp: zip_limits_def enforce_archive_limits_def ensure_def)
  then show ?thesis
    by (auto simp: read_zip_entries_def repack_zip_to_targz_def repack_zip_to_7z_def)
qed

text \<open>
  The target check compares with the input: an output in any third container with the same inventory
  is accepted.
\<close>

lemma third_container_is_accepted:
  assumes "format_id (format output) \<noteq> format_id (format input)"
    and "stream_property output = stream_property input"
    and "as_u64 (stream_property input ''entry_count'') \<noteq> None"
    and "is_json_string (stream_property input ''entry_manifest_digest'')"
  shows "report_status (validate_archive_output fresh input output p job) = Pass"
  using assms by (simp add: validate_archive_output_def adapter_report_def worst_status_def
      archive_check_def check_def pass_or_fail_def worst_def Let_def)

text \<open>
  A repacked archive passes exactly when its container is not the one it came from, the number of
  entries is the same and the digest of the name-and-size manifest is the same; nothing only warns, and
  the contents of the entries are not compared.
\<close>

theorem archive_accepted_iff_inventory_kept:
  "report_status (validate_archive_output fresh input output p job) =
     (if format_id (format output) \<noteq> format_id (format input)
         \<and> as_u64 (stream_property input ''entry_count'') \<noteq> None
         \<and> as_u64 (stream_property input ''entry_count'') = as_u64 (stream_property output ''entry_count'')
         \<and> is_json_string (stream_property input ''entry_manifest_digest'')
         \<and> stream_property input ''entry_manifest_digest'' = stream_property output ''entry_manifest_digest''
      then Pass else Fail)"
  by (simp add: validate_archive_output_def adapter_report_def worst_status_def
      archive_check_def check_def pass_or_fail_def worst_def Let_def) (metis option.distinct(1))

end
