(* ===== verification/Crash_Disk.thy ===== *)
theory Crash_Disk
  imports Queue_Window
begin

text \<open>
  Files that a program changes step by step, with every state that a crash may leave, and the
  steps that keep a property of them all.
\<close>

section \<open>A disk and its past\<close>

record 'f history =
  rd_files :: 'f
  rd_past :: "'f list"

definition put_files :: "'f \<Rightarrow> 'f history \<Rightarrow> 'f history" where
  "put_files f s = s\<lparr>rd_files := f, rd_past := rd_past s @ [rd_files s]\<rparr>"

definition st_ensure :: "bool \<Rightarrow> 'e \<Rightarrow> 's \<Rightarrow> ('e + unit) \<times> 's" where
  "st_ensure b e s = (if b then (Inr (), s) else (Inl e, s))"

definition st_result :: "'e + 'a \<Rightarrow> 's \<Rightarrow> ('e + 'a) \<times> 's" where
  "st_result r s = (r, s)"

text \<open>\<open>let _ =\<close>, and a clean-up before an error is returned.\<close>

definition st_ignore :: "('s \<Rightarrow> ('e + 'a) \<times> 's) \<Rightarrow> 's \<Rightarrow> ('e + unit) \<times> 's" where
  "st_ignore m s = (Inr (), snd (m s))"

definition on_failure :: "('s \<Rightarrow> ('e + 'a) \<times> 's) \<Rightarrow> ('s \<Rightarrow> ('e + 'b) \<times> 's) \<Rightarrow> 's \<Rightarrow> ('e + 'a) \<times> 's" where
  "on_failure m h s = (case m s of (Inl e, s') \<Rightarrow> (Inl e, snd (h s')) | (Inr x, s') \<Rightarrow> (Inr x, s'))"

definition st_files :: "('f \<Rightarrow> 'a) \<Rightarrow> 'f history \<Rightarrow> ('e + 'a) \<times> 'f history" where
  "st_files g s = (Inr (g (rd_files s)), s)"

section \<open>Every state on the way\<close>

definition states_of :: "'f history \<Rightarrow> 'f set" where
  "states_of s = insert (rd_files s) (set (rd_past s))"

lemma states_put [simp]: "states_of (put_files f s) = insert f (states_of s)"
  by (auto simp: states_of_def put_files_def)

lemma files_put [simp]: "rd_files (put_files f s) = f"
  by (simp add: put_files_def)

section \<open>Steps that keep what is stored\<close>

definition keeping ::
    "('f \<Rightarrow> bool) \<Rightarrow> ('f \<Rightarrow> bool) \<Rightarrow> ('f history \<Rightarrow> ('e + 'a) \<times> 'f history) \<Rightarrow> ('a \<Rightarrow> 'f \<Rightarrow> bool)
     \<Rightarrow> bool" where
  "keeping K A m Q \<longleftrightarrow>
     (\<forall>s. (\<forall>c \<in> states_of s. K c) \<and> A (rd_files s) \<longrightarrow>
        (\<forall>c \<in> states_of (snd (m s)). K c) \<and> (\<forall>x. fst (m s) = Inr x \<longrightarrow> Q x (rd_files (snd (m s)))))"

lemma keeping_here:
  "(\<And>s. (\<forall>c \<in> states_of s. K c) \<Longrightarrow> K (rd_files s) \<Longrightarrow> A (rd_files s) \<Longrightarrow>
      (\<forall>c \<in> states_of (snd (m s)). K c) \<and> (\<forall>x. fst (m s) = Inr x \<longrightarrow> Q x (rd_files (snd (m s)))))
    \<Longrightarrow> keeping K A m Q"
  unfolding keeping_def states_of_def by blast

lemma keepingD:
  "keeping K A m Q \<Longrightarrow> \<forall>c \<in> states_of s. K c \<Longrightarrow> A (rd_files s) \<Longrightarrow> m s = (r, s') \<Longrightarrow>
     (\<forall>c \<in> states_of s'. K c) \<and> (\<forall>x. r = Inr x \<longrightarrow> Q x (rd_files s'))"
  unfolding keeping_def by force

lemma keeping_bind:
  assumes "keeping K A m Q" and "\<And>x. keeping K (Q x) (f x) R"
  shows "keeping K A (st_bind m f) R"
proof (rule keeping_here)
  fix s
  assume s: "\<forall>c \<in> states_of s. K c" "A (rd_files s)"
  obtain r s' where m: "m s = (r, s')" by (cases "m s")
  show "(\<forall>c \<in> states_of (snd (st_bind m f s)). K c)
      \<and> (\<forall>x. fst (st_bind m f s) = Inr x \<longrightarrow> R x (rd_files (snd (st_bind m f s))))"
  proof (cases r)
    case (Inl e)
    then show ?thesis using keepingD [OF assms(1) s m] by (simp add: st_bind_def m)
  next
    case (Inr x)
    then have "(\<forall>c \<in> states_of s'. K c)" "Q x (rd_files s')" using keepingD [OF assms(1) s m] by auto
    from keepingD [OF assms(2) this, of "fst (f x s')" "snd (f x s')"] show ?thesis
      using Inr by (simp add: st_bind_def m)
  qed
qed

lemma keeping_pre: "keeping K A m Q \<Longrightarrow> (\<And>f. B f \<Longrightarrow> A f) \<Longrightarrow> keeping K B m Q"
  unfolding keeping_def by blast

lemma keeping_post: "keeping K A m Q \<Longrightarrow> (\<And>x f. Q x f \<Longrightarrow> R x f) \<Longrightarrow> keeping K A m R"
  unfolding keeping_def by blast

lemma keeping_failure:
  assumes "keeping K A m Q" and "keeping K (\<lambda>_. True) h R"
  shows "keeping K A (on_failure m h) Q"
proof (rule keeping_here)
  fix s
  assume s: "\<forall>c \<in> states_of s. K c" "A (rd_files s)"
  obtain r s' where m: "m s = (r, s')" by (cases "m s")
  show "(\<forall>c \<in> states_of (snd (on_failure m h s)). K c)
      \<and> (\<forall>x. fst (on_failure m h s) = Inr x \<longrightarrow> Q x (rd_files (snd (on_failure m h s))))"
    using keepingD [OF assms(1) s m] keepingD [OF assms(2), of s' "fst (h s')" "snd (h s')"]
    by (cases r) (simp_all add: on_failure_def m)
qed

lemma keeping_return [intro]: "keeping K (Q x) (st_return x) Q"
  by (simp add: keeping_def st_return_def)

lemma keeping_ensure [intro]: "keeping K A (st_ensure b e) (\<lambda>_ f. A f \<and> b)"
  by (simp add: keeping_def st_ensure_def)

lemma keeping_result [intro]: "keeping K A (st_result r) (\<lambda>x f. A f \<and> r = Inr x)"
  by (simp add: keeping_def st_result_def)

lemma keeping_files [intro]: "keeping K A (st_files g) (\<lambda>x f. A f \<and> x = g f)"
  by (simp add: keeping_def st_files_def)

lemma keeping_fact: "(P \<Longrightarrow> keeping K A m Q) \<Longrightarrow> keeping K (\<lambda>f. A f \<and> P) m Q"
  unfolding keeping_def by blast

lemma keeping_ignore: "keeping K A m Q \<Longrightarrow> keeping K A (st_ignore m) (\<lambda>_ _. True)"
  unfolding keeping_def st_ignore_def by simp

lemma keeping_if: "(b \<Longrightarrow> keeping K A m Q) \<Longrightarrow> (\<not> b \<Longrightarrow> keeping K A n Q) \<Longrightarrow> keeping K A (if b then m else n) Q"
  by simp

end
