(* ===== verification/Reports.thy ===== *)
theory Reports
  imports Crash_Disk
begin

text \<open>
  \<open>crates/core/src/application/report_service.rs\<close>: the directory of validation reports, the
  protocol that replaces one, and the order of report and terminal state. The directory is a map from
  file names to contents; a run keeps every state it went through, where a crash may leave it.
\<close>

section \<open>The directory\<close>

datatype report_entry = Regular string | NotRegular

type_synonym report_files = "string \<rightharpoonup> report_entry"

type_synonym report_disk = "report_files history"

definition report_is_file :: "report_files \<Rightarrow> string \<Rightarrow> bool" where
  "report_is_file f p = (case f p of Some (Regular _) \<Rightarrow> True | _ \<Rightarrow> False)"

text \<open>
  What the operating system may refuse. A failed or interrupted write leaves what \<open>half_written\<close>
  says, if anything.
\<close>

datatype report_op = CreateDirs | MoveFile string string | WriteNew string string
  | PersistNew string string | DeleteFile string | ReadFile string | ResolveTemp string

record report_os =
  lets_through :: "report_op \<Rightarrow> report_files \<Rightarrow> bool"
  half_written :: "string \<Rightarrow> report_files \<Rightarrow> string option"

definition report_error :: "string \<Rightarrow> anole_error" where
  "report_error m = anole_error_new StorageFailed Validate m"

definition report_io_error :: anole_error where
  "report_io_error = report_error ''Unable to persist or read ValidationReport''"

type_synonym 'a on_disk = "report_disk \<Rightarrow> (anole_error + 'a) \<times> report_disk"

text \<open>\<open>fs::rename\<close> of a file, \<open>remove_file\<close>, and a write through \<open>create_new\<close>.\<close>

definition move_file :: "report_os \<Rightarrow> string \<Rightarrow> string \<Rightarrow> unit on_disk" where
  "move_file W src dst s =
     (let f = rd_files s in
      if f src = None \<or> f dst = Some NotRegular \<or> \<not> lets_through W (MoveFile src dst) f
      then (Inl report_io_error, s)
      else (Inr (), put_files (f(src := None, dst := f src)) s))"

definition delete_file :: "report_os \<Rightarrow> string \<Rightarrow> unit on_disk" where
  "delete_file W p s =
     (let f = rd_files s in
      if \<not> report_is_file f p \<or> \<not> lets_through W (DeleteFile p) f
      then (Inl report_io_error, s) else (Inr (), put_files (f(p := None)) s))"

definition write_new :: "report_os \<Rightarrow> string \<Rightarrow> string \<Rightarrow> unit on_disk" where
  "write_new W p bytes s =
     (let f = rd_files s in
      if f p \<noteq> None then (Inl report_io_error, s)
      else let begun = put_files (f(p := map_option Regular (half_written W p f))) s in
           if lets_through W (WriteNew p bytes) f
           then (Inr (), put_files (f(p \<mapsto> Regular bytes)) begun)
           else (Inl report_io_error, begun))"

text \<open>\<open>TempPath::persist_noclobber\<close>; a temporary path that is dropped is deleted.\<close>

definition persist_new :: "report_os \<Rightarrow> string \<Rightarrow> string \<Rightarrow> unit on_disk" where
  "persist_new W src dst s =
     (let f = rd_files s in
      if f src = None \<or> f dst \<noteq> None \<or> \<not> lets_through W (PersistNew src dst) f
      then (Inl report_io_error, s)
      else (Inr (), put_files (f(src := None, dst := f src)) s))"

section \<open>Names\<close>

definition report_path :: "string \<Rightarrow> uuid \<Rightarrow> string" where
  "report_path dir j = path_join dir (uuid_text j @ ''.json'')"

definition backup_path :: "string \<Rightarrow> uuid \<Rightarrow> string" where
  "backup_path dir j = path_join dir (CHR ''.'' # uuid_text j @ ''.backup'')"

definition partial_path :: "string \<Rightarrow> uuid \<Rightarrow> uuid \<Rightarrow> string" where
  "partial_path dir j fresh = path_join dir (CHR ''.'' # uuid_text j @ CHR ''.'' # uuid_text fresh @ ''.partial'')"

definition max_report_bytes :: nat where
  "max_report_bytes = 16 * 1024 * 1024"

section \<open>Saving and reading\<close>

definition recover_backup :: "report_os \<Rightarrow> string \<Rightarrow> string \<Rightarrow> unit on_disk" where
  "recover_backup W destination backup =
     st_bind (st_files (\<lambda>f. (f destination = None, report_is_file f destination, report_is_file f backup)))
       (\<lambda>(missing, present, kept).
        if missing \<and> kept then move_file W backup destination
        else if present \<and> kept then delete_file W backup
        else st_return ())"

definition persist_partial_noclobber :: "report_os \<Rightarrow> string \<Rightarrow> string \<Rightarrow> string \<Rightarrow> unit on_disk" where
  "persist_partial_noclobber W partial destination backup =
     st_bind (st_files (lets_through W (ResolveTemp partial))) (\<lambda>resolved.
     st_bind (st_ensure resolved report_io_error) (\<lambda>_.
     on_failure (persist_new W partial destination)
       (st_bind (st_files (\<lambda>f. report_is_file f backup \<and> f destination = None)) (\<lambda>restore.
        st_bind (st_ignore (if restore then move_file W backup destination else st_return ())) (\<lambda>_.
        delete_file W partial)))))"

definition save_report ::
    "report_os \<Rightarrow> (validation_report \<Rightarrow> string option) \<Rightarrow> string \<Rightarrow> uuid \<Rightarrow> uuid \<Rightarrow> validation_report
     \<Rightarrow> string on_disk" where
  "save_report W encode dir fresh j report =
     (let destination = report_path dir j; backup = backup_path dir j; partial = partial_path dir j fresh in
      st_bind (st_ensure (report_job_id report = j)
        (report_error ''ValidationReport job ID does not match its destination'')) (\<lambda>_.
      st_bind (st_files (lets_through W CreateDirs)) (\<lambda>created.
      st_bind (st_ensure created report_io_error) (\<lambda>_.
      st_bind (recover_backup W destination backup) (\<lambda>_.
      st_bind (st_result (ok_or (report_error ''Unable to serialize ValidationReport'') (encode report))) (\<lambda>bytes.
      st_bind (st_ensure (length bytes \<le> max_report_bytes)
        (report_error ''ValidationReport exceeds the 16 MiB persistence limit'')) (\<lambda>_.
      st_bind (on_failure (write_new W partial bytes) (delete_file W partial)) (\<lambda>_.
      st_bind (st_files (\<lambda>f. report_is_file f destination)) (\<lambda>replaces.
      st_bind (if replaces then on_failure (move_file W destination backup) (delete_file W partial)
               else st_return ()) (\<lambda>_.
      st_bind (persist_partial_noclobber W partial destination backup) (\<lambda>_.
      st_bind (st_files (\<lambda>f. report_is_file f backup)) (\<lambda>kept.
      st_bind (if kept then delete_file W backup else st_return ()) (\<lambda>_.
      st_return destination)))))))))))))"

definition read_report ::
    "report_os \<Rightarrow> (string \<Rightarrow> validation_report option) \<Rightarrow> string \<Rightarrow> uuid \<Rightarrow> validation_report option on_disk" where
  "read_report W decode dir j =
     (let destination = report_path dir j; backup = backup_path dir j in
      st_bind (recover_backup W destination backup) (\<lambda>_.
      st_bind (st_files (\<lambda>f. f destination)) (\<lambda>found.
      case found of
        Some (Regular bytes) \<Rightarrow>
          st_bind (st_ensure (length bytes \<le> max_report_bytes)
            (report_error ''Stored ValidationReport exceeds the 16 MiB read limit'')) (\<lambda>_.
          st_bind (st_files (lets_through W (ReadFile destination))) (\<lambda>readable.
          st_bind (st_ensure readable report_io_error) (\<lambda>_.
          st_bind (st_result (ok_or (report_error ''Stored ValidationReport is invalid'') (decode bytes))) (\<lambda>report.
          st_bind (st_ensure (report_job_id report = j)
            (report_error ''Stored ValidationReport belongs to another Job ID'')) (\<lambda>_.
          st_return (Some report))))))
      | _ \<Rightarrow> st_return None)))"

section \<open>Report before terminal state\<close>

record control =
  ct_disk :: report_disk
  ct_db :: db
  ct_updates :: "job_record list"

definition on_reports :: "'a on_disk \<Rightarrow> control \<Rightarrow> (anole_error + 'a) \<times> control" where
  "on_reports m s = (case m (ct_disk s) of (r, k) \<Rightarrow> (r, s\<lparr>ct_disk := k\<rparr>))"

definition on_jobs :: "(db \<Rightarrow> (anole_error + 'a) \<times> db) \<Rightarrow> control \<Rightarrow> (anole_error + 'a) \<times> control" where
  "on_jobs m s = (case m (ct_db s) of (r, d) \<Rightarrow> (r, s\<lparr>ct_db := d\<rparr>))"

definition ask_jobs :: "(db \<Rightarrow> anole_error + 'a) \<Rightarrow> control \<Rightarrow> (anole_error + 'a) \<times> control" where
  "ask_jobs m s = (m (ct_db s), s)"

definition interrupt_after_report_failure ::
    "store_env \<Rightarrow> uuid \<Rightarrow> control \<Rightarrow> (anole_error + unit) \<times> control" where
  "interrupt_after_report_failure E j =
     st_bind (ask_jobs (get_job j)) (\<lambda>found.
     case found of
       Some job \<Rightarrow>
         if rec_state job \<in> {Running, Validating}
         then st_bind (on_jobs (transition E j Interrupted ''REPORT_PERSIST_FAILED'')) (\<lambda>_. st_return ())
         else st_return ()
     | None \<Rightarrow> st_return ())"

definition persist_before_terminal ::
    "report_os \<Rightarrow> (validation_report \<Rightarrow> string option) \<Rightarrow> store_env \<Rightarrow> string \<Rightarrow> uuid \<Rightarrow> uuid \<Rightarrow> validation_report
     \<Rightarrow> string \<Rightarrow> control \<Rightarrow> (anole_error + job_record) \<times> control" where
  "persist_before_terminal W encode E dir fresh j report event_code =
     st_bind (on_failure (on_reports (save_report W encode dir fresh j report))
                (interrupt_after_report_failure E j)) (\<lambda>_.
     on_jobs (transition E j (terminal_for (report_status report)) event_code))"

end
