(* ===== verification/Conversion.thy ===== *)
theory Conversion
  imports Reports
begin

text \<open>
  \<open>crates/core/src/application/conversion_service.rs\<close> with \<open>ensure_plan_approved\<close> of
  \<open>workflow.rs\<close>: the immediate conversion, from the approved plan to the terminal state of its job.
\<close>

definition ensure_plan_approved :: "plan \<Rightarrow> string option \<Rightarrow> anole_error + unit" where
  "ensure_plan_approved p approved =
     res_bind (ok_or (anole_error_new PolicyBlocked Plan_stage
         ''Conversion requires an approved preview Plan'')
       (case approved of None \<Rightarrow> None | Some h \<Rightarrow> if trim h = [] then None else Some h)) (\<lambda>h.
     ensure (h = plan_hash p)
       (anole_error_new InputChanged Plan_stage ''The conversion Plan changed after preview''))"

text \<open>
  The execution of a plan for a job: given what the milestone observer would answer, whether it was
  called and how the run ended (\<open>execute_plan_observed\<close>). The callback for live updates sees the
  records in order.
\<close>

type_synonym execution = "uuid \<Rightarrow> anole_error + unit \<Rightarrow> bool \<times> (anole_error + validation_report)"

definition notify :: "job_record \<Rightarrow> control \<Rightarrow> (anole_error + unit) \<times> control" where
  "notify job s = (Inr (), s\<lparr>ct_updates := ct_updates s @ [job]\<rparr>)"

text \<open>The observer: the move to Validating, and its update.\<close>

definition engine_finished :: "store_env \<Rightarrow> uuid \<Rightarrow> control \<Rightarrow> (anole_error + unit) \<times> control" where
  "engine_finished E j =
     st_bind (on_jobs (transition E j Validating ''ENGINE_FINISHED'')) notify"

text \<open>What follows a run that failed: a job that is still active is cancelled or fails.\<close>

definition stop_active_job ::
    "store_env \<Rightarrow> uuid \<Rightarrow> error_code \<Rightarrow> control \<Rightarrow> (anole_error + unit) \<times> control" where
  "stop_active_job E j c =
     st_bind (ask_jobs (get_job j)) (\<lambda>found.
     case found of
       None \<Rightarrow> st_return ()
     | Some current \<Rightarrow>
         if rec_state current \<notin> {Running, Validating} then st_return ()
         else st_bind (on_jobs (if c = Cancelled_code then transition E j Cancelled ''EXECUTION_CANCELLED''
                                else transition E j Failed ''EXECUTION_STOPPED'')) notify)"

definition execute_observed ::
    "execution \<Rightarrow> store_env \<Rightarrow> uuid \<Rightarrow> control \<Rightarrow> (anole_error + validation_report) \<times> control" where
  "execute_observed run E j s =
     (case engine_finished E j s of
        (answer, after) \<Rightarrow>
          (case run j answer of (called, result) \<Rightarrow> (result, if called then after else s)))"

text \<open>\<open>E\<close> is the store at the five calls; \<open>dir\<close> the report directory and \<open>fresh\<close> the name of its partial file.\<close>

definition run_prepared ::
    "report_os \<Rightarrow> (validation_report \<Rightarrow> string option) \<Rightarrow> (nat \<Rightarrow> store_env) \<Rightarrow> string \<Rightarrow> uuid \<Rightarrow> execution
     \<Rightarrow> probe \<Rightarrow> plan \<Rightarrow> string \<Rightarrow> control \<Rightarrow> (anole_error + job_record \<times> validation_report) \<times> control" where
  "run_prepared W encode E dir fresh run p q approved =
     st_bind (st_result (ensure_plan_approved q (Some approved))) (\<lambda>_.
     st_bind (st_result (ok_or (anole_error_new InputInvalid Plan_stage
         ''Immediate conversion requires a resolved output path'') (output_path q))) (\<lambda>out.
     st_bind (on_jobs (create_job (E 0)
         \<lparr>cr_input_path = canonical_path (artifact p), cr_output_path = out, cr_plan = q\<rparr>)) (\<lambda>created.
     st_bind (on_jobs (transition (E 1) (rec_id created) Running ''ENGINE_STARTED'')) (\<lambda>running.
     st_bind (notify running) (\<lambda>_ s.
     case execute_observed run (E 2) (rec_id running) s of
       (Inr report, s1) \<Rightarrow>
         st_bind (persist_before_terminal W encode (E 3) dir fresh (rec_id running) report
           ''VALIDATION_FINISHED'') (\<lambda>job.
         st_bind (notify job) (\<lambda>_. st_return (job, report))) s1
     | (Inl e, s1) \<Rightarrow> (Inl e, snd (stop_active_job (E 3) (rec_id running) (code e) s1)))))))"

text \<open>\<open>run_approved\<close>: the plan is prepared again and must be the approved one.\<close>

definition run_approved ::
    "report_os \<Rightarrow> (validation_report \<Rightarrow> string option) \<Rightarrow> (nat \<Rightarrow> store_env) \<Rightarrow> string \<Rightarrow> uuid \<Rightarrow> execution
     \<Rightarrow> anole_error + probe \<times> plan \<Rightarrow> string \<Rightarrow> control
     \<Rightarrow> (anole_error + job_record \<times> validation_report) \<times> control" where
  "run_approved W encode E dir fresh run prepared approved =
     st_bind (st_result prepared) (\<lambda>(p, q). run_prepared W encode E dir fresh run p q approved)"

end
