(* ===== verification/Report_Safety.thy ===== *)
theory Report_Safety
  imports Reports Lane_Commit
begin

text \<open>
  The replacement of a report survives a crash after any of its steps; a terminal state is entered
  only behind a stored report.
\<close>

section \<open>What is stored\<close>

text \<open>The contents that a reader finds, once it has recovered the backup.\<close>

definition stored :: "string \<Rightarrow> string \<Rightarrow> report_files \<Rightarrow> string option" where
  "stored d b f =
     (case f d of
        Some (Regular c) \<Rightarrow> Some c
      | Some NotRegular \<Rightarrow> None
      | None \<Rightarrow> (case f b of Some (Regular c) \<Rightarrow> Some c | _ \<Rightarrow> None))"

section \<open>The three names\<close>

lemma join_length:
  "x \<noteq> [] \<Longrightarrow> hd x \<noteq> CHR ''/'' \<Longrightarrow>
     length (path_join dir x) = length (path_join dir ''.'') - 1 + length x"
  by (cases x) (auto simp: path_join_def is_absolute_def starts_with_def)

lemma report_names_apart:
  "report_path dir j \<noteq> backup_path dir j" "partial_path dir j u \<noteq> report_path dir j"
  "partial_path dir j u \<noteq> backup_path dir j"
proof -
  have "length (uuid_text j) = 36" by (rule uuid_text_length)
  then obtain c rest where start: "uuid_text j = c # rest" by (cases "uuid_text j") auto
  with slashless_uuid [of j] have "c \<noteq> CHR ''/''" by (simp add: slashless_def is_slash_def)
  with start have "length (report_path dir j) = length (path_join dir ''.'') - 1 + 41"
    using start uuid_text_length [of j] unfolding report_path_def by (subst join_length) auto
  moreover have "length (backup_path dir j) = length (path_join dir ''.'') - 1 + 44"
    unfolding backup_path_def by (subst join_length) (auto simp: uuid_text_length)
  moreover have "length (partial_path dir j u) = length (path_join dir ''.'') - 1 + 82"
    unfolding partial_path_def by (subst join_length) (auto simp: uuid_text_length)
  ultimately show "report_path dir j \<noteq> backup_path dir j" "partial_path dir j u \<noteq> report_path dir j"
    "partial_path dir j u \<noteq> backup_path dir j" by auto
qed

section \<open>The steps of a save\<close>

text \<open>Three different names, and a set of contents that may be stored.\<close>

definition apart :: "string \<Rightarrow> string \<Rightarrow> string \<Rightarrow> bool" where
  "apart d b p \<longleftrightarrow> d \<noteq> b \<and> p \<noteq> d \<and> p \<noteq> b"

definition holds :: "string \<Rightarrow> string \<Rightarrow> string option set \<Rightarrow> report_files \<Rightarrow> bool" where
  "holds d b S c \<longleftrightarrow> stored d b c \<in> S"

lemma keep_recover:
  assumes "apart d b p"
  shows "keeping (holds d b S) (\<lambda>_. True) (recover_backup W d b) (\<lambda>_ _. True)"
  using assms
  by (intro keeping_here) (auto simp: recover_backup_def st_bind_def st_files_def st_return_def move_file_def
      delete_file_def holds_def stored_def apart_def report_is_file_def Let_def
      split: option.splits report_entry.splits)

lemma stored_update_other: "x \<noteq> d \<Longrightarrow> x \<noteq> b \<Longrightarrow> stored d b (f(x := v)) = stored d b f"
  by (simp add: stored_def split: option.split)

lemma keep_delete_partial:
  assumes "apart d b p"
  shows "keeping (holds d b S) A (delete_file W p) (\<lambda>_ _. True)"
  using assms
  by (intro keeping_here) (auto simp: delete_file_def holds_def stored_update_other apart_def Let_def)

lemma keep_write:
  assumes "apart d b p"
  shows "keeping (holds d b S) A (write_new W p bytes) (\<lambda>_ f. f p = Some (Regular bytes))"
  using assms
  by (intro keeping_here) (auto simp: write_new_def holds_def stored_update_other apart_def Let_def)

lemma keep_set_aside:
  assumes "apart d b p"
  shows "keeping (holds d b S) (\<lambda>f. f p = Some (Regular n) \<and> report_is_file f d) (move_file W d b)
    (\<lambda>_ f. f p = Some (Regular n))"
  using assms
  by (intro keeping_here) (auto simp: move_file_def holds_def stored_def apart_def report_is_file_def Let_def
      split: option.splits report_entry.splits)

lemma keep_restore:
  assumes "apart d b p"
  shows "keeping (holds d b S) (\<lambda>f. report_is_file f b \<and> f d = None) (move_file W b d) (\<lambda>_ _. True)"
  using assms
  by (intro keeping_here) (auto simp: move_file_def holds_def stored_def apart_def report_is_file_def Let_def
      split: option.splits report_entry.splits)

lemma keep_persist:
  assumes "apart d b p" and "Some n \<in> S"
  shows "keeping (holds d b S) (\<lambda>f. f p = Some (Regular n)) (persist_new W p d) (\<lambda>_ f. f d = Some (Regular n))"
  using assms
  by (intro keeping_here) (auto simp: persist_new_def holds_def stored_def apart_def Let_def)

lemma keep_drop_backup:
  assumes "apart d b p"
  shows "keeping (holds d b S) (\<lambda>f. f d = Some (Regular n)) (delete_file W b) (\<lambda>_ f. f d = Some (Regular n))"
  using assms
  by (intro keeping_here) (auto simp: delete_file_def holds_def stored_def apart_def Let_def)

lemma keep_noclobber:
  assumes "apart d b p" and "Some n \<in> S"
  shows "keeping (holds d b S) (\<lambda>f. f p = Some (Regular n)) (persist_partial_noclobber W p d b)
    (\<lambda>_ f. f d = Some (Regular n))"
  unfolding persist_partial_noclobber_def
proof (rule keeping_bind, rule keeping_files, rule keeping_bind, rule keeping_ensure)
  fix resolved u
  have restore: "keeping (holds d b S) (\<lambda>_. True)
      (st_bind (st_files (\<lambda>f. report_is_file f b \<and> f d = None)) (\<lambda>restore.
        st_bind (st_ignore (if restore then move_file W b d else st_return ())) (\<lambda>_. delete_file W p)))
      (\<lambda>_ _. True)"
  proof (rule keeping_bind, rule keeping_files, rule keeping_bind)
    fix restore
    show "keeping (holds d b S) (\<lambda>f. True \<and> restore = (report_is_file f b \<and> f d = None))
        (st_ignore (if restore then move_file W b d else st_return ())) (\<lambda>_ _. True)"
      apply (rule keeping_ignore [where Q = "\<lambda>_ _. True"], rule keeping_if)
       apply (rule keeping_pre [OF keep_restore [OF assms(1)]], simp)
      by (simp add: keeping_def st_return_def)
  qed (rule keep_delete_partial [OF assms(1)])
  show "keeping (holds d b S) (\<lambda>f. (f p = Some (Regular n) \<and> resolved = lets_through W (ResolveTemp p) f) \<and> resolved)
      (on_failure (persist_new W p d)
        (st_bind (st_files (\<lambda>f. report_is_file f b \<and> f d = None)) (\<lambda>restore.
          st_bind (st_ignore (if restore then move_file W b d else st_return ())) (\<lambda>_. delete_file W p))))
      (\<lambda>_ f. f d = Some (Regular n))"
    by (rule keeping_failure [OF keeping_pre [OF keep_persist [OF assms]] restore]) simp
qed

text \<open>The contents that a save may leave: what was stored, or the report it was given.\<close>

definition outcomes ::
    "(validation_report \<Rightarrow> string option) \<Rightarrow> uuid \<Rightarrow> validation_report \<Rightarrow> string option \<Rightarrow> string option set" where
  "outcomes encode j report old =
     insert old {Some n | n. report_job_id report = j \<and> encode report = Some n \<and> length n \<le> max_report_bytes}"

lemma save_keeps:
  assumes "S = outcomes encode j report old"
  shows "keeping (holds (report_path dir j) (backup_path dir j) S) (\<lambda>_. True)
    (save_report W encode dir fresh j report)
    (\<lambda>_ f. \<exists>n. report_job_id report = j \<and> encode report = Some n \<and> length n \<le> max_report_bytes
        \<and> f (report_path dir j) = Some (Regular n))"
proof -
  let ?d = "report_path dir j" and ?b = "backup_path dir j" and ?p = "partial_path dir j fresh"
  have apart: "apart ?d ?b ?p" using report_names_apart [of dir j] by (simp add: apart_def)
  show ?thesis
    unfolding save_report_def Let_def
    apply (rule keeping_bind [OF keeping_ensure], rule keeping_fact)
    apply (rule keeping_bind [OF keeping_files], rule keeping_bind [OF keeping_ensure])
    apply (rule keeping_bind [OF keeping_pre [OF keep_recover [OF apart]]], simp)
    apply (rule keeping_bind [OF keeping_result], rule keeping_fact)
    apply (rule keeping_bind [OF keeping_ensure], rule keeping_fact)
    apply (rule keeping_bind [OF keeping_failure [OF keep_write [OF apart] keep_delete_partial [OF apart]]])
    subgoal premises facts for _ _ _ _ n
    proof -
      have n: "report_job_id report = j" "encode report = Some n" "length n \<le> max_report_bytes"
        using facts by (auto simp: ok_or_def split: option.splits)
      then have S: "Some n \<in> S" by (simp add: assms outcomes_def)
      show ?thesis
        apply (rule keeping_bind [OF keeping_files])
        apply (rule keeping_bind [where Q = "\<lambda>_ f. f ?p = Some (Regular n)"])
         apply (rule keeping_if)
          apply (rule keeping_failure [OF keeping_pre [OF keep_set_aside [OF apart]] keep_delete_partial [OF apart]])
          apply simp
         apply (simp add: keeping_def st_return_def)
        apply (rule keeping_bind [OF keep_noclobber [OF apart S]])
        apply (rule keeping_bind [OF keeping_files])
        apply (rule keeping_bind [where Q = "\<lambda>_ f. f ?d = Some (Regular n)"])
         apply (rule keeping_if)
          apply (rule keeping_pre [OF keep_drop_backup [OF apart]], simp)
         apply (simp add: keeping_def st_return_def)
        using n by (simp add: keeping_def st_return_def)
    qed
    done
qed

section \<open>Reading what is stored\<close>

definition all_through :: "report_os \<Rightarrow> bool" where
  "all_through W \<longleftrightarrow> (\<forall>a f. lets_through W a f)"

definition decoded ::
    "(string \<Rightarrow> validation_report option) \<Rightarrow> uuid \<Rightarrow> string option
     \<Rightarrow> anole_error + validation_report option" where
  "decoded decode j content =
     (case content of
        None \<Rightarrow> Inr None
      | Some c \<Rightarrow>
          res_bind (ensure (length c \<le> max_report_bytes)
            (report_error ''Stored ValidationReport exceeds the 16 MiB read limit'')) (\<lambda>_.
          res_bind (ok_or (report_error ''Stored ValidationReport is invalid'') (decode c)) (\<lambda>report.
          res_bind (ensure (report_job_id report = j)
            (report_error ''Stored ValidationReport belongs to another Job ID'')) (\<lambda>_. Inr (Some report)))))"

definition disk_of :: "report_files \<Rightarrow> report_disk" where
  "disk_of f = \<lparr>rd_files = f, rd_past = []\<rparr>"

lemma recover_finds:
  assumes "all_through W" and "apart d b p"
  shows "\<exists>s'. recover_backup W d b s = (Inr (), s')
    \<and> (case rd_files s' d of Some (Regular c) \<Rightarrow> Some c | _ \<Rightarrow> None) = stored d b (rd_files s)"
  using assms
  by (auto simp: recover_backup_def st_bind_def st_files_def st_return_def move_file_def delete_file_def
      stored_def all_through_def apart_def report_is_file_def Let_def put_files_def
      split: option.splits report_entry.splits)

lemma read_reads:
  assumes "all_through W"
  shows "fst (read_report W decode dir j s)
    = decoded decode j (stored (report_path dir j) (backup_path dir j) (rd_files s))"
proof -
  have "apart (report_path dir j) (backup_path dir j) (partial_path dir j j)"
    using report_names_apart [of dir j] by (simp add: apart_def)
  from recover_finds [OF assms this, of s] obtain s' where
    "recover_backup W (report_path dir j) (backup_path dir j) s = (Inr (), s')"
    and found: "(case rd_files s' (report_path dir j) of Some (Regular c) \<Rightarrow> Some c | _ \<Rightarrow> None)
      = stored (report_path dir j) (backup_path dir j) (rd_files s)" by blast
  then show ?thesis
    using assms unfolding found [symmetric]
    by (auto simp: read_report_def decoded_def st_bind_def st_files_def st_return_def st_ensure_def
        st_result_def ensure_def ok_or_def all_through_def Let_def
        split: option.splits report_entry.splits)
qed

text \<open>
  C27: Replacing a report survives a crash: in every state that a save goes through, whatever the
  operating system refuses, a later reader finds the report that was stored before or the new one; and
  after a save that succeeded it finds the new one.
\<close>

theorem interrupted_save_keeps_a_report:
  assumes codec: "\<forall>c. encode report = Some c \<longrightarrow> decode c = Some report"
    and reader: "all_through W'"
    and run: "save_report W encode dir fresh j report (disk_of f) = (result, s')"
  shows "(\<forall>c \<in> states_of s'.
      fst (read_report W' decode dir j (disk_of c)) \<in> {fst (read_report W' decode dir j (disk_of f)), Inr (Some report)})
    \<and> (\<forall>path. result = Inr path \<longrightarrow>
      fst (read_report W' decode dir j (disk_of (rd_files s'))) = Inr (Some report))"
proof -
  let ?d = "report_path dir j" and ?b = "backup_path dir j"
  let ?S = "outcomes encode j report (stored ?d ?b f)"
  have start: "\<forall>c \<in> states_of (disk_of f). holds ?d ?b ?S c"
    by (simp add: states_of_def disk_of_def holds_def outcomes_def)
  note kept = keepingD [OF save_keeps [OF refl] start TrueI run]
  have new: "decoded decode j (Some n) = Inr (Some report)"
    if "report_job_id report = j" "encode report = Some n" "length n \<le> max_report_bytes" for n
    using that codec by (simp add: decoded_def ensure_def ok_or_def)
  have files [simp]: "rd_files (disk_of c) = c" for c by (simp add: disk_of_def)
  show ?thesis
  proof (intro conjI ballI allI impI)
    fix c assume "c \<in> states_of s'"
    then have "stored ?d ?b c \<in> ?S" using kept by (auto simp: holds_def)
    then show "fst (read_report W' decode dir j (disk_of c))
        \<in> {fst (read_report W' decode dir j (disk_of f)), Inr (Some report)}"
      using new by (auto simp: read_reads [OF reader] outcomes_def)
  next
    fix path assume "result = Inr path"
    then obtain n where "report_job_id report = j" "encode report = Some n" "length n \<le> max_report_bytes"
      "rd_files s' ?d = Some (Regular n)" using kept by blast
    then show "fst (read_report W' decode dir j (disk_of (rd_files s'))) = Inr (Some report)"
      using new by (simp add: read_reads [OF reader] stored_def)
  qed
qed

end
