(* ===== verification/Conversion_Safety.thy ===== *)
theory Conversion_Safety
  imports Conversion Report_Safety Job_Store_Demo Media_Plans
begin

text \<open>
  An immediate conversion: a success has its report on disk and its terminal state in the store; a
  failure leaves no job that looks active.
\<close>

section \<open>Where the job stands\<close>

definition job_at :: "uuid set \<Rightarrow> uuid \<Rightarrow> job_state \<Rightarrow> nat \<Rightarrow> db \<Rightarrow> bool" where
  "job_at D j st n d \<longleftrightarrow> store_inv d \<and> job_ids d = D
     \<and> (\<exists>row. find_job j d = Some row \<and> jr_state row = state_name st \<and> jr_sequence row = n)"

lemma transition_goes:
  assumes at: "job_at D j st n d" and can: "can_transition_to st nxt" and "nxt \<noteq> Queued" and "n < i64_max"
  shows "\<exists>r d'. transition E j nxt c d = (Inr r, d') \<and> job_at D j nxt (Suc n) d'
    \<and> rec_id r = j \<and> rec_state r = nxt"
proof -
  obtain row where inv: "store_inv d" and ids: "job_ids d = D" and row: "find_job j d = Some row"
    and st: "jr_state row = state_name st" and n: "jr_sequence row = n"
    using at by (auto simp: job_at_def)
  have j: "jr_id row = j" using find_job_id [OF row] .
  have "find_job (jr_id row) d = Some row" using row j by simp
  from move_job_total [OF inv this st refl refl, of E nxt c] obtain d2
    where "move_job E row st nxt c d = Inr d2" using assms(4) n by blast
  then have "\<exists>r d'. transition_tx E j nxt c d = Inr (r, d')"
    using row st can assms(3) by (simp add: transition_tx_def ok_or_def parse_state_Inr_iff ensure_def)
  then obtain r d' where run: "transition_tx E j nxt c d = Inr (r, d')" by blast
  from transition_tx_Inr [OF inv run] obtain row' cur where m: "moved E j row' cur nxt c d d'"
    and r: "r = moved_record row' nxt (Suc (jr_sequence row')) (env_now E)" by blast
  then have "job_at D j nxt (Suc n) d'" "jr_id row' = j"
    using row n ids find_job_id [of j d row'] by (auto simp: moved_def job_at_def)
  with r run show ?thesis by (auto simp: transition_def run_tx_Inr moved_record_def)
qed

lemma get_job_at: "job_at D j st n d \<Longrightarrow> \<exists>r. get_job j d = Inr (Some r) \<and> rec_state r = st \<and> rec_id r = j"
  by (auto simp: job_at_def get_job_def job_record_from_row_def parse_state_Inr_iff dest: find_job_id)

lemma create_job_at:
  assumes "store_inv d" and "create_job E q d = (Inr r, d')"
  shows "job_at (insert (rec_id r) (job_ids d)) (rec_id r) Planned 0 d' \<and> rec_id r \<notin> job_ids d"
proof -
  obtain rs where rs: "create_jobs E [q] d = (Inr rs, d')" "rs \<noteq> []" "r = last rs"
    using assms(2) by (auto simp: create_job_def split: prod.splits sum.splits if_splits)
  then have "insert_jobs E 0 [q] d = Inr (rs, d')" by (auto simp: create_jobs_def run_tx_Inr)
  from insert_jobs_Inr [OF assms(1) this] rs show ?thesis
    by (cases rs) (auto simp: job_at_def fresh_row_def)
qed

lemma create_job_fails: "store_inv d \<Longrightarrow> create_job E q d = (Inl e, d') \<Longrightarrow> d' = d"
  using insert_jobs_Inr [of d E 0 "[q]"]
  by (auto simp: create_job_def create_jobs_def run_tx_def split: prod.splits sum.splits if_splits)

section \<open>The steps of the service\<close>

lemma small_sequence [simp]: "0 < i64_max" "Suc 0 < i64_max" "Suc (Suc 0) < i64_max"
  by (simp_all add: i64_max_def)

lemma on_jobs_goes:
  assumes "job_at D j st n (ct_db s)" and "can_transition_to st nxt" and "nxt \<noteq> Queued" and "n < i64_max"
  shows "\<exists>r d'. on_jobs (transition E j nxt c) s = (Inr r, s\<lparr>ct_db := d'\<rparr>) \<and> job_at D j nxt (Suc n) d'
    \<and> rec_id r = j \<and> rec_state r = nxt"
  using transition_goes [OF assms, of E c] by (auto simp: on_jobs_def)

lemma observed_run:
  assumes at: "job_at D j Running (Suc 0) (ct_db s)"
    and run: "execute_observed run E j s = (result, s')"
  shows "\<exists>called. run j (Inr ()) = (called, result) \<and> ct_disk s' = ct_disk s
    \<and> job_at D j (if called then Validating else Running) (if called then Suc (Suc 0) else Suc 0) (ct_db s')
    \<and> map rec_state (ct_updates s') = map rec_state (ct_updates s) @ (if called then [Validating] else [])"
proof -
  obtain r d' where go: "on_jobs (transition E j Validating ''ENGINE_FINISHED'') s = (Inr r, s\<lparr>ct_db := d'\<rparr>)"
    "job_at D j Validating (Suc (Suc 0)) d'" "rec_state r = Validating"
    using on_jobs_goes [OF at, of Validating E "''ENGINE_FINISHED''"] by auto
  obtain called res where res: "run j (Inr ()) = (called, res)" by (cases "run j (Inr ())")
  have "engine_finished E j s = (Inr (), s\<lparr>ct_db := d', ct_updates := ct_updates s @ [r]\<rparr>)"
    by (simp add: engine_finished_def st_bind_def go(1) notify_def)
  then have "execute_observed run E j s
      = (res, if called then s\<lparr>ct_db := d', ct_updates := ct_updates s @ [r]\<rparr> else s)"
    by (simp add: execute_observed_def res)
  then have "result = res" "s' = (if called then s\<lparr>ct_db := d', ct_updates := ct_updates s @ [r]\<rparr> else s)"
    using run by simp_all
  then show ?thesis using res go at by (cases called) auto
qed

lemma stopped_job:
  assumes at: "job_at D j st n (ct_db s)" and "st \<in> {Running, Validating}" and "n < i64_max"
    and to: "final = (if c = Cancelled_code then Cancelled else Failed)"
  shows "job_at D j final (Suc n) (ct_db (snd (stop_active_job E j c s)))
    \<and> map rec_state (ct_updates (snd (stop_active_job E j c s))) = map rec_state (ct_updates s) @ [final]
    \<and> ct_disk (snd (stop_active_job E j c s)) = ct_disk s"
proof -
  let ?ev = "if c = Cancelled_code then ''EXECUTION_CANCELLED'' else ''EXECUTION_STOPPED''"
  have "can_transition_to st final" "final \<noteq> Queued" using assms(2) to by auto
  from on_jobs_goes [OF at this assms(3), of E ?ev]
  obtain r d' where go: "on_jobs (transition E j final ?ev) s = (Inr r, s\<lparr>ct_db := d'\<rparr>)"
      "job_at D j final (Suc n) d'" "rec_state r = final" by blast
  obtain x where x: "get_job j (ct_db s) = Inr (Some x)" "rec_state x = st" using get_job_at [OF at] by blast
  have "snd (stop_active_job E j c s) = s\<lparr>ct_db := d', ct_updates := ct_updates s @ [r]\<rparr>"
    using go(1) x assms(2) to
    by (cases "c = Cancelled_code") (auto simp: stop_active_job_def st_bind_def ask_jobs_def notify_def)
  then show ?thesis using go(2,3) by simp
qed

lemma persisted:
  assumes at: "job_at D j Validating n (ct_db s)" and n: "n < i64_max"
    and run: "persist_before_terminal W encode E dir fresh j report ev s = (result, s')"
  shows "(case result of
      Inl e \<Rightarrow> job_at D j Interrupted (Suc n) (ct_db s') \<and> ct_updates s' = ct_updates s
          \<and> fst (save_report W encode dir fresh j report (ct_disk s)) = Inl e
    | Inr job \<Rightarrow> (\<exists>path. save_report W encode dir fresh j report (ct_disk s) = (Inr path, ct_disk s'))
          \<and> rec_id job = j \<and> rec_state job = terminal_for (report_status report)
          \<and> ct_updates s' = ct_updates s \<and> job_at D j (rec_state job) (Suc n) (ct_db s'))"
proof -
  obtain r k where save: "save_report W encode dir fresh j report (ct_disk s) = (r, k)"
    by (cases "save_report W encode dir fresh j report (ct_disk s)")
  have at': "job_at D j Validating n (ct_db (s\<lparr>ct_disk := k\<rparr>))" using at by simp
  show ?thesis
  proof (cases r)
    case (Inl e)
    obtain x where x: "get_job j (ct_db s) = Inr (Some x)" "rec_state x = Validating"
      using get_job_at [OF at] by blast
    from on_jobs_goes [OF at' _ _ n, of Interrupted E "''REPORT_PERSIST_FAILED''"] obtain y d'
      where go: "on_jobs (transition E j Interrupted ''REPORT_PERSIST_FAILED'') (s\<lparr>ct_disk := k\<rparr>)
          = (Inr y, s\<lparr>ct_disk := k, ct_db := d'\<rparr>)" "job_at D j Interrupted (Suc n) d'" by auto
    have "persist_before_terminal W encode E dir fresh j report ev s = (Inl e, s\<lparr>ct_disk := k, ct_db := d'\<rparr>)"
      using go(1) x
      by (simp add: persist_before_terminal_def st_bind_def on_failure_def on_reports_def save Inl
          interrupt_after_report_failure_def ask_jobs_def st_return_def)
    then show ?thesis using run go(2) save Inl by auto
  next
    case (Inr path)
    let ?to = "terminal_for (report_status report)"
    have "can_transition_to Validating ?to" "?to \<noteq> Queued" by (cases "report_status report"; simp)+
    from on_jobs_goes [OF at' this n, of E ev] obtain y d'
      where go: "on_jobs (transition E j ?to ev) (s\<lparr>ct_disk := k\<rparr>) = (Inr y, s\<lparr>ct_disk := k, ct_db := d'\<rparr>)"
        "job_at D j ?to (Suc n) d'" "rec_id y = j" "rec_state y = ?to" by auto
    have "persist_before_terminal W encode E dir fresh j report ev s = (Inr y, s\<lparr>ct_disk := k, ct_db := d'\<rparr>)"
      using go(1)
      by (simp add: persist_before_terminal_def st_bind_def on_failure_def on_reports_def save Inr)
    then show ?thesis using run go save Inr by auto
  qed
qed

section \<open>The whole run\<close>

text \<open>What \<open>execute_plan_observed\<close> documents: a run that succeeds has called the observer.\<close>

definition observes :: "execution \<Rightarrow> bool" where
  "observes run \<longleftrightarrow> (\<forall>j a report. snd (run j a) = Inr report \<longrightarrow> fst (run j a))"

text \<open>The three ways to be refused before any job exists.\<close>

definition refused_before_run :: "store_env \<Rightarrow> probe \<Rightarrow> plan \<Rightarrow> string \<Rightarrow> db \<Rightarrow> anole_error \<Rightarrow> bool" where
  "refused_before_run E p q approved d e \<longleftrightarrow>
     (case ensure_plan_approved q (Some approved) of
        Inl e' \<Rightarrow> e = e'
      | Inr _ \<Rightarrow> (case output_path q of
            None \<Rightarrow> True
          | Some out \<Rightarrow> fst (create_job E \<lparr>cr_input_path = canonical_path (artifact p),
              cr_output_path = out, cr_plan = q\<rparr> d) = Inl e))"

text \<open>
  The state a job ends in, what the caller is told of it and what is written, when the run of the
  engine for the job answered \<open>outcome\<close> after it \<open>called\<close> the observer or not.
\<close>

definition stopped_like ::
    "report_os \<Rightarrow> (validation_report \<Rightarrow> string option) \<Rightarrow> string \<Rightarrow> uuid \<Rightarrow> uuid \<Rightarrow> control \<Rightarrow> bool
     \<Rightarrow> anole_error + validation_report \<Rightarrow> anole_error \<Rightarrow> job_state \<Rightarrow> control \<Rightarrow> bool" where
  "stopped_like W encode dir fresh j s called outcome e st s' \<longleftrightarrow>
     (case outcome of
        Inl e' \<Rightarrow> e = e' \<and> st = (if code e = Cancelled_code then Cancelled else Failed)
          \<and> ct_disk s' = ct_disk s
          \<and> map rec_state (ct_updates s') = map rec_state (ct_updates s)
              @ Running # (if called then [Validating] else []) @ [st]
      | Inr report \<Rightarrow> fst (save_report W encode dir fresh j report (ct_disk s)) = Inl e
          \<and> st = Interrupted
          \<and> map rec_state (ct_updates s') = map rec_state (ct_updates s) @ [Running, Validating])"

lemma run_prepared_cases:
  assumes inv: "store_inv (ct_db s)" and honest: "observes run"
    and run: "run_prepared W encode E dir fresh run p q approved s = (result, s')"
  shows "(case result of
      Inl e \<Rightarrow> refused_before_run (E 0) p q approved (ct_db s) e \<and> s' = s
        \<or> (\<exists>j called outcome st n. j \<notin> job_ids (ct_db s) \<and> run j (Inr ()) = (called, outcome)
            \<and> job_at (insert j (job_ids (ct_db s))) j st n (ct_db s')
            \<and> stopped_like W encode dir fresh j s called outcome e st s')
    | Inr (job, report) \<Rightarrow> rec_id job \<notin> job_ids (ct_db s)
        \<and> approved = plan_hash q \<and> rec_state job = terminal_for (report_status report)
        \<and> (\<exists>n. job_at (insert (rec_id job) (job_ids (ct_db s))) (rec_id job) (rec_state job) n (ct_db s'))
        \<and> (\<exists>path. save_report W encode dir fresh (rec_id job) report (ct_disk s) = (Inr path, ct_disk s'))
        \<and> map rec_state (ct_updates s') = map rec_state (ct_updates s) @ [Running, Validating, rec_state job])"
proof -
  let ?D = "job_ids (ct_db s)"
  show ?thesis
  proof (cases "ensure_plan_approved q (Some approved)")
    case (Inl e)
    then show ?thesis using run
      by (auto simp: run_prepared_def st_bind_def st_result_def refused_before_run_def)
  next
    case approve: (Inr u)
    show ?thesis
    proof (cases "output_path q")
      case None
      then show ?thesis using run approve
        by (auto simp: run_prepared_def st_bind_def st_result_def ok_or_def refused_before_run_def)
    next
      case (Some out)
      let ?q = "\<lparr>cr_input_path = canonical_path (artifact p), cr_output_path = out, cr_plan = q\<rparr>"
      obtain rc d1 where create: "create_job (E 0) ?q (ct_db s) = (rc, d1)"
        by (cases "create_job (E 0) ?q (ct_db s)")
      show ?thesis
      proof (cases rc)
        case (Inl e)
        then have "result = Inl e" "s' = s"
          using run approve Some create create_job_fails [OF inv, of "E 0" ?q e d1]
          by (auto simp: run_prepared_def st_bind_def st_result_def ok_or_def on_jobs_def)
        moreover have "refused_before_run (E 0) p q approved (ct_db s) e"
          using approve Some create Inl by (simp add: refused_before_run_def)
        ultimately show ?thesis by simp
      next
        case (Inr created)
        let ?j = "rec_id created"
        have planned: "job_at (insert ?j ?D) ?j Planned 0 d1" and new: "?j \<notin> ?D"
          using create_job_at [OF inv, of "E 0" ?q created d1] create Inr by auto
        obtain r d2 where go: "transition (E 1) ?j Running ''ENGINE_STARTED'' d1 = (Inr r, d2)"
          "job_at (insert ?j ?D) ?j Running (Suc 0) d2" "rec_id r = ?j" "rec_state r = Running"
          using transition_goes [OF planned, of Running "E 1" "''ENGINE_STARTED''"] by auto
        define s2 where "s2 = s\<lparr>ct_db := d2, ct_updates := ct_updates s @ [r]\<rparr>"
        obtain res s3 where obs: "execute_observed run (E 2) ?j s2 = (res, s3)"
          by (cases "execute_observed run (E 2) ?j s2")
        have "job_at (insert ?j ?D) ?j Running (Suc 0) (ct_db s2)" using go(2) by (simp add: s2_def)
        from observed_run [OF this obs] obtain called where ran: "run ?j (Inr ()) = (called, res)"
          "ct_disk s3 = ct_disk s"
          "job_at (insert ?j ?D) ?j (if called then Validating else Running)
             (if called then Suc (Suc 0) else Suc 0) (ct_db s3)"
          "map rec_state (ct_updates s3)
             = map rec_state (ct_updates s) @ Running # (if called then [Validating] else [])"
          using go(4) by (auto simp: s2_def)
        note start = run [unfolded run_prepared_def st_bind_def st_result_def ok_or_def on_jobs_def notify_def]
        show ?thesis
        proof (cases res)
          case (Inl e)
          then have out: "result = Inl e" "s' = snd (stop_active_job (E 3) ?j (code e) s3)"
            using start approve Some create \<open>rc = Inr created\<close> go(1,3) obs by (simp_all add: s2_def)
          note stop = stopped_job [OF ran(3) _ _ refl, of "code e" "E 3", folded out(2)]
          then have "stopped_like W encode dir fresh ?j s called res e
              (if code e = Cancelled_code then Cancelled else Failed) s'"
            using Inl ran(2,4) by (cases called) (simp_all add: stopped_like_def)
          moreover have "job_at (insert ?j ?D) ?j (if code e = Cancelled_code then Cancelled else Failed)
              (Suc (if called then Suc (Suc 0) else Suc 0)) (ct_db s')"
            using stop by (cases called) simp_all
          ultimately show ?thesis using new out(1) ran(1) by auto blast+
        next
          case (Inr report)
          then have called using ran(1) honest by (auto simp: observes_def) (metis fst_conv snd_conv)
          then have valid: "job_at (insert ?j ?D) ?j Validating (Suc (Suc 0)) (ct_db s3)" using ran(3) by simp
          obtain last_result s4 where persist: "persist_before_terminal W encode (E 3) dir fresh ?j report
              ''VALIDATION_FINISHED'' s3 = (last_result, s4)"
            by (cases "persist_before_terminal W encode (E 3) dir fresh ?j report ''VALIDATION_FINISHED'' s3")
          note p = persisted [OF valid _ persist]
          show ?thesis
          proof (cases last_result)
            case (Inl e)
            then have "result = Inl e" "s' = s4"
              using start approve Some create \<open>rc = Inr created\<close> go(1,3) obs \<open>res = Inr report\<close> persist
              by (simp_all add: s2_def)
            moreover have "stopped_like W encode dir fresh ?j s called res e Interrupted s4"
              using p Inl \<open>res = Inr report\<close> \<open>called\<close> ran(2,4) by (simp add: stopped_like_def)
            moreover have "job_at (insert ?j ?D) ?j Interrupted (Suc (Suc (Suc 0))) (ct_db s4)"
              using p Inl by simp
            ultimately show ?thesis using new Inl ran(1) by simp blast
          next
            case job: (Inr job)
            then have out: "result = Inr (job, report)" "s' = s4\<lparr>ct_updates := ct_updates s4 @ [job]\<rparr>"
              using start approve Some create \<open>rc = Inr created\<close> go(1,3) obs \<open>res = Inr report\<close> persist
              by (simp_all add: s2_def st_return_def)
            have "approved = plan_hash q"
              using approve by (auto simp: ensure_plan_approved_def ok_or_def ensure_def split: if_splits)
            then show ?thesis using p new job out ran(2,4) \<open>called\<close> by auto
          qed
        qed
      qed
    qed
  qed
qed

text \<open>
  C28: An immediate conversion that succeeds ran the approved plan as a new job; the store has the job in
  the terminal state of its report, the report is read back from the directory, and the caller was told
  of Running, Validating and the terminal state, in this order.
\<close>

theorem completed_conversion_is_recorded:
  assumes "store_inv (ct_db s)" and "observes run"
    and codec: "\<forall>r c. encode r = Some c \<longrightarrow> decode c = Some r" and reader: "all_through W'"
    and disk: "ct_disk s = disk_of f"
    and run: "run_prepared W encode E dir fresh run p q approved s = (Inr (job, report), s')"
  shows "approved = plan_hash q \<and> rec_id job \<notin> job_ids (ct_db s)
    \<and> map_option jr_state (find_job (rec_id job) (ct_db s'))
        = Some (state_name (terminal_for (report_status report)))
    \<and> fst (read_report W' decode dir (rec_id job) (disk_of (rd_files (ct_disk s')))) = Inr (Some report)
    \<and> map rec_state (ct_updates s')
        = map rec_state (ct_updates s) @ [Running, Validating, terminal_for (report_status report)]"
proof -
  note done' = run_prepared_cases [OF assms(1,2) run, simplified]
  then obtain path where saved: "save_report W encode dir fresh (rec_id job) report (disk_of f) = (Inr path, ct_disk s')"
    by (auto simp: disk)
  have "\<forall>c. encode report = Some c \<longrightarrow> decode c = Some report" using codec by blast
  from interrupted_save_keeps_a_report [OF this reader saved] show ?thesis
    using done' by (auto simp: job_at_def)
qed

text \<open>
  C29: what a failed immediate conversion leaves. It either was refused before there was a job, by
  the approval, for want of an output path or by the store, with the error of that step, and then
  nothing changed; or it added exactly one job, whose state follows from the run of the engine for
  this job. The engine stopped with the error that is reported: the job is cancelled if and only if
  that error is the cancellation, otherwise it failed, no report is written, and the caller was told
  of Running, of Validating when the engine had finished, and of that state. The engine produced a
  report, but it could not be saved: the error is that of the save and the job is interrupted. So
  none is left planned, running or validating.
\<close>

theorem failed_conversion_leaves_no_active_job:
  assumes "store_inv (ct_db s)" and "observes run"
    and run: "run_prepared W encode E dir fresh run p q approved s = (Inl e, s')"
  shows "refused_before_run (E 0) p q approved (ct_db s) e \<and> s' = s
    \<or> (\<exists>j row called outcome st. j \<notin> job_ids (ct_db s) \<and> job_ids (ct_db s') = insert j (job_ids (ct_db s))
        \<and> find_job j (ct_db s') = Some row \<and> jr_state row = state_name st
        \<and> run j (Inr ()) = (called, outcome)
        \<and> (case outcome of
             Inl e' \<Rightarrow> e = e' \<and> st = (if code e = Cancelled_code then Cancelled else Failed)
               \<and> ct_disk s' = ct_disk s
               \<and> map rec_state (ct_updates s') = map rec_state (ct_updates s)
                   @ Running # (if called then [Validating] else []) @ [st]
           | Inr report \<Rightarrow> fst (save_report W encode dir fresh j report (ct_disk s)) = Inl e
               \<and> st = Interrupted
               \<and> map rec_state (ct_updates s') = map rec_state (ct_updates s) @ [Running, Validating]))"
proof -
  consider "refused_before_run (E 0) p q approved (ct_db s) e" "s' = s"
    | j called outcome st n where "j \<notin> job_ids (ct_db s)" "run j (Inr ()) = (called, outcome)"
        "job_at (insert j (job_ids (ct_db s))) j st n (ct_db s')"
        "stopped_like W encode dir fresh j s called outcome e st s'"
    using run_prepared_cases [OF assms] by auto
  then show ?thesis
  proof cases
    case (2 j called outcome st n)
    moreover from this(3) obtain row where "find_job j (ct_db s') = Some row" "jr_state row = state_name st"
      by (auto simp: job_at_def)
    moreover have "job_ids (ct_db s') = insert j (job_ids (ct_db s))" using 2(3) by (simp add: job_at_def)
    ultimately show ?thesis unfolding stopped_like_def by blast
  qed blast
qed

section \<open>Concrete runs\<close>

definition demo_verdict :: "uuid \<Rightarrow> validation_report" where
  "demo_verdict j =
     (let a = \<lparr>sum_display_path = None, sum_format_id = ''png'', sum_size_bytes = 1,
              sum_fast_fingerprint = ''f'', sum_full_blake3 = None\<rparr>
      in \<lparr>report_schema_version = 1, report_id = 5, report_job_id = j, report_plan_hash = ''h'',
          report_status = Pass, report_input = a, report_output = a, report_engines = [], checks = [],
          intentional_changes = [], redaction = \<lparr>paths_redacted = False, metadata_values_redacted = True\<rparr>\<rparr>)"

definition kind_os :: report_os where
  "kind_os = \<lparr>lets_through = \<lambda>_ _. True, half_written = \<lambda>_ _. None\<rparr>"

text \<open>A store of reports that holds one report only, and its reader.\<close>

definition demo_encode :: "uuid \<Rightarrow> validation_report \<Rightarrow> string option" where
  "demo_encode j r = (if r = demo_verdict j then Some ''r'' else None)"

lemma kind_os_through: "all_through kind_os"
  by (simp add: all_through_def kind_os_def)

lemma demo_codec: "\<forall>r c. demo_encode j r = Some c \<longrightarrow> (\<lambda>_. Some (demo_verdict j)) c = Some r"
  by (simp add: demo_encode_def)

lemma demo_saved:
  "\<exists>s'. save_report kind_os (demo_encode j) ''/r'' 9 j (demo_verdict j) (disk_of (\<lambda>_. None))
     = (Inr (report_path ''/r'' j), s')"
proof -
  show ?thesis
    by (simp add: save_report_def st_bind_def st_ensure_def st_files_def st_result_def st_return_def
        recover_backup_def on_failure_def write_new_def persist_partial_noclobber_def persist_new_def
        report_is_file_def put_files_def disk_of_def kind_os_def demo_encode_def ok_or_def demo_verdict_def
        max_report_bytes_def Let_def report_names_apart report_names_apart [THEN not_sym])
qed

theorem interrupted_save_keeps_a_report_witness:
  "\<exists>s' path. save_report kind_os (demo_encode 3) ''/r'' 9 3 (demo_verdict 3) (disk_of (\<lambda>_. None)) = (Inr path, s')
     \<and> fst (read_report kind_os (\<lambda>_. Some (demo_verdict 3)) ''/r'' 3 (disk_of (rd_files s')))
         = Inr (Some (demo_verdict 3))"
proof -
  obtain s' where saved: "save_report kind_os (demo_encode 3) ''/r'' 9 3 (demo_verdict 3) (disk_of (\<lambda>_. None))
      = (Inr (report_path ''/r'' 3), s')" using demo_saved by blast
  have "\<forall>c. demo_encode 3 (demo_verdict 3) = Some c \<longrightarrow> (\<lambda>_. Some (demo_verdict 3)) c = Some (demo_verdict 3)"
    using demo_codec by blast
  from interrupted_save_keeps_a_report [OF this kind_os_through saved] saved show ?thesis by blast
qed

definition demo_prepared :: plan where
  "demo_prepared = demo_plan\<lparr>output_path := Some ''o''\<rparr>"

definition demo_control :: control where
  "demo_control = \<lparr>ct_disk = disk_of (\<lambda>_. None), ct_db = empty_db, ct_updates = []\<rparr>"

definition demo_convert ::
    "anole_error + validation_report \<Rightarrow> probe \<Rightarrow> (anole_error + job_record \<times> validation_report) \<times> control" where
  "demo_convert outcome p =
     run_prepared kind_os (demo_encode 50) (\<lambda>k. demo_env 50) ''/r'' 9 (\<lambda>_ _. (True, outcome))
       p demo_prepared ''h'' demo_control"

lemma demo_create:
  "\<exists>r d. create_job (demo_env 50) \<lparr>cr_input_path = i, cr_output_path = ''o'', cr_plan = demo_prepared\<rparr> empty_db
     = (Inr r, d) \<and> rec_id r = 50"
  by (simp add: create_job_def demo_ops demo_prepared_def)

lemma demo_observes: "observes (\<lambda>_ _. (True, outcome))"
  by (simp add: observes_def)

lemma demo_inv: "store_inv (ct_db demo_control)"
  by (simp add: demo_control_def store_inv_empty)

text \<open>Both ways through: the engine fails, and the engine succeeds.\<close>

lemma demo_convert_run:
  "\<exists>s1. demo_convert outcome p =
     (case outcome of
        Inl e \<Rightarrow> (Inl e, snd (stop_active_job (demo_env 50) 50 (code e) s1))
      | Inr report \<Rightarrow>
          st_bind (persist_before_terminal kind_os (demo_encode 50) (demo_env 50) ''/r'' 9 50 report
             ''VALIDATION_FINISHED'') (\<lambda>job. st_bind (notify job) (\<lambda>_. st_return (job, report))) s1)
     \<and> job_at {50} 50 Validating 2 (ct_db s1) \<and> ct_disk s1 = disk_of (\<lambda>_. None)"
proof -
  obtain r d where create: "create_job (demo_env 50) \<lparr>cr_input_path = canonical_path (artifact p),
      cr_output_path = ''o'', cr_plan = demo_prepared\<rparr> empty_db = (Inr r, d)" "rec_id r = 50"
    using demo_create by blast
  have "job_at {50} 50 Planned 0 d"
    using create_job_at [OF store_inv_empty create(1)] create(2) by (simp add: job_ids_def empty_db_def)
  from transition_goes [OF this, of Running "demo_env 50" "''ENGINE_STARTED''"] obtain r2 d2
    where go: "transition (demo_env 50) 50 Running ''ENGINE_STARTED'' d = (Inr r2, d2)"
      "job_at {50} 50 Running (Suc 0) d2" "rec_id r2 = 50" by auto
  from transition_goes [OF go(2), of Validating "demo_env 50" "''ENGINE_FINISHED''"] obtain r3 d3
    where go3: "transition (demo_env 50) 50 Validating ''ENGINE_FINISHED'' d2 = (Inr r3, d3)"
      "job_at {50} 50 Validating (Suc (Suc 0)) d3" by auto
  have hash: "trim ''h'' = ''h''" by code_simp
  define s1 where "s1 = \<lparr>ct_disk = disk_of (\<lambda>_. None), ct_db = d3, ct_updates = [r2, r3]\<rparr>"
  have "demo_convert outcome p =
     (case outcome of
        Inl e \<Rightarrow> (Inl e, snd (stop_active_job (demo_env 50) 50 (code e) s1))
      | Inr report \<Rightarrow>
          st_bind (persist_before_terminal kind_os (demo_encode 50) (demo_env 50) ''/r'' 9 50 report
             ''VALIDATION_FINISHED'') (\<lambda>job. st_bind (notify job) (\<lambda>_. st_return (job, report))) s1)"
    by (simp add: demo_convert_def run_prepared_def st_bind_def st_result_def ensure_plan_approved_def
        hash ok_or_def on_jobs_def demo_control_def create go go3(1) notify_def execute_observed_def
        engine_finished_def s1_def ensure_def demo_prepared_def [THEN arg_cong [where f = output_path]]
        demo_prepared_def [THEN arg_cong [where f = plan_hash]] demo_plan_def split: sum.split)
  then show ?thesis using go3(2) by (intro exI [of _ s1]) (simp add: s1_def numeral_2_eq_2)
qed

definition demo_stop :: anole_error where
  "demo_stop = anole_error_new Cancelled_code Execute ''Conversion was cancelled''"

theorem failed_conversion_leaves_no_active_job_witness:
  "(\<exists>s' row j. demo_convert (Inl (report_error ''stopped'')) demo_clip = (Inl (report_error ''stopped''), s')
     \<and> job_ids (ct_db s') = {j} \<and> find_job j (ct_db s') = Some row \<and> jr_state row = state_name Failed)
   \<and> (\<exists>s' row j. demo_convert (Inl demo_stop) demo_clip = (Inl demo_stop, s')
     \<and> job_ids (ct_db s') = {j} \<and> find_job j (ct_db s') = Some row \<and> jr_state row = state_name Cancelled)"
proof -
  have none: "job_ids (ct_db demo_control) = {}" by (simp add: demo_control_def job_ids_def empty_db_def)
  have ends: "\<exists>s' row j. demo_convert (Inl e) demo_clip = (Inl e, s') \<and> job_ids (ct_db s') = {j}
      \<and> find_job j (ct_db s') = Some row
      \<and> jr_state row = state_name (if code e = Cancelled_code then Cancelled else Failed)" for e
  proof -
    obtain s1 where s1: "demo_convert (Inl e) demo_clip
        = (Inl e, snd (stop_active_job (demo_env 50) 50 (code e) s1))"
      "job_at {50} 50 Validating 2 (ct_db s1)"
      using demo_convert_run [of "Inl e" demo_clip] by auto
    let ?s = "snd (stop_active_job (demo_env 50) 50 (code e) s1)"
    have "job_ids (ct_db ?s) = {50}"
      using stopped_job [OF s1(2) _ _ refl, of "code e" "demo_env 50"] by (auto simp: job_at_def i64_max_def)
    then have "?s \<noteq> demo_control" using none by auto
    with failed_conversion_leaves_no_active_job [OF demo_inv demo_observes s1(1) [unfolded demo_convert_def]]
    show ?thesis using s1(1) none by auto
  qed
  from ends [of "report_error ''stopped''"] ends [of demo_stop]
  show "(\<exists>s' row j. demo_convert (Inl (report_error ''stopped'')) demo_clip = (Inl (report_error ''stopped''), s')
     \<and> job_ids (ct_db s') = {j} \<and> find_job j (ct_db s') = Some row \<and> jr_state row = state_name Failed)
   \<and> (\<exists>s' row j. demo_convert (Inl demo_stop) demo_clip = (Inl demo_stop, s')
     \<and> job_ids (ct_db s') = {j} \<and> find_job j (ct_db s') = Some row \<and> jr_state row = state_name Cancelled)"
    by (simp_all add: report_error_def demo_stop_def anole_error_new_def)
qed

theorem completed_conversion_is_recorded_witness:
  "\<exists>job s'. demo_convert (Inr (demo_verdict 50)) demo_clip = (Inr (job, demo_verdict 50), s') \<and>
     map_option jr_state (find_job (rec_id job) (ct_db s')) = Some (state_name Completed)"
proof -
  let ?v = "demo_verdict 50"
  obtain s1 where run: "demo_convert (Inr ?v) demo_clip =
      st_bind (persist_before_terminal kind_os (demo_encode 50) (demo_env 50) ''/r'' 9 50 ?v
         ''VALIDATION_FINISHED'') (\<lambda>job. st_bind (notify job) (\<lambda>_. st_return (job, ?v))) s1"
    and at: "job_at {50} 50 Validating 2 (ct_db s1)" and disk: "ct_disk s1 = disk_of (\<lambda>_. None)"
    using demo_convert_run [of "Inr ?v" demo_clip] by auto
  obtain k where saved: "save_report kind_os (demo_encode 50) ''/r'' 9 50 ?v (disk_of (\<lambda>_. None))
      = (Inr (report_path ''/r'' 50), k)" using demo_saved by blast
  have status: "report_status ?v = Pass" by (simp add: demo_verdict_def Let_def)
  have "job_at {50} 50 Validating 2 (ct_db (s1\<lparr>ct_disk := k\<rparr>))" using at by simp
  from on_jobs_goes [OF this, of Completed "demo_env 50" "''VALIDATION_FINISHED''"] obtain y d
    where "on_jobs (transition (demo_env 50) 50 Completed ''VALIDATION_FINISHED'') (s1\<lparr>ct_disk := k\<rparr>)
      = (Inr y, s1\<lparr>ct_disk := k, ct_db := d\<rparr>)" by (auto simp: i64_max_def)
  then obtain s' where run': "demo_convert (Inr ?v) demo_clip = (Inr (y, ?v), s')"
    by (simp add: run st_bind_def persist_before_terminal_def on_failure_def on_reports_def disk saved
        status notify_def st_return_def)
  have disk0: "ct_disk demo_control = disk_of (\<lambda>_. None)" by (simp add: demo_control_def)
  from completed_conversion_is_recorded [OF demo_inv demo_observes demo_codec kind_os_through disk0
      run' [unfolded demo_convert_def]] run' status
  show ?thesis by auto
qed

end
