(* ===== verification/Folder_Batch.thy ===== *)
theory Folder_Batch
  imports Path_Text Job_Store_Ops Rust_Text "HOL-Library.List_Lexorder" "HOL-Library.Multiset"
begin

text \<open>
  \<open>crates/core/src/application/folder_batch.rs\<close>: the enumeration of a folder, the mapping of its files
  to outputs under another root, and the disk budget of a batch. A folder is the tree of what
  \<open>read_dir\<close> and \<open>file_type\<close> report below it, \<open>None\<close> where the listing fails.
\<close>

section \<open>Folders\<close>

datatype folder_node =
    Folder "(string \<times> folder_node) list option"
  | FileNode
  | LinkNode
  | DeviceNode
  | UnknownNode

type_synonym folder_listing = "(string \<times> folder_node) list option"

definition folder_io_error :: anole_error where
  "folder_io_error = anole_error_new InputInvalid Inspect ''Cannot {action} folder batch path: {}''"

definition max_folder_batch_files :: nat where
  "max_folder_batch_files = 100000"

text \<open>
  The loop of the enumeration: the folders still to read, the last pushed first, with the names from
  the root to each; the files found; and the two counters.
\<close>

record folder_scan =
  fs_folders :: "(string list \<times> folder_listing) list"
  fs_files :: "string list list"
  fs_discovered :: nat
  fs_skipped :: nat

definition skip_entry :: "folder_scan \<Rightarrow> folder_scan" where
  "skip_entry s = s\<lparr>fs_discovered := sat_add (fs_discovered s) 1, fs_skipped := sat_add (fs_skipped s) 1\<rparr>"

fun visit_entry :: "string list \<Rightarrow> folder_scan \<Rightarrow> string \<times> folder_node \<Rightarrow> anole_error + folder_scan" where
  "visit_entry dir s (name, Folder listing) =
     Inr (s\<lparr>fs_folders := (dir @ [name], listing) # fs_folders s\<rparr>)"
| "visit_entry dir s (name, FileNode) =
     (let s' = s\<lparr>fs_discovered := sat_add (fs_discovered s) 1, fs_files := fs_files s @ [dir @ [name]]\<rparr>
      in res_bind (ensure (length (fs_files s') \<le> max_folder_batch_files)
           (anole_error_new ResourceExhausted Inspect ''Folder batch exceeds the 100,000-file limit''))
           (\<lambda>_. Inr s'))"
| "visit_entry dir s (name, LinkNode) = Inr (skip_entry s)"
| "visit_entry dir s (name, DeviceNode) = Inr (skip_entry s)"
| "visit_entry dir s (name, UnknownNode) = Inl folder_io_error"

definition sorted_entries :: "(string \<times> folder_node) list \<Rightarrow> (string \<times> folder_node) list" where
  "sorted_entries es = sort_key (\<lambda>e. map byte_of (fst e)) es"

definition read_folder ::
    "string list \<Rightarrow> folder_listing \<Rightarrow> folder_scan \<Rightarrow> anole_error + folder_scan" where
  "read_folder dir listing s =
     res_bind (ok_or folder_io_error listing) (\<lambda>es.
     res_fold (visit_entry dir) s (rev (sorted_entries es)))"

text \<open>The weight of what is still to read falls with every folder.\<close>

primrec folder_weight :: "folder_node \<Rightarrow> nat" where
  "folder_weight (Folder c) =
     Suc (case map_option (map (map_prod id folder_weight)) c of None \<Rightarrow> 0 | Some ws \<Rightarrow> sum_list (map snd ws))"
| "folder_weight FileNode = 0"
| "folder_weight LinkNode = 0"
| "folder_weight DeviceNode = 0"
| "folder_weight UnknownNode = 0"

definition waiting :: "folder_scan \<Rightarrow> nat" where
  "waiting s = sum_list (map (\<lambda>(_, c). folder_weight (Folder c)) (fs_folders s))"

lemma weight_folder:
  "folder_weight (Folder (Some es)) = Suc (sum_list (map (folder_weight \<circ> snd) es))"
  by (simp add: comp_def map_prod_def case_prod_unfold)

lemma visit_waiting:
  "visit_entry dir s e = Inr s' \<Longrightarrow> waiting s' = waiting s + folder_weight (snd e)"
  by (cases "(dir, s, e)" rule: visit_entry.cases) (auto simp: waiting_def skip_entry_def Let_def)

lemma visits_waiting:
  "res_fold (visit_entry dir) s es = Inr s' \<Longrightarrow> waiting s' = waiting s + sum_list (map (folder_weight \<circ> snd) es)"
proof (induction es arbitrary: s)
  case (Cons e es)
  then obtain t where "visit_entry dir s e = Inr t" "res_fold (visit_entry dir) t es = Inr s'" by auto
  then show ?case using Cons.IH [of t] visit_waiting [of dir s e t] by simp
qed simp

lemma sum_sorted: "sum_list (map f (rev (sorted_entries es))) = (sum_list (map f es) :: nat)"
  unfolding sum_mset_sum_list [symmetric] mset_map mset_rev sorted_entries_def mset_sort by (rule refl)

lemma read_waiting:
  "read_folder dir c s = Inr s' \<Longrightarrow> waiting s' < waiting s + folder_weight (Folder c)"
  by (cases c) (auto simp: read_folder_def ok_or_def weight_folder sum_sorted simp del: folder_weight.simps
      dest!: visits_waiting)

function enumerate_folders :: "folder_scan \<Rightarrow> anole_error + folder_scan" where
  "enumerate_folders s =
     (case fs_folders s of
        [] \<Rightarrow> Inr s
      | (dir, c) # later \<Rightarrow>
          (case read_folder dir c (s\<lparr>fs_folders := later\<rparr>) of
             Inl e \<Rightarrow> Inl e
           | Inr s' \<Rightarrow> enumerate_folders s'))"
  by pat_completeness auto
termination
proof (relation "measure waiting", goal_cases)
  case (2 s a later dir c s')
  then have "read_folder dir c (s\<lparr>fs_folders := later\<rparr>) = Inr s'" by simp
  from read_waiting [OF this] 2(1) 2(2) [symmetric] show ?case
    by (simp add: waiting_def del: folder_weight.simps)
qed simp

declare enumerate_folders.simps [simp del]

section \<open>Roots\<close>

definition validate_target_extension :: "string \<Rightarrow> anole_error + string" where
  "validate_target_extension v =
     (let n = to_ascii_lowercase (trim_dots (trim v)) in
      res_bind (ensure (n \<noteq> [] \<and> length n \<le> 16 \<and> list_all is_ascii_alphanumeric n)
        (anole_error_new InputInvalid Plan_stage ''Folder batch target extension is invalid'')) (\<lambda>_.
      Inr (if n = ''jpeg'' then ''jpg'' else if n = ''yml'' then ''yaml'' else n)))"

definition is_ascii_alpha :: "char \<Rightarrow> bool" where
  "is_ascii_alpha c = (is_ascii_upper c \<or> is_ascii_lower c)"

text \<open>Folding both sides to lower case compares like folding to upper case, as all is ASCII.\<close>

definition is_network_or_device_path :: "string \<Rightarrow> bool" where
  "is_network_or_device_path p =
     (let b = [CHR 0x5C]; v = drop 4 p in
      if starts_with p (b @ b @ ''?'' @ b)
      then starts_with (to_ascii_lowercase v) (''unc'' @ b) \<or> length v < 3
           \<or> \<not> is_ascii_alpha (v ! 0) \<or> v ! 1 \<noteq> CHR '':'' \<or> v ! 2 \<notin> {CHR 0x5C, CHR ''/''}
      else starts_with p (b @ b) \<or> starts_with p ''//'')"

text \<open>\<open>canonicalize\<close>, and whether the result is a directory, are the file system's.\<close>

definition canonical_local_directory ::
    "(string \<Rightarrow> (string \<times> bool) option) \<Rightarrow> string \<Rightarrow> anole_error + string" where
  "canonical_local_directory canonical p =
     res_bind (ensure (p \<noteq> [] \<and> \<not> is_network_or_device_path p) (anole_error_new PolicyBlocked Inspect
       ''Folder batch {purpose} root must be a local disk path'')) (\<lambda>_.
     res_bind (ok_or folder_io_error (canonical p)) (\<lambda>(c, dir).
     res_bind (ensure (dir \<and> \<not> is_network_or_device_path c) (anole_error_new InputInvalid Inspect
       ''Folder batch {purpose} root is not a local directory'')) (\<lambda>_. Inr c)))"

text \<open>\<open>Path::starts_with\<close> compares components.\<close>

definition path_within :: "string \<Rightarrow> string \<Rightarrow> bool" where
  "path_within p d = prefix (path_components d) (path_components p)"

section \<open>Names of outputs\<close>

text \<open>\<open>file_stem\<close> and \<open>extension\<close> of a name, on a name that is not \<open>..\<close>.\<close>

definition name_stem :: "string \<Rightarrow> string" where
  "name_stem x = (case name_extension x of None \<Rightarrow> x | Some e \<Rightarrow> take (length x - Suc (length e)) x)"

definition source_extension :: "string \<Rightarrow> string" where
  "source_extension name =
     to_ascii_lowercase (case name_extension name of
        Some e \<Rightarrow> if from_utf8 e then e else ''source'' | None \<Rightarrow> ''source'')"

definition attempt_suffix :: "string \<Rightarrow> nat \<Rightarrow> string" where
  "attempt_suffix source n =
     (if n = 0 then [] else if n = 1 then ''.from-'' @ source else ''.from-'' @ source @ ''-'' @ decimal n)"

definition output_candidate :: "string \<Rightarrow> string list \<Rightarrow> string \<Rightarrow> nat \<Rightarrow> string" where
  "output_candidate base names ext n =
     path_join (path_join base (join_with ''/'' (butlast names)))
       (name_stem (last names) @ attempt_suffix (source_extension (last names)) n @ CHR ''.'' # ext)"

text \<open>The key of a path on POSIX; \<open>reserved\<close> holds the keys taken so far.\<close>

definition output_key :: "string \<Rightarrow> string" where
  "output_key p = from_utf8_lossy p"

definition unique_output_path ::
    "string \<Rightarrow> string list \<Rightarrow> string \<Rightarrow> string set \<Rightarrow> anole_error + string" where
  "unique_output_path base names ext reserved =
     res_bind (ensure (names \<noteq> [] \<and> from_utf8 (name_stem (last names))) (anole_error_new InputInvalid Plan_stage
       ''Folder batch contains a filename that is not valid Unicode'')) (\<lambda>_.
     ok_or (anole_error_new OutputConflict Plan_stage ''Folder batch could not assign a unique output name'')
       (map_option (output_candidate base names ext)
          (find (\<lambda>n. output_key (output_candidate base names ext n) \<notin> reserved) [0..<10001])))"

record folder_mapping =
  fm_input_path :: string
  fm_relative :: "string list"
  fm_output_path :: string

record folder_mapping_plan =
  fp_input_root :: string
  fp_output_root :: string
  fp_extension :: string
  fp_discovered :: nat
  fp_skipped :: nat
  fp_mappings :: "folder_mapping list"

definition map_file ::
    "string \<Rightarrow> string \<Rightarrow> string \<Rightarrow> folder_mapping list \<Rightarrow> string list \<Rightarrow> anole_error + folder_mapping list" where
  "map_file input_root output_root ext ms names =
     res_bind (unique_output_path output_root names ext ((output_key \<circ> fm_output_path) ` set ms)) (\<lambda>out.
     Inr (ms @ [\<lparr>fm_input_path = foldl path_join input_root names, fm_relative = names,
                fm_output_path = out\<rparr>]))"

text \<open>\<open>PathBuf\<close>s are ordered by their components; the files of one root, by the names below it.\<close>

definition sorted_files :: "string list list \<Rightarrow> string list list" where
  "sorted_files fs = sort_key (map (map byte_of)) fs"

definition preview_mapping ::
    "(string \<Rightarrow> (string \<times> bool) option) \<Rightarrow> (string \<Rightarrow> folder_listing) \<Rightarrow> string \<Rightarrow> string \<Rightarrow> string
     \<Rightarrow> anole_error + folder_mapping_plan" where
  "preview_mapping canonical listing input_dir output_dir target =
     res_bind (validate_target_extension target) (\<lambda>ext.
     res_bind (canonical_local_directory canonical input_dir) (\<lambda>input_root.
     res_bind (canonical_local_directory canonical output_dir) (\<lambda>output_root.
     res_bind (ensure (\<not> path_within input_root output_root \<and> \<not> path_within output_root input_root)
       (anole_error_new PolicyBlocked Plan_stage ''Folder batch input and output roots must not overlap'')) (\<lambda>_.
     res_bind (enumerate_folders \<lparr>fs_folders = [([], listing input_root)], fs_files = [],
         fs_discovered = 0, fs_skipped = 0\<rparr>) (\<lambda>s.
     res_bind (res_fold (map_file input_root output_root ext) [] (sorted_files (fs_files s))) (\<lambda>ms.
     Inr \<lparr>fp_input_root = input_root, fp_output_root = output_root, fp_extension = ext,
          fp_discovered = fs_discovered s, fp_skipped = fs_skipped s, fp_mappings = ms\<rparr>))))))"

section \<open>Disk budget\<close>

record folder_disk_budget =
  bg_output :: nat
  bg_temporary :: nat
  bg_margin :: nat
  bg_required :: nat
  bg_available :: nat
  bg_sufficient :: bool

definition request_output_bytes :: "nat \<Rightarrow> plan \<Rightarrow> nat" where
  "request_output_bytes input_bytes p =
     (case estimated_output_bytes p of
        Some n \<Rightarrow> n | None \<Rightarrow> sat_add (sat_mul input_bytes 2) (64 * 1024))"

definition request_peak_bytes :: "nat \<Rightarrow> plan \<Rightarrow> nat" where
  "request_peak_bytes input_bytes p =
     (let es = concat (map (\<lambda>st. case estimated_temporary_bytes st of None \<Rightarrow> [] | Some n \<Rightarrow> [n]) (steps p))
      in if es = [] then sat_mul input_bytes 2 else Max (set es))"

text \<open>\<open>len\<close> is the size of an input file, \<open>available\<close> the free space at the root.\<close>

definition measure_request ::
    "(string \<Rightarrow> nat option) \<Rightarrow> nat \<times> nat list \<Rightarrow> job_create_request \<Rightarrow> anole_error + nat \<times> nat list" where
  "measure_request len st r =
     res_bind (ok_or folder_io_error (len (cr_input_path r))) (\<lambda>n.
     Inr (sat_add (fst st) (request_output_bytes n (cr_plan r)), snd st @ [request_peak_bytes n (cr_plan r)]))"

definition peak_bytes :: "nat \<Rightarrow> nat list \<Rightarrow> nat" where
  "peak_bytes parallelism peaks = foldl sat_add 0 (take parallelism (rev (sort peaks)))"

definition budget_of :: "nat \<Rightarrow> nat \<Rightarrow> nat \<Rightarrow> folder_disk_budget" where
  "budget_of outputs peak available =
     (let working = sat_add outputs peak;
          margin = max (working div 10) (256 * 1024 * 1024);
          required = sat_add working margin
      in \<lparr>bg_output = outputs, bg_temporary = peak, bg_margin = margin, bg_required = required,
          bg_available = available, bg_sufficient = (required \<le> available)\<rparr>)"

definition disk_budget ::
    "(string \<Rightarrow> (string \<times> bool) option) \<Rightarrow> (string \<Rightarrow> nat option) \<Rightarrow> (string \<Rightarrow> nat option) \<Rightarrow> string
     \<Rightarrow> job_create_request list \<Rightarrow> nat \<Rightarrow> anole_error + folder_disk_budget" where
  "disk_budget canonical len free output_root requests parallelism =
     res_bind (canonical_local_directory canonical output_root) (\<lambda>base.
     res_bind (res_fold (measure_request len) (0, []) requests) (\<lambda>(outputs, peaks).
     res_bind (ok_or (anole_error_new StorageFailed Store
         ''Cannot read available space for folder batch output: {}'') (free base)) (\<lambda>available.
     Inr (budget_of outputs (peak_bytes (max 1 (min parallelism 16)) peaks) available))))"

end
