(* ===== verification/Folder_Safety.thy ===== *)
theory Folder_Safety
  imports Folder_Batch Job_Store_Demo
begin

text \<open>
  A folder preview lists exactly the regular files below its root, gives every one an output of its own
  in the same relative folder, and no output is an input; the disk budget covers any admissible choice
  of jobs that run at once.
\<close>

section \<open>The files of a folder\<close>

text \<open>The reference: all regular files below a folder, by their names from it; no link is followed.\<close>

primrec files_of :: "folder_node \<Rightarrow> string list list" where
  "files_of (Folder c) =
     (case map_option (map (map_prod id files_of)) c of
        None \<Rightarrow> [] | Some xs \<Rightarrow> concat (map (\<lambda>(n, fs). map ((#) n) fs) xs))"
| "files_of FileNode = [[]]"
| "files_of LinkNode = []"
| "files_of DeviceNode = []"
| "files_of UnknownNode = []"

lemma files_of_folder:
  "files_of (Folder (Some es)) = concat (map (\<lambda>e. map ((#) (fst e)) (files_of (snd e))) es)"
  by (simp add: comp_def case_prod_unfold)

definition below_dir :: "string list \<Rightarrow> folder_node \<Rightarrow> string list multiset" where
  "below_dir dir t = mset (map ((@) dir) (files_of t))"

definition still_to_come :: "folder_scan \<Rightarrow> string list multiset" where
  "still_to_come s = mset (fs_files s) + sum_list (map (\<lambda>(dir, c). below_dir dir (Folder c)) (fs_folders s))"

lemma visit_files:
  "visit_entry dir s e = Inr s' \<Longrightarrow> still_to_come s' = still_to_come s + below_dir (dir @ [fst e]) (snd e)"
  by (cases "(dir, s, e)" rule: visit_entry.cases)
    (auto simp: still_to_come_def below_dir_def skip_entry_def Let_def simp del: files_of.simps(1))

lemma visits_files:
  "res_fold (visit_entry dir) s es = Inr s' \<Longrightarrow>
     still_to_come s' = still_to_come s + sum_list (map (\<lambda>e. below_dir (dir @ [fst e]) (snd e)) es)"
proof (induction es arbitrary: s)
  case (Cons e es)
  then obtain t where "visit_entry dir s e = Inr t" "res_fold (visit_entry dir) t es = Inr s'" by auto
  then show ?case using Cons.IH [of t] visit_files [of dir s e t] by simp
qed simp

lemma below_folder:
  "below_dir dir (Folder (Some es)) = sum_list (map (\<lambda>e. below_dir (dir @ [fst e]) (snd e)) es)"
  unfolding below_dir_def files_of_folder
  by (induction es) (simp_all add: comp_def)

lemma sum_of_sorted:
  "sum_list (map f (rev (sorted_entries es))) = (sum_list (map f es) :: 'a multiset)"
  unfolding sum_mset_sum_list [symmetric] mset_map mset_rev sorted_entries_def mset_sort by (rule refl)

lemma read_files:
  "read_folder dir c s = Inr s' \<Longrightarrow> still_to_come s' = still_to_come s + below_dir dir (Folder c)"
  by (cases c) (auto simp: read_folder_def ok_or_def below_folder sum_of_sorted dest!: visits_files)

lemma enumerated:
  "enumerate_folders s = Inr s' \<Longrightarrow> mset (fs_files s') = still_to_come s"
proof (induction s rule: enumerate_folders.induct)
  case (1 s)
  show ?case
  proof (cases "fs_folders s")
    case Nil
    then show ?thesis using 1(2) by (simp add: enumerate_folders.simps [of s] still_to_come_def)
  next
    case (Cons x later)
    obtain dir c where x: "x = (dir, c)" by (cases x)
    from 1(2) obtain t where t: "read_folder dir c (s\<lparr>fs_folders := later\<rparr>) = Inr t"
      "enumerate_folders t = Inr s'"
      by (auto simp: enumerate_folders.simps [of s] Cons x split: sum.splits)
    from 1(1) [OF Cons x [symmetric] t] read_files [OF t(1)] show ?thesis
      by (simp add: still_to_come_def Cons x add_ac)
  qed
qed

section \<open>The mapping\<close>

definition mapping_of :: "string \<Rightarrow> string \<Rightarrow> string \<Rightarrow> folder_mapping list \<Rightarrow> bool" where
  "mapping_of input_root output_root ext ms \<longleftrightarrow>
     distinct (map fm_output_path ms)
     \<and> (\<forall>m \<in> set ms. fm_input_path m = foldl path_join input_root (fm_relative m) \<and> fm_relative m \<noteq> []
          \<and> (\<exists>n < 10001. fm_output_path m = output_candidate output_root (fm_relative m) ext n))"

lemma mapping_of_output:
  "mapping_of i out ext ms \<Longrightarrow> m \<in> set ms
     \<Longrightarrow> fm_relative m \<noteq> [] \<and> (\<exists>n. fm_output_path m = output_candidate out (fm_relative m) ext n)"
  unfolding mapping_of_def by blast

lemma map_file_step:
  assumes "map_file i out ext ms names = Inr ms'" and "mapping_of i out ext ms"
  shows "mapping_of i out ext ms' \<and> map fm_relative ms' = map fm_relative ms @ [names]"
proof -
  from assms(1) obtain n where n: "n < 10001" and fresh: "output_key (output_candidate out names ext n) \<notin> (output_key \<circ> fm_output_path) ` set ms"
    and names: "names \<noteq> []"
    and ms': "ms' = ms @ [\<lparr>fm_input_path = foldl path_join i names, fm_relative = names,
      fm_output_path = output_candidate out names ext n\<rparr>]"
    by (auto simp: map_file_def unique_output_path_def ok_or_def find_Some_iff split: option.splits)
  from fresh have "output_candidate out names ext n \<notin> fm_output_path ` set ms" by auto
  moreover have "\<exists>k < 10001. output_candidate out names ext n = output_candidate out names ext k" using n by blast
  ultimately show ?thesis using assms(2) names by (simp add: ms' mapping_of_def)
qed

lemma map_files:
  "res_fold (map_file i out ext) ms fs = Inr ms' \<Longrightarrow> mapping_of i out ext ms
     \<Longrightarrow> mapping_of i out ext ms' \<and> map fm_relative ms' = map fm_relative ms @ fs"
proof (induction fs arbitrary: ms)
  case (Cons f fs)
  then obtain t where t: "map_file i out ext ms f = Inr t" "res_fold (map_file i out ext) t fs = Inr ms'" by auto
  from Cons.IH [OF t(2)] map_file_step [OF t(1) Cons.prems(2)] show ?case by simp
qed simp

lemma preview_parts:
  assumes "preview_mapping canonical listing input_dir output_dir target = Inr p"
  obtains "mapping_of (fp_input_root p) (fp_output_root p) (fp_extension p) (fp_mappings p)"
    "map fm_relative (fp_mappings p) = sorted_files (map fm_relative (fp_mappings p))"
    "mset (map fm_relative (fp_mappings p)) = mset (files_of (Folder (listing (fp_input_root p))))"
    "\<not> path_within (fp_input_root p) (fp_output_root p)" "\<not> path_within (fp_output_root p) (fp_input_root p)"
    "validate_target_extension target = Inr (fp_extension p)"
    "canonical_local_directory canonical input_dir = Inr (fp_input_root p)"
    "canonical_local_directory canonical output_dir = Inr (fp_output_root p)"
proof -
  from assms obtain ext i out s ms where parts: "validate_target_extension target = Inr ext"
      "canonical_local_directory canonical input_dir = Inr i"
      "canonical_local_directory canonical output_dir = Inr out"
      "\<not> path_within i out" "\<not> path_within out i"
    and scan: "enumerate_folders \<lparr>fs_folders = [([], listing i)], fs_files = [], fs_discovered = 0, fs_skipped = 0\<rparr>
      = Inr s"
    and maps: "res_fold (map_file i out ext) [] (sorted_files (fs_files s)) = Inr ms"
    and p: "p = \<lparr>fp_input_root = i, fp_output_root = out, fp_extension = ext,
          fp_discovered = fs_discovered s, fp_skipped = fs_skipped s, fp_mappings = ms\<rparr>"
    by (auto simp: preview_mapping_def)
  have same: "(@) [] = (\<lambda>x :: string list. x)" by auto
  have "mapping_of i out ext ms" "map fm_relative ms = sorted_files (fs_files s)"
    using map_files [OF maps] by (auto simp: mapping_of_def)
  moreover have "mset (fs_files s) = mset (files_of (Folder (listing i)))"
    using enumerated [OF scan] same by (simp add: still_to_come_def below_dir_def del: files_of.simps)
  moreover have "sorted_files (sorted_files fs) = sorted_files fs" for fs
    unfolding sorted_files_def by (rule sort_key_id_if_sorted) (rule sorted_sort_key)
  ultimately show thesis using that parts by (simp add: p sorted_files_def)
qed

section \<open>Inputs and outputs apart\<close>

definition plain_name :: "string \<Rightarrow> bool" where
  "plain_name n \<longleftrightarrow> n \<noteq> [] \<and> slashless n"

lemma slashless_not_absolute: "slashless n \<Longrightarrow> \<not> is_absolute n"
  by (cases n) (auto simp: is_absolute_def starts_with_slash)

lemma ends_with_last: "ends_with x ''/'' \<longleftrightarrow> x \<noteq> [] \<and> last x = CHR ''/''"
  by (cases x rule: rev_cases) (auto simp: ends_with_def suffix_def)

lemma join_below: "\<not> is_absolute x \<Longrightarrow> \<not> ends_with d ''/'' \<Longrightarrow> d \<noteq> [] \<Longrightarrow> below d (path_join d x)"
  by (auto simp: path_join_def below_def starts_with_def)

lemma slashless_last: "slashless n \<Longrightarrow> n \<noteq> [] \<Longrightarrow> last n \<noteq> CHR ''/''"
  by (cases n rule: rev_cases) auto

lemma joins_below:
  assumes "\<forall>n \<in> set names. plain_name n" and "\<not> ends_with d ''/''" and "d \<noteq> []"
  shows "below d (foldl path_join d names)"
  using assms
proof (induction names arbitrary: d)
  case (Cons n names)
  have n: "plain_name n" using Cons.prems by simp
  have "below d (path_join d n)"
    using n Cons.prems by (intro join_below) (auto simp: plain_name_def slashless_not_absolute)
  moreover have "path_join d n = d @ ''/'' @ n"
    using n Cons.prems by (simp add: path_join_def plain_name_def slashless_not_absolute)
  then have "\<not> ends_with (path_join d n) ''/''" "path_join d n \<noteq> []"
    using n slashless_last [of n] by (auto simp: ends_with_last plain_name_def)
  then have "below (path_join d n) (foldl path_join (path_join d n) names)"
    using Cons by simp
  ultimately show ?case using below_trans by auto
qed simp

lemma stem_starts:
  assumes "plain_name x"
  shows "\<exists>t. name_stem x \<noteq> [] \<and> x = name_stem x @ t"
proof (cases "name_extension x")
  case None
  then show ?thesis using assms by (simp add: name_stem_def plain_name_def)
next
  case (Some e)
  let ?after = "takeWhile (\<lambda>c. c \<noteq> CHR ''.'') (rev x)"
  have e: "length e = length ?after" and before: "drop (Suc (length ?after)) (rev x) \<noteq> []"
    using Some by (auto simp: name_extension_def Let_def split: if_splits)
  then have "length e + 1 < length x" by simp
  then have "name_stem x \<noteq> []" "x = name_stem x @ drop (length x - Suc (length e)) x"
    using Some by (auto simp: name_stem_def)
  then show ?thesis by blast
qed

lemma candidate_below:
  assumes names: "\<forall>n \<in> set names. plain_name n" "names \<noteq> []" and d: "\<not> ends_with d ''/''" "d \<noteq> []"
  shows "below d (output_candidate d names ext n)"
proof -
  let ?up = "join_with ''/'' (butlast names)"
  let ?file = "name_stem (last names) @ attempt_suffix (source_extension (last names)) n @ CHR ''.'' # ext"
  obtain u t where u: "name_stem (last names) = u" "u \<noteq> []" "last names = u @ t"
    using stem_starts [of "last names"] names by (metis last_in_set)
  have "slashless (last names)" using names by (simp add: plain_name_def)
  then have "slashless u" by (simp add: u(3))
  then have target: "\<not> is_absolute ?file"
    using u(2) by (cases u) (auto simp: u(1) is_absolute_def starts_with_slash)
  have up: "\<not> is_absolute ?up"
  proof (cases "butlast names")
    case (Cons a as)
    then have "plain_name a" using names by (metis in_set_butlastD list.set_intros(1))
    then show ?thesis unfolding Cons
      by (cases as; cases a) (auto simp: plain_name_def is_absolute_def starts_with_slash)
  qed (simp add: is_absolute_def starts_with_def)
  have "path_join d ?up = d @ ''/'' @ ?up" using up d by (simp add: path_join_def)
  then have "output_candidate d names ext n = d @ ''/'' @ ?up @ ?file
      \<or> output_candidate d names ext n = d @ ''/'' @ ?up @ ''/'' @ ?file"
    using target by (simp add: output_candidate_def path_join_def)
  then show ?thesis by (auto simp: below_def starts_with_def)
qed

text \<open>What \<open>canonicalize\<close> returns: an absolute path without a slash at its end, unless it is the root.\<close>

definition canonical_paths :: "(string \<Rightarrow> (string \<times> bool) option) \<Rightarrow> bool" where
  "canonical_paths canonical \<longleftrightarrow>
     (\<forall>p c dir. canonical p = Some (c, dir) \<longrightarrow> is_absolute c \<and> (c = ''/'' \<or> \<not> ends_with c ''/''))"

lemma within_root: "is_absolute c \<Longrightarrow> path_within c ''/''"
  by (simp add: path_within_def path_components_eq is_absolute_def starts_with_slash kept_parts_def is_slash_def
      split: if_splits)

text \<open>
  C30: The preview of a folder batch lists exactly the regular files below the input root, each once and
  in order, following no link; with the names that directories have.
\<close>

theorem folder_preview_lists_every_file:
  assumes "preview_mapping canonical listing input_dir output_dir target = Inr p"
  shows "mset (map fm_relative (fp_mappings p)) = mset (files_of (Folder (listing (fp_input_root p))))
    \<and> map fm_relative (fp_mappings p) = sorted_files (map fm_relative (fp_mappings p))"
  using assms by (rule preview_parts) simp

text \<open>
  C31: No two files of a folder batch share an output, every output is below the output root, and no
  output is one of the inputs.
\<close>

theorem folder_outputs_are_private:
  assumes run: "preview_mapping canonical listing input_dir output_dir target = Inr p"
    and canonical: "canonical_paths canonical"
    and names: "\<forall>names \<in> set (files_of (Folder (listing (fp_input_root p)))). \<forall>n \<in> set names. plain_name n"
  shows "distinct (map fm_output_path (fp_mappings p))
    \<and> (\<forall>m \<in> set (fp_mappings p). path_within (fm_output_path m) (fp_output_root p))
    \<and> fm_output_path ` set (fp_mappings p) \<inter> fm_input_path ` set (fp_mappings p) = {}"
proof -
  let ?i = "fp_input_root p" and ?o = "fp_output_root p"
  from run have maps: "mapping_of ?i ?o (fp_extension p) (fp_mappings p)"
    and files: "mset (map fm_relative (fp_mappings p)) = mset (files_of (Folder (listing ?i)))"
    and apart: "\<not> path_within ?i ?o" "\<not> path_within ?o ?i"
    and roots: "canonical_local_directory canonical input_dir = Inr ?i"
      "canonical_local_directory canonical output_dir = Inr ?o"
    by (elim preview_parts; simp)+
  obtain pi po bi bo where "canonical pi = Some (?i, bi)" "canonical po = Some (?o, bo)"
    using roots by (auto simp: canonical_local_directory_def ok_or_def split: option.splits)
  then have "is_absolute ?i" "is_absolute ?o" "?i = ''/'' \<or> \<not> ends_with ?i ''/''" "?o = ''/'' \<or> \<not> ends_with ?o ''/''"
    using canonical by (auto simp: canonical_paths_def)
  then have i: "\<not> ends_with ?i ''/''" "?i \<noteq> []" and o: "\<not> ends_with ?o ''/''" "?o \<noteq> []"
    using apart within_root by (auto simp: is_absolute_def starts_with_def)
  have plain: "\<forall>n \<in> set (fm_relative m). plain_name n" if "m \<in> set (fp_mappings p)" for m
  proof -
    have "fm_relative m \<in> set (files_of (Folder (listing ?i)))"
      using that mset_eq_setD [OF files] by (auto simp del: files_of.simps)
    then show ?thesis using names by blast
  qed
  have inp: "path_within (fm_input_path m) ?i" if "m \<in> set (fp_mappings p)" for m
  proof -
    have "fm_input_path m = foldl path_join ?i (fm_relative m)" using maps that by (simp add: mapping_of_def)
    then have "below ?i (fm_input_path m)" using joins_below [OF plain [OF that] i] by simp
    from below_components [OF this i(2)] show ?thesis by (auto simp: path_within_def)
  qed
  have outp: "path_within (fm_output_path m) ?o" if m: "m \<in> set (fp_mappings p)" for m
  proof -
    obtain n where "fm_output_path m = output_candidate ?o (fm_relative m) (fp_extension p) n"
      "fm_relative m \<noteq> []" using mapping_of_output [OF maps m] by blast
    then have "below ?o (fm_output_path m)" using candidate_below [OF plain [OF m] _ o] by simp
    from below_components [OF this o(2)] show ?thesis by (auto simp: path_within_def)
  qed
  have "fm_output_path m \<noteq> fm_input_path m'" if "m \<in> set (fp_mappings p)" "m' \<in> set (fp_mappings p)" for m m'
    using outp [OF that(1)] inp [OF that(2)] apart prefix_same_cases unfolding path_within_def by metis
  moreover have "distinct (map fm_output_path (fp_mappings p))" using maps by (simp add: mapping_of_def)
  ultimately show ?thesis using outp by auto
qed

section \<open>The budget\<close>

lemma best_of_sorted:
  assumes "sorted (rev zs)" and "mset ys \<subseteq># mset zs" and "length ys \<le> k"
  shows "sum_list ys \<le> sum_list (take k (zs :: nat list))"
  using assms
proof (induction zs arbitrary: k ys)
  case (Cons z zs)
  have top: "\<forall>x \<in> set zs. x \<le> z" and zs: "sorted (rev zs)" using Cons.prems(1) by (auto simp: sorted_append)
  show ?case
  proof (cases ys)
    case (Cons y ys')
    then obtain k' where k: "k = Suc k'" "length ys' \<le> k'" using Cons.prems(3) by (cases k) auto
    obtain x xs where x: "mset ys = add_mset x (mset xs)" "x \<le> z" "mset xs \<subseteq># mset zs"
    proof (cases "z \<in> set ys")
      case True
      then have "mset ys = add_mset z (mset (remove1 z ys))" by simp
      moreover have "mset (remove1 z ys) \<subseteq># mset zs"
        using Cons.prems(2) calculation by (metis mset.simps(2) mset_subset_eq_add_mset_cancel)
      ultimately show ?thesis using that by blast
    next
      case False
      then have "mset ys \<subseteq># mset zs"
        using Cons.prems(2) by (metis diff_single_trivial mset.simps(2) set_mset_mset subset_eq_diff_conv
            add_mset_add_single)
      moreover from this have "y \<le> z" using top Cons mset_subset_eqD [of "mset ys" "mset zs" y] by auto
      moreover have "mset ys' \<subseteq># mset zs" using calculation(1) Cons
        by (metis mset.simps(2) mset_subset_eq_add_right subset_mset.order_trans mset_subset_eq_add_left
            add_mset_add_single)
      ultimately show ?thesis using that [of y ys'] Cons by simp
    qed
    have "length xs = length ys'" using x(1) Cons by (metis length_Cons mset.simps(2) nat.inject size_mset)
    then have "sum_list xs \<le> sum_list (take k' zs)" using Cons.IH [OF zs x(3)] k by simp
    moreover have "sum_list ys = x + sum_list xs" using x(1) by (metis mset.simps(2) sum_list.Cons sum_mset_sum_list)
    ultimately show ?thesis using x(2) k by simp
  qed simp
qed simp

lemma saturated_sum: "a \<le> u64_max \<Longrightarrow> foldl sat_add a xs = min (a + sum_list xs) u64_max"
  by (induction xs arbitrary: a) (auto simp: sat_add_def)

definition size_of_input :: "(string \<Rightarrow> nat option) \<Rightarrow> job_create_request \<Rightarrow> nat" where
  "size_of_input len r = the (len (cr_input_path r))"

definition output_need :: "(string \<Rightarrow> nat option) \<Rightarrow> job_create_request \<Rightarrow> nat" where
  "output_need len r = request_output_bytes (size_of_input len r) (cr_plan r)"

definition peak_need :: "(string \<Rightarrow> nat option) \<Rightarrow> job_create_request \<Rightarrow> nat" where
  "peak_need len r = request_peak_bytes (size_of_input len r) (cr_plan r)"

lemma measured:
  "res_fold (measure_request len) (n, ps) rs = Inr (outputs, peaks)
     \<Longrightarrow> outputs = foldl sat_add n (map (output_need len) rs) \<and> peaks = ps @ map (peak_need len) rs"
proof (induction rs arbitrary: n ps)
  case (Cons r rs)
  show ?case
  proof (cases "len (cr_input_path r)")
    case (Some m)
    then have "measure_request len (n, ps) r = Inr (sat_add n (output_need len r), ps @ [peak_need len r])"
      by (simp add: measure_request_def output_need_def peak_need_def size_of_input_def)
    then show ?thesis using Cons by fastforce
  next
    case None
    then have "\<exists>e. measure_request len (n, ps) r = Inl e" by (simp add: measure_request_def ok_or_def)
    then show ?thesis using Cons.prems by auto
  qed
qed simp

lemma fits:
  assumes "bg_sufficient (budget_of (min x u64_max) (min y u64_max) a)" and "a < u64_max"
  shows "x + y + max ((x + y) div 10) (256 * 1024 * 1024) \<le> a"
proof -
  let ?w = "sat_add (min x u64_max) (min y u64_max)"
  have sum: "?w + max (?w div 10) (256 * 1024 * 1024) \<le> a"
    using assms sat_add_le_limit by (simp add: budget_of_def Let_def)
  then have "?w < u64_max" using assms(2) by linarith
  then have "?w = x + y" by (simp add: sat_add_def min_def split: if_splits)
  then show ?thesis using sum by simp
qed

text \<open>
  C32: A disk budget that is called sufficient, on a disk smaller than 2^64 - 1 bytes, holds all outputs and
  the temporary files of any jobs that the parallelism lets run at once, with the margin left over.
\<close>

theorem sufficient_budget_covers_the_batch:
  assumes run: "disk_budget canonical len free output_root rs k = Inr b" and ok: "bg_sufficient b"
    and disk: "bg_available b < u64_max"
    and jobs: "mset js \<subseteq># mset rs" "length js \<le> max 1 (min k 16)"
  shows "sum_list (map (output_need len) rs) + sum_list (map (peak_need len) js)
    + max ((sum_list (map (output_need len) rs) + sum_list (map (peak_need len) js)) div 10) (256 * 1024 * 1024)
    \<le> bg_available b"
proof -
  let ?k = "max 1 (min k 16)" and ?peaks = "map (peak_need len) rs"
  let ?out = "sum_list (map (output_need len) rs)" and ?top = "sum_list (take ?k (rev (sort (map (peak_need len) rs))))"
  obtain outputs peaks available where "res_fold (measure_request len) (0, []) rs = Inr (outputs, peaks)"
    and b: "b = budget_of outputs (peak_bytes ?k peaks) available"
    using run by (auto simp: disk_budget_def)
  from measured [OF this(1)] have sums: "outputs = min ?out u64_max" "peaks = ?peaks"
    by (simp_all add: saturated_sum)
  then have "peak_bytes ?k peaks = min ?top u64_max" by (simp add: peak_bytes_def saturated_sum)
  then have whole: "b = budget_of (min ?out u64_max) (min ?top u64_max) available" by (simp only: b sums(1))
  then have available: "bg_available b = available" by (simp add: budget_of_def Let_def)
  have "mset (map (peak_need len) js) \<subseteq># mset (rev (sort ?peaks))"
    using jobs(1) image_mset_subseteq_mono by fastforce
  then have "sum_list (map (peak_need len) js) \<le> ?top"
    using jobs(2) by (intro best_of_sorted) simp_all
  moreover have "?out + ?top + max ((?out + ?top) div 10) (256 * 1024 * 1024) \<le> bg_available b"
    using fits [of ?out ?top available] ok disk unfolding available unfolding whole by blast
  ultimately show ?thesis by (meson add_le_mono add_left_mono div_le_mono le_trans max.mono order_refl)
qed

section \<open>A small folder\<close>

definition demo_listing :: "string \<Rightarrow> folder_listing" where
  "demo_listing p =
     (if p = ''/i'' then Some [(''b.tif'', FileNode), (''b.gif'', FileNode), (''l'', LinkNode),
        (''a'', Folder (Some [(''b.png'', FileNode)]))] else None)"

definition demo_canonical :: "string \<Rightarrow> (string \<times> bool) option" where
  "demo_canonical p = (if p \<in> {''/i'', ''/o''} then Some (p, True) else None)"

lemma find_hit: "a < b \<Longrightarrow> P a \<Longrightarrow> find P [a..<b] = Some a"
  by (simp add: upt_conv_Cons)

lemma find_miss: "a < b \<Longrightarrow> \<not> P a \<Longrightarrow> find P [a..<b] = find P [Suc a..<b]"
  by (simp add: upt_conv_Cons)

definition demo_mappings :: folder_mapping_plan where
  "demo_mappings =
     \<lparr>fp_input_root = ''/i'', fp_output_root = ''/o'', fp_extension = ''jpg'', fp_discovered = 4,
      fp_skipped = 1, fp_mappings =
       [\<lparr>fm_input_path = ''/i/a/b.png'', fm_relative = [''a'', ''b.png''], fm_output_path = ''/o/a/b.jpg''\<rparr>,
        \<lparr>fm_input_path = ''/i/b.gif'', fm_relative = [''b.gif''], fm_output_path = ''/o/b.jpg''\<rparr>,
        \<lparr>fm_input_path = ''/i/b.tif'', fm_relative = [''b.tif''], fm_output_path = ''/o/b.from-tif.jpg''\<rparr>]\<rparr>"

lemma demo_scan:
  "enumerate_folders \<lparr>fs_folders = [([], demo_listing ''/i'')], fs_files = [], fs_discovered = 0, fs_skipped = 0\<rparr>
     = Inr \<lparr>fs_folders = [], fs_files = [[''b.tif''], [''b.gif''], [''a'', ''b.png'']], fs_discovered = 4, fs_skipped = 1\<rparr>"
  by (simp add: demo_listing_def enumerate_folders.simps read_folder_def sorted_entries_def skip_entry_def byte_of_def
      Let_def ok_or_def sat_add_def u64_max_def max_folder_batch_files_def ensure_def)

lemma demo_candidates:
  "output_candidate ''/o'' [''a'', ''b.png''] ''jpg'' 0 = ''/o/a/b.jpg''"
  "output_candidate ''/o'' [''b.gif''] ''jpg'' 0 = ''/o/b.jpg''"
  "output_candidate ''/o'' [''b.tif''] ''jpg'' 0 = ''/o/b.jpg''"
  "output_candidate ''/o'' [''b.tif''] ''jpg'' (Suc 0) = ''/o/b.from-tif.jpg''"
  by code_simp+

lemma demo_names_valid:
  "from_utf8 (name_stem ''b.png'')" "from_utf8 (name_stem ''b.gif'')" "from_utf8 (name_stem ''b.tif'')"
  by code_simp+

lemma demo_keys:
  "output_key ''/o/a/b.jpg'' = ''/o/a/b.jpg''" "output_key ''/o/b.jpg'' = ''/o/b.jpg''"
  "output_key ''/o/b.from-tif.jpg'' = ''/o/b.from-tif.jpg''"
  by code_simp+

lemma demo_maps:
  "res_fold (map_file ''/i'' ''/o'' ''jpg'') [] (sorted_files [[''b.tif''], [''b.gif''], [''a'', ''b.png'']])
     = Inr (fp_mappings demo_mappings)"
proof -
  have order: "sorted_files [[''b.tif''], [''b.gif''], [''a'', ''b.png'']] = [[''a'', ''b.png''], [''b.gif''], [''b.tif'']]"
    by (simp add: sorted_files_def byte_of_def)
  have joins: "path_join ''/i'' ''a'' = ''/i/a''" "path_join ''/i/a'' ''b.png'' = ''/i/a/b.png''"
    "path_join ''/i'' ''b.gif'' = ''/i/b.gif''" "path_join ''/i'' ''b.tif'' = ''/i/b.tif''"
    by code_simp+
  show ?thesis
    by (simp add: order map_file_def unique_output_path_def demo_names_valid find_hit find_miss demo_candidates demo_keys joins
        demo_mappings_def ensure_def ok_or_def)
qed

lemma demo_preview: "preview_mapping demo_canonical demo_listing ''/i'' ''/o'' ''.JPEG'' = Inr demo_mappings"
proof -
  have ext: "validate_target_extension ''.JPEG'' = Inr ''jpg''"
    and roots: "canonical_local_directory demo_canonical ''/i'' = Inr ''/i''"
      "canonical_local_directory demo_canonical ''/o'' = Inr ''/o''"
    and apart: "\<not> path_within ''/i'' ''/o''" "\<not> path_within ''/o'' ''/i''"
    by code_simp+
  show ?thesis
    using apart demo_maps
    by (simp add: preview_mapping_def ext roots demo_scan ensure_def demo_mappings_def)
qed

lemma demo_files: "files_of (Folder (demo_listing ''/i'')) = [[''b.tif''], [''b.gif''], [''a'', ''b.png'']]"
  by (simp add: demo_listing_def)

theorem folder_preview_lists_every_file_witness:
  "mset (map fm_relative (fp_mappings demo_mappings)) = mset [[''b.tif''], [''b.gif''], [''a'', ''b.png'']]"
  using folder_preview_lists_every_file [OF demo_preview] demo_files by (simp add: demo_mappings_def)

lemma demo_canonical_paths: "canonical_paths demo_canonical"
  by (simp add: canonical_paths_def demo_canonical_def is_absolute_def starts_with_def ends_with_last)

theorem folder_outputs_are_private_witness:
  "distinct (map fm_output_path (fp_mappings demo_mappings))
   \<and> fm_output_path ` set (fp_mappings demo_mappings) \<inter> fm_input_path ` set (fp_mappings demo_mappings) = {}"
proof -
  have root: "fp_input_root demo_mappings = ''/i''" by (simp add: demo_mappings_def)
  have "\<forall>names \<in> set (files_of (Folder (demo_listing ''/i''))). \<forall>n \<in> set names. plain_name n"
    unfolding demo_files by (simp add: plain_name_def)
  then show ?thesis
    using folder_outputs_are_private [OF demo_preview demo_canonical_paths, unfolded root] by blast
qed

definition demo_batch_request :: job_create_request where
  "demo_batch_request = \<lparr>cr_input_path = ''/i/a.wav'', cr_output_path = ''/o/a.mp3'', cr_plan = demo_plan\<rparr>"

definition demo_budget :: folder_disk_budget where
  "demo_budget = budget_of 6000196608 4000000000 (10 ^ 11)"

lemma demo_disk_budget:
  "disk_budget demo_canonical (\<lambda>_. Some 1000000000) (\<lambda>_. Some (10 ^ 11)) ''/o''
     (replicate 3 demo_batch_request) 2 = Inr demo_budget"
proof -
  have root: "canonical_local_directory demo_canonical ''/o'' = Inr ''/o''" by code_simp
  show ?thesis
    by (simp add: disk_budget_def root measure_request_def ok_or_def numeral_3_eq_3 demo_batch_request_def
        demo_plan_def request_output_bytes_def request_peak_bytes_def peak_bytes_def demo_budget_def
        sat_add_def sat_mul_def u64_max_def)
qed

theorem sufficient_budget_covers_the_batch_witness:
  "(\<Sum>r \<leftarrow> replicate 3 demo_batch_request. output_need (\<lambda>_. Some 1000000000) r)
     + (\<Sum>r \<leftarrow> replicate 2 demo_batch_request. peak_need (\<lambda>_. Some 1000000000) r) \<le> 10 ^ 11"
proof -
  have "bg_sufficient demo_budget" "bg_available demo_budget = 10 ^ 11"
    by (simp_all add: demo_budget_def budget_of_def Let_def sat_add_def u64_max_def)
  then show ?thesis
    using sufficient_budget_covers_the_batch [OF demo_disk_budget, of "replicate 2 demo_batch_request"]
    by (simp add: u64_max_def numeral_3_eq_3 numeral_2_eq_2)
qed

end
