(* ===== verification/Pdf.thy ===== *)
theory Pdf
  imports Ffmpeg_Args Rust_Text "HOL-Library.AList"
begin

text \<open>
  \<open>crates/core/src/pdf.rs\<close>: what the inspector reads from \<open>pdfinfo\<close>, page ranges, the planners of the
  Poppler and qpdf lanes with the store of passwords, and the acceptance of their outputs. A number
  that \<open>pdfinfo\<close> prints is parsed as an \<open>f64\<close> by a parameter, and so is the product of a length
  and the resolution; everything else is computed here.
\<close>

section \<open>Errors\<close>

definition pdf_input_error :: anole_error where
  "pdf_input_error = anole_error_new InputInvalid Inspect ''Unable to read PDF header: {}''"

definition input_pdf_error :: "string \<Rightarrow> anole_error" where
  "input_pdf_error m = anole_error_new InputInvalid Inspect m"

definition incompatible_pdfinfo :: "string \<Rightarrow> anole_error" where
  "incompatible_pdfinfo m = anole_error_new EngineIncompatible Inspect m"

definition pdf_unsupported :: "string \<Rightarrow> anole_error" where
  "pdf_unsupported m = plan_error Unsupported m"

definition pdf_invalid_plan :: anole_error where
  "pdf_invalid_plan = anole_error_new PolicyBlocked Validate ''PDF Plan contains an invalid or missing {name}''"

definition pdf_storage_error :: anole_error where
  "pdf_storage_error = anole_error_new StorageFailed Validate ''Unable to read rendered page directory: {}''"

section \<open>Text that pdfinfo prints\<close>

text \<open>\<open>str::split_whitespace\<close>.\<close>

fun word_len :: "string \<Rightarrow> nat" where
  "word_len [] = 0"
| "word_len (c # s) = (if strip_len white_space (c # s) \<noteq> 0 then 0 else Suc (word_len s))"

function split_whitespace :: "string \<Rightarrow> string list" where
  "split_whitespace s =
     (let t = trim_start s; n = max 1 (word_len t)
      in if t = [] then [] else take n t # split_whitespace (drop n t))"
  by pat_completeness auto
termination
proof (relation "measure length", goal_cases)
  case (2 s t n)
  then have "length (drop n t) < length t" by (cases t) simp_all
  also have "\<dots> \<le> length s"
    using suffix_length_le [OF trim_left_suffix [of white_space s]] 2(1) by (simp add: trim_start_def)
  finally show ?case by simp
qed simp

declare split_whitespace.simps [simp del]

definition parse_field :: "string \<Rightarrow> string \<Rightarrow> string option" where
  "parse_field txt key =
     find_map (\<lambda>line. Option.bind (split_once CHR '':'' line)
       (\<lambda>(name, value). if trim name = key then Some (trim value) else None)) (lines_of txt)"

definition first_word :: "string \<Rightarrow> string option" where
  "first_word s = (case split_whitespace s of [] \<Rightarrow> None | w # _ \<Rightarrow> Some w)"

definition parse_u32_field :: "string \<Rightarrow> string \<Rightarrow> nat option" where
  "parse_u32_field txt key =
     Option.bind (Option.bind (parse_field txt key) first_word) (parse_uint u32_max)"

text \<open>\<open>str::parse::<i32>\<close>.\<close>

definition parse_i32 :: "string \<Rightarrow> int option" where
  "parse_i32 s =
     (case s of
        c # r \<Rightarrow>
          if c = CHR ''-''
          then (if r = [] then None
                else Option.bind (digits_value 0 r) (\<lambda>n. if n \<le> 2147483648 then Some (- int n) else None))
          else map_option int (parse_uint 2147483647 s)
      | [] \<Rightarrow> None)"

text \<open>A parsed \<open>f64\<close> is finite or not.\<close>

datatype f64 = Finite rat | NotFinite

record page_sizes =
  pg_sizes :: "(nat \<times> f64 \<times> f64) list"
  pg_rotations :: "(nat \<times> int) list"

definition size_line :: "(string \<Rightarrow> f64 option) \<Rightarrow> string list \<Rightarrow> (nat \<times> f64 \<times> f64) option" where
  "size_line parse_f64 t =
     (if 7 \<le> length t \<and> t ! 0 = ''Page'' \<and> t ! 2 = ''size:'' \<and> t ! 4 = ''x'' \<and> t ! 6 = ''pts''
      then (case (parse_uint u32_max (t ! 1), parse_f64 (t ! 3), parse_f64 (t ! 5)) of
              (Some n, Some w, Some h) \<Rightarrow> Some (n, w, h) | _ \<Rightarrow> None)
      else None)"

definition rotation_line :: "string list \<Rightarrow> (nat \<times> int) option" where
  "rotation_line t =
     (if 4 \<le> length t \<and> t ! 0 = ''Page'' \<and> t ! 2 = ''rot:''
      then (case (parse_uint u32_max (t ! 1), parse_i32 (t ! 3)) of
              (Some n, Some r) \<Rightarrow> Some (n, r) | _ \<Rightarrow> None)
      else None)"

definition read_page_line :: "(string \<Rightarrow> f64 option) \<Rightarrow> page_sizes \<Rightarrow> string \<Rightarrow> page_sizes" where
  "read_page_line parse_f64 s line =
     (let t = split_whitespace line in
      case size_line parse_f64 t of
        Some (n, dims) \<Rightarrow> s\<lparr>pg_sizes := AList.update n dims (pg_sizes s)\<rparr>
      | None \<Rightarrow>
          (case rotation_line t of
             Some (n, r) \<Rightarrow> s\<lparr>pg_rotations := AList.update n r (pg_rotations s)\<rparr>
           | None \<Rightarrow> s))"

definition positive_size :: "f64 \<Rightarrow> rat option" where
  "positive_size x = (case x of Finite r \<Rightarrow> if 0 < r then Some r else None | NotFinite \<Rightarrow> None)"

definition page_stream :: "page_sizes \<Rightarrow> nat \<Rightarrow> anole_error + stream_probe" where
  "page_stream s n =
     res_bind (ok_or (incompatible_pdfinfo ''pdfinfo page numbering is incomplete'') (map_of (pg_sizes s) n))
       (\<lambda>(w, h).
     res_bind (case (positive_size w, positive_size h) of
         (Some w', Some h') \<Rightarrow> Inr (w', h') | _ \<Rightarrow> Inl (input_pdf_error ''PDF contains an invalid page size''))
       (\<lambda>(w', h').
     let rotation = (case map_of (pg_rotations s) n of None \<Rightarrow> 0 | Some r \<Rightarrow> r) in
     Inr \<lparr>stream_index = n - 1, stream_kind = PageS, codec = Some ''pdf-page'', language = None,
          stream_duration_seconds = None, stream_width = None, stream_height = None, frame_rate = None,
          sample_rate = None, channels = None,
          properties = [''page_number'' \<mapsto> JInt (int n), ''width_points'' \<mapsto> JFloat w',
            ''height_points'' \<mapsto> JFloat h', ''rotation_degrees'' \<mapsto> JInt rotation]\<rparr>))"

definition parse_page_details ::
    "(string \<Rightarrow> f64 option) \<Rightarrow> string \<Rightarrow> nat \<Rightarrow> anole_error + stream_probe list" where
  "parse_page_details parse_f64 txt n =
     (let s = foldl (read_page_line parse_f64) \<lparr>pg_sizes = [], pg_rotations = []\<rparr> (lines_of txt) in
      res_bind (ensure (length (pg_sizes s) = n)
        (incompatible_pdfinfo ''pdfinfo did not report dimensions for every page'')) (\<lambda>_.
      res_mapM (page_stream s) [1..<Suc n]))"

section \<open>Inspection\<close>

definition max_pdf_pages :: nat where
  "max_pdf_pages = 10000"

text \<open>The first 1024 bytes of the file, \<open>None\<close> when they cannot be read.\<close>

definition pdf_format_hint :: "string option \<Rightarrow> anole_error + bool" where
  "pdf_format_hint header =
     res_bind (ok_or pdf_input_error header) (\<lambda>b. Inr (contains_str b ''%PDF-''))"

text \<open>How a run of \<open>pdfinfo\<close> ends; \<open>Ended\<close> has its success, what it printed and its diagnostics.\<close>

datatype pdfinfo_end = TimedOut | CannotStart | Ended bool string string

definition bounded_text :: "string \<Rightarrow> string" where
  "bounded_text bytes = from_utf8_lossy (drop (length bytes - 64 * 1024) bytes)"

definition password_required :: anole_error where
  "password_required = anole_error_new PolicyBlocked Inspect ''Encrypted PDF: a document password is required''"

definition run_pdfinfo :: "pdfinfo_end \<Rightarrow> bool \<Rightarrow> anole_error + string" where
  "run_pdfinfo e attempt =
     (case e of
        TimedOut \<Rightarrow> Inl (set_retryable True (anole_error_new ExecutionFailed Inspect ''PDF inspection timed out''))
      | CannotStart \<Rightarrow> Inl (anole_error_new EngineIncompatible Inspect ''Unable to start pdfinfo'')
      | Ended ok out err \<Rightarrow>
          (let combined = bounded_text out @ newline # bounded_text err in
           if ok then Inr (bounded_text out)
           else if contains_str (to_ascii_lowercase combined) ''incorrect password''
           then (if attempt
                 then Inl (anole_error_new InputInvalid Inspect ''The password did not unlock the document'')
                 else Inl password_required)
           else Inl (input_pdf_error ''pdfinfo could not parse the PDF'')))"

definition pdf_probe_from_details ::
    "(string \<Rightarrow> f64 option) \<Rightarrow> artifact_identity \<Rightarrow> string \<Rightarrow> nat \<Rightarrow> string \<Rightarrow> engine_identity
     \<Rightarrow> anole_error + probe" where
  "pdf_probe_from_details parse_f64 a details n summary pdfinfo =
     res_bind (parse_page_details parse_f64 details n) (\<lambda>pages.
     let pdf_name = (map_option to_ascii_lowercase (Option.bind (extension (canonical_path a))
           (\<lambda>e. if from_utf8 e then Some e else None)) = Some ''pdf'');
         version = (case parse_field summary ''PDF version'' of None \<Rightarrow> ''unknown'' | Some v \<Rightarrow> v)
     in Inr \<lparr>probe_schema_version = schema_version, artifact = a,
          format = \<lparr>format_id = ''pdf'', kind_of = Pdf, mime_type = Some ''application/pdf'',
            container = Some (''pdf-'' @ version), extension_matches = Some pdf_name, confidence = 1\<rparr>,
          streams = pages, metadata = [],
          probe_warnings = (if pdf_name then [] else
            [\<lparr>diag_code = ''EXTENSION_MISMATCH'', severity = ''warning'',
              diag_message = ''File content is PDF but the extension is not .pdf''\<rparr>]),
          evidence = \<lparr>evidence_engine_id = engine_id pdfinfo, evidence_engine_version = engine_version pdfinfo,
            evidence_binary_sha256 = Some (binary_sha256 pdfinfo)\<rparr>,
          probe_duration_seconds = None, bit_rate = None\<rparr>)"

text \<open>\<open>run\<close> is the process, given its arguments before the path.\<close>

definition inspect_pdf_inner ::
    "(string \<Rightarrow> f64 option) \<Rightarrow> (string list \<Rightarrow> pdfinfo_end) \<Rightarrow> string option
     \<Rightarrow> anole_error + artifact_identity \<Rightarrow> engine_identity \<Rightarrow> string option \<Rightarrow> anole_error + probe" where
  "inspect_pdf_inner parse_f64 run header identified pdfinfo pw =
     (let unlock = (case pw of Some w \<Rightarrow> [''-upw'', w] | None \<Rightarrow> []) in
      res_bind (ensure (engine_id pdfinfo = ''pdfinfo'')
        (incompatible_pdfinfo ''PDF inspection was given the wrong engine'')) (\<lambda>_.
      res_bind (pdf_format_hint header) (\<lambda>hint.
      res_bind (ensure hint (input_pdf_error ''Input does not contain a PDF header'')) (\<lambda>_.
      res_bind identified (\<lambda>a.
      res_bind (run_pdfinfo (run (unlock @ [''-enc'', ''UTF-8''])) (pw \<noteq> None)) (\<lambda>summary.
      res_bind (ok_or (incompatible_pdfinfo ''pdfinfo did not report a valid page count'')
        (parse_u32_field summary ''Pages'')) (\<lambda>n.
      res_bind (ensure (n \<noteq> 0) (input_pdf_error ''PDF contains no pages'')) (\<lambda>_.
      res_bind (ensure (n \<le> max_pdf_pages) (anole_error_new ResourceExhausted Inspect
        ''PDF has {page_count} pages; the alpha limit is {MAX_PDF_PAGES}'')) (\<lambda>_.
      res_bind (ensure (\<not> (pw = None \<and> (case parse_field summary ''Encrypted'' of None \<Rightarrow> False
          | Some v \<Rightarrow> starts_with (to_ascii_lowercase v) ''yes''))) password_required) (\<lambda>_.
      res_bind (run_pdfinfo (run (unlock @ [''-box'', ''-f'', ''1'', ''-l'', decimal n, ''-enc'', ''UTF-8'']))
        (pw \<noteq> None)) (\<lambda>details.
      pdf_probe_from_details parse_f64 a details n summary pdfinfo)))))))))))"

definition inspect_pdf where
  "inspect_pdf parse_f64 run header identified pdfinfo =
     inspect_pdf_inner parse_f64 run header identified pdfinfo None"

definition inspect_pdf_unlocked where
  "inspect_pdf_unlocked parse_f64 run header identified pdfinfo pw =
     inspect_pdf_inner parse_f64 run header identified pdfinfo (Some pw)"

section \<open>Page ranges\<close>

definition invalid_page_range :: anole_error where
  "invalid_page_range = plan_error InputInvalid ''Page range must look like 1-3,7 within the document''"

definition parse_page :: "string \<Rightarrow> anole_error + nat" where
  "parse_page s = ok_or invalid_page_range (parse_uint u32_max s)"

definition parse_range_part :: "nat list \<Rightarrow> string \<Rightarrow> anole_error + nat list" where
  "parse_range_part selected part =
     (let p = trim part in
      if p = [] then Inr selected
      else (case split_on (\<lambda>c. c = CHR ''-'') p of
              [single] \<Rightarrow> res_bind (parse_page single) (\<lambda>n. Inr (selected @ [n]))
            | [a, b] \<Rightarrow>
                res_bind (parse_page (trim a)) (\<lambda>lo.
                res_bind (parse_page (trim b)) (\<lambda>hi.
                res_bind (ensure (lo \<le> hi) invalid_page_range) (\<lambda>_. Inr (selected @ [lo..<Suc hi]))))
            | _ \<Rightarrow> Inl invalid_page_range))"

abbreviation is_comma :: "char \<Rightarrow> bool" where
  "is_comma c \<equiv> c = CHR '',''"

definition parse_page_range :: "string \<Rightarrow> nat \<Rightarrow> anole_error + nat list \<times> nat" where
  "parse_page_range r n =
     res_bind (res_fold parse_range_part [] (split_on is_comma r)) (\<lambda>selected.
     res_bind (ensure (selected \<noteq> []) invalid_page_range) (\<lambda>_.
     res_bind (ensure (\<not> (n < Max (set selected) \<or> Min (set selected) = 0)) (plan_error InputInvalid
       ''Page range reaches page {maximum} but the PDF has {page_count} pages'')) (\<lambda>_.
     Inr (selected, min (length selected) u32_max))))"

definition normalize_page_range_for_qpdf :: "string \<Rightarrow> anole_error + string" where
  "normalize_page_range_for_qpdf r =
     (let parts = map (filter (\<lambda>c. c \<noteq> CHR '' '')) (filter (\<lambda>p. p \<noteq> []) (map trim (split_on is_comma r))) in
      res_bind (ensure (parts \<noteq> []) invalid_page_range) (\<lambda>_. Inr (join_with '','' parts)))"

end
