(* ===== verification/Pdf_Plans.thy ===== *)
theory Pdf_Plans
  imports Pdf
begin

text \<open>
  The planners of \<open>crates/core/src/pdf.rs\<close>: the text export, the rendering of pages, the qpdf
  operations, and the store that keeps passwords out of the plans.
\<close>

section \<open>Rendering\<close>

fun json_as_f64 :: "json \<Rightarrow> rat option" where
  "json_as_f64 (JInt i) = Some (of_int i)"
| "json_as_f64 (JFloat r) = Some r"
| "json_as_f64 _ = None"

fun json_as_i64 :: "json \<Rightarrow> int option" where
  "json_as_i64 (JInt i) = (if - (2 ^ 63) \<le> i \<and> i < 2 ^ 63 then Some i else None)"
| "json_as_i64 _ = None"

definition poppler_raster_dimension :: "f64 \<Rightarrow> anole_error + nat" where
  "poppler_raster_dimension x =
     (case x of
        Finite r \<Rightarrow>
          if 1 \<le> r \<and> r \<le> 16384 then Inr (nat \<lceil>r\<rceil>)
          else Inl (plan_error ResourceExhausted ''Rendered PDF page dimension is outside the alpha limit'')
      | NotFinite \<Rightarrow> Inl (plan_error ResourceExhausted ''Rendered PDF page dimension is outside the alpha limit''))"

text \<open>\<open>scaled\<close> is the \<open>f64\<close> product of a length in points and \<open>dpi / 72\<close>.\<close>

definition page_dimensions ::
    "(rat \<Rightarrow> nat \<Rightarrow> f64) \<Rightarrow> nat \<Rightarrow> stream_probe \<Rightarrow> anole_error + nat \<times> nat" where
  "page_dimensions scaled dpi page =
     res_bind (ok_or (input_pdf_error ''PDF probe lacks page width'')
       (Option.bind (properties page ''width_points'') json_as_f64)) (\<lambda>w.
     res_bind (ok_or (input_pdf_error ''PDF probe lacks page height'')
       (Option.bind (properties page ''height_points'') json_as_f64)) (\<lambda>h.
     let turned = (case Option.bind (properties page ''rotation_degrees'') json_as_i64 of None \<Rightarrow> 0 | Some r \<Rightarrow> r) mod 360;
         (w', h') = (if turned = 90 \<or> turned = 270 then (h, w) else (w, h)) in
     res_bind (poppler_raster_dimension (scaled w' dpi)) (\<lambda>pw.
     res_bind (poppler_raster_dimension (scaled h' dpi)) (\<lambda>ph. Inr (pw, ph)))))"

definition expected_page_dimensions ::
    "(rat \<Rightarrow> nat \<Rightarrow> f64) \<Rightarrow> probe \<Rightarrow> nat \<Rightarrow> anole_error + (nat \<times> nat) list" where
  "expected_page_dimensions scaled p dpi = res_mapM (page_dimensions scaled dpi) (streams p)"

definition estimated_raster_bytes :: "(nat \<times> nat) list \<Rightarrow> bool \<Rightarrow> nat" where
  "estimated_raster_bytes ds gray =
     foldl (\<lambda>total (w, h). sat_add total (sat_mul (sat_mul w h) (if gray then 1 else 3))) 0 ds"

definition dimensions_json :: "(nat \<times> nat) list \<Rightarrow> json" where
  "dimensions_json ds = JArr (map (\<lambda>(w, h). JArr [JInt (int w), JInt (int h)]) ds)"

definition render_target :: "plan_request \<Rightarrow> anole_error + string" where
  "render_target r =
     (if requested_target r \<in> {''jpg'', ''jpeg''} then Inr ''jpeg''
      else if requested_target r = ''png'' then Inr ''png''
      else Inl (pdf_unsupported ''PDF rendering supports only PNG or JPEG''))"

definition render_quality :: "string \<Rightarrow> plan_request \<Rightarrow> anole_error + nat option" where
  "render_quality target r =
     (if target = ''jpeg''
      then (let q = (case req_quality r of None \<Rightarrow> 85 | Some q \<Rightarrow> q) in
            res_bind (ensure (in_range 1 100 q) (plan_error InputInvalid ''JPEG quality must be between 1 and 100''))
              (\<lambda>_. Inr (Some q)))
      else res_bind (ensure (req_quality r = None)
             (plan_error InputInvalid ''PNG rendering is lossless and does not accept --quality'')) (\<lambda>_. Inr None))"

definition render_password :: "plan_request \<Rightarrow> string option" where
  "render_password r = (case password r of Some w \<Rightarrow> if w = [] then None else Some w | None \<Rightarrow> None)"

definition render_arguments ::
    "string \<Rightarrow> nat \<Rightarrow> string \<Rightarrow> nat \<Rightarrow> nat option \<Rightarrow> bool \<Rightarrow> (string \<times> string) list" where
  "render_arguments target dpi color n quality locked =
     btree_from ([(''target_format'', target), (''dpi'', decimal dpi), (''color_mode'', color),
       (''page_count'', decimal n), (''jpeg_quality'', decimal_or ''not-applicable'' quality),
       (''page_prefix'', ''page'')] @ (if locked then [(''password'', ''[redacted]'')] else []))"

definition render_constraints :: "nat \<Rightarrow> nat \<Rightarrow> string \<Rightarrow> (nat \<times> nat) list \<Rightarrow> (string \<times> json) list" where
  "render_constraints n dpi color ds =
     btree_from [(''network'', JStr ''deny''), (''output_kind'', JStr ''page-directory''),
       (''page_count'', JInt (int n)), (''dpi'', JInt (int dpi)), (''color_mode'', JStr color),
       (''expected_dimensions'', dimensions_json ds), (''alpha_expected'', JBool False),
       (''background'', JStr ''opaque-white'')]"

definition render_plan ::
    "plan_env \<Rightarrow> probe \<Rightarrow> engine_identity \<Rightarrow> string \<Rightarrow> nat \<Rightarrow> string \<Rightarrow> nat option \<Rightarrow> string
     \<Rightarrow> (nat \<times> nat) list \<Rightarrow> bool \<Rightarrow> plan" where
  "render_plan E p pdftoppm target dpi color quality out ds locked =
     (let n = length (streams p); raw = estimated_raster_bytes ds (color = ''gray'') in
      one_step_plan E p target (render_constraints n dpi color ds)
        \<lparr>step_id = ''step-1'', capability_id = ''poppler.pdf-to-'' @ target @ ''.all-pages'', engine = pdftoppm,
         operation_of = Render, loss = (if target = ''png'' then Lossless else Lossy),
         arguments = render_arguments target dpi color n quality locked, estimated_temporary_bytes = Some raw\<rparr>
        \<lparr>preserved = [''all PDF pages in source order'', ''page aspect ratios at the selected DPI''],
         changed = [''vector and text content rasterized at '' @ decimal dpi @ '' DPI'',
           ''color output rendered in '' @ color @ '' mode'', ''page backgrounds flattened to opaque white''],
         dropped = [''searchable text, links, forms, annotations, and PDF structure'', ''page transparency''],
         unknown = [''ICC/profile equivalence is not certified by the alpha validator'']\<rparr>
        [''pdf.page-count'', ''pdf.each-page-opens'', ''pdf.page-format'', ''pdf.page-dimensions'',
         ''pdf.color-mode'', ''pdf.alpha-policy''] (Some out) (Some raw))"

text \<open>The passwords of this process, by plan. A planner takes the store and returns it.\<close>

type_synonym pdf_secrets = "uuid \<rightharpoonup> string"

definition register_pdf_secret :: "uuid \<Rightarrow> string \<Rightarrow> pdf_secrets \<Rightarrow> pdf_secrets" where
  "register_pdf_secret u w s = s(u \<mapsto> w)"

definition take_pdf_secret :: "uuid \<Rightarrow> pdf_secrets \<Rightarrow> string option \<times> pdf_secrets" where
  "take_pdf_secret u s = (s u, s(u := None))"

definition render_checks ::
    "(rat \<Rightarrow> nat \<Rightarrow> f64) \<Rightarrow> plan_env \<Rightarrow> probe \<Rightarrow> plan_request \<Rightarrow> engine_identity \<Rightarrow> anole_error + plan" where
  "render_checks scaled E p r pdftoppm =
     res_bind (ensure (format_id (format p) = ''pdf'' \<and> kind_of (format p) = Pdf)
       (pdf_unsupported ''PDF rendering requires a PDF input'')) (\<lambda>_.
     res_bind (ensure (engine_id pdftoppm = ''pdftoppm'')
       (plan_error EngineIncompatible ''PDF rendering was given the wrong engine'')) (\<lambda>_.
     res_bind (render_target r) (\<lambda>target.
     let dpi = (case req_dpi r of None \<Rightarrow> 144 | Some d \<Rightarrow> d) in
     res_bind (ensure (in_range 36 600 dpi) (plan_error InputInvalid ''PDF render DPI must be between 36 and 600'')) (\<lambda>_.
     let color = to_ascii_lowercase (trim (case req_color_mode r of None \<Rightarrow> ''rgb'' | Some c \<Rightarrow> c)) in
     res_bind (ensure (color \<in> {''rgb'', ''gray''}) (plan_error InputInvalid ''PDF color mode must be rgb or gray'')) (\<lambda>_.
     res_bind (render_quality target r) (\<lambda>quality.
     res_bind (ok_or (plan_error InputInvalid ''PDF rendering requires an output directory path'')
       (req_output_path r)) (\<lambda>out.
     res_bind (ensure (length (streams p) \<le> u32_max)
       (plan_error ResourceExhausted ''PDF page count cannot be represented'')) (\<lambda>_.
     res_bind (ensure (streams p \<noteq> [] \<and> list_all (\<lambda>s. stream_kind s = PageS) (streams p))
       (input_pdf_error ''PDF probe has no valid page set'')) (\<lambda>_.
     res_bind (expected_page_dimensions scaled p dpi) (\<lambda>ds.
     res_bind (ensure (list_all (\<lambda>(w, h). sat_mul w h \<le> 100000000) ds)
       (plan_error ResourceExhausted ''A rendered PDF page would exceed the 100-megapixel alpha limit'')) (\<lambda>_.
     Inr (render_plan E p pdftoppm target dpi color quality out ds (render_password r \<noteq> None)))))))))))))"

definition plan_pdf_render ::
    "(rat \<Rightarrow> nat \<Rightarrow> f64) \<Rightarrow> plan_env \<Rightarrow> probe \<Rightarrow> plan_request \<Rightarrow> engine_identity \<Rightarrow> pdf_secrets
     \<Rightarrow> (anole_error + plan) \<times> pdf_secrets" where
  "plan_pdf_render scaled E p r pdftoppm s =
     (case render_checks scaled E p r pdftoppm of
        Inl e \<Rightarrow> (Inl e, s)
      | Inr q \<Rightarrow>
          (seal_plan E q,
           case render_password r of None \<Rightarrow> s | Some w \<Rightarrow> register_pdf_secret (plan_id q) w s))"

section \<open>Text export\<close>

definition offline_pdf_constraints :: "(string \<times> json) list" where
  "offline_pdf_constraints = btree_from [(''network'', JStr ''deny''), (''external_resources'', JStr ''deny'')]"

definition plan_pdf_text_export ::
    "plan_env \<Rightarrow> probe \<Rightarrow> string \<Rightarrow> engine_identity \<Rightarrow> string \<Rightarrow> anole_error + plan" where
  "plan_pdf_text_export E p out pdftotext target =
     res_bind (ensure (format_id (format p) = ''pdf'' \<and> kind_of (format p) = Pdf)
       (pdf_unsupported ''PDF text export requires a PDF input'')) (\<lambda>_.
     res_bind (ensure (to_ascii_lowercase (trim_dots (trim target)) = ''md'')
       (pdf_unsupported ''PDF text export supports only md'')) (\<lambda>_.
     res_bind (ensure (engine_id pdftotext = ''pdftotext'')
       (plan_error EngineIncompatible ''PDF text export was given the wrong engine'')) (\<lambda>_.
     res_bind (ensure (length (streams p) \<le> u32_max)
       (plan_error ResourceExhausted ''PDF page count cannot be represented'')) (\<lambda>_.
     seal_plan E (one_step_plan E p ''md'' offline_pdf_constraints
       \<lparr>step_id = ''step-1'', capability_id = ''poppler.pdf-to-md.offline'', engine = pdftotext,
        operation_of = Transform, loss = Lossy,
        arguments = btree_from [(''source_format'', ''pdf''), (''target_format'', ''md''),
          (''pages'', decimal (length (streams p))), (''layout'', ''reading-order'')],
        estimated_temporary_bytes = Some (sat_mul (size_bytes (artifact p)) 2)\<rparr>
       \<lparr>preserved = [''the concatenated text layer in reading order''],
        changed = [''the PDF text layer is re-serialized as a Markdown file ('' @ decimal (length (streams p)) @ '' pages)''],
        dropped = [''headings, tables, lists, and all layout structure'', ''images and vector graphics''],
        unknown = [''reading order of multi-column layouts'']\<rparr>
       [''document.text-extractable''] (Some out) None)))))"

section \<open>The qpdf operations\<close>

text \<open>\<open>u32::try_from(probe.streams.len()).unwrap_or(u32::MAX)\<close>.\<close>

definition page_count :: "probe \<Rightarrow> nat" where
  "page_count p = min (length (streams p)) u32_max"

definition operation_step ::
    "string \<Rightarrow> engine_identity \<Rightarrow> (string \<times> string) list \<Rightarrow> nat \<Rightarrow> plan_step" where
  "operation_step capability qpdf args temporary =
     \<lparr>step_id = ''step-1'', capability_id = capability, engine = qpdf, operation_of = Transform, loss = NoLoss,
      arguments = args, estimated_temporary_bytes = Some temporary\<rparr>"

definition pdf_operation_plan ::
    "plan_env \<Rightarrow> string \<Rightarrow> (string \<times> string) list \<Rightarrow> probe \<Rightarrow> string \<Rightarrow> engine_identity \<Rightarrow> change_set
     \<Rightarrow> string list \<Rightarrow> anole_error + plan" where
  "pdf_operation_plan E capability args p out qpdf ch vs =
     seal_plan E (one_step_plan E p ''pdf'' offline_pdf_constraints
       (operation_step capability qpdf args (sat_mul (size_bytes (artifact p)) 2)) ch vs (Some out) None)"

definition ensure_pdf_probe :: "probe \<Rightarrow> anole_error + unit" where
  "ensure_pdf_probe p =
     ensure (format_id (format p) = ''pdf'') (plan_error Unsupported ''PDF {operation} needs a PDF input'')"

definition ensure_qpdf :: "engine_identity \<Rightarrow> anole_error + unit" where
  "ensure_qpdf qpdf =
     ensure (engine_id qpdf = ''qpdf'') (plan_error EngineIncompatible ''The {operation} Plan was given the wrong engine'')"

text \<open>qpdf takes no verbatim Windows path.\<close>

definition qpdf_input_path :: "string \<Rightarrow> string" where
  "qpdf_input_path p =
     (let b = [CHR 0x5C]; v = b @ b @ ''?'' @ b; s = from_utf8_lossy p in if starts_with s v then drop 4 s else s)"

definition joint_input_fingerprint :: "(string \<Rightarrow> string) \<Rightarrow> probe list \<Rightarrow> string" where
  "joint_input_fingerprint blake3 ps =
     ''joint:'' @ blake3 (join_with [CHR 0x1F] (map (\<lambda>p. fast_fingerprint (artifact p)) ps))"

definition plan_pdf_merge ::
    "(string \<Rightarrow> string) \<Rightarrow> plan_env \<Rightarrow> probe list \<Rightarrow> string \<Rightarrow> engine_identity \<Rightarrow> anole_error + plan" where
  "plan_pdf_merge blake3 E ps out qpdf =
     (let pages = sum_list (map (length \<circ> streams) ps) in
      res_bind (ensure (2 \<le> length ps) (plan_error Unsupported ''PDF merge needs at least two inputs'')) (\<lambda>_.
      res_bind (ensure (list_all (\<lambda>p. format_id (format p) = ''pdf'' \<and> streams p \<noteq> []) ps)
        (plan_error Unsupported ''PDF merge inputs must all be inspected PDFs'')) (\<lambda>_.
      res_bind (ensure (engine_id qpdf = ''qpdf'')
        (plan_error EngineIncompatible ''The merge Plan was given the wrong engine'')) (\<lambda>_.
      res_bind (ensure (pages \<le> max_pdf_pages) (plan_error ResourceExhausted
        ''Merged PDF would have {expected_pages} pages; the alpha limit is {MAX_PDF_PAGES}'')) (\<lambda>_.
      seal_plan E ((one_step_plan E (hd ps) ''pdf'' offline_pdf_constraints
        (operation_step ''qpdf.pdf-merge'' qpdf
          (btree_from [(''operation'', ''pdf-merge''),
            (''inputs'', join_with '';'' (map (\<lambda>p. qpdf_input_path (canonical_path (artifact p))) ps)),
            (''expected_pages'', decimal pages)])
          (sat_mul (sum_list (map (\<lambda>p. size_bytes (artifact p)) ps)) 2))
        \<lparr>preserved = [''every page of every input, in input order'', ''page content streams''],
         changed = [''documents are concatenated into one container''], dropped = [],
         unknown = [''per-document metadata of all but the first input'']\<rparr>
        [''pdf-ops.merge-page-count''] (Some out) None)
          \<lparr>input_fingerprint := joint_input_fingerprint blake3 ps\<rparr>))))))"

definition plan_pdf_extract ::
    "plan_env \<Rightarrow> probe \<Rightarrow> string \<Rightarrow> string \<Rightarrow> engine_identity \<Rightarrow> anole_error + plan" where
  "plan_pdf_extract E p spec out qpdf =
     res_bind (ensure (format_id (format p) = ''pdf'')
       (plan_error Unsupported ''PDF extraction needs a PDF input'')) (\<lambda>_.
     res_bind (ensure (engine_id qpdf = ''qpdf'')
       (plan_error EngineIncompatible ''The extraction Plan was given the wrong engine'')) (\<lambda>_.
     res_bind (parse_page_range spec (page_count p)) (\<lambda>(_, selected).
     res_bind (normalize_page_range_for_qpdf spec) (\<lambda>normalized.
     pdf_operation_plan E ''qpdf.pdf-extract''
       (btree_from [(''operation'', ''pdf-extract''), (''page_range'', normalized),
         (''expected_pages'', decimal selected)]) p out qpdf
       \<lparr>preserved = [''selected pages in document order'', ''page content streams''],
        changed = [''unselected pages are removed''], dropped = [''pages outside the requested range''],
        unknown = [''document-level metadata is not certified'']\<rparr>
       [''pdf-ops.extract-page-count'']))))"

definition plan_pdf_rotate ::
    "plan_env \<Rightarrow> probe \<Rightarrow> nat \<Rightarrow> string option \<Rightarrow> string \<Rightarrow> engine_identity \<Rightarrow> anole_error + plan" where
  "plan_pdf_rotate E p angle spec out qpdf =
     res_bind (ensure_pdf_probe p) (\<lambda>_.
     res_bind (ensure_qpdf qpdf) (\<lambda>_.
     res_bind (ensure (angle \<in> {90, 180, 270})
       (plan_error InputInvalid ''Rotation angle must be 90, 180, or 270; got {angle}'')) (\<lambda>_.
     res_bind (case spec of None \<Rightarrow> Inr () | Some r \<Rightarrow> res_bind (parse_page_range r (page_count p)) (\<lambda>_. Inr ())) (\<lambda>_.
     res_bind (case spec of None \<Rightarrow> Inr [] | Some r \<Rightarrow> normalize_page_range_for_qpdf r) (\<lambda>pages.
     pdf_operation_plan E ''qpdf.pdf-rotate''
       (btree_from [(''operation'', ''pdf-rotate''), (''angle'', decimal angle), (''pages'', pages),
         (''expected_pages'', decimal (page_count p))]) p out qpdf
       \<lparr>preserved = [''every page in document order'', ''page content streams''],
        changed = [''selected pages rotate by '' @ decimal angle @ '' degrees''], dropped = [],
        unknown = [''viewer-dependent rendering of rotated pages'']\<rparr>
       [''pdf-ops.rotate-page-count''])))))"

definition plan_pdf_compress :: "plan_env \<Rightarrow> probe \<Rightarrow> string \<Rightarrow> engine_identity \<Rightarrow> anole_error + plan" where
  "plan_pdf_compress E p out qpdf =
     res_bind (ensure_pdf_probe p) (\<lambda>_.
     res_bind (ensure_qpdf qpdf) (\<lambda>_.
     pdf_operation_plan E ''qpdf.pdf-compress''
       (btree_from [(''operation'', ''pdf-compress''), (''expected_pages'', decimal (page_count p))]) p out qpdf
       \<lparr>preserved = [''every page in document order'', ''page content''],
        changed = [''streams are recompressed with maximum Flate'', ''objects are packed into object streams''],
        dropped = [], unknown = [''exact byte-level reproduction is not certified'']\<rparr>
       [''pdf-ops.compress-page-count'', ''pdf-ops.compress-ratio'']))"

definition plan_pdf_secret_operation ::
    "plan_env \<Rightarrow> probe \<Rightarrow> string \<Rightarrow> string option \<Rightarrow> string \<Rightarrow> engine_identity \<Rightarrow> string list \<Rightarrow> string
     \<Rightarrow> pdf_secrets \<Rightarrow> (anole_error + plan) \<times> pdf_secrets" where
  "plan_pdf_secret_operation E p operation pw out qpdf ch validator s =
     (let w = trim (case pw of None \<Rightarrow> [] | Some w \<Rightarrow> w) in
      case res_bind (ensure_pdf_probe p) (\<lambda>_.
           res_bind (ensure_qpdf qpdf) (\<lambda>_.
           res_bind (ensure (w \<noteq> []) (plan_error InputInvalid ''PDF {operation} needs a non-empty password'')) (\<lambda>_.
           pdf_operation_plan E (''qpdf.'' @ operation)
             (btree_from [(''operation'', operation), (''password'', ''[redacted]''),
               (''expected_pages'', decimal (page_count p))]) p out qpdf
             \<lparr>preserved = [''every page in document order''], changed = ch, dropped = [],
              unknown = [''document-level metadata is not certified'']\<rparr> [validator]))) of
        Inl e \<Rightarrow> (Inl e, s)
      | Inr q \<Rightarrow> (Inr q, register_pdf_secret (plan_id q) w s))"

definition plan_pdf_encrypt where
  "plan_pdf_encrypt E p pw out qpdf =
     plan_pdf_secret_operation E p ''pdf-encrypt'' pw out qpdf
       [''the document is encrypted with AES-256'', ''printing stays allowed; modification is denied'']
       ''pdf-ops.encrypt-locked''"

definition plan_pdf_decrypt where
  "plan_pdf_decrypt E p pw out qpdf =
     plan_pdf_secret_operation E p ''pdf-decrypt'' pw out qpdf
       [''encryption is removed from the document''] ''pdf-ops.decrypt-page-count''"

definition max_metadata_text_bytes :: nat where
  "max_metadata_text_bytes = 200"

definition given_text :: "string option \<Rightarrow> string option" where
  "given_text x = (case map_option trim x of Some t \<Rightarrow> if t = [] then None else Some t | None \<Rightarrow> None)"

definition metadata_text_ok :: "string option \<Rightarrow> bool" where
  "metadata_text_ok x =
     (case x of None \<Rightarrow> True | Some t \<Rightarrow> length t \<le> max_metadata_text_bytes \<and> \<not> has_control t)"

definition plan_pdf_metadata ::
    "plan_env \<Rightarrow> probe \<Rightarrow> string option \<Rightarrow> string option \<Rightarrow> string \<Rightarrow> engine_identity \<Rightarrow> anole_error + plan" where
  "plan_pdf_metadata E p title_text author_text out qpdf =
     (let title = given_text title_text; author = given_text author_text in
      res_bind (ensure_pdf_probe p) (\<lambda>_.
      res_bind (ensure_qpdf qpdf) (\<lambda>_.
      res_bind (ensure (title \<noteq> None \<or> author \<noteq> None)
        (plan_error InputInvalid ''PDF metadata needs a title or an author'')) (\<lambda>_.
      res_bind (ensure (metadata_text_ok title \<and> metadata_text_ok author) (plan_error InputInvalid
        ''PDF metadata {field} must be at most {MAX_METADATA_TEXT_BYTES} bytes without control characters'')) (\<lambda>_.
      pdf_operation_plan E ''qpdf.pdf-metadata''
        (btree_from ([(''operation'', ''pdf-metadata''), (''expected_pages'', decimal (page_count p))]
          @ opt_argument ''metadata_title'' title @ opt_argument ''metadata_author'' author)) p out qpdf
        \<lparr>preserved = [''every page in document order'', ''page content streams''],
         changed = (if title = None then [] else [''the document /Title is replaced''])
           @ (if author = None then [] else [''the document /Author is replaced'']),
         dropped = [], unknown = [''other /Info entries are not certified'']\<rparr>
        [''pdf-ops.metadata-page-count'', ''pdf-ops.metadata-fields''])))))"

definition max_watermark_text_bytes :: nat where
  "max_watermark_text_bytes = 80"

definition signed_decimal :: "int \<Rightarrow> string" where
  "signed_decimal i = (if i < 0 then CHR ''-'' # decimal (nat (- i)) else decimal (nat i))"

definition plan_pdf_watermark ::
    "plan_env \<Rightarrow> probe \<Rightarrow> string \<Rightarrow> int option \<Rightarrow> string \<Rightarrow> engine_identity \<Rightarrow> anole_error + plan" where
  "plan_pdf_watermark E p txt angle_option out qpdf =
     (let stamp = trim txt; angle = (case angle_option of None \<Rightarrow> - 45 | Some a \<Rightarrow> a) in
      res_bind (ensure_pdf_probe p) (\<lambda>_.
      res_bind (ensure_qpdf qpdf) (\<lambda>_.
      res_bind (ensure (stamp \<noteq> []) (plan_error InputInvalid ''PDF watermark needs non-empty text'')) (\<lambda>_.
      res_bind (ensure (length stamp \<le> max_watermark_text_bytes \<and> list_all (byte_in 32 126) stamp)
        (plan_error InputInvalid ''Watermark text must be printable ASCII of at most {MAX_WATERMARK_TEXT_BYTES} bytes'')) (\<lambda>_.
      res_bind (ensure (- 180 \<le> angle \<and> angle \<le> 180)
        (plan_error InputInvalid ''Watermark angle must be within -180..=180 degrees; got {angle}'')) (\<lambda>_.
      pdf_operation_plan E ''qpdf.pdf-watermark''
        (btree_from [(''operation'', ''pdf-watermark''), (''watermark_text'', stamp),
          (''watermark_angle'', signed_decimal angle), (''expected_pages'', decimal (page_count p))]) p out qpdf
        \<lparr>preserved = [''every page in document order'', ''existing page content''],
         changed = [''a translucent '' @ [CHR 0x27] @ stamp @ [CHR 0x27] @ '' watermark at '' @ signed_decimal angle
           @ '' degrees is stamped on every page''],
         dropped = [], unknown = [''z-order of the watermark over interactive forms'']\<rparr>
        [''pdf-ops.watermark-page-count'', ''pdf-ops.watermark-text-present'']))))))"

end
