(* ===== verification/Pdf_Output.thy ===== *)
theory Pdf_Output
  imports Pdf_Plans Eml
begin

text \<open>
  \<open>crates/core/src/pdf.rs\<close>: the bytes that are made here (the incremental update of the document
  information and the page with the watermark) and the acceptance of PDF outputs. \<open>None\<close> is a panic.
\<close>

section \<open>Literal strings\<close>

text \<open>The code point of a character, from its UTF-8 bytes; octal with at least three digits.\<close>

fun code_point :: "string \<Rightarrow> nat" where
  "code_point [a] = byte_of a"
| "code_point [a, b] = (byte_of a - 192) * 64 + (byte_of b - 128)"
| "code_point [a, b, c] = (byte_of a - 224) * 4096 + (byte_of b - 128) * 64 + (byte_of c - 128)"
| "code_point [a, b, c, d] =
     (byte_of a - 240) * 262144 + (byte_of b - 128) * 4096 + (byte_of c - 128) * 64 + (byte_of d - 128)"
| "code_point _ = 0"

fun octal :: "nat \<Rightarrow> string" where
  "octal n = (if n < 8 then [digit_char n] else octal (n div 8) @ [digit_char (n mod 8)])"

declare octal.simps [simp del]

definition octal3 :: "nat \<Rightarrow> string" where
  "octal3 n = replicate (3 - length (octal n)) CHR ''0'' @ octal n"

abbreviation backslash :: char where "backslash \<equiv> CHR 0x5C"

definition escape_pdf_char :: "string \<Rightarrow> string" where
  "escape_pdf_char c =
     (if c \<in> {[backslash], ''('', '')''} then backslash # c
      else if length c = 1 \<and> byte_in 32 127 (hd c) then c
      else backslash # octal3 (code_point c))"

definition escape_pdf_string :: "string \<Rightarrow> string" where
  "escape_pdf_string txt = concat (map escape_pdf_char (chars_of txt))"

definition escape_pdf_text :: "string \<Rightarrow> string" where
  "escape_pdf_text txt =
     concat (map (\<lambda>c. if c \<in> {backslash, CHR ''('', CHR '')''} then [backslash, c] else [c]) txt)"

section \<open>Reading the end of a PDF\<close>

definition is_ascii_whitespace :: "char \<Rightarrow> bool" where
  "is_ascii_whitespace c = (byte_of c \<in> {9, 10, 12, 13, 32})"

definition last_startxref_offset :: "string \<Rightarrow> nat option" where
  "last_startxref_offset bytes =
     (let tail = drop (length bytes - 2048) bytes in
      Option.bind (rfind_str tail ''startxref'') (\<lambda>position.
      parse_u64 (takeWhile is_ascii_digit (dropWhile is_ascii_whitespace (drop (position + 9) tail)))))"

definition object_number :: "string list \<Rightarrow> nat \<Rightarrow> nat option" where
  "object_number tokens i =
     (if tokens ! (i + 2) = ''obj''
      then (case (parse_u64 (tokens ! i), parse_u64 (tokens ! (i + 1))) of
              (Some n, Some _) \<Rightarrow> Some n | _ \<Rightarrow> None)
      else None)"

definition max_object_number :: "string \<Rightarrow> nat" where
  "max_object_number bytes =
     (let tokens = split_whitespace (from_utf8_lossy bytes) in
      foldl (\<lambda>m i. case object_number tokens i of None \<Rightarrow> m | Some n \<Rightarrow> max m n) 0 [0..<length tokens - 2])"

text \<open>\<open>numeric\<close> tells which characters beyond ASCII are numeric.\<close>

definition is_numeric_text :: "(string \<Rightarrow> bool) \<Rightarrow> string \<Rightarrow> bool" where
  "is_numeric_text numeric s =
     list_all (\<lambda>c. if length c = 1 then is_ascii_digit (hd c) else numeric c) (chars_of s)"

definition indirect_reference :: "(string \<Rightarrow> bool) \<Rightarrow> string \<Rightarrow> string \<Rightarrow> string option" where
  "indirect_reference numeric trailer key =
     Option.bind (find_str trailer key) (\<lambda>k.
     case split_whitespace (drop (k + length key) trailer) of
       number # generation # marker # _ \<Rightarrow>
         if starts_with marker ''R'' \<and> is_numeric_text numeric number
         then Some (number @ '' '' @ generation @ '' R'') else None
     | _ \<Rightarrow> None)"

definition parse_trailer_size :: "string \<Rightarrow> nat" where
  "parse_trailer_size trailer =
     (case Option.bind (Option.bind (parse_field trailer ''/Size'') first_word) parse_u64 of
        None \<Rightarrow> 0 | Some n \<Rightarrow> n)"

section \<open>The incremental update\<close>

definition pad10 :: "nat \<Rightarrow> string" where
  "pad10 n = replicate (10 - length (decimal n)) CHR ''0'' @ decimal n"

definition info_entry :: "string \<Rightarrow> string option \<Rightarrow> string" where
  "info_entry key x =
     (case given_text x of None \<Rightarrow> [] | Some t \<Rightarrow> key @ '' ('' @ escape_pdf_string t @ '') '')"

definition execute_input_error :: "string \<Rightarrow> anole_error" where
  "execute_input_error m = anole_error_new InputInvalid Execute m"

abbreviation line :: "string \<Rightarrow> string" where
  "line s \<equiv> s @ [newline]"

definition info_object :: "nat \<Rightarrow> string \<Rightarrow> string" where
  "info_object n entries =
     line (decimal n @ '' 0 obj'') @ line (''<< '' @ entries @ ''>>'') @ line ''endobj''"

definition info_xref :: "nat \<Rightarrow> nat \<Rightarrow> nat \<Rightarrow> nat \<Rightarrow> string \<Rightarrow> nat \<Rightarrow> string" where
  "info_xref n object_offset entries previous_xref root_ref xref_offset =
     line ''xref'' @ line (decimal n @ '' 1'') @ line (pad10 object_offset @ '' 00000 n '') @ line ''trailer''
     @ line (''<< /Size '' @ decimal entries @ '' /Prev '' @ decimal previous_xref @ '' /Root '' @ root_ref
         @ '' /Info '' @ decimal n @ '' 0 R >>'')
     @ line ''startxref'' @ line (decimal xref_offset) @ line ''%%EOF''"

text \<open>The trailer: looked for from the old cross-reference on, then from the start.\<close>

definition find_trailer :: "string \<Rightarrow> nat \<Rightarrow> nat option option" where
  "find_trailer txt previous_xref =
     (let from_pos = min previous_xref (length txt) in
      map_option (\<lambda>rest. case find_str rest ''trailer'' of
          Some k \<Rightarrow> Some (from_pos + k) | None \<Rightarrow> find_str txt ''trailer'')
        (str_slice txt from_pos (length txt)))"

definition updated_pdf ::
    "string \<Rightarrow> string \<Rightarrow> nat \<Rightarrow> string \<Rightarrow> string \<Rightarrow> anole_error + string" where
  "updated_pdf bytes trailer previous_xref root_ref entries =
     (let n = sat_add (max_object_number bytes) 1;
          sz = max (sat_add (max_object_number bytes) 2) (parse_trailer_size trailer);
          object_offset = length bytes + 1;
          obj = info_object n entries
      in res_bind (ensure (entries \<noteq> []) (execute_input_error ''PDF metadata update carries no fields'')) (\<lambda>_.
         Inr (line bytes @ obj @ info_xref n object_offset sz previous_xref root_ref (object_offset + length obj))))"

definition apply_pdf_metadata ::
    "(string \<Rightarrow> bool) \<Rightarrow> string \<Rightarrow> string option \<Rightarrow> string option \<Rightarrow> (anole_error + string) option" where
  "apply_pdf_metadata numeric bytes title author =
     (let txt = from_utf8_lossy bytes in
      case last_startxref_offset bytes of
        None \<Rightarrow> Some (Inl (execute_input_error ''PDF has no startxref marker for an incremental update''))
      | Some previous_xref \<Rightarrow>
          map_option (\<lambda>found.
            res_bind (ok_or (execute_input_error ''PDF trailer could not be located'') found) (\<lambda>k.
            res_bind (ok_or (execute_input_error ''PDF trailer carries no /Root reference'')
              (indirect_reference numeric (drop k txt) ''/Root'')) (\<lambda>root_ref.
            updated_pdf bytes (drop k txt) previous_xref root_ref
              (info_entry ''/Title'' title @ info_entry ''/Author'' author))))
            (find_trailer txt previous_xref))"

section \<open>The page with the watermark\<close>

text \<open>The numbers of the page, as \<open>format!\<close> prints them with five or two digits after the point.\<close>

record watermark_numbers =
  wm_cos :: string
  wm_sin :: string
  wm_neg_sin :: string
  wm_center_x :: string
  wm_center_y :: string
  wm_text_x :: string
  wm_text_y :: string
  wm_width :: string
  wm_height :: string

definition watermark_content :: "watermark_numbers \<Rightarrow> string \<Rightarrow> string" where
  "watermark_content w txt =
     line ''q''
     @ line (wm_cos w @ '' '' @ wm_sin w @ '' '' @ wm_neg_sin w @ '' '' @ wm_cos w @ '' '' @ wm_center_x w
         @ '' '' @ wm_center_y w @ '' cm'')
     @ line ''/Gs0 gs'' @ line ''0.5 g'' @ line ''BT'' @ line ''/F1 36 Tf''
     @ line (''1 0 0 1 '' @ wm_text_x w @ '' '' @ wm_text_y w @ '' Td'')
     @ line (''('' @ escape_pdf_text txt @ '') Tj'') @ line ''ET'' @ line ''Q''"

definition watermark_objects :: "watermark_numbers \<Rightarrow> string \<Rightarrow> string list" where
  "watermark_objects w content =
     [''<< /Type /Catalog /Pages 2 0 R >>'',
      ''<< /Type /Pages /Kids [3 0 R] /Count 1 >>'',
      ''<< /Type /Page /Parent 2 0 R /MediaBox [0 0 '' @ wm_width w @ '' '' @ wm_height w
        @ ''] /Resources << /Font << /F1 5 0 R >> /ExtGState << /Gs0 6 0 R >> >> /Contents 4 0 R >>'',
      line (''<< /Length '' @ decimal (length content) @ '' >>'') @ line ''stream'' @ content @ ''endstream'',
      ''<< /Type /Font /Subtype /Type1 /BaseFont /Helvetica-Bold >>'',
      ''<< /Type /ExtGState /ca 0.18 /CA 0.18 >>'']"

definition pdf_header :: string where
  "pdf_header = line ''%PDF-1.4'' @ line [CHR ''%'', CHR 0xE2, CHR 0xE3, CHR 0xCF, CHR 0xD3]"

text \<open>The loop over the objects: the bytes so far and the offsets.\<close>

fun append_objects :: "nat \<Rightarrow> string list \<Rightarrow> string \<times> nat list \<Rightarrow> string \<times> nat list" where
  "append_objects i [] s = s"
| "append_objects i (x # xs) (bytes, offsets) =
     append_objects (Suc i) xs
       (bytes @ line (decimal (i + 1) @ '' 0 obj'') @ line x @ line ''endobj'', offsets @ [length bytes])"

definition build_watermark_pdf ::
    "(rat \<Rightarrow> rat \<Rightarrow> nat \<Rightarrow> int \<Rightarrow> watermark_numbers) \<Rightarrow> rat \<Rightarrow> rat \<Rightarrow> string \<Rightarrow> int \<Rightarrow> string" where
  "build_watermark_pdf numbers w h txt angle =
     (let ns = numbers w h (min (chars_count txt) u16_max) angle;
          objects = watermark_objects ns (watermark_content ns txt);
          (body, offsets) = append_objects 0 objects (pdf_header, [])
      in body @ line ''xref'' @ line (''0 '' @ decimal (length objects + 1)) @ line ''0000000000 65535 f ''
         @ concat (map (\<lambda>k. line (pad10 k @ '' 00000 n '')) offsets)
         @ line ''trailer'' @ line (''<< /Size '' @ decimal (length objects + 1) @ '' /Root 1 0 R >>'')
         @ line ''startxref'' @ line (decimal (length body)) @ line ''%%EOF'')"

section \<open>Text of the watermark in the output\<close>

definition is_whitespace_char :: "string \<Rightarrow> bool" where
  "is_whitespace_char c = (c \<in> set white_space)"

definition normalized_watermark_text :: "string \<Rightarrow> string" where
  "normalized_watermark_text txt =
     concat (map to_ascii_lowercase (filter (\<lambda>c. \<not> is_whitespace_char c) (chars_of txt)))"

fun remove_present :: "string list \<Rightarrow> string list \<Rightarrow> bool" where
  "remove_present remaining [] = (remaining = [])"
| "remove_present remaining (c # cs) =
     (let rest = remove1 c remaining in rest = [] \<or> remove_present rest cs)"

definition watermark_chars_present :: "string \<Rightarrow> string \<Rightarrow> bool" where
  "watermark_chars_present wanted extracted =
     remove_present (chars_of (normalized_watermark_text wanted)) (chars_of (normalized_watermark_text extracted))"

definition add_report_check :: "validation_check \<Rightarrow> validation_report \<Rightarrow> validation_report" where
  "add_report_check c r = r\<lparr>report_status := worst (report_status r) (check_status c), checks := checks r @ [c]\<rparr>"

definition append_watermark_text_check ::
    "validation_report \<Rightarrow> string \<Rightarrow> string \<Rightarrow> validation_report" where
  "append_watermark_text_check r wanted extracted =
     (let e = normalized_watermark_text extracted; w = normalized_watermark_text wanted;
          present = (contains_str e w \<or> watermark_chars_present w e)
      in add_report_check (check ''PDF_OPS_WATERMARK_TEXT'' (pass_or_fail present) True (JStr wanted) (JBool present)
           ''Poppler pdftotext'' ''Every-page text extraction must contain the watermark text.'') r)"

section \<open>Acceptance\<close>

text \<open>The ratio in thousandths, at most \<open>u32::MAX\<close>; \<open>as_ratio\<close> is its \<open>f64\<close> quotient by a thousand.\<close>

definition compression_check :: "(nat \<Rightarrow> rat) \<Rightarrow> probe \<Rightarrow> probe \<Rightarrow> validation_check" where
  "compression_check as_ratio input output =
     (let ratio = min (sat_mul (size_bytes (artifact output)) 1000 div max (size_bytes (artifact input)) 1) u32_max
      in check ''PDF_COMPRESSION_RATIO'' (if ratio \<le> 1000 then Pass else Warn) False (JStr ''<= 1.0'')
           (JFloat (as_ratio ratio)) ''input/output byte sizes''
           ''Compressed output bytes divided by input bytes (report-only).'')"

definition validate_pdf_ops_output ::
    "(nat \<Rightarrow> rat) \<Rightarrow> uuid \<Rightarrow> probe \<Rightarrow> probe \<Rightarrow> plan \<Rightarrow> uuid \<Rightarrow> nat \<Rightarrow> validation_report" where
  "validate_pdf_ops_output as_ratio fresh input output p job pages =
     adapter_report fresh (summary_of input) (summary_of output) p job
       ([check ''PDF_OPS_OPENS'' Pass True (JBool True) (JBool True) ''Poppler pdfinfo''
           ''pdfinfo opened the operation output.'',
         check ''PDF_OPS_PAGE_COUNT'' (pass_or_fail (page_count output = pages)) True (JInt (int pages))
           (JInt (int (length (streams output)))) ''Poppler pdfinfo''
           ''Measured output page count equals the planned conservation.'']
        @ (case steps p of
             st # _ \<Rightarrow> if argument st ''operation'' = Some ''pdf-compress'' then [compression_check as_ratio input output] else []
           | [] \<Rightarrow> []))"

definition metadata_check :: "string \<Rightarrow> string \<Rightarrow> string option \<Rightarrow> validation_check" where
  "metadata_check c wanted seen =
     check c (pass_or_fail (case seen of None \<Rightarrow> False | Some v \<Rightarrow> trim v = trim wanted)) True (JStr wanted)
       (case seen of None \<Rightarrow> JNull | Some v \<Rightarrow> JStr v) ''Poppler pdfinfo''
       ''pdfinfo must report the metadata value the Plan set.''"

definition append_metadata_check ::
    "plan \<Rightarrow> validation_report \<Rightarrow> string \<times> string \<times> string option \<Rightarrow> validation_report" where
  "append_metadata_check p r entry =
     (case entry of (c, arg, seen) \<Rightarrow>
       (case steps p of
          [] \<Rightarrow> r
        | st # _ \<Rightarrow> (case argument st arg of None \<Rightarrow> r | Some wanted \<Rightarrow> add_report_check (metadata_check c wanted seen) r)))"

definition append_metadata_checks ::
    "validation_report \<Rightarrow> plan \<Rightarrow> string option \<Rightarrow> string option \<Rightarrow> validation_report" where
  "append_metadata_checks r p title author =
     foldl (append_metadata_check p) r
       [(''PDF_METADATA_TITLE'', ''metadata_title'', title), (''PDF_METADATA_AUTHOR'', ''metadata_author'', author)]"

definition validate_pdf_encrypt_output ::
    "uuid \<Rightarrow> probe \<Rightarrow> artifact_identity \<Rightarrow> plan \<Rightarrow> uuid \<Rightarrow> bool \<Rightarrow> validation_report" where
  "validate_pdf_encrypt_output fresh input out p job encrypted =
     adapter_report fresh (summary_of input)
       \<lparr>sum_display_path = Some (display_path out), sum_format_id = ''pdf'', sum_size_bytes = size_bytes out,
        sum_fast_fingerprint = fast_fingerprint out, sum_full_blake3 = full_blake3 out\<rparr> p job
       [check ''PDF_ENCRYPTED'' (pass_or_fail encrypted) True (JBool True) (JBool encrypted)
          ''Poppler pdfinfo rejected the output without a password'' ''pdfinfo must fail to open the encrypted output.'',
        check ''PDF_OPS_OUTPUT_EXISTS'' Pass True (JBool True) (JBool True) ''post-execution file check''
          ''qpdf exited successfully and wrote the output file.'']"

end
