(* ===== verification/Pdf_Lanes.thy ===== *)
theory Pdf_Lanes
  imports Pdf_Output Adapter_Run Validation "HOL-Library.List_Lexorder"
begin

text \<open>
  The PDF lanes of \<open>crates/core/src/runner.rs\<close>: the qpdf operations, the update of the document
  information and the rendering of pages, with the acceptance of a page directory
  (\<open>validate_pdf_render\<close> of \<open>pdf.rs\<close>). Recognition of text (\<open>pdf-ocr\<close>) is a parameter.
\<close>

section \<open>What the lanes ask other programs\<close>

text \<open>
  \<open>pdfinfo\<close> as an engine, the inspection of a PDF by it, the title and author it reports, the text
  layer, the identity of a file, the bytes of the input, and the temporary file of a watermark.
\<close>

record pdf_world =
  pw_pdfinfo :: "anole_error + engine_identity"
  pw_inspect :: "string \<Rightarrow> fs \<Rightarrow> anole_error + probe"
  pw_document_metadata :: "string \<Rightarrow> fs \<Rightarrow> anole_error + string option \<times> string option"
  pw_text_layer :: "string \<Rightarrow> fs \<Rightarrow> anole_error + string"
  pw_identify :: "string \<Rightarrow> fs \<Rightarrow> anole_error + artifact_identity"
  pw_read :: "string \<Rightarrow> fs \<Rightarrow> string option"
  pw_write :: "string \<Rightarrow> string \<Rightarrow> fs \<Rightarrow> bool \<times> fs"
  pw_stage_stamp :: "string \<Rightarrow> anole_error + string"
  pw_numeric :: "string \<Rightarrow> bool"
  pw_numbers :: "rat \<Rightarrow> rat \<Rightarrow> nat \<Rightarrow> int \<Rightarrow> watermark_numbers"
  pw_ratio :: "nat \<Rightarrow> rat"

section \<open>Commands of qpdf\<close>

definition merge_inputs :: "plan_step \<Rightarrow> anole_error + string list" where
  "merge_inputs st =
     res_bind (ok_or invalid_plan_argument (argument st ''inputs'')) (\<lambda>v.
     let paths = split_on (\<lambda>c. c = CHR '';'') v in
     res_bind (ensure (2 \<le> length paths) invalid_plan_argument) (\<lambda>_. Inr paths))"

definition rotation_argument :: "plan_step \<Rightarrow> anole_error + string" where
  "rotation_argument st =
     res_bind (checked_argument st ''angle'' [''90'', ''180'', ''270'']) (\<lambda>angle.
     let pages = (case argument st ''pages'' of None \<Rightarrow> [] | Some v \<Rightarrow> v) in
     Inr (''--rotate=+'' @ angle @ (if pages = [] then [] else CHR '':'' # pages)))"

text \<open>The arguments before the output; a password is taken out of the store.\<close>

definition pdf_ops_command ::
    "plan_step \<Rightarrow> string \<Rightarrow> string \<Rightarrow> uuid \<Rightarrow> string option \<Rightarrow> pdf_secrets
     \<Rightarrow> (anole_error + string list) \<times> pdf_secrets" where
  "pdf_ops_command st input_path operation plan_uuid stamp secrets =
     (if operation = ''pdf-merge''
      then (res_bind (merge_inputs st) (\<lambda>paths.
              Inr ([''--empty'', ''--pages''] @ concat (map (\<lambda>p. [p, ''1-z'']) paths))), secrets)
      else if operation = ''pdf-extract''
      then (res_bind (ok_or invalid_plan_argument (argument st ''page_range'')) (\<lambda>spec.
              Inr [''--empty'', ''--pages'', input_path, spec]), secrets)
      else if operation = ''pdf-rotate''
      then (res_bind (rotation_argument st) (\<lambda>rotation. Inr [input_path, rotation]), secrets)
      else if operation = ''pdf-compress''
      then (Inr [input_path, ''--compress-streams=y'', ''--object-streams=generate'', ''--recompress-flate'',
              ''--compression-level=9''], secrets)
      else if operation = ''pdf-watermark''
      then (res_bind (ok_or invalid_plan_argument stamp) (\<lambda>s.
              Inr [input_path, ''--overlay'', s, ''--repeat=1-z'']), secrets)
      else if operation \<in> {''pdf-encrypt'', ''pdf-decrypt''}
      then (case take_pdf_secret plan_uuid secrets of
              (None, rest) \<Rightarrow> (Inl invalid_plan_argument, rest)
            | (Some w, rest) \<Rightarrow>
                (Inr (if operation = ''pdf-encrypt''
                      then [input_path, ''--encrypt'', w, w, ''256'', ''--print=full'', ''--modify=none'']
                      else [''--password='' @ w, ''--decrypt'', input_path]), rest))
      else (Inl invalid_plan_argument, secrets))"

section \<open>Ending a run\<close>

text \<open>Without \<open>pdfinfo\<close> the run ends before the acceptance, and what is staged stays.\<close>

definition finish_with_pdfinfo ::
    "'a lane_world_scheme \<Rightarrow> pdf_world \<Rightarrow> probe \<Rightarrow> string \<Rightarrow> string
     \<Rightarrow> (fs \<Rightarrow> anole_error + validation_report) \<Rightarrow> string \<Rightarrow> fs \<Rightarrow> lane_run" where
  "finish_with_pdfinfo W P input out work accept rejected f =
     (case pw_pdfinfo P of
        Inr _ \<Rightarrow> finish_run W input out work work accept id rejected ''The PDF destination appeared while running'' f
      | Inl missing \<Rightarrow>
          (case observer_error W of
             Some e \<Rightarrow> give_up W work e f
           | None \<Rightarrow>
               (let f1 = others W AtFinish f in
                case ensure_input_unchanged W AtFinish input Commit of
                  Inl e \<Rightarrow> give_up W work e f1
                | Inr _ \<Rightarrow> (Inl missing, f1))))"

definition validate_pdf_operation_output ::
    "pdf_world \<Rightarrow> uuid \<Rightarrow> probe \<Rightarrow> plan \<Rightarrow> uuid \<Rightarrow> string \<Rightarrow> nat \<Rightarrow> string \<Rightarrow> fs
     \<Rightarrow> anole_error + validation_report" where
  "validate_pdf_operation_output P fresh input p job operation pages work f =
     (if operation = ''pdf-encrypt''
      then res_bind (pw_identify P work f) (\<lambda>seen.
           Inr (validate_pdf_encrypt_output fresh input seen p job (isl (pw_inspect P work f))))
      else res_bind (pw_inspect P work f) (\<lambda>output.
           let report = validate_pdf_ops_output (pw_ratio P) fresh input output p job pages in
           if operation = ''pdf-watermark''
           then res_bind (ok_or invalid_plan_argument
                  (Option.bind (case steps p of [] \<Rightarrow> None | st # _ \<Rightarrow> Some st) (\<lambda>st. argument st ''watermark_text'')))
                (\<lambda>wanted.
                res_bind (pw_text_layer P work f) (\<lambda>extracted.
                Inr (append_watermark_text_check report wanted extracted)))
           else Inr report))"

section \<open>The qpdf lane\<close>

definition pdf_operations :: "string list" where
  "pdf_operations =
     [''pdf-merge'', ''pdf-extract'', ''pdf-rotate'', ''pdf-compress'', ''pdf-encrypt'', ''pdf-decrypt'',
      ''pdf-watermark'', ''pdf-ocr'', ''pdf-metadata'']"

text \<open>\<open>str::parse::<i16>\<close> and the stamp of a watermark, laid out on the first page.\<close>

definition parse_i16 :: "string \<Rightarrow> int option" where
  "parse_i16 s = Option.bind (parse_i32 s) (\<lambda>i. if - 32768 \<le> i \<and> i \<le> 32767 then Some i else None)"

definition watermark_stamp :: "pdf_world \<Rightarrow> plan_step \<Rightarrow> probe \<Rightarrow> string \<Rightarrow> anole_error + string option" where
  "watermark_stamp P st input operation =
     (if operation \<noteq> ''pdf-watermark'' then Inr None
      else
        res_bind (ok_or invalid_plan_argument (argument st ''watermark_text'')) (\<lambda>stamp.
        res_bind (ok_or invalid_plan_argument (Option.bind (argument st ''watermark_angle'') parse_i16)) (\<lambda>angle.
        res_bind (ok_or invalid_plan_argument (case streams input of [] \<Rightarrow> None | s # _ \<Rightarrow> Some s)) (\<lambda>page.
        res_bind (ok_or invalid_plan_argument (Option.bind (properties page ''width_points'') json_as_f64)) (\<lambda>w.
        res_bind (ok_or invalid_plan_argument (Option.bind (properties page ''height_points'') json_as_f64)) (\<lambda>h.
        res_bind (pw_stage_stamp P (build_watermark_pdf (pw_numbers P) w h stamp angle)) (\<lambda>path. Inr (Some path))))))))"

definition run_qpdf :: "'a lane_world_scheme \<Rightarrow> string list \<Rightarrow> string \<Rightarrow> fs \<Rightarrow> (anole_error + unit) \<times> fs" where
  "run_qpdf W cmd work f =
     (case engine_run W cmd f of
        (NotStarted, f1) \<Rightarrow> (Inl (anole_error_new EngineIncompatible Execute ''Unable to start qpdf''), f1)
      | (WaitFailed, f1) \<Rightarrow> (Inl (execution_failed ''Unable to wait for qpdf''), f1)
      | (Stopped, f1) \<Rightarrow>
          (Inl (anole_error_new Cancelled_code Execute ''PDF operation was cancelled''), cleanup_partial W work f1)
      | (Exited ok, f1) \<Rightarrow>
          if \<not> ok then (Inl (execution_failed ''qpdf exited with status {status}''), cleanup_partial W work f1)
          else if \<not> is_file f1 work
          then (Inl (execution_failed ''qpdf produced no PDF output''), cleanup_partial W work f1)
          else (Inr (), f1))"

definition accept_metadata ::
    "pdf_world \<Rightarrow> uuid \<Rightarrow> probe \<Rightarrow> plan \<Rightarrow> uuid \<Rightarrow> nat \<Rightarrow> string \<Rightarrow> fs \<Rightarrow> anole_error + validation_report" where
  "accept_metadata P fresh input p job pages work f =
     res_bind (pw_inspect P work f) (\<lambda>output.
     res_bind (pw_document_metadata P work f) (\<lambda>(title, author).
     Inr (append_metadata_checks (validate_pdf_ops_output (pw_ratio P) fresh input output p job pages) p title author)))"

text \<open>The worker reads the input, appends the update and writes the partial file; \<open>None\<close> is its panic.\<close>

definition write_metadata ::
    "pdf_world \<Rightarrow> probe \<Rightarrow> string option \<Rightarrow> string option \<Rightarrow> string \<Rightarrow> fs \<Rightarrow> (anole_error + unit) \<times> fs" where
  "write_metadata P input title author work f =
     (case pw_read P (canonical_path (artifact input)) f of
        None \<Rightarrow> (Inl (execute_input_error ''Unable to read the PDF input''), f)
      | Some bytes \<Rightarrow>
          (case apply_pdf_metadata (pw_numeric P) bytes title author of
             None \<Rightarrow> (Inl (anole_error_new Internal Execute ''PDF metadata worker failed''), f)
           | Some (Inl e) \<Rightarrow> (Inl e, f)
           | Some (Inr updated) \<Rightarrow>
               (case pw_write P work updated f of
                  (True, f1) \<Rightarrow> (Inr (), f1)
                | (False, f1) \<Rightarrow>
                    (Inl (anole_error_new StorageFailed Execute ''Unable to write the metadata-revised PDF''), f1))))"

definition execute_pdf_metadata ::
    "'a lane_world_scheme \<Rightarrow> pdf_world \<Rightarrow> probe \<Rightarrow> plan \<Rightarrow> plan_step \<Rightarrow> uuid \<Rightarrow> string \<Rightarrow> string \<Rightarrow> nat \<Rightarrow> fs
     \<Rightarrow> lane_run" where
  "execute_pdf_metadata W P input p st job out work pages f =
     (let title = argument st ''metadata_title''; author = argument st ''metadata_author'' in
      if title = None \<and> author = None then (Inl invalid_plan_argument, f)
      else case write_metadata P input title author work f of
        (Inl e, f1) \<Rightarrow> (Inl e, f1)
      | (Inr _, f1) \<Rightarrow>
          if \<not> is_file f1 work
          then give_up W work (execution_failed ''PDF metadata update produced no output'') f1
          else if is_cancelled W
          then give_up W work (anole_error_new Cancelled_code Execute ''PDF metadata update was cancelled'') f1
          else finish_with_pdfinfo W P input out work
                 (accept_metadata P (fresh_report W) input p job pages work)
                 ''PDF metadata output failed validation'' f1)"

definition pdf_step :: "plan \<Rightarrow> anole_error + plan_step \<times> string \<times> nat" where
  "pdf_step p =
     res_bind (first_step p) (\<lambda>st.
     res_bind (checked_argument st ''operation'' pdf_operations) (\<lambda>operation.
     res_bind (ok_or invalid_plan_argument (Option.bind (argument st ''expected_pages'') (parse_uint u32_max))) (\<lambda>pages.
     Inr (st, operation, pages))))"

definition execute_pdf_ops_plan ::
    "'a lane_world_scheme \<Rightarrow> pdf_world \<Rightarrow> (string \<Rightarrow> string \<Rightarrow> nat \<Rightarrow> fs \<Rightarrow> lane_run) \<Rightarrow> probe \<Rightarrow> plan \<Rightarrow> uuid
     \<Rightarrow> string \<Rightarrow> string \<Rightarrow> fs \<times> pdf_secrets \<Rightarrow> (anole_error + execution_result) \<times> fs \<times> pdf_secrets" where
  "execute_pdf_ops_plan W P ocr input p job out work s =
     (case (pdf_step p, s) of
        (Inl e, _) \<Rightarrow> (Inl e, s)
      | (Inr (st, operation, pages), (f, secrets)) \<Rightarrow>
          if operation = ''pdf-metadata''
          then (case execute_pdf_metadata W P input p st job out work pages f of (r, f1) \<Rightarrow> (r, f1, secrets))
          else if operation = ''pdf-ocr''
          then (case ocr out work pages f of (r, f1) \<Rightarrow> (r, f1, secrets))
          else case watermark_stamp P st input operation of
            Inl e \<Rightarrow> (Inl e, s)
          | Inr stamp \<Rightarrow>
              (case pdf_ops_command st (canonical_path (artifact input)) operation (plan_id p) stamp secrets of
                 (Inl e, rest) \<Rightarrow> (Inl e, f, rest)
               | (Inr args, rest) \<Rightarrow>
                   (case run_qpdf W (binary_path (engine st) # args @ [''--'', work]) work f of
                      (Inl e, f1) \<Rightarrow> (Inl e, f1, rest)
                    | (Inr _, f1) \<Rightarrow>
                        (case finish_with_pdfinfo W P input out work
                                (validate_pdf_operation_output P (fresh_report W) input p job operation pages work)
                                ''PDF operation output failed validation'' f1 of
                           (r, f2) \<Rightarrow> (r, f2, rest)))))"

section \<open>The acceptance of a page directory\<close>

definition pad6 :: "nat \<Rightarrow> string" where
  "pad6 n = replicate (6 - length (decimal n)) CHR ''0'' @ decimal n"

definition page_path :: "string \<Rightarrow> string \<Rightarrow> nat \<Rightarrow> string" where
  "page_path dir ext n = path_join dir (''page-'' @ pad6 n @ CHR ''.'' # ext)"

definition exact_page_paths ::
    "'a lane_world_scheme \<Rightarrow> string \<Rightarrow> nat \<Rightarrow> string \<Rightarrow> fs \<Rightarrow> anole_error + string list" where
  "exact_page_paths W dir n ext f =
     res_bind (ensure (is_dir f dir) (anole_error_new ExecutionFailed Validate
       ''PDF renderer did not produce a page directory'')) (\<lambda>_.
     res_bind (ok_or pdf_storage_error (list_dir W dir f)) (\<lambda>listed.
     let wanted = map (page_path dir ext) [1..<Suc n] in
     res_bind (ensure (sort_key (map byte_of) listed = wanted \<and> list_all (is_file f) wanted)
       (anole_error_new ValidationFailed Validate
         ''Rendered page directory is incomplete or contains unexpected entries'')) (\<lambda>_. Inr wanted)))"

record pixel_audit =
  grayscale :: bool
  opaque :: bool
  sample_count :: nat

definition near :: "nat \<Rightarrow> nat \<Rightarrow> bool" where
  "near a b = (a \<le> b + 2 \<and> b \<le> a + 2)"

text \<open>The decoded pixels of a page, row by row; every \<open>step\<close>-th of them is looked at.\<close>

definition every_nth :: "nat \<Rightarrow> 'a list \<Rightarrow> 'a list" where
  "every_nth k xs = map (\<lambda>i. xs ! (i * k)) [0..<(length xs + k - 1) div k]"

definition audit_pixels :: "nat \<Rightarrow> nat \<Rightarrow> (nat \<times> nat \<times> nat \<times> nat) list \<Rightarrow> pixel_audit" where
  "audit_pixels w h pixels =
     (let seen = every_nth (max (sat_mul w h div 16384) 1) pixels in
      \<lparr>grayscale = list_all (\<lambda>(r, g, b, a). near r g \<and> near g b \<and> near r b) seen,
       opaque = list_all (\<lambda>(r, g, b, a). a = u8_max) seen, sample_count = length seen\<rparr>)"

definition page_pixel_format :: "probe \<Rightarrow> string option" where
  "page_pixel_format p =
     Option.bind (case streams p of [] \<Rightarrow> None | s # _ \<Rightarrow> Some s)
       (\<lambda>s. Option.bind (properties s ''pix_fmt'') as_str)"

definition plan_u32_constraint :: "plan \<Rightarrow> string \<Rightarrow> anole_error + nat" where
  "plan_u32_constraint p k =
     ok_or pdf_invalid_plan (Option.bind (Option.bind (map_of (constraints p) k) as_u64)
       (\<lambda>n. if n \<le> u32_max then Some n else None))"

definition optional_number :: "nat option \<Rightarrow> json" where
  "optional_number x = (case x of None \<Rightarrow> JNull | Some n \<Rightarrow> JInt (int n))"

definition image_dimensions :: "probe \<Rightarrow> json" where
  "image_dimensions p =
     (case streams p of
        [] \<Rightarrow> JArr [JNull, JNull]
      | s # _ \<Rightarrow> JArr [optional_number (stream_width s), optional_number (stream_height s)])"

definition render_check :: "string \<Rightarrow> bool \<Rightarrow> json \<Rightarrow> json \<Rightarrow> string \<Rightarrow> validation_check" where
  "render_check c ok e obs ev =
     check c (pass_or_fail ok) True e obs ev
       (if ok then ''Required PDF render invariant passed.'' else ''Required PDF render invariant failed.'')"

definition color_check :: "string \<Rightarrow> pixel_audit list \<Rightarrow> probe list \<Rightarrow> validation_check" where
  "color_check color audits probes =
     render_check ''PDF_COLOR_MODE'' (color = ''rgb'' \<or> list_all grayscale audits) (JStr color)
       (JObj [(''decoded_content'', json_strings (map (\<lambda>a. if grayscale a then ''gray'' else ''color'') audits)),
         (''encoded_pixel_formats'', json_strings (map (\<lambda>p. case page_pixel_format p of None \<Rightarrow> ''unknown'' | Some v \<Rightarrow> v) probes)),
         (''sample_counts'', JArr (map (\<lambda>a. JInt (int (sample_count a))) audits))])
       ''Bounded native pixel samples plus encoded pixel formats for every page.''"

definition render_report_checks ::
    "string \<Rightarrow> nat \<Rightarrow> json list \<Rightarrow> string \<Rightarrow> string list \<Rightarrow> probe list \<Rightarrow> pixel_audit list \<Rightarrow> validation_check list" where
  "render_report_checks target n dims color paths probes audits =
     (let formats = map (\<lambda>p. format_id (format p)) probes; seen = map image_dimensions probes;
          all_opaque = list_all opaque audits
      in [render_check ''PDF_PAGE_COUNT'' (length paths = n) (JInt (int n)) (JInt (int (length paths)))
            ''Exact files in the staged page directory.'',
          render_check ''PDF_EACH_PAGE_OPENS'' (length probes = n) (JInt (int n)) (JInt (int (length probes)))
            ''Every page was independently opened by ffprobe.'',
          render_check ''PDF_PAGE_FORMAT'' (list_all (\<lambda>x. x = target) formats) (json_strings (replicate n target))
            (json_strings formats) ''Header-first detected format for every rendered page.'',
          render_check ''PDF_PAGE_DIMENSIONS'' (seen = dims) (JArr dims) (JArr seen)
            ''Per-page pixel dimensions derived from points and selected DPI.'',
          color_check color audits probes,
          render_check ''PDF_ALPHA_POLICY'' all_opaque (JStr ''opaque'')
            (JStr (if all_opaque then ''opaque'' else ''alpha-present''))
            ''The declared opaque-white page background policy.''])"

text \<open>\<open>decode\<close> opens an image within its limits, \<open>blake3\<close> hashes bytes.\<close>

definition add_engine :: "engine_identity list \<Rightarrow> engine_identity \<Rightarrow> engine_identity list" where
  "add_engine es e =
     (if list_ex (\<lambda>x. engine_id x = engine_id e \<and> binary_sha256 x = binary_sha256 e) es then es else es @ [e])"

definition page_set_summary :: "(string \<Rightarrow> string) \<Rightarrow> string \<Rightarrow> string \<Rightarrow> probe list \<Rightarrow> artifact_summary" where
  "page_set_summary blake3 dir target probes =
     \<lparr>sum_display_path = Some (from_utf8_lossy dir), sum_format_id = target @ ''-page-set'',
      sum_size_bytes = foldl sat_add 0 (map (\<lambda>p. size_bytes (artifact p)) probes),
      sum_fast_fingerprint = ''fwpages-v1:'' @ blake3 (''anole-pdf-page-set-v1'' @ target
        @ concat (map (\<lambda>p. fast_fingerprint (artifact p)) probes)),
      sum_full_blake3 = None\<rparr>"

definition validate_pdf_render ::
    "'a lane_world_scheme \<Rightarrow> (string \<Rightarrow> fs \<Rightarrow> anole_error + nat \<times> nat \<times> (nat \<times> nat \<times> nat \<times> nat) list)
     \<Rightarrow> (string \<Rightarrow> string) \<Rightarrow> probe \<Rightarrow> string \<Rightarrow> plan \<Rightarrow> engine_identity \<Rightarrow> uuid \<Rightarrow> fs
     \<Rightarrow> anole_error + validation_report" where
  "validate_pdf_render W decode blake3 input dir p ffprobe job f =
     res_bind (ensure (target_format p \<in> {''png'', ''jpeg''}) pdf_invalid_plan) (\<lambda>_.
     res_bind (plan_u32_constraint p ''page_count'') (\<lambda>n.
     res_bind (ok_or pdf_invalid_plan (Option.bind (map_of (constraints p) ''expected_dimensions'') as_array)) (\<lambda>dims.
     res_bind (ok_or pdf_invalid_plan (Option.bind (Option.bind (map_of (constraints p) ''color_mode'') as_str)
       (\<lambda>c. if c \<in> {''rgb'', ''gray''} then Some c else None))) (\<lambda>color.
     res_bind (exact_page_paths W dir n (if target_format p = ''jpeg'' then ''jpg'' else ''png'') f) (\<lambda>paths.
     res_bind (res_mapM (\<lambda>x. inspect_output W x f) paths) (\<lambda>probes.
     res_bind (res_mapM (\<lambda>x. res_bind (decode x f) (\<lambda>(w, h, pixels). Inr (audit_pixels w h pixels))) paths) (\<lambda>audits.
     Inr ((adapter_report (fresh_report W) (summary_of input)
         (page_set_summary blake3 dir (target_format p) probes) p job
         (render_report_checks (target_format p) n dims color paths probes audits))
       \<lparr>report_engines := add_engine (map engine (steps p)) ffprobe\<rparr>))))))))"

section \<open>The rendering lane\<close>

definition rename_over :: "'a os_world_scheme \<Rightarrow> string \<Rightarrow> string \<Rightarrow> fs \<Rightarrow> (anole_error + unit) \<times> fs" where
  "rename_over W src dst f =
     (if f src = None \<or> \<not> os_rename W src dst f
      then (Inl (anole_error_new StorageFailed Execute ''Unable to normalize rendered pages in {}''), f)
      else (Inr (), move_tree src dst f))"

fun rename_all :: "'a os_world_scheme \<Rightarrow> (string \<times> string) list \<Rightarrow> fs \<Rightarrow> (anole_error + unit) \<times> fs" where
  "rename_all W [] f = (Inr (), f)"
| "rename_all W ((src, dst) # rest) f =
     (case rename_over W src dst f of (Inl e, f1) \<Rightarrow> (Inl e, f1) | (Inr _, f1) \<Rightarrow> rename_all W rest f1)"

definition rendered_error :: "string \<Rightarrow> anole_error" where
  "rendered_error m = anole_error_new ValidationFailed Validate m"

definition strip_prefix :: "string \<Rightarrow> string \<Rightarrow> string option" where
  "strip_prefix p s = (if starts_with s p then Some (drop (length p) s) else None)"

text \<open>The stem of a file name, as far as it is Unicode.\<close>

definition unicode_stem :: "string \<Rightarrow> string option" where
  "unicode_stem p =
     Option.bind (file_name p) (\<lambda>n.
     let stem = (case extension p of None \<Rightarrow> n | Some e \<Rightarrow> take (length n - Suc (length e)) n)
     in if from_utf8 stem then Some stem else None)"

definition page_number :: "nat \<Rightarrow> string \<Rightarrow> nat option" where
  "page_number n p =
     Option.bind (Option.bind (Option.bind (unicode_stem p) (strip_prefix ''page-'')) (parse_uint u32_max))
       (\<lambda>k. if in_range 1 n k then Some k else None)"

definition collect_page ::
    "string \<Rightarrow> nat \<Rightarrow> fs \<Rightarrow> (nat \<times> string) list \<Rightarrow> string \<Rightarrow> anole_error + (nat \<times> string) list" where
  "collect_page ext n f pages p =
     res_bind (ensure (is_file f p \<and> map_option to_ascii_lowercase (Option.bind (extension p)
         (\<lambda>e. if from_utf8 e then Some e else None)) = Some ext)
       (rendered_error ''pdftoppm produced an unexpected page-directory entry'')) (\<lambda>_.
     res_bind (ok_or (rendered_error ''pdftoppm produced an unexpected page filename'') (page_number n p)) (\<lambda>k.
     res_bind (ensure (k \<notin> fst ` set pages) (rendered_error ''pdftoppm produced duplicate page numbers'')) (\<lambda>_.
     Inr (pages @ [(k, p)]))))"

definition temporary_page :: "string \<Rightarrow> string \<Rightarrow> nat \<Rightarrow> string" where
  "temporary_page dir ext k = path_join dir (''.anole-rename-'' @ pad6 k @ CHR ''.'' # ext)"

definition normalize_poppler_pages ::
    "'a lane_world_scheme \<Rightarrow> string \<Rightarrow> nat \<Rightarrow> string \<Rightarrow> fs \<Rightarrow> (anole_error + unit) \<times> fs" where
  "normalize_poppler_pages W dir n ext f =
     (case res_bind (ok_or (anole_error_new StorageFailed Execute ''Unable to normalize rendered pages in {}'')
             (list_dir W dir f)) (\<lambda>entries.
           res_bind (res_fold (collect_page ext n f) [] entries) (\<lambda>pages.
           res_bind (ensure (length pages = n) (rendered_error ''pdftoppm did not render every PDF page'')) (\<lambda>_.
           Inr (sort_key fst pages)))) of
        Inl e \<Rightarrow> (Inl e, f)
      | Inr pages \<Rightarrow>
          rename_all W (map (\<lambda>(k, p). (p, temporary_page dir ext k)) pages
            @ map (\<lambda>k. (temporary_page dir ext k, page_path dir ext k)) [1..<Suc n]) f)"

definition render_step :: "plan \<Rightarrow> anole_error + plan_step \<times> string \<times> nat \<times> string \<times> nat" where
  "render_step p =
     res_bind (first_step p) (\<lambda>st.
     res_bind (checked_argument st ''target_format'' [''png'', ''jpeg'']) (\<lambda>target.
     res_bind (checked_u32_argument st ''dpi'' 36 600) (\<lambda>dpi.
     res_bind (checked_argument st ''color_mode'' [''rgb'', ''gray'']) (\<lambda>color.
     res_bind (checked_u32_argument st ''page_count'' 1 10000) (\<lambda>n.
     res_bind (checked_argument st ''page_prefix'' [''page'']) (\<lambda>_.
     Inr (st, target, dpi, color, n)))))))"

text \<open>What follows the creation of the directory and is not cleaned up when it fails.\<close>

definition document_password ::
    "plan \<Rightarrow> plan_step \<Rightarrow> pdf_secrets \<Rightarrow> (anole_error + string option) \<times> pdf_secrets" where
  "document_password p st secrets =
     (case argument st ''password'' of
        None \<Rightarrow> (Inr None, secrets)
      | Some v \<Rightarrow>
          if v = ''[redacted]''
          then (case take_pdf_secret (plan_id p) secrets of
                  (None, rest) \<Rightarrow> (Inl (anole_error_new PolicyBlocked Execute
                    ''The PDF password is unavailable for this queued plan''), rest)
                | (Some w, rest) \<Rightarrow> (Inr (Some w), rest))
          else (Inl invalid_plan_argument, secrets))"

definition render_command ::
    "plan_step \<Rightarrow> string \<Rightarrow> nat \<Rightarrow> string \<Rightarrow> string option \<Rightarrow> string \<Rightarrow> string \<Rightarrow> anole_error + string list" where
  "render_command st target dpi color pw input_path pages =
     res_bind (if target = ''png''
               then res_bind (checked_argument st ''jpeg_quality'' [''not-applicable'']) (\<lambda>_. Inr [''-png''])
               else res_bind (checked_u32_argument st ''jpeg_quality'' 1 100) (\<lambda>q.
                    Inr [''-jpeg'', ''-jpegopt'', ''quality='' @ decimal q @ '',progressive=n,optimize=y''])) (\<lambda>quality.
     Inr ([binary_path (engine st), ''-r'', decimal dpi] @ (case pw of None \<Rightarrow> [] | Some w \<Rightarrow> [''-upw'', w])
       @ (if color = ''gray'' then [''-gray''] else []) @ quality @ [input_path, pages]))"

definition render_pages ::
    "'a lane_world_scheme \<Rightarrow> string list \<Rightarrow> string \<Rightarrow> nat \<Rightarrow> string \<Rightarrow> fs \<Rightarrow> (anole_error + unit) \<times> fs" where
  "render_pages W cmd work n ext f =
     (case engine_run W cmd f of
        (NotStarted, f1) \<Rightarrow>
          (Inl (anole_error_new EngineIncompatible Execute ''Unable to start pdftoppm''), cleanup_partial W work f1)
      | (WaitFailed, f1) \<Rightarrow> (Inl (execution_failed ''Unable to wait for pdftoppm''), f1)
      | (Stopped, f1) \<Rightarrow>
          (Inl (anole_error_new Cancelled_code Execute ''PDF rendering was cancelled''), cleanup_partial W work f1)
      | (Exited ok, f1) \<Rightarrow>
          if \<not> ok then (Inl (execution_failed ''pdftoppm exited with status {status}''), cleanup_partial W work f1)
          else (case normalize_poppler_pages W work n ext f1 of
                  (Inl e, f2) \<Rightarrow> (Inl e, cleanup_partial W work f2)
                | (Inr _, f2) \<Rightarrow>
                    if is_cancelled W
                    then (Inl (anole_error_new Cancelled_code Execute ''PDF rendering was cancelled before validation''),
                          cleanup_partial W work f2)
                    else (Inr (), f2)))"

definition execute_pdf_render_plan ::
    "'a lane_world_scheme \<Rightarrow> (string \<Rightarrow> fs \<Rightarrow> anole_error + nat \<times> nat \<times> (nat \<times> nat \<times> nat \<times> nat) list)
     \<Rightarrow> (string \<Rightarrow> string) \<Rightarrow> probe \<Rightarrow> plan \<Rightarrow> engine_identity \<Rightarrow> uuid \<Rightarrow> string \<Rightarrow> string \<Rightarrow> fs \<times> pdf_secrets
     \<Rightarrow> (anole_error + execution_result) \<times> fs \<times> pdf_secrets" where
  "execute_pdf_render_plan W decode blake3 input p ffprobe job out work s =
     (case (render_step p, s) of
        (Inl e, _) \<Rightarrow> (Inl e, s)
      | (Inr (st, target, dpi, color, n), (f, secrets)) \<Rightarrow>
          (case make_dir W work f of
             (False, f1) \<Rightarrow>
               (Inl (anole_error_new StorageFailed Execute ''Unable to create the staged PDF page directory''), f1, secrets)
           | (True, f1) \<Rightarrow>
               if parent out = None then (Inl invalid_plan_argument, f1, secrets)
               else
                 (case document_password p st secrets of
                    (Inl e, rest) \<Rightarrow> (Inl e, f1, rest)
                  | (Inr pw, rest) \<Rightarrow>
                      (case render_command st target dpi color pw (canonical_path (artifact input)) (path_join work ''page'') of
                         Inl e \<Rightarrow> (Inl e, f1, rest)
                       | Inr cmd \<Rightarrow>
                           (case render_pages W cmd work n (if target = ''jpeg'' then ''jpg'' else ''png'') f1 of
                              (Inl e, f2) \<Rightarrow> (Inl e, f2, rest)
                            | (Inr _, f2) \<Rightarrow>
                                (case finish_run W input out work work
                                    (validate_pdf_render W decode blake3 input work p ffprobe job) id
                                    ''Rendered PDF pages failed required validation''
                                    ''The page-directory destination appeared while rendering'' f2 of
                                   (r, f3) \<Rightarrow> (r, f3, rest)))))))"

end
