(* ===== verification/Pdf_Ranges.thy ===== *)
theory Pdf_Ranges
  imports Pdf_Plans Path_Text
begin

text \<open>
  Page ranges: the pages a plan counts are the pages that the argument given to qpdf names.
\<close>

section \<open>The ranges qpdf reads\<close>

text \<open>Groups between commas, each a page or two pages with a hyphen; a falling group counts down.\<close>

definition plain_page :: "string \<Rightarrow> nat option" where
  "plain_page s = (if s = [] then None else digits_value 0 s)"

definition is_hyphen :: "char \<Rightarrow> bool" where
  "is_hyphen c = (c = CHR ''-'')"

definition plain_group :: "string \<Rightarrow> nat list option" where
  "plain_group g =
     (case split_on is_hyphen g of
        [a] \<Rightarrow> map_option (\<lambda>n. [n]) (plain_page a)
      | [a, b] \<Rightarrow> (case (plain_page a, plain_page b) of
           (Some lo, Some hi) \<Rightarrow> Some (if lo \<le> hi then [lo..<Suc hi] else rev [hi..<Suc lo]) | _ \<Rightarrow> None)
      | _ \<Rightarrow> None)"

definition qpdf_pages :: "string \<Rightarrow> nat list option" where
  "qpdf_pages s = map_option concat (those (map plain_group (split_on is_comma s)))"

section \<open>Splitting\<close>

lemma split_on_filter: "(\<And>c. sep c \<Longrightarrow> P c) \<Longrightarrow> split_on sep (filter P s) = map (filter P) (split_on sep s)"
  by (induction s) (auto split: list.splits simp: split_on_not_Nil)

lemma split_on_chars: "p \<in> set (split_on sep s) \<Longrightarrow> set p \<subseteq> set s"
  by (induction s arbitrary: p) (fastforce split: list.splits if_splits)+

lemma split_on_single: "split_on sep s = [p] \<Longrightarrow> p = s"
  by (induction s arbitrary: p) (auto split: list.splits if_splits simp: split_on_not_Nil)

lemma split_comma_joined:
  "ps \<noteq> [] \<Longrightarrow> \<forall>p \<in> set ps. CHR '','' \<notin> set p \<Longrightarrow> split_on is_comma (join_with '','' ps) = ps"
proof (induction "'',''" ps rule: join_with.induct)
  case (2 x)
  then show ?case by (auto intro!: split_on_plain simp: list_all_iff)
next
  case (3 x y zs)
  then have "split_on is_comma x = [x]" by (intro split_on_plain) (auto simp: list_all_iff)
  with 3 show ?case using split_on_append [of is_comma "CHR '',''" x] by simp
qed simp

section \<open>Trimming\<close>

definition range_char :: "char \<Rightarrow> bool" where
  "range_char c = (is_ascii_digit c \<or> c \<in> {CHR '','', CHR ''-'', CHR '' ''})"

abbreviation blank :: "char \<Rightarrow> bool" where "blank c \<equiv> c = CHR '' ''"

lemma strip_none: "\<forall>w \<in> set ws. w \<noteq> [] \<and> hd w \<noteq> c \<Longrightarrow> strip_len ws (c # s) = 0"
  by (induction ws) (auto simp: neq_Nil_conv)

lemma white_space_bytes:
  "\<forall>w \<in> set white_space. w \<noteq> [] \<and> (byte_of (hd w) < 44 \<or> 57 < byte_of (hd w))"
  "\<forall>w \<in> set (map rev white_space). w \<noteq> [] \<and> (byte_of (hd w) < 44 \<or> 57 < byte_of (hd w))"
  by (simp_all add: white_space_def byte_of_def)

lemma range_char_byte: "range_char c \<Longrightarrow> \<not> blank c \<Longrightarrow> 44 \<le> byte_of c \<and> byte_of c \<le> 57"
  by (auto simp: range_char_def is_ascii_digit_def byte_of_def)

lemma range_char_strip:
  assumes "range_char c"
  shows "strip_len white_space (c # s) = (if blank c then 1 else 0)"
    and "strip_len (map rev white_space) (c # s) = (if blank c then 1 else 0)"
proof -
  have "strip_len white_space (c # s) = 0 \<and> strip_len (map rev white_space) (c # s) = 0" if "\<not> blank c"
    using range_char_byte [OF assms that] white_space_bytes by (intro conjI strip_none) fastforce+
  moreover have "strip_len white_space ('' '' @ s) = 1" "strip_len (map rev white_space) ('' '' @ s) = 1"
    by (simp_all add: white_space_def)
  ultimately show "strip_len white_space (c # s) = (if blank c then 1 else 0)"
    and "strip_len (map rev white_space) (c # s) = (if blank c then 1 else 0)" by auto
qed

lemma trim_left_blanks:
  assumes "\<And>c s. range_char c \<Longrightarrow> strip_len ws (c # s) = (if blank c then 1 else 0)"
  shows "list_all range_char s \<Longrightarrow> trim_left ws s = dropWhile blank s"
proof (induction s)
  case (Cons c s)
  then show ?case using assms [of c s] by (cases "blank c") (simp_all add: trim_left.simps [of ws "c # s"] trim_left.simps [of ws "CHR '' '' # s"])
qed (simp add: trim_left.simps)

lemma trim_range: "list_all range_char s \<Longrightarrow> trim s = rev (dropWhile blank (rev (dropWhile blank s)))"
proof -
  assume s: "list_all range_char s"
  then have "list_all range_char (rev (dropWhile blank s))"
    by (auto simp: list_all_iff dest: set_dropWhileD)
  then show ?thesis
    using trim_left_blanks [OF range_char_strip(1) s] trim_left_blanks [OF range_char_strip(2)]
    by (simp add: trim_def trim_start_def trim_end_def)
qed

lemma filter_dropped: "filter (\<lambda>c. \<not> blank c) (dropWhile blank s) = filter (\<lambda>c. \<not> blank c) s"
  by (induction s) auto

lemma filter_trimmed: "list_all range_char s \<Longrightarrow> filter (\<lambda>c. \<not> blank c) (trim s) = filter (\<lambda>c. \<not> blank c) s"
  by (simp add: trim_range filter_dropped rev_filter [symmetric])

lemma trim_chars: "set (trim s) \<subseteq> set s"
proof -
  have left: "set (trim_left ws t) \<subseteq> set t" for ws t by (rule set_mono_suffix [OF trim_left_suffix])
  have "set (trim s) \<subseteq> set (trim_start s)" using left by (simp add: trim_def trim_end_def) (metis set_rev)
  also have "\<dots> \<subseteq> set s" using left by (simp add: trim_start_def)
  finally show ?thesis .
qed

lemma trimmed_range: "list_all range_char s \<Longrightarrow> list_all range_char (trim s)"
  by (auto simp: trim_range list_all_iff dest!: set_dropWhileD)

section \<open>The pages counted are the pages named\<close>

abbreviation unblank :: "string \<Rightarrow> string" where
  "unblank \<equiv> filter (\<lambda>c. \<not> blank c)"

lemma digits_value_digits: "digits_value acc s = Some n \<Longrightarrow> list_all is_ascii_digit s"
  by (induction s arbitrary: acc) (auto split: if_splits)

lemma parse_page_plain:
  assumes "parse_page s = Inr n" and "list_all range_char s"
  shows "plain_page s = Some n \<and> unblank s = s"
proof -
  have "\<not> (\<exists>r. s = CHR ''+'' # r)" using assms(2) by (auto simp: range_char_def is_ascii_digit_def byte_of_def)
  then have s: "s \<noteq> []" "digits_value 0 s = Some n"
    using assms(1) by (cases s; auto simp: parse_page_def parse_uint_def parse_u64_def Let_def ok_or_def
        bind_eq_Some_conv split: option.splits if_splits)+
  have "unblank s = s"
    using digits_value_digits [OF s(2)]
    by (auto simp: filter_id_conv list_all_iff is_ascii_digit_def byte_of_def)
  then show ?thesis using s by (simp add: plain_page_def)
qed

lemma range_part:
  assumes "parse_range_part selected part = Inr selected'" and part: "list_all range_char part"
  shows "if trim part = [] then selected' = selected
    else \<exists>ns. plain_group (unblank (trim part)) = Some ns \<and> selected' = selected @ ns"
proof (cases "trim part = []")
  case False
  let ?p = "trim part"
  have p: "list_all range_char ?p" using part by (rule trimmed_range)
  have parts: "list_all range_char a" if "a \<in> set (split_on is_hyphen ?p)" for a
    using split_on_chars [OF that] p by (auto simp: list_all_iff)
  have split: "split_on is_hyphen (unblank ?p) = map unblank (split_on is_hyphen ?p)"
    by (rule split_on_filter) (auto simp: is_hyphen_def)
  have hyphen: "split_on (\<lambda>c. c = CHR ''-'') ?p = split_on is_hyphen ?p" by (simp add: is_hyphen_def [abs_def])
  from assms(1) False consider
      (one) a n where "split_on is_hyphen ?p = [a]" "parse_page a = Inr n" "selected' = selected @ [n]"
    | (two) a b lo hi where "split_on is_hyphen ?p = [a, b]" "parse_page (trim a) = Inr lo"
        "parse_page (trim b) = Inr hi" "lo \<le> hi" "selected' = selected @ [lo..<Suc hi]"
    by (auto simp: parse_range_part_def Let_def hyphen split: list.splits)
  then show ?thesis
  proof cases
    case one
    then have "plain_page (unblank a) = Some n" using parse_page_plain [of a n] parts [of a] by simp
    then show ?thesis using one False by (simp add: plain_group_def split)
  next
    case two
    then have ab: "list_all range_char a" "list_all range_char b" using parts by simp_all
    have "unblank a = trim a" "unblank b = trim b" "plain_page (trim a) = Some lo" "plain_page (trim b) = Some hi"
      using parse_page_plain [OF two(2) trimmed_range [OF ab(1)]] parse_page_plain [OF two(3) trimmed_range [OF ab(2)]]
        filter_trimmed [OF ab(1)] filter_trimmed [OF ab(2)] by simp_all
    then show ?thesis using two False by (simp add: plain_group_def split)
  qed
qed (use assms in \<open>simp add: parse_range_part_def\<close>)

definition kept_groups :: "string list \<Rightarrow> string list" where
  "kept_groups parts = map unblank (filter (\<lambda>p. p \<noteq> []) (map trim parts))"

lemma range_parts:
  "res_fold parse_range_part selected parts = Inr selected' \<Longrightarrow> \<forall>p \<in> set parts. list_all range_char p
     \<Longrightarrow> \<exists>nss. those (map plain_group (kept_groups parts)) = Some nss \<and> selected' = selected @ concat nss"
proof (induction parts arbitrary: selected)
  case (Cons p parts)
  then obtain mid where mid: "parse_range_part selected p = Inr mid"
    "res_fold parse_range_part mid parts = Inr selected'" by auto
  from Cons.IH [OF mid(2)] Cons.prems(2) obtain nss where nss: "those (map plain_group (kept_groups parts)) = Some nss"
    "selected' = mid @ concat nss" by auto
  show ?case
  proof (cases "trim p = []")
    case True
    then show ?thesis using range_part [OF mid(1)] Cons.prems(2) nss by (simp add: kept_groups_def)
  next
    case False
    then obtain ns where "plain_group (unblank (trim p)) = Some ns" "mid = selected @ ns"
      using range_part [OF mid(1)] Cons.prems(2) by auto
    then show ?thesis using nss False by (simp add: kept_groups_def)
  qed
qed (simp add: kept_groups_def)

text \<open>
  C33: The argument that the planner passes to qpdf, for a range of digits, commas, hyphens and blanks,
  names in order exactly the pages that the plan counts, all of them pages of the document.
\<close>

theorem planned_pages_reach_qpdf:
  assumes run: "parse_page_range r n = Inr (selected, count)" and r: "list_all range_char r"
  shows "(\<exists>a. normalize_page_range_for_qpdf r = Inr a \<and> qpdf_pages a = Some selected)
    \<and> set selected \<subseteq> {1..n} \<and> count = min (length selected) u32_max"
proof -
  let ?parts = "split_on is_comma r"
  from run have folded: "res_fold parse_range_part [] ?parts = Inr selected" and selected: "selected \<noteq> []"
    and inside: "\<forall>a \<in> set selected. 0 < a \<and> a \<le> n" and count: "count = min (length selected) u32_max"
    by (auto simp: parse_page_range_def not_less Max.bounded_iff)
  have "\<forall>p \<in> set ?parts. list_all range_char p" using r split_on_chars [of _ is_comma r] by (fastforce simp: list_all_iff)
  from range_parts [OF folded this] obtain nss where
    nss: "those (map plain_group (kept_groups ?parts)) = Some nss" "selected = concat nss" by auto
  have groups: "kept_groups ?parts \<noteq> []" using nss selected by auto
  have "CHR '','' \<notin> set g" if "g \<in> set (kept_groups ?parts)" for g
    using that split_on_parts [of _ is_comma r] trim_chars by (fastforce simp: kept_groups_def list_all_iff)
  then have "split_on is_comma (join_with '','' (kept_groups ?parts)) = kept_groups ?parts"
    using groups by (intro split_comma_joined) auto
  then have "qpdf_pages (join_with '','' (kept_groups ?parts)) = Some selected"
    using nss by (simp add: qpdf_pages_def)
  moreover have "normalize_page_range_for_qpdf r = Inr (join_with '','' (kept_groups ?parts))"
    using groups by (simp add: normalize_page_range_for_qpdf_def kept_groups_def Let_def)
  moreover have "set selected \<subseteq> {1..n}"
    using inside by auto
  ultimately show ?thesis using count by blast
qed

lemmas range_evaluation = parse_page_range_def parse_range_part_def normalize_page_range_for_qpdf_def
  qpdf_pages_def plain_group_def plain_page_def is_hyphen_def parse_page_def parse_uint_def parse_u64_def
  u64_max_def u32_max_def is_ascii_digit_def byte_of_def ok_or_def ensure_def

lemma demo_trims:
  "trim ''1 - 3'' = ''1 - 3''" "trim '' 7'' = ''7''" "trim [] = []" "trim ''1 '' = ''1''" "trim '' 3'' = ''3''"
  "trim ''+1'' = ''+1''" "trim [CHR ''1'', CHR 0x09, CHR ''-'', CHR ''2''] = [CHR ''1'', CHR 0x09, CHR ''-'', CHR ''2'']"
  "trim [CHR ''1'', CHR 0x09] = ''1''" "trim ''2'' = ''2''" "trim ''7'' = ''7''" "trim ''1-3'' = ''1-3''"
  "trim ''1'' = ''1''" "trim ''3'' = ''3''"
  by code_simp+

lemma demo_range: "parse_page_range ''1 - 3, 7,'' 9 = Inr ([1, 2, 3, 7], 4)"
  by (simp add: range_evaluation demo_trims) (simp add: upt_rec)

theorem planned_pages_reach_qpdf_witness:
  "\<exists>a. normalize_page_range_for_qpdf ''1 - 3, 7,'' = Inr a \<and> qpdf_pages a = Some [1, 2, 3, 7]"
  using planned_pages_reach_qpdf [OF demo_range] by (simp add: range_char_def is_ascii_digit_def byte_of_def)

text \<open>A plus sign and a tab pass the planner, but are no part of a range; a page named twice counts twice.\<close>

lemma signed_page_passes:
  "parse_page_range ''+1'' 5 = Inr ([1], 1) \<and> normalize_page_range_for_qpdf ''+1'' = Inr ''+1'' \<and> qpdf_pages ''+1'' = None"
  by (simp add: range_evaluation demo_trims)

lemma tab_stays_in_range:
  "parse_page_range [CHR ''1'', CHR 0x09, CHR ''-'', CHR ''2''] 5 = Inr ([1, 2], 2)
   \<and> normalize_page_range_for_qpdf [CHR ''1'', CHR 0x09, CHR ''-'', CHR ''2''] = Inr [CHR ''1'', CHR 0x09, CHR ''-'', CHR ''2'']"
  by (simp add: range_evaluation demo_trims)

lemma selection_is_not_sorted: "parse_page_range ''7,1-3,2'' 9 = Inr ([7, 1, 2, 3, 2], 5)"
  by (simp add: range_evaluation demo_trims) (simp add: upt_rec)

end
