(* ===== verification/Pdf_Safety.thy ===== *)
theory Pdf_Safety
  imports Pdf_Output Pdf_Ranges Media_Plans Document_Safety
begin

text \<open>
  No plan of a locked document holds its password, the store of the process does; what is appended
  to a PDF leaves its bytes alone and is where the next reader looks for it; the cross-reference
  table of a watermark is right; a title of printable ASCII characters is read back.
\<close>

section \<open>Passwords\<close>

lemma secret_operation:
  assumes "trim w \<noteq> []"
  shows "fst (plan_pdf_secret_operation E p operation (Some w) out qpdf ch v s)
    = fst (plan_pdf_secret_operation E p operation (Some ''x'') out qpdf ch v (\<lambda>_. None))"
proof -
  have "trim ''x'' = ''x''" by code_simp
  then show ?thesis using assms by (simp add: plan_pdf_secret_operation_def Let_def ensure_def split: sum.split)
qed

lemma render_password_only:
  assumes "w \<noteq> []"
  shows "fst (plan_pdf_render scaled E p (r\<lparr>password := Some w\<rparr>) pdftoppm s)
    = fst (plan_pdf_render scaled E p (r\<lparr>password := Some ''x''\<rparr>) pdftoppm (\<lambda>_. None))"
proof -
  have "render_checks scaled E p (r\<lparr>password := Some w\<rparr>) pdftoppm
      = render_checks scaled E p (r\<lparr>password := Some ''x''\<rparr>) pdftoppm"
    using assms by (simp add: render_checks_def render_target_def requested_target_def render_quality_def
        render_password_def Let_def)
  then show ?thesis by (simp add: plan_pdf_render_def split: sum.split)
qed

text \<open>A plan that is made leaves its password in the store, under its identifier.\<close>

lemma secret_registered:
  "snd (plan_pdf_secret_operation E p operation (Some w) out qpdf ch v s)
     = (case fst (plan_pdf_secret_operation E p operation (Some w) out qpdf ch v s) of
          Inl e \<Rightarrow> s | Inr q \<Rightarrow> s(plan_id q \<mapsto> trim w))"
  by (simp add: plan_pdf_secret_operation_def Let_def register_pdf_secret_def split: sum.split)

lemma render_registered:
  assumes "plan_pdf_render scaled E p (r\<lparr>password := Some w\<rparr>) pdftoppm s = (Inr q, s1)" and "w \<noteq> []"
  shows "s1 = s(plan_id q \<mapsto> w)"
  using assms
  by (auto simp: plan_pdf_render_def render_password_def register_pdf_secret_def sealed split: sum.splits)

text \<open>
  C34: Where a password goes. With any two passwords that are not blank the planners for
  encryption, decryption and rendering return the same plan or the same error, so nothing of a
  password is in a plan. An encryption or decryption that is planned puts the password, without the
  blanks around it, into the store of the process under the identifier of the plan, and changes
  nothing else there; one that is refused leaves the store as it was. A rendering that is planned
  does the same with the password as it was typed.
\<close>

theorem plans_hold_no_password:
  assumes "trim w \<noteq> []" and "trim w' \<noteq> []"
  shows "plan_pdf_encrypt E p (Some w) out qpdf s
      = (case fst (plan_pdf_encrypt E p (Some w') out qpdf s') of
           Inl e \<Rightarrow> (Inl e, s) | Inr q \<Rightarrow> (Inr q, s(plan_id q \<mapsto> trim w)))
    \<and> plan_pdf_decrypt E p (Some w) out qpdf s
      = (case fst (plan_pdf_decrypt E p (Some w') out qpdf s') of
           Inl e \<Rightarrow> (Inl e, s) | Inr q \<Rightarrow> (Inr q, s(plan_id q \<mapsto> trim w)))
    \<and> fst (plan_pdf_render scaled E p (r\<lparr>password := Some w\<rparr>) pdftoppm s)
        = fst (plan_pdf_render scaled E p (r\<lparr>password := Some w'\<rparr>) pdftoppm s')
    \<and> (\<forall>q s1. plan_pdf_render scaled E p (r\<lparr>password := Some w\<rparr>) pdftoppm s = (Inr q, s1)
         \<longrightarrow> s1 = s(plan_id q \<mapsto> w))"
proof -
  have w: "w \<noteq> []" "w' \<noteq> []" using assms trim_chars [of "[]"] by auto
  have secret: "plan_pdf_secret_operation E p operation (Some w) out qpdf ch v s
      = (case fst (plan_pdf_secret_operation E p operation (Some w') out qpdf ch v s') of
           Inl e \<Rightarrow> (Inl e, s) | Inr q \<Rightarrow> (Inr q, s(plan_id q \<mapsto> trim w)))" for operation ch v
    using trans [OF secret_operation [OF assms(1)] secret_operation [OF assms(2), symmetric]]
      secret_registered [of E p operation w out qpdf ch v s]
    by (metis (no_types, lifting) prod.collapse sum.case_eq_if sum.collapse)
  show ?thesis
    using trans [OF render_password_only [OF w(1)] render_password_only [OF w(2), symmetric]]
      render_registered [OF _ w(1)] secret
    unfolding plan_pdf_encrypt_def plan_pdf_decrypt_def by blast
qed

text \<open>The password is there for one run of the plan.\<close>

lemma secret_is_taken_once:
  assumes "plan_pdf_encrypt E p (Some w) out qpdf s = (Inr q, s')"
  shows "fst (take_pdf_secret (plan_id q) s') = Some (trim w)
    \<and> fst (take_pdf_secret (plan_id q) (snd (take_pdf_secret (plan_id q) s'))) = None"
proof -
  from assms have "s' = register_pdf_secret (plan_id q) (trim w) s"
    by (auto simp: plan_pdf_encrypt_def plan_pdf_secret_operation_def Let_def split: sum.splits)
  then show ?thesis by (simp add: take_pdf_secret_def register_pdf_secret_def)
qed

section \<open>Offsets\<close>

lemma rfind_none: "p \<noteq> [] \<Longrightarrow> hd p \<notin> set s \<Longrightarrow> rfind_str s p = None"
  by (induction s) (auto simp: neq_Nil_conv)

lemma rfind_last:
  assumes "p \<noteq> []" and "hd p \<notin> set (tl p @ y)"
  shows "rfind_str (x @ p @ y) p = Some (length x)"
proof (induction x)
  case Nil
  obtain c q where p: "p = c # q" using assms(1) by (cases p) auto
  then have "rfind_str (q @ y) p = None" using assms by (intro rfind_none) auto
  then show ?case using p by simp
next
  case (Cons c x)
  then show ?case by simp
qed

text \<open>The end of a PDF as this code writes it.\<close>

definition pdf_end :: "nat \<Rightarrow> string" where
  "pdf_end k = line ''startxref'' @ line (decimal k) @ line ''%%EOF''"

lemma decimal_has_digits: "list_all is_ascii_digit (decimal n)"
  by (rule digits_value_digits [OF digits_value_decimal])

lemma decimal_length_bound: "n < 10 ^ k \<Longrightarrow> 0 < k \<Longrightarrow> length (decimal n) \<le> k"
proof (induction n arbitrary: k rule: decimal.induct)
  case (1 n)
  show ?case
  proof (cases "n < 10")
    case False
    then obtain j where k: "k = Suc j" "0 < j" using 1(2,3) by (cases k; cases "k - 1") auto
    then have "n div 10 < 10 ^ j" using 1(2) by (simp add: less_mult_imp_div_less mult.commute)
    then show ?thesis using 1(1) [OF False, of j] k False by (simp add: decimal.simps [of n])
  qed (use 1(3) in \<open>simp add: decimal.simps [of n]\<close>)
qed

lemma startxref_found:
  assumes k: "k \<le> u64_max"
  shows "last_startxref_offset (x @ pdf_end k) = Some k"
proof -
  let ?p = "''startxref''" and ?y = "newline # decimal k @ newline # line ''%%EOF''"
  have y: "pdf_end k = ?p @ ?y" by (simp add: pdf_end_def)
  have digits: "set (decimal k) \<subseteq> {c. is_ascii_digit c}" using decimal_has_digits [of k] by (auto simp: list_all_iff)
  have "k < 10 ^ 20" using k by (simp add: u64_max_def)
  then have "length (decimal k) \<le> 20" by (rule decimal_length_bound) simp
  then have short: "length (pdf_end k) \<le> 2048" by (simp add: y)
  let ?n = "length (x @ pdf_end k) - 2048"
  have "?n \<le> length x" using short by simp
  then have tail: "drop ?n (x @ pdf_end k) = drop ?n x @ ?p @ ?y" by (simp add: y)
  have "CHR ''s'' \<notin> set (decimal k)" using digits by (auto simp: is_ascii_digit_def byte_of_def)
  then have "rfind_str (drop ?n x @ ?p @ ?y) ?p = Some (length (drop ?n x))"
    by (intro rfind_last) auto
  moreover have "drop (length (drop ?n x) + 9) (drop ?n x @ ?p @ ?y) = ?y" by simp
  moreover have "dropWhile is_ascii_whitespace ?y = decimal k @ newline # line ''%%EOF''"
  proof -
    obtain d s where d: "d < 10" "decimal k = digit_char d # s" using decimal_starts by blast
    then have "\<not> is_ascii_whitespace (digit_char d)" by (simp add: is_ascii_whitespace_def digit_char_def byte_of_char_of)
    then show ?thesis using d by (simp add: is_ascii_whitespace_def byte_of_def)
  qed
  moreover have "takeWhile is_ascii_digit (decimal k @ newline # line ''%%EOF'') = decimal k"
    using decimal_has_digits [of k] by (simp add: takeWhile_append2 list_all_iff is_ascii_digit_def byte_of_def)
  ultimately show ?thesis
    using parse_u64_decimal [OF k] unfolding last_startxref_offset_def Let_def tail by simp
qed

lemma numbered_line_ends: "ends_line (line s)"
  by (simp add: ends_line_def)

section \<open>The incremental update\<close>

lemma previous_in_xref: "sublist ('' /Prev '' @ decimal previous @ '' '') (info_xref n k sz previous root_ref x)"
proof -
  let ?a = "line ''xref'' @ line (decimal n @ '' 1'') @ line (pad10 k @ '' 00000 n '') @ line ''trailer''
    @ ''<< /Size '' @ decimal sz"
  let ?b = "line (''/Root '' @ root_ref @ '' /Info '' @ decimal n @ '' 0 R >>'') @ pdf_end x"
  have "info_xref n k sz previous root_ref x = ?a @ ('' /Prev '' @ decimal previous @ '' '') @ ?b"
    by (simp add: info_xref_def pdf_end_def)
  then show ?thesis by (simp only: sublist_appendI)
qed

text \<open>
  C35: What the update of a title or an author appends leaves every byte of the document in place, gives
  the new object a number no object of it has, points to where that object starts and back to the last
  cross-reference; and the marker at the end of the new document leads to the appended one.
\<close>

theorem metadata_update_is_incremental:
  assumes run: "apply_pdf_metadata numeric bytes title author = Some (Inr out)"
    and limit: "length out \<le> u64_max" "max_object_number bytes < u64_max"
  shows "prefix bytes out
    \<and> (\<exists>xref start previous n.
        last_startxref_offset bytes = Some previous \<and> last_startxref_offset out = Some xref
        \<and> prefix (line ''xref'' @ line (decimal n @ '' 1'') @ line (pad10 start @ '' 00000 n '')) (drop xref out)
        \<and> prefix (line (decimal n @ '' 0 obj'')) (drop start out) \<and> max_object_number bytes < n
        \<and> sublist ('' /Prev '' @ decimal previous @ '' '') (drop xref out))"
proof -
  obtain previous trailer root_ref entries where previous: "last_startxref_offset bytes = Some previous"
    and "updated_pdf bytes trailer previous root_ref entries = Inr out"
    using run by (auto simp: apply_pdf_metadata_def Let_def split: option.splits)
  then obtain n sz where n: "n = max_object_number bytes + 1"
    and out: "out = line bytes @ info_object n entries
      @ info_xref n (length bytes + 1) sz previous root_ref (length bytes + 1 + length (info_object n entries))"
    using limit(2) by (auto simp: updated_pdf_def Let_def sat_add_def min_def split: if_splits)
  let ?x = "length bytes + 1 + length (info_object n entries)"
  let ?head = "line bytes @ info_object n entries"
  have x: "length ?head = ?x" by simp
  have xref: "drop ?x out = info_xref n (length bytes + 1) sz previous root_ref ?x"
    using x unfolding out append_assoc [symmetric] by simp
  have "?x \<le> length out" unfolding out by simp
  then have "?x \<le> u64_max" using limit(1) by simp
  moreover obtain body where "out = body @ pdf_end ?x"
    unfolding out info_xref_def pdf_end_def append_assoc [symmetric] by blast
  ultimately have "last_startxref_offset out = Some ?x" using startxref_found by simp
  moreover have "prefix (line ''xref'' @ line (decimal n @ '' 1'') @ line (pad10 (length bytes + 1) @ '' 00000 n ''))
      (drop ?x out)"
    unfolding xref info_xref_def by simp
  moreover have "drop (length bytes + 1) out
      = info_object n entries @ info_xref n (length bytes + 1) sz previous root_ref ?x"
    unfolding out by simp
  then have "prefix (line (decimal n @ '' 0 obj'')) (drop (length bytes + 1) out)"
    by (simp add: info_object_def)
  moreover have "sublist ('' /Prev '' @ decimal previous @ '' '') (drop ?x out)"
    unfolding xref by (rule previous_in_xref)
  moreover have "prefix bytes out" unfolding out by simp
  moreover have "max_object_number bytes < n" using n by simp
  ultimately show ?thesis using previous by blast
qed

section \<open>The page with the watermark\<close>

lemma appended_objects:
  assumes "append_objects i xs (bytes, offsets) = (body, offsets')"
  shows "prefix bytes body \<and> (\<exists>new. offsets' = offsets @ new \<and> length new = length xs
    \<and> (\<forall>j < length xs. prefix (line (decimal (i + j + 1) @ '' 0 obj'') @ line (xs ! j) @ line ''endobj'')
          (drop (new ! j) body)))"
  using assms
proof (induction xs arbitrary: i bytes offsets)
  case (Cons x xs)
  let ?obj = "line (decimal (i + 1) @ '' 0 obj'') @ line x @ line ''endobj''"
  from Cons.prems have "append_objects (Suc i) xs (bytes @ ?obj, offsets @ [length bytes]) = (body, offsets')"
    by simp
  from Cons.IH [OF this] obtain new where pre: "prefix (bytes @ ?obj) body"
    and new: "offsets' = offsets @ length bytes # new" "length new = length xs"
      "\<forall>j < length xs. prefix (line (decimal (Suc i + j + 1) @ '' 0 obj'') @ line (xs ! j) @ line ''endobj'')
          (drop (new ! j) body)" by auto
  have "prefix ?obj (drop (length bytes) body)" using pre by (auto simp: prefix_def)
  moreover have "prefix bytes body" using pre append_prefixD by blast
  ultimately show ?case using new by (intro conjI exI [of _ "length bytes # new"]) (auto simp: nth_Cons split: nat.split)
qed simp

text \<open>
  In the PDF of a watermark every entry of the cross-reference table is where the object of its number
  starts, and the marker at the end leads to the table.
\<close>

theorem watermark_table_is_right:
  assumes pdf: "build_watermark_pdf numbers w h txt angle = pdf" and limit: "length pdf \<le> u64_max"
  shows "\<exists>xref offsets. last_startxref_offset pdf = Some xref \<and> length offsets = 6
    \<and> prefix (line ''xref'' @ line ''0 7'' @ line ''0000000000 65535 f ''
        @ concat (map (\<lambda>k. line (pad10 k @ '' 00000 n '')) offsets)) (drop xref pdf)
    \<and> (\<forall>j < 6. prefix (line (decimal (j + 1) @ '' 0 obj'')) (drop (offsets ! j) pdf))"
proof -
  define ns where "ns = numbers w h (min (chars_count txt) u16_max) angle"
  define objects where "objects = watermark_objects ns (watermark_content ns txt)"
  have six: "length objects = 6" by (simp add: objects_def watermark_objects_def)
  obtain body offsets where made: "append_objects 0 objects (pdf_header, []) = (body, offsets)"
    by (cases "append_objects 0 objects (pdf_header, [])")
  define table where "table = line ''xref'' @ line ''0 7'' @ line ''0000000000 65535 f ''
    @ concat (map (\<lambda>k. line (pad10 k @ '' 00000 n '')) offsets)"
  have seven: "decimal 7 = ''7''" by code_simp
  have out: "pdf = body @ table @ (line ''trailer'' @ line (''<< /Size 7 /Root 1 0 R >>'')) @ pdf_end (length body)"
    using pdf made six seven
    unfolding build_watermark_pdf_def Let_def ns_def [symmetric] objects_def [symmetric]
    by (simp add: table_def pdf_end_def)
  have "length body \<le> u64_max" using limit unfolding out by simp
  then have "last_startxref_offset pdf = Some (length body)"
    unfolding out using startxref_found [of "length body" "body @ table @ line ''trailer'' @ line (''<< /Size 7 /Root 1 0 R >>'')"]
    by simp
  moreover have "prefix table (drop (length body) pdf)" unfolding out by simp
  moreover from appended_objects [OF made] have new: "length offsets = 6"
    "\<forall>j < 6. prefix (line (decimal (j + 1) @ '' 0 obj'') @ line (objects ! j) @ line ''endobj'') (drop (offsets ! j) body)"
    using six by auto
  have "prefix (line (decimal (j + 1) @ '' 0 obj'')) (drop (offsets ! j) pdf)" if "j < 6" for j
  proof -
    have "prefix (line (decimal (j + 1) @ '' 0 obj'')) (drop (offsets ! j) body)"
      using new(2) that append_prefixD by blast
    then show ?thesis unfolding out drop_append by (rule prefix_prefix)
  qed
  ultimately show ?thesis using new(1) unfolding table_def by blast
qed

section \<open>Titles\<close>

text \<open>A reader of literal strings: escapes, up to three octal digits, the closing parenthesis.\<close>

definition is_octal :: "char \<Rightarrow> bool" where
  "is_octal c = (48 \<le> byte_of c \<and> byte_of c \<le> 55)"

function read_literal :: "string \<Rightarrow> (string \<times> string) option" where
  "read_literal [] = None"
| "read_literal (c # s) =
     (if c = CHR '')'' then Some ([], s)
      else if c = backslash
      then (case s of
              [] \<Rightarrow> None
            | d # r \<Rightarrow>
                if is_octal d
                then (let o3 = takeWhile is_octal (take 3 s)
                      in map_option (\<lambda>(t, rest). (char_of (foldl (\<lambda>n e. n * 8 + (byte_of e - 48)) 0 o3 mod 256) # t, rest))
                           (read_literal (drop (length o3) s)))
                else map_option (\<lambda>(t, rest). (d # t, rest)) (read_literal r))
      else map_option (\<lambda>(t, rest). (c # t, rest)) (read_literal s))"
  by pat_completeness auto
termination
  by (relation "measure length") auto

text \<open>
  A title or an author of printable ASCII characters is read back from the literal string it is
  written as.
\<close>

theorem ascii_titles_are_read_back:
  assumes "list_all (byte_in 32 127) txt"
  shows "read_literal (escape_pdf_string txt @ '')'' @ rest) = Some (txt, rest)"
  using assms
proof (induction "txt")
  case Nil
  then show ?case by (simp add: escape_pdf_string_def chars_of.simps)
next
  case (Cons c s)
  then have c: "32 \<le> byte_of c" "byte_of c \<le> 127" by (auto simp: byte_in_def)
  then have "utf8_char_len (c # s) = 1" by (cases "c # s" rule: utf8_char_len.cases) auto
  then have "escape_pdf_string (c # s) = escape_pdf_char [c] @ escape_pdf_string s"
    by (simp add: escape_pdf_string_def chars_of.simps [of "c # s"])
  then show ?case using Cons c
    by (auto simp: escape_pdf_char_def byte_in_def is_octal_def byte_of_def)
qed

theorem ascii_titles_are_read_back_witness:
  "read_literal (escape_pdf_string ''a(b)'' @ '')'' @ '' /Author'') = Some (''a(b)'', '' /Author'')"
  by (rule ascii_titles_are_read_back) (simp add: byte_in_def byte_of_def)

text \<open>
  A character beyond U+01FF takes more than three octal digits, of which a reader takes three: the
  title of one such character is read as two bytes.
\<close>

lemma other_titles_are_not:
  "read_literal (escape_pdf_string [CHR 0xE4, CHR 0xB8, CHR 0xAD] @ '')'') = Some ([CHR 0x38, CHR ''5'', CHR ''5''], [])"
  by (simp add: escape_pdf_string_def chars_of.simps escape_pdf_char_def byte_in_def is_continuation_def byte_of_def
      octal3_def octal.simps digit_char_def is_octal_def char_of_eq_iff)

section \<open>Where the update goes wrong\<close>

text \<open>The size of a trailer is looked for before a colon; a position of the bytes may split a character of the text.\<close>

lemma trailer_size_is_not_read: "parse_trailer_size (line ''<< /Size 8 /Root 1 0 R >>'') = 0"
  by code_simp

lemma metadata_update_can_panic: "find_trailer [CHR 0xEF, CHR 0xBF, CHR 0xBD] 1 = None"
  by code_simp

section \<open>Concrete documents\<close>

definition demo_pdf :: string where
  "demo_pdf = line ''1 0 obj'' @ line ''<<>>'' @ line ''endobj'' @ line ''xref'' @ line ''trailer''
     @ line ''<< /Root 1 0 R >>'' @ pdf_end 20"

definition demo_trailer :: string where
  "demo_trailer = line ''trailer'' @ line ''<< /Root 1 0 R >>'' @ pdf_end 20"

definition demo_updated :: string where
  "demo_updated = line demo_pdf @ info_object 2 ''/Title (T) '' @ info_xref 2 71 3 20 ''1 0 R'' 103"

lemma demo_pdf_tokens:
  "split_whitespace demo_pdf = [''1'', ''0'', ''obj'', ''<<>>'', ''endobj'', ''xref'', ''trailer'', ''<<'',
     ''/Root'', ''1'', ''0'', ''R'', ''>>'', ''startxref'', ''20'', ''%%EOF'']"
  by code_simp

lemma demo_pdf_texts:
  "from_utf8 demo_pdf" "find_trailer demo_pdf 20 = Some (Some 25)" "drop 25 demo_pdf = demo_trailer"
  "indirect_reference (\<lambda>_. False) demo_trailer ''/Root'' = Some ''1 0 R''"
  "parse_field demo_trailer ''/Size'' = None"
  "info_entry ''/Title'' (Some ''T'') @ info_entry ''/Author'' None = ''/Title (T) ''"
  "length demo_pdf = 70" "length (info_object 2 ''/Title (T) '') = 32" "length demo_updated < 300"
  by code_simp+

lemma demo_object_number: "max_object_number demo_pdf = 1"
  by (simp add: max_object_number_def from_utf8_lossy_valid demo_pdf_texts(1) demo_pdf_tokens object_number_def
      parse_u64_def u64_max_def is_ascii_digit_def byte_of_def upt_rec)

lemma demo_update: "apply_pdf_metadata (\<lambda>_. False) demo_pdf (Some ''T'') None = Some (Inr demo_updated)"
proof -
  have "last_startxref_offset demo_pdf = Some 20"
    unfolding demo_pdf_def append_assoc [symmetric] by (rule startxref_found) (simp add: u64_max_def)
  then show ?thesis
    by (simp add: apply_pdf_metadata_def Let_def from_utf8_lossy_valid demo_pdf_texts ok_or_def updated_pdf_def
        demo_object_number sat_add_def u64_max_def parse_trailer_size_def demo_updated_def
        del: One_nat_def)
qed

theorem metadata_update_is_incremental_witness:
  "prefix demo_pdf demo_updated \<and> (\<exists>xref. last_startxref_offset demo_updated = Some xref)"
  using metadata_update_is_incremental [OF demo_update] demo_pdf_texts(9) demo_object_number
  by (auto simp: u64_max_def)

definition demo_numbers :: watermark_numbers where
  "demo_numbers = \<lparr>wm_cos = ''1.00000'', wm_sin = ''0.00000'', wm_neg_sin = ''-0.00000'', wm_center_x = ''306.00'',
     wm_center_y = ''396.00'', wm_text_x = ''-41.76'', wm_text_y = ''-12.60'', wm_width = ''612.00'', wm_height = ''792.00''\<rparr>"

theorem watermark_table_is_right_witness:
  "\<exists>xref. last_startxref_offset (build_watermark_pdf (\<lambda>_ _ _ _. demo_numbers) 612 792 ''DRAFT'' 0) = Some xref"
proof -
  have "length (build_watermark_pdf (\<lambda>_ _ _ _. demo_numbers) 612 792 ''DRAFT'' 0) \<le> u64_max"
  proof -
    have "length (build_watermark_pdf (\<lambda>_ _ _ _. demo_numbers) 612 792 ''DRAFT'' 0) < 1200"
      unfolding build_watermark_pdf_def by code_simp
    then show ?thesis by (simp add: u64_max_def)
  qed
  from watermark_table_is_right [OF refl this] show ?thesis by blast
qed

end
