(* ===== verification/Pdf_Lane_Safety.thy ===== *)
theory Pdf_Lane_Safety
  imports Pdf_Lanes Pdf_Safety Lane_Safety
begin

text \<open>
  What a PDF run that succeeded has committed: the operation of its plan with the pages it counts, a
  directory with every page in the planned size.
\<close>

section \<open>Status of reports\<close>

lemma worst_fail [simp]: "worst s Fail = Fail" "worst Fail s = Fail"
  by (cases s; simp add: worst_def)+

lemma fold_worst_fail: "foldl (\<lambda>s c. worst s (check_status c)) Fail cs = Fail"
  by (induction cs) simp_all

lemma worst_of_checks:
  "foldl (\<lambda>s c. worst s (check_status c)) s cs \<noteq> Fail \<Longrightarrow> c \<in> set cs \<Longrightarrow> check_status c \<noteq> Fail"
proof (induction cs arbitrary: s)
  case (Cons d cs)
  then show ?case by (cases "check_status d = Fail") (auto simp: fold_worst_fail)
qed simp

lemma report_checks_pass:
  "report_status (adapter_report fresh i out p job cs) \<noteq> Fail \<Longrightarrow> c \<in> set cs \<Longrightarrow> check_status c \<noteq> Fail"
  using worst_of_checks by (simp add: adapter_report_def worst_status_def)

lemma passing_report:
  assumes "list_all (\<lambda>c. check_status c \<noteq> Fail) cs"
  shows "report_status (adapter_report fresh i out p job cs) \<noteq> Fail"
proof -
  have "foldl (\<lambda>s c. worst s (check_status c)) s cs \<noteq> Fail" if "s \<noteq> Fail" for s
    using assms that by (induction cs arbitrary: s) (auto simp: worst_def)
  then show ?thesis by (simp add: adapter_report_def worst_status_def)
qed

lemma pass_or_fail_ok [simp]: "pass_or_fail b \<noteq> Fail \<longleftrightarrow> b"
  by (simp add: pass_or_fail_def)

lemma check_status_check [simp]: "check_status (check c s r e obs ev m) = s"
  by (simp add: check_def)

lemma ops_report_pages:
  "report_status (validate_pdf_ops_output ratio fresh input output p job pages) \<noteq> Fail \<Longrightarrow> page_count output = pages"
  unfolding validate_pdf_ops_output_def
  by (drule report_checks_pass [where c = "check ''PDF_OPS_PAGE_COUNT'' (pass_or_fail (page_count output = pages)) True
      (JInt (int pages)) (JInt (int (length (streams output)))) ''Poppler pdfinfo''
      ''Measured output page count equals the planned conservation.''"]) simp_all

lemma added_check_pass: "report_status (add_report_check c r) \<noteq> Fail \<Longrightarrow> report_status r \<noteq> Fail"
  by (auto simp: add_report_check_def)

section \<open>Operations\<close>

lemma operation_accepted:
  assumes "validate_pdf_operation_output P fresh input p job operation pages work f = Inr report"
    and "report_status report \<noteq> Fail" and "operation \<noteq> ''pdf-encrypt''"
  shows "\<exists>output. pw_inspect P work f = Inr output \<and> page_count output = pages"
proof -
  from assms(1,3) obtain seen where seen: "pw_inspect P work f = Inr seen"
    and "report = validate_pdf_ops_output (pw_ratio P) fresh input seen p job pages
      \<or> (\<exists>w e. report = append_watermark_text_check
            (validate_pdf_ops_output (pw_ratio P) fresh input seen p job pages) w e)"
    by (auto simp: validate_pdf_operation_output_def Let_def split: if_splits)
  then have "report_status (validate_pdf_ops_output (pw_ratio P) fresh input seen p job pages) \<noteq> Fail"
    using assms(2) added_check_pass by (auto simp: append_watermark_text_check_def Let_def)
  then show ?thesis using seen ops_report_pages by blast
qed

lemma finished_with_pdfinfo:
  assumes "finish_with_pdfinfo W P input out work accept rejected f = (Inr res, f')"
  obtains report where "accept (others W AtFinish f) = Inr report" "report_status report \<noteq> Fail"
    "res = \<lparr>res_output_path = out, res_report = report_for out report\<rparr>"
    "others W AtCommit (others W AtFinish f) out = None"
    "f' out = others W AtCommit (others W AtFinish f) work"
proof -
  have run: "finish_run W input out work work accept id rejected ''The PDF destination appeared while running'' f
      = (Inr res, f')"
    using assms by (auto simp: finish_with_pdfinfo_def give_up_def Let_def split: sum.splits option.splits)
  show thesis
    by (rule finish_run_success [OF run], rule that) (simp_all add: move_tree_target)
qed

lemma extract_step:
  assumes "plan_pdf_extract E input spec out qpdf = Inr p"
  obtains selected count a where "parse_page_range spec (page_count input) = Inr (selected, count)"
    "normalize_page_range_for_qpdf spec = Inr a"
    "pdf_step p = Inr (operation_step ''qpdf.pdf-extract'' qpdf
       (btree_from [(''operation'', ''pdf-extract''), (''page_range'', a), (''expected_pages'', decimal count)])
       (sat_mul (size_bytes (artifact input)) 2), ''pdf-extract'', count)"
proof -
  from assms obtain selected count a where range: "parse_page_range spec (page_count input) = Inr (selected, count)"
    and a: "normalize_page_range_for_qpdf spec = Inr a"
    and "pdf_operation_plan E ''qpdf.pdf-extract''
       (btree_from [(''operation'', ''pdf-extract''), (''page_range'', a), (''expected_pages'', decimal count)]) input out qpdf
       \<lparr>preserved = [''selected pages in document order'', ''page content streams''],
        changed = [''unselected pages are removed''], dropped = [''pages outside the requested range''],
        unknown = [''document-level metadata is not certified'']\<rparr>
       [''pdf-ops.extract-page-count''] = Inr p"
    by (auto simp: plan_pdf_extract_def)
  then have steps: "steps p = [operation_step ''qpdf.pdf-extract'' qpdf
       (btree_from [(''operation'', ''pdf-extract''), (''page_range'', a), (''expected_pages'', decimal count)])
       (sat_mul (size_bytes (artifact input)) 2)]"
    by (auto simp: pdf_operation_plan_def seal_plan_def one_step_plan_def)
  have "count \<le> u32_max" using range by (auto simp: parse_page_range_def)
  moreover have "u32_max \<le> u64_max" by (simp add: u32_max_def u64_max_def)
  ultimately have "parse_uint u32_max (decimal count) = Some count" by (rule parse_uint_decimal)
  then have "pdf_step p = Inr (operation_step ''qpdf.pdf-extract'' qpdf
       (btree_from [(''operation'', ''pdf-extract''), (''page_range'', a), (''expected_pages'', decimal count)])
       (sat_mul (size_bytes (artifact input)) 2), ''pdf-extract'', count)"
    by (simp add: pdf_step_def first_step_def steps ok_or_def checked_argument_def argument_def operation_step_def
        btree_from_def pdf_operations_def ensure_def)
  then show thesis using that range a by blast
qed

text \<open>
  C36: An extraction that succeeds ran qpdf once on the input with the planned range, and moved to a
  destination where nothing was a document with exactly as many pages as the range selects.
\<close>

theorem extraction_has_selected_pages:
  assumes plan: "plan_pdf_extract E input spec out qpdf = Inr p"
    and run: "execute_pdf_ops_plan W P ocr input p job dest work (f, secrets) = (Inr res, f', rest)"
  shows "\<exists>selected count a f1 g seen. parse_page_range spec (page_count input) = Inr (selected, count)
    \<and> normalize_page_range_for_qpdf spec = Inr a
    \<and> engine_run W [binary_path qpdf, ''--empty'', ''--pages'', canonical_path (artifact input), a, ''--'', work] f
        = (Exited True, f1)
    \<and> pw_inspect P work g = Inr seen \<and> page_count seen = count
    \<and> res_output_path res = dest \<and> others W AtCommit g dest = None \<and> f' dest = others W AtCommit g work"
proof -
  obtain selected count a where range: "parse_page_range spec (page_count input) = Inr (selected, count)"
    and a: "normalize_page_range_for_qpdf spec = Inr a"
    and st: "pdf_step p = Inr (operation_step ''qpdf.pdf-extract'' qpdf
       (btree_from [(''operation'', ''pdf-extract''), (''page_range'', a), (''expected_pages'', decimal count)])
       (sat_mul (size_bytes (artifact input)) 2), ''pdf-extract'', count)"
    using extract_step [OF plan] .
  let ?cmd = "[binary_path qpdf, ''--empty'', ''--pages'', canonical_path (artifact input), a, ''--'', work]"
  from run obtain f1 where qpdf: "run_qpdf W ?cmd work f = (Inr (), f1)"
    and fin: "finish_with_pdfinfo W P input dest work
      (validate_pdf_operation_output P (fresh_report W) input p job ''pdf-extract'' count work)
      ''PDF operation output failed validation'' f1 = (Inr res, f')"
    by (auto simp: execute_pdf_ops_plan_def st watermark_stamp_def pdf_ops_command_def operation_step_def
        argument_def btree_from_def ok_or_def split: prod.splits sum.splits)
  from qpdf have "engine_run W ?cmd f = (Exited True, f1)"
    by (auto simp: run_qpdf_def split: prod.splits child_end.splits if_splits)
  moreover obtain report where "validate_pdf_operation_output P (fresh_report W) input p job ''pdf-extract'' count work
      (others W AtFinish f1) = Inr report" "report_status report \<noteq> Fail"
    and res: "res = \<lparr>res_output_path = dest, res_report = report_for dest report\<rparr>"
      "others W AtCommit (others W AtFinish f1) dest = None"
      "f' dest = others W AtCommit (others W AtFinish f1) work"
    using finished_with_pdfinfo [OF fin] .
  moreover from this(1,2) obtain seen where "pw_inspect P work (others W AtFinish f1) = Inr seen" "page_count seen = count"
    using operation_accepted by fastforce
  ultimately show ?thesis using range a by (metis execution_result.select_convs(1))
qed

section \<open>Rendering\<close>

lemma render_check_passed: "check_status (render_check c ok e obs ev) \<noteq> Fail \<longleftrightarrow> ok"
  by (simp add: render_check_def)

lemma render_checks_pass:
  "list_all (\<lambda>c. check_status c \<noteq> Fail) (render_report_checks target n dims color paths probes audits)
     \<longleftrightarrow> length paths = n \<and> length probes = n \<and> list_all (\<lambda>x. format_id (format x) = target) probes
       \<and> map image_dimensions probes = dims \<and> (color = ''rgb'' \<or> list_all grayscale audits)
       \<and> list_all opaque audits"
  by (simp add: render_report_checks_def Let_def color_check_def render_check_passed list.pred_map comp_def)

lemma exact_paths:
  assumes "exact_page_paths W dir n ext f = Inr paths"
  shows "paths = map (page_path dir ext) [1..<Suc n] \<and> list_all (is_file f) paths"
  using assms unfolding exact_page_paths_def Let_def res_bind_Inr_iff ensure_iff by blast

lemma render_accepted:
  assumes "validate_pdf_render W decode blake3 input dir p ffprobe job f = Inr report" and "report_status report \<noteq> Fail"
  obtains n dims color paths probes and audits :: "pixel_audit list" where "plan_u32_constraint p ''page_count'' = Inr n"
    "map_of (constraints p) ''expected_dimensions'' = Some (JArr dims)"
    "map_of (constraints p) ''color_mode'' = Some (JStr color)"
    "paths = map (page_path dir (if target_format p = ''jpeg'' then ''jpg'' else ''png'')) [1..<Suc n]"
    "list_all (is_file f) paths" "res_mapM (\<lambda>x. inspect_output W x f) paths = Inr probes"
    "length audits = n"
    "list_all (\<lambda>x. format_id (format x) = target_format p) probes" "map image_dimensions probes = dims"
    "color = ''gray'' \<longrightarrow> list_all grayscale audits" "list_all opaque audits"
proof -
  have strings: "as_str j = Some t \<longleftrightarrow> j = JStr t" "as_array j = Some xs \<longleftrightarrow> j = JArr xs" for j t xs
    by (cases j; simp)+
  obtain n dims color paths probes audits where
    n: "plan_u32_constraint p ''page_count'' = Inr n"
    and dims: "map_of (constraints p) ''expected_dimensions'' = Some (JArr dims)"
    and color: "map_of (constraints p) ''color_mode'' = Some (JStr color)" "color \<in> {''rgb'', ''gray''}"
    and paths: "exact_page_paths W dir n (if target_format p = ''jpeg'' then ''jpg'' else ''png'') f = Inr paths"
    and probes: "res_mapM (\<lambda>x. inspect_output W x f) paths = Inr probes"
    and audits: "res_mapM (\<lambda>x. res_bind (decode x f) (\<lambda>(w, h, pixels). Inr (audit_pixels w h pixels))) paths = Inr audits"
    and report: "report = (adapter_report (fresh_report W) (summary_of input)
         (page_set_summary blake3 dir (target_format p) probes) p job
         (render_report_checks (target_format p) n dims color paths probes audits))
       \<lparr>report_engines := add_engine (map engine (steps p)) ffprobe\<rparr>"
    using assms(1)
    by (auto simp: validate_pdf_render_def ok_or_def bind_eq_Some_conv strings split: option.splits if_splits)
  let ?cs = "render_report_checks (target_format p) n dims color paths probes audits"
  have pass: "list_all (\<lambda>c. check_status c \<noteq> Fail) ?cs"
    using report_checks_pass assms(2) by (simp add: report list_all_iff)
  have passed: "list_all (\<lambda>x. format_id (format x) = target_format p) probes" "map image_dimensions probes = dims"
    "color = ''rgb'' \<or> list_all grayscale audits" "list_all opaque audits"
    using pass unfolding render_checks_pass by blast+
  have all: "paths = map (page_path dir (if target_format p = ''jpeg'' then ''jpg'' else ''png'')) [1..<Suc n]
      \<and> list_all (is_file f) paths"
    by (rule exact_paths [OF paths])
  have audited: "length audits = n" using list_all2_lengthD [OF audits [unfolded res_mapM_Inr_iff]] all by (simp split: if_splits)
  have gray: "color = ''gray'' \<longrightarrow> list_all grayscale audits" using passed(3) by auto
  show thesis
    by (rule that [of n dims color paths probes audits])
      (fact n dims color(1) all [THEN conjunct1] all [THEN conjunct2] probes audited passed(1,2) gray passed(4))+
qed

text \<open>The resolution of a request, and what a plan made for it says.\<close>

abbreviation wanted_dpi :: "plan_request \<Rightarrow> nat" where
  "wanted_dpi r \<equiv> (case req_dpi r of None \<Rightarrow> 144 | Some d \<Rightarrow> d)"

lemma render_planned:
  assumes "fst (plan_pdf_render scaled E input r pdftoppm s) = Inr p"
  obtains ds st where "expected_page_dimensions scaled input (wanted_dpi r) = Inr ds"
    "length (streams input) \<le> u32_max"
    "map_of (constraints p) ''page_count'' = Some (JInt (int (length (streams input))))"
    "map_of (constraints p) ''expected_dimensions'' = Some (dimensions_json ds)"
    "first_step p = Inr st" "engine st = pdftoppm" "argument st ''dpi'' = Some (decimal (wanted_dpi r))"
    "wanted_dpi r \<le> u32_max"
proof -
  obtain q where q: "render_checks scaled E input r pdftoppm = Inr q" and p: "constraints p = constraints q"
    "steps p = steps q"
    using assms by (auto simp: plan_pdf_render_def seal_plan_def split: sum.splits)
  then obtain target color quality out ds where
    q: "q = render_plan E input pdftoppm target (wanted_dpi r) color quality out ds (render_password r \<noteq> None)"
    and ds: "expected_page_dimensions scaled input (wanted_dpi r) = Inr ds" and len: "length (streams input) \<le> u32_max"
    and range: "in_range 36 600 (wanted_dpi r)"
    unfolding render_checks_def Let_def by (auto simp only: res_bind_Inr_iff ensure_iff)
  from range have "wanted_dpi r \<le> u32_max" by (simp add: in_range_def u32_max_def)
  moreover have "argument (hd (steps p)) ''dpi'' = Some (decimal (wanted_dpi r))"
    by (simp add: p q render_plan_def Let_def one_step_plan_def argument_def render_arguments_def btree_from_def)
  ultimately show thesis
    using that [of ds "hd (steps p)"] ds len
    by (simp add: p q render_plan_def Let_def one_step_plan_def render_constraints_def btree_from_def
        first_step_def ok_or_def)
qed

lemma rendered_command:
  assumes "render_pages W cmd work n ext f = (Inr (), f')"
  shows "\<exists>f1. engine_run W cmd f = (Exited True, f1)"
  using assms by (auto simp: render_pages_def split: prod.splits child_end.splits if_splits)

lemma render_run:
  assumes "execute_pdf_render_plan W decode blake3 input p ffprobe job dest work t = (Inr res, f', rest)"
    and "first_step p = Inr st" "argument st ''dpi'' = Some (decimal dpi)" "dpi \<le> u32_max"
  obtains more f f1 f2 where
    "engine_run W (binary_path (engine st) # ''-r'' # decimal dpi # more) f = (Exited True, f1)"
    "finish_run W input dest work work (validate_pdf_render W decode blake3 input work p ffprobe job) id
      ''Rendered PDF pages failed required validation''
      ''The page-directory destination appeared while rendering'' f2 = (Inr res, f')"
proof -
  from assms(1) obtain st' target dpi' color n pw cmd f f2 ext where
    st: "render_step p = Inr (st', target, dpi', color, n)"
    and cmd: "render_command st' target dpi' color pw (canonical_path (artifact input)) (path_join work ''page'') = Inr cmd"
    and pages: "render_pages W cmd work n ext f = (Inr (), f2)"
    and fin: "finish_run W input dest work work (validate_pdf_render W decode blake3 input work p ffprobe job) id
      ''Rendered PDF pages failed required validation''
      ''The page-directory destination appeared while rendering'' f2 = (Inr res, f')"
    by (auto simp: execute_pdf_render_plan_def split: sum.splits prod.splits bool.splits if_splits)
  have "st' = st" "dpi' = dpi"
    using st assms(2-4)
    by (auto simp: render_step_def checked_u32_argument_def parse_u32_decimal ok_or_def split: if_splits)
  moreover obtain more where "cmd = binary_path (engine st') # ''-r'' # decimal dpi' # more"
    using cmd by (auto simp: render_command_def split: if_splits)
  ultimately show thesis using that rendered_command [OF pages] fin by blast
qed

text \<open>
  C37: A PDF rendered as asked. A rendering that is planned for a request and succeeds ran pdftoppm
  at the resolution of the request, 144 dpi when it names none, and the directory that is moved to a
  free destination held exactly one image per page of the input, in page order, each opened, in the
  planned format, and of the size that its page has at this resolution.
\<close>

theorem rendered_directory_is_complete:
  assumes plan: "fst (plan_pdf_render scaled E input r pdftoppm s) = Inr p"
    and run: "execute_pdf_render_plan W decode blake3 input p ffprobe job dest work t = (Inr res, f', rest)"
    and dpi: "dpi = (case req_dpi r of None \<Rightarrow> 144 | Some d \<Rightarrow> d)"
  shows "\<exists>ds ext g probes more f1 f2. expected_page_dimensions scaled input dpi = Inr ds
    \<and> engine_run W (binary_path pdftoppm # ''-r'' # decimal dpi # more) f1 = (Exited True, f2)
    \<and> list_all2 (\<lambda>k image. is_file g (page_path work ext k) \<and> inspect_output W (page_path work ext k) g = Inr image
        \<and> format_id (format image) = target_format p) [1..<Suc (length (streams input))] probes
    \<and> JArr (map image_dimensions probes) = dimensions_json ds
    \<and> res_output_path res = dest \<and> others W AtCommit g dest = None \<and> f' dest = others W AtCommit g work"
proof -
  obtain ds st where ds: "expected_page_dimensions scaled input dpi = Inr ds" and len: "length (streams input) \<le> u32_max"
    and planned: "map_of (constraints p) ''page_count'' = Some (JInt (int (length (streams input))))"
    "map_of (constraints p) ''expected_dimensions'' = Some (dimensions_json ds)"
    and st: "first_step p = Inr st" "engine st = pdftoppm" "argument st ''dpi'' = Some (decimal dpi)" "dpi \<le> u32_max"
    using render_planned [OF plan] unfolding dpi .
  have "length (streams input) \<le> u64_max" using len by (simp add: u32_max_def u64_max_def)
  then have count: "plan_u32_constraint p ''page_count'' = Inr (length (streams input))"
    using planned(1) len by (simp add: plan_u32_constraint_def)
  obtain more f f1 f2 where
    command: "engine_run W (binary_path pdftoppm # ''-r'' # decimal dpi # more) f = (Exited True, f1)"
    and fin: "finish_run W input dest work work (validate_pdf_render W decode blake3 input work p ffprobe job) id
      ''Rendered PDF pages failed required validation''
      ''The page-directory destination appeared while rendering'' f2 = (Inr res, f')"
    using render_run [OF run st(1,3,4)] st(2) by metis
  from fin obtain report where
    accepted: "validate_pdf_render W decode blake3 input work p ffprobe job (others W AtFinish f2) = Inr report"
      "report_status report \<noteq> Fail"
    and res: "res = \<lparr>res_output_path = dest, res_report = report_for dest report\<rparr>"
      "others W AtCommit (others W AtFinish f2) dest = None"
      "f' dest = others W AtCommit (others W AtFinish f2) work"
    by (rule finish_run_success) (simp add: move_tree_target)
  let ?g = "others W AtFinish f2" and ?n = "length (streams input)"
  let ?ext = "if target_format p = ''jpeg'' then ''jpg'' else ''png''"
  obtain n dims paths probes where "plan_u32_constraint p ''page_count'' = Inr n"
    "map_of (constraints p) ''expected_dimensions'' = Some (JArr dims)"
    and paths: "paths = map (page_path work ?ext) [1..<Suc n]" "list_all (is_file ?g) paths"
      "res_mapM (\<lambda>x. inspect_output W x ?g) paths = Inr probes"
    and seen: "list_all (\<lambda>x. format_id (format x) = target_format p) probes" "map image_dimensions probes = dims"
    using render_accepted [OF accepted] by metis
  then have n: "n = ?n" and dims: "JArr dims = dimensions_json ds" using count planned(2) by auto
  have "list_all2 (\<lambda>k image. is_file ?g (page_path work ?ext k)
      \<and> inspect_output W (page_path work ?ext k) ?g = Inr image \<and> format_id (format image) = target_format p)
    [1..<Suc ?n] probes"
    using paths seen(1) unfolding n
    by (auto simp: res_mapM_Inr_iff list_all2_conv_all_nth list_all_length simp del: upt_Suc)
  then show ?thesis using ds dims seen(2) res command
    by (intro exI [of _ ds] exI [of _ ?ext] exI [of _ ?g] exI [of _ probes] exI [of _ more] exI [of _ f]
        exI [of _ f1]) simp
qed

end
