(* ===== verification/Pdf_Demo.thy ===== *)
theory Pdf_Demo
  imports Pdf_Lane_Safety Lane_Demo
begin

text \<open>
  Concrete runs of the PDF lanes: the second of two pages extracted by qpdf, and one page rendered by
  pdftoppm. They show that the hypotheses of the theorems on these lanes can hold together.
\<close>

section \<open>A document and its inspection\<close>

definition demo_page :: stream_probe where
  "demo_page = (bare_stream 0 PageS ''pdf-page'')
     \<lparr>properties := [''width_points'' \<mapsto> JInt 72, ''height_points'' \<mapsto> JInt 72]\<rparr>"

definition demo_document :: "nat \<Rightarrow> probe" where
  "demo_document n = demo_clip
     \<lparr>format := (format demo_clip)\<lparr>format_id := ''pdf'', kind_of := Pdf\<rparr>, streams := replicate n demo_page\<rparr>"

definition demo_qpdf :: engine_identity where
  "demo_qpdf = demo_ffmpeg\<lparr>engine_id := ''qpdf''\<rparr>"

definition demo_pdf_world :: pdf_world where
  "demo_pdf_world =
     \<lparr>pw_pdfinfo = Inr demo_ffmpeg, pw_inspect = (\<lambda>p f. Inr (demo_document 1)),
      pw_document_metadata = (\<lambda>p f. Inr (None, None)), pw_text_layer = (\<lambda>p f. Inr []),
      pw_identify = (\<lambda>p f. Inr (artifact demo_clip)), pw_read = (\<lambda>p f. None),
      pw_write = (\<lambda>p b f. (False, f)), pw_stage_stamp = Inr, pw_numeric = (\<lambda>_. False),
      pw_numbers = (\<lambda>_ _ _ _. demo_numbers), pw_ratio = of_nat\<rparr>"

lemma demo_commit:
  assumes "observer_error W = None" "others W = (\<lambda>m f. f)" "identify W = (\<lambda>m p. Inr (artifact demo_clip))"
    "os_rename W = (\<lambda>a b f. True)" and "artifact input = artifact demo_clip"
    and "f work \<noteq> None" and "f out = None" and "accept f = Inr report" and "report_status report \<noteq> Fail"
  shows "\<exists>res f'. finish_run W input out work work accept id rejected appeared f = (Inr res, f')"
proof -
  have "commit_path_no_replace W work out f = (Inr (), move_tree work out f)"
    using assms(4,6,7) by (simp add: commit_path_no_replace_def rename_path_no_replace_def)
  then show ?thesis
    using assms by (simp add: finish_run_def ensure_input_unchanged_def ensure_def fs_exists_def resolved_def)
qed

section \<open>An extraction\<close>

lemma demo_selection:
  "parse_page_range ''2'' 2 = Inr ([2], 1)" "normalize_page_range_for_qpdf ''2'' = Inr ''2''"
  by (simp_all add: range_evaluation demo_trims)

lemma demo_extraction: "\<exists>p. plan_pdf_extract demo_plan_env (demo_document 2) ''2'' ''/d/o.pdf'' demo_qpdf = Inr p"
  by (simp add: plan_pdf_extract_def demo_document_def demo_qpdf_def ensure_def page_count_def u32_max_def
      demo_selection pdf_operation_plan_def seal_plan_Inr demo_plan_env_def)

theorem extraction_has_selected_pages_witness:
  "\<exists>p res f' rest seen. execute_pdf_ops_plan demo_lane_world demo_pdf_world (\<lambda>_ _ _ f. (Inl invalid_plan_argument, f))
       (demo_document 2) p 7 ''/d/o.pdf'' ''/d/w.pdf'' (demo_lane_fs, \<lambda>_. None) = (Inr res, f', rest)
     \<and> pw_inspect demo_pdf_world ''/d/w.pdf'' f' = Inr seen \<and> page_count seen = 1"
proof -
  obtain p where p: "plan_pdf_extract demo_plan_env (demo_document 2) ''2'' ''/d/o.pdf'' demo_qpdf = Inr p"
    using demo_extraction by blast
  have two: "page_count (demo_document 2) = 2" by (simp add: demo_document_def page_count_def u32_max_def)
  obtain cs t where st: "pdf_step p = Inr (operation_step ''qpdf.pdf-extract'' demo_qpdf
       (btree_from [(''operation'', ''pdf-extract''), (''page_range'', ''2''), (''expected_pages'', cs)]) t,
       ''pdf-extract'', 1)"
    by (rule extract_step [OF p]) (simp add: two demo_selection)
  let ?f = "demo_lane_fs(''/d/w.pdf'' \<mapsto> Plain (File 10))"
  have "page_count (demo_document 1) = 1" by (simp add: demo_document_def page_count_def u32_max_def)
  moreover have "steps p \<noteq> []" using st by (auto simp: pdf_step_def first_step_def ok_or_def)
  ultimately obtain report where "validate_pdf_operation_output demo_pdf_world 9 (demo_document 2) p 7 ''pdf-extract'' 1 ''/d/w.pdf'' ?f
       = Inr report" "report_status report \<noteq> Fail"
    using st
    by (auto simp: validate_pdf_operation_output_def demo_pdf_world_def validate_pdf_ops_output_def adapter_report_def
        worst_status_def worst_def check_def pass_or_fail_def pdf_step_def first_step_def ok_or_def checked_argument_def
        ensure_def split: list.splits option.splits if_splits)
  then have "\<exists>res f'. finish_run demo_lane_world (demo_document 2) ''/d/o.pdf'' ''/d/w.pdf'' ''/d/w.pdf''
      (validate_pdf_operation_output demo_pdf_world 9 (demo_document 2) p 7 ''pdf-extract'' 1 ''/d/w.pdf'') id
      ''PDF operation output failed validation'' ''The PDF destination appeared while running'' ?f = (Inr res, f')"
    by (auto intro!: demo_commit simp: demo_lane_world_def demo_lane_fs_def demo_document_def)
  then obtain res f' rest where run: "execute_pdf_ops_plan demo_lane_world demo_pdf_world
       (\<lambda>_ _ _ f. (Inl invalid_plan_argument, f))
       (demo_document 2) p 7 ''/d/o.pdf'' ''/d/w.pdf'' (demo_lane_fs, \<lambda>_. None) = (Inr res, f', rest)"
    by (auto simp: execute_pdf_ops_plan_def st watermark_stamp_def pdf_ops_command_def operation_step_def
        argument_def btree_from_def ok_or_def run_qpdf_def is_file_def resolved_def finish_with_pdfinfo_def
        demo_pdf_world_def demo_lane_world_def)
  from extraction_has_selected_pages [OF p run] two demo_selection
  obtain g seen where "pw_inspect demo_pdf_world ''/d/w.pdf'' g = Inr seen" "page_count seen = 1" by auto
  then have "pw_inspect demo_pdf_world ''/d/w.pdf'' f' = Inr seen" by (simp add: demo_pdf_world_def)
  with run \<open>page_count seen = 1\<close> show ?thesis by blast
qed

section \<open>An encryption\<close>

lemma demo_seals: "seal_plan demo_plan_env pl = Inr (pl\<lparr>plan_hash := ''blake3:d''\<rparr>)"
  by (simp add: sealed deterministic_plan_hash_def demo_plan_env_def ok_or_def)

lemma demo_encryption:
  "\<exists>q. fst (plan_pdf_encrypt demo_plan_env (demo_document 2) (Some '' hidden '') ''/d/o.pdf'' demo_qpdf (\<lambda>_. None))
     = Inr q"
proof -
  have "trim '' hidden '' = ''hidden''" by code_simp
  then show ?thesis
    by (simp add: plan_pdf_encrypt_def plan_pdf_secret_operation_def ensure_pdf_probe_def ensure_qpdf_def
        demo_document_def demo_qpdf_def demo_page_def bare_stream_def ensure_def page_count_def u32_max_def
        pdf_operation_plan_def demo_seals split: sum.split)
qed

theorem plans_hold_no_password_witness:
  "\<exists>q. plan_pdf_encrypt demo_plan_env (demo_document 2) (Some ''secret'') ''/d/o.pdf'' demo_qpdf (\<lambda>_. None)
       = (Inr q, (\<lambda>_. None)(plan_id q \<mapsto> ''secret''))
     \<and> fst (plan_pdf_encrypt demo_plan_env (demo_document 2) (Some '' hidden '') ''/d/o.pdf'' demo_qpdf (\<lambda>_. None))
       = Inr q"
proof -
  obtain q where q: "fst (plan_pdf_encrypt demo_plan_env (demo_document 2) (Some '' hidden '') ''/d/o.pdf'' demo_qpdf
      (\<lambda>_. None)) = Inr q" using demo_encryption by blast
  have "trim ''secret'' \<noteq> []" "trim '' hidden '' \<noteq> []" "trim ''secret'' = ''secret''" by code_simp+
  with plans_hold_no_password [OF this(1,2), of demo_plan_env "demo_document 2" "''/d/o.pdf''" demo_qpdf
      "\<lambda>_. None" "\<lambda>_. None"] q
  show ?thesis by auto
qed

section \<open>A rendering\<close>

definition demo_pdftoppm :: engine_identity where
  "demo_pdftoppm = demo_ffmpeg\<lparr>engine_id := ''pdftoppm''\<rparr>"

definition demo_scaled :: "rat \<Rightarrow> nat \<Rightarrow> f64" where
  "demo_scaled r dpi = Finite (r * of_nat dpi / 72)"

definition demo_render_request :: plan_request where
  "demo_render_request = default_request\<lparr>req_target_format := ''png'', req_output_path := Some ''/d/o'', req_dpi := Some 72\<rparr>"

definition demo_image :: probe where
  "demo_image = demo_clip\<lparr>format := (format demo_clip)\<lparr>format_id := ''png'', kind_of := Image\<rparr>,
     streams := [(bare_stream 0 VideoS ''png'')\<lparr>stream_width := Some 72, stream_height := Some 72\<rparr>]\<rparr>"

definition render_world :: lane_world where
  "render_world = demo_lane_world
     \<lparr>engine_run := (\<lambda>cmd f. (Exited True, f(last cmd @ ''-1.png'' \<mapsto> Plain (File 10)))),
      list_dir := (\<lambda>d f. Some (filter (\<lambda>p. f p \<noteq> None) [''/d/w/page-1.png'', ''/d/w/page-000001.png''])),
      inspect_output := (\<lambda>p f. Inr demo_image)\<rparr>"

definition demo_render_plan :: plan where
  "demo_render_plan = (render_plan demo_plan_env (demo_document 1) demo_pdftoppm ''png'' 72 ''rgb'' None ''/d/o''
     [(72, 72)] False)\<lparr>plan_hash := ''blake3:d''\<rparr>"

lemma demo_texts:
  "to_ascii_lowercase (trim (trim_dots ''png'')) = ''png''" "to_ascii_lowercase (trim_dots (trim ''png'')) = ''png''"
  "to_ascii_lowercase (trim ''rgb'') = ''rgb''" "decimal 72 = ''72''" "decimal (Suc 0) = ''1''"
  "path_join ''/d/w'' ''page'' = ''/d/w/page''" "page_path ''/d/w'' ''png'' (Suc 0) = ''/d/w/page-000001.png''"
  "temporary_page ''/d/w'' ''png'' (Suc 0) = ''/d/w/.anole-rename-000001.png''" "parent ''/d/o'' = Some ''/d''"
  "unicode_stem ''/d/w/page-1.png'' = Some ''page-1''" "extension ''/d/w/page-1.png'' = Some ''png''"
  "from_utf8 ''png''" "to_ascii_lowercase ''png'' = ''png''"
  by code_simp+

lemma demo_render_planned:
  "fst (plan_pdf_render demo_scaled demo_plan_env (demo_document 1) demo_render_request demo_pdftoppm (\<lambda>_. None))
     = Inr demo_render_plan"
proof -
  have "expected_page_dimensions demo_scaled (demo_document 1) 72 = Inr [(72, 72)]"
    by (simp add: expected_page_dimensions_def page_dimensions_def demo_document_def demo_page_def demo_scaled_def
        poppler_raster_dimension_def ok_or_def)
  then have "render_checks demo_scaled demo_plan_env (demo_document 1) demo_render_request demo_pdftoppm
      = Inr (render_plan demo_plan_env (demo_document 1) demo_pdftoppm ''png'' 72 ''rgb'' None ''/d/o'' [(72, 72)] False)"
    by (simp add: render_checks_def render_target_def render_quality_def render_password_def requested_target_def
        demo_render_request_def default_request_def demo_document_def demo_page_def demo_pdftoppm_def ensure_def
        in_range_def ok_or_def demo_texts u32_max_def sat_mul_def u64_max_def bare_stream_def)
  then show ?thesis
    by (simp add: plan_pdf_render_def seal_plan_def deterministic_plan_hash_def demo_plan_env_def demo_render_plan_def ok_or_def)
qed

definition demo_render_step :: plan_step where
  "demo_render_step = hd (steps demo_render_plan)"

definition rendered_fs :: fs where
  "rendered_fs = (let f = demo_lane_fs(''/d/w'' \<mapsto> Plain Dir, ''/d/w/page-1.png'' \<mapsto> Plain (File 10)) in
     move_tree ''/d/w/.anole-rename-000001.png'' ''/d/w/page-000001.png''
       (move_tree ''/d/w/page-1.png'' ''/d/w/.anole-rename-000001.png'' f))"

lemma rendered_fs_at:
  "rendered_fs ''/d/w'' = Some (Plain Dir)" "rendered_fs ''/d/w/page-1.png'' = None"
  "rendered_fs ''/d/w/page-000001.png'' = Some (Plain (File 10))" "rendered_fs ''/d/o'' = None"
  by (simp_all add: rendered_fs_def Let_def move_tree_def below_def starts_with_def demo_lane_fs_def)

lemma demo_render_parsed: "render_step demo_render_plan = Inr (demo_render_step, ''png'', 72, ''rgb'', 1)"
proof -
  have "parse_uint u32_max ''72'' = Some 72" "parse_uint u32_max ''1'' = Some 1"
    using parse_uint_decimal [of 72 u32_max] parse_uint_decimal [of 1 u32_max] by (simp_all add: demo_texts u32_max_def u64_max_def)
  then show ?thesis
    by (simp add: render_step_def first_step_def demo_render_step_def demo_render_plan_def render_plan_def Let_def
        one_step_plan_def ok_or_def checked_argument_def checked_u32_argument_def argument_def render_arguments_def
        btree_from_def demo_document_def demo_texts in_range_def ensure_def decimal_or_def)
qed

lemma demo_render_command:
  "\<exists>args. render_command demo_render_step ''png'' 72 ''rgb'' None ''/d/c.mkv'' ''/d/w/page'' = Inr args
     \<and> last args = ''/d/w/page''" "document_password demo_render_plan demo_render_step s = (Inr None, s)"
  by (simp_all add: render_command_def document_password_def demo_render_step_def demo_render_plan_def render_plan_def
      Let_def one_step_plan_def checked_argument_def argument_def render_arguments_def btree_from_def demo_document_def
      demo_texts ok_or_def ensure_def decimal_or_def)

lemma demo_pages_normalized:
  "normalize_poppler_pages render_world ''/d/w'' 1 ''png''
     (demo_lane_fs(''/d/w'' \<mapsto> Plain Dir, ''/d/w/page-1.png'' \<mapsto> Plain (File 10))) = (Inr (), rendered_fs)"
proof -
  have "parse_uint u32_max ''1'' = Some 1"
    using parse_uint_decimal [of 1 u32_max] by (simp add: demo_texts u32_max_def u64_max_def)
  then have "page_number 1 ''/d/w/page-1.png'' = Some 1"
    by (simp add: page_number_def demo_texts strip_prefix_def starts_with_def in_range_def)
  then show ?thesis
    by (simp add: normalize_poppler_pages_def render_world_def demo_lane_world_def demo_lane_fs_def ok_or_def
        collect_page_def is_file_def resolved_def demo_texts ensure_def rename_over_def rendered_fs_def Let_def
        move_tree_def below_def starts_with_def)
qed

lemma demo_pages_accepted:
  "\<exists>report. validate_pdf_render render_world (\<lambda>_ _. Inr (1, 1, [(0, 0, 0, 255)])) id (demo_document 1) ''/d/w''
       demo_render_plan demo_ffmpeg 7 rendered_fs = Inr report \<and> report_status report \<noteq> Fail"
proof -
  have paths: "exact_page_paths render_world ''/d/w'' 1 ''png'' rendered_fs = Inr [''/d/w/page-000001.png'']"
    by (simp add: exact_page_paths_def is_dir_def is_file_def resolved_def rendered_fs_at render_world_def ensure_def
        ok_or_def demo_texts)
  have plan: "target_format demo_render_plan = ''png''" "plan_u32_constraint demo_render_plan ''page_count'' = Inr 1"
    "map_of (constraints demo_render_plan) ''expected_dimensions'' = Some (JArr [JArr [JInt 72, JInt 72]])"
    "map_of (constraints demo_render_plan) ''color_mode'' = Some (JStr ''rgb'')"
    by (simp_all add: demo_render_plan_def render_plan_def Let_def one_step_plan_def render_constraints_def btree_from_def
        plan_u32_constraint_def u32_max_def u64_max_def ok_or_def demo_document_def dimensions_json_def)
  have audit: "audit_pixels 1 1 [(0, 0, 0, 255)] = \<lparr>grayscale = True, opaque = True, sample_count = 1\<rparr>"
    by (simp add: audit_pixels_def every_nth_def near_def u8_max_def sat_mul_def u64_max_def Let_def)
  have inspected: "inspect_output render_world p f = Inr demo_image" for p f by (simp add: render_world_def)
  let ?cs = "render_report_checks ''png'' 1 [JArr [JInt 72, JInt 72]] ''rgb'' [''/d/w/page-000001.png''] [demo_image]
    [\<lparr>grayscale = True, opaque = True, sample_count = 1\<rparr>]"
  have "list_all (\<lambda>c. check_status c \<noteq> Fail) ?cs"
    unfolding render_checks_pass by (simp add: demo_image_def image_dimensions_def optional_number_def)
  then have pass: "report_status (adapter_report fresh i out demo_render_plan 7 ?cs) \<noteq> Fail" for fresh i out
    by (rule passing_report)
  show ?thesis
    by (simp add: validate_pdf_render_def plan paths ensure_def ok_or_def inspected audit pass del: One_nat_def)
qed

text \<open>The directory of one page.\<close>

theorem rendered_directory_is_complete_witness:
  "\<exists>res f' rest. execute_pdf_render_plan render_world (\<lambda>_ _. Inr (1, 1, [(0, 0, 0, 255)])) id (demo_document 1)
       demo_render_plan demo_ffmpeg 7 ''/d/o'' ''/d/w'' (demo_lane_fs, \<lambda>_. None) = (Inr res, f', rest)
     \<and> res_output_path res = ''/d/o''
     \<and> (\<exists>more f1 f2. engine_run render_world (''/b/ffmpeg'' # ''-r'' # ''72'' # more) f1 = (Exited True, f2))"
proof -
  let ?accept = "validate_pdf_render render_world (\<lambda>_ _. Inr (1, 1, [(0, 0, 0, 255)])) id (demo_document 1) ''/d/w''
       demo_render_plan demo_ffmpeg 7"
  have from_document: "canonical_path (artifact (demo_document 1)) = ''/d/c.mkv''" by (simp add: demo_document_def demo_clip_def)
  obtain args where args: "render_command demo_render_step ''png'' 72 ''rgb'' None ''/d/c.mkv'' ''/d/w/page'' = Inr args"
    "last args = ''/d/w/page''" using demo_render_command(1) by blast
  have "render_pages render_world args ''/d/w'' 1 ''png'' (demo_lane_fs(''/d/w'' \<mapsto> Plain Dir)) = (Inr (), rendered_fs)"
    using demo_pages_normalized args(2) by (simp add: render_pages_def render_world_def demo_lane_world_def)
  moreover have "make_dir render_world ''/d/w'' demo_lane_fs = (True, demo_lane_fs(''/d/w'' \<mapsto> Plain Dir))"
    by (simp add: make_dir_def render_world_def demo_lane_world_def demo_lane_fs_def)
  moreover have "\<exists>res f'. finish_run render_world (demo_document 1) ''/d/o'' ''/d/w'' ''/d/w'' ?accept id
      ''Rendered PDF pages failed required validation'' ''The page-directory destination appeared while rendering''
      rendered_fs = (Inr res, f')"
    using demo_pages_accepted
    by (auto intro!: demo_commit simp: render_world_def demo_lane_world_def rendered_fs_at demo_document_def)
  ultimately obtain res f' rest where run: "execute_pdf_render_plan render_world (\<lambda>_ _. Inr (1, 1, [(0, 0, 0, 255)])) id
      (demo_document 1) demo_render_plan demo_ffmpeg 7 ''/d/o'' ''/d/w'' (demo_lane_fs, \<lambda>_. None) = (Inr res, f', rest)"
    using args(1)
    by (auto simp: execute_pdf_render_plan_def demo_render_parsed demo_render_command(2) demo_texts from_document simp del: One_nat_def)
  have "72 = (case req_dpi demo_render_request of None \<Rightarrow> 144 | Some d \<Rightarrow> d)" by (simp add: demo_render_request_def)
  from rendered_directory_is_complete [OF demo_render_planned run this] run
  show ?thesis by (simp add: demo_texts demo_pdftoppm_def demo_ffmpeg_def) blast
qed

end
