(* ===== verification/Maintenance.thy ===== *)
theory Maintenance
  imports Job_Store_Machine Planner "HOL-Library.List_Lexorder"
begin

text \<open>
  \<open>crates/core/src/maintenance.rs\<close>: the checks that a database must pass before it is backed up,
  compacted or restored, on the tables of the current schema, and the retention of automatic
  snapshots. What \<open>PRAGMA integrity_check\<close> and \<open>PRAGMA foreign_key_check\<close> print, the recorded
  migrations and the JSON readers are parameters.
\<close>

section \<open>Queue invariants\<close>

record stored_codec =
  sc_plan :: "string \<Rightarrow> plan option"
  sc_report :: "string \<Rightarrow> validation_report option"
  sc_digest :: "hash_material \<Rightarrow> string option"

definition known_states :: "string list" where
  "known_states = [''queued'', ''inspecting'', ''planned'', ''blocked'', ''running'', ''validating'',
     ''completed'', ''warning'', ''failed'', ''cancelled'', ''interrupted'']"

definition ended_states :: "string list" where
  "ended_states = [''completed'', ''warning'', ''failed'', ''cancelled'']"

definition count_where :: "('r \<Rightarrow> bool) \<Rightarrow> 'r list \<Rightarrow> nat" where
  "count_where p t = length (filter p t)"

definition reservations_of :: "uuid \<Rightarrow> db \<Rightarrow> nat" where
  "reservations_of j d = count_where (\<lambda>r. rs_job_id r = j) (output_reservations d)"

definition active_unreserved :: "db \<Rightarrow> nat" where
  "active_unreserved d =
     count_where (\<lambda>r. jr_state r \<notin> set ended_states \<and> reservations_of (jr_id r) d \<noteq> 1) (jobs d)"

definition terminal_reserved :: "db \<Rightarrow> nat" where
  "terminal_reserved d =
     sum_list (map (\<lambda>r. if jr_state r \<in> set ended_states then reservations_of (jr_id r) d else 0) (jobs d))"

text \<open>\<open>COALESCE(MAX(sequence), 0)\<close>, \<open>ORDER BY sequence DESC LIMIT 1\<close>, and the event before another.\<close>

definition last_sequence :: "uuid \<Rightarrow> db \<Rightarrow> nat" where
  "last_sequence j d = foldl max 0 (map ev_sequence (events_of j d))"

definition latest_event :: "uuid \<Rightarrow> db \<Rightarrow> event_row option" where
  "latest_event j d = (case rev (sort_key ev_sequence (events_of j d)) of [] \<Rightarrow> None | e # _ \<Rightarrow> Some e)"

definition prior_event :: "event_row \<Rightarrow> db \<Rightarrow> event_row option" where
  "prior_event e d = find (\<lambda>p. ev_job_id p = ev_job_id e \<and> Suc (ev_sequence p) = ev_sequence e) (job_events d)"

definition log_gap :: "db \<Rightarrow> job_row \<Rightarrow> bool" where
  "log_gap d r =
     (0 \<notin> ev_sequence ` set (events_of (jr_id r) d) \<or> length (events_of (jr_id r) d) \<noteq> jr_sequence r + 1)"

definition stale_state :: "db \<Rightarrow> job_row \<Rightarrow> bool" where
  "stale_state d r = (case latest_event (jr_id r) d of None \<Rightarrow> False | Some e \<Rightarrow> jr_state r \<noteq> ev_next e)"

text \<open>A comparison with \<open>NULL\<close> selects nothing.\<close>

definition broken_chain :: "db \<Rightarrow> event_row \<Rightarrow> bool" where
  "broken_chain d e =
     (0 < ev_sequence e \<and> (case (ev_previous e, prior_event e d) of
        (Some v, Some p) \<Rightarrow> v \<noteq> ev_next p | _ \<Rightarrow> False))"

definition append_count_issue :: "string \<Rightarrow> nat \<Rightarrow> string list" where
  "append_count_issue label n = (if 0 < n then [label @ '': '' @ decimal n] else [])"

section \<open>Evidence\<close>

definition revalidation_valid :: "stored_codec \<Rightarrow> revalidation_row \<Rightarrow> job_row \<Rightarrow> bool" where
  "revalidation_valid c v r =
     (case sc_report c (rv_report_json v) of
        None \<Rightarrow> False
      | Some report \<Rightarrow> report_job_id report = rv_job_id v \<and> report_plan_hash report = jr_plan_hash r
          \<and> validation_status_name (report_status report) = rv_status v)"

definition revalidation_issue :: "uuid \<Rightarrow> string" where
  "revalidation_issue u = ''revalidation '' @ uuid_text u @ '' has inconsistent job/report identity''"

definition append_revalidation_issues :: "stored_codec \<Rightarrow> db \<Rightarrow> string list" where
  "append_revalidation_issues c d =
     List.map_filter (\<lambda>v. Option.bind (find_job (rv_job_id v) d) (\<lambda>r.
       if jr_state r \<notin> {''completed'', ''warning'', ''failed''} \<or> \<not> revalidation_valid c v r
       then Some (revalidation_issue (rv_id v)) else None)) (revalidations d)"

section \<open>Selections and bulk actions\<close>

definition members_of :: "uuid \<Rightarrow> db \<Rightarrow> nat" where
  "members_of s d = count_where (\<lambda>m. sm_selection_id m = s) (selection_members d)"

definition outcomes_of :: "uuid \<Rightarrow> db \<Rightarrow> nat" where
  "outcomes_of a d = count_where (\<lambda>m. bm_action_id m = a) (bulk_action_members d)"

definition selection_issues :: "db \<Rightarrow> string list" where
  "selection_issues d =
     append_count_issue ''selection snapshots whose stored member count disagrees with membership''
       (count_where (\<lambda>s. se_member_count s \<noteq> members_of (se_id s) d) (selection_snapshots d))
     @ append_count_issue ''bulk actions whose outcome counts do not sum to matched count''
       (count_where (\<lambda>b. bk_matched b \<noteq> bk_transitioned b + bk_skipped_state b + bk_skipped_conflict b) (bulk_actions d))
     @ append_count_issue ''bulk actions whose stored matched count disagrees with member outcomes''
       (count_where (\<lambda>b. bk_matched b \<noteq> outcomes_of (bk_id b) d) (bulk_actions d))
     @ append_count_issue ''bulk action members with an unknown outcome''
       (count_where (\<lambda>m. bm_outcome m \<notin> {''transitioned'', ''skipped-state'', ''skipped-output-conflict''})
         (bulk_action_members d))"

section \<open>Plans\<close>

definition plan_issue :: "stored_codec \<Rightarrow> job_row \<Rightarrow> string list" where
  "plan_issue c r =
     (case sc_plan c (jr_plan_json r) of
        Some p \<Rightarrow>
          if plan_hash p = jr_plan_hash r \<and> deterministic_plan_hash (sc_digest c) p = Inr (jr_plan_hash r) then []
          else [''job '' @ uuid_text (jr_id r) @ '' has a mismatched Plan hash'']
      | None \<Rightarrow> [''job '' @ uuid_text (jr_id r) @ '' has invalid Plan JSON: {error}''])"

section \<open>The check\<close>

text \<open>\<open>versions\<close> are the recorded migrations in order.\<close>

definition recorded_version :: "nat list \<Rightarrow> nat" where
  "recorded_version versions = (if versions = [] then 0 else last versions)"

definition migration_issues :: "nat list \<Rightarrow> string list" where
  "migration_issues versions =
     (if versions \<noteq> [1..<Suc (recorded_version versions)]
      then [''schema migration markers are not contiguous: {versions:?}''] else [])"

definition application_issues :: "stored_codec \<Rightarrow> nat list \<Rightarrow> db \<Rightarrow> string list" where
  "application_issues c versions d =
     migration_issues versions
     @ append_count_issue ''jobs with an unknown state''
         (count_where (\<lambda>r. jr_state r \<notin> set known_states) (jobs d))
     @ append_count_issue ''active jobs without exactly one output reservation'' (active_unreserved d)
     @ append_count_issue ''terminal jobs retaining output reservations'' (terminal_reserved d)
     @ append_count_issue ''jobs whose stored sequence disagrees with their latest event''
         (count_where (\<lambda>r. jr_sequence r \<noteq> last_sequence (jr_id r) d) (jobs d))
     @ append_count_issue ''jobs with missing or non-contiguous event sequences''
         (count_where (log_gap d) (jobs d))
     @ append_count_issue ''jobs whose latest event state disagrees with the job state''
         (count_where (stale_state d) (jobs d))
     @ append_revalidation_issues c d
     @ append_count_issue ''events whose previous state disagrees with the prior event''
         (count_where (broken_chain d) (job_events d))
     @ (if 4 \<le> recorded_version versions then selection_issues d else [])
     @ concat (map (plan_issue c) (jobs d))"

record integrity_report =
  ig_ok :: bool
  ig_sqlite :: "string list"
  ig_foreign_keys :: "string list"
  ig_issues :: "string list"

definition integrity_check_connection ::
    "string list \<Rightarrow> string list \<Rightarrow> stored_codec \<Rightarrow> nat list \<Rightarrow> db \<Rightarrow> integrity_report" where
  "integrity_check_connection sqlite keys c versions d =
     (let issues = application_issues c versions d in
      \<lparr>ig_ok = (list_all (\<lambda>m. to_ascii_lowercase m = ''ok'') sqlite \<and> keys = [] \<and> issues = []),
       ig_sqlite = sqlite, ig_foreign_keys = keys, ig_issues = issues\<rparr>)"

definition integrity_failure :: "string \<Rightarrow> anole_error" where
  "integrity_failure m = anole_error_new StorageFailed Store m"

section \<open>Versions\<close>

definition database_schema_version :: nat where
  "database_schema_version = 6"

definition ensure_supported_schema :: "nat \<Rightarrow> anole_error + unit" where
  "ensure_supported_schema v =
     ensure (v \<le> database_schema_version) (anole_error_new StorageFailed Store
       ''Database schema v{version} is newer than supported v{DATABASE_SCHEMA_VERSION}'')"

section \<open>Automatic snapshots\<close>

definition default_snapshot_retention :: nat where
  "default_snapshot_retention = 5"

text \<open>
  The files of the directory with their modification times; \<open>None\<close> where they cannot be read. The
  snapshots that are removed, in the order of the loop.
\<close>

definition is_snapshot :: "string \<Rightarrow> string \<Rightarrow> bool" where
  "is_snapshot base name = (starts_with name (base @ ''.'') \<and> ends_with name ''.sqlite3'')"

definition snapshots_by_age :: "string \<Rightarrow> (string \<times> int option) list \<Rightarrow> (int \<times> string) list" where
  "snapshots_by_age base entries =
     rev (sort_key (\<lambda>(t, name). (t, map byte_of name))
       (List.map_filter (\<lambda>(name, modified). if is_snapshot base name
          then map_option (\<lambda>t. (t, name)) modified else None) entries))"

definition pruned_snapshots ::
    "string \<Rightarrow> nat \<Rightarrow> string \<Rightarrow> (string \<times> int option) list \<Rightarrow> string list" where
  "pruned_snapshots base retain preserve entries =
     drop (retain - 1) (filter (\<lambda>n. n \<noteq> preserve) (map snd (snapshots_by_age base entries)))"

end
