(* ===== verification/Maintenance_Safety.thy ===== *)
theory Maintenance_Safety
  imports Maintenance
begin

text \<open>
  A database that the store has built passes the checks of \<open>Maintenance\<close>, but for two: evidence of
  the revalidation of a failed job, once that job is queued again, and plans that were handed over
  with another hash than their contents.
\<close>

section \<open>Jobs, reservations and events\<close>

lemma count_where_key:
  "distinct (map key t) \<Longrightarrow> count_where (\<lambda>r. key r = k) t = (if k \<in> key ` set t then 1 else 0)"
  by (induction t) (auto simp: count_where_def)

lemma count_where_0: "count_where p t = 0 \<longleftrightarrow> (\<forall>r \<in> set t. \<not> p r)"
  by (auto simp: count_where_def filter_empty_conv)

lemma ended_iff: "state_name s \<in> set ended_states \<longleftrightarrow> is_terminal s"
  by (cases s) (simp_all add: ended_states_def state_name.simps)

lemma known_state: "state_name s \<in> set known_states"
  by (cases s) (simp_all add: known_states_def state_name.simps)

lemma foldl_max_upt: "foldl max 0 [0..<Suc n] = n"
  by (induction n) simp_all

lemma log_ok_last: "log_ok es s n \<Longrightarrow> es \<noteq> [] \<and> ev_next (last es) = state_name s"
  by (induction rule: log_ok.induct) simp_all

lemma log_ok_at: "log_ok es s n \<Longrightarrow> p \<in> set es \<Longrightarrow> ev_sequence p = n \<Longrightarrow> ev_next p = state_name s"
  by (induction rule: log_ok.induct) (auto dest: log_ok_sequence_le)

lemma log_ok_chain:
  "log_ok es s n \<Longrightarrow> e \<in> set es \<Longrightarrow> p \<in> set es \<Longrightarrow> Suc (ev_sequence p) = ev_sequence e \<Longrightarrow>
     ev_previous e = Some (ev_next p)"
proof (induction rule: log_ok.induct)
  case (moved es a n b x)
  then show ?case using log_ok_at [OF moved.hyps(1)] log_ok_sequence_le [OF moved.hyps(1)]
    by (auto simp: Suc_le_eq) (metis Suc_n_not_le_n le_SucI)+
qed auto

lemma store_job:
  assumes "store_inv d" and "r \<in> set (jobs d)"
  obtains s where "jr_state r = state_name s" "log_ok (events_of (jr_id r) d) s (jr_sequence r)"
    "reservations_of (jr_id r) d = (if is_terminal s then 0 else 1)"
proof -
  obtain s where s: "jr_state r = state_name s" "log_ok (events_of (jr_id r) d) s (jr_sequence r)"
    and owned: "owned_key (jr_id r) (output_reservations d) \<noteq> None \<longleftrightarrow> \<not> is_terminal s"
    using assms(1) find_job_member [OF assms] by (rule store_inv_rowE)
  have "distinct (map rs_job_id (output_reservations d))" using assms(1) by (simp add: store_inv_def res_table_ok_def)
  then have "reservations_of (jr_id r) d = (if is_terminal s then 0 else 1)"
    using owned by (auto simp: reservations_of_def count_where_key owned_key_None_iff)
  with s show thesis by (rule that)
qed

lemma events_pass:
  assumes "log_ok (events_of (jr_id r) d) s (jr_sequence r)" and "jr_state r = state_name s"
  shows "jr_sequence r = last_sequence (jr_id r) d" "\<not> log_gap d r" "\<not> stale_state d r"
proof -
  note seq = log_ok_sequences [OF assms(1)]
  show "jr_sequence r = last_sequence (jr_id r) d" by (simp add: last_sequence_def seq foldl_max_upt del: upt_Suc)
  have "0 \<in> set (map ev_sequence (events_of (jr_id r) d))" unfolding seq by (simp del: upt_Suc)
  moreover have "length (events_of (jr_id r) d) = Suc (jr_sequence r)" using seq by (metis length_map length_upt diff_zero)
  ultimately show "\<not> log_gap d r" by (simp add: log_gap_def)
  have "sort_key ev_sequence (events_of (jr_id r) d) = events_of (jr_id r) d"
    by (rule sort_key_id_if_sorted) (simp add: seq del: upt_Suc)
  then show "\<not> stale_state d r"
    using log_ok_last [OF assms(1)] assms(2)
    by (auto simp: stale_state_def latest_event_def hd_rev [symmetric] split: list.splits)
qed

lemma chain_pass:
  assumes inv: "store_inv d" and e: "e \<in> set (job_events d)"
  shows "\<not> broken_chain d e"
proof
  assume "broken_chain d e"
  then obtain v p where v: "ev_previous e = Some v" "v \<noteq> ev_next p" and p: "prior_event e d = Some p"
    by (auto simp: broken_chain_def split: option.splits)
  from p have p: "p \<in> set (job_events d)" "ev_job_id p = ev_job_id e" "Suc (ev_sequence p) = ev_sequence e"
    by (auto simp: prior_event_def find_Some_iff)
  have both: "e \<in> set (events_of (ev_job_id e) d)" "p \<in> set (events_of (ev_job_id e) d)"
    using e p by (auto simp: events_of_def)
  have "job_ok (ev_job_id e) d" using inv by (simp add: store_inv_def)
  then obtain s n where "log_ok (events_of (ev_job_id e) d) s n"
    using both(1) by (auto simp: job_ok_def split: option.splits)
  from log_ok_chain [OF this both p(3)] v show False by simp
qed

lemma queue_checks_pass:
  assumes inv: "store_inv d"
  shows "count_where (\<lambda>r. jr_state r \<notin> set known_states) (jobs d) = 0"
    "active_unreserved d = 0" "terminal_reserved d = 0"
    "count_where (\<lambda>r. jr_sequence r \<noteq> last_sequence (jr_id r) d) (jobs d) = 0"
    "count_where (log_gap d) (jobs d) = 0" "count_where (stale_state d) (jobs d) = 0"
    "count_where (broken_chain d) (job_events d) = 0"
proof -
  have row: "jr_state r \<in> set known_states \<and> jr_sequence r = last_sequence (jr_id r) d \<and> \<not> log_gap d r
      \<and> \<not> stale_state d r \<and> (jr_state r \<in> set ended_states \<longleftrightarrow> reservations_of (jr_id r) d = 0)
      \<and> (jr_state r \<notin> set ended_states \<longleftrightarrow> reservations_of (jr_id r) d = 1)"
    if r: "r \<in> set (jobs d)" for r
  proof -
    obtain s where s: "jr_state r = state_name s" "log_ok (events_of (jr_id r) d) s (jr_sequence r)"
      and n: "reservations_of (jr_id r) d = (if is_terminal s then 0 else 1)" using store_job [OF inv r] .
    show ?thesis using events_pass [OF s(2,1)] s(1) n by (simp add: ended_iff known_state)
  qed
  show "count_where (\<lambda>r. jr_state r \<notin> set known_states) (jobs d) = 0"
    "active_unreserved d = 0" "count_where (\<lambda>r. jr_sequence r \<noteq> last_sequence (jr_id r) d) (jobs d) = 0"
    "count_where (log_gap d) (jobs d) = 0" "count_where (stale_state d) (jobs d) = 0"
    using row by (auto simp: count_where_0 active_unreserved_def)
  show "terminal_reserved d = 0" using row by (auto simp: terminal_reserved_def sum_list_eq_0_iff)
  show "count_where (broken_chain d) (job_events d) = 0" using chain_pass [OF inv] by (simp add: count_where_0)
qed

section \<open>What other operations leave alone\<close>

text \<open>The tables of selections, bulk actions and evidence, and what a job row never changes.\<close>

definition aside where
  "aside d = (selection_snapshots d, selection_members d, bulk_actions d, bulk_action_members d, revalidations d)"

definition plan_cells :: "db \<Rightarrow> (uuid \<times> string \<times> string) list" where
  "plan_cells d = map (\<lambda>r. (jr_id r, jr_plan_hash r, jr_plan_json r)) (jobs d)"

text \<open>
  What is kept of the plans: with the reader \<open>fst c\<close> every stored plan is read back as one of the
  plans \<open>snd c\<close> that were handed to the store, and its hash is the stored one.
\<close>

type_synonym reading = "stored_codec \<times> plan set"

definition cell_ok :: "reading \<Rightarrow> uuid \<times> string \<times> string \<Rightarrow> bool" where
  "cell_ok c x = (case x of (j, h, body) \<Rightarrow> \<exists>p \<in> snd c. sc_plan (fst c) body = Some p \<and> plan_hash p = h)"

definition grown :: "reading \<Rightarrow> db \<Rightarrow> db \<Rightarrow> bool" where
  "grown c d d' \<longleftrightarrow> aside d' = aside d
     \<and> (\<exists>new. plan_cells d' = plan_cells d @ new \<and> (\<forall>x \<in> set new. cell_ok c x))"

definition readable_plan :: "reading \<Rightarrow> store_env \<Rightarrow> plan \<Rightarrow> bool" where
  "readable_plan c E p \<longleftrightarrow>
     p \<in> snd c \<and> (\<forall>body. env_plan_json E p = Some body \<longrightarrow> sc_plan (fst c) body = Some p)"

lemma grown_refl [simp]: "grown c d d"
  by (simp add: grown_def)

lemma grown_trans: "grown c d d1 \<Longrightarrow> grown c d1 d2 \<Longrightarrow> grown c d d2"
proof -
  assume "grown c d d1" "grown c d1 d2"
  then obtain x y where "plan_cells d2 = plan_cells d @ x @ y" "\<forall>z \<in> set x. cell_ok c z" "\<forall>z \<in> set y. cell_ok c z"
    "aside d2 = aside d" unfolding grown_def by auto
  then have "aside d2 = aside d \<and> plan_cells d2 = plan_cells d @ (x @ y) \<and> (\<forall>z \<in> set (x @ y). cell_ok c z)" by auto
  then show "grown c d d2" unfolding grown_def by blast
qed

lemma grown_same: "aside d' = aside d \<Longrightarrow> plan_cells d' = plan_cells d \<Longrightarrow> grown c d d'"
  by (simp add: grown_def)

lemma cells_update [simp]:
  "plan_cells (d\<lparr>jobs := update_rows p (set_state_row st sq now) (jobs d)\<rparr>) = plan_cells d"
  by (simp add: plan_cells_def map_update_rows set_state_row_def)

lemma aside_simps [simp]:
  "aside (d\<lparr>jobs := a\<rparr>) = aside d" "aside (d\<lparr>job_events := b\<rparr>) = aside d"
  "aside (d\<lparr>output_reservations := e\<rparr>) = aside d" "aside (d\<lparr>batches := f\<rparr>) = aside d"
  "aside (d\<lparr>batch_members := g\<rparr>) = aside d" "aside (d\<lparr>idempotency_keys := h\<rparr>) = aside d"
  "aside (d\<lparr>throughput_samples := i\<rparr>) = aside d" "aside (d\<lparr>next_sample_id := k\<rparr>) = aside d"
  by (simp_all add: aside_def)

lemma cells_simps [simp]:
  "plan_cells (d\<lparr>job_events := b\<rparr>) = plan_cells d" "plan_cells (d\<lparr>output_reservations := e\<rparr>) = plan_cells d"
  "plan_cells (d\<lparr>batches := f\<rparr>) = plan_cells d" "plan_cells (d\<lparr>batch_members := g\<rparr>) = plan_cells d"
  "plan_cells (d\<lparr>idempotency_keys := h\<rparr>) = plan_cells d" "plan_cells (d\<lparr>throughput_samples := i\<rparr>) = plan_cells d"
  "plan_cells (d\<lparr>next_sample_id := k\<rparr>) = plan_cells d" "plan_cells (d\<lparr>selection_snapshots := l\<rparr>) = plan_cells d"
  "plan_cells (d\<lparr>selection_members := m\<rparr>) = plan_cells d" "plan_cells (d\<lparr>bulk_actions := n\<rparr>) = plan_cells d"
  "plan_cells (d\<lparr>bulk_action_members := o'\<rparr>) = plan_cells d" "plan_cells (d\<lparr>revalidations := q\<rparr>) = plan_cells d"
  by (simp_all add: plan_cells_def)

lemma grown_statements:
  "update_job_state j cur sq nxt sq' now d = Inr (n, d') \<Longrightarrow> grown c d d'"
  "insert_event e d = Inr d' \<Longrightarrow> grown c d d'" "reserve_output E j path d = Inr d' \<Longrightarrow> grown c d d'"
  "insert_batch_row b d = Inr d' \<Longrightarrow> grown c d d'" "insert_batch_member m d = Inr d' \<Longrightarrow> grown c d d'"
  "insert_idempotency_key i d = Inr d' \<Longrightarrow> grown c d d'" "grown c d (release_output j d)"
  by (auto intro!: grown_same simp: update_job_state_def insert_event_def reserve_output_def insert_batch_row_def
      insert_batch_member_def insert_idempotency_key_def release_output_def split: if_splits)

lemma grown_move: "move_job E row cur nxt tag d = Inr d' \<Longrightarrow> grown c d d'"
  unfolding move_job_def Let_def
  by (auto split: if_splits dest!: grown_statements(1,2) [where c = c] intro: grown_trans)

lemma grown_insert_one:
  assumes "insert_one E j q d = Inr (r, d')" and "readable_plan c E (cr_plan q)"
  shows "grown c d d'"
proof -
  define new where "new body = d\<lparr>jobs := jobs d @ [\<lparr>jr_id = j, jr_state = state_name Planned,
      jr_input_path = cr_input_path q, jr_output_path = cr_output_path q, jr_plan_hash = plan_hash (cr_plan q),
      jr_plan_json = body, jr_sequence = 0, jr_created = env_now E, jr_updated = env_now E\<rparr>]\<rparr>" for body
  from assms(1) obtain body d2 where body: "env_plan_json E (cr_plan q) = Some body"
    and rest: "reserve_output E j (cr_output_path q) (new body) = Inr d2"
      "insert_event \<lparr>ev_job_id = j, ev_sequence = 0, ev_previous = None, ev_next = state_name Planned,
         ev_code = ''JOB_CREATED'', ev_timestamp = env_now E\<rparr> d2 = Inr d'"
    by (auto simp: insert_one_def serialize_plan_def ok_or_def insert_job_row_def new_def split: option.splits if_splits)
  have row: "plan_cells (new body) = plan_cells d @ [(j, plan_hash (cr_plan q), body)]" "aside (new body) = aside d"
    by (simp_all add: new_def plan_cells_def)
  have "grown c d (new body)" using row body assms(2) by (auto simp: grown_def cell_ok_def readable_plan_def)
  with grown_statements(3) [OF rest(1)] grown_statements(2) [OF rest(2)] show ?thesis by (blast intro: grown_trans)
qed

lemma grown_insert_jobs:
  "insert_jobs E k qs d = Inr (rs, d') \<Longrightarrow> \<forall>q \<in> set qs. readable_plan c E (cr_plan q) \<Longrightarrow> grown c d d'"
  by (induction qs arbitrary: k d rs) (auto dest!: grown_insert_one [where c = c] intro: grown_trans)

lemma grown_fold:
  assumes "res_fold f d xs = Inr d'" and "\<And>d x d'. f d x = Inr d' \<Longrightarrow> grown c d d'"
  shows "grown c d d'"
  using assms(1)
proof (induction xs arbitrary: d)
  case (Cons x xs)
  then obtain d1 where "f d x = Inr d1" "res_fold f d1 xs = Inr d'" by auto
  with Cons.IH assms(2) show ?case by (blast intro: grown_trans)
qed simp

lemma grown_enqueue: "enqueue_new E tag j d = Inr d' \<Longrightarrow> grown c d d'"
  by (auto simp: enqueue_new_def dest!: grown_statements(1,2) [where c = c] intro: grown_trans)

lemma grown_members: "add_members b rs d = Inr d' \<Longrightarrow> grown c d d'"
  unfolding add_members_def by (erule grown_fold) (auto dest: grown_statements(5))

lemma grown_queue: "queue_all E tag js d = Inr (rs, d') \<Longrightarrow> grown c d d'"
  by (induction js arbitrary: d rs)
    (auto simp: queue_one_def dest!: grown_statements(3) [where c = c] grown_move [where c = c] intro: grown_trans)

lemma grown_transition: "transition_tx E j nxt tag d = Inr (r, d') \<Longrightarrow> grown c d d'"
  unfolding transition_tx_def
  by (auto split: if_splits dest!: grown_statements(3) [where c = c] grown_move [where c = c]
      intro: grown_trans grown_statements(7))

lemma grown_run: "(\<And>x d'. f d = Inr (x, d') \<Longrightarrow> grown c d d') \<Longrightarrow> grown c d (snd (run_tx f d))"
  by (auto simp: run_tx_def split: sum.splits)

section \<open>The ledger of selections, bulk actions and evidence\<close>

definition outcome_known :: "bulk_member_row \<Rightarrow> bool" where
  "outcome_known m \<longleftrightarrow> bm_outcome m \<in> {''transitioned'', ''skipped-state'', ''skipped-output-conflict''}"

definition selections_ok :: "db \<Rightarrow> bool" where
  "selections_ok d \<longleftrightarrow>
     (\<forall>s \<in> set (selection_snapshots d). se_member_count s = members_of (se_id s) d \<and> se_member_count s \<le> 100000)
     \<and> (\<forall>m \<in> set (selection_members d). sm_selection_id m \<in> se_id ` set (selection_snapshots d))"

definition bulk_ok :: "db \<Rightarrow> bool" where
  "bulk_ok d \<longleftrightarrow>
     (\<forall>b \<in> set (bulk_actions d). bk_matched b = bk_transitioned b + bk_skipped_state b + bk_skipped_conflict b
        \<and> bk_matched b = outcomes_of (bk_id b) d)
     \<and> (\<forall>m \<in> set (bulk_action_members d). bm_action_id m \<in> bk_id ` set (bulk_actions d) \<and> outcome_known m)"

definition report_fits :: "reading \<Rightarrow> revalidation_row \<Rightarrow> uuid \<times> string \<times> string \<Rightarrow> bool" where
  "report_fits c v x = (case x of (j, h, body) \<Rightarrow> j = rv_job_id v \<and> (\<exists>report. sc_report (fst c) (rv_report_json v) = Some report
     \<and> report_job_id report = j \<and> report_plan_hash report = h \<and> validation_status_name (report_status report) = rv_status v))"

definition evidence_ok :: "reading \<Rightarrow> db \<Rightarrow> bool" where
  "evidence_ok c d \<longleftrightarrow> (\<forall>v \<in> set (revalidations d). \<exists>x \<in> set (plan_cells d). report_fits c v x)"

definition ledger :: "reading \<Rightarrow> db \<Rightarrow> bool" where
  "ledger c d \<longleftrightarrow> selections_ok d \<and> bulk_ok d \<and> evidence_ok c d \<and> (\<forall>x \<in> set (plan_cells d). cell_ok c x)"

lemma aside_fields:
  "aside d' = aside d \<longleftrightarrow> selection_snapshots d' = selection_snapshots d \<and> selection_members d' = selection_members d
     \<and> bulk_actions d' = bulk_actions d \<and> bulk_action_members d' = bulk_action_members d
     \<and> revalidations d' = revalidations d"
  by (simp add: aside_def)

lemma ledger_grown:
  assumes "grown c d d'" and "ledger c d"
  shows "ledger c d'"
proof -
  obtain new where cells: "plan_cells d' = plan_cells d @ new" "\<forall>x \<in> set new. cell_ok c x" and same: "aside d' = aside d"
    using assms(1) by (auto simp: grown_def)
  have "selections_ok d" "bulk_ok d" using assms(2) by (simp_all add: ledger_def)
  moreover have "selections_ok d' = selections_ok d" "bulk_ok d' = bulk_ok d"
    using same unfolding aside_fields selections_ok_def bulk_ok_def members_of_def outcomes_of_def by simp_all
  moreover have "evidence_ok c d'"
    using assms(2) same cells(1) unfolding aside_fields ledger_def evidence_ok_def by (metis Un_iff set_append)
  ultimately show ?thesis using assms(2) cells by (auto simp: ledger_def)
qed

lemma ledger_empty: "ledger c empty_db"
  by (simp add: ledger_def selections_ok_def bulk_ok_def evidence_ok_def plan_cells_def empty_db_def)

lemma ledger_tx:
  "ledger c d \<Longrightarrow> (\<And>x d'. f d = Inr (x, d') \<Longrightarrow> ledger c d') \<Longrightarrow> ledger c (snd (run_tx f d))"
  by (rule run_tx_preserves)

lemma count_where_append: "count_where p (xs @ ys) = count_where p xs + count_where p ys"
  by (simp add: count_where_def)

lemma ledger_capture:
  assumes "ledger c d"
  shows "ledger c (snd (capture_selection E query d))"
proof -
  have step: "ledger c d2" if new: "insert_selection_row s d = Inr d1" and len: "se_member_count s = length ids"
      "length ids \<le> 100000"
    and loop: "res_fold (\<lambda>d (k, j). insert_selection_member
        \<lparr>sm_selection_id = se_id s, sm_job_id = j, sm_ordinal = k\<rparr> d) d1 (enumerate 0 ids) = Inr d2" for s d1 d2 ids
  proof -
    have fresh: "se_id s \<notin> se_id ` set (selection_snapshots d)" and d1: "d1 = d\<lparr>selection_snapshots := selection_snapshots d @ [s]\<rparr>"
      using new by (auto simp: insert_selection_row_def split: if_splits)
    have loop': "\<exists>ms. d2 = d1\<lparr>selection_members := selection_members d1 @ ms\<rparr> \<and> length ms = length xs
        \<and> (\<forall>m \<in> set ms. sm_selection_id m = se_id s)"
      if "res_fold (\<lambda>d (k, j). insert_selection_member
        \<lparr>sm_selection_id = se_id s, sm_job_id = j, sm_ordinal = k\<rparr> d) d1 xs = Inr d2" for xs :: "(nat \<times> uuid) list" and d1
      using that
    proof (induction xs arbitrary: d1)
      case Nil
      then show ?case by (intro exI [of _ "[]"]) simp
    next
      case (Cons x xs)
      obtain k j where x: "x = (k, j)" by (cases x)
      from Cons.prems obtain da where
        da: "insert_selection_member \<lparr>sm_selection_id = se_id s, sm_job_id = j, sm_ordinal = k\<rparr> d1 = Inr da"
        and rest: "res_fold (\<lambda>d (k, j). insert_selection_member
          \<lparr>sm_selection_id = se_id s, sm_job_id = j, sm_ordinal = k\<rparr> d) da xs = Inr d2" by (auto simp: x)
      have "da = d1\<lparr>selection_members := selection_members d1 @ [\<lparr>sm_selection_id = se_id s, sm_job_id = j, sm_ordinal = k\<rparr>]\<rparr>"
        using da by (auto simp: insert_selection_member_def split: if_splits)
      with Cons.IH [OF rest] obtain ms where "d2 = d1\<lparr>selection_members := selection_members d1
          @ (\<lparr>sm_selection_id = se_id s, sm_job_id = j, sm_ordinal = k\<rparr> # ms)\<rparr>"
        "length ms = length xs" "\<forall>m \<in> set ms. sm_selection_id m = se_id s" by auto
      then show ?case by (intro exI [of _ "\<lparr>sm_selection_id = se_id s, sm_job_id = j, sm_ordinal = k\<rparr> # ms"]) simp
    qed
    obtain ms where d2: "d2 = d1\<lparr>selection_members := selection_members d1 @ ms\<rparr>" and n: "length ms = length ids"
      and ms: "\<forall>m \<in> set ms. sm_selection_id m = se_id s" using loop' [OF loop] by (auto simp: length_enumerate)
    have mine: "count_where (\<lambda>m. sm_selection_id m = se_id s) ms = length ids"
      using ms n by (simp add: count_where_def filter_True)
    have other: "count_where (\<lambda>m. sm_selection_id m = i) ms = 0" if "i \<noteq> se_id s" for i
      using ms that by (auto simp: count_where_0)
    have none: "count_where (\<lambda>m. sm_selection_id m = se_id s) (selection_members d) = 0"
      using assms fresh unfolding count_where_0 ledger_def selections_ok_def by metis
    have old: "members_of (se_id x) d2 = members_of (se_id x) d" if "x \<in> set (selection_snapshots d)" for x
    proof -
      have "se_id x \<noteq> se_id s" using fresh that by (metis image_eqI)
      from other [OF this] show ?thesis by (simp add: members_of_def d2 d1 count_where_append)
    qed
    have "members_of (se_id s) d2 = length ids"
      using mine none by (simp add: members_of_def d2 d1 count_where_append)
    then have "selections_ok d2"
      using assms old ms len by (auto simp: d2 d1 ledger_def selections_ok_def)
    moreover have "bulk_ok d2 = bulk_ok d" "evidence_ok c d2 = evidence_ok c d" "plan_cells d2 = plan_cells d"
      by (simp_all add: d2 d1 bulk_ok_def evidence_ok_def outcomes_of_def)
    ultimately show ?thesis using assms by (simp add: ledger_def)
  qed
  show ?thesis
  proof (cases "normalize_selection_query query")
    case (Inr q)
    show ?thesis unfolding capture_selection_def Inr sum.case
    proof (rule ledger_tx [OF assms])
      fix x d'
      let ?ids = "selection_member_ids q d"
      let ?s = "\<lparr>se_id = env_uuid E 0, se_query = q, se_member_count = length ?ids, se_created = env_now E\<rparr>"
      assume "(let i = env_uuid E 0; ids = ?ids in
         if 100000 < length ids
         then Inl (anole_error_new ResourceExhausted Store ''Selection exceeds the 100,000-job snapshot limit'')
         else res_bind (insert_selection_row \<lparr>se_id = i, se_query = q, se_member_count = length ids, se_created = env_now E\<rparr> d)
           (\<lambda>d1. res_bind (res_fold (\<lambda>d (k, j). insert_selection_member
                  \<lparr>sm_selection_id = i, sm_job_id = j, sm_ordinal = k\<rparr> d) d1 (enumerate 0 ids))
              (\<lambda>d2. Inr (\<lparr>ss_id = i, ss_query = q, ss_member_count = length ids, ss_created = env_now E\<rparr>, d2)))) = Inr (x, d')"
      then obtain d1 where "insert_selection_row ?s d = Inr d1" "length ?ids \<le> 100000"
        "res_fold (\<lambda>d (k, j). insert_selection_member
            \<lparr>sm_selection_id = se_id ?s, sm_job_id = j, sm_ordinal = k\<rparr> d) d1 (enumerate 0 ?ids) = Inr d'"
        by (auto simp: Let_def split: if_splits)
      then show "ledger c d'" by (intro step [of ?s d1 ?ids d']) simp_all
    qed
  qed (simp add: capture_selection_def assms)
qed

section \<open>Bulk actions\<close>

definition sideways :: "reading \<Rightarrow> uuid \<Rightarrow> nat \<Rightarrow> db \<Rightarrow> db \<Rightarrow> bool" where
  "sideways c a n d d' \<longleftrightarrow> selection_snapshots d' = selection_snapshots d \<and> selection_members d' = selection_members d
     \<and> bulk_actions d' = bulk_actions d \<and> revalidations d' = revalidations d
     \<and> (\<exists>new. plan_cells d' = plan_cells d @ new \<and> (\<forall>x \<in> set new. cell_ok c x))
     \<and> (\<exists>ms. bulk_action_members d' = bulk_action_members d @ ms \<and> length ms = n
          \<and> (\<forall>m \<in> set ms. bm_action_id m = a \<and> outcome_known m))"

lemma sideways_trans:
  assumes "sideways c a n d d1" and "sideways c a m d1 d2"
  shows "sideways c a (n + m) d d2"
proof -
  obtain x y where "plan_cells d2 = plan_cells d @ (x @ y)" "\<forall>z \<in> set (x @ y). cell_ok c z"
    using assms unfolding sideways_def by (metis append.assoc Un_iff set_append)
  moreover obtain ms ns where "bulk_action_members d2 = bulk_action_members d @ (ms @ ns)" "length (ms @ ns) = n + m"
    "\<forall>z \<in> set (ms @ ns). bm_action_id z = a \<and> outcome_known z"
    using assms unfolding sideways_def by (metis append.assoc Un_iff set_append length_append)
  moreover have "selection_snapshots d2 = selection_snapshots d" "selection_members d2 = selection_members d"
    "bulk_actions d2 = bulk_actions d" "revalidations d2 = revalidations d"
    using assms by (simp_all add: sideways_def)
  ultimately show ?thesis unfolding sideways_def by metis
qed

lemma sideways_grown: "grown c d d' \<Longrightarrow> sideways c a 0 d d'"
  by (auto simp: grown_def aside_fields sideways_def)

lemma sideways_member:
  assumes "insert_bulk_member a j out s n d = Inr d'"
    and "out \<in> {''transitioned'', ''skipped-state'', ''skipped-output-conflict''}"
  shows "sideways c a 1 d d'"
  using assms by (auto simp: insert_bulk_member_def sideways_def outcome_known_def split: if_splits)

definition bulk_total :: "'w bulk_loop \<Rightarrow> nat" where
  "bulk_total st = bl_transitioned st + bl_skipped_state st + bl_skipped_conflict st"

lemma bulk_transition_grown:
  assumes "bulk_transition E act a job nxt d = Inr d'"
  shows "\<exists>d3. grown c d d3 \<and> insert_bulk_member a (rec_id job) ''transitioned'' (rec_state job) (Some nxt)
    (if is_terminal nxt then release_output (rec_id job) d3 else d3) = Inr d'"
proof -
  note steps = grown_statements(1-3) [where c = c]
  have two: "grown c d x \<Longrightarrow> grown c x y \<Longrightarrow> grown c d y" for x y by (rule grown_trans)
  show ?thesis using assms unfolding bulk_transition_def Let_def
    by (auto split: if_splits dest!: steps) (blast intro: two)+
qed

lemma bulk_step_sideways:
  assumes run: "bulk_step E act a before st row = Inr st'"
  shows "sideways c a 1 (bl_db st) (bl_db st') \<and> (bulk_total st < u64_max \<longrightarrow> bulk_total st' = Suc (bulk_total st))"
proof -
  obtain job where job: "job_record_from_row row = Inr job"
    using run by (auto simp: bulk_step_def)
  have sat: "sat_add n (Suc 0) = Suc n" if "n < u64_max" for n using that by (simp add: sat_add_def)
  from job refl run show ?thesis
  proof (cases rule: bulk_step_cases)
    case (move nxt w d')
    then obtain d3 where g: "grown c (bl_db st) d3"
      and d': "insert_bulk_member a (rec_id job) ''transitioned'' (rec_state job) (Some nxt)
        (if is_terminal nxt then release_output (rec_id job) d3 else d3) = Inr d'"
      using bulk_transition_grown [OF move(2)] by blast
    have "grown c (bl_db st) (if is_terminal nxt then release_output (rec_id job) d3 else d3)"
      using g grown_statements(7) grown_trans by (auto split: if_splits)
    from sideways_trans [OF sideways_grown [OF this] sideways_member [OF d']] show ?thesis
      using move(3) by (auto simp: bulk_total_def sat)
  qed (auto simp: bulk_total_def sat dest!: sideways_member [of a _ _ _ _ _ _ c])
qed

lemma bulk_loop_sideways:
  "res_fold (bulk_step E act a before) st rows = Inr st' \<Longrightarrow> bulk_total st + length rows \<le> u64_max \<Longrightarrow>
     sideways c a (length rows) (bl_db st) (bl_db st') \<and> bulk_total st' = bulk_total st + length rows"
proof (induction rows arbitrary: st)
  case Nil
  then show ?case by (simp add: sideways_grown)
next
  case (Cons r rows)
  from Cons.prems(1) obtain st1 where one: "bulk_step E act a before st r = Inr st1"
    and rest: "res_fold (bulk_step E act a before) st1 rows = Inr st'" by auto
  have "bulk_total st1 = Suc (bulk_total st)" using bulk_step_sideways [OF one, of c] Cons.prems(2) by simp
  with Cons.IH [OF rest] Cons.prems(2) bulk_step_sideways [OF one, of c] show ?case
    using sideways_trans [of c a 1 "bl_db st" "bl_db st1" "length rows" "bl_db st'"] by simp
qed

lemma selection_rows_few:
  assumes "selections_ok d"
  shows "length (selection_rows sel d) \<le> 100000"
proof -
  have "length (selection_job_ids sel d) = members_of sel d"
    by (simp add: selection_job_ids_def members_of_def count_where_def)
  moreover have "length (joined_jobs js d) \<le> length js" for js
    by (simp add: joined_jobs_def map_filter_def le_trans [OF length_filter_le])
  moreover have "members_of sel d \<le> 100000"
  proof (cases "sel \<in> se_id ` set (selection_snapshots d)")
    case True
    then show ?thesis using assms by (auto simp: selections_ok_def)
  next
    case False
    then have "members_of sel d = 0" using assms unfolding members_of_def count_where_0 selections_ok_def by metis
    then show ?thesis by simp
  qed
  ultimately show ?thesis unfolding selection_rows_def by (metis le_trans)
qed

lemma ledger_bulk:
  assumes "ledger c d"
  shows "ledger c (snd (apply_bulk_action_persisted E sel act before w d))"
  unfolding apply_bulk_action_persisted_def
proof (rule ledger_tx [OF assms])
  fix x d' assume run: "apply_bulk_action_transaction E sel act before w d = Inr (x, d')"
  let ?a = "env_uuid E 0" and ?rows = "selection_rows sel d"
  let ?b = "\<lparr>bk_id = ?a, bk_selection_id = sel, bk_action = bulk_action_name act,
      bk_matched = min (length ?rows) i64_max, bk_transitioned = 0, bk_skipped_state = 0,
      bk_skipped_conflict = 0, bk_created = env_now E\<rparr>"
  define st0 where "st0 d1 = \<lparr>bl_transitioned = 0, bl_skipped_state = 0, bl_skipped_conflict = 0,
      bl_world = w, bl_db = d1\<rparr>" for d1
  from run obtain d1 st where ins: "insert_bulk_row ?b d = Inr d1"
    and loop: "res_fold (bulk_step E act ?a before) (st0 d1) ?rows = Inr st"
    and fin: "set_bulk_counts ?a (bl_transitioned st) (bl_skipped_state st) (bl_skipped_conflict st) (bl_db st) = Inr d'"
    by (auto simp: apply_bulk_action_transaction_def Let_def st0_def)
  have few: "length ?rows \<le> 100000" using assms selection_rows_few by (simp add: ledger_def)
  have fresh: "?a \<notin> bk_id ` set (bulk_actions d)" and d1: "d1 = d\<lparr>bulk_actions := bulk_actions d @ [?b]\<rparr>"
    using ins by (auto simp: insert_bulk_row_def split: if_splits)
  have side: "sideways c ?a (length ?rows) d1 (bl_db st)" and total: "bulk_total st = length ?rows"
    using bulk_loop_sideways [OF loop, of c] few by (simp_all add: st0_def bulk_total_def u64_max_def)
  obtain new ms where cells: "plan_cells (bl_db st) = plan_cells d @ new" "\<forall>x \<in> set new. cell_ok c x"
    and ms: "bulk_action_members (bl_db st) = bulk_action_members d @ ms" "length ms = length ?rows"
      "\<forall>m \<in> set ms. bm_action_id m = ?a \<and> outcome_known m"
    and same: "selection_snapshots (bl_db st) = selection_snapshots d" "selection_members (bl_db st) = selection_members d"
      "bulk_actions (bl_db st) = bulk_actions d @ [?b]" "revalidations (bl_db st) = revalidations d"
    using side unfolding sideways_def d1 by (auto simp: plan_cells_def)
  let ?f = "\<lambda>b. b\<lparr>bk_transitioned := bl_transitioned st, bk_skipped_state := bl_skipped_state st,
      bk_skipped_conflict := bl_skipped_conflict st\<rparr>"
  have d': "d' = (bl_db st)\<lparr>bulk_actions := update_rows (\<lambda>b. bk_id b = ?a) ?f (bulk_actions d @ [?b])\<rparr>"
    using fin same(3) by (auto simp: set_bulk_counts_def)
  have old: "update_rows (\<lambda>b. bk_id b = ?a) ?f (bulk_actions d @ [?b]) = bulk_actions d @ [?f ?b]"
    using fresh by (auto simp: update_rows_def image_iff intro!: map_idI)
  have mine: "count_where (\<lambda>m. bm_action_id m = ?a) ms = length ?rows"
    using ms by (simp add: count_where_def filter_True)
  have other: "count_where (\<lambda>m. bm_action_id m = i) ms = 0" if "i \<noteq> ?a" for i
    using ms that by (auto simp: count_where_0)
  have "\<forall>m \<in> set (bulk_action_members d). bm_action_id m \<noteq> ?a"
    using assms fresh unfolding ledger_def bulk_ok_def by (metis image_eqI)
  then have none: "count_where (\<lambda>m. bm_action_id m = ?a) (bulk_action_members d) = 0" by (simp add: count_where_0)
  have known: "\<forall>m \<in> set (bulk_action_members d'). bm_action_id m \<in> bk_id ` set (bulk_actions d') \<and> outcome_known m"
    using assms ms(3) unfolding d' old ledger_def bulk_ok_def by (auto simp: ms(1))
  have rows: "bk_matched b = bk_transitioned b + bk_skipped_state b + bk_skipped_conflict b \<and> bk_matched b = outcomes_of (bk_id b) d'"
    if "b \<in> set (bulk_actions d')" for b
  proof (cases "b \<in> set (bulk_actions d)")
    case True
    then have "bk_id b \<noteq> ?a" using fresh by (metis image_eqI)
    from True assms other [OF this] show ?thesis
      by (auto simp: ledger_def bulk_ok_def outcomes_of_def d' ms(1) count_where_append)
  next
    case False
    then have "b = ?f ?b" using that by (simp add: d' old)
    then show ?thesis using total mine none few
      by (simp add: bulk_total_def outcomes_of_def d' ms(1) count_where_append i64_max_def)
  qed
  have "bulk_ok d'" using known rows unfolding bulk_ok_def by blast
  moreover have "selections_ok d' = selections_ok d"
    unfolding selections_ok_def members_of_def d' by (simp add: same(1,2))
  moreover have "evidence_ok c d'" using assms cells unfolding ledger_def evidence_ok_def d'
    by (simp add: same) blast
  ultimately show "ledger c d'" using assms cells by (auto simp: ledger_def d')
qed

end
