(* ===== verification/Maintenance_Run.thy ===== *)
theory Maintenance_Run
  imports Maintenance_Safety Chain_Run
begin

text \<open>
  The integrity check on every database that a run of store commands reaches.
\<close>

section \<open>Every command keeps the ledger\<close>

text \<open>
  What a command is given: plans which are read back from the JSON they are stored as, and reports
  which are read back likewise.
\<close>

fun command_plans :: "'w store_command \<Rightarrow> plan list" where
  "command_plans (CreateJob E q) = [cr_plan q]"
| "command_plans (CreateJobs E qs) = map cr_plan qs"
| "command_plans (CreateBatch E name qs enqueue) = map cr_plan qs"
| "command_plans (CreateIdempotent E key q enqueue) = [cr_plan q]"
| "command_plans _ = []"

fun command_env :: "'w store_command \<Rightarrow> store_env option" where
  "command_env (CreateJob E q) = Some E"
| "command_env (CreateJobs E qs) = Some E"
| "command_env (CreateBatch E name qs enqueue) = Some E"
| "command_env (CreateIdempotent E key q enqueue) = Some E"
| "command_env _ = None"

definition command_ok :: "stored_codec \<Rightarrow> 'w store_command \<Rightarrow> bool" where
  "command_ok c cmd \<longleftrightarrow>
     (\<forall>E p body. command_env cmd = Some E \<longrightarrow> p \<in> set (command_plans cmd) \<longrightarrow> env_plan_json E p = Some body
        \<longrightarrow> sc_plan c body = Some p)
     \<and> (case cmd of Revalidate E j rep \<Rightarrow> (\<forall>body. env_report_json E rep = Some body \<longrightarrow> sc_report c body = Some rep)
        | _ \<Rightarrow> True)"

lemma grown_create_jobs:
  "\<forall>q \<in> set qs. readable_plan c E (cr_plan q) \<Longrightarrow> grown c d (snd (create_jobs E qs d))"
  by (auto simp: create_jobs_def intro!: grown_run dest: grown_insert_jobs)

lemma grown_create_job: "readable_plan c E (cr_plan q) \<Longrightarrow> grown c d (snd (create_job E q d))"
  using grown_create_jobs [of "[q]" c E d] by (auto simp: create_job_def split: prod.splits sum.splits)

lemma grown_create_batch:
  assumes "\<forall>q \<in> set qs. readable_plan c E (cr_plan q)"
  shows "grown c d (snd (create_batch_inner E name qs enq d))"
proof -
  have "grown c d d4" if run: "insert_batch_row b d = Inr d1"
      "insert_jobs E 1 qs d1 = Inr (rs, d2)" "add_members b' rs d2 = Inr d3"
      "(if enq then res_fold (\<lambda>d r. enqueue_new E ''BATCH_QUEUED'' (rec_id r) d) d3 rs else Inr d3) = Inr d4"
    for b b' d1 rs d2 d3 d4
  proof -
    have "grown c d3 d4" using run(4) by (auto split: if_splits elim!: grown_fold intro: grown_enqueue)
    with grown_members [OF run(3), of c] grown_insert_jobs [OF run(2) assms] grown_statements(4) [OF run(1), of c]
    show ?thesis by (meson grown_trans)
  qed
  then show ?thesis
    by (auto simp: create_batch_inner_def Let_def intro!: grown_run split: sum.splits)
qed

lemma grown_idempotent:
  assumes "readable_plan c E (cr_plan q)"
  shows "grown c d (snd (create_job_idempotent_with_state E key q enq d))"
proof -
  have "grown c d d3" if run: "insert_jobs E 0 [q] d = Inr (rs, d1)" "insert_idempotency_key i d1 = Inr d2"
      "d3 = d2 \<or> enqueue_new E tag j d2 = Inr d3" for rs d1 i d2 d3 tag j
  proof -
    have "grown c d2 d3" using run(3) by (auto intro: grown_enqueue)
    moreover have "grown c d d1" using grown_insert_jobs [OF run(1), of c] assms by simp
    ultimately show ?thesis using grown_statements(6) [OF run(2), of c] by (meson grown_trans)
  qed
  note new = this
  have "grown c d d'" if "idempotent_tx E k q enq d = Inr (r, d')" for k r d'
    using that unfolding idempotent_tx_def Let_def
    by (auto split: option.splits if_splits dest: new simp del: insert_jobs.simps)
  then show ?thesis by (auto simp: create_job_idempotent_with_state_def intro!: grown_run split: sum.splits)
qed

lemma grown_queue_jobs: "grown c d (snd (queue_jobs E js tag d))"
  by (auto simp: queue_jobs_def intro!: grown_run dest: grown_queue)

lemma grown_transition_run: "grown c d (snd (transition E j nxt tag d))"
  unfolding transition_def by (rule grown_run) (rule grown_transition)

lemma grown_claim: "grown c d (snd (claim_queued_job E j tag d))"
  unfolding claim_queued_job_def
proof (rule grown_run)
  fix x d' assume "claim_tx E j tag d = Inr (x, d')"
  then show "grown c d d'" unfolding claim_tx_def Let_def
    by (auto split: if_splits dest!: grown_statements(1,2) [where c = c] intro: grown_trans)
qed

lemma grown_cleanup: "grown c d (snd (cleanup_staging_persisted E j f d))"
  unfolding cleanup_staging_persisted_def
  by (rule grown_run) (auto simp: cleanup_tx_def dest!: grown_move [where c = c])

lemma grown_interrupt: "grown c d (snd (interrupt_each E js d))"
proof (induction js arbitrary: d)
  case (Cons j js)
  obtain x d1 where one: "transition E j Interrupted ''RECOVERED_AFTER_RESTART'' d = (x, d1)" by fastforce
  have "grown c d d1" using grown_transition_run [of c d E j Interrupted "''RECOVERED_AFTER_RESTART''"] one by simp
  with Cons.IH [of d1] one show ?case by (auto split: sum.splits prod.splits intro: grown_trans)
qed simp

lemma grown_sample: "grown c d (snd (record_engine_throughput_sample x d))"
  unfolding record_engine_throughput_sample_def
  by (rule grown_run) (auto simp: Let_def intro!: grown_same)

lemma grown_recover: "grown c d (snd (mark_active_jobs_interrupted E d))"
  using grown_interrupt [of c d E "active_job_ids d"]
  by (auto simp: mark_active_jobs_interrupted_def interrupt_active_jobs_def split: prod.splits sum.splits)

lemma ledger_revalidation:
  assumes "ledger c d" and ok: "\<forall>body. env_report_json E rep = Some body \<longrightarrow> sc_report (fst c) body = Some rep"
  shows "ledger c (snd (record_revalidation E j rep d))"
proof -
  have "ledger c d'" if run: "revalidation_tx E j rep body d = Inr (x, d')" and body: "env_report_json E rep = Some body"
    and own: "report_job_id rep = j" for body x d'
  proof -
    let ?v = "\<lparr>rv_id = env_uuid E 0, rv_job_id = j, rv_status = validation_status_name (report_status rep),
       rv_report_json = body, rv_created = env_now E\<rparr>"
    from run obtain row where row: "find_job j d = Some row" and h: "report_plan_hash rep = jr_plan_hash row"
      and d': "d' = d\<lparr>revalidations := revalidations d @ [?v]\<rparr>"
      by (auto simp: revalidation_tx_def ok_or_def split: option.splits if_splits)
    have mem: "(j, jr_plan_hash row, jr_plan_json row) \<in> set (plan_cells d)"
      using row by (force simp: plan_cells_def dest: find_job_in find_job_id)
    have "report_fits c ?v (j, jr_plan_hash row, jr_plan_json row)"
      using ok body own h by (simp add: report_fits_def)
    then have "evidence_ok c d'" using assms(1) mem by (auto simp: evidence_ok_def ledger_def d')
    moreover have "selections_ok d' = selections_ok d" "bulk_ok d' = bulk_ok d" "plan_cells d' = plan_cells d"
      by (simp_all add: d' selections_ok_def bulk_ok_def members_of_def outcomes_of_def)
    ultimately show ?thesis using assms(1) by (simp add: ledger_def)
  qed
  then show ?thesis using assms(1)
    by (auto simp: record_revalidation_def split: option.splits intro!: ledger_tx)
qed

lemma ledger_command:
  assumes "ledger (c, P) d" and "command_ok c cmd" and "set (command_plans cmd) \<subseteq> P"
  shows "ledger (c, P) (run_command d cmd)"
  using assms
  by (cases cmd) (auto simp: command_ok_def readable_plan_def image_subset_iff intro!: ledger_bulk ledger_capture ledger_revalidation
      ledger_grown [OF grown_create_job] ledger_grown [OF grown_create_jobs] ledger_grown [OF grown_create_batch]
      ledger_grown [OF grown_idempotent] ledger_grown [OF grown_queue_jobs] ledger_grown [OF grown_transition_run]
      ledger_grown [OF grown_claim] ledger_grown [OF grown_cleanup] ledger_grown [OF grown_sample]
      ledger_grown [OF grown_recover])

lemma ledger_run:
  "\<forall>cmd \<in> set cs. command_ok c cmd \<and> set (command_plans cmd) \<subseteq> P \<Longrightarrow> ledger (c, P) (run_store cs)"
proof (induction cs rule: rev_induct)
  case (snoc x xs)
  then show ?case by (simp add: run_store_def ledger_command)
qed (simp add: run_store_def ledger_empty)

section \<open>The check of a store\<close>

definition requeued_evidence :: "db \<Rightarrow> revalidation_row list" where
  "requeued_evidence d = filter (\<lambda>v. case find_job (rv_job_id v) d of
     None \<Rightarrow> False | Some r \<Rightarrow> jr_state r \<notin> {''completed'', ''warning'', ''failed''}) (revalidations d)"

lemma evidence_issues:
  assumes "store_inv d" and "evidence_ok c d"
  shows "append_revalidation_issues (fst c) d = map (\<lambda>v. revalidation_issue (rv_id v)) (requeued_evidence d)"
proof -
  have valid: "revalidation_valid (fst c) v r" if "v \<in> set (revalidations d)" "find_job (rv_job_id v) d = Some r" for v r
  proof -
    from that(1) assms(2) obtain x where x: "x \<in> set (plan_cells d)" "report_fits c v x" by (auto simp: evidence_ok_def)
    then obtain r' where r': "r' \<in> set (jobs d)" "x = (jr_id r', jr_plan_hash r', jr_plan_json r')" by (auto simp: plan_cells_def)
    with x(2) have "jr_id r' = rv_job_id v" by (simp add: report_fits_def)
    with find_job_member [OF assms(1) r'(1)] that(2) have "r' = r" by simp
    with x(2) r'(2) show ?thesis by (auto simp: report_fits_def revalidation_valid_def)
  qed
  have "List.map_filter f vs = map h (filter p vs)"
    if "\<And>v. v \<in> set vs \<Longrightarrow> f v = (if p v then Some (h v) else None)" for f :: "revalidation_row \<Rightarrow> string option" and h p vs
    using that by (induction vs) (simp_all add: List.map_filter_def)
  note pick = this
  show ?thesis unfolding append_revalidation_issues_def requeued_evidence_def
    by (rule pick) (auto simp: valid split: option.splits)
qed

lemma selection_issues_none:
  assumes "selections_ok d" and "bulk_ok d"
  shows "selection_issues d = []"
proof -
  have "count_where (\<lambda>s. se_member_count s \<noteq> members_of (se_id s) d) (selection_snapshots d) = 0"
    "count_where (\<lambda>b. bk_matched b \<noteq> bk_transitioned b + bk_skipped_state b + bk_skipped_conflict b) (bulk_actions d) = 0"
    "count_where (\<lambda>b. bk_matched b \<noteq> outcomes_of (bk_id b) d) (bulk_actions d) = 0"
    "count_where (\<lambda>m. bm_outcome m \<notin> {''transitioned'', ''skipped-state'', ''skipped-output-conflict''})
       (bulk_action_members d) = 0"
    using assms unfolding count_where_0 selections_ok_def bulk_ok_def outcome_known_def by blast+
  then show ?thesis unfolding selection_issues_def append_count_issue_def by (simp only: less_irrefl if_False append_Nil)
qed

text \<open>The jobs whose stored plan has another hash than its contents.\<close>

definition plan_sealed :: "stored_codec \<Rightarrow> plan \<Rightarrow> bool" where
  "plan_sealed c p \<longleftrightarrow> deterministic_plan_hash (sc_digest c) p = Inr (plan_hash p)"

definition unsealed_jobs :: "stored_codec \<Rightarrow> db \<Rightarrow> job_row list" where
  "unsealed_jobs c d =
     filter (\<lambda>r. case sc_plan c (jr_plan_json r) of None \<Rightarrow> True | Some p \<Rightarrow> \<not> plan_sealed c p) (jobs d)"

lemma plan_issues:
  assumes "\<forall>x \<in> set (plan_cells d). cell_ok (c, P) x"
  shows "concat (map (plan_issue c) (jobs d))
    = map (\<lambda>r. ''job '' @ uuid_text (jr_id r) @ '' has a mismatched Plan hash'') (unsealed_jobs c d)"
proof -
  have "concat (map (plan_issue c) rs) = map (\<lambda>r. ''job '' @ uuid_text (jr_id r) @ '' has a mismatched Plan hash'')
      (filter (\<lambda>r. case sc_plan c (jr_plan_json r) of None \<Rightarrow> True | Some p \<Rightarrow> \<not> plan_sealed c p) rs)"
    if "\<forall>r \<in> set rs. cell_ok (c, P) (jr_id r, jr_plan_hash r, jr_plan_json r)" for rs
    using that by (induction rs) (auto simp: cell_ok_def plan_issue_def plan_sealed_def)
  from this [of "jobs d"] show ?thesis using assms by (simp add: unsealed_jobs_def plan_cells_def)
qed

text \<open>
  C38: the integrity check that guards backup, compaction and restore, against a store that only the
  store's own operations have written, from plans and reports that are read back from their JSON.
  On the current schema every check of states, reservations, sequences, event chains, selection and
  bulk-action counts and of the identity of evidence passes in every reachable database, whatever
  the order of the commands. What the check reports is exactly this: the revalidation evidence whose
  job has left the states completed, warning and failed, and the jobs whose stored plan has another
  hash than its contents; and such a plan is one that a command was given with that hash. So where
  every plan is sealed when it is handed over, only evidence is reported.
\<close>

theorem reachable_stores_pass_the_check:
  fixes cs :: "'w store_command list"
  assumes "\<forall>cmd \<in> set cs. command_ok c cmd"
  shows "integrity_check_connection [''ok''] [] c [1..<Suc database_schema_version] (run_store cs) =
    \<lparr>ig_ok = (requeued_evidence (run_store cs) = [] \<and> unsealed_jobs c (run_store cs) = []),
     ig_sqlite = [''ok''], ig_foreign_keys = [],
     ig_issues = map (\<lambda>v. revalidation_issue (rv_id v)) (requeued_evidence (run_store cs))
       @ map (\<lambda>r. ''job '' @ uuid_text (jr_id r) @ '' has a mismatched Plan hash'') (unsealed_jobs c (run_store cs))\<rparr>
    \<and> (\<forall>r \<in> set (unsealed_jobs c (run_store cs)). \<exists>cmd \<in> set cs. \<exists>p \<in> set (command_plans cmd).
        sc_plan c (jr_plan_json r) = Some p \<and> deterministic_plan_hash (sc_digest c) p \<noteq> Inr (plan_hash p))"
proof -
  let ?d = "run_store cs" and ?P = "\<Union>cmd \<in> set cs. set (command_plans cmd)"
  have inv: "store_inv ?d" by (rule run_store_inv)
  have l: "ledger (c, ?P) ?d" using assms by (intro ledger_run) auto
  have v: "migration_issues [1..<Suc database_schema_version] = []"
    by (simp add: migration_issues_def recorded_version_def database_schema_version_def upt_rec)
  have none: "append_count_issue label 0 = []" for label by (simp add: append_count_issue_def)
  have "application_issues c [1..<Suc database_schema_version] ?d
      = map (\<lambda>v. revalidation_issue (rv_id v)) (requeued_evidence ?d)
       @ map (\<lambda>r. ''job '' @ uuid_text (jr_id r) @ '' has a mismatched Plan hash'') (unsealed_jobs c ?d)"
    using evidence_issues [OF inv, of "(c, ?P)"] selection_issues_none [of ?d] plan_issues [of ?d c ?P] l
    unfolding application_issues_def v queue_checks_pass [OF inv] none ledger_def by simp
  moreover have "to_ascii_lowercase ''ok'' = ''ok''" by code_simp
  moreover have "\<exists>cmd \<in> set cs. \<exists>p \<in> set (command_plans cmd). sc_plan c (jr_plan_json r) = Some p \<and> \<not> plan_sealed c p"
    if r: "r \<in> set (unsealed_jobs c ?d)" for r
  proof -
    have "cell_ok (c, ?P) (jr_id r, jr_plan_hash r, jr_plan_json r)"
      using r l by (auto simp: unsealed_jobs_def ledger_def plan_cells_def)
    then show ?thesis using r by (auto simp: unsealed_jobs_def cell_ok_def)
  qed
  ultimately show ?thesis
    unfolding integrity_check_connection_def Let_def plan_sealed_def by (simp del: upt_Suc)
qed

section \<open>A failed job that is queued again\<close>

definition retry_plan :: plan where
  "retry_plan = Job_Store_Demo.demo_plan\<lparr>plan_hash := ''blake3:x''\<rparr>"

definition retry_summary :: artifact_summary where
  "retry_summary = \<lparr>sum_display_path = None, sum_format_id = ''mp4'', sum_size_bytes = 1,
     sum_fast_fingerprint = ''f'', sum_full_blake3 = None\<rparr>"

definition retry_report :: validation_report where
  "retry_report = \<lparr>report_schema_version = 1, report_id = 8, report_job_id = 10, report_plan_hash = ''blake3:x'',
     report_status = Fail, report_input = retry_summary, report_output = retry_summary, report_engines = [],
     checks = [], intentional_changes = [], redaction = \<lparr>paths_redacted = True, metadata_values_redacted = True\<rparr>\<rparr>"

definition retry_codec :: stored_codec where
  "retry_codec = \<lparr>sc_plan = (\<lambda>_. Some retry_plan), sc_report = (\<lambda>_. Some retry_report), sc_digest = (\<lambda>_. Some ''x'')\<rparr>"

definition retry_run :: "unit store_command list" where
  "retry_run =
     [CreateJob (demo_env 10) \<lparr>cr_input_path = ''in'', cr_output_path = ''out'', cr_plan = retry_plan\<rparr>,
      MoveJob (demo_env 20) 10 Running ''STARTED'', MoveJob (demo_env 30) 10 Failed ''FAILED'',
      Revalidate (demo_env 40) 10 retry_report, MoveJob (demo_env 50) 10 Queued ''RETRIED'']"

lemmas retry_ops = transition_def transition_tx_def release_output_def create_job_def record_revalidation_def
  revalidation_tx_def parse_state_def

lemma retry_run_evidence:
  "requeued_evidence (run_store retry_run) = [\<lparr>rv_id = 40, rv_job_id = 10, rv_status = validation_status_name Fail,
     rv_report_json = ''{}'', rv_created = 1040\<rparr>]"
  unfolding run_store_def retry_run_def
  by (simp add: requeued_evidence_def retry_report_def retry_plan_def retry_ops demo_ops Let_def state_name.simps
      i64_max_def u64_max_def)

section \<open>A chain that is queued\<close>

text \<open>
  The chain metadata is put into the constraints of a plan that has its hash already, and the hash
  covers the constraints: unless the digest has a collision the plan is not sealed any more.
\<close>

lemma chained_plan_is_unsealed:
  assumes "plan_sealed c p" and "map_of (constraints p) chain_request_key = None"
    and collision_free: "\<And>m m' h. sc_digest c m = Some h \<Longrightarrow> sc_digest c m' = Some h \<Longrightarrow> m = m'"
  shows "\<not> plan_sealed c (attach_chain_plan_metadata p r hops)"
proof
  have digest: "\<exists>h. sc_digest c (hash_material_of q) = Some h \<and> plan_hash q = ''blake3:'' @ h" if "plan_sealed c q" for q
    using that by (auto simp: plan_sealed_def deterministic_plan_hash_def)
  assume "plan_sealed c (attach_chain_plan_metadata p r hops)"
  from digest [OF this] digest [OF assms(1)]
  have "hash_material_of (attach_chain_plan_metadata p r hops) = hash_material_of p"
    by (auto simp: attach_chain_plan_metadata_def intro: collision_free)
  then have "constraints (attach_chain_plan_metadata p r hops) = constraints p"
    by (simp add: hash_material_of_def)
  moreover have "map_of (constraints (attach_chain_plan_metadata p r hops)) chain_request_key \<noteq> None"
    by (simp add: attach_chain_plan_metadata_def map_of_btree_insert)
  ultimately show False using assms(2) by simp
qed

definition chained_plan :: plan where
  "chained_plan = attach_chain_plan_metadata retry_plan default_request [''pdf'', ''jpg'']"

definition chain_codec :: stored_codec where
  "chain_codec = retry_codec\<lparr>sc_plan := (\<lambda>s. Some (if s = ''{}'' then retry_plan else chained_plan)),
     sc_digest := (\<lambda>m. Some (if hm_constraints m = [] then ''x'' else ''y''))\<rparr>"

definition chain_env :: store_env where
  "chain_env = (demo_env 60)\<lparr>env_plan_json := (\<lambda>p. Some ''{chain}'')\<rparr>"

definition chain_run :: "unit store_command list" where
  "chain_run = retry_run
     @ [CreateJob chain_env \<lparr>cr_input_path = ''in'', cr_output_path = ''o2'', cr_plan = chained_plan\<rparr>]"

lemma chained_plan_parts: "plan_hash chained_plan = ''blake3:x''" "constraints chained_plan \<noteq> []"
proof -
  show "plan_hash chained_plan = ''blake3:x''"
    by (simp add: chained_plan_def attach_chain_plan_metadata_def retry_plan_def)
  have "map_of (constraints chained_plan) chain_request_key \<noteq> None"
    by (simp add: chained_plan_def attach_chain_plan_metadata_def map_of_btree_insert)
  then show "constraints chained_plan \<noteq> []" by auto
qed

lemma chain_codec_seals: "plan_sealed chain_codec retry_plan" "\<not> plan_sealed chain_codec chained_plan"
  using chained_plan_parts
  by (simp_all add: plan_sealed_def chain_codec_def deterministic_plan_hash_def ok_or_def hash_material_of_def
      retry_plan_def Job_Store_Demo.demo_plan_def)

lemma chain_run_result:
  "requeued_evidence (run_store chain_run) = [\<lparr>rv_id = 40, rv_job_id = 10, rv_status = validation_status_name Fail,
     rv_report_json = ''{}'', rv_created = 1040\<rparr>]"
  "map jr_id (unsealed_jobs chain_codec (run_store chain_run)) = [60]"
proof -
  show "requeued_evidence (run_store chain_run) = [\<lparr>rv_id = 40, rv_job_id = 10, rv_status = validation_status_name Fail,
     rv_report_json = ''{}'', rv_created = 1040\<rparr>]"
    unfolding run_store_def retry_run_def chain_run_def
    by (simp add: requeued_evidence_def chained_plan_parts chain_env_def retry_report_def retry_plan_def retry_ops
        demo_ops Let_def state_name.simps i64_max_def u64_max_def)
  have read: "sc_plan chain_codec ''{}'' = Some retry_plan" "sc_plan chain_codec ''{chain}'' = Some chained_plan"
    by (simp_all add: chain_codec_def)
  show "map jr_id (unsealed_jobs chain_codec (run_store chain_run)) = [60]"
    unfolding run_store_def retry_run_def chain_run_def unsealed_jobs_def
    by (simp add: read chain_codec_seals chained_plan_parts chain_env_def retry_report_def
        retry_plan_def [THEN arg_cong [where f = plan_hash]] retry_ops
        demo_ops Let_def state_name.simps i64_max_def u64_max_def)
qed

text \<open>Both kinds of report: the evidence of a job that was queued again, and a queued chain.\<close>

lemma reachable_stores_pass_the_check_witness:
  "integrity_check_connection [''ok''] [] chain_codec [1..<Suc database_schema_version] (run_store chain_run) =
    \<lparr>ig_ok = False, ig_sqlite = [''ok''], ig_foreign_keys = [],
     ig_issues = [revalidation_issue 40, ''job '' @ uuid_text 60 @ '' has a mismatched Plan hash'']\<rparr>"
proof -
  have "\<forall>cmd \<in> set chain_run. command_ok chain_codec cmd"
    by (simp add: chain_run_def retry_run_def chain_codec_def retry_codec_def command_ok_def chain_env_def
        demo_env_def)
  from reachable_stores_pass_the_check [OF this, THEN conjunct1] chain_run_result show ?thesis
    by (auto simp del: upt_Suc simp: map_eq_Cons_conv)
qed

end
