(* ===== verification/Migration.thy ===== *)
theory Migration
  imports Maintenance_Run "HOL-Library.Product_Lexorder"
begin

text \<open>
  \<open>SqliteJobStore::open\<close> and \<open>migrate\<close>: the schema migrations that every opening of a database
  runs, on the tables a file has, the versions it records and the rows of the current schema. Only
  violated constraints and tables that exist already are errors of a statement.
\<close>

section \<open>Files\<close>

record stored_file =
  sf_versions :: "nat list"
  sf_tables :: "string list"
  sf_db :: db

definition create_missing :: "string list \<Rightarrow> stored_file \<Rightarrow> stored_file" where
  "create_missing names f = f\<lparr>sf_tables := sf_tables f @ filter (\<lambda>n. n \<notin> set (sf_tables f)) names\<rparr>"

definition create_tables :: "string list \<Rightarrow> stored_file \<Rightarrow> anole_error + stored_file" where
  "create_tables names f =
     (if \<exists>n \<in> set names. n \<in> set (sf_tables f) then Inl err_storage
      else Inr (f\<lparr>sf_tables := sf_tables f @ names\<rparr>))"

definition record_version :: "nat \<Rightarrow> stored_file \<Rightarrow> anole_error + stored_file" where
  "record_version v f =
     (if v \<in> set (sf_versions f) then Inl err_storage
      else Inr (f\<lparr>sf_versions := insort v (sf_versions f)\<rparr>))"

definition ignore_version :: "nat \<Rightarrow> stored_file \<Rightarrow> stored_file" where
  "ignore_version v f = (case record_version v f of Inl _ \<Rightarrow> f | Inr g \<Rightarrow> g)"

section \<open>The base schema\<close>

definition active_jobs :: "db \<Rightarrow> job_row list" where
  "active_jobs d = filter (\<lambda>r. jr_state r \<notin> set ended_states) (jobs d)"

definition insert_reservation ::
    "string \<Rightarrow> uuid \<Rightarrow> int \<Rightarrow> reservation_row list \<Rightarrow> anole_error + reservation_row list" where
  "insert_reservation k j now t =
     (if k \<in> rs_key ` set t \<or> j \<in> rs_job_id ` set t then Inl err_output_conflict
      else Inr (t @ [\<lparr>rs_key = k, rs_job_id = j, rs_created = now\<rparr>]))"

definition ignore_reservation :: "reservation_row list \<Rightarrow> job_row \<Rightarrow> reservation_row list" where
  "ignore_reservation t r =
     (case insert_reservation (jr_output_path r) (jr_id r) (jr_updated r) t of Inl _ \<Rightarrow> t | Inr t' \<Rightarrow> t')"

definition base_tables :: "string list" where
  "base_tables = [''schema_migrations'', ''jobs'', ''job_events'', ''output_reservations'']"

definition base_schema :: "stored_file \<Rightarrow> stored_file" where
  "base_schema f =
     (let g = ignore_version 2 (ignore_version 1 (create_missing base_tables f));
          d = sf_db g
      in g\<lparr>sf_db := d\<lparr>output_reservations := foldl ignore_reservation (output_reservations d) (active_jobs d)\<rparr>\<rparr>)"

section \<open>The later versions\<close>

text \<open>\<open>COALESCE(output_reservations.canonical_output_path, jobs.output_path)\<close>.\<close>

definition prior_key :: "db \<Rightarrow> job_row \<Rightarrow> string" where
  "prior_key d r = (case owned_key (jr_id r) (output_reservations d) of None \<Rightarrow> jr_output_path r | Some k \<Rightarrow> k)"

definition identified :: "store_env \<Rightarrow> db \<Rightarrow> reservation_row list \<Rightarrow> job_row \<Rightarrow> anole_error + reservation_row list" where
  "identified E d t r =
     res_bind (env_key E (prior_key d r)) (\<lambda>k. insert_reservation k (jr_id r) (jr_updated r) t)"

definition migrate_output_reservation_identity :: "store_env \<Rightarrow> stored_file \<Rightarrow> anole_error + stored_file" where
  "migrate_output_reservation_identity E f =
     (if 3 \<in> set (sf_versions f) then Inr f
      else let d = sf_db f in
        res_bind (res_fold (identified E d) [] (sort_key (\<lambda>r. (jr_created r, jr_id r)) (active_jobs d))) (\<lambda>t.
        record_version 3 (f\<lparr>sf_db := d\<lparr>output_reservations := t\<rparr>\<rparr>)))"

definition batch_tables :: "string list" where
  "batch_tables = [''batches'', ''batch_members'', ''job_idempotency_keys'', ''selection_snapshots'',
     ''selection_members'', ''bulk_actions'', ''bulk_action_members'']"

text \<open>A table that is created is empty.\<close>

definition migrate_batch_selection_schema :: "stored_file \<Rightarrow> anole_error + stored_file" where
  "migrate_batch_selection_schema f =
     (if 4 \<in> set (sf_versions f) then Inr f
      else res_bind (create_tables batch_tables f) (\<lambda>g.
        record_version 4 (g\<lparr>sf_db := (sf_db g)\<lparr>batches := [], batch_members := [], idempotency_keys := [],
          selection_snapshots := [], selection_members := [], bulk_actions := [], bulk_action_members := []\<rparr>\<rparr>)))"

definition migrate_revalidation_schema :: "stored_file \<Rightarrow> anole_error + stored_file" where
  "migrate_revalidation_schema f =
     (if 5 \<in> set (sf_versions f) then Inr f
      else res_bind (create_tables [''job_revalidations''] f) (\<lambda>g.
        record_version 5 (g\<lparr>sf_db := (sf_db g)\<lparr>revalidations := []\<rparr>\<rparr>)))"

definition migrate_engine_throughput_schema :: "stored_file \<Rightarrow> anole_error + stored_file" where
  "migrate_engine_throughput_schema f =
     (if 6 \<in> set (sf_versions f) then Inr f
      else res_bind (create_tables [''engine_throughput_samples''] f) (\<lambda>g.
        record_version 6 (g\<lparr>sf_db := (sf_db g)\<lparr>throughput_samples := []\<rparr>\<rparr>)))"

section \<open>Opening\<close>

text \<open>Each version is a transaction: the first that fails stops the opening, those before it stay.\<close>

fun run_versions ::
    "(stored_file \<Rightarrow> anole_error + stored_file) list \<Rightarrow> stored_file \<Rightarrow> (anole_error + unit) \<times> stored_file" where
  "run_versions [] f = (Inr (), f)"
| "run_versions (m # ms) f = (case m f of Inl e \<Rightarrow> (Inl e, f) | Inr g \<Rightarrow> run_versions ms g)"

definition migrate :: "store_env \<Rightarrow> stored_file \<Rightarrow> (anole_error + unit) \<times> stored_file" where
  "migrate E f = run_versions [migrate_output_reservation_identity E, migrate_batch_selection_schema,
     migrate_revalidation_schema, migrate_engine_throughput_schema] (base_schema f)"

section \<open>The invariant after an opening\<close>

text \<open>What older versions promise: unique jobs with their logs, whatever their reservations.\<close>

definition logged :: "uuid \<Rightarrow> db \<Rightarrow> bool" where
  "logged j d \<longleftrightarrow> (case find_job j d of
      None \<Rightarrow> events_of j d = []
    | Some r \<Rightarrow> \<exists>s. jr_state r = state_name s \<and> jr_sequence r \<le> i64_max
        \<and> log_ok (events_of j d) s (jr_sequence r))"

definition logs_ok :: "db \<Rightarrow> bool" where
  "logs_ok d \<longleftrightarrow> distinct (map jr_id (jobs d)) \<and> (\<forall>j. logged j d)"

lemma job_ok_logged: "job_ok j d \<Longrightarrow> logged j d"
  by (cases "find_job j d") (auto simp: job_ok_def logged_def)

lemma loggedE:
  assumes "logs_ok d" and "find_job j d = Some r"
  obtains s where "jr_state r = state_name s" "jr_sequence r \<le> i64_max" "log_ok (events_of j d) s (jr_sequence r)"
proof -
  have "logged j d" using assms(1) by (simp add: logs_ok_def)
  with that assms(2) show thesis by (auto simp: logged_def)
qed

definition owners_ok :: "db \<Rightarrow> bool" where
  "owners_ok d \<longleftrightarrow> res_table_ok (output_reservations d)
     \<and> rs_job_id ` set (output_reservations d) = jr_id ` set (active_jobs d)"

lemma active_state: "jr_state r = state_name s \<Longrightarrow> jr_state r \<notin> set ended_states \<longleftrightarrow> \<not> is_terminal s"
  by (simp add: ended_iff)

lemma active_id_iff:
  assumes "logs_ok d" and "find_job j d = Some r" and "jr_state r = state_name s"
  shows "j \<in> jr_id ` set (active_jobs d) \<longleftrightarrow> \<not> is_terminal s"
proof -
  have "r' = r" if "r' \<in> set (jobs d)" "jr_id r' = j" for r'
    using assms(1,2) that lookup_row_distinct [of jr_id "jobs d" r'] by (simp add: logs_ok_def find_job_def)
  then have "j \<in> jr_id ` set (active_jobs d) \<longleftrightarrow> r \<in> set (active_jobs d)"
    using find_job_id [OF assms(2)] unfolding active_jobs_def set_filter by blast
  also have "\<dots> \<longleftrightarrow> \<not> is_terminal s"
    using find_job_in [OF assms(2)] active_state [OF assms(3)] by (simp add: active_jobs_def)
  finally show ?thesis .
qed

lemma owned_key_Some_iff: "owned_key j t \<noteq> None \<longleftrightarrow> j \<in> rs_job_id ` set t"
  by (simp add: owned_key_def lookup_row_None_iff del: not_None_eq)

lemma store_inv_iff: "store_inv d \<longleftrightarrow> logs_ok d \<and> owners_ok d"
proof
  assume inv: "store_inv d"
  then have logs: "logs_ok d"
    by (simp add: store_inv_def logs_ok_def job_ok_logged)
  have "j \<in> rs_job_id ` set (output_reservations d) \<longleftrightarrow> j \<in> jr_id ` set (active_jobs d)" for j
  proof (cases "find_job j d")
    case None
    moreover have "job_ok j d" using inv by (simp add: store_inv_def)
    ultimately have "owned_key j (output_reservations d) = None" by (simp add: job_ok_def)
    then show ?thesis using None owned_key_Some_iff [of j "output_reservations d"]
      by (auto simp: find_job_None_iff job_ids_def active_jobs_def)
  next
    case (Some r)
    obtain s where s: "jr_state r = state_name s"
      "owned_key j (output_reservations d) \<noteq> None \<longleftrightarrow> \<not> is_terminal s" using inv Some by (rule store_inv_rowE)
    show ?thesis using s(2) active_id_iff [OF logs Some s(1)] owned_key_Some_iff [of j "output_reservations d"] by simp
  qed
  with inv logs show "logs_ok d \<and> owners_ok d" unfolding owners_ok_def store_inv_def by blast
next
  assume "logs_ok d \<and> owners_ok d"
  then have logs: "logs_ok d" and own: "owners_ok d" by simp_all
  have "job_ok j d" for j
  proof (cases "find_job j d")
    case None
    then have "j \<notin> jr_id ` set (active_jobs d)" by (auto simp: find_job_None_iff job_ids_def active_jobs_def)
    then have "owned_key j (output_reservations d) = None"
      using own owned_key_Some_iff [of j "output_reservations d"] by (simp add: owners_ok_def)
    moreover have "logged j d" using logs by (simp add: logs_ok_def)
    ultimately show ?thesis using None by (simp add: job_ok_def logged_def)
  next
    case (Some r)
    obtain s where s: "jr_state r = state_name s" "jr_sequence r \<le> i64_max" "log_ok (events_of j d) s (jr_sequence r)"
      using loggedE [OF logs Some] .
    then show ?thesis using Some own active_id_iff [OF logs Some s(1)] owned_key_Some_iff [of j "output_reservations d"]
      by (auto simp: job_ok_def owners_ok_def)
  qed
  with logs own show "store_inv d" by (simp add: store_inv_def logs_ok_def owners_ok_def)
qed


lemma insert_reservation_Inr:
  "insert_reservation k j now t = Inr t' \<Longrightarrow> res_table_ok t \<Longrightarrow>
     res_table_ok t' \<and> rs_job_id ` set t' = insert j (rs_job_id ` set t) \<and> rs_key ` set t' = insert k (rs_key ` set t)"
  by (auto simp: insert_reservation_def res_table_ok_def split: if_splits)

lemma identified_fold:
  "res_fold (identified E d) t rs = Inr t' \<Longrightarrow> res_table_ok t \<Longrightarrow>
     res_table_ok t' \<and> rs_job_id ` set t' = rs_job_id ` set t \<union> jr_id ` set rs
     \<and> (\<forall>x \<in> set t'. x \<in> set t \<or> (\<exists>r \<in> set rs. rs_job_id x = jr_id r
          \<and> env_key E (prior_key d r) = Inr (rs_key x)))"
proof (induction rs arbitrary: t)
  case (Cons r rs)
  from Cons.prems(1) obtain t1 where one: "identified E d t r = Inr t1"
    and rest: "res_fold (identified E d) t1 rs = Inr t'" by auto
  from one obtain k where k: "env_key E (prior_key d r) = Inr k"
    and new: "insert_reservation k (jr_id r) (jr_updated r) t = Inr t1" by (auto simp: identified_def)
  then have "set t1 = insert \<lparr>rs_key = k, rs_job_id = jr_id r, rs_created = jr_updated r\<rparr> (set t)"
    by (auto simp: insert_reservation_def split: if_splits)
  then show ?case using insert_reservation_Inr [OF new Cons.prems(2)] Cons.IH [OF rest] k by force
qed simp

text \<open>The tables of the current schema that an opening never rewrites, and the jobs with their events.\<close>

lemma logs_ok_update [simp]: "logs_ok (d\<lparr>output_reservations := t\<rparr>) = logs_ok d"
  unfolding logs_ok_def logged_def find_job_def events_of_def by (simp cong: option.case_cong)

lemma active_jobs_update [simp]: "active_jobs (d\<lparr>output_reservations := t\<rparr>) = active_jobs d"
  by (simp add: active_jobs_def)

lemma ignored_rows: "\<forall>r \<in> set rs. jr_id r \<in> rs_job_id ` set t \<Longrightarrow> foldl ignore_reservation t rs = t"
  by (induction rs) (auto simp: ignore_reservation_def insert_reservation_def)

lemma ignore_version_old: "v \<in> set (sf_versions f) \<Longrightarrow> ignore_version v f = f"
  by (simp add: ignore_version_def record_version_def)

lemma ignore_version_sorted:
  "sorted (sf_versions f) \<Longrightarrow> distinct (sf_versions f) \<Longrightarrow>
     sorted (sf_versions (ignore_version v f)) \<and> distinct (sf_versions (ignore_version v f))
     \<and> set (sf_versions (ignore_version v f)) = insert v (set (sf_versions f))"
  by (auto simp: ignore_version_def record_version_def sorted_insort set_insort_key distinct_insort split: if_splits)

lemma ignore_version_same [simp]:
  "sf_db (ignore_version v f) = sf_db f" "sf_tables (ignore_version v f) = sf_tables f"
  by (auto simp: ignore_version_def record_version_def)

lemma create_missing_same [simp]:
  "sf_db (create_missing ns f) = sf_db f" "sf_versions (create_missing ns f) = sf_versions f"
  by (simp_all add: create_missing_def)

lemma base_schema_same:
  "jobs (sf_db (base_schema f)) = jobs (sf_db f)" "job_events (sf_db (base_schema f)) = job_events (sf_db f)"
  "logs_ok (sf_db (base_schema f)) = logs_ok (sf_db f)"
  by (simp_all add: base_schema_def Let_def)

lemma base_schema_tables: "set (sf_tables (base_schema f)) = set (sf_tables f) \<union> set base_tables"
  by (auto simp: base_schema_def Let_def create_missing_def)

lemma base_schema_versions:
  assumes "sorted (sf_versions f)" "distinct (sf_versions f)"
  shows "sorted (sf_versions (base_schema f)) \<and> distinct (sf_versions (base_schema f))
    \<and> set (sf_versions (base_schema f)) = {1, 2} \<union> set (sf_versions f)"
proof -
  have "sorted (sf_versions (create_missing base_tables f)) \<and> distinct (sf_versions (create_missing base_tables f))"
    using assms by simp
  from ignore_version_sorted [of "create_missing base_tables f" 1, OF conjunct1 [OF this] conjunct2 [OF this]]
    ignore_version_sorted [of "ignore_version 1 (create_missing base_tables f)" 2]
  show ?thesis by (auto simp: base_schema_def Let_def)
qed

lemma base_schema_owned:
  assumes "owners_ok (sf_db f)"
  shows "sf_db (base_schema f) = sf_db f"
proof -
  have "foldl ignore_reservation (output_reservations (sf_db f)) (active_jobs (sf_db f)) = output_reservations (sf_db f)"
    using assms by (intro ignored_rows) (auto simp: owners_ok_def)
  then show ?thesis by (simp add: base_schema_def Let_def)
qed

section \<open>What each version establishes\<close>

lemma record_version_Inr:
  assumes "record_version v f = Inr g"
  shows "sf_db g = sf_db f" "sf_tables g = sf_tables f" "set (sf_versions g) = insert v (set (sf_versions f))"
    "sorted (sf_versions f) \<and> distinct (sf_versions f) \<longrightarrow> sorted (sf_versions g) \<and> distinct (sf_versions g)"
  using assms by (auto simp: record_version_def set_insort_key sorted_insort distinct_insort split: if_splits)

lemma identity_version:
  assumes run: "migrate_output_reservation_identity E f = Inr g" and "logs_ok (sf_db f)"
    and "3 \<in> set (sf_versions f) \<Longrightarrow> owners_ok (sf_db f)"
  obtains t where "sf_db g = (sf_db f)\<lparr>output_reservations := t\<rparr>" "store_inv (sf_db g)"
    "sf_tables g = sf_tables f" "set (sf_versions g) = insert 3 (set (sf_versions f))"
    "sorted (sf_versions f) \<and> distinct (sf_versions f) \<longrightarrow> sorted (sf_versions g) \<and> distinct (sf_versions g)"
    "if 3 \<in> set (sf_versions f) then t = output_reservations (sf_db f)
     else \<forall>x \<in> set t. \<exists>r \<in> set (active_jobs (sf_db f)). rs_job_id x = jr_id r
       \<and> env_key E (prior_key (sf_db f) r) = Inr (rs_key x)"
proof (cases "3 \<in> set (sf_versions f)")
  case True
  then have "g = f" using run by (simp add: migrate_output_reservation_identity_def)
  then show thesis using that [of "output_reservations (sf_db f)"] True assms(2,3) by (auto simp: store_inv_iff)
next
  case False
  then obtain t where fold: "res_fold (identified E (sf_db f)) [] (sort_key (\<lambda>r. (jr_created r, jr_id r)) (active_jobs (sf_db f))) = Inr t"
    and rec: "record_version 3 (f\<lparr>sf_db := (sf_db f)\<lparr>output_reservations := t\<rparr>\<rparr>) = Inr g"
    using run by (auto simp: migrate_output_reservation_identity_def Let_def)
  have "owners_ok ((sf_db f)\<lparr>output_reservations := t\<rparr>)"
    using identified_fold [OF fold] by (simp add: owners_ok_def res_table_ok_def)
  then have "store_inv (sf_db g)" using assms(2) record_version_Inr(1) [OF rec] by (simp add: store_inv_iff)
  then show thesis using that [of t] False record_version_Inr [OF rec] identified_fold [OF fold]
    by (simp add: res_table_ok_def)
qed

text \<open>The tables of each later version, and a file that has the tables of the versions it records.\<close>

definition version_tables :: "nat \<Rightarrow> string list" where
  "version_tables v = (if v = 4 then batch_tables else if v = 5 then [''job_revalidations'']
     else if v = 6 then [''engine_throughput_samples''] else [])"

definition current_tables :: "string list" where
  "current_tables = base_tables @ version_tables 4 @ version_tables 5 @ version_tables 6"

definition tables_match :: "stored_file \<Rightarrow> bool" where
  "tables_match f \<longleftrightarrow> list_all (\<lambda>v. set (version_tables v) \<subseteq> set (sf_tables f)) (sf_versions f)"

text \<open>The rows of a version that a file has not recorded: there are none.\<close>

definition without_rows :: "nat \<Rightarrow> db \<Rightarrow> db" where
  "without_rows v d =
     (if v = 4 then d\<lparr>batches := [], batch_members := [], idempotency_keys := [],
        selection_snapshots := [], selection_members := [], bulk_actions := [], bulk_action_members := []\<rparr>
      else if v = 5 then d\<lparr>revalidations := []\<rparr> else d\<lparr>throughput_samples := []\<rparr>)"

definition added :: "nat \<Rightarrow> stored_file \<Rightarrow> stored_file \<Rightarrow> bool" where
  "added v f g \<longleftrightarrow>
     sf_db g = (if v \<in> set (sf_versions f) then sf_db f else without_rows v (sf_db f))
     \<and> sf_tables g = sf_tables f @ (if v \<in> set (sf_versions f) then [] else version_tables v)
     \<and> set (sf_versions g) = insert v (set (sf_versions f))
     \<and> (sorted (sf_versions f) \<and> distinct (sf_versions f) \<longrightarrow> sorted (sf_versions g) \<and> distinct (sf_versions g))"

lemma later_versions:
  "migrate_batch_selection_schema f = Inr g \<Longrightarrow> added 4 f g"
  "migrate_revalidation_schema f = Inr g \<Longrightarrow> added 5 f g"
  "migrate_engine_throughput_schema f = Inr g \<Longrightarrow> added 6 f g"
  by (auto simp: added_def migrate_batch_selection_schema_def migrate_revalidation_schema_def
      migrate_engine_throughput_schema_def create_tables_def without_rows_def version_tables_def insert_absorb
      dest: record_version_Inr split: if_splits)

lemma added_tables_match: "added v f g \<Longrightarrow> tables_match f \<Longrightarrow> tables_match g"
  by (auto simp: added_def tables_match_def list_all_iff split: if_splits)

lemma added_inv: "added v f g \<Longrightarrow> store_inv (sf_db g) = store_inv (sf_db f)"
  by (auto simp: added_def without_rows_def intro!: store_inv_cong)

section \<open>Opening any version\<close>

lemma versions_all:
  assumes "sorted vs" "distinct vs" and "set vs = {1..6}"
  shows "vs = [1..<Suc database_schema_version]"
proof -
  have "[1..<Suc database_schema_version] = [1..<7]" by (simp only: database_schema_version_def) simp
  moreover have "vs = [1..<7]"
    using assms(1,2) sorted_upt distinct_upt
  proof (rule sorted_distinct_set_unique)
    show "set vs = set [1..<7]" unfolding assms(3) by auto
  qed
  ultimately show ?thesis by (simp only:)
qed

text \<open>Opening a current database again changes nothing.\<close>

theorem opening_again_changes_nothing:
  assumes "store_inv (sf_db f)" and "{1..6} \<subseteq> set (sf_versions f)" and "set base_tables \<subseteq> set (sf_tables f)"
  shows "migrate E f = (Inr (), f)"
proof -
  have none: "filter (\<lambda>n. n \<notin> set (sf_tables f)) base_tables = []" using assms(3) by (auto simp: filter_empty_conv)
  have v: "n \<in> set (sf_versions f)" if "n \<in> {1, 2, 3, 4, 5, 6}" for n using assms(2) that by auto
  have "base_schema f = f"
    using base_schema_owned [of f] assms(1) none
    by (simp add: base_schema_def Let_def store_inv_iff create_missing_def ignore_version_old v)
  then show ?thesis using v
    by (simp add: migrate_def migrate_output_reservation_identity_def migrate_batch_selection_schema_def
        migrate_revalidation_schema_def migrate_engine_throughput_schema_def)
qed


text \<open>
  The identities of active jobs decide whether version 3 can be reached: where every path resolves,
  the migration is refused with an output conflict exactly when two active jobs write to one place,
  and then the file keeps the base schema.
\<close>

lemma identified_fold_ok:
  assumes "\<And>r. r \<in> set rs \<Longrightarrow> env_key E (prior_key d r) = Inr (key r)"
    and "distinct (map jr_id rs)" and "jr_id ` set rs \<inter> rs_job_id ` set t = {}"
  shows "res_fold (identified E d) t rs = (if distinct (map key rs) \<and> key ` set rs \<inter> rs_key ` set t = {}
    then Inr (t @ map (\<lambda>r. \<lparr>rs_key = key r, rs_job_id = jr_id r, rs_created = jr_updated r\<rparr>) rs)
    else Inl err_output_conflict)"
  using assms
proof (induction rs arbitrary: t)
  case (Cons r rs)
  have k: "env_key E (prior_key d r) = Inr (key r)" and j: "jr_id r \<notin> rs_job_id ` set t" using Cons.prems by auto
  show ?case
  proof (cases "key r \<in> rs_key ` set t")
    case True
    then have "identified E d t r = Inl err_output_conflict" by (simp add: identified_def k insert_reservation_def)
    with True show ?thesis by simp
  next
    case False
    let ?t = "t @ [\<lparr>rs_key = key r, rs_job_id = jr_id r, rs_created = jr_updated r\<rparr>]"
    have one: "identified E d t r = Inr ?t" using False j by (simp add: identified_def k insert_reservation_def)
    have "res_fold (identified E d) ?t rs = (if distinct (map key rs) \<and> key ` set rs \<inter> rs_key ` set ?t = {}
      then Inr (?t @ map (\<lambda>r. \<lparr>rs_key = key r, rs_job_id = jr_id r, rs_created = jr_updated r\<rparr>) rs)
      else Inl err_output_conflict)"
      by (rule Cons.IH) (use Cons.prems in auto)
    then show ?thesis using one False by auto
  qed
qed simp

theorem shared_output_stops_the_migration:
  assumes "3 \<notin> set (sf_versions f)" and "logs_ok (sf_db f)"
    and "\<forall>r \<in> set (active_jobs (sf_db f)). env_key E (prior_key (sf_db (base_schema f)) r) = Inr (key r)"
    and "\<not> distinct (map key (active_jobs (sf_db f)))"
  shows "migrate E f = (Inl err_output_conflict, base_schema f)"
proof -
  let ?b = "base_schema f" and ?rs = "active_jobs (sf_db f)"
  let ?s = "sort_key (\<lambda>r. (jr_created r, jr_id r)) ?rs"
  have act: "active_jobs (sf_db ?b) = ?rs" by (simp add: active_jobs_def base_schema_same)
  have ids: "distinct (map jr_id ?rs)"
    using assms(2) by (simp add: logs_ok_def active_jobs_def distinct_map_filter)
  then have d: "distinct (map jr_id ?s)" "\<not> distinct (map key ?s)" using assms(4)
    unfolding distinct_map set_sort distinct_sort by simp_all
  have "res_fold (identified E (sf_db ?b)) [] ?s = Inl err_output_conflict"
    using identified_fold_ok [of ?s E "sf_db ?b" key "[]"] assms(3) d by simp
  moreover have "3 \<notin> set (sf_versions ?b)"
    using assms(1) by (auto simp: base_schema_def Let_def ignore_version_def record_version_def set_insort_key split: sum.splits)
  ultimately show ?thesis by (simp add: migrate_def migrate_output_reservation_identity_def Let_def act)
qed

section \<open>A file of version 2\<close>

definition legacy_file :: stored_file where
  "legacy_file = \<lparr>sf_versions = [1, 2], sf_tables = base_tables,
     sf_db = (snd (create_jobs (demo_env 10) [Job_Store_Demo.demo_request ''c'', Job_Store_Demo.demo_request ''d''] empty_db))\<lparr>output_reservations := []\<rparr>\<rparr>"

lemma legacy_file_opens: "fst (migrate (demo_env 20) legacy_file) = Inr ()"
  unfolding legacy_file_def
  by (simp add: demo_ops Let_def state_name.simps i64_max_def u64_max_def migrate_def base_schema_def
      create_missing_def ignore_version_def record_version_def active_jobs_def ended_states_def
      ignore_reservation_def insert_reservation_def migrate_output_reservation_identity_def identified_def
      prior_key_def migrate_batch_selection_schema_def create_tables_def batch_tables_def base_tables_def
      migrate_revalidation_schema_def migrate_engine_throughput_schema_def)


end
