(* ===== verification/Database_Files.thy ===== *)
theory Database_Files
  imports Migration Crash_Disk
begin

text \<open>
  The file protocols of \<open>crates/core/src/maintenance.rs\<close>: online copies, backups, automatic
  snapshots and their retention, restore with its staged copy and safety snapshot, compaction and
  status. A volume maps paths to database files; a run keeps every volume it went through. A copy
  into an existing database is one transaction (SQLite's online backup); a copy into a new file may be
  torn. The \<open>-wal\<close> and \<open>-shm\<close> files belong to the contents of their database.
\<close>

section \<open>Volumes\<close>

datatype db_body = Database stored_file | Foreign

type_synonym volume = "string \<rightharpoonup> db_body"

type_synonym 'a on_volume = "volume history \<Rightarrow> (anole_error + 'a) \<times> volume history"

datatype maint_op = ResolvePath string | CurrentDirectory | MakeDirectories string | OpenDatabase string
  | QueryDatabase string | CheckDatabase string | CopyPages string string | CheckpointCopy string
  | JournalModeDelete string | RemoveOne string | RemoveSidecars string | SyncDatabase string
  | RenameDatabase string string | ReadSize string | HashDatabase string | OpenStaged string
  | VacuumDatabase string | ListDirectory string

text \<open>
  What the operating system and SQLite decide. \<open>locked\<close> tells a lock held for thirty seconds from
  another failure of a copy.
\<close>

record maint_os =
  mo_allows :: "maint_op \<Rightarrow> volume \<Rightarrow> bool"
  mo_locked :: "volume \<Rightarrow> bool"
  mo_torn :: "string \<Rightarrow> volume \<Rightarrow> db_body option"
  mo_canonical :: "string \<Rightarrow> string"
  mo_current_dir :: string
  mo_listing :: "string \<Rightarrow> volume \<Rightarrow> (string \<times> int option) list"
  mo_messages :: "stored_file \<Rightarrow> string list"
  mo_violations :: "stored_file \<Rightarrow> string list"
  mo_codec :: stored_codec
  mo_env :: store_env
  mo_size :: "db_body \<Rightarrow> nat"
  mo_sha256 :: "db_body \<Rightarrow> string"
  mo_journal_mode :: "db_body \<Rightarrow> string"

definition sqlite_error :: anole_error where
  "sqlite_error = anole_error_new StorageFailed Store ''SQLite maintenance operation failed''"

definition maintenance_error :: "string \<Rightarrow> anole_error" where
  "maintenance_error m = anole_error_new StorageFailed Store m"

definition st_op :: "maint_os \<Rightarrow> maint_op \<Rightarrow> anole_error \<Rightarrow> unit on_volume" where
  "st_op W a e = st_bind (st_files (mo_allows W a)) (\<lambda>ok. st_ensure ok e)"

section \<open>Paths\<close>

definition parent_directory :: "string \<Rightarrow> anole_error + string" where
  "parent_directory p =
     (case parent p of
        Some d \<Rightarrow> Inr (if d = [] then ''.'' else d)
      | None \<Rightarrow> if file_name p \<noteq> None then Inr ''.''
                else Inl (anole_error_new InputInvalid Store ''Path has no parent directory: {}''))"

definition sibling_temporary_path :: "string \<Rightarrow> string \<Rightarrow> uuid \<Rightarrow> anole_error + string" where
  "sibling_temporary_path p label u =
     res_bind (parent_directory p) (\<lambda>d.
     Inr (path_join d (''.'' @ (case file_name p of None \<Rightarrow> ''anole.sqlite3'' | Some n \<Rightarrow> n)
       @ ''.'' @ label @ ''.'' @ uuid_text u)))"

definition absolute_lexical_path :: "maint_os \<Rightarrow> string \<Rightarrow> string on_volume" where
  "absolute_lexical_path W p =
     (if is_absolute p then st_return p
      else st_bind (st_op W CurrentDirectory (maintenance_error ''Cannot resolve the current directory''))
        (\<lambda>_. st_return (path_join (mo_current_dir W) p)))"

definition canonical_or_absolute_path :: "maint_os \<Rightarrow> string \<Rightarrow> string on_volume" where
  "canonical_or_absolute_path W p =
     st_bind (st_files (\<lambda>v. v p \<noteq> None)) (\<lambda>exists.
     if exists
     then st_bind (st_op W (ResolvePath p) (maintenance_error ''Cannot resolve maintenance path: {}''))
            (\<lambda>_. st_return (mo_canonical W p))
     else absolute_lexical_path W p)"

definition paths_equal :: "string \<Rightarrow> string \<Rightarrow> bool" where
  "paths_equal a b = (path_components a = path_components b)"

definition ensure_distinct_paths :: "maint_os \<Rightarrow> string \<Rightarrow> string \<Rightarrow> unit on_volume" where
  "ensure_distinct_paths W a b =
     st_bind (canonical_or_absolute_path W a) (\<lambda>x.
     st_bind (canonical_or_absolute_path W b) (\<lambda>y.
     st_ensure (\<not> paths_equal x y)
       (anole_error_new OutputConflict Store ''Backup destination cannot be the live database'')))"

section \<open>One file\<close>

definition open_read_only :: "maint_os \<Rightarrow> string \<Rightarrow> db_body on_volume" where
  "open_read_only W p =
     st_bind (st_files (\<lambda>v. v p)) (\<lambda>found.
     st_bind (st_result (ok_or (maintenance_error ''Database does not exist: {}'') found)) (\<lambda>body.
     st_bind (st_op W (OpenDatabase p) sqlite_error) (\<lambda>_. st_return body)))"

definition stored_schema_version :: "db_body \<Rightarrow> anole_error + nat" where
  "stored_schema_version b =
     (case b of
        Foreign \<Rightarrow> Inl sqlite_error
      | Database f \<Rightarrow> Inr (if ''schema_migrations'' \<in> set (sf_tables f) then recorded_version (sf_versions f) else 0))"

definition read_schema_version :: "maint_os \<Rightarrow> string \<Rightarrow> db_body \<Rightarrow> nat on_volume" where
  "read_schema_version W p b = st_bind (st_op W (QueryDatabase p) sqlite_error) (\<lambda>_. st_result (stored_schema_version b))"

text \<open>A query of a table that the file does not have fails; evidence is read where its table exists.\<close>

definition readable_db :: "stored_file \<Rightarrow> db" where
  "readable_db f = (sf_db f)\<lparr>revalidations :=
     if ''job_revalidations'' \<in> set (sf_tables f) then revalidations (sf_db f) else []\<rparr>"

definition check_body :: "maint_os \<Rightarrow> db_body \<Rightarrow> anole_error + integrity_report" where
  "check_body W b =
     (case b of
        Foreign \<Rightarrow> Inl sqlite_error
      | Database f \<Rightarrow>
          if set base_tables \<subseteq> set (sf_tables f)
             \<and> (4 \<le> recorded_version (sf_versions f) \<longrightarrow> set batch_tables \<subseteq> set (sf_tables f))
          then Inr (integrity_check_connection (mo_messages W f) (mo_violations W f) (mo_codec W) (sf_versions f) (readable_db f))
          else Inl sqlite_error)"

definition check_open :: "maint_os \<Rightarrow> string \<Rightarrow> db_body \<Rightarrow> integrity_report on_volume" where
  "check_open W p b = st_bind (st_op W (CheckDatabase p) sqlite_error) (\<lambda>_. st_result (check_body W b))"

definition integrity_check_path :: "maint_os \<Rightarrow> string \<Rightarrow> integrity_report on_volume" where
  "integrity_check_path W p = st_bind (open_read_only W p) (check_open W p)"

definition remove_if_exists :: "maint_os \<Rightarrow> string \<Rightarrow> unit on_volume" where
  "remove_if_exists W p s =
     (let v = rd_files s in
      if v p = None then (Inr (), s)
      else if \<not> mo_allows W (RemoveOne p) v then (Inl (maintenance_error ''Cannot remove maintenance file: {}''), s)
      else (Inr (), put_files (v(p := None)) s))"

definition remove_sqlite_sidecars :: "maint_os \<Rightarrow> string \<Rightarrow> unit on_volume" where
  "remove_sqlite_sidecars W p = st_op W (RemoveSidecars p) (maintenance_error ''Cannot remove maintenance file: {}'')"

definition remove_database_files :: "maint_os \<Rightarrow> string \<Rightarrow> unit on_volume" where
  "remove_database_files W p = st_bind (remove_if_exists W p) (\<lambda>_. remove_sqlite_sidecars W p)"

definition database_size :: "maint_os \<Rightarrow> string \<Rightarrow> nat on_volume" where
  "database_size W p =
     st_bind (st_files (\<lambda>v. v p)) (\<lambda>found.
     st_bind (st_result (ok_or (maintenance_error ''Cannot read database metadata: {}'') found)) (\<lambda>b.
     st_bind (st_op W (ReadSize p) (maintenance_error ''Cannot read database metadata: {}'')) (\<lambda>_.
     st_return (mo_size W b))))"

definition sha256_file :: "maint_os \<Rightarrow> string \<Rightarrow> string on_volume" where
  "sha256_file W p =
     st_bind (st_files (\<lambda>v. v p)) (\<lambda>found.
     st_bind (st_result (ok_or (maintenance_error ''Cannot hash backup: {}'') found)) (\<lambda>b.
     st_bind (st_op W (HashDatabase p) (maintenance_error ''Cannot read the backup while hashing'')) (\<lambda>_.
     st_return (mo_sha256 W b))))"

definition rename_database :: "maint_os \<Rightarrow> string \<Rightarrow> string \<Rightarrow> unit on_volume" where
  "rename_database W src dst s =
     (let v = rd_files s in
      if v src = None \<or> \<not> mo_allows W (RenameDatabase src dst) v
      then (Inl (maintenance_error ''Cannot commit the validated backup''), s)
      else (Inr (), put_files (v(src := None, dst := v src)) s))"

section \<open>Copies\<close>

datatype copy_mode = Portable | Live

definition copy_error :: "maint_os \<Rightarrow> volume \<Rightarrow> anole_error" where
  "copy_error W v =
     (if mo_locked W v
      then set_retryable True (anole_error_new PolicyBlocked Store
             ''SQLite maintenance could not acquire a database lock within 30 seconds'')
      else sqlite_error)"

definition copy_pages :: "maint_os \<Rightarrow> string \<Rightarrow> string \<Rightarrow> db_body \<Rightarrow> unit on_volume" where
  "copy_pages W src dst body s =
     (let v = rd_files s;
          begun = (if v dst = None then put_files (v(dst := mo_torn W dst v)) s else s) in
      if mo_allows W (CopyPages src dst) v then (Inr (), put_files (v(dst \<mapsto> body)) begun)
      else (Inl (copy_error W v), begun))"

definition online_copy :: "maint_os \<Rightarrow> string \<Rightarrow> string \<Rightarrow> copy_mode \<Rightarrow> unit on_volume" where
  "online_copy W src dst mode =
     st_bind (open_read_only W src) (\<lambda>body.
     st_bind (st_op W (OpenDatabase dst) sqlite_error) (\<lambda>_.
     st_bind (copy_pages W src dst body) (\<lambda>_.
     if mode = Portable
     then st_bind (st_op W (CheckpointCopy dst) sqlite_error) (\<lambda>_.
          st_bind (st_op W (JournalModeDelete dst)
            (maintenance_error ''SQLite refused portable backup journal mode DELETE: {actual_journal_mode}'')) (\<lambda>_.
          remove_sqlite_sidecars W dst))
     else st_return ())))"

section \<open>Backups\<close>

record backup_report =
  bp_database :: string
  bp_backup :: string
  bp_size :: nat
  bp_sha256 :: string
  bp_schema :: nat

definition commit_backup :: "maint_os \<Rightarrow> string \<Rightarrow> string \<Rightarrow> string \<Rightarrow> bool \<Rightarrow> backup_report on_volume" where
  "commit_backup W source destination partial overwrite =
     st_bind (online_copy W source partial Portable) (\<lambda>_.
     st_bind (integrity_check_path W partial) (\<lambda>integrity.
     st_bind (st_ensure (ig_ok integrity) (integrity_failure ''The new backup failed integrity validation'')) (\<lambda>_.
     st_bind (st_op W (SyncDatabase partial) (maintenance_error ''Cannot flush backup to disk: {}'')) (\<lambda>_.
     st_bind (st_files (\<lambda>v. v destination \<noteq> None)) (\<lambda>exists.
     st_bind (if overwrite \<and> exists then remove_if_exists W destination else st_return ()) (\<lambda>_.
     st_bind (rename_database W partial destination) (\<lambda>_.
     st_bind (open_read_only W destination) (\<lambda>b.
     st_bind (read_schema_version W destination b) (\<lambda>version.
     st_bind (database_size W destination) (\<lambda>size_bytes.
     st_bind (sha256_file W destination) (\<lambda>sha.
     st_return \<lparr>bp_database = source, bp_backup = destination, bp_size = size_bytes, bp_sha256 = sha,
       bp_schema = version\<rparr>)))))))))))"

definition backup_database ::
    "maint_os \<Rightarrow> uuid \<Rightarrow> string \<Rightarrow> string \<Rightarrow> bool \<Rightarrow> backup_report on_volume" where
  "backup_database W u source destination overwrite =
     st_bind (st_files (\<lambda>v. v source \<noteq> None)) (\<lambda>present.
     st_bind (st_ensure present (maintenance_error ''Database does not exist: {}'')) (\<lambda>_.
     st_bind (ensure_distinct_paths W source destination) (\<lambda>_.
     st_bind (st_files (\<lambda>v. v destination \<noteq> None)) (\<lambda>exists.
     st_bind (st_ensure (\<not> exists \<or> overwrite)
       (anole_error_new OutputConflict Store ''Backup destination already exists: {}'')) (\<lambda>_.
     st_bind (st_result (parent_directory destination)) (\<lambda>d.
     st_bind (st_op W (MakeDirectories d) (maintenance_error ''Cannot create backup directory: {}'')) (\<lambda>_.
     st_bind (st_result (sibling_temporary_path destination ''backup-partial'' u)) (\<lambda>partial.
     on_failure (commit_backup W source destination partial overwrite) (remove_database_files W partial)))))))))"

section \<open>Automatic snapshots\<close>

fun remove_each :: "maint_os \<Rightarrow> string list \<Rightarrow> unit on_volume" where
  "remove_each W [] = st_return ()"
| "remove_each W (p # ps) = st_bind (remove_if_exists W p) (\<lambda>_. remove_each W ps)"

definition prune_automatic_snapshots :: "maint_os \<Rightarrow> string \<Rightarrow> string \<Rightarrow> nat \<Rightarrow> string \<Rightarrow> unit on_volume" where
  "prune_automatic_snapshots W directory base retain preserve =
     st_bind (st_op W (ListDirectory directory) (maintenance_error ''Cannot read backup directory: {}'')) (\<lambda>_.
     st_bind (st_files (mo_listing W directory)) (\<lambda>entries.
     remove_each W (map (path_join directory) (pruned_snapshots base retain preserve entries))))"

definition snapshot_directory :: "string \<Rightarrow> anole_error + string" where
  "snapshot_directory db = res_bind (parent_directory db) (\<lambda>d. Inr (path_join d ''backups''))"

definition snapshot_base :: "string \<Rightarrow> string" where
  "snapshot_base db = (case file_name db of None \<Rightarrow> ''jobs.sqlite3'' | Some n \<Rightarrow> n)"

definition snapshot_name :: "string \<Rightarrow> string \<Rightarrow> uuid \<Rightarrow> string" where
  "snapshot_name db reason u = snapshot_base db @ ''.'' @ reason @ ''.'' @ uuid_text u @ ''.sqlite3''"

definition create_automatic_snapshot ::
    "maint_os \<Rightarrow> uuid \<Rightarrow> uuid \<Rightarrow> string \<Rightarrow> string \<Rightarrow> backup_report on_volume" where
  "create_automatic_snapshot W u u' db reason =
     st_bind (st_result (snapshot_directory db)) (\<lambda>directory.
     st_bind (st_op W (MakeDirectories directory) (maintenance_error ''Cannot create backup directory: {}'')) (\<lambda>_.
     let destination = path_join directory (snapshot_name db reason u) in
     st_bind (backup_database W u' db destination False) (\<lambda>report.
     st_bind (prune_automatic_snapshots W directory (snapshot_base db) default_snapshot_retention
       (snapshot_name db reason u)) (\<lambda>_.
     st_return report))))"

section \<open>Opening\<close>

definition open_for_restore_staging :: "maint_os \<Rightarrow> string \<Rightarrow> unit on_volume" where
  "open_for_restore_staging W p =
     st_bind (st_op W (OpenStaged p) sqlite_error) (\<lambda>_ s.
       let v = rd_files s in
       case v p of
         Some (Database f) \<Rightarrow> (case migrate (mo_env W) f of (r, g) \<Rightarrow> (r, put_files (v(p \<mapsto> Database g)) s))
       | Some Foreign \<Rightarrow> (Inl sqlite_error, s)
       | None \<Rightarrow>
           (case migrate (mo_env W) \<lparr>sf_versions = [], sf_tables = [], sf_db = empty_db\<rparr> of
              (r, g) \<Rightarrow> (r, put_files (v(p \<mapsto> Database g)) s)))"

definition automatic_snapshot_before_migration :: "maint_os \<Rightarrow> uuid \<Rightarrow> uuid \<Rightarrow> string \<Rightarrow> unit on_volume" where
  "automatic_snapshot_before_migration W u u' p =
     st_bind (st_files (\<lambda>v. v p \<noteq> None)) (\<lambda>present.
     if \<not> present then st_return ()
     else st_bind (database_size W p) (\<lambda>size_bytes.
     if size_bytes = 0 then st_return ()
     else st_bind (open_read_only W p) (\<lambda>b.
     st_bind (read_schema_version W p b) (\<lambda>version.
     if version \<ge> database_schema_version then st_return ()
     else st_bind (create_automatic_snapshot W u u' p
       (''pre-migration-v'' @ decimal version @ ''-to-v'' @ decimal database_schema_version)) (\<lambda>_. st_return ())))))"

definition open_store :: "maint_os \<Rightarrow> uuid \<Rightarrow> uuid \<Rightarrow> string \<Rightarrow> unit on_volume" where
  "open_store W u u' p =
     st_bind (automatic_snapshot_before_migration W u u' p) (\<lambda>_. open_for_restore_staging W p)"

section \<open>Restore\<close>

record preflight_report =
  pf_backup :: string
  pf_source_version :: nat
  pf_restored_version :: nat
  pf_migration_required :: bool
  pf_integrity :: integrity_report

definition prepare_restore :: "maint_os \<Rightarrow> uuid \<Rightarrow> string \<Rightarrow> string \<Rightarrow> (string \<times> preflight_report) on_volume" where
  "prepare_restore W u db backup =
     st_bind (open_read_only W backup) (\<lambda>b.
     st_bind (read_schema_version W backup b) (\<lambda>source_version.
     st_bind (st_result (ensure_supported_schema source_version)) (\<lambda>_.
     st_bind (check_open W backup b) (\<lambda>source_integrity.
     st_bind (st_ensure (ig_ok source_integrity) (integrity_failure ''The selected backup failed integrity checks'')) (\<lambda>_.
     st_bind (st_result (parent_directory db)) (\<lambda>d.
     st_bind (st_op W (MakeDirectories d) (maintenance_error ''Cannot create restore staging directory: {}'')) (\<lambda>_.
     st_bind (st_result (sibling_temporary_path db ''restore-stage'' u)) (\<lambda>stage.
     st_bind (on_failure (online_copy W backup stage Portable) (remove_database_files W stage)) (\<lambda>_.
     st_bind (on_failure (open_for_restore_staging W stage) (remove_database_files W stage)) (\<lambda>_.
     st_bind (on_failure (integrity_check_path W stage) (remove_database_files W stage)) (\<lambda>integrity.
     st_bind (on_failure (st_ensure (ig_ok integrity)
         (integrity_failure ''The migrated restore copy failed integrity checks'')) (remove_database_files W stage)) (\<lambda>_.
     st_bind (open_read_only W stage) (\<lambda>staged.
     st_bind (read_schema_version W stage staged) (\<lambda>restored_version.
     st_return (stage, \<lparr>pf_backup = backup, pf_source_version = source_version,
       pf_restored_version = restored_version, pf_migration_required = (source_version < database_schema_version),
       pf_integrity = integrity\<rparr>)))))))))))))))"

definition restore_preflight :: "maint_os \<Rightarrow> uuid \<Rightarrow> string \<Rightarrow> string \<Rightarrow> preflight_report on_volume" where
  "restore_preflight W u db backup =
     st_bind (prepare_restore W u db backup) (\<lambda>(stage, report).
     st_bind (st_ignore (remove_database_files W stage)) (\<lambda>_. st_return report))"

record restore_report =
  re_database :: string
  re_from :: string
  re_safety :: "string option"
  re_version :: nat
  re_integrity :: integrity_report

definition switch_database ::
    "maint_os \<Rightarrow> string \<Rightarrow> string \<Rightarrow> string option \<Rightarrow> integrity_report on_volume" where
  "switch_database W db stage safety =
     st_bind (on_failure (online_copy W stage db Live) (remove_database_files W stage)) (\<lambda>_.
     st_bind (remove_database_files W stage) (\<lambda>_.
     st_bind (integrity_check_path W db) (\<lambda>integrity.
     st_bind (on_failure (st_ensure (ig_ok integrity)
         (integrity_failure ''The restored database failed validation after the transactional switch''))
       (case safety of Some p \<Rightarrow> online_copy W p db Live | None \<Rightarrow> st_return ())) (\<lambda>_.
     st_return integrity))))"

text \<open>\<open>parent\<close> is the directory of the database as \<open>Path::parent\<close> gives it.\<close>

definition create_state_directory :: "maint_os \<Rightarrow> string \<Rightarrow> unit on_volume" where
  "create_state_directory W db =
     (case parent db of
        Some d \<Rightarrow> if d = [] then st_return ()
                  else st_op W (MakeDirectories d) (maintenance_error ''Cannot create state directory: {}'')
      | None \<Rightarrow> st_return ())"

definition restore_database ::
    "maint_os \<Rightarrow> uuid \<Rightarrow> uuid \<Rightarrow> uuid \<Rightarrow> string \<Rightarrow> string \<Rightarrow> restore_report on_volume" where
  "restore_database W stage_id snapshot_id partial_id db backup =
     st_bind (ensure_distinct_paths W backup db) (\<lambda>_.
     st_bind (prepare_restore W stage_id db backup) (\<lambda>(stage, report).
     st_bind (st_files (\<lambda>v. v db \<noteq> None)) (\<lambda>present.
     st_bind (if present
              then st_bind (create_automatic_snapshot W snapshot_id partial_id db ''pre-restore'')
                     (\<lambda>r. st_return (Some (bp_backup r)))
              else st_return None) (\<lambda>safety.
     st_bind (create_state_directory W db) (\<lambda>_.
     st_bind (switch_database W db stage safety) (\<lambda>integrity.
     st_return \<lparr>re_database = db, re_from = backup, re_safety = safety,
       re_version = pf_restored_version report, re_integrity = integrity\<rparr>))))))"

section \<open>Compaction and status\<close>

record compact_report =
  ct_before :: nat
  ct_after :: nat
  ct_reclaimed :: nat
  ct_integrity :: integrity_report

text \<open>\<open>VACUUM\<close> keeps the contents; \<open>reclaimed\<close> is the file system's word on the sizes.\<close>

definition compact_database :: "maint_os \<Rightarrow> (db_body \<Rightarrow> nat) \<Rightarrow> uuid \<Rightarrow> uuid \<Rightarrow> string \<Rightarrow> compact_report on_volume" where
  "compact_database W size_compacted u u' db =
     st_bind (integrity_check_path W db) (\<lambda>before.
     st_bind (st_ensure (ig_ok before)
       (integrity_failure ''Refusing to compact a database that failed integrity checks'')) (\<lambda>_.
     st_bind (create_automatic_snapshot W u u' db ''pre-compact'') (\<lambda>_.
     st_bind (database_size W db) (\<lambda>size_before.
     st_bind (open_read_only W db) (\<lambda>_.
     st_bind (st_op W (VacuumDatabase db) sqlite_error) (\<lambda>_.
     st_bind (database_size (W\<lparr>mo_size := size_compacted\<rparr>) db) (\<lambda>size_after.
     st_bind (integrity_check_path W db) (\<lambda>integrity.
     st_return \<lparr>ct_before = size_before, ct_after = size_after, ct_reclaimed = size_before - size_after,
       ct_integrity = integrity\<rparr>))))))))"

record maintenance_status =
  mt_size :: nat
  mt_schema :: nat
  mt_supported :: nat
  mt_journal_mode :: string
  mt_jobs :: nat
  mt_active :: nat
  mt_ok :: bool

definition stored_jobs :: "db_body \<Rightarrow> anole_error + job_row list" where
  "stored_jobs b =
     (case b of Database f \<Rightarrow> if ''jobs'' \<in> set (sf_tables f) then Inr (jobs (sf_db f)) else Inl sqlite_error
      | Foreign \<Rightarrow> Inl sqlite_error)"

definition database_status :: "maint_os \<Rightarrow> string \<Rightarrow> maintenance_status on_volume" where
  "database_status W db =
     st_bind (open_read_only W db) (\<lambda>b.
     st_bind (read_schema_version W db b) (\<lambda>version.
     st_bind (st_result (ensure_supported_schema version)) (\<lambda>_.
     st_bind (st_op W (QueryDatabase db) sqlite_error) (\<lambda>_.
     st_bind (st_result (stored_jobs b)) (\<lambda>rows.
     st_bind (check_open W db b) (\<lambda>integrity.
     st_bind (database_size W db) (\<lambda>size_bytes.
     st_return \<lparr>mt_size = size_bytes, mt_schema = version, mt_supported = database_schema_version,
       mt_journal_mode = mo_journal_mode W b, mt_jobs = length rows,
       mt_active = count_where (\<lambda>r. jr_state r \<notin> set ended_states) rows, mt_ok = ig_ok integrity\<rparr>)))))))"

end
