(* ===== verification/Database_Safety.thy ===== *)
theory Database_Safety
  imports Database_Files Folder_Safety Lane_Commit
begin

text \<open>
  Backups and restores never lose a database: what each protocol may change, in every volume it goes
  through, and what it has established when it succeeds.
\<close>

section \<open>Which paths a protocol changes\<close>

definition changed :: "string set \<Rightarrow> volume history \<Rightarrow> volume history \<Rightarrow> bool" where
  "changed ps s s' \<longleftrightarrow> (\<forall>p. p \<notin> ps \<longrightarrow> rd_files s' p = rd_files s p)
     \<and> (\<forall>c \<in> states_of s'. c \<in> states_of s \<or> (\<forall>p. p \<notin> ps \<longrightarrow> c p = rd_files s p))"

definition only :: "string set \<Rightarrow> 'a on_volume \<Rightarrow> bool" where
  "only ps m \<longleftrightarrow> keeps (changed ps) m"

lemma only_def': "only ps m \<longleftrightarrow> (\<forall>s. changed ps s (snd (m s)))"
  by (simp add: only_def keeps_def)

lemma onlyD:
  assumes "only ps m" and "m s = (r, s')"
  shows "p \<notin> ps \<Longrightarrow> rd_files s' p = rd_files s p"
    and "c \<in> states_of s' \<Longrightarrow> c \<in> states_of s \<or> (\<forall>p. p \<notin> ps \<longrightarrow> c p = rd_files s p)"
  using assms unfolding only_def' changed_def by (metis snd_conv)+

lemma changed_refl [simp]: "changed ps s s"
  by (simp add: changed_def)

lemma changed_trans:
  assumes "changed ps s s1" and "changed ps s1 s2"
  shows "changed ps s s2"
proof -
  have "c \<in> states_of s \<or> (\<forall>p. p \<notin> ps \<longrightarrow> c p = rd_files s p)" if "c \<in> states_of s2" for c
  proof (cases "c \<in> states_of s1")
    case False
    then have "\<forall>p. p \<notin> ps \<longrightarrow> c p = rd_files s1 p" using assms(2) that unfolding changed_def by blast
    then show ?thesis using assms(1) by (simp add: changed_def)
  qed (use assms(1) in \<open>simp add: changed_def\<close>)
  then show ?thesis using assms by (simp add: changed_def)
qed

lemma changed_put: "p \<in> ps \<Longrightarrow> changed ps s (put_files ((rd_files s)(p := x)) s)"
  by (auto simp: changed_def)

lemma only_bind: "only ps m \<Longrightarrow> (\<And>x. only ps (f x)) \<Longrightarrow> only ps (st_bind m f)"
  unfolding only_def by (rule keeps_bind) (rule changed_trans)

lemma only_failure:
  assumes "only ps m" and "only ps h"
  shows "only ps (on_failure m h)"
  unfolding only_def'
proof
  fix s
  obtain r s' where m: "m s = (r, s')" by (cases "m s")
  have "changed ps s s'" "changed ps s' (snd (h s'))" using assms m unfolding only_def' by (metis snd_conv)+
  then show "changed ps s (snd (on_failure m h s))"
    by (cases r) (auto simp: on_failure_def m intro: changed_trans)
qed

lemma only_still: "(\<And>s. snd (m s) = s) \<Longrightarrow> only ps m"
  by (simp add: only_def')

lemma only_mono: "only ps m \<Longrightarrow> ps \<subseteq> qs \<Longrightarrow> only qs m"
  unfolding only_def' changed_def by (meson subsetD)

text \<open>A property of every volume that says nothing of the changed paths stays.\<close>

definition apart_from :: "string set \<Rightarrow> (volume \<Rightarrow> bool) \<Rightarrow> bool" where
  "apart_from ps A \<longleftrightarrow> (\<forall>v w. (\<forall>p. p \<notin> ps \<longrightarrow> v p = w p) \<longrightarrow> A v \<longrightarrow> A w)"

lemma keeping_only:
  assumes "only ps m" and "apart_from ps K" and "apart_from ps A"
  shows "keeping K A m (\<lambda>_. A)"
proof (rule keeping_here)
  fix s assume s: "\<forall>c \<in> states_of s. K c" "K (rd_files s)" "A (rd_files s)"
  obtain r s' where m: "m s = (r, s')" by (cases "m s")
  have "K c" if "c \<in> states_of s'" for c
    using onlyD(2) [OF assms(1) m that] s(1,2) assms(2) unfolding apart_from_def by metis
  moreover have "A (rd_files s')" using onlyD(1) [OF assms(1) m] s(3) assms(3) unfolding apart_from_def by metis
  ultimately show "(\<forall>c \<in> states_of (snd (m s)). K c) \<and> (\<forall>x. fst (m s) = Inr x \<longrightarrow> A (rd_files (snd (m s))))"
    by (simp add: m)
qed

text \<open>Established results and kept volumes are put together.\<close>

lemma keeping_and:
  assumes "keeping K A m Q" and "keeping (\<lambda>_. True) A m R"
  shows "keeping K A m (\<lambda>x f. Q x f \<and> R x f)"
  using assms unfolding keeping_def by blast

section \<open>Steps that change nothing\<close>

lemma still_ops [simp]:
  "snd (st_op W a e s) = s" "snd (open_read_only W p s) = s" "snd (read_schema_version W p b s) = s"
  "snd (check_open W p b s) = s" "snd (integrity_check_path W p s) = s" "snd (database_size W p s) = s"
  "snd (sha256_file W p s) = s" "snd (remove_sqlite_sidecars W p s) = s"
  "snd (absolute_lexical_path W p s) = s" "snd (canonical_or_absolute_path W p s) = s"
proof -
  have op: "snd (st_op W a e s) = s" for W a e and s :: "volume history"
    by (simp add: st_op_def st_bind_def st_files_def st_ensure_def)
  have bind: "snd (st_bind m f s) = s" if "snd (m s) = s" "\<And>x. snd (f x s) = s"
    for m :: "'x on_volume" and f :: "'x \<Rightarrow> 'y on_volume" and s
    using that by (auto simp: st_bind_def split: prod.splits sum.splits)
  show "snd (st_op W a e s) = s" by (rule op)
  show a: "snd (open_read_only W p s) = s" for W p s
    unfolding open_read_only_def by (intro bind) (simp_all add: op st_files_def st_result_def st_return_def)
  show "snd (remove_sqlite_sidecars W p s) = s" unfolding remove_sqlite_sidecars_def by (rule op)
  show "snd (read_schema_version W p b s) = s"
    unfolding read_schema_version_def by (intro bind) (simp_all add: op st_result_def)
  show b: "snd (check_open W p b s) = s" for W p b s
    unfolding check_open_def by (intro bind) (simp_all add: op st_result_def)
  show "snd (integrity_check_path W p s) = s" unfolding integrity_check_path_def by (intro bind a b)
  show "snd (database_size W p s) = s" "snd (sha256_file W p s) = s"
    unfolding database_size_def sha256_file_def
    by (intro bind; simp add: op st_files_def st_result_def st_return_def)+
  show c: "snd (absolute_lexical_path W p s) = s" for W p s
    unfolding absolute_lexical_path_def by (simp add: st_return_def bind op)
  show "snd (canonical_or_absolute_path W p s) = s" unfolding canonical_or_absolute_path_def
    by (intro bind) (auto simp: st_files_def st_return_def op c intro!: bind)
qed

lemma still_pure [simp]:
  "snd (st_files g s) = s" "snd (st_ensure b e s) = s" "snd (st_result r s) = s" "snd (st_return x s) = s"
  by (simp_all add: st_files_def st_ensure_def st_result_def st_return_def)

lemma only_distinct: "only ps (ensure_distinct_paths W a b)"
  unfolding ensure_distinct_paths_def by (intro only_bind only_still) simp_all

section \<open>Steps that change one path\<close>

lemma only_remove: "p \<in> ps \<Longrightarrow> only ps (remove_if_exists W p)"
  by (auto simp: only_def' remove_if_exists_def Let_def changed_put)

lemma only_remove_files: "p \<in> ps \<Longrightarrow> only ps (remove_database_files W p)"
  unfolding remove_database_files_def by (intro only_bind only_remove only_still) simp_all

lemma only_copy: "dst \<in> ps \<Longrightarrow> only ps (online_copy W src dst mode)"
proof -
  assume d: "dst \<in> ps"
  have "only ps (copy_pages W src dst body)" for body
    using d by (auto simp: only_def' copy_pages_def Let_def changed_put changed_def)
  then show ?thesis unfolding online_copy_def
    by (intro only_bind) (auto intro!: only_bind intro: only_still)
qed

lemma only_rename: "src \<in> ps \<Longrightarrow> dst \<in> ps \<Longrightarrow> only ps (rename_database W src dst)"
  by (auto simp: only_def' rename_database_def Let_def changed_def)

lemma only_open: "p \<in> ps \<Longrightarrow> only ps (open_for_restore_staging W p)"
  unfolding open_for_restore_staging_def
  by (intro only_bind [OF only_still]) (auto simp: only_def' Let_def changed_put split: option.splits db_body.splits prod.splits)

lemma only_commit:
  assumes "partial \<in> ps" and "destination \<in> ps"
  shows "only ps (commit_backup W source destination partial overwrite)"
  unfolding commit_backup_def
  by (intro only_bind only_copy only_rename assms) (auto intro: only_still only_remove assms)

lemma only_result: "(\<And>x. r = Inr x \<Longrightarrow> only ps (f x)) \<Longrightarrow> only ps (st_bind (st_result r) f)"
  by (cases r) (auto simp: only_def' st_bind_def st_result_def)

lemma only_backup:
  assumes "destination \<in> ps" and "\<And>partial. sibling_temporary_path destination ''backup-partial'' u = Inr partial \<Longrightarrow> partial \<in> ps"
  shows "only ps (backup_database W u source destination overwrite)"
  unfolding backup_database_def
  by (intro only_bind only_result only_distinct only_failure only_commit only_remove_files assms)
    (auto intro: only_still)

lemma only_each: "set xs \<subseteq> ps \<Longrightarrow> only ps (remove_each W xs)"
  by (induction xs) (auto intro!: only_bind only_remove intro: only_still)

section \<open>What a protocol has established\<close>

lemma keeping_pure:
  assumes "\<And>s. snd (m s) = s" and "\<And>s x. fst (m s) = Inr x \<Longrightarrow> P x (rd_files s)"
  shows "keeping K A m (\<lambda>x f. A f \<and> P x f)"
  using assms by (auto simp: keeping_def)

lemma keeping_still: "(\<And>s. snd (m s) = s) \<Longrightarrow> keeping K A m (\<lambda>_. A)"
  by (simp add: keeping_def)

lemma keeping_open: "keeping K A (open_read_only W p) (\<lambda>b f. A f \<and> f p = Some b)"
  by (rule keeping_pure) (auto simp: open_read_only_def st_bind_def st_files_def st_result_def st_op_def st_ensure_def
      st_return_def ok_or_def split: option.splits if_splits)

lemma keeping_check: "keeping K A (check_open W p b) (\<lambda>r f. A f \<and> check_body W b = Inr r)"
  by (rule keeping_pure) (auto simp: check_open_def st_bind_def st_files_def st_result_def st_op_def st_ensure_def
      split: if_splits)

lemma keeping_check_path:
  "keeping K A (integrity_check_path W p) (\<lambda>r f. A f \<and> (\<exists>b. f p = Some b \<and> check_body W b = Inr r))"
  unfolding integrity_check_path_def
  by (rule keeping_bind [OF keeping_open], rule keeping_post [OF keeping_check]) auto

lemma keeping_pages:
  "keeping (\<lambda>_. True) A (copy_pages W src dst body) (\<lambda>_ f. f dst = Some body)"
  by (auto simp: keeping_def copy_pages_def Let_def)

lemma keeping_copy:
  "keeping (\<lambda>_. True) (\<lambda>f. f src = Some b) (online_copy W src dst mode) (\<lambda>_ f. f dst = Some b)"
  unfolding online_copy_def
proof (rule keeping_bind [OF keeping_open])
  fix body
  show "keeping (\<lambda>_. True) (\<lambda>f. f src = Some b \<and> f src = Some body)
     (st_bind (st_op W (OpenDatabase dst) sqlite_error)
       (\<lambda>_. st_bind (copy_pages W src dst body)
         (\<lambda>_. if mode = Portable
               then st_bind (st_op W (CheckpointCopy dst) sqlite_error) (\<lambda>_.
                    st_bind (st_op W (JournalModeDelete dst)
                      (maintenance_error ''SQLite refused portable backup journal mode DELETE: {actual_journal_mode}''))
                    (\<lambda>_. remove_sqlite_sidecars W dst))
               else st_return ()))) (\<lambda>_ f. f dst = Some b)"
  proof (cases "b = body")
    case True
    show ?thesis unfolding True
      apply (rule keeping_bind [OF keeping_still], simp)
      apply (rule keeping_bind [OF keeping_pages])
      by (rule keeping_if; (intro keeping_bind [OF keeping_still])?; (rule keeping_still)?; simp)
  qed (auto simp: keeping_def)
qed

lemma keeping_rename:
  "keeping (\<lambda>_. True) (\<lambda>f. f src = Some b) (rename_database W src dst) (\<lambda>_ f. f dst = Some b)"
  by (auto simp: keeping_def rename_database_def Let_def)

lemma keeping_true_only: "only ps m \<Longrightarrow> apart_from ps A \<Longrightarrow> keeping (\<lambda>_. True) A m (\<lambda>_. A)"
  by (rule keeping_only) (simp_all add: apart_from_def)

lemma keeping_commit:
  assumes "destination \<noteq> partial"
  shows "keeping (\<lambda>_. True) (\<lambda>f. f source = Some b) (commit_backup W source destination partial overwrite)
    (\<lambda>r f. f destination = Some b \<and> bp_backup r = destination)"
  unfolding commit_backup_def
  apply (rule keeping_bind [OF keeping_copy])
  apply (rule keeping_bind [OF keeping_still], simp)
  apply (rule keeping_bind [OF keeping_still], simp)
  apply (rule keeping_bind [OF keeping_still], simp)
  apply (rule keeping_bind [OF keeping_still], simp)
  apply (rule keeping_bind [where Q = "\<lambda>_ f. f partial = Some b"])
   apply (rule keeping_if)
    apply (rule keeping_true_only [OF only_remove [of destination "{destination}"]], simp)
    apply (use assms in \<open>simp add: apart_from_def\<close>)
   apply (rule keeping_still, simp)
  apply (rule keeping_bind [where Q = "\<lambda>_ f. f destination = Some b"])
   apply (rule keeping_rename)
  apply (intro keeping_bind [OF keeping_still]; simp?)
  apply (rule keeping_post [OF keeping_pure [where P = "\<lambda>r f. bp_backup r = destination"]])
    apply (auto simp: st_return_def)
  done

lemma keeping_result_bind:
  "(\<And>x. r = Inr x \<Longrightarrow> keeping K A (f x) Q) \<Longrightarrow> keeping K A (st_bind (st_result r) f) Q"
  by (cases r) (auto simp: keeping_def st_bind_def st_result_def)

lemma keeping_backup:
  assumes "\<And>partial. sibling_temporary_path destination ''backup-partial'' u = Inr partial \<Longrightarrow> destination \<noteq> partial"
  shows "keeping (\<lambda>_. True) (\<lambda>f. f source = Some b) (backup_database W u source destination overwrite)
    (\<lambda>r f. f destination = Some b \<and> bp_backup r = destination)"
  unfolding backup_database_def
  apply (rule keeping_bind [OF keeping_still], simp)
  apply (rule keeping_bind [OF keeping_still], simp)
  apply (rule keeping_bind [OF keeping_true_only [OF only_distinct [of "{}"]]], simp add: apart_from_def)
  apply (rule keeping_bind [OF keeping_still], simp)
  apply (rule keeping_bind [OF keeping_still], simp)
  apply (rule keeping_bind [OF keeping_still], simp)
  apply (rule keeping_bind [OF keeping_still], simp)
  apply (rule keeping_result_bind)
  apply (rule keeping_failure [OF keeping_commit])
   apply (erule assms)
  apply (rule keeping_true_only [OF only_remove_files [OF UNIV_I]])
  by (simp add: apart_from_def)

section \<open>Snapshots\<close>

lemma bind_known: "st_bind (st_result (Inr x)) f = f x"
  by (rule ext) (simp add: st_bind_def st_result_def)

lemma keeping_frame:
  assumes "only ps m" and "\<And>v w. A v \<Longrightarrow> (\<forall>p. p \<notin> ps \<longrightarrow> w p = v p) \<Longrightarrow> K w \<and> B w"
  shows "keeping K A m (\<lambda>_. B)"
proof (rule keeping_here)
  fix s assume s: "\<forall>c \<in> states_of s. K c" "A (rd_files s)"
  obtain r s' where m: "m s = (r, s')" by (cases "m s")
  have "K c" if "c \<in> states_of s'" for c
    using onlyD(2) [OF assms(1) m that] s assms(2) by metis
  moreover have "B (rd_files s')" using onlyD(1) [OF assms(1) m] s(2) assms(2) by metis
  ultimately show "(\<forall>c \<in> states_of (snd (m s)). K c) \<and> (\<forall>x. fst (m s) = Inr x \<longrightarrow> B (rd_files (snd (m s))))"
    by (simp add: m)
qed

lemma only_files: "(\<And>v. only ps (f (g v))) \<Longrightarrow> only ps (st_bind (st_files g) f)"
  by (auto simp: only_def' st_bind_def st_files_def)

definition listing_ok :: "maint_os \<Rightarrow> bool" where
  "listing_ok W \<longleftrightarrow> (\<forall>d v. \<forall>(n, t) \<in> set (mo_listing W d v). slashless n)"

definition others_in :: "string \<Rightarrow> string \<Rightarrow> string set" where
  "others_in d preserve = {path_join d n | n. slashless n \<and> n \<noteq> preserve}"

lemma pruned_names:
  "n \<in> set (pruned_snapshots base k preserve entries) \<Longrightarrow> n \<noteq> preserve \<and> n \<in> fst ` set entries"
  by (force simp: pruned_snapshots_def snapshots_by_age_def map_filter_def image_iff dest!: in_set_dropD split: if_splits)

lemma only_prune:
  assumes "listing_ok W"
  shows "only (others_in d preserve) (prune_automatic_snapshots W d base k preserve)"
proof -
  have "set (map (path_join d) (pruned_snapshots base k preserve (mo_listing W d v))) \<subseteq> others_in d preserve" for v
    using assms pruned_names [of _ base k preserve "mo_listing W d v"] by (fastforce simp: others_in_def listing_ok_def)
  then show ?thesis unfolding prune_automatic_snapshots_def
    by (intro only_bind [OF only_still] only_files only_each) simp_all
qed

lemma join_inj: "slashless a \<Longrightarrow> slashless b \<Longrightarrow> path_join d a = path_join d b \<Longrightarrow> a = b"
  by (auto simp: path_join_def slashless_not_absolute split: if_splits)

lemma file_name_slashless: "file_name p = Some x \<Longrightarrow> slashless x"
proof -
  assume "file_name p = Some x"
  then have "NormalC x \<in> set (path_components p)"
    by (auto simp: file_name_def Let_def split: if_splits path_component.splits) (metis last_in_set)
  then have "x \<in> set (split_on is_slash p)"
    by (auto simp: path_components_def Let_def component_of.simps split: if_splits)
  then show ?thesis using split_on_parts [of x is_slash p] by (simp add: slashless_def)
qed

lemma snapshot_name_slashless: "slashless reason \<Longrightarrow> slashless (snapshot_name db reason u)"
  using file_name_slashless [of db] by (simp add: snapshot_name_def snapshot_base_def slashless_uuid split: option.splits)

definition snapshot_paths :: "string \<Rightarrow> string \<Rightarrow> uuid \<Rightarrow> uuid \<Rightarrow> string \<Rightarrow> string \<Rightarrow> string \<Rightarrow> bool" where
  "snapshot_paths db reason u u' d snap partial \<longleftrightarrow> snapshot_directory db = Inr d
     \<and> snap = path_join d (snapshot_name db reason u)
     \<and> sibling_temporary_path snap ''backup-partial'' u' = Inr partial \<and> snap \<noteq> partial"

lemma only_snapshot:
  assumes "listing_ok W" and "snapshot_paths db reason u u' d snap partial"
  shows "only ({snap, partial} \<union> others_in d (snapshot_name db reason u)) (create_automatic_snapshot W u u' db reason)"
proof -
  have p: "snapshot_directory db = Inr d" "snap = path_join d (snapshot_name db reason u)"
    "sibling_temporary_path snap ''backup-partial'' u' = Inr partial" using assms(2) unfolding snapshot_paths_def by blast+
  show ?thesis unfolding create_automatic_snapshot_def Let_def p(1) bind_known p(2) [symmetric]
    by (intro only_result only_bind only_backup only_mono [OF only_prune [OF assms(1)]] only_still)
      (auto simp: p(3))
qed

lemma keeping_snapshot:
  assumes "listing_ok W" and "snapshot_paths db reason u u' d snap partial" and "slashless reason"
  shows "keeping (\<lambda>_. True) (\<lambda>f. f db = Some b) (create_automatic_snapshot W u u' db reason)
    (\<lambda>r f. f snap = Some b \<and> bp_backup r = snap)"
proof -
  have p: "snapshot_directory db = Inr d" "snap = path_join d (snapshot_name db reason u)"
    "sibling_temporary_path snap ''backup-partial'' u' = Inr partial" "snap \<noteq> partial"
    using assms(2) unfolding snapshot_paths_def by blast+
  have kept: "snap \<notin> others_in d (snapshot_name db reason u)"
    using snapshot_name_slashless [OF assms(3), of db u] by (auto simp: others_in_def p(2) dest!: join_inj [rotated 2])
  show ?thesis unfolding create_automatic_snapshot_def Let_def p(1) bind_known p(2) [symmetric]
    apply (rule keeping_bind [OF keeping_still], simp)
    apply (rule keeping_bind [OF keeping_backup])
     apply (use p(3,4) in simp)
    subgoal for x report
      apply (rule keeping_bind [where Q = "\<lambda>_ f. f snap = Some b \<and> bp_backup report = snap"])
       apply (rule keeping_frame [OF only_prune [OF assms(1)]])
       apply (use kept in simp)
      apply (simp add: keeping_def st_return_def)
      done
    done
qed

section \<open>The staged copy\<close>

definition staged_from :: "maint_os \<Rightarrow> db_body option \<Rightarrow> db_body set" where
  "staged_from W src = {b. \<exists>f g rep. src = Some (Database f) \<and> migrate (mo_env W) f = (Inr (), g) \<and> b = Database g
     \<and> check_body W b = Inr rep \<and> ig_ok rep}"

lemma only_prepare:
  assumes "sibling_temporary_path db ''restore-stage'' u = Inr stage"
  shows "only {stage} (prepare_restore W u db backup)"
  unfolding prepare_restore_def assms
  by (intro only_bind only_failure only_result only_copy only_remove_files only_open; (rule only_still)?; simp)

lemma keeping_staging:
  "keeping (\<lambda>_. True) (\<lambda>f. f p = Some src) (open_for_restore_staging W p)
    (\<lambda>_ f. \<exists>a g. src = Database a \<and> migrate (mo_env W) a = (Inr (), g) \<and> f p = Some (Database g))"
  unfolding open_for_restore_staging_def
  by (rule keeping_bind [OF keeping_still], simp)
    (auto simp: keeping_def Let_def split: option.splits db_body.splits prod.splits)

lemma keeping_drop_stage: "keeping (\<lambda>_. True) (\<lambda>_. True) (remove_database_files W p) (\<lambda>_ _. True)"
  by (rule keeping_true_only [OF only_remove_files [OF UNIV_I]]) (simp add: apart_from_def)

lemma keeping_prepare:
  assumes "sibling_temporary_path db ''restore-stage'' u = Inr stage"
  shows "keeping (\<lambda>_. True) (\<lambda>f. f backup = src) (prepare_restore W u db backup)
    (\<lambda>r f. fst r = stage \<and> (\<exists>b \<in> staged_from W src. f stage = Some b))"
  unfolding prepare_restore_def assms
  apply (rule keeping_bind [OF keeping_open])
  apply (rule keeping_bind [OF keeping_still], simp)
  apply (rule keeping_bind [OF keeping_still], simp)
  apply (rule keeping_bind [OF keeping_still], simp)
  apply (rule keeping_bind [OF keeping_still], simp)
  apply (rule keeping_bind [OF keeping_still], simp)
  apply (rule keeping_bind [OF keeping_still], simp)
  apply (rule keeping_result_bind)
  subgoal premises facts for body _ _ _ _ _ _ s
  proof -
    have s: "s = stage" using facts by simp
    show ?thesis
    proof (cases "src = Some body")
      case True
      show ?thesis unfolding s True
      apply (rule keeping_bind [OF keeping_failure [OF keeping_pre [OF keeping_copy [where b = body]] keeping_drop_stage]])
       apply blast
      apply (rule keeping_bind [OF keeping_failure [OF keeping_staging keeping_drop_stage]])
      apply (rule keeping_bind [OF keeping_failure [OF keeping_check_path keeping_drop_stage]])
      apply (rule keeping_bind [OF keeping_failure [OF keeping_ensure keeping_drop_stage]])
      apply (rule keeping_bind [OF keeping_still], simp)
      apply (rule keeping_bind [OF keeping_still], simp)
      by (auto simp: keeping_def st_return_def staged_from_def)
    qed (auto simp: keeping_def)
  qed
  done

section \<open>The switch\<close>

lemma keeping_refusal:
  assumes "keeping K A h R"
  shows "keeping K A (on_failure (st_ensure b e) h) (\<lambda>_. A)"
  using assms by (auto simp: keeping_def on_failure_def st_ensure_def)

lemma keeping_over:
  assumes "\<And>f. K f \<Longrightarrow> A f \<Longrightarrow> f dst \<noteq> None \<and> (\<forall>b. f src = Some b \<longrightarrow> K (f(dst \<mapsto> b)) \<and> B (f(dst \<mapsto> b)))"
  shows "keeping K A (online_copy W src dst Live) (\<lambda>_. B)"
  unfolding online_copy_def
  apply (rule keeping_bind [OF keeping_open])
  apply (rule keeping_bind [OF keeping_still], simp)
  subgoal for body
    apply (rule keeping_bind [where Q = "\<lambda>_. B"])
     apply (rule keeping_here)
    subgoal for s using assms [of "rd_files s"] by (auto simp: copy_pages_def Let_def)
    by (rule keeping_if) (simp_all add: keeping_def st_return_def)
  done

text \<open>The database is the old one, or a checked copy of the backup while the snapshot holds the old one.\<close>

definition never_lost :: "maint_os \<Rightarrow> db_body option \<Rightarrow> string \<Rightarrow> string \<Rightarrow> db_body \<Rightarrow> volume \<Rightarrow> bool" where
  "never_lost W src db snap old f \<longleftrightarrow>
     f db = Some old \<or> f snap = Some old \<and> (\<exists>b \<in> staged_from W src. f db = Some b)"

definition switched :: "maint_os \<Rightarrow> db_body option \<Rightarrow> string \<Rightarrow> string \<Rightarrow> db_body \<Rightarrow> volume \<Rightarrow> bool" where
  "switched W src db snap old f \<longleftrightarrow> f snap = Some old \<and> (\<exists>b \<in> staged_from W src. f db = Some b)"

lemma keeping_switch:
  assumes apart: "db \<noteq> snap" "stage \<noteq> db" "stage \<noteq> snap"
  shows "keeping (never_lost W src db snap old)
    (\<lambda>f. f db = Some old \<and> f snap = Some old \<and> (\<exists>b \<in> staged_from W src. f stage = Some b))
    (switch_database W db stage (Some snap)) (\<lambda>_. switched W src db snap old)"
proof -
  let ?K = "never_lost W src db snap old" and ?S = "switched W src db snap old"
  have drop: "keeping ?K ?S (remove_database_files W stage) (\<lambda>_. ?S)"
    by (rule keeping_frame [OF only_remove_files [of stage "{stage}"]])
      (use apart in \<open>auto simp: switched_def never_lost_def\<close>)
  have drop': "keeping ?K (\<lambda>_. True) (remove_database_files W stage) (\<lambda>_ _. True)"
    by (rule keeping_only [OF only_remove_files [of stage "{stage}"]])
      (use apart in \<open>auto simp: apart_from_def never_lost_def\<close>)
  have switch: "keeping ?K (\<lambda>f. f db = Some old \<and> f snap = Some old \<and> (\<exists>b \<in> staged_from W src. f stage = Some b))
      (online_copy W stage db Live) (\<lambda>_. ?S)"
    by (rule keeping_over) (use apart in \<open>auto simp: never_lost_def switched_def\<close>)
  have undone: "keeping ?K ?S (online_copy W snap db Live) (\<lambda>_ _. True)"
    by (rule keeping_over) (use apart in \<open>auto simp: never_lost_def switched_def\<close>)
  show ?thesis unfolding switch_database_def
    apply (rule keeping_bind [OF keeping_failure [OF switch drop']])
    apply (rule keeping_bind [OF drop])
    apply (rule keeping_bind [OF keeping_still], simp)
    apply (rule keeping_bind [OF keeping_refusal])
     apply (simp only: option.case)
     apply (rule undone)
    by (rule keeping_still) simp
qed

section \<open>Restores\<close>

definition restore_paths :: "maint_os \<Rightarrow> uuid \<Rightarrow> uuid \<Rightarrow> uuid \<Rightarrow> string \<Rightarrow> string \<Rightarrow> string \<Rightarrow> string \<Rightarrow> string \<Rightarrow> string \<Rightarrow> bool" where
  "restore_paths W i j k db backup stage d snap partial \<longleftrightarrow>
     listing_ok W \<and> sibling_temporary_path db ''restore-stage'' i = Inr stage
     \<and> snapshot_paths db ''pre-restore'' j k d snap partial
     \<and> distinct [db, backup, stage, snap, partial]
     \<and> (\<forall>n. slashless n \<longrightarrow> path_join d n \<notin> {db, stage})"

lemma restore_pathsD:
  assumes "restore_paths W i j k db backup stage d snap partial"
  shows "listing_ok W" "sibling_temporary_path db ''restore-stage'' i = Inr stage"
    "snapshot_paths db ''pre-restore'' j k d snap partial" "distinct [db, backup, stage, snap, partial]"
    "db \<notin> {snap, partial} \<union> others_in d (snapshot_name db ''pre-restore'' j)"
    "stage \<notin> {snap, partial} \<union> others_in d (snapshot_name db ''pre-restore'' j)"
  using assms by (auto simp: restore_paths_def others_in_def)

text \<open>The old database is in place and a checked copy of the backup is staged.\<close>

definition ready :: "maint_os \<Rightarrow> db_body option \<Rightarrow> string \<Rightarrow> string \<Rightarrow> db_body \<Rightarrow> volume \<Rightarrow> bool" where
  "ready W src db stage old f \<longleftrightarrow> f db = Some old \<and> (\<exists>b \<in> staged_from W src. f stage = Some b)"

lemma keeping_prepared:
  assumes paths: "restore_paths W i j k db backup stage d snap partial"
  shows "keeping (never_lost W src db snap old) (\<lambda>f. f db = Some old \<and> f backup = src)
    (prepare_restore W i db backup) (\<lambda>x f. fst x = stage \<and> ready W src db stage old f)"
proof -
  let ?A = "\<lambda>f. f db = Some old \<and> f backup = src"
  note p = restore_pathsD [OF paths]
  have "keeping (never_lost W src db snap old) ?A (prepare_restore W i db backup) (\<lambda>_ f. f db = Some old)"
    by (rule keeping_frame [OF only_prepare [OF p(2)]]) (use p(4) in \<open>auto simp: never_lost_def\<close>)
  moreover have "keeping (\<lambda>_. True) ?A (prepare_restore W i db backup)
      (\<lambda>x f. fst x = stage \<and> (\<exists>b \<in> staged_from W src. f stage = Some b))"
    by (rule keeping_pre [OF keeping_prepare [OF p(2)]]) simp
  ultimately show ?thesis by (rule keeping_post [OF keeping_and]) (auto simp: ready_def)
qed

lemma keeping_saved:
  assumes paths: "restore_paths W i j k db backup stage d snap partial"
  shows "keeping (never_lost W src db snap old) (ready W src db stage old)
    (create_automatic_snapshot W j k db ''pre-restore'')
    (\<lambda>x f. (ready W src db stage old f \<and> f snap = Some old) \<and> bp_backup x = snap)"
proof -
  note p = restore_pathsD [OF paths]
  have "keeping (never_lost W src db snap old) (ready W src db stage old)
      (create_automatic_snapshot W j k db ''pre-restore'') (\<lambda>_. ready W src db stage old)"
    by (rule keeping_frame [OF only_snapshot [OF p(1,3)]]) (use p(5,6) in \<open>auto simp: never_lost_def ready_def\<close>)
  moreover have "keeping (\<lambda>_. True) (ready W src db stage old) (create_automatic_snapshot W j k db ''pre-restore'')
      (\<lambda>x f. f snap = Some old \<and> bp_backup x = snap)"
    by (rule keeping_pre [OF keeping_snapshot [OF p(1,3)]]) (simp_all add: ready_def)
  ultimately show ?thesis by (rule keeping_post [OF keeping_and]) auto
qed

lemma keeping_installed:
  assumes paths: "restore_paths W i j k db backup stage d snap partial"
  shows "keeping (never_lost W src db snap old) (ready W src db stage old)
    (st_bind (create_automatic_snapshot W j k db ''pre-restore'') (\<lambda>r. st_return (Some (bp_backup r))))
    (\<lambda>y f. (ready W src db stage old f \<and> f snap = Some old) \<and> y = Some snap)"
  by (rule keeping_bind [OF keeping_saved [OF paths]]) (simp add: keeping_def st_return_def)

lemma keeping_restore:
  assumes paths: "restore_paths W i j k db backup stage d snap partial"
  shows "keeping (never_lost W src db snap old) (\<lambda>f. f db = Some old \<and> f backup = src)
    (restore_database W i j k db backup)
    (\<lambda>rep f. switched W src db snap old f \<and> re_safety rep = Some snap)"
  unfolding restore_database_def
  apply (rule keeping_bind [where Q = "\<lambda>_ f. f db = Some old \<and> f backup = src"])
   apply (rule keeping_frame [OF only_distinct [of "{}"]], simp add: never_lost_def)
  apply (rule keeping_bind [OF keeping_prepared [OF paths]])
  apply (simp only: case_prod_beta)
  apply (rule keeping_bind [OF keeping_files])
  subgoal for _ x present
    apply (rule keeping_pre [where A = "\<lambda>f. ready W src db stage old f \<and> (fst x = stage \<and> present)"])
     apply (rule keeping_fact)
    subgoal premises facts
    proof -
      have x: "fst x = stage" and present: "present = True" using facts by simp_all
      show ?thesis unfolding x present if_True
        apply (rule keeping_bind [OF keeping_installed [OF paths]])
        apply (rule keeping_fact, simp only:)
        apply (rule keeping_bind [OF keeping_still])
         apply (simp add: create_state_directory_def split: option.split)
        apply (rule keeping_bind [OF keeping_pre [OF keeping_switch]])
           apply (use restore_pathsD(4) [OF paths] in auto)[3]
         apply (auto simp: ready_def)[1]
        by (simp add: keeping_def st_return_def)
    qed
    by (simp add: ready_def)
  done

text \<open>
  C40: a restore never loses the database, whatever the operating system or SQLite refuse and wherever
  the process stops. In every state of the volume on the way the database is the old one, or it is a
  migrated copy of the backup that has passed the integrity check, with the old one in the safety
  snapshot; and a restore that succeeds ends with the latter and reports that snapshot.
\<close>

theorem restore_never_loses_the_database:
  assumes run: "restore_database W i j k db backup \<lparr>rd_files = v, rd_past = []\<rparr> = (r, s')"
    and old: "v db = Some old"
    and paths: "restore_paths W i j k db backup stage d snap partial"
  shows "(\<forall>c \<in> states_of s'. never_lost W (v backup) db snap old c)
    \<and> (\<forall>rep. r = Inr rep \<longrightarrow> switched W (v backup) db snap old (rd_files s') \<and> re_safety rep = Some snap)"
proof -
  have start: "\<forall>c \<in> states_of \<lparr>rd_files = v, rd_past = []\<rparr>. never_lost W (v backup) db snap old c"
    using old by (simp add: states_of_def never_lost_def)
  show ?thesis using keepingD [OF keeping_restore [OF paths] start _ run] old by simp
qed

end
