(* ===== verification/Database_Demo.thy ===== *)
theory Database_Demo
  imports Database_Safety
begin

text \<open>
  A restore that succeeds, and one whose staged copy cannot be removed after the switch.
\<close>

section \<open>Files and names\<close>

definition sample_file :: "nat \<Rightarrow> stored_file" where
  "sample_file n = \<lparr>sf_versions = [1..<7],
     sf_tables = base_tables @ batch_tables @ [''job_revalidations'', ''engine_throughput_samples''],
     sf_db = empty_db\<lparr>next_sample_id := n\<rparr>\<rparr>"

definition sample_os :: "(maint_op \<Rightarrow> bool) \<Rightarrow> maint_os" where
  "sample_os refuses = \<lparr>mo_allows = (\<lambda>a v. \<not> refuses a), mo_locked = (\<lambda>v. False), mo_torn = (\<lambda>p v. Some Foreign),
     mo_canonical = (\<lambda>p. p), mo_current_dir = ''/'', mo_listing = (\<lambda>d v. []), mo_messages = (\<lambda>f. [''ok'']),
     mo_violations = (\<lambda>f. []), mo_codec = retry_codec, mo_env = demo_env 20, mo_size = (\<lambda>b. 1),
     mo_sha256 = (\<lambda>b. ''h''), mo_journal_mode = (\<lambda>b. ''wal'')\<rparr>"

definition sample_stage :: string where
  "sample_stage = ''/s/.j.restore-stage.'' @ uuid_text 4"

definition sample_name :: string where
  "sample_name = ''j.pre-restore.'' @ uuid_text 2 @ ''.sqlite3''"

definition sample_snapshot :: string where
  "sample_snapshot = ''/s/backups/'' @ sample_name"

definition sample_partial :: string where
  "sample_partial = ''/s/backups/.'' @ sample_name @ ''.backup-partial.'' @ uuid_text 3"

definition sample_volume :: volume where
  "sample_volume = [''/s/j'' \<mapsto> Database (sample_file 0), ''/b'' \<mapsto> Database (sample_file 5)]"

lemma sample_name_plain: "plain_component (NormalC sample_name)" "slashless sample_name"
  by (simp_all add: sample_name_def slashless_uuid)

lemma sample_components:
  "path_components sample_snapshot = [RootDir, NormalC ''s'', NormalC ''backups'', NormalC sample_name]"
proof -
  have "sample_snapshot = path_text [RootDir, NormalC ''s'', NormalC ''backups'', NormalC sample_name]"
    by (simp add: sample_snapshot_def path_text_def)
  moreover have "components_ok [RootDir, NormalC ''s'', NormalC ''backups'', NormalC sample_name]"
    using sample_name_plain by (simp add: components_ok_def)
  ultimately show ?thesis using components_of_text by metis
qed

lemma sample_parents:
  "parent_directory ''/s/j'' = Inr ''/s''" "file_name ''/s/j'' = Some ''j''" "parent ''/s/j'' = Some ''/s''"
  by code_simp+

lemma sample_snapshot_parent:
  "parent_directory sample_snapshot = Inr ''/s/backups''" "file_name sample_snapshot = Some sample_name"
  by (simp_all add: parent_directory_def parent_def file_name_def sample_components path_text_def)

lemma sample_joins:
  "path_join ''/s'' (''.j.restore-stage.'' @ uuid_text 4) = sample_stage"
  "path_join ''/s/backups'' sample_name = sample_snapshot"
  "path_join ''/s/backups'' (CHR ''.'' # sample_name @ ''.backup-partial.'' @ uuid_text 3) = sample_partial"
  by (simp_all add: path_join_def is_absolute_def starts_with_slash ends_with_last sample_stage_def
      sample_snapshot_def sample_partial_def) (simp_all add: sample_name_def)

lemma sample_paths:
  "sibling_temporary_path ''/s/j'' ''restore-stage'' 4 = Inr sample_stage"
  "snapshot_directory ''/s/j'' = Inr ''/s/backups''" "snapshot_name ''/s/j'' ''pre-restore'' 2 = sample_name"
  "sibling_temporary_path sample_snapshot ''backup-partial'' 3 = Inr sample_partial"
  using sample_joins(1,3)
  by (simp_all add: sibling_temporary_path_def sample_parents sample_snapshot_parent snapshot_directory_def
      path_join_def is_absolute_def starts_with_slash ends_with_last snapshot_name_def snapshot_base_def sample_name_def)

lemma sample_apart: "distinct [''/s/j'', ''/b'', sample_stage, sample_snapshot, sample_partial]"
  by (simp add: sample_stage_def sample_snapshot_def sample_partial_def sample_name_def)

lemma sample_restore_paths:
  "restore_paths (sample_os refuses) 4 2 3 ''/s/j'' ''/b'' sample_stage ''/s/backups'' sample_snapshot sample_partial"
proof -
  have "path_join ''/s/backups'' n \<notin> {''/s/j'', sample_stage}" if "slashless n" for n
    using that by (simp add: path_join_def slashless_not_absolute ends_with_last sample_stage_def)
  moreover have "sample_snapshot \<noteq> sample_partial" using sample_apart by simp
  ultimately show ?thesis unfolding restore_paths_def snapshot_paths_def sample_paths sample_joins(2)
    using sample_apart by (simp add: listing_ok_def sample_os_def)
qed

section \<open>The runs\<close>

lemma sample_current: "migrate E (sample_file n) = (Inr (), sample_file n)"
proof (rule opening_again_changes_nothing)
  show "store_inv (sf_db (sample_file n))" using store_inv_empty by (simp add: sample_file_def)
  have "{1..6} = set [1..<7::nat]" by auto
  then show "{1..6} \<subseteq> set (sf_versions (sample_file n))" unfolding sample_file_def by simp
qed (auto simp: sample_file_def)

lemma sample_version: "stored_schema_version (Database (sample_file n)) = Inr 6"
  by (simp add: stored_schema_version_def sample_file_def base_tables_def recorded_version_def upt_rec)

definition sample_report :: integrity_report where
  "sample_report = \<lparr>ig_ok = True, ig_sqlite = [''ok''], ig_foreign_keys = [], ig_issues = []\<rparr>"

lemma sample_check: "check_body (sample_os refuses) (Database (sample_file n)) = Inr sample_report"
proof -
  have "to_ascii_lowercase ''ok'' = ''ok''" by code_simp
  moreover have "application_issues c [1..<7] (empty_db\<lparr>next_sample_id := n\<rparr>) = []" for c
    by (simp add: application_issues_def migration_issues_def recorded_version_def append_count_issue_def
        count_where_def active_unreserved_def terminal_reserved_def append_revalidation_issues_def
        selection_issues_def empty_db_def)
  ultimately show ?thesis
    by (auto simp: check_body_def sample_file_def sample_os_def readable_db_def integrity_check_connection_def
        Let_def sample_report_def)
qed

text \<open>One step after the other, with what each finds on the volume.\<close>

lemmas sample_steps = st_bind_def st_files_def st_result_def st_ensure_def st_return_def st_op_def st_ignore_def
  on_failure_def open_read_only_def read_schema_version_def check_open_def integrity_check_path_def ok_or_def
  database_size_def sha256_file_def remove_if_exists_def remove_sqlite_sidecars_def remove_database_files_def
  rename_database_def copy_pages_def copy_error_def online_copy_def Let_def

lemma sample_allows [simp]: "mo_allows (sample_os refuses) a v \<longleftrightarrow> \<not> refuses a"
  "mo_canonical (sample_os refuses) p = p" "mo_env (sample_os refuses) = demo_env 20"
  "mo_listing (sample_os refuses) d v = []" "mo_size (sample_os refuses) b = 1" "mo_sha256 (sample_os refuses) b = ''h''"
  by (simp_all add: sample_os_def)

definition refuses_stage :: "maint_op \<Rightarrow> bool" where
  "refuses_stage a = (a = RemoveOne sample_stage)"

lemma sample_distinct:
  "\<not> paths_equal ''/b'' ''/s/j''" "\<not> paths_equal ''/s/j'' sample_snapshot"
proof -
  have "path_components ''/s/j'' = [RootDir, NormalC ''s'', NormalC ''j'']" "path_components ''/b'' = [RootDir, NormalC ''b'']"
    by code_simp+
  then show "\<not> paths_equal ''/b'' ''/s/j''" "\<not> paths_equal ''/s/j'' sample_snapshot"
    by (simp_all add: paths_equal_def sample_components)
qed

lemma sample_absolute: "is_absolute sample_snapshot"
  by (simp add: is_absolute_def starts_with_slash sample_snapshot_def)

lemma sample_prepare:
  assumes "refuses = (\<lambda>a. False) \<or> refuses = refuses_stage" and "v ''/b'' = Some (Database (sample_file 5))" and "v sample_stage = None"
  shows "\<exists>past rep. prepare_restore (sample_os refuses) 4 ''/s/j'' ''/b'' \<lparr>rd_files = v, rd_past = p\<rparr>
    = (Inr (sample_stage, rep), \<lparr>rd_files = v(sample_stage \<mapsto> Database (sample_file 5)), rd_past = past\<rparr>)
      \<and> pf_restored_version rep = 6"
  using assms
  by (auto simp: prepare_restore_def sample_steps sample_parents sample_paths open_for_restore_staging_def sample_current
      sample_version sample_check sample_report_def ensure_supported_schema_def ensure_def database_schema_version_def
      put_files_def refuses_stage_def)

lemma sample_names_apart [simp]:
  "''/s/j'' \<noteq> sample_stage" "''/s/j'' \<noteq> sample_snapshot" "''/s/j'' \<noteq> sample_partial" "''/b'' \<noteq> sample_stage"
  "sample_stage \<noteq> sample_snapshot" "sample_stage \<noteq> sample_partial" "sample_snapshot \<noteq> sample_partial"
  "''/b'' \<noteq> sample_snapshot" "''/b'' \<noteq> sample_partial"
  using sample_apart by auto

lemmas sample_names_apart_too [simp] = sample_names_apart [symmetric]

lemma sample_backup:
  assumes "refuses = (\<lambda>a. False) \<or> refuses = refuses_stage"
    and "v ''/s/j'' = Some (Database (sample_file 0))" and "v sample_snapshot = None" "v sample_partial = None"
  shows "\<exists>past rep. create_automatic_snapshot (sample_os refuses) 2 3 ''/s/j'' ''pre-restore'' \<lparr>rd_files = v, rd_past = p\<rparr>
    = (Inr rep, \<lparr>rd_files = v(sample_partial := None, sample_snapshot \<mapsto> Database (sample_file 0)), rd_past = past\<rparr>)
      \<and> bp_backup rep = sample_snapshot"
  using assms
  by (auto simp: create_automatic_snapshot_def sample_steps sample_parents sample_paths sample_joins backup_database_def
      sample_snapshot_parent ensure_distinct_paths_def canonical_or_absolute_path_def absolute_lexical_path_def
      sample_absolute sample_distinct commit_backup_def sample_check sample_report_def sample_version put_files_def
      prune_automatic_snapshots_def pruned_snapshots_def snapshots_by_age_def List.map_filter_def refuses_stage_def)

lemma sample_run:
  assumes "refuses = (\<lambda>a. False) \<or> refuses = refuses_stage"
  shows "fst (restore_database (sample_os refuses) 4 2 3 ''/s/j'' ''/b'' \<lparr>rd_files = sample_volume, rd_past = []\<rparr>) =
      (if refuses = refuses_stage then Inl (maintenance_error ''Cannot remove maintenance file: {}'')
       else Inr \<lparr>re_database = ''/s/j'', re_from = ''/b'', re_safety = Some sample_snapshot, re_version = 6,
              re_integrity = sample_report\<rparr>)
    \<and> rd_files (snd (restore_database (sample_os refuses) 4 2 3 ''/s/j'' ''/b'' \<lparr>rd_files = sample_volume, rd_past = []\<rparr>)) ''/s/j''
      = Some (Database (sample_file 5))"
proof -
  let ?W = "sample_os refuses" and ?s = "\<lparr>rd_files = sample_volume, rd_past = []\<rparr>"
  let ?v = "sample_volume(sample_stage \<mapsto> Database (sample_file 5))"
  let ?w = "?v(sample_partial := None, sample_snapshot \<mapsto> Database (sample_file 0))"
  have v: "sample_volume ''/b'' = Some (Database (sample_file 5))" "sample_volume sample_stage = None"
    "?v ''/s/j'' = Some (Database (sample_file 0))" "?v sample_snapshot = None" "?v sample_partial = None"
    by (simp_all add: sample_volume_def)
  have distinct: "ensure_distinct_paths ?W ''/b'' ''/s/j'' ?s = (Inr (), ?s)"
    using v by (simp add: ensure_distinct_paths_def canonical_or_absolute_path_def sample_steps sample_distinct
        sample_volume_def)
      (use assms in \<open>auto simp: refuses_stage_def\<close>)
  obtain p1 rep where prep: "prepare_restore ?W 4 ''/s/j'' ''/b'' ?s
      = (Inr (sample_stage, rep), \<lparr>rd_files = ?v, rd_past = p1\<rparr>)" "pf_restored_version rep = 6"
    using sample_prepare [OF assms v(1,2)] by blast
  obtain p2 bp where snap: "create_automatic_snapshot ?W 2 3 ''/s/j'' ''pre-restore'' \<lparr>rd_files = ?v, rd_past = p1\<rparr>
      = (Inr bp, \<lparr>rd_files = ?w, rd_past = p2\<rparr>)" "bp_backup bp = sample_snapshot"
    using sample_backup [OF assms v(3,4,5)] by blast
  have made: "create_state_directory ?W ''/s/j'' s = (Inr (), s)" for s
    using assms by (auto simp: create_state_directory_def sample_parents sample_steps refuses_stage_def)
  have present: "?v ''/s/j'' \<noteq> None" using v by simp
  have switch: "fst (switch_database ?W ''/s/j'' sample_stage (Some sample_snapshot) \<lparr>rd_files = ?w, rd_past = p2\<rparr>) =
      (if refuses = refuses_stage then Inl (maintenance_error ''Cannot remove maintenance file: {}'') else Inr sample_report)
    \<and> rd_files (snd (switch_database ?W ''/s/j'' sample_stage (Some sample_snapshot) \<lparr>rd_files = ?w, rd_past = p2\<rparr>)) ''/s/j''
      = Some (Database (sample_file 5))"
    using assms v(3) by (auto simp: switch_database_def sample_steps put_files_def sample_check sample_report_def
        refuses_stage_def fun_eq_iff)
  obtain r t where sw: "switch_database ?W ''/s/j'' sample_stage (Some sample_snapshot) \<lparr>rd_files = ?w, rd_past = p2\<rparr> = (r, t)"
    by fastforce
  have files: "st_files (\<lambda>v. v ''/s/j'' \<noteq> None) \<lparr>rd_files = ?v, rd_past = p1\<rparr> = (Inr True, \<lparr>rd_files = ?v, rd_past = p1\<rparr>)"
    using present by (simp add: st_files_def)
  have "restore_database ?W 4 2 3 ''/s/j'' ''/b'' ?s
      = (case r of Inl e \<Rightarrow> (Inl e, t)
         | Inr integrity \<Rightarrow> (Inr \<lparr>re_database = ''/s/j'', re_from = ''/b'', re_safety = Some sample_snapshot,
             re_version = pf_restored_version rep, re_integrity = integrity\<rparr>, t))"
    unfolding restore_database_def
    by (simp only: st_bind_def distinct prep(1) snap files made sw st_return_def prod.case sum.case if_True)
  with switch show ?thesis by (auto simp: sw prep(2))
qed

section \<open>The restore\<close>

definition sample_restored :: "volume history" where
  "sample_restored = snd (restore_database (sample_os (\<lambda>a. False)) 4 2 3 ''/s/j'' ''/b'' \<lparr>rd_files = sample_volume, rd_past = []\<rparr>)"

lemma restore_never_loses_the_database_witness:
  "states_of sample_restored \<subseteq>
      {c. never_lost (sample_os (\<lambda>a. False)) (sample_volume ''/b'') ''/s/j'' sample_snapshot (Database (sample_file 0)) c}
    \<and> switched (sample_os (\<lambda>a. False)) (sample_volume ''/b'') ''/s/j'' sample_snapshot (Database (sample_file 0))
        (rd_files sample_restored)"
proof -
  let ?W = "sample_os (\<lambda>a. False)"
  let ?rep = "\<lparr>re_database = ''/s/j'', re_from = ''/b'', re_safety = Some sample_snapshot, re_version = 6,
    re_integrity = sample_report\<rparr>"
  have "refuses_stage (RemoveOne sample_stage)" by (simp add: refuses_stage_def)
  then have "(\<lambda>a. False) \<noteq> refuses_stage" by metis
  then have "restore_database ?W 4 2 3 ''/s/j'' ''/b'' \<lparr>rd_files = sample_volume, rd_past = []\<rparr> = (Inr ?rep, sample_restored)"
    using sample_run [of "\<lambda>a. False"] by (simp add: prod_eq_iff sample_restored_def)
  moreover have "sample_volume ''/s/j'' = Some (Database (sample_file 0))" by (simp add: sample_volume_def)
  ultimately show ?thesis
    using restore_never_loses_the_database [of ?W 4 2 3 "''/s/j''" "''/b''" sample_volume "Inr ?rep" sample_restored
        "Database (sample_file 0)" sample_stage "''/s/backups''" sample_snapshot sample_partial]
      sample_restore_paths by blast
qed

text \<open>An error is no sign that the database is the old one: the copy that could not be removed is too late.\<close>

theorem failed_restore_may_have_switched:
  "fst (restore_database (sample_os refuses_stage) 4 2 3 ''/s/j'' ''/b'' \<lparr>rd_files = sample_volume, rd_past = []\<rparr>)
      = Inl (maintenance_error ''Cannot remove maintenance file: {}'')
    \<and> rd_files (snd (restore_database (sample_os refuses_stage) 4 2 3 ''/s/j'' ''/b''
        \<lparr>rd_files = sample_volume, rd_past = []\<rparr>)) ''/s/j'' = Some (Database (sample_file 5))"
  using sample_run [of refuses_stage] by simp

end
