(* ===== verification/Spec2Isabelle.thy ===== *)
theory Spec2Isabelle
  imports Scheduler Job_Store_Evidence Engine_Sdk Queue_Window_Run Routes Preset_Desktop Lane_Demo
    Mbox_Split Document_Safety Archive_Safety
    Conversion_Safety Folder_Safety Pdf_Demo Database_Demo
begin

text \<open>
  Anole is a local-first file conversion engine. A request names an input and a target format; a
  planner turns what an inspector found into an immutable plan with a hash; a durable job store keeps
  the plan, the state of its job, the log of its events and the reservation of its output; a queue
  window admits jobs under resource limits; the runner executes a plan into a staged path, inspects and
  validates the result and moves it to the output; a report is stored before the job ends.

  \<^bold>\<open>Parts, theories and sources\<close> (paths below \<open>src/\<close>; \<open>core\<close> is \<open>crates/core/src\<close>).

  \<^item> Shared: \<open>Anole_Prelude\<close> (results as sums, saturating integers, tables as row lists, a locale of
    state machines), \<open>Rust_Strings\<close>, \<open>Rust_Text\<close>, \<open>Rust_Paths\<close>, \<open>Path_Text\<close> and \<open>Rust_Fs\<close> (what the code
    uses of \<open>str\<close>, \<open>std::path\<close> on POSIX and \<open>std::fs\<close>), \<open>Crash_Disk\<close> (a disk with every state a crash may
    leave, and a program logic for it).
  \<^item> Data: \<open>Domain\<close> (\<open>core/domain.rs\<close>, \<open>core/error.rs\<close>: job states and their transition table, probes,
    requests, plans, reports, errors).
  \<^item> Engines: \<open>Engine_Sdk\<close> (\<open>crates/engine-sdk/src/lib.rs\<close>: manifests, keyrings, signatures, trust).
  \<^item> Routes: \<open>Capabilities\<close>, \<open>Routes\<close> (\<open>core/capabilities.rs\<close>), \<open>Chain\<close>, \<open>Chain_Run\<close> (\<open>core/chain.rs\<close>:
    search and execution of multi-step conversions).
  \<^item> Presets: \<open>Presets\<close> (\<open>core/preset.rs\<close>), \<open>Preset_Desktop\<close> (the commands on presets and Explorer verbs
    of \<open>apps/desktop/src-tauri/src\<close>).
  \<^item> Job store: \<open>Job_Store_Tables\<close>, \<open>Job_Store_Ops\<close>, \<open>Job_Store_Query\<close>, \<open>Job_Store_Bulk\<close>
    (\<open>core/job_store.rs\<close>; the database is a record of tables, a transaction a function from a database to
    a result with a database, an error keeps the old one), \<open>Job_Store_Inv\<close>, \<open>Job_Store_Safety\<close>,
    \<open>Job_Store_Evidence\<close>, \<open>Job_Store_Demo\<close> (invariant, its preservation, concrete databases) and
    \<open>Job_Store_Machine\<close> (one command per writing operation; runs from the empty database).
  \<^item> Maintenance: \<open>Maintenance\<close>, \<open>Maintenance_Safety\<close>, \<open>Maintenance_Run\<close> (\<open>core/maintenance.rs\<close>: the integrity
    check, on every reachable database), \<open>Migration\<close> (the migrations of \<open>SqliteJobStore::open\<close>) and
    \<open>Database_Files\<close>, \<open>Database_Safety\<close>, \<open>Database_Demo\<close> (backup, snapshots, restore, compaction on a map from
    paths to databases with its past).
  \<^item> Scheduling: \<open>Scheduler\<close> (\<open>core/scheduler.rs\<close>), \<open>Queue_Window\<close>, \<open>Queue_Window_Safety\<close>,
    \<open>Queue_Window_Run\<close> (\<open>core/application/job_execution.rs\<close>: the window as a state machine whose events are
    the choices of the environment).
  \<^item> Media: \<open>Planner\<close> (\<open>core/planner.rs\<close>), \<open>Validation\<close>, \<open>Media_Acceptance\<close> (\<open>core/validation.rs\<close>),
    \<open>Media_Plans\<close> (planner, runner and validator agree).
  \<^item> Runner: \<open>Ffmpeg_Args\<close>, \<open>Lanes\<close>, \<open>Media_Run\<close>, \<open>Adapter_Run\<close> (\<open>core/runner.rs\<close>), \<open>Lane_Safety\<close>,
    \<open>Lane_Commit\<close>, \<open>Lane_Demo\<close>.
  \<^item> Formats: \<open>Mbox\<close>, \<open>Mbox_Export\<close>, \<open>Mbox_Split\<close> (\<open>core/mbox.rs\<close>), \<open>Eml\<close>, \<open>Eml_Export\<close> (\<open>core/eml.rs\<close>),
    \<open>Document\<close>, \<open>Document_Text\<close>, \<open>Document_Safety\<close> (\<open>core/document.rs\<close>), \<open>Archive\<close>, \<open>Archive_Safety\<close>
    (\<open>core/archive.rs\<close>), \<open>Pdf\<close>, \<open>Pdf_Plans\<close>, \<open>Pdf_Output\<close>, \<open>Pdf_Lanes\<close>, \<open>Pdf_Ranges\<close>, \<open>Pdf_Safety\<close>,
    \<open>Pdf_Lane_Safety\<close>, \<open>Pdf_Demo\<close> (\<open>core/pdf.rs\<close> and its lanes in \<open>core/runner.rs\<close>).
  \<^item> Application services: \<open>Reports\<close>, \<open>Report_Safety\<close> (\<open>core/application/report_service.rs\<close>), \<open>Conversion\<close>,
    \<open>Conversion_Safety\<close> (\<open>core/application/conversion_service.rs\<close>), \<open>Folder_Batch\<close>, \<open>Folder_Safety\<close>
    (\<open>core/application/folder_batch.rs\<close>).

  \<^bold>\<open>What the lemmas show.\<close> The store: every command keeps the invariant, so the log of a job replays to
  its row, unfinished jobs own distinct outputs, a transition does what its table says and nothing else,
  a job is claimed once, a bulk action accounts for every member; an opening that succeeds gives the tables
  and the invariant of the current schema; the integrity check reports of a reachable database exactly the
  evidence of failed jobs that were queued again and the jobs whose plan was handed over with another hash
  than its contents (a queued chain is one); a restore never loses the database. The window: limits are
  kept, selected jobs are pending, running or counted until it is given up, a window ends and gives back
  what it holds. Plans: what a planner writes the runner reads back, but for encoder settings out of range,
  which only the runner checks, and the validator asks for; page ranges reach qpdf with their meaning; a
  password is in the process's store and in no plan of its planners. Runs: a success moved an accepted
  output to a free path, a failure leaves no partial, at most four attempts are made for a target size.
  Formats: mails with a declared length come back, manifests tell inventories apart, repacking keeps them
  on five routes and loses entries of solid blocks from 7z to ZIP, an updated PDF keeps its bytes, a
  rendered directory has every page at the resolution that was asked. Services: a report survives a crash
  at any step, a terminal state has its report, a failed conversion leaves no active job, a folder preview
  lists each file once with an output of its own, and its disk budget suffices. Interfaces are locales
  (state machines, exclusive ownership, the scheduler of a window and others), each interpreted where its
  provider is.

  \<^bold>\<open>Parameters.\<close> What a part takes from outside is a record of functions: the clock, identifiers, path
  identities and JSON texts of the store (\<open>store_env\<close>); the digest of a plan; Unicode tables beyond
  ASCII; the signature scheme; engines and their processes; what the operating system lets through and
  what a torn write leaves (\<open>report_os\<close> and the worlds of the lanes); the events of the XML and mail
  parsers, the entries that the archive crates list, a 7z in blocks, and what they read in a container they
  wrote (\<open>wr_reads\<close>); SQLite's own checks. Hypotheses on them state
  documented behaviour, and each property with hypotheses has a witness on concrete functions.

  \<^bold>\<open>Numbers and bounds.\<close> Counters of 64 bits saturate as in the code; a value that SQLite cannot bind is an
  error. Floating-point numbers are exact rationals or parameters. A panic is \<open>None\<close>. Loops end by
  structural measures: the text that is left, the entries not yet listed (\<open>folder_weight\<close>), the four
  rungs of the CRF ladder, the chain length of the search; no theorem rests on fuel. The preparation of a
  queued job is one step of the window. Paths are POSIX paths; Windows-only branches are left out.

  \<^bold>\<open>Not modelled.\<close> The command line, the local server, the desktop shell but for presets and verbs, and
  the web front ends wrap the operations above. The Office, browser, OCR, preview, Outlook and
  structured-data adapters and the engine registry start other programs or call crates that hold their
  logic. Portable bundles of the application state (\<open>core/application_state.rs\<close>) are left for their
  size; engine packs unpack archives whose manifests are covered by \<open>Engine_Sdk\<close>. Media inspection reads the JSON of \<open>ffprobe\<close>.
\<close>

end
